(* ===== verification/Prelude.thy ===== *)
theory Prelude
  imports Main "HOL-Library.Word"
begin

text \<open>
  Shared vocabulary of the development: names for the machine integers of the C sources,
  the collections of rewrite rules the component proofs draw on, and generic facts on
  lists and words.  Nothing in this theory models a particular source file.
\<close>

unbundle bit_operations_syntax

section \<open>Machine integers\<close>

text \<open>
  \<open>uint8_t\<close> \dots \<open>uint64_t\<close> are words.  A C \<open>int\<close> is the same bit pattern as the unsigned
  word of its width, read with \<^const>\<open>sint\<close>; the usual arithmetic conversions of the
  sources (int + uint32_t) are then plain word operations.
\<close>

type_synonym u8 = "8 word"
type_synonym u16 = "16 word"
type_synonym u32 = "32 word"
type_synonym u64 = "64 word"

named_theorems cover_simps \<open>how many blocks own a queue number\<close>
named_theorems bus_simps \<open>effect of register accesses on the bus state\<close>
named_theorems mbox_simps \<open>reading back the fields of a mailbox message\<close>

section \<open>Lists\<close>

text \<open>The sources search a list for its first matching node and then change that node in
  place.\<close>

fun map_first :: "('a \<Rightarrow> bool) \<Rightarrow> ('a \<Rightarrow> 'a) \<Rightarrow> 'a list \<Rightarrow> 'a list" where
  "map_first P f [] = []"
| "map_first P f (x # xs) = (if P x then f x # xs else x # map_first P f xs)"

fun remove_first :: "('a \<Rightarrow> bool) \<Rightarrow> 'a list \<Rightarrow> 'a list" where
  "remove_first P [] = []"
| "remove_first P (x # xs) = (if P x then xs else x # remove_first P xs)"

lemma length_map_first [simp]: "length (map_first P f xs) = length xs"
  by (induction xs) auto

lemma find_map_first:
  "find P xs = Some x \<Longrightarrow> P (f x) \<Longrightarrow> find P (map_first P f xs) = Some (f x)"
  by (induction xs) (auto split: if_splits)

lemma find_map_first_other:
  assumes "\<And>x. P x \<Longrightarrow> Q (f x) = Q x" and "\<And>x. P x \<Longrightarrow> \<not> Q x"
  shows "find Q (map_first P f xs) = find Q xs"
  using assms by (induction xs) auto

lemma set_map_first: "set (map_first P f xs) \<subseteq> set xs \<union> f ` {x \<in> set xs. P x}"
  by (induction xs) auto

lemma set_remove_first: "set (remove_first P xs) \<subseteq> set xs"
  by (induction xs) auto

lemma map_map_first:
  "(\<And>x. P x \<Longrightarrow> g (f x) = g x) \<Longrightarrow> map g (map_first P f xs) = map g xs"
  by (induction xs) auto

lemma distinct_map_remove_first: "distinct (map g xs) \<Longrightarrow> distinct (map g (remove_first P xs))"
  using set_remove_first [of P] by (induction xs) fastforce+

lemma find_SomeD: "find P xs = Some x \<Longrightarrow> P x \<and> x \<in> set xs"
  by (induction xs) (auto split: if_splits)

lemma find_distinct_key:
  "distinct (map k xs) \<Longrightarrow> x \<in> set xs \<Longrightarrow> find (\<lambda>y. k y = k x) xs = Some x"
  by (induction xs) (auto simp: rev_image_eqI)

lemma find_split:
  assumes "find P xs = Some x"
  obtains as bs where "xs = as @ x # bs" and "P x" and "\<forall>a \<in> set as. \<not> P a"
proof -
  from assms have "\<exists>as bs. xs = as @ x # bs \<and> P x \<and> (\<forall>a \<in> set as. \<not> P a)"
  proof (induction xs)
    case (Cons y ys)
    show ?case
    proof (cases "P y")
      case True
      with Cons.prems have "y # ys = [] @ x # ys \<and> P x \<and> (\<forall>a \<in> set []. \<not> P a)" by simp
      then show ?thesis by blast
    next
      case False
      with Cons obtain as bs where "ys = as @ x # bs" "P x" "\<forall>a \<in> set as. \<not> P a" by auto
      with False have "y # ys = (y # as) @ x # bs \<and> P x \<and> (\<forall>a \<in> set (y # as). \<not> P a)" by simp
      then show ?thesis by blast
    qed
  qed simp
  then show ?thesis using that by blast
qed

lemma map_first_split:
  "P x \<Longrightarrow> \<forall>a \<in> set as. \<not> P a \<Longrightarrow> map_first P f (as @ x # bs) = as @ f x # bs"
  by (induction as) auto

lemma remove_first_split:
  "P x \<Longrightarrow> \<forall>a \<in> set as. \<not> P a \<Longrightarrow> remove_first P (as @ x # bs) = as @ bs"
  by (induction as) auto

section \<open>Words read as integers\<close>

lemma sint_small: "uint (x :: u32) < 2 ^ 31 \<Longrightarrow> sint x = uint x"
proof -
  assume "uint x < 2 ^ 31"
  then have "signed_take_bit 31 (uint x) = uint x"
    by (intro signed_take_bit_int_eq_self) (auto intro: order_trans [of _ 0])
  then show ?thesis by (simp add: sint_uint)
qed

lemma sint_small64: "uint (x :: u64) < 2 ^ 63 \<Longrightarrow> sint x = uint x"
proof -
  assume "uint x < 2 ^ 63"
  then have "signed_take_bit 63 (uint x) = uint x"
    by (intro signed_take_bit_int_eq_self) (auto intro: order_trans [of _ 0])
  then show ?thesis by (simp add: sint_uint)
qed

lemma sint_nonneg: "0 \<le> sint (x :: u32) \<Longrightarrow> uint x < 2 ^ 31"
proof (rule ccontr)
  assume a: "0 \<le> sint x" and "\<not> uint x < 2 ^ 31"
  then have b: "2 ^ 31 \<le> uint x" by simp
  have s: "sint x < 2 ^ 31" using sint_lt [of x] by simp
  have "uint x = sint x mod 2 ^ 32"
    using uint_sint [of x] by (simp add: take_bit_eq_mod)
  with a s have "uint x = sint x" by simp
  with b s show False by simp
qed

lemma uint_add_small: "uint (x :: u32) + uint y < 2 ^ 32 \<Longrightarrow> uint (x + y) = uint x + uint y"
  using uint_add_lem [of x y] by simp

lemma uint_sub_small: "uint (y :: 'a::len word) \<le> uint x \<Longrightarrow> uint (x - y) = uint x - uint y"
  using uint_sub_lem [of y x] by simp

lemma uint_eq_0_iff: "uint (x :: 'a::len word) = 0 \<longleftrightarrow> x = 0"
  by (metis uint_0_eq word_uint_eqI)

lemma uint_pos_iff: "0 < uint (x :: 'a::len word) \<longleftrightarrow> x \<noteq> 0"
  using uint_eq_0_iff [of x] uint_nonnegative [of x] by linarith

text \<open>The masks of the sources as bit masks, so that bitwise goals can be decided bit by bit.\<close>

named_theorems mask_consts

lemma mask_consts_32 [mask_consts]:
  "(0x0000ffff :: u32) = mask 16" "(0xffff0000 :: u32) = push_bit 16 (mask 16)"
  "(0x000000ff :: u32) = mask 8" "(0x0000ff00 :: u32) = push_bit 8 (mask 8)"
  "(0x00ffffff :: u32) = mask 24" "(0xff000000 :: u32) = push_bit 24 (mask 8)"
  "(0xffffffff :: u32) = mask 32"
  by (simp_all add: mask_eq_exp_minus_1 push_bit_eq_mult)

lemma mask_consts_64 [mask_consts]:
  "(0x00000000ffffffff :: u64) = mask 32" "(0xffffffff00000000 :: u64) = push_bit 32 (mask 32)"
  "(0xfff :: u64) = mask 12" "(0xfffffffffffff000 :: u64) = NOT (mask 12)"
  "(0x0000001FFFFFFFFF :: u64) = mask 37" "(0x000000ffffffffff :: u64) = mask 40"
  "(0xfff0000000000000 :: u64) = push_bit 52 (mask 12)"
  by (simp_all add: mask_eq_exp_minus_1 push_bit_eq_mult not_eq_complement)

section \<open>Ranges\<close>

lemma unat_ucast_up: "unat (ucast (x :: u32) :: u64) = unat x"
proof -
  have "unat x < 2 ^ 32" using unsigned_less [where w = x and 'a = nat] by simp
  then have "unat x < 2 ^ 64" by simp
  then show ?thesis by (simp add: unsigned_ucast_eq take_bit_nat_eq_self)
qed

lemma upt_split_map: "a \<le> n \<Longrightarrow> map f [0..<a] @ map (\<lambda>j. f (a + j)) [0..<n - a] = map f [0..<n]"
proof -
  assume "a \<le> n"
  then have "[0..<n] = [0..<a] @ [a..<n]" using upt_add_eq_append [of 0 a "n - a"] by simp
  moreover have "[a..<n] = map (\<lambda>j. a + j) [0..<n - a]"
    using \<open>a \<le> n\<close> by (intro nth_equalityI) auto
  ultimately show ?thesis by (simp add: comp_def)
qed

end
