(* ===== verification/Qdma_Resource.thy ===== *)
theory Qdma_Resource
  imports Prelude
begin

text \<open>
  The queue resource manager of \<open>qdma_resource_mgmt.c\<close>: one master resource per DMA device
  owns a range of hardware queue numbers, hands contiguous blocks of it to PCI functions
  (\<open>qdma_dev_entry\<close>), and keeps the rest in a sorted free list.

  The circular lists are sequences here (\<open>Qdma_List\<close> shows that the pointer operations
  implement the sequence operations); a pointer into the free list is an index.
  \<open>int qbase\<close> and \<open>uint32_t total_q\<close> are both 32-bit words: comparisons of two \<open>int\<close>s are
  signed (\<open>\<le>s\<close>), and an \<open>int\<close> that meets a \<open>uint32_t\<close> is converted to unsigned, as in C.
  \<open>mem n\<close> says whether the \<open>n\<close>-th call of \<open>qdma_calloc\<close> succeeds; \<open>n\<close> is threaded through
  every operation that allocates.  The lock calls bracket the bodies and have no value.
\<close>

section \<open>Data\<close>

record qdma_resource_entry =
  re_qbase :: u32
  re_total_q :: u32

record qdma_dev_entry =
  de_func_id :: u16
  active_h2c_qcnt :: u32
  active_c2h_qcnt :: u32
  active_cmpt_qcnt :: u32
  de_entry :: qdma_resource_entry

record qdma_resource_master =
  dma_device_index :: u32
  pci_bus_start :: u32
  pci_bus_end :: u32
  rm_total_q :: u32
  rm_qbase :: u32
  dev_list :: "qdma_dev_entry list"
  free_list :: "qdma_resource_entry list"
  rm_active_qcnt :: u32

record rm_state =
  master_resource_list :: "qdma_resource_master list"
  rm_index :: u32
  rm_allocs :: nat

datatype qdma_dev_q_type = QDMA_DEV_Q_TYPE_H2C | QDMA_DEV_Q_TYPE_C2H | QDMA_DEV_Q_TYPE_CMPT
  | QDMA_DEV_Q_TYPE_MAX

datatype qdma_dev_q_range = QDMA_DEV_Q_IN_RANGE | QDMA_DEV_Q_OUT_OF_RANGE

text \<open>The error codes of \<open>qdma_access_errors.h\<close>; a function of the sources returns the
  negated number, so its result is an \<open>int\<close> here as there.\<close>

datatype qdma_access_error_codes =
    QDMA_SUCCESS | QDMA_ERR_INV_PARAM | QDMA_ERR_NO_MEM | QDMA_ERR_HWACC_BUSY_TIMEOUT
  | QDMA_ERR_HWACC_INV_CONFIG_BAR | QDMA_ERR_HWACC_NO_PEND_LEGCY_INTR
  | QDMA_ERR_HWACC_BAR_NOT_FOUND | QDMA_ERR_HWACC_FEATURE_NOT_SUPPORTED
  | QDMA_ERR_RM_RES_EXISTS | QDMA_ERR_RM_RES_NOT_EXISTS | QDMA_ERR_RM_DEV_EXISTS
  | QDMA_ERR_RM_DEV_NOT_EXISTS | QDMA_ERR_RM_NO_QUEUES_LEFT | QDMA_ERR_RM_QMAX_CONF_REJECTED
  | QDMA_ERR_MBOX_FMAP_WR_FAILED | QDMA_ERR_MBOX_NUM_QUEUES | QDMA_ERR_MBOX_INV_QID
  | QDMA_ERR_MBOX_INV_RINGSZ | QDMA_ERR_MBOX_INV_BUFSZ | QDMA_ERR_MBOX_INV_CNTR_TH
  | QDMA_ERR_MBOX_INV_TMR_TH | QDMA_ERR_MBOX_INV_MSG | QDMA_ERR_MBOX_SEND_BUSY
  | QDMA_ERR_MBOX_NO_MSG_IN | QDMA_ERR_MBOX_REG_READ_FAILED | QDMA_ERR_MBOX_ALL_ZERO_MSG

fun err_code :: "qdma_access_error_codes \<Rightarrow> int" where
  "err_code QDMA_SUCCESS = 0"
| "err_code QDMA_ERR_INV_PARAM = 1"
| "err_code QDMA_ERR_NO_MEM = 2"
| "err_code QDMA_ERR_HWACC_BUSY_TIMEOUT = 3"
| "err_code QDMA_ERR_HWACC_INV_CONFIG_BAR = 4"
| "err_code QDMA_ERR_HWACC_NO_PEND_LEGCY_INTR = 5"
| "err_code QDMA_ERR_HWACC_BAR_NOT_FOUND = 6"
| "err_code QDMA_ERR_HWACC_FEATURE_NOT_SUPPORTED = 7"
| "err_code QDMA_ERR_RM_RES_EXISTS = 8"
| "err_code QDMA_ERR_RM_RES_NOT_EXISTS = 9"
| "err_code QDMA_ERR_RM_DEV_EXISTS = 10"
| "err_code QDMA_ERR_RM_DEV_NOT_EXISTS = 11"
| "err_code QDMA_ERR_RM_NO_QUEUES_LEFT = 12"
| "err_code QDMA_ERR_RM_QMAX_CONF_REJECTED = 13"
| "err_code QDMA_ERR_MBOX_FMAP_WR_FAILED = 14"
| "err_code QDMA_ERR_MBOX_NUM_QUEUES = 15"
| "err_code QDMA_ERR_MBOX_INV_QID = 16"
| "err_code QDMA_ERR_MBOX_INV_RINGSZ = 17"
| "err_code QDMA_ERR_MBOX_INV_BUFSZ = 18"
| "err_code QDMA_ERR_MBOX_INV_CNTR_TH = 19"
| "err_code QDMA_ERR_MBOX_INV_TMR_TH = 20"
| "err_code QDMA_ERR_MBOX_INV_MSG = 21"
| "err_code QDMA_ERR_MBOX_SEND_BUSY = 22"
| "err_code QDMA_ERR_MBOX_NO_MSG_IN = 23"
| "err_code QDMA_ERR_MBOX_REG_READ_FAILED = 24"
| "err_code QDMA_ERR_MBOX_ALL_ZERO_MSG = 25"

section \<open>Lookups\<close>

definition qdma_find_master_resource_entry ::
    "u32 \<Rightarrow> u32 \<Rightarrow> rm_state \<Rightarrow> qdma_resource_master option" where
  "qdma_find_master_resource_entry bus_start bus_end s =
     find (\<lambda>m. pci_bus_start m = bus_start \<and> pci_bus_end m = bus_end) (master_resource_list s)"

definition qdma_get_master_resource_entry :: "u32 \<Rightarrow> rm_state \<Rightarrow> qdma_resource_master option" where
  "qdma_get_master_resource_entry idx s =
     find (\<lambda>m. dma_device_index m = idx) (master_resource_list s)"

definition qdma_get_dev_entry :: "u32 \<Rightarrow> u16 \<Rightarrow> rm_state \<Rightarrow> qdma_dev_entry option" where
  "qdma_get_dev_entry idx func_id s =
     (case qdma_get_master_resource_entry idx s of
        None \<Rightarrow> None
      | Some m \<Rightarrow> find (\<lambda>d. de_func_id d = func_id) (dev_list m))"

text \<open>Writing through the pointers the lookups return: the master found for \<open>idx\<close> is changed
  in place, or the entry of \<open>func_id\<close> in its device list.\<close>

definition set_master :: "u32 \<Rightarrow> (qdma_resource_master \<Rightarrow> qdma_resource_master) \<Rightarrow> rm_state \<Rightarrow> rm_state" where
  "set_master idx f s =
     s\<lparr>master_resource_list := map_first (\<lambda>m. dma_device_index m = idx) f (master_resource_list s)\<rparr>"

definition set_dev :: "u16 \<Rightarrow> (qdma_dev_entry \<Rightarrow> qdma_dev_entry) \<Rightarrow> qdma_resource_master \<Rightarrow> qdma_resource_master" where
  "set_dev func_id f m = m\<lparr>dev_list := map_first (\<lambda>d. de_func_id d = func_id) f (dev_list m)\<rparr>"

section \<open>The free list\<close>

definition qdma_free_entry_create ::
    "(nat \<Rightarrow> bool) \<Rightarrow> nat \<Rightarrow> u32 \<Rightarrow> u32 \<Rightarrow> qdma_resource_entry option" where
  "qdma_free_entry_create mem n q_base total_q =
     (if mem n then Some \<lparr>re_qbase = q_base, re_total_q = total_q\<rparr> else None)"

text \<open>The insertion loop of \<open>qdma_submit_to_free_list\<close>: before the first node with a larger
  base, or at the tail when the last node has been reached.\<close>

fun free_insert :: "qdma_resource_entry \<Rightarrow> qdma_resource_entry list \<Rightarrow> qdma_resource_entry list" where
  "free_insert e [] = [e]"
| "free_insert e (x # xs) =
     (if re_qbase e <s re_qbase x then e # x # xs
      else if xs = [] then [x, e]
      else x # free_insert e xs)"

text \<open>The de-fragmentation loop, with the node being stretched as its first argument.\<close>

fun stretch :: "qdma_resource_entry \<Rightarrow> qdma_resource_entry list \<Rightarrow> qdma_resource_entry list" where
  "stretch s [] = [s]"
| "stretch s (x # xs) =
     (if re_qbase s + re_total_q s = re_qbase x
      then stretch (s\<lparr>re_total_q := re_total_q s + re_total_q x\<rparr>) xs
      else s # stretch x xs)"

fun defragment :: "qdma_resource_entry list \<Rightarrow> qdma_resource_entry list" where
  "defragment [] = []"
| "defragment (x # xs) = stretch x xs"

definition qdma_submit_to_free_list ::
    "(nat \<Rightarrow> bool) \<Rightarrow> nat \<Rightarrow> qdma_resource_entry \<Rightarrow> qdma_resource_entry list
     \<Rightarrow> qdma_resource_entry \<times> qdma_resource_entry list \<times> nat" where
  "qdma_submit_to_free_list mem n e fl =
     (if re_total_q e = 0 then (e, fl, n)
      else case qdma_free_entry_create mem n (re_qbase e) (re_total_q e) of
        None \<Rightarrow> (e, fl, Suc n)
      | Some new_node \<Rightarrow>
          (\<lparr>re_qbase = -1, re_total_q = 0\<rparr>, defragment (free_insert new_node fl), Suc n))"

section \<open>Choosing and splitting a free block\<close>

text \<open>The loop that tries to honour a requested base: the first node that holds the whole
  range.  The upper ends are compared as \<open>uint32_t\<close>.\<close>

fun find_qbase_node :: "u32 \<Rightarrow> u32 \<Rightarrow> nat \<Rightarrow> qdma_resource_entry list \<Rightarrow> nat option" where
  "find_qbase_node qmax qbase i [] = None"
| "find_qbase_node qmax qbase i (x # xs) =
     (if re_qbase x \<le>s qbase \<and> qbase + qmax \<le> re_qbase x + re_total_q x then Some i
      else find_qbase_node qmax qbase (Suc i) xs)"

text \<open>The best-fit loop: the smallest node that is large enough, the later one among equals.\<close>

fun find_best_node :: "u32 \<Rightarrow> nat \<Rightarrow> (nat \<times> qdma_resource_entry) option
     \<Rightarrow> qdma_resource_entry list \<Rightarrow> (nat \<times> qdma_resource_entry) option" where
  "find_best_node qmax i best [] = best"
| "find_best_node qmax i best (x # xs) =
     (if qmax \<le> re_total_q x \<and>
         (case best of None \<Rightarrow> True | Some (_, b) \<Rightarrow> re_total_q x \<le> re_total_q b)
      then find_best_node qmax (Suc i) (Some (i, x)) xs
      else find_best_node qmax (Suc i) best xs)"

text \<open>\<open>fragment_free_list\<close>: cut the requested range out of node \<open>i\<close>.  The result is the
  index of the node that now is exactly the requested range, or \<open>None\<close> where the C code
  returns \<open>NULL\<close>; changes made to the list before a failed allocation stay.\<close>

definition fragment_free_list ::
    "(nat \<Rightarrow> bool) \<Rightarrow> nat \<Rightarrow> u32 \<Rightarrow> u32 \<Rightarrow> nat \<Rightarrow> qdma_resource_entry list
     \<Rightarrow> nat option \<times> qdma_resource_entry list \<times> nat" where
  "fragment_free_list mem n qmax qbase i fl =
     (let b = fl ! i; pre = take i fl; post = drop (Suc i) fl in
      if qbase = re_qbase b \<and> qmax = re_total_q b then (Some i, fl, n)
      else if qbase = re_qbase b then
        (let lqbase = re_qbase b + qmax; lqmax = re_total_q b - qmax in
         case qdma_free_entry_create mem n lqbase lqmax of
           None \<Rightarrow> (None, fl, Suc n)
         | Some new_entry \<Rightarrow>
             (Some i, pre @ b\<lparr>re_total_q := re_total_q b - lqmax\<rparr> # new_entry # post, Suc n))
      else if re_qbase b <s qbase \<and> qbase + qmax = re_qbase b + re_total_q b then
        (let lqbase = re_qbase b; lqmax = qbase - re_qbase b in
         case qdma_free_entry_create mem n lqbase lqmax of
           None \<Rightarrow> (None, fl, Suc n)
         | Some new_entry \<Rightarrow>
             (Some (Suc i), pre @ new_entry # b\<lparr>re_total_q := qmax, re_qbase := qbase\<rparr> # post, Suc n))
      else
        (let lqbase = re_qbase b; lqmax = qbase - re_qbase b in
         case qdma_free_entry_create mem n lqbase lqmax of
           None \<Rightarrow> (None, fl, Suc n)
         | Some new_entry \<Rightarrow>
             (let b1 = b\<lparr>re_qbase := qbase, re_total_q := re_total_q b - lqmax\<rparr>;
                  lqbase1 = re_qbase b1 + qmax; lqmax1 = re_total_q b1 - qmax in
              case qdma_free_entry_create mem (Suc n) lqbase1 lqmax1 of
                None \<Rightarrow> (None, pre @ new_entry # b1 # post, Suc (Suc n))
              | Some new_entry1 \<Rightarrow>
                  (Some (Suc i), pre @ new_entry # b1\<lparr>re_total_q := qmax\<rparr> # new_entry1 # post,
                   Suc (Suc n)))))"

definition qdma_get_resource_node ::
    "(nat \<Rightarrow> bool) \<Rightarrow> nat \<Rightarrow> u32 \<Rightarrow> u32 \<Rightarrow> qdma_resource_entry list
     \<Rightarrow> nat option \<times> qdma_resource_entry list \<times> nat" where
  "qdma_get_resource_node mem n qmax qbase fl =
     (case (if 0 \<le>s qbase then find_qbase_node qmax qbase 0 fl else None) of
        Some i \<Rightarrow> fragment_free_list mem n qmax qbase i fl
      | None \<Rightarrow>
          (case find_best_node qmax 0 None fl of
             None \<Rightarrow> (None, fl, n)
           | Some (i, b) \<Rightarrow> fragment_free_list mem n qmax (re_qbase b) i fl))"

definition list_del_at :: "nat \<Rightarrow> 'a list \<Rightarrow> 'a list" where
  "list_del_at i xs = take i xs @ drop (Suc i) xs"

definition qdma_request_q_resource ::
    "(nat \<Rightarrow> bool) \<Rightarrow> nat \<Rightarrow> qdma_resource_entry \<Rightarrow> u32 \<Rightarrow> u32 \<Rightarrow> qdma_resource_entry list
     \<Rightarrow> int \<times> qdma_resource_entry \<times> qdma_resource_entry list \<times> nat" where
  "qdma_request_q_resource mem n e new_qmax new_qbase fl =
     (let qmax = re_total_q e; qbase = re_qbase e;
          (e1, fl1, n1) = qdma_submit_to_free_list mem n e fl
      in if new_qmax = 0 then (0, e1, fl1, n1)
         else case qdma_get_resource_node mem n1 new_qmax new_qbase fl1 of
           (Some i, fl2, n2) \<Rightarrow> (err_code QDMA_SUCCESS, fl2 ! i, list_del_at i fl2, n2)
         | (None, fl2, n2) \<Rightarrow>
             (case qdma_get_resource_node mem n2 qmax qbase fl2 of
                (Some i, fl3, n3) \<Rightarrow>
                  (- err_code QDMA_ERR_RM_NO_QUEUES_LEFT, fl3 ! i, list_del_at i fl3, n3)
              | (None, fl3, n3) \<Rightarrow>
                  (- err_code QDMA_ERR_RM_NO_QUEUES_LEFT, \<lparr>re_qbase = -1, re_total_q = 0\<rparr>, fl3, n3)))"

section \<open>The exported operations\<close>

text \<open>Out-parameters are returned beside the \<open>int\<close> result, as the value they have after the
  call (their old value where the code does not write them).\<close>

definition qdma_master_resource_create ::
    "(nat \<Rightarrow> bool) \<Rightarrow> u32 \<Rightarrow> u32 \<Rightarrow> u32 \<Rightarrow> u32 \<Rightarrow> rm_state \<Rightarrow> int \<times> u32 \<times> rm_state" where
  "qdma_master_resource_create mem bus_start bus_end q_base total_q s =
     (case qdma_find_master_resource_entry bus_start bus_end s of
        Some m \<Rightarrow> (- err_code QDMA_ERR_RM_RES_EXISTS, dma_device_index m, s)
      | None \<Rightarrow>
          (let n = rm_allocs s; idx = rm_index s in
           if \<not> mem n then (- err_code QDMA_ERR_NO_MEM, idx, s\<lparr>rm_allocs := Suc n\<rparr>)
           else if \<not> mem (Suc n) then (- err_code QDMA_ERR_NO_MEM, idx, s\<lparr>rm_allocs := Suc (Suc n)\<rparr>)
           else (err_code QDMA_SUCCESS, idx,
             s\<lparr>master_resource_list := master_resource_list s @
                 [\<lparr>dma_device_index = idx, pci_bus_start = bus_start, pci_bus_end = bus_end,
                   rm_total_q = total_q, rm_qbase = q_base, dev_list = [],
                   free_list = [\<lparr>re_qbase = q_base, re_total_q = total_q\<rparr>],
                   rm_active_qcnt = 0\<rparr>],
               rm_index := idx + 1, rm_allocs := Suc (Suc n)\<rparr>)))"

definition qdma_master_resource_destroy :: "u32 \<Rightarrow> rm_state \<Rightarrow> rm_state" where
  "qdma_master_resource_destroy idx s =
     (case qdma_get_master_resource_entry idx s of
        None \<Rightarrow> s
      | Some m \<Rightarrow>
          if dev_list m \<noteq> [] then s
          else s\<lparr>master_resource_list :=
                  remove_first (\<lambda>m. dma_device_index m = idx) (master_resource_list s)\<rparr>)"

definition qdma_dev_entry_create ::
    "(nat \<Rightarrow> bool) \<Rightarrow> u32 \<Rightarrow> u16 \<Rightarrow> rm_state \<Rightarrow> int \<times> rm_state" where
  "qdma_dev_entry_create mem idx func_id s =
     (case qdma_get_master_resource_entry idx s of
        None \<Rightarrow> (- err_code QDMA_ERR_RM_RES_NOT_EXISTS, s)
      | Some m \<Rightarrow>
          (case qdma_get_dev_entry idx func_id s of
             Some d \<Rightarrow> (- err_code QDMA_ERR_RM_DEV_EXISTS, s)
           | None \<Rightarrow>
               (let n = rm_allocs s; s1 = s\<lparr>rm_allocs := Suc n\<rparr> in
                if \<not> mem n then (- err_code QDMA_ERR_NO_MEM, s1)
                else (err_code QDMA_SUCCESS,
                  set_master idx (\<lambda>m. m\<lparr>dev_list := dev_list m @
                    [\<lparr>de_func_id = func_id, active_h2c_qcnt = 0, active_c2h_qcnt = 0,
                      active_cmpt_qcnt = 0,
                      de_entry = \<lparr>re_qbase = -1, re_total_q = 0\<rparr>\<rparr>]\<rparr>) s1))))"

definition qdma_dev_entry_destroy ::
    "(nat \<Rightarrow> bool) \<Rightarrow> u32 \<Rightarrow> u16 \<Rightarrow> rm_state \<Rightarrow> rm_state" where
  "qdma_dev_entry_destroy mem idx func_id s =
     (case qdma_get_master_resource_entry idx s of
        None \<Rightarrow> s
      | Some m \<Rightarrow>
          (case qdma_get_dev_entry idx func_id s of
             None \<Rightarrow> s
           | Some d \<Rightarrow>
               (let (e, fl, n) = qdma_submit_to_free_list mem (rm_allocs s) (de_entry d) (free_list m)
                in set_master idx (\<lambda>m. m\<lparr>free_list := fl,
                     dev_list := remove_first (\<lambda>d. de_func_id d = func_id) (dev_list m)\<rparr>)
                     (s\<lparr>rm_allocs := n\<rparr>))))"

definition qdma_dev_update ::
    "(nat \<Rightarrow> bool) \<Rightarrow> u32 \<Rightarrow> u16 \<Rightarrow> u32 \<Rightarrow> u32 \<Rightarrow> rm_state \<Rightarrow> int \<times> u32 \<times> rm_state" where
  "qdma_dev_update mem idx func_id qmax qbase s =
     (case qdma_get_master_resource_entry idx s of
        None \<Rightarrow> (- err_code QDMA_ERR_RM_RES_NOT_EXISTS, qbase, s)
      | Some m \<Rightarrow>
          (case qdma_get_dev_entry idx func_id s of
             None \<Rightarrow> (- err_code QDMA_ERR_RM_DEV_NOT_EXISTS, qbase, s)
           | Some d \<Rightarrow>
               if active_h2c_qcnt d \<noteq> 0 \<or> active_c2h_qcnt d \<noteq> 0 \<or> active_cmpt_qcnt d \<noteq> 0
               then (- err_code QDMA_ERR_RM_QMAX_CONF_REJECTED, qbase, s)
               else
                 (let (rv, e, fl, n) =
                        qdma_request_q_resource mem (rm_allocs s) (de_entry d) qmax qbase (free_list m)
                  in (rv, re_qbase e,
                      set_master idx (\<lambda>m. set_dev func_id (\<lambda>d. d\<lparr>de_entry := e\<rparr>) (m\<lparr>free_list := fl\<rparr>))
                        (s\<lparr>rm_allocs := n\<rparr>)))))"

definition qdma_dev_qinfo_get ::
    "u32 \<Rightarrow> u16 \<Rightarrow> u32 \<Rightarrow> u32 \<Rightarrow> rm_state \<Rightarrow> int \<times> u32 \<times> u32" where
  "qdma_dev_qinfo_get idx func_id qbase qmax s =
     (case qdma_get_master_resource_entry idx s of
        None \<Rightarrow> (- err_code QDMA_ERR_RM_RES_NOT_EXISTS, qbase, qmax)
      | Some m \<Rightarrow>
          (case qdma_get_dev_entry idx func_id s of
             None \<Rightarrow> (- err_code QDMA_ERR_RM_DEV_NOT_EXISTS, qbase, qmax)
           | Some d \<Rightarrow> (err_code QDMA_SUCCESS, re_qbase (de_entry d), re_total_q (de_entry d))))"

definition qdma_dev_is_queue_in_range :: "u32 \<Rightarrow> u16 \<Rightarrow> u32 \<Rightarrow> rm_state \<Rightarrow> qdma_dev_q_range" where
  "qdma_dev_is_queue_in_range idx func_id qid_hw s =
     (case qdma_get_master_resource_entry idx s of
        None \<Rightarrow> QDMA_DEV_Q_OUT_OF_RANGE
      | Some m \<Rightarrow>
          (case qdma_get_dev_entry idx func_id s of
             None \<Rightarrow> QDMA_DEV_Q_OUT_OF_RANGE
           | Some d \<Rightarrow>
               (let qmax = re_qbase (de_entry d) + re_total_q (de_entry d) in
                if re_total_q (de_entry d) \<noteq> 0 \<and> qid_hw < qmax \<and> re_qbase (de_entry d) \<le>s qid_hw
                then QDMA_DEV_Q_IN_RANGE else QDMA_DEV_Q_OUT_OF_RANGE)))"

text \<open>The counter a queue type selects; \<open>None\<close> is the default branch of the switch.\<close>

fun active_qcnt_of :: "qdma_dev_q_type \<Rightarrow> qdma_dev_entry \<Rightarrow> u32 option" where
  "active_qcnt_of QDMA_DEV_Q_TYPE_H2C d = Some (active_h2c_qcnt d)"
| "active_qcnt_of QDMA_DEV_Q_TYPE_C2H d = Some (active_c2h_qcnt d)"
| "active_qcnt_of QDMA_DEV_Q_TYPE_CMPT d = Some (active_cmpt_qcnt d)"
| "active_qcnt_of QDMA_DEV_Q_TYPE_MAX d = None"

fun set_active_qcnt :: "qdma_dev_q_type \<Rightarrow> u32 \<Rightarrow> qdma_dev_entry \<Rightarrow> qdma_dev_entry" where
  "set_active_qcnt QDMA_DEV_Q_TYPE_H2C v d = d\<lparr>active_h2c_qcnt := v\<rparr>"
| "set_active_qcnt QDMA_DEV_Q_TYPE_C2H v d = d\<lparr>active_c2h_qcnt := v\<rparr>"
| "set_active_qcnt QDMA_DEV_Q_TYPE_CMPT v d = d\<lparr>active_cmpt_qcnt := v\<rparr>"
| "set_active_qcnt QDMA_DEV_Q_TYPE_MAX v d = d"

definition qdma_dev_increment_active_queue ::
    "u32 \<Rightarrow> u16 \<Rightarrow> qdma_dev_q_type \<Rightarrow> rm_state \<Rightarrow> int \<times> rm_state" where
  "qdma_dev_increment_active_queue idx func_id q_type s =
     (case qdma_get_master_resource_entry idx s of
        None \<Rightarrow> (- err_code QDMA_ERR_RM_RES_NOT_EXISTS, s)
      | Some m \<Rightarrow>
          (case qdma_get_dev_entry idx func_id s of
             None \<Rightarrow> (- err_code QDMA_ERR_RM_DEV_NOT_EXISTS, s)
           | Some d \<Rightarrow>
               (case active_qcnt_of q_type d of
                  None \<Rightarrow> (- err_code QDMA_ERR_RM_DEV_NOT_EXISTS, s)
                | Some c \<Rightarrow>
                    if re_total_q (de_entry d) < c + 1
                    then (- err_code QDMA_ERR_RM_NO_QUEUES_LEFT, s)
                    else (err_code QDMA_SUCCESS,
                      set_master idx (\<lambda>m. set_dev func_id (set_active_qcnt q_type (c + 1))
                        (m\<lparr>rm_active_qcnt := rm_active_qcnt m + 1\<rparr>)) s))))"

definition qdma_dev_decrement_active_queue ::
    "u32 \<Rightarrow> u16 \<Rightarrow> qdma_dev_q_type \<Rightarrow> rm_state \<Rightarrow> int \<times> rm_state" where
  "qdma_dev_decrement_active_queue idx func_id q_type s =
     (case qdma_get_master_resource_entry idx s of
        None \<Rightarrow> (- err_code QDMA_ERR_RM_RES_NOT_EXISTS, s)
      | Some m \<Rightarrow>
          (case qdma_get_dev_entry idx func_id s of
             None \<Rightarrow> (- err_code QDMA_ERR_RM_DEV_NOT_EXISTS, s)
           | Some d \<Rightarrow>
               (let (rv, f) =
                  (case active_qcnt_of q_type d of
                     None \<Rightarrow> (- err_code QDMA_ERR_RM_DEV_NOT_EXISTS, id)
                   | Some c \<Rightarrow>
                       (err_code QDMA_SUCCESS,
                        if c \<noteq> 0 then set_active_qcnt q_type (c - 1) else id))
                in (rv, set_master idx (\<lambda>m. set_dev func_id f
                          (m\<lparr>rm_active_qcnt := rm_active_qcnt m - 1\<rparr>)) s))))"

definition qdma_get_active_queue_count :: "u32 \<Rightarrow> rm_state \<Rightarrow> u32" where
  "qdma_get_active_queue_count idx s =
     (case qdma_get_master_resource_entry idx s of
        None \<Rightarrow> of_int (err_code QDMA_SUCCESS)
      | Some m \<Rightarrow> rm_active_qcnt m)"

definition qdma_get_device_active_queue_count ::
    "u32 \<Rightarrow> u16 \<Rightarrow> qdma_dev_q_type \<Rightarrow> rm_state \<Rightarrow> int" where
  "qdma_get_device_active_queue_count idx func_id q_type s =
     (case qdma_get_master_resource_entry idx s of
        None \<Rightarrow> - err_code QDMA_ERR_RM_RES_NOT_EXISTS
      | Some m \<Rightarrow>
          (case qdma_get_dev_entry idx func_id s of
             None \<Rightarrow> - err_code QDMA_ERR_RM_DEV_NOT_EXISTS
           | Some d \<Rightarrow>
               (case active_qcnt_of q_type d of None \<Rightarrow> 0 | Some c \<Rightarrow> sint c)))"

end
