(* ===== verification/Qdma_Resource_Inv.thy ===== *)
theory Qdma_Resource_Inv
  imports Qdma_Resource
begin

text \<open>
  What the free-list code of the resource manager keeps.  \<open>cover xs q\<close> counts the blocks of
  \<open>xs\<close> that hold queue number \<open>q\<close>; every step of the allocator is shown to move coverage
  between the free list and a device entry without creating or losing any, as long as the
  32-bit sums do not wrap.
\<close>

section \<open>Blocks and coverage\<close>

definition blk_end :: "qdma_resource_entry \<Rightarrow> int" where
  "blk_end e = uint (re_qbase e) + uint (re_total_q e)"

definition in_blk :: "int \<Rightarrow> qdma_resource_entry \<Rightarrow> bool" where
  "in_blk q e \<longleftrightarrow> uint (re_qbase e) \<le> q \<and> q < blk_end e"

fun cover :: "qdma_resource_entry list \<Rightarrow> int \<Rightarrow> nat" where
  "cover [] q = 0"
| "cover (e # es) q = (if in_blk q e then 1 else 0) + cover es q"

definition ok_free :: "qdma_resource_entry \<Rightarrow> bool" where
  "ok_free e \<longleftrightarrow> re_total_q e \<noteq> 0 \<and> blk_end e < 2 ^ 31"

definition ok_entry :: "qdma_resource_entry \<Rightarrow> bool" where
  "ok_entry e \<longleftrightarrow> re_total_q e = 0 \<or> blk_end e < 2 ^ 31"

definition sorted_free :: "qdma_resource_entry list \<Rightarrow> bool" where
  "sorted_free fl \<longleftrightarrow> sorted_wrt (\<lambda>x y. blk_end x \<le> uint (re_qbase y)) fl"

definition coalesced :: "qdma_resource_entry list \<Rightarrow> bool" where
  "coalesced fl \<longleftrightarrow> sorted_wrt (\<lambda>x y. blk_end x < uint (re_qbase y)) fl"

lemma cover_append [cover_simps]: "cover (xs @ ys) q = cover xs q + cover ys q"
  by (induction xs) auto

lemma cover_mem: "e \<in> set xs \<Longrightarrow> in_blk q e \<Longrightarrow> 1 \<le> cover xs q"
  by (induction xs) auto

lemma cover_pos: "0 < cover xs q \<Longrightarrow> \<exists>e \<in> set xs. in_blk q e"
  by (induction xs) (auto split: if_splits)

lemma in_blk_zero: "re_total_q e = 0 \<Longrightarrow> \<not> in_blk q e"
  by (auto simp: in_blk_def blk_end_def)

lemma ok_free_entry: "ok_free e \<Longrightarrow> ok_entry e"
  by (simp add: ok_free_def ok_entry_def)

lemma ok_free_pos: "ok_free e \<Longrightarrow> uint (re_qbase e) < blk_end e"
  by (simp add: ok_free_def blk_end_def uint_pos_iff)

lemma ok_free_base: "ok_free e \<Longrightarrow> uint (re_qbase e) < 2 ^ 31"
  using ok_free_pos [of e] by (simp add: ok_free_def)

lemma ok_free_sum: "ok_free e \<Longrightarrow> uint (re_qbase e + re_total_q e) = blk_end e"
  unfolding ok_free_def blk_end_def by (rule uint_add_small) simp

section \<open>Giving a block back\<close>

lemma cover_free_insert [cover_simps]:
  "cover (free_insert e fl) q = cover (e # fl) q"
  by (induction e fl rule: free_insert.induct) auto

lemma set_free_insert: "set (free_insert e fl) = insert e (set fl)"
  by (induction e fl rule: free_insert.induct) auto

lemma touching_iff:
  "ok_free s \<Longrightarrow> ok_free x \<Longrightarrow>
   re_qbase s + re_total_q s = re_qbase x \<longleftrightarrow> blk_end s = uint (re_qbase x)"
  by (metis ok_free_sum word_uint_eqI)

text \<open>Merging two touching blocks.\<close>

lemma merged_block:
  assumes "ok_free s" and "ok_free x" and "blk_end s = uint (re_qbase x)"
  defines "m \<equiv> s\<lparr>re_total_q := re_total_q s + re_total_q x\<rparr>"
  shows "blk_end m = blk_end x" and "ok_free m" and "re_qbase m = re_qbase s"
    and "in_blk q m \<longleftrightarrow> in_blk q s \<or> in_blk q x" and "\<not> (in_blk q s \<and> in_blk q x)"
proof -
  have x: "blk_end x = uint (re_qbase x) + uint (re_total_q x)" by (simp add: blk_end_def)
  have s: "blk_end s = uint (re_qbase s) + uint (re_total_q s)" by (simp add: blk_end_def)
  from assms(2) have le: "blk_end x < 2147483648" by (simp add: ok_free_def)
  have "0 \<le> uint (re_qbase s)" by simp
  with assms(3) x s le have "uint (re_total_q s) + uint (re_total_q x) < 4294967296" by linarith
  then have "uint (re_total_q s) + uint (re_total_q x) < 2 ^ 32" by simp
  then have t: "uint (re_total_q m) = uint (re_total_q s) + uint (re_total_q x)"
    by (simp add: m_def uint_add_small)
  show e: "blk_end m = blk_end x"
    using t assms(3) x s by (simp add: blk_end_def m_def)
  show "re_qbase m = re_qbase s" by (simp add: m_def)
  have "0 < uint (re_total_q x)" using assms(2) by (simp add: ok_free_def uint_pos_iff)
  moreover have "0 \<le> uint (re_total_q s)" by simp
  ultimately have "0 < uint (re_total_q m)" using t by linarith
  then have "re_total_q m \<noteq> 0" by (simp add: uint_pos_iff)
  with e assms(2) show "ok_free m" by (simp add: ok_free_def)
  have "uint (re_qbase s) \<le> blk_end s" "uint (re_qbase x) \<le> blk_end x"
    by (simp_all add: blk_end_def)
  then show "in_blk q m \<longleftrightarrow> in_blk q s \<or> in_blk q x" and "\<not> (in_blk q s \<and> in_blk q x)"
    using e assms(3) by (auto simp: in_blk_def m_def)
qed

lemma stretch_props:
  "\<forall>e \<in> set (s # fl). ok_free e \<Longrightarrow>
   cover (stretch s fl) q = cover (s # fl) q \<and> (\<forall>e \<in> set (stretch s fl). ok_free e)"
proof (induction s fl rule: stretch.induct)
  case (2 s x xs)
  let ?m = "s\<lparr>re_total_q := re_total_q s + re_total_q x\<rparr>"
  show ?case
  proof (cases "re_qbase s + re_total_q s = re_qbase x")
    case True
    with 2(3) have t: "blk_end s = uint (re_qbase x)" by (simp add: touching_iff)
    note m = merged_block [OF _ _ t]
    have "\<forall>e \<in> set (?m # xs). ok_free e" using 2(3) m(2) by simp
    then have "cover (stretch ?m xs) q = cover (?m # xs) q \<and> (\<forall>e \<in> set (stretch ?m xs). ok_free e)"
      using 2(1) True by blast
    then show ?thesis using True 2(3) m(4,5) [of q] by auto
  next
    case False
    then show ?thesis using 2(2,3) by simp
  qed
qed simp

lemma cover_defragment [cover_simps]:
  "\<forall>e \<in> set fl. ok_free e \<Longrightarrow> cover (defragment fl) q = cover fl q"
  by (cases fl) (simp_all add: stretch_props [THEN conjunct1])

lemma ok_defragment:
  assumes "\<forall>e \<in> set fl. ok_free e"
  shows "\<forall>e \<in> set (defragment fl). ok_free e"
proof (cases fl)
  case (Cons x xs)
  with assms have "\<forall>e \<in> set (x # xs). ok_free e" by simp
  from stretch_props [OF this, THEN conjunct2] Cons show ?thesis by simp
qed simp

text \<open>On a sorted list the one pass of the loop merges every pair of touching blocks.\<close>

lemma stretch_coalesced:
  "\<forall>e \<in> set (s # fl). ok_free e \<Longrightarrow> sorted_free (s # fl) \<Longrightarrow>
   coalesced (stretch s fl) \<and> (\<forall>e \<in> set (stretch s fl). uint (re_qbase s) \<le> uint (re_qbase e))"
proof (induction s fl rule: stretch.induct)
  case (2 s x xs)
  let ?m = "s\<lparr>re_total_q := re_total_q s + re_total_q x\<rparr>"
  have se: "uint (re_qbase s) < blk_end s" using 2(3) by (simp add: ok_free_pos)
  have sx: "blk_end s \<le> uint (re_qbase x)" using 2(4) by (simp add: sorted_free_def)
  show ?case
  proof (cases "re_qbase s + re_total_q s = re_qbase x")
    case True
    with 2(3) have t: "blk_end s = uint (re_qbase x)" by (simp add: touching_iff)
    note m = merged_block [OF _ _ t]
    have "\<forall>e \<in> set (?m # xs). ok_free e" using 2(3) m(2) by simp
    moreover have "sorted_free (?m # xs)" using 2(3,4) m(1) by (simp add: sorted_free_def)
    ultimately show ?thesis using 2(1) True by simp
  next
    case False
    with 2(3) have "blk_end s \<noteq> uint (re_qbase x)" by (simp add: touching_iff)
    with sx have lt: "blk_end s < uint (re_qbase x)" by simp
    have ih: "coalesced (stretch x xs)" "\<forall>e \<in> set (stretch x xs). uint (re_qbase x) \<le> uint (re_qbase e)"
      using 2 False by (auto simp: sorted_free_def)
    then show ?thesis using False lt se by (fastforce simp: coalesced_def)
  qed
qed (simp add: coalesced_def)

lemma defragment_coalesced:
  assumes "\<forall>e \<in> set fl. ok_free e" and "sorted_free fl"
  shows "coalesced (defragment fl)"
proof (cases fl)
  case (Cons x xs)
  with assms have "\<forall>e \<in> set (x # xs). ok_free e" "sorted_free (x # xs)" by simp_all
  from stretch_coalesced [OF this, THEN conjunct1] Cons show ?thesis by simp
qed (simp add: coalesced_def)

lemma coalesced_sorted: "coalesced fl \<Longrightarrow> sorted_free fl"
  unfolding coalesced_def sorted_free_def by (erule sorted_wrt_mono_rel [rotated]) simp

text \<open>Insertion keeps the order, because the new block overlaps no free block.\<close>

lemma free_insert_sorted:
  assumes "\<forall>x \<in> set (e # fl). ok_free x" and "sorted_free fl"
    and "\<And>q. in_blk q e \<Longrightarrow> cover fl q = 0"
  shows "sorted_free (free_insert e fl)"
  using assms
proof (induction e fl rule: free_insert.induct)
  case (2 e x xs)
  from 2(2) have ok: "ok_free e" "ok_free x" by auto
  have base: "uint (re_qbase e) < 2 ^ 31" "uint (re_qbase x) < 2 ^ 31"
    using ok_free_base [OF ok(1)] ok_free_base [OF ok(2)] by simp_all
  have cmp: "re_qbase e <s re_qbase x \<longleftrightarrow> uint (re_qbase e) < uint (re_qbase x)"
    using base by (simp add: word_sless_alt sint_small)
  have dis: "\<not> in_blk q x" if "in_blk q e" for q
    using 2(4) [OF that] by (auto split: if_splits)
  have pos: "uint (re_qbase e) < blk_end e" "uint (re_qbase x) < blk_end x"
    using ok by (auto intro: ok_free_pos)
  have before: "blk_end e \<le> uint (re_qbase x)" if "uint (re_qbase e) < uint (re_qbase x)"
  proof (rule ccontr)
    assume "\<not> ?thesis"
    then have "in_blk (uint (re_qbase x)) e" "in_blk (uint (re_qbase x)) x"
      using that pos by (simp_all add: in_blk_def)
    with dis show False by blast
  qed
  have after: "blk_end x \<le> uint (re_qbase e)" if "\<not> uint (re_qbase e) < uint (re_qbase x)"
  proof (rule ccontr)
    assume "\<not> ?thesis"
    then have "in_blk (uint (re_qbase e)) e" "in_blk (uint (re_qbase e)) x"
      using that pos by (simp_all add: in_blk_def)
    with dis show False by blast
  qed
  have tail: "\<forall>y \<in> set xs. blk_end x \<le> uint (re_qbase y)" using 2(3) by (simp add: sorted_free_def)
  show ?case
  proof (cases "re_qbase e <s re_qbase x")
    case True
    with cmp before have "blk_end e \<le> uint (re_qbase x)" by simp
    with 2(3) tail pos True show ?thesis by (fastforce simp: sorted_free_def)
  next
    case False
    with cmp after have a: "blk_end x \<le> uint (re_qbase e)" by simp
    show ?thesis
    proof (cases "xs = []")
      case True
      with a False show ?thesis by (simp add: sorted_free_def)
    next
      case ne: False
      have "sorted_free (free_insert e xs)"
        using 2 False ne by (auto simp: sorted_free_def)
      with a tail False ne show ?thesis by (simp add: sorted_free_def set_free_insert)
    qed
  qed
qed (simp add: sorted_free_def)

lemma submit_props:
  assumes "\<forall>x \<in> set fl. ok_free x" and "ok_entry e"
    and "qdma_submit_to_free_list mem n e fl = (e', fl', n')"
  shows submit_ok: "\<forall>x \<in> set fl'. ok_free x"
    and submit_ok_entry: "ok_entry e'"
    and submit_cover: "cover (e' # fl') q = cover (e # fl) q"
    and submit_empty: "mem n \<Longrightarrow> re_total_q e' = 0"
    and submit_unchanged: "re_total_q e = 0 \<Longrightarrow> e' = e \<and> fl' = fl"
proof -
  let ?new = "\<lparr>re_qbase = re_qbase e, re_total_q = re_total_q e\<rparr>"
  have new: "?new = e" by simp
  have z: "re_total_q e \<noteq> 0 \<Longrightarrow> ok_free e" using assms(2) by (simp add: ok_entry_def ok_free_def)
  then have okl: "re_total_q e \<noteq> 0 \<Longrightarrow> \<forall>x \<in> set (free_insert e fl). ok_free x"
    using assms(1) by (simp add: set_free_insert)
  note d = assms(3) [unfolded qdma_submit_to_free_list_def qdma_free_entry_create_def new]
  show "\<forall>x \<in> set fl'. ok_free x"
    using d assms(1) ok_defragment [OF okl] by (auto split: if_splits)
  show "ok_entry e'"
    using d assms(2) by (auto simp: ok_entry_def split: if_splits)
  show "cover (e' # fl') q = cover (e # fl) q"
    using d cover_defragment [OF okl, of q] by (auto simp: cover_free_insert in_blk_zero split: if_splits)
  show "mem n \<Longrightarrow> re_total_q e' = 0"
    using d by (auto split: if_splits)
  show "re_total_q e = 0 \<Longrightarrow> e' = e \<and> fl' = fl"
    using d by simp
qed

lemma submit_sorted:
  assumes "\<forall>x \<in> set fl. ok_free x" and "ok_entry e" and "sorted_free fl"
    and "\<And>q. in_blk q e \<Longrightarrow> cover fl q = 0"
    and "qdma_submit_to_free_list mem n e fl = (e', fl', n')"
  shows "sorted_free fl'" and "re_total_q e \<noteq> 0 \<Longrightarrow> mem n \<Longrightarrow> coalesced fl'"
proof -
  let ?new = "\<lparr>re_qbase = re_qbase e, re_total_q = re_total_q e\<rparr>"
  have new: "?new = e" by simp
  note d = assms(5) [unfolded qdma_submit_to_free_list_def qdma_free_entry_create_def new]
  have c: "coalesced (defragment (free_insert e fl))" if "re_total_q e \<noteq> 0"
  proof (rule defragment_coalesced)
    have "ok_free e" using assms(2) that by (simp add: ok_entry_def ok_free_def)
    then show "\<forall>x \<in> set (free_insert e fl). ok_free x" and "sorted_free (free_insert e fl)"
      using assms(1,3,4) by (auto simp: set_free_insert intro!: free_insert_sorted)
  qed
  then show "sorted_free fl'"
    using d assms(3) by (auto intro: coalesced_sorted split: if_splits)
  show "re_total_q e \<noteq> 0 \<Longrightarrow> mem n \<Longrightarrow> coalesced fl'"
    using d c by (auto split: if_splits)
qed

section \<open>Cutting a block out\<close>

definition fits :: "qdma_resource_entry \<Rightarrow> u32 \<Rightarrow> u32 \<Rightarrow> bool" where
  "fits b qb qm \<longleftrightarrow> ok_free b \<and> uint (re_qbase b) \<le> uint qb \<and> uint qb + uint qm \<le> blk_end b"

definition cut_left :: "qdma_resource_entry \<Rightarrow> u32 \<Rightarrow> qdma_resource_entry list" where
  "cut_left b qb =
     (if re_qbase b = qb then [] else [\<lparr>re_qbase = re_qbase b, re_total_q = qb - re_qbase b\<rparr>])"

definition cut_right :: "qdma_resource_entry \<Rightarrow> u32 \<Rightarrow> u32 \<Rightarrow> qdma_resource_entry list" where
  "cut_right b qb qm =
     (if qb + qm = re_qbase b + re_total_q b then []
      else [\<lparr>re_qbase = qb + qm, re_total_q = re_qbase b + re_total_q b - (qb + qm)\<rparr>])"

lemma fits_bounds:
  assumes "fits b qb qm"
  obtains t where "uint qb + uint qm = t" "uint (re_qbase b) \<le> uint qb" "uint qb \<le> t"
    "t \<le> blk_end b" "blk_end b < 2147483648"
  using assms that [of "uint qb + uint qm"] by (simp add: fits_def ok_free_def)

lemma fits_sum: "fits b qb qm \<Longrightarrow> uint (qb + qm) = uint qb + uint qm"
  by (rule uint_add_small) (auto simp: fits_def ok_free_def)

lemma cut_left_props:
  assumes "fits b qb qm" and "e \<in> set (cut_left b qb)"
  shows "ok_free e" and "re_qbase e = re_qbase b" and "blk_end e = uint qb"
proof -
  from assms have ne: "re_qbase b \<noteq> qb" and e: "e = \<lparr>re_qbase = re_qbase b, re_total_q = qb - re_qbase b\<rparr>"
    by (auto simp: cut_left_def split: if_splits)
  have t: "uint (qb - re_qbase b) = uint qb - uint (re_qbase b)"
    using assms(1) by (intro uint_sub_small) (simp add: fits_def)
  show "re_qbase e = re_qbase b" by (simp add: e)
  show be: "blk_end e = uint qb" by (simp add: e blk_end_def t)
  from assms(1) obtain t where "uint qb \<le> t" "t \<le> blk_end b" "blk_end b < 2147483648"
    by (rule fits_bounds)
  then have "uint qb < 2147483648" by linarith
  with be ne show "ok_free e" by (simp add: ok_free_def e)
qed

lemma cut_right_props:
  assumes "fits b qb qm" and "e \<in> set (cut_right b qb qm)"
  shows "ok_free e" and "uint (re_qbase e) = uint qb + uint qm" and "blk_end e = blk_end b"
proof -
  let ?E = "re_qbase b + re_total_q b"
  from assms have ne: "qb + qm \<noteq> ?E" and e: "e = \<lparr>re_qbase = qb + qm, re_total_q = ?E - (qb + qm)\<rparr>"
    by (auto simp: cut_right_def split: if_splits)
  have E: "uint ?E = blk_end b" using assms(1) by (simp add: fits_def ok_free_sum)
  show r: "uint (re_qbase e) = uint qb + uint qm" using assms(1) by (simp add: e fits_sum)
  have t: "uint (?E - (qb + qm)) = blk_end b - (uint qb + uint qm)"
    using assms(1) E by (subst uint_sub_small) (auto simp: fits_sum fits_def)
  show be: "blk_end e = blk_end b" using r t by (simp add: e blk_end_def)
  show "ok_free e" using be ne assms(1) by (simp add: ok_free_def e fits_def)
qed

lemma fits_in_blk: "fits b qb qm \<Longrightarrow> in_blk q \<lparr>re_qbase = qb, re_total_q = qm\<rparr> \<Longrightarrow> in_blk q b"
  by (auto simp: fits_def in_blk_def blk_end_def)

lemma cut_left_eq_Nil: "fits b qb qm \<Longrightarrow> cut_left b qb = [] \<longleftrightarrow> uint (re_qbase b) = uint qb"
  by (auto simp: cut_left_def word_uint_eqI)

lemma cut_right_eq_Nil: "fits b qb qm \<Longrightarrow> cut_right b qb qm = [] \<longleftrightarrow> uint qb + uint qm = blk_end b"
proof -
  assume f: "fits b qb qm"
  have "qb + qm = re_qbase b + re_total_q b \<longleftrightarrow> uint (qb + qm) = uint (re_qbase b + re_total_q b)"
    by (auto intro: word_uint_eqI)
  then show ?thesis using f by (auto simp: cut_right_def fits_sum fits_def ok_free_sum)
qed

lemma cover_cut_left:
  assumes "fits b qb qm"
  shows "cover (cut_left b qb) q = (if uint (re_qbase b) \<le> q \<and> q < uint qb then 1 else 0)"
proof (cases "cut_left b qb")
  case Nil
  then have "uint (re_qbase b) = uint qb" using assms by (simp add: cut_left_eq_Nil)
  with Nil show ?thesis by simp
next
  case (Cons e es)
  then have "es = []" by (auto simp: cut_left_def split: if_splits)
  then show ?thesis using cut_left_props [OF assms, of e] Cons by (simp add: in_blk_def)
qed

lemma cover_cut_right:
  assumes "fits b qb qm"
  shows "cover (cut_right b qb qm) q = (if uint qb + uint qm \<le> q \<and> q < blk_end b then 1 else 0)"
proof (cases "cut_right b qb qm")
  case Nil
  then have "uint qb + uint qm = blk_end b" using assms by (simp add: cut_right_eq_Nil)
  with Nil show ?thesis by simp
next
  case (Cons e es)
  then have "es = []" by (auto simp: cut_right_def split: if_splits)
  then show ?thesis using cut_right_props [OF assms, of e] Cons by (simp add: in_blk_def)
qed

lemma cover_cut:
  assumes "fits b qb qm"
  shows "cover (\<lparr>re_qbase = qb, re_total_q = qm\<rparr> # pre @ cut_left b qb @ cut_right b qb qm @ post) q =
         cover (pre @ b # post) q"
proof -
  from assms obtain t where t: "uint qb + uint qm = t" "uint (re_qbase b) \<le> uint qb" "uint qb \<le> t"
    "t \<le> blk_end b" by (rule fits_bounds)
  have "in_blk q \<lparr>re_qbase = qb, re_total_q = qm\<rparr> \<longleftrightarrow> uint qb \<le> q \<and> q < t"
    by (simp add: in_blk_def blk_end_def t(1))
  then show ?thesis
    using t by (auto simp: cover_append cover_cut_left [OF assms] cover_cut_right [OF assms] in_blk_def)
qed

lemma sorted_cut:
  assumes "fits b qb qm" and "sorted_free (pre @ b # post)"
  shows "sorted_free (pre @ cut_left b qb @ cut_right b qb qm @ post)"
proof -
  have *: "uint (re_qbase b) \<le> uint (re_qbase e) \<and> blk_end e \<le> blk_end b"
    if "e \<in> set (cut_left b qb @ cut_right b qb qm)" for e
  proof -
    from assms(1) obtain t where t: "uint qb + uint qm = t" "uint (re_qbase b) \<le> uint qb" "uint qb \<le> t"
      "t \<le> blk_end b" by (rule fits_bounds)
    from that consider "e \<in> set (cut_left b qb)" | "e \<in> set (cut_right b qb qm)" by auto
    then show ?thesis
      using cut_left_props [OF assms(1), of e] cut_right_props [OF assms(1), of e] t
      by cases auto
  qed
  have "sorted_wrt (\<lambda>x y. blk_end x \<le> uint (re_qbase y)) (cut_left b qb @ cut_right b qb qm)"
  proof -
    have "blk_end x \<le> uint (re_qbase y)"
      if "x \<in> set (cut_left b qb)" "y \<in> set (cut_right b qb qm)" for x y
      using cut_left_props(3) [OF assms(1) that(1)] cut_right_props(2) [OF assms(1) that(2)] by simp
    then show ?thesis
      by (auto simp: sorted_wrt_append) (auto simp: cut_left_def cut_right_def)
  qed
  moreover have "blk_end x \<le> uint (re_qbase b)" if "x \<in> set pre" for x
    using assms(2) that by (auto simp: sorted_free_def sorted_wrt_append)
  moreover have "blk_end b \<le> uint (re_qbase y)" if "y \<in> set post" for y
    using assms(2) that by (auto simp: sorted_free_def sorted_wrt_append)
  ultimately show ?thesis
    using assms(2) * unfolding sorted_free_def sorted_wrt_append by fastforce
qed

lemma list_del_at_split [simp]: "list_del_at (length pre) (pre @ x # post) = pre @ post"
  by (simp add: list_del_at_def)

lemma list_del_at_split_Suc [simp]:
  "list_del_at (Suc (length pre)) (pre @ y # x # post) = pre @ y # post"
  using list_del_at_split [of "pre @ [y]" x post] by simp

lemma fits_signed: "fits b qb qm \<Longrightarrow> re_qbase b <s qb \<longleftrightarrow> re_qbase b \<noteq> qb"
proof -
  assume f: "fits b qb qm"
  then obtain t where t: "uint (re_qbase b) \<le> uint qb" "uint qb \<le> t" "t \<le> blk_end b"
    "blk_end b < 2147483648" by (rule fits_bounds)
  then have "sint (re_qbase b) = uint (re_qbase b)" "sint qb = uint qb"
    by (auto intro!: sint_small)
  with t show ?thesis by (auto simp: word_sless_alt intro: word_uint_eqI)
qed

text \<open>A successful cut: the returned node is exactly the requested range, and taking it out
  of the list leaves the two remainders of the chosen block in its place.\<close>

lemma fragment_Some:
  assumes f: "fits b qb qm"
    and r: "fragment_free_list mem n qm qb (length pre) (pre @ b # post) = (Some j, fl', n')"
  shows "j < length fl'" and "fl' ! j = \<lparr>re_qbase = qb, re_total_q = qm\<rparr>"
    and "list_del_at j fl' = pre @ cut_left b qb @ cut_right b qb qm @ post"
proof -
  obtain a t where b: "b = \<lparr>re_qbase = a, re_total_q = t\<rparr>" by (cases b) simp
  have lt: "a <s qb \<longleftrightarrow> a \<noteq> qb" using fits_signed [OF f] by (simp add: b)
  have n: "(pre @ u # v # w) ! Suc (length pre) = v" for u v :: qdma_resource_entry and w
    by (simp add: nth_append)
  consider (whole) "qb = a" "qm = t" | (front) "qb = a" "qm \<noteq> t"
    | (rear) "qb \<noteq> a" "qb + qm = a + t" | (mid) "qb \<noteq> a" "qb + qm \<noteq> a + t" by blast
  then have "j < length fl' \<and> fl' ! j = \<lparr>re_qbase = qb, re_total_q = qm\<rparr> \<and>
     list_del_at j fl' = pre @ cut_left b qb @ cut_right b qb qm @ post"
  proof cases
    case whole
    with r show ?thesis by (auto simp: fragment_free_list_def b cut_left_def cut_right_def)
  next
    case front
    with r show ?thesis
      by (auto simp: fragment_free_list_def b cut_left_def cut_right_def qdma_free_entry_create_def
          Let_def split: if_splits)
  next
    case rear
    with r lt show ?thesis
      by (auto simp: fragment_free_list_def b cut_left_def cut_right_def qdma_free_entry_create_def
          n Let_def split: if_splits)
  next
    case mid
    with r lt show ?thesis
      by (auto simp: fragment_free_list_def b cut_left_def cut_right_def qdma_free_entry_create_def
          n Let_def algebra_simps split: if_splits)
  qed
  then show "j < length fl'" and "fl' ! j = \<lparr>re_qbase = qb, re_total_q = qm\<rparr>"
    and "list_del_at j fl' = pre @ cut_left b qb @ cut_right b qb qm @ post" by auto
qed

text \<open>A failed cut: an allocation failed; at most the front part has been split off, which
  is the same as cutting an empty range out of the block.\<close>

lemma fragment_None:
  assumes f: "fits b qb qm"
    and r: "fragment_free_list mem n qm qb (length pre) (pre @ b # post) = (None, fl', n')"
  shows "\<exists>k. \<not> mem k"
    and "fl' = pre @ b # post \<or> fits b qb 0 \<and> fl' = pre @ cut_left b qb @ cut_right b qb 0 @ post"
proof -
  obtain a t where b: "b = \<lparr>re_qbase = a, re_total_q = t\<rparr>" by (cases b) simp
  have lt: "a <s qb \<longleftrightarrow> a \<noteq> qb" using fits_signed [OF f] by (simp add: b)
  show "\<exists>k. \<not> mem k"
    using r by (auto simp: fragment_free_list_def qdma_free_entry_create_def Let_def split: if_splits)
  have "fl' = pre @ b # post \<or> qb + qm \<noteq> a + t \<and> a \<noteq> qb \<and>
      fl' = pre @ cut_left b qb @ \<lparr>re_qbase = qb, re_total_q = a + t - qb\<rparr> # post"
    using r lt by (auto simp: fragment_free_list_def qdma_free_entry_create_def Let_def b cut_left_def
        algebra_simps split: if_splits)
  moreover have "fits b qb 0 \<and> cut_right b qb 0 = [\<lparr>re_qbase = qb, re_total_q = a + t - qb\<rparr>]"
    if "qb + qm \<noteq> a + t"
  proof -
    from that have "cut_right b qb qm \<noteq> []" by (simp add: cut_right_def b)
    with f have ne: "uint qb + uint qm \<noteq> blk_end b" by (simp add: cut_right_eq_Nil)
    from f obtain u where u: "uint qb + uint qm = u" "uint qb \<le> u" "u \<le> blk_end b" by (rule fits_bounds)
    with f have f0: "fits b qb 0" by (simp add: fits_def)
    moreover have "uint qb \<noteq> blk_end b" using u ne by auto
    ultimately have "cut_right b qb 0 \<noteq> []" using cut_right_eq_Nil [OF f0] by simp
    then show ?thesis using f0 by (auto simp: cut_right_def b split: if_splits)
  qed
  ultimately show "fl' = pre @ b # post \<or> fits b qb 0 \<and> fl' = pre @ cut_left b qb @ cut_right b qb 0 @ post"
    by auto
qed

section \<open>Choosing a block\<close>

lemma find_qbase_node_Some:
  "find_qbase_node qmax qbase i fl = Some j \<Longrightarrow>
   \<exists>pre b post. fl = pre @ b # post \<and> j = i + length pre \<and> re_qbase b \<le>s qbase \<and>
     qbase + qmax \<le> re_qbase b + re_total_q b"
proof (induction fl arbitrary: i)
  case (Cons x xs)
  show ?case
  proof (cases "re_qbase x \<le>s qbase \<and> qbase + qmax \<le> re_qbase x + re_total_q x")
    case True
    with Cons.prems show ?thesis by (intro exI [of _ "[]"] exI [of _ x] exI [of _ xs]) simp
  next
    case False
    with Cons obtain pre b post where "xs = pre @ b # post" "j = Suc i + length pre"
      "re_qbase b \<le>s qbase" "qbase + qmax \<le> re_qbase b + re_total_q b"
      by (metis find_qbase_node.simps(2))
    then show ?thesis by (intro exI [of _ "x # pre"] exI [of _ b] exI [of _ post]) simp
  qed
qed simp

lemma find_qbase_node_None:
  "find_qbase_node qmax qbase i fl = None \<Longrightarrow> e \<in> set fl \<Longrightarrow>
   \<not> (re_qbase e \<le>s qbase \<and> qbase + qmax \<le> re_qbase e + re_total_q e)"
  by (induction fl arbitrary: i) (auto split: if_splits)

lemma find_best_node_Some:
  "find_best_node qmax i best fl = Some (j, b) \<Longrightarrow>
   best = Some (j, b) \<or> (\<exists>pre post. fl = pre @ b # post \<and> j = i + length pre \<and> qmax \<le> re_total_q b)"
proof (induction fl arbitrary: i best)
  case (Cons x xs)
  let ?take = "qmax \<le> re_total_q x \<and> (case best of None \<Rightarrow> True | Some (_, c) \<Rightarrow> re_total_q x \<le> re_total_q c)"
  have rec: "find_best_node qmax (Suc i) (if ?take then Some (i, x) else best) xs = Some (j, b)"
    using Cons.prems by (cases ?take) (simp_all only: find_best_node.simps if_True if_False simp_thms)
  from Cons.IH [OF this] consider "(if ?take then Some (i, x) else best) = Some (j, b)"
    | pre post where "xs = pre @ b # post" "j = Suc i + length pre" "qmax \<le> re_total_q b"
    by blast
  then show ?case
  proof cases
    case 1
    show ?thesis
    proof (cases ?take)
      case True
      with 1 have "x # xs = [] @ b # xs \<and> j = i + length [] \<and> qmax \<le> re_total_q b" by auto
      then show ?thesis by blast
    next
      case False
      with 1 show ?thesis by (simp split: if_splits)
    qed
  next
    case 2
    then have "x # xs = (x # pre) @ b # post \<and> j = i + length (x # pre) \<and> qmax \<le> re_total_q b" by simp
    then show ?thesis by blast
  qed
qed simp

lemma find_best_node_keeps: "find_best_node qmax i (Some p) fl \<noteq> None"
  by (induction fl arbitrary: i p) auto

lemma find_best_node_None:
  "find_best_node qmax i None fl = None \<Longrightarrow> e \<in> set fl \<Longrightarrow> re_total_q e < qmax"
proof (induction fl arbitrary: i)
  case (Cons x xs)
  then show ?case
    using find_best_node_keeps [of qmax "Suc i" "(i, x)" xs] by (auto split: if_splits)
qed simp

text \<open>Best fit: no block that would do is smaller than the chosen one.\<close>

lemma find_best_node_best:
  "find_best_node qmax i best fl = Some (j, b) \<Longrightarrow>
   (\<forall>e \<in> set fl. qmax \<le> re_total_q e \<longrightarrow> re_total_q b \<le> re_total_q e) \<and>
   (\<forall>k c. best = Some (k, c) \<longrightarrow> re_total_q b \<le> re_total_q c)"
proof (induction fl arbitrary: i best)
  case (Cons x xs)
  show ?case
  proof (cases "qmax \<le> re_total_q x \<and> (case best of None \<Rightarrow> True | Some (_, c) \<Rightarrow> re_total_q x \<le> re_total_q c)")
    case True
    with Cons.prems have "find_best_node qmax (Suc i) (Some (i, x)) xs = Some (j, b)" by simp
    from Cons.IH [OF this] True show ?thesis by (auto split: option.splits)
  next
    case False
    with Cons.prems have "find_best_node qmax (Suc i) best xs = Some (j, b)" by (simp split: if_splits)
    from Cons.IH [OF this] False show ?thesis by (auto split: option.splits)
  qed
qed simp

text \<open>The request does not wrap: a requested base and size stay within 32 bits.\<close>

definition no_wrap :: "u32 \<Rightarrow> u32 \<Rightarrow> bool" where
  "no_wrap qm qb \<longleftrightarrow> (0 \<le>s qb \<longrightarrow> uint qb + uint qm < 2 ^ 32)"

lemma honour_iff_fits:
  assumes "ok_free b" and "0 \<le>s qb" and "no_wrap qm qb"
  shows "re_qbase b \<le>s qb \<and> qb + qm \<le> re_qbase b + re_total_q b \<longleftrightarrow> fits b qb qm"
proof -
  have "uint (re_qbase b) < 2 ^ 31" using assms(1) by (rule ok_free_base)
  moreover have "uint qb < 2 ^ 31" using assms(2) by (intro sint_nonneg) (simp add: word_sle_eq)
  moreover have "uint (qb + qm) = uint qb + uint qm"
    using assms(2,3) by (intro uint_add_small) (simp add: no_wrap_def)
  ultimately show ?thesis
    using assms(1) by (simp add: fits_def word_sle_eq sint_small word_le_def ok_free_sum)
qed

lemma best_fits: "ok_free b \<Longrightarrow> qm \<le> re_total_q b \<Longrightarrow> fits b (re_qbase b) qm"
  by (simp add: fits_def blk_end_def word_le_def)

text \<open>Both searches end in a block that holds the range that is then cut out of it.\<close>

lemma get_node_cases:
  assumes ok: "\<forall>x \<in> set fl. ok_free x" and nw: "no_wrap qm qb0"
  obtains (none) "qdma_get_resource_node mem n qm qb0 fl = (None, fl, n)"
      "\<forall>e \<in> set fl. re_total_q e < qm"
  | (cut) pre b post qb where "fl = pre @ b # post" "fits b qb qm"
      "qdma_get_resource_node mem n qm qb0 fl =
         fragment_free_list mem n qm qb (length pre) (pre @ b # post)"
      "0 \<le>s qb0 \<Longrightarrow> \<exists>e \<in> set fl. fits e qb0 qm \<Longrightarrow> qb = qb0"
      "qb = qb0 \<or> (qb = re_qbase b \<and> (\<forall>e \<in> set fl. qm \<le> re_total_q e \<longrightarrow> re_total_q b \<le> re_total_q e))"
proof (cases "if 0 \<le>s qb0 then find_qbase_node qm qb0 0 fl else None")
  case None
  have nofit: "\<not> (\<exists>e \<in> set fl. fits e qb0 qm)" if "0 \<le>s qb0"
  proof -
    from None that have "find_qbase_node qm qb0 0 fl = None" by simp
    from find_qbase_node_None [OF this] honour_iff_fits [OF _ that nw] ok show ?thesis by blast
  qed
  show ?thesis
  proof (cases "find_best_node qm 0 None fl")
    case nb: None
    show ?thesis
    proof (rule none)
      show "qdma_get_resource_node mem n qm qb0 fl = (None, fl, n)"
        unfolding qdma_get_resource_node_def None by (simp add: nb)
      show "\<forall>e \<in> set fl. re_total_q e < qm" using find_best_node_None [OF nb] by blast
    qed
  next
    case (Some p)
    obtain i b where p: "p = (i, b)" by (cases p)
    from find_best_node_Some [OF Some [unfolded p]] obtain pre post
      where sp: "fl = pre @ b # post" "i = length pre" "qm \<le> re_total_q b" by auto
    have fb: "fits b (re_qbase b) qm" using ok sp by (intro best_fits) auto
    show ?thesis
    proof (rule cut [OF sp(1) fb])
      show "qdma_get_resource_node mem n qm qb0 fl =
         fragment_free_list mem n qm (re_qbase b) (length pre) (pre @ b # post)"
        unfolding qdma_get_resource_node_def None by (simp add: Some p sp(2)) (simp add: sp(1))
      show "re_qbase b = qb0 \<or> (re_qbase b = re_qbase b \<and>
          (\<forall>e \<in> set fl. qm \<le> re_total_q e \<longrightarrow> re_total_q b \<le> re_total_q e))"
        using find_best_node_best [OF Some [unfolded p]] by blast
    qed (use nofit in blast)
  qed
next
  case (Some i)
  then have nn: "0 \<le>s qb0" and fq: "find_qbase_node qm qb0 0 fl = Some i" by (auto split: if_splits)
  from find_qbase_node_Some [OF fq] obtain pre b post
    where sp: "fl = pre @ b # post" "i = length pre"
      and hon: "re_qbase b \<le>s qb0" "qb0 + qm \<le> re_qbase b + re_total_q b" by auto
  have "fits b qb0 qm" using honour_iff_fits [OF _ nn nw, of b] ok sp hon by auto
  moreover have "qdma_get_resource_node mem n qm qb0 fl =
      fragment_free_list mem n qm qb0 (length pre) (pre @ b # post)"
    unfolding qdma_get_resource_node_def Some by (simp add: sp(2)) (simp add: sp(1))
  ultimately show ?thesis using sp(1) by (intro cut [of pre b post qb0]) simp_all
qed

lemma get_node_Some:
  assumes ok: "\<forall>x \<in> set fl. ok_free x" and nw: "no_wrap qm qb0"
    and r: "qdma_get_resource_node mem n qm qb0 fl = (Some j, fl', n')"
  obtains pre b post qb where "fl = pre @ b # post" "fits b qb qm"
    "fl' ! j = \<lparr>re_qbase = qb, re_total_q = qm\<rparr>"
    "list_del_at j fl' = pre @ cut_left b qb @ cut_right b qb qm @ post"
    "0 \<le>s qb0 \<Longrightarrow> \<exists>e \<in> set fl. fits e qb0 qm \<Longrightarrow> qb = qb0"
proof (cases rule: get_node_cases [OF ok nw, of mem n])
  case 1
  with r show ?thesis by simp
next
  case (2 pre b post qb)
  with r have "fragment_free_list mem n qm qb (length pre) (pre @ b # post) = (Some j, fl', n')" by simp
  from that [OF 2(1,2) fragment_Some(2,3) [OF 2(2) this] 2(4)] show ?thesis .
qed

lemma get_node_None:
  assumes ok: "\<forall>x \<in> set fl. ok_free x" and nw: "no_wrap qm qb0"
    and r: "qdma_get_resource_node mem n qm qb0 fl = (None, fl', n')"
  shows get_node_None_reason: "(\<exists>k. \<not> mem k) \<or> (fl' = fl \<and> (\<forall>e \<in> set fl. re_total_q e < qm))"
    and get_node_None_ok: "\<forall>x \<in> set fl'. ok_free x"
    and get_node_None_cover: "cover fl' q = cover fl q"
    and get_node_None_sorted: "sorted_free fl \<Longrightarrow> sorted_free fl'"
proof -
  have "((\<exists>k. \<not> mem k) \<or> (fl' = fl \<and> (\<forall>e \<in> set fl. re_total_q e < qm))) \<and>
    (\<forall>x \<in> set fl'. ok_free x) \<and> cover fl' q = cover fl q \<and> (sorted_free fl \<longrightarrow> sorted_free fl')"
  proof (cases rule: get_node_cases [OF ok nw, of mem n])
    case 1
    with r ok show ?thesis by simp
  next
    case (2 pre b post qb)
    from r 2(3) have fr: "fragment_free_list mem n qm qb (length pre) (pre @ b # post) = (None, fl', n')"
      by simp
    from fragment_None(2) [OF 2(2) fr] show ?thesis
    proof
      assume "fl' = pre @ b # post"
      with 2(1) ok fragment_None(1) [OF 2(2) fr] show ?thesis by simp
    next
      assume "fits b qb 0 \<and> fl' = pre @ cut_left b qb @ cut_right b qb 0 @ post"
      then have f0: "fits b qb 0" and fl': "fl' = pre @ cut_left b qb @ cut_right b qb 0 @ post" by simp_all
      have "\<forall>x \<in> set fl'. ok_free x"
        using ok 2(1) fl' cut_left_props(1) [OF f0] cut_right_props(1) [OF f0] by auto
      moreover have "cover fl' q = cover fl q"
        using cover_cut [OF f0, of pre post q] 2(1) fl' in_blk_zero [of "\<lparr>re_qbase = qb, re_total_q = 0\<rparr>"]
        by simp
      ultimately show ?thesis
        using fragment_None(1) [OF 2(2) fr] sorted_cut [OF f0] 2(1) fl' by blast
    qed
  qed
  then show "(\<exists>k. \<not> mem k) \<or> (fl' = fl \<and> (\<forall>e \<in> set fl. re_total_q e < qm))"
    and "\<forall>x \<in> set fl'. ok_free x" and "cover fl' q = cover fl q"
    and "sorted_free fl \<Longrightarrow> sorted_free fl'" by blast+
qed

text \<open>What taking the chosen node out of the list means for coverage and order.\<close>

lemma get_node_taken:
  assumes ok: "\<forall>x \<in> set fl. ok_free x" and nw: "no_wrap qm qb0"
    and r: "qdma_get_resource_node mem n qm qb0 fl = (Some j, fl', n')"
  shows taken_total: "re_total_q (fl' ! j) = qm"
    and taken_ok: "\<forall>x \<in> set (list_del_at j fl'). ok_free x"
    and taken_ok_entry: "ok_entry (fl' ! j)"
    and taken_cover: "cover (fl' ! j # list_del_at j fl') q = cover fl q"
    and taken_sorted: "sorted_free fl \<Longrightarrow> sorted_free (list_del_at j fl')"
    and taken_honoured: "0 \<le>s qb0 \<Longrightarrow> \<exists>e \<in> set fl. fits e qb0 qm \<Longrightarrow> re_qbase (fl' ! j) = qb0"
proof -
  obtain pre b post qb where sp: "fl = pre @ b # post" and f: "fits b qb qm"
    and nd: "fl' ! j = \<lparr>re_qbase = qb, re_total_q = qm\<rparr>"
    and dl: "list_del_at j fl' = pre @ cut_left b qb @ cut_right b qb qm @ post"
    and hon: "0 \<le>s qb0 \<Longrightarrow> \<exists>e \<in> set fl. fits e qb0 qm \<Longrightarrow> qb = qb0"
    using get_node_Some [OF ok nw r] by metis
  show "re_total_q (fl' ! j) = qm" by (simp add: nd)
  show "\<forall>x \<in> set (list_del_at j fl'). ok_free x"
    using ok sp dl cut_left_props(1) [OF f] cut_right_props(1) [OF f] by auto
  show "ok_entry (fl' ! j)"
  proof -
    from f obtain t where "uint qb + uint qm = t" "t \<le> blk_end b" "blk_end b < 2147483648"
      by (rule fits_bounds)
    then show ?thesis by (simp add: ok_entry_def nd blk_end_def)
  qed
  show "cover (fl' ! j # list_del_at j fl') q = cover fl q"
    unfolding nd dl sp by (rule cover_cut [OF f])
  show "sorted_free fl \<Longrightarrow> sorted_free (list_del_at j fl')"
    unfolding dl sp by (rule sorted_cut [OF f])
  show "0 \<le>s qb0 \<Longrightarrow> \<exists>e \<in> set fl. fits e qb0 qm \<Longrightarrow> re_qbase (fl' ! j) = qb0"
    using hon nd by simp
qed

end
