(* ===== verification/Qdma_Resource_Reach.thy ===== *)
theory Qdma_Resource_Reach
  imports Qdma_Resource_Inv
begin

text \<open>
  The contract of \<open>qdma_request_q_resource\<close>, the invariant of a master resource, its
  preservation by every exported operation, and the states reachable by any sequence of
  calls.
\<close>

section \<open>One request\<close>

definition block_within :: "qdma_resource_entry \<Rightarrow> qdma_resource_entry \<Rightarrow> bool" where
  "block_within x y \<longleftrightarrow> uint (re_qbase y) \<le> uint (re_qbase x) \<and> blk_end x \<le> blk_end y"

lemma stretch_within:
  "\<forall>e \<in> set (s # fl). ok_free e \<Longrightarrow> x \<in> set (s # fl) \<Longrightarrow> \<exists>y \<in> set (stretch s fl). block_within x y"
proof (induction s fl arbitrary: x rule: stretch.induct)
  case (1 s)
  then show ?case by (auto simp: block_within_def)
next
  case (2 s z zs)
  let ?m = "s\<lparr>re_total_q := re_total_q s + re_total_q z\<rparr>"
  show ?case
  proof (cases "re_qbase s + re_total_q s = re_qbase z")
    case True
    with 2(3) have t: "blk_end s = uint (re_qbase z)" by (simp add: touching_iff)
    have ok: "ok_free s" "ok_free z" using 2(3) by simp_all
    note m = merged_block [OF ok t]
    have okm: "\<forall>e \<in> set (?m # zs). ok_free e" using 2(3) m(2) by simp
    have le: "uint (re_qbase s) \<le> blk_end s" "uint (re_qbase z) \<le> blk_end z"
      by (simp_all add: blk_end_def)
    have in_m: "block_within s ?m" "block_within z ?m" using t le m(1) by (auto simp: block_within_def)
    have trans: "block_within u w" if "block_within u v" "block_within v w" for u v w
      using that by (auto simp: block_within_def)
    have ih: "\<exists>y \<in> set (stretch ?m zs). block_within u y" if "u \<in> set (?m # zs)" for u
      using 2(1) [OF True okm that] .
    show ?thesis
    proof (cases "x \<in> set zs")
      case True
      with ih \<open>re_qbase s + re_total_q s = re_qbase z\<close> show ?thesis by simp
    next
      case False
      with 2(4) in_m have "block_within x ?m" by auto
      moreover obtain y where "y \<in> set (stretch ?m zs)" "block_within ?m y" using ih [of ?m] by auto
      ultimately show ?thesis using True trans by auto
    qed
  next
    case False
    have self: "block_within s s" by (simp add: block_within_def)
    show ?thesis
    proof (cases "x = s")
      case True
      with False self show ?thesis by auto
    next
      case ne: False
      with 2(2) [OF False] 2(3,4) have "\<exists>y \<in> set (stretch z zs). block_within x y" by simp
      with False show ?thesis by auto
    qed
  qed
qed

lemma submit_within:
  assumes "\<forall>x \<in> set fl. ok_free x" and "ok_entry e" and "re_total_q e \<noteq> 0" and "mem n"
    and "qdma_submit_to_free_list mem n e fl = (e', fl', n')"
  shows "\<exists>y \<in> set fl'. block_within e y"
proof -
  have e: "\<lparr>re_qbase = re_qbase e, re_total_q = re_total_q e\<rparr> = e" by simp
  have fl': "fl' = defragment (free_insert e fl)"
    using assms(3-5) by (simp add: qdma_submit_to_free_list_def qdma_free_entry_create_def e)
  obtain x xs where c: "free_insert e fl = x # xs" and m: "e \<in> set (x # xs)"
    by (metis insertI1 list.set_cases set_free_insert)
  have "ok_free e" using assms(2,3) by (simp add: ok_entry_def ok_free_def)
  then have "\<forall>y \<in> set (x # xs). ok_free y" using assms(1) set_free_insert [of e fl] unfolding c by simp
  from stretch_within [OF this m] show ?thesis by (simp add: fl' c)
qed

lemma ok_entry_no_wrap: "ok_entry e \<Longrightarrow> no_wrap (re_total_q e) (re_qbase e)"
  using unsigned_less [of "re_qbase e"] by (auto simp: ok_entry_def no_wrap_def blk_end_def)

lemma cover_tail_le: "cover fl q \<le> cover (e # fl) q"
  by simp

lemma cover_disjoint:
  "cover (e # fl) q \<le> 1 \<Longrightarrow> in_blk q e \<Longrightarrow> cover fl q = 0"
  by simp

text \<open>The invariants a request keeps, on every branch and even when allocations fail.\<close>

lemma request_props:
  assumes ok: "\<forall>x \<in> set fl. ok_free x" and oke: "ok_entry e" and so: "sorted_free fl"
    and dis: "\<And>q. cover (e # fl) q \<le> 1" and nw: "no_wrap new_qmax new_qbase"
    and r: "qdma_request_q_resource mem n e new_qmax new_qbase fl = (rv, e', fl', n')"
  shows request_ok: "\<forall>x \<in> set fl'. ok_free x" and request_ok_entry: "ok_entry e'"
    and request_sorted: "sorted_free fl'"
    and request_cover_le: "cover (e' # fl') q \<le> cover (e # fl) q"
    and request_cover: "(\<forall>k. mem k) \<Longrightarrow> cover (e' # fl') q = cover (e # fl) q"
proof -
  obtain e1 fl1 n1 where s: "qdma_submit_to_free_list mem n e fl = (e1, fl1, n1)"
    by (metis prod_cases3)
  note sp = submit_props [OF ok oke s]
  have so1: "sorted_free fl1" using submit_sorted(1) [OF ok oke so _ s] dis cover_disjoint by metis
  have c1: "cover fl1 q \<le> cover (e # fl) q" for q using sp(3) [of q] by simp
  have c1m: "cover fl1 q = cover (e # fl) q" if "\<forall>k. mem k" for q
    using sp(3) [of q] in_blk_zero [OF sp(4)] that by simp
  obtain o2 fl2 n2 where g: "qdma_get_resource_node mem n1 new_qmax new_qbase fl1 = (o2, fl2, n2)"
    by (metis prod_cases3)
  obtain o3 fl3 n3 where h: "qdma_get_resource_node mem n2 (re_total_q e) (re_qbase e) fl2 = (o3, fl3, n3)"
    by (metis prod_cases3)
  note rr = r [unfolded qdma_request_q_resource_def s g Let_def, simplified]
  note nwe = ok_entry_no_wrap [OF oke]
  have "(\<forall>x \<in> set fl'. ok_free x) \<and> ok_entry e' \<and> sorted_free fl' \<and>
        cover (e' # fl') q \<le> cover (e # fl) q \<and> ((\<forall>k. mem k) \<longrightarrow> cover (e' # fl') q = cover (e # fl) q)"
  proof (cases "new_qmax = 0")
    case True
    with rr have "e' = e1" "fl' = fl1" by auto
    then show ?thesis using sp(1,2) sp(3) [of q] so1 by simp
  next
    case nz: False
    show ?thesis
    proof (cases o2)
      case (Some j)
      with nz rr g have *: "e' = fl2 ! j" "fl' = list_del_at j fl2" by auto
      note t = get_node_taken [OF sp(1) nw g [unfolded Some]]
      show ?thesis using t(2,3) t(4) [of q] t(5) [OF so1] c1 c1m unfolding * by metis
    next
      case None
      note gn = get_node_None [OF sp(1) nw g [unfolded None]]
      have so2: "sorted_free fl2" using gn(4) so1 by blast
      show ?thesis
      proof (cases o3)
        case (Some j)
        with None nz rr g h have *: "e' = fl3 ! j" "fl' = list_del_at j fl3" by auto
        note t = get_node_taken [OF gn(2) nwe h [unfolded Some]]
        show ?thesis using t(2,3) t(4) [of q] t(5) [OF so2] gn(3) c1 c1m unfolding * by metis
      next
        case n3: None
        with None nz rr g h have *: "e' = \<lparr>re_qbase = -1, re_total_q = 0\<rparr>" "fl' = fl3" by auto
        note t = get_node_None [OF gn(2) nwe h [unfolded n3]]
        have "cover (e' # fl') q = cover fl1 q"
          using t(3) [of q] gn(3) [of q] in_blk_zero [of e'] * by simp
        then show ?thesis using t(2) t(4) [OF so2] c1 c1m * by (simp add: ok_entry_def)
      qed
    qed
  qed
  then show "\<forall>x \<in> set fl'. ok_free x" and "ok_entry e'" and "sorted_free fl'"
    and "cover (e' # fl') q \<le> cover (e # fl) q"
    and "(\<forall>k. mem k) \<Longrightarrow> cover (e' # fl') q = cover (e # fl) q" by blast+
qed

text \<open>The result code: success means exactly the requested number of queues, at the requested
  base if that range was free; failure means that no free block was large enough, and the
  device keeps what it had.\<close>

lemma request_success:
  assumes ok: "\<forall>x \<in> set fl. ok_free x" and oke: "ok_entry e" and nw: "no_wrap new_qmax new_qbase"
    and r: "qdma_request_q_resource mem n e new_qmax new_qbase fl = (0, e', fl', n')"
    and nz: "new_qmax \<noteq> 0"
  shows "re_total_q e' = new_qmax"
    and "0 \<le>s new_qbase \<Longrightarrow>
      \<exists>x \<in> set (fst (snd (qdma_submit_to_free_list mem n e fl))). fits x new_qbase new_qmax \<Longrightarrow>
      re_qbase e' = new_qbase"
proof -
  obtain e1 fl1 n1 where s: "qdma_submit_to_free_list mem n e fl = (e1, fl1, n1)"
    by (metis prod_cases3)
  note sp = submit_props [OF ok oke s]
  obtain o2 fl2 n2 where g: "qdma_get_resource_node mem n1 new_qmax new_qbase fl1 = (o2, fl2, n2)"
    by (metis prod_cases3)
  from r nz obtain j where j: "o2 = Some j" "e' = fl2 ! j"
    by (auto simp: qdma_request_q_resource_def s g Let_def split: option.splits prod.splits)
  note t = get_node_taken [OF sp(1) nw g [unfolded j(1)]]
  show "re_total_q e' = new_qmax" using t(1) j by simp
  show "re_qbase e' = new_qbase" if "0 \<le>s new_qbase"
    "\<exists>x \<in> set (fst (snd (qdma_submit_to_free_list mem n e fl))). fits x new_qbase new_qmax"
    using t(6) that j s by simp
qed

lemma request_failure:
  assumes ok: "\<forall>x \<in> set fl. ok_free x" and oke: "ok_entry e" and nw: "no_wrap new_qmax new_qbase"
    and mem: "\<forall>k. mem k"
    and r: "qdma_request_q_resource mem n e new_qmax new_qbase fl = (rv, e', fl', n')"
  shows "rv = (if new_qmax \<noteq> 0 \<and>
      (\<forall>x \<in> set (fst (snd (qdma_submit_to_free_list mem n e fl))). re_total_q x < new_qmax)
     then - err_code QDMA_ERR_RM_NO_QUEUES_LEFT else 0)"
    and "rv \<noteq> 0 \<Longrightarrow> re_total_q e \<noteq> 0 \<Longrightarrow> e' = e"
proof -
  obtain e1 fl1 n1 where s: "qdma_submit_to_free_list mem n e fl = (e1, fl1, n1)"
    by (metis prod_cases3)
  note sp = submit_props [OF ok oke s]
  obtain o2 fl2 n2 where g: "qdma_get_resource_node mem n1 new_qmax new_qbase fl1 = (o2, fl2, n2)"
    by (metis prod_cases3)
  have big: "\<exists>x \<in> set fl1. \<not> re_total_q x < new_qmax" if "o2 = Some j" for j
  proof -
    from get_node_Some [OF sp(1) nw g [unfolded that]] obtain pre b post qb
      where "fl1 = pre @ b # post" "fits b qb new_qmax" by metis
    moreover from this(2) have "uint new_qmax \<le> uint (re_total_q b)"
      by (auto simp: fits_def blk_end_def)
    ultimately show ?thesis by (auto simp: word_less_def)
  qed
  have small: "fl2 = fl1 \<and> (\<forall>x \<in> set fl1. re_total_q x < new_qmax)" if "o2 = None"
    using get_node_None(1) [OF sp(1) nw g [unfolded that]] mem by blast
  obtain o3 fl3 n3 where h: "qdma_get_resource_node mem n2 (re_total_q e) (re_qbase e) fl2 = (o3, fl3, n3)"
    by (metis prod_cases3)
  show rv: "rv = (if new_qmax \<noteq> 0 \<and>
      (\<forall>x \<in> set (fst (snd (qdma_submit_to_free_list mem n e fl))). re_total_q x < new_qmax)
     then - err_code QDMA_ERR_RM_NO_QUEUES_LEFT else 0)"
    using r big small
    by (auto simp: qdma_request_q_resource_def s g Let_def split: option.splits if_splits prod.splits)
  show "e' = e" if rn: "rv \<noteq> 0" and tz: "re_total_q e \<noteq> 0"
  proof -
    have o2: "o2 = None" and nz: "new_qmax \<noteq> 0"
      using rv rn big s by (cases o2, auto split: if_splits)+
    from o2 small have fl2: "fl2 = fl1" by blast
    obtain y where y: "y \<in> set fl1" "block_within e y"
      using submit_within [OF ok oke tz _ s] mem by blast
    have "ok_free y" using y sp(1) by blast
    with y(2) have fy: "fits y (re_qbase e) (re_total_q e)"
      by (simp add: fits_def block_within_def blk_end_def)
    have base: "0 \<le>s re_qbase e"
    proof -
      have "ok_free e" using oke tz by (simp add: ok_entry_def ok_free_def)
      then have "uint (re_qbase e) < 2 ^ 31" by (rule ok_free_base)
      then show ?thesis by (simp add: word_sle_eq sint_small)
    qed
    have "uint (re_total_q e) \<le> uint (re_total_q y)" using y(2) by (simp add: block_within_def blk_end_def)
    then have "\<not> re_total_q y < re_total_q e" by (simp add: word_less_def)
    then obtain j where j: "o3 = Some j"
      using get_node_None(1) [OF sp(1) ok_entry_no_wrap [OF oke], of mem n2 fl3 n3] h fl2 mem y(1)
      by (cases o3) auto
    note t = get_node_taken [OF sp(1) ok_entry_no_wrap [OF oke] h [unfolded j fl2]]
    have "re_qbase e' = re_qbase e" "re_total_q e' = re_total_q e"
      using r nz o2 j t(1) t(6) [OF base] fy y(1)
      by (auto simp: qdma_request_q_resource_def s g h Let_def)
    then show ?thesis by simp
  qed
qed

end
