(* ===== verification/Qdma_Resource_System.thy ===== *)
theory Qdma_Resource_System
  imports Qdma_Resource_Reach
begin

text \<open>
  The invariant of the resource manager's state, its preservation by every exported operation
  of \<open>qdma_resource_mgmt.c\<close>, and the states reachable by any sequence of calls whose ranges do not wrap around (\<open>rm_reach\<close>; \<open>rm_run\<close>
  runs a list of calls, \<open>call_fits\<close> says what a call that does not wrap is).
  \<open>own m q\<close> counts how often queue \<open>q\<close> occurs in the free list and the device entries of
  master \<open>m\<close>: at most once inside the range of the master and never outside it, and exactly
  once when no allocation fails.
\<close>

section \<open>The invariant\<close>

definition own :: "qdma_resource_master \<Rightarrow> int \<Rightarrow> nat" where
  "own m q = cover (free_list m) q + cover (map de_entry (dev_list m)) q"

definition in_master :: "qdma_resource_master \<Rightarrow> int \<Rightarrow> nat" where
  "in_master m q =
     (if uint (rm_qbase m) \<le> q \<and> q < uint (rm_qbase m) + uint (rm_total_q m) then 1 else 0)"

definition counters_ok :: "qdma_dev_entry \<Rightarrow> bool" where
  "counters_ok d \<longleftrightarrow>
     active_h2c_qcnt d \<le> re_total_q (de_entry d) \<and> active_c2h_qcnt d \<le> re_total_q (de_entry d) \<and>
     active_cmpt_qcnt d \<le> re_total_q (de_entry d)"

definition master_inv :: "bool \<Rightarrow> qdma_resource_master \<Rightarrow> bool" where
  "master_inv full m \<longleftrightarrow>
     (\<forall>e \<in> set (free_list m). ok_free e) \<and> sorted_free (free_list m) \<and>
     (\<forall>d \<in> set (dev_list m). ok_entry (de_entry d) \<and> counters_ok d) \<and>
     distinct (map de_func_id (dev_list m)) \<and>
     (\<forall>q. own m q \<le> in_master m q) \<and> (full \<longrightarrow> (\<forall>q. own m q = in_master m q))"

definition rm_inv :: "(nat \<Rightarrow> bool) \<Rightarrow> rm_state \<Rightarrow> bool" where
  "rm_inv mem s \<longleftrightarrow> (\<forall>m \<in> set (master_resource_list s). master_inv (\<forall>n. mem n) m)"

lemma in_master_le_1: "in_master m q \<le> 1"
  by (simp add: in_master_def)

lemma own_split:
  "dev_list m = as @ d # bs \<Longrightarrow>
   own m q = cover (de_entry d # free_list m) q + cover (map de_entry (as @ bs)) q"
  by (simp add: own_def cover_append)

lemma master_inv_disjoint:
  assumes "master_inv full m" and "dev_list m = as @ d # bs"
  shows "cover (de_entry d # free_list m) q \<le> 1"
  using assms own_split [OF assms(2), of q] in_master_le_1 [of m q]
  by (auto simp: master_inv_def dest: spec [of _ q])

text \<open>Replacing the block of one device and the free list, as long as the replacement holds
  no queue the old pair did not hold.\<close>

lemma master_inv_exchange:
  assumes inv: "master_inv full m" and sp: "dev_list m = as @ d # bs"
    and ok: "\<forall>e \<in> set fl. ok_free e" "sorted_free fl" "ok_entry e" "counters_ok (d\<lparr>de_entry := e\<rparr>)"
    and le: "\<And>q. cover (e # fl) q \<le> cover (de_entry d # free_list m) q"
    and eq: "\<And>q. full \<Longrightarrow> cover (e # fl) q = cover (de_entry d # free_list m) q"
  shows "master_inv full (m\<lparr>free_list := fl, dev_list := as @ d\<lparr>de_entry := e\<rparr> # bs\<rparr>)"
proof -
  let ?m = "m\<lparr>free_list := fl, dev_list := as @ d\<lparr>de_entry := e\<rparr> # bs\<rparr>"
  have o: "own ?m q = cover (e # fl) q + cover (map de_entry (as @ bs)) q" for q
    by (simp add: own_def cover_append)
  have i: "in_master ?m q = in_master m q" for q by (simp add: in_master_def)
  have "own ?m q \<le> own m q" for q using le [of q] own_split [OF sp, of q] o [of q] by linarith
  then have 1: "\<forall>q. own ?m q \<le> in_master ?m q"
    using inv unfolding i master_inv_def by (meson order_trans)
  have 2: "full \<longrightarrow> (\<forall>q. own ?m q = in_master ?m q)"
    using inv eq own_split [OF sp] o unfolding i master_inv_def by simp
  show ?thesis using inv ok sp 1 2 unfolding master_inv_def by auto
qed

text \<open>Taking a device out of the list, when its block went back.\<close>

lemma master_inv_drop:
  assumes inv: "master_inv full m" and sp: "dev_list m = as @ d # bs"
    and ok: "\<forall>e \<in> set fl. ok_free e" "sorted_free fl"
    and le: "\<And>q. cover fl q \<le> cover (de_entry d # free_list m) q"
    and eq: "\<And>q. full \<Longrightarrow> cover fl q = cover (de_entry d # free_list m) q"
  shows "master_inv full (m\<lparr>free_list := fl, dev_list := as @ bs\<rparr>)"
proof -
  let ?m = "m\<lparr>free_list := fl, dev_list := as @ bs\<rparr>"
  have o: "own ?m q = cover fl q + cover (map de_entry (as @ bs)) q" for q
    by (simp add: own_def cover_append)
  have i: "in_master ?m q = in_master m q" for q by (simp add: in_master_def)
  have "own ?m q \<le> own m q" for q using le [of q] own_split [OF sp, of q] o [of q] by linarith
  then have 1: "\<forall>q. own ?m q \<le> in_master ?m q"
    using inv unfolding i master_inv_def by (meson order_trans)
  have 2: "full \<longrightarrow> (\<forall>q. own ?m q = in_master ?m q)"
    using inv eq own_split [OF sp] o unfolding i master_inv_def by simp
  show ?thesis using inv ok sp 1 2 unfolding master_inv_def by auto
qed

lemma master_inv_counters:
  assumes "master_inv full m" and "dev_list m = as @ d # bs" and "counters_ok d'"
    and "de_entry d' = de_entry d" and "de_func_id d' = de_func_id d"
  shows "master_inv full (m\<lparr>dev_list := as @ d' # bs, rm_active_qcnt := c\<rparr>)"
  using assms unfolding master_inv_def
  by (auto simp: own_def in_master_def cover_append)

section \<open>Every operation keeps the invariant\<close>

lemma find_master_in:
  "qdma_get_master_resource_entry idx s = Some m \<Longrightarrow> m \<in> set (master_resource_list s)"
  by (auto simp: qdma_get_master_resource_entry_def dest: find_SomeD)

lemma rm_inv_master:
  "rm_inv mem s \<Longrightarrow> qdma_get_master_resource_entry idx s = Some m \<Longrightarrow> master_inv (\<forall>n. mem n) m"
  using find_master_in by (auto simp: rm_inv_def)

lemma find_master_allocs [simp]:
  "qdma_get_master_resource_entry idx (s\<lparr>rm_allocs := n\<rparr>) = qdma_get_master_resource_entry idx s"
  by (simp add: qdma_get_master_resource_entry_def)

lemma rm_inv_allocs [simp]: "rm_inv mem (s\<lparr>rm_allocs := n\<rparr>) = rm_inv mem s"
  by (simp add: rm_inv_def)

lemma rm_inv_set_master:
  assumes "rm_inv mem s" and "qdma_get_master_resource_entry idx s = Some m"
    and "master_inv (\<forall>n. mem n) (f m)"
  shows "rm_inv mem (set_master idx f s)"
proof -
  obtain as bs where sp: "master_resource_list s = as @ m # bs" and i: "dma_device_index m = idx"
    and n: "\<forall>a \<in> set as. dma_device_index a \<noteq> idx"
    using find_split [OF assms(2) [unfolded qdma_get_master_resource_entry_def]] by metis
  have "master_resource_list (set_master idx f s) = as @ f m # bs"
    unfolding set_master_def sp by (simp add: map_first_split [where P = "\<lambda>m. dma_device_index m = idx", OF i n])
  with assms(1,3) sp show ?thesis unfolding rm_inv_def by simp
qed

lemma get_dev_split:
  assumes "qdma_get_master_resource_entry idx s = Some m" and "qdma_get_dev_entry idx f s = Some d"
  obtains as bs where "dev_list m = as @ d # bs" "de_func_id d = f" "\<forall>a \<in> set as. de_func_id a \<noteq> f"
  using assms find_split [of "\<lambda>d. de_func_id d = f" "dev_list m" d] that
  by (auto simp: qdma_get_dev_entry_def)

lemma get_dev_None:
  "qdma_get_master_resource_entry idx s = Some m \<Longrightarrow> qdma_get_dev_entry idx f s = None \<Longrightarrow>
   f \<notin> set (map de_func_id (dev_list m))"
  by (auto simp: qdma_get_dev_entry_def find_None_iff)

lemma master_create_inv:
  assumes "rm_inv mem s" and "total_q \<noteq> 0" and "uint q_base + uint total_q < 2 ^ 31"
  shows "rm_inv mem (snd (snd (qdma_master_resource_create mem bs be q_base total_q s)))"
proof -
  let ?m = "\<lparr>dma_device_index = rm_index s, pci_bus_start = bs, pci_bus_end = be,
    rm_total_q = total_q, rm_qbase = q_base, dev_list = [],
    free_list = [\<lparr>re_qbase = q_base, re_total_q = total_q\<rparr>], rm_active_qcnt = 0\<rparr>"
  have "master_inv (\<forall>n. mem n) ?m"
    using assms(2,3) by (simp add: master_inv_def own_def in_master_def ok_free_def blk_end_def
        in_blk_def sorted_free_def)
  with assms(1) show ?thesis
    by (simp add: qdma_master_resource_create_def rm_inv_def Let_def split: option.split)
qed

lemma master_destroy_inv: "rm_inv mem s \<Longrightarrow> rm_inv mem (qdma_master_resource_destroy idx s)"
  using set_remove_first
  by (fastforce simp: qdma_master_resource_destroy_def rm_inv_def split: option.splits)

lemma dev_create_inv:
  assumes "rm_inv mem s"
  shows "rm_inv mem (snd (qdma_dev_entry_create mem idx f s))"
proof (cases "qdma_get_master_resource_entry idx s")
  case None
  then show ?thesis using assms by (simp add: qdma_dev_entry_create_def)
next
  case (Some m)
  note m = rm_inv_master [OF assms Some]
  show ?thesis
  proof (cases "qdma_get_dev_entry idx f s")
    case None
    let ?d = "\<lparr>de_func_id = f, active_h2c_qcnt = 0, active_c2h_qcnt = 0, active_cmpt_qcnt = 0,
               de_entry = \<lparr>re_qbase = -1, re_total_q = 0\<rparr>\<rparr>"
    have "\<not> in_blk q (de_entry ?d)" for q by (rule in_blk_zero) simp
    then have "master_inv (\<forall>n. mem n) (m\<lparr>dev_list := dev_list m @ [?d]\<rparr>)"
      using m get_dev_None [OF Some None]
      by (auto simp: master_inv_def own_def in_master_def cover_append ok_entry_def counters_ok_def)
    then show ?thesis using assms Some None
      by (auto simp: qdma_dev_entry_create_def Let_def intro!: rm_inv_set_master)
  qed (use Some assms in \<open>simp add: qdma_dev_entry_create_def\<close>)
qed

lemma dev_destroy_inv:
  assumes "rm_inv mem s"
  shows "rm_inv mem (qdma_dev_entry_destroy mem idx f s)"
proof (cases "qdma_get_master_resource_entry idx s")
  case (Some m)
  note m = rm_inv_master [OF assms Some]
  show ?thesis
  proof (cases "qdma_get_dev_entry idx f s")
    case d: (Some d)
    obtain as bs where sp: "dev_list m = as @ d # bs" "de_func_id d = f"
      "\<forall>a \<in> set as. de_func_id a \<noteq> f" using get_dev_split [OF Some d] by metis
    obtain e fl n where sub:
      "qdma_submit_to_free_list mem (rm_allocs s) (de_entry d) (free_list m) = (e, fl, n)"
      by (metis prod_cases3)
    have ok: "\<forall>x \<in> set (free_list m). ok_free x" "ok_entry (de_entry d)" "sorted_free (free_list m)"
      using m sp by (auto simp: master_inv_def)
    note p = submit_props [OF ok(1,2) sub]
    have so: "sorted_free fl"
      using submit_sorted(1) [OF ok _ sub] master_inv_disjoint [OF m sp(1)] cover_disjoint by metis
    have "master_inv (\<forall>n. mem n) (m\<lparr>free_list := fl, dev_list := as @ bs\<rparr>)"
    proof (rule master_inv_drop [OF m sp(1) p(1) so])
      show "cover fl q \<le> cover (de_entry d # free_list m) q" for q
        using p(3) [of q] cover_tail_le [of fl q e] by simp
      show "cover fl q = cover (de_entry d # free_list m) q" if "\<forall>n. mem n" for q
        using p(3) [of q] in_blk_zero [OF p(4)] that by simp
    qed
    then show ?thesis using assms Some d sub sp
      by (auto simp: qdma_dev_entry_destroy_def remove_first_split intro!: rm_inv_set_master)
  qed (use Some assms in \<open>simp add: qdma_dev_entry_destroy_def\<close>)
qed (use assms in \<open>simp add: qdma_dev_entry_destroy_def\<close>)

lemma dev_update_inv:
  assumes "rm_inv mem s" and nw: "no_wrap qmax qbase"
  shows "rm_inv mem (snd (snd (qdma_dev_update mem idx f qmax qbase s)))"
proof (cases "qdma_get_master_resource_entry idx s")
  case (Some m)
  note m = rm_inv_master [OF assms(1) Some]
  show ?thesis
  proof (cases "qdma_get_dev_entry idx f s")
    case d: (Some d)
    obtain as bs where sp: "dev_list m = as @ d # bs" "de_func_id d = f"
      "\<forall>a \<in> set as. de_func_id a \<noteq> f" using get_dev_split [OF Some d] by metis
    obtain rv e fl n where r:
      "qdma_request_q_resource mem (rm_allocs s) (de_entry d) qmax qbase (free_list m) = (rv, e, fl, n)"
      by (metis prod_cases4)
    have ok: "\<forall>x \<in> set (free_list m). ok_free x" "ok_entry (de_entry d)" "sorted_free (free_list m)"
      using m sp by (auto simp: master_inv_def)
    note p = request_props [OF ok master_inv_disjoint [OF m sp(1)] nw r]
    have "master_inv (\<forall>n. mem n) (m\<lparr>free_list := fl, dev_list := as @ d\<lparr>de_entry := e\<rparr> # bs\<rparr>)"
      if "active_h2c_qcnt d = 0 \<and> active_c2h_qcnt d = 0 \<and> active_cmpt_qcnt d = 0"
      using master_inv_exchange [OF m sp(1) p(1,3,2)] that p(4,5) by (simp add: counters_ok_def)
    then show ?thesis using assms Some d r sp
      by (auto simp: qdma_dev_update_def set_dev_def map_first_split intro!: rm_inv_set_master)
  qed (use Some assms in \<open>simp add: qdma_dev_update_def\<close>)
qed (use assms in \<open>simp add: qdma_dev_update_def\<close>)

lemma set_active_qcnt_entry [simp]:
  "de_entry (set_active_qcnt t v d) = de_entry d" "de_func_id (set_active_qcnt t v d) = de_func_id d"
  by (cases t; simp)+

lemma set_active_qcnt_ok:
  "counters_ok d \<Longrightarrow> v \<le> re_total_q (de_entry d) \<Longrightarrow> counters_ok (set_active_qcnt t v d)"
  by (cases t) (simp_all add: counters_ok_def)

lemma active_qcnt_of_le: "counters_ok d \<Longrightarrow> active_qcnt_of t d = Some c \<Longrightarrow> c \<le> re_total_q (de_entry d)"
  by (cases t) (auto simp: counters_ok_def)

lemma set_dev_counters_inv:
  assumes "rm_inv mem s" "qdma_get_master_resource_entry idx s = Some m"
    and "qdma_get_dev_entry idx f s = Some d"
    and "counters_ok (g d)" "de_entry (g d) = de_entry d" "de_func_id (g d) = de_func_id d"
  shows "rm_inv mem (set_master idx (\<lambda>m. set_dev f g (m\<lparr>rm_active_qcnt := h m\<rparr>)) s)"
proof (rule rm_inv_set_master [OF assms(1,2)])
  obtain as bs where sp: "dev_list m = as @ d # bs" "de_func_id d = f"
    "\<forall>a \<in> set as. de_func_id a \<noteq> f" using get_dev_split [OF assms(2,3)] by metis
  then have "set_dev f g (m\<lparr>rm_active_qcnt := h m\<rparr>) = m\<lparr>dev_list := as @ g d # bs, rm_active_qcnt := h m\<rparr>"
    by (simp add: set_dev_def map_first_split)
  then show "master_inv (\<forall>n. mem n) (set_dev f g (m\<lparr>rm_active_qcnt := h m\<rparr>))"
    using master_inv_counters [OF rm_inv_master [OF assms(1,2)] sp(1) assms(4-6)] by simp
qed

lemma dev_counters_ok:
  assumes "rm_inv mem s" "qdma_get_master_resource_entry idx s = Some m"
    and "qdma_get_dev_entry idx f s = Some d"
  shows "counters_ok d" and "ok_entry (de_entry d)" and "d \<in> set (dev_list m)"
proof -
  obtain as bs where sp: "dev_list m = as @ d # bs" using get_dev_split [OF assms(2,3)] by metis
  then show "counters_ok d" and "ok_entry (de_entry d)" and "d \<in> set (dev_list m)"
    using rm_inv_master [OF assms(1,2)] by (auto simp: master_inv_def)
qed

lemma dev_increment_inv:
  assumes "rm_inv mem s"
  shows "rm_inv mem (snd (qdma_dev_increment_active_queue idx f t s))"
  using assms unfolding qdma_dev_increment_active_queue_def
  by (auto split: option.splits intro!: set_dev_counters_inv set_active_qcnt_ok dest: dev_counters_ok)

lemma word_pred_le: "(c :: u32) \<noteq> 0 \<Longrightarrow> c \<le> t \<Longrightarrow> c - 1 \<le> t"
  using uint_sub_small [of 1 c] uint_pos_iff [of c] by (auto simp: word_le_def)

lemma dev_decrement_inv:
  assumes "rm_inv mem s"
  shows "rm_inv mem (snd (qdma_dev_decrement_active_queue idx f t s))"
proof -
  have "counters_ok (set_active_qcnt t (c - 1) d)"
    if "counters_ok d" "active_qcnt_of t d = Some c" "c \<noteq> 0" for c d
    using set_active_qcnt_ok [OF that(1) word_pred_le [OF that(3) active_qcnt_of_le [OF that(1,2)]]] .
  then show ?thesis
    using assms unfolding qdma_dev_decrement_active_queue_def
    by (auto split: option.splits intro!: set_dev_counters_inv dest: dev_counters_ok)
qed

section \<open>Reachable states\<close>

text \<open>The callers' side: a master owns a non-empty range of non-negative \<open>int\<close> queue numbers,
  and the end of a requested range is a \<open>uint32_t\<close>.\<close>

inductive rm_reach :: "(nat \<Rightarrow> bool) \<Rightarrow> rm_state \<Rightarrow> bool" for mem where
  rm_init: "rm_reach mem \<lparr>master_resource_list = [], rm_index = 0, rm_allocs = 0\<rparr>"
| rm_create: "rm_reach mem s \<Longrightarrow> total_q \<noteq> 0 \<Longrightarrow> uint q_base + uint total_q < 2 ^ 31 \<Longrightarrow>
    rm_reach mem (snd (snd (qdma_master_resource_create mem bus_start bus_end q_base total_q s)))"
| rm_destroy: "rm_reach mem s \<Longrightarrow> rm_reach mem (qdma_master_resource_destroy idx s)"
| rm_dev_create: "rm_reach mem s \<Longrightarrow> rm_reach mem (snd (qdma_dev_entry_create mem idx f s))"
| rm_dev_destroy: "rm_reach mem s \<Longrightarrow> rm_reach mem (qdma_dev_entry_destroy mem idx f s)"
| rm_update: "rm_reach mem s \<Longrightarrow> no_wrap qmax qbase \<Longrightarrow>
    rm_reach mem (snd (snd (qdma_dev_update mem idx f qmax qbase s)))"
| rm_increment: "rm_reach mem s \<Longrightarrow> rm_reach mem (snd (qdma_dev_increment_active_queue idx f t s))"
| rm_decrement: "rm_reach mem s \<Longrightarrow> rm_reach mem (snd (qdma_dev_decrement_active_queue idx f t s))"

lemma reach_inv: "rm_reach mem s \<Longrightarrow> rm_inv mem s"
proof (induction rule: rm_reach.induct)
  case rm_init
  then show ?case by (simp add: rm_inv_def)
qed (blast intro: master_create_inv master_destroy_inv dev_create_inv dev_destroy_inv dev_update_inv
    dev_increment_inv dev_decrement_inv)+

text \<open>The same as a list of calls, with the condition on the callers apart: \<open>call_fits\<close> says that a range asked for does not wrap.\<close>

datatype rm_call =
  Create u32 u32 u32 u32
| Destroy u32
| Dev_create u32 u16
| Dev_destroy u32 u16
| Update u32 u16 u32 u32
| Increment u32 u16 qdma_dev_q_type
| Decrement u32 u16 qdma_dev_q_type

fun rm_do :: "(nat \<Rightarrow> bool) \<Rightarrow> rm_state \<Rightarrow> rm_call \<Rightarrow> rm_state" where
  "rm_do mem s (Create bus_start bus_end q_base total_q) = snd (snd (qdma_master_resource_create mem bus_start bus_end q_base total_q s))"
| "rm_do mem s (Destroy idx) = qdma_master_resource_destroy idx s"
| "rm_do mem s (Dev_create idx f) = snd (qdma_dev_entry_create mem idx f s)"
| "rm_do mem s (Dev_destroy idx f) = qdma_dev_entry_destroy mem idx f s"
| "rm_do mem s (Update idx f qmax qbase) = snd (snd (qdma_dev_update mem idx f qmax qbase s))"
| "rm_do mem s (Increment idx f t) = snd (qdma_dev_increment_active_queue idx f t s)"
| "rm_do mem s (Decrement idx f t) = snd (qdma_dev_decrement_active_queue idx f t s)"

definition rm_run :: "(nat \<Rightarrow> bool) \<Rightarrow> rm_call list \<Rightarrow> rm_state" where
  "rm_run mem calls = foldl (rm_do mem) \<lparr>master_resource_list = [], rm_index = 0, rm_allocs = 0\<rparr> calls"

fun call_fits :: "rm_call \<Rightarrow> bool" where
  "call_fits (Create _ _ q_base total_q) \<longleftrightarrow> total_q \<noteq> 0 \<and> uint q_base + uint total_q < 2 ^ 31"
| "call_fits (Update _ _ qmax qbase) \<longleftrightarrow> (0 \<le>s qbase \<longrightarrow> uint qbase + uint qmax < 2 ^ 32)"
| "call_fits _ \<longleftrightarrow> True"

lemma run_reach: "\<forall>c \<in> set calls. call_fits c \<Longrightarrow> rm_reach mem (rm_run mem calls)"
proof (induction calls rule: rev_induct)
  case Nil
  then show ?case by (simp add: rm_run_def rm_init)
next
  case (snoc c calls)
  then have r: "rm_reach mem (rm_run mem calls)" by simp
  have "rm_run mem (calls @ [c]) = rm_do mem (rm_run mem calls) c" by (simp add: rm_run_def)
  then show ?case using r snoc.prems by (cases c) (simp_all add: no_wrap_def rm_reach.intros)
qed

end
