(* ===== verification/Qdma_Resource_Props.thy ===== *)
theory Qdma_Resource_Props
  imports Qdma_Resource_System
begin

text \<open>
  What the resource manager promises its callers, in every state that calls without wrapping ranges reach: queue isolation
  between PCI functions, conservation of queues, the outcome of \<open>qdma_dev_update\<close> on both
  branches, and the return of the whole range when the last owner leaves.
\<close>

section \<open>Ownership\<close>

definition holds_queue :: "u32 \<Rightarrow> u16 \<Rightarrow> int \<Rightarrow> rm_state \<Rightarrow> bool" where
  "holds_queue idx f q s \<longleftrightarrow>
     (case qdma_get_dev_entry idx f s of None \<Rightarrow> False | Some d \<Rightarrow> in_blk q (de_entry d))"

lemma cover_two:
  assumes "x \<in> set ds" "y \<in> set ds" "x \<noteq> y" "in_blk q (h x)" "in_blk q (h y)"
  shows "2 \<le> cover (map h ds) q"
  using assms
proof (induction ds)
  case (Cons a ds)
  have one: "1 \<le> cover (map h ds) q" if "z \<in> set ds" "in_blk q (h z)" for z
    using cover_mem [of "h z" "map h ds" q] that by simp
  show ?case
  proof (cases "x \<in> set ds \<and> y \<in> set ds")
    case True
    with Cons have "2 \<le> cover (map h ds) q" by blast
    then show ?thesis by simp
  next
    case False
    with Cons.prems have "a = x \<and> y \<in> set ds \<or> a = y \<and> x \<in> set ds" by auto
    with Cons.prems(4,5) one show ?thesis by auto
  qed
qed simp

lemma get_dev_in:
  "qdma_get_dev_entry idx f s = Some d \<Longrightarrow>
   \<exists>m. qdma_get_master_resource_entry idx s = Some m \<and> d \<in> set (dev_list m) \<and> de_func_id d = f"
  by (auto simp: qdma_get_dev_entry_def dest: find_SomeD split: option.splits)

lemma holds_queue_unique:
  assumes "rm_inv mem s" "holds_queue idx f q s" "holds_queue idx g q s"
  shows "f = g"
proof (rule ccontr)
  assume ne: "f \<noteq> g"
  obtain d d' where d: "qdma_get_dev_entry idx f s = Some d" "in_blk q (de_entry d)"
    and d': "qdma_get_dev_entry idx g s = Some d'" "in_blk q (de_entry d')"
    using assms(2,3) by (auto simp: holds_queue_def split: option.splits)
  obtain m where m: "qdma_get_master_resource_entry idx s = Some m" "d \<in> set (dev_list m)"
    "d' \<in> set (dev_list m)" and dd: "d \<noteq> d'"
    using get_dev_in [OF d(1)] get_dev_in [OF d'(1)] ne by fastforce
  have "2 \<le> cover (map de_entry (dev_list m)) q" using cover_two m(2,3) dd d(2) d'(2) by metis
  moreover have "own m q \<le> 1"
    using rm_inv_master [OF assms(1) m(1)] in_master_le_1 [of m q] unfolding master_inv_def
    by (meson order_trans)
  ultimately show False by (simp add: own_def)
qed

lemma ok_entry_range:
  fixes q :: u32
  assumes "ok_entry e"
  shows "re_total_q e \<noteq> 0 \<and> q < re_qbase e + re_total_q e \<and> re_qbase e \<le>s q \<longleftrightarrow> in_blk (uint q) e"
proof (cases "re_total_q e = 0")
  case True
  then show ?thesis using in_blk_zero by blast
next
  case False
  then have ok: "ok_free e" using assms by (simp add: ok_entry_def ok_free_def)
  then have b: "blk_end e < 2 ^ 31" by (simp add: ok_free_def)
  have s: "re_qbase e \<le>s q \<longleftrightarrow> uint (re_qbase e) \<le> uint q" if "uint q < 2 ^ 31"
    using sint_small [OF that] sint_small [OF ok_free_base [OF ok]] by (simp add: word_sle_eq)
  have "q < re_qbase e + re_total_q e \<longleftrightarrow> uint q < blk_end e"
    by (simp add: word_less_def ok_free_sum [OF ok])
  then show ?thesis using False b s by (auto simp: in_blk_def)
qed

lemma in_range_iff:
  assumes "rm_inv mem s"
  shows "qdma_dev_is_queue_in_range idx f q s = QDMA_DEV_Q_IN_RANGE \<longleftrightarrow> holds_queue idx f (uint q) s"
proof (cases "qdma_get_dev_entry idx f s")
  case None
  then show ?thesis
    by (simp add: qdma_dev_is_queue_in_range_def holds_queue_def split: option.split)
next
  case (Some d)
  then obtain m where m: "qdma_get_master_resource_entry idx s = Some m" using get_dev_in by blast
  from ok_entry_range [OF dev_counters_ok(2) [OF assms m Some]] m Some show ?thesis
    by (simp add: qdma_dev_is_queue_in_range_def holds_queue_def Let_def)
qed

section \<open>A coalesced list that covers one interval is one block\<close>

lemma coalesced_single:
  assumes "coalesced fl" and "\<forall>e \<in> set fl. ok_free e" and "lo < hi"
    and c: "\<And>q. cover fl q = (if lo \<le> q \<and> q < hi then 1 else 0)"
  shows "\<exists>e. fl = [e] \<and> uint (re_qbase e) = lo \<and> blk_end e = hi"
proof (cases fl)
  case Nil
  with c [of lo] assms(3) show ?thesis by simp
next
  case (Cons e es)
  have oke: "uint (re_qbase e) < blk_end e" using assms(2) Cons ok_free_pos by auto
  show ?thesis
  proof (cases es)
    case Nil
    have "in_blk q e \<longleftrightarrow> lo \<le> q \<and> q < hi" for q
      using c [of q] Cons Nil by (auto split: if_splits)
    from this [of lo] this [of "hi - 1"] this [of "uint (re_qbase e)"] this [of "blk_end e - 1"]
    have "uint (re_qbase e) = lo \<and> blk_end e = hi" using assms(3) oke by (auto simp: in_blk_def)
    with Cons Nil show ?thesis by simp
  next
    case (Cons e2 es2)
    have gap: "\<forall>x \<in> set es. blk_end e < uint (re_qbase x)"
      using assms(1) \<open>fl = e # es\<close> by (simp add: coalesced_def)
    have "uint (re_qbase e2) < blk_end e2" using assms(2) \<open>fl = e # es\<close> Cons ok_free_pos by auto
    then have "1 \<le> cover fl (uint (re_qbase e))" "1 \<le> cover fl (uint (re_qbase e2))"
      using oke \<open>fl = e # es\<close> Cons by (auto simp: in_blk_def)
    then have r: "lo \<le> uint (re_qbase e)" "uint (re_qbase e2) < hi"
      using c [of "uint (re_qbase e)"] c [of "uint (re_qbase e2)"] by (auto split: if_splits)
    have "blk_end e < uint (re_qbase e2)" using gap Cons by simp
    with r oke have "cover fl (blk_end e) = 1" using c [of "blk_end e"] by simp
    then have "0 < cover fl (blk_end e)" by simp
    from cover_pos [OF this] obtain x where "x \<in> set fl" "in_blk (blk_end e) x" by blast
    with gap \<open>fl = e # es\<close> show ?thesis by (auto simp: in_blk_def)
  qed
qed

section \<open>Reading back after an update\<close>

lemma get_master_set_master:
  "qdma_get_master_resource_entry idx s = Some m \<Longrightarrow> dma_device_index (F m) = dma_device_index m \<Longrightarrow>
   qdma_get_master_resource_entry idx (set_master idx F s) = Some (F m)"
  unfolding qdma_get_master_resource_entry_def set_master_def
  by (auto intro!: find_map_first dest: find_SomeD)

lemma get_dev_after:
  fixes fl :: "qdma_resource_entry list" and n :: nat
  assumes "qdma_get_master_resource_entry idx s = Some m" and "qdma_get_dev_entry idx f s = Some d"
    and "\<And>d. de_func_id (h d) = de_func_id d"
  defines "s' \<equiv> set_master idx (\<lambda>m. set_dev f h (m\<lparr>free_list := fl\<rparr>)) (s\<lparr>rm_allocs := n\<rparr>)"
  shows "qdma_get_master_resource_entry idx s' = Some (set_dev f h (m\<lparr>free_list := fl\<rparr>))"
    and "qdma_get_dev_entry idx f s' = Some (h d)"
    and "g \<noteq> f \<Longrightarrow> qdma_get_dev_entry idx g s' = qdma_get_dev_entry idx g s"
proof -
  show m': "qdma_get_master_resource_entry idx s' = Some (set_dev f h (m\<lparr>free_list := fl\<rparr>))"
    unfolding s'_def using assms(1) by (intro get_master_set_master) (simp_all add: set_dev_def)
  have d: "find (\<lambda>d. de_func_id d = f) (dev_list m) = Some d"
    using assms(1,2) by (simp add: qdma_get_dev_entry_def)
  show "qdma_get_dev_entry idx f s' = Some (h d)"
    using m' find_map_first [OF d, of h] find_SomeD [OF d] assms(3)
    by (simp add: qdma_get_dev_entry_def set_dev_def)
  show "qdma_get_dev_entry idx g s' = qdma_get_dev_entry idx g s" if "g \<noteq> f"
    using m' assms(1,3) that
      find_map_first_other [of "\<lambda>d. de_func_id d = f" "\<lambda>d. de_func_id d = g" h "dev_list m"]
    by (simp add: qdma_get_dev_entry_def set_dev_def)
qed

lemma update_unfold:
  assumes "qdma_dev_update mem idx f qmax qbase s = (rv, b, s')"
    and "qdma_get_master_resource_entry idx s = Some m" and "qdma_get_dev_entry idx f s = Some d"
    and "active_h2c_qcnt d = 0" "active_c2h_qcnt d = 0" "active_cmpt_qcnt d = 0"
  obtains e fl n where
    "qdma_request_q_resource mem (rm_allocs s) (de_entry d) qmax qbase (free_list m) = (rv, e, fl, n)"
    and "b = re_qbase e"
    and "s' = set_master idx (\<lambda>m. set_dev f (\<lambda>d. d\<lparr>de_entry := e\<rparr>) (m\<lparr>free_list := fl\<rparr>)) (s\<lparr>rm_allocs := n\<rparr>)"
  using assms that by (auto simp: qdma_dev_update_def split: prod.splits)

lemma update_success_cases:
  assumes "qdma_dev_update mem idx f qmax qbase s = (0, b, s')"
  obtains m d where "qdma_get_master_resource_entry idx s = Some m" "qdma_get_dev_entry idx f s = Some d"
    "active_h2c_qcnt d = 0" "active_c2h_qcnt d = 0" "active_cmpt_qcnt d = 0"
  using assms that by (auto simp: qdma_dev_update_def split: option.splits if_splits)

lemma submit_keeps_fit:
  assumes ok: "\<forall>x \<in> set fl. ok_free x" "ok_entry e" and x: "x \<in> set fl" "block_within z x"
  shows "\<exists>y \<in> set (fst (snd (qdma_submit_to_free_list mem n e fl))). block_within z y"
proof (cases "re_total_q e \<noteq> 0 \<and> mem n")
  case True
  then have e: "ok_free e" using ok(2) by (simp add: ok_entry_def ok_free_def)
  obtain a as where c: "free_insert e fl = a # as" and m: "x \<in> set (a # as)"
    using x(1) set_free_insert [of e fl] by (cases "free_insert e fl") auto
  have "\<forall>y \<in> set (a # as). ok_free y" using ok(1) e set_free_insert [of e fl] unfolding c by simp
  from stretch_within [OF this m] obtain y where "y \<in> set (stretch a as)" "block_within x y" ..
  then have y: "y \<in> set (stretch a as)" "block_within z y" using x(2) by (auto simp: block_within_def)
  have r: "\<lparr>re_qbase = re_qbase e, re_total_q = re_total_q e\<rparr> = e" by simp
  from True c have "fst (snd (qdma_submit_to_free_list mem n e fl)) = stretch a as"
    by (simp add: qdma_submit_to_free_list_def qdma_free_entry_create_def r)
  with y show ?thesis by auto
qed (use x in \<open>auto simp: qdma_submit_to_free_list_def qdma_free_entry_create_def\<close>)

lemma fits_block_within:
  "ok_free x \<Longrightarrow> fits x qb qm \<longleftrightarrow> block_within \<lparr>re_qbase = qb, re_total_q = qm\<rparr> x"
  by (auto simp: fits_def block_within_def blk_end_def)

section \<open>A worked state\<close>

text \<open>Sixteen queues; function 1 takes four of them, function 2 asks for eight at base 8.\<close>

definition demo_rm0 :: rm_state where
  "demo_rm0 = snd (qdma_dev_entry_create (\<lambda>_. True) 0 2 (snd (qdma_dev_entry_create (\<lambda>_. True) 0 1
     (snd (snd (qdma_master_resource_create (\<lambda>_. True) 1 1 0 16
        \<lparr>master_resource_list = [], rm_index = 0, rm_allocs = 0\<rparr>))))))"

definition demo_rm1 :: rm_state where
  "demo_rm1 = snd (snd (qdma_dev_update (\<lambda>_. True) 0 1 4 (-1) demo_rm0))"

definition demo_rm2 :: rm_state where
  "demo_rm2 = snd (snd (qdma_dev_update (\<lambda>_. True) 0 2 8 8 demo_rm1))"

lemma no_wrap_negative: "no_wrap q (-1)"
  by (simp add: no_wrap_def word_sle_eq)

lemma demo_reach: "rm_reach (\<lambda>_. True) demo_rm0" "rm_reach (\<lambda>_. True) demo_rm1" "rm_reach (\<lambda>_. True) demo_rm2"
proof -
  show 0: "rm_reach (\<lambda>_. True) demo_rm0"
    unfolding demo_rm0_def by (intro rm_dev_create rm_create rm_init) simp_all
  show 1: "rm_reach (\<lambda>_. True) demo_rm1"
    unfolding demo_rm1_def by (intro rm_update 0 no_wrap_negative)
  show "rm_reach (\<lambda>_. True) demo_rm2"
    unfolding demo_rm2_def by (intro rm_update 1) (simp add: no_wrap_def)
qed

lemma demo_state:
  "demo_rm2 = \<lparr>master_resource_list = [\<lparr>dma_device_index = 0, pci_bus_start = 1, pci_bus_end = 1,
      rm_total_q = 16, rm_qbase = 0,
      dev_list = [\<lparr>de_func_id = 1, active_h2c_qcnt = 0, active_c2h_qcnt = 0, active_cmpt_qcnt = 0,
                    de_entry = \<lparr>re_qbase = 0, re_total_q = 4\<rparr>\<rparr>,
                  \<lparr>de_func_id = 2, active_h2c_qcnt = 0, active_c2h_qcnt = 0, active_cmpt_qcnt = 0,
                    de_entry = \<lparr>re_qbase = 8, re_total_q = 8\<rparr>\<rparr>],
      free_list = [\<lparr>re_qbase = 4, re_total_q = 4\<rparr>], rm_active_qcnt = 0\<rparr>],
    rm_index = 1, rm_allocs = 6\<rparr>"
  by code_simp

text \<open>The same state as a list of calls.\<close>

definition demo_calls :: "rm_call list" where
  "demo_calls = [Create 1 1 0 16, Dev_create 0 1, Dev_create 0 2, Update 0 1 4 (-1), Update 0 2 8 8]"

lemma demo_calls_run: "rm_run (\<lambda>_. True) demo_calls = demo_rm2" "\<forall>c \<in> set demo_calls. call_fits c"
  by (simp_all add: rm_run_def demo_calls_def demo_rm2_def demo_rm1_def demo_rm0_def word_sle_eq)

section \<open>The promises\<close>

lemma in_range_unique:
  assumes "rm_reach mem s" and "f \<noteq> g"
    and "qdma_dev_is_queue_in_range idx f q s = QDMA_DEV_Q_IN_RANGE"
  shows "qdma_dev_is_queue_in_range idx g q s = QDMA_DEV_Q_OUT_OF_RANGE"
proof -
  note inv = reach_inv [OF assms(1)]
  have "\<not> holds_queue idx g (uint q) s"
    using holds_queue_unique [OF inv] assms(2,3) in_range_iff [OF inv] by blast
  then show ?thesis
    using in_range_iff [OF inv, of idx g q] by (cases "qdma_dev_is_queue_in_range idx g q s") simp_all
qed

text \<open>C1: After any calls of the resource manager in which no range wraps around (masters within \<open>2 ^ 31\<close> queues, updates with a
  base have \<open>base + size < 2 ^ 32\<close>), two different PCI functions of one DMA device never both have a hardware queue in range:
  the check that guards every queue operation isolates them, whatever allocations failed on the way.\<close>

theorem dev_isolation:
  assumes "\<forall>c \<in> set calls. call_fits c" and "f \<noteq> g"
    and "qdma_dev_is_queue_in_range idx f q (rm_run mem calls) = QDMA_DEV_Q_IN_RANGE"
  shows "qdma_dev_is_queue_in_range idx g q (rm_run mem calls) = QDMA_DEV_Q_OUT_OF_RANGE"
  by (rule in_range_unique [OF run_reach [OF assms(1)] assms(2,3)])

theorem dev_isolation_witness:
  "qdma_dev_is_queue_in_range 0 2 9 demo_rm2 = QDMA_DEV_Q_IN_RANGE \<and>
   qdma_dev_is_queue_in_range 0 1 9 demo_rm2 = QDMA_DEV_Q_OUT_OF_RANGE"
proof -
  have r: "qdma_dev_is_queue_in_range 0 2 9 demo_rm2 = QDMA_DEV_Q_IN_RANGE"
    unfolding demo_state by code_simp
  show ?thesis using dev_isolation [OF demo_calls_run(2), of 2 1 0 9 "\<lambda>_. True"] r by (simp add: demo_calls_run(1))
qed

text \<open>In every reachable state the range check agrees with the block that
  \<open>qdma_dev_qinfo_get\<close> reports, read as unbounded integers: neither the signed comparison
  nor the 32-bit sum of base and size misjudges a queue number.\<close>

theorem in_range_exact:
  assumes "rm_reach mem s"
  shows "qdma_dev_is_queue_in_range idx f q s = QDMA_DEV_Q_IN_RANGE \<longleftrightarrow>
    (\<exists>base cnt. qdma_dev_qinfo_get idx f b0 c0 s = (0, base, cnt) \<and>
       uint base \<le> uint q \<and> uint q < uint base + uint cnt)"
  unfolding in_range_iff [OF reach_inv [OF assms]]
  by (auto simp: holds_queue_def qdma_dev_qinfo_get_def in_blk_def blk_end_def
      split: option.splits dest: get_dev_in)

theorem in_range_exact_witness:
  "qdma_dev_is_queue_in_range 0 1 3 demo_rm2 = QDMA_DEV_Q_IN_RANGE \<longleftrightarrow>
    (\<exists>base cnt. qdma_dev_qinfo_get 0 1 0 0 demo_rm2 = (0, base, cnt) \<and>
       uint base \<le> uint (3 :: u32) \<and> uint (3 :: u32) < uint base + uint cnt)"
  by (rule in_range_exact [OF demo_reach(3)])

lemma dev_cover_holds:
  assumes "rm_inv mem s" "qdma_get_master_resource_entry idx s = Some m"
  shows "0 < cover (map de_entry (dev_list m)) q \<longleftrightarrow> (\<exists>f. holds_queue idx f q s)"
proof -
  have "qdma_get_dev_entry idx (de_func_id d) s = Some d" if "d \<in> set (dev_list m)" for d
    using rm_inv_master [OF assms] that assms(2)
    by (auto simp: master_inv_def qdma_get_dev_entry_def intro!: find_distinct_key)
  moreover have "1 \<le> cover (map de_entry (dev_list m)) q" if "d \<in> set (dev_list m)" "in_blk q (de_entry d)" for d
    using cover_mem [of "de_entry d" _ q] that by simp
  ultimately show ?thesis
    using cover_pos [of "map de_entry (dev_list m)" q] get_dev_in assms(2)
    by (fastforce simp: holds_queue_def split: option.splits)
qed

text \<open>C2: Queues are conserved.  After any calls in which no range wraps around, and when no allocation fails, every queue of the
  master's range is either in exactly one block of the free list or held by exactly one function, and no queue outside
  the range is in either.\<close>

theorem queue_conservation:
  assumes "\<forall>c \<in> set calls. call_fits c" and "s = rm_run (\<lambda>_. True) calls" and "qdma_get_master_resource_entry idx s = Some m"
  shows "if uint (rm_qbase m) \<le> q \<and> q < uint (rm_qbase m) + uint (rm_total_q m)
    then (cover (free_list m) q = 1 \<and> (\<forall>f. \<not> holds_queue idx f q s)) \<or>
         (cover (free_list m) q = 0 \<and> (\<exists>!f. holds_queue idx f q s))
    else cover (free_list m) q = 0 \<and> (\<forall>f. \<not> holds_queue idx f q s)"
proof -
  have inv: "rm_inv (\<lambda>_. True) s" using reach_inv [OF run_reach [OF assms(1)]] assms(2) by simp
  have o: "cover (free_list m) q + cover (map de_entry (dev_list m)) q = in_master m q"
    using rm_inv_master [OF inv assms(3)] by (simp add: master_inv_def own_def)
  have u: "(\<exists>f. holds_queue idx f q s) \<longleftrightarrow> (\<exists>!f. holds_queue idx f q s)"
    using holds_queue_unique [OF inv] by blast
  show ?thesis
    using o u dev_cover_holds [OF inv assms(3), of q] by (auto simp: in_master_def split: if_splits)
qed

theorem queue_conservation_witness:
  "(cover (free_list (hd (master_resource_list demo_rm2))) 5 = 1 \<and> (\<forall>f. \<not> holds_queue 0 f 5 demo_rm2)) \<or>
   (cover (free_list (hd (master_resource_list demo_rm2))) 5 = 0 \<and> (\<exists>!f. holds_queue 0 f 5 demo_rm2))"
proof -
  have m: "qdma_get_master_resource_entry 0 demo_rm2 = Some (hd (master_resource_list demo_rm2))"
    unfolding demo_state by code_simp
  have r: "uint (rm_qbase (hd (master_resource_list demo_rm2))) \<le> 5"
    "5 < uint (rm_qbase (hd (master_resource_list demo_rm2))) + uint (rm_total_q (hd (master_resource_list demo_rm2)))"
    by (simp_all add: demo_state)
  show ?thesis using queue_conservation [OF demo_calls_run(2) demo_calls_run(1) [symmetric] m, of 5] r by simp
qed

lemma update_success_parts:
  assumes "rm_reach mem s" and "no_wrap qmax qbase" and "qmax \<noteq> 0"
    and u: "qdma_dev_update mem idx f qmax qbase s = (0, b, s')"
  shows "qdma_dev_qinfo_get idx f b0 c0 s' = (0, b, qmax)"
    and "g \<noteq> f \<Longrightarrow> qdma_dev_qinfo_get idx g b0 c0 s' = qdma_dev_qinfo_get idx g b0 c0 s"
    and "qdma_get_master_resource_entry idx s = Some m \<Longrightarrow> 0 \<le>s qbase \<Longrightarrow>
      \<exists>x \<in> set (free_list m). fits x qbase qmax \<Longrightarrow> b = qbase"
proof -
  note inv = reach_inv [OF assms(1)]
  obtain m' d where m: "qdma_get_master_resource_entry idx s = Some m'" "qdma_get_dev_entry idx f s = Some d"
    and z: "active_h2c_qcnt d = 0" "active_c2h_qcnt d = 0" "active_cmpt_qcnt d = 0"
    using update_success_cases [OF u] by metis
  obtain e fl n where r:
    "qdma_request_q_resource mem (rm_allocs s) (de_entry d) qmax qbase (free_list m') = (0, e, fl, n)"
    and b: "b = re_qbase e"
    and s': "s' = set_master idx (\<lambda>m. set_dev f (\<lambda>d. d\<lparr>de_entry := e\<rparr>) (m\<lparr>free_list := fl\<rparr>)) (s\<lparr>rm_allocs := n\<rparr>)"
    using update_unfold [OF u m z] by metis
  have ok: "\<forall>x \<in> set (free_list m'). ok_free x" "ok_entry (de_entry d)"
    using rm_inv_master [OF inv m(1)] dev_counters_ok [OF inv m] by (simp_all add: master_inv_def)
  have keep: "\<And>d. de_func_id (d\<lparr>de_entry := e\<rparr>) = de_func_id d" by simp
  note after = get_dev_after [OF m, where h = "\<lambda>d. d\<lparr>de_entry := e\<rparr>" and fl = fl and n = n, OF keep, folded s']
  note suc = request_success [OF ok assms(2) r assms(3)]
  show "qdma_dev_qinfo_get idx f b0 c0 s' = (0, b, qmax)"
    using after suc(1) b by (simp add: qdma_dev_qinfo_get_def)
  show "qdma_dev_qinfo_get idx g b0 c0 s' = qdma_dev_qinfo_get idx g b0 c0 s" if "g \<noteq> f"
    using after(1) after(3) [OF that] m(1) by (simp add: qdma_dev_qinfo_get_def)
  show "b = qbase" if hm: "qdma_get_master_resource_entry idx s = Some m" and nn: "0 \<le>s qbase"
    and fx: "\<exists>x \<in> set (free_list m). fits x qbase qmax"
  proof -
    let ?z = "\<lparr>re_qbase = qbase, re_total_q = qmax\<rparr>"
    let ?fl = "fst (snd (qdma_submit_to_free_list mem (rm_allocs s) (de_entry d) (free_list m')))"
    obtain x where x: "x \<in> set (free_list m')" "block_within ?z x"
      using fx hm m(1) ok(1) fits_block_within by auto
    obtain e1 fl1 n1 where sub:
      "qdma_submit_to_free_list mem (rm_allocs s) (de_entry d) (free_list m') = (e1, fl1, n1)"
      by (metis prod_cases3)
    obtain y where "y \<in> set fl1" "block_within ?z y"
      using submit_keeps_fit [OF ok x, of mem "rm_allocs s"] sub by auto
    then show ?thesis
      using suc(2) [OF nn] submit_props(1) [OF ok sub] sub b fits_block_within by auto
  qed
qed

text \<open>C3: a successful \<open>qdma_dev_update\<close> gives the function exactly the number of queues it asked
  for, at the base the call reports; the requested base is honoured whenever one free block
  holds the whole requested range; and the blocks of all other functions stay as they were.\<close>

theorem update_success:
  assumes "rm_reach mem s" and "no_wrap qmax qbase" and "qmax \<noteq> 0"
    and "qdma_get_master_resource_entry idx s = Some m"
    and "qdma_dev_update mem idx f qmax qbase s = (0, b, s')"
  shows "qdma_dev_qinfo_get idx f b0 c0 s' = (0, b, qmax) \<and>
    (0 \<le>s qbase \<and> (\<exists>x \<in> set (free_list m). fits x qbase qmax) \<longrightarrow> b = qbase) \<and>
    (\<forall>g. g \<noteq> f \<longrightarrow> qdma_dev_qinfo_get idx g b0 c0 s' = qdma_dev_qinfo_get idx g b0 c0 s)"
  using update_success_parts [OF assms(1-3,5)] assms(4) by blast

theorem update_success_witness:
  "qdma_dev_qinfo_get 0 2 0 0 demo_rm2 = (0, 8, 8) \<and>
   qdma_dev_qinfo_get 0 1 0 0 demo_rm2 = qdma_dev_qinfo_get 0 1 0 0 demo_rm1"
proof -
  have m: "qdma_get_master_resource_entry 0 demo_rm1 = Some (hd (master_resource_list demo_rm1))"
    by code_simp
  have "fst (qdma_dev_update (\<lambda>_. True) 0 2 8 8 demo_rm1) = 0"
    "fst (snd (qdma_dev_update (\<lambda>_. True) 0 2 8 8 demo_rm1)) = 8" by code_simp+
  then have u: "qdma_dev_update (\<lambda>_. True) 0 2 8 8 demo_rm1 = (0, 8, demo_rm2)"
    by (simp add: demo_rm2_def prod_eq_iff)
  have w: "no_wrap 8 8" by (simp add: no_wrap_def)
  show ?thesis using update_success [OF demo_reach(2) w _ m u, of 0 0] by simp
qed

lemma submit_total_le:
  assumes ok: "\<forall>x \<in> set fl. ok_free x" "ok_entry e" and x: "x \<in> set fl" "qmax \<le> re_total_q x"
  shows "\<exists>y \<in> set (fst (snd (qdma_submit_to_free_list mem n e fl))). qmax \<le> re_total_q y"
proof -
  have "block_within x x" by (simp add: block_within_def)
  from submit_keeps_fit [OF ok x(1) this, of mem n] obtain y
    where y: "y \<in> set (fst (snd (qdma_submit_to_free_list mem n e fl)))" "block_within x y" ..
  from y(2) have "uint (re_total_q x) \<le> uint (re_total_q y)" by (simp add: block_within_def blk_end_def)
  then have "qmax \<le> re_total_q y" using x(2) by (simp add: word_le_def)
  then show ?thesis using y(1) by blast
qed

text \<open>C4: In a state reached by calls whose ranges do not wrap, when no allocation fails or has failed and the range asked for does not
  wrap: \<open>qdma_dev_update\<close> of a function without active queues fails only with \<open>-QDMA_ERR_RM_NO_QUEUES_LEFT\<close> and only when no
  free block is as large as the request; a function that held queues before then keeps exactly the block it had, and every
  other function keeps its block in any case.\<close>

theorem update_failure:
  assumes "rm_reach (\<lambda>_. True) s" and "no_wrap qmax qbase"
    and m: "qdma_get_master_resource_entry idx s = Some m" "qdma_get_dev_entry idx f s = Some d"
    and z: "active_h2c_qcnt d = 0" "active_c2h_qcnt d = 0" "active_cmpt_qcnt d = 0"
    and u: "qdma_dev_update (\<lambda>_. True) idx f qmax qbase s = (rv, b, s')" and "rv \<noteq> 0"
  shows "rv = - err_code QDMA_ERR_RM_NO_QUEUES_LEFT \<and>
    (\<forall>x \<in> set (free_list m). re_total_q x < qmax) \<and>
    (re_total_q (de_entry d) \<noteq> 0 \<longrightarrow>
      qdma_dev_qinfo_get idx f b0 c0 s' = qdma_dev_qinfo_get idx f b0 c0 s) \<and>
    (\<forall>g. g \<noteq> f \<longrightarrow> qdma_dev_qinfo_get idx g b0 c0 s' = qdma_dev_qinfo_get idx g b0 c0 s)"
proof -
  note inv = reach_inv [OF assms(1)]
  obtain e fl n where r: "qdma_request_q_resource (\<lambda>_. True) (rm_allocs s) (de_entry d) qmax qbase
      (free_list m) = (rv, e, fl, n)"
    and s': "s' = set_master idx (\<lambda>m. set_dev f (\<lambda>d. d\<lparr>de_entry := e\<rparr>) (m\<lparr>free_list := fl\<rparr>)) (s\<lparr>rm_allocs := n\<rparr>)"
    using update_unfold [OF u m z] by metis
  have ok: "\<forall>x \<in> set (free_list m). ok_free x" "ok_entry (de_entry d)"
    using rm_inv_master [OF inv m(1)] dev_counters_ok [OF inv m] by (simp_all add: master_inv_def)
  have keep: "\<And>d. de_func_id (d\<lparr>de_entry := e\<rparr>) = de_func_id d" by simp
  note after = get_dev_after [OF m, where h = "\<lambda>d. d\<lparr>de_entry := e\<rparr>" and fl = fl and n = n, OF keep, folded s']
  note fail = request_failure [OF ok assms(2) _ r]
  have small: "rv = - err_code QDMA_ERR_RM_NO_QUEUES_LEFT"
    "\<forall>x \<in> set (fst (snd (qdma_submit_to_free_list (\<lambda>_. True) (rm_allocs s) (de_entry d) (free_list m)))).
       re_total_q x < qmax"
    using fail(1) \<open>rv \<noteq> 0\<close> by (auto split: if_splits)
  have "\<forall>x \<in> set (free_list m). re_total_q x < qmax"
    using submit_total_le [OF ok, of _ qmax] small(2) by (meson not_le)
  moreover have "qdma_dev_qinfo_get idx f b0 c0 s' = qdma_dev_qinfo_get idx f b0 c0 s"
    if "re_total_q (de_entry d) \<noteq> 0"
    using fail(2) [OF _ \<open>rv \<noteq> 0\<close> that] after m by (simp add: qdma_dev_qinfo_get_def)
  moreover have "qdma_dev_qinfo_get idx g b0 c0 s' = qdma_dev_qinfo_get idx g b0 c0 s" if "g \<noteq> f" for g
    using after(1) after(3) [OF that] m(1) by (simp add: qdma_dev_qinfo_get_def)
  ultimately show ?thesis using small(1) by blast
qed

theorem update_failure_witness:
  "fst (qdma_dev_update (\<lambda>_. True) 0 2 13 (-1) demo_rm2) = - 12 \<and>
   qdma_dev_qinfo_get 0 2 0 0 (snd (snd (qdma_dev_update (\<lambda>_. True) 0 2 13 (-1) demo_rm2))) = (0, 8, 8)"
proof -
  let ?d = "dev_list (hd (master_resource_list demo_rm2)) ! 1"
  let ?u = "qdma_dev_update (\<lambda>_. True) 0 2 13 (-1) demo_rm2"
  have m: "qdma_get_master_resource_entry 0 demo_rm2 = Some (hd (master_resource_list demo_rm2))"
    "qdma_get_dev_entry 0 2 demo_rm2 = Some ?d"
    "active_h2c_qcnt ?d = 0" "active_c2h_qcnt ?d = 0" "active_cmpt_qcnt ?d = 0"
    by (simp_all add: demo_state qdma_get_master_resource_entry_def qdma_get_dev_entry_def)
  have rv: "fst ?u = - 12" unfolding demo_state by code_simp
  have t: "re_total_q (de_entry ?d) \<noteq> 0" by (simp add: demo_state)
  have q: "qdma_dev_qinfo_get 0 2 0 0 demo_rm2 = (0, 8, 8)"
    unfolding demo_state by code_simp
  have u: "?u = (fst ?u, fst (snd ?u), snd (snd ?u))" by simp
  show ?thesis
    using update_failure [OF demo_reach(3) no_wrap_negative m u, of 0 0] rv t q by simp
qed

lemma cover_zero: "\<forall>d \<in> set ds. re_total_q (h d) = 0 \<Longrightarrow> cover (map h ds) q = 0"
  by (induction ds) (auto dest: in_blk_zero)

text \<open>when the last function that holds queues is removed (and no allocation fails), the free
  list is again the one block the master was created with: \<open>qdma_submit_to_free_list\<close> merges
  whatever fragments the earlier requests left.\<close>

theorem destroy_restores_range:
  assumes "rm_reach (\<lambda>_. True) s" and m: "qdma_get_master_resource_entry idx s = Some m"
    and d: "qdma_get_dev_entry idx f s = Some d" and "re_total_q (de_entry d) \<noteq> 0"
    and others: "\<forall>x \<in> set (dev_list m). de_func_id x \<noteq> f \<longrightarrow> re_total_q (de_entry x) = 0"
  shows "\<exists>m'. qdma_get_master_resource_entry idx (qdma_dev_entry_destroy (\<lambda>_. True) idx f s) = Some m' \<and>
    free_list m' = [\<lparr>re_qbase = rm_qbase m, re_total_q = rm_total_q m\<rparr>]"
proof -
  note inv = rm_inv_master [OF reach_inv [OF assms(1)] m]
  obtain as bs where sp: "dev_list m = as @ d # bs" "de_func_id d = f" "\<forall>a \<in> set as. de_func_id a \<noteq> f"
    using get_dev_split [OF m d] by metis
  obtain e fl n where sub:
    "qdma_submit_to_free_list (\<lambda>_. True) (rm_allocs s) (de_entry d) (free_list m) = (e, fl, n)"
    by (metis prod_cases3)
  have ok: "\<forall>x \<in> set (free_list m). ok_free x" "ok_entry (de_entry d)" "sorted_free (free_list m)"
    using inv sp by (auto simp: master_inv_def)
  note p = submit_props [OF ok(1,2) sub]
  have co: "coalesced fl"
    using submit_sorted(2) [OF ok _ sub assms(4)] master_inv_disjoint [OF inv sp(1)] cover_disjoint by metis
  have "\<forall>x \<in> set (as @ bs). re_total_q (de_entry x) = 0"
  proof
    fix x
    assume x: "x \<in> set (as @ bs)"
    have "distinct (map de_func_id (dev_list m))" using inv by (simp add: master_inv_def)
    with sp x have "de_func_id x \<noteq> f" by (metis (no_types, lifting) Un_iff distinct_append
        distinct.simps(2) imageI list.set_map list.simps(9) map_append set_append)
    with others sp(1) x show "re_total_q (de_entry x) = 0" by auto
  qed
  then have "cover (map de_entry (as @ bs)) q = 0" for q by (rule cover_zero)
  moreover have "own m q = in_master m q" for q using inv by (simp add: master_inv_def)
  ultimately have c: "cover fl q = in_master m q" for q
    using own_split [OF sp(1), of q] p(3) [of q] in_blk_zero [OF p(4)] by simp
  have "in_blk (uint (re_qbase (de_entry d))) (de_entry d)"
    using assms(4) by (simp add: in_blk_def blk_end_def uint_pos_iff)
  then have "0 < cover fl (uint (re_qbase (de_entry d)))"
    using p(3) [of "uint (re_qbase (de_entry d))"] in_blk_zero [OF p(4)] by simp
  then have "uint (rm_qbase m) < uint (rm_qbase m) + uint (rm_total_q m)"
    unfolding c by (auto simp: in_master_def split: if_splits)
  from coalesced_single [OF co p(1) this] c obtain b
    where b: "fl = [b]" "uint (re_qbase b) = uint (rm_qbase m)"
      "blk_end b = uint (rm_qbase m) + uint (rm_total_q m)" unfolding in_master_def by blast
  from b have "re_qbase b = rm_qbase m" "re_total_q b = rm_total_q m"
    by (auto simp: blk_end_def intro: word_uint_eqI)
  then have "b = \<lparr>re_qbase = rm_qbase m, re_total_q = rm_total_q m\<rparr>" by simp
  with b(1) m d sub show ?thesis
    by (auto simp: qdma_dev_entry_destroy_def intro!: exI get_master_set_master)
qed

theorem destroy_restores_range_witness:
  "\<exists>m'. qdma_get_master_resource_entry 0 (qdma_dev_entry_destroy (\<lambda>_. True) 0 1 demo_rm1) = Some m' \<and>
    free_list m' = [\<lparr>re_qbase = 0, re_total_q = 16\<rparr>]"
proof -
  let ?m = "hd (master_resource_list demo_rm1)"
  have m: "qdma_get_master_resource_entry 0 demo_rm1 = Some ?m"
    "qdma_get_dev_entry 0 1 demo_rm1 = Some (hd (dev_list ?m))" by code_simp+
  have h: "re_total_q (de_entry (hd (dev_list ?m))) \<noteq> 0"
    "\<forall>x \<in> set (dev_list ?m). de_func_id x \<noteq> 1 \<longrightarrow> re_total_q (de_entry x) = 0"
    "rm_qbase ?m = 0" "rm_total_q ?m = 16" by code_simp+
  show ?thesis using destroy_restores_range [OF demo_reach(2) m h(1,2)] h(3,4) by simp
qed

section \<open>Active queue counters\<close>

lemma ok_entry_total: "ok_entry e \<Longrightarrow> uint (re_total_q e) < 2 ^ 31"
proof -
  assume "ok_entry e"
  then have "uint (re_total_q e) = 0 \<or> uint (re_qbase e) + uint (re_total_q e) < 2147483648"
    by (auto simp: ok_entry_def blk_end_def)
  moreover have "0 \<le> uint (re_qbase e)" by simp
  ultimately have "uint (re_total_q e) < 2147483648" by linarith
  then show ?thesis by simp
qed

text \<open>the number of active queues of a function, of each type, is never negative and never
  above the number of queues the function holds.\<close>

theorem active_count_bounded:
  assumes "rm_reach mem s" and "qdma_dev_qinfo_get idx f b0 c0 s = (0, base, cnt)"
  shows "0 \<le> qdma_get_device_active_queue_count idx f t s \<and>
    qdma_get_device_active_queue_count idx f t s \<le> uint cnt"
proof -
  note inv = reach_inv [OF assms(1)]
  obtain m d where m: "qdma_get_master_resource_entry idx s = Some m" "qdma_get_dev_entry idx f s = Some d"
    and cnt: "cnt = re_total_q (de_entry d)"
    using assms(2) by (auto simp: qdma_dev_qinfo_get_def split: option.splits)
  note ok = dev_counters_ok [OF inv m]
  have small: "uint cnt < 2 ^ 31" using ok_entry_total [OF ok(2)] cnt by simp
  have "0 \<le> sint c \<and> sint c \<le> uint cnt" if "active_qcnt_of t d = Some c" for c
  proof -
    have "uint c \<le> uint cnt" using active_qcnt_of_le [OF ok(1) that] cnt by (simp add: word_le_def)
    with small show ?thesis by (simp add: sint_small)
  qed
  then show ?thesis using m by (auto simp: qdma_get_device_active_queue_count_def split: option.splits)
qed

theorem active_count_bounded_witness:
  "0 \<le> qdma_get_device_active_queue_count 0 2 QDMA_DEV_Q_TYPE_C2H
        (snd (qdma_dev_increment_active_queue 0 2 QDMA_DEV_Q_TYPE_C2H demo_rm2)) \<and>
   qdma_get_device_active_queue_count 0 2 QDMA_DEV_Q_TYPE_C2H
        (snd (qdma_dev_increment_active_queue 0 2 QDMA_DEV_Q_TYPE_C2H demo_rm2)) \<le> 8"
proof -
  have q: "qdma_dev_qinfo_get 0 2 0 0
     (snd (qdma_dev_increment_active_queue 0 2 QDMA_DEV_Q_TYPE_C2H demo_rm2)) = (0, 8, 8)"
    unfolding demo_state by code_simp
  show ?thesis
    using active_count_bounded [OF rm_increment [OF demo_reach(3)] q] by simp
qed

text \<open>a function with an active queue cannot be resized.  After a successful
  \<open>qdma_dev_increment_active_queue\<close>, \<open>qdma_dev_update\<close> is rejected and changes nothing.\<close>

theorem active_queue_blocks_update:
  assumes "rm_reach mem s" and i: "qdma_dev_increment_active_queue idx f t s = (0, s')"
  shows "qdma_dev_update mem idx f qmax qbase s' = (- err_code QDMA_ERR_RM_QMAX_CONF_REJECTED, qbase, s')"
proof -
  note inv = reach_inv [OF assms(1)]
  obtain m d c where m: "qdma_get_master_resource_entry idx s = Some m" "qdma_get_dev_entry idx f s = Some d"
    and c: "active_qcnt_of t d = Some c"
    and s': "s' = set_master idx (\<lambda>m. set_dev f (set_active_qcnt t (c + 1))
                    (m\<lparr>rm_active_qcnt := rm_active_qcnt m + 1\<rparr>)) s"
    using i by (auto simp: qdma_dev_increment_active_queue_def split: option.splits if_splits)
  note ok = dev_counters_ok [OF inv m]
  have "uint c < 2 ^ 31"
    using ok_entry_total [OF ok(2)] active_qcnt_of_le [OF ok(1) c] by (simp add: word_le_def)
  then have "uint (c + 1) = uint c + 1" using uint_add_small [of c 1] by simp
  then have "uint (c + 1) \<noteq> 0" using uint_nonnegative [of c] by linarith
  then have nz: "c + 1 \<noteq> 0" by (simp only: uint_eq_0_iff not_False_eq_True)
  have d: "find (\<lambda>d. de_func_id d = f) (dev_list m) = Some d"
    using m by (simp add: qdma_get_dev_entry_def)
  let ?m = "set_dev f (set_active_qcnt t (c + 1)) (m\<lparr>rm_active_qcnt := rm_active_qcnt m + 1\<rparr>)"
  have m': "qdma_get_master_resource_entry idx s' = Some ?m"
    unfolding s' using m(1) by (intro get_master_set_master) (simp_all add: set_dev_def)
  have "qdma_get_dev_entry idx f s' = Some (set_active_qcnt t (c + 1) d)"
    using m' find_map_first [OF d, of "set_active_qcnt t (c + 1)"] find_SomeD [OF d]
    by (simp add: qdma_get_dev_entry_def set_dev_def)
  with m' nz c show ?thesis by (cases t) (simp_all add: qdma_dev_update_def)
qed

theorem active_queue_blocks_update_witness:
  "fst (qdma_dev_update (\<lambda>_. True) 0 2 4 (-1)
     (snd (qdma_dev_increment_active_queue 0 2 QDMA_DEV_Q_TYPE_H2C demo_rm2))) = -13"
proof -
  have "fst (qdma_dev_increment_active_queue 0 2 QDMA_DEV_Q_TYPE_H2C demo_rm2) = 0"
    unfolding demo_state by code_simp
  then have i: "qdma_dev_increment_active_queue 0 2 QDMA_DEV_Q_TYPE_H2C demo_rm2 =
      (0, snd (qdma_dev_increment_active_queue 0 2 QDMA_DEV_Q_TYPE_H2C demo_rm2))"
    by (simp add: prod_eq_iff)
  show ?thesis using active_queue_blocks_update [OF demo_reach(3) i, of 4 "-1"] by simp
qed

section \<open>Where the code falls short\<close>

text \<open>The comparison \<open>(qbase + qmax) <= (node->qbase + node->total_q)\<close> is made on wrapped sums.
  A function of a 16-queue device that asks for 4294967295 queues at base 1 is told that it
  got them.\<close>

lemma wrapped_request_succeeds:
  "fst (qdma_dev_update (\<lambda>_. True) 0 1 4294967295 1 demo_rm0) = err_code QDMA_SUCCESS \<and>
   qdma_dev_qinfo_get 0 1 0 0 (snd (snd (qdma_dev_update (\<lambda>_. True) 0 1 4294967295 1 demo_rm0))) =
     (0, 1, 4294967295)"
  by code_simp

text \<open>\<open>qdma_dev_decrement_active_queue\<close> lowers the count of the master even where the count of
  the function is already zero, so the master's count wraps to 4294967295.\<close>

lemma master_count_wraps:
  "qdma_get_active_queue_count 0
     (snd (qdma_dev_decrement_active_queue 0 1 QDMA_DEV_Q_TYPE_H2C demo_rm0)) = 4294967295"
  by code_simp

text \<open>A refused request of a function without queues still cuts the free list, and nothing
  merges the pieces: with all eight queues free, a request for eight of them is refused.\<close>

definition demo_split :: rm_state where
  "demo_split =
     (let up = (\<lambda>f qmax s. snd (snd (qdma_dev_update (\<lambda>_. True) 0 f qmax (-1) s)));
          s0 = snd (qdma_dev_entry_create (\<lambda>_. True) 0 2 (snd (qdma_dev_entry_create (\<lambda>_. True) 0 1
            (snd (snd (qdma_master_resource_create (\<lambda>_. True) 1 1 0 8
              \<lparr>master_resource_list = [], rm_index = 0, rm_allocs = 0\<rparr>))))))
      in up 1 100 (up 2 0 (up 1 100 (up 2 4 s0))))"

lemma refused_requests_fragment:
  "map free_list (master_resource_list demo_split) =
     [[\<lparr>re_qbase = 0, re_total_q = 4\<rparr>, \<lparr>re_qbase = 4, re_total_q = 4\<rparr>]] \<and>
   fst (qdma_dev_update (\<lambda>_. True) 0 2 8 (-1) demo_split) = - err_code QDMA_ERR_RM_NO_QUEUES_LEFT"
  by code_simp

end
