(* ===== verification/Qdma_List.thy ===== *)
theory Qdma_List
  imports Prelude
begin

text \<open>
  The intrusive circular doubly linked list of \<open>qdma_list.c\<close> and \<open>qdma_list.h\<close>, on an
  explicit heap: a node is addressed by a number, \<open>0\<close> is the null pointer, and every
  pointer assignment of the C code is one heap update, in the order of the source.
  The representation predicate \<open>dlist\<close> says that a heap stores a given sequence of nodes
  behind a list head; the lemmas show that each operation implements the corresponding
  operation on sequences and touches nothing else.
\<close>

section \<open>Heap and operations\<close>

record qdma_list_head =
  l_prev :: nat
  l_next :: nat
  l_priv :: nat

type_synonym lheap = "nat \<Rightarrow> qdma_list_head"

definition set_next :: "nat \<Rightarrow> nat \<Rightarrow> lheap \<Rightarrow> lheap" where
  "set_next a v h = h(a := (h a)\<lparr>l_next := v\<rparr>)"

definition set_prev :: "nat \<Rightarrow> nat \<Rightarrow> lheap \<Rightarrow> lheap" where
  "set_prev a v h = h(a := (h a)\<lparr>l_prev := v\<rparr>)"

definition qdma_list_init_head :: "nat \<Rightarrow> lheap \<Rightarrow> lheap" where
  "qdma_list_init_head head h =
     (if head \<noteq> 0 then set_prev head head (set_next head head h) else h)"

definition qdma_list_add_tail :: "nat \<Rightarrow> nat \<Rightarrow> lheap \<Rightarrow> lheap" where
  "qdma_list_add_tail node head h =
     (let h1 = set_next (l_prev (h head)) node h;
          h2 = set_next node head h1;
          h3 = set_prev node (l_prev (h2 head)) h2
      in set_prev head node h3)"

definition qdma_list_insert_before :: "nat \<Rightarrow> nat \<Rightarrow> lheap \<Rightarrow> lheap" where
  "qdma_list_insert_before new_node node h =
     (let h1 = set_next (l_prev (h node)) new_node h;
          h2 = set_prev new_node (l_prev (h1 node)) h1;
          h3 = set_next new_node node h2
      in set_prev node new_node h3)"

definition qdma_list_insert_after :: "nat \<Rightarrow> nat \<Rightarrow> lheap \<Rightarrow> lheap" where
  "qdma_list_insert_after new_node node h =
     (let h1 = set_prev new_node node h;
          h2 = set_next new_node (l_next (h1 node)) h1;
          h3 = set_prev (l_next (h2 node)) new_node h2
      in set_next node new_node h3)"

definition qdma_list_del :: "nat \<Rightarrow> lheap \<Rightarrow> lheap" where
  "qdma_list_del node h =
     (if node \<noteq> 0 then
        (let h1 = (if l_prev (h node) \<noteq> 0 then set_next (l_prev (h node)) (l_next (h node)) h else h)
         in if l_next (h1 node) \<noteq> 0 then set_prev (l_next (h1 node)) (l_prev (h1 node)) h1 else h1)
      else h)"

definition qdma_list_is_last_entry :: "nat \<Rightarrow> nat \<Rightarrow> lheap \<Rightarrow> bool" where
  "qdma_list_is_last_entry e head h \<longleftrightarrow> l_next (h e) = head"

definition qdma_list_is_empty :: "nat \<Rightarrow> lheap \<Rightarrow> bool" where
  "qdma_list_is_empty head h \<longleftrightarrow> l_next (h head) = head"

text \<open>The entries a \<open>qdma_list_for_each_safe\<close> loop visits, in order.  The loop only stops
  when it meets the head again; \<open>fuel\<close> bounds the number of iterations and \<open>None\<close> says the
  loop has not ended within it.\<close>

fun for_each_from :: "nat \<Rightarrow> lheap \<Rightarrow> nat \<Rightarrow> nat \<Rightarrow> nat list option" where
  "for_each_from 0 h head pos = None"
| "for_each_from (Suc fuel) h head pos =
     (if pos = head then Some []
      else map_option (\<lambda>xs. pos # xs) (for_each_from fuel h head (l_next (h pos))))"

definition qdma_list_for_each_safe :: "nat \<Rightarrow> lheap \<Rightarrow> nat \<Rightarrow> nat list option" where
  "qdma_list_for_each_safe fuel h head = for_each_from fuel h head (l_next (h head))"

section \<open>Representation\<close>

text \<open>\<open>dseg h a xs b\<close>: following \<open>next\<close> from \<open>a\<close> visits \<open>xs\<close> and then \<open>b\<close>, and the \<open>prev\<close>
  pointers lead back.\<close>

fun dseg :: "lheap \<Rightarrow> nat \<Rightarrow> nat list \<Rightarrow> nat \<Rightarrow> bool" where
  "dseg h a [] b \<longleftrightarrow> l_next (h a) = b \<and> l_prev (h b) = a"
| "dseg h a (x # xs) b \<longleftrightarrow> l_next (h a) = x \<and> l_prev (h x) = a \<and> dseg h x xs b"

definition dlist :: "lheap \<Rightarrow> nat \<Rightarrow> nat list \<Rightarrow> bool" where
  "dlist h head xs \<longleftrightarrow> dseg h head xs head \<and> distinct (head # xs) \<and> 0 \<notin> set (head # xs)"

lemma set_next_fields [simp]:
  "l_next (set_next a v h x) = (if x = a then v else l_next (h x))"
  "l_prev (set_next a v h x) = l_prev (h x)"
  "l_priv (set_next a v h x) = l_priv (h x)"
  by (auto simp: set_next_def)

lemma set_prev_fields [simp]:
  "l_prev (set_prev a v h x) = (if x = a then v else l_prev (h x))"
  "l_next (set_prev a v h x) = l_next (h x)"
  "l_priv (set_prev a v h x) = l_priv (h x)"
  by (auto simp: set_prev_def)

lemma dseg_append:
  "dseg h a (xs @ y # ys) b \<longleftrightarrow> dseg h a xs y \<and> dseg h y ys b"
  by (induction xs arbitrary: a) auto

lemma dseg_cong:
  "dseg h a xs b \<Longrightarrow> (\<And>x. x \<in> set (a # xs) \<Longrightarrow> l_next (h' x) = l_next (h x)) \<Longrightarrow>
   (\<And>x. x \<in> set (b # xs) \<Longrightarrow> l_prev (h' x) = l_prev (h x)) \<Longrightarrow> dseg h' a xs b"
  by (induction xs arbitrary: a) auto

lemma dseg_last: "dseg h a xs b \<Longrightarrow> l_prev (h b) = last (a # xs) \<and> l_next (h (last (a # xs))) = b"
  by (induction xs arbitrary: a) auto

lemma dseg_first: "dseg h a xs b \<Longrightarrow> l_next (h a) = hd (xs @ [b]) \<and> l_prev (h (hd (xs @ [b]))) = a"
  by (cases xs) auto

text \<open>The last link of a segment can be redirected.\<close>

lemma dseg_snoc_update:
  assumes "dseg h a xs b" and "distinct (a # xs)"
    and "\<And>x. x \<in> set (a # xs) \<Longrightarrow> l_next (h' x) = (if x = last (a # xs) then n else l_next (h x))"
    and "\<And>x. x \<in> set xs \<Longrightarrow> l_prev (h' x) = l_prev (h x)"
    and "l_prev (h' n) = last (a # xs)"
  shows "dseg h' a xs n"
  using assms by (induction xs arbitrary: a) (auto split: if_splits)

text \<open>All three insertions link a new node between two neighbours, and deletion links the
  neighbours of a node; these two lemmas carry every operation.\<close>

lemma dlist_link:
  assumes l: "dlist h head (us @ vs)" and n: "n \<notin> set (head # us @ vs)" "n \<noteq> 0"
    and nx: "\<And>x. l_next (h' x) =
      (if x = last (head # us) then n else if x = n then hd (vs @ [head]) else l_next (h x))"
    and pv: "\<And>x. l_prev (h' x) =
      (if x = hd (vs @ [head]) then n else if x = n then last (head # us) else l_prev (h x))"
  shows "dlist h' head (us @ n # vs)"
proof -
  from l have d: "distinct (head # us @ vs)" and seg: "dseg h head (us @ vs) head"
    and z: "0 \<notin> set (head # us @ vs)"
    by (auto simp: dlist_def)
  have first: "dseg h head us (hd (vs @ [head]))"
    using seg by (cases vs) (auto simp: dseg_append)
  have lastin: "last (head # us) \<in> set (head # us)" by (rule last_in_set) simp
  have "dseg h' head us n"
  proof (rule dseg_snoc_update [OF first])
    show "l_prev (h' n) = last (head # us)"
      using d n by (cases vs) (auto simp: pv)
    show "l_prev (h' x) = l_prev (h x)" if "x \<in> set us" for x
      using d n that by (cases vs) (auto simp: pv)
    show "l_next (h' x) = (if x = last (head # us) then n else l_next (h x))"
      if "x \<in> set (head # us)" for x
      using n that by (auto simp: nx)
  qed (use d in auto)
  moreover have "dseg h' n vs head"
  proof (cases vs)
    case Nil
    then show ?thesis using n d lastin by (auto simp: nx pv)
  next
    case (Cons v vs')
    with seg have "dseg h v vs' head" by (simp add: dseg_append)
    moreover have "l_next (h' x) = l_next (h x)" if "x \<in> set (v # vs')" for x
      using n d lastin that Cons by (auto simp: nx)
    moreover have "l_prev (h' x) = l_prev (h x)" if "x \<in> set (head # vs')" for x
      using n d that Cons by (auto simp: pv)
    ultimately have "dseg h' v vs' head" by (rule dseg_cong)
    then show ?thesis using Cons n d lastin by (auto simp: nx pv)
  qed
  ultimately show ?thesis using d z n by (auto simp: dlist_def dseg_append)
qed

lemma dlist_unlink:
  assumes l: "dlist h head (us @ y # vs)"
    and nx: "\<And>x. x \<noteq> y \<Longrightarrow> l_next (h' x) =
      (if x = last (head # us) then hd (vs @ [head]) else l_next (h x))"
    and pv: "\<And>x. x \<noteq> y \<Longrightarrow> l_prev (h' x) =
      (if x = hd (vs @ [head]) then last (head # us) else l_prev (h x))"
  shows "dlist h' head (us @ vs)"
proof -
  from l have d: "distinct (head # us @ y # vs)" and seg: "dseg h head us y" "dseg h y vs head"
    and z: "0 \<notin> set (head # us @ vs)"
    by (auto simp: dlist_def dseg_append)
  have lastin: "last (head # us) \<in> set (head # us)" by (rule last_in_set) simp
  have ne: "hd (vs @ [head]) \<noteq> y" using d by (cases vs) auto
  have 1: "dseg h' head us (hd (vs @ [head]))"
  proof (rule dseg_snoc_update [OF seg(1)])
    show "l_prev (h' (hd (vs @ [head]))) = last (head # us)"
      using ne by (simp add: pv)
    show "l_prev (h' x) = l_prev (h x)" if "x \<in> set us" for x
    proof -
      from that d have "x \<noteq> y" "x \<noteq> hd (vs @ [head])" by (cases vs, auto)+
      then show ?thesis by (simp add: pv)
    qed
    show "l_next (h' x) = (if x = last (head # us) then hd (vs @ [head]) else l_next (h x))"
      if "x \<in> set (head # us)" for x
      using d that by (intro nx) auto
  qed (use d in auto)
  have "dseg h' head (us @ vs) head"
  proof (cases vs)
    case Nil
    then show ?thesis using 1 by simp
  next
    case (Cons v vs')
    with seg have "dseg h v vs' head" by simp
    moreover have "l_next (h' x) = l_next (h x)" if "x \<in> set (v # vs')" for x
    proof -
      from that d Cons have "x \<noteq> y" "x \<notin> set (head # us)" by auto
      with lastin have "x \<noteq> last (head # us)" by metis
      with \<open>x \<noteq> y\<close> show ?thesis by (simp add: nx)
    qed
    moreover have "l_prev (h' x) = l_prev (h x)" if "x \<in> set (head # vs')" for x
    proof -
      from that d Cons have "x \<noteq> y" "x \<noteq> v" by auto
      then show ?thesis using Cons by (simp add: pv)
    qed
    ultimately have "dseg h' v vs' head" by (rule dseg_cong)
    then show ?thesis using Cons 1 by (simp add: dseg_append)
  qed
  then show ?thesis using d z by (auto simp: dlist_def)
qed

lemma dlist_prev: "dlist h head (us @ y # vs) \<Longrightarrow> l_prev (h y) = last (head # us)"
  by (auto simp: dlist_def dseg_append dest!: dseg_last)

lemma dlist_next: "dlist h head (us @ y # vs) \<Longrightarrow> l_next (h y) = hd (vs @ [head])"
  by (auto simp: dlist_def dseg_append dest!: dseg_first)

lemma dlist_head_prev: "dlist h head xs \<Longrightarrow> l_prev (h head) = last (head # xs)"
  by (auto simp: dlist_def dest!: dseg_last)

section \<open>The operations on represented lists\<close>

lemma dlist_init: "head \<noteq> 0 \<Longrightarrow> dlist (qdma_list_init_head head h) head []"
  by (simp add: dlist_def qdma_list_init_head_def)

lemma dlist_add_tail:
  assumes l: "dlist h head xs" and n: "n \<notin> set (head # xs)" "n \<noteq> 0"
  shows "dlist (qdma_list_add_tail n head h) head (xs @ [n])"
proof -
  have p: "l_prev (h head) = last (head # xs)" using l by (rule dlist_head_prev)
  have "last (head # xs) \<in> set (head # xs)" by (rule last_in_set) simp
  then have "last (head # xs) \<noteq> n" using n by metis
  then show ?thesis
    using l n p by (intro dlist_link [where vs = "[]", simplified])
      (auto simp: qdma_list_add_tail_def Let_def)
qed

lemma dlist_insert_before:
  assumes l: "dlist h head (us @ y # vs)" and n: "n \<notin> set (head # us @ y # vs)" "n \<noteq> 0"
  shows "dlist (qdma_list_insert_before n y h) head (us @ n # y # vs)"
proof -
  have p: "l_prev (h y) = last (head # us)" using l by (rule dlist_prev)
  have "last (head # us) \<in> set (head # us)" by (rule last_in_set) simp
  then have "last (head # us) \<noteq> n" using n by auto
  then show ?thesis
    using l n p by (intro dlist_link [where vs = "y # vs"])
      (auto simp: qdma_list_insert_before_def Let_def)
qed

lemma dlist_insert_after:
  assumes l: "dlist h head (us @ y # vs)" and n: "n \<notin> set (head # us @ y # vs)" "n \<noteq> 0"
  shows "dlist (qdma_list_insert_after n y h) head (us @ y # n # vs)"
proof -
  have q: "l_next (h y) = hd (vs @ [head])" using l by (rule dlist_next)
  have "hd (vs @ [head]) \<noteq> n" using n by (cases vs) auto
  then have "dlist (qdma_list_insert_after n y h) head ((us @ [y]) @ n # vs)"
    using l n q by (intro dlist_link) (auto simp: qdma_list_insert_after_def Let_def)
  then show ?thesis by simp
qed

lemma dlist_del:
  assumes l: "dlist h head (us @ y # vs)"
  shows "dlist (qdma_list_del y h) head (us @ vs)"
proof -
  from l have d: "distinct (head # us @ y # vs)" "0 \<notin> set (head # us @ y # vs)"
    by (auto simp: dlist_def)
  have p: "l_prev (h y) = last (head # us)" using l by (rule dlist_prev)
  have q: "l_next (h y) = hd (vs @ [head])" using l by (rule dlist_next)
  have "last (head # us) \<in> set (head # us)" by (rule last_in_set) simp
  then have pn: "last (head # us) \<noteq> 0" "last (head # us) \<noteq> y"
    using d by (metis Un_iff list.set_intros(1,2) set_ConsD set_append, auto)
  have qn: "hd (vs @ [head]) \<noteq> 0" using d by (cases vs) auto
  show ?thesis
    using pn qn p q d by (intro dlist_unlink [OF l]) (auto simp: qdma_list_del_def Let_def)
qed

lemma dlist_is_empty: "dlist h head xs \<Longrightarrow> qdma_list_is_empty head h \<longleftrightarrow> xs = []"
  by (cases xs) (auto simp: dlist_def qdma_list_is_empty_def)

lemma dlist_is_last_entry:
  assumes l: "dlist h head (us @ y # vs)"
  shows "qdma_list_is_last_entry y head h \<longleftrightarrow> vs = []"
proof -
  have q: "l_next (h y) = hd (vs @ [head])" using l by (rule dlist_next)
  have "vs \<noteq> [] \<Longrightarrow> hd vs \<noteq> head" using l by (cases vs) (auto simp: dlist_def)
  then show ?thesis using q by (cases vs) (auto simp: qdma_list_is_last_entry_def)
qed

lemma for_each_from_dseg:
  "dseg h a xs b \<Longrightarrow> b \<notin> set xs \<Longrightarrow> length xs < fuel \<Longrightarrow>
   for_each_from fuel h b (l_next (h a)) = Some xs"
proof (induction xs arbitrary: a fuel)
  case Nil
  then show ?case by (cases fuel) auto
next
  case (Cons x xs)
  then show ?case by (cases fuel) auto
qed

lemma dlist_for_each:
  "dlist h head xs \<Longrightarrow> length xs < fuel \<Longrightarrow> qdma_list_for_each_safe fuel h head = Some xs"
  by (auto simp: dlist_def qdma_list_for_each_safe_def intro: for_each_from_dseg)

section \<open>The list as an abstract sequence store\<close>

text \<open>What the clients of the list rely on: a store represents a sequence of nodes behind a head,
  following \<open>next\<close> enumerates it, and each operation has its sequence meaning.\<close>

locale seq_store =
  fixes rep :: "'h \<Rightarrow> nat \<Rightarrow> nat list \<Rightarrow> bool"
    and next_of :: "'h \<Rightarrow> nat \<Rightarrow> nat"
    and add_tail :: "nat \<Rightarrow> nat \<Rightarrow> 'h \<Rightarrow> 'h"
    and insert_before :: "nat \<Rightarrow> nat \<Rightarrow> 'h \<Rightarrow> 'h"
    and insert_after :: "nat \<Rightarrow> nat \<Rightarrow> 'h \<Rightarrow> 'h"
    and del :: "nat \<Rightarrow> 'h \<Rightarrow> 'h"
  assumes rep_distinct: "rep h head xs \<Longrightarrow> distinct (head # xs) \<and> 0 \<notin> set (head # xs)"
    and rep_first: "rep h head xs \<Longrightarrow> next_of h head = hd (xs @ [head])"
    and rep_next: "rep h head (us @ y # vs) \<Longrightarrow> next_of h y = hd (vs @ [head])"
    and rep_add_tail: "rep h head xs \<Longrightarrow> n \<notin> set (head # xs) \<Longrightarrow> n \<noteq> 0 \<Longrightarrow>
      rep (add_tail n head h) head (xs @ [n])"
    and rep_before: "rep h head (us @ y # vs) \<Longrightarrow> n \<notin> set (head # us @ y # vs) \<Longrightarrow> n \<noteq> 0 \<Longrightarrow>
      rep (insert_before n y h) head (us @ n # y # vs)"
    and rep_after: "rep h head (us @ y # vs) \<Longrightarrow> n \<notin> set (head # us @ y # vs) \<Longrightarrow> n \<noteq> 0 \<Longrightarrow>
      rep (insert_after n y h) head (us @ y # n # vs)"
    and rep_del: "rep h head (us @ y # vs) \<Longrightarrow> rep (del y h) head (us @ vs)"
begin

text \<open>A node that is not the head; the last node is the one whose successor is the head.\<close>

lemma rep_not_head: "rep h head (us @ y # vs) \<Longrightarrow> y \<noteq> head \<and> y \<noteq> 0"
  using rep_distinct by fastforce

lemma rep_last: "rep h head (us @ y # vs) \<Longrightarrow> next_of h y = head \<longleftrightarrow> vs = []"
  using rep_next [of h head us y vs] rep_distinct [of h head "us @ y # vs"] by (cases vs) auto

text \<open>Surrounding a node by two new ones, as the free-list code does when a request lies in the
  middle of a block.\<close>

lemma rep_surround:
  assumes "rep h head (us @ y # vs)" and "distinct [n, k]" and "0 \<notin> {n, k}"
    and "{n, k} \<inter> set (head # us @ y # vs) = {}"
  shows "rep (insert_after k y (insert_before n y h)) head (us @ n # y # k # vs)"
  using rep_after [of "insert_before n y h" head "us @ [n]" y vs k] rep_before [OF assms(1), of n] assms(2-4)
  by auto

text \<open>Deleting a node that was inserted gives back the sequence.\<close>

lemma rep_insert_del:
  assumes "rep h head (us @ y # vs)" and "n \<notin> set (head # us @ y # vs)" and "n \<noteq> 0"
  shows "rep (del n (insert_before n y h)) head (us @ y # vs)"
    and "rep (del n (insert_after n y h)) head (us @ y # vs)"
  using rep_del [OF rep_before [OF assms]] rep_del [of _ head "us @ [y]" n vs] rep_after [OF assms] by auto

text \<open>Moving a node to the tail.\<close>

lemma rep_move_tail:
  assumes "rep h head (us @ y # vs)"
  shows "rep (add_tail y head (del y h)) head (us @ vs @ [y])"
  using rep_add_tail [OF rep_del [OF assms], of y] rep_distinct [OF assms] by auto

end

interpretation dl: seq_store dlist "\<lambda>h a. l_next (h a)" qdma_list_add_tail qdma_list_insert_before
  qdma_list_insert_after qdma_list_del
proof unfold_locales
  show "dlist h head xs \<Longrightarrow> distinct (head # xs) \<and> 0 \<notin> set (head # xs)" for h head xs
    by (simp add: dlist_def)
  show "dlist h head xs \<Longrightarrow> l_next (h head) = hd (xs @ [head])" for h head xs
    by (auto simp: dlist_def dest!: dseg_first)
qed (rule dlist_next dlist_add_tail dlist_insert_before dlist_insert_after dlist_del; assumption)+

end
