(* ===== verification/Qdma_Free_Heap.thy ===== *)
theory Qdma_Free_Heap
  imports Qdma_List Qdma_Resource
begin

text \<open>
  \<open>qdma_submit_to_free_list\<close> on the pointer structure itself: nodes of \<open>qdma_list.c\<close> on a heap,
  with \<open>ent\<close> giving the \<open>qdma_resource_entry\<close> a node's \<open>priv\<close> pointer leads to.  The two loops
  are the C loops, with a bound on their iterations (a circular list never ends by itself).
  The refinement lemma shows that they compute what the sequence model \<open>Qdma_Resource\<close>
  computes, and that the structure is a well-formed list afterwards.
\<close>

section \<open>The loops on the heap\<close>

type_synonym free_heap = "lheap \<times> (nat \<Rightarrow> qdma_resource_entry)"

fun insert_loop :: "nat \<Rightarrow> nat \<Rightarrow> u32 \<Rightarrow> nat \<Rightarrow> nat \<Rightarrow> free_heap \<Rightarrow> free_heap option" where
  "insert_loop 0 new_node qbase head entry s = None"
| "insert_loop (Suc fuel) new_node qbase head entry (h, ent) =
     (if entry = head then Some (h, ent)
      else if qbase <s re_qbase (ent entry) \<or> qdma_list_is_last_entry entry head h then
        Some (if qbase <s re_qbase (ent entry) then qdma_list_insert_before new_node entry h
              else qdma_list_add_tail new_node head h, ent)
      else insert_loop fuel new_node qbase head (l_next (h entry)) (h, ent))"

text \<open>The successor is read before the body runs, as \<open>qdma_list_for_each_safe\<close> does, so that
  deleting the current node does not break the walk.  \<open>0\<close> is the initial null
  \<open>streach_node\<close>.\<close>

fun merge_loop :: "nat \<Rightarrow> nat \<Rightarrow> nat \<Rightarrow> nat \<Rightarrow> free_heap \<Rightarrow> free_heap option" where
  "merge_loop 0 head streach_node entry s = None"
| "merge_loop (Suc fuel) head streach_node entry (h, ent) =
     (if entry = head then Some (h, ent)
      else
        (let tmp = l_next (h entry) in
         if streach_node = 0 then merge_loop fuel head entry tmp (h, ent)
         else if re_qbase (ent streach_node) + re_total_q (ent streach_node) = re_qbase (ent entry) then
           merge_loop fuel head streach_node tmp
             (qdma_list_del entry h,
              ent(streach_node := (ent streach_node)\<lparr>re_total_q :=
                re_total_q (ent streach_node) + re_total_q (ent entry)\<rparr>))
         else merge_loop fuel head entry tmp (h, ent)))"

text \<open>\<open>new_node\<close> is what \<open>qdma_free_entry_create\<close> returned, \<open>0\<close> when it failed.\<close>

definition submit_heap ::
    "nat \<Rightarrow> nat \<Rightarrow> qdma_resource_entry \<Rightarrow> nat \<Rightarrow> free_heap
     \<Rightarrow> (qdma_resource_entry \<times> free_heap) option" where
  "submit_heap fuel new_node e head s =
     (if re_total_q e = 0 then Some (e, s)
      else if new_node = 0 then Some (e, s)
      else
        (let (h, ent) = s; ent1 = ent(new_node := \<lparr>re_qbase = re_qbase e, re_total_q = re_total_q e\<rparr>);
             s1 = (if qdma_list_is_empty head h then Some (qdma_list_add_tail new_node head h, ent1)
                   else insert_loop fuel new_node (re_qbase e) head (l_next (h head)) (h, ent1))
         in case s1 of None \<Rightarrow> None
          | Some (h1, ent2) \<Rightarrow>
              map_option (\<lambda>s2. (\<lparr>re_qbase = -1, re_total_q = 0\<rparr>, s2))
                (merge_loop fuel head 0 (l_next (h1 head)) (h1, ent2))))"

section \<open>Refinement\<close>

lemma hd_append_single: "hd (vs @ [a]) = (case vs of [] \<Rightarrow> a | v # _ \<Rightarrow> v)"
  by (cases vs) auto

lemma insert_loop_refines:
  assumes "dlist h head (us @ vs)" "vs \<noteq> []" "length vs < fuel"
    and "new \<notin> set (head # us @ vs)" "new \<noteq> 0"
  shows "\<exists>h' ys. insert_loop fuel new qb head (hd vs) (h, ent) = Some (h', ent) \<and>
    dlist h' head (us @ ys) \<and> (re_qbase (ent new) = qb \<longrightarrow> map ent ys = free_insert (ent new) (map ent vs)) \<and>
    set ys = insert new (set vs)"
  using assms
proof (induction vs arbitrary: us fuel)
  case (Cons v vs)
  obtain k where k: "fuel = Suc k" using Cons.prems(3) by (cases fuel) auto
  have nh: "v \<noteq> head" using dl.rep_not_head Cons.prems(1) by blast
  have last: "qdma_list_is_last_entry v head h \<longleftrightarrow> vs = []"
    using dlist_is_last_entry Cons.prems(1) by blast
  show ?case
  proof (cases "qb <s re_qbase (ent v)")
    case True
    have "dlist (qdma_list_insert_before new v h) head (us @ new # v # vs)"
      using dl.rep_before [OF Cons.prems(1,4,5)] .
    with True k nh show ?thesis by (intro exI [of _ "qdma_list_insert_before new v h"] exI [of _ "new # v # vs"]) auto
  next
    case ge: False
    show ?thesis
    proof (cases "vs = []")
      case True
      have "dlist (qdma_list_add_tail new head h) head ((us @ [v]) @ [new])"
        using dl.rep_add_tail [of h head "us @ [v]" new] Cons.prems(1,4,5) True by simp
      with True ge k nh last show ?thesis
        by (intro exI [of _ "qdma_list_add_tail new head h"] exI [of _ "[v, new]"]) auto
    next
      case False
      have nx: "l_next (h v) = hd vs"
        using dl.rep_next [OF Cons.prems(1)] False by simp
      have "\<exists>h' ys. insert_loop k new qb head (hd vs) (h, ent) = Some (h', ent) \<and>
        dlist h' head ((us @ [v]) @ ys) \<and> (re_qbase (ent new) = qb \<longrightarrow> map ent ys = free_insert (ent new) (map ent vs)) \<and>
        set ys = insert new (set vs)"
        using Cons.prems False k by (intro Cons.IH) auto
      then obtain h' ys where r: "insert_loop k new qb head (hd vs) (h, ent) = Some (h', ent)"
        "dlist h' head ((us @ [v]) @ ys)" "re_qbase (ent new) = qb \<longrightarrow> map ent ys = free_insert (ent new) (map ent vs)"
        "set ys = insert new (set vs)" by blast
      with False ge k nh last nx show ?thesis
        by (intro exI [of _ h'] exI [of _ "v # ys"]) auto
    qed
  qed
qed simp

lemma merge_loop_refines:
  assumes "dlist h head (us @ x # vs)" "length vs < fuel"
  shows "\<exists>h' ent' ys. merge_loop fuel head x (hd (vs @ [head])) (h, ent) = Some (h', ent') \<and>
    dlist h' head (us @ ys) \<and> map ent' (us @ ys) = map ent us @ stretch (ent x) (map ent vs) \<and>
    set ys \<subseteq> insert x (set vs)"
  using assms
proof (induction vs arbitrary: us x fuel h ent)
  case Nil
  then obtain k where "fuel = Suc k" by (cases fuel) auto
  with Nil show ?case by (intro exI [of _ h] exI [of _ ent] exI [of _ "[x]"]) simp
next
  case (Cons v vs)
  obtain k where k: "fuel = Suc k" using Cons.prems(2) by (cases fuel) auto
  have l2: "dlist h head ((us @ [x]) @ v # vs)" using Cons.prems(1) by simp
  have nh: "v \<noteq> head" "x \<noteq> 0" using dl.rep_not_head l2 Cons.prems(1) by blast+
  have nx: "l_next (h v) = hd (vs @ [head])" using dl.rep_next [OF l2] .
  have d: "distinct (us @ x # v # vs)" using dl.rep_distinct [OF Cons.prems(1)] by simp
  show ?case
  proof (cases "re_qbase (ent x) + re_total_q (ent x) = re_qbase (ent v)")
    case True
    let ?ent = "ent(x := (ent x)\<lparr>re_total_q := re_total_q (ent x) + re_total_q (ent v)\<rparr>)"
    have "dlist (qdma_list_del v h) head (us @ x # vs)" using dl.rep_del [OF l2] by simp
    moreover have "length vs < k" using Cons.prems(2) k by simp
    ultimately obtain h' ent' ys where r:
      "merge_loop k head x (hd (vs @ [head])) (qdma_list_del v h, ?ent) = Some (h', ent')"
      "dlist h' head (us @ ys)" "map ent' (us @ ys) = map ?ent us @ stretch (?ent x) (map ?ent vs)"
      "set ys \<subseteq> insert x (set vs)" using Cons.IH [where ent = ?ent and h = "qdma_list_del v h"] by blast
    have "map ?ent us = map ent us" "map ?ent vs = map ent vs" using d by auto
    with r True k nh nx show ?thesis
      by (intro exI [of _ h'] exI [of _ ent'] exI [of _ ys]) (auto simp: Let_def)
  next
    case False
    have "length vs < k" using Cons.prems(2) k by simp
    from Cons.IH [OF l2 this, of ent] obtain h' ent' ys where r:
      "merge_loop k head v (hd (vs @ [head])) (h, ent) = Some (h', ent')"
      "dlist h' head ((us @ [x]) @ ys)"
      "map ent' ((us @ [x]) @ ys) = map ent (us @ [x]) @ stretch (ent v) (map ent vs)"
      "set ys \<subseteq> insert v (set vs)" by blast
    with False k nh nx show ?thesis
      by (intro exI [of _ h'] exI [of _ ent'] exI [of _ "x # ys"]) (auto simp: Let_def)
  qed
qed

lemma merge_all_refines:
  assumes "dlist h head xs" "Suc (length xs) < fuel"
  shows "\<exists>h' ent' ys. merge_loop fuel head 0 (l_next (h head)) (h, ent) = Some (h', ent') \<and>
    dlist h' head ys \<and> map ent' ys = defragment (map ent xs)"
proof (cases xs)
  case Nil
  with assms obtain k where "fuel = Suc k" by (cases fuel) auto
  with Nil assms dl.rep_first [OF assms(1)] show ?thesis by auto
next
  case (Cons x vs)
  obtain k where k: "fuel = Suc k" using assms(2) by (cases fuel) auto
  have l: "dlist h head ([] @ x # vs)" using assms(1) Cons by simp
  have nx: "l_next (h head) = x" "l_next (h x) = hd (vs @ [head])" "x \<noteq> head"
    using dl.rep_first [OF assms(1)] dl.rep_next [OF l] dl.rep_not_head [OF l] Cons by auto
  from merge_loop_refines [OF l, of k ent] assms(2) Cons k nx show ?thesis by auto
qed

text \<open>C13: the pointer code of \<open>qdma_submit_to_free_list\<close> refines the sequence operation the
  resource manager is verified with.  On a well-formed list of free nodes, with a fresh node
  from the allocator, both loops end within \<open>length + 3\<close> iterations, the heap holds a
  well-formed list again, its entries are those of the sequence model, and the device entry
  is the same.\<close>

theorem submit_heap_refines:
  assumes l: "dlist h head xs" and n: "new \<noteq> 0" "new \<notin> set (head # xs)"
    and fuel: "length xs + 2 < fuel"
  shows "\<exists>e' h' ent' ys. submit_heap fuel new e head (h, ent) = Some (e', h', ent') \<and> dlist h' head ys \<and>
    (e', map ent' ys) =
      (let (e', fl', _) = qdma_submit_to_free_list (\<lambda>_. True) 0 e (map ent xs) in (e', fl'))"
proof (cases "re_total_q e = 0")
  case True
  with l show ?thesis by (auto simp: submit_heap_def qdma_submit_to_free_list_def)
next
  case nz: False
  let ?new = "\<lparr>re_qbase = re_qbase e, re_total_q = re_total_q e\<rparr>"
  let ?ent = "ent(new := ?new)"
  have me: "map ?ent xs = map ent xs" using n by auto
  have "\<exists>h1 ys1. (if qdma_list_is_empty head h then Some (qdma_list_add_tail new head h, ?ent)
      else insert_loop fuel new (re_qbase e) head (l_next (h head)) (h, ?ent)) = Some (h1, ?ent) \<and>
      dlist h1 head ys1 \<and> map ?ent ys1 = free_insert ?new (map ent xs) \<and> length ys1 = Suc (length xs)"
  proof (cases "xs = []")
    case True
    have "dlist (qdma_list_add_tail new head h) head [new]"
      using dl.rep_add_tail [OF l, of new] n True by simp
    with True dlist_is_empty [OF l] show ?thesis
      by (intro exI [of _ "qdma_list_add_tail new head h"] exI [of _ "[new]"]) simp
  next
    case False
    have nx: "l_next (h head) = hd xs" using dl.rep_first [OF l] False by simp
    obtain h1 ys1 where r: "insert_loop fuel new (re_qbase e) head (hd xs) (h, ?ent) = Some (h1, ?ent)"
      "dlist h1 head ys1" "map ?ent ys1 = free_insert (?ent new) (map ?ent xs)" "set ys1 = insert new (set xs)"
      using insert_loop_refines [of h head "[]" xs fuel new "re_qbase e" ?ent] l n False fuel by auto
    have len: "length (free_insert x ws) = Suc (length ws)" for x ws
      by (induction x ws rule: free_insert.induct) auto
    have "length ys1 = Suc (length xs)" using arg_cong [OF r(3), of length] len by simp
    with r False dlist_is_empty [OF l] nx me show ?thesis by auto
  qed
  then obtain h1 ys1 where s1: "(if qdma_list_is_empty head h then Some (qdma_list_add_tail new head h, ?ent)
      else insert_loop fuel new (re_qbase e) head (l_next (h head)) (h, ?ent)) = Some (h1, ?ent)"
    "dlist h1 head ys1" "map ?ent ys1 = free_insert ?new (map ent xs)" "length ys1 = Suc (length xs)" by blast
  obtain h2 ent2 ys2 where s2: "merge_loop fuel head 0 (l_next (h1 head)) (h1, ?ent) = Some (h2, ent2)"
    "dlist h2 head ys2" "map ent2 ys2 = defragment (map ?ent ys1)"
    using merge_all_refines [OF s1(2), of fuel ?ent] s1(4) fuel by auto
  show ?thesis
    using nz n(1) s1 s2
    by (intro exI [of _ "\<lparr>re_qbase = -1, re_total_q = 0\<rparr>"] exI [of _ h2] exI [of _ ent2] exI [of _ ys2])
      (simp add: submit_heap_def qdma_submit_to_free_list_def qdma_free_entry_create_def Let_def)
qed

definition demo_heap :: lheap where
  "demo_heap = qdma_list_add_tail 2 1 (qdma_list_init_head 1 (\<lambda>_. \<lparr>l_prev = 0, l_next = 0, l_priv = 0\<rparr>))"

theorem submit_heap_refines_witness:
  "dlist demo_heap 1 [2] \<and>
   (\<exists>e' h' ent' ys. submit_heap 4 3 \<lparr>re_qbase = 4, re_total_q = 4\<rparr> 1
      (demo_heap, \<lambda>_. \<lparr>re_qbase = 0, re_total_q = 4\<rparr>) = Some (e', h', ent') \<and> dlist h' 1 ys \<and>
    (e', map ent' ys) = (\<lparr>re_qbase = -1, re_total_q = 0\<rparr>, [\<lparr>re_qbase = 0, re_total_q = 8\<rparr>]))"
proof -
  have l: "dlist demo_heap 1 [2]"
    unfolding demo_heap_def using dl.rep_add_tail [OF dlist_init [of 1], of 2] by simp
  have q: "qdma_submit_to_free_list (\<lambda>_. True) 0 \<lparr>re_qbase = 4, re_total_q = 4\<rparr>
      [\<lparr>re_qbase = 0, re_total_q = 4\<rparr>] =
    (\<lparr>re_qbase = -1, re_total_q = 0\<rparr>, [\<lparr>re_qbase = 0, re_total_q = 8\<rparr>], 1)"
    by code_simp
  show ?thesis
    using submit_heap_refines [OF l, of 3 4 "\<lparr>re_qbase = 4, re_total_q = 4\<rparr>"
        "\<lambda>_. \<lparr>re_qbase = 0, re_total_q = 4\<rparr>"] l q by simp
qed

end
