(* ===== verification/Lib_Memory.thy ===== *)
theory Lib_Memory
  imports Prelude
begin

text \<open>
  \<open>memory_api.c\<close>: moving data between a user buffer and the card's memory through the
  character device, in chunks of at most \<open>RW_MAX_SIZE\<close> bytes.  The system calls are arguments
  (\<open>sys_lseek\<close>, \<open>sys_read\<close>, \<open>sys_write\<close> on a device state \<open>'d\<close> and the process memory); the
  locale \<open>chardev\<close> states what the library expects of them, and \<open>Onic_Cdev\<close> provides it.
\<close>

section \<open>Model\<close>

type_synonym umem = "u64 \<Rightarrow> u8"
type_synonym 'd lseek_op = "'d \<Rightarrow> u64 \<Rightarrow> int \<times> 'd"
type_synonym 'd read_op = "umem \<Rightarrow> 'd \<Rightarrow> u64 \<Rightarrow> u64 \<Rightarrow> int \<times> umem \<times> 'd"
type_synonym 'd write_op = "umem \<Rightarrow> 'd \<Rightarrow> u64 \<Rightarrow> u64 \<Rightarrow> int \<times> 'd"

definition DEVICE_MEMORY_ADDRESS_MASK :: u64 where
  "DEVICE_MEMORY_ADDRESS_MASK = 0x0000001FFFFFFFFF"

definition RW_MAX_SIZE :: u64 where
  "RW_MAX_SIZE = 0x7ffff000"

definition EIO :: int where
  "EIO = 5"

definition next_bytes :: "u64 \<Rightarrow> u64 \<Rightarrow> u64" where
  "next_bytes sz count = (if sz - count > RW_MAX_SIZE then RW_MAX_SIZE else sz - count)"

lemma next_bytes_le: "next_bytes sz count \<le> sz - count" "next_bytes sz count \<le> RW_MAX_SIZE"
  by (auto simp: next_bytes_def)

lemma next_bytes_progress:
  assumes "count + next_bytes sz count < sz"
  shows "unat (sz - (count + next_bytes sz count)) < unat (sz - count)"
proof -
  have nz: "next_bytes sz count \<noteq> 0"
  proof
    assume z: "next_bytes sz count = 0"
    then have "sz = count" by (auto simp: next_bytes_def RW_MAX_SIZE_def split: if_splits)
    with assms z show False by simp
  qed
  moreover have "unat (next_bytes sz count) \<le> unat (sz - count)"
    using next_bytes_le(1) by (simp add: word_le_nat_alt)
  moreover have "unat (sz - count - next_bytes sz count) = unat (sz - count) - unat (next_bytes sz count)"
    using next_bytes_le(1) by (intro unat_sub)
  moreover have "0 < unat (next_bytes sz count)" using nz by (simp add: unat_gt_0)
  ultimately show ?thesis unfolding diff_diff_eq [symmetric] by linarith
qed

text \<open>The do-while loop of \<open>read_to_buffer\<close>.  \<open>rc\<close> is an \<open>ssize_t\<close>; it is compared with the
  signed \<open>offset\<close>, and with the unsigned \<open>bytes\<close> after conversion to 64 bits.\<close>

function read_loop ::
    "'d lseek_op \<Rightarrow> 'd read_op \<Rightarrow> u64 \<Rightarrow> u64 \<Rightarrow> u64 \<Rightarrow> u64 \<Rightarrow> umem \<Rightarrow> 'd \<Rightarrow> int \<times> umem \<times> 'd" where
  "read_loop sys_lseek sys_read sz count buf offset m d =
     (let bytes = next_bytes sz count; (rc, d1) = sys_lseek d offset in
      if rc < 0 then (- EIO, m, d1)
      else if rc \<noteq> sint offset then (- EIO, m, d1)
      else
        (let (rc, m2, d2) = sys_read m d1 buf bytes in
         if rc < 0 then (- EIO, m2, d2)
         else if word_of_int rc \<noteq> bytes then (- EIO, m2, d2)
         else if count + bytes < sz then
           read_loop sys_lseek sys_read sz (count + bytes) (buf + bytes) (offset + bytes) m2 d2
         else if count + bytes \<noteq> sz then (- EIO, m2, d2)
         else (sint (count + bytes), m2, d2)))"
  by pat_completeness auto
termination
  by (relation "measure (\<lambda>(_, _, sz, count, _). unat (sz - count))") (auto intro: next_bytes_progress)

definition read_to_buffer ::
    "'d lseek_op \<Rightarrow> 'd read_op \<Rightarrow> u64 \<Rightarrow> u64 \<Rightarrow> u64 \<Rightarrow> umem \<Rightarrow> 'd \<Rightarrow> int \<times> umem \<times> 'd" where
  "read_to_buffer sys_lseek sys_read buffer sz dev_offset m d =
     read_loop sys_lseek sys_read sz 0 buffer (dev_offset AND DEVICE_MEMORY_ADDRESS_MASK) m d"

function write_loop ::
    "'d lseek_op \<Rightarrow> 'd write_op \<Rightarrow> u64 \<Rightarrow> u64 \<Rightarrow> u64 \<Rightarrow> u64 \<Rightarrow> umem \<Rightarrow> 'd \<Rightarrow> int \<times> 'd" where
  "write_loop sys_lseek sys_write sz count buf offset m d =
     (let bytes = next_bytes sz count; (rc, d1) = sys_lseek d offset in
      if rc < 0 then (- EIO, d1)
      else if rc \<noteq> sint offset then (- EIO, d1)
      else
        (let (rc, d2) = sys_write m d1 buf bytes in
         if rc < 0 then (- EIO, d2)
         else if word_of_int rc \<noteq> bytes then (- EIO, d2)
         else if count + bytes < sz then
           write_loop sys_lseek sys_write sz (count + bytes) (buf + bytes) (offset + bytes) m d2
         else if count + bytes \<noteq> sz then (- EIO, d2)
         else (sint (count + bytes), d2)))"
  by pat_completeness auto
termination
  by (relation "measure (\<lambda>(_, _, sz, count, _). unat (sz - count))") (auto intro: next_bytes_progress)

definition write_from_buffer ::
    "'d lseek_op \<Rightarrow> 'd write_op \<Rightarrow> u64 \<Rightarrow> u64 \<Rightarrow> u64 \<Rightarrow> umem \<Rightarrow> 'd \<Rightarrow> int \<times> 'd" where
  "write_from_buffer sys_lseek sys_write buffer sz dev_offset m d =
     write_loop sys_lseek sys_write sz 0 buffer (dev_offset AND DEVICE_MEMORY_ADDRESS_MASK) m d"

declare read_loop.simps [simp del] write_loop.simps [simp del]

section \<open>Copying blocks of bytes\<close>

definition blit :: "u64 \<Rightarrow> umem \<Rightarrow> u64 \<Rightarrow> u64 \<Rightarrow> umem \<Rightarrow> umem" where
  "blit src s dst n t = (\<lambda>a. if a - dst < n then s (src + (a - dst)) else t a)"

lemma blit_zero [simp]: "blit src s dst 0 t = t"
  by (simp add: blit_def)

lemma word_diff_less:
  assumes "(k :: u64) \<le> n" and "k \<le> x"
  shows "x - k < n - k \<longleftrightarrow> x < n"
  using assms by (simp add: word_less_def word_le_def uint_sub_small)

lemma blit_compose:
  assumes "k \<le> n"
  shows "blit (src + k) s (dst + k) (n - k) (blit src s dst k t) = blit src s dst n t"
proof
  fix a
  define x where "x = a - dst"
  have e: "a - (dst + k) = x - k" "src + k + (x - k) = src + x" by (simp_all add: x_def)
  show "blit (src + k) s (dst + k) (n - k) (blit src s dst k t) a = blit src s dst n t a"
  proof (cases "x < k")
    case True
    with assms have "x < n" by simp
    with True show ?thesis by (simp add: blit_def e x_def [symmetric])
  next
    case False
    then have "x - k < n - k \<longleftrightarrow> x < n" using assms by (intro word_diff_less) simp_all
    with False show ?thesis by (simp add: blit_def e x_def [symmetric])
  qed
qed

lemma blit_read_back:
  "blit mid (blit src s mid n t) dst n s = blit src s dst n s"
  by (auto simp: blit_def fun_eq_iff)

section \<open>What the library expects of the character device\<close>

locale chardev =
  fixes sys_lseek :: "'d lseek_op" and sys_read :: "'d read_op" and sys_write :: "'d write_op"
    and good :: "'d \<Rightarrow> bool" and pos :: "'d \<Rightarrow> u64" and dmem :: "'d \<Rightarrow> umem"
  assumes seek_ok: "good d \<Longrightarrow> 0 \<le>s off \<Longrightarrow>
      \<exists>d'. sys_lseek d off = (sint off, d') \<and> good d' \<and> pos d' = off \<and> dmem d' = dmem d"
    and read_ok: "good d \<Longrightarrow> n \<le> RW_MAX_SIZE \<Longrightarrow>
      \<exists>d'. sys_read m d buf n = (uint n, blit (pos d) (dmem d) buf n m, d') \<and> good d' \<and> dmem d' = dmem d"
    and write_ok: "good d \<Longrightarrow> n \<le> RW_MAX_SIZE \<Longrightarrow>
      \<exists>d'. sys_write m d buf n = (uint n, d') \<and> good d' \<and> dmem d' = blit buf m (pos d) n (dmem d)"
begin

lemma chunk_facts:
  assumes "count \<le> sz" and "uint offset + uint (sz - count) < 2 ^ 63"
  defines "k \<equiv> next_bytes sz count"
  shows "0 \<le>s offset" and "count + k \<le> sz" and "uint (offset + k) + uint (sz - (count + k)) < 2 ^ 63"
    and "sz - (count + k) = sz - count - k" and "k \<le> sz - count"
    and "\<not> count + k < sz \<Longrightarrow> count + k = sz"
proof -
  have k: "uint k \<le> uint (sz - count)" using next_bytes_le(1) [of sz count] by (simp add: k_def word_le_def)
  then show kle: "k \<le> sz - count" by (simp add: word_le_def)
  have sc: "uint (sz - count) = uint sz - uint count" using assms(1) by (intro uint_sub_small) (simp add: word_le_def)
  have lt: "uint sz < 2 ^ 64" using unsigned_less [of sz] by simp
  have ck: "uint (count + k) = uint count + uint k"
    using uint_add_lem [of count k] k sc lt by simp
  have "uint offset < 2 ^ 63" using assms(2) uint_nonnegative [of "sz - count"] by linarith
  then show "0 \<le>s offset" by (simp add: word_sle_eq sint_small64)
  show le: "count + k \<le> sz" using ck k sc by (simp add: word_le_def)
  show e: "sz - (count + k) = sz - count - k" by simp
  have ok: "uint (offset + k) = uint offset + uint k"
    using uint_add_lem [of offset k] k assms(2) by simp
  have "uint (sz - count - k) = uint (sz - count) - uint k" using k by (rule uint_sub_small)
  then show "uint (offset + k) + uint (sz - (count + k)) < 2 ^ 63" using assms(2) ok unfolding e by linarith
  show "\<not> count + k < sz \<Longrightarrow> count + k = sz" using le by simp
qed

lemma write_loop_ok:
  assumes "good d" and "count \<le> sz" and "uint offset + uint (sz - count) < 2 ^ 63" and "uint sz < 2 ^ 63"
  shows "\<exists>d'. write_loop sys_lseek sys_write sz count buf offset m d = (uint sz, d') \<and> good d' \<and>
    dmem d' = blit buf m offset (sz - count) (dmem d)"
  using assms(1-3)
proof (induction "unat (sz - count)" arbitrary: count buf offset d rule: less_induct)
  case less
  define k where "k = next_bytes sz count"
  note f = chunk_facts [OF less.prems(2,3), folded k_def]
  obtain d1 where d1: "sys_lseek d offset = (sint offset, d1)" "good d1" "pos d1 = offset" "dmem d1 = dmem d"
    using seek_ok [OF less.prems(1) f(1)] by blast
  obtain d2 where d2: "sys_write m d1 buf k = (uint k, d2)" "good d2" "dmem d2 = blit buf m offset k (dmem d)"
    using write_ok [OF d1(2), of k m buf] next_bytes_le(2) d1(3,4) k_def by auto
  have nn: "\<not> sint offset < 0" using f(1) by (simp add: word_sle_eq)
  have step: "write_loop sys_lseek sys_write sz count buf offset m d =
      (if count + k < sz then write_loop sys_lseek sys_write sz (count + k) (buf + k) (offset + k) m d2
       else (uint sz, d2))"
    using d1(1) d2(1) nn f(6) sint_small64 [OF assms(4)]
    by (subst write_loop.simps) (auto simp: k_def [symmetric] Let_def)
  show ?case
  proof (cases "count + k < sz")
    case True
    have "\<exists>d'. write_loop sys_lseek sys_write sz (count + k) (buf + k) (offset + k) m d2 = (uint sz, d') \<and>
        good d' \<and> dmem d' = blit (buf + k) m (offset + k) (sz - (count + k)) (dmem d2)"
      using True f(2,3) d2(2) unfolding k_def by (intro less.hyps next_bytes_progress) auto
    then show ?thesis using step True d2(3) blit_compose [OF f(5), of buf m offset "dmem d"] f(4) by auto
  next
    case False
    then have "sz - count = k" using f(6) by (metis add_diff_cancel_left')
    with False step d2 show ?thesis by auto
  qed
qed

lemma read_loop_ok:
  assumes "good d" and "count \<le> sz" and "uint offset + uint (sz - count) < 2 ^ 63" and "uint sz < 2 ^ 63"
  shows "\<exists>d'. read_loop sys_lseek sys_read sz count buf offset m d =
      (uint sz, blit offset (dmem d) buf (sz - count) m, d') \<and> good d' \<and> dmem d' = dmem d"
  using assms(1-3)
proof (induction "unat (sz - count)" arbitrary: count buf offset m d rule: less_induct)
  case less
  define k where "k = next_bytes sz count"
  note f = chunk_facts [OF less.prems(2,3), folded k_def]
  obtain d1 where d1: "sys_lseek d offset = (sint offset, d1)" "good d1" "pos d1 = offset" "dmem d1 = dmem d"
    using seek_ok [OF less.prems(1) f(1)] by blast
  define m2 where "m2 = blit offset (dmem d) buf k m"
  obtain d2 where d2: "sys_read m d1 buf k = (uint k, m2, d2)" "good d2" "dmem d2 = dmem d"
    using read_ok [OF d1(2), of k m buf] next_bytes_le(2) d1(3,4) k_def m2_def by auto
  have nn: "\<not> sint offset < 0" using f(1) by (simp add: word_sle_eq)
  have step: "read_loop sys_lseek sys_read sz count buf offset m d =
      (if count + k < sz then read_loop sys_lseek sys_read sz (count + k) (buf + k) (offset + k) m2 d2
       else (uint sz, m2, d2))"
    using d1(1) d2(1) nn f(6) sint_small64 [OF assms(4)]
    by (subst read_loop.simps) (auto simp: k_def [symmetric] Let_def)
  show ?case
  proof (cases "count + k < sz")
    case True
    have "\<exists>d'. read_loop sys_lseek sys_read sz (count + k) (buf + k) (offset + k) m2 d2 =
        (uint sz, blit (offset + k) (dmem d2) (buf + k) (sz - (count + k)) m2, d') \<and>
        good d' \<and> dmem d' = dmem d2"
      using True f(2,3) d2(2) unfolding k_def by (intro less.hyps next_bytes_progress) auto
    then show ?thesis
      using step True d2(3) blit_compose [OF f(5), of offset "dmem d" buf m] f(4) m2_def by auto
  next
    case False
    then have "sz - count = k" using f(6) by (metis add_diff_cancel_left')
    with False step d2 m2_def show ?thesis by auto
  qed
qed

lemma masked_offset: "uint (off AND DEVICE_MEMORY_ADDRESS_MASK) < 2 ^ 37"
proof -
  have "off AND DEVICE_MEMORY_ADDRESS_MASK = take_bit 37 off"
    by (simp add: DEVICE_MEMORY_ADDRESS_MASK_def mask_consts take_bit_eq_mask)
  then have "uint (off AND DEVICE_MEMORY_ADDRESS_MASK) = take_bit 37 (uint off)"
    by (simp add: unsigned_take_bit_eq)
  then show ?thesis using take_bit_int_less_exp [of 37 "uint off"] by metis
qed

text \<open>A transfer out and back: whatever the sizes and however many chunks it takes, the data
  arrive, nothing else of the card's memory or of the process changes.\<close>

lemma write_from_buffer_ok:
  assumes "good d" and "uint sz < 2 ^ 62"
  shows "\<exists>d'. write_from_buffer sys_lseek sys_write buffer sz off m d = (uint sz, d') \<and> good d' \<and>
    dmem d' = blit buffer m (off AND DEVICE_MEMORY_ADDRESS_MASK) sz (dmem d)"
  using write_loop_ok [OF assms(1), of 0 sz "off AND DEVICE_MEMORY_ADDRESS_MASK"] masked_offset [of off] assms(2)
  by (simp add: write_from_buffer_def)

lemma read_to_buffer_ok:
  assumes "good d" and "uint sz < 2 ^ 62"
  shows "\<exists>d'. read_to_buffer sys_lseek sys_read buffer sz off m d =
      (uint sz, blit (off AND DEVICE_MEMORY_ADDRESS_MASK) (dmem d) buffer sz m, d') \<and> good d' \<and> dmem d' = dmem d"
  using read_loop_ok [OF assms(1), of 0 sz "off AND DEVICE_MEMORY_ADDRESS_MASK"] masked_offset [of off] assms(2)
  by (simp add: read_to_buffer_def)

lemma transfer_roundtrip:
  assumes "good d" and "uint sz < 2 ^ 62"
  shows "\<exists>d1 d2. write_from_buffer sys_lseek sys_write src sz off m d = (uint sz, d1) \<and>
    read_to_buffer sys_lseek sys_read dst sz off m d1 = (uint sz, blit src m dst sz m, d2)"
  using write_from_buffer_ok [OF assms, of src off m] read_to_buffer_ok [OF _ assms(2), of _ dst off m]
  by (auto simp: blit_read_back) (metis blit_read_back)

end

text \<open>Whatever the device does, the result is the full size or \<open>-EIO\<close>: a short transfer is
  never reported as a success.\<close>

lemma write_loop_result: "fst (write_loop l w sz count buf off m d) \<in> {- EIO, sint sz}"
  by (induction l w sz count buf off m d rule: write_loop.induct)
    (subst write_loop.simps, auto simp: Let_def split: prod.splits if_splits)

lemma read_loop_result: "fst (read_loop l r sz count buf off m d) \<in> {- EIO, sint sz}"
  by (induction l r sz count buf off m d rule: read_loop.induct)
    (subst read_loop.simps, auto simp: Let_def split: prod.splits if_splits)

end
