(* ===== verification/Onic_Cdev.thy ===== *)
theory Onic_Cdev
  imports Lib_Memory
begin

text \<open>
  \<open>onic_cdev.c\<close>: the character device behind \<open>/dev/reconic-mm\<close>.  A read or write takes a free
  DMA queue from a ring (a semaphore counts the free ones), pins the pages of the user
  buffer, builds a scatter-gather list, submits one blocking request and gives the queue
  back.  The kernel services it calls (\<open>get_user_pages_fast\<close>, \<open>kmalloc\<close>, the DMA submission
  \<open>fp_rw\<close>) are arguments.  A pinned page is named by the user virtual address it is mapped at.
\<close>

section \<open>Queue pools\<close>

record queue_pool =
  qp_sem :: nat
  qp_pool :: "nat list"
  qp_read_idx :: nat
  qp_write_idx :: nat

definition onic_init_pool :: "nat \<Rightarrow> queue_pool" where
  "onic_init_pool no_mm_queues =
     \<lparr>qp_sem = no_mm_queues, qp_pool = [0..<no_mm_queues], qp_read_idx = 0, qp_write_idx = 0\<rparr>"

text \<open>The two critical sections.\<close>

definition pool_take :: "nat \<Rightarrow> queue_pool \<Rightarrow> nat \<times> queue_pool" where
  "pool_take no_mm_queues p =
     (qp_pool p ! qp_read_idx p, p\<lparr>qp_read_idx := (qp_read_idx p + 1) mod no_mm_queues\<rparr>)"

definition pool_put :: "nat \<Rightarrow> nat \<Rightarrow> queue_pool \<Rightarrow> queue_pool" where
  "pool_put no_mm_queues target_queue p =
     p\<lparr>qp_pool := (qp_pool p)[qp_write_idx p := target_queue],
       qp_write_idx := (qp_write_idx p + 1) mod no_mm_queues\<rparr>"

section \<open>Scatter-gather lists\<close>

record qdma_sw_sg =
  sg_pg :: u64
  sg_offset :: u32
  sg_len :: u32

definition ENOMEM :: int where "ENOMEM = 12"
definition EFAULT :: int where "EFAULT = 14"
definition EINVAL :: int where "EINVAL = 22"

definition offset_in_page :: "u64 \<Rightarrow> u32" where
  "offset_in_page buf = ucast (buf AND 0xfff)"

text \<open>\<open>min_t(unsigned int, PAGE_SIZE - offset, len)\<close> converts both to 32 bits.\<close>

fun sg_fill :: "u64 list \<Rightarrow> u64 \<Rightarrow> u64 \<Rightarrow> qdma_sw_sg list" where
  "sg_fill [] buf len = []"
| "sg_fill (pg # pgs) buf len =
     (let offset = offset_in_page buf; nbytes = min (0x1000 - offset) (ucast len :: u32) in
      \<lparr>sg_pg = pg, sg_offset = offset, sg_len = nbytes\<rparr> # sg_fill pgs (buf + ucast nbytes) (len - ucast nbytes))"

definition pages_nr :: "u64 \<Rightarrow> u64 \<Rightarrow> u32" where
  "pages_nr buf len =
     (if len = 0 then 1 else ucast (drop_bit 12 (len + ucast (offset_in_page buf) + 0x1000 - 1)))"

fun adjacent_dup :: "u64 list \<Rightarrow> bool" where
  "adjacent_dup (x # y # xs) \<longleftrightarrow> x = y \<or> adjacent_dup (y # xs)"
| "adjacent_dup xs \<longleftrightarrow> False"

type_synonym gup_op = "u64 \<Rightarrow> u32 \<Rightarrow> int \<times> u64 list"

definition map_user_buf_to_sgl ::
    "(u32 \<Rightarrow> bool) \<Rightarrow> gup_op \<Rightarrow> u64 \<Rightarrow> u64 \<Rightarrow> int + qdma_sw_sg list" where
  "map_user_buf_to_sgl kmalloc_ok get_user_pages buf len =
     (let nr = pages_nr buf len in
      if nr = 0 then Inl (- EINVAL)
      else if \<not> kmalloc_ok nr then Inl (- ENOMEM)
      else
        (let (rv, pages) = get_user_pages buf nr in
         if rv < 0 then Inl rv
         else if word_of_int rv \<noteq> nr then Inl (- EFAULT)
         else if adjacent_dup pages then Inl (- EFAULT)
         else Inr (sg_fill (take (unat nr) pages) buf len)))"

section \<open>File operations\<close>

record qdma_request =
  rq_write :: bool
  rq_sgl :: "qdma_sw_sg list"
  rq_ep_addr :: u64
  rq_count :: u32

type_synonym 'm fp_rw = "'m \<Rightarrow> u64 \<Rightarrow> qdma_request \<Rightarrow> umem \<Rightarrow> int \<times> umem \<times> 'm"

record 'm kernel =
  kmalloc_ok :: "u32 \<Rightarrow> bool"
  get_user_pages_fast :: gup_op
  fp_rw :: "'m fp_rw option"

record 'm cdev =
  f_pos :: u64
  no_mm_queues :: nat
  mm_h2c_q_hndl :: u64
  mm_c2h_q_hndl :: u64
  read_pool :: queue_pool
  write_pool :: queue_pool
  engine :: 'm

definition onic_init_cdev :: "nat \<Rightarrow> 'm cdev \<Rightarrow> 'm cdev" where
  "onic_init_cdev n c = c\<lparr>read_pool := onic_init_pool n, write_pool := onic_init_pool n\<rparr>"

text \<open>\<open>loff_t\<close> is a signed 64-bit integer; \<open>UINT_MAX + off\<close> is computed in that type.\<close>

definition onic_cdev_llseek :: "'m cdev \<Rightarrow> u64 \<Rightarrow> int \<Rightarrow> int \<times> 'm cdev" where
  "onic_cdev_llseek c off whence =
     (if whence \<notin> {0, 1, 2} then (- EINVAL, c)
      else
        (let newpos = (if whence = 0 then off else if whence = 1 then f_pos c + off else 0xffffffff + off) in
         if newpos <s 0 then (- EINVAL, c) else (sint newpos, c\<lparr>f_pos := newpos\<rparr>)))"

text \<open>\<open>lseek(fd, off, SEEK_SET)\<close>, the only form the library uses.\<close>

definition lseek_set :: "'m cdev \<Rightarrow> u64 \<Rightarrow> int \<times> 'm cdev" where
  "lseek_set c off = onic_cdev_llseek c off 0"

text \<open>The pool a direction uses.\<close>

definition the_pool :: "bool \<Rightarrow> 'm cdev \<Rightarrow> queue_pool" where
  "the_pool write c = (if write then write_pool c else read_pool c)"

definition set_pool :: "bool \<Rightarrow> queue_pool \<Rightarrow> 'm cdev \<Rightarrow> 'm cdev" where
  "set_pool write p c = (if write then c\<lparr>write_pool := p\<rparr> else c\<lparr>read_pool := p\<rparr>)"

definition onic_gen_read_write ::
    "'m kernel \<Rightarrow> umem \<Rightarrow> 'm cdev \<Rightarrow> u64 \<Rightarrow> u64 \<Rightarrow> u64 \<Rightarrow> bool \<Rightarrow> nat \<Rightarrow> int \<times> umem \<times> 'm cdev" where
  "onic_gen_read_write k m c buf count pos write target_queue =
     (case fp_rw k of
        None \<Rightarrow> (- EINVAL, m, c)
      | Some rw \<Rightarrow>
          (let qhndl = (if write then mm_h2c_q_hndl c else mm_c2h_q_hndl c) + of_nat target_queue in
           case map_user_buf_to_sgl (kmalloc_ok k) (get_user_pages_fast k) buf count of
             Inl rv \<Rightarrow> (rv, m, c)
           | Inr sgl \<Rightarrow>
               (let req = \<lparr>rq_write = write, rq_sgl = sgl, rq_ep_addr = pos, rq_count = ucast count\<rparr>;
                    (res, m1, e1) = rw (engine c) qhndl req m;
                    c1 = c\<lparr>engine := e1\<rparr>;
                    p = pool_put (no_mm_queues c1) target_queue (the_pool write c1)
                in (res, m1, set_pool write (p\<lparr>qp_sem := Suc (qp_sem p)\<rparr>) c1))))"

text \<open>One operation run by itself; \<open>None\<close> is a caller that sleeps in \<open>down\<close> for good because no
  other operation is under way that could wake it.\<close>

definition onic_cdev_rw ::
    "'m kernel \<Rightarrow> bool \<Rightarrow> umem \<Rightarrow> 'm cdev \<Rightarrow> u64 \<Rightarrow> u64 \<Rightarrow> (int \<times> umem \<times> 'm cdev) option" where
  "onic_cdev_rw k write m c buf count =
     (let p = the_pool write c in
      if qp_sem p = 0 then None
      else
        (let (target_queue, p1) = pool_take (no_mm_queues c) (p\<lparr>qp_sem := qp_sem p - 1\<rparr>) in
         Some (onic_gen_read_write k m (set_pool write p1 c) buf count (f_pos c) write target_queue)))"

text \<open>The system calls the library sees.  A call that never returns is given the value \<open>-1\<close>;
  the laws below are about states where this does not happen.\<close>

definition onic_cdev_read :: "'m kernel \<Rightarrow> 'm cdev read_op" where
  "onic_cdev_read k m c buf count =
     (case onic_cdev_rw k False m c buf count of None \<Rightarrow> (-1, m, c) | Some r \<Rightarrow> r)"

definition onic_cdev_write :: "'m kernel \<Rightarrow> 'm cdev write_op" where
  "onic_cdev_write k m c buf count =
     (case onic_cdev_rw k True m c buf count of None \<Rightarrow> (-1, c) | Some (rc, m1, c1) \<Rightarrow> (rc, c1))"

section \<open>The scatter-gather list denotes the user buffer\<close>

text \<open>Pages are consecutive; \<open>sg_addrs\<close> lists the addresses a scatter-gather list denotes.\<close>

primrec page_list :: "u64 \<Rightarrow> nat \<Rightarrow> u64 list" where
  "page_list b 0 = []"
| "page_list b (Suc n) = b # page_list (b + 0x1000) n"

definition page_base :: "u64 \<Rightarrow> u64" where
  "page_base a = a AND NOT (mask 12)"

definition sg_addrs :: "qdma_sw_sg list \<Rightarrow> u64 list" where
  "sg_addrs sgl = concat (map (\<lambda>sg. map (\<lambda>j. sg_pg sg + ucast (sg_offset sg) + of_nat j) [0..<unat (sg_len sg)]) sgl)"

lemma offset_ucast: "ucast (offset_in_page a) = a AND mask 12"
  by (rule bit_word_eqI) (auto simp: offset_in_page_def mask_consts bit_simps)

lemma page_split: "page_base a + ucast (offset_in_page a) = a"
proof -
  have "(a AND NOT (mask 12)) AND (a AND mask 12) = 0"
    by (rule bit_word_eqI) (auto simp: bit_simps)
  then have "page_base a + ucast (offset_in_page a) = (a AND NOT (mask 12)) OR (a AND mask 12)"
    by (simp add: page_base_def offset_ucast disjunctive_add_eq_or)
  also have "\<dots> = a" by (rule bit_word_eqI) (auto simp: bit_simps)
  finally show ?thesis .
qed

lemma offset_small: "unat (offset_in_page a) < 4096"
proof -
  have "offset_in_page a = take_bit 12 (ucast a)"
    by (rule bit_word_eqI) (auto simp: offset_in_page_def mask_consts bit_simps)
  then have "unat (offset_in_page a) = take_bit 12 (unat (ucast a :: u32))" by (simp add: unsigned_take_bit_eq)
  then show ?thesis using take_bit_nat_less_exp [of 12 "unat (ucast a :: u32)"] by simp
qed

lemma sg_fill_zero: "sg_addrs (sg_fill pgs buf 0) = []"
  by (induction pgs arbitrary: buf) (auto simp: sg_addrs_def Let_def)

lemma page_base_offset: "page_base (page_base a + 0x1000) = page_base a + 0x1000 \<and> offset_in_page (page_base a + 0x1000) = 0"
proof -
  have e: "page_base a = push_bit 12 (drop_bit 12 a)"
    by (rule bit_word_eqI) (auto simp: page_base_def bit_simps)
  have "page_base a + 0x1000 = push_bit 12 (drop_bit 12 a + 1)"
    by (simp add: e push_bit_eq_mult algebra_simps)
  moreover have "push_bit 12 w AND NOT (mask 12) = push_bit 12 w" "ucast (push_bit 12 w AND mask 12) = (0 :: u32)"
    for w :: u64
    by (rule bit_word_eqI; auto simp: bit_simps)+
  ultimately show ?thesis by (simp add: page_base_def offset_in_page_def mask_consts)
qed

lemma sg_fill_addrs:
  assumes "unat (offset_in_page buf) + unat len \<le> n * 4096" and "unat len < 2 ^ 32"
  shows "sg_addrs (sg_fill (page_list (page_base buf) n) buf len) = map (\<lambda>j. buf + of_nat j) [0..<unat len]"
  using assms
proof (induction n arbitrary: buf len)
  case 0
  then show ?case by (simp add: sg_addrs_def)
next
  case (Suc n)
  let ?off = "offset_in_page buf"
  define nb where "nb = min (0x1000 - ?off) (ucast len :: u32)"
  have off: "unat (0x1000 - ?off) = 4096 - unat ?off"
    using offset_small [of buf] by (subst unat_sub) (auto simp: word_le_nat_alt)
  have lenu: "unat (ucast len :: u32) = unat len"
    using Suc.prems(2) by (simp add: unsigned_ucast_eq take_bit_nat_eq_self)
  have nb: "unat nb = min (4096 - unat ?off) (unat len)"
    unfolding nb_def min_def using off lenu by (simp add: word_le_nat_alt)
  have nbu: "unat (ucast nb :: u64) = unat nb"
    by (rule unat_ucast_up)
  have rest: "unat (len - ucast nb) = unat len - unat nb"
    using nb nbu by (subst unat_sub) (auto simp: word_le_nat_alt)
  have first: "page_base buf + ucast ?off + of_nat j = buf + of_nat j" for j :: nat
    using page_split [of buf] by simp
  have split: "sg_addrs (sg_fill (page_list (page_base buf) (Suc n)) buf len) =
      map (\<lambda>j. buf + of_nat j) [0..<unat nb] @
      sg_addrs (sg_fill (page_list (page_base buf + 0x1000) n) (buf + ucast nb) (len - ucast nb))"
    by (simp add: sg_addrs_def Let_def nb_def [symmetric] first)
  show ?case
  proof (cases "unat len \<le> 4096 - unat ?off")
    case True
    then have "unat nb = unat len" using nb by simp
    moreover from this rest have "len - ucast nb = 0" by (simp add: unat_eq_zero)
    ultimately show ?thesis using split by (simp add: sg_fill_zero)
  next
    case False
    then have n1: "unat nb = 4096 - unat ?off" using nb by simp
    have "of_nat (unat (ucast nb :: u64) + unat (ucast ?off :: u64)) = (0x1000 :: u64)"
    proof -
      have "unat (ucast ?off :: u64) = unat ?off" by (rule unat_ucast_up)
      then show ?thesis using n1 nbu offset_small [of buf] by simp
    qed
    then have "ucast nb + ucast ?off = (0x1000 :: u64)" by simp
    then have b': "buf + ucast nb = page_base buf + 0x1000"
      using page_split [of buf] by (metis (no_types, lifting) add.assoc add.commute)
    have o': "offset_in_page (buf + ucast nb) = 0" "page_base (buf + ucast nb) = page_base buf + 0x1000"
      using page_base_offset [of buf] unfolding b' by simp_all
    have "sg_addrs (sg_fill (page_list (page_base (buf + ucast nb)) n) (buf + ucast nb) (len - ucast nb)) =
        map (\<lambda>j. (buf + ucast nb) + of_nat j) [0..<unat (len - ucast nb)]"
      using Suc.prems False n1 rest o' offset_small [of buf] by (intro Suc.IH) auto
    moreover have "(ucast nb :: u64) = of_nat (unat nb)" unfolding nbu [symmetric] by simp
    ultimately show ?thesis
      using split o' rest upt_split_map [of "unat nb" "unat len" "\<lambda>j. buf + of_nat j"] n1 False
      by (simp add: add.assoc)
  qed
qed

lemma pages_nr_enough:
  assumes "len \<le> RW_MAX_SIZE"
  shows "pages_nr buf len \<noteq> 0" and "unat (offset_in_page buf) + unat len \<le> unat (pages_nr buf len) * 4096"
proof -
  have l: "unat len \<le> 2147479552" using assms by (simp add: RW_MAX_SIZE_def word_le_nat_alt)
  have "unat (offset_in_page buf) + unat len \<le> unat (pages_nr buf len) * 4096 \<and> pages_nr buf len \<noteq> 0"
  proof (cases "len = 0")
    case True
    then show ?thesis using offset_small [of buf] by (simp add: pages_nr_def)
  next
    case False
    let ?x = "len + ucast (offset_in_page buf) + 0x1000 - 1 :: u64"
    let ?n = "unat len + unat (offset_in_page buf) + 4095"
    have "of_nat ?n = (of_nat (unat len) + of_nat (unat (ucast (offset_in_page buf) :: u64)) + 4095 :: u64)"
      unfolding unat_ucast_up by simp
    then have xe: "?x = of_nat ?n" by simp
    have "?n < 2 ^ 64" using l offset_small [of buf] by simp
    then have x: "unat ?x = ?n" unfolding xe unat_of_nat by simp
    have d: "unat (drop_bit 12 ?x) = ?n div 4096"
      unfolding unat_drop_bit_eq x by (simp add: drop_bit_eq_div)
    moreover have "?n div 4096 < 2 ^ 32" using l offset_small [of buf] by simp
    ultimately have "unat (ucast (drop_bit 12 ?x) :: u32) = ?n div 4096"
      by (simp only: unsigned_ucast_eq d) (simp add: take_bit_nat_eq_self)
    then have "unat (pages_nr buf len) = ?n div 4096" using False by (simp only: pages_nr_def if_False)
    moreover have "0 < unat len" using False by (simp add: unat_gt_0)
    ultimately show ?thesis using div_mult_mod_eq [of ?n 4096] by (auto simp: unat_eq_zero)
  qed
  then show "pages_nr buf len \<noteq> 0" and "unat (offset_in_page buf) + unat len \<le> unat (pages_nr buf len) * 4096"
    by blast+
qed

lemma page_list_no_dup: "\<not> adjacent_dup (page_list b n)"
proof (induction n arbitrary: b)
  case (Suc n)
  then show ?case using Suc [of "b + 0x1000"] by (cases n) (auto simp: add.assoc)
qed simp

lemma length_page_list [simp]: "length (page_list b n) = n"
  by (induction n arbitrary: b) auto

lemma map_user_buf_ok:
  assumes "len \<le> RW_MAX_SIZE" and "\<And>nr. km nr"
    and "\<And>buf nr. gup buf nr = (uint nr, page_list (page_base buf) (unat nr))"
  shows "\<exists>sgl. map_user_buf_to_sgl km gup buf len = Inr sgl \<and>
    sg_addrs sgl = map (\<lambda>j. buf + of_nat j) [0..<unat len]"
proof -
  note p = pages_nr_enough [OF assms(1), of buf]
  have "unat len < 2 ^ 32" using assms(1) by (simp add: RW_MAX_SIZE_def word_le_nat_alt)
  from sg_fill_addrs [OF p(2) this] p(1) assms(2,3) page_list_no_dup show ?thesis
    by (simp add: map_user_buf_to_sgl_def Let_def)
qed

section \<open>The device provides what the library expects\<close>

text \<open>A pool that no operation is using.\<close>

definition pool_idle :: "nat \<Rightarrow> queue_pool \<Rightarrow> bool" where
  "pool_idle n p \<longleftrightarrow> 0 < n \<and> qp_sem p = n \<and> length (qp_pool p) = n \<and> qp_read_idx p < n \<and>
     qp_write_idx p = qp_read_idx p"

lemma init_pool_idle: "0 < n \<Longrightarrow> pool_idle n (onic_init_pool n)"
  by (simp add: pool_idle_def onic_init_pool_def)

lemma pool_take_put:
  assumes "pool_idle n p" and "pool_take n (p\<lparr>qp_sem := qp_sem p - 1\<rparr>) = (q, p1)"
  defines "p2 \<equiv> pool_put n q p1"
  shows "pool_idle n (p2\<lparr>qp_sem := Suc (qp_sem p2)\<rparr>)"
  using assms by (auto simp: pool_idle_def pool_take_def pool_put_def)

definition cdev_ready :: "('m \<Rightarrow> bool) \<Rightarrow> 'm cdev \<Rightarrow> bool" where
  "cdev_ready egood c \<longleftrightarrow> pool_idle (no_mm_queues c) (read_pool c) \<and>
     pool_idle (no_mm_queues c) (write_pool c) \<and> egood (engine c)"

lemma count_fits:
  assumes "n \<le> RW_MAX_SIZE"
  shows "unat (ucast n :: u32) = unat n" "uint (ucast n :: u32) = uint n" "ucast (ucast n :: u32) = n"
proof -
  have l: "unat n < 2 ^ 32" using assms by (simp add: RW_MAX_SIZE_def word_le_nat_alt)
  then show u: "unat (ucast n :: u32) = unat n"
    by (simp only: unsigned_ucast_eq) (simp add: take_bit_nat_eq_self)
  then show "uint (ucast n :: u32) = uint n" by (metis of_nat_unat)
  show "ucast (ucast n :: u32) = n" using u unat_ucast_up [of "ucast n :: u32"] by (metis word_unat_eq_iff)
qed

text \<open>What the driver expects of the kernel and the DMA engine: memory is available, all pages
  of the buffer can be pinned, and a blocking request moves the bytes its scatter-gather list
  denotes.\<close>

locale mm_engine =
  fixes k :: "'m kernel" and rw :: "'m fp_rw" and emem :: "'m \<Rightarrow> umem" and egood :: "'m \<Rightarrow> bool"
  assumes has_rw: "fp_rw k = Some rw"
    and memory: "kmalloc_ok k nr"
    and pinned: "get_user_pages_fast k buf nr = (uint nr, page_list (page_base buf) (unat nr))"
    and dma_write: "egood e \<Longrightarrow> rq_write r \<Longrightarrow>
      sg_addrs (rq_sgl r) = map (\<lambda>j. buf + of_nat j) [0..<unat (rq_count r)] \<Longrightarrow>
      \<exists>e'. rw e q r m = (uint (rq_count r), m, e') \<and> egood e' \<and>
        emem e' = blit buf m (rq_ep_addr r) (ucast (rq_count r)) (emem e)"
    and dma_read: "egood e \<Longrightarrow> \<not> rq_write r \<Longrightarrow>
      sg_addrs (rq_sgl r) = map (\<lambda>j. buf + of_nat j) [0..<unat (rq_count r)] \<Longrightarrow>
      \<exists>e'. rw e q r m = (uint (rq_count r), blit (rq_ep_addr r) (emem e) buf (ucast (rq_count r)) m, e') \<and>
        egood e' \<and> emem e' = emem e"
begin

lemma cdev_rw_ok:
  assumes g: "cdev_ready egood c" and n: "n \<le> RW_MAX_SIZE"
  shows "\<exists>c'. onic_cdev_rw k write m c buf n =
      Some (uint n, if write then m else blit (f_pos c) (emem (engine c)) buf n m, c') \<and> cdev_ready egood c' \<and>
      emem (engine c') = (if write then blit buf m (f_pos c) n (emem (engine c)) else emem (engine c))"
proof -
  let ?p = "the_pool write c"
  have idle: "pool_idle (no_mm_queues c) ?p" and eg: "egood (engine c)"
    using g by (auto simp: cdev_ready_def the_pool_def)
  obtain q p1 where t: "pool_take (no_mm_queues c) (?p\<lparr>qp_sem := qp_sem ?p - 1\<rparr>) = (q, p1)"
    by (meson surj_pair)
  obtain sgl where sgl: "map_user_buf_to_sgl (kmalloc_ok k) (get_user_pages_fast k) buf n = Inr sgl"
    "sg_addrs sgl = map (\<lambda>j. buf + of_nat j) [0..<unat n]"
    using map_user_buf_ok [OF n, of "kmalloc_ok k" "get_user_pages_fast k" buf] memory pinned by blast
  let ?r = "\<lparr>rq_write = write, rq_sgl = sgl, rq_ep_addr = f_pos c, rq_count = ucast n\<rparr>"
  let ?h = "(if write then mm_h2c_q_hndl c else mm_c2h_q_hndl c) + of_nat q"
  note cnt = count_fits [OF n]
  have "\<exists>e'. rw (engine c) ?h ?r m =
      (uint n, if write then m else blit (f_pos c) (emem (engine c)) buf n m, e') \<and> egood e' \<and>
      emem e' = (if write then blit buf m (f_pos c) n (emem (engine c)) else emem (engine c))"
    using dma_write [OF eg, of ?r buf ?h m] dma_read [OF eg, of ?r buf ?h m] sgl(2) cnt by (cases "write") auto
  then obtain e' where e': "rw (engine c) ?h ?r m =
      (uint n, if write then m else blit (f_pos c) (emem (engine c)) buf n m, e')" "egood e'"
      "emem e' = (if write then blit buf m (f_pos c) n (emem (engine c)) else emem (engine c))" by blast
  have nz: "qp_sem ?p \<noteq> 0" using idle by (simp add: pool_idle_def)
  let ?p2 = "pool_put (no_mm_queues c) q p1"
  have idle2: "pool_idle (no_mm_queues c) (?p2\<lparr>qp_sem := Suc (qp_sem ?p2)\<rparr>)"
    using pool_take_put [OF idle t] .
  show ?thesis
    using nz t has_rw sgl(1) e' idle2 g
    by (cases "write")
      (auto simp: onic_cdev_rw_def onic_gen_read_write_def the_pool_def set_pool_def cdev_ready_def Let_def)
qed

end

sublocale mm_engine \<subseteq> cd: chardev lseek_set "onic_cdev_read k" "onic_cdev_write k" "cdev_ready egood" f_pos
    "\<lambda>c. emem (engine c)"
proof unfold_locales
  show "\<exists>d'. lseek_set d off = (sint off, d') \<and> cdev_ready egood d' \<and> f_pos d' = off \<and>
      emem (engine d') = emem (engine d)" if "cdev_ready egood d" "0 \<le>s off" for d off
    using that by (auto simp: lseek_set_def onic_cdev_llseek_def cdev_ready_def word_sle_eq word_sless_alt)
  show "\<exists>d'. onic_cdev_read k m d buf n = (uint n, blit (f_pos d) (emem (engine d)) buf n m, d') \<and>
      cdev_ready egood d' \<and> emem (engine d') = emem (engine d)" if "cdev_ready egood d" "n \<le> RW_MAX_SIZE" for d n m buf
    using cdev_rw_ok [OF that, of False m buf] by (auto simp: onic_cdev_read_def)
  show "\<exists>d'. onic_cdev_write k m d buf n = (uint n, d') \<and> cdev_ready egood d' \<and>
      emem (engine d') = blit buf m (f_pos d) n (emem (engine d))" if "cdev_ready egood d" "n \<le> RW_MAX_SIZE" for d n m buf
    using cdev_rw_ok [OF that, of True m buf] by (auto simp: onic_cdev_write_def)
qed

context mm_engine
begin

lemma card_transfer:
  assumes "cdev_ready egood c" and "uint sz < 2 ^ 62"
  shows "\<exists>c1 c2. write_from_buffer lseek_set (onic_cdev_write k) src sz off m c = (uint sz, c1) \<and>
    read_to_buffer lseek_set (onic_cdev_read k) dst sz off m c1 = (uint sz, blit src m dst sz m, c2)"
  by (rule cd.transfer_roundtrip [OF assms])

lemma card_write:
  assumes "cdev_ready egood c" and "uint sz < 2 ^ 62"
  shows "\<exists>c1. write_from_buffer lseek_set (onic_cdev_write k) src sz off m c = (uint sz, c1) \<and> cdev_ready egood c1 \<and>
    emem (engine c1) = blit src m (off AND DEVICE_MEMORY_ADDRESS_MASK) sz (emem (engine c))"
  by (rule cd.write_from_buffer_ok [OF assms])

end

section \<open>A memory behind the engine\<close>

text \<open>The engine of a device whose end point is a plain byte memory: it gathers from, or
  scatters to, the addresses of the list.\<close>

definition ram_rw :: "umem fp_rw" where
  "ram_rw e qhndl r m =
     (let addrs = sg_addrs (rq_sgl r) in
      if rq_write r then
        (uint (rq_count r), m,
         \<lambda>a. if unat (a - rq_ep_addr r) < length addrs then m (addrs ! unat (a - rq_ep_addr r)) else e a)
      else
        (uint (rq_count r),
         foldl (\<lambda>m j. m(addrs ! j := e (rq_ep_addr r + of_nat j))) m [0..<length addrs], e))"

definition ram_kernel :: "umem kernel" where
  "ram_kernel = \<lparr>kmalloc_ok = (\<lambda>_. True),
     get_user_pages_fast = (\<lambda>buf nr. (uint nr, page_list (page_base buf) (unat nr))), fp_rw = Some ram_rw\<rparr>"

lemma blit_step:
  assumes "Suc j < 2 ^ 64"
  shows "(blit src s dst (of_nat j) t)(dst + of_nat j := s (src + of_nat j)) = blit src s dst (of_nat (Suc j)) t"
proof
  fix a
  have j: "unat (of_nat j :: u64) = j" "unat (of_nat (Suc j) :: u64) = Suc j"
    using assms by (simp_all only: unat_of_nat) simp_all
  have e: "a = dst + of_nat j \<longleftrightarrow> unat (a - dst) = j"
  proof
    assume "unat (a - dst) = j"
    then have "a - dst = of_nat j" using j by (metis word_unat_eq_iff)
    then show "a = dst + of_nat j" by (simp add: algebra_simps)
  qed (use j in simp)
  show "((blit src s dst (of_nat j) t)(dst + of_nat j := s (src + of_nat j))) a =
      blit src s dst (of_nat (Suc j)) t a"
    using e j by (auto simp: blit_def word_less_nat_alt less_Suc_eq simp del: of_nat_Suc)
qed

lemma scatter_blit:
  assumes "n < 2 ^ 64"
  shows "foldl (\<lambda>m j. m(dst + of_nat j := s (src + of_nat j))) t [0..<n] = blit src s dst (of_nat n) t"
  using assms
proof (induction n)
  case (Suc n)
  then have "foldl (\<lambda>m j. m(dst + of_nat j := s (src + of_nat j))) t [0..<Suc n] =
      (blit src s dst (of_nat n) t)(dst + of_nat n := s (src + of_nat n))" by (simp add: fun_upd_def)
  then show ?case using blit_step [OF Suc.prems, of src s dst t] by metis
qed simp

interpretation ram: mm_engine ram_kernel ram_rw "\<lambda>e. e" "\<lambda>_. True"
proof unfold_locales
  fix e :: umem and r :: qdma_request and q m buf
  assume a: "sg_addrs (rq_sgl r) = map (\<lambda>j. buf + of_nat j) [0..<unat (rq_count r)]"
  show "\<exists>e'. ram_rw e q r m = (uint (rq_count r), m, e') \<and> True \<and>
      e' = blit buf m (rq_ep_addr r) (ucast (rq_count r)) e" if "rq_write r"
    using a that by (intro exI [of _ "blit buf m (rq_ep_addr r) (ucast (rq_count r)) e"])
      (simp add: ram_rw_def Let_def blit_def fun_eq_iff word_less_nat_alt unat_ucast_up)
  show "\<exists>e'. ram_rw e q r m = (uint (rq_count r), blit (rq_ep_addr r) e buf (ucast (rq_count r)) m, e') \<and> True \<and> e' = e"
    if "\<not> rq_write r"
  proof -
    have "foldl (\<lambda>m j. m(sg_addrs (rq_sgl r) ! j := e (rq_ep_addr r + of_nat j))) m [0..<unat (rq_count r)] =
        foldl (\<lambda>m j. m(buf + of_nat j := e (rq_ep_addr r + of_nat j))) m [0..<unat (rq_count r)]"
      by (rule foldl_cong) (simp_all add: a)
    also have "\<dots> = blit (rq_ep_addr r) e buf (of_nat (unat (rq_count r))) m"
      using unsigned_less [where w = "rq_count r" and 'a = nat] by (intro scatter_blit) simp
    finally show ?thesis using that a by (simp add: ram_rw_def Let_def)
  qed
qed (simp_all add: ram_kernel_def)

section \<open>Properties\<close>

text \<open>the scatter-gather list built for a user buffer denotes exactly the bytes of the
  buffer, in order, whatever its alignment and length (up to the size of one transfer), when
  the kernel can pin its pages.\<close>

theorem sgl_denotes_buffer:
  assumes "len \<le> RW_MAX_SIZE" and "\<And>nr. km nr"
    and "\<And>buf nr. gup buf nr = (uint nr, page_list (page_base buf) (unat nr))"
  shows "\<exists>sgl. map_user_buf_to_sgl km gup buf len = Inr sgl \<and>
    sg_addrs sgl = map (\<lambda>j. buf + of_nat j) [0..<unat len]"
  using map_user_buf_ok [OF assms] .

theorem sgl_denotes_buffer_witness:
  "\<exists>sgl. map_user_buf_to_sgl (kmalloc_ok ram_kernel) (get_user_pages_fast ram_kernel) 0x1ff8 5000 = Inr sgl \<and>
    sg_addrs sgl = map (\<lambda>j. 0x1ff8 + of_nat j) [0..<unat (5000 :: u64)]"
  by (rule sgl_denotes_buffer) (simp_all add: RW_MAX_SIZE_def ram_kernel_def)

text \<open>C14: A read or write on the character device with a free queue, whose buffer of at most 2147479552 bytes can be pinned (one page
  address for each page of it) and for which the kernel has memory: it submits one request, on the queue at the head of
  the ring of free queues of its direction, with the file position as card address, the length of the call, and a
  scatter-gather list that denotes exactly the bytes of the buffer in order, whatever its alignment.  It returns what the
  submission returns, and afterwards the queue is at the tail of the ring, the semaphore has its former value, and the file
  position and the ring of the other direction are as before.\<close>

theorem cdev_submits_buffer:
  assumes "qp_sem (the_pool wr c) \<noteq> 0" and "fp_rw k = Some rw" and "count \<le> RW_MAX_SIZE"
    and "\<And>nr. kmalloc_ok k nr" and "\<And>buf nr. get_user_pages_fast k buf nr = (uint nr, page_list (page_base buf) (unat nr))"
    and "p = the_pool wr c" and "q = qp_pool p ! qp_read_idx p" and "n = no_mm_queues c"
  shows "\<exists>sgl c'. sg_addrs sgl = map (\<lambda>j. buf + of_nat j) [0..<unat count] \<and>
    (case rw (engine c) ((if wr then mm_h2c_q_hndl c else mm_c2h_q_hndl c) + of_nat q)
        \<lparr>rq_write = wr, rq_sgl = sgl, rq_ep_addr = f_pos c, rq_count = ucast count\<rparr> m of
       (res, m1, e1) \<Rightarrow> onic_cdev_rw k wr m c buf count = Some (res, m1, c') \<and> engine c' = e1) \<and>
    the_pool wr c' = \<lparr>qp_sem = qp_sem p, qp_pool = (qp_pool p)[qp_write_idx p := q],
      qp_read_idx = (qp_read_idx p + 1) mod n, qp_write_idx = (qp_write_idx p + 1) mod n\<rparr> \<and>
    the_pool (\<not> wr) c' = the_pool (\<not> wr) c \<and> f_pos c' = f_pos c \<and> unat (ucast count :: u32) = unat count"
proof -
  obtain sgl where sgl: "map_user_buf_to_sgl (kmalloc_ok k) (get_user_pages_fast k) buf count = Inr sgl"
    "sg_addrs sgl = map (\<lambda>j. buf + of_nat j) [0..<unat count]"
    using map_user_buf_ok [OF assms(3), of "kmalloc_ok k" "get_user_pages_fast k" buf] assms(4,5) by blast
  obtain res m1 e1 where r: "rw (engine c) ((if wr then mm_h2c_q_hndl c else mm_c2h_q_hndl c) + of_nat q)
      \<lparr>rq_write = wr, rq_sgl = sgl, rq_ep_addr = f_pos c, rq_count = ucast count\<rparr> m = (res, m1, e1)" by (rule prod_cases3)
  have rt: "rw (engine c) (mm_h2c_q_hndl c + of_nat q) \<lparr>rq_write = True, rq_sgl = sgl, rq_ep_addr = f_pos c, rq_count = ucast count\<rparr> m = (res, m1, e1)"
    if wr using r that by simp
  have rf: "rw (engine c) (mm_c2h_q_hndl c + of_nat q) \<lparr>rq_write = False, rq_sgl = sgl, rq_ep_addr = f_pos c, rq_count = ucast count\<rparr> m = (res, m1, e1)"
    if "\<not> wr" using r that by simp
  have "\<exists>c'. onic_cdev_rw k wr m c buf count = Some (res, m1, c') \<and> engine c' = e1 \<and>
    the_pool wr c' = \<lparr>qp_sem = qp_sem p, qp_pool = (qp_pool p)[qp_write_idx p := q],
      qp_read_idx = (qp_read_idx p + 1) mod n, qp_write_idx = (qp_write_idx p + 1) mod n\<rparr> \<and>
    the_pool (\<not> wr) c' = the_pool (\<not> wr) c \<and> f_pos c' = f_pos c"
    using assms(1,2) sgl(1) rt rf unfolding assms(6-8)
    by (cases wr) (auto simp: onic_cdev_rw_def onic_gen_read_write_def the_pool_def set_pool_def pool_take_def pool_put_def Let_def)
  then show ?thesis using sgl(2) r count_fits(1) [OF assms(3)] by auto
qed

definition ram_cdev :: "umem cdev" where
  "ram_cdev = onic_init_cdev 2 \<lparr>f_pos = 0, no_mm_queues = 2, mm_h2c_q_hndl = 10, mm_c2h_q_hndl = 20,
     read_pool = onic_init_pool 0, write_pool = onic_init_pool 0, engine = (\<lambda>_. 0)\<rparr>"

theorem cdev_submits_buffer_witness:
  "\<exists>c'. onic_cdev_rw ram_kernel True (\<lambda>a. ucast a) ram_cdev 0x1ff8 5000 = Some (5000, (\<lambda>a. ucast a), c') \<and>
     qp_read_idx (write_pool c') = 1 \<and> qp_sem (write_pool c') = 2"
proof -
  have p: "the_pool True ram_cdev = \<lparr>qp_sem = 2, qp_pool = [0..<2], qp_read_idx = 0, qp_write_idx = 0\<rparr>" "no_mm_queues ram_cdev = 2"
    by (simp_all add: ram_cdev_def onic_init_cdev_def onic_init_pool_def the_pool_def)
  have k: "fp_rw ram_kernel = Some ram_rw" "\<And>nr. kmalloc_ok ram_kernel nr"
    "\<And>buf nr. get_user_pages_fast ram_kernel buf nr = (uint nr, page_list (page_base buf) (unat nr))"
    by (simp_all add: ram_kernel_def)
  have "(5000 :: u64) \<le> RW_MAX_SIZE" by (simp add: RW_MAX_SIZE_def)
  then show ?thesis
    using cdev_submits_buffer [where wr = True and c = ram_cdev and k = ram_kernel and rw = ram_rw and count = 5000 and
        buf = "0x1ff8" and m = "\<lambda>a. ucast a", OF _ k(1) _ k(2,3) refl refl refl] p
    by (auto simp: ram_rw_def Let_def the_pool_def)
qed

text \<open>Data written to the card through \<open>write_from_buffer\<close> and the character device come back
  unchanged through \<open>read_to_buffer\<close>: for every size below 4 EiB (and so for every number of
  2 GiB chunks), every buffer alignment and every device offset, both calls return the full
  size and the destination buffer holds the source bytes, with no other byte of the process
  changed.  The hypothesis \<open>mm_engine\<close> says that the kernel pins pages and the DMA engine
  moves the bytes of a request.\<close>

lemma card_memory_roundtrip:
  assumes "mm_engine k rw emem egood" and "uint sz < 2 ^ 62" and "cdev_ready egood c"
  shows "\<exists>c1 c2. write_from_buffer lseek_set (onic_cdev_write k) src sz off m c = (uint sz, c1) \<and>
    read_to_buffer lseek_set (onic_cdev_read k) dst sz off m c1 = (uint sz, blit src m dst sz m, c2)"
  by (rule mm_engine.card_transfer [OF assms(1,3,2)])

lemma card_memory_roundtrip_example:
  "\<exists>c1 c2. write_from_buffer lseek_set (onic_cdev_write ram_kernel) 0x1000 0xffffe000 0 (\<lambda>a. ucast a) ram_cdev =
      (uint (0xffffe000 :: u64), c1) \<and>
    read_to_buffer lseek_set (onic_cdev_read ram_kernel) 0x1000 0xffffe000 0 (\<lambda>a. ucast a) c1 =
      (uint (0xffffe000 :: u64), blit 0x1000 (\<lambda>a. ucast a) 0x1000 0xffffe000 (\<lambda>a. ucast a), c2)"
proof (rule card_memory_roundtrip)
  show "mm_engine ram_kernel ram_rw (\<lambda>e. e) (\<lambda>_. True)" by (rule ram.mm_engine_axioms)
  show "cdev_ready (\<lambda>_. True) ram_cdev"
    using init_pool_idle [of 2] by (simp add: cdev_ready_def ram_cdev_def onic_init_cdev_def)
qed simp

text \<open>Whatever the device and the system calls do, \<open>write_from_buffer\<close> and \<open>read_to_buffer\<close>
  return either \<open>-EIO\<close> or the whole size: a short or failed transfer is never reported as a
  partial success.\<close>

theorem transfer_all_or_error:
  "fst (write_from_buffer l w src sz off m d) \<in> {- EIO, sint sz} \<and>
   fst (read_to_buffer l r dst sz off m d) \<in> {- EIO, sint sz}"
  unfolding write_from_buffer_def read_to_buffer_def by (intro conjI write_loop_result read_loop_result)

end
