(* ===== verification/Onic_Queue_Pool.thy ===== *)
theory Onic_Queue_Pool
  imports Onic_Cdev "HOL-Library.Multiset"
begin

text \<open>
  Concurrent callers of one direction of the character device of \<open>onic_cdev.c\<close>.  A caller goes
  through \<open>down(&sem)\<close>, the critical section that takes a queue, the transfer, the critical
  section that gives it back, and \<open>up(&sem)\<close>; each is one atomic step and the steps of
  different callers interleave freely.  A caller whose buffer cannot be mapped returns right
  after the take, as \<open>onic_gen_read_write\<close> does; \<open>lost\<close> records the queue it had.  The last section follows the
  handler itself through calls whose buffers cannot be mapped.
\<close>

section \<open>The step relation\<close>

datatype caller = Idle | Counted | Holding nat | Returned

record pool_sys =
  ps_pool :: queue_pool
  callers :: "caller list"
  lost :: "nat list"

inductive pool_step :: "nat \<Rightarrow> pool_sys \<Rightarrow> pool_sys \<Rightarrow> bool" for n where
  down: "i < length (callers s) \<Longrightarrow> callers s ! i = Idle \<Longrightarrow> qp_sem (ps_pool s) = Suc c \<Longrightarrow>
    pool_step n s (s\<lparr>ps_pool := (ps_pool s)\<lparr>qp_sem := c\<rparr>, callers := (callers s)[i := Counted]\<rparr>)"
| take: "i < length (callers s) \<Longrightarrow> callers s ! i = Counted \<Longrightarrow> pool_take n (ps_pool s) = (q, p) \<Longrightarrow>
    pool_step n s (s\<lparr>ps_pool := p, callers := (callers s)[i := Holding q]\<rparr>)"
| map_failed: "i < length (callers s) \<Longrightarrow> callers s ! i = Holding q \<Longrightarrow>
    pool_step n s (s\<lparr>callers := (callers s)[i := Idle], lost := q # lost s\<rparr>)"
| put: "i < length (callers s) \<Longrightarrow> callers s ! i = Holding q \<Longrightarrow>
    pool_step n s (s\<lparr>ps_pool := pool_put n q (ps_pool s), callers := (callers s)[i := Returned]\<rparr>)"
| up: "i < length (callers s) \<Longrightarrow> callers s ! i = Returned \<Longrightarrow>
    pool_step n s (s\<lparr>ps_pool := (ps_pool s)\<lparr>qp_sem := Suc (qp_sem (ps_pool s))\<rparr>,
                     callers := (callers s)[i := Idle]\<rparr>)"

definition pool_init :: "nat \<Rightarrow> nat \<Rightarrow> pool_sys" where
  "pool_init n t = \<lparr>ps_pool = onic_init_pool n, callers = replicate t Idle, lost = []\<rparr>"

abbreviation pool_reach :: "nat \<Rightarrow> nat \<Rightarrow> pool_sys \<Rightarrow> bool" where
  "pool_reach n t s \<equiv> (pool_step n)\<^sup>*\<^sup>* (pool_init n t) s"

inductive_cases pool_stepE: "pool_step n s s'"

section \<open>The invariant\<close>

fun holds :: "caller \<Rightarrow> nat list" where
  "holds (Holding q) = [q]"
| "holds c = []"

definition held :: "pool_sys \<Rightarrow> nat list" where
  "held s = concat (map holds (callers s))"

definition counted :: "caller \<Rightarrow> nat" where
  "counted c = (if c = Counted \<or> c = Returned then 1 else 0)"

definition avail :: "nat \<Rightarrow> pool_sys \<Rightarrow> nat" where
  "avail n s = n - length (held s) - length (lost s)"

definition ring :: "nat \<Rightarrow> pool_sys \<Rightarrow> nat list" where
  "ring n s = map (\<lambda>j. qp_pool (ps_pool s) ! ((qp_read_idx (ps_pool s) + j) mod n)) [0..<avail n s]"

definition pool_inv :: "nat \<Rightarrow> pool_sys \<Rightarrow> bool" where
  "pool_inv n s \<longleftrightarrow>
     0 < n \<and> length (held s) + length (lost s) \<le> n \<and> length (qp_pool (ps_pool s)) = n \<and>
     qp_read_idx (ps_pool s) < n \<and>
     qp_write_idx (ps_pool s) = (qp_read_idx (ps_pool s) + avail n s) mod n \<and>
     qp_sem (ps_pool s) + sum_list (map counted (callers s)) = avail n s \<and>
     mset (ring n s) + mset (held s) + mset (lost s) = mset [0..<n]"

lemma update_split: "i < length xs \<Longrightarrow> \<exists>as bs. xs = as @ xs ! i # bs \<and> (\<forall>y. xs[i := y] = as @ y # bs)"
  by (intro exI [of _ "take i xs"] exI [of _ "drop (Suc i) xs"])
    (simp add: id_take_nth_drop upd_conv_take_nth_drop)

text \<open>How the caller-dependent parts change when one caller moves.\<close>

lemma caller_move:
  assumes "i < length (callers s)" and "callers s ! i = c" and "callers s' = (callers s)[i := c']"
  obtains as bs k where "held s = as @ holds c @ bs" "held s' = as @ holds c' @ bs"
    "sum_list (map counted (callers s)) = k + counted c" "sum_list (map counted (callers s')) = k + counted c'"
proof -
  obtain as bs where sp: "callers s = as @ c # bs" "callers s' = as @ c' # bs"
    using update_split [OF assms(1)] assms(2,3) by metis
  show ?thesis
    by (rule that [of "concat (map holds as)" "concat (map holds bs)"
          "sum_list (map counted as) + sum_list (map counted bs)"]) (simp_all add: held_def sp)
qed

lemma pool_inv_init: "0 < n \<Longrightarrow> pool_inv n (pool_init n t)"
proof -
  assume n: "0 < n"
  have "map (\<lambda>j. [0..<n] ! (j mod n)) [0..<n] = [0..<n]" by (rule nth_equalityI) auto
  with n show ?thesis
    by (simp add: pool_inv_def pool_init_def onic_init_pool_def held_def avail_def ring_def counted_def
        sum_list_replicate concat_replicate_trivial)
qed

text \<open>The two ring operations.\<close>

lemma ring_take:
  assumes "pool_inv n s" and "0 < avail n s" and "avail n s' = avail n s - 1"
    and "ps_pool s' = (ps_pool s)\<lparr>qp_read_idx := (qp_read_idx (ps_pool s) + 1) mod n\<rparr>"
  shows "ring n s = qp_pool (ps_pool s) ! qp_read_idx (ps_pool s) # ring n s'"
proof -
  obtain a where a: "avail n s = Suc a" using assms(2) gr0_implies_Suc by blast
  have "((r + 1) mod n + j) mod n = (r + Suc j) mod n" for r j :: nat
    by (simp add: mod_simps)
  then have "ring n s' = map (\<lambda>j. qp_pool (ps_pool s) ! ((qp_read_idx (ps_pool s) + Suc j) mod n)) [0..<a]"
    using assms(3,4) a by (simp add: ring_def)
  moreover have "map f [0..<Suc a] = f 0 # map (\<lambda>j. f (Suc j)) [0..<a]" for f :: "nat \<Rightarrow> nat"
    by (induction a) simp_all
  then have "ring n s = qp_pool (ps_pool s) ! (qp_read_idx (ps_pool s) mod n) #
      map (\<lambda>j. qp_pool (ps_pool s) ! ((qp_read_idx (ps_pool s) + Suc j) mod n)) [0..<a]"
    unfolding ring_def a by (simp only: add_0_right)
  moreover have "qp_read_idx (ps_pool s) mod n = qp_read_idx (ps_pool s)"
    using assms(1) by (simp add: pool_inv_def)
  ultimately show ?thesis by simp
qed

lemma mod_add_inj:
  assumes "(i :: nat) < a" and "a < n"
  shows "(r + i) mod n \<noteq> (r + a) mod n"
proof
  assume "(r + i) mod n = (r + a) mod n"
  then have "n dvd (r + a) - (r + i)" using assms(1) mod_eq_dvd_iff_nat [of "r + i" "r + a" n] by simp
  then show False using assms by (auto dest: dvd_imp_le)
qed

lemma ring_put:
  assumes "pool_inv n s" and "avail n s < n" and "avail n s' = Suc (avail n s)"
    and "ps_pool s' = pool_put n q (ps_pool s)"
  shows "ring n s' = ring n s @ [q]"
proof -
  let ?r = "qp_read_idx (ps_pool s)" and ?p = "qp_pool (ps_pool s)"
  have w: "qp_write_idx (ps_pool s) = (?r + avail n s) mod n" and l: "length ?p = n" "0 < n"
    using assms(1) by (auto simp: pool_inv_def)
  have "ring n s' = map (\<lambda>j. ?p[(?r + avail n s) mod n := q] ! ((?r + j) mod n)) [0..<Suc (avail n s)]"
    using assms(3,4) w by (simp add: ring_def pool_put_def)
  also have "\<dots> = map (\<lambda>j. ?p ! ((?r + j) mod n)) [0..<avail n s] @ [q]"
  proof -
    have "?p[(?r + avail n s) mod n := q] ! ((?r + j) mod n) = ?p ! ((?r + j) mod n)" if "j < avail n s" for j
      using mod_add_inj [OF that assms(2), of ?r] by simp
    moreover have "?p[(?r + avail n s) mod n := q] ! ((?r + avail n s) mod n) = q"
      using l by simp
    ultimately show ?thesis by simp
  qed
  finally show ?thesis by (simp add: ring_def)
qed

lemma pool_step_inv:
  assumes "pool_step n s s'" and inv: "pool_inv n s"
  shows "pool_inv n s'"
  using assms(1)
proof cases
  case (down i c)
  have m: "callers s' = (callers s)[i := Counted]" using down(1) by simp
  obtain as bs k where h: "held s = as @ bs" "held s' = as @ bs"
    and k: "sum_list (map counted (callers s)) = k" "sum_list (map counted (callers s')) = k + 1"
    by (rule caller_move [OF down(2,3) m]) (simp add: counted_def)
  have a: "avail n s' = avail n s" using h down(1) by (simp add: avail_def)
  then have "ring n s' = ring n s" using down(1) by (simp add: ring_def)
  then show ?thesis using inv h a k down(1,4) by (simp add: pool_inv_def)
next
  case (take i q p)
  have m: "callers s' = (callers s)[i := Holding q]" using take(1) by simp
  obtain as bs k where h: "held s = as @ bs" "held s' = as @ [q] @ bs"
    and k: "sum_list (map counted (callers s)) = k + 1" "sum_list (map counted (callers s')) = k"
    by (rule caller_move [OF take(2,3) m]) (simp add: counted_def)
  have pos: "0 < avail n s" using inv k by (simp add: pool_inv_def)
  have a: "avail n s' = avail n s - 1" using h take(1) by (simp add: avail_def)
  have p: "q = qp_pool (ps_pool s) ! qp_read_idx (ps_pool s)"
    "ps_pool s' = (ps_pool s)\<lparr>qp_read_idx := (qp_read_idx (ps_pool s) + 1) mod n\<rparr>"
    using take(1,4) by (auto simp: pool_take_def)
  note r = ring_take [OF inv pos a p(2), folded p(1)]
  have "length (held s') + length (lost s') \<le> n"
    using h take(1) pos by (simp add: avail_def)
  moreover have "((qp_read_idx (ps_pool s) + 1) mod n + (avail n s - 1)) mod n =
      (qp_read_idx (ps_pool s) + avail n s) mod n"
  proof -
    obtain b where "avail n s = Suc b" using pos gr0_implies_Suc by blast
    then show ?thesis by (simp add: mod_simps)
  qed
  moreover have "qp_sem (ps_pool s) + k = avail n s - 1" using inv k unfolding pool_inv_def by linarith
  ultimately show ?thesis using inv h a k p r take(1) by (simp add: pool_inv_def)
next
  case (map_failed i q)
  have m: "callers s' = (callers s)[i := Idle]" using map_failed(1) by simp
  obtain as bs k where h: "held s = as @ [q] @ bs" "held s' = as @ bs"
    and k: "sum_list (map counted (callers s)) = k" "sum_list (map counted (callers s')) = k"
    by (rule caller_move [OF map_failed(2,3) m]) (simp add: counted_def)
  have a: "avail n s' = avail n s" using h map_failed(1) by (simp add: avail_def)
  then have "ring n s' = ring n s" using map_failed(1) by (simp add: ring_def)
  then show ?thesis using inv h a k map_failed(1) by (simp add: pool_inv_def)
next
  case (put i q)
  have m: "callers s' = (callers s)[i := Returned]" using put(1) by simp
  obtain as bs k where h: "held s = as @ [q] @ bs" "held s' = as @ bs"
    and k: "sum_list (map counted (callers s)) = k" "sum_list (map counted (callers s')) = k + 1"
    by (rule caller_move [OF put(2,3) m]) (simp add: counted_def)
  have le: "length (held s) + length (lost s) \<le> n" "0 < n" using inv by (auto simp: pool_inv_def)
  have a: "avail n s' = Suc (avail n s)" "avail n s < n" using h put(1) le by (auto simp: avail_def)
  have p: "ps_pool s' = pool_put n q (ps_pool s)" using put(1) by simp
  note r = ring_put [OF inv a(2,1) p]
  have "((qp_read_idx (ps_pool s) + avail n s) mod n + 1) mod n = (qp_read_idx (ps_pool s) + Suc (avail n s)) mod n"
    by (simp add: mod_simps)
  then show ?thesis using inv h a k p r put(1) le by (simp add: pool_inv_def pool_put_def)
next
  case (up i)
  have m: "callers s' = (callers s)[i := Idle]" using up(1) by simp
  obtain as bs k where h: "held s = as @ bs" "held s' = as @ bs"
    and k: "sum_list (map counted (callers s)) = k + 1" "sum_list (map counted (callers s')) = k"
    by (rule caller_move [OF up(2,3) m]) (simp add: counted_def)
  have a: "avail n s' = avail n s" using h up(1) by (simp add: avail_def)
  then have "ring n s' = ring n s" using up(1) by (simp add: ring_def)
  then show ?thesis using inv h a k up(1) by (simp add: pool_inv_def)
qed

lemma pool_reach_inv: "0 < n \<Longrightarrow> pool_reach n t s \<Longrightarrow> pool_inv n s"
proof (rotate_tac, induction rule: rtranclp_induct)
  case base
  then show ?case by (rule pool_inv_init)
next
  case (step y z)
  then show ?case using pool_step_inv by blast
qed

section \<open>Properties\<close>

text \<open>C15: no DMA queue is ever used by two callers at once, and every queue handed out is one of
  the device's, for any number of callers and any interleaving of their steps, mapping
  failures included.\<close>

theorem queue_exclusive:
  assumes "0 < n" and "pool_reach n t s"
    and "i < length (callers s)" "j < length (callers s)" "i \<noteq> j"
    and "callers s ! i = Holding q"
  shows "callers s ! j \<noteq> Holding q \<and> q < n"
proof -
  have "mset (ring n s @ held s @ lost s) = mset [0..<n]"
    using pool_reach_inv [OF assms(1,2)] by (simp add: pool_inv_def add.assoc)
  then have d: "distinct (ring n s @ held s @ lost s)" and st: "set (ring n s @ held s @ lost s) = {0..<n}"
    by (metis distinct_upt mset_eq_imp_distinct_iff, metis atLeastLessThan_upt set_mset_mset)
  have q: "q \<in> set (holds (callers s ! i))" using assms(6) by simp
  then have "q \<in> set (held s)" using assms(3) by (auto simp: held_def intro!: bexI [of _ "callers s ! i"])
  then have "q < n" using st by auto
  moreover have "callers s ! j \<noteq> Holding q"
  proof
    assume b: "callers s ! j = Holding q"
    obtain k l where kl: "k < l" "l < length (callers s)" "callers s ! k = Holding q" "callers s ! l = Holding q"
      using assms(3-6) b by (metis linorder_neqE_nat)
    have "callers s = take k (callers s) @ callers s ! k # drop (Suc k) (callers s)"
      using kl by (intro id_take_nth_drop) simp
    then have "held s = concat (map holds (take k (callers s))) @ [q] @ concat (map holds (drop (Suc k) (callers s)))"
      unfolding held_def using kl(3) by (metis concat.simps(2) concat_append holds.simps(1) list.simps(9) map_append)
    moreover have "q \<in> set (concat (map holds (drop (Suc k) (callers s))))"
    proof -
      have "Holding q \<in> set (drop (Suc k) (callers s))"
        using kl nth_mem [of "l - Suc k" "drop (Suc k) (callers s)"] by simp
      then show ?thesis by (auto intro!: bexI [of _ "Holding q"])
    qed
    ultimately show False using d by auto
  qed
  ultimately show ?thesis by blast
qed

lemma pool_reach_demo:
  "pool_reach 2 2 \<lparr>ps_pool = \<lparr>qp_sem = 0, qp_pool = [0, 1], qp_read_idx = 0, qp_write_idx = 0\<rparr>,
     callers = [Holding 0, Holding 1], lost = []\<rparr>" (is "pool_reach 2 2 ?s4")
proof -
  define mk where "mk = (\<lambda>sem r cs. \<lparr>ps_pool = \<lparr>qp_sem = sem, qp_pool = [0, 1], qp_read_idx = r, qp_write_idx = 0\<rparr>,
     callers = cs, lost = ([] :: nat list)\<rparr>)"
  have 0: "pool_init 2 2 = mk 2 0 [Idle, Idle]"
    by (simp add: pool_init_def onic_init_pool_def mk_def numeral_2_eq_2)
  have 1: "pool_step 2 (mk 2 0 [Idle, Idle]) (mk 1 0 [Counted, Idle])"
    using pool_step.down [of 0 "mk 2 0 [Idle, Idle]" 1 2] by (simp add: mk_def)
  have 2: "pool_step 2 (mk 1 0 [Counted, Idle]) (mk 1 1 [Holding 0, Idle])"
    using pool_step.take [of 0 "mk 1 0 [Counted, Idle]" 2 0] by (simp add: mk_def pool_take_def)
  have 3: "pool_step 2 (mk 1 1 [Holding 0, Idle]) (mk 0 1 [Holding 0, Counted])"
    using pool_step.down [of 1 "mk 1 1 [Holding 0, Idle]" 0 2] by (simp add: mk_def)
  have 4: "pool_step 2 (mk 0 1 [Holding 0, Counted]) (mk 0 0 [Holding 0, Holding 1])"
    using pool_step.take [of 1 "mk 0 1 [Holding 0, Counted]" 2 1] by (simp add: mk_def pool_take_def)
  have "(pool_step 2)\<^sup>*\<^sup>* (mk 2 0 [Idle, Idle]) (mk 0 0 [Holding 0, Holding 1])"
    using 1 2 3 4 by (meson converse_rtranclp_into_rtranclp rtranclp.rtrancl_refl)
  then show ?thesis unfolding 0 by (simp add: mk_def)
qed

theorem queue_exclusive_witness:
  "[Holding 0, Holding 1] ! 1 \<noteq> Holding 0 \<and> (0 :: nat) < 2"
  using queue_exclusive [OF _ pool_reach_demo, of 0 1 0] by simp

section \<open>Transfers whose buffer cannot be mapped\<close>

text \<open>Calls one after the other, by their buffers and lengths.\<close>

primrec cdev_calls :: "'m kernel \<Rightarrow> bool \<Rightarrow> umem \<Rightarrow> (u64 \<times> u64) list \<Rightarrow> 'm cdev \<Rightarrow> (int list \<times> 'm cdev) option" where
  "cdev_calls k write m [] c = Some ([], c)"
| "cdev_calls k write m (bn # bs) c =
     (case onic_cdev_rw k write m c (fst bn) (snd bn) of
        None \<Rightarrow> None
      | Some (rv, m1, c1) \<Rightarrow> (case cdev_calls k write m1 bs c1 of None \<Rightarrow> None | Some (rvs, c2) \<Rightarrow> Some (rv # rvs, c2)))"

lemma failed_call:
  assumes "fp_rw k \<noteq> None" and "qp_sem (the_pool wr c) = Suc s" and "map_user_buf_to_sgl (kmalloc_ok k) (get_user_pages_fast k) buf len = Inl rv"
  shows "\<exists>c1. onic_cdev_rw k wr m c buf len = Some (rv, m, c1) \<and> qp_sem (the_pool wr c1) = s \<and>
    the_pool (\<not> wr) c1 = the_pool (\<not> wr) c"
  using assms by (auto simp: onic_cdev_rw_def onic_gen_read_write_def the_pool_def set_pool_def pool_take_def Let_def split: option.split)

text \<open>C16: As many calls of one direction as there are free queues, each with a buffer that cannot be mapped: every one of them
  returns the error of the mapping and puts neither the queue nor the count of the semaphore back.  After them any further
  call of that direction, with whatever buffer and kernel, waits for a queue for good (no other call being under way), while
  the queues of the other direction are untouched.\<close>

theorem mapping_failures_exhaust_pool:
  assumes "fp_rw k \<noteq> None" and "length bs = qp_sem (the_pool wr c)"
    and "\<forall>(buf, len) \<in> set bs. map_user_buf_to_sgl (kmalloc_ok k) (get_user_pages_fast k) buf len = Inl (err buf len)"
  shows "\<exists>c'. cdev_calls k wr m bs c = Some (map (\<lambda>(buf, len). err buf len) bs, c') \<and>
    (\<forall>k2 m2 buf len. onic_cdev_rw k2 wr m2 c' buf len = None) \<and> the_pool (\<not> wr) c' = the_pool (\<not> wr) c"
  using assms(2,3)
proof (induction bs arbitrary: c)
  case Nil
  then show ?case by (simp add: onic_cdev_rw_def Let_def)
next
  case (Cons bn bs)
  obtain c1 where c1: "onic_cdev_rw k wr m c (fst bn) (snd bn) = Some (err (fst bn) (snd bn), m, c1)"
    "qp_sem (the_pool wr c1) = length bs" "the_pool (\<not> wr) c1 = the_pool (\<not> wr) c"
    using failed_call [OF assms(1), where wr = wr and c = c and s = "length bs" and buf = "fst bn" and len = "snd bn"
        and rv = "err (fst bn) (snd bn)" and m = m] Cons.prems by (force simp: split_beta)
  then show ?case using Cons.IH [of c1] Cons.prems(2) by (auto simp: split_beta)
qed

text \<open>A kernel that cannot pin pages.\<close>

definition no_pages :: "umem kernel" where
  "no_pages = ram_kernel\<lparr>get_user_pages_fast := (\<lambda>buf nr. (- EFAULT, []))\<rparr>"

theorem mapping_failures_exhaust_pool_witness:
  "\<exists>c'. cdev_calls no_pages False (\<lambda>_. 0) [(0x1000, 16), (0x1000, 16)] ram_cdev = Some ([- EFAULT, - EFAULT], c') \<and>
     onic_cdev_rw ram_kernel False (\<lambda>_. 0) c' 0x2000 8 = None"
proof -
  have "pages_nr 0x1000 16 \<noteq> 0" using pages_nr_enough(1) [of 16 "0x1000"] by (simp add: RW_MAX_SIZE_def)
  then have "map_user_buf_to_sgl (kmalloc_ok no_pages) (get_user_pages_fast no_pages) 0x1000 16 = Inl (- EFAULT)"
    by (simp add: map_user_buf_to_sgl_def no_pages_def ram_kernel_def EFAULT_def Let_def)
  moreover have "qp_sem (the_pool False ram_cdev) = 2"
    by (simp add: ram_cdev_def onic_init_cdev_def onic_init_pool_def the_pool_def)
  ultimately show ?thesis
    using mapping_failures_exhaust_pool [where k = no_pages and bs = "[(0x1000, 16), (0x1000, 16)]" and wr = False and
        c = ram_cdev and err = "\<lambda>_ _. - EFAULT" and m = "\<lambda>_. 0"]
    by (auto simp: no_pages_def ram_kernel_def)
qed

end
