(* ===== verification/Lib_Aux.thy ===== *)
theory Lib_Aux
  imports Prelude
begin

text \<open>
  \<open>auxiliary.c\<close>: subtraction of time stamps.  \<open>time_t\<close> and \<open>long\<close> are 64-bit signed; differences
  of time stamps that can be taken are far from the limits, and overflow of a signed integer
  has no meaning in C, so the fields are integers here.
\<close>

record timespec =
  tv_sec :: int
  tv_nsec :: int

definition timespec_check :: "timespec \<Rightarrow> int" where
  "timespec_check t = (if tv_nsec t < 0 \<or> tv_nsec t \<ge> 1000000000 then - 1 else 0)"

definition timespec_sub :: "timespec \<Rightarrow> timespec \<Rightarrow> timespec" where
  "timespec_sub t1 t2 =
     (if timespec_check t1 < 0 then t1
      else if timespec_check t2 < 0 then t1
      else
        (let t = t1\<lparr>tv_sec := tv_sec t1 - tv_sec t2, tv_nsec := tv_nsec t1 - tv_nsec t2\<rparr> in
         if tv_nsec t \<ge> 1000000000 then t\<lparr>tv_sec := tv_sec t + 1, tv_nsec := tv_nsec t - 1000000000\<rparr>
         else if tv_nsec t < 0 then t\<lparr>tv_sec := tv_sec t - 1, tv_nsec := tv_nsec t + 1000000000\<rparr>
         else t))"

definition nanoseconds :: "timespec \<Rightarrow> int" where
  "nanoseconds t = tv_sec t * 1000000000 + tv_nsec t"

text \<open>for two normalised time stamps \<open>timespec_sub\<close> yields the normalised time stamp of their
  exact difference in nanoseconds; if either is not normalised, the first is left as it was.\<close>

theorem timespec_sub_exact:
  "if timespec_check t1 = 0 \<and> timespec_check t2 = 0
   then nanoseconds (timespec_sub t1 t2) = nanoseconds t1 - nanoseconds t2 \<and>
        timespec_check (timespec_sub t1 t2) = 0
   else timespec_sub t1 t2 = t1"
  by (auto simp: timespec_sub_def timespec_check_def nanoseconds_def Let_def algebra_simps)

end
