(* ===== verification/C_Monad.thy ===== *)
theory C_Monad
  imports Prelude
begin

text \<open>
  Statements of the user-space library as state transformers that may stop: every
  \<open>exit\<close>, failed \<open>assert\<close>, access through a bad pointer, index outside an array, second
  \<open>free\<close> and unfinished busy-wait loop is an error value, and the state reached at that moment is kept.
\<close>

datatype lib_err = Exit_failure | Bad_pointer | Out_of_bounds | Double_free | Assert_failed | Out_of_fuel

type_synonym ('s, 'a) cop = "'s \<Rightarrow> (lib_err + 'a) \<times> 's"

definition ret :: "'a \<Rightarrow> ('s, 'a) cop" where
  "ret x s = (Inr x, s)"

definition fail :: "lib_err \<Rightarrow> ('s, 'a) cop" where
  "fail e s = (Inl e, s)"

definition bind :: "('s, 'a) cop \<Rightarrow> ('a \<Rightarrow> ('s, 'b) cop) \<Rightarrow> ('s, 'b) cop" where
  "bind m f s = (case m s of (Inl e, s') \<Rightarrow> (Inl e, s') | (Inr x, s') \<Rightarrow> f x s')"

definition seq :: "('s, 'a) cop \<Rightarrow> ('s, 'b) cop \<Rightarrow> ('s, 'b) cop" where
  "seq m k = bind m (\<lambda>_. k)"

definition gets :: "('s \<Rightarrow> 'a) \<Rightarrow> ('s, 'a) cop" where
  "gets f s = (Inr (f s), s)"

definition modify :: "('s \<Rightarrow> 's) \<Rightarrow> ('s, unit) cop" where
  "modify f s = (Inr (), f s)"

definition lift :: "('s \<Rightarrow> 'a \<times> 's) \<Rightarrow> ('s, 'a) cop" where
  "lift f s = (case f s of (x, s') \<Rightarrow> (Inr x, s'))"

definition check :: "lib_err \<Rightarrow> bool \<Rightarrow> ('s, unit) cop" where
  "check e b = (if b then ret () else fail e)"

definition cwhen :: "bool \<Rightarrow> ('s, unit) cop \<Rightarrow> ('s, unit) cop" where
  "cwhen b m = (if b then m else ret ())"

fun seq_list :: "('s, unit) cop list \<Rightarrow> ('s, unit) cop" where
  "seq_list [] = ret ()"
| "seq_list (m # ms) = seq m (seq_list ms)"

text \<open>Rules that run a program symbolically.\<close>

named_theorems run_simps

lemma bind_run [run_simps]:
  "m s = (Inr x, s') \<Longrightarrow> bind m f s = f x s'"
  "m s = (Inl e, s') \<Longrightarrow> bind m f s = (Inl e, s')"
  by (simp_all add: bind_def)

lemma seq_run [run_simps]:
  "m s = (Inr x, s') \<Longrightarrow> seq m k s = k s'"
  "m s = (Inl e, s') \<Longrightarrow> seq m k s = (Inl e, s')"
  by (simp_all add: seq_def bind_def)

lemma basic_run [run_simps]:
  "ret x s = (Inr x, s)" "fail e s = (Inl e, s)" "gets f s = (Inr (f s), s)"
  "modify g s = (Inr (), g s)" "check e b s = (if b then Inr () else Inl e, s)"
  "cwhen b m' s = (if b then m' s else (Inr (), s))"
  by (simp_all add: ret_def fail_def gets_def modify_def check_def cwhen_def)

lemma lift_run [run_simps]: "lift f s = (Inr (fst (f s)), snd (f s))"
  by (simp add: lift_def split: prod.split)

lemma seq_list_append: "seq_list (xs @ ys) = seq (seq_list xs) (seq_list ys)"
proof (induction xs)
  case Nil
  show ?case by (rule ext) (simp add: run_simps)
next
  case (Cons x xs)
  show ?case
    by (rule ext) (simp add: Cons seq_def bind_def split: prod.split sum.split)
qed

text \<open>Running to completion, and running to a stop.\<close>

lemma bind_Inr_iff:
  "bind m f s = (Inr y, s') \<longleftrightarrow> (\<exists>x t. m s = (Inr x, t) \<and> f x t = (Inr y, s'))"
  by (auto simp: bind_def split: prod.splits sum.splits)

lemma seq_Inr_iff: "seq m k s = (Inr y, s') \<longleftrightarrow> (\<exists>x t. m s = (Inr x, t) \<and> k t = (Inr y, s'))"
  by (auto simp: seq_def bind_Inr_iff)

end
