(* ===== verification/Lib_Control.thy ===== *)
theory Lib_Control
  imports C_Monad
begin

text \<open>
  \<open>control_api.c\<close>: the memory-mapped AXI-Lite register file, the compute command FIFO and the
  completion wait.  A register access is one step of the bus: the device may change its
  registers on its own before the access (\<open>hw n\<close> is what it does before the \<open>n\<close>-th one), then
  the access takes place.  \<open>bus_log\<close> is the sequence of accesses the library issued.
\<close>

section \<open>The register bus\<close>

datatype bus_event = Bus_write u64 u32 | Bus_read u64 u32

record axil =
  regs :: "u64 \<Rightarrow> u32"
  accesses :: nat
  bus_log :: "bus_event list"

type_synonym hw = "nat \<Rightarrow> (u64 \<Rightarrow> u32) \<Rightarrow> u64 \<Rightarrow> u32"

definition bus_tick :: "hw \<Rightarrow> 'a axil_scheme \<Rightarrow> 'a axil_scheme" where
  "bus_tick hw s = s\<lparr>regs := hw (accesses s) (regs s), accesses := Suc (accesses s)\<rparr>"

definition write32_data :: "hw \<Rightarrow> u64 \<Rightarrow> u64 \<Rightarrow> u32 \<Rightarrow> ('a axil_scheme, unit) cop" where
  "write32_data hw pcie_axil_base offset value s =
     (let config_addr = pcie_axil_base + offset; s1 = bus_tick hw s in
      (Inr (), s1\<lparr>regs := (regs s1)(config_addr := value),
                  bus_log := bus_log s1 @ [Bus_write config_addr value]\<rparr>))"

definition read32_data :: "hw \<Rightarrow> u64 \<Rightarrow> u64 \<Rightarrow> ('a axil_scheme, u32) cop" where
  "read32_data hw pcie_axil_base offset s =
     (let config_addr = pcie_axil_base + offset; s1 = bus_tick hw s; value = regs s1 config_addr in
      (Inr value, s1\<lparr>bus_log := bus_log s1 @ [Bus_read config_addr value]\<rparr>))"

text \<open>A run of register writes at offsets from the base.\<close>

definition write_regs :: "hw \<Rightarrow> u64 \<Rightarrow> (u64 \<times> u32) list \<Rightarrow> ('a axil_scheme, unit) cop" where
  "write_regs hw base ws = seq_list (map (\<lambda>(off, v). write32_data hw base off v) ws)"

text \<open>A device that leaves its registers alone.\<close>

definition hw_passive :: hw where
  "hw_passive n r = r"

section \<open>Compute control\<close>

record ctl_cmd_t =
  ctl_cmd_size :: u32
  a_baseaddr :: u32
  b_baseaddr :: u32
  c_baseaddr :: u32
  a_row :: u16
  a_col :: u16
  b_col :: u16
  work_id :: u16

definition gen_ctl_cmd ::
    "ctl_cmd_t \<Rightarrow> u32 \<Rightarrow> u32 \<Rightarrow> u32 \<Rightarrow> u32 \<Rightarrow> u16 \<Rightarrow> u16 \<Rightarrow> u16 \<Rightarrow> u16 \<Rightarrow> ctl_cmd_t" where
  "gen_ctl_cmd ctl_cmd a_base b_base c_base cmd_size row col bcol wid =
     ctl_cmd\<lparr>ctl_cmd_size := cmd_size, a_baseaddr := a_base, b_baseaddr := b_base, c_baseaddr := c_base,
             a_row := row, a_col := col, b_col := bcol, work_id := wid\<rparr>"

definition pack16 :: "u16 \<Rightarrow> u16 \<Rightarrow> u32" where
  "pack16 hi lo = (push_bit 16 (ucast hi) AND 0xffff0000) OR (ucast lo AND 0x0000ffff)"

definition issue_ctl_cmd :: "hw \<Rightarrow> u64 \<Rightarrow> u32 \<Rightarrow> ctl_cmd_t \<Rightarrow> ('a axil_scheme, unit) cop" where
  "issue_ctl_cmd hw axil_base offset ctl_cmd =
     seq_list
      [write32_data hw axil_base (ucast offset) (ctl_cmd_size ctl_cmd),
       write32_data hw axil_base (ucast offset) (a_baseaddr ctl_cmd),
       write32_data hw axil_base (ucast offset) (b_baseaddr ctl_cmd),
       write32_data hw axil_base (ucast offset) (c_baseaddr ctl_cmd),
       write32_data hw axil_base (ucast offset) (pack16 (a_row ctl_cmd) (a_col ctl_cmd)),
       write32_data hw axil_base (ucast offset) (pack16 (b_col ctl_cmd) (work_id ctl_cmd))]"

text \<open>A busy-wait loop: read until the value satisfies \<open>stop\<close>.  The loops of the library have
  no bound, so the number of reads is limited by \<open>fuel\<close> and running out of it is an error of
  its own.\<close>

fun poll_until :: "nat \<Rightarrow> ('s, 'v) cop \<Rightarrow> ('v \<Rightarrow> bool) \<Rightarrow> ('s, 'v) cop" where
  "poll_until 0 rd stop = fail Out_of_fuel"
| "poll_until (Suc fuel) rd stop = bind rd (\<lambda>v. if stop v then ret v else poll_until fuel rd stop)"

definition wait_compute :: "nat \<Rightarrow> hw \<Rightarrow> u64 \<Rightarrow> u32 \<Rightarrow> ('a axil_scheme, u32) cop" where
  "wait_compute fuel hw axil_base offset =
     poll_until fuel (read32_data hw axil_base (ucast offset)) (\<lambda>compute_done. compute_done \<noteq> 0)"

section \<open>Facts about the bus\<close>

lemma write32_run [run_simps]:
  "write32_data hw b off v s =
     (Inr (), (bus_tick hw s)\<lparr>regs := (regs (bus_tick hw s))(b + off := v),
               bus_log := bus_log s @ [Bus_write (b + off) v]\<rparr>)"
  by (simp add: write32_data_def bus_tick_def Let_def)

lemma read32_run [run_simps]:
  "read32_data hw b off s =
     (Inr (regs (bus_tick hw s) (b + off)),
      (bus_tick hw s)\<lparr>bus_log := bus_log s @ [Bus_read (b + off) (regs (bus_tick hw s) (b + off))]\<rparr>)"
  by (simp add: read32_data_def bus_tick_def Let_def)

lemma bus_tick_simps [simp]:
  "accesses (bus_tick hw s) = Suc (accesses s)" "bus_log (bus_tick hw s) = bus_log s"
  "regs (bus_tick hw s) = hw (accesses s) (regs s)" "axil.more (bus_tick hw s) = axil.more s"
  by (simp_all add: bus_tick_def)

lemma write_regs_simps [run_simps]:
  "write_regs hw b [] s = (Inr (), s)"
  "write_regs hw b ((off, v) # ws) s = write_regs hw b ws (snd (write32_data hw b off v s))"
  by (simp_all add: write_regs_def run_simps)

lemma write_regs_ok:
  "\<exists>r. write_regs hw b ws s = (Inr (), s\<lparr>regs := r, accesses := accesses s + length ws,
     bus_log := bus_log s @ map (\<lambda>(off, v). Bus_write (b + off) v) ws\<rparr>)"
proof (induction ws arbitrary: s)
  case Nil
  show ?case by (intro exI [of _ "regs s"]) (simp add: run_simps)
next
  case (Cons w ws)
  obtain off v where w: "w = (off, v)" by (cases w)
  let ?s = "snd (write32_data hw b off v s)"
  obtain r where "write_regs hw b ws ?s = (Inr (), ?s\<lparr>regs := r, accesses := accesses ?s + length ws,
     bus_log := bus_log ?s @ map (\<lambda>(off, v). Bus_write (b + off) v) ws\<rparr>)" using Cons.IH by blast
  then show ?case
    by (intro exI [of _ r]) (simp add: w run_simps bus_tick_def)
qed

text \<open>On a passive device the registers end up as the writes say, the last write to an address
  winning.\<close>

definition apply_writes :: "u64 \<Rightarrow> (u64 \<times> u32) list \<Rightarrow> (u64 \<Rightarrow> u32) \<Rightarrow> u64 \<Rightarrow> u32" where
  "apply_writes b ws r = foldl (\<lambda>r (off, v). r(b + off := v)) r ws"

lemma write_regs_passive:
  "write_regs hw_passive b ws s = (Inr (), s\<lparr>regs := apply_writes b ws (regs s),
     accesses := accesses s + length ws,
     bus_log := bus_log s @ map (\<lambda>(off, v). Bus_write (b + off) v) ws\<rparr>)"
proof (induction ws arbitrary: s)
  case (Cons w ws)
  then show ?case by (cases w) (simp add: run_simps bus_tick_def hw_passive_def apply_writes_def)
qed (simp add: run_simps apply_writes_def)

lemma apply_writes_other: "\<forall>w \<in> set ws. b + fst w \<noteq> a \<Longrightarrow> apply_writes b ws r a = r a"
  by (induction ws arbitrary: r) (auto simp: apply_writes_def split: prod.splits)

lemma apply_writes_append: "apply_writes b (xs @ ys) r = apply_writes b ys (apply_writes b xs r)"
  by (simp add: apply_writes_def)

lemma apply_writes_distinct:
  assumes "distinct (map fst ws)" and "(off, v) \<in> set ws"
  shows "apply_writes b ws r (b + off) = v"
  using assms
proof (induction ws arbitrary: r)
  case (Cons w ws)
  obtain o' v' where w: "w = (o', v')" by (cases w)
  show ?case
  proof (cases "(off, v) = w")
    case True
    have "\<forall>x \<in> set ws. b + fst x \<noteq> b + off" using Cons.prems(1) True w by (auto simp: image_iff)
    from apply_writes_other [OF this, of "r(b + off := v)"] True w show ?thesis
      by (simp add: apply_writes_def)
  next
    case False
    then have "(off, v) \<in> set ws" using Cons.prems(2) by auto
    moreover have "distinct (map fst ws)" using Cons.prems(1) by simp
    moreover have "apply_writes b (w # ws) r = apply_writes b ws (r(b + o' := v'))" by (simp add: w apply_writes_def)
    ultimately show ?thesis using Cons.IH by metis
  qed
qed simp

text \<open>The state and the value after some reads of one register.\<close>

primrec after_reads :: "hw \<Rightarrow> u64 \<Rightarrow> nat \<Rightarrow> 'a axil_scheme \<Rightarrow> 'a axil_scheme" where
  "after_reads hw a 0 s = s"
| "after_reads hw a (Suc n) s = after_reads hw a n (snd (read32_data hw a 0 s))"

definition nth_read :: "hw \<Rightarrow> u64 \<Rightarrow> nat \<Rightarrow> 'a axil_scheme \<Rightarrow> u32" where
  "nth_read hw a n s = regs (bus_tick hw (after_reads hw a n s)) a"

lemma read32_as_nth:
  "read32_data hw b off s = (Inr (nth_read hw (b + off) 0 s), after_reads hw (b + off) (Suc 0) s)"
  by (simp add: run_simps nth_read_def)

lemma nth_read_Suc: "nth_read hw a (Suc n) s = nth_read hw a n (after_reads hw a (Suc 0) s)"
  by (simp add: nth_read_def)

lemma after_reads_Suc: "after_reads hw a (Suc n) s = after_reads hw a n (after_reads hw a (Suc 0) s)"
  by simp

lemma poll_until_reads:
  assumes "n < fuel" and "stop (nth_read hw (b + off) n s)"
    and "\<forall>i < n. \<not> stop (nth_read hw (b + off) i s)"
  shows "poll_until fuel (read32_data hw b off) stop s =
    (Inr (nth_read hw (b + off) n s), after_reads hw (b + off) (Suc n) s)"
  using assms
proof (induction n arbitrary: s fuel)
  case 0
  then obtain k where "fuel = Suc k" by (cases fuel) auto
  with 0 show ?case by (simp add: bind_run(1) [OF read32_as_nth] ret_def del: after_reads.simps)
next
  case (Suc n)
  then obtain k where k: "fuel = Suc k" by (cases fuel) auto
  let ?s = "after_reads hw (b + off) (Suc 0) s"
  have "\<not> stop (nth_read hw (b + off) 0 s)" using Suc.prems(3) by blast
  moreover have "poll_until k (read32_data hw b off) stop ?s =
      (Inr (nth_read hw (b + off) n ?s), after_reads hw (b + off) (Suc n) ?s)"
    using Suc.prems k by (intro Suc.IH) (auto simp: nth_read_Suc [symmetric] simp del: after_reads.simps)
  ultimately show ?case
    unfolding k using nth_read_Suc [of hw "b + off" n s] after_reads_Suc [of hw "b + off" "Suc n" s]
    by (simp add: bind_run(1) [OF read32_as_nth] del: after_reads.simps)
qed

lemma poll_until_stuck:
  assumes "\<forall>i < fuel. \<not> stop (nth_read hw (b + off) i s)"
  shows "poll_until fuel (read32_data hw b off) stop s = (Inl Out_of_fuel, after_reads hw (b + off) fuel s)"
  using assms
proof (induction fuel arbitrary: s)
  case (Suc n)
  let ?s = "after_reads hw (b + off) (Suc 0) s"
  have "poll_until n (read32_data hw b off) stop ?s = (Inl Out_of_fuel, after_reads hw (b + off) n ?s)"
    using Suc.prems by (intro Suc.IH) (auto simp: nth_read_Suc [symmetric] simp del: after_reads.simps)
  moreover have "\<not> stop (nth_read hw (b + off) 0 s)" using Suc.prems by blast
  ultimately show ?case
    using after_reads_Suc [of hw "b + off" n s] by (simp add: bind_run(1) [OF read32_as_nth] del: after_reads.simps)
qed (simp add: fail_def)

section \<open>Properties\<close>

text \<open>\<open>wait_compute\<close> returns as soon as the status register reads non-zero: if the first
  non-zero value appears at the \<open>n\<close>-th read, exactly that value is returned after exactly
  \<open>n + 1\<close> reads, so any bound above \<open>n\<close> is enough.\<close>

theorem wait_compute_returns:
  assumes "nth_read hw (axil_base + ucast offset) n s \<noteq> 0"
    and "\<forall>i < n. nth_read hw (axil_base + ucast offset) i s = 0" and "n < fuel"
  shows "wait_compute fuel hw axil_base offset s =
    (Inr (nth_read hw (axil_base + ucast offset) n s), after_reads hw (axil_base + ucast offset) (Suc n) s)"
  unfolding wait_compute_def using assms by (intro poll_until_reads) auto

definition hw_done_at :: "nat \<Rightarrow> u64 \<Rightarrow> u32 \<Rightarrow> hw" where
  "hw_done_at k a v n r = (if n = k then r(a := v) else r)"

definition axil_zero :: axil where
  "axil_zero = \<lparr>regs = (\<lambda>_. 0), accesses = 0, bus_log = []\<rparr>"

theorem wait_compute_returns_witness:
  "fst (wait_compute 4 (hw_done_at 2 0x103004 7) 0 0x103004 axil_zero) = Inr 7"
proof -
  have a: "(0 :: u64) + ucast (0x103004 :: u32) = 0x103004" by code_simp
  have n2: "nth_read (hw_done_at 2 0x103004 7) 0x103004 2 axil_zero = 7"
    and n0: "nth_read (hw_done_at 2 0x103004 7) 0x103004 0 axil_zero = 0"
    and n1: "nth_read (hw_done_at 2 0x103004 7) 0x103004 1 axil_zero = 0" by code_simp+
  have z: "\<forall>i < 2. nth_read (hw_done_at 2 0x103004 7) 0x103004 i axil_zero = 0"
    using n0 n1 by (auto simp: less_2_cases_iff)
  show ?thesis
    using wait_compute_returns [where hw = "hw_done_at 2 0x103004 7" and axil_base = 0 and
        offset = "0x103004" and n = 2 and s = axil_zero and fuel = 4, unfolded a] n2 z by simp
qed

lemma pack16_fields:
  "ucast (drop_bit 16 (pack16 hi lo)) = hi" "ucast (pack16 hi lo) = lo"
proof -
  show "ucast (drop_bit 16 (pack16 hi lo)) = hi"
    by (rule bit_word_eqI) (auto simp: pack16_def mask_consts bit_simps)
  show "ucast (pack16 hi lo) = lo"
    by (rule bit_word_eqI) (auto simp: pack16_def mask_consts bit_simps)
qed

text \<open>The command that six words received at the command FIFO stand for.\<close>

definition decode_ctl_cmd :: "u32 list \<Rightarrow> ctl_cmd_t option" where
  "decode_ctl_cmd ws =
     (case ws of [sz, a, b, c, ar, bw] \<Rightarrow>
        Some \<lparr>ctl_cmd_size = sz, a_baseaddr = a, b_baseaddr = b, c_baseaddr = c,
              a_row = ucast (drop_bit 16 ar), a_col = ucast ar,
              b_col = ucast (drop_bit 16 bw), work_id = ucast bw\<rparr>
      | _ \<Rightarrow> None)"

text \<open>issuing a command is lossless.  Whatever the device does meanwhile, \<open>issue_ctl_cmd\<close>
  pushes six words to the one FIFO address and nothing anywhere else, and the six words
  determine the command that \<open>gen_ctl_cmd\<close> built, the packed 16-bit dimensions included.\<close>

theorem issue_ctl_cmd_roundtrip:
  "\<exists>s' ws. issue_ctl_cmd hw base off (gen_ctl_cmd c0 a b c sz row col bcol wid) s = (Inr (), s') \<and>
     bus_log s' = bus_log s @ map (Bus_write (base + ucast off)) ws \<and>
     decode_ctl_cmd ws = Some \<lparr>ctl_cmd_size = sz, a_baseaddr = a, b_baseaddr = b, c_baseaddr = c,
       a_row = row, a_col = col, b_col = bcol, work_id = wid\<rparr>"
proof -
  let ?ws = "[sz, a, b, c, pack16 row col, pack16 bcol wid]"
  have "issue_ctl_cmd hw base off (gen_ctl_cmd c0 a b c sz row col bcol wid) s =
      (Inr (), snd (issue_ctl_cmd hw base off (gen_ctl_cmd c0 a b c sz row col bcol wid) s))"
    by (simp add: issue_ctl_cmd_def gen_ctl_cmd_def run_simps)
  moreover have "bus_log (snd (issue_ctl_cmd hw base off (gen_ctl_cmd c0 a b c sz row col bcol wid) s)) =
      bus_log s @ map (Bus_write (base + ucast off)) ?ws"
    by (simp add: issue_ctl_cmd_def gen_ctl_cmd_def run_simps)
  moreover have "decode_ctl_cmd ?ws = Some \<lparr>ctl_cmd_size = sz, a_baseaddr = a, b_baseaddr = b,
      c_baseaddr = c, a_row = row, a_col = col, b_col = bcol, work_id = wid\<rparr>"
    by (simp add: decode_ctl_cmd_def pack16_fields)
  ultimately show ?thesis by blast
qed

end
