(* ===== verification/Lib_State.thy ===== *)
theory Lib_State
  imports Lib_Control Lib_Memory
begin

text \<open>
  The data of the user-space library (\<open>reconic.h\<close>, \<open>rdma_api.h\<close>) and the state its functions
  work on: the register bus, a heap of the structures the library allocates, the bytes of the
  process, and the character device.  Pointers to structures are numbers (\<open>0\<close> is \<open>NULL\<close>); the
  operating system is the record \<open>os\<close>.
\<close>

section \<open>Structures\<close>

record mac_addr_t =
  mac_lsb :: u32
  mac_msb :: u32

record win_size_t =
  win_size_lsb :: u32
  win_size_msb :: u32

record rdma_buff_t =
  buffer :: u64
  dma_addr :: u64
  buf_size :: u32

record rn_dev_t =
  rn_axil_ctl :: u64
  axil_map_size :: u32
  base_buf :: nat
  rn_rdma_dev :: nat
  buffer_offset :: u64
  dev_buffer_offset :: u64
  rn_num_qp :: u8
  rn_winSize :: nat

record rdma_glb_csr_t =
  data_buf_size :: u32
  data_buf_baseaddr :: u64
  ipkt_err_stat_q_size :: u16
  ipkt_err_stat_q_baseaddr :: u64
  err_buf_baseaddr :: u64
  err_buf_size :: u32
  resp_err_pkt_buf_baseaddr :: u64
  resp_err_pkt_buf_size :: u64
  interrupt_enable :: u32
  src_mac :: mac_addr_t
  src_ip :: u32
  udp_sport :: u16
  num_qp_enabled :: u8
  xrnic_conf :: u32
  xrnic_advanced_conf :: u32

record rdma_dev_t =
  rd_rn_dev :: nat
  glb_csr :: nat
  qps_ptr :: nat
  rd_axil_ctl :: u64
  rd_num_qp :: u32
  rd_winSize :: nat

record rdma_pd_t =
  pd_num :: u32
  virtual_addr_lsb :: u32
  virtual_addr_msb :: u32
  dma_addr_lsb :: u32
  dma_addr_msb :: u32
  pd_r_key :: u32
  buffer_size_lsb :: u32
  buffer_size_msb :: u16
  pd_access_type :: u16
  mr_buffer :: nat

record rdma_qp_t =
  qp_rdma_dev :: nat
  qpid :: u32
  sq :: nat
  sq_psn :: u32
  sq_pidb :: u32
  sq_cidb :: u32
  cq :: nat
  cq_cidb_addr :: u64
  cq_cidb :: u32
  rq :: nat
  rq_cidb_addr :: u64
  rq_cidb :: u32
  rq_pidb :: u32
  qp_pd_num :: u32
  pd_entry :: nat
  dst_qpid :: u32
  qdepth :: u32
  last_rq_psn :: u32
  dst_mac :: nat
  dst_ip :: u32

text \<open>The \<open>int\<close> doorbell counters are 32-bit words; comparisons say how they are read.\<close>

datatype obj =
    O_mac mac_addr_t | O_win win_size_t | O_buf rdma_buff_t | O_rn rn_dev_t
  | O_csr rdma_glb_csr_t | O_qps "nat list" | O_rdma rdma_dev_t | O_pd rdma_pd_t | O_qp rdma_qp_t

section \<open>State and operating system\<close>

record 'd lib_st = axil +
  heap :: "nat \<Rightarrow> obj option"
  brk :: nat
  host_mem :: umem
  char_dev :: 'd

record 'd os =
  os_hw :: hw
  os_debug :: bool
  os_getenv_debug :: bool
  os_malloc :: "nat \<Rightarrow> bool"
  os_junk :: "nat \<Rightarrow> u64"
  os_malloc_addr :: "nat \<Rightarrow> u64"
  os_page_size :: u64
  os_pagemap :: "(u64 \<Rightarrow> bool \<times> u8 list) option"
  os_open :: "string \<Rightarrow> int"
  os_mmap_bar :: "int \<Rightarrow> u64"
  os_mmap_huge :: "u64 \<Rightarrow> u64"
  os_mlock :: "u64 \<Rightarrow> u64 \<Rightarrow> bool"
  os_lseek :: "'d lseek_op"
  os_write :: "'d write_op"

type_synonym ('d, 'a) lop = "('d lib_st, 'a) cop"

text \<open>\<open>malloc\<close> gives a fresh pointer, or \<open>NULL\<close>; the fields the code does not set hold whatever
  was in memory (\<open>os_junk\<close>).\<close>

definition alloc :: "'d os \<Rightarrow> (nat \<Rightarrow> obj) \<Rightarrow> ('d, nat) lop" where
  "alloc e mk s =
     (let p = Suc (brk s) in
      if os_malloc e (brk s) then (Inr p, s\<lparr>heap := (heap s)(p \<mapsto> mk p), brk := p\<rparr>)
      else (Inr 0, s\<lparr>brk := p\<rparr>))"

definition free_obj :: "nat \<Rightarrow> ('d, unit) lop" where
  "free_obj p s =
     (if p = 0 then (Inr (), s)
      else case heap s p of
        None \<Rightarrow> (Inl Double_free, s)
      | Some _ \<Rightarrow> (Inr (), s\<lparr>heap := (heap s)(p := None)\<rparr>))"

definition store :: "nat \<Rightarrow> obj \<Rightarrow> ('d, unit) lop" where
  "store p v = modify (\<lambda>s. s\<lparr>heap := (heap s)(p \<mapsto> v)\<rparr>)"

definition load_win :: "nat \<Rightarrow> ('d, win_size_t) lop" where
  "load_win p s = (case heap s p of Some (O_win v) \<Rightarrow> (Inr v, s) | _ \<Rightarrow> (Inl Bad_pointer, s))"

definition load_buf :: "nat \<Rightarrow> ('d, rdma_buff_t) lop" where
  "load_buf p s = (case heap s p of Some (O_buf v) \<Rightarrow> (Inr v, s) | _ \<Rightarrow> (Inl Bad_pointer, s))"

definition load_rn :: "nat \<Rightarrow> ('d, rn_dev_t) lop" where
  "load_rn p s = (case heap s p of Some (O_rn v) \<Rightarrow> (Inr v, s) | _ \<Rightarrow> (Inl Bad_pointer, s))"

definition load_csr :: "nat \<Rightarrow> ('d, rdma_glb_csr_t) lop" where
  "load_csr p s = (case heap s p of Some (O_csr v) \<Rightarrow> (Inr v, s) | _ \<Rightarrow> (Inl Bad_pointer, s))"

definition load_qps :: "nat \<Rightarrow> ('d, nat list) lop" where
  "load_qps p s = (case heap s p of Some (O_qps v) \<Rightarrow> (Inr v, s) | _ \<Rightarrow> (Inl Bad_pointer, s))"

definition load_rdma :: "nat \<Rightarrow> ('d, rdma_dev_t) lop" where
  "load_rdma p s = (case heap s p of Some (O_rdma v) \<Rightarrow> (Inr v, s) | _ \<Rightarrow> (Inl Bad_pointer, s))"

definition load_pd :: "nat \<Rightarrow> ('d, rdma_pd_t) lop" where
  "load_pd p s = (case heap s p of Some (O_pd v) \<Rightarrow> (Inr v, s) | _ \<Rightarrow> (Inl Bad_pointer, s))"

definition load_qp :: "nat \<Rightarrow> ('d, rdma_qp_t) lop" where
  "load_qp p s = (case heap s p of Some (O_qp v) \<Rightarrow> (Inr v, s) | _ \<Rightarrow> (Inl Bad_pointer, s))"

definition load_mac :: "nat \<Rightarrow> ('d, mac_addr_t) lop" where
  "load_mac p s = (case heap s p of Some (O_mac v) \<Rightarrow> (Inr v, s) | _ \<Rightarrow> (Inl Bad_pointer, s))"

text \<open>Writing fields through a pointer.\<close>

definition upd_win :: "nat \<Rightarrow> (win_size_t \<Rightarrow> win_size_t) \<Rightarrow> ('d, unit) lop" where
  "upd_win p f = bind (load_win p) (\<lambda>v. store p (O_win (f v)))"

definition upd_buf :: "nat \<Rightarrow> (rdma_buff_t \<Rightarrow> rdma_buff_t) \<Rightarrow> ('d, unit) lop" where
  "upd_buf p f = bind (load_buf p) (\<lambda>v. store p (O_buf (f v)))"

definition upd_rn :: "nat \<Rightarrow> (rn_dev_t \<Rightarrow> rn_dev_t) \<Rightarrow> ('d, unit) lop" where
  "upd_rn p f = bind (load_rn p) (\<lambda>v. store p (O_rn (f v)))"

definition upd_csr :: "nat \<Rightarrow> (rdma_glb_csr_t \<Rightarrow> rdma_glb_csr_t) \<Rightarrow> ('d, unit) lop" where
  "upd_csr p f = bind (load_csr p) (\<lambda>v. store p (O_csr (f v)))"

definition upd_rdma :: "nat \<Rightarrow> (rdma_dev_t \<Rightarrow> rdma_dev_t) \<Rightarrow> ('d, unit) lop" where
  "upd_rdma p f = bind (load_rdma p) (\<lambda>v. store p (O_rdma (f v)))"

definition upd_pd :: "nat \<Rightarrow> (rdma_pd_t \<Rightarrow> rdma_pd_t) \<Rightarrow> ('d, unit) lop" where
  "upd_pd p f = bind (load_pd p) (\<lambda>v. store p (O_pd (f v)))"

definition upd_qp :: "nat \<Rightarrow> (rdma_qp_t \<Rightarrow> rdma_qp_t) \<Rightarrow> ('d, unit) lop" where
  "upd_qp p f = bind (load_qp p) (\<lambda>v. store p (O_qp (f v)))"

lemmas heap_defs = load_win_def load_buf_def load_rn_def load_csr_def load_qps_def load_rdma_def
  load_pd_def load_qp_def load_mac_def

lemmas upd_defs = upd_win_def upd_buf_def upd_rn_def upd_csr_def upd_rdma_def upd_pd_def upd_qp_def

lemma load_run [run_simps]:
  "heap s p = Some (O_win w) \<Longrightarrow> load_win p s = (Inr w, s)"
  "heap s p = Some (O_buf b) \<Longrightarrow> load_buf p s = (Inr b, s)"
  "heap s p = Some (O_rn r) \<Longrightarrow> load_rn p s = (Inr r, s)"
  "heap s p = Some (O_csr c) \<Longrightarrow> load_csr p s = (Inr c, s)"
  "heap s p = Some (O_qps qs) \<Longrightarrow> load_qps p s = (Inr qs, s)"
  "heap s p = Some (O_rdma d) \<Longrightarrow> load_rdma p s = (Inr d, s)"
  "heap s p = Some (O_pd pd) \<Longrightarrow> load_pd p s = (Inr pd, s)"
  "heap s p = Some (O_qp q) \<Longrightarrow> load_qp p s = (Inr q, s)"
  "heap s p = Some (O_mac m) \<Longrightarrow> load_mac p s = (Inr m, s)"
  by (simp_all add: heap_defs)

lemma store_run [run_simps]: "store p v s = (Inr (), s\<lparr>heap := (heap s)(p \<mapsto> v)\<rparr>)"
  by (simp add: store_def run_simps)

lemma upd_run [run_simps]:
  "heap s p = Some (O_win w) \<Longrightarrow> upd_win p f1 s = (Inr (), s\<lparr>heap := (heap s)(p \<mapsto> O_win (f1 w))\<rparr>)"
  "heap s p = Some (O_buf b) \<Longrightarrow> upd_buf p f2 s = (Inr (), s\<lparr>heap := (heap s)(p \<mapsto> O_buf (f2 b))\<rparr>)"
  "heap s p = Some (O_rn r) \<Longrightarrow> upd_rn p f3 s = (Inr (), s\<lparr>heap := (heap s)(p \<mapsto> O_rn (f3 r))\<rparr>)"
  "heap s p = Some (O_csr c) \<Longrightarrow> upd_csr p f4 s = (Inr (), s\<lparr>heap := (heap s)(p \<mapsto> O_csr (f4 c))\<rparr>)"
  "heap s p = Some (O_rdma d) \<Longrightarrow> upd_rdma p f5 s = (Inr (), s\<lparr>heap := (heap s)(p \<mapsto> O_rdma (f5 d))\<rparr>)"
  "heap s p = Some (O_pd pd) \<Longrightarrow> upd_pd p f6 s = (Inr (), s\<lparr>heap := (heap s)(p \<mapsto> O_pd (f6 pd))\<rparr>)"
  "heap s p = Some (O_qp q) \<Longrightarrow> upd_qp p f7 s = (Inr (), s\<lparr>heap := (heap s)(p \<mapsto> O_qp (f7 q))\<rparr>)"
  by (simp_all add: upd_defs run_simps)

lemma alloc_run [run_simps]:
  "os_malloc e (brk s) \<Longrightarrow>
   alloc e mk s = (Inr (Suc (brk s)), s\<lparr>heap := (heap s)(Suc (brk s) \<mapsto> mk (Suc (brk s))), brk := Suc (brk s)\<rparr>)"
  by (simp add: alloc_def Let_def)

lemma bus_keeps [simp]:
  "heap (bus_tick hw s) = heap s" "brk (bus_tick hw s) = brk s" "host_mem (bus_tick hw s) = host_mem s"
  "char_dev (bus_tick hw s) = char_dev s"
  by (simp_all add: bus_tick_def)

text \<open>Runs of register writes leave the rest of the state alone.\<close>

lemma write_regs_fst [simp]: "fst (write_regs hw b ws s) = Inr ()"
  using write_regs_ok [of hw b ws s] by auto

lemma write_regs_snd [simp]:
  fixes s :: "'d lib_st"
  shows "heap (snd (write_regs hw b ws s)) = heap s" "brk (snd (write_regs hw b ws s)) = brk s"
    "host_mem (snd (write_regs hw b ws s)) = host_mem s" "char_dev (snd (write_regs hw b ws s)) = char_dev s"
  using write_regs_ok [of hw b ws s] by auto

lemma write_regs_log [simp]:
  "bus_log (snd (write_regs hw b ws s)) = bus_log s @ map (\<lambda>(off, v). Bus_write (b + off) v) ws"
  using write_regs_ok [of hw b ws s] by auto

lemma write_regs_pair: "write_regs hw b ws s = (Inr (), snd (write_regs hw b ws s))"
  by (simp add: prod_eq_iff)

lemma seq_write_regs [run_simps]: "seq (write_regs hw b ws) k s = k (snd (write_regs hw b ws s))"
  by (rule seq_run(1) [OF write_regs_pair])

end
