(* ===== verification/Lib_Reconic.thy ===== *)
theory Lib_Reconic
  imports Lib_State
begin

text \<open>
  \<open>reconic.c\<close>: address conversion, the physical address of a buffer, the window table of the
  PCIe bridge, the buffer allocator and the creation of a RecoNIC device.  The constants are
  those of \<open>reconic.h\<close> and \<open>reconic_reg.h\<close>.
\<close>

section \<open>Constants\<close>

definition AXI_BAR_SIZE :: u64 where "AXI_BAR_SIZE = 0x000000ffffffffff"
definition ADDR_MASK :: u32 where "ADDR_MASK = 0xffffffff"
definition RN_SCR_MAP_SIZE :: u32 where "RN_SCR_MAP_SIZE = 0x00400000"
definition DEVICE_MEM_OFFSET :: u64 where "DEVICE_MEM_OFFSET = 0xa350000000000000"
definition DEVICE_MEM_SIZE :: u64 where "DEVICE_MEM_SIZE = 4294967296"
definition HARDWARE_PAGE_SIZE :: u64 where "HARDWARE_PAGE_SIZE = 4096"
definition HARDWARE_PAGE_SIZE_ALIGNMENT_MASK :: u64 where
  "HARDWARE_PAGE_SIZE_ALIGNMENT_MASK = 0xfffffffffffff000"
definition HARDWARE_PAGE_SIZE_ADDRESS_MASK :: u64 where
  "HARDWARE_PAGE_SIZE_ADDRESS_MASK = 0xfff"
definition RN_QDMA_CSR_BASE_ADDRESS :: u64 where "RN_QDMA_CSR_BASE_ADDRESS = 0x00014000"
definition AXIB_BDF_ADDR_TRANSLATE_ADDR_LSB :: u64 where
  "AXIB_BDF_ADDR_TRANSLATE_ADDR_LSB = RN_QDMA_CSR_BASE_ADDRESS + 0x2420"
definition AXIB_BDF_ADDR_TRANSLATE_ADDR_MSB :: u64 where
  "AXIB_BDF_ADDR_TRANSLATE_ADDR_MSB = RN_QDMA_CSR_BASE_ADDRESS + 0x2424"
definition AXIB_BDF_PASID_RESERVED_ADDR :: u64 where
  "AXIB_BDF_PASID_RESERVED_ADDR = RN_QDMA_CSR_BASE_ADDRESS + 0x2428"
definition AXIB_BDF_FUNCTION_NUM_ADDR :: u64 where
  "AXIB_BDF_FUNCTION_NUM_ADDR = RN_QDMA_CSR_BASE_ADDRESS + 0x242C"
definition AXIB_BDF_MAP_CONTROL_ADDR :: u64 where
  "AXIB_BDF_MAP_CONTROL_ADDR = RN_QDMA_CSR_BASE_ADDRESS + 0x2430"
definition AXIB_BDF_RESERVED_ADDR :: u64 where
  "AXIB_BDF_RESERVED_ADDR = RN_QDMA_CSR_BASE_ADDRESS + 0x2434"

definition HOST_MEM :: string where "HOST_MEM = ''host_mem''"
definition DEVICE_MEM :: string where "DEVICE_MEM = ''dev_mem''"

lemmas bdf_addr_defs = AXIB_BDF_ADDR_TRANSLATE_ADDR_LSB_def AXIB_BDF_ADDR_TRANSLATE_ADDR_MSB_def
  AXIB_BDF_PASID_RESERVED_ADDR_def AXIB_BDF_FUNCTION_NUM_ADDR_def AXIB_BDF_MAP_CONTROL_ADDR_def
  AXIB_BDF_RESERVED_ADDR_def RN_QDMA_CSR_BASE_ADDRESS_def

definition get_win_size :: u64 where
  "get_win_size = AXI_BAR_SIZE"

section \<open>Text to numbers\<close>

text \<open>What the library uses of \<open>sscanf\<close>: a conversion skips white space, accepts a sign, and for
  base 16 an optional \<open>0x\<close>, takes as many digits as there are (at least one), saturates at
  \<open>ULONG_MAX\<close> and is then cut to the width of its argument.  Scanning stops at the first
  conversion or literal that does not match; the variables not reached keep their value.\<close>

definition digit_val :: "char \<Rightarrow> nat option" where
  "digit_val c =
     (let n = of_char c in
      if 48 \<le> n \<and> n \<le> 57 then Some (n - 48)
      else if 97 \<le> n \<and> n \<le> 102 then Some (n - 87)
      else if 65 \<le> n \<and> n \<le> 70 then Some (n - 55)
      else None)"

definition is_digit :: "nat \<Rightarrow> char \<Rightarrow> bool" where
  "is_digit base c \<longleftrightarrow> (case digit_val c of None \<Rightarrow> False | Some v \<Rightarrow> v < base)"

definition is_space :: "char \<Rightarrow> bool" where
  "is_space c \<longleftrightarrow> (let n = (of_char c :: nat) in n = 32 \<or> (9 \<le> n \<and> n \<le> 13))"

definition digits_val :: "nat \<Rightarrow> string \<Rightarrow> nat" where
  "digits_val base ds = foldl (\<lambda>a c. a * base + the (digit_val c)) 0 ds"

definition scan_unsigned :: "nat \<Rightarrow> string \<Rightarrow> (u64 \<times> string) option" where
  "scan_unsigned base s0 =
     (let s1 = dropWhile is_space s0;
          neg = (s1 \<noteq> [] \<and> hd s1 = CHR ''-'');
          s2 = (if s1 \<noteq> [] \<and> (hd s1 = CHR ''-'' \<or> hd s1 = CHR ''+'') then tl s1 else s1);
          s3 = (if base = 16 \<and> (take 2 s2 = ''0x'' \<or> take 2 s2 = ''0X'') then drop 2 s2 else s2);
          ds = takeWhile (is_digit base) s3;
          v = (of_nat (min (digits_val base ds) (2 ^ 64 - 1)) :: u64)
      in if ds = [] then None else Some (if neg then - v else v, dropWhile (is_digit base) s3))"

text \<open>\<open>n\<close> conversions separated by the literal \<open>sep\<close>.\<close>

fun scan_fields :: "nat \<Rightarrow> char \<Rightarrow> nat \<Rightarrow> string \<Rightarrow> u64 list" where
  "scan_fields base sep 0 s = []"
| "scan_fields base sep (Suc n) s =
     (case scan_unsigned base s of
        None \<Rightarrow> []
      | Some (v, rest) \<Rightarrow>
          v # (if rest \<noteq> [] \<and> hd rest = sep then scan_fields base sep n (tl rest) else []))"

definition pad_to :: "nat \<Rightarrow> 'a \<Rightarrow> 'a list \<Rightarrow> 'a list" where
  "pad_to n z xs = xs @ replicate (n - length xs) z"

definition convert_ip_addr_to_uint :: "string \<Rightarrow> u32" where
  "convert_ip_addr_to_uint ip_addr =
     (let ip_char = pad_to 4 0 (map (\<lambda>v. ucast v :: u8) (scan_fields 10 CHR ''.'' 4 ip_addr)) in
      (push_bit 24 (ucast (ip_char ! 0)) OR push_bit 16 (ucast (ip_char ! 1)) OR
       push_bit 8 (ucast (ip_char ! 2))) OR ucast (ip_char ! 3))"

definition convert_mac_addr_str_to_uint :: "string \<Rightarrow> mac_addr_t" where
  "convert_mac_addr_str_to_uint mac_addr_str =
     (let a = pad_to 6 0 (map (\<lambda>v. ucast v :: u32) (scan_fields 16 CHR '':'' 6 mac_addr_str)) in
      \<lparr>mac_lsb = ((push_bit 24 (a ! 2) OR push_bit 16 (a ! 3)) OR push_bit 8 (a ! 4) OR a ! 5) AND 0xffffffff,
       mac_msb = (push_bit 8 (a ! 0) OR a ! 1) AND 0x0000ffff\<rparr>)"

text \<open>The argument points at (at least) six bytes.\<close>

definition convert_mac_addr_to_uint :: "u8 list \<Rightarrow> mac_addr_t" where
  "convert_mac_addr_to_uint c =
     \<lparr>mac_lsb = ((push_bit 24 (ucast (c ! 2)) OR push_bit 16 (ucast (c ! 3))) OR push_bit 8 (ucast (c ! 4)) OR
                 ucast (c ! 5)) AND 0xffffffff,
      mac_msb = (push_bit 8 (ucast (c ! 0)) OR ucast (c ! 1)) AND 0x0000ffff\<rparr>"

text \<open>The interfaces \<open>getifaddrs\<close> returns (\<open>None\<close>: the call failed).  \<open>ifa_addr\<close> is \<open>None\<close> for a
  null pointer; \<open>ifa_host\<close> is what \<open>getnameinfo\<close> answers for the address.  The hardware address
  is what \<open>ioctl\<close> leaves in the request for the interface name.\<close>

record ifaddr =
  ifa_name :: string
  ifa_addr :: "int option"
  ifa_host :: "int + string"

definition AF_INET :: int where "AF_INET = 2"

fun find_iface :: "(string \<Rightarrow> u8 list) \<Rightarrow> string \<Rightarrow> ifaddr list \<Rightarrow> lib_err + mac_addr_t" where
  "find_iface hwaddr ip_str [] = Inl Exit_failure"
| "find_iface hwaddr ip_str (ifa # ifas) =
     (case ifa_addr ifa of
        None \<Rightarrow> Inl Bad_pointer
      | Some family \<Rightarrow>
          if family \<noteq> AF_INET then find_iface hwaddr ip_str ifas
          else (case ifa_host ifa of
             Inl _ \<Rightarrow> Inl Exit_failure
           | Inr tmp_ip \<Rightarrow>
               if tmp_ip = ip_str then Inr (convert_mac_addr_to_uint (hwaddr (take 15 (ifa_name ifa))))
               else find_iface hwaddr ip_str ifas))"

definition get_mac_addr_from_str_ip ::
    "ifaddr list option \<Rightarrow> (string \<Rightarrow> u8 list) \<Rightarrow> string \<Rightarrow> lib_err + mac_addr_t" where
  "get_mac_addr_from_str_ip ifaddrs hwaddr ip_str =
     (case ifaddrs of None \<Rightarrow> Inl Exit_failure | Some ifas \<Rightarrow> find_iface hwaddr ip_str ifas)"

section \<open>Addresses\<close>

definition is_device_address :: "u64 \<Rightarrow> bool" where
  "is_device_address address \<longleftrightarrow> (address AND 0xfff0000000000000) = DEVICE_MEM_OFFSET"

text \<open>Seven bytes of a pagemap entry, little endian.\<close>

definition le_bytes :: "u8 list \<Rightarrow> u64" where
  "le_bytes bs = foldr (\<lambda>b acc. ucast b OR push_bit 8 acc) bs 0"

definition get_page_frame_number_of_address :: "'d os \<Rightarrow> u64 \<Rightarrow> lib_err + u64" where
  "get_page_frame_number_of_address e addr =
     (case os_pagemap e of
        None \<Rightarrow> Inl Bad_pointer
      | Some pagemap \<Rightarrow>
          (let offset = addr div os_page_size e * 8; (seek_ok, bs) = pagemap offset in
           if \<not> seek_ok then Inl Exit_failure
           else if length bs \<noteq> 7 then Inr (- 1)
           else Inr (le_bytes bs AND 0x7FFFFFFFFFFFFF)))"

definition get_buffer_paddr :: "'d os \<Rightarrow> u64 \<Rightarrow> lib_err + u64" where
  "get_buffer_paddr e buf =
     (case get_page_frame_number_of_address e buf of
        Inl err \<Rightarrow> Inl err
      | Inr page_frame_number \<Rightarrow>
          (let distance = (ucast (buf mod os_page_size e) :: u32) in
           Inr (push_bit 12 page_frame_number + ucast distance)))"

definition lift_err :: "lib_err + 'a \<Rightarrow> ('s, 'a) cop" where
  "lift_err r = (case r of Inl err \<Rightarrow> fail err | Inr x \<Rightarrow> ret x)"

section \<open>The bridge windows\<close>

definition bdf_window :: "u32 \<Rightarrow> u32 \<Rightarrow> u32 \<Rightarrow> nat \<Rightarrow> (u64 \<times> u32) list" where
  "bdf_window bdf_addr_high bdf_addr_low bdf_win_config i =
     [(AXIB_BDF_ADDR_TRANSLATE_ADDR_LSB + of_nat (i * 0x20), bdf_addr_low),
      (AXIB_BDF_ADDR_TRANSLATE_ADDR_MSB + of_nat (i * 0x20), bdf_addr_high + of_nat (i * 0x20)),
      (AXIB_BDF_PASID_RESERVED_ADDR + of_nat (i * 0x20), 0),
      (AXIB_BDF_FUNCTION_NUM_ADDR + of_nat (i * 0x20), 0),
      (AXIB_BDF_MAP_CONTROL_ADDR + of_nat (i * 0x20), bdf_win_config),
      (AXIB_BDF_RESERVED_ADDR + of_nat (i * 0x20), 0)]"

definition config_rn_dev_axib_bdf :: "'d os \<Rightarrow> nat \<Rightarrow> u32 \<Rightarrow> u32 \<Rightarrow> ('d, unit) lop" where
  "config_rn_dev_axib_bdf e rn_dev high_addr low_addr =
     (if rn_dev = 0 then fail Exit_failure
      else
        bind (load_rn rn_dev) (\<lambda>d.
        seq (upd_win (rn_winSize d) (\<lambda>w. w\<lparr>win_size_msb := ucast (drop_bit 32 (get_win_size AND 0xffffffff00000000)),
                                          win_size_lsb := ucast (get_win_size AND 0x00000000ffffffff)\<rparr>))
        (bind (load_win (rn_winSize d)) (\<lambda>w.
           let bdf_addr_mask_high = ADDR_MASK - win_size_msb w;
               bdf_addr_mask_low = ADDR_MASK - win_size_lsb w;
               bdf_addr_high = high_addr AND bdf_addr_mask_high;
               bdf_addr_low = low_addr AND bdf_addr_mask_low;
               bdf_win_size_in_4Kpage = ucast (drop_bit 12 (drop_bit 3 AXI_BAR_SIZE + 1) AND 0x00000000ffffffff);
               bdf_win_config = 0xC0000000 OR bdf_win_size_in_4Kpage
           in write_regs (os_hw e) (rn_axil_ctl d)
                (concat (map (bdf_window bdf_addr_high bdf_addr_low bdf_win_config) [0..<8]))))))"

section \<open>Buffers\<close>

text \<open>Where the next buffer of a region starts: a buffer of at most a page never crosses a page
  boundary, a larger one starts on one.\<close>

definition align_offset :: "u64 \<Rightarrow> u64 \<Rightarrow> u64" where
  "align_offset off bsize =
     (if bsize \<le> HARDWARE_PAGE_SIZE then
        (if (off AND HARDWARE_PAGE_SIZE_ADDRESS_MASK) + bsize > HARDWARE_PAGE_SIZE
         then (off + HARDWARE_PAGE_SIZE) AND HARDWARE_PAGE_SIZE_ALIGNMENT_MASK else off)
      else
        (if (off AND HARDWARE_PAGE_SIZE_ADDRESS_MASK) \<noteq> 0
         then (off + HARDWARE_PAGE_SIZE) AND HARDWARE_PAGE_SIZE_ALIGNMENT_MASK else off))"

definition fresh_buf :: "'d os \<Rightarrow> nat \<Rightarrow> obj" where
  "fresh_buf e p = O_buf \<lparr>buffer = os_junk e p, dma_addr = os_junk e p, buf_size = ucast (os_junk e p)\<rparr>"

definition allocate_rdma_buffer :: "'d os \<Rightarrow> nat \<Rightarrow> u64 \<Rightarrow> string \<Rightarrow> ('d, nat) lop" where
  "allocate_rdma_buffer e rn_dev bsize buf_location =
     bind (alloc e (fresh_buf e)) (\<lambda>rdma_buffer.
     if rdma_buffer = 0 then fail Exit_failure
     else if buf_location = HOST_MEM then
       bind (load_rn rn_dev) (\<lambda>d.
       let off = align_offset (buffer_offset d) bsize in
       seq (upd_rn rn_dev (\<lambda>d. d\<lparr>buffer_offset := off\<rparr>))
       (bind (load_buf (base_buf d)) (\<lambda>base.
       let va = buffer base + off in
       seq (upd_buf rdma_buffer (\<lambda>b. b\<lparr>buffer := va\<rparr>))
       (seq (upd_rn rn_dev (\<lambda>d. d\<lparr>buffer_offset := off + bsize\<rparr>))
       (seq (upd_buf rdma_buffer (\<lambda>b. b\<lparr>buf_size := ucast bsize\<rparr>))
       (bind (lift_err (get_buffer_paddr e va)) (\<lambda>pa.
       seq (upd_buf rdma_buffer (\<lambda>b. b\<lparr>dma_addr := pa\<rparr>)) (ret rdma_buffer))))))))
     else if buf_location = DEVICE_MEM then
       bind (load_rn rn_dev) (\<lambda>d.
       let off = align_offset (dev_buffer_offset d) bsize in
       seq (upd_rn rn_dev (\<lambda>d. d\<lparr>dev_buffer_offset := off\<rparr>))
       (seq (upd_buf rdma_buffer (\<lambda>b. b\<lparr>buffer := off OR DEVICE_MEM_OFFSET, dma_addr := off OR DEVICE_MEM_OFFSET\<rparr>))
       (seq (upd_rn rn_dev (\<lambda>d. d\<lparr>dev_buffer_offset := off + bsize\<rparr>))
       (seq (upd_buf rdma_buffer (\<lambda>b. b\<lparr>buf_size := ucast bsize\<rparr>))
       (seq (check Assert_failed (off + bsize \<le> DEVICE_MEM_SIZE)) (ret rdma_buffer))))))
     else fail Exit_failure)"

section \<open>Creating a device\<close>

definition MAP_FAILED :: u64 where "MAP_FAILED = - 1"

text \<open>\<open>num_hugepages_request * (1 << HUGE_PAGE_SHIFT)\<close> is a 32-bit product.\<close>

definition huge_bytes :: "u32 \<Rightarrow> u64" where
  "huge_bytes num_hugepages = ucast (num_hugepages * push_bit 21 1)"

definition fresh_rn :: "'d os \<Rightarrow> nat \<Rightarrow> obj" where
  "fresh_rn e p = O_rn \<lparr>rn_axil_ctl = os_junk e p, axil_map_size = ucast (os_junk e p), base_buf = 0,
     rn_rdma_dev = 0, buffer_offset = os_junk e p, dev_buffer_offset = os_junk e p,
     rn_num_qp = ucast (os_junk e p), rn_winSize = 0\<rparr>"

definition fresh_win :: "'d os \<Rightarrow> nat \<Rightarrow> obj" where
  "fresh_win e p = O_win \<lparr>win_size_lsb = ucast (os_junk e p), win_size_msb = ucast (os_junk e p)\<rparr>"

definition create_rn_dev :: "'d os \<Rightarrow> string \<Rightarrow> u32 \<Rightarrow> u32 \<Rightarrow> ('d, nat \<times> int) lop" where
  "create_rn_dev e pcie_resource num_hugepages_request num_qp =
     bind (alloc e (fresh_rn e)) (\<lambda>rn_dev.
     bind (alloc e (fresh_win e)) (\<lambda>winSize.
     if rn_dev = 0 then fail Exit_failure
     else
       seq (upd_rn rn_dev (\<lambda>d. d\<lparr>axil_map_size := RN_SCR_MAP_SIZE, rn_rdma_dev := 0, base_buf := 0,
                               rn_winSize := winSize\<rparr>))
       (seq (upd_win winSize (\<lambda>w. w\<lparr>win_size_lsb := 0, win_size_msb := 0\<rparr>))
       (let scr = os_open e pcie_resource in
        if scr = - 1 then fail Exit_failure
        else
          let axil_scr_base = os_mmap_bar e scr in
          if axil_scr_base = MAP_FAILED then fail Exit_failure
          else
            seq (upd_rn rn_dev (\<lambda>d. d\<lparr>rn_axil_ctl := axil_scr_base, rn_num_qp := ucast num_qp\<rparr>))
            (bind (alloc e (fresh_buf e)) (\<lambda>bb.
             seq (upd_rn rn_dev (\<lambda>d. d\<lparr>base_buf := bb\<rparr>))
             (if bb = 0 then fail Exit_failure
              else
                let va = os_mmap_huge e (huge_bytes num_hugepages_request) in
                seq (upd_buf bb (\<lambda>b. b\<lparr>buffer := va\<rparr>))
                (if \<not> os_mlock e va (huge_bytes num_hugepages_request) then fail Exit_failure
                 else
                   bind (lift_err (get_buffer_paddr e va)) (\<lambda>pa.
                   seq (upd_buf bb (\<lambda>b. b\<lparr>dma_addr := pa\<rparr>))
                   (seq (config_rn_dev_axib_bdf e rn_dev (ucast (drop_bit 32 (pa AND 0xffffffff00000000)))
                          (ucast (pa AND 0x00000000ffffffff)))
                   (seq (upd_rn rn_dev (\<lambda>d. d\<lparr>buffer_offset := 0, dev_buffer_offset := 0\<rparr>))
                   (ret (rn_dev, scr)))))))))))))"

end
