(* ===== verification/Lib_Text.thy ===== *)
theory Lib_Text
  imports Lib_Reconic
begin

text \<open>
  The text conversions of \<open>reconic.c\<close> invert the usual notation: dotted decimal for IPv4
  addresses and colon-separated hexadecimal bytes for MAC addresses.
\<close>

section \<open>Scanning digits\<close>

lemma digit_range: "is_digit base c \<Longrightarrow> 48 \<le> (of_char c :: nat) \<and> (of_char c :: nat) \<le> 102"
  by (auto simp: is_digit_def digit_val_def Let_def split: option.splits if_splits)

lemma digit_not_other:
  assumes "is_digit base c"
  shows "\<not> is_space c" and "c \<noteq> CHR ''-''" and "c \<noteq> CHR ''+''" and "c \<noteq> CHR ''x''" and "c \<noteq> CHR ''X''"
proof -
  show "\<not> is_space c" using digit_range [OF assms] by (auto simp: is_space_def Let_def)
  show "c \<noteq> CHR ''-''" "c \<noteq> CHR ''+''" "c \<noteq> CHR ''x''" using digit_range [OF assms] by auto
  show "c \<noteq> CHR ''X''" using assms by (auto simp: is_digit_def digit_val_def split: option.splits)
qed

lemma scan_digits:
  assumes ds: "\<forall>c \<in> set ds. is_digit base c" "ds \<noteq> []" and rest: "rest = [] \<or> \<not> is_digit base (hd rest)"
    and hex: "base = 16 \<Longrightarrow> 2 \<le> length ds" and small: "digits_val base ds < 2 ^ 64"
  shows "scan_unsigned base (ds @ rest) = Some (of_nat (digits_val base ds), rest)"
proof -
  obtain c cs where c: "ds = c # cs" using ds(2) by (cases ds) auto
  have cd: "is_digit base c" using ds(1) c by simp
  note no = digit_not_other [OF cd]
  have no_pre: "base = 16 \<Longrightarrow> take 2 (ds @ rest) \<noteq> ''0x'' \<and> take 2 (ds @ rest) \<noteq> ''0X''"
  proof -
    assume "base = 16"
    then obtain d es where "cs = d # es" using hex c by (cases cs) auto
    then have "take 2 (ds @ rest) = [c, d]" "is_digit base d" using c ds(1) by auto
    then show ?thesis using digit_not_other(4,5) [of base d] by auto
  qed
  have s1: "dropWhile is_space (ds @ rest) = ds @ rest" using no(1) c by simp
  have tw: "takeWhile (is_digit base) (ds @ rest) = ds" and dw: "dropWhile (is_digit base) (ds @ rest) = rest"
    using ds(1) rest by (cases rest; simp)+
  have m: "min (digits_val base ds) (2 ^ 64 - 1) = digits_val base ds" using small by simp
  have s2: "hd (ds @ rest) = c" "ds @ rest \<noteq> []" using c by simp_all
  show ?thesis
    unfolding scan_unsigned_def Let_def s1 s2(1)
    using no(2,3) no_pre s2(2) ds(2) m by (auto simp: tw dw simp del: take_append)
qed

section \<open>Notation\<close>

definition digit_char :: "nat \<Rightarrow> char" where
  "digit_char n = char_of (if n < 10 then 48 + n else 87 + n)"

fun dec :: "nat \<Rightarrow> string" where
  "dec n = (if n < 10 then [digit_char n] else dec (n div 10) @ [digit_char (n mod 10)])"

declare dec.simps [simp del]

definition hex2 :: "u8 \<Rightarrow> string" where
  "hex2 b = [digit_char (unat b div 16), digit_char (unat b mod 16)]"

lemma digit_char_val: "n < 16 \<Longrightarrow> digit_val (digit_char n) = Some n"
  by (auto simp: digit_char_def digit_val_def Let_def)

lemma digit_char_is: "n < base \<Longrightarrow> base \<le> 16 \<Longrightarrow> is_digit base (digit_char n)"
  by (simp add: is_digit_def digit_char_val)

lemma dec_props:
  "dec n \<noteq> [] \<and> (\<forall>c \<in> set (dec n). is_digit 10 c) \<and> digits_val 10 (dec n) = n"
proof (induction n rule: dec.induct)
  case (1 n)
  show ?case
  proof (cases "n < 10")
    case True
    then show ?thesis
      by (subst dec.simps, subst dec.simps, subst dec.simps)
        (simp add: digit_char_is digits_val_def digit_char_val)
  next
    case False
    have d: "dec n = dec (n div 10) @ [digit_char (n mod 10)]" using False by (subst dec.simps) simp
    have "digits_val 10 (dec n) = digits_val 10 (dec (n div 10)) * 10 + n mod 10"
      by (simp add: d digits_val_def digit_char_val)
    then show ?thesis using 1 False d by (auto simp: digit_char_is)
  qed
qed

lemma hex2_props:
  "hex2 b \<noteq> [] \<and> (\<forall>c \<in> set (hex2 b). is_digit 16 c) \<and> digits_val 16 (hex2 b) = unat b \<and> length (hex2 b) = 2"
proof -
  have "unat b < 256" using unsigned_less [where w = b and 'a = nat] by simp
  then have "unat b div 16 < 16" by simp
  then show ?thesis by (simp add: hex2_def digit_char_is digits_val_def digit_char_val)
qed

lemma scan_dec:
  "n < 2 ^ 64 \<Longrightarrow> rest = [] \<or> \<not> is_digit 10 (hd rest) \<Longrightarrow> scan_unsigned 10 (dec n @ rest) = Some (of_nat n, rest)"
  using scan_digits [of "dec n" 10 rest] dec_props [of n] by auto

lemma scan_hex2:
  "rest = [] \<or> \<not> is_digit 16 (hd rest) \<Longrightarrow> scan_unsigned 16 (hex2 b @ rest) = Some (ucast b, rest)"
proof -
  have "unat b < 2 ^ 64" using unsigned_less [where w = b and 'a = nat] by (rule less_trans) simp
  then show "rest = [] \<or> \<not> is_digit 16 (hd rest) \<Longrightarrow> ?thesis"
    using scan_digits [of "hex2 b" 16 rest] hex2_props [of b] by simp
qed

fun join :: "char \<Rightarrow> string list \<Rightarrow> string" where
  "join sep [] = []"
| "join sep [x] = x"
| "join sep (x # y # xs) = x @ sep # join sep (y # xs)"

lemma scan_fields_join:
  assumes "\<And>x rest. x \<in> set xs \<Longrightarrow> rest = [] \<or> hd rest = sep \<Longrightarrow> scan_unsigned base (f x @ rest) = Some (g x, rest)"
  shows "scan_fields base sep (length xs) (join sep (map f xs)) = map g xs"
  using assms
proof (induction xs)
  case (Cons x xs)
  note sx = Cons.prems [of x]
  show ?case
  proof (cases "xs = []")
    case True
    then show ?thesis using sx [of "[]"] by simp
  next
    case False
    then obtain y ys where ys: "xs = y # ys" by (cases xs) auto
    have "scan_fields base sep (length xs) (join sep (map f xs)) = map g xs"
      by (rule Cons.IH) (simp add: Cons.prems)
    then show ?thesis using ys sx [of "sep # join sep (map f xs)"] by simp
  qed
qed simp

section \<open>Properties\<close>

definition be_bytes :: "u32 \<Rightarrow> u8 list" where
  "be_bytes w = [ucast (drop_bit 24 w), ucast (drop_bit 16 w), ucast (drop_bit 8 w), ucast w]"

definition dotted :: "u8 list \<Rightarrow> string" where
  "dotted bs = join CHR ''.'' (map (\<lambda>b. dec (unat b)) bs)"

definition colons :: "u8 list \<Rightarrow> string" where
  "colons bs = join CHR '':'' (map hex2 bs)"

lemma scan_dotted: "scan_fields 10 CHR ''.'' (length bs) (dotted bs) = map ucast bs"
  unfolding dotted_def
proof (rule scan_fields_join)
  fix x :: u8 and rest
  assume r: "rest = [] \<or> hd rest = CHR ''.''"
  have dot: "\<not> is_digit 10 CHR ''.''" by (simp add: is_digit_def digit_val_def)
  have "unat x < 2 ^ 64" using unsigned_less [where w = x and 'a = nat] by (rule less_trans) simp
  then show "scan_unsigned 10 (dec (unat x) @ rest) = Some (ucast x, rest)"
    using scan_dec [of "unat x" rest] r dot by auto
qed

lemma scan_colons: "scan_fields 16 CHR '':'' (length bs) (colons bs) = map ucast bs"
  unfolding colons_def
proof (rule scan_fields_join)
  fix x :: u8 and rest
  assume r: "rest = [] \<or> hd rest = CHR '':''"
  have "\<not> is_digit 16 CHR '':''" by (simp add: is_digit_def digit_val_def)
  then show "scan_unsigned 16 (hex2 x @ rest) = Some (ucast x, rest)"
    using scan_hex2 [of rest x] r by auto
qed

lemma ucast_chain [simp]:
  "ucast (ucast (x :: u8) :: u64) = (x :: u8)" "ucast (ucast (x :: u8) :: u64) = (ucast x :: u32)"
  by (rule bit_word_eqI; auto simp: bit_simps dest: bit_imp_le_length)+

text \<open>\<open>convert_ip_addr_to_uint\<close> inverts dotted-decimal notation: for all four byte values the
  text \<open>a.b.c.d\<close> becomes the 32-bit number with these bytes, most significant first.\<close>

theorem ip_roundtrip:
  "be_bytes (convert_ip_addr_to_uint (dotted [a, b, c, d])) = [a, b, c, d]"
proof -
  have l: "length [a, b, c, d] = 4" by simp
  note f = scan_dotted [of "[a, b, c, d]", unfolded l]
  let ?ip = "(push_bit 24 (ucast a) OR push_bit 16 (ucast b) OR push_bit 8 (ucast c)) OR ucast d :: u32"
  have ip: "convert_ip_addr_to_uint (dotted [a, b, c, d]) = ?ip"
    unfolding convert_ip_addr_to_uint_def f by (simp add: pad_to_def Let_def)
  have "ucast (drop_bit 24 ?ip) = a" "ucast (drop_bit 16 ?ip) = b" "ucast (drop_bit 8 ?ip) = c" "ucast ?ip = d"
    by (rule bit_word_eqI; auto simp: bit_simps dest: bit_imp_le_length)+
  then show ?thesis by (simp add: ip be_bytes_def)
qed

text \<open>both MAC conversions agree and lose nothing: reading the colon notation of six bytes
  gives what \<open>convert_mac_addr_to_uint\<close> gives for the bytes, and the two halves written to the
  registers determine all six bytes.\<close>

theorem mac_roundtrip:
  "convert_mac_addr_str_to_uint (colons [a, b, c, d, e, f]) = convert_mac_addr_to_uint [a, b, c, d, e, f] \<and>
   drop 2 (be_bytes (mac_msb (convert_mac_addr_to_uint [a, b, c, d, e, f]))) @
     be_bytes (mac_lsb (convert_mac_addr_to_uint [a, b, c, d, e, f])) = [a, b, c, d, e, f]"
proof -
  have l: "length [a, b, c, d, e, f] = 6" by simp
  note sc = scan_colons [of "[a, b, c, d, e, f]", unfolded l]
  have 1: "convert_mac_addr_str_to_uint (colons [a, b, c, d, e, f]) = convert_mac_addr_to_uint [a, b, c, d, e, f]"
    unfolding convert_mac_addr_str_to_uint_def sc by (simp add: pad_to_def Let_def convert_mac_addr_to_uint_def)
  let ?m = "(push_bit 8 (ucast a) OR ucast b) AND 0x0000ffff :: u32"
  let ?l = "((push_bit 24 (ucast c) OR push_bit 16 (ucast d)) OR push_bit 8 (ucast e) OR ucast f) AND 0xffffffff :: u32"
  have "ucast (drop_bit 8 ?m) = a" "ucast ?m = b"
    "ucast (drop_bit 24 ?l) = c" "ucast (drop_bit 16 ?l) = d" "ucast (drop_bit 8 ?l) = e" "ucast ?l = f"
    by (rule bit_word_eqI; auto simp: mask_consts bit_simps dest: bit_imp_le_length)+
  then show ?thesis using 1 by (simp add: be_bytes_def convert_mac_addr_to_uint_def)
qed

end
