(* ===== verification/Reconic_Reg.thy ===== *)
theory Reconic_Reg
  imports Prelude
begin

text \<open>
  The RDMA registers of \<open>reconic_reg.h\<close> that the library touches: byte offsets from the base of
  the mapped register file.  The protection-domain table is an array of 256-byte blocks from
  \<open>RN_RDMA_BASE_ADDRESS\<close> on; the queue-pair registers are another one, block \<open>0\<close> of which (queue
  pair 1) is at offset \<open>0x60200\<close>.
\<close>

definition RN_RDMA_BASE_ADDRESS :: u32 where "RN_RDMA_BASE_ADDRESS = 0x00040000"
definition TIMEOUT_THRESHOLD :: nat where "TIMEOUT_THRESHOLD = 1000"

section \<open>Global control and status\<close>

definition RN_RDMA_GCSR_XRNICCONF :: u32 where "RN_RDMA_GCSR_XRNICCONF = RN_RDMA_BASE_ADDRESS + 0x00020000"
definition RN_RDMA_GCSR_XRNICADCONF :: u32 where "RN_RDMA_GCSR_XRNICADCONF = RN_RDMA_BASE_ADDRESS + 0x00020004"
definition RN_RDMA_GCSR_MACXADDLSB :: u32 where "RN_RDMA_GCSR_MACXADDLSB = RN_RDMA_BASE_ADDRESS + 0x00020010"
definition RN_RDMA_GCSR_MACXADDMSB :: u32 where "RN_RDMA_GCSR_MACXADDMSB = RN_RDMA_BASE_ADDRESS + 0x00020014"
definition RN_RDMA_GCSR_IPV4XADD :: u32 where "RN_RDMA_GCSR_IPV4XADD = RN_RDMA_BASE_ADDRESS + 0x00020070"
definition RN_RDMA_GCSR_ERRBUFBA :: u32 where "RN_RDMA_GCSR_ERRBUFBA = RN_RDMA_BASE_ADDRESS + 0x00020060"
definition RN_RDMA_GCSR_ERRBUFBAMSB :: u32 where "RN_RDMA_GCSR_ERRBUFBAMSB = RN_RDMA_BASE_ADDRESS + 0x00020064"
definition RN_RDMA_GCSR_ERRBUFSZ :: u32 where "RN_RDMA_GCSR_ERRBUFSZ = RN_RDMA_BASE_ADDRESS + 0x00020068"
definition RN_RDMA_GCSR_ERRBUFWPTR :: u32 where "RN_RDMA_GCSR_ERRBUFWPTR = RN_RDMA_BASE_ADDRESS + 0x0002006C"
definition RN_RDMA_GCSR_IPKTERRQBA :: u32 where "RN_RDMA_GCSR_IPKTERRQBA = RN_RDMA_BASE_ADDRESS + 0x00020088"
definition RN_RDMA_GCSR_IPKTERRQBAMSB :: u32 where "RN_RDMA_GCSR_IPKTERRQBAMSB = RN_RDMA_BASE_ADDRESS + 0x0002008C"
definition RN_RDMA_GCSR_IPKTERRQSZ :: u32 where "RN_RDMA_GCSR_IPKTERRQSZ = RN_RDMA_BASE_ADDRESS + 0x00020090"
definition RN_RDMA_GCSR_IPKTERRQWPTR :: u32 where "RN_RDMA_GCSR_IPKTERRQWPTR = RN_RDMA_BASE_ADDRESS + 0x00020094"
definition RN_RDMA_GCSR_DATBUFBA :: u32 where "RN_RDMA_GCSR_DATBUFBA = RN_RDMA_BASE_ADDRESS + 0x000200A0"
definition RN_RDMA_GCSR_DATBUFBAMSB :: u32 where "RN_RDMA_GCSR_DATBUFBAMSB = RN_RDMA_BASE_ADDRESS + 0x000200A4"
definition RN_RDMA_GCSR_DATBUFSZ :: u32 where "RN_RDMA_GCSR_DATBUFSZ = RN_RDMA_BASE_ADDRESS + 0x000200A8"
definition RN_RDMA_GCSR_INSRRPKTCNT :: u32 where "RN_RDMA_GCSR_INSRRPKTCNT = RN_RDMA_BASE_ADDRESS + 0x00020100"
definition RN_RDMA_GCSR_INAMPKTCNT :: u32 where "RN_RDMA_GCSR_INAMPKTCNT = RN_RDMA_BASE_ADDRESS + 0x00020104"
definition RN_RDMA_GCSR_OUTIOPKTCNT :: u32 where "RN_RDMA_GCSR_OUTIOPKTCNT = RN_RDMA_BASE_ADDRESS + 0x00020108"
definition RN_RDMA_GCSR_LSTINPKT :: u32 where "RN_RDMA_GCSR_LSTINPKT = RN_RDMA_BASE_ADDRESS + 0x00020110"
definition RN_RDMA_GCSR_LSTOUTPKT :: u32 where "RN_RDMA_GCSR_LSTOUTPKT = RN_RDMA_BASE_ADDRESS + 0x00020114"
definition RN_RDMA_GCSR_ININVDUPCNT :: u32 where "RN_RDMA_GCSR_ININVDUPCNT = RN_RDMA_BASE_ADDRESS + 0x00020118"
definition RN_RDMA_GCSR_INNCKPKTSTS :: u32 where "RN_RDMA_GCSR_INNCKPKTSTS = RN_RDMA_BASE_ADDRESS + 0x0002011C"
definition RN_RDMA_GCSR_OUTRNRPKTSTS :: u32 where "RN_RDMA_GCSR_OUTRNRPKTSTS = RN_RDMA_BASE_ADDRESS + 0x00020120"
definition RN_RDMA_GCSR_WQEPROCSTS :: u32 where "RN_RDMA_GCSR_WQEPROCSTS = RN_RDMA_BASE_ADDRESS + 0x00020124"
definition RN_RDMA_GCSR_QPMSTS :: u32 where "RN_RDMA_GCSR_QPMSTS = RN_RDMA_BASE_ADDRESS + 0x0002012C"
definition RN_RDMA_GCSR_INTEN :: u32 where "RN_RDMA_GCSR_INTEN = RN_RDMA_BASE_ADDRESS + 0x00020180"
definition RN_RDMA_GCSR_OUTAMPKTCNT :: u32 where "RN_RDMA_GCSR_OUTAMPKTCNT = RN_RDMA_BASE_ADDRESS + 0x0002010C"
definition RN_RDMA_GCSR_INALLDRPPKTCNT :: u32 where "RN_RDMA_GCSR_INALLDRPPKTCNT = RN_RDMA_BASE_ADDRESS + 0x00020130"
definition RN_RDMA_GCSR_INNAKPKTCNT :: u32 where "RN_RDMA_GCSR_INNAKPKTCNT = RN_RDMA_BASE_ADDRESS + 0x00020134"
definition RN_RDMA_GCSR_OUTNAKPKTCNT :: u32 where "RN_RDMA_GCSR_OUTNAKPKTCNT = RN_RDMA_BASE_ADDRESS + 0x00020138"
definition RN_RDMA_GCSR_RESPHNDSTS :: u32 where "RN_RDMA_GCSR_RESPHNDSTS = RN_RDMA_BASE_ADDRESS + 0x0002013C"
definition RN_RDMA_GCSR_RETRYCNTSTS :: u32 where "RN_RDMA_GCSR_RETRYCNTSTS = RN_RDMA_BASE_ADDRESS + 0x00020140"
definition RN_RDMA_GCSR_INCNPPKTCNT :: u32 where "RN_RDMA_GCSR_INCNPPKTCNT = RN_RDMA_BASE_ADDRESS + 0x00020174"
definition RN_RDMA_GCSR_OUTCNPPKTCNT :: u32 where "RN_RDMA_GCSR_OUTCNPPKTCNT = RN_RDMA_BASE_ADDRESS + 0x00020178"
definition RN_RDMA_GCSR_OUTRDRSPPKTCNT :: u32 where "RN_RDMA_GCSR_OUTRDRSPPKTCNT = RN_RDMA_BASE_ADDRESS + 0x0002017C"
definition RN_RDMA_GCSR_INTSTS :: u32 where "RN_RDMA_GCSR_INTSTS = RN_RDMA_BASE_ADDRESS + 0x00020184"
definition RN_RDMA_GCSR_RQINTSTS1 :: u32 where "RN_RDMA_GCSR_RQINTSTS1 = RN_RDMA_BASE_ADDRESS + 0x00020190"
definition RN_RDMA_GCSR_RQINTSTS2 :: u32 where "RN_RDMA_GCSR_RQINTSTS2 = RN_RDMA_BASE_ADDRESS + 0x00020194"
definition RN_RDMA_GCSR_RQINTSTS3 :: u32 where "RN_RDMA_GCSR_RQINTSTS3 = RN_RDMA_BASE_ADDRESS + 0x00020198"
definition RN_RDMA_GCSR_RQINTSTS4 :: u32 where "RN_RDMA_GCSR_RQINTSTS4 = RN_RDMA_BASE_ADDRESS + 0x0002019c"
definition RN_RDMA_GCSR_RQINTSTS5 :: u32 where "RN_RDMA_GCSR_RQINTSTS5 = RN_RDMA_BASE_ADDRESS + 0x000201a0"
definition RN_RDMA_GCSR_RQINTSTS6 :: u32 where "RN_RDMA_GCSR_RQINTSTS6 = RN_RDMA_BASE_ADDRESS + 0x000201a4"
definition RN_RDMA_GCSR_RQINTSTS7 :: u32 where "RN_RDMA_GCSR_RQINTSTS7 = RN_RDMA_BASE_ADDRESS + 0x000201a8"
definition RN_RDMA_GCSR_RQINTSTS8 :: u32 where "RN_RDMA_GCSR_RQINTSTS8 = RN_RDMA_BASE_ADDRESS + 0x000201ac"
definition RN_RDMA_GCSR_CQINTSTS1 :: u32 where "RN_RDMA_GCSR_CQINTSTS1 = RN_RDMA_BASE_ADDRESS + 0x000201b0"
definition RN_RDMA_GCSR_CQINTSTS2 :: u32 where "RN_RDMA_GCSR_CQINTSTS2 = RN_RDMA_BASE_ADDRESS + 0x000201b4"
definition RN_RDMA_GCSR_CQINTSTS3 :: u32 where "RN_RDMA_GCSR_CQINTSTS3 = RN_RDMA_BASE_ADDRESS + 0x000201b8"
definition RN_RDMA_GCSR_CQINTSTS4 :: u32 where "RN_RDMA_GCSR_CQINTSTS4 = RN_RDMA_BASE_ADDRESS + 0x000201bc"
definition RN_RDMA_GCSR_CQINTSTS5 :: u32 where "RN_RDMA_GCSR_CQINTSTS5 = RN_RDMA_BASE_ADDRESS + 0x000201c0"
definition RN_RDMA_GCSR_CQINTSTS6 :: u32 where "RN_RDMA_GCSR_CQINTSTS6 = RN_RDMA_BASE_ADDRESS + 0x000201c4"
definition RN_RDMA_GCSR_CQINTSTS7 :: u32 where "RN_RDMA_GCSR_CQINTSTS7 = RN_RDMA_BASE_ADDRESS + 0x000201c8"
definition RN_RDMA_GCSR_CQINTSTS8 :: u32 where "RN_RDMA_GCSR_CQINTSTS8 = RN_RDMA_BASE_ADDRESS + 0x000201cc"
definition RN_RDMA_GCSR_RESPERRPKTBA :: u32 where "RN_RDMA_GCSR_RESPERRPKTBA = RN_RDMA_BASE_ADDRESS + 0x000200B0"
definition RN_RDMA_GCSR_RESPERRPKTBAMSB :: u32 where "RN_RDMA_GCSR_RESPERRPKTBAMSB = RN_RDMA_BASE_ADDRESS + 0x000200B4"
definition RN_RDMA_GCSR_RESPERRSZ :: u32 where "RN_RDMA_GCSR_RESPERRSZ = RN_RDMA_BASE_ADDRESS + 0x000200B8"
definition RN_RDMA_GCSR_RESPERRSZMSB :: u32 where "RN_RDMA_GCSR_RESPERRSZMSB = RN_RDMA_BASE_ADDRESS + 0x000200BC"

lemmas gcsr_defs =
  RN_RDMA_BASE_ADDRESS_def
  RN_RDMA_GCSR_XRNICCONF_def RN_RDMA_GCSR_XRNICADCONF_def RN_RDMA_GCSR_MACXADDLSB_def
  RN_RDMA_GCSR_MACXADDMSB_def RN_RDMA_GCSR_IPV4XADD_def RN_RDMA_GCSR_ERRBUFBA_def
  RN_RDMA_GCSR_ERRBUFBAMSB_def RN_RDMA_GCSR_ERRBUFSZ_def RN_RDMA_GCSR_ERRBUFWPTR_def
  RN_RDMA_GCSR_IPKTERRQBA_def RN_RDMA_GCSR_IPKTERRQBAMSB_def RN_RDMA_GCSR_IPKTERRQSZ_def
  RN_RDMA_GCSR_IPKTERRQWPTR_def RN_RDMA_GCSR_DATBUFBA_def RN_RDMA_GCSR_DATBUFBAMSB_def
  RN_RDMA_GCSR_DATBUFSZ_def RN_RDMA_GCSR_INSRRPKTCNT_def RN_RDMA_GCSR_INAMPKTCNT_def
  RN_RDMA_GCSR_OUTIOPKTCNT_def RN_RDMA_GCSR_LSTINPKT_def RN_RDMA_GCSR_LSTOUTPKT_def
  RN_RDMA_GCSR_ININVDUPCNT_def RN_RDMA_GCSR_INNCKPKTSTS_def RN_RDMA_GCSR_OUTRNRPKTSTS_def
  RN_RDMA_GCSR_WQEPROCSTS_def RN_RDMA_GCSR_QPMSTS_def RN_RDMA_GCSR_INTEN_def RN_RDMA_GCSR_OUTAMPKTCNT_def
  RN_RDMA_GCSR_INALLDRPPKTCNT_def RN_RDMA_GCSR_INNAKPKTCNT_def RN_RDMA_GCSR_OUTNAKPKTCNT_def
  RN_RDMA_GCSR_RESPHNDSTS_def RN_RDMA_GCSR_RETRYCNTSTS_def RN_RDMA_GCSR_INCNPPKTCNT_def
  RN_RDMA_GCSR_OUTCNPPKTCNT_def RN_RDMA_GCSR_OUTRDRSPPKTCNT_def RN_RDMA_GCSR_INTSTS_def
  RN_RDMA_GCSR_RQINTSTS1_def RN_RDMA_GCSR_RQINTSTS2_def RN_RDMA_GCSR_RQINTSTS3_def RN_RDMA_GCSR_RQINTSTS4_def
  RN_RDMA_GCSR_RQINTSTS5_def RN_RDMA_GCSR_RQINTSTS6_def RN_RDMA_GCSR_RQINTSTS7_def RN_RDMA_GCSR_RQINTSTS8_def
  RN_RDMA_GCSR_CQINTSTS1_def RN_RDMA_GCSR_CQINTSTS2_def RN_RDMA_GCSR_CQINTSTS3_def RN_RDMA_GCSR_CQINTSTS4_def
  RN_RDMA_GCSR_CQINTSTS5_def RN_RDMA_GCSR_CQINTSTS6_def RN_RDMA_GCSR_CQINTSTS7_def RN_RDMA_GCSR_CQINTSTS8_def
  RN_RDMA_GCSR_RESPERRPKTBA_def RN_RDMA_GCSR_RESPERRPKTBAMSB_def RN_RDMA_GCSR_RESPERRSZ_def
  RN_RDMA_GCSR_RESPERRSZMSB_def

section \<open>Protection domain table\<close>

definition RN_RDMA_PDT_PDPDNUM :: u32 where "RN_RDMA_PDT_PDPDNUM = RN_RDMA_BASE_ADDRESS + 0x00000000"
definition RN_RDMA_PDT_VIRTADDRLSB :: u32 where "RN_RDMA_PDT_VIRTADDRLSB = RN_RDMA_BASE_ADDRESS + 0x00000004"
definition RN_RDMA_PDT_VIRTADDRMSB :: u32 where "RN_RDMA_PDT_VIRTADDRMSB = RN_RDMA_BASE_ADDRESS + 0x00000008"
definition RN_RDMA_PDT_BUFBASEADDRLSB :: u32 where "RN_RDMA_PDT_BUFBASEADDRLSB = RN_RDMA_BASE_ADDRESS + 0x0000000C"
definition RN_RDMA_PDT_BUFBASEADDRMSB :: u32 where "RN_RDMA_PDT_BUFBASEADDRMSB = RN_RDMA_BASE_ADDRESS + 0x00000010"
definition RN_RDMA_PDT_BUFRKEY :: u32 where "RN_RDMA_PDT_BUFRKEY = RN_RDMA_BASE_ADDRESS + 0x00000014"
definition RN_RDMA_PDT_WRRDBUFLEN :: u32 where "RN_RDMA_PDT_WRRDBUFLEN = RN_RDMA_BASE_ADDRESS + 0x00000018"
definition RN_RDMA_PDT_ACCESSDESC :: u32 where "RN_RDMA_PDT_ACCESSDESC = RN_RDMA_BASE_ADDRESS + 0x0000001C"

lemmas pdt_defs =
  RN_RDMA_BASE_ADDRESS_def
  RN_RDMA_PDT_PDPDNUM_def RN_RDMA_PDT_VIRTADDRLSB_def RN_RDMA_PDT_VIRTADDRMSB_def
  RN_RDMA_PDT_BUFBASEADDRLSB_def RN_RDMA_PDT_BUFBASEADDRMSB_def RN_RDMA_PDT_BUFRKEY_def
  RN_RDMA_PDT_WRRDBUFLEN_def RN_RDMA_PDT_ACCESSDESC_def

section \<open>Per queue pair\<close>

definition RN_RDMA_QCSR_QPCONFi :: u32 where "RN_RDMA_QCSR_QPCONFi = RN_RDMA_BASE_ADDRESS + 0x00020200"
definition RN_RDMA_QCSR_QPADVCONFi :: u32 where "RN_RDMA_QCSR_QPADVCONFi = RN_RDMA_BASE_ADDRESS + 0x00020204"
definition RN_RDMA_QCSR_RQBAi :: u32 where "RN_RDMA_QCSR_RQBAi = RN_RDMA_BASE_ADDRESS + 0x00020208"
definition RN_RDMA_QCSR_RQBAMSBi :: u32 where "RN_RDMA_QCSR_RQBAMSBi = RN_RDMA_BASE_ADDRESS + 0x000202C0"
definition RN_RDMA_QCSR_SQBAi :: u32 where "RN_RDMA_QCSR_SQBAi = RN_RDMA_BASE_ADDRESS + 0x00020210"
definition RN_RDMA_QCSR_SQBAMSBi :: u32 where "RN_RDMA_QCSR_SQBAMSBi = RN_RDMA_BASE_ADDRESS + 0x000202C8"
definition RN_RDMA_QCSR_CQBAi :: u32 where "RN_RDMA_QCSR_CQBAi = RN_RDMA_BASE_ADDRESS + 0x00020218"
definition RN_RDMA_QCSR_CQBAMSBi :: u32 where "RN_RDMA_QCSR_CQBAMSBi = RN_RDMA_BASE_ADDRESS + 0x000202D0"
definition RN_RDMA_QCSR_RQWPTRDBADDi :: u32 where "RN_RDMA_QCSR_RQWPTRDBADDi = RN_RDMA_BASE_ADDRESS + 0x00020220"
definition RN_RDMA_QCSR_RQWPTRDBADDMSBi :: u32 where "RN_RDMA_QCSR_RQWPTRDBADDMSBi = RN_RDMA_BASE_ADDRESS + 0x00020224"
definition RN_RDMA_QCSR_CQDBADDi :: u32 where "RN_RDMA_QCSR_CQDBADDi = RN_RDMA_BASE_ADDRESS + 0x00020228"
definition RN_RDMA_QCSR_CQDBADDMSBi :: u32 where "RN_RDMA_QCSR_CQDBADDMSBi = RN_RDMA_BASE_ADDRESS + 0x0002022C"
definition RN_RDMA_QCSR_CQHEADi :: u32 where "RN_RDMA_QCSR_CQHEADi = RN_RDMA_BASE_ADDRESS + 0x00020230"
definition RN_RDMA_QCSR_RQCIi :: u32 where "RN_RDMA_QCSR_RQCIi = RN_RDMA_BASE_ADDRESS + 0x00020234"
definition RN_RDMA_QCSR_SQPIi :: u32 where "RN_RDMA_QCSR_SQPIi = RN_RDMA_BASE_ADDRESS + 0x00020238"
definition RN_RDMA_QCSR_QDEPTHi :: u32 where "RN_RDMA_QCSR_QDEPTHi = RN_RDMA_BASE_ADDRESS + 0x0002023C"
definition RN_RDMA_QCSR_SQPSNi :: u32 where "RN_RDMA_QCSR_SQPSNi = RN_RDMA_BASE_ADDRESS + 0x00020240"
definition RN_RDMA_QCSR_LSTRQREQi :: u32 where "RN_RDMA_QCSR_LSTRQREQi = RN_RDMA_BASE_ADDRESS + 0x00020244"
definition RN_RDMA_QCSR_DESTQPCONFi :: u32 where "RN_RDMA_QCSR_DESTQPCONFi = RN_RDMA_BASE_ADDRESS + 0x00020248"
definition RN_RDMA_QCSR_MACDESADDLSBi :: u32 where "RN_RDMA_QCSR_MACDESADDLSBi = RN_RDMA_BASE_ADDRESS + 0x00020250"
definition RN_RDMA_QCSR_MACDESADDMSBi :: u32 where "RN_RDMA_QCSR_MACDESADDMSBi = RN_RDMA_BASE_ADDRESS + 0x00020254"
definition RN_RDMA_QCSR_IPDESADDR1i :: u32 where "RN_RDMA_QCSR_IPDESADDR1i = RN_RDMA_BASE_ADDRESS + 0x00020260"
definition RN_RDMA_QCSR_STATSSNi :: u32 where "RN_RDMA_QCSR_STATSSNi = RN_RDMA_BASE_ADDRESS + 0x00020280"
definition RN_RDMA_QCSR_STATMSNi :: u32 where "RN_RDMA_QCSR_STATMSNi = RN_RDMA_BASE_ADDRESS + 0x00020284"
definition RN_RDMA_QCSR_STATQPi :: u32 where "RN_RDMA_QCSR_STATQPi = RN_RDMA_BASE_ADDRESS + 0x00020288"
definition RN_RDMA_QCSR_STATCURSQPTRi :: u32 where "RN_RDMA_QCSR_STATCURSQPTRi = RN_RDMA_BASE_ADDRESS + 0x0002028C"
definition RN_RDMA_QCSR_STATRESPSNi :: u32 where "RN_RDMA_QCSR_STATRESPSNi = RN_RDMA_BASE_ADDRESS + 0x00020290"
definition RN_RDMA_QCSR_STATRQBUFCAi :: u32 where "RN_RDMA_QCSR_STATRQBUFCAi = RN_RDMA_BASE_ADDRESS + 0x00020294"
definition RN_RDMA_QCSR_STATWQEi :: u32 where "RN_RDMA_QCSR_STATWQEi = RN_RDMA_BASE_ADDRESS + 0x00020298"
definition RN_RDMA_QCSR_STATRQPIDBi :: u32 where "RN_RDMA_QCSR_STATRQPIDBi = RN_RDMA_BASE_ADDRESS + 0x0002029C"
definition RN_RDMA_QCSR_PDi :: u32 where "RN_RDMA_QCSR_PDi = RN_RDMA_BASE_ADDRESS + 0x000202B0"
definition RN_RDMA_QCSR_STATRQBUFCAMSBi :: u32 where "RN_RDMA_QCSR_STATRQBUFCAMSBi = RN_RDMA_BASE_ADDRESS + 0x000202D8"

lemmas qcsr_defs =
  RN_RDMA_BASE_ADDRESS_def
  RN_RDMA_QCSR_QPCONFi_def RN_RDMA_QCSR_QPADVCONFi_def RN_RDMA_QCSR_RQBAi_def RN_RDMA_QCSR_RQBAMSBi_def
  RN_RDMA_QCSR_SQBAi_def RN_RDMA_QCSR_SQBAMSBi_def RN_RDMA_QCSR_CQBAi_def RN_RDMA_QCSR_CQBAMSBi_def
  RN_RDMA_QCSR_RQWPTRDBADDi_def RN_RDMA_QCSR_RQWPTRDBADDMSBi_def RN_RDMA_QCSR_CQDBADDi_def
  RN_RDMA_QCSR_CQDBADDMSBi_def RN_RDMA_QCSR_CQHEADi_def RN_RDMA_QCSR_RQCIi_def RN_RDMA_QCSR_SQPIi_def
  RN_RDMA_QCSR_QDEPTHi_def RN_RDMA_QCSR_SQPSNi_def RN_RDMA_QCSR_LSTRQREQi_def RN_RDMA_QCSR_DESTQPCONFi_def
  RN_RDMA_QCSR_MACDESADDLSBi_def RN_RDMA_QCSR_MACDESADDMSBi_def RN_RDMA_QCSR_IPDESADDR1i_def
  RN_RDMA_QCSR_STATSSNi_def RN_RDMA_QCSR_STATMSNi_def RN_RDMA_QCSR_STATQPi_def RN_RDMA_QCSR_STATCURSQPTRi_def
  RN_RDMA_QCSR_STATRESPSNi_def RN_RDMA_QCSR_STATRQBUFCAi_def RN_RDMA_QCSR_STATWQEi_def
  RN_RDMA_QCSR_STATRQPIDBi_def RN_RDMA_QCSR_PDi_def RN_RDMA_QCSR_STATRQBUFCAMSBi_def

end
