(* ===== verification/Lib_Rdma.thy ===== *)
theory Lib_Rdma
  imports Lib_Reconic Reconic_Reg
begin

text \<open>
  The set-up half of \<open>rdma_api.c\<close>: the RDMA device and its global registers, protection domains
  and memory regions, queue pairs.  \<open>Debug\<close> messages are not modelled except for the register reads
  among their arguments, which happen when the debug flag is on (\<open>os_debug\<close>).
\<close>

section \<open>The device\<close>

definition RQE_SIZE :: u32 where "RQE_SIZE = 512"

definition fresh_rdma :: "'d os \<Rightarrow> nat \<Rightarrow> obj" where
  "fresh_rdma e p = O_rdma \<lparr>rd_rn_dev = unat (os_junk e p), glb_csr = unat (os_junk e p), qps_ptr = unat (os_junk e p),
     rd_axil_ctl = os_junk e p, rd_num_qp = ucast (os_junk e p), rd_winSize = unat (os_junk e p)\<rparr>"

definition fresh_csr :: "'d os \<Rightarrow> nat \<Rightarrow> obj" where
  "fresh_csr e p = O_csr \<lparr>data_buf_size = ucast (os_junk e p), data_buf_baseaddr = os_junk e p,
     ipkt_err_stat_q_size = ucast (os_junk e p), ipkt_err_stat_q_baseaddr = os_junk e p,
     err_buf_baseaddr = os_junk e p, err_buf_size = ucast (os_junk e p), resp_err_pkt_buf_baseaddr = os_junk e p,
     resp_err_pkt_buf_size = os_junk e p, interrupt_enable = ucast (os_junk e p),
     src_mac = \<lparr>mac_lsb = ucast (os_junk e p), mac_msb = ucast (os_junk e p)\<rparr>, src_ip = ucast (os_junk e p),
     udp_sport = ucast (os_junk e p), num_qp_enabled = ucast (os_junk e p), xrnic_conf = ucast (os_junk e p),
     xrnic_advanced_conf = ucast (os_junk e p)\<rparr>"

definition fresh_qps :: "'d os \<Rightarrow> nat \<Rightarrow> nat \<Rightarrow> obj" where
  "fresh_qps e n p = O_qps (replicate n (unat (os_junk e p)))"

text \<open>The loop that clears the array of queue-pair pointers (with no pointers there is no access).\<close>

definition clear_qps :: "nat \<Rightarrow> nat \<Rightarrow> ('d, unit) lop" where
  "clear_qps p n = (if n = 0 then ret () else bind (load_qps p) (\<lambda>_. store p (O_qps (replicate n 0))))"

definition create_rdma_dev :: "'d os \<Rightarrow> nat \<Rightarrow> ('d, nat) lop" where
  "create_rdma_dev e rn_dev =
     bind (load_rn rn_dev) (\<lambda>d.
     let num_qp = unat (rn_num_qp d) in
     bind (alloc e (fresh_rdma e)) (\<lambda>rdma_dev.
     bind (alloc e (fresh_csr e)) (\<lambda>g.
     seq (upd_rdma rdma_dev (\<lambda>r. r\<lparr>glb_csr := g\<rparr>))
     (bind (alloc e (fresh_qps e num_qp)) (\<lambda>qps.
     seq (upd_rdma rdma_dev (\<lambda>r. r\<lparr>qps_ptr := qps, rd_axil_ctl := rn_axil_ctl d\<rparr>))
     (seq (clear_qps qps num_qp)
     (seq (upd_rdma rdma_dev (\<lambda>r. r\<lparr>rd_winSize := rn_winSize d, rd_rn_dev := rn_dev,
                                    rd_num_qp := ucast (rn_num_qp d)\<rparr>))
     (seq (upd_rn rn_dev (\<lambda>d. d\<lparr>rn_rdma_dev := rdma_dev\<rparr>))
     (ret rdma_dev)))))))))"

text \<open>The two halves of an address the card is given: device addresses as they are, host addresses
  cut down to the bridge window.\<close>

definition addr_lsb :: "win_size_t \<Rightarrow> u64 \<Rightarrow> u32" where
  "addr_lsb w a = (if is_device_address a then ucast (a AND 0x00000000ffffffff)
                   else ucast (a AND 0x00000000ffffffff) AND win_size_lsb w)"

definition addr_msb :: "win_size_t \<Rightarrow> u64 \<Rightarrow> u32" where
  "addr_msb w a = (if is_device_address a then ucast (drop_bit 32 a AND 0x00000000ffffffff)
                   else ucast (drop_bit 32 a AND 0x00000000ffffffff) AND win_size_msb w)"

definition gcsr_writes :: "win_size_t \<Rightarrow> rdma_glb_csr_t \<Rightarrow> (u64 \<times> u32) list" where
  "gcsr_writes w c =
     map (\<lambda>(off, v). (ucast off, v))
      [(RN_RDMA_GCSR_DATBUFBA, addr_lsb w (data_buf_baseaddr c)),
       (RN_RDMA_GCSR_DATBUFBAMSB, addr_msb w (data_buf_baseaddr c)),
       (RN_RDMA_GCSR_DATBUFSZ, data_buf_size c),
       (RN_RDMA_GCSR_IPKTERRQBA, addr_lsb w (ipkt_err_stat_q_baseaddr c)),
       (RN_RDMA_GCSR_IPKTERRQBAMSB, addr_msb w (ipkt_err_stat_q_baseaddr c)),
       (RN_RDMA_GCSR_IPKTERRQSZ, ucast (ipkt_err_stat_q_size c)),
       (RN_RDMA_GCSR_ERRBUFBA, addr_lsb w (err_buf_baseaddr c)),
       (RN_RDMA_GCSR_ERRBUFBAMSB, addr_msb w (err_buf_baseaddr c)),
       (RN_RDMA_GCSR_ERRBUFSZ, err_buf_size c),
       (RN_RDMA_GCSR_RESPERRPKTBA, addr_lsb w (resp_err_pkt_buf_baseaddr c)),
       (RN_RDMA_GCSR_RESPERRPKTBAMSB, addr_msb w (resp_err_pkt_buf_baseaddr c)),
       (RN_RDMA_GCSR_RESPERRSZ, ucast (resp_err_pkt_buf_size c AND 0x00000000ffffffff)),
       (RN_RDMA_GCSR_RESPERRSZMSB, ucast (drop_bit 32 (resp_err_pkt_buf_size c) AND 0x00000000ffffffff)),
       (RN_RDMA_GCSR_INTEN, interrupt_enable c),
       (RN_RDMA_GCSR_MACXADDLSB, mac_lsb (src_mac c)),
       (RN_RDMA_GCSR_MACXADDMSB, mac_msb (src_mac c)),
       (RN_RDMA_GCSR_IPV4XADD, src_ip c),
       (RN_RDMA_GCSR_XRNICCONF, xrnic_conf c),
       (RN_RDMA_GCSR_XRNICADCONF, xrnic_advanced_conf c)]"

definition config_rdma_global_csr :: "'d os \<Rightarrow> nat \<Rightarrow> ('d, unit) lop" where
  "config_rdma_global_csr e rdma_dev =
     bind (load_rdma rdma_dev) (\<lambda>r.
     bind (load_win (rd_winSize r)) (\<lambda>w.
     bind (load_csr (glb_csr r)) (\<lambda>c.
     write_regs (os_hw e) (rd_axil_ctl r) (gcsr_writes w c))))"

definition xrnic_conf_value :: "u32 \<Rightarrow> u32 \<Rightarrow> u32" where
  "xrnic_conf_value sport num_qp =
     (let reserved1 = 0; err_buf_en = 1; tx_ack_gen = 0; reserved2 = 0; en_ernic = 1;
          config_8bit = (push_bit 6 reserved1 AND 0x000000c0) OR (push_bit 5 err_buf_en AND 0x00000020) OR
            (push_bit 3 tx_ack_gen AND 0x00000018) OR (push_bit 1 reserved2 AND 0x00000006) OR (en_ernic AND 0x00000001)
      in (push_bit 16 sport AND 0xffff0000) OR (push_bit 8 num_qp AND 0x0000ff00) OR (config_8bit AND 0x000000ff))"

definition xrnic_advanced_conf_value :: u32 where
  "xrnic_advanced_conf_value =
     (let sw_override_enable = 0; retry_cnt_fatal_dis = 1; base_count_width = 10; sw_override_qp_num = 0;
          config_16bit = 0x0000000f AND ((sw_override_enable AND 0x00000001) OR (push_bit 2 retry_cnt_fatal_dis AND 0x00000004))
      in config_16bit OR (push_bit 16 base_count_width AND 0x000f0000) OR (push_bit 24 sw_override_qp_num AND 0xff000000))"

definition open_rdma_dev ::
    "'d os \<Rightarrow> nat \<Rightarrow> mac_addr_t \<Rightarrow> u32 \<Rightarrow> u32 \<Rightarrow> u16 \<Rightarrow> u16 \<Rightarrow> u64 \<Rightarrow> u16 \<Rightarrow> u64 \<Rightarrow> u16 \<Rightarrow> u16 \<Rightarrow> u64 \<Rightarrow> u64 \<Rightarrow>
     u64 \<Rightarrow> ('d, unit) lop" where
  "open_rdma_dev e rdma_dev local_mac local_ip sport num_data_buf per_data_buf_size dbuf ipkt_size ipkt
      num_err_buf per_err_buf_size ebuf resp_size resp =
     bind (load_rdma rdma_dev) (\<lambda>r.
     seq (upd_csr (glb_csr r) (\<lambda>c. c\<lparr>
         data_buf_size := push_bit 16 (ucast per_data_buf_size) OR ucast num_data_buf,
         data_buf_baseaddr := dbuf,
         ipkt_err_stat_q_size := ipkt_size,
         ipkt_err_stat_q_baseaddr := ipkt,
         err_buf_size := push_bit 16 (ucast per_err_buf_size) OR ucast num_err_buf,
         err_buf_baseaddr := ebuf,
         resp_err_pkt_buf_size := resp_size,
         resp_err_pkt_buf_baseaddr := resp,
         interrupt_enable := 0x000000FF,
         src_mac := \<lparr>mac_lsb = mac_lsb local_mac, mac_msb = mac_msb local_mac\<rparr>,
         src_ip := local_ip,
         udp_sport := ucast sport,
         num_qp_enabled := ucast (rd_num_qp r),
         xrnic_conf := xrnic_conf_value sport (rd_num_qp r),
         xrnic_advanced_conf := xrnic_advanced_conf_value\<rparr>))
     (config_rdma_global_csr e rdma_dev))"

section \<open>Protection domains\<close>

definition get_rdma_per_q_config_addr :: "u32 \<Rightarrow> u32 \<Rightarrow> u32" where
  "get_rdma_per_q_config_addr offset qid = offset + 0x100 * (qid - 1)"

definition get_rdma_pd_config_addr :: "u32 \<Rightarrow> u32 \<Rightarrow> u32" where
  "get_rdma_pd_config_addr offset num = offset + 0x100 * num"

definition fresh_pd :: "'d os \<Rightarrow> nat \<Rightarrow> obj" where
  "fresh_pd e p = O_pd \<lparr>pd_num = ucast (os_junk e p), virtual_addr_lsb = ucast (os_junk e p),
     virtual_addr_msb = ucast (os_junk e p), dma_addr_lsb = ucast (os_junk e p), dma_addr_msb = ucast (os_junk e p),
     pd_r_key = ucast (os_junk e p), buffer_size_lsb = ucast (os_junk e p), buffer_size_msb = ucast (os_junk e p),
     pd_access_type = ucast (os_junk e p), mr_buffer = unat (os_junk e p)\<rparr>"

definition allocate_rdma_pd :: "'d os \<Rightarrow> nat \<Rightarrow> u32 \<Rightarrow> ('d, nat) lop" where
  "allocate_rdma_pd e rdma_dev num =
     (if rdma_dev = 0 then fail Exit_failure
      else
        bind (alloc e (fresh_pd e)) (\<lambda>rdma_pd.
        seq (upd_pd rdma_pd (\<lambda>p. p\<lparr>pd_num := num, pd_access_type := 2\<rparr>))
        (bind (load_rdma rdma_dev) (\<lambda>r.
        seq (write32_data (os_hw e) (rd_axil_ctl r) (ucast (get_rdma_pd_config_addr RN_RDMA_PDT_PDPDNUM num)) num)
        (seq (upd_pd rdma_pd (\<lambda>p. p\<lparr>mr_buffer := 0\<rparr>)) (ret rdma_pd))))))"

definition pdt_writes :: "rdma_pd_t \<Rightarrow> u64 \<Rightarrow> (u64 \<times> u32) list" where
  "pdt_writes p bsize =
     map (\<lambda>(off, v). (ucast (get_rdma_pd_config_addr off (pd_num p)), v))
      [(RN_RDMA_PDT_VIRTADDRLSB, virtual_addr_lsb p),
       (RN_RDMA_PDT_VIRTADDRMSB, virtual_addr_msb p),
       (RN_RDMA_PDT_BUFBASEADDRLSB, dma_addr_lsb p),
       (RN_RDMA_PDT_BUFBASEADDRMSB, dma_addr_msb p),
       (RN_RDMA_PDT_BUFRKEY, pd_r_key p),
       (RN_RDMA_PDT_WRRDBUFLEN, ucast bsize),
       (RN_RDMA_PDT_ACCESSDESC, push_bit 16 (ucast (buffer_size_msb p)) OR ucast (pd_access_type p))]"

definition rdma_register_memory_region :: "'d os \<Rightarrow> nat \<Rightarrow> nat \<Rightarrow> u32 \<Rightarrow> nat \<Rightarrow> ('d, unit) lop" where
  "rdma_register_memory_region e rdma_dev rdma_pd key rdma_buf =
     bind (load_rdma rdma_dev) (\<lambda>r.
     bind (load_win (rd_winSize r)) (\<lambda>w.
     if rdma_dev = 0 then fail Exit_failure
     else if rdma_pd = 0 then fail Exit_failure
     else if rdma_buf = 0 then fail Exit_failure
     else
       seq (upd_pd rdma_pd (\<lambda>p. p\<lparr>mr_buffer := rdma_buf\<rparr>))
       (bind (load_buf rdma_buf) (\<lambda>b.
       let bsize = (ucast (buf_size b) :: u64) in
       seq (upd_pd rdma_pd (\<lambda>p. p\<lparr>
            dma_addr_lsb := addr_lsb w (dma_addr b), dma_addr_msb := addr_msb w (dma_addr b),
            virtual_addr_lsb := ucast (buffer b AND 0x00000000ffffffff),
            virtual_addr_msb := ucast (drop_bit 32 (buffer b) AND 0x00000000ffffffff),
            buffer_size_lsb := ucast (bsize AND 0x00000000ffffffff),
            buffer_size_msb := ucast (drop_bit 32 bsize AND 0x00000000ffffffff),
            pd_r_key := key\<rparr>))
       (if rd_axil_ctl r = 0 then fail Exit_failure
        else bind (load_pd rdma_pd) (\<lambda>p. write_regs (os_hw e) (rd_axil_ctl r) (pdt_writes p bsize)))))))"

definition allocate_hugepages_buffer :: "'d os \<Rightarrow> u32 \<Rightarrow> ('d, nat) lop" where
  "allocate_hugepages_buffer e num_hugepages =
     bind (alloc e (fresh_buf e)) (\<lambda>rdma_buffer.
     if rdma_buffer = 0 then fail Exit_failure
     else
       let va = os_mmap_huge e (huge_bytes num_hugepages) in
       seq (upd_buf rdma_buffer (\<lambda>b. b\<lparr>buffer := va\<rparr>))
       (if va = 0 then fail Exit_failure
        else if \<not> os_mlock e va (huge_bytes num_hugepages) then fail Exit_failure
        else bind (lift_err (get_buffer_paddr e va)) (\<lambda>pa.
             seq (upd_buf rdma_buffer (\<lambda>b. b\<lparr>dma_addr := pa\<rparr>)) (ret rdma_buffer))))"

section \<open>Queue pairs\<close>

text \<open>\<open>rdma_dev->qps_ptr[qpid]\<close>, read and written.\<close>

definition qp_at :: "rdma_dev_t \<Rightarrow> u32 \<Rightarrow> ('d, nat) lop" where
  "qp_at r qid = bind (load_qps (qps_ptr r)) (\<lambda>qs.
     if unat qid < length qs then ret (qs ! unat qid) else fail Out_of_bounds)"

definition set_qp_at :: "rdma_dev_t \<Rightarrow> u32 \<Rightarrow> nat \<Rightarrow> ('d, unit) lop" where
  "set_qp_at r qid qp = bind (load_qps (qps_ptr r)) (\<lambda>qs.
     if unat qid < length qs then store (qps_ptr r) (O_qps (qs[unat qid := qp])) else fail Out_of_bounds)"

definition config_last_rq_psn :: "'d os \<Rightarrow> nat \<Rightarrow> u32 \<Rightarrow> u32 \<Rightarrow> ('d, unit) lop" where
  "config_last_rq_psn e rdma_dev qid psn =
     bind (load_rdma rdma_dev) (\<lambda>r.
     let rq_conf = (push_bit 24 0x0000000a AND 0xff000000) OR (psn AND 0x00ffffff) in
     seq (write32_data (os_hw e) (rd_axil_ctl r) (ucast (get_rdma_per_q_config_addr RN_RDMA_QCSR_LSTRQREQi qid)) rq_conf)
     (bind (qp_at r qid) (\<lambda>qp. upd_qp qp (\<lambda>q. q\<lparr>last_rq_psn := psn\<rparr>))))"

definition config_sq_psn :: "'d os \<Rightarrow> nat \<Rightarrow> u32 \<Rightarrow> u32 \<Rightarrow> ('d, unit) lop" where
  "config_sq_psn e rdma_dev qid psn =
     bind (load_rdma rdma_dev) (\<lambda>r.
     seq (write32_data (os_hw e) (rd_axil_ctl r) (ucast (get_rdma_per_q_config_addr RN_RDMA_QCSR_SQPSNi qid)) psn)
     (bind (qp_at r qid) (\<lambda>qp. upd_qp qp (\<lambda>q. q\<lparr>sq_psn := psn\<rparr>))))"

definition fresh_qp :: "'d os \<Rightarrow> nat \<Rightarrow> obj" where
  "fresh_qp e p = O_qp \<lparr>qp_rdma_dev = unat (os_junk e p), qpid = ucast (os_junk e p), sq = unat (os_junk e p),
     sq_psn = ucast (os_junk e p), sq_pidb = ucast (os_junk e p), sq_cidb = ucast (os_junk e p), cq = unat (os_junk e p),
     cq_cidb_addr = os_junk e p, cq_cidb = ucast (os_junk e p), rq = unat (os_junk e p), rq_cidb_addr = os_junk e p,
     rq_cidb = ucast (os_junk e p), rq_pidb = ucast (os_junk e p), qp_pd_num = ucast (os_junk e p),
     pd_entry = unat (os_junk e p), dst_qpid = ucast (os_junk e p), qdepth = ucast (os_junk e p),
     last_rq_psn = ucast (os_junk e p), dst_mac = unat (os_junk e p), dst_ip = ucast (os_junk e p)\<rparr>"

text \<open>The software half of \<open>allocate_rdma_qp\<close>: the structure and its three queues, whose sizes are
  32-bit products.\<close>

definition make_qp ::
    "'d os \<Rightarrow> nat \<Rightarrow> rdma_dev_t \<Rightarrow> u32 \<Rightarrow> u32 \<Rightarrow> nat \<Rightarrow> u64 \<Rightarrow> u64 \<Rightarrow> u32 \<Rightarrow> string \<Rightarrow> nat \<Rightarrow> u32 \<Rightarrow> ('d, nat) lop" where
  "make_qp e rdma_dev r qid dqid pd cq_db rq_db depth buf_location dmac dip =
     bind (alloc e (fresh_qp e)) (\<lambda>qp.
     seq (upd_qp qp (\<lambda>q. q\<lparr>qp_rdma_dev := rdma_dev, qpid := qid, dst_qpid := dqid\<rparr>))
     (bind (allocate_rdma_buffer e (rd_rn_dev r) (ucast (rd_num_qp r * depth * 64)) buf_location) (\<lambda>b1.
     seq (upd_qp qp (\<lambda>q. q\<lparr>sq := b1, sq_pidb := 0, sq_cidb := 0\<rparr>))
     (bind (allocate_rdma_buffer e (rd_rn_dev r) (ucast (rd_num_qp r * depth * 4)) buf_location) (\<lambda>b2.
     seq (upd_qp qp (\<lambda>q. q\<lparr>cq := b2, cq_cidb := 0, cq_cidb_addr := cq_db\<rparr>))
     (bind (allocate_rdma_buffer e (rd_rn_dev r) (ucast (rd_num_qp r * depth * RQE_SIZE)) buf_location) (\<lambda>b3.
     seq (upd_qp qp (\<lambda>q. q\<lparr>rq := b3, rq_cidb := 0, rq_pidb := 0, rq_cidb_addr := rq_db, pd_entry := pd,
                           qdepth := depth, dst_mac := dmac, dst_ip := dip\<rparr>))
     (seq (set_qp_at r qid qp) (ret qp)))))))))"

definition qp_regs :: "u32 \<Rightarrow> (u32 \<times> u32) list \<Rightarrow> (u64 \<times> u32) list" where
  "qp_regs qid ws = map (\<lambda>(off, v). (ucast (get_rdma_per_q_config_addr off qid), v)) ws"

definition qp_dest_writes :: "u32 \<Rightarrow> mac_addr_t \<Rightarrow> (u64 \<times> u32) list" where
  "qp_dest_writes qid m =
     qp_regs qid [(RN_RDMA_QCSR_MACDESADDLSBi, mac_lsb m), (RN_RDMA_QCSR_MACDESADDMSBi, mac_msb m)]"

definition qp_queue_writes :: "win_size_t \<Rightarrow> u32 \<Rightarrow> u64 \<Rightarrow> u64 \<Rightarrow> u64 \<Rightarrow> (u64 \<times> u32) list" where
  "qp_queue_writes w qid sq_dma cq_dma rq_dma =
     qp_regs qid
      [(RN_RDMA_QCSR_SQBAi, addr_lsb w sq_dma), (RN_RDMA_QCSR_SQBAMSBi, addr_msb w sq_dma),
       (RN_RDMA_QCSR_CQBAi, addr_lsb w cq_dma), (RN_RDMA_QCSR_CQBAMSBi, addr_msb w cq_dma),
       (RN_RDMA_QCSR_RQBAi, addr_lsb w rq_dma), (RN_RDMA_QCSR_RQBAMSBi, addr_msb w rq_dma)]"

definition qp_config_value :: u32 where
  "qp_config_value =
     (let en_qp = 1; mtu_config = 4; rq_buffer_entry_size = RQE_SIZE in
      (en_qp AND 0x00000001) OR (0xc AND 0x0000000c) OR (0x30 AND 0x000000f0) OR
      (push_bit 8 mtu_config AND 0x0000ff00) OR (push_bit 16 rq_buffer_entry_size AND 0xffff0000))"

definition qp_adv_conf_value :: "u32 \<Rightarrow> u32" where
  "qp_adv_conf_value partion_key =
     (let traffic_class = 0; time_to_live = 64 in
      (push_bit 16 partion_key AND 0xffff0000) OR (push_bit 8 time_to_live AND 0x0000ff00) OR
      (traffic_class AND 0x000000ff))"

definition qp_ctrl_writes :: "win_size_t \<Rightarrow> u32 \<Rightarrow> u32 \<Rightarrow> u64 \<Rightarrow> u64 \<Rightarrow> u32 \<Rightarrow> u32 \<Rightarrow> (u64 \<times> u32) list" where
  "qp_ctrl_writes w qid dqid cq_db rq_db depth partion_key =
     qp_regs qid
      [(RN_RDMA_QCSR_CQDBADDi, addr_lsb w cq_db), (RN_RDMA_QCSR_CQDBADDMSBi, addr_msb w cq_db),
       (RN_RDMA_QCSR_RQWPTRDBADDi, addr_lsb w rq_db), (RN_RDMA_QCSR_RQWPTRDBADDMSBi, addr_msb w rq_db),
       (RN_RDMA_QCSR_DESTQPCONFi, dqid),
       (RN_RDMA_QCSR_QDEPTHi, depth OR push_bit 16 depth),
       (RN_RDMA_QCSR_QPCONFi, qp_config_value),
       (RN_RDMA_QCSR_QPADVCONFi, qp_adv_conf_value partion_key)]"

definition allocate_rdma_qp ::
    "'d os \<Rightarrow> nat \<Rightarrow> u32 \<Rightarrow> u32 \<Rightarrow> nat \<Rightarrow> u64 \<Rightarrow> u64 \<Rightarrow> u32 \<Rightarrow> string \<Rightarrow> nat \<Rightarrow> u32 \<Rightarrow> u32 \<Rightarrow> u32 \<Rightarrow> ('d, nat) lop" where
  "allocate_rdma_qp e rdma_dev qid dqid pd cq_db rq_db depth buf_location dmac dip partion_key key =
     bind (load_rdma rdma_dev) (\<lambda>r.
     bind (load_win (rd_winSize r)) (\<lambda>w.
     bind (make_qp e rdma_dev r qid dqid pd cq_db rq_db depth buf_location dmac dip) (\<lambda>qp.
     if rd_axil_ctl r = 0 then fail Exit_failure
     else
       seq (write_regs (os_hw e) (rd_axil_ctl r) (qp_regs qid [(RN_RDMA_QCSR_IPDESADDR1i, dip)]))
       (bind (load_mac dmac) (\<lambda>m.
       seq (write_regs (os_hw e) (rd_axil_ctl r) (qp_dest_writes qid m))
       (bind (load_qp qp) (\<lambda>q.
       bind (load_buf (sq q)) (\<lambda>b1. bind (load_buf (cq q)) (\<lambda>b2. bind (load_buf (rq q)) (\<lambda>b3.
       seq (write_regs (os_hw e) (rd_axil_ctl r) (qp_queue_writes w qid (dma_addr b1) (dma_addr b2) (dma_addr b3)))
       (seq (write_regs (os_hw e) (rd_axil_ctl r) (qp_ctrl_writes w qid dqid cq_db rq_db depth partion_key))
       (bind (load_pd pd) (\<lambda>p.
       seq (write_regs (os_hw e) (rd_axil_ctl r) (qp_regs qid [(RN_RDMA_QCSR_PDi, pd_num p)]))
       (ret qp))))))))))))))"

end
