(* ===== verification/Lib_Rdma_Post.thy ===== *)
theory Lib_Rdma_Post
  imports Lib_Rdma
begin

text \<open>
  The data path and the tear-down half of \<open>rdma_api.c\<close>: work queue entries, doorbells, completion
  polling, receiving, recovery and destruction.  Loops without a bound in the code take \<open>fuel\<close>.
\<close>

definition q_read :: "'d os \<Rightarrow> rdma_dev_t \<Rightarrow> u32 \<Rightarrow> u32 \<Rightarrow> ('d, u32) lop" where
  "q_read e r reg qid = read32_data (os_hw e) (rd_axil_ctl r) (ucast (get_rdma_per_q_config_addr reg qid))"

definition q_write :: "'d os \<Rightarrow> rdma_dev_t \<Rightarrow> u32 \<Rightarrow> u32 \<Rightarrow> u32 \<Rightarrow> ('d, unit) lop" where
  "q_write e r reg qid v = write32_data (os_hw e) (rd_axil_ctl r) (ucast (get_rdma_per_q_config_addr reg qid)) v"

section \<open>Work queue entries\<close>

definition le32 :: "u32 \<Rightarrow> u8 list" where
  "le32 v = [ucast v, ucast (drop_bit 8 v), ucast (drop_bit 16 v), ucast (drop_bit 24 v)]"

definition le16 :: "u16 \<Rightarrow> u8 list" where
  "le16 v = [ucast v, ucast (drop_bit 8 v)]"

text \<open>\<open>struct rdma_wqe_t\<close> and the 64 bytes it occupies.\<close>

record rdma_wqe_t =
  wrid :: u16
  laddr_low :: u32
  laddr_high :: u32
  wqe_length :: u32
  opcode :: u32
  remote_offset_low :: u32
  remote_offset_high :: u32
  wqe_r_key :: u32
  send_small_payload0 :: u32
  send_small_payload1 :: u32
  send_small_payload2 :: u32
  send_small_payload3 :: u32
  immdt_data :: u32

definition wqe_bytes :: "rdma_wqe_t \<Rightarrow> u8 list" where
  "wqe_bytes q = le16 (wrid q) @ le16 0 @ le32 (laddr_low q) @ le32 (laddr_high q) @ le32 (wqe_length q) @
     le32 (opcode q) @ le32 (remote_offset_low q) @ le32 (remote_offset_high q) @ le32 (wqe_r_key q) @
     le32 (send_small_payload0 q) @ le32 (send_small_payload1 q) @ le32 (send_small_payload2 q) @
     le32 (send_small_payload3 q) @ le32 (immdt_data q) @ le32 0 @ le32 0 @ le32 0"

definition poke :: "u64 \<Rightarrow> u8 list \<Rightarrow> umem \<Rightarrow> umem" where
  "poke a bs m = (\<lambda>x. if unat (x - a) < length bs then bs ! unat (x - a) else m x)"

definition build_wqe :: "win_size_t \<Rightarrow> u16 \<Rightarrow> u64 \<Rightarrow> u32 \<Rightarrow> u32 \<Rightarrow> u64 \<Rightarrow> u32 \<Rightarrow> u32 \<Rightarrow> u32 \<Rightarrow> u32 \<Rightarrow> u32 \<Rightarrow> u32 \<Rightarrow> rdma_wqe_t" where
  "build_wqe w wid laddr len op remote_offset key p0 p1 p2 p3 imm =
     \<lparr>wrid = wid,
      laddr_low = (if is_device_address laddr then ucast (laddr AND 0x00000000ffffffff)
                   else ucast (laddr AND 0x00000000ffffffff) AND win_size_lsb w),
      laddr_high = (if is_device_address laddr then ucast (drop_bit 32 (laddr AND 0xffffffff00000000))
                    else ucast (drop_bit 32 (laddr AND 0xffffffff00000000)) AND win_size_msb w),
      wqe_length = len, opcode = op AND 0x000000ff,
      remote_offset_low = ucast (remote_offset AND 0x00000000ffffffff),
      remote_offset_high = ucast (drop_bit 32 (remote_offset AND 0xffffffff00000000)),
      wqe_r_key = key, send_small_payload0 = p0, send_small_payload1 = p1, send_small_payload2 = p2,
      send_small_payload3 = p3, immdt_data = imm\<rparr>"

text \<open>An entry of a queue in card memory is built in a temporary block of the heap (at
  \<open>os_malloc_addr\<close>) and written through the character device; an entry of a queue in host memory is
  stored in place.\<close>

definition write_wqe_to_card :: "'d os \<Rightarrow> rdma_wqe_t \<Rightarrow> u64 \<Rightarrow> ('d, unit) lop" where
  "write_wqe_to_card e q dev_addr s =
     (let n = brk s; s1 = s\<lparr>brk := Suc n\<rparr>; tmp = os_malloc_addr e n in
      if \<not> os_malloc e n then (Inl Bad_pointer, s1)
      else
        let (rc, d) = write_from_buffer (os_lseek e) (os_write e) tmp 64 dev_addr
                        (poke tmp (wqe_bytes q) (host_mem s)) (char_dev s)
        in (if rc < 0 then Inl Exit_failure else Inr (), s1\<lparr>char_dev := d\<rparr>))"

definition create_a_wqe ::
    "'d os \<Rightarrow> nat \<Rightarrow> u32 \<Rightarrow> u16 \<Rightarrow> u32 \<Rightarrow> u64 \<Rightarrow> u32 \<Rightarrow> u32 \<Rightarrow> u64 \<Rightarrow> u32 \<Rightarrow> u32 \<Rightarrow> u32 \<Rightarrow> u32 \<Rightarrow> u32 \<Rightarrow> u32 \<Rightarrow>
     ('d, unit) lop" where
  "create_a_wqe e rdma_dev qid wid wqe_idx laddr len op remote_offset key p0 p1 p2 p3 imm =
     bind (load_rdma rdma_dev) (\<lambda>r.
     bind (load_win (rd_winSize r)) (\<lambda>w.
     let q = build_wqe w wid laddr len op remote_offset key p0 p1 p2 p3 imm in
     bind (qp_at r qid) (\<lambda>qp.
     bind (load_qp qp) (\<lambda>qpr.
     bind (load_buf (sq qpr)) (\<lambda>b.
     if is_device_address (dma_addr b) then write_wqe_to_card e q (dma_addr b + ucast wqe_idx * 64)
     else modify (\<lambda>s. s\<lparr>host_mem := poke (buffer b + ucast wqe_idx * 64) (wqe_bytes q) (host_mem s)\<rparr>))))))"

section \<open>Reading every status register\<close>

definition dump_gcsr :: "u32 list" where
  "dump_gcsr =
     [RN_RDMA_GCSR_ERRBUFWPTR, RN_RDMA_GCSR_IPKTERRQWPTR, RN_RDMA_GCSR_INSRRPKTCNT, RN_RDMA_GCSR_INAMPKTCNT,
      RN_RDMA_GCSR_OUTIOPKTCNT, RN_RDMA_GCSR_OUTAMPKTCNT, RN_RDMA_GCSR_LSTINPKT, RN_RDMA_GCSR_LSTOUTPKT,
      RN_RDMA_GCSR_ININVDUPCNT, RN_RDMA_GCSR_INNCKPKTSTS, RN_RDMA_GCSR_OUTRNRPKTSTS, RN_RDMA_GCSR_WQEPROCSTS,
      RN_RDMA_GCSR_QPMSTS, RN_RDMA_GCSR_INALLDRPPKTCNT, RN_RDMA_GCSR_INNAKPKTCNT, RN_RDMA_GCSR_OUTNAKPKTCNT,
      RN_RDMA_GCSR_RESPHNDSTS, RN_RDMA_GCSR_RETRYCNTSTS, RN_RDMA_GCSR_INCNPPKTCNT, RN_RDMA_GCSR_OUTCNPPKTCNT,
      RN_RDMA_GCSR_OUTRDRSPPKTCNT, RN_RDMA_GCSR_INTSTS,
      RN_RDMA_GCSR_RQINTSTS1, RN_RDMA_GCSR_RQINTSTS2, RN_RDMA_GCSR_RQINTSTS3, RN_RDMA_GCSR_RQINTSTS4,
      RN_RDMA_GCSR_RQINTSTS5, RN_RDMA_GCSR_RQINTSTS6, RN_RDMA_GCSR_RQINTSTS7, RN_RDMA_GCSR_RQINTSTS8,
      RN_RDMA_GCSR_CQINTSTS1, RN_RDMA_GCSR_CQINTSTS2, RN_RDMA_GCSR_CQINTSTS3, RN_RDMA_GCSR_CQINTSTS4,
      RN_RDMA_GCSR_CQINTSTS5, RN_RDMA_GCSR_CQINTSTS6, RN_RDMA_GCSR_CQINTSTS7, RN_RDMA_GCSR_CQINTSTS8]"

definition dump_qcsr :: "u32 list" where
  "dump_qcsr =
     [RN_RDMA_QCSR_CQHEADi, RN_RDMA_QCSR_STATSSNi, RN_RDMA_QCSR_STATMSNi, RN_RDMA_QCSR_STATQPi,
      RN_RDMA_QCSR_STATCURSQPTRi, RN_RDMA_QCSR_STATRESPSNi, RN_RDMA_QCSR_STATRQBUFCAi, RN_RDMA_QCSR_STATWQEi,
      RN_RDMA_QCSR_STATRQPIDBi, RN_RDMA_QCSR_STATRQBUFCAMSBi]"

definition discard :: "('s, 'a) cop \<Rightarrow> ('s, unit) cop" where
  "discard m = bind m (\<lambda>_. ret ())"

definition dump_registers :: "'d os \<Rightarrow> nat \<Rightarrow> bool \<Rightarrow> u32 \<Rightarrow> ('d, unit) lop" where
  "dump_registers e rdma_dev is_sender qid =
     bind (load_rdma rdma_dev) (\<lambda>r.
     seq (seq_list (map (\<lambda>reg. discard (read32_data (os_hw e) (rd_axil_ctl r) (ucast reg))) dump_gcsr))
     (seq (seq_list (map (\<lambda>reg. discard (q_read e r reg qid)) dump_qcsr))
     (cwhen is_sender (discard (q_read e r RN_RDMA_QCSR_SQPIi qid)))))"

section \<open>Doorbells\<close>

definition poll_rq_pidb :: "nat \<Rightarrow> 'd os \<Rightarrow> nat \<Rightarrow> u32 \<Rightarrow> ('d, u32) lop" where
  "poll_rq_pidb fuel e rdma_dev qid =
     bind (load_rdma rdma_dev) (\<lambda>r.
     bind (qp_at r qid) (\<lambda>qp.
     bind (q_read e r RN_RDMA_QCSR_STATRQPIDBi qid) (\<lambda>pidb.
     seq (cwhen (os_getenv_debug e) (dump_registers e rdma_dev False qid))
     (bind (load_qp qp) (\<lambda>q.
     bind (if pidb \<noteq> rq_pidb q then ret pidb
           else poll_until fuel (q_read e r RN_RDMA_QCSR_STATRQPIDBi qid) (\<lambda>v. v \<noteq> rq_pidb q)) (\<lambda>pidb.
     seq (upd_qp qp (\<lambda>q. q\<lparr>rq_pidb := pidb\<rparr>)) (ret pidb)))))))"

text \<open>The bounded wait of \<open>poll_cq_cidb\<close>: \<open>left\<close> is \<open>TIMEOUT_THRESHOLD\<close> minus \<open>timeout_cnt\<close>;
  \<open>None\<close> is the jump to \<open>timeout_action\<close>.\<close>

fun cq_wait :: "nat \<Rightarrow> ('s, u32) cop \<Rightarrow> u32 \<Rightarrow> u32 \<Rightarrow> ('s, u32 option) cop" where
  "cq_wait 0 rd sqc cqc = (if cqc \<noteq> sqc then ret (Some cqc) else bind rd (\<lambda>_. ret None))"
| "cq_wait (Suc left) rd sqc cqc = (if cqc \<noteq> sqc then ret (Some cqc) else bind rd (cq_wait left rd sqc))"

definition poll_cq_cidb :: "'d os \<Rightarrow> nat \<Rightarrow> u32 \<Rightarrow> u32 \<Rightarrow> ('d, u32) lop" where
  "poll_cq_cidb e rdma_dev qid sqc =
     bind (load_rdma rdma_dev) (\<lambda>r.
     bind (q_read e r RN_RDMA_QCSR_CQHEADi qid) (\<lambda>cqc.
     bind (cq_wait TIMEOUT_THRESHOLD (q_read e r RN_RDMA_QCSR_CQHEADi qid) sqc cqc) (\<lambda>res.
     case res of Some v \<Rightarrow> ret v | None \<Rightarrow> seq (dump_registers e rdma_dev True qid) (ret (- 1)))))"

definition rdma_post_send :: "'d os \<Rightarrow> nat \<Rightarrow> u32 \<Rightarrow> ('d, int) lop" where
  "rdma_post_send e rdma_dev qid =
     (if rdma_dev = 0 then fail Exit_failure
      else
        bind (load_rdma rdma_dev) (\<lambda>r.
        bind (qp_at r qid) (\<lambda>qp.
        seq (cwhen (os_debug e) (discard (q_read e r RN_RDMA_QCSR_SQPIi qid)))
        (seq (upd_qp qp (\<lambda>q. q\<lparr>sq_pidb := sq_pidb q + 1\<rparr>))
        (bind (load_qp qp) (\<lambda>q.
        seq (q_write e r RN_RDMA_QCSR_SQPIi qid (sq_pidb q))
        (seq (cwhen (os_debug e) (discard (q_read e r RN_RDMA_QCSR_SQPIi qid)))
        (bind (poll_cq_cidb e rdma_dev qid (sq_cidb q)) (\<lambda>c.
        seq (upd_qp qp (\<lambda>q. q\<lparr>cq_cidb := c\<rparr>))
        (seq (upd_qp qp (\<lambda>q. q\<lparr>sq_cidb := sq_cidb q + 1\<rparr>))
        (bind (load_qp qp) (\<lambda>q.
        ret (if sint (cq_cidb q) < 0 then - 1 else 0)))))))))))))"

text \<open>The completion loop of \<open>rdma_post_batch_send\<close>.\<close>

fun batch_wait :: "nat \<Rightarrow> 'd os \<Rightarrow> nat \<Rightarrow> u32 \<Rightarrow> nat \<Rightarrow> ('d, unit) lop" where
  "batch_wait 0 e rdma_dev qid qp = fail Out_of_fuel"
| "batch_wait (Suc fuel) e rdma_dev qid qp =
     bind (load_qp qp) (\<lambda>q.
     if sint (cq_cidb q) < sint (sq_pidb q) then
       bind (poll_cq_cidb e rdma_dev qid (sq_cidb q)) (\<lambda>c.
       seq (upd_qp qp (\<lambda>q. q\<lparr>cq_cidb := c, sq_cidb := c\<rparr>))
       (batch_wait fuel e rdma_dev qid qp))
     else ret ())"

definition rdma_post_batch_send :: "nat \<Rightarrow> 'd os \<Rightarrow> nat \<Rightarrow> u32 \<Rightarrow> u32 \<Rightarrow> ('d, int) lop" where
  "rdma_post_batch_send fuel e rdma_dev qid batch_size =
     (if rdma_dev = 0 then fail Exit_failure
      else
        bind (load_rdma rdma_dev) (\<lambda>r.
        bind (qp_at r qid) (\<lambda>qp.
        seq (cwhen (os_debug e) (discard (q_read e r RN_RDMA_QCSR_SQPIi qid)))
        (seq (upd_qp qp (\<lambda>q. q\<lparr>sq_pidb := sq_pidb q + batch_size\<rparr>))
        (bind (load_qp qp) (\<lambda>q.
        if qdepth q < batch_size \<or> sq_pidb q > qdepth q then fail Exit_failure
        else
          seq (q_write e r RN_RDMA_QCSR_SQPIi qid (sq_pidb q))
          (seq (cwhen (os_debug e) (discard (q_read e r RN_RDMA_QCSR_SQPIi qid)))
          (seq (batch_wait fuel e rdma_dev qid qp)
          (bind (load_qp qp) (\<lambda>q.
          ret (if sint (cq_cidb q) < 0 then - 1 else 0)))))))))))"

definition write_rq_cidb :: "'d os \<Rightarrow> nat \<Rightarrow> nat \<Rightarrow> u32 \<Rightarrow> ('d, unit) lop" where
  "write_rq_cidb e rdma_dev qp db_val =
     seq (upd_qp qp (\<lambda>q. q\<lparr>rq_cidb := db_val\<rparr>))
     (bind (load_rdma rdma_dev) (\<lambda>r.
     bind (load_qp qp) (\<lambda>q.
     q_write e r RN_RDMA_QCSR_RQCIi (qpid q) db_val)))"

text \<open>\<open>(qdepth - 1) * RQE_SIZE\<close> is unsigned and zero extended, \<open>(rq_pidb - 1) * RQE_SIZE\<close> is an
  \<open>int\<close> and sign extended.\<close>

definition rdma_post_receive :: "nat \<Rightarrow> 'd os \<Rightarrow> nat \<Rightarrow> nat \<Rightarrow> ('d, u64) lop" where
  "rdma_post_receive fuel e rdma_dev qp =
     (if rdma_dev = 0 then ret 0
      else if qp = 0 then ret 0
      else
        bind (load_qp qp) (\<lambda>q.
        bind (poll_rq_pidb fuel e rdma_dev (qpid q)) (\<lambda>pidb.
        if pidb = - 1 then fail Exit_failure
        else
          bind (load_qp qp) (\<lambda>q.
          bind (load_buf (rq q)) (\<lambda>b.
          if pidb = 0 then ret (buffer b + ucast ((qdepth q - 1) * RQE_SIZE))
          else ret (buffer b + scast ((pidb - 1) * RQE_SIZE)))))))"

definition rdma_release_rq_consumed :: "'d os \<Rightarrow> nat \<Rightarrow> nat \<Rightarrow> ('d, u8) lop" where
  "rdma_release_rq_consumed e rdma_dev qp =
     bind (load_rdma rdma_dev) (\<lambda>r.
     bind (load_qp qp) (\<lambda>q.
     bind (q_read e r RN_RDMA_QCSR_STATRQPIDBi (qpid q)) (\<lambda>pidb.
     let rc = (if pidb \<noteq> rq_pidb q then 1 else 0) in
     seq (write_rq_cidb e rdma_dev qp (rq_pidb q)) (ret rc))))"

section \<open>Recovery and destruction\<close>

text \<open>\<open>left\<close> is 100000 minus \<open>timeout_cnt\<close>.\<close>

fun drain_wait :: "nat \<Rightarrow> 'd os \<Rightarrow> rdma_dev_t \<Rightarrow> u32 \<Rightarrow> ('d, unit) lop" where
  "drain_wait left e r qid =
     bind (q_read e r RN_RDMA_QCSR_CQHEADi qid) (\<lambda>a.
     bind (q_read e r RN_RDMA_QCSR_SQPIi qid) (\<lambda>b.
     if a = b then ret ()
     else case left of
       0 \<Rightarrow> seq (discard (q_read e r RN_RDMA_QCSR_CQHEADi qid))
           (seq (discard (q_read e r RN_RDMA_QCSR_SQPIi qid)) (fail Exit_failure))
     | Suc n \<Rightarrow> drain_wait n e r qid))"

definition rdma_qp_fatal_recovery :: "nat \<Rightarrow> 'd os \<Rightarrow> nat \<Rightarrow> u32 \<Rightarrow> ('d, unit) lop" where
  "rdma_qp_fatal_recovery fuel e rdma_dev qid =
     bind (load_rdma rdma_dev) (\<lambda>r.
     seq (poll_until fuel (q_read e r RN_RDMA_QCSR_STATQPi qid) (\<lambda>v. drop_bit 9 v AND 0x3 \<noteq> 0))
     (seq (drain_wait 100000 e r qid)
     (bind (q_read e r RN_RDMA_QCSR_QPCONFi qid) (\<lambda>v.
     seq (q_write e r RN_RDMA_QCSR_QPCONFi qid (v AND 0xfffffffe))
     (bind (q_read e r RN_RDMA_QCSR_QPCONFi qid) (\<lambda>v.
     seq (q_write e r RN_RDMA_QCSR_QPCONFi qid (v OR 0x40))
     (discard (q_read e r RN_RDMA_QCSR_QPCONFi qid))))))))"

definition destroy_rdma_pd_entry :: "nat \<Rightarrow> ('d, unit) lop" where
  "destroy_rdma_pd_entry pd = (if pd \<noteq> 0 then free_obj pd else ret ())"

definition qp_reset_regs :: "u32 list" where
  "qp_reset_regs =
     [RN_RDMA_QCSR_RQWPTRDBADDi, RN_RDMA_QCSR_SQPIi, RN_RDMA_QCSR_CQHEADi, RN_RDMA_QCSR_RQCIi,
      RN_RDMA_QCSR_STATRQPIDBi, RN_RDMA_QCSR_STATCURSQPTRi, RN_RDMA_QCSR_SQPSNi, RN_RDMA_QCSR_LSTRQREQi,
      RN_RDMA_QCSR_STATMSNi]"

text \<open>The register half of \<open>destroy_rdma_qp\<close>, after the two checks.\<close>

definition qp_shutdown :: "'d os \<Rightarrow> rdma_dev_t \<Rightarrow> u32 \<Rightarrow> ('d, unit) lop" where
  "qp_shutdown e r qid =
     (let g_read = (\<lambda>reg. read32_data (os_hw e) (rd_axil_ctl r) (ucast reg));
          g_write = (\<lambda>reg v. write32_data (os_hw e) (rd_axil_ctl r) (ucast reg) v) in
      bind (g_read RN_RDMA_GCSR_XRNICADCONF) (\<lambda>v.
      seq (g_write RN_RDMA_GCSR_XRNICADCONF (v OR 0x00000001))
      (bind (q_read e r RN_RDMA_QCSR_QPCONFi qid) (\<lambda>v.
      seq (q_write e r RN_RDMA_QCSR_QPCONFi qid (v AND 0xfffffffe))
      (seq (write_regs (os_hw e) (rd_axil_ctl r) (qp_regs qid (map (\<lambda>reg. (reg, 0)) qp_reset_regs)))
      (bind (q_read e r RN_RDMA_QCSR_QPCONFi qid) (\<lambda>v.
      seq (discard (q_read e r RN_RDMA_QCSR_CQHEADi qid))
      (seq (q_write e r RN_RDMA_QCSR_QPCONFi qid (v OR 0x00000040))
      (seq (discard (q_read e r RN_RDMA_QCSR_CQHEADi qid))
      (bind (g_read RN_RDMA_GCSR_XRNICADCONF) (\<lambda>v.
      seq (g_write RN_RDMA_GCSR_XRNICADCONF (v AND 0xfffffffe))
      (discard (q_read e r RN_RDMA_QCSR_CQHEADi qid)))))))))))))"

definition destroy_rdma_qp :: "nat \<Rightarrow> 'd os \<Rightarrow> nat \<Rightarrow> ('d, int) lop" where
  "destroy_rdma_qp fuel e qp =
     (if qp = 0 then ret 0
      else
        bind (load_qp qp) (\<lambda>q.
        bind (load_rdma (qp_rdma_dev q)) (\<lambda>r.
        bind (q_read e r RN_RDMA_QCSR_STATQPi (qpid q)) (\<lambda>v.
        seq (cwhen (\<not> (v AND 0x000000ff = 0 \<and> drop_bit 9 v AND 0x00000003 = 0x3))
               (rdma_qp_fatal_recovery fuel e (qp_rdma_dev q) (qpid q)))
        (bind (q_read e r RN_RDMA_QCSR_CQHEADi (qpid q)) (\<lambda>a.
        bind (q_read e r RN_RDMA_QCSR_SQPIi (qpid q)) (\<lambda>b.
        seq (cwhen (a \<noteq> b) (rdma_qp_fatal_recovery fuel e (qp_rdma_dev q) (qpid q)))
        (seq (qp_shutdown e r (qpid q))
        (seq (free_obj (sq q))
        (seq (free_obj (rq q))
        (seq (free_obj (cq q))
        (seq (destroy_rdma_pd_entry (pd_entry q))
        (ret 0)))))))))))))"

text \<open>The loop of \<open>destroy_rdma_dev\<close> from index \<open>i\<close> on.\<close>

definition destroy_qps :: "nat \<Rightarrow> 'd os \<Rightarrow> rdma_dev_t \<Rightarrow> ('d, unit) lop" where
  "destroy_qps fuel e r =
     seq_list (map (\<lambda>i. bind (qp_at r (of_nat i)) (\<lambda>qp. discard (destroy_rdma_qp fuel e qp)))
       [0..<unat (rd_num_qp r)])"

definition destroy_rdma_dev :: "nat \<Rightarrow> 'd os \<Rightarrow> nat \<Rightarrow> ('d, int) lop" where
  "destroy_rdma_dev fuel e rdma_dev =
     (if rdma_dev = 0 then ret 0
      else
        bind (load_rdma rdma_dev) (\<lambda>r.
        seq (free_obj (glb_csr r))
        (seq (destroy_qps fuel e r)
        (seq (write32_data (os_hw e) (rd_axil_ctl r) (ucast RN_RDMA_GCSR_XRNICCONF) 0)
        (ret 0)))))"

definition destroy_rn_dev :: "nat \<Rightarrow> 'd os \<Rightarrow> nat \<Rightarrow> ('d, int) lop" where
  "destroy_rn_dev fuel e rn_dev =
     (if rn_dev = 0 then ret 0
      else
        bind (load_rn rn_dev) (\<lambda>d.
        seq (free_obj (base_buf d))
        (seq (discard (destroy_rdma_dev fuel e (rn_rdma_dev d)))
        (ret 0))))"

end
