(* ===== verification/Lib_Buffers.thy ===== *)
theory Lib_Buffers
  imports Lib_Reconic
begin

text \<open>
  The buffer allocator and the bridge windows of \<open>reconic.c\<close>: where buffers are placed, and
  which host address a card address reaches.
\<close>

section \<open>Alignment\<close>

lemma uint_and_mask: "uint (a AND mask n) = uint (a :: u64) mod 2 ^ n"
  by (simp only: take_bit_eq_mask [symmetric] unsigned_take_bit_eq) (simp add: take_bit_eq_mod)

lemma uint_and_not_mask: "uint (a AND NOT (mask n)) = uint (a :: u64) - uint a mod 2 ^ n"
proof -
  have "(a AND mask n) AND (a AND NOT (mask n)) = 0" by (rule bit_word_eqI) (auto simp: bit_simps)
  then have "(a AND mask n) + (a AND NOT (mask n)) = (a AND mask n) OR (a AND NOT (mask n))"
    by (rule disjunctive_add_eq_or)
  also have "\<dots> = a" by (rule bit_word_eqI) (auto simp: bit_simps)
  finally have e: "a AND NOT (mask n) = a - (a AND mask n)" by (simp add: algebra_simps)
  have "uint (a AND mask n) \<le> uint a" by (simp add: uint_and_mask zmod_le_nonneg_dividend)
  then show ?thesis unfolding e by (simp add: uint_sub_small uint_and_mask)
qed

lemmas page_consts = HARDWARE_PAGE_SIZE_def HARDWARE_PAGE_SIZE_ALIGNMENT_MASK_def
  HARDWARE_PAGE_SIZE_ADDRESS_MASK_def

lemma align_offset_props:
  assumes "uint off + uint bsize + 4096 < 2 ^ 64"
  defines "o1 \<equiv> uint (align_offset off bsize)"
  shows "uint off \<le> o1" and "o1 < uint off + 4096"
    and "if uint bsize \<le> 4096 then o1 mod 4096 + uint bsize \<le> 4096 else o1 mod 4096 = 0"
proof -
  have m: "uint (off AND HARDWARE_PAGE_SIZE_ADDRESS_MASK) = uint off mod 4096"
    using uint_and_mask [of off 12] by (simp add: page_consts mask_consts)
  have add: "uint (off + HARDWARE_PAGE_SIZE) = uint off + 4096"
  proof -
    have "uint off + 4096 < 2 ^ 64" using assms(1) uint_nonnegative [of bsize] by linarith
    then show ?thesis using uint_add_lem [of off HARDWARE_PAGE_SIZE] by (simp add: HARDWARE_PAGE_SIZE_def)
  qed
  have up: "uint ((off + HARDWARE_PAGE_SIZE) AND HARDWARE_PAGE_SIZE_ALIGNMENT_MASK) =
      uint off + 4096 - uint off mod 4096"
    using uint_and_not_mask [of "off + HARDWARE_PAGE_SIZE" 12] add by (simp add: HARDWARE_PAGE_SIZE_ALIGNMENT_MASK_def mask_consts)
  have b: "bsize \<le> HARDWARE_PAGE_SIZE \<longleftrightarrow> uint bsize \<le> 4096"
    by (simp add: HARDWARE_PAGE_SIZE_def word_le_def)
  define r where "r = uint off mod 4096"
  have r: "0 \<le> r" "r < 4096" by (simp_all add: r_def)
  have sum: "(off AND HARDWARE_PAGE_SIZE_ADDRESS_MASK) + bsize > HARDWARE_PAGE_SIZE \<longleftrightarrow> r + uint bsize > 4096"
    if "uint bsize \<le> 4096"
  proof -
    have "r + uint bsize < 18446744073709551616" using that r by linarith
    then have "uint ((off AND HARDWARE_PAGE_SIZE_ADDRESS_MASK) + bsize) = r + uint bsize"
      using uint_add_lem [of "off AND HARDWARE_PAGE_SIZE_ADDRESS_MASK" bsize] m by (simp add: r_def)
    then show ?thesis by (simp add: word_less_def HARDWARE_PAGE_SIZE_def)
  qed
  have nz: "(off AND HARDWARE_PAGE_SIZE_ADDRESS_MASK) \<noteq> 0 \<longleftrightarrow> r \<noteq> 0"
    using m uint_eq_0_iff r_def by metis
  have o1: "o1 = (if (uint bsize \<le> 4096 \<and> r + uint bsize > 4096) \<or> (\<not> uint bsize \<le> 4096 \<and> r \<noteq> 0)
      then uint off + 4096 - r else uint off)"
    unfolding o1_def align_offset_def b using sum nz up by (auto simp: r_def)
  have al: "(uint off + 4096 - r) mod 4096 = 0" by (simp add: r_def mod_diff_right_eq mod_simps)
  show "uint off \<le> o1" using o1 r by auto
  show "o1 < uint off + 4096"
  proof (cases "r = 0")
    case True
    then show ?thesis using o1 by auto
  next
    case False
    then show ?thesis using o1 r by auto
  qed
  show "if uint bsize \<le> 4096 then o1 mod 4096 + uint bsize \<le> 4096 else o1 mod 4096 = 0"
    using o1 al r by (auto simp: r_def)
qed

section \<open>One host allocation\<close>

lemma host_alloc_run:
  assumes "heap s rn = Some (O_rn d)" and "heap s (base_buf d) = Some (O_buf base)"
    and "rn \<le> brk s" "base_buf d \<le> brk s" "rn \<noteq> base_buf d" and "os_malloc e (brk s)"
    and "get_buffer_paddr e (buffer base + align_offset (buffer_offset d) n) = Inr pa"
  shows "allocate_rdma_buffer e rn n HOST_MEM s =
    (Inr (Suc (brk s)),
     s\<lparr>heap := (heap s)(
         Suc (brk s) \<mapsto> O_buf \<lparr>buffer = buffer base + align_offset (buffer_offset d) n, dma_addr = pa, buf_size = ucast n\<rparr>,
         rn \<mapsto> O_rn (d\<lparr>buffer_offset := align_offset (buffer_offset d) n + n\<rparr>)),
       brk := Suc (brk s)\<rparr>)"
  using assms unfolding allocate_rdma_buffer_def
  by (simp add: run_simps fresh_buf_def lift_err_def Let_def fun_upd_twist fun_upd_same)

section \<open>The window table and a new device\<close>

definition bdf_writes :: "u32 \<Rightarrow> (u64 \<times> u32) list" where
  "bdf_writes high_addr = concat (map (bdf_window (high_addr AND 0xffffff00) 0 0xC2000000) [0..<8])"

lemma bdf_run:
  assumes "heap s rn = Some (O_rn d)" and "rn \<noteq> 0" and "heap s (rn_winSize d) = Some (O_win w)"
  shows "config_rn_dev_axib_bdf e rn high_addr low_addr s =
    write_regs (os_hw e) (rn_axil_ctl d) (bdf_writes high_addr)
      (s\<lparr>heap := (heap s)(rn_winSize d \<mapsto> O_win \<lparr>win_size_lsb = 0xffffffff, win_size_msb = 0xff\<rparr>)\<rparr>)"
proof -
  have c: "ucast (drop_bit 32 (get_win_size AND 0xffffffff00000000)) = (0xff :: u32)"
    "ucast (get_win_size AND 0x00000000ffffffff) = (0xffffffff :: u32)"
    "0xC0000000 OR ucast (drop_bit 12 (drop_bit 3 AXI_BAR_SIZE + 1) AND 0x00000000ffffffff) = (0xC2000000 :: u32)"
    "ADDR_MASK - 0xff = 0xffffff00" "low_addr AND (ADDR_MASK - 0xffffffff) = 0"
    by (simp_all add: get_win_size_def AXI_BAR_SIZE_def ADDR_MASK_def)
  show ?thesis
    unfolding config_rn_dev_axib_bdf_def bdf_writes_def Let_def c(1-3)
    using assms by (cases w) (simp add: run_simps c(4,5))
qed

lemma seq_bdf_run:
  assumes "heap s rn = Some (O_rn d)" and "rn \<noteq> 0" and "heap s (rn_winSize d) = Some (O_win w)"
  shows "seq (config_rn_dev_axib_bdf e rn high_addr low_addr) k s =
    k (snd (write_regs (os_hw e) (rn_axil_ctl d) (bdf_writes high_addr)
      (s\<lparr>heap := (heap s)(rn_winSize d \<mapsto> O_win \<lparr>win_size_lsb = 0xffffffff, win_size_msb = 0xff\<rparr>)\<rparr>)))"
  by (rule seq_run(1)) (rule trans [OF bdf_run [OF assms] write_regs_pair])

lemma create_run:
  assumes "\<And>i. os_malloc e i" and "os_open e path \<noteq> - 1" and "os_mmap_bar e (os_open e path) \<noteq> MAP_FAILED"
    and "os_mlock e (os_mmap_huge e (huge_bytes n)) (huge_bytes n)"
    and "get_buffer_paddr e (os_mmap_huge e (huge_bytes n)) = Inr pa"
  shows "\<exists>s'. create_rn_dev e path n q s = (Inr (Suc (brk s), os_open e path), s') \<and>
    heap s' = (heap s)(
      Suc (brk s) \<mapsto> O_rn \<lparr>rn_axil_ctl = os_mmap_bar e (os_open e path), axil_map_size = RN_SCR_MAP_SIZE,
        base_buf = Suc (Suc (Suc (brk s))), rn_rdma_dev = 0, buffer_offset = 0, dev_buffer_offset = 0,
        rn_num_qp = ucast q, rn_winSize = Suc (Suc (brk s))\<rparr>,
      Suc (Suc (brk s)) \<mapsto> O_win \<lparr>win_size_lsb = 0xffffffff, win_size_msb = 0xff\<rparr>,
      Suc (Suc (Suc (brk s))) \<mapsto> O_buf \<lparr>buffer = os_mmap_huge e (huge_bytes n), dma_addr = pa,
        buf_size = ucast (os_junk e (Suc (Suc (Suc (brk s)))))\<rparr>) \<and>
    brk s' = Suc (Suc (Suc (brk s))) \<and>
    bus_log s' = bus_log s @ map (\<lambda>(off, v). Bus_write (os_mmap_bar e (os_open e path) + off) v)
      (bdf_writes (ucast (drop_bit 32 (pa AND 0xffffffff00000000))))"
  unfolding create_rn_dev_def
  using assms
  by (simp add: run_simps seq_bdf_run fresh_rn_def fresh_win_def fresh_buf_def lift_err_def Let_def
      fun_upd_twist)

section \<open>A machine\<close>

text \<open>A passive card, an operating system that grants every request and maps pages to themselves,
  and the state \<open>create_rn_dev\<close> leaves.\<close>

definition demo_os :: "unit os" where
  "demo_os = \<lparr>os_hw = hw_passive, os_debug = False, os_getenv_debug = False, os_malloc = (\<lambda>_. True),
     os_junk = (\<lambda>_. 0), os_malloc_addr = (\<lambda>_. 0x5000), os_page_size = 4096,
     os_pagemap = Some (\<lambda>off. (True, map (\<lambda>i. ucast (drop_bit (8 * i) (off div 8))) [0..<7])),
     os_open = (\<lambda>_. 3), os_mmap_bar = (\<lambda>_. 0x7f0000000000), os_mmap_huge = (\<lambda>_. 0x12300000000),
     os_mlock = (\<lambda>_ _. True), os_lseek = (\<lambda>d off. (sint off, d)), os_write = (\<lambda>m d buf n. (uint n, d))\<rparr>"

definition empty_lib :: "unit lib_st" where
  "empty_lib = \<lparr>regs = (\<lambda>_. 0), accesses = 0, bus_log = [], heap = (\<lambda>_. None), brk = 0,
     host_mem = (\<lambda>_. 0), char_dev = ()\<rparr>"

definition demo_path :: string where
  "demo_path = ''/sys/bus/pci/devices/resource2''"

definition demo_lib :: "unit lib_st" where
  "demo_lib = snd (create_rn_dev demo_os demo_path 64 8 empty_lib)"

definition demo_rn :: rn_dev_t where
  "demo_rn = \<lparr>rn_axil_ctl = 0x7f0000000000, axil_map_size = RN_SCR_MAP_SIZE, base_buf = 3, rn_rdma_dev = 0,
     buffer_offset = 0, dev_buffer_offset = 0, rn_num_qp = 8, rn_winSize = 2\<rparr>"

lemma demo_paddr: "get_buffer_paddr demo_os 0x12300000000 = Inr 0x12300000000"
  by code_simp

lemma demo_lib_run:
  "create_rn_dev demo_os demo_path 64 8 empty_lib = (Inr (1, 3), demo_lib)"
  "heap demo_lib 1 = Some (O_rn demo_rn)"
  "heap demo_lib 3 = Some (O_buf \<lparr>buffer = 0x12300000000, dma_addr = 0x12300000000, buf_size = 0\<rparr>)"
  "brk demo_lib = 3"
  "heap demo_lib 2 = Some (O_win \<lparr>win_size_lsb = 0xffffffff, win_size_msb = 0xff\<rparr>)"
proof -
  have d: "os_open demo_os demo_path = 3" "os_mmap_bar demo_os 3 = 0x7f0000000000"
    "\<And>n. os_mmap_huge demo_os n = 0x12300000000" "\<And>a n. os_mlock demo_os a n" "\<And>i. os_malloc demo_os i"
    "\<And>i. os_junk demo_os i = 0"
    by (simp_all add: demo_os_def)
  have b: "brk empty_lib = 0" by (simp add: empty_lib_def)
  have p: "os_open demo_os demo_path \<noteq> - 1" "os_mmap_bar demo_os (os_open demo_os demo_path) \<noteq> MAP_FAILED"
    by (simp_all add: d MAP_FAILED_def)
  have pa: "get_buffer_paddr demo_os (os_mmap_huge demo_os (huge_bytes 64)) = Inr 0x12300000000"
    unfolding d by (rule demo_paddr)
  have r: "\<lparr>rn_axil_ctl = 0x7f0000000000, axil_map_size = RN_SCR_MAP_SIZE, base_buf = Suc (Suc (Suc 0)),
      rn_rdma_dev = 0, buffer_offset = 0, dev_buffer_offset = 0, rn_num_qp = ucast (8 :: u32),
      rn_winSize = Suc (Suc 0)\<rparr> = demo_rn" and j: "ucast (0 :: u64) = (0 :: u32)"
    by (simp_all add: demo_rn_def numeral_3_eq_3)
  obtain s' where run: "create_rn_dev demo_os demo_path 64 8 empty_lib = (Inr (Suc 0, 3), s')"
    and h: "heap s' = (heap empty_lib)(Suc 0 \<mapsto> O_rn demo_rn,
      Suc (Suc 0) \<mapsto> O_win \<lparr>win_size_lsb = 0xffffffff, win_size_msb = 0xff\<rparr>,
      Suc (Suc (Suc 0)) \<mapsto> O_buf \<lparr>buffer = 0x12300000000, dma_addr = 0x12300000000, buf_size = 0\<rparr>)"
    and k: "brk s' = Suc (Suc (Suc 0))"
    using create_run [OF d(5) p d(4) pa, where q = 8 and s = empty_lib] unfolding d b r j by blast
  show "create_rn_dev demo_os demo_path 64 8 empty_lib = (Inr (1, 3), demo_lib)"
    "heap demo_lib 1 = Some (O_rn demo_rn)"
    "heap demo_lib 3 = Some (O_buf \<lparr>buffer = 0x12300000000, dma_addr = 0x12300000000, buf_size = 0\<rparr>)"
    "brk demo_lib = 3"
    "heap demo_lib 2 = Some (O_win \<lparr>win_size_lsb = 0xffffffff, win_size_msb = 0xff\<rparr>)"
    using run h k by (simp_all add: demo_lib_def numeral_3_eq_3 numeral_2_eq_2)
qed

section \<open>Properties\<close>

text \<open>a host buffer is placed after everything allocated before it, a buffer of at most 4 KB
  never crosses a 4 KB boundary of the region and a larger one starts on one, and the region's
  offset moves to the end of the buffer, so buffers never overlap.\<close>

theorem host_buffer_placement:
  assumes "heap s rn = Some (O_rn d)" and "heap s (base_buf d) = Some (O_buf base)"
    and "rn \<le> brk s" "base_buf d \<le> brk s" "rn \<noteq> base_buf d" and "os_malloc e (brk s)"
    and "get_buffer_paddr e (buffer base + align_offset (buffer_offset d) n) = Inr pa"
    and "uint (buffer_offset d) + uint n + 4096 < 2 ^ 64"
  shows "\<exists>b s' buf d' off. allocate_rdma_buffer e rn n HOST_MEM s = (Inr b, s') \<and>
    heap s' b = Some (O_buf buf) \<and> heap s' rn = Some (O_rn d') \<and>
    buffer buf = buffer base + off \<and> dma_addr buf = pa \<and>
    uint (buffer_offset d) \<le> uint off \<and> uint off < uint (buffer_offset d) + 4096 \<and>
    uint (buffer_offset d') = (uint off + uint n) mod 2 ^ 64 \<and>
    (if uint n \<le> 4096 then uint off mod 4096 + uint n \<le> 4096 else uint off mod 4096 = 0)"
proof -
  let ?off = "align_offset (buffer_offset d) n"
  have "uint (?off + n) = (uint ?off + uint n) mod 2 ^ 64" by (simp add: uint_word_ariths)
  with host_alloc_run [OF assms(1-7)] align_offset_props [OF assms(8)] assms(3) show ?thesis
    by (intro exI [of _ "Suc (brk s)"] exI [of _ "snd (allocate_rdma_buffer e rn n HOST_MEM s)"]
        exI [of _ "\<lparr>buffer = buffer base + ?off, dma_addr = pa, buf_size = ucast n\<rparr>"]
        exI [of _ "d\<lparr>buffer_offset := ?off + n\<rparr>"] exI [of _ ?off]) auto
qed

theorem host_buffer_placement_witness:
  "\<exists>b s' buf d'. allocate_rdma_buffer demo_os 1 8192 HOST_MEM demo_lib = (Inr b, s') \<and>
     heap s' b = Some (O_buf buf) \<and> heap s' 1 = Some (O_rn d') \<and> uint (buffer_offset d') \<ge> 8192"
proof -
  have o: "align_offset (buffer_offset demo_rn) 8192 = 0" "uint (buffer_offset demo_rn) = 0" by code_simp+
  have a: "base_buf demo_rn = 3" "os_malloc demo_os (brk demo_lib)" by (simp_all add: demo_rn_def demo_os_def)
  have "uint (buffer_offset demo_rn) + uint (8192 :: u64) + 4096 < 2 ^ 64" by (simp add: o)
  from host_buffer_placement [OF demo_lib_run(2) _ _ _ _ a(2) _ this, unfolded a(1), OF demo_lib_run(3),
      unfolded o demo_lib_run(4), where pa = "0x12300000000"]
  show ?thesis using demo_paddr by fastforce
qed

lemma dev_alloc_run:
  assumes "heap s rn = Some (O_rn d)" and "rn \<le> brk s" and "os_malloc e (brk s)"
  shows "allocate_rdma_buffer e rn n DEVICE_MEM s =
    (if align_offset (dev_buffer_offset d) n + n \<le> DEVICE_MEM_SIZE then Inr (Suc (brk s)) else Inl Assert_failed,
     s\<lparr>heap := (heap s)(
         Suc (brk s) \<mapsto> O_buf \<lparr>buffer = align_offset (dev_buffer_offset d) n OR DEVICE_MEM_OFFSET,
            dma_addr = align_offset (dev_buffer_offset d) n OR DEVICE_MEM_OFFSET, buf_size = ucast n\<rparr>,
         rn \<mapsto> O_rn (d\<lparr>dev_buffer_offset := align_offset (dev_buffer_offset d) n + n\<rparr>)),
       brk := Suc (brk s)\<rparr>)"
  using assms unfolding allocate_rdma_buffer_def
  by (simp add: run_simps fresh_buf_def Let_def HOST_MEM_def DEVICE_MEM_def fun_upd_twist)

lemma device_tag:
  assumes "uint off < 2 ^ 33"
  shows "is_device_address (off OR DEVICE_MEM_OFFSET)"
    and "off OR DEVICE_MEM_OFFSET = off + DEVICE_MEM_OFFSET"
proof -
  have e: "off = take_bit 33 off"
    using assms by (metis take_bit_int_eq_self uint_nonnegative unsigned_take_bit_eq word_uint_eqI)
  have hi: "bit DEVICE_MEM_OFFSET n \<Longrightarrow> 52 \<le> n" for n
  proof -
    have t: "DEVICE_MEM_OFFSET = push_bit 52 0xa35" by (simp add: DEVICE_MEM_OFFSET_def push_bit_eq_mult)
    show "bit DEVICE_MEM_OFFSET n \<Longrightarrow> 52 \<le> n" unfolding t bit_push_bit_iff by blast
  qed
  have lo: "bit off n \<Longrightarrow> n < 33" for n using e by (metis bit_take_bit_iff)
  have "(off OR DEVICE_MEM_OFFSET) AND 0xfff0000000000000 = DEVICE_MEM_OFFSET"
    by (rule bit_word_eqI) (use hi lo in \<open>fastforce simp: mask_consts bit_simps\<close>)
  then show "is_device_address (off OR DEVICE_MEM_OFFSET)" by (simp add: is_device_address_def)
  have "off AND DEVICE_MEM_OFFSET = 0"
    by (rule bit_word_eqI) (use hi lo in \<open>fastforce simp: bit_simps\<close>)
  then show "off OR DEVICE_MEM_OFFSET = off + DEVICE_MEM_OFFSET" by (simp add: disjunctive_add_eq_or)
qed

text \<open>a device buffer is tagged as a device address, lies inside the 4 GB of card memory and is
  placed like a host buffer; when the card memory would be exceeded the library aborts.\<close>

theorem device_buffer_placement:
  assumes "heap s rn = Some (O_rn d)" and "rn \<le> brk s" and "os_malloc e (brk s)"
    and "uint (dev_buffer_offset d) + uint n + 4096 < 2 ^ 64"
  shows "(case allocate_rdma_buffer e rn n DEVICE_MEM s of
      (Inl err, s') \<Rightarrow> err = Assert_failed \<and> 2 ^ 32 < uint (dev_buffer_offset d) + uint n + 4096
    | (Inr b, s') \<Rightarrow> (\<exists>buf off. heap s' b = Some (O_buf buf) \<and> dma_addr buf = off + DEVICE_MEM_OFFSET \<and>
        buffer buf = dma_addr buf \<and> is_device_address (dma_addr buf) \<and>
        uint (dev_buffer_offset d) \<le> uint off \<and> uint off + uint n \<le> 2 ^ 32 \<and>
        heap s' rn = Some (O_rn (d\<lparr>dev_buffer_offset := off + n\<rparr>)) \<and>
        (if uint n \<le> 4096 then uint off mod 4096 + uint n \<le> 4096 else uint off mod 4096 = 0)))"
proof -
  let ?off = "align_offset (dev_buffer_offset d) n"
  note al = align_offset_props [OF assms(4)]
  note run = dev_alloc_run [OF assms(1-3), of n]
  have sum: "uint (?off + n) = uint ?off + uint n"
    using uint_add_lem [of ?off n] al(2) assms(4) by simp
  have le: "?off + n \<le> DEVICE_MEM_SIZE \<longleftrightarrow> uint ?off + uint n \<le> 2 ^ 32"
    by (simp add: word_le_def sum DEVICE_MEM_SIZE_def)
  show ?thesis
  proof (cases "uint ?off + uint n \<le> 2 ^ 32")
    case True
    then have "uint ?off + uint n \<le> 4294967296" by simp
    then have "uint ?off < 8589934592" using uint_nonnegative [of n] by linarith
    then have "uint ?off < 2 ^ 33" by simp
    note t = device_tag [OF this]
    show ?thesis using run le True al assms(2) t
      by (auto intro!: exI [of _ ?off])
  next
    case False
    then show ?thesis using run le al(2) by auto
  qed
qed

theorem device_buffer_placement_witness:
  "\<exists>b s' buf. allocate_rdma_buffer demo_os 1 8192 DEVICE_MEM demo_lib = (Inr b, s') \<and>
     heap s' b = Some (O_buf buf) \<and> is_device_address (dma_addr buf)"
proof -
  have o: "uint (dev_buffer_offset demo_rn) = 0" by code_simp
  have a: "os_malloc demo_os (brk demo_lib)" by (simp add: demo_os_def)
  have "uint (dev_buffer_offset demo_rn) + uint (8192 :: u64) + 4096 < 2 ^ 64" by (simp add: o)
  from device_buffer_placement [OF demo_lib_run(2) _ a this, unfolded o demo_lib_run(4)]
  show ?thesis by (auto split: prod.splits sum.splits)
qed

section \<open>What a card address reaches\<close>

text \<open>The bridge cuts the low 40 bits of a card address into eight windows of \<open>2 ^ 37\<close> bytes; window
  \<open>i\<close> adds the base its two translation registers hold.\<close>

lemma bdf_writes_distinct: "distinct (map fst (bdf_writes h))"
  by (simp add: bdf_writes_def bdf_window_def bdf_addr_defs upt_rec)

lemma bdf_writes_window:
  "i < 8 \<Longrightarrow> (AXIB_BDF_ADDR_TRANSLATE_ADDR_LSB + of_nat (i * 0x20), 0) \<in> set (bdf_writes h)"
  "i < 8 \<Longrightarrow> (AXIB_BDF_ADDR_TRANSLATE_ADDR_MSB + of_nat (i * 0x20), (h AND 0xffffff00) + of_nat (i * 0x20))
     \<in> set (bdf_writes h)"
  unfolding bdf_writes_def set_concat set_map by (auto simp: bdf_window_def)

lemma uint_window_base:
  assumes "i < 8"
  shows "uint ((h AND 0xffffff00) + of_nat (i * 0x20) :: u32) = uint h div 256 * 256 + 32 * int i"
proof -
  have m: "(0xffffff00 :: u32) = push_bit 8 (mask 24)" by (simp add: mask_eq_exp_minus_1 push_bit_eq_mult)
  have e: "h AND 0xffffff00 = push_bit 8 (drop_bit 8 h)"
    unfolding m by (rule bit_word_eqI) (auto simp: bit_simps)
  have "uint (push_bit 8 (drop_bit 8 h)) = uint h div 256 * 256"
  proof -
    have "uint h < 4294967296" using uint_lt2p [of h] by simp
    moreover have "uint h div 256 * 256 \<le> uint h" using div_mult_mod_eq [of "uint h" 256] by simp
    moreover have "0 \<le> uint h div 256 * 256" by (simp add: pos_imp_zdiv_nonneg_iff)
    ultimately have "uint h div 256 * 256 mod 4294967296 = uint h div 256 * 256"
      by (intro mod_pos_pos_trivial) auto
    then show ?thesis
      by (simp add: uint_word_ariths push_bit_eq_mult drop_bit_eq_div uint_div_distrib)
  qed
  then have h8: "uint (h AND 0xffffff00) = uint h div 256 * 256" by (simp add: e)
  have k: "uint (of_nat (i * 0x20) :: u32) = 32 * int i" using assms
    by (simp add: unsigned_of_nat take_bit_eq_mod del: of_nat_mult)
  have "uint h < 4294967296" using uint_lt2p [of h] by simp
  then have "uint h div 256 < 16777216" by auto
  then have "uint h div 256 * 256 + 32 * int i < 4294967296" using assms by linarith
  then show ?thesis using uint_add_lem [of "h AND 0xffffff00" "of_nat (i * 0x20)"] h8 k by simp
qed

lemma uint_high_half:
  "uint (ucast (drop_bit 32 (a AND 0xffffffff00000000)) :: u32) = uint (a :: u64) div 4294967296"
proof -
  have e: "drop_bit 32 (a AND 0xffffffff00000000) = drop_bit 32 a"
    by (rule bit_word_eqI) (auto simp: mask_consts bit_simps dest: bit_imp_le_length)
  have "uint a < 18446744073709551616" using uint_lt2p [of a] by simp
  then have "uint a div 4294967296 < 4294967296" by auto
  moreover have "0 \<le> uint a div 4294967296" by (simp add: pos_imp_zdiv_nonneg_iff)
  ultimately show ?thesis
    unfolding e by (simp add: unsigned_ucast_eq take_bit_eq_mod drop_bit_eq_div uint_div_distrib)
qed

text \<open>C17: the bridge windows are a correct translation.  On a card that keeps what is written to it,
  after \<open>config_rn_dev_axib_bdf\<close> with the halves of the base address, every physical address that
  shares its bits from 40 up with that base is reached from its low 40 bits: window number times
  window size plus offset comes out as the physical address itself.\<close>

theorem bridge_translation:
  assumes "heap s rn = Some (O_rn d)" and "rn \<noteq> 0" and "heap s (rn_winSize d) = Some (O_win w)"
    and "os_hw e = hw_passive" and "uint (paddr :: u64) div 2 ^ 40 = uint (base :: u64) div 2 ^ 40"
    and "i = nat (uint paddr mod 2 ^ 40 div 2 ^ 37)"
    and "config_rn_dev_axib_bdf e rn (ucast (drop_bit 32 (base AND 0xffffffff00000000)))
           (ucast (base AND 0x00000000ffffffff)) s = (r, s')"
  shows "i < 8 \<and>
    uint (regs s' (rn_axil_ctl d + (AXIB_BDF_ADDR_TRANSLATE_ADDR_MSB + of_nat (i * 0x20)))) * 2 ^ 32 +
    uint (regs s' (rn_axil_ctl d + (AXIB_BDF_ADDR_TRANSLATE_ADDR_LSB + of_nat (i * 0x20)))) +
    uint paddr mod 2 ^ 37 = uint paddr"
proof -
  let ?h = "ucast (drop_bit 32 (base AND 0xffffffff00000000)) :: u32"
  have i: "i < 8" "int i = uint paddr mod 1099511627776 div 137438953472"
    using uint_nonnegative [of paddr] assms(6) by auto
  have r: "regs s' = apply_writes (rn_axil_ctl d) (bdf_writes ?h) (regs s)"
    using assms(7) unfolding bdf_run [OF assms(1-3)] assms(4) write_regs_passive by auto
  note rd = apply_writes_distinct [OF bdf_writes_distinct, of _ _ ?h "rn_axil_ctl d" "regs s"]
  have "uint ?h div 256 = uint base div 1099511627776"
    unfolding uint_high_half by (simp add: zdiv_zmult2_eq [symmetric])
  then have b: "uint ?h div 256 = uint paddr div 1099511627776" using assms(5) by simp
  have recombine: "1099511627776 * a + m = x \<Longrightarrow> 137438953472 * b + c = m \<Longrightarrow>
    (a * 256 + 32 * b) * 4294967296 + c = x" for a b c m x :: int by (auto simp: algebra_simps)
  have dvd: "137438953472 dvd (1099511627776 :: int)" by simp
  have "(x div 1099511627776 * 256 + 32 * (x mod 1099511627776 div 137438953472)) * 4294967296
      + x mod 137438953472 = x" for x :: int
    using mult_div_mod_eq [of 1099511627776 x] mult_div_mod_eq [of 137438953472 "x mod 1099511627776"]
    unfolding mod_mod_cancel [of 137438953472 1099511627776 x, OF dvd] by (rule recombine)
  then show ?thesis
    using i(1) unfolding r rd [OF bdf_writes_window(1) [OF i(1)]] rd [OF bdf_writes_window(2) [OF i(1)]]
      uint_window_base [OF i(1)] b i(2) by simp
qed

theorem bridge_translation_witness:
  "\<exists>r s'. config_rn_dev_axib_bdf demo_os 1 0x123 0 demo_lib = (r, s') \<and>
     uint (regs s' (0x7f0000000000 + (AXIB_BDF_ADDR_TRANSLATE_ADDR_MSB + of_nat (1 * 0x20)))) * 2 ^ 32 +
     uint (regs s' (0x7f0000000000 + (AXIB_BDF_ADDR_TRANSLATE_ADDR_LSB + of_nat (1 * 0x20)))) +
     uint (0x12345678000 :: u64) mod 2 ^ 37 = uint (0x12345678000 :: u64)"
proof -
  have h: "ucast (drop_bit 32 ((0x12300000000 :: u64) AND 0xffffffff00000000)) = (0x123 :: u32)"
    "ucast ((0x12300000000 :: u64) AND 0x00000000ffffffff) = (0 :: u32)" by simp_all
  have o: "os_hw demo_os = hw_passive" by (simp add: demo_os_def)
  obtain r s' where c: "config_rn_dev_axib_bdf demo_os 1 0x123 0 demo_lib = (r, s')" by (rule prod.exhaust)
  have d: "rn_axil_ctl demo_rn = 0x7f0000000000" "rn_winSize demo_rn = 2" by (simp_all add: demo_rn_def)
  have n: "1 = nat (uint (0x12345678000 :: u64) mod 2 ^ 40 div 2 ^ 37)"
    "uint (0x12345678000 :: u64) div 2 ^ 40 = uint (0x12300000000 :: u64) div 2 ^ 40" by simp_all
  show ?thesis
    using bridge_translation [OF demo_lib_run(2) _ _ o n(2) n(1), unfolded h d] demo_lib_run(5) c by fastforce
qed

end
