(* ===== verification/Lib_Rdma_Props.thy ===== *)
theory Lib_Rdma_Props
  imports Lib_Rdma_Post Lib_Buffers
begin

text \<open>
  What the set-up half of \<open>rdma_api.c\<close> guarantees: which address the card is given, what the global
  registers say, that a queue pair is programmed with the queues the library allocated for it and
  that nothing outside its own register block is touched.
\<close>

section \<open>Addresses handed to the card\<close>

definition full_window :: win_size_t where
  "full_window = \<lparr>win_size_lsb = 0xffffffff, win_size_msb = 0xff\<rparr>"

definition card_address :: "u64 \<Rightarrow> int" where
  "card_address a = (if is_device_address a then uint a else uint a mod 2 ^ 40)"

lemma low_half: "uint (ucast (a AND 0x00000000ffffffff) :: u32) = uint (a :: u64) mod 4294967296"
proof -
  have e: "ucast (a AND 0x00000000ffffffff) = (ucast a :: u32)"
    by (rule bit_word_eqI) (auto simp: mask_consts bit_simps dest: bit_imp_le_length)
  show ?thesis unfolding e by (simp add: unsigned_ucast_eq take_bit_eq_mod)
qed

lemma high_half: "uint (ucast (drop_bit 32 a AND 0x00000000ffffffff) :: u32) = uint (a :: u64) div 4294967296"
proof -
  have e: "drop_bit 32 a AND 0x00000000ffffffff = drop_bit 32 (a AND 0xffffffff00000000)"
    by (rule bit_word_eqI) (auto simp: mask_consts bit_simps dest: bit_imp_le_length)
  show ?thesis unfolding e by (rule uint_high_half)
qed

lemma and_ff: "uint (h AND 0xff :: u32) = uint h mod 256"
proof -
  have e: "h AND 0xff = take_bit 8 h" by (simp add: take_bit_eq_mask mask_eq_exp_minus_1)
  show ?thesis unfolding e by (simp add: take_bit_eq_mod uint_mod_distrib)
qed

lemma addr_halves:
  "uint (addr_msb full_window a) * 2 ^ 32 + uint (addr_lsb full_window a) = card_address a"
proof -
  let ?x = "uint a"
  have full: "v AND 0xffffffff = v" for v :: u32
    by (rule bit_word_eqI) (auto simp: mask_consts bit_simps dest: bit_imp_le_length)
  have m: "?x mod 1099511627776 = 4294967296 * (?x div 4294967296 mod 256) + ?x mod 4294967296"
    using zmod_zmult2_eq [of 256 ?x 4294967296] by simp
  show ?thesis
  proof (cases "is_device_address a")
    case True
    show ?thesis
      unfolding addr_msb_def addr_lsb_def card_address_def if_P [OF True] high_half
      unfolding low_half by simp
  next
    case False
    show ?thesis
      unfolding addr_msb_def addr_lsb_def card_address_def full_window_def win_size_t.simps if_not_P [OF False]
        full and_ff high_half
      unfolding low_half using m by simp
  qed
qed

section \<open>A cooperative machine\<close>

text \<open>Memory is available, the pagemap can be read and the card keeps what is written to it.\<close>

locale machine =
  fixes e :: "'d os" and paddr :: "u64 \<Rightarrow> u64"
  assumes malloc: "os_malloc e i"
    and pagemap: "get_buffer_paddr e a = Inr (paddr a)"
    and quiet: "os_hw e = hw_passive"

text \<open>The structures \<open>create_rn_dev\<close> and \<open>create_rdma_dev\<close> leave; every structure was allocated.\<close>

definition lib_ok :: "nat \<Rightarrow> rdma_dev_t \<Rightarrow> rn_dev_t \<Rightarrow> rdma_buff_t \<Rightarrow> nat list \<Rightarrow> 'd lib_st \<Rightarrow> bool" where
  "lib_ok rdma r d base qs s \<longleftrightarrow>
     heap s rdma = Some (O_rdma r) \<and> heap s (rd_rn_dev r) = Some (O_rn d) \<and>
     heap s (base_buf d) = Some (O_buf base) \<and> heap s (rd_winSize r) = Some (O_win full_window) \<and>
     heap s (qps_ptr r) = Some (O_qps qs) \<and> (\<forall>p. heap s p \<noteq> None \<longrightarrow> p \<le> brk s)"

lemma lib_okD:
  assumes "lib_ok rdma r d base qs s"
  shows "heap s rdma = Some (O_rdma r)" "heap s (rd_rn_dev r) = Some (O_rn d)"
    "heap s (base_buf d) = Some (O_buf base)" "heap s (rd_winSize r) = Some (O_win full_window)"
    "heap s (qps_ptr r) = Some (O_qps qs)"
    "rdma \<le> brk s" "rd_rn_dev r \<le> brk s" "base_buf d \<le> brk s" "rd_winSize r \<le> brk s" "qps_ptr r \<le> brk s"
    "rd_rn_dev r \<noteq> base_buf d" "rd_rn_dev r \<noteq> qps_ptr r" "base_buf d \<noteq> qps_ptr r"
    "rdma \<noteq> rd_rn_dev r" "rd_winSize r \<noteq> rd_rn_dev r" "rdma \<noteq> qps_ptr r" "rd_winSize r \<noteq> qps_ptr r"
  using assms unfolding lib_ok_def by (force+)

text \<open>The offsets of three buffers allocated one after the other.\<close>

definition next_off :: "u64 \<Rightarrow> u64 \<Rightarrow> u64" where
  "next_off off n = align_offset off n + n"

definition host_buf :: "(u64 \<Rightarrow> u64) \<Rightarrow> rdma_buff_t \<Rightarrow> u64 \<Rightarrow> u64 \<Rightarrow> rdma_buff_t" where
  "host_buf paddr base off n = \<lparr>buffer = buffer base + align_offset off n,
     dma_addr = paddr (buffer base + align_offset off n), buf_size = ucast n\<rparr>"

section \<open>Register blocks\<close>

text \<open>The 256-byte block of a queue pair, as offsets from the register base.\<close>

definition qp_block :: "u32 \<Rightarrow> u64 set" where
  "qp_block qid = (\<lambda>k. ucast (RN_RDMA_QCSR_QPCONFi + 0x100 * (qid - 1) + k)) ` {k. k < 0x100}"

text \<open>Everything \<open>allocate_rdma_qp\<close> writes, in order.\<close>

definition qp_table :: "u32 \<Rightarrow> u32 \<Rightarrow> mac_addr_t \<Rightarrow> u64 \<Rightarrow> u64 \<Rightarrow> u64 \<Rightarrow> u64 \<Rightarrow> u64 \<Rightarrow> u32 \<Rightarrow> u32 \<Rightarrow> u32 \<Rightarrow> (u32 \<times> u32) list" where
  "qp_table dqid dip m a1 a2 a3 cq_db rq_db depth key pdn =
     [(RN_RDMA_QCSR_IPDESADDR1i, dip),
      (RN_RDMA_QCSR_MACDESADDLSBi, mac_lsb m), (RN_RDMA_QCSR_MACDESADDMSBi, mac_msb m),
      (RN_RDMA_QCSR_SQBAi, addr_lsb full_window a1), (RN_RDMA_QCSR_SQBAMSBi, addr_msb full_window a1),
      (RN_RDMA_QCSR_CQBAi, addr_lsb full_window a2), (RN_RDMA_QCSR_CQBAMSBi, addr_msb full_window a2),
      (RN_RDMA_QCSR_RQBAi, addr_lsb full_window a3), (RN_RDMA_QCSR_RQBAMSBi, addr_msb full_window a3),
      (RN_RDMA_QCSR_CQDBADDi, addr_lsb full_window cq_db), (RN_RDMA_QCSR_CQDBADDMSBi, addr_msb full_window cq_db),
      (RN_RDMA_QCSR_RQWPTRDBADDi, addr_lsb full_window rq_db), (RN_RDMA_QCSR_RQWPTRDBADDMSBi, addr_msb full_window rq_db),
      (RN_RDMA_QCSR_DESTQPCONFi, dqid), (RN_RDMA_QCSR_QDEPTHi, depth OR push_bit 16 depth),
      (RN_RDMA_QCSR_QPCONFi, qp_config_value), (RN_RDMA_QCSR_QPADVCONFi, qp_adv_conf_value key),
      (RN_RDMA_QCSR_PDi, pdn)]"

lemma qp_table_offsets:
  "distinct (map fst (qp_table dqid dip m a1 a2 a3 cq_db rq_db depth key pdn))"
  "w \<in> set (qp_table dqid dip m a1 a2 a3 cq_db rq_db depth key pdn) \<Longrightarrow> fst w - RN_RDMA_QCSR_QPCONFi < 0x100"
  by (auto simp: qp_table_def qcsr_defs)

lemma ucast_inj: "ucast x = (ucast y :: u64) \<longleftrightarrow> x = (y :: u32)"
  by (metis unat_ucast_up word_unat_eq_iff)

lemma qp_regs_distinct: "distinct (map fst ws) \<Longrightarrow> distinct (map fst (qp_regs qid ws))"
  by (induction ws) (auto simp: qp_regs_def image_iff ucast_inj get_rdma_per_q_config_addr_def, blast?)

lemma qp_regs_in_block:
  assumes "\<forall>w \<in> set ws. fst w - RN_RDMA_QCSR_QPCONFi < 0x100" and "w \<in> set (qp_regs qid ws)"
  shows "fst w \<in> qp_block qid"
proof -
  obtain off v where v: "(off, v) \<in> set ws" "w = (ucast (get_rdma_per_q_config_addr off qid), v)"
    using assms(2) by (auto simp: qp_regs_def)
  show ?thesis
    unfolding qp_block_def v(2) get_rdma_per_q_config_addr_def using assms(1) v(1)
    by (intro image_eqI [where x = "off - RN_RDMA_QCSR_QPCONFi"]) (auto simp: algebra_simps)
qed

lemma qp_table_split:
  "qp_regs qid (qp_table dqid dip m a1 a2 a3 cq_db rq_db depth key pdn) =
     qp_regs qid [(RN_RDMA_QCSR_IPDESADDR1i, dip)] @ qp_dest_writes qid m @
     qp_queue_writes full_window qid a1 a2 a3 @ qp_ctrl_writes full_window qid dqid cq_db rq_db depth key @
     qp_regs qid [(RN_RDMA_QCSR_PDi, pdn)]"
  by (simp add: qp_table_def qp_regs_def qp_dest_writes_def qp_queue_writes_def qp_ctrl_writes_def)

text \<open>A register of a queue pair, on the card.\<close>

definition qreg :: "rdma_dev_t \<Rightarrow> u32 \<Rightarrow> 'd lib_st \<Rightarrow> u32 \<Rightarrow> u32" where
  "qreg r qid s off = regs s (rd_axil_ctl r + ucast (get_rdma_per_q_config_addr off qid))"

lemma qreg_written:
  assumes "regs s' = apply_writes (rd_axil_ctl r) (qp_regs qid ws) rg" and "distinct (map fst ws)"
    and "(off, v) \<in> set ws"
  shows "qreg r qid s' off = v"
proof -
  have "(ucast (get_rdma_per_q_config_addr off qid), v) \<in> set (qp_regs qid ws)"
    using assms(3) unfolding qp_regs_def by force
  from apply_writes_distinct [OF qp_regs_distinct [OF assms(2)] this] assms(1) show ?thesis
    by (simp add: qreg_def)
qed

context machine
begin

lemma host_alloc:
  assumes "heap s rn = Some (O_rn d)" and "heap s (base_buf d) = Some (O_buf base)"
    and "rn \<le> brk s" "base_buf d \<le> brk s" "rn \<noteq> base_buf d"
  shows "allocate_rdma_buffer e rn n HOST_MEM s =
    (Inr (Suc (brk s)),
     s\<lparr>heap := (heap s)(Suc (brk s) \<mapsto> O_buf (host_buf paddr base (buffer_offset d) n),
         rn \<mapsto> O_rn (d\<lparr>buffer_offset := next_off (buffer_offset d) n\<rparr>)),
       brk := Suc (brk s)\<rparr>)"
  using host_alloc_run [OF assms malloc pagemap] by (simp add: host_buf_def next_off_def)

lemma make_qp_run:
  fixes depth :: u32
  assumes ok: "lib_ok rdma r d base qs s" and "unat qid < length qs"
  defines "n1 \<equiv> ucast (rd_num_qp r * depth * 64) :: u64" and "n2 \<equiv> ucast (rd_num_qp r * depth * 4) :: u64"
    and "n3 \<equiv> ucast (rd_num_qp r * depth * RQE_SIZE) :: u64"
  defines "o1 \<equiv> buffer_offset d" defines "o2 \<equiv> next_off o1 n1" defines "o3 \<equiv> next_off o2 n2"
  shows "\<exists>q s'. make_qp e rdma r qid dqid pd cq_db rq_db depth HOST_MEM dmac dip s = (Inr (Suc (brk s)), s') \<and>
    heap s' (Suc (brk s)) = Some (O_qp q) \<and>
    sq q = brk s + 2 \<and> cq q = brk s + 3 \<and> rq q = brk s + 4 \<and> pd_entry q = pd \<and> qpid q = qid \<and>
    heap s' (brk s + 2) = Some (O_buf (host_buf paddr base o1 n1)) \<and>
    heap s' (brk s + 3) = Some (O_buf (host_buf paddr base o2 n2)) \<and>
    heap s' (brk s + 4) = Some (O_buf (host_buf paddr base o3 n3)) \<and>
    heap s' (qps_ptr r) = Some (O_qps (qs[unat qid := Suc (brk s)])) \<and>
    (\<forall>p \<le> brk s. p \<noteq> rd_rn_dev r \<longrightarrow> p \<noteq> qps_ptr r \<longrightarrow> heap s' p = heap s p) \<and>
    heap s' (rd_rn_dev r) = Some (O_rn (d\<lparr>buffer_offset := next_off o3 n3\<rparr>)) \<and>
    regs s' = regs s \<and> brk s' = brk s + 4"
  using lib_okD [OF ok] assms(2) malloc unfolding make_qp_def fresh_qp_def
  by (simp add: run_simps host_alloc set_qp_at_def assms)

lemma allocate_qp_run:
  assumes ok: "lib_ok rdma r d base qs s" and "unat qid < length qs"
    and "heap s pd = Some (O_pd p)" and "heap s dmac = Some (O_mac m)" and "rd_axil_ctl r \<noteq> 0"
  shows "\<exists>qp s' q b1 b2 b3. allocate_rdma_qp e rdma qid dqid pd cq_db rq_db depth HOST_MEM dmac dip pkey rkey s = (Inr qp, s') \<and>
    heap s' qp = Some (O_qp q) \<and> heap s' (qps_ptr r) = Some (O_qps (qs[unat qid := qp])) \<and>
    heap s' (sq q) = Some (O_buf b1) \<and> heap s' (cq q) = Some (O_buf b2) \<and> heap s' (rq q) = Some (O_buf b3) \<and>
    b1 = host_buf paddr base (buffer_offset d) (ucast (rd_num_qp r * depth * 64)) \<and>
    b2 = host_buf paddr base (next_off (buffer_offset d) (ucast (rd_num_qp r * depth * 64))) (ucast (rd_num_qp r * depth * 4)) \<and>
    b3 = host_buf paddr base (next_off (next_off (buffer_offset d) (ucast (rd_num_qp r * depth * 64)))
            (ucast (rd_num_qp r * depth * 4))) (ucast (rd_num_qp r * depth * RQE_SIZE)) \<and>
    heap s' (rd_rn_dev r) = Some (O_rn (d\<lparr>buffer_offset := next_off (next_off (next_off (buffer_offset d)
       (ucast (rd_num_qp r * depth * 64))) (ucast (rd_num_qp r * depth * 4))) (ucast (rd_num_qp r * depth * RQE_SIZE))\<rparr>)) \<and>
    regs s' = apply_writes (rd_axil_ctl r) (qp_regs qid
       (qp_table dqid dip m (dma_addr b1) (dma_addr b2) (dma_addr b3) cq_db rq_db depth pkey (pd_num p))) (regs s)"
proof -
  note d = lib_okD [OF ok]
  obtain q s1 where mk: "make_qp e rdma r qid dqid pd cq_db rq_db depth HOST_MEM dmac dip s = (Inr (Suc (brk s)), s1)"
    and q: "heap s1 (Suc (brk s)) = Some (O_qp q)" "sq q = brk s + 2" "cq q = brk s + 3" "rq q = brk s + 4"
    and b: "heap s1 (brk s + 2) = Some (O_buf (host_buf paddr base (buffer_offset d) (ucast (rd_num_qp r * depth * 64))))"
      "heap s1 (brk s + 3) = Some (O_buf (host_buf paddr base (next_off (buffer_offset d) (ucast (rd_num_qp r * depth * 64)))
         (ucast (rd_num_qp r * depth * 4))))"
      "heap s1 (brk s + 4) = Some (O_buf (host_buf paddr base (next_off (next_off (buffer_offset d)
         (ucast (rd_num_qp r * depth * 64))) (ucast (rd_num_qp r * depth * 4))) (ucast (rd_num_qp r * depth * RQE_SIZE))))"
      "heap s1 (qps_ptr r) = Some (O_qps (qs[unat qid := Suc (brk s)]))"
    and rn: "heap s1 (rd_rn_dev r) = Some (O_rn (d\<lparr>buffer_offset := next_off (next_off (next_off (buffer_offset d)
       (ucast (rd_num_qp r * depth * 64))) (ucast (rd_num_qp r * depth * 4))) (ucast (rd_num_qp r * depth * RQE_SIZE))\<rparr>))"
    and keep: "\<forall>p \<le> brk s. p \<noteq> rd_rn_dev r \<longrightarrow> p \<noteq> qps_ptr r \<longrightarrow> heap s1 p = heap s p"
    and rg: "regs s1 = regs s"
    using make_qp_run [OF ok assms(2), of dqid pd cq_db rq_db depth dmac dip] by blast
  have pm: "heap s1 pd = Some (O_pd p)" "heap s1 dmac = Some (O_mac m)"
    using keep assms(3,4) d ok unfolding lib_ok_def by (metis option.inject option.distinct(1) obj.distinct)+
  show ?thesis
    unfolding allocate_rdma_qp_def
    using d assms(5) mk q b pm rn rg quiet
    by (simp add: run_simps write_regs_passive qp_table_split apply_writes_append del: write_regs_simps)
qed

end


section \<open>The model machine\<close>

lemma le_bytes_prefix: "le_bytes (map (\<lambda>i. ucast (drop_bit (8 * i) x)) [0..<n]) = take_bit (8 * n) x"
proof (induction n arbitrary: x)
  case 0
  show ?case by (simp add: le_bytes_def)
next
  case (Suc n)
  have "[0..<Suc n] = 0 # map Suc [0..<n]" by (simp add: map_Suc_upt upt_conv_Cons)
  then have "le_bytes (map (\<lambda>i. ucast (drop_bit (8 * i) x)) [0..<Suc n]) =
      ucast (ucast x :: u8) OR push_bit 8 (le_bytes (map (\<lambda>i. ucast (drop_bit (8 * i) (drop_bit 8 x))) [0..<n]))"
    by (simp add: le_bytes_def o_def add.commute del: upt_Suc)
  also have "\<dots> = ucast (ucast x :: u8) OR push_bit 8 (take_bit (8 * n) (drop_bit 8 x))" by (simp only: Suc.IH)
  also have "\<dots> = take_bit (8 * Suc n) x"
    by (rule bit_word_eqI) (auto simp: bit_simps)
  finally show ?case .
qed

lemma demo_pagemap: "get_buffer_paddr demo_os a = Inr a"
proof -
  let ?pfn = "a div 4096"
  have "uint a < 18446744073709551616" using uint_lt2p [of a] by simp
  then have "uint ?pfn < 4503599627370496" by (simp add: uint_div_distrib)
  then have small: "uint ?pfn * 8 < 18446744073709551616" by simp
  have "?pfn * 8 div 8 = ?pfn"
  proof (rule word_uint_eqI)
    have "uint (?pfn * 8) = uint ?pfn * 8" using small uint_mult_lem [of ?pfn 8] by simp
    then show "uint (?pfn * 8 div 8) = uint ?pfn" by (simp add: uint_div_distrib)
  qed
  moreover have "take_bit 56 ?pfn AND 0x7FFFFFFFFFFFFF = ?pfn"
  proof -
    have e: "?pfn = drop_bit 12 a" by (simp add: drop_bit_eq_div)
    have k: "0x7FFFFFFFFFFFFF = (mask 55 :: u64)" by (simp add: mask_eq_exp_minus_1)
    show ?thesis unfolding e k
      by (rule bit_word_eqI) (auto simp: bit_simps dest: bit_imp_le_length)
  qed
  moreover have "push_bit 12 ?pfn + ucast (ucast (a mod 4096) :: u32) = a"
  proof -
    have l: "uint (a mod 4096) < 4096" by (simp add: uint_mod_distrib)
    have "ucast (ucast (a mod 4096) :: u32) = a mod 4096"
    proof (rule word_uint_eqI)
      show "uint (ucast (ucast (a mod 4096) :: u32) :: u64) = uint (a mod 4096)"
        using l by (simp add: unsigned_ucast_eq unsigned_take_bit_eq take_bit_int_eq_self)
    qed
    then show ?thesis using mult_div_mod_eq [of 4096 a] by (simp add: push_bit_eq_mult mult.commute)
  qed
  ultimately show ?thesis
    using le_bytes_prefix [of ?pfn 7]
    by (simp add: get_buffer_paddr_def get_page_frame_number_of_address_def demo_os_def Let_def)
qed

interpretation demo: machine demo_os "\<lambda>a. a"
  by unfold_locales (simp_all add: demo_pagemap, simp_all add: demo_os_def)

text \<open>The state with an RDMA device for eight queue pairs, a protection domain and a peer address.\<close>

definition demo_r :: rdma_dev_t where
  "demo_r = \<lparr>rd_rn_dev = 1, glb_csr = 5, qps_ptr = 6, rd_axil_ctl = 0x7f0000000000, rd_num_qp = 8, rd_winSize = 2\<rparr>"

definition demo_base :: rdma_buff_t where
  "demo_base = \<lparr>buffer = 0x12300000000, dma_addr = 0x12300000000, buf_size = 0\<rparr>"

definition demo_pd :: rdma_pd_t where
  "demo_pd = \<lparr>pd_num = 3, virtual_addr_lsb = 0, virtual_addr_msb = 0, dma_addr_lsb = 0, dma_addr_msb = 0,
     pd_r_key = 0, buffer_size_lsb = 0, buffer_size_msb = 0, pd_access_type = 2, mr_buffer = 0\<rparr>"

definition demo_mac :: mac_addr_t where
  "demo_mac = \<lparr>mac_lsb = 0x35029966, mac_msb = 0x000a\<rparr>"

definition demo_rdma :: "unit lib_st" where
  "demo_rdma = \<lparr>regs = (\<lambda>_. 0), accesses = 0, bus_log = [],
     heap = map_of [(1, O_rn (demo_rn\<lparr>rn_rdma_dev := 4\<rparr>)), (2, O_win full_window), (3, O_buf demo_base), (4, O_rdma demo_r),
       (6, O_qps (replicate 8 0)), (7, O_pd demo_pd), (8, O_mac demo_mac)],
     brk = 8, host_mem = (\<lambda>_. 0), char_dev = ()\<rparr>"

lemma demo_rdma_ok:
  "lib_ok 4 demo_r (demo_rn\<lparr>rn_rdma_dev := 4\<rparr>) demo_base (replicate 8 0) demo_rdma"
  "heap demo_rdma 7 = Some (O_pd demo_pd)" "heap demo_rdma 8 = Some (O_mac demo_mac)"
  "heap demo_rdma 4 = Some (O_rdma demo_r)"
  by (auto simp: lib_ok_def demo_rdma_def demo_r_def demo_rn_def split: if_splits)

section \<open>Properties\<close>

text \<open>C18: \<open>allocate_rdma_qp\<close> programs the card with the queues it allocated.  The queue pair is entered
  at its index; the base registers of the send, completion and receive queues, read as two 32-bit
  halves, are the card addresses of the three buffers (a host address cut to 40 bits, as the bridge
  windows expect), the doorbell registers those of the doorbells; peer, depth and protection domain
  are as requested and the queue pair is enabled with interrupts on.\<close>

theorem qp_programmed:
  assumes "machine e paddr" and "lib_ok rdma r d base qs s" and "unat qid < length qs"
    and "heap s pd = Some (O_pd p)" and "heap s dmac = Some (O_mac m)" and "rd_axil_ctl r \<noteq> 0"
  shows "\<exists>qp s' q b1 b2 b3.
    allocate_rdma_qp e rdma qid dqid pd cq_db rq_db depth HOST_MEM dmac dip pkey rkey s = (Inr qp, s') \<and>
    heap s' qp = Some (O_qp q) \<and> heap s' (qps_ptr r) = Some (O_qps (qs[unat qid := qp])) \<and>
    heap s' (sq q) = Some (O_buf b1) \<and> heap s' (cq q) = Some (O_buf b2) \<and> heap s' (rq q) = Some (O_buf b3) \<and>
    uint (qreg r qid s' RN_RDMA_QCSR_SQBAMSBi) * 2 ^ 32 + uint (qreg r qid s' RN_RDMA_QCSR_SQBAi) = card_address (dma_addr b1) \<and>
    uint (qreg r qid s' RN_RDMA_QCSR_CQBAMSBi) * 2 ^ 32 + uint (qreg r qid s' RN_RDMA_QCSR_CQBAi) = card_address (dma_addr b2) \<and>
    uint (qreg r qid s' RN_RDMA_QCSR_RQBAMSBi) * 2 ^ 32 + uint (qreg r qid s' RN_RDMA_QCSR_RQBAi) = card_address (dma_addr b3) \<and>
    uint (qreg r qid s' RN_RDMA_QCSR_CQDBADDMSBi) * 2 ^ 32 + uint (qreg r qid s' RN_RDMA_QCSR_CQDBADDi) = card_address cq_db \<and>
    uint (qreg r qid s' RN_RDMA_QCSR_RQWPTRDBADDMSBi) * 2 ^ 32 + uint (qreg r qid s' RN_RDMA_QCSR_RQWPTRDBADDi) = card_address rq_db \<and>
    qreg r qid s' RN_RDMA_QCSR_DESTQPCONFi = dqid \<and> qreg r qid s' RN_RDMA_QCSR_IPDESADDR1i = dip \<and>
    qreg r qid s' RN_RDMA_QCSR_MACDESADDLSBi = mac_lsb m \<and> qreg r qid s' RN_RDMA_QCSR_MACDESADDMSBi = mac_msb m \<and>
    qreg r qid s' RN_RDMA_QCSR_QDEPTHi = depth OR push_bit 16 depth \<and> qreg r qid s' RN_RDMA_QCSR_PDi = pd_num p \<and>
    qreg r qid s' RN_RDMA_QCSR_QPCONFi AND 0xff = 0x3d"
proof -
  obtain qp s' q b1 b2 b3 where run:
      "allocate_rdma_qp e rdma qid dqid pd cq_db rq_db depth HOST_MEM dmac dip pkey rkey s = (Inr qp, s')"
    and h: "heap s' qp = Some (O_qp q)" "heap s' (qps_ptr r) = Some (O_qps (qs[unat qid := qp]))"
      "heap s' (sq q) = Some (O_buf b1)" "heap s' (cq q) = Some (O_buf b2)" "heap s' (rq q) = Some (O_buf b3)"
    and rg: "regs s' = apply_writes (rd_axil_ctl r) (qp_regs qid
       (qp_table dqid dip m (dma_addr b1) (dma_addr b2) (dma_addr b3) cq_db rq_db depth pkey (pd_num p))) (regs s)"
    using machine.allocate_qp_run [OF assms] by metis
  note w = qreg_written [OF rg qp_table_offsets(1), unfolded qp_table_def]
  have v: "qreg r qid s' RN_RDMA_QCSR_SQBAi = addr_lsb full_window (dma_addr b1)"
    "qreg r qid s' RN_RDMA_QCSR_SQBAMSBi = addr_msb full_window (dma_addr b1)"
    "qreg r qid s' RN_RDMA_QCSR_CQBAi = addr_lsb full_window (dma_addr b2)"
    "qreg r qid s' RN_RDMA_QCSR_CQBAMSBi = addr_msb full_window (dma_addr b2)"
    "qreg r qid s' RN_RDMA_QCSR_RQBAi = addr_lsb full_window (dma_addr b3)"
    "qreg r qid s' RN_RDMA_QCSR_RQBAMSBi = addr_msb full_window (dma_addr b3)"
    "qreg r qid s' RN_RDMA_QCSR_CQDBADDi = addr_lsb full_window cq_db"
    "qreg r qid s' RN_RDMA_QCSR_CQDBADDMSBi = addr_msb full_window cq_db"
    "qreg r qid s' RN_RDMA_QCSR_RQWPTRDBADDi = addr_lsb full_window rq_db"
    "qreg r qid s' RN_RDMA_QCSR_RQWPTRDBADDMSBi = addr_msb full_window rq_db"
    "qreg r qid s' RN_RDMA_QCSR_QPCONFi = qp_config_value"
    by (rule w, simp)+
  have c: "qp_config_value AND 0xff = 0x3d" by code_simp
  show ?thesis
    by (rule exI [of _ qp], rule exI [of _ s'], rule exI [of _ q], rule exI [of _ b1], rule exI [of _ b2],
        rule exI [of _ b3], unfold v addr_halves c) (intro conjI run h refl w; simp)
qed

theorem qp_programmed_witness:
  "\<exists>qp s' q b1. allocate_rdma_qp demo_os 4 2 5 7 0xa350000000001000 0x12300004000 64 HOST_MEM 8 0xc0a80001 0x1234 0x10 demo_rdma = (Inr qp, s') \<and>
    heap s' qp = Some (O_qp q) \<and> heap s' (sq q) = Some (O_buf b1) \<and>
    uint (qreg demo_r 2 s' RN_RDMA_QCSR_SQBAMSBi) * 2 ^ 32 + uint (qreg demo_r 2 s' RN_RDMA_QCSR_SQBAi) = card_address (dma_addr b1) \<and>
    qreg demo_r 2 s' RN_RDMA_QCSR_PDi = 3"
proof -
  have p: "unat (2 :: u32) < length (replicate 8 (0 :: nat))" "rd_axil_ctl demo_r \<noteq> 0" "pd_num demo_pd = 3"
    by (simp_all add: demo_r_def demo_pd_def)
  show ?thesis
    using qp_programmed [OF demo.machine_axioms demo_rdma_ok(1) p(1) demo_rdma_ok(2,3) p(2), of 5
        "0xa350000000001000" "0x12300004000" 64 "0xc0a80001" "0x1234" "0x10", unfolded p(3)] by metis
qed

lemma blocks_apart:
  fixes a b k1 k2 :: int
  assumes "c + 256 * (a - 1) + k1 = c + 256 * (b - 1) + k2" and "k1 < 256" "k2 < 256" "0 \<le> k1" "0 \<le> k2"
  shows "a = b"
proof -
  have e: "256 * a + k1 = 256 * b + k2" using assms(1) by (simp add: algebra_simps)
  have "a = (256 * a + k1) div 256" "b = (256 * b + k2) div 256" using assms(2-5) by simp_all
  then show ?thesis using e by metis
qed

lemma block_addr:
  assumes "1 \<le> q" "q \<le> 0xff" "k < 0x100"
  shows "uint (RN_RDMA_QCSR_QPCONFi + 0x100 * (q - 1) + k) = 0x60200 + 256 * (uint q - 1) + uint k"
proof -
  have b: "1 \<le> uint q" "uint q \<le> 255" "uint k < 256" "0 \<le> uint k" using assms by (simp_all add: word_le_def word_less_def)
  have a: "uint (q - 1) = uint q - 1" using b by (subst uint_sub_small) (simp_all add: word_le_def)
  have m: "uint (0x100 * (q - 1)) = 256 * (uint q - 1)"
    using uint_mult_lem [of "0x100" "q - 1"] a b by simp
  have "uint (RN_RDMA_QCSR_QPCONFi + 0x100 * (q - 1)) = 0x60200 + 256 * (uint q - 1)"
    using uint_add_lem [of RN_RDMA_QCSR_QPCONFi "0x100 * (q - 1)"] m b by (simp add: qcsr_defs)
  then show ?thesis using uint_add_lem [of "RN_RDMA_QCSR_QPCONFi + 0x100 * (q - 1)" k] b by simp
qed

lemma qp_block_disjoint:
  assumes "1 \<le> q1" "q1 \<le> 0xff" "1 \<le> q2" "q2 \<le> 0xff" "q1 \<noteq> q2"
  shows "qp_block q1 \<inter> qp_block q2 = {}"
proof -
  have ne: "uint q1 \<noteq> uint q2" using assms(5) word_uint_eqI by blast
  show ?thesis
  proof (rule ccontr)
    assume "qp_block q1 \<inter> qp_block q2 \<noteq> {}"
    then obtain k1 k2 where k: "k1 < 0x100" "k2 < 0x100"
      "RN_RDMA_QCSR_QPCONFi + 0x100 * (q1 - 1) + k1 = RN_RDMA_QCSR_QPCONFi + 0x100 * (q2 - 1) + k2"
      unfolding qp_block_def using ucast_inj by blast
    have e: "0x60200 + 256 * (uint q1 - 1) + uint k1 = 0x60200 + 256 * (uint q2 - 1) + uint k2"
      using block_addr [of q1 k1] block_addr [of q2 k2] k assms by metis
    have "uint k1 < 256" "uint k2 < 256" "0 \<le> uint k1" "0 \<le> uint k2"
      using k(1,2) by (simp_all add: word_less_def)
    from blocks_apart [OF e this] ne show False by simp
  qed
qed

text \<open>C19: setting up one queue pair leaves every register outside its own 256-byte block as it was,
  and the blocks of two queue pairs with numbers from 1 to 255 have no register in common.\<close>

theorem qp_isolation:
  assumes "machine e paddr" and "lib_ok rdma r d base qs s" and "unat qid < length qs"
    and "heap s pd = Some (O_pd p)" and "heap s dmac = Some (O_mac m)" and "rd_axil_ctl r \<noteq> 0"
    and "allocate_rdma_qp e rdma qid dqid pd cq_db rq_db depth HOST_MEM dmac dip pkey rkey s = (res, s')"
  shows "(\<forall>a. a \<notin> (+) (rd_axil_ctl r) ` qp_block qid \<longrightarrow> regs s' a = regs s a) \<and>
    (1 \<le> qid \<longrightarrow> qid \<le> 0xff \<longrightarrow> (\<forall>q2. 1 \<le> q2 \<longrightarrow> q2 \<le> 0xff \<longrightarrow> q2 \<noteq> qid \<longrightarrow> qp_block qid \<inter> qp_block q2 = {}))"
proof -
  obtain tab where rg: "regs s' = apply_writes (rd_axil_ctl r) (qp_regs qid tab) (regs s)"
    and tab: "\<forall>w \<in> set tab. fst w - RN_RDMA_QCSR_QPCONFi < 0x100"
    using machine.allocate_qp_run [OF assms(1-6), of dqid cq_db rq_db depth dip pkey rkey] assms(7) qp_table_offsets(2)
    by (metis prod.inject)
  have "regs s' a = regs s a" if "a \<notin> (+) (rd_axil_ctl r) ` qp_block qid" for a
    unfolding rg using that qp_regs_in_block [OF tab] by (intro apply_writes_other) blast
  then show ?thesis using qp_block_disjoint by blast
qed

theorem qp_isolation_witness:
  "\<exists>res s'. allocate_rdma_qp demo_os 4 2 5 7 0 0 64 HOST_MEM 8 0xc0a80001 0x1234 0x10 demo_rdma = (res, s') \<and>
    (\<forall>a. a \<notin> (+) (rd_axil_ctl demo_r) ` qp_block 2 \<longrightarrow> regs s' a = regs demo_rdma a)"
proof -
  have p: "unat (2 :: u32) < length (replicate 8 (0 :: nat))" "rd_axil_ctl demo_r \<noteq> 0" by (simp_all add: demo_r_def)
  obtain res s' where r: "allocate_rdma_qp demo_os 4 2 5 7 0 0 64 HOST_MEM 8 0xc0a80001 0x1234 0x10 demo_rdma = (res, s')"
    by (rule prod.exhaust)
  show ?thesis
    using qp_isolation [OF demo.machine_axioms demo_rdma_ok(1) p(1) demo_rdma_ok(2,3) p(2) r] r by blast
qed

lemma next_off_bounds:
  assumes "uint off + uint n + 4096 < 2 ^ 64"
  shows "uint (next_off off n) = uint (align_offset off n) + uint n" "uint off \<le> uint (align_offset off n)"
    "uint (next_off off n) < uint off + uint n + 4096"
proof -
  note al = align_offset_props [OF assms]
  show "uint (next_off off n) = uint (align_offset off n) + uint n"
    unfolding next_off_def using uint_add_lem [of "align_offset off n" n] al(2) assms by simp
  then show "uint (next_off off n) < uint off + uint n + 4096" using al(2) by simp
  show "uint off \<le> uint (align_offset off n)" by (rule al(1))
qed

text \<open>C20: The send, completion and receive queue that the allocation of a queue pair in host memory creates lie one after
  the other in the host region, at or above the offset of the next free byte before the call, and do not overlap; after the
  call that offset lies at or above the end of the receive queue, so that no later buffer overlaps them either.  Their sizes
  are the 32-bit products that the code computes from the number of queue pairs and the depth (which may wrap), and the
  offset before the call is below \<open>2 ^ 63\<close>.\<close>

theorem qp_queues_disjoint:
  assumes "machine e paddr" and "lib_ok rdma r d base qs s" and "unat qid < length qs"
    and "heap s pd = Some (O_pd p)" and "heap s dmac = Some (O_mac m)" and "rd_axil_ctl r \<noteq> 0"
    and "uint (buffer_offset d) < 2 ^ 63"
  shows "\<exists>qp s' q b1 b2 b3 x1 x2 x3 d'.
    allocate_rdma_qp e rdma qid dqid pd cq_db rq_db depth HOST_MEM dmac dip pkey rkey s = (Inr qp, s') \<and>
    heap s' qp = Some (O_qp q) \<and>
    heap s' (sq q) = Some (O_buf b1) \<and> heap s' (cq q) = Some (O_buf b2) \<and> heap s' (rq q) = Some (O_buf b3) \<and>
    buffer b1 = buffer base + x1 \<and> buffer b2 = buffer base + x2 \<and> buffer b3 = buffer base + x3 \<and>
    buf_size b1 = rd_num_qp r * depth * 64 \<and> buf_size b2 = rd_num_qp r * depth * 4 \<and>
    buf_size b3 = rd_num_qp r * depth * RQE_SIZE \<and>
    uint (buffer_offset d) \<le> uint x1 \<and> uint x1 + uint (buf_size b1) \<le> uint x2 \<and>
    uint x2 + uint (buf_size b2) \<le> uint x3 \<and> uint x3 + uint (buf_size b3) < 2 ^ 64 \<and>
    heap s' (rd_rn_dev r) = Some (O_rn d') \<and> uint x3 + uint (buf_size b3) \<le> uint (buffer_offset d')"
proof -
  let ?n1 = "ucast (rd_num_qp r * depth * 64) :: u64" and ?n2 = "ucast (rd_num_qp r * depth * 4) :: u64"
    and ?n3 = "ucast (rd_num_qp r * depth * RQE_SIZE) :: u64"
  let ?o1 = "buffer_offset d" let ?o2 = "next_off ?o1 ?n1" let ?o3 = "next_off ?o2 ?n2"
  have up: "uint (ucast v :: u64) = uint (v :: u32)" "uint v < 4294967296" for v :: u32
    using uint_lt2p [of v] by (simp_all add: unsigned_ucast_eq take_bit_int_eq_self)
  have dn: "ucast (ucast v :: u64) = v" for v :: u32
    by (rule bit_word_eqI) (auto simp: bit_simps dest: bit_imp_le_length)
  have l1: "uint ?o1 < 9223372036854775808" using assms(7) by simp
  have c1: "uint ?o1 + uint ?n1 + 4096 < 2 ^ 64" using l1 up(1,2) [of "rd_num_qp r * depth * 64"] by simp
  note s1 = next_off_bounds [OF c1]
  have c2: "uint ?o2 + uint ?n2 + 4096 < 2 ^ 64"
    using l1 s1(3) up(1,2) [of "rd_num_qp r * depth * 64"] up(1,2) [of "rd_num_qp r * depth * 4"] by simp
  note s2 = next_off_bounds [OF c2]
  have c3: "uint ?o3 + uint ?n3 + 4096 < 2 ^ 64"
    using l1 s1(3) s2(3) up(1,2) [of "rd_num_qp r * depth * 64"] up(1,2) [of "rd_num_qp r * depth * 4"]
      up(1,2) [of "rd_num_qp r * depth * RQE_SIZE"] by simp
  note s3 = next_off_bounds [OF c3]
  have last: "uint (align_offset ?o3 ?n3) + uint ?n3 < 2 ^ 64" using s3(1) uint_lt2p [of "next_off ?o3 ?n3"] by simp
  obtain qp s' q where run: "allocate_rdma_qp e rdma qid dqid pd cq_db rq_db depth HOST_MEM dmac dip pkey rkey s = (Inr qp, s')"
    and h: "heap s' qp = Some (O_qp q)" "heap s' (sq q) = Some (O_buf (host_buf paddr base ?o1 ?n1))"
      "heap s' (cq q) = Some (O_buf (host_buf paddr base ?o2 ?n2))" "heap s' (rq q) = Some (O_buf (host_buf paddr base ?o3 ?n3))"
    "heap s' (rd_rn_dev r) = Some (O_rn (d\<lparr>buffer_offset := next_off ?o3 ?n3\<rparr>))"
    using machine.allocate_qp_run [OF assms(1-6), of dqid cq_db rq_db depth dip pkey rkey] by metis
  show ?thesis
    by (rule exI [of _ qp], rule exI [of _ s'], rule exI [of _ q], rule exI [of _ "host_buf paddr base ?o1 ?n1"],
        rule exI [of _ "host_buf paddr base ?o2 ?n2"], rule exI [of _ "host_buf paddr base ?o3 ?n3"],
        rule exI [of _ "align_offset ?o1 ?n1"], rule exI [of _ "align_offset ?o2 ?n2"], rule exI [of _ "align_offset ?o3 ?n3"],
        rule exI [of _ "d\<lparr>buffer_offset := next_off ?o3 ?n3\<rparr>"])
      (use run h s1 s2 s3 last in \<open>simp add: host_buf_def up dn\<close>)
qed

theorem qp_queues_disjoint_witness:
  "\<exists>qp s' q b1 b2 b3.
    allocate_rdma_qp demo_os 4 2 5 7 0 0 64 HOST_MEM 8 0xc0a80001 0x1234 0x10 demo_rdma = (Inr qp, s') \<and>
    heap s' qp = Some (O_qp q) \<and>
    heap s' (sq q) = Some (O_buf b1) \<and> heap s' (cq q) = Some (O_buf b2) \<and> heap s' (rq q) = Some (O_buf b3) \<and>
    buf_size b1 = 8 * 64 * 64 \<and> buf_size b3 = 8 * 64 * RQE_SIZE"
proof -
  have p: "unat (2 :: u32) < length (replicate 8 (0 :: nat))" "rd_axil_ctl demo_r \<noteq> 0" "rd_num_qp demo_r = 8"
    "uint (buffer_offset (demo_rn\<lparr>rn_rdma_dev := 4\<rparr>)) < 2 ^ 63" by (simp_all add: demo_r_def demo_rn_def)
  show ?thesis
    using qp_queues_disjoint [OF demo.machine_axioms demo_rdma_ok(1) p(1) demo_rdma_ok(2,3) p(2,4), of 5 0 0 64
        "0xc0a80001" "0x1234" "0x10", unfolded p(3)] by metis
qed

text \<open>The sizes are 32-bit products: with 255 queue pairs of depth 32897 the receive queue of 4 GB is
  allocated as 65024 bytes.  And a queue pair numbered 0, which \<open>qps_ptr\<close> accepts, has the global
  status registers as its block.\<close>

lemma rq_size_wraps: "(255 :: u32) * 32897 * RQE_SIZE = 65024"
  by (simp add: RQE_SIZE_def)

lemma qp_zero_hits_global:
  "get_rdma_per_q_config_addr RN_RDMA_QCSR_PDi 0 = RN_RDMA_GCSR_CQINTSTS1"
  by (simp add: get_rdma_per_q_config_addr_def qcsr_defs gcsr_defs)

end
