(* ===== verification/Lib_Rdma_Wqe.thy ===== *)
theory Lib_Rdma_Wqe
  imports Lib_Rdma_Props Onic_Cdev
begin

text \<open>
  Work queue entries arrive: the 64 bytes \<open>create_a_wqe\<close> leaves in the slot of the send queue, in
  host memory or, through the character device, in the card's memory, stand for the request.
\<close>

section \<open>Reading an entry back\<close>

definition get16 :: "(nat \<Rightarrow> u8) \<Rightarrow> nat \<Rightarrow> u16" where
  "get16 f i = ucast (f i) OR push_bit 8 (ucast (f (i + 1)))"

definition get32 :: "(nat \<Rightarrow> u8) \<Rightarrow> nat \<Rightarrow> u32" where
  "get32 f i = ucast (f i) OR push_bit 8 (ucast (f (i + 1))) OR push_bit 16 (ucast (f (i + 2))) OR
     push_bit 24 (ucast (f (i + 3)))"

definition decode_wqe :: "(nat \<Rightarrow> u8) \<Rightarrow> rdma_wqe_t" where
  "decode_wqe f = \<lparr>wrid = get16 f 0, laddr_low = get32 f 4, laddr_high = get32 f 8, wqe_length = get32 f 12,
     opcode = get32 f 16, remote_offset_low = get32 f 20, remote_offset_high = get32 f 24, wqe_r_key = get32 f 28,
     send_small_payload0 = get32 f 32, send_small_payload1 = get32 f 36, send_small_payload2 = get32 f 40,
     send_small_payload3 = get32 f 44, immdt_data = get32 f 48\<rparr>"

lemma le16_back: "ucast (ucast v :: u8) OR push_bit 8 (ucast (ucast (drop_bit 8 v) :: u8)) = (v :: u16)"
  by (rule bit_word_eqI) (auto simp: bit_simps dest: bit_imp_le_length)

lemma le32_back:
  "ucast (ucast v :: u8) OR push_bit 8 (ucast (ucast (drop_bit 8 v) :: u8)) OR
   push_bit 16 (ucast (ucast (drop_bit 16 v) :: u8)) OR push_bit 24 (ucast (ucast (drop_bit 24 v) :: u8)) = (v :: u32)"
  (is "?l = v")
proof (rule bit_word_eqI)
  fix n assume "n < LENGTH(32)"
  then consider "n < 8" | "8 \<le> n" "n < 16" | "16 \<le> n" "n < 24" | "24 \<le> n" "n < 32" by fastforce
  then show "bit ?l n = bit v n" by cases (auto simp: bit_simps)
qed

lemma wqe_bytes_length [simp]: "length (wqe_bytes q) = 64"
  by (simp add: wqe_bytes_def le16_def le32_def)

lemma decode_wqe_bytes: "decode_wqe (\<lambda>i. wqe_bytes q ! i) = q"
  by (simp add: decode_wqe_def get16_def get32_def wqe_bytes_def le16_def le32_def le16_back le32_back)

lemma poke_nth:
  assumes "i < length bs" "length bs < 2 ^ 64"
  shows "poke a bs m (a + of_nat i) = bs ! i"
proof -
  have "unat (of_nat i :: u64) = i" using assms by (simp only: unat_of_nat) simp
  then show ?thesis using assms by (simp add: poke_def)
qed

lemma decode_cong: "(\<And>i. i < 64 \<Longrightarrow> f i = g i) \<Longrightarrow> decode_wqe f = decode_wqe g"
  by (simp add: decode_wqe_def get16_def get32_def)

lemma decode_poked: "decode_wqe (\<lambda>i. poke a (wqe_bytes q) m (a + of_nat i)) = q"
  using decode_cong [of "\<lambda>i. poke a (wqe_bytes q) m (a + of_nat i)" "\<lambda>i. wqe_bytes q ! i"]
  by (simp add: poke_nth decode_wqe_bytes)

section \<open>A machine with a queue pair\<close>

definition demo_qp :: rdma_qp_t where
  "demo_qp = \<lparr>qp_rdma_dev = 4, qpid = 2, sq = 11, sq_psn = 0, sq_pidb = 0, sq_cidb = 0, cq = 12, cq_cidb_addr = 0,
     cq_cidb = 0, rq = 13, rq_cidb_addr = 0, rq_cidb = 0, rq_pidb = 0, qp_pd_num = 3, pd_entry = 7, dst_qpid = 5,
     qdepth = 64, last_rq_psn = 0, dst_mac = 8, dst_ip = 0\<rparr>"

definition demo_sq :: "u64 \<Rightarrow> rdma_buff_t" where
  "demo_sq a = \<lparr>buffer = a, dma_addr = a, buf_size = 32768\<rparr>"

definition demo_post :: "u64 \<Rightarrow> 'd \<Rightarrow> 'd lib_st" where
  "demo_post a c = \<lparr>regs = (\<lambda>_. 0), accesses = 0, bus_log = [],
     heap = map_of [(1, O_rn demo_rn), (2, O_win full_window), (3, O_buf demo_base), (4, O_rdma demo_r),
       (6, O_qps [0, 0, 10, 0, 0, 0, 0, 0]), (7, O_pd demo_pd), (8, O_mac demo_mac), (10, O_qp demo_qp),
       (11, O_buf (demo_sq a)), (12, O_buf demo_base), (13, O_buf demo_base)],
     brk = 13, host_mem = (\<lambda>_. 0), char_dev = c\<rparr>"

lemma demo_post_heap:
  "heap (demo_post a c) 4 = Some (O_rdma demo_r)" "heap (demo_post a c) (rd_winSize demo_r) = Some (O_win full_window)"
  "heap (demo_post a c) (qps_ptr demo_r) = Some (O_qps [0, 0, 10, 0, 0, 0, 0, 0])"
  "unat (2 :: u32) < length [0, 0, 10, 0, 0, 0, 0, 0 :: nat]"
  "heap (demo_post a c) ([0, 0, 10, 0, 0, 0, 0, 0] ! unat (2 :: u32)) = Some (O_qp demo_qp)"
  "heap (demo_post a c) (sq demo_qp) = Some (O_buf (demo_sq a))"
  by (simp_all add: demo_post_def demo_r_def demo_qp_def)

definition ram_os :: "umem cdev os" where
  "ram_os = \<lparr>os_hw = hw_passive, os_debug = False, os_getenv_debug = False, os_malloc = (\<lambda>_. True),
     os_junk = (\<lambda>_. 0), os_malloc_addr = (\<lambda>_. 0x5008), os_page_size = 4096, os_pagemap = None,
     os_open = (\<lambda>_. 3), os_mmap_bar = (\<lambda>_. 0x7f0000000000), os_mmap_huge = (\<lambda>_. 0x12300000000),
     os_mlock = (\<lambda>_ _. True), os_lseek = lseek_set, os_write = onic_cdev_write ram_kernel\<rparr>"

lemma ram_cdev_ready: "cdev_ready (\<lambda>_. True) ram_cdev"
  using init_pool_idle [of 2] by (simp add: cdev_ready_def ram_cdev_def onic_init_cdev_def)

section \<open>Properties\<close>

text \<open>The entry, field by field: identifier, length, key, payload and immediate data as given, the low byte of the
  operation code, the remote address whole, and a local address that is whole in card memory and masked by the window of
  the host region in host memory.\<close>

lemma addr_in_halves:
  "uint (ucast (drop_bit 32 (a AND 0xffffffff00000000)) :: u32) * 2 ^ 32 + uint (ucast (a AND 0x00000000ffffffff) :: u32) =
   uint (a :: u64)"
  "(ucast (a AND 0x00000000ffffffff) :: u32) = ucast a"
  "(ucast (drop_bit 32 (a AND 0xffffffff00000000)) :: u32) = ucast (drop_bit 32 a)"
proof -
  show lo: "(ucast (a AND 0x00000000ffffffff) :: u32) = ucast a"
    by (rule bit_word_eqI) (auto simp: mask_consts bit_simps dest: bit_imp_le_length)
  show "(ucast (drop_bit 32 (a AND 0xffffffff00000000)) :: u32) = ucast (drop_bit 32 a)"
    by (rule bit_word_eqI) (auto simp: mask_consts bit_simps dest: bit_imp_le_length)
  show "uint (ucast (drop_bit 32 (a AND 0xffffffff00000000)) :: u32) * 2 ^ 32 + uint (ucast (a AND 0x00000000ffffffff) :: u32) = uint a"
    unfolding low_half uint_high_half by simp
qed

text \<open>C21: In a send queue in host memory the 64 bytes of slot \<open>wqe_idx\<close>, read in little-endian order at the offsets
  of the hardware's entry, are the request: the identifier, the length, the low byte of the operation code, the key, the
  payload and the immediate data are the arguments, the two halves of the remote address give the remote address, and the
  two halves of the local address give a local address in card memory as it is, and one in host memory masked by the window
  of the bridge.  No other byte of the process changes, and no register is touched.\<close>

theorem host_wqe_roundtrip:
  assumes "heap s rdma = Some (O_rdma r)" and "heap s (rd_winSize r) = Some (O_win w)"
    and "heap s (qps_ptr r) = Some (O_qps qs)" and "unat qid < length qs" and "heap s (qs ! unat qid) = Some (O_qp q)"
    and "heap s (sq q) = Some (O_buf b)" and "\<not> is_device_address (dma_addr b)"
  shows "\<exists>s' d. create_a_wqe e rdma qid wid idx laddr len op roff key p0 p1 p2 p3 imm s = (Inr (), s') \<and>
    d = decode_wqe (\<lambda>i. host_mem s' (buffer b + ucast idx * 64 + of_nat i)) \<and>
    wrid d = wid \<and> wqe_length d = len \<and> opcode d = op AND 0xff \<and> wqe_r_key d = key \<and>
    uint (remote_offset_high d) * 2 ^ 32 + uint (remote_offset_low d) = uint roff \<and>
    (is_device_address laddr \<longrightarrow> uint (laddr_high d) * 2 ^ 32 + uint (laddr_low d) = uint laddr) \<and>
    (\<not> is_device_address laddr \<longrightarrow> laddr_high d = ucast (drop_bit 32 laddr) AND win_size_msb w \<and>
       laddr_low d = ucast laddr AND win_size_lsb w) \<and>
    [send_small_payload0 d, send_small_payload1 d, send_small_payload2 d, send_small_payload3 d, immdt_data d] =
      [p0, p1, p2, p3, imm] \<and>
    (\<forall>x. \<not> x - (buffer b + ucast idx * 64) < 64 \<longrightarrow> host_mem s' x = host_mem s x) \<and>
    heap s' = heap s \<and> regs s' = regs s \<and> bus_log s' = bus_log s"
proof -
  let ?a = "buffer b + ucast idx * 64" and ?q = "build_wqe w wid laddr len op roff key p0 p1 p2 p3 imm"
  let ?s = "s\<lparr>host_mem := poke ?a (wqe_bytes ?q) (host_mem s)\<rparr>"
  have run: "create_a_wqe e rdma qid wid idx laddr len op roff key p0 p1 p2 p3 imm s = (Inr (), ?s)"
    unfolding create_a_wqe_def using assms by (simp add: run_simps qp_at_def Let_def)
  have dec: "?q = decode_wqe (\<lambda>i. host_mem ?s (?a + of_nat i))" by (simp add: decode_poked)
  have frame: "\<forall>x. \<not> x - ?a < 64 \<longrightarrow> host_mem ?s x = host_mem s x" by (simp add: poke_def word_less_nat_alt)
  show ?thesis
    by (rule exI [of _ ?s], rule exI [of _ ?q], intro conjI, rule run, rule dec)
      (use frame addr_in_halves(1) [of roff] addr_in_halves(1) [of laddr] addr_in_halves(2,3) in \<open>simp_all add: build_wqe_def\<close>)
qed

theorem host_wqe_roundtrip_witness:
  "\<exists>s' d. create_a_wqe demo_os 4 2 7 3 0xa350000000008000 256 4 0x1000 0x10 1 2 3 4 5 (demo_post 0x12300000000 ()) = (Inr (), s') \<and>
    d = decode_wqe (\<lambda>i. host_mem s' (0x12300000000 + ucast (3 :: u32) * 64 + of_nat i)) \<and>
    wrid d = 7 \<and> wqe_r_key d = 0x10 \<and> uint (laddr_high d) * 2 ^ 32 + uint (laddr_low d) = 0xa350000000008000"
proof -
  have d: "\<not> is_device_address (dma_addr (demo_sq 0x12300000000))" "buffer (demo_sq 0x12300000000) = 0x12300000000"
    "is_device_address 0xa350000000008000"
    by (simp_all add: demo_sq_def is_device_address_def DEVICE_MEM_OFFSET_def)
  obtain s' d where "create_a_wqe demo_os 4 2 7 3 0xa350000000008000 256 4 0x1000 0x10 1 2 3 4 5 (demo_post 0x12300000000 ()) = (Inr (), s')"
    "d = decode_wqe (\<lambda>i. host_mem s' (0x12300000000 + ucast (3 :: u32) * 64 + of_nat i))"
    "wrid d = 7" "wqe_r_key d = 0x10" "uint (laddr_high d) * 2 ^ 32 + uint (laddr_low d) = uint (0xa350000000008000 :: u64)"
    using host_wqe_roundtrip [OF demo_post_heap d(1), of demo_os 7 3 "0xa350000000008000" 256 4 "0x1000" "0x10" 1 2 3 4 5 "()",
        unfolded d(2)] d(3) by metis
  then show ?thesis by (intro exI [of _ s'] exI [of _ d]) simp
qed

lemma blit_of_poke:
  "i < 64 \<Longrightarrow> blit a (poke a bs m) dst 64 t (dst + of_nat i) = poke a bs m (a + of_nat i)"
proof -
  assume i: "i < 64"
  then have "unat (of_nat i :: u64) = i" by (simp only: unat_of_nat) simp
  then have "(of_nat i :: u64) < 64" using i by (simp add: word_less_nat_alt)
  then show ?thesis by (simp add: blit_def)
qed

text \<open>in a send queue in card memory the entry goes through \<open>write_from_buffer\<close> and the character
  device, and the 64 bytes at the (masked) card address of the slot decode to the request; no other
  byte of the card changes.\<close>

theorem card_wqe_roundtrip:
  assumes "mm_engine k rw emem egood" and "os_lseek e = lseek_set" and "os_write e = onic_cdev_write k"
    and "cdev_ready egood (char_dev s)" and "os_malloc e (brk s)"
    and "heap s rdma = Some (O_rdma r)" and "heap s (rd_winSize r) = Some (O_win w)"
    and "heap s (qps_ptr r) = Some (O_qps qs)" and "unat qid < length qs" and "heap s (qs ! unat qid) = Some (O_qp q)"
    and "heap s (sq q) = Some (O_buf b)" and "is_device_address (dma_addr b)"
  shows "\<exists>s'. create_a_wqe e rdma qid wid idx laddr len op roff key p0 p1 p2 p3 imm s = (Inr (), s') \<and>
    decode_wqe (\<lambda>i. emem (engine (char_dev s')) (((dma_addr b + ucast idx * 64) AND DEVICE_MEMORY_ADDRESS_MASK) + of_nat i)) =
      build_wqe w wid laddr len op roff key p0 p1 p2 p3 imm \<and>
    (\<forall>x. \<not> x - ((dma_addr b + ucast idx * 64) AND DEVICE_MEMORY_ADDRESS_MASK) < 64 \<longrightarrow>
       emem (engine (char_dev s')) x = emem (engine (char_dev s)) x) \<and>
    host_mem s' = host_mem s"
proof -
  let ?a = "dma_addr b + ucast idx * 64" and ?q = "build_wqe w wid laddr len op roff key p0 p1 p2 p3 imm"
  let ?t = "os_malloc_addr e (brk s)"
  let ?m = "poke ?t (wqe_bytes ?q) (host_mem s)"
  obtain c1 where wr: "write_from_buffer lseek_set (onic_cdev_write k) ?t 64 ?a ?m (char_dev s) = (64, c1)"
    and mem: "emem (engine c1) = blit ?t ?m (?a AND DEVICE_MEMORY_ADDRESS_MASK) 64 (emem (engine (char_dev s)))"
    using mm_engine.card_write [OF assms(1,4), of 64 ?t ?a ?m] by auto
  have run: "create_a_wqe e rdma qid wid idx laddr len op roff key p0 p1 p2 p3 imm s =
      (Inr (), s\<lparr>brk := Suc (brk s), char_dev := c1\<rparr>)"
    unfolding create_a_wqe_def using assms(2,3,5-12) wr
    by (simp add: run_simps qp_at_def Let_def write_wqe_to_card_def)
  have dec: "decode_wqe (\<lambda>i. emem (engine c1) ((?a AND DEVICE_MEMORY_ADDRESS_MASK) + of_nat i)) = ?q"
    using decode_cong [of "\<lambda>i. emem (engine c1) ((?a AND DEVICE_MEMORY_ADDRESS_MASK) + of_nat i)"
        "\<lambda>i. poke ?t (wqe_bytes ?q) (host_mem s) (?t + of_nat i)"]
    unfolding mem by (simp add: blit_of_poke decode_poked)
  show ?thesis
    by (rule exI, intro conjI, rule run) (simp_all add: dec, simp add: mem blit_def)
qed

theorem card_wqe_roundtrip_witness:
  "\<exists>s'. create_a_wqe ram_os 4 2 7 3 0x12300008000 256 4 0x1000 0x10 1 2 3 4 5 (demo_post 0xa350000000002000 ram_cdev) = (Inr (), s') \<and>
    decode_wqe (\<lambda>i. engine (char_dev s') (((0xa350000000002000 + ucast (3 :: u32) * 64) AND DEVICE_MEMORY_ADDRESS_MASK) + of_nat i)) =
      build_wqe full_window 7 0x12300008000 256 4 0x1000 0x10 1 2 3 4 5"
proof -
  have d: "is_device_address (dma_addr (demo_sq 0xa350000000002000))" "dma_addr (demo_sq 0xa350000000002000) = 0xa350000000002000"
    by (simp_all add: demo_sq_def is_device_address_def DEVICE_MEM_OFFSET_def)
  have o: "os_lseek ram_os = lseek_set" "os_write ram_os = onic_cdev_write ram_kernel" "\<And>i. os_malloc ram_os i"
    by (simp_all add: ram_os_def)
  have c: "cdev_ready (\<lambda>_. True) (char_dev (demo_post 0xa350000000002000 ram_cdev))"
    by (simp add: demo_post_def ram_cdev_ready)
  show ?thesis
    using card_wqe_roundtrip [OF ram.mm_engine_axioms o(1,2) c o(3) demo_post_heap d(1), of 7 3 "0x12300008000" 256 4
        "0x1000" "0x10" 1 2 3 4 5, unfolded d(2)] by metis
qed

end
