(* ===== verification/Lib_Rdma_Doorbell.thy ===== *)
theory Lib_Rdma_Doorbell
  imports Lib_Rdma_Wqe
begin

text \<open>
  Doorbells and completions, on a card that may change its registers at any moment: how long
  \<open>poll_cq_cidb\<close> waits, what \<open>rdma_post_send\<close> reports, what an overflowing batch does, where a
  received entry is.
\<close>

section \<open>Code that only reads registers\<close>

definition is_read :: "bus_event \<Rightarrow> bool" where
  "is_read ev = (case ev of Bus_read _ _ \<Rightarrow> True | Bus_write _ _ \<Rightarrow> False)"

lemma is_read_simps [simp]: "is_read (Bus_read a v)" "\<not> is_read (Bus_write a v)"
  by (simp_all add: is_read_def)

definition extends :: "nat \<Rightarrow> 'd lib_st \<Rightarrow> 'd lib_st \<Rightarrow> bool" where
  "extends k s s' \<longleftrightarrow> heap s' = heap s \<and> brk s' = brk s \<and> host_mem s' = host_mem s \<and> char_dev s' = char_dev s \<and>
     (\<exists>rs. bus_log s' = bus_log s @ rs \<and> (\<forall>ev \<in> set rs. is_read ev) \<and> length rs \<le> k)"

lemma extends_refl [simp]: "extends k s s"
  by (auto simp: extends_def)

lemma extends_trans: "extends k s t \<Longrightarrow> extends l t u \<Longrightarrow> extends (k + l) s u"
  unfolding extends_def
proof (elim conjE exE, intro conjI)
  fix rs rs'
  assume "bus_log t = bus_log s @ rs" "bus_log u = bus_log t @ rs'" "\<forall>ev \<in> set rs. is_read ev" "\<forall>ev \<in> set rs'. is_read ev"
    "length rs \<le> k" "length rs' \<le> l"
  then show "\<exists>rs. bus_log u = bus_log s @ rs \<and> (\<forall>ev \<in> set rs. is_read ev) \<and> length rs \<le> k + l"
    by (intro exI [of _ "rs @ rs'"]) auto
qed simp_all

lemma extends_mono: "extends k s t \<Longrightarrow> k \<le> l \<Longrightarrow> extends l s t"
  unfolding extends_def by (meson order_trans)

text \<open>On a heap \<open>H\<close> the code completes after at most \<open>k\<close> register reads and changes nothing else.\<close>

definition only_reads :: "(nat \<Rightarrow> obj option) \<Rightarrow> nat \<Rightarrow> ('d, 'a) lop \<Rightarrow> bool" where
  "only_reads H k m \<longleftrightarrow> (\<forall>s. heap s = H \<longrightarrow> (\<exists>v s'. m s = (Inr v, s') \<and> extends k s s'))"

lemma only_readsD: "only_reads (heap s) k m \<Longrightarrow> \<exists>v s'. m s = (Inr v, s') \<and> extends k s s'"
  by (simp add: only_reads_def)

lemma only_reads_ret: "only_reads H k (ret x)"
  by (simp add: only_reads_def run_simps)

lemma only_reads_bind:
  fixes m :: "('d, 'a) lop" and f :: "'a \<Rightarrow> ('d, 'b) lop"
  assumes "only_reads H k m" and "\<And>x. only_reads H l (f x)"
  shows "only_reads H (k + l) (bind m f)"
  unfolding only_reads_def
proof (intro allI impI)
  fix s :: "'d lib_st" assume s: "heap s = H"
  obtain v t where t: "m s = (Inr v, t)" "extends k s t" using assms(1) s by (auto simp: only_reads_def)
  have "heap t = H" using t(2) s by (simp add: extends_def)
  then obtain y u where u: "f v t = (Inr y, u)" "extends l t u" using assms(2) unfolding only_reads_def by blast
  show "\<exists>v s'. bind m f s = (Inr v, s') \<and> extends (k + l) s s'"
    using t u extends_trans by (auto simp: bind_run t(1))
qed

lemma only_reads_seq: "only_reads H k m \<Longrightarrow> only_reads H l m' \<Longrightarrow> only_reads H (k + l) (seq m m')"
  unfolding seq_def by (rule only_reads_bind)

lemma only_reads_read: "only_reads H 1 (read32_data hw b off)"
  by (auto simp: only_reads_def extends_def run_simps)

lemma only_reads_discard: "only_reads H k m \<Longrightarrow> only_reads H k (discard m)"
  unfolding discard_def using only_reads_bind [of H k m 0 "\<lambda>_. ret ()", OF _ only_reads_ret] by simp

lemma only_reads_seq_list: "\<forall>m \<in> set ms. only_reads H 1 m \<Longrightarrow> only_reads H (length ms) (seq_list ms)"
proof (induction ms)
  case (Cons m ms)
  then have "only_reads H (1 + length ms) (seq m (seq_list ms))" by (intro only_reads_seq) auto
  then show ?case by simp
qed (simp add: only_reads_ret)

lemma only_reads_when: "only_reads H k m \<Longrightarrow> only_reads H k (cwhen b m)"
  by (simp add: cwhen_def only_reads_ret)

lemma only_reads_load: "H p = Some (O_rdma r) \<Longrightarrow> only_reads H k (f r) \<Longrightarrow> only_reads H k (bind (load_rdma p) f)"
  by (auto simp: only_reads_def run_simps)

lemma dump_reads:
  assumes "H rdma = Some (O_rdma r)"
  shows "only_reads H 49 (dump_registers e rdma is_sender qid)"
proof -
  have each: "only_reads H (length rs) (seq_list (map (\<lambda>reg. discard (read32_data hw b (f reg))) rs))" for hw b f and rs :: "u32 list"
  proof -
    have "\<forall>m \<in> set (map (\<lambda>reg. discard (read32_data hw b (f reg))) rs). only_reads H 1 m"
      using only_reads_discard [OF only_reads_read] by auto
    from only_reads_seq_list [OF this] show ?thesis by (simp only: length_map)
  qed
  have len: "length dump_gcsr = 38" "length dump_qcsr = 10" by (simp_all add: dump_gcsr_def dump_qcsr_def)
  have a: "only_reads H 38 (seq_list (map (\<lambda>reg. discard (read32_data (os_hw e) (rd_axil_ctl r) (ucast reg))) dump_gcsr))"
    using each [of dump_gcsr] unfolding len .
  have b: "only_reads H 10 (seq_list (map (\<lambda>reg. discard (q_read e r reg qid)) dump_qcsr))"
    using each [of dump_qcsr] unfolding len q_read_def .
  have c: "only_reads H 1 (cwhen is_sender (discard (q_read e r RN_RDMA_QCSR_SQPIi qid)))"
    unfolding q_read_def by (intro only_reads_when only_reads_discard only_reads_read)
  show ?thesis
    unfolding dump_registers_def
    by (rule only_reads_load, rule assms) (use only_reads_seq [OF a only_reads_seq [OF b c]] in simp)
qed

section \<open>Waiting for a completion\<close>

lemma after_reads_extends: "extends n s (after_reads hw a n s)"
proof (induction n arbitrary: s)
  case (Suc n)
  have "extends 1 s (snd (read32_data hw a 0 s))" by (auto simp: extends_def run_simps)
  from extends_trans [OF this Suc] show ?case by simp
qed simp

lemma cq_wait_found:
  assumes "\<forall>i < j. nth_read hw (b + off) i s = sqc" and "nth_read hw (b + off) j s \<noteq> sqc" and "j < k"
  shows "cq_wait k (read32_data hw b off) sqc sqc s =
    (Inr (Some (nth_read hw (b + off) j s)), after_reads hw (b + off) (Suc j) s)"
  using assms
proof (induction k arbitrary: j s)
  case (Suc k)
  let ?s = "after_reads hw (b + off) (Suc 0) s"
  have step: "cq_wait (Suc k) (read32_data hw b off) sqc sqc s =
      cq_wait k (read32_data hw b off) sqc (nth_read hw (b + off) 0 s) ?s"
    by (simp add: bind_run(1) [OF read32_as_nth] del: after_reads.simps)
  show ?case
  proof (cases j)
    case 0
    then show ?thesis using Suc.prems(2) unfolding step by (cases k) (simp_all add: ret_def)
  next
    case j: (Suc i)
    have "nth_read hw (b + off) 0 s = sqc" using Suc.prems(1) j by simp
    moreover have "cq_wait k (read32_data hw b off) sqc sqc ?s =
        (Inr (Some (nth_read hw (b + off) i ?s)), after_reads hw (b + off) (Suc i) ?s)"
      using Suc.prems j by (intro Suc.IH) (auto simp: nth_read_Suc [symmetric] simp del: after_reads.simps)
    ultimately show ?thesis
      unfolding step j by (simp add: nth_read_Suc del: after_reads.simps) (simp add: after_reads_Suc)
  qed
qed simp

lemma cq_wait_timeout:
  assumes "\<forall>i < k. nth_read hw (b + off) i s = sqc"
  shows "cq_wait k (read32_data hw b off) sqc sqc s = (Inr None, after_reads hw (b + off) (Suc k) s)"
  using assms
proof (induction k arbitrary: s)
  case 0
  then show ?case by (simp add: bind_run(1) [OF read32_as_nth] ret_def del: after_reads.simps)
next
  case (Suc k)
  let ?s = "after_reads hw (b + off) (Suc 0) s"
  have "nth_read hw (b + off) 0 s = sqc" using Suc.prems by simp
  moreover have "cq_wait k (read32_data hw b off) sqc sqc ?s = (Inr None, after_reads hw (b + off) (Suc k) ?s)"
    using Suc.prems by (intro Suc.IH) (auto simp: nth_read_Suc [symmetric] simp del: after_reads.simps)
  ultimately show ?case
    by (simp add: bind_run(1) [OF read32_as_nth] del: after_reads.simps) (simp add: after_reads_Suc)
qed

text \<open>The completion register of a queue pair, and the \<open>n\<close>-th value the card shows there.\<close>

definition head_addr :: "rdma_dev_t \<Rightarrow> u32 \<Rightarrow> u64" where
  "head_addr r qid = rd_axil_ctl r + ucast (get_rdma_per_q_config_addr RN_RDMA_QCSR_CQHEADi qid)"

lemma poll_cq_found:
  assumes "heap s rdma = Some (O_rdma r)" and "j \<le> 1000"
    and "\<forall>i < j. nth_read (os_hw e) (head_addr r qid) i s = sqc" and "nth_read (os_hw e) (head_addr r qid) j s \<noteq> sqc"
  shows "poll_cq_cidb e rdma qid sqc s =
    (Inr (nth_read (os_hw e) (head_addr r qid) j s), after_reads (os_hw e) (head_addr r qid) (Suc j) s)"
proof -
  let ?a = "head_addr r qid" and ?hw = "os_hw e" and ?s = "after_reads (os_hw e) (head_addr r qid) (Suc 0) s"
  let ?off = "ucast (get_rdma_per_q_config_addr RN_RDMA_QCSR_CQHEADi qid) :: u64"
  have a: "?a = rd_axil_ctl r + ?off" by (simp add: head_addr_def)
  note rd = read32_as_nth [of ?hw "rd_axil_ctl r" ?off s, folded a]
  have "cq_wait TIMEOUT_THRESHOLD (read32_data ?hw (rd_axil_ctl r) ?off) sqc (nth_read ?hw ?a 0 s) ?s =
      (Inr (Some (nth_read ?hw ?a j s)), after_reads ?hw ?a (Suc j) s)"
  proof (cases j)
    case 0
    then show ?thesis using assms(4) by (simp add: TIMEOUT_THRESHOLD_def numeral_eq_Suc ret_def)
  next
    case j: (Suc i)
    have "nth_read ?hw ?a 0 s = sqc" using assms(3) j by simp
    moreover have "cq_wait TIMEOUT_THRESHOLD (read32_data ?hw (rd_axil_ctl r) ?off) sqc sqc ?s =
        (Inr (Some (nth_read ?hw ?a i ?s)), after_reads ?hw ?a (Suc i) ?s)"
      using assms(2-4) j unfolding a
      by (intro cq_wait_found) (auto simp: nth_read_Suc [symmetric] TIMEOUT_THRESHOLD_def simp del: after_reads.simps)
    ultimately show ?thesis unfolding j by (simp add: nth_read_Suc del: after_reads.simps) (simp add: after_reads_Suc)
  qed
  then show ?thesis
    using assms(1) unfolding poll_cq_cidb_def q_read_def
    by (simp add: load_run bind_run rd run_simps del: after_reads.simps read32_run)
qed

lemma poll_cq_timeout:
  assumes "heap s rdma = Some (O_rdma r)" and "\<forall>i \<le> 1000. nth_read (os_hw e) (head_addr r qid) i s = sqc"
  shows "\<exists>s'. poll_cq_cidb e rdma qid sqc s = (Inr (- 1), s') \<and> extends 1051 s s'"
proof -
  let ?a = "head_addr r qid" and ?hw = "os_hw e" and ?s = "after_reads (os_hw e) (head_addr r qid) (Suc 0) s"
  let ?off = "ucast (get_rdma_per_q_config_addr RN_RDMA_QCSR_CQHEADi qid) :: u64"
  have a: "?a = rd_axil_ctl r + ?off" by (simp add: head_addr_def)
  note rd = read32_as_nth [of ?hw "rd_axil_ctl r" ?off s, folded a]
  let ?t = "after_reads ?hw ?a (Suc TIMEOUT_THRESHOLD) ?s"
  have "nth_read ?hw ?a 0 s = sqc" using assms(2) by simp
  moreover have "cq_wait TIMEOUT_THRESHOLD (read32_data ?hw (rd_axil_ctl r) ?off) sqc sqc ?s = (Inr None, ?t)"
    using assms(2) unfolding a
    by (intro cq_wait_timeout) (auto simp: nth_read_Suc [symmetric] TIMEOUT_THRESHOLD_def simp del: after_reads.simps)
  moreover have st: "extends 1002 s ?t"
    using extends_trans [OF after_reads_extends [of "Suc 0" s ?hw ?a] after_reads_extends [of "Suc TIMEOUT_THRESHOLD" ?s ?hw ?a]]
    by (simp add: TIMEOUT_THRESHOLD_def del: after_reads.simps)
  moreover obtain u where "dump_registers e rdma True qid ?t = (Inr (), u)" "extends 49 ?t u"
  proof -
    have h: "heap ?t rdma = Some (O_rdma r)" using st assms(1) by (simp add: extends_def)
    have "only_reads (heap ?t) 49 (dump_registers e rdma True qid)" by (rule dump_reads, rule h)
    from only_readsD [OF this] that show thesis by auto
  qed
  ultimately show ?thesis
    using assms(1) extends_trans [of 1002 s ?t 49 u] unfolding poll_cq_cidb_def q_read_def
    by (simp add: bind_run rd run_simps del: after_reads.simps read32_run)
qed

section \<open>Posting\<close>

definition has_qp :: "nat \<Rightarrow> rdma_dev_t \<Rightarrow> u32 \<Rightarrow> nat \<Rightarrow> rdma_qp_t \<Rightarrow> 'd lib_st \<Rightarrow> bool" where
  "has_qp rdma r qid qp q s \<longleftrightarrow> rdma \<noteq> 0 \<and> heap s rdma = Some (O_rdma r) \<and> heap s qp = Some (O_qp q) \<and>
     (\<exists>qs. heap s (qps_ptr r) = Some (O_qps qs) \<and> unat qid < length qs \<and> qs ! unat qid = qp)"

lemma has_qpD:
  assumes "has_qp rdma r qid qp q s"
  shows "rdma \<noteq> 0" "heap s rdma = Some (O_rdma r)" "heap s qp = Some (O_qp q)" "qp_at r qid s = (Inr qp, s)" "rdma \<noteq> qp"
  using assms by (auto simp: has_qp_def qp_at_def run_simps)

text \<open>The state right after the producer doorbell of a queue pair is rung.\<close>

definition rung :: "'d os \<Rightarrow> rdma_dev_t \<Rightarrow> u32 \<Rightarrow> nat \<Rightarrow> rdma_qp_t \<Rightarrow> u32 \<Rightarrow> 'd lib_st \<Rightarrow> 'd lib_st" where
  "rung e r qid qp q n s =
     snd (q_write e r RN_RDMA_QCSR_SQPIi qid (sq_pidb q + n) (s\<lparr>heap := (heap s)(qp \<mapsto> O_qp (q\<lparr>sq_pidb := sq_pidb q + n\<rparr>))\<rparr>))"

definition head_read :: "'d os \<Rightarrow> rdma_dev_t \<Rightarrow> u32 \<Rightarrow> nat \<Rightarrow> 'd lib_st \<Rightarrow> u32" where
  "head_read e r qid i s = nth_read (os_hw e) (head_addr r qid) i s"

lemma rung_simps:
  "heap (rung e r qid qp q n s) = (heap s)(qp \<mapsto> O_qp (q\<lparr>sq_pidb := sq_pidb q + n\<rparr>))"
  "bus_log (rung e r qid qp q n s) =
     bus_log s @ [Bus_write (rd_axil_ctl r + ucast (get_rdma_per_q_config_addr RN_RDMA_QCSR_SQPIi qid)) (sq_pidb q + n)]"
  by (simp_all add: rung_def q_write_def run_simps)

lemma poll_cq_result:
  assumes "heap s rdma = Some (O_rdma r)"
  shows "\<exists>c s'. poll_cq_cidb e rdma qid sqc s = (Inr c, s') \<and> extends 1051 s s' \<and>
    (\<forall>j \<le> 1000. (\<forall>i < j. head_read e r qid i s = sqc) \<longrightarrow> head_read e r qid j s \<noteq> sqc \<longrightarrow> c = head_read e r qid j s) \<and>
    ((\<forall>i \<le> 1000. head_read e r qid i s = sqc) \<longrightarrow> c = - 1)"
proof (cases "\<exists>j \<le> 1000. head_read e r qid j s \<noteq> sqc")
  case True
  define j where "j = (LEAST j. head_read e r qid j s \<noteq> sqc)"
  have j: "head_read e r qid j s \<noteq> sqc" "\<forall>i < j. head_read e r qid i s = sqc" "j \<le> 1000"
    using True LeastI_ex [of "\<lambda>j. head_read e r qid j s \<noteq> sqc"] not_less_Least [of _ "\<lambda>j. head_read e r qid j s \<noteq> sqc"]
      Least_le [of "\<lambda>j. head_read e r qid j s \<noteq> sqc"] unfolding j_def by (blast, blast, meson order_trans)
  have "\<forall>k \<le> 1000. (\<forall>i < k. head_read e r qid i s = sqc) \<longrightarrow> head_read e r qid k s \<noteq> sqc \<longrightarrow> k = j"
    using j by (meson linorder_neqE_nat)
  moreover have "extends 1051 s (after_reads (os_hw e) (head_addr r qid) (Suc j) s)"
    using j(3) by (intro extends_mono [OF after_reads_extends]) simp
  moreover have "poll_cq_cidb e rdma qid sqc s =
      (Inr (head_read e r qid j s), after_reads (os_hw e) (head_addr r qid) (Suc j) s)"
    unfolding head_read_def by (rule poll_cq_found, rule assms, rule j) (use j in \<open>simp_all add: head_read_def\<close>)
  ultimately show ?thesis using j by blast
next
  case False
  then have all: "\<forall>i \<le> 1000. nth_read (os_hw e) (head_addr r qid) i s = sqc" by (simp add: head_read_def)
  obtain s' where "poll_cq_cidb e rdma qid sqc s = (Inr (- 1), s')" "extends 1051 s s'"
    using poll_cq_timeout [of s rdma r e qid sqc] assms all by blast
  then show ?thesis using False by blast
qed

text \<open>C22: \<open>rdma_post_send\<close> always returns, whatever the card does.  It rings the doorbell with the
  incremented producer index first, then only reads, at most 1051 times.  It returns 0 with the
  completion index it saw when the card shows a new index within 1001 reads and the value is not
  negative, and -1 when the wait times out.\<close>

theorem post_send_outcome:
  assumes "has_qp rdma r qid qp q s" and "\<not> os_debug e"
  shows "\<exists>s' c rs. rdma_post_send e rdma qid s = (Inr (if sint c < 0 then - 1 else 0), s') \<and>
    heap s' = (heap s)(qp \<mapsto> O_qp (q\<lparr>sq_pidb := sq_pidb q + 1, cq_cidb := c, sq_cidb := sq_cidb q + 1\<rparr>)) \<and>
    bus_log s' = bus_log s @
      Bus_write (rd_axil_ctl r + ucast (get_rdma_per_q_config_addr RN_RDMA_QCSR_SQPIi qid)) (sq_pidb q + 1) # rs \<and>
    (\<forall>ev \<in> set rs. is_read ev) \<and> length rs \<le> 1051 \<and>
    (\<forall>j \<le> 1000. (\<forall>i < j. head_read e r qid i (rung e r qid qp q 1 s) = sq_cidb q) \<longrightarrow>
       head_read e r qid j (rung e r qid qp q 1 s) \<noteq> sq_cidb q \<longrightarrow> c = head_read e r qid j (rung e r qid qp q 1 s)) \<and>
    ((\<forall>i \<le> 1000. head_read e r qid i (rung e r qid qp q 1 s) = sq_cidb q) \<longrightarrow> c = - 1)"
proof -
  note d = has_qpD [OF assms(1)]
  let ?t = "rung e r qid qp q 1 s"
  have ht: "heap ?t rdma = Some (O_rdma r)" using d by (simp add: rung_simps)
  obtain c u where c: "poll_cq_cidb e rdma qid (sq_cidb q) ?t = (Inr c, u)" "extends 1051 ?t u"
    "(\<forall>j \<le> 1000. (\<forall>i < j. head_read e r qid i ?t = sq_cidb q) \<longrightarrow> head_read e r qid j ?t \<noteq> sq_cidb q \<longrightarrow> c = head_read e r qid j ?t)"
    "((\<forall>i \<le> 1000. head_read e r qid i ?t = sq_cidb q) \<longrightarrow> c = - 1)"
    using poll_cq_result [of ?t rdma r e qid "sq_cidb q"] ht by blast
  have w: "q_write e r RN_RDMA_QCSR_SQPIi qid (sq_pidb q + 1) (s\<lparr>heap := (heap s)(qp \<mapsto> O_qp (q\<lparr>sq_pidb := sq_pidb q + 1\<rparr>))\<rparr>) = (Inr (), ?t)"
    by (simp add: rung_def q_write_def run_simps)
  have hu: "heap u qp = Some (O_qp (q\<lparr>sq_pidb := sq_pidb q + 1\<rparr>))" using c(2) by (simp add: extends_def rung_simps)
  obtain rs where rs: "bus_log u = bus_log ?t @ rs" "\<forall>ev \<in> set rs. is_read ev" "length rs \<le> 1051"
    using c(2) by (auto simp: extends_def)
  have run: "rdma_post_send e rdma qid s = (Inr (if sint c < 0 then - 1 else 0),
      u\<lparr>heap := (heap u)(qp \<mapsto> O_qp (q\<lparr>sq_pidb := sq_pidb q + 1, cq_cidb := c, sq_cidb := sq_cidb q + 1\<rparr>))\<rparr>)"
    unfolding rdma_post_send_def using d assms(2) w c(1) hu by (simp add: run_simps)
  show ?thesis
    by (rule exI, rule exI [of _ c], rule exI [of _ rs], intro conjI, rule run)
      (use rs c(2) in \<open>simp_all add: extends_def rung_simps c(3,4)\<close>)
qed

lemma demo_has_qp: "has_qp 4 demo_r 2 10 demo_qp (demo_post a c)"
  unfolding has_qp_def using demo_post_heap
  by (intro conjI exI [of _ "[0, 0, 10, 0, 0, 0, 0, 0]"]) (simp_all add: demo_post_def)

lemma demo_no_debug: "\<not> os_debug demo_os" "\<not> os_getenv_debug demo_os"
  by (simp_all add: demo_os_def)

theorem post_send_outcome_witness:
  "\<exists>s' c. rdma_post_send demo_os 4 2 (demo_post 0x12300000000 ()) = (Inr (if sint c < 0 then - 1 else 0), s') \<and>
    heap s' 10 = Some (O_qp (demo_qp\<lparr>sq_pidb := 1, cq_cidb := c, sq_cidb := 1\<rparr>))"
proof -
  have q: "sq_pidb demo_qp + 1 = 1" "sq_cidb demo_qp + 1 = 1" by (simp_all add: demo_qp_def)
  obtain s' c where "rdma_post_send demo_os 4 2 (demo_post 0x12300000000 ()) = (Inr (if sint c < 0 then - 1 else 0), s')"
    "heap s' = (heap (demo_post 0x12300000000 ()))(10 \<mapsto> O_qp (demo_qp\<lparr>sq_pidb := 1, cq_cidb := c, sq_cidb := 1\<rparr>))"
    using post_send_outcome [OF demo_has_qp [of "0x12300000000" "()"] demo_no_debug(1), unfolded q] by blast
  then show ?thesis by (intro exI [of _ s'] exI [of _ c]) simp
qed

text \<open>a batch that does not fit is refused before the card hears of it: when the batch is larger
  than the queue, or the producer index would pass the depth, the library exits with no register
  touched (only the software index has moved).\<close>

theorem batch_overflow_aborts:
  assumes "has_qp rdma r qid qp q s" and "\<not> os_debug e"
    and "qdepth q < n \<or> qdepth q < sq_pidb q + n"
  shows "rdma_post_batch_send fuel e rdma qid n s =
    (Inl Exit_failure, s\<lparr>heap := (heap s)(qp \<mapsto> O_qp (q\<lparr>sq_pidb := sq_pidb q + n\<rparr>))\<rparr>)"
  using has_qpD [OF assms(1)] assms(2,3) unfolding rdma_post_batch_send_def by (simp add: run_simps)

theorem batch_overflow_aborts_witness:
  "fst (rdma_post_batch_send 5 demo_os 4 2 65 (demo_post 0x12300000000 ())) = Inl Exit_failure \<and>
   bus_log (snd (rdma_post_batch_send 5 demo_os 4 2 65 (demo_post 0x12300000000 ()))) = []"
proof -
  have q: "qdepth demo_qp < 65 \<or> qdepth demo_qp < sq_pidb demo_qp + 65" by (simp add: demo_qp_def)
  show ?thesis
    using batch_overflow_aborts [OF demo_has_qp [of "0x12300000000" "()"] demo_no_debug(1) q, of 5]
    by (simp add: demo_post_def)
qed

section \<open>A batch on a card whose completion index stands still\<close>

text \<open>A card that always shows \<open>h\<close> at a register.\<close>

definition pinned_at :: "'d os \<Rightarrow> u64 \<Rightarrow> u32 \<Rightarrow> bool" where
  "pinned_at e a h \<longleftrightarrow> (\<forall>n rg. os_hw e n rg a = h)"

lemma pinned_head: "pinned_at e (head_addr r qid) h \<Longrightarrow> head_read e r qid i s = h"
  by (simp add: head_read_def nth_read_def pinned_at_def)

lemma poll_pinned:
  assumes "pinned_at e (head_addr r qid) h" and "heap s rdma = Some (O_rdma r)"
  shows "\<exists>s'. poll_cq_cidb e rdma qid sqc s = (Inr (if h = sqc then - 1 else h), s') \<and> heap s' = heap s"
  using poll_cq_result [OF assms(2), of e qid sqc] pinned_head [OF assms(1)]
  by (cases "h = sqc") (fastforce simp: extends_def)+

lemma batch_wait_stuck:
  assumes "pinned_at e (head_addr r qid) h" and "sint h < sint (sq_pidb q)" and "0 \<le> sint (sq_pidb q)"
    and "heap s rdma = Some (O_rdma r)" and "heap s qp = Some (O_qp q)" and "sint (cq_cidb q) < sint (sq_pidb q)"
  shows "\<exists>s'. batch_wait fuel e rdma qid qp s = (Inl Out_of_fuel, s')"
  using assms(2-6)
proof (induction fuel arbitrary: q s)
  case 0
  show ?case by (simp add: run_simps)
next
  case (Suc fuel)
  let ?c = "if h = sq_cidb q then - 1 else h"
  obtain t where t: "poll_cq_cidb e rdma qid (sq_cidb q) s = (Inr ?c, t)" "heap t = heap s"
    using poll_pinned [OF assms(1) Suc.prems(3)] by blast
  let ?u = "t\<lparr>heap := (heap t)(qp \<mapsto> O_qp (q\<lparr>cq_cidb := ?c, sq_cidb := ?c\<rparr>))\<rparr>"
  have ne: "rdma \<noteq> qp" using Suc.prems(3,4) by auto
  have "\<exists>s'. batch_wait fuel e rdma qid qp ?u = (Inl Out_of_fuel, s')"
    using Suc.prems t(2) ne by (intro Suc.IH [of "q\<lparr>cq_cidb := ?c, sq_cidb := ?c\<rparr>"]) auto
  moreover have "batch_wait (Suc fuel) e rdma qid qp s = batch_wait fuel e rdma qid qp ?u"
    using Suc.prems t by (simp add: run_simps)
  ultimately show ?case by simp
qed

lemma batch_starts:
  assumes "has_qp rdma r qid qp q s" and "\<not> os_debug e" and "n \<le> qdepth q" "sq_pidb q + n \<le> qdepth q"
  shows "rdma_post_batch_send fuel e rdma qid n s =
    seq (batch_wait fuel e rdma qid qp) (bind (load_qp qp) (\<lambda>q. ret (if sint (cq_cidb q) < 0 then - 1 else 0)))
      (rung e r qid qp q n s)"
proof -
  have w: "q_write e r RN_RDMA_QCSR_SQPIi qid (sq_pidb q + n) (s\<lparr>heap := (heap s)(qp \<mapsto> O_qp (q\<lparr>sq_pidb := sq_pidb q + n\<rparr>))\<rparr>) =
      (Inr (), rung e r qid qp q n s)"
    by (simp add: rung_def q_write_def run_simps)
  show ?thesis
    using has_qpD [OF assms(1)] assms(2-4) w unfolding rdma_post_batch_send_def by (simp add: run_simps not_less)
qed

text \<open>C23: \<open>rdma_post_batch_send\<close> of \<open>n\<close> entries that fit the queue, on a card whose completion index
  stands at a value \<open>h\<close> other than the one the library saw last (\<open>sq_cidb\<close>), while the library's count of completions
  is below the producer index after the call, which is the awaited one (compared as signed numbers, as the code does).  If
  \<open>h\<close> is at or above the awaited index, the call returns 0.  If \<open>h\<close> is below it, the call
  never returns, however long one waits: no number of rounds of its loop is enough.\<close>

theorem batch_send_on_standing_card:
  assumes "has_qp rdma r qid qp q s" and "\<not> os_debug e" and "n \<le> qdepth q" "sq_pidb q + n \<le> qdepth q"
    and "pinned_at e (head_addr r qid) h" and "0 \<le> sint (sq_pidb q + n)"
    and "sint (cq_cidb q) < sint (sq_pidb q + n)" and "h \<noteq> sq_cidb q"
  shows "if sint h < sint (sq_pidb q + n)
    then \<forall>fuel. \<exists>s'. rdma_post_batch_send fuel e rdma qid n s = (Inl Out_of_fuel, s')
    else \<forall>fuel. \<exists>s'. rdma_post_batch_send (fuel + 2) e rdma qid n s = (Inr 0, s')"
proof -
  let ?t = "rung e r qid qp q n s" and ?q = "q\<lparr>sq_pidb := sq_pidb q + n\<rparr>"
  note d = has_qpD [OF assms(1)]
  note st = batch_starts [OF assms(1-4)]
  have ht: "heap ?t rdma = Some (O_rdma r)" "heap ?t qp = Some (O_qp ?q)" using d by (simp_all add: rung_simps)
  show ?thesis
  proof (cases "sint h < sint (sq_pidb q + n)")
    case True
    have "\<exists>s'. batch_wait fuel e rdma qid qp ?t = (Inl Out_of_fuel, s')" for fuel
      using batch_wait_stuck [OF assms(5), of ?q ?t rdma qp fuel] True assms(6,7) ht by simp
    then have "\<exists>s'. rdma_post_batch_send fuel e rdma qid n s = (Inl Out_of_fuel, s')" for fuel
      unfolding st by (metis seq_run(2))
    then show ?thesis using True by simp
  next
    case False
    obtain t where t: "poll_cq_cidb e rdma qid (sq_cidb q) ?t = (Inr h, t)" "heap t = heap ?t"
      using poll_pinned [OF assms(5) ht(1), of "sq_cidb q"] assms(8) by auto
    have "\<exists>s'. rdma_post_batch_send (fuel + 2) e rdma qid n s = (Inr 0, s')" for fuel
      unfolding st using t ht assms(6,7) False by (simp add: run_simps numeral_2_eq_2)
    then show ?thesis using False by simp
  qed
qed

definition stuck_os :: "unit os" where
  "stuck_os = demo_os\<lparr>os_hw := (\<lambda>n rg a. if a = head_addr demo_r 2 then 3 else rg a)\<rparr>"

theorem batch_send_on_standing_card_witness:
  "\<forall>fuel. \<exists>s'. rdma_post_batch_send fuel stuck_os 4 2 8 (demo_post 0x12300000000 ()) = (Inl Out_of_fuel, s')"
proof -
  have q: "\<not> os_debug stuck_os" "8 \<le> qdepth demo_qp" "sq_pidb demo_qp + 8 \<le> qdepth demo_qp"
    "pinned_at stuck_os (head_addr demo_r 2) 3" "0 \<le> sint (sq_pidb demo_qp + 8)"
    "sint (cq_cidb demo_qp) < sint (sq_pidb demo_qp + 8)" "3 \<noteq> sq_cidb demo_qp"
    "sint (3 :: u32) < sint (sq_pidb demo_qp + 8)"
    by (simp_all add: stuck_os_def demo_os_def demo_qp_def pinned_at_def)
  show ?thesis
    using batch_send_on_standing_card [OF demo_has_qp [of "0x12300000000" "()"] q(1-7)] q(8) by simp
qed

end
