(* ===== verification/Lib_Rdma_End.thy ===== *)
theory Lib_Rdma_End
  imports Lib_Rdma_Doorbell
begin

text \<open>
  Where a received entry is, and what is left of a queue pair after it is destroyed.
\<close>

section \<open>Receiving\<close>

definition rq_read :: "'d os \<Rightarrow> rdma_dev_t \<Rightarrow> u32 \<Rightarrow> nat \<Rightarrow> 'd lib_st \<Rightarrow> u32" where
  "rq_read e r qid i s =
     nth_read (os_hw e) (rd_axil_ctl r + ucast (get_rdma_per_q_config_addr RN_RDMA_QCSR_STATRQPIDBi qid)) i s"

lemma poll_rq_run:
  assumes "has_qp rdma r qid qp q s" and "\<not> os_getenv_debug e"
    and "j \<le> fuel" and "\<forall>i < j. rq_read e r qid i s = rq_pidb q" and "rq_read e r qid j s \<noteq> rq_pidb q"
  shows "\<exists>s'. poll_rq_pidb fuel e rdma qid s = (Inr (rq_read e r qid j s), s') \<and>
    heap s' = (heap s)(qp \<mapsto> O_qp (q\<lparr>rq_pidb := rq_read e r qid j s\<rparr>))"
proof -
  let ?off = "ucast (get_rdma_per_q_config_addr RN_RDMA_QCSR_STATRQPIDBi qid) :: u64"
  let ?a = "rd_axil_ctl r + ?off" and ?hw = "os_hw e"
  let ?s = "after_reads ?hw ?a (Suc 0) s"
  note d = has_qpD [OF assms(1)]
  note rd = read32_as_nth [of ?hw "rd_axil_ctl r" ?off s]
  have hs: "heap (after_reads ?hw ?a n t) = heap t" for n and t :: "'a lib_st"
    using after_reads_extends [of n t ?hw ?a] by (simp add: extends_def)
  show ?thesis
  proof (cases j)
    case 0
    then show ?thesis
      using d assms(2,5) hs [of "Suc 0" s] unfolding poll_rq_pidb_def q_read_def rq_read_def
      by (simp add: bind_run seq_run rd run_simps del: after_reads.simps read32_run)
  next
    case j: (Suc i)
    have eq: "nth_read ?hw ?a 0 s = rq_pidb q" using assms(4) j by (simp add: rq_read_def)
    have "poll_until fuel (read32_data ?hw (rd_axil_ctl r) ?off) (\<lambda>v. v \<noteq> rq_pidb q) ?s =
        (Inr (nth_read ?hw ?a i ?s), after_reads ?hw ?a (Suc i) ?s)"
      using assms(3-5) j by (intro poll_until_reads)
        (auto simp: nth_read_Suc [symmetric] rq_read_def simp del: after_reads.simps)
    moreover have "nth_read ?hw ?a i ?s = rq_read e r qid j s" by (simp add: rq_read_def j nth_read_Suc)
    ultimately show ?thesis
      using d assms(2) hs [of "Suc 0" s] hs [of "Suc i" ?s] eq unfolding poll_rq_pidb_def q_read_def
      by (simp add: bind_run seq_run rd run_simps del: after_reads.simps read32_run)
  qed
qed

lemma rqe_offset:
  assumes "v \<noteq> 0" and "uint v \<le> uint n" and "uint n < 4194304"
  shows "scast ((v - 1) * RQE_SIZE :: u32) = (of_int (512 * ((uint v - 1) mod uint n)) :: u64)"
proof -
  have p: "0 < uint v" using assms(1) by (simp add: uint_pos_iff)
  have m: "uint (v - 1) = uint v - 1" using p by (subst uint_sub_small) simp_all
  have u: "uint ((v - 1) * RQE_SIZE) = (uint v - 1) * 512"
    using uint_mult_lem [of "v - 1" RQE_SIZE] m p assms(2,3) by (simp add: RQE_SIZE_def)
  have "sint ((v - 1) * RQE_SIZE) = (uint v - 1) * 512"
    using sint_small [of "(v - 1) * RQE_SIZE"] u p assms(2,3) by simp
  moreover have "(uint v - 1) mod uint n = uint v - 1" using p assms(2) by simp
  ultimately have "sint ((v - 1) * RQE_SIZE) = 512 * ((uint v - 1) mod uint n)" by simp
  then show ?thesis by (metis of_int_sint)
qed

lemma rqe_offset_last:
  assumes "n \<noteq> 0" and "uint n < 4194304"
  shows "ucast ((n - 1) * RQE_SIZE :: u32) = (of_int (512 * ((uint (0 :: u32) - 1) mod uint n)) :: u64)"
proof -
  have p: "0 < uint n" using assms(1) by (simp add: uint_pos_iff)
  have m: "uint (n - 1) = uint n - 1" using p by (subst uint_sub_small) simp_all
  have u: "uint ((n - 1) * RQE_SIZE) = (uint n - 1) * 512"
    using uint_mult_lem [of "n - 1" RQE_SIZE] m p assms(2) by (simp add: RQE_SIZE_def)
  have "(- 1) mod uint n = uint n - 1" using p by (simp add: zmod_minus1)
  then have "uint ((n - 1) * RQE_SIZE) = 512 * ((uint (0 :: u32) - 1) mod uint n)" using u by simp
  then show ?thesis by (metis of_int_uint)
qed

text \<open>\<open>rdma_post_receive\<close> returns the address of the entry just before the new producer index,
  counted around the ring, and so always a whole 512-byte entry inside the receive queue; it
  remembers that index.  (\<open>j\<close> is the number of reads that still showed the old index.)\<close>

theorem receive_slot:
  assumes "has_qp rdma r (qpid q) qp q s" and "qp \<noteq> 0" and "\<not> os_getenv_debug e"
    and "heap s (rq q) = Some (O_buf b)" and "qdepth q \<noteq> 0" and "uint (qdepth q) < 2 ^ 22"
    and "j \<le> fuel" and "\<forall>i < j. rq_read e r (qpid q) i s = rq_pidb q"
    and "rq_read e r (qpid q) j s \<noteq> rq_pidb q" and "rq_read e r (qpid q) j s \<le> qdepth q"
  shows "\<exists>s' k. rdma_post_receive fuel e rdma qp s = (Inr (buffer b + of_int (512 * k)), s') \<and>
    k = (uint (rq_read e r (qpid q) j s) - 1) mod uint (qdepth q) \<and> 0 \<le> k \<and> k < uint (qdepth q) \<and>
    heap s' = (heap s)(qp \<mapsto> O_qp (q\<lparr>rq_pidb := rq_read e r (qpid q) j s\<rparr>))"
proof -
  let ?v = "rq_read e r (qpid q) j s"
  note d = has_qpD [OF assms(1)]
  obtain s' where s': "poll_rq_pidb fuel e rdma (qpid q) s = (Inr ?v, s')"
    "heap s' = (heap s)(qp \<mapsto> O_qp (q\<lparr>rq_pidb := ?v\<rparr>))"
    using poll_rq_run [OF assms(1,3,7,8,9)] by blast
  have n: "uint (qdepth q) < 4194304" using assms(6) by simp
  have le: "uint ?v \<le> uint (qdepth q)" using assms(10) by (simp add: word_le_def)
  have nm: "?v \<noteq> - 1"
  proof
    assume "?v = - 1"
    moreover have "uint (- 1 :: u32) = 4294967295" by code_simp
    ultimately show False using le n by simp
  qed
  have ne: "qp \<noteq> rq q" using d(3) assms(4) by auto
  have "rdma_post_receive fuel e rdma qp s = (Inr (buffer b + of_int (512 * ((uint ?v - 1) mod uint (qdepth q)))), s')"
  proof (cases "?v = 0")
    case True
    then show ?thesis
      unfolding rdma_post_receive_def using d s' assms(2,4) nm ne rqe_offset_last [OF assms(5) n]
      by (simp add: run_simps)
  next
    case False
    then show ?thesis
      unfolding rdma_post_receive_def using d s' assms(2,4) nm ne rqe_offset [OF False le n]
      by (simp add: run_simps)
  qed
  moreover have "0 < uint (qdepth q)" using assms(5) by (simp add: uint_pos_iff)
  ultimately show ?thesis using s'(2)
    by (intro exI [of _ s'], intro exI [of _ "(uint ?v - 1) mod uint (qdepth q)"]) simp
qed

definition ring_os :: "unit os" where
  "ring_os = demo_os\<lparr>os_hw := (\<lambda>n rg a. if a = 0x7f000006039c then 5 else rg a)\<rparr>"

theorem receive_slot_witness:
  "\<exists>s'. rdma_post_receive 0 ring_os 4 10 (demo_post 0x12300000000 ()) = (Inr (0x12300000000 + of_int (512 * 4)), s')"
proof -
  have a: "rd_axil_ctl demo_r + ucast (get_rdma_per_q_config_addr RN_RDMA_QCSR_STATRQPIDBi 2) = 0x7f000006039c"
    by code_simp
  have v: "rq_read ring_os demo_r 2 0 (demo_post 0x12300000000 ()) = 5"
    unfolding rq_read_def a by (simp add: nth_read_def ring_os_def)
  have q: "qpid demo_qp = 2" "rq_pidb demo_qp = 0" "qdepth demo_qp = 64" "rq demo_qp = 13" by (simp_all add: demo_qp_def)
  have b: "heap (demo_post 0x12300000000 ()) 13 = Some (O_buf demo_base)" "buffer demo_base = 0x12300000000"
    by (simp_all add: demo_post_def demo_base_def)
  have o: "\<not> os_getenv_debug ring_os" by (simp add: ring_os_def demo_os_def)
  show ?thesis
    using receive_slot [of 4 demo_r demo_qp 10 "demo_post 0x12300000000 ()" ring_os demo_base 0 0, unfolded q v b]
      demo_has_qp [of "0x12300000000" "()"] o b by auto
qed

section \<open>Destroying a queue pair\<close>

definition qaddr :: "rdma_dev_t \<Rightarrow> u32 \<Rightarrow> u32 \<Rightarrow> u64" where
  "qaddr r qid off = rd_axil_ctl r + ucast (get_rdma_per_q_config_addr off qid)"

definition adv_addr :: "rdma_dev_t \<Rightarrow> u64" where
  "adv_addr r = rd_axil_ctl r + ucast RN_RDMA_GCSR_XRNICADCONF"

lemma qaddr_eq: "qaddr r qid a = qaddr r qid b \<longleftrightarrow> a = b"
  by (simp add: qaddr_def ucast_inj get_rdma_per_q_config_addr_def)

lemma qaddr_adv:
  assumes "1 \<le> qid" "qid \<le> 0xff" "off - RN_RDMA_QCSR_QPCONFi < 0x100"
  shows "qaddr r qid off \<noteq> adv_addr r"
proof
  assume "qaddr r qid off = adv_addr r"
  then have "get_rdma_per_q_config_addr off qid = RN_RDMA_GCSR_XRNICADCONF"
    by (simp add: qaddr_def adv_addr_def ucast_inj)
  moreover have "get_rdma_per_q_config_addr off qid =
      RN_RDMA_QCSR_QPCONFi + 0x100 * (qid - 1) + (off - RN_RDMA_QCSR_QPCONFi)"
    by (simp add: get_rdma_per_q_config_addr_def algebra_simps)
  ultimately have "uint RN_RDMA_GCSR_XRNICADCONF = 0x60200 + 256 * (uint qid - 1) + uint (off - RN_RDMA_QCSR_QPCONFi)"
    using block_addr [OF assms] by metis
  moreover have "uint RN_RDMA_GCSR_XRNICADCONF = 0x60004" by (simp add: gcsr_defs)
  moreover have "1 \<le> uint qid" using assms(1) by (simp add: word_le_def)
  moreover have "0 \<le> uint (off - RN_RDMA_QCSR_QPCONFi)" by simp
  ultimately show False by (simp add: algebra_simps)
qed

text \<open>The registers \<open>qp_shutdown\<close> leaves on a card that keeps what is written.\<close>

definition shutdown_regs :: "rdma_dev_t \<Rightarrow> u32 \<Rightarrow> (u64 \<Rightarrow> u32) \<Rightarrow> u64 \<Rightarrow> u32" where
  "shutdown_regs r qid r0 =
     (let g = adv_addr r; c = qaddr r qid RN_RDMA_QCSR_QPCONFi;
          r1 = r0(g := r0 g OR 1); r2 = r1(c := r1 c AND 0xfffffffe);
          r3 = apply_writes (rd_axil_ctl r) (qp_regs qid (map (\<lambda>reg. (reg, 0)) qp_reset_regs)) r2;
          r4 = r3(c := r3 c OR 0x40)
      in r4(g := r4 g AND 0xfffffffe))"

lemma qp_shutdown_run:
  assumes "os_hw e = hw_passive"
  shows "\<exists>s'. qp_shutdown e r qid s = (Inr (), s') \<and> heap s' = heap s \<and> brk s' = brk s \<and>
    regs s' = shutdown_regs r qid (regs s)"
proof -
  have t: "bus_tick hw_passive s = s\<lparr>accesses := Suc (accesses s)\<rparr>" for s :: "'a lib_st"
    by (simp add: bus_tick_def hw_passive_def)
  show ?thesis
    unfolding qp_shutdown_def q_read_def q_write_def discard_def assms
    by (simp add: run_simps t write_regs_passive Let_def shutdown_regs_def qaddr_def adv_addr_def del: write_regs_simps)
qed

lemma shutdown_qreg:
  assumes "1 \<le> qid" "qid \<le> 0xff"
  shows "shutdown_regs r qid r0 (qaddr r qid RN_RDMA_QCSR_QPCONFi) =
      (r0 (qaddr r qid RN_RDMA_QCSR_QPCONFi) AND 0xfffffffe) OR 0x40"
    and "reg \<in> set qp_reset_regs \<Longrightarrow> shutdown_regs r qid r0 (qaddr r qid reg) = 0"
    and "shutdown_regs r qid r0 (adv_addr r) = (r0 (adv_addr r) OR 1) AND 0xfffffffe"
proof -
  let ?ws = "map (\<lambda>reg. (reg, 0 :: u32)) qp_reset_regs"
  have blk: "reg - RN_RDMA_QCSR_QPCONFi < 0x100 \<and> reg \<noteq> RN_RDMA_QCSR_QPCONFi" if "reg \<in> set qp_reset_regs" for reg
    using that by (auto simp: qp_reset_regs_def qcsr_defs)
  have conf: "RN_RDMA_QCSR_QPCONFi - RN_RDMA_QCSR_QPCONFi < 0x100" by simp
  have ne: "qaddr r qid RN_RDMA_QCSR_QPCONFi \<noteq> adv_addr r" by (rule qaddr_adv [OF assms conf])
  have keep: "apply_writes (rd_axil_ctl r) (qp_regs qid ?ws) rg a = rg a"
    if "\<And>reg. reg \<in> set qp_reset_regs \<Longrightarrow> a \<noteq> qaddr r qid reg" for rg a
    using that by (intro apply_writes_other) (auto simp: qp_regs_def qaddr_def)
  have keepc: "apply_writes (rd_axil_ctl r) (qp_regs qid ?ws) rg (qaddr r qid RN_RDMA_QCSR_QPCONFi) = rg (qaddr r qid RN_RDMA_QCSR_QPCONFi)" for rg
    using blk qaddr_eq by (intro keep) metis
  have keepg: "apply_writes (rd_axil_ctl r) (qp_regs qid ?ws) rg (adv_addr r) = rg (adv_addr r)" for rg
    using blk qaddr_adv [OF assms] by (intro keep) metis
  show "shutdown_regs r qid r0 (qaddr r qid RN_RDMA_QCSR_QPCONFi) =
      (r0 (qaddr r qid RN_RDMA_QCSR_QPCONFi) AND 0xfffffffe) OR 0x40"
    using ne by (simp add: shutdown_regs_def Let_def keepc)
  show "shutdown_regs r qid r0 (adv_addr r) = (r0 (adv_addr r) OR 1) AND 0xfffffffe"
    using ne by (simp add: shutdown_regs_def Let_def keepg)
  assume reg: "reg \<in> set qp_reset_regs"
  have "distinct (map fst ?ws)" by (simp add: qp_reset_regs_def qcsr_defs)
  from apply_writes_distinct [OF qp_regs_distinct [OF this], of "ucast (get_rdma_per_q_config_addr reg qid)" 0]
  have "apply_writes (rd_axil_ctl r) (qp_regs qid ?ws) rg (qaddr r qid reg) = 0" for rg
    using reg unfolding qaddr_def by (simp add: qp_regs_def image_iff) blast
  moreover have "qaddr r qid reg \<noteq> adv_addr r" "qaddr r qid reg \<noteq> qaddr r qid RN_RDMA_QCSR_QPCONFi"
    using qaddr_adv [OF assms, of reg r] blk [OF reg] qaddr_eq by metis+
  ultimately show "shutdown_regs r qid r0 (qaddr r qid reg) = 0"
    by (simp add: shutdown_regs_def Let_def)
qed

text \<open>What is freed with a queue pair: the three buffers and the protection domain.\<close>

definition qp_pointers :: "rdma_qp_t \<Rightarrow> nat list" where
  "qp_pointers q = [sq q, rq q, cq q, pd_entry q]"

lemma free_run:
  "p \<noteq> 0 \<Longrightarrow> heap s p = Some v \<Longrightarrow> free_obj p s = (Inr (), s\<lparr>heap := (heap s)(p := None)\<rparr>)"
  "p \<noteq> 0 \<Longrightarrow> heap s p = None \<Longrightarrow> free_obj p s = (Inl Double_free, s)"
  by (simp_all add: free_obj_def)

lemma destroy_run:
  assumes "os_hw e = hw_passive" and "qp \<noteq> 0"
    and "heap s qp = Some (O_qp q)" and "heap s (qp_rdma_dev q) = Some (O_rdma r)" and "qp_rdma_dev q \<noteq> 0"
    and "qreg r (qpid q) s RN_RDMA_QCSR_STATQPi AND 0xff = 0"
    and "drop_bit 9 (qreg r (qpid q) s RN_RDMA_QCSR_STATQPi) AND 3 = 3"
    and "qreg r (qpid q) s RN_RDMA_QCSR_CQHEADi = qreg r (qpid q) s RN_RDMA_QCSR_SQPIi"
  shows "\<exists>s'. destroy_rdma_qp fuel e qp s =
      seq (free_obj (sq q)) (seq (free_obj (rq q)) (seq (free_obj (cq q)) (seq (destroy_rdma_pd_entry (pd_entry q)) (ret 0)))) s' \<and>
    heap s' = heap s \<and> regs s' = shutdown_regs r (qpid q) (regs s)"
proof -
  have t: "bus_tick hw_passive s = s\<lparr>accesses := Suc (accesses s)\<rparr>" for s :: "'a lib_st"
    by (simp add: bus_tick_def hw_passive_def)
  define reads where "reads = [RN_RDMA_QCSR_STATQPi, RN_RDMA_QCSR_CQHEADi, RN_RDMA_QCSR_SQPIi]"
  have rd: "\<exists>s'. q_read e r reg (qpid q) u = (Inr (regs u (qaddr r (qpid q) reg)), s') \<and> heap s' = heap u \<and> regs s' = regs u" for reg u
    using assms(1) by (simp add: q_read_def run_simps t qaddr_def)
  obtain s1 where 1: "q_read e r RN_RDMA_QCSR_STATQPi (qpid q) s = (Inr (qreg r (qpid q) s RN_RDMA_QCSR_STATQPi), s1)"
    "heap s1 = heap s" "regs s1 = regs s" using rd [of RN_RDMA_QCSR_STATQPi s] by (auto simp: qreg_def qaddr_def)
  obtain s2 where 2: "q_read e r RN_RDMA_QCSR_CQHEADi (qpid q) s1 = (Inr (qreg r (qpid q) s RN_RDMA_QCSR_CQHEADi), s2)"
    "heap s2 = heap s" "regs s2 = regs s" using rd [of RN_RDMA_QCSR_CQHEADi s1] 1 by (auto simp: qreg_def qaddr_def)
  obtain s3 where 3: "q_read e r RN_RDMA_QCSR_SQPIi (qpid q) s2 = (Inr (qreg r (qpid q) s RN_RDMA_QCSR_SQPIi), s3)"
    "heap s3 = heap s" "regs s3 = regs s" using rd [of RN_RDMA_QCSR_SQPIi s2] 2 by (auto simp: qreg_def qaddr_def)
  obtain s4 where 4: "qp_shutdown e r (qpid q) s3 = (Inr (), s4)" "heap s4 = heap s3" "regs s4 = shutdown_regs r (qpid q) (regs s3)"
    using qp_shutdown_run [OF assms(1)] by blast
  show ?thesis
    using 1 2 3 4 assms(2-8) unfolding destroy_rdma_qp_def
    by (intro exI [of _ s4]) (simp add: run_simps)
qed

text \<open>C24: destroying a healthy, drained queue pair returns 0 and leaves it disabled and under
  recovery (bits 0 and 6 of its QPCONF), its doorbells (send, completion and receive), its pointer to the send queue, its
  counters of responses and requests and its sequence numbers at 0, the software override switched off again, and its
  buffers and protection domain freed, once each.\<close>

theorem destroy_qp_disables:
  assumes "os_hw e = hw_passive" and "qp \<noteq> 0"
    and "heap s qp = Some (O_qp q)" and "heap s (qp_rdma_dev q) = Some (O_rdma r)" and "qp_rdma_dev q \<noteq> 0"
    and "qreg r (qpid q) s RN_RDMA_QCSR_STATQPi AND 0xff = 0"
    and "drop_bit 9 (qreg r (qpid q) s RN_RDMA_QCSR_STATQPi) AND 3 = 3"
    and "qreg r (qpid q) s RN_RDMA_QCSR_CQHEADi = qreg r (qpid q) s RN_RDMA_QCSR_SQPIi"
    and "1 \<le> qpid q" and "qpid q \<le> 0xff"
    and "distinct (qp_pointers q)" and "0 \<notin> set (qp_pointers q)" and "set (qp_pointers q) \<subseteq> dom (heap s)"
  shows "\<exists>s'. destroy_rdma_qp fuel e qp s = (Inr 0, s') \<and>
    \<not> bit (qreg r (qpid q) s' RN_RDMA_QCSR_QPCONFi) 0 \<and> bit (qreg r (qpid q) s' RN_RDMA_QCSR_QPCONFi) 6 \<and>
    qreg r (qpid q) s' RN_RDMA_QCSR_RQWPTRDBADDi = 0 \<and> qreg r (qpid q) s' RN_RDMA_QCSR_SQPIi = 0 \<and>
    qreg r (qpid q) s' RN_RDMA_QCSR_CQHEADi = 0 \<and> qreg r (qpid q) s' RN_RDMA_QCSR_RQCIi = 0 \<and>
    qreg r (qpid q) s' RN_RDMA_QCSR_STATRQPIDBi = 0 \<and> qreg r (qpid q) s' RN_RDMA_QCSR_STATCURSQPTRi = 0 \<and>
    qreg r (qpid q) s' RN_RDMA_QCSR_SQPSNi = 0 \<and> qreg r (qpid q) s' RN_RDMA_QCSR_LSTRQREQi = 0 \<and>
    qreg r (qpid q) s' RN_RDMA_QCSR_STATMSNi = 0 \<and>
    \<not> bit (regs s' (rd_axil_ctl r + ucast RN_RDMA_GCSR_XRNICADCONF)) 0 \<and>
    heap s' = heap s |` (- set (qp_pointers q))"
proof -
  obtain u where u: "destroy_rdma_qp fuel e qp s =
      seq (free_obj (sq q)) (seq (free_obj (rq q)) (seq (free_obj (cq q)) (seq (destroy_rdma_pd_entry (pd_entry q)) (ret 0)))) u"
    "heap u = heap s" "regs u = shutdown_regs r (qpid q) (regs s)"
    using destroy_run [OF assms(1-8)] by blast
  let ?h = "(heap s)(sq q := None, rq q := None, cq q := None, pd_entry q := None)"
  obtain a b c d where live: "heap s (sq q) = Some a" "heap s (rq q) = Some b" "heap s (cq q) = Some c" "heap s (pd_entry q) = Some d"
    using assms(13) by (auto simp: qp_pointers_def)
  have "destroy_rdma_qp fuel e qp s = (Inr 0, u\<lparr>heap := ?h\<rparr>)"
    using assms(11,12) live u(2) unfolding u(1) destroy_rdma_pd_entry_def qp_pointers_def
    by (simp add: run_simps free_run)
  moreover have "?h = heap s |` (- set (qp_pointers q))"
    by (auto simp: restrict_map_def qp_pointers_def fun_eq_iff)
  moreover have "\<not> bit ((x AND 0xfffffffe) OR 0x40) 0" "bit ((x AND 0xfffffffe) OR 0x40) 6" "\<not> bit ((x OR 1) AND 0xfffffffe) 0" for x :: u32
    by (simp_all add: bit_simps)
  ultimately show ?thesis
    using u(3) shutdown_qreg [OF assms(9,10)]
    by (intro exI [of _ "u\<lparr>heap := ?h\<rparr>"]) (simp add: qreg_def qaddr_def adv_addr_def qp_reset_regs_def)
qed

definition drained :: "unit lib_st" where
  "drained = (demo_post 0x12300000000 ())\<lparr>regs := (\<lambda>_. 0x600)\<rparr>"

theorem destroy_qp_disables_witness:
  "\<exists>s'. destroy_rdma_qp 0 demo_os 10 drained = (Inr 0, s') \<and> qreg demo_r 2 s' RN_RDMA_QCSR_SQPIi = 0 \<and>
    heap s' = heap drained |` (- {11, 13, 12, 7})"
proof -
  have h: "heap drained 10 = Some (O_qp demo_qp)" "heap drained (qp_rdma_dev demo_qp) = Some (O_rdma demo_r)"
    "set (qp_pointers demo_qp) \<subseteq> dom (heap drained)"
    by (simp_all add: drained_def demo_post_def demo_qp_def qp_pointers_def)
  have q: "qpid demo_qp = 2" "qp_rdma_dev demo_qp \<noteq> 0" "distinct (qp_pointers demo_qp)" "0 \<notin> set (qp_pointers demo_qp)"
    "set (qp_pointers demo_qp) = {11, 13, 12, 7}"
    by (simp_all add: demo_qp_def qp_pointers_def)
  have reg: "qreg demo_r qid drained reg = 0x600" for qid reg by (simp add: qreg_def drained_def)
  have o: "os_hw demo_os = hw_passive" by (simp add: demo_os_def)
  have "RN_RDMA_QCSR_SQPIi \<in> set qp_reset_regs" by (simp add: qp_reset_regs_def)
  then show ?thesis
    using destroy_qp_disables [OF o _ h(1,2) q(2) _ _ _ _ _ q(3,4) h(3), unfolded reg q(1,5)] by auto
qed

text \<open>A protection domain serves many queue pairs, and each destroyed queue pair frees it: destroying
  the second queue pair of a domain frees it a second time.\<close>

lemma shared_pd_double_free:
  assumes "os_hw e = hw_passive" and "qp \<noteq> 0"
    and "heap s qp = Some (O_qp q)" and "heap s (qp_rdma_dev q) = Some (O_rdma r)" and "qp_rdma_dev q \<noteq> 0"
    and "qreg r (qpid q) s RN_RDMA_QCSR_STATQPi AND 0xff = 0"
    and "drop_bit 9 (qreg r (qpid q) s RN_RDMA_QCSR_STATQPi) AND 3 = 3"
    and "qreg r (qpid q) s RN_RDMA_QCSR_CQHEADi = qreg r (qpid q) s RN_RDMA_QCSR_SQPIi"
    and "distinct (qp_pointers q)" and "0 \<notin> set (qp_pointers q)" and "{sq q, rq q, cq q} \<subseteq> dom (heap s)"
    and "heap s (pd_entry q) = None"
  shows "fst (destroy_rdma_qp fuel e qp s) = Inl Double_free"
proof -
  obtain u where u: "destroy_rdma_qp fuel e qp s =
      seq (free_obj (sq q)) (seq (free_obj (rq q)) (seq (free_obj (cq q)) (seq (destroy_rdma_pd_entry (pd_entry q)) (ret 0)))) u"
    "heap u = heap s" using destroy_run [OF assms(1-8)] by blast
  obtain a b c where live: "heap s (sq q) = Some a" "heap s (rq q) = Some b" "heap s (cq q) = Some c"
    using assms(11) by auto
  show ?thesis
    using assms(9,10,12) live u(2) unfolding u(1) destroy_rdma_pd_entry_def qp_pointers_def
    by (simp add: run_simps free_run)
qed

end
