(* ===== verification/Lib_Rdma_Config.thy ===== *)
theory Lib_Rdma_Config
  imports Lib_Rdma_Props
begin

text \<open>
  What the global configuration and the registration of a memory region leave in the card's
  registers.
\<close>

definition greg :: "rdma_dev_t \<Rightarrow> 'd lib_st \<Rightarrow> u32 \<Rightarrow> u32" where
  "greg r s off = regs s (rd_axil_ctl r + ucast off)"

lemma greg_written:
  assumes "regs s' = apply_writes (rd_axil_ctl r) (map (\<lambda>(off, v). (ucast off, v)) ws) rg"
    and "distinct (map fst ws)" and "(off, v) \<in> set ws"
  shows "greg r s' off = v"
proof -
  have "distinct (map fst (map (\<lambda>(off, v). (ucast off :: u64, v)) ws))"
    using assms(2) by (induction ws) (auto simp: image_iff ucast_inj, blast?)
  moreover have "(ucast off, v) \<in> set (map (\<lambda>(off, v). (ucast off :: u64, v)) ws)" using assms(3) by force
  ultimately show ?thesis unfolding greg_def assms(1) by (rule apply_writes_distinct)
qed

lemma halves16: "uint (push_bit 16 (ucast hi) OR ucast lo :: u32) = uint (hi :: u16) * 65536 + uint (lo :: u16)"
proof -
  have "push_bit 16 (ucast hi) AND (ucast lo :: u32) = 0"
    by (rule bit_word_eqI) (auto simp: bit_simps dest: bit_imp_le_length)
  then have e: "push_bit 16 (ucast hi) OR ucast lo = push_bit 16 (ucast hi) + (ucast lo :: u32)"
    by (simp add: disjunctive_add_eq_or)
  have h: "uint (ucast hi :: u32) = uint hi" "uint (ucast lo :: u32) = uint lo" "uint hi < 65536" "uint lo < 65536"
    using uint_lt2p [of hi] uint_lt2p [of lo] by (simp_all add: unsigned_ucast_eq take_bit_int_eq_self)
  have p: "uint (push_bit 16 (ucast hi :: u32)) = uint hi * 65536"
    using uint_mult_lem [of "ucast hi :: u32" 65536] h by (simp add: push_bit_eq_mult)
  show ?thesis unfolding e using uint_add_lem [of "push_bit 16 (ucast hi :: u32)" "ucast lo"] p h by simp
qed

lemma xrnic_conf_fields:
  "uint (drop_bit 16 (xrnic_conf_value sport n)) = uint sport mod 65536"
  "uint (drop_bit 8 (xrnic_conf_value sport n) AND 0xff) = uint n mod 256"
  "xrnic_conf_value sport n AND 0xff = 0x21"
proof -
  have c: "xrnic_conf_value sport n = (push_bit 16 sport AND 0xffff0000) OR (push_bit 8 n AND 0x0000ff00) OR 0x21"
    by (simp add: xrnic_conf_value_def Let_def)
  have k: "(0xffff0000 :: u32) = push_bit 16 (mask 16)" "(0xff00 :: u32) = push_bit 8 (mask 8)"
    "(0xff :: u32) = mask 8" by (simp_all add: mask_eq_exp_minus_1 push_bit_eq_mult)
  have b21: "bit (0x21 :: u32) i \<Longrightarrow> i < 8" for i
  proof (rule ccontr)
    assume "bit (0x21 :: u32) i" "\<not> i < 8"
    moreover have "(0x21 :: u32) = take_bit 8 0x21" by simp
    ultimately show False by (metis bit_take_bit_iff)
  qed
  have i21: "bit (33 :: int) i \<Longrightarrow> i < 8" for i
  proof -
    have "(33 :: int) = take_bit 8 33" by simp
    then show "bit (33 :: int) i \<Longrightarrow> i < 8" by (metis bit_take_bit_iff)
  qed
  have "drop_bit 16 (xrnic_conf_value sport n) = take_bit 16 sport"
    unfolding c k by (rule bit_word_eqI) (auto simp: bit_simps dest: b21 bit_imp_le_length)
  then show "uint (drop_bit 16 (xrnic_conf_value sport n)) = uint sport mod 65536"
    by (simp only: unsigned_take_bit_eq) (simp add: take_bit_eq_mod)
  have "drop_bit 8 (xrnic_conf_value sport n) AND 0xff = take_bit 8 n"
    unfolding c k by (rule bit_word_eqI) (auto simp: bit_simps dest: b21 bit_imp_le_length)
  then show "uint (drop_bit 8 (xrnic_conf_value sport n) AND 0xff) = uint n mod 256"
    by (simp only: unsigned_take_bit_eq) (simp add: take_bit_eq_mod)
  show "xrnic_conf_value sport n AND 0xff = 0x21"
    unfolding c k by (rule bit_word_eqI) (auto simp: bit_simps dest: b21 i21)
qed

text \<open>after \<open>open_rdma_dev\<close> on a card that keeps its registers, the global registers say what
  was asked for: the four buffer addresses as the card sees them, the sizes as (bytes, count)
  pairs, local MAC and IP address, the UDP source port and the number of queue pairs in their
  fields of \<open>XRNICCONF\<close>, with the engine and its error buffer enabled.\<close>

theorem open_rdma_dev_programs:
  assumes "os_hw e = hw_passive" and "heap s rdma = Some (O_rdma r)" and "heap s (glb_csr r) = Some (O_csr c)"
    and "heap s (rd_winSize r) = Some (O_win full_window)"
  shows "\<exists>s'. open_rdma_dev e rdma mac ip sport nd pds dbuf isz ipkt ne pes ebuf rsz resp s = (Inr (), s') \<and>
    uint (greg r s' RN_RDMA_GCSR_DATBUFBAMSB) * 2 ^ 32 + uint (greg r s' RN_RDMA_GCSR_DATBUFBA) = card_address dbuf \<and>
    uint (greg r s' RN_RDMA_GCSR_IPKTERRQBAMSB) * 2 ^ 32 + uint (greg r s' RN_RDMA_GCSR_IPKTERRQBA) = card_address ipkt \<and>
    uint (greg r s' RN_RDMA_GCSR_ERRBUFBAMSB) * 2 ^ 32 + uint (greg r s' RN_RDMA_GCSR_ERRBUFBA) = card_address ebuf \<and>
    uint (greg r s' RN_RDMA_GCSR_RESPERRPKTBAMSB) * 2 ^ 32 + uint (greg r s' RN_RDMA_GCSR_RESPERRPKTBA) = card_address resp \<and>
    uint (greg r s' RN_RDMA_GCSR_RESPERRSZMSB) * 2 ^ 32 + uint (greg r s' RN_RDMA_GCSR_RESPERRSZ) = uint rsz \<and>
    uint (greg r s' RN_RDMA_GCSR_DATBUFSZ) = uint pds * 65536 + uint nd \<and>
    uint (greg r s' RN_RDMA_GCSR_ERRBUFSZ) = uint pes * 65536 + uint ne \<and>
    uint (greg r s' RN_RDMA_GCSR_IPKTERRQSZ) = uint isz \<and>
    greg r s' RN_RDMA_GCSR_MACXADDLSB = mac_lsb mac \<and> greg r s' RN_RDMA_GCSR_MACXADDMSB = mac_msb mac \<and>
    greg r s' RN_RDMA_GCSR_IPV4XADD = ip \<and>
    uint (drop_bit 16 (greg r s' RN_RDMA_GCSR_XRNICCONF)) = uint sport mod 65536 \<and>
    uint (drop_bit 8 (greg r s' RN_RDMA_GCSR_XRNICCONF) AND 0xff) = uint (rd_num_qp r) mod 256 \<and>
    greg r s' RN_RDMA_GCSR_XRNICCONF AND 0xff = 0x21"
proof -
  define c' where "c' = c\<lparr>data_buf_size := push_bit 16 (ucast pds) OR ucast nd, data_buf_baseaddr := dbuf,
      ipkt_err_stat_q_size := isz, ipkt_err_stat_q_baseaddr := ipkt, err_buf_size := push_bit 16 (ucast pes) OR ucast ne,
      err_buf_baseaddr := ebuf, resp_err_pkt_buf_size := rsz, resp_err_pkt_buf_baseaddr := resp,
      interrupt_enable := 0x000000FF, src_mac := \<lparr>mac_lsb = mac_lsb mac, mac_msb = mac_msb mac\<rparr>,
      src_ip := ip, udp_sport := ucast sport, num_qp_enabled := ucast (rd_num_qp r),
      xrnic_conf := xrnic_conf_value sport (rd_num_qp r), xrnic_advanced_conf := xrnic_advanced_conf_value\<rparr>"
  let ?s1 = "s\<lparr>heap := (heap s)(glb_csr r \<mapsto> O_csr c')\<rparr>"
  have ne: "rdma \<noteq> glb_csr r" "rd_winSize r \<noteq> glb_csr r" using assms(2-4) by auto
  have run: "open_rdma_dev e rdma mac ip sport nd pds dbuf isz ipkt ne pes ebuf rsz resp s =
      write_regs hw_passive (rd_axil_ctl r) (gcsr_writes full_window c') ?s1"
    unfolding open_rdma_dev_def config_rdma_global_csr_def using assms ne
    by (simp add: run_simps c'_def)
  then obtain s' where s': "open_rdma_dev e rdma mac ip sport nd pds dbuf isz ipkt ne pes ebuf rsz resp s = (Inr (), s')"
    and rg: "regs s' = apply_writes (rd_axil_ctl r) (gcsr_writes full_window c') (regs s)"
    by (simp add: write_regs_passive)
  have dist: "distinct (map fst
     [(RN_RDMA_GCSR_DATBUFBA, v1 :: u32), (RN_RDMA_GCSR_DATBUFBAMSB, v2), (RN_RDMA_GCSR_DATBUFSZ, v3),
      (RN_RDMA_GCSR_IPKTERRQBA, v4), (RN_RDMA_GCSR_IPKTERRQBAMSB, v5), (RN_RDMA_GCSR_IPKTERRQSZ, v6),
      (RN_RDMA_GCSR_ERRBUFBA, v7), (RN_RDMA_GCSR_ERRBUFBAMSB, v8), (RN_RDMA_GCSR_ERRBUFSZ, v9),
      (RN_RDMA_GCSR_RESPERRPKTBA, v10), (RN_RDMA_GCSR_RESPERRPKTBAMSB, v11), (RN_RDMA_GCSR_RESPERRSZ, v12),
      (RN_RDMA_GCSR_RESPERRSZMSB, v13), (RN_RDMA_GCSR_INTEN, v14), (RN_RDMA_GCSR_MACXADDLSB, v15),
      (RN_RDMA_GCSR_MACXADDMSB, v16), (RN_RDMA_GCSR_IPV4XADD, v17), (RN_RDMA_GCSR_XRNICCONF, v18),
      (RN_RDMA_GCSR_XRNICADCONF, v19)])" for v1 v2 v3 v4 v5 v6 v7 v8 v9 v10 v11 v12 v13 v14 v15 v16 v17 v18 v19
    by (simp add: gcsr_defs)
  note w = greg_written [OF rg [unfolded gcsr_writes_def] dist]
  have v: "greg r s' RN_RDMA_GCSR_DATBUFBA = addr_lsb full_window dbuf" "greg r s' RN_RDMA_GCSR_DATBUFBAMSB = addr_msb full_window dbuf"
    "greg r s' RN_RDMA_GCSR_IPKTERRQBA = addr_lsb full_window ipkt" "greg r s' RN_RDMA_GCSR_IPKTERRQBAMSB = addr_msb full_window ipkt"
    "greg r s' RN_RDMA_GCSR_ERRBUFBA = addr_lsb full_window ebuf" "greg r s' RN_RDMA_GCSR_ERRBUFBAMSB = addr_msb full_window ebuf"
    "greg r s' RN_RDMA_GCSR_RESPERRPKTBA = addr_lsb full_window resp" "greg r s' RN_RDMA_GCSR_RESPERRPKTBAMSB = addr_msb full_window resp"
    "greg r s' RN_RDMA_GCSR_RESPERRSZ = ucast (rsz AND 0x00000000ffffffff)"
    "greg r s' RN_RDMA_GCSR_RESPERRSZMSB = ucast (drop_bit 32 rsz AND 0x00000000ffffffff)"
    "greg r s' RN_RDMA_GCSR_DATBUFSZ = push_bit 16 (ucast pds) OR ucast nd"
    "greg r s' RN_RDMA_GCSR_ERRBUFSZ = push_bit 16 (ucast pes) OR ucast ne"
    "greg r s' RN_RDMA_GCSR_IPKTERRQSZ = ucast isz"
    "greg r s' RN_RDMA_GCSR_XRNICCONF = xrnic_conf_value sport (rd_num_qp r)"
    "greg r s' RN_RDMA_GCSR_MACXADDLSB = mac_lsb mac" "greg r s' RN_RDMA_GCSR_MACXADDMSB = mac_msb mac"
    "greg r s' RN_RDMA_GCSR_IPV4XADD = ip"
    by (rule w, simp add: c'_def)+
  have z: "uint (ucast isz :: u32) = uint isz" using uint_lt2p [of isz] by (simp add: unsigned_ucast_eq take_bit_int_eq_self)
  have rs: "uint (ucast (drop_bit 32 rsz AND 0x00000000ffffffff) :: u32) * 2 ^ 32 + uint (ucast (rsz AND 0x00000000ffffffff) :: u32) = uint rsz"
    unfolding high_half unfolding low_half by simp
  show ?thesis
    by (rule exI [of _ s'], unfold v addr_halves halves16 xrnic_conf_fields z rs) (intro conjI s' refl)
qed

definition demo_csr :: rdma_glb_csr_t where
  "demo_csr = \<lparr>data_buf_size = 0, data_buf_baseaddr = 0, ipkt_err_stat_q_size = 0, ipkt_err_stat_q_baseaddr = 0,
     err_buf_baseaddr = 0, err_buf_size = 0, resp_err_pkt_buf_baseaddr = 0, resp_err_pkt_buf_size = 0,
     interrupt_enable = 0, src_mac = demo_mac, src_ip = 0, udp_sport = 0, num_qp_enabled = 0, xrnic_conf = 0,
     xrnic_advanced_conf = 0\<rparr>"

definition demo_rdma2 :: "unit lib_st" where
  "demo_rdma2 = demo_rdma\<lparr>heap := (heap demo_rdma)(5 \<mapsto> O_csr demo_csr, 9 \<mapsto> O_buf demo_base), brk := 9\<rparr>"

lemma demo_rdma2_heap:
  "heap demo_rdma2 4 = Some (O_rdma demo_r)" "heap demo_rdma2 (glb_csr demo_r) = Some (O_csr demo_csr)"
  "heap demo_rdma2 (rd_winSize demo_r) = Some (O_win full_window)" "heap demo_rdma2 7 = Some (O_pd demo_pd)"
  "heap demo_rdma2 9 = Some (O_buf demo_base)"
  by (simp_all add: demo_rdma2_def demo_rdma_def demo_r_def)

theorem open_rdma_dev_programs_witness:
  "\<exists>s'. open_rdma_dev demo_os 4 demo_mac 0xc0a80001 0x1234 64 4096 0xa350000000002000 256 0x12300001000 64 256
      0x12300010000 65536 0x12300020000 demo_rdma2 = (Inr (), s') \<and>
    uint (drop_bit 16 (greg demo_r s' RN_RDMA_GCSR_XRNICCONF)) = 0x1234 \<and> greg demo_r s' RN_RDMA_GCSR_IPV4XADD = 0xc0a80001"
proof -
  have p: "uint (0x1234 :: u32) mod 65536 = 0x1234" by simp
  show ?thesis
    using open_rdma_dev_programs [OF demo.quiet demo_rdma2_heap(1,2,3), of demo_mac "0xc0a80001" "0x1234" 64 4096
        "0xa350000000002000" 256 "0x12300001000" 64 256 "0x12300010000" 65536 "0x12300020000", unfolded p] by metis
qed

section \<open>Memory regions\<close>

text \<open>A register of a protection domain, on the card.\<close>

definition pdreg :: "rdma_dev_t \<Rightarrow> u32 \<Rightarrow> 'd lib_st \<Rightarrow> u32 \<Rightarrow> u32" where
  "pdreg r num s off = regs s (rd_axil_ctl r + ucast (get_rdma_pd_config_addr off num))"

lemma pdt_distinct: "distinct (map fst (pdt_writes p n))"
  by (simp add: pdt_writes_def get_rdma_pd_config_addr_def ucast_inj pdt_defs)

text \<open>\<open>rdma_register_memory_region\<close> tells the card exactly the region of the buffer: its virtual
  address, its address as the card reaches it, its length and its key, in the block of the
  protection domain, readable and writable; no register outside that block's seven entries changes.\<close>

theorem register_region_programs:
  assumes "os_hw e = hw_passive" and "heap s rdma = Some (O_rdma r)" and "heap s (rd_winSize r) = Some (O_win full_window)"
    and "heap s pd = Some (O_pd p)" and "heap s buf = Some (O_buf b)" and "rdma \<noteq> 0" "pd \<noteq> 0" "buf \<noteq> 0"
    and "rd_axil_ctl r \<noteq> 0" and "pd_access_type p = 2"
  shows "\<exists>s'. rdma_register_memory_region e rdma pd key buf s = (Inr (), s') \<and>
    uint (pdreg r (pd_num p) s' RN_RDMA_PDT_VIRTADDRMSB) * 2 ^ 32 + uint (pdreg r (pd_num p) s' RN_RDMA_PDT_VIRTADDRLSB) = uint (buffer b) \<and>
    uint (pdreg r (pd_num p) s' RN_RDMA_PDT_BUFBASEADDRMSB) * 2 ^ 32 + uint (pdreg r (pd_num p) s' RN_RDMA_PDT_BUFBASEADDRLSB) = card_address (dma_addr b) \<and>
    pdreg r (pd_num p) s' RN_RDMA_PDT_WRRDBUFLEN = buf_size b \<and>
    pdreg r (pd_num p) s' RN_RDMA_PDT_BUFRKEY = key \<and>
    pdreg r (pd_num p) s' RN_RDMA_PDT_ACCESSDESC = 2 \<and>
    (\<forall>a. (\<forall>off \<in> {RN_RDMA_PDT_VIRTADDRLSB, RN_RDMA_PDT_VIRTADDRMSB, RN_RDMA_PDT_BUFBASEADDRLSB,
        RN_RDMA_PDT_BUFBASEADDRMSB, RN_RDMA_PDT_BUFRKEY, RN_RDMA_PDT_WRRDBUFLEN, RN_RDMA_PDT_ACCESSDESC}.
        a \<noteq> rd_axil_ctl r + ucast (get_rdma_pd_config_addr off (pd_num p))) \<longrightarrow> regs s' a = regs s a)"
proof -
  define n where "n = (ucast (buf_size b) :: u64)"
  have hi: "drop_bit 32 n AND 0x00000000ffffffff = 0"
    unfolding n_def by (rule bit_word_eqI) (auto simp: bit_simps mask_consts dest: bit_imp_le_length)
  define p' where "p' = p\<lparr>mr_buffer := buf, dma_addr_lsb := addr_lsb full_window (dma_addr b),
      dma_addr_msb := addr_msb full_window (dma_addr b), virtual_addr_lsb := ucast (buffer b AND 0x00000000ffffffff),
      virtual_addr_msb := ucast (drop_bit 32 (buffer b) AND 0x00000000ffffffff),
      buffer_size_lsb := ucast (n AND 0x00000000ffffffff), buffer_size_msb := 0, pd_r_key := key\<rparr>"
  have ne: "rdma \<noteq> pd" "rd_winSize r \<noteq> pd" "buf \<noteq> pd" using assms(2-5) by auto
  have run: "rdma_register_memory_region e rdma pd key buf s =
      write_regs hw_passive (rd_axil_ctl r) (pdt_writes p' n) (s\<lparr>heap := (heap s)(pd \<mapsto> O_pd p')\<rparr>)"
    unfolding rdma_register_memory_region_def using assms ne
    by (simp add: run_simps Let_def p'_def n_def [symmetric] hi)
  then obtain s' where s': "rdma_register_memory_region e rdma pd key buf s = (Inr (), s')"
    and rg: "regs s' = apply_writes (rd_axil_ctl r) (pdt_writes p' n) (regs s)"
    by (simp add: write_regs_passive)
  have num: "pd_num p' = pd_num p" by (simp add: p'_def)
  have w: "pdreg r (pd_num p) s' off = v"
    if "(ucast (get_rdma_pd_config_addr off (pd_num p)), v) \<in> set (pdt_writes p' n)" for off v
    unfolding pdreg_def rg by (rule apply_writes_distinct [OF pdt_distinct that])
  have v: "pdreg r (pd_num p) s' RN_RDMA_PDT_VIRTADDRLSB = ucast (buffer b AND 0x00000000ffffffff)"
    "pdreg r (pd_num p) s' RN_RDMA_PDT_VIRTADDRMSB = ucast (drop_bit 32 (buffer b) AND 0x00000000ffffffff)"
    "pdreg r (pd_num p) s' RN_RDMA_PDT_BUFBASEADDRLSB = addr_lsb full_window (dma_addr b)"
    "pdreg r (pd_num p) s' RN_RDMA_PDT_BUFBASEADDRMSB = addr_msb full_window (dma_addr b)"
    "pdreg r (pd_num p) s' RN_RDMA_PDT_WRRDBUFLEN = ucast n" "pdreg r (pd_num p) s' RN_RDMA_PDT_BUFRKEY = key"
    "pdreg r (pd_num p) s' RN_RDMA_PDT_ACCESSDESC = 2"
    using assms(10) by (intro w; simp add: pdt_writes_def num; simp add: p'_def)+
  have u: "ucast n = buf_size b"
    unfolding n_def by (rule bit_word_eqI) (auto simp: bit_simps dest: bit_imp_le_length)
  have va: "uint (ucast (drop_bit 32 (buffer b) AND 0x00000000ffffffff) :: u32) * 2 ^ 32 +
      uint (ucast (buffer b AND 0x00000000ffffffff) :: u32) = uint (buffer b)"
    unfolding high_half unfolding low_half by simp
  have other: "\<forall>a. (\<forall>off \<in> {RN_RDMA_PDT_VIRTADDRLSB, RN_RDMA_PDT_VIRTADDRMSB, RN_RDMA_PDT_BUFBASEADDRLSB,
        RN_RDMA_PDT_BUFBASEADDRMSB, RN_RDMA_PDT_BUFRKEY, RN_RDMA_PDT_WRRDBUFLEN, RN_RDMA_PDT_ACCESSDESC}.
        a \<noteq> rd_axil_ctl r + ucast (get_rdma_pd_config_addr off (pd_num p))) \<longrightarrow> regs s' a = regs s a"
    unfolding rg by (intro allI impI apply_writes_other) (auto simp: pdt_writes_def num)
  show ?thesis
    by (rule exI [of _ s'], unfold v addr_halves u va) (intro conjI s' refl other)
qed

theorem register_region_programs_witness:
  "\<exists>s'. rdma_register_memory_region demo_os 4 7 0x10 9 demo_rdma2 = (Inr (), s') \<and>
    pdreg demo_r 3 s' RN_RDMA_PDT_BUFRKEY = 0x10"
proof -
  have p: "rd_axil_ctl demo_r \<noteq> 0" "pd_access_type demo_pd = 2" "pd_num demo_pd = 3"
    by (simp_all add: demo_r_def demo_pd_def)
  show ?thesis
    using register_region_programs [OF demo.quiet demo_rdma2_heap(1,3,4,5) _ _ _ p(1,2), of "0x10", unfolded p(3)] by auto
qed

end
