(* ===== verification/C_Bytes.thy ===== *)
theory C_Bytes
  imports Prelude
begin

text \<open>
  C objects as bytes: little-endian access to scalars in a block of memory, bit fields, and the
  x86-64 rules that place the members of a struct.  A block is a function from offsets to bytes;
  offsets past the declared size are the memory behind it.
\<close>

type_synonym bytes = "nat \<Rightarrow> u8"

section \<open>Scalars\<close>

primrec get_le :: "nat \<Rightarrow> nat \<Rightarrow> bytes \<Rightarrow> u64" where
  "get_le 0 off m = 0"
| "get_le (Suc n) off m = ucast (m off) OR push_bit 8 (get_le n (Suc off) m)"

primrec put_le :: "nat \<Rightarrow> nat \<Rightarrow> u64 \<Rightarrow> bytes \<Rightarrow> bytes" where
  "put_le 0 off v m = m"
| "put_le (Suc n) off v m = put_le n (Suc off) (drop_bit 8 v) (m(off := ucast v))"

lemma put_le_outside: "x < off \<or> off + n \<le> x \<Longrightarrow> put_le n off v m x = m x"
  by (induction n arbitrary: off v m) auto

lemma get_le_cong: "(\<And>x. off \<le> x \<Longrightarrow> x < off + n \<Longrightarrow> m x = m' x) \<Longrightarrow> get_le n off m = get_le n off m'"
proof (induction n arbitrary: off)
  case (Suc n)
  have "get_le n (Suc off) m = get_le n (Suc off) m'" using Suc.prems by (intro Suc.IH) simp
  then show ?case using Suc.prems by simp
qed simp

lemma get_put_other: "off + n \<le> off' \<or> off' + n' \<le> off \<Longrightarrow> get_le n off (put_le n' off' v m) = get_le n off m"
  by (rule get_le_cong) (auto intro: put_le_outside)

lemma get_put_same: "get_le n off (put_le n off v m) = take_bit (8 * n) v"
proof (induction n arbitrary: off v m)
  case (Suc n)
  have "put_le n (Suc off) (drop_bit 8 v) (m(off := ucast v)) off = ucast v" by (simp add: put_le_outside)
  then have "get_le (Suc n) off (put_le (Suc n) off v m) =
      ucast (ucast v :: u8) OR push_bit 8 (take_bit (8 * n) (drop_bit 8 v))" by (simp add: Suc.IH)
  also have "\<dots> = take_bit (8 * Suc n) v"
    by (rule bit_word_eqI) (auto simp: bit_simps)
  finally show ?case .
qed simp

lemma get_le_low: "k \<le> n \<Longrightarrow> take_bit (8 * k) (get_le n off m) = get_le k off m"
proof (induction k arbitrary: n off)
  case (Suc k)
  obtain n' where n: "n = Suc n'" "k \<le> n'" using Suc.prems by (cases n) auto
  have "take_bit (8 * Suc k) (get_le n off m) = ucast (m off) OR push_bit 8 (take_bit (8 * k) (get_le n' (Suc off) m))"
    unfolding n(1) by (rule bit_word_eqI) (auto simp: bit_simps dest: bit_imp_le_length)
  then show ?case using Suc.IH [OF n(2)] by simp
qed simp

lemma put_le_byte: "i < n \<Longrightarrow> put_le n off v m (off + i) = ucast (drop_bit (8 * i) v)"
proof (induction n arbitrary: off v m i)
  case (Suc n)
  show ?case
  proof (cases i)
    case 0
    then show ?thesis by (simp add: put_le_outside)
  next
    case (Suc j)
    then show ?thesis using Suc.prems Suc.IH [of j "Suc off" "drop_bit 8 v"] by (simp add: add.commute)
  qed
qed simp

definition rd16 :: "nat \<Rightarrow> bytes \<Rightarrow> u16" where
  "rd16 off m = ucast (get_le 2 off m)"

definition rd32 :: "nat \<Rightarrow> bytes \<Rightarrow> u32" where
  "rd32 off m = ucast (get_le 4 off m)"

definition rd64 :: "nat \<Rightarrow> bytes \<Rightarrow> u64" where
  "rd64 off m = get_le 8 off m"

definition wr8 :: "nat \<Rightarrow> u8 \<Rightarrow> bytes \<Rightarrow> bytes" where
  "wr8 off v m = m(off := v)"

definition wr16 :: "nat \<Rightarrow> u16 \<Rightarrow> bytes \<Rightarrow> bytes" where
  "wr16 off v m = put_le 2 off (ucast v) m"

definition wr32 :: "nat \<Rightarrow> u32 \<Rightarrow> bytes \<Rightarrow> bytes" where
  "wr32 off v m = put_le 4 off (ucast v) m"

definition wr64 :: "nat \<Rightarrow> u64 \<Rightarrow> bytes \<Rightarrow> bytes" where
  "wr64 off v m = put_le 8 off v m"

text \<open>What an access sees of the other accesses to the block.\<close>

named_theorems byte_simps

lemma wr8_le: "wr8 off v m = put_le 1 off (ucast v) m"
  by (rule ext) (auto simp: wr8_def intro!: bit_word_eqI simp: bit_simps dest: bit_imp_le_length)

lemma rd_wr_same [byte_simps]:
  "rd16 off (wr16 off v16 m) = v16" "rd32 off (wr32 off v32 m) = v32" "rd64 off (wr64 off v64 m) = v64"
  "wr8 off v8 m off = v8"
  by (simp_all add: rd16_def wr16_def rd32_def wr32_def rd64_def wr64_def wr8_def get_put_same)
    (rule bit_word_eqI, auto simp: bit_simps dest: bit_imp_le_length)+

lemma byte_other [byte_simps]:
  "x \<noteq> off \<Longrightarrow> wr8 off v8 m x = m x"
  "x < off \<or> off + 2 \<le> x \<Longrightarrow> wr16 off v16 m x = m x"
  "x < off \<or> off + 4 \<le> x \<Longrightarrow> wr32 off v32 m x = m x"
  "x < off \<or> off + 8 \<le> x \<Longrightarrow> wr64 off v64 m x = m x"
  by (simp_all add: wr8_def wr16_def wr32_def wr64_def put_le_outside)

lemma rd16_other [byte_simps]:
  "off + 2 \<le> off' \<or> off' + 1 \<le> off \<Longrightarrow> rd16 off (wr8 off' v8 m) = rd16 off m"
  "off + 2 \<le> off' \<or> off' + 2 \<le> off \<Longrightarrow> rd16 off (wr16 off' v16 m) = rd16 off m"
  "off + 2 \<le> off' \<or> off' + 4 \<le> off \<Longrightarrow> rd16 off (wr32 off' v32 m) = rd16 off m"
  "off + 2 \<le> off' \<or> off' + 8 \<le> off \<Longrightarrow> rd16 off (wr64 off' v64 m) = rd16 off m"
  by (simp_all add: rd16_def wr8_le wr16_def wr32_def wr64_def get_put_other del: put_le.simps)

lemma rd32_other [byte_simps]:
  "off + 4 \<le> off' \<or> off' + 1 \<le> off \<Longrightarrow> rd32 off (wr8 off' v8 m) = rd32 off m"
  "off + 4 \<le> off' \<or> off' + 2 \<le> off \<Longrightarrow> rd32 off (wr16 off' v16 m) = rd32 off m"
  "off + 4 \<le> off' \<or> off' + 4 \<le> off \<Longrightarrow> rd32 off (wr32 off' v32 m) = rd32 off m"
  "off + 4 \<le> off' \<or> off' + 8 \<le> off \<Longrightarrow> rd32 off (wr64 off' v64 m) = rd32 off m"
  by (simp_all add: rd32_def wr8_le wr16_def wr32_def wr64_def get_put_other del: put_le.simps)

lemma rd64_other [byte_simps]:
  "off + 8 \<le> off' \<or> off' + 1 \<le> off \<Longrightarrow> rd64 off (wr8 off' v8 m) = rd64 off m"
  "off + 8 \<le> off' \<or> off' + 2 \<le> off \<Longrightarrow> rd64 off (wr16 off' v16 m) = rd64 off m"
  "off + 8 \<le> off' \<or> off' + 4 \<le> off \<Longrightarrow> rd64 off (wr32 off' v32 m) = rd64 off m"
  "off + 8 \<le> off' \<or> off' + 8 \<le> off \<Longrightarrow> rd64 off (wr64 off' v64 m) = rd64 off m"
  by (simp_all add: rd64_def wr8_le wr16_def wr32_def wr64_def get_put_other del: put_le.simps)

text \<open>Reading the words of a block and writing them elsewhere copies its bytes.\<close>

lemma wr32_byte: "i < 4 \<Longrightarrow> wr32 off v m (off + i) = ucast (drop_bit (8 * i) v)"
  unfolding wr32_def by (subst put_le_byte) (auto intro!: bit_word_eqI simp: bit_simps dest: bit_imp_le_length)

lemma u8_beyond: "8 \<le> n \<Longrightarrow> \<not> bit (x :: u8) n"
  using bit_imp_le_length [of x n] by auto

lemma rd32_byte: "i < 4 \<Longrightarrow> ucast (drop_bit (8 * i) (rd32 off m)) = m (off + i)"
proof -
  assume i: "i < 4"
  have n: "get_le 4 off m = ucast (m off) OR push_bit 8 (ucast (m (off + 1)) OR
      push_bit 8 (ucast (m (off + 2)) OR push_bit 8 (ucast (m (off + 3)))))"
    by (simp add: numeral_eq_Suc)
  have "i = 0 \<or> i = 1 \<or> i = 2 \<or> i = 3" using i by arith
  then show ?thesis unfolding rd32_def n
    by (elim disjE) (auto intro!: bit_word_eqI simp: bit_simps u8_beyond)
qed

text \<open>Widening loses nothing.\<close>

lemma widen_narrow: "LENGTH('a) \<le> LENGTH('b) \<Longrightarrow> ucast (ucast (x :: 'a::len word) :: 'b::len word) = x"
  by (rule bit_word_eqI) (auto simp: bit_simps dest: bit_imp_le_length)

section \<open>Bit fields\<close>

text \<open>\<open>n\<close> bits from bit \<open>k\<close> on; the first field of a unit takes its lowest bits.\<close>

definition bf_get :: "nat \<Rightarrow> nat \<Rightarrow> 'a::len word \<Rightarrow> 'a word" where
  "bf_get k n w = take_bit n (drop_bit k w)"

definition bf_put :: "nat \<Rightarrow> nat \<Rightarrow> 'a::len word \<Rightarrow> 'a word \<Rightarrow> 'a word" where
  "bf_put k n v w = (w AND NOT (push_bit k (mask n))) OR push_bit k (take_bit n v)"

lemma bf_get_put [byte_simps]:
  "k + n \<le> LENGTH('a) \<Longrightarrow> bf_get k n (bf_put k n v (w :: 'a::len word)) = take_bit n v"
  by (rule bit_word_eqI) (auto simp: bf_get_def bf_put_def bit_simps)

lemma bf_get_put_other [byte_simps]:
  "k + n \<le> k' \<or> k' + n' \<le> k \<Longrightarrow> bf_get k n (bf_put k' n' v (w :: 'a::len word)) = bf_get k n w"
  by (rule bit_word_eqI) (auto simp: bf_get_def bf_put_def bit_simps dest: bit_imp_le_length)

text \<open>Bit fields of a unit, lowest first, as (value, width) pairs.\<close>

fun pack_bits :: "(u32 \<times> nat) list \<Rightarrow> u32" where
  "pack_bits [] = 0"
| "pack_bits ((v, n) # fs) = take_bit n v OR push_bit n (pack_bits fs)"

section \<open>Layout\<close>

text \<open>A type is its size and its alignment.\<close>

type_synonym cty = "nat \<times> nat"

definition scalar :: "nat \<Rightarrow> cty" where
  "scalar n = (n, n)"

definition c_array :: "nat \<Rightarrow> cty \<Rightarrow> cty" where
  "c_array n t = (n * fst t, snd t)"

definition align_up :: "nat \<Rightarrow> nat \<Rightarrow> nat" where
  "align_up a n = n + (a - n mod a) mod a"

fun offsets :: "nat \<Rightarrow> cty list \<Rightarrow> nat list" where
  "offsets off [] = []"
| "offsets off ((s, a) # ts) = align_up a off # offsets (align_up a off + s) ts"

fun end_of :: "nat \<Rightarrow> cty list \<Rightarrow> nat" where
  "end_of off [] = off"
| "end_of off ((s, a) # ts) = end_of (align_up a off + s) ts"

definition c_struct :: "cty list \<Rightarrow> cty" where
  "c_struct ts = (let a = foldr max (map snd ts) 1 in (align_up a (end_of 0 ts), a))"

definition c_union :: "cty list \<Rightarrow> cty" where
  "c_union ts = (let a = foldr max (map snd ts) 1 in (align_up a (foldr max (map fst ts) 0), a))"

lemma foldr_max_ge: "k \<le> foldr max xs (k :: nat)"
  by (induction xs) auto

lemma layout_bytes:
  "end_of off (replicate n (1, 1) @ ts) = end_of (off + n) ts"
  "foldr max (map snd (replicate n (1 :: nat, 1 :: nat) @ ts)) 1 = foldr max (map snd ts) (1 :: nat)"
  using foldr_max_ge [of 1 "map snd ts"]
  by (induction n arbitrary: off) (auto simp: align_up_def max_def)

lemmas layout_simps = numeral_2_eq_2 [symmetric] c_struct_def c_union_def c_array_def scalar_def align_up_def Let_def

text \<open>Reading and writing all scalar members of a struct at once, each with its offset and size.\<close>

definition members :: "cty list \<Rightarrow> (nat \<times> nat) list" where
  "members ts = zip (offsets 0 ts) (map fst ts)"

fun get_members :: "nat \<Rightarrow> (nat \<times> nat) list \<Rightarrow> bytes \<Rightarrow> u64 list" where
  "get_members base [] m = []"
| "get_members base ((off, n) # ms) m = get_le n (base + off) m # get_members base ms m"

fun put_members :: "nat \<Rightarrow> (nat \<times> nat) list \<Rightarrow> u64 list \<Rightarrow> bytes \<Rightarrow> bytes" where
  "put_members base ((off, n) # ms) (v # vs) m = put_members base ms vs (put_le n (base + off) v m)"
| "put_members base _ _ m = m"

lemma put_members_outside:
  assumes "\<forall>(off, n) \<in> set ms. x < base + off \<or> base + off + n \<le> x"
  shows "put_members base ms vs m x = m x"
  using assms by (induction base ms vs m rule: put_members.induct) (auto simp: put_le_outside)

text \<open>Members in increasing order do not overlap, so each is read back as written.\<close>

fun increasing :: "(nat \<times> nat) list \<Rightarrow> bool" where
  "increasing [] = True"
| "increasing [x] = True"
| "increasing ((o1, n1) # (o2, n2) # ms) \<longleftrightarrow> o1 + n1 \<le> o2 \<and> increasing ((o2, n2) # ms)"

lemma increasing_after:
  "increasing ((o1, n1) # ms) \<Longrightarrow> (o2, n2) \<in> set ms \<Longrightarrow> o1 + n1 \<le> o2"
  by (induction ms arbitrary: o1 n1) fastforce+

lemma increasing_tl: "increasing (x # ms) \<Longrightarrow> increasing ms"
  by (cases ms) (auto elim: increasing.elims)

lemma get_put_members:
  assumes "increasing ms" and "length vs = length ms"
  shows "get_members base ms (put_members base ms vs m) = map2 (\<lambda>(_, n) v. take_bit (8 * n) v) ms vs"
  using assms
proof (induction base ms vs m rule: put_members.induct)
  case (1 base off n ms v vs m)
  have "get_le n (base + off) (put_members base ms vs (put_le n (base + off) v m)) =
      get_le n (base + off) (put_le n (base + off) v m)"
    using increasing_after [OF 1(2)] by (intro get_le_cong put_members_outside) fastforce
  then show ?case using 1 increasing_tl [OF 1(2)] by (simp add: get_put_same)
qed auto

lemma get_members_other:
  "(\<And>x. base \<le> x \<Longrightarrow> m x = m' x) \<Longrightarrow> get_members base ms m = get_members base ms m'"
  by (induction ms) (auto intro!: get_le_cong)

end
