(* ===== verification/Qdma_Hw_Access.thy ===== *)
theory Qdma_Hw_Access
  imports C_Bytes Qdma_Resource
begin

text \<open>
  The queue contexts of \<open>qdma_access_common.h\<close>, their layout in memory, and \<open>struct qdma_hw_access\<close>,
  the table of functions through which the device-independent code reaches a QDMA.  The functions
  of the table belong to the register back ends, so the table is a parameter of what uses it.
\<close>

section \<open>Contexts\<close>

record qdma_descq_sw_ctxt =
  sw_ring_bs_addr :: u64
  sw_vec :: u16
  sw_pidx :: u16
  sw_irq_arm :: u8
  sw_fnc_id :: u8
  sw_qen :: u8
  sw_frcd_en :: u8
  sw_wbi_chk :: u8
  sw_wbi_intvl_en :: u8
  sw_at :: u8
  sw_fetch_max :: u8
  sw_rngsz_idx :: u8
  sw_desc_sz :: u8
  sw_bypass :: u8
  sw_mm_chn :: u8
  sw_wbk_en :: u8
  sw_irq_en :: u8
  sw_port_id :: u8
  sw_irq_no_last :: u8
  sw_err :: u8
  sw_err_wb_sent :: u8
  sw_irq_req :: u8
  sw_mrkr_dis :: u8
  sw_is_mm :: u8
  sw_intr_aggr :: u8
  sw_pasid_en :: u8
  sw_dis_intr_on_vf :: u8
  sw_virtio_en :: u8
  sw_pack_byp_out :: u8
  sw_irq_byp :: u8
  sw_host_id :: u8
  sw_pasid :: u32
  sw_virtio_dsc_base :: u64

record qdma_descq_hw_ctxt =
  hw_cidx :: u16
  hw_crd_use :: u16
  hw_dsc_pend :: u8
  hw_idl_stp_b :: u8
  hw_evt_pnd :: u8
  hw_fetch_pnd :: u8

record qdma_descq_credit_ctxt =
  cr_credit :: u32

record qdma_descq_prefetch_ctxt =
  pc_sw_crdt :: u16
  pc_bypass :: u8
  pc_bufsz_idx :: u8
  pc_port_id :: u8
  pc_var_desc :: u8
  pc_num_pftch :: u16
  pc_err :: u8
  pc_pfch_en :: u8
  pc_pfch :: u8
  pc_valid :: u8

record qdma_descq_cmpt_ctxt =
  cm_bs_addr :: u64
  cm_vec :: u16
  cm_pidx :: u16
  cm_cidx :: u16
  cm_en_stat_desc :: u8
  cm_en_int :: u8
  cm_trig_mode :: u8
  cm_fnc_id :: u8
  cm_counter_idx :: u8
  cm_timer_idx :: u8
  cm_in_st :: u8
  cm_color :: u8
  cm_ringsz_idx :: u8
  cm_desc_sz :: u8
  cm_valid :: u8
  cm_err :: u8
  cm_user_trig_pend :: u8
  cm_timer_running :: u8
  cm_full_upd :: u8
  cm_ovf_chk_dis :: u8
  cm_at :: u8
  cm_int_aggr :: u8
  cm_dis_intr_on_vf :: u8
  cm_vio :: u8
  cm_dir_c2h :: u8
  cm_host_id :: u8
  cm_pasid :: u32
  cm_pasid_en :: u8
  cm_vio_eop :: u8
  cm_sh_cmpt :: u8

record qdma_indirect_intr_ctxt =
  ic_baddr_4k :: u64
  ic_vec :: u16
  ic_pidx :: u16
  ic_valid :: u8
  ic_int_st :: u8
  ic_color :: u8
  ic_page_size :: u8
  ic_at :: u8
  ic_host_id :: u8
  ic_pasid :: u32
  ic_pasid_en :: u8
  ic_func_id :: u16

record qdma_fmap_cfg =
  fmap_qbase :: u16
  fmap_qmax :: u16

text \<open>The attributes a virtual function is told; one-bit members are one-bit words.\<close>

record qdma_dev_attributes =
  num_pfs :: u8
  num_qs :: u16
  flr_present :: "1 word"
  st_en :: "1 word"
  mm_en :: "1 word"
  mm_cmpt_en :: "1 word"
  mailbox_en :: "1 word"
  debug_mode :: "1 word"
  desc_eng_mode :: "2 word"
  mm_channel_max :: u8
  qid2vec_ctx :: "1 word"
  cmpt_ovf_chk_dis :: "1 word"
  mailbox_intr :: "1 word"
  sw_desc_64b :: "1 word"
  cmpt_desc_64b :: "1 word"
  dynamic_bar :: "1 word"
  legacy_intr :: "1 word"
  cmpt_trig_count_timer :: "1 word"

section \<open>Layout\<close>

definition sw_ctxt_members :: "cty list" where
  "sw_ctxt_members = [scalar 8, scalar 2, scalar 2] @ replicate 28 (scalar 1) @ [scalar 4, scalar 8]"

definition hw_ctxt_members :: "cty list" where
  "hw_ctxt_members = [scalar 2, scalar 2, scalar 1, scalar 1, scalar 1, scalar 1]"

definition credit_ctxt_members :: "cty list" where
  "credit_ctxt_members = [scalar 4]"

definition prefetch_ctxt_members :: "cty list" where
  "prefetch_ctxt_members =
     [scalar 2, scalar 1, scalar 1, scalar 1, scalar 1, scalar 2, scalar 1, scalar 1, scalar 1, scalar 1]"

definition cmpt_ctxt_members :: "cty list" where
  "cmpt_ctxt_members = [scalar 8, scalar 2, scalar 2, scalar 2] @ replicate 22 (scalar 1) @
     [scalar 4, scalar 1, scalar 1, scalar 1]"

definition intr_ctxt_members :: "cty list" where
  "intr_ctxt_members = [scalar 8, scalar 2, scalar 2, scalar 1, scalar 1, scalar 1, scalar 1, scalar 1,
     scalar 1, scalar 4, scalar 1, scalar 2]"

definition qid2vec_members :: "cty list" where
  "qid2vec_members = replicate 4 (scalar 1)"

definition fmap_members :: "cty list" where
  "fmap_members = [scalar 2, scalar 2]"

text \<open>\<open>struct qdma_descq_context\<close>: queue vector, function map, then the five contexts.\<close>

definition descq_context_members :: "cty list" where
  "descq_context_members = [c_struct qid2vec_members, c_struct fmap_members, c_struct sw_ctxt_members,
     c_struct hw_ctxt_members, c_struct credit_ctxt_members, c_struct prefetch_ctxt_members,
     c_struct cmpt_ctxt_members]"

definition sw_ctxt_vals :: "qdma_descq_sw_ctxt \<Rightarrow> u64 list" where
  "sw_ctxt_vals c = [sw_ring_bs_addr c, ucast (sw_vec c), ucast (sw_pidx c)] @
     map ucast [sw_irq_arm c, sw_fnc_id c, sw_qen c, sw_frcd_en c, sw_wbi_chk c, sw_wbi_intvl_en c, sw_at c,
       sw_fetch_max c, sw_rngsz_idx c, sw_desc_sz c, sw_bypass c, sw_mm_chn c, sw_wbk_en c, sw_irq_en c,
       sw_port_id c, sw_irq_no_last c, sw_err c, sw_err_wb_sent c, sw_irq_req c, sw_mrkr_dis c, sw_is_mm c,
       sw_intr_aggr c, sw_pasid_en c, sw_dis_intr_on_vf c, sw_virtio_en c, sw_pack_byp_out c, sw_irq_byp c,
       sw_host_id c] @ [ucast (sw_pasid c), sw_virtio_dsc_base c]"

definition hw_ctxt_vals :: "qdma_descq_hw_ctxt \<Rightarrow> u64 list" where
  "hw_ctxt_vals c = [ucast (hw_cidx c), ucast (hw_crd_use c), ucast (hw_dsc_pend c), ucast (hw_idl_stp_b c),
     ucast (hw_evt_pnd c), ucast (hw_fetch_pnd c)]"

definition credit_ctxt_vals :: "qdma_descq_credit_ctxt \<Rightarrow> u64 list" where
  "credit_ctxt_vals c = [ucast (cr_credit c)]"

definition prefetch_ctxt_vals :: "qdma_descq_prefetch_ctxt \<Rightarrow> u64 list" where
  "prefetch_ctxt_vals c = [ucast (pc_sw_crdt c), ucast (pc_bypass c), ucast (pc_bufsz_idx c), ucast (pc_port_id c),
     ucast (pc_var_desc c), ucast (pc_num_pftch c), ucast (pc_err c), ucast (pc_pfch_en c), ucast (pc_pfch c),
     ucast (pc_valid c)]"

definition cmpt_ctxt_vals :: "qdma_descq_cmpt_ctxt \<Rightarrow> u64 list" where
  "cmpt_ctxt_vals c = [cm_bs_addr c, ucast (cm_vec c), ucast (cm_pidx c), ucast (cm_cidx c)] @
     map ucast [cm_en_stat_desc c, cm_en_int c, cm_trig_mode c, cm_fnc_id c, cm_counter_idx c, cm_timer_idx c,
       cm_in_st c, cm_color c, cm_ringsz_idx c, cm_desc_sz c, cm_valid c, cm_err c, cm_user_trig_pend c,
       cm_timer_running c, cm_full_upd c, cm_ovf_chk_dis c, cm_at c, cm_int_aggr c, cm_dis_intr_on_vf c,
       cm_vio c, cm_dir_c2h c, cm_host_id c] @
     [ucast (cm_pasid c), ucast (cm_pasid_en c), ucast (cm_vio_eop c), ucast (cm_sh_cmpt c)]"

definition intr_ctxt_vals :: "qdma_indirect_intr_ctxt \<Rightarrow> u64 list" where
  "intr_ctxt_vals c = [ic_baddr_4k c, ucast (ic_vec c), ucast (ic_pidx c), ucast (ic_valid c), ucast (ic_int_st c),
     ucast (ic_color c), ucast (ic_page_size c), ucast (ic_at c), ucast (ic_host_id c), ucast (ic_pasid c),
     ucast (ic_pasid_en c), ucast (ic_func_id c)]"

definition sw_ctxt_of :: "u64 list \<Rightarrow> qdma_descq_sw_ctxt" where
  "sw_ctxt_of vs = \<lparr>sw_ring_bs_addr = vs ! 0, sw_vec = ucast (vs ! 1), sw_pidx = ucast (vs ! 2),
     sw_irq_arm = ucast (vs ! 3), sw_fnc_id = ucast (vs ! 4), sw_qen = ucast (vs ! 5),
     sw_frcd_en = ucast (vs ! 6), sw_wbi_chk = ucast (vs ! 7), sw_wbi_intvl_en = ucast (vs ! 8),
     sw_at = ucast (vs ! 9), sw_fetch_max = ucast (vs ! 10), sw_rngsz_idx = ucast (vs ! 11),
     sw_desc_sz = ucast (vs ! 12), sw_bypass = ucast (vs ! 13), sw_mm_chn = ucast (vs ! 14),
     sw_wbk_en = ucast (vs ! 15), sw_irq_en = ucast (vs ! 16), sw_port_id = ucast (vs ! 17),
     sw_irq_no_last = ucast (vs ! 18), sw_err = ucast (vs ! 19), sw_err_wb_sent = ucast (vs ! 20),
     sw_irq_req = ucast (vs ! 21), sw_mrkr_dis = ucast (vs ! 22), sw_is_mm = ucast (vs ! 23),
     sw_intr_aggr = ucast (vs ! 24), sw_pasid_en = ucast (vs ! 25), sw_dis_intr_on_vf = ucast (vs ! 26),
     sw_virtio_en = ucast (vs ! 27), sw_pack_byp_out = ucast (vs ! 28), sw_irq_byp = ucast (vs ! 29),
     sw_host_id = ucast (vs ! 30), sw_pasid = ucast (vs ! 31), sw_virtio_dsc_base = vs ! 32\<rparr>"

definition hw_ctxt_of :: "u64 list \<Rightarrow> qdma_descq_hw_ctxt" where
  "hw_ctxt_of vs = \<lparr>hw_cidx = ucast (vs ! 0), hw_crd_use = ucast (vs ! 1), hw_dsc_pend = ucast (vs ! 2),
     hw_idl_stp_b = ucast (vs ! 3), hw_evt_pnd = ucast (vs ! 4), hw_fetch_pnd = ucast (vs ! 5)\<rparr>"

definition credit_ctxt_of :: "u64 list \<Rightarrow> qdma_descq_credit_ctxt" where
  "credit_ctxt_of vs = \<lparr>cr_credit = ucast (vs ! 0)\<rparr>"

definition prefetch_ctxt_of :: "u64 list \<Rightarrow> qdma_descq_prefetch_ctxt" where
  "prefetch_ctxt_of vs = \<lparr>pc_sw_crdt = ucast (vs ! 0), pc_bypass = ucast (vs ! 1), pc_bufsz_idx = ucast (vs ! 2),
     pc_port_id = ucast (vs ! 3), pc_var_desc = ucast (vs ! 4), pc_num_pftch = ucast (vs ! 5),
     pc_err = ucast (vs ! 6), pc_pfch_en = ucast (vs ! 7), pc_pfch = ucast (vs ! 8),
     pc_valid = ucast (vs ! 9)\<rparr>"

definition cmpt_ctxt_of :: "u64 list \<Rightarrow> qdma_descq_cmpt_ctxt" where
  "cmpt_ctxt_of vs = \<lparr>cm_bs_addr = vs ! 0, cm_vec = ucast (vs ! 1), cm_pidx = ucast (vs ! 2), cm_cidx = ucast (vs ! 3),
     cm_en_stat_desc = ucast (vs ! 4), cm_en_int = ucast (vs ! 5), cm_trig_mode = ucast (vs ! 6),
     cm_fnc_id = ucast (vs ! 7), cm_counter_idx = ucast (vs ! 8), cm_timer_idx = ucast (vs ! 9),
     cm_in_st = ucast (vs ! 10), cm_color = ucast (vs ! 11), cm_ringsz_idx = ucast (vs ! 12),
     cm_desc_sz = ucast (vs ! 13), cm_valid = ucast (vs ! 14), cm_err = ucast (vs ! 15),
     cm_user_trig_pend = ucast (vs ! 16), cm_timer_running = ucast (vs ! 17),
     cm_full_upd = ucast (vs ! 18), cm_ovf_chk_dis = ucast (vs ! 19), cm_at = ucast (vs ! 20),
     cm_int_aggr = ucast (vs ! 21), cm_dis_intr_on_vf = ucast (vs ! 22), cm_vio = ucast (vs ! 23),
     cm_dir_c2h = ucast (vs ! 24), cm_host_id = ucast (vs ! 25), cm_pasid = ucast (vs ! 26),
     cm_pasid_en = ucast (vs ! 27), cm_vio_eop = ucast (vs ! 28), cm_sh_cmpt = ucast (vs ! 29)\<rparr>"

definition intr_ctxt_of :: "u64 list \<Rightarrow> qdma_indirect_intr_ctxt" where
  "intr_ctxt_of vs = \<lparr>ic_baddr_4k = vs ! 0, ic_vec = ucast (vs ! 1), ic_pidx = ucast (vs ! 2), ic_valid = ucast (vs ! 3),
     ic_int_st = ucast (vs ! 4), ic_color = ucast (vs ! 5), ic_page_size = ucast (vs ! 6), ic_at = ucast (vs ! 7),
     ic_host_id = ucast (vs ! 8), ic_pasid = ucast (vs ! 9), ic_pasid_en = ucast (vs ! 10),
     ic_func_id = ucast (vs ! 11)\<rparr>"

lemma ctxt_sizes:
  "c_struct qid2vec_members = (4, 1)" "c_struct fmap_members = (4, 2)" "c_struct sw_ctxt_members = (56, 8)"
  "c_struct hw_ctxt_members = (8, 2)" "c_struct credit_ctxt_members = (4, 4)"
  "c_struct prefetch_ctxt_members = (12, 2)" "c_struct cmpt_ctxt_members = (48, 8)"
  "c_struct intr_ctxt_members = (32, 8)"
proof -
  show "c_struct qid2vec_members = (4, 1)"
    using layout_bytes(1) [of 0 4 "[]"] layout_bytes(2) [of 4 "[]"] by (simp add: qid2vec_members_def layout_simps)
  show "c_struct sw_ctxt_members = (56, 8)" "c_struct cmpt_ctxt_members = (48, 8)"
    using layout_bytes(1) [of 12 28 "[(4, 4), (8, 8)]"] layout_bytes(2) [of 28 "[(4, 4), (8, 8)]"]
      layout_bytes(1) [of 14 22 "[(4, 4), (1, 1), (1, 1), (1, 1)]"] layout_bytes(2) [of 22 "[(4, 4), (1, 1), (1, 1), (1, 1)]"]
    by (simp_all add: sw_ctxt_members_def cmpt_ctxt_members_def layout_simps)
qed (simp_all add: fmap_members_def hw_ctxt_members_def credit_ctxt_members_def prefetch_ctxt_members_def
    intr_ctxt_members_def layout_simps)

text \<open>All layouts are in increasing order, and there is a value for every member.\<close>

lemma layouts_increasing:
  "increasing (members sw_ctxt_members)" "increasing (members hw_ctxt_members)"
  "increasing (members credit_ctxt_members)" "increasing (members prefetch_ctxt_members)"
  "increasing (members cmpt_ctxt_members)" "increasing (members intr_ctxt_members)"
  by code_simp+

section \<open>The function table\<close>

datatype qdma_hw_access_type = QDMA_HW_ACCESS_READ | QDMA_HW_ACCESS_WRITE | QDMA_HW_ACCESS_CLEAR
  | QDMA_HW_ACCESS_INVALIDATE

datatype qdma_global_csr_type = QDMA_CSR_RING_SZ | QDMA_CSR_TIMER_CNT | QDMA_CSR_CNT_TH | QDMA_CSR_BUF_SZ

text \<open>A context function takes the context it is given a pointer to (\<open>None\<close> is the null pointer; a
  read updates the content, and may leave members of it as they were) and yields the result code,
  the context it stored through the pointer (\<open>None\<close>: nothing was stored), and the device state.  \<open>qdma_global_csr_conf\<close> is the
  read of a whole array of 16 registers.\<close>

type_synonym ('c, 'h) ctx_conf = "'c option \<Rightarrow> qdma_hw_access_type \<Rightarrow> 'h \<Rightarrow> int \<times> 'c option \<times> 'h"

record 'h qdma_hw_access =
  qdma_global_csr_conf :: "qdma_global_csr_type \<Rightarrow> 'h \<Rightarrow> int \<times> (nat \<Rightarrow> u32) option \<times> 'h"
  qdma_fmap_conf :: "u16 \<Rightarrow> (qdma_fmap_cfg, 'h) ctx_conf"
  qdma_sw_ctx_conf :: "u8 \<Rightarrow> u16 \<Rightarrow> (qdma_descq_sw_ctxt, 'h) ctx_conf"
  qdma_pfetch_ctx_conf :: "u16 \<Rightarrow> (qdma_descq_prefetch_ctxt, 'h) ctx_conf"
  qdma_cmpt_ctx_conf :: "u16 \<Rightarrow> (qdma_descq_cmpt_ctxt, 'h) ctx_conf"
  qdma_hw_ctx_conf :: "u8 \<Rightarrow> u16 \<Rightarrow> (qdma_descq_hw_ctxt, 'h) ctx_conf"
  qdma_credit_ctx_conf :: "u8 \<Rightarrow> u16 \<Rightarrow> (qdma_descq_credit_ctxt, 'h) ctx_conf"
  qdma_indirect_intr_ctx_conf :: "u16 \<Rightarrow> (qdma_indirect_intr_ctxt, 'h) ctx_conf"
  qdma_get_device_attributes :: "'h \<Rightarrow> qdma_dev_attributes \<times> 'h"
  qdma_read_reg_list :: "u8 \<Rightarrow> u16 \<Rightarrow> 'h \<Rightarrow> int \<times> (u16 \<times> (u32 \<times> u32) list) option \<times> 'h"
  mbox_base_pf :: u32
  mbox_base_vf :: u32

end
