(* ===== verification/Qdma_Mbox_Msg.thy ===== *)
theory Qdma_Mbox_Msg
  imports Qdma_Hw_Access
begin

text \<open>
  The messages of \<open>qdma_mbox_protocol.c\<close>: opcodes, the union of message bodies as bytes, the
  functions that compose a request and those that read a response.  A message buffer is the
  memory from its first byte on; the declared buffer is 128 bytes (\<open>raw[MBOX_MSG_REG_MAX]\<close>).
\<close>

section \<open>Opcodes\<close>

datatype mbox_msg_op =
    MBOX_OP_VF_BYE | MBOX_OP_HELLO | MBOX_OP_FMAP | MBOX_OP_CSR | MBOX_OP_QREQ | MBOX_OP_QNOTIFY_ADD
  | MBOX_OP_QNOTIFY_DEL | MBOX_OP_GET_QACTIVE_CNT | MBOX_OP_QCTXT_WRT | MBOX_OP_QCTXT_RD | MBOX_OP_QCTXT_CLR
  | MBOX_OP_QCTXT_INV | MBOX_OP_INTR_CTXT_WRT | MBOX_OP_INTR_CTXT_RD | MBOX_OP_INTR_CTXT_CLR
  | MBOX_OP_INTR_CTXT_INV | MBOX_OP_RESET_PREPARE | MBOX_OP_RESET_DONE | MBOX_OP_REG_LIST_READ | MBOX_OP_PF_BYE
  | MBOX_OP_PF_RESET_VF_BYE
  | MBOX_OP_HELLO_RESP | MBOX_OP_FMAP_RESP | MBOX_OP_CSR_RESP | MBOX_OP_QREQ_RESP | MBOX_OP_QNOTIFY_ADD_RESP
  | MBOX_OP_QNOTIFY_DEL_RESP | MBOX_OP_GET_QACTIVE_CNT_RESP | MBOX_OP_QCTXT_WRT_RESP | MBOX_OP_QCTXT_RD_RESP
  | MBOX_OP_QCTXT_CLR_RESP | MBOX_OP_QCTXT_INV_RESP | MBOX_OP_INTR_CTXT_WRT_RESP | MBOX_OP_INTR_CTXT_RD_RESP
  | MBOX_OP_INTR_CTXT_CLR_RESP | MBOX_OP_INTR_CTXT_INV_RESP | MBOX_OP_RESET_PREPARE_RESP
  | MBOX_OP_RESET_DONE_RESP | MBOX_OP_REG_LIST_READ_RESP | MBOX_OP_PF_BYE_RESP | MBOX_OP_PF_RESET_VF_BYE_RESP

definition mbox_requests :: "mbox_msg_op list" where
  "mbox_requests =
    [MBOX_OP_VF_BYE, MBOX_OP_HELLO, MBOX_OP_FMAP, MBOX_OP_CSR, MBOX_OP_QREQ, MBOX_OP_QNOTIFY_ADD,
     MBOX_OP_QNOTIFY_DEL, MBOX_OP_GET_QACTIVE_CNT, MBOX_OP_QCTXT_WRT, MBOX_OP_QCTXT_RD, MBOX_OP_QCTXT_CLR,
     MBOX_OP_QCTXT_INV, MBOX_OP_INTR_CTXT_WRT, MBOX_OP_INTR_CTXT_RD, MBOX_OP_INTR_CTXT_CLR,
     MBOX_OP_INTR_CTXT_INV, MBOX_OP_RESET_PREPARE, MBOX_OP_RESET_DONE, MBOX_OP_REG_LIST_READ, MBOX_OP_PF_BYE,
     MBOX_OP_PF_RESET_VF_BYE]"

definition mbox_responses :: "mbox_msg_op list" where
  "mbox_responses =
    [MBOX_OP_HELLO_RESP, MBOX_OP_FMAP_RESP, MBOX_OP_CSR_RESP, MBOX_OP_QREQ_RESP, MBOX_OP_QNOTIFY_ADD_RESP,
     MBOX_OP_QNOTIFY_DEL_RESP, MBOX_OP_GET_QACTIVE_CNT_RESP, MBOX_OP_QCTXT_WRT_RESP, MBOX_OP_QCTXT_RD_RESP,
     MBOX_OP_QCTXT_CLR_RESP, MBOX_OP_QCTXT_INV_RESP, MBOX_OP_INTR_CTXT_WRT_RESP, MBOX_OP_INTR_CTXT_RD_RESP,
     MBOX_OP_INTR_CTXT_CLR_RESP, MBOX_OP_INTR_CTXT_INV_RESP, MBOX_OP_RESET_PREPARE_RESP,
     MBOX_OP_RESET_DONE_RESP, MBOX_OP_REG_LIST_READ_RESP, MBOX_OP_PF_BYE_RESP, MBOX_OP_PF_RESET_VF_BYE_RESP]"

text \<open>The enumeration counts the requests from 0 and the responses from \<open>0x81\<close>.\<close>

definition mbox_op_table :: "(mbox_msg_op \<times> u8) list" where
  "mbox_op_table = zip mbox_requests (map of_nat [0..<21]) @ zip mbox_responses (map of_nat [0x81..<0x95])"

definition op_code :: "mbox_msg_op \<Rightarrow> u8" where
  "op_code op = the (map_of mbox_op_table op)"

definition op_of :: "u8 \<Rightarrow> mbox_msg_op option" where
  "op_of v = map_of (map (\<lambda>(op, c). (c, op)) mbox_op_table) v"

definition MBOX_MSG_OP_RSP_OFFSET :: u8 where
  "MBOX_MSG_OP_RSP_OFFSET = 0x80"

section \<open>Message layout\<close>

definition mbox_msg_hdr_members :: "cty list" where
  "mbox_msg_hdr_members = [scalar 1, scalar 1, scalar 2, scalar 2]"

definition dev_attributes_members :: "cty list" where
  "dev_attributes_members = [scalar 1, scalar 2, scalar 1, scalar 1, scalar 1]"

definition mbox_msg_hello_members :: "cty list" where
  "mbox_msg_hello_members =
     [c_struct mbox_msg_hdr_members, scalar 4, scalar 4, c_struct dev_attributes_members, scalar 4]"

definition mbox_msg_active_qcnt_members :: "cty list" where
  "mbox_msg_active_qcnt_members = [c_struct mbox_msg_hdr_members, scalar 4, scalar 4, scalar 4]"

definition mbox_msg_fmap_members :: "cty list" where
  "mbox_msg_fmap_members = [c_struct mbox_msg_hdr_members, scalar 4, scalar 4]"

definition csr_info_members :: "cty list" where
  "csr_info_members = [c_array 16 (scalar 2), c_array 16 (scalar 2), c_array 16 (scalar 1), c_array 16 (scalar 1), scalar 1]"

definition mbox_msg_csr_members :: "cty list" where
  "mbox_msg_csr_members = [c_struct mbox_msg_hdr_members, c_struct csr_info_members]"

definition mbox_msg_q_nitfy_members :: "cty list" where
  "mbox_msg_q_nitfy_members = [c_struct mbox_msg_hdr_members, scalar 2, scalar 4]"

text \<open>\<open>struct mbox_descq_conf\<close>: two addresses, three units of bit fields, three sizes.\<close>

definition mbox_descq_conf_members :: "cty list" where
  "mbox_descq_conf_members = [scalar 8, scalar 8, scalar 4, scalar 4, scalar 2, scalar 2, scalar 2, scalar 2]"

definition mbox_msg_qctxt_members :: "cty list" where
  "mbox_msg_qctxt_members = [c_struct mbox_msg_hdr_members, scalar 2, scalar 1,
     c_union [c_struct mbox_descq_conf_members, c_struct descq_context_members]]"

definition mbox_msg_intr_ctxt_members :: "cty list" where
  "mbox_msg_intr_ctxt_members = [scalar 1, c_array 1 (scalar 4), c_array 1 (c_struct intr_ctxt_members)]"

definition mbox_intr_ctxt_members :: "cty list" where
  "mbox_intr_ctxt_members = [c_struct mbox_msg_hdr_members, c_struct mbox_msg_intr_ctxt_members]"

definition mbox_read_reg_list_members :: "cty list" where
  "mbox_read_reg_list_members = [c_struct mbox_msg_hdr_members, scalar 2, scalar 2, c_array 14 (8, 4)]"

definition qdma_mbox_txrx :: cty where
  "qdma_mbox_txrx = c_union (map c_struct [mbox_msg_hdr_members, mbox_msg_hello_members, mbox_msg_fmap_members,
     mbox_intr_ctxt_members, mbox_msg_qctxt_members, mbox_msg_csr_members, mbox_msg_active_qcnt_members,
     mbox_msg_q_nitfy_members, mbox_read_reg_list_members] @ [c_array 32 (scalar 4)])"

text \<open>The offsets used below, and the sizes, are the ones the layout rules give.\<close>

lemmas mbox_layout_defs = mbox_msg_hdr_members_def mbox_msg_hello_members_def dev_attributes_members_def
  mbox_msg_active_qcnt_members_def mbox_msg_fmap_members_def mbox_msg_csr_members_def csr_info_members_def
  mbox_msg_q_nitfy_members_def mbox_descq_conf_members_def mbox_msg_qctxt_members_def mbox_intr_ctxt_members_def
  mbox_msg_intr_ctxt_members_def mbox_read_reg_list_members_def descq_context_members_def

lemma mbox_part_sizes:
  "c_struct mbox_msg_hdr_members = (6, 2)" "c_struct dev_attributes_members = (8, 2)"
  "c_struct csr_info_members = (98, 2)" "c_struct mbox_descq_conf_members = (32, 8)"
  "c_struct descq_context_members = (136, 8)" "c_struct mbox_msg_intr_ctxt_members = (40, 8)"
  by (simp_all add: mbox_layout_defs ctxt_sizes) (simp_all add: layout_simps)

lemma mbox_offsets:
  "offsets 0 mbox_msg_hdr_members = [0, 1, 2, 4]" "offsets 0 mbox_msg_hello_members = [0, 8, 12, 16, 24]"
  "offsets 0 dev_attributes_members = [0, 2, 4, 5, 6]" "offsets 0 mbox_msg_active_qcnt_members = [0, 8, 12, 16]"
  "offsets 0 mbox_msg_fmap_members = [0, 8, 12]" "offsets 0 mbox_msg_csr_members = [0, 6]"
  "offsets 0 csr_info_members = [0, 32, 64, 80, 96]" "offsets 0 mbox_msg_q_nitfy_members = [0, 6, 8]"
  "offsets 0 mbox_descq_conf_members = [0, 8, 16, 20, 24, 26, 28, 30]"
  "offsets 0 mbox_msg_qctxt_members = [0, 6, 8, 16]" "offsets 0 mbox_intr_ctxt_members = [0, 8]"
  "offsets 0 mbox_msg_intr_ctxt_members = [0, 4, 8]" "offsets 0 mbox_read_reg_list_members = [0, 6, 8, 12]"
  "offsets 0 descq_context_members = [0, 4, 8, 64, 72, 76, 88]"
  unfolding mbox_msg_hello_members_def mbox_msg_active_qcnt_members_def mbox_msg_fmap_members_def
    mbox_msg_csr_members_def mbox_msg_q_nitfy_members_def mbox_msg_qctxt_members_def mbox_intr_ctxt_members_def
    mbox_msg_intr_ctxt_members_def mbox_read_reg_list_members_def descq_context_members_def
    mbox_part_sizes ctxt_sizes [unfolded descq_context_members_def]
  by (simp_all add: mbox_layout_defs ctxt_sizes) (simp_all add: layout_simps)

lemma mbox_txrx_size: "fst qdma_mbox_txrx = 152"
  unfolding qdma_mbox_txrx_def mbox_msg_hello_members_def mbox_msg_active_qcnt_members_def mbox_msg_fmap_members_def
    mbox_msg_csr_members_def mbox_msg_q_nitfy_members_def mbox_msg_qctxt_members_def mbox_intr_ctxt_members_def
    mbox_read_reg_list_members_def list.map mbox_part_sizes
  by (simp add: layout_simps)

section \<open>Header\<close>

definition hdr_op :: "bytes \<Rightarrow> u8" where "hdr_op m = m 0"
definition hdr_status :: "bytes \<Rightarrow> int" where "hdr_status m = sint (m 1)"
definition hdr_src :: "bytes \<Rightarrow> u16" where "hdr_src m = rd16 2 m"
definition hdr_dst :: "bytes \<Rightarrow> u16" where "hdr_dst m = rd16 4 m"

definition set_op :: "u8 \<Rightarrow> bytes \<Rightarrow> bytes" where "set_op v = wr8 0 v"
definition set_status :: "int \<Rightarrow> bytes \<Rightarrow> bytes" where "set_status v = wr8 1 (of_int v)"
definition set_src :: "u16 \<Rightarrow> bytes \<Rightarrow> bytes" where "set_src v = wr16 2 v"
definition set_dst :: "u16 \<Rightarrow> bytes \<Rightarrow> bytes" where "set_dst v = wr16 4 v"

lemmas hdr_defs = hdr_op_def hdr_status_def hdr_src_def hdr_dst_def set_op_def set_status_def set_src_def set_dst_def

section \<open>Queue configuration\<close>

record mbox_descq_conf =
  dc_ring_bs_addr :: u64
  dc_cmpt_ring_bs_addr :: u64
  dc_forced_en :: "1 word"
  dc_en_bypass :: "1 word"
  dc_irq_arm :: "1 word"
  dc_wbi_intvl_en :: "1 word"
  dc_wbi_chk :: "1 word"
  dc_at :: "1 word"
  dc_wbk_en :: "1 word"
  dc_irq_en :: "1 word"
  dc_pfch_en :: "1 word"
  dc_en_bypass_prefetch :: "1 word"
  dc_dis_overflow_check :: "1 word"
  dc_cmpt_int_en :: "1 word"
  dc_cmpt_at :: "1 word"
  dc_cmpt_color :: "1 word"
  dc_cmpt_full_upd :: "1 word"
  dc_cmpl_stat_en :: "1 word"
  dc_desc_sz :: "2 word"
  dc_cmpt_desc_sz :: "2 word"
  dc_triggermode :: "3 word"
  dc_rsvd :: "9 word"
  dc_func_id :: u16
  dc_cnt_thres :: u8
  dc_timer_thres :: u8
  dc_intr_id :: "11 word"
  dc_intr_aggr :: "1 word"
  dc_filler :: "4 word"
  dc_ringsz :: u16
  dc_bufsz :: u16
  dc_cmpt_ringsz :: u16

definition descq_conf_vals :: "mbox_descq_conf \<Rightarrow> u64 list" where
  "descq_conf_vals c =
     [dc_ring_bs_addr c, dc_cmpt_ring_bs_addr c,
      ucast (pack_bits
        [(ucast (dc_forced_en c), 1), (ucast (dc_en_bypass c), 1), (ucast (dc_irq_arm c), 1),
         (ucast (dc_wbi_intvl_en c), 1), (ucast (dc_wbi_chk c), 1), (ucast (dc_at c), 1), (ucast (dc_wbk_en c), 1),
         (ucast (dc_irq_en c), 1), (ucast (dc_pfch_en c), 1), (ucast (dc_en_bypass_prefetch c), 1),
         (ucast (dc_dis_overflow_check c), 1), (ucast (dc_cmpt_int_en c), 1), (ucast (dc_cmpt_at c), 1),
         (ucast (dc_cmpt_color c), 1), (ucast (dc_cmpt_full_upd c), 1), (ucast (dc_cmpl_stat_en c), 1),
         (ucast (dc_desc_sz c), 2), (ucast (dc_cmpt_desc_sz c), 2), (ucast (dc_triggermode c), 3),
         (ucast (dc_rsvd c), 9)]),
      ucast (pack_bits [(ucast (dc_func_id c), 16), (ucast (dc_cnt_thres c), 8), (ucast (dc_timer_thres c), 8)]),
      ucast (pack_bits [(ucast (dc_intr_id c), 11), (ucast (dc_intr_aggr c), 1), (ucast (dc_filler c), 4)]),
      ucast (dc_ringsz c), ucast (dc_bufsz c), ucast (dc_cmpt_ringsz c)]"

definition descq_conf_of :: "u64 list \<Rightarrow> mbox_descq_conf" where
  "descq_conf_of vs =
     (let w = vs ! 2; f = vs ! 3; i = vs ! 4 in
      \<lparr>dc_ring_bs_addr = vs ! 0, dc_cmpt_ring_bs_addr = vs ! 1,
       dc_forced_en = ucast w, dc_en_bypass = ucast (drop_bit 1 w), dc_irq_arm = ucast (drop_bit 2 w),
       dc_wbi_intvl_en = ucast (drop_bit 3 w), dc_wbi_chk = ucast (drop_bit 4 w), dc_at = ucast (drop_bit 5 w),
       dc_wbk_en = ucast (drop_bit 6 w), dc_irq_en = ucast (drop_bit 7 w), dc_pfch_en = ucast (drop_bit 8 w),
       dc_en_bypass_prefetch = ucast (drop_bit 9 w), dc_dis_overflow_check = ucast (drop_bit 10 w),
       dc_cmpt_int_en = ucast (drop_bit 11 w), dc_cmpt_at = ucast (drop_bit 12 w),
       dc_cmpt_color = ucast (drop_bit 13 w), dc_cmpt_full_upd = ucast (drop_bit 14 w),
       dc_cmpl_stat_en = ucast (drop_bit 15 w), dc_desc_sz = ucast (drop_bit 16 w),
       dc_cmpt_desc_sz = ucast (drop_bit 18 w), dc_triggermode = ucast (drop_bit 20 w),
       dc_rsvd = ucast (drop_bit 23 w),
       dc_func_id = ucast f, dc_cnt_thres = ucast (drop_bit 16 f), dc_timer_thres = ucast (drop_bit 24 f),
       dc_intr_id = ucast i, dc_intr_aggr = ucast (drop_bit 11 i), dc_filler = ucast (drop_bit 12 i),
       dc_ringsz = ucast (vs ! 5), dc_bufsz = ucast (vs ! 6), dc_cmpt_ringsz = ucast (vs ! 7)\<rparr>)"

definition put_descq_conf :: "mbox_descq_conf \<Rightarrow> bytes \<Rightarrow> bytes" where
  "put_descq_conf c = put_members 16 (members mbox_descq_conf_members) (descq_conf_vals c)"

definition get_descq_conf :: "bytes \<Rightarrow> mbox_descq_conf" where
  "get_descq_conf m = descq_conf_of (get_members 16 (members mbox_descq_conf_members) m)"

end
