(* ===== verification/Qdma_Mbox_Vf.thy ===== *)
theory Qdma_Mbox_Vf
  imports Qdma_Mbox_Msg
begin

text \<open>
  The requests a virtual function composes, the responses it reads, the notices a physical
  function composes and the virtual function's handler of them
  (\<open>qdma_mbox_compose_*\<close>, \<open>qdma_mbox_vf_*\<close> in \<open>qdma_mbox_protocol.c\<close>).
  \<open>raw\<close> is the caller's buffer, \<open>None\<close> the null pointer.
\<close>

section \<open>Composing\<close>

definition qdma_mbox_memset :: "nat \<Rightarrow> u8 \<Rightarrow> u8 \<Rightarrow> bytes \<Rightarrow> bytes" where
  "qdma_mbox_memset off val n m = (\<lambda>x. if off \<le> x \<and> x < off + unat n then val else m x)"

definition qdma_mbox_memcpy :: "nat \<Rightarrow> bytes \<Rightarrow> nat \<Rightarrow> bytes \<Rightarrow> u8 \<Rightarrow> bytes" where
  "qdma_mbox_memcpy to_off to from_off from n =
     (\<lambda>x. if to_off \<le> x \<and> x < to_off + unat n then from (x - to_off + from_off) else to x)"

text \<open>Every composing function refuses a null pointer, clears the whole union and sets opcode and
  source; the body follows.\<close>

definition compose :: "mbox_msg_op \<Rightarrow> u16 \<Rightarrow> (bytes \<Rightarrow> bytes) \<Rightarrow> bytes option \<Rightarrow> int \<times> bytes option" where
  "compose op func_id body raw =
     (case raw of
        None \<Rightarrow> (- err_code QDMA_ERR_INV_PARAM, None)
      | Some m \<Rightarrow> (err_code QDMA_SUCCESS,
          Some (body (set_src func_id (set_op (op_code op)
            (qdma_mbox_memset 0 0 (of_nat (fst qdma_mbox_txrx)) m))))))"

definition put_fmap :: "u32 \<Rightarrow> u32 \<Rightarrow> bytes \<Rightarrow> bytes" where
  "put_fmap qbase qmax m = wr32 12 qmax (wr32 8 qbase m)"

definition qmda_mbox_compose_vf_online :: "u16 \<Rightarrow> u16 \<Rightarrow> u32 \<Rightarrow> bytes option \<Rightarrow> int \<times> bytes option" where
  "qmda_mbox_compose_vf_online func_id qmax qbase = compose MBOX_OP_HELLO func_id (put_fmap qbase (ucast qmax))"

definition qdma_mbox_compose_vf_offline :: "u16 \<Rightarrow> bytes option \<Rightarrow> int \<times> bytes option" where
  "qdma_mbox_compose_vf_offline func_id = compose MBOX_OP_VF_BYE func_id id"

definition qdma_mbox_compose_vf_reset_offline :: "u16 \<Rightarrow> bytes option \<Rightarrow> int \<times> bytes option" where
  "qdma_mbox_compose_vf_reset_offline func_id = compose MBOX_OP_PF_RESET_VF_BYE func_id id"

definition qdma_mbox_compose_vf_qreq :: "u16 \<Rightarrow> u16 \<Rightarrow> u32 \<Rightarrow> bytes option \<Rightarrow> int \<times> bytes option" where
  "qdma_mbox_compose_vf_qreq func_id qmax qbase = compose MBOX_OP_QREQ func_id (put_fmap qbase (ucast qmax))"

fun q_type_code :: "qdma_dev_q_type \<Rightarrow> u32" where
  "q_type_code QDMA_DEV_Q_TYPE_H2C = 0"
| "q_type_code QDMA_DEV_Q_TYPE_C2H = 1"
| "q_type_code QDMA_DEV_Q_TYPE_CMPT = 2"
| "q_type_code QDMA_DEV_Q_TYPE_MAX = 3"

definition put_q_notify :: "u16 \<Rightarrow> qdma_dev_q_type \<Rightarrow> bytes \<Rightarrow> bytes" where
  "put_q_notify qid_hw q_type m = wr32 8 (q_type_code q_type) (wr16 6 qid_hw m)"

definition qdma_mbox_compose_vf_notify_qadd ::
    "u16 \<Rightarrow> u16 \<Rightarrow> qdma_dev_q_type \<Rightarrow> bytes option \<Rightarrow> int \<times> bytes option" where
  "qdma_mbox_compose_vf_notify_qadd func_id qid_hw q_type =
     compose MBOX_OP_QNOTIFY_ADD func_id (put_q_notify qid_hw q_type)"

definition qdma_mbox_compose_vf_get_device_active_qcnt :: "u16 \<Rightarrow> bytes option \<Rightarrow> int \<times> bytes option" where
  "qdma_mbox_compose_vf_get_device_active_qcnt func_id = compose MBOX_OP_GET_QACTIVE_CNT func_id id"

definition qdma_mbox_compose_vf_notify_qdel ::
    "u16 \<Rightarrow> u16 \<Rightarrow> qdma_dev_q_type \<Rightarrow> bytes option \<Rightarrow> int \<times> bytes option" where
  "qdma_mbox_compose_vf_notify_qdel func_id qid_hw q_type =
     compose MBOX_OP_QNOTIFY_DEL func_id (put_q_notify qid_hw q_type)"

definition qdma_mbox_compose_vf_fmap_prog :: "u16 \<Rightarrow> u16 \<Rightarrow> u32 \<Rightarrow> bytes option \<Rightarrow> int \<times> bytes option" where
  "qdma_mbox_compose_vf_fmap_prog func_id qmax qbase = compose MBOX_OP_FMAP func_id (put_fmap qbase (ucast qmax))"

text \<open>The head of a queue-context message: queue, then \<open>st\<close>, \<open>c2h\<close> and the completion type in one
  byte of bit fields.\<close>

datatype mbox_cmpt_ctxt_type = QDMA_MBOX_CMPT_CTXT_ONLY | QDMA_MBOX_CMPT_WITH_MM | QDMA_MBOX_CMPT_WITH_ST
  | QDMA_MBOX_CMPT_CTXT_NONE

fun cmpt_type_code :: "mbox_cmpt_ctxt_type \<Rightarrow> u8" where
  "cmpt_type_code QDMA_MBOX_CMPT_CTXT_ONLY = 0"
| "cmpt_type_code QDMA_MBOX_CMPT_WITH_MM = 1"
| "cmpt_type_code QDMA_MBOX_CMPT_WITH_ST = 2"
| "cmpt_type_code QDMA_MBOX_CMPT_CTXT_NONE = 3"

definition put_qctxt :: "u16 \<Rightarrow> u8 \<Rightarrow> u8 \<Rightarrow> mbox_cmpt_ctxt_type \<Rightarrow> bytes \<Rightarrow> bytes" where
  "put_qctxt qid_hw st c2h t m =
     (let m1 = wr16 6 qid_hw m;
          m2 = wr8 8 (bf_put 1 1 c2h (m1 8)) m1;
          m3 = wr8 8 (bf_put 0 1 st (m2 8)) m2
      in wr8 8 (bf_put 2 2 (cmpt_type_code t) (m3 8)) m3)"

definition qdma_mbox_compose_vf_qctxt_write ::
    "u16 \<Rightarrow> u16 \<Rightarrow> u8 \<Rightarrow> u8 \<Rightarrow> mbox_cmpt_ctxt_type \<Rightarrow> mbox_descq_conf \<Rightarrow> bytes option \<Rightarrow> int \<times> bytes option" where
  "qdma_mbox_compose_vf_qctxt_write func_id qid_hw st c2h t descq_conf =
     compose MBOX_OP_QCTXT_WRT func_id (\<lambda>m. put_descq_conf descq_conf (put_qctxt qid_hw st c2h t m))"

definition qdma_mbox_compose_vf_qctxt_read ::
    "u16 \<Rightarrow> u16 \<Rightarrow> u8 \<Rightarrow> u8 \<Rightarrow> mbox_cmpt_ctxt_type \<Rightarrow> bytes option \<Rightarrow> int \<times> bytes option" where
  "qdma_mbox_compose_vf_qctxt_read func_id qid_hw st c2h t =
     compose MBOX_OP_QCTXT_RD func_id (put_qctxt qid_hw st c2h t)"

definition qdma_mbox_compose_vf_qctxt_invalidate ::
    "u16 \<Rightarrow> u16 \<Rightarrow> u8 \<Rightarrow> u8 \<Rightarrow> mbox_cmpt_ctxt_type \<Rightarrow> bytes option \<Rightarrow> int \<times> bytes option" where
  "qdma_mbox_compose_vf_qctxt_invalidate func_id qid_hw st c2h t =
     compose MBOX_OP_QCTXT_INV func_id (put_qctxt qid_hw st c2h t)"

definition qdma_mbox_compose_vf_qctxt_clear ::
    "u16 \<Rightarrow> u16 \<Rightarrow> u8 \<Rightarrow> u8 \<Rightarrow> mbox_cmpt_ctxt_type \<Rightarrow> bytes option \<Rightarrow> int \<times> bytes option" where
  "qdma_mbox_compose_vf_qctxt_clear func_id qid_hw st c2h t =
     compose MBOX_OP_QCTXT_CLR func_id (put_qctxt qid_hw st c2h t)"

definition qdma_mbox_compose_csr_read :: "u16 \<Rightarrow> bytes option \<Rightarrow> int \<times> bytes option" where
  "qdma_mbox_compose_csr_read func_id = compose MBOX_OP_CSR func_id id"

definition qdma_mbox_compose_reg_read :: "u16 \<Rightarrow> u16 \<Rightarrow> bytes option \<Rightarrow> int \<times> bytes option" where
  "qdma_mbox_compose_reg_read func_id group_num = compose MBOX_OP_REG_LIST_READ func_id (wr16 6 group_num)"

text \<open>The four interrupt-context requests carry a copy of the caller's \<open>struct mbox_msg_intr_ctxt\<close>.\<close>

definition put_intr_ctxt :: "bytes \<Rightarrow> bytes \<Rightarrow> bytes" where
  "put_intr_ctxt intr_ctxt m =
     qdma_mbox_memcpy 8 m 0 intr_ctxt (of_nat (fst (c_struct mbox_msg_intr_ctxt_members)))"

definition qdma_mbox_compose_vf_intr_ctxt_write :: "u16 \<Rightarrow> bytes \<Rightarrow> bytes option \<Rightarrow> int \<times> bytes option" where
  "qdma_mbox_compose_vf_intr_ctxt_write func_id ic = compose MBOX_OP_INTR_CTXT_WRT func_id (put_intr_ctxt ic)"

definition qdma_mbox_compose_vf_intr_ctxt_read :: "u16 \<Rightarrow> bytes \<Rightarrow> bytes option \<Rightarrow> int \<times> bytes option" where
  "qdma_mbox_compose_vf_intr_ctxt_read func_id ic = compose MBOX_OP_INTR_CTXT_RD func_id (put_intr_ctxt ic)"

definition qdma_mbox_compose_vf_intr_ctxt_clear :: "u16 \<Rightarrow> bytes \<Rightarrow> bytes option \<Rightarrow> int \<times> bytes option" where
  "qdma_mbox_compose_vf_intr_ctxt_clear func_id ic = compose MBOX_OP_INTR_CTXT_CLR func_id (put_intr_ctxt ic)"

definition qdma_mbox_compose_vf_intr_ctxt_invalidate :: "u16 \<Rightarrow> bytes \<Rightarrow> bytes option \<Rightarrow> int \<times> bytes option" where
  "qdma_mbox_compose_vf_intr_ctxt_invalidate func_id ic = compose MBOX_OP_INTR_CTXT_INV func_id (put_intr_ctxt ic)"

text \<open>Notices from the physical function; their function numbers are single bytes.\<close>

definition qdma_mbox_compose_vf_reset_message :: "bytes option \<Rightarrow> u8 \<Rightarrow> u8 \<Rightarrow> int \<times> bytes option" where
  "qdma_mbox_compose_vf_reset_message raw src dest = compose MBOX_OP_RESET_PREPARE (ucast src) (set_dst (ucast dest)) raw"

definition qdma_mbox_compose_pf_reset_done_message :: "bytes option \<Rightarrow> u8 \<Rightarrow> u8 \<Rightarrow> int \<times> bytes option" where
  "qdma_mbox_compose_pf_reset_done_message raw src dest = compose MBOX_OP_RESET_DONE (ucast src) (set_dst (ucast dest)) raw"

definition qdma_mbox_compose_pf_offline :: "bytes option \<Rightarrow> u8 \<Rightarrow> u8 \<Rightarrow> int \<times> bytes option" where
  "qdma_mbox_compose_pf_offline raw src dest = compose MBOX_OP_PF_BYE (ucast src) (set_dst (ucast dest)) raw"

section \<open>Reading a response\<close>

definition qdma_mbox_is_msg_response :: "bytes \<Rightarrow> bytes \<Rightarrow> u8" where
  "qdma_mbox_is_msg_response tx rx =
     (if uint (hdr_op tx) + uint MBOX_MSG_OP_RSP_OFFSET = uint (hdr_op rx) then 1 else 0)"

definition qdma_mbox_vf_response_status :: "bytes \<Rightarrow> int" where
  "qdma_mbox_vf_response_status rcv = hdr_status rcv"

definition qdma_mbox_vf_func_id_get :: "bytes \<Rightarrow> bool \<Rightarrow> u8" where
  "qdma_mbox_vf_func_id_get rcv is_vf = ucast (if is_vf then hdr_dst rcv else hdr_src rcv)"

definition qdma_mbox_vf_active_queues_get :: "bytes \<Rightarrow> qdma_dev_q_type \<Rightarrow> int" where
  "qdma_mbox_vf_active_queues_get rcv q_type =
     (case q_type of QDMA_DEV_Q_TYPE_H2C \<Rightarrow> sint (rd32 8 rcv) | QDMA_DEV_Q_TYPE_C2H \<Rightarrow> sint (rd32 12 rcv)
      | QDMA_DEV_Q_TYPE_CMPT \<Rightarrow> sint (rd32 16 rcv) | QDMA_DEV_Q_TYPE_MAX \<Rightarrow> 0)"

definition qdma_mbox_vf_parent_func_id_get :: "bytes \<Rightarrow> u8" where
  "qdma_mbox_vf_parent_func_id_get rcv = ucast (hdr_src rcv)"

definition dev_attributes_flags :: "qdma_dev_attributes \<Rightarrow> u8" where
  "dev_attributes_flags a = ucast (pack_bits
     [(ucast (flr_present a), 1), (ucast (st_en a), 1), (ucast (mm_en a), 1), (ucast (mm_cmpt_en a), 1),
      (ucast (mailbox_en a), 1), (ucast (debug_mode a), 1), (ucast (desc_eng_mode a), 2)])"

definition dev_attributes_features :: "qdma_dev_attributes \<Rightarrow> u8" where
  "dev_attributes_features a = ucast (pack_bits
     [(ucast (qid2vec_ctx a), 1), (ucast (cmpt_ovf_chk_dis a), 1), (ucast (mailbox_intr a), 1),
      (ucast (sw_desc_64b a), 1), (ucast (cmpt_desc_64b a), 1), (ucast (dynamic_bar a), 1),
      (ucast (legacy_intr a), 1), (ucast (cmpt_trig_count_timer a), 1)])"

definition put_dev_attributes :: "nat \<Rightarrow> qdma_dev_attributes \<Rightarrow> bytes \<Rightarrow> bytes" where
  "put_dev_attributes off a m =
     wr8 (off + 6) (dev_attributes_features a) (wr8 (off + 5) (mm_channel_max a)
       (wr8 (off + 4) (dev_attributes_flags a) (wr16 (off + 2) (num_qs a) (wr8 off (num_pfs a) m))))"

definition get_dev_attributes :: "nat \<Rightarrow> bytes \<Rightarrow> qdma_dev_attributes" where
  "get_dev_attributes off m =
     (let f = m (off + 4); g = m (off + 6) in
      \<lparr>num_pfs = m off, num_qs = rd16 (off + 2) m, flr_present = ucast f, st_en = ucast (drop_bit 1 f),
       mm_en = ucast (drop_bit 2 f), mm_cmpt_en = ucast (drop_bit 3 f), mailbox_en = ucast (drop_bit 4 f),
       debug_mode = ucast (drop_bit 5 f), desc_eng_mode = ucast (drop_bit 6 f), mm_channel_max = m (off + 5),
       qid2vec_ctx = ucast g, cmpt_ovf_chk_dis = ucast (drop_bit 1 g), mailbox_intr = ucast (drop_bit 2 g),
       sw_desc_64b = ucast (drop_bit 3 g), cmpt_desc_64b = ucast (drop_bit 4 g), dynamic_bar = ucast (drop_bit 5 g),
       legacy_intr = ucast (drop_bit 6 g), cmpt_trig_count_timer = ucast (drop_bit 7 g)\<rparr>)"

definition qdma_mbox_vf_dev_info_get :: "bytes \<Rightarrow> int \<times> qdma_dev_attributes \<times> u32" where
  "qdma_mbox_vf_dev_info_get rcv = (hdr_status rcv, get_dev_attributes 16 rcv, rd32 24 rcv)"

definition qdma_mbox_vf_qinfo_get :: "bytes \<Rightarrow> int \<times> u32 \<times> u16" where
  "qdma_mbox_vf_qinfo_get rcv = (hdr_status rcv, rd32 8 rcv, ucast (rd32 12 rcv))"

definition qdma_mbox_vf_csr_get :: "bytes \<Rightarrow> bytes \<Rightarrow> int \<times> bytes" where
  "qdma_mbox_vf_csr_get rcv csr =
     (hdr_status rcv, qdma_mbox_memcpy 0 csr 6 rcv (of_nat (fst (c_struct csr_info_members))))"

text \<open>The length of the copy, \<open>num_regs * 8\<close>, is converted to the byte the copy function takes.\<close>

definition qdma_mbox_vf_reg_list_get :: "bytes \<Rightarrow> bytes \<Rightarrow> int \<times> u16 \<times> bytes" where
  "qdma_mbox_vf_reg_list_get rcv reg_list =
     (hdr_status rcv, rd16 8 rcv, qdma_mbox_memcpy 0 reg_list 12 rcv (of_nat (unat (rd16 8 rcv) * 8)))"

definition qdma_mbox_vf_context_get :: "bytes \<Rightarrow> bytes \<Rightarrow> int \<times> bytes" where
  "qdma_mbox_vf_context_get rcv ctxt =
     (hdr_status rcv, qdma_mbox_memcpy 0 ctxt 16 rcv (of_nat (fst (c_struct descq_context_members))))"

definition qdma_mbox_vf_intr_context_get :: "bytes \<Rightarrow> bytes \<Rightarrow> int \<times> bytes" where
  "qdma_mbox_vf_intr_context_get rcv ictxt =
     (hdr_status rcv, qdma_mbox_memcpy 0 ictxt 8 rcv (of_nat (fst (c_struct mbox_msg_intr_ctxt_members))))"

section \<open>The virtual function's handler\<close>

definition QDMA_MBOX_VF_ONLINE :: int where "QDMA_MBOX_VF_ONLINE = 1"
definition QDMA_MBOX_VF_OFFLINE :: int where "QDMA_MBOX_VF_OFFLINE = - 1"
definition QDMA_MBOX_VF_RESET :: int where "QDMA_MBOX_VF_RESET = 2"
definition QDMA_MBOX_PF_RESET_DONE :: int where "QDMA_MBOX_PF_RESET_DONE = 3"
definition QDMA_MBOX_PF_BYE :: int where "QDMA_MBOX_PF_BYE = 4"
definition QDMA_MBOX_VF_RESET_BYE :: int where "QDMA_MBOX_VF_RESET_BYE = 5"

definition vf_reply :: "bytes \<Rightarrow> bytes \<Rightarrow> bytes" where
  "vf_reply rcv resp =
     set_src (hdr_dst rcv) (set_dst (hdr_src rcv) (set_op (hdr_op rcv + MBOX_MSG_OP_RSP_OFFSET) resp))"

definition qdma_mbox_vf_rcv_msg_handler :: "bytes \<Rightarrow> bytes \<Rightarrow> int \<times> bytes" where
  "qdma_mbox_vf_rcv_msg_handler rcv resp =
     (case op_of (hdr_op rcv) of
        Some MBOX_OP_RESET_PREPARE \<Rightarrow> (QDMA_MBOX_VF_RESET, vf_reply rcv resp)
      | Some MBOX_OP_RESET_DONE \<Rightarrow> (QDMA_MBOX_PF_RESET_DONE, vf_reply rcv resp)
      | Some MBOX_OP_PF_BYE \<Rightarrow> (QDMA_MBOX_PF_BYE, vf_reply rcv resp)
      | _ \<Rightarrow> (0, resp))"

end
