(* ===== verification/Qdma_Mbox_Pf.thy ===== *)
theory Qdma_Mbox_Pf
  imports Qdma_Mbox_Vf
begin

text \<open>
  The physical function's side of the mailbox: \<open>qdma_mbox_pf_rcv_msg_handler\<close> and the functions it
  uses to program queue contexts (\<open>qdma_mbox_protocol.c\<close>).  The state holds the two message
  buffers, the resource manager and the device; \<open>pf_calls\<close> records every call through the function
  table, in order.
\<close>

section \<open>State\<close>

datatype hw_call = Fmap_call u16 qdma_fmap_cfg | Sw_call qdma_hw_access_type u8 u16
  | Hw_call qdma_hw_access_type u8 u16 | Credit_call qdma_hw_access_type u8 u16
  | Pfetch_call qdma_hw_access_type u16 | Cmpt_call qdma_hw_access_type u16
  | Intr_call qdma_hw_access_type u16 | Csr_call qdma_global_csr_type | Attributes_call | Reg_list_call u16

record 'h pf =
  pf_rcv :: bytes
  pf_resp :: bytes
  pf_rm :: rm_state
  pf_hw :: 'h
  pf_calls :: "hw_call list"

type_synonym 'h step = "'h pf \<Rightarrow> int \<times> 'h pf"

text \<open>One call through the table.\<close>

definition hw_call :: "hw_call \<Rightarrow> ('h \<Rightarrow> int \<times> 'o \<times> 'h) \<Rightarrow> 'h pf \<Rightarrow> int \<times> 'o \<times> 'h pf" where
  "hw_call ev f s = (case f (pf_hw s) of (rv, out, h) \<Rightarrow> (rv, out, s\<lparr>pf_hw := h, pf_calls := pf_calls s @ [ev]\<rparr>))"

definition no_out :: "('h pf \<Rightarrow> int \<times> 'o \<times> 'h pf) \<Rightarrow> 'h step" where
  "no_out f s = (case f s of (rv, _, s') \<Rightarrow> (rv, s'))"

text \<open>Calls in sequence up to the first negative result.\<close>

fun run_steps :: "'h step list \<Rightarrow> 'h step" where
  "run_steps [] s = (err_code QDMA_SUCCESS, s)"
| "run_steps (f # fs) s = (case f s of (rv, s') \<Rightarrow> if rv < 0 then (rv, s') else run_steps fs s')"

definition sw_ctx :: "'h qdma_hw_access \<Rightarrow> u8 \<Rightarrow> u16 \<Rightarrow> qdma_descq_sw_ctxt option \<Rightarrow> qdma_hw_access_type \<Rightarrow>
    'h pf \<Rightarrow> int \<times> qdma_descq_sw_ctxt option \<times> 'h pf" where
  "sw_ctx hw c2h q c a = hw_call (Sw_call a c2h q) (qdma_sw_ctx_conf hw c2h q c a)"

definition hw_ctx :: "'h qdma_hw_access \<Rightarrow> u8 \<Rightarrow> u16 \<Rightarrow> qdma_descq_hw_ctxt option \<Rightarrow> qdma_hw_access_type \<Rightarrow>
    'h pf \<Rightarrow> int \<times> qdma_descq_hw_ctxt option \<times> 'h pf" where
  "hw_ctx hw c2h q c a = hw_call (Hw_call a c2h q) (qdma_hw_ctx_conf hw c2h q c a)"

definition credit_ctx :: "'h qdma_hw_access \<Rightarrow> u8 \<Rightarrow> u16 \<Rightarrow> qdma_descq_credit_ctxt option \<Rightarrow> qdma_hw_access_type \<Rightarrow>
    'h pf \<Rightarrow> int \<times> qdma_descq_credit_ctxt option \<times> 'h pf" where
  "credit_ctx hw c2h q c a = hw_call (Credit_call a c2h q) (qdma_credit_ctx_conf hw c2h q c a)"

definition pfetch_ctx :: "'h qdma_hw_access \<Rightarrow> u16 \<Rightarrow> qdma_descq_prefetch_ctxt option \<Rightarrow> qdma_hw_access_type \<Rightarrow>
    'h pf \<Rightarrow> int \<times> qdma_descq_prefetch_ctxt option \<times> 'h pf" where
  "pfetch_ctx hw q c a = hw_call (Pfetch_call a q) (qdma_pfetch_ctx_conf hw q c a)"

definition cmpt_ctx :: "'h qdma_hw_access \<Rightarrow> u16 \<Rightarrow> qdma_descq_cmpt_ctxt option \<Rightarrow> qdma_hw_access_type \<Rightarrow>
    'h pf \<Rightarrow> int \<times> qdma_descq_cmpt_ctxt option \<times> 'h pf" where
  "cmpt_ctx hw q c a = hw_call (Cmpt_call a q) (qdma_cmpt_ctx_conf hw q c a)"

definition intr_ctx :: "'h qdma_hw_access \<Rightarrow> u32 \<Rightarrow> qdma_indirect_intr_ctxt option \<Rightarrow> qdma_hw_access_type \<Rightarrow>
    'h pf \<Rightarrow> int \<times> qdma_indirect_intr_ctxt option \<times> 'h pf" where
  "intr_ctx hw i c a = hw_call (Intr_call a (ucast i)) (qdma_indirect_intr_ctx_conf hw (ucast i) c a)"

definition fmap_write :: "'h qdma_hw_access \<Rightarrow> u16 \<Rightarrow> qdma_fmap_cfg \<Rightarrow> 'h step" where
  "fmap_write hw f cfg = no_out (hw_call (Fmap_call f cfg) (qdma_fmap_conf hw f (Some cfg) QDMA_HW_ACCESS_WRITE))"

text \<open>The 16 registers of one kind, read into an array that starts out as zero.\<close>

definition csr_read :: "'h qdma_hw_access \<Rightarrow> qdma_global_csr_type \<Rightarrow> 'h pf \<Rightarrow> int \<times> (nat \<Rightarrow> u32) \<times> 'h pf" where
  "csr_read hw t s =
     (case hw_call (Csr_call t) (qdma_global_csr_conf hw t) s of
        (rv, out, s') \<Rightarrow> (rv, case out of None \<Rightarrow> (\<lambda>_. 0) | Some a \<Rightarrow> a, s'))"

definition attributes :: "'h qdma_hw_access \<Rightarrow> 'h pf \<Rightarrow> qdma_dev_attributes \<times> 'h pf" where
  "attributes hw s =
     (case hw_call Attributes_call (\<lambda>h. case qdma_get_device_attributes hw h of (a, h') \<Rightarrow> (0, a, h')) s of
        (_, a, s') \<Rightarrow> (a, s'))"

section \<open>Looking up sizes and thresholds\<close>

definition find_idx :: "(u32 \<Rightarrow> bool) \<Rightarrow> (nat \<Rightarrow> u32) \<Rightarrow> nat option" where
  "find_idx P a = find (\<lambda>i. P (a i)) [0..<16]"

text \<open>The common part of the four look-ups: read the array, fail with the back end's code or with
  \<open>e\<close>; the index is stored on success only.\<close>

definition csr_lookup :: "'h qdma_hw_access \<Rightarrow> qdma_global_csr_type \<Rightarrow> (u32 \<Rightarrow> bool) \<Rightarrow> qdma_access_error_codes \<Rightarrow>
    'h pf \<Rightarrow> int \<times> nat \<times> 'h pf" where
  "csr_lookup hw t P e s =
     (case csr_read hw t s of (rv, a, s') \<Rightarrow>
        if rv \<noteq> 0 then (rv, 0, s')
        else case find_idx P a of
          Some i \<Rightarrow> (err_code QDMA_SUCCESS, i, s')
        | None \<Rightarrow> (- err_code e, 0, s'))"

definition get_ring_idx :: "'h qdma_hw_access \<Rightarrow> u16 \<Rightarrow> 'h pf \<Rightarrow> int \<times> nat \<times> 'h pf" where
  "get_ring_idx hw ring_sz = csr_lookup hw QDMA_CSR_RING_SZ (\<lambda>v. ucast ring_sz = v - 1) QDMA_ERR_MBOX_INV_RINGSZ"

definition get_buf_idx :: "'h qdma_hw_access \<Rightarrow> u16 \<Rightarrow> 'h pf \<Rightarrow> int \<times> nat \<times> 'h pf" where
  "get_buf_idx hw buf_sz = csr_lookup hw QDMA_CSR_BUF_SZ (\<lambda>v. v = ucast buf_sz) QDMA_ERR_MBOX_INV_BUFSZ"

definition get_cntr_idx :: "'h qdma_hw_access \<Rightarrow> u8 \<Rightarrow> 'h pf \<Rightarrow> int \<times> nat \<times> 'h pf" where
  "get_cntr_idx hw cntr_val = csr_lookup hw QDMA_CSR_CNT_TH (\<lambda>v. v = ucast cntr_val) QDMA_ERR_MBOX_INV_CNTR_TH"

definition get_tmr_idx :: "'h qdma_hw_access \<Rightarrow> u8 \<Rightarrow> 'h pf \<Rightarrow> int \<times> nat \<times> 'h pf" where
  "get_tmr_idx hw tmr_val = csr_lookup hw QDMA_CSR_TIMER_CNT (\<lambda>v. v = ucast tmr_val) QDMA_ERR_MBOX_INV_TMR_TH"

section \<open>Composing contexts\<close>

record mbox_msg_qctxt =
  qc_qid_hw :: u16
  qc_st :: "1 word"
  qc_c2h :: "1 word"
  qc_cmpt_type :: mbox_cmpt_ctxt_type
  qc_conf :: mbox_descq_conf

definition cmpt_type_of :: "u8 \<Rightarrow> mbox_cmpt_ctxt_type" where
  "cmpt_type_of v = (if v = 0 then QDMA_MBOX_CMPT_CTXT_ONLY else if v = 1 then QDMA_MBOX_CMPT_WITH_MM
     else if v = 2 then QDMA_MBOX_CMPT_WITH_ST else QDMA_MBOX_CMPT_CTXT_NONE)"

definition get_qctxt :: "bytes \<Rightarrow> mbox_msg_qctxt" where
  "get_qctxt m = \<lparr>qc_qid_hw = rd16 6 m, qc_st = ucast (bf_get 0 1 (m 8)), qc_c2h = ucast (bf_get 1 1 (m 8)),
     qc_cmpt_type = cmpt_type_of (bf_get 2 2 (m 8)), qc_conf = get_descq_conf m\<rparr>"

definition zero_sw_ctxt :: qdma_descq_sw_ctxt where
  "zero_sw_ctxt = \<lparr>sw_ring_bs_addr = 0, sw_vec = 0, sw_pidx = 0, sw_irq_arm = 0, sw_fnc_id = 0, sw_qen = 0,
     sw_frcd_en = 0, sw_wbi_chk = 0, sw_wbi_intvl_en = 0, sw_at = 0, sw_fetch_max = 0, sw_rngsz_idx = 0,
     sw_desc_sz = 0, sw_bypass = 0, sw_mm_chn = 0, sw_wbk_en = 0, sw_irq_en = 0, sw_port_id = 0,
     sw_irq_no_last = 0, sw_err = 0, sw_err_wb_sent = 0, sw_irq_req = 0, sw_mrkr_dis = 0, sw_is_mm = 0,
     sw_intr_aggr = 0, sw_pasid_en = 0, sw_dis_intr_on_vf = 0, sw_virtio_en = 0, sw_pack_byp_out = 0,
     sw_irq_byp = 0, sw_host_id = 0, sw_pasid = 0, sw_virtio_dsc_base = 0\<rparr>"

definition zero_prefetch_ctxt :: qdma_descq_prefetch_ctxt where
  "zero_prefetch_ctxt = \<lparr>pc_sw_crdt = 0, pc_bypass = 0, pc_bufsz_idx = 0, pc_port_id = 0, pc_var_desc = 0,
     pc_num_pftch = 0, pc_err = 0, pc_pfch_en = 0, pc_pfch = 0, pc_valid = 0\<rparr>"

definition zero_cmpt_ctxt :: qdma_descq_cmpt_ctxt where
  "zero_cmpt_ctxt = \<lparr>cm_bs_addr = 0, cm_vec = 0, cm_pidx = 0, cm_cidx = 0, cm_en_stat_desc = 0, cm_en_int = 0,
     cm_trig_mode = 0, cm_fnc_id = 0, cm_counter_idx = 0, cm_timer_idx = 0, cm_in_st = 0, cm_color = 0,
     cm_ringsz_idx = 0, cm_desc_sz = 0, cm_valid = 0, cm_err = 0, cm_user_trig_pend = 0, cm_timer_running = 0,
     cm_full_upd = 0, cm_ovf_chk_dis = 0, cm_at = 0, cm_int_aggr = 0, cm_dis_intr_on_vf = 0, cm_vio = 0,
     cm_dir_c2h = 0, cm_host_id = 0, cm_pasid = 0, cm_pasid_en = 0, cm_vio_eop = 0, cm_sh_cmpt = 0\<rparr>"

text \<open>\<open>is_mm\<close> is \<open>~st\<close> computed as an \<open>int\<close> and cut to a byte: \<open>0xff\<close> or \<open>0xfe\<close>.  The function number
  is cut to a byte as well.\<close>

definition sw_context_of :: "mbox_msg_qctxt \<Rightarrow> nat \<Rightarrow> qdma_descq_sw_ctxt" where
  "sw_context_of q rng_idx =
     (let c = qc_conf q;
          w = zero_sw_ctxt\<lparr>sw_vec := ucast (dc_intr_id c), sw_intr_aggr := ucast (dc_intr_aggr c),
            sw_ring_bs_addr := dc_ring_bs_addr c, sw_wbi_chk := ucast (dc_wbi_chk c),
            sw_wbi_intvl_en := ucast (dc_wbi_intvl_en c), sw_rngsz_idx := of_nat rng_idx,
            sw_bypass := ucast (dc_en_bypass c), sw_wbk_en := ucast (dc_wbk_en c), sw_irq_en := ucast (dc_irq_en c),
            sw_is_mm := NOT (ucast (qc_st q)), sw_mm_chn := 0, sw_qen := 1, sw_frcd_en := ucast (dc_forced_en c),
            sw_desc_sz := ucast (dc_desc_sz c), sw_fnc_id := ucast (dc_func_id c),
            sw_irq_arm := ucast (dc_irq_arm c)\<rparr>
      in if qc_st q \<noteq> 0 \<and> qc_c2h q \<noteq> 0
         then w\<lparr>sw_irq_en := 0, sw_irq_arm := 0, sw_wbk_en := 0, sw_wbi_chk := 0\<rparr> else w)"

definition mbox_compose_sw_context :: "'h qdma_hw_access \<Rightarrow> mbox_msg_qctxt \<Rightarrow> 'h pf \<Rightarrow>
    int \<times> qdma_descq_sw_ctxt \<times> 'h pf" where
  "mbox_compose_sw_context hw q s =
     (case get_ring_idx hw (dc_ringsz (qc_conf q)) s of (rv, rng_idx, s') \<Rightarrow>
        if rv < 0 then (rv, zero_sw_ctxt, s') else (err_code QDMA_SUCCESS, sw_context_of q rng_idx, s'))"

definition prefetch_context_of :: "mbox_msg_qctxt \<Rightarrow> nat \<Rightarrow> qdma_descq_prefetch_ctxt" where
  "prefetch_context_of q buf_idx = zero_prefetch_ctxt\<lparr>pc_valid := 1,
     pc_bypass := ucast (dc_en_bypass_prefetch (qc_conf q)), pc_bufsz_idx := of_nat buf_idx,
     pc_pfch_en := ucast (dc_pfch_en (qc_conf q))\<rparr>"

definition mbox_compose_prefetch_context :: "'h qdma_hw_access \<Rightarrow> mbox_msg_qctxt \<Rightarrow> 'h pf \<Rightarrow>
    int \<times> qdma_descq_prefetch_ctxt \<times> 'h pf" where
  "mbox_compose_prefetch_context hw q s =
     (case get_buf_idx hw (dc_bufsz (qc_conf q)) s of (rv, buf_idx, s') \<Rightarrow>
        if rv < 0 then (rv, zero_prefetch_ctxt, s') else (err_code QDMA_SUCCESS, prefetch_context_of q buf_idx, s'))"

definition cmpt_context_of :: "mbox_msg_qctxt \<Rightarrow> nat \<Rightarrow> nat \<Rightarrow> nat \<Rightarrow> qdma_descq_cmpt_ctxt" where
  "cmpt_context_of q cntr_idx tmr_idx rng_idx =
     (let c = qc_conf q in
      zero_cmpt_ctxt\<lparr>cm_bs_addr := dc_cmpt_ring_bs_addr c, cm_en_stat_desc := ucast (dc_cmpl_stat_en c),
        cm_en_int := ucast (dc_cmpt_int_en c), cm_trig_mode := ucast (dc_triggermode c),
        cm_fnc_id := ucast (dc_func_id c), cm_timer_idx := of_nat tmr_idx, cm_counter_idx := of_nat cntr_idx,
        cm_color := 1, cm_ringsz_idx := of_nat rng_idx, cm_desc_sz := ucast (dc_cmpt_desc_sz c), cm_valid := 1,
        cm_ovf_chk_dis := ucast (dc_dis_overflow_check c), cm_vec := ucast (dc_intr_id c),
        cm_int_aggr := ucast (dc_intr_aggr c)\<rparr>)"

definition mbox_compose_cmpt_context :: "'h qdma_hw_access \<Rightarrow> mbox_msg_qctxt \<Rightarrow> 'h pf \<Rightarrow>
    int \<times> qdma_descq_cmpt_ctxt \<times> 'h pf" where
  "mbox_compose_cmpt_context hw q s =
     (case get_cntr_idx hw (dc_cnt_thres (qc_conf q)) s of (rv, cntr_idx, s1) \<Rightarrow>
        if rv < 0 then (rv, zero_cmpt_ctxt, s1)
        else case get_tmr_idx hw (dc_timer_thres (qc_conf q)) s1 of (rv, tmr_idx, s2) \<Rightarrow>
          if rv < 0 then (rv, zero_cmpt_ctxt, s2)
          else case get_ring_idx hw (dc_cmpt_ringsz (qc_conf q)) s2 of (rv, rng_idx, s3) \<Rightarrow>
            if rv < 0 then (rv, zero_cmpt_ctxt, s3)
            else (err_code QDMA_SUCCESS, cmpt_context_of q cntr_idx tmr_idx rng_idx, s3))"

end
