(* ===== verification/Qdma_Mbox_Handler.thy ===== *)
theory Qdma_Mbox_Handler
  imports Qdma_Mbox_Pf
begin

text \<open>
  \<open>qdma_mbox_pf_rcv_msg_handler\<close>: what the physical function does for each request, and the
  programming of queue contexts on behalf of a virtual function.
\<close>

section \<open>Queue contexts\<close>

definition with_cmpt :: "mbox_cmpt_ctxt_type \<Rightarrow> bool" where
  "with_cmpt t \<longleftrightarrow> t = QDMA_MBOX_CMPT_WITH_MM \<or> t = QDMA_MBOX_CMPT_WITH_ST"

text \<open>Clearing and invalidating differ in the access type only.  A queue number outside the range of
  the function ends the call with the result of \<open>qdma_dev_qinfo_get\<close>, which is 0 at that point.\<close>

definition mbox_reset_queue_contexts ::
    "qdma_hw_access_type \<Rightarrow> 'h qdma_hw_access \<Rightarrow> u8 \<Rightarrow> u16 \<Rightarrow> u16 \<Rightarrow> bool \<Rightarrow> bool \<Rightarrow> mbox_cmpt_ctxt_type \<Rightarrow> 'h step" where
  "mbox_reset_queue_contexts a hw idx func_id qid_hw st c2h t s =
     (if t = QDMA_MBOX_CMPT_CTXT_ONLY then run_steps [no_out (cmpt_ctx hw qid_hw None a)] s
      else case qdma_dev_qinfo_get (ucast idx) func_id 0 0 (pf_rm s) of (rv, _, _) \<Rightarrow>
        if rv < 0 then (rv, s)
        else if qdma_dev_is_queue_in_range (ucast idx) func_id (ucast qid_hw) (pf_rm s) \<noteq> QDMA_DEV_Q_IN_RANGE
        then (rv, s)
        else run_steps
          ([no_out (sw_ctx hw (of_bool c2h) qid_hw None a), no_out (hw_ctx hw (of_bool c2h) qid_hw None a),
            no_out (credit_ctx hw (of_bool c2h) qid_hw None a)] @
           (if st \<and> c2h then [no_out (pfetch_ctx hw qid_hw None a)] else []) @
           (if with_cmpt t then [no_out (cmpt_ctx hw qid_hw None a)] else [])) s)"

definition mbox_clear_queue_contexts ::
    "'h qdma_hw_access \<Rightarrow> u8 \<Rightarrow> u16 \<Rightarrow> u16 \<Rightarrow> bool \<Rightarrow> bool \<Rightarrow> mbox_cmpt_ctxt_type \<Rightarrow> 'h step" where
  "mbox_clear_queue_contexts = mbox_reset_queue_contexts QDMA_HW_ACCESS_CLEAR"

definition mbox_invalidate_queue_contexts ::
    "'h qdma_hw_access \<Rightarrow> u8 \<Rightarrow> u16 \<Rightarrow> u16 \<Rightarrow> bool \<Rightarrow> bool \<Rightarrow> mbox_cmpt_ctxt_type \<Rightarrow> 'h step" where
  "mbox_invalidate_queue_contexts = mbox_reset_queue_contexts QDMA_HW_ACCESS_INVALIDATE"

definition mbox_write_queue_contexts :: "'h qdma_hw_access \<Rightarrow> u8 \<Rightarrow> mbox_msg_qctxt \<Rightarrow> 'h step" where
  "mbox_write_queue_contexts hw idx q s =
     (let f = dc_func_id (qc_conf q); qid = qc_qid_hw q; t = qc_cmpt_type q;
          st = qc_st q \<noteq> 0; c2h = qc_c2h q \<noteq> 0 in
      case qdma_dev_qinfo_get (ucast idx) f 0 0 (pf_rm s) of (rv, _, _) \<Rightarrow>
      if rv < 0 then (rv, s)
      else if qdma_dev_is_queue_in_range (ucast idx) f (ucast qid) (pf_rm s) \<noteq> QDMA_DEV_Q_IN_RANGE then (rv, s)
      else if t = QDMA_MBOX_CMPT_CTXT_ONLY then
        (case mbox_compose_cmpt_context hw q s of (rv, cm, s1) \<Rightarrow>
          if rv < 0 then (rv, s1)
          else run_steps [no_out (cmpt_ctx hw qid None QDMA_HW_ACCESS_CLEAR),
                          no_out (cmpt_ctx hw qid (Some cm) QDMA_HW_ACCESS_WRITE)] s1)
      else
        (case mbox_compose_sw_context hw q s of (rv, sw, s1) \<Rightarrow>
         if rv < 0 then (rv, s1)
         else case (if st \<and> c2h then mbox_compose_prefetch_context hw q s1 else (0, zero_prefetch_ctxt, s1)) of (rv, pc, s2) \<Rightarrow>
         if rv < 0 then (rv, s2)
         else case (if with_cmpt t then mbox_compose_cmpt_context hw q s2 else (0, zero_cmpt_ctxt, s2)) of (rv, cm, s3) \<Rightarrow>
         if rv < 0 then (rv, s3)
         else run_steps
          ([mbox_clear_queue_contexts hw idx f qid st c2h t,
            no_out (sw_ctx hw (of_bool c2h) qid (Some sw) QDMA_HW_ACCESS_WRITE)] @
           (if st \<and> c2h then [no_out (pfetch_ctx hw qid (Some pc) QDMA_HW_ACCESS_WRITE)] else []) @
           (if with_cmpt t then [no_out (cmpt_ctx hw qid (Some cm) QDMA_HW_ACCESS_WRITE)] else [])) s3))"

text \<open>A read is given the context at its place in the response, and what it stores lands there.\<close>

definition into_resp :: "nat \<Rightarrow> cty list \<Rightarrow> ('c \<Rightarrow> u64 list) \<Rightarrow> (u64 list \<Rightarrow> 'c) \<Rightarrow>
    ('c option \<Rightarrow> qdma_hw_access_type \<Rightarrow> 'h pf \<Rightarrow> int \<times> 'c option \<times> 'h pf) \<Rightarrow> 'h step" where
  "into_resp off ms vals of_vals f s =
     (case f (Some (of_vals (get_members off (members ms) (pf_resp s)))) QDMA_HW_ACCESS_READ s of (rv, out, s') \<Rightarrow>
        (rv, case out of None \<Rightarrow> s'
             | Some c \<Rightarrow> s'\<lparr>pf_resp := put_members off (members ms) (vals c) (pf_resp s')\<rparr>))"

definition mbox_read_queue_contexts :: "'h qdma_hw_access \<Rightarrow> u16 \<Rightarrow> bool \<Rightarrow> bool \<Rightarrow> mbox_cmpt_ctxt_type \<Rightarrow> 'h step" where
  "mbox_read_queue_contexts hw qid_hw st c2h t =
     run_steps
      ([into_resp 24 sw_ctxt_members sw_ctxt_vals sw_ctxt_of (sw_ctx hw (of_bool c2h) qid_hw),
        into_resp 80 hw_ctxt_members hw_ctxt_vals hw_ctxt_of (hw_ctx hw (of_bool c2h) qid_hw),
        into_resp 88 credit_ctxt_members credit_ctxt_vals credit_ctxt_of (credit_ctx hw (of_bool c2h) qid_hw)] @
       (if st \<and> c2h then [into_resp 92 prefetch_ctxt_members prefetch_ctxt_vals prefetch_ctxt_of (pfetch_ctx hw qid_hw)]
        else []) @
       (if with_cmpt t then [into_resp 104 cmpt_ctxt_members cmpt_ctxt_vals cmpt_ctxt_of (cmpt_ctx hw qid_hw)] else []))"

section \<open>The requests\<close>

text \<open>How a case of the handler ends: at \<open>exit_func\<close>, with the status of the reply and the value
  returned, or by returning at once.\<close>

datatype pf_end = Exit_func int int | Return int

type_synonym 'h handler = "'h pf \<Rightarrow> pf_end \<times> 'h pf"

definition exit_with :: "int \<Rightarrow> int \<times> 'h pf \<Rightarrow> pf_end \<times> 'h pf" where
  "exit_with ret r = (case r of (rv, s) \<Rightarrow> (Exit_func rv ret, s))"

definition zero_fmap :: qdma_fmap_cfg where
  "zero_fmap = \<lparr>fmap_qbase = 0, fmap_qmax = 0\<rparr>"

definition pf_bye :: "int \<Rightarrow> 'h qdma_hw_access \<Rightarrow> (nat \<Rightarrow> bool) \<Rightarrow> u8 \<Rightarrow> 'h handler" where
  "pf_bye ret hw mem idx s =
     (let f = hdr_src (pf_rcv s); (rv, s1) = fmap_write hw f zero_fmap s in
      (Exit_func rv ret, s1\<lparr>pf_rm := qdma_dev_entry_destroy mem (ucast idx) f (pf_rm s1)\<rparr>))"

definition pf_hello :: "'h qdma_hw_access \<Rightarrow> (nat \<Rightarrow> bool) \<Rightarrow> u8 \<Rightarrow> 'h handler" where
  "pf_hello hw mem idx s =
     (let f = hdr_src (pf_rcv s);
          (rv, qbase, qmax) = qdma_dev_qinfo_get (ucast idx) f (rd32 8 (pf_rcv s)) (rd32 12 (pf_rcv s)) (pf_rm s);
          s1 = s\<lparr>pf_rcv := put_fmap qbase qmax (pf_rcv s)\<rparr>;
          (rv, s2) = (if rv < 0 then
             (case qdma_dev_entry_create mem (ucast idx) f (pf_rm s1) of (rv, rm) \<Rightarrow> (rv, s1\<lparr>pf_rm := rm\<rparr>))
           else (rv, s1));
          s3 = (if rv = 0 then
             (case attributes hw (s2\<lparr>pf_resp := wr32 24 (ucast idx) (put_fmap qbase qmax (pf_resp s2))\<rparr>) of
                (a, s') \<Rightarrow> s'\<lparr>pf_resp := put_dev_attributes 16 a (pf_resp s')\<rparr>)
           else s2)
      in (Exit_func rv QDMA_MBOX_VF_ONLINE, snd (fmap_write hw f zero_fmap s3)))"

definition pf_fmap :: "'h qdma_hw_access \<Rightarrow> 'h handler" where
  "pf_fmap hw s =
     (case fmap_write hw (hdr_src (pf_rcv s))
        \<lparr>fmap_qbase = ucast (rd32 8 (pf_rcv s)), fmap_qmax = ucast (rd32 12 (pf_rcv s))\<rparr> s of
      (rv, s1) \<Rightarrow> (if rv < 0 then Return rv else Exit_func rv 0, s1))"

text \<open>The four register arrays; \<open>bufsz\<close> only for streaming, thresholds for streaming or completions.
  A feature the device does not have is not an error.\<close>

definition csr_fatal :: "int \<Rightarrow> bool" where
  "csr_fatal rv \<longleftrightarrow> rv < 0 \<and> rv \<noteq> - err_code QDMA_ERR_HWACC_FEATURE_NOT_SUPPORTED"

definition put_csr_info :: "bool \<Rightarrow> (nat \<Rightarrow> u32) \<Rightarrow> (nat \<Rightarrow> u32) \<Rightarrow> (nat \<Rightarrow> u32) \<Rightarrow> (nat \<Rightarrow> u32) \<Rightarrow> bytes \<Rightarrow> bytes" where
  "put_csr_info all ringsz bufsz tmr_th cntr_th m =
     foldl (\<lambda>m i. let m1 = wr16 (6 + 2 * i) (ucast (ringsz i AND 0xFFFF)) m in
       if all then wr8 (86 + i) (ucast (cntr_th i AND 0xFF)) (wr8 (70 + i) (ucast (tmr_th i AND 0xFF))
         (wr16 (38 + 2 * i) (ucast (bufsz i AND 0xFFFF)) m1)) else m1) m [0..<16]"

definition pf_csr :: "'h qdma_hw_access \<Rightarrow> 'h handler" where
  "pf_csr hw s =
     (case csr_read hw QDMA_CSR_RING_SZ s of (rv, ringsz, s1) \<Rightarrow>
      if rv < 0 then (Exit_func rv 0, s1)
      else case attributes hw s1 of (a, s2) \<Rightarrow>
      case (if st_en a \<noteq> 0 then csr_read hw QDMA_CSR_BUF_SZ s2 else (rv, (\<lambda>_. 0), s2)) of (rv, bufsz, s3) \<Rightarrow>
      if st_en a \<noteq> 0 \<and> csr_fatal rv then (Exit_func rv 0, s3)
      else case (if st_en a \<noteq> 0 \<or> mm_cmpt_en a \<noteq> 0 then csr_read hw QDMA_CSR_TIMER_CNT s3 else (rv, (\<lambda>_. 0), s3)) of (rv, tmr_th, s4) \<Rightarrow>
      if (st_en a \<noteq> 0 \<or> mm_cmpt_en a \<noteq> 0) \<and> csr_fatal rv then (Exit_func rv 0, s4)
      else case (if st_en a \<noteq> 0 \<or> mm_cmpt_en a \<noteq> 0 then csr_read hw QDMA_CSR_CNT_TH s4 else (rv, (\<lambda>_. 0), s4)) of (rv, cntr_th, s5) \<Rightarrow>
      if (st_en a \<noteq> 0 \<or> mm_cmpt_en a \<noteq> 0) \<and> csr_fatal rv then (Exit_func rv 0, s5)
      else (Exit_func (if rv = - err_code QDMA_ERR_HWACC_FEATURE_NOT_SUPPORTED then err_code QDMA_SUCCESS else rv) 0,
            s5\<lparr>pf_resp := put_csr_info (rv = 0) ringsz bufsz tmr_th cntr_th (pf_resp s5)\<rparr>))"

definition pf_qreq :: "'h qdma_hw_access \<Rightarrow> (nat \<Rightarrow> bool) \<Rightarrow> u8 \<Rightarrow> 'h handler" where
  "pf_qreq hw mem idx s =
     (let f = hdr_src (pf_rcv s);
          (rv, qbase, rm) = qdma_dev_update mem (ucast idx) f (rd32 12 (pf_rcv s)) (rd32 8 (pf_rcv s)) (pf_rm s);
          s1 = s\<lparr>pf_rm := rm, pf_rcv := wr32 8 qbase (pf_rcv s)\<rparr>;
          (rv, s2) = (if rv = 0 then
             (case qdma_dev_qinfo_get (ucast idx) f (rd32 8 (pf_resp s1)) (rd32 12 (pf_resp s1)) rm of
                (rv, qb, qm) \<Rightarrow> (rv, s1\<lparr>pf_resp := put_fmap qb qm (pf_resp s1)\<rparr>))
           else (rv, s1))
      in if rv < 0 then (Exit_func (- err_code QDMA_ERR_MBOX_NUM_QUEUES) 0, s2)
         else (Exit_func rv 0, snd (fmap_write hw f zero_fmap s2)))"

definition q_type_of :: "u32 \<Rightarrow> qdma_dev_q_type" where
  "q_type_of v = (if v = 0 then QDMA_DEV_Q_TYPE_H2C else if v = 1 then QDMA_DEV_Q_TYPE_C2H
     else if v = 2 then QDMA_DEV_Q_TYPE_CMPT else QDMA_DEV_Q_TYPE_MAX)"

definition pf_notify ::
    "(u32 \<Rightarrow> u16 \<Rightarrow> qdma_dev_q_type \<Rightarrow> rm_state \<Rightarrow> int \<times> rm_state) \<Rightarrow> u8 \<Rightarrow> 'h handler" where
  "pf_notify count idx s =
     (let f = hdr_src (pf_rcv s) in
      if qdma_dev_is_queue_in_range (ucast idx) f (ucast (rd16 6 (pf_rcv s))) (pf_rm s) \<noteq> QDMA_DEV_Q_IN_RANGE
      then (Exit_func (- err_code QDMA_ERR_MBOX_INV_QID) 0, s)
      else case count (ucast idx) f (q_type_of (rd32 8 (pf_rcv s))) (pf_rm s) of (rv, rm) \<Rightarrow>
        (Exit_func rv 0, s\<lparr>pf_rm := rm\<rparr>))"

definition pf_active_cnt :: "u8 \<Rightarrow> 'h handler" where
  "pf_active_cnt idx s =
     (let n = (\<lambda>t. qdma_get_device_active_queue_count (ucast idx) (hdr_src (pf_rcv s)) t (pf_rm s)) in
      (Exit_func (n QDMA_DEV_Q_TYPE_CMPT) 0,
       s\<lparr>pf_resp := wr32 16 (of_int (n QDMA_DEV_Q_TYPE_CMPT)) (wr32 12 (of_int (n QDMA_DEV_Q_TYPE_C2H))
           (wr32 8 (of_int (n QDMA_DEV_Q_TYPE_H2C)) (pf_resp s)))\<rparr>))"

text \<open>The interrupt-context loops run over the rings the message names; a failing ring is noted in the
  status of the response and the loop goes on.  \<open>rv\<close> is the result of the last call.\<close>

definition ring_of :: "bytes \<Rightarrow> nat \<Rightarrow> u32" where
  "ring_of m i = rd32 (12 + 4 * i) m"

definition ictxt_of :: "bytes \<Rightarrow> nat \<Rightarrow> qdma_indirect_intr_ctxt" where
  "ictxt_of m i = intr_ctxt_of (get_members (16 + 32 * i) (members intr_ctxt_members) m)"

definition note_status :: "int \<times> 'h pf \<Rightarrow> int \<times> 'h pf" where
  "note_status r = (case r of (rv, s) \<Rightarrow> (rv, if rv < 0 then s\<lparr>pf_resp := set_status rv (pf_resp s)\<rparr> else s))"

definition for_rings :: "(nat \<Rightarrow> 'h step) \<Rightarrow> 'h handler" where
  "for_rings body s =
     exit_with 0 (foldl (\<lambda>(rv, s) i. body i s) (err_code QDMA_SUCCESS, s) [0..<unat (pf_rcv s 8)])"

definition pf_intr_wrt :: "'h qdma_hw_access \<Rightarrow> 'h handler" where
  "pf_intr_wrt hw s =
     (let m = pf_rcv s in
      for_rings (\<lambda>i s.
        note_status (no_out (intr_ctx hw (ring_of m i) (Some (ictxt_of m i)) QDMA_HW_ACCESS_WRITE)
          (snd (note_status (no_out (intr_ctx hw (ring_of m i) None QDMA_HW_ACCESS_CLEAR) s))))) s)"

definition pf_intr_rd :: "'h qdma_hw_access \<Rightarrow> 'h handler" where
  "pf_intr_rd hw s =
     (let m = pf_rcv s in
      for_rings (\<lambda>i s. note_status (into_resp (16 + 32 * i) intr_ctxt_members intr_ctxt_vals intr_ctxt_of
        (intr_ctx hw (ring_of m i)) s)) s)"

definition pf_intr_reset :: "qdma_hw_access_type \<Rightarrow> 'h qdma_hw_access \<Rightarrow> 'h handler" where
  "pf_intr_reset a hw s =
     (let m = pf_rcv s in for_rings (\<lambda>i s. note_status (no_out (intr_ctx hw (ring_of m i) None a) s)) s)"

definition pf_qctxt_reset ::
    "('h qdma_hw_access \<Rightarrow> u8 \<Rightarrow> u16 \<Rightarrow> u16 \<Rightarrow> bool \<Rightarrow> bool \<Rightarrow> mbox_cmpt_ctxt_type \<Rightarrow> 'h step) \<Rightarrow>
     'h qdma_hw_access \<Rightarrow> u8 \<Rightarrow> 'h handler" where
  "pf_qctxt_reset f hw idx s =
     (let q = get_qctxt (pf_rcv s) in
      exit_with 0 (f hw idx (hdr_src (pf_rcv s)) (qc_qid_hw q) (qc_st q \<noteq> 0) (qc_c2h q \<noteq> 0) (qc_cmpt_type q) s))"

definition pf_qctxt_rd :: "'h qdma_hw_access \<Rightarrow> 'h handler" where
  "pf_qctxt_rd hw s =
     (let q = get_qctxt (pf_rcv s) in
      exit_with 0 (mbox_read_queue_contexts hw (qc_qid_hw q) (qc_st q \<noteq> 0) (qc_c2h q \<noteq> 0) (qc_cmpt_type q) s))"

definition pf_qctxt_wrt :: "'h qdma_hw_access \<Rightarrow> u8 \<Rightarrow> 'h handler" where
  "pf_qctxt_wrt hw idx s =
     (let s1 = s\<lparr>pf_rcv := wr16 36 (hdr_src (pf_rcv s)) (pf_rcv s)\<rparr> in
      exit_with 0 (mbox_write_queue_contexts hw idx (get_qctxt (pf_rcv s1)) s1))"

definition put_reg_list :: "(u32 \<times> u32) list \<Rightarrow> bytes \<Rightarrow> bytes" where
  "put_reg_list rs m = foldl (\<lambda>m (i, a, v). wr32 (16 + 8 * i) v (wr32 (12 + 8 * i) a m)) m (enumerate 0 rs)"

definition pf_reg_list :: "'h qdma_hw_access \<Rightarrow> 'h handler" where
  "pf_reg_list hw s =
     (case hw_call (Reg_list_call (rd16 6 (pf_rcv s))) (qdma_read_reg_list hw 1 (rd16 6 (pf_rcv s))) s of (rv, out, s1) \<Rightarrow>
      let s2 = (case out of None \<Rightarrow> s1
                | Some (n, rs) \<Rightarrow> s1\<lparr>pf_resp := put_reg_list rs (wr16 8 n (pf_resp s1))\<rparr>)
      in (Exit_func (if rv < 0 \<or> rd16 8 (pf_resp s2) = 0 then - err_code QDMA_ERR_MBOX_REG_READ_FAILED else rv) 0, s2))"

section \<open>The handler\<close>

definition pf_dispatch :: "'h qdma_hw_access \<Rightarrow> (nat \<Rightarrow> bool) \<Rightarrow> u8 \<Rightarrow> 'h handler" where
  "pf_dispatch hw mem idx s =
     (case op_of (hdr_op (pf_rcv s)) of
        Some MBOX_OP_VF_BYE \<Rightarrow> pf_bye QDMA_MBOX_VF_OFFLINE hw mem idx s
      | Some MBOX_OP_PF_RESET_VF_BYE \<Rightarrow> pf_bye QDMA_MBOX_VF_RESET_BYE hw mem idx s
      | Some MBOX_OP_HELLO \<Rightarrow> pf_hello hw mem idx s
      | Some MBOX_OP_FMAP \<Rightarrow> pf_fmap hw s
      | Some MBOX_OP_CSR \<Rightarrow> pf_csr hw s
      | Some MBOX_OP_QREQ \<Rightarrow> pf_qreq hw mem idx s
      | Some MBOX_OP_QNOTIFY_ADD \<Rightarrow> pf_notify qdma_dev_increment_active_queue idx s
      | Some MBOX_OP_QNOTIFY_DEL \<Rightarrow> pf_notify qdma_dev_decrement_active_queue idx s
      | Some MBOX_OP_GET_QACTIVE_CNT \<Rightarrow> pf_active_cnt idx s
      | Some MBOX_OP_INTR_CTXT_WRT \<Rightarrow> pf_intr_wrt hw s
      | Some MBOX_OP_INTR_CTXT_RD \<Rightarrow> pf_intr_rd hw s
      | Some MBOX_OP_INTR_CTXT_CLR \<Rightarrow> pf_intr_reset QDMA_HW_ACCESS_CLEAR hw s
      | Some MBOX_OP_INTR_CTXT_INV \<Rightarrow> pf_intr_reset QDMA_HW_ACCESS_INVALIDATE hw s
      | Some MBOX_OP_QCTXT_INV \<Rightarrow> pf_qctxt_reset mbox_invalidate_queue_contexts hw idx s
      | Some MBOX_OP_QCTXT_CLR \<Rightarrow> pf_qctxt_reset mbox_clear_queue_contexts hw idx s
      | Some MBOX_OP_QCTXT_RD \<Rightarrow> pf_qctxt_rd hw s
      | Some MBOX_OP_QCTXT_WRT \<Rightarrow> pf_qctxt_wrt hw idx s
      | Some MBOX_OP_RESET_PREPARE_RESP \<Rightarrow> (Return QDMA_MBOX_VF_RESET, s)
      | Some MBOX_OP_RESET_DONE_RESP \<Rightarrow> (Return QDMA_MBOX_PF_RESET_DONE, s)
      | Some MBOX_OP_REG_LIST_READ \<Rightarrow> pf_reg_list hw s
      | Some MBOX_OP_PF_BYE_RESP \<Rightarrow> (Return QDMA_MBOX_PF_BYE, s)
      | _ \<Rightarrow> (Return (- err_code QDMA_ERR_MBOX_INV_MSG), s))"

definition pf_reply :: "u16 \<Rightarrow> int \<Rightarrow> 'h pf \<Rightarrow> 'h pf" where
  "pf_reply func_id rv s =
     s\<lparr>pf_resp := set_status rv (set_src func_id (set_dst (hdr_src (pf_rcv s))
         (set_op (hdr_op (pf_rcv s) + MBOX_MSG_OP_RSP_OFFSET) (pf_resp s))))\<rparr>"

definition qdma_mbox_pf_rcv_msg_handler ::
    "'h qdma_hw_access \<Rightarrow> (nat \<Rightarrow> bool) \<Rightarrow> u8 \<Rightarrow> u16 \<Rightarrow> bool \<Rightarrow> 'h step" where
  "qdma_mbox_pf_rcv_msg_handler hw mem idx func_id rcv_null s =
     (if rcv_null then (- err_code QDMA_ERR_INV_PARAM, s)
      else case pf_dispatch hw mem idx s of
        (Exit_func rv ret, s') \<Rightarrow> (ret, pf_reply func_id rv s')
      | (Return v, s') \<Rightarrow> (v, s'))"

end
