(* ===== verification/Qdma_Mbox_Props.thy ===== *)
theory Qdma_Mbox_Props
  imports Qdma_Mbox_Handler Qdma_Resource_Props
begin

text \<open>
  What a virtual function can bring about with a message: which queue contexts the physical function
  touches for it, what becomes of the ownership of queues (kept as long as no requested range wraps around, lost when one
  does), what it is told.
\<close>

section \<open>The calls a handler makes\<close>

definition calls_since :: "'h pf \<Rightarrow> 'h pf \<Rightarrow> hw_call list" where
  "calls_since s s' = drop (length (pf_calls s)) (pf_calls s')"

text \<open>From \<open>s\<close> to \<open>s'\<close> only calls with property \<open>P\<close> are made, and the header of the request stays;
  \<open>within\<close> leaves the resource manager alone as well.\<close>

definition makes :: "(hw_call \<Rightarrow> bool) \<Rightarrow> 'h pf \<Rightarrow> 'h pf \<Rightarrow> bool" where
  "makes P s s' \<longleftrightarrow> (\<exists>cs. pf_calls s' = pf_calls s @ cs \<and> (\<forall>c \<in> set cs. P c)) \<and>
     hdr_op (pf_rcv s') = hdr_op (pf_rcv s) \<and> hdr_src (pf_rcv s') = hdr_src (pf_rcv s)"

definition within :: "(hw_call \<Rightarrow> bool) \<Rightarrow> 'h pf \<Rightarrow> 'h pf \<Rightarrow> bool" where
  "within P s s' \<longleftrightarrow> makes P s s' \<and> pf_rm s' = pf_rm s"

lemma makes_refl [simp]: "makes P s s"
  by (simp add: makes_def)

lemma makes_trans [trans]: "makes P s t \<Longrightarrow> makes P t u \<Longrightarrow> makes P s u"
  by (auto simp: makes_def)

lemma makes_upd [simp]:
  "makes P s (t\<lparr>pf_rm := r\<rparr>) = makes P s t" "makes P s (t\<lparr>pf_resp := m\<rparr>) = makes P s t"
  "makes P (s\<lparr>pf_rm := r\<rparr>) t = makes P s t" "makes P (s\<lparr>pf_resp := m\<rparr>) t = makes P s t"
  "hdr_op m = hdr_op (pf_rcv t) \<Longrightarrow> hdr_src m = hdr_src (pf_rcv t) \<Longrightarrow> makes P s (t\<lparr>pf_rcv := m\<rparr>) = makes P s t"
  "hdr_op m = hdr_op (pf_rcv s) \<Longrightarrow> hdr_src m = hdr_src (pf_rcv s) \<Longrightarrow> makes P (s\<lparr>pf_rcv := m\<rparr>) t = makes P s t"
  by (simp_all add: makes_def)

lemma hdr_body [simp]:
  "6 \<le> off \<Longrightarrow> hdr_op (wr32 off v32 m) = hdr_op m" "6 \<le> off \<Longrightarrow> hdr_src (wr32 off v32 m) = hdr_src m"
  "6 \<le> off \<Longrightarrow> hdr_op (wr16 off v16 m) = hdr_op m" "6 \<le> off \<Longrightarrow> hdr_src (wr16 off v16 m) = hdr_src m"
  "hdr_op (put_fmap qb qm m) = hdr_op m" "hdr_src (put_fmap qb qm m) = hdr_src m"
  by (simp_all add: put_fmap_def hdr_defs byte_simps)

lemma within_refl [simp]: "within P s s"
  by (simp add: within_def)

lemma within_trans [trans]: "within P s t \<Longrightarrow> within P t u \<Longrightarrow> within P s u"
  by (auto simp: within_def intro: makes_trans)

lemma within_upd [simp]: "within P s (t\<lparr>pf_resp := r\<rparr>) = within P s t"
  by (simp add: within_def)

lemma within_makes: "within P s s' \<Longrightarrow> makes P s s'"
  by (simp add: within_def)

lemma makes_calls: "makes P s s' \<Longrightarrow> c \<in> set (calls_since s s') \<Longrightarrow> P c"
  by (auto simp: makes_def calls_since_def)

lemma within_calls: "within P s s' \<Longrightarrow> c \<in> set (calls_since s s') \<Longrightarrow> P c"
  by (auto simp: within_def makes_def calls_since_def)

definition keeps :: "(hw_call \<Rightarrow> bool) \<Rightarrow> 'h step \<Rightarrow> bool" where
  "keeps P f \<longleftrightarrow> (\<forall>s. within P s (snd (f s)))"

lemma within_hw_call: "P ev \<Longrightarrow> within P s (snd (snd (hw_call ev f s)))"
  by (simp add: hw_call_def within_def makes_def split: prod.split)

lemma keeps_no_out: "(\<And>s. within P s (snd (snd (f s)))) \<Longrightarrow> keeps P (no_out f)"
  by (simp add: keeps_def no_out_def split: prod.split) (metis snd_conv)

lemma keeps_into_resp:
  "(\<And>c s. within P s (snd (snd (f c QDMA_HW_ACCESS_READ s)))) \<Longrightarrow> keeps P (into_resp off ms vals of_vals f)"
  unfolding keeps_def into_resp_def by (auto split: prod.split option.split) (metis snd_conv)+

lemma keeps_ctx:
  assumes "P ev"
  shows "keeps P (no_out (hw_call ev f))"
  by (rule keeps_no_out, rule within_hw_call, rule assms)

lemma keeps_run_steps: "\<forall>f \<in> set fs. keeps P f \<Longrightarrow> keeps P (run_steps fs)"
proof (induction fs)
  case (Cons f fs)
  then have f: "keeps P f" and fs: "keeps P (run_steps fs)" by simp_all
  have "within P s (snd (run_steps (f # fs) s))" for s
  proof -
    obtain rv t where t: "f s = (rv, t)" by (cases "f s")
    have "within P s t" using f t by (metis keeps_def snd_conv)
    also have "within P t (snd (run_steps fs t))" using fs by (simp add: keeps_def)
    finally show ?thesis using \<open>within P s t\<close> t by simp
  qed
  then show ?case by (simp add: keeps_def)
qed (simp add: keeps_def)

lemma keepsD: "keeps P f \<Longrightarrow> f s = (rv, s') \<Longrightarrow> within P s s'"
  by (metis keeps_def snd_conv)

lemmas ctx_defs = sw_ctx_def hw_ctx_def credit_ctx_def pfetch_ctx_def cmpt_ctx_def intr_ctx_def

lemma keeps_read:
  "P (Sw_call QDMA_HW_ACCESS_READ c2h q) \<Longrightarrow> keeps P (into_resp off ms vs of_sw (sw_ctx hw c2h q))"
  "P (Hw_call QDMA_HW_ACCESS_READ c2h q) \<Longrightarrow> keeps P (into_resp off ms vh of_hw (hw_ctx hw c2h q))"
  "P (Credit_call QDMA_HW_ACCESS_READ c2h q) \<Longrightarrow> keeps P (into_resp off ms vc of_cr (credit_ctx hw c2h q))"
  "P (Pfetch_call QDMA_HW_ACCESS_READ q) \<Longrightarrow> keeps P (into_resp off ms vp of_pc (pfetch_ctx hw q))"
  "P (Cmpt_call QDMA_HW_ACCESS_READ q) \<Longrightarrow> keeps P (into_resp off ms vm of_cm (cmpt_ctx hw q))"
  "P (Intr_call QDMA_HW_ACCESS_READ (ucast i)) \<Longrightarrow> keeps P (into_resp off ms vi of_ic (intr_ctx hw i))"
  by (rule keeps_into_resp, simp add: ctx_defs within_hw_call)+

section \<open>Queue contexts\<close>

text \<open>The queue whose context a call changes.\<close>

fun changed_queue :: "hw_call \<Rightarrow> u16 option" where
  "changed_queue (Sw_call a c q) = (if a = QDMA_HW_ACCESS_READ then None else Some q)"
| "changed_queue (Hw_call a c q) = (if a = QDMA_HW_ACCESS_READ then None else Some q)"
| "changed_queue (Credit_call a c q) = (if a = QDMA_HW_ACCESS_READ then None else Some q)"
| "changed_queue (Pfetch_call a q) = (if a = QDMA_HW_ACCESS_READ then None else Some q)"
| "changed_queue (Cmpt_call a q) = (if a = QDMA_HW_ACCESS_READ then None else Some q)"
| "changed_queue _ = None"

text \<open>Only queue \<open>q\<close> is changed, if any.\<close>

definition only_queue :: "u16 \<Rightarrow> hw_call \<Rightarrow> bool" where
  "only_queue q c \<longleftrightarrow> changed_queue c = None \<or> changed_queue c = Some q"

definition no_queue :: "hw_call \<Rightarrow> bool" where
  "no_queue c \<longleftrightarrow> changed_queue c = None"

lemma within_mono: "within P s s' \<Longrightarrow> (\<And>c. P c \<Longrightarrow> Q c) \<Longrightarrow> within Q s s'"
  by (auto simp: within_def makes_def)

lemma no_queue_only: "within no_queue s s' \<Longrightarrow> within (only_queue q) s s'"
  by (erule within_mono) (simp add: no_queue_def only_queue_def)

lemma csr_read_within: "within no_queue s (snd (snd (csr_read hw t s)))"
  using within_hw_call [of no_queue "Csr_call t" s "qdma_global_csr_conf hw t"]
  by (cases "hw_call (Csr_call t) (qdma_global_csr_conf hw t) s") (simp add: csr_read_def no_queue_def)

lemma attributes_within: "within no_queue s (snd (attributes hw s))"
  using within_hw_call [of no_queue Attributes_call s "\<lambda>h. case qdma_get_device_attributes hw h of (a, h') \<Rightarrow> (0, a, h')"]
  by (auto simp: attributes_def no_queue_def split: prod.splits)

lemma csr_lookup_within: "within no_queue s (snd (snd (csr_lookup hw t P e s)))"
  using csr_read_within [of s hw t]
  by (cases "csr_read hw t s") (simp add: csr_lookup_def split: option.split)

lemma idx_within:
  "get_ring_idx hw v16 s = (rv, i, s') \<Longrightarrow> within no_queue s s'"
  "get_buf_idx hw v16 s = (rv, i, s') \<Longrightarrow> within no_queue s s'"
  "get_cntr_idx hw v8 s = (rv, i, s') \<Longrightarrow> within no_queue s s'"
  "get_tmr_idx hw v8 s = (rv, i, s') \<Longrightarrow> within no_queue s s'"
  unfolding get_ring_idx_def get_buf_idx_def get_cntr_idx_def get_tmr_idx_def
  using csr_lookup_within by (metis snd_conv)+

lemma compose_within:
  "mbox_compose_sw_context hw q s = (rv, sw, s') \<Longrightarrow> within no_queue s s'"
  "mbox_compose_prefetch_context hw q s = (rv, pc, s') \<Longrightarrow> within no_queue s s'"
  "mbox_compose_cmpt_context hw q s = (rv, cm, s') \<Longrightarrow> within no_queue s s'"
proof -
  show "within no_queue s s'" if "mbox_compose_sw_context hw q s = (rv, sw, s')"
    using that idx_within(1) by (auto simp: mbox_compose_sw_context_def split: prod.splits if_splits)
  show "within no_queue s s'" if "mbox_compose_prefetch_context hw q s = (rv, pc, s')"
    using that idx_within(2) by (auto simp: mbox_compose_prefetch_context_def split: prod.splits if_splits)
  assume a: "mbox_compose_cmpt_context hw q s = (rv, cm, s')"
  obtain r1 i1 s1 where 1: "get_cntr_idx hw (dc_cnt_thres (qc_conf q)) s = (r1, i1, s1)" by (rule prod_cases3)
  obtain r2 i2 s2 where 2: "get_tmr_idx hw (dc_timer_thres (qc_conf q)) s1 = (r2, i2, s2)" by (rule prod_cases3)
  obtain r3 i3 s3 where 3: "get_ring_idx hw (dc_cmpt_ringsz (qc_conf q)) s2 = (r3, i3, s3)" by (rule prod_cases3)
  note w = idx_within(3) [OF 1] idx_within(4) [OF 2] idx_within(1) [OF 3]
  have "s' = s1 \<or> s' = s2 \<or> s' = s3"
    using a by (simp add: mbox_compose_cmpt_context_def 1 2 3 split: if_splits)
  then show "within no_queue s s'" using w within_trans by blast
qed

lemma read_contexts_keep: "keeps no_queue (mbox_read_queue_contexts hw q st c2h t)"
  unfolding mbox_read_queue_contexts_def
  by (rule keeps_run_steps) (auto intro!: keeps_read simp: no_queue_def)

lemma reset_contexts_keep: "keeps (only_queue q) (mbox_reset_queue_contexts a hw idx f q st c2h t)"
proof -
  have "keeps (only_queue q) (run_steps
      ([no_out (sw_ctx hw (of_bool c2h) q None a), no_out (hw_ctx hw (of_bool c2h) q None a),
        no_out (credit_ctx hw (of_bool c2h) q None a)] @
       (if st \<and> c2h then [no_out (pfetch_ctx hw q None a)] else []) @
       (if with_cmpt t then [no_out (cmpt_ctx hw q None a)] else [])))"
    "keeps (only_queue q) (run_steps [no_out (cmpt_ctx hw q None a)])"
    unfolding ctx_defs by (rule keeps_run_steps, auto intro!: keeps_ctx simp: only_queue_def)+
  then show ?thesis
    unfolding keeps_def mbox_reset_queue_contexts_def
    by (auto split: prod.split simp del: run_steps.simps append.simps)
qed

text \<open>A queue outside the function's range is not touched, unless only the completion context is named.\<close>

lemma reset_contexts_out:
  assumes "qdma_dev_is_queue_in_range (ucast idx) f (ucast q) (pf_rm s) \<noteq> QDMA_DEV_Q_IN_RANGE"
    and "t \<noteq> QDMA_MBOX_CMPT_CTXT_ONLY"
  shows "snd (mbox_reset_queue_contexts a hw idx f q st c2h t s) = s"
  using assms by (simp add: mbox_reset_queue_contexts_def split: prod.split)

abbreviation owned :: "u8 \<Rightarrow> u16 \<Rightarrow> u16 \<Rightarrow> 'h pf \<Rightarrow> bool" where
  "owned idx f q s \<equiv> qdma_dev_is_queue_in_range (ucast idx) f (ucast q) (pf_rm s) = QDMA_DEV_Q_IN_RANGE"

lemma write_contexts_within:
  assumes w: "mbox_write_queue_contexts hw idx q s = (rv, s')"
  shows "within (only_queue (qc_qid_hw q)) s s' \<and> (s' \<noteq> s \<longrightarrow> owned idx (dc_func_id (qc_conf q)) (qc_qid_hw q) s)"
proof -
  let ?f = "dc_func_id (qc_conf q)" and ?q = "qc_qid_hw q" and ?t = "qc_cmpt_type q"
    and ?st = "qc_st q \<noteq> 0" and ?c = "qc_c2h q \<noteq> 0"
  obtain r x y where qi: "qdma_dev_qinfo_get (ucast idx) ?f 0 0 (pf_rm s) = (r, x, y)" by (rule prod_cases3)
  note unf = mbox_write_queue_contexts_def Let_def qi prod.case
  show ?thesis
  proof (cases "r < 0 \<or> \<not> owned idx ?f ?q s")
    case True
    then have "s' = s" using w by (cases "r < 0") (simp_all add: unf)
    then show ?thesis by simp
  next
    case ok: False
    show ?thesis
    proof (cases "?t = QDMA_MBOX_CMPT_CTXT_ONLY")
      case True
      obtain r1 cm s1 where 1: "mbox_compose_cmpt_context hw q s = (r1, cm, s1)" by (rule prod_cases3)
      have "keeps (only_queue ?q) (run_steps [no_out (cmpt_ctx hw ?q None QDMA_HW_ACCESS_CLEAR),
          no_out (cmpt_ctx hw ?q (Some cm) QDMA_HW_ACCESS_WRITE)])"
        unfolding ctx_defs by (rule keeps_run_steps) (auto intro!: keeps_ctx simp: only_queue_def)
      note k = keepsD [OF this]
      have "within (only_queue ?q) s s1" by (rule no_queue_only, rule compose_within(3) [OF 1])
      moreover have "s' = s1 \<or> within (only_queue ?q) s1 s'"
        using w ok True k by (simp add: unf 1 split: if_splits del: run_steps.simps)
      ultimately show ?thesis using ok within_trans by blast
    next
      case False
      obtain r1 sw s1 where 1: "mbox_compose_sw_context hw q s = (r1, sw, s1)" by (rule prod_cases3)
      obtain r2 pc s2 where 2: "(if ?st \<and> ?c then mbox_compose_prefetch_context hw q s1 else (0, zero_prefetch_ctxt, s1)) = (r2, pc, s2)"
        by (rule prod_cases3)
      obtain r3 cm s3 where 3: "(if with_cmpt ?t then mbox_compose_cmpt_context hw q s2 else (0, zero_cmpt_ctxt, s2)) = (r3, cm, s3)"
        by (rule prod_cases3)
      have c: "within no_queue s s1" "within no_queue s1 s2" "within no_queue s2 s3"
        using compose_within(1) [OF 1] 2 3 compose_within(2,3) by (auto split: if_splits)
      let ?fs = "[mbox_clear_queue_contexts hw idx ?f ?q ?st ?c ?t,
            no_out (sw_ctx hw (of_bool ?c) ?q (Some sw) QDMA_HW_ACCESS_WRITE)] @
           (if ?st \<and> ?c then [no_out (pfetch_ctx hw ?q (Some pc) QDMA_HW_ACCESS_WRITE)] else []) @
           (if with_cmpt ?t then [no_out (cmpt_ctx hw ?q (Some cm) QDMA_HW_ACCESS_WRITE)] else [])"
      have "keeps (only_queue ?q) (run_steps ?fs)"
        unfolding ctx_defs mbox_clear_queue_contexts_def
        by (rule keeps_run_steps) (auto intro!: keeps_ctx reset_contexts_keep simp: only_queue_def)
      note k = keepsD [OF this]
      have no: "(r < 0) = False" "(qdma_dev_is_queue_in_range (ucast idx) ?f (ucast ?q) (pf_rm s) \<noteq> QDMA_DEV_Q_IN_RANGE) = False"
        "(?t = QDMA_MBOX_CMPT_CTXT_ONLY) = False" using ok False by simp_all
      define R where "R = run_steps ?fs s3"
      have "(if r1 < 0 then (r1, s1) else if r2 < 0 then (r2, s2) else if r3 < 0 then (r3, s3) else R) = (rv, s')"
        using w by (simp only: unf no if_False 1 2 3 R_def)
      then have "s' = s1 \<or> s' = s2 \<or> s' = s3 \<or> R = (rv, s')" by (simp split: if_splits)
      then have "within no_queue s s' \<or> within no_queue s s3 \<and> within (only_queue ?q) s3 s'"
        using c k within_trans unfolding R_def by blast
      then show ?thesis using ok no_queue_only within_trans by blast
    qed
  qed
qed

section \<open>Every request\<close>

text \<open>The function number the physical function puts into a configuration is the one it reads back.\<close>

lemma written_func_id: "dc_func_id (qc_conf (get_qctxt (wr16 36 f m))) = f"
proof -
  have "members mbox_descq_conf_members = [(0, 8), (8, 8), (16, 4), (20, 4), (24, 2), (26, 2), (28, 2), (30, 2)]"
    by (simp add: members_def mbox_offsets) (simp add: mbox_descq_conf_members_def scalar_def)
  then have "dc_func_id (qc_conf (get_qctxt (wr16 36 f m))) = ucast (get_le 4 36 (wr16 36 f m))"
    by (simp add: get_qctxt_def get_descq_conf_def descq_conf_of_def Let_def)
  also have "\<dots> = ucast (take_bit 16 (get_le 4 36 (wr16 36 f m)))"
    by (rule bit_word_eqI) (auto simp: bit_simps)
  also have "\<dots> = rd16 36 (wr16 36 f m)" using get_le_low [of 2 4] by (simp add: rd16_def)
  finally show ?thesis by (simp add: byte_simps)
qed

lemma exit_with_snd [simp]: "snd (exit_with ret r) = snd r"
  by (cases r) (simp add: exit_with_def)

lemma for_rings_within:
  assumes "\<And>i s. within P s (snd (body i s))"
  shows "within P s (snd (for_rings body s))"
proof -
  have "within P s (snd (foldl (\<lambda>(rv, s) i. body i s) (rv, s) is))" for rv s and "is" :: "nat list"
  proof (induction "is" arbitrary: rv s)
    case (Cons i "is")
    obtain rv' t where t: "body i s = (rv', t)" by (cases "body i s")
    have "within P s t" using assms [of s i] t by simp
    then show ?case using Cons.IH [of t rv'] within_trans by (auto simp: t)
  qed simp
  from this [of s "err_code QDMA_SUCCESS" "[0..<unat (pf_rcv s 8)]"] show ?thesis
    by (simp add: for_rings_def)
qed

lemma note_status_within: "within P s (snd r) \<Longrightarrow> within P s (snd (note_status r))"
  by (cases r) (simp add: note_status_def)

lemma intr_within:
  "within no_queue s (snd (pf_intr_wrt hw s))" "within no_queue s (snd (pf_intr_rd hw s))"
  "within no_queue s (snd (pf_intr_reset a hw s))"
proof -
  have k: "keeps no_queue (no_out (intr_ctx hw i c a))"
    "keeps no_queue (into_resp off ms vals of_vals (intr_ctx hw i))" for i c a off ms vals of_vals
    by (auto intro!: keeps_read simp: no_queue_def) (auto intro!: keeps_ctx simp: ctx_defs no_queue_def)
  show "within no_queue s (snd (pf_intr_wrt hw s))"
    unfolding pf_intr_wrt_def Let_def
    by (intro for_rings_within note_status_within, rule within_trans, rule note_status_within)
      (use k in \<open>auto simp: keeps_def\<close>)
  show "within no_queue s (snd (pf_intr_rd hw s))" "within no_queue s (snd (pf_intr_reset a hw s))"
    unfolding pf_intr_rd_def pf_intr_reset_def Let_def
    by (intro for_rings_within note_status_within, use k in \<open>auto simp: keeps_def\<close>)+
qed

text \<open>The requests that change the resource manager make no queue call.\<close>

lemma fmap_write_within: "within no_queue s (snd (fmap_write hw f cfg s))"
proof -
  have "keeps no_queue (fmap_write hw f cfg)"
    unfolding fmap_write_def by (rule keeps_ctx) (simp add: no_queue_def)
  then show ?thesis by (simp add: keeps_def)
qed

lemma rm_requests_make:
  "makes no_queue s (snd (pf_bye ret hw mem idx s))" "makes no_queue s (snd (pf_hello hw mem idx s))"
  "makes no_queue s (snd (pf_qreq hw mem idx s))" "makes no_queue s (snd (pf_notify count idx s))"
proof -
  have fm: "makes no_queue t (snd (fmap_write hw f cfg t))" for t f cfg by (rule within_makes, rule fmap_write_within)
  have at: "makes no_queue t (snd (attributes hw t))" for t by (rule within_makes, rule attributes_within)
  have fm': "makes no_queue s (snd (fmap_write hw f cfg t))" if "makes no_queue s t" for t f cfg
    using that fm makes_trans by blast
  show "makes no_queue s (snd (pf_bye ret hw mem idx s))"
    using fm by (simp add: pf_bye_def Let_def split: prod.split) (metis snd_conv)
  show "makes no_queue s (snd (pf_notify count idx s))"
    by (simp add: pf_notify_def Let_def split: prod.split)
  show "makes no_queue s (snd (pf_qreq hw mem idx s))"
    by (auto simp: pf_qreq_def Let_def split: prod.split intro!: fm')
  have at': "makes no_queue s t'" if "attributes hw t = (a, t')" "makes no_queue s t" for t a t'
    using that at [of t] makes_trans by (metis snd_conv)
  show "makes no_queue s (snd (pf_hello hw mem idx s))"
    unfolding pf_hello_def Let_def
    by (auto split: prod.split intro!: fm' elim!: at')
qed

lemma other_requests_within:
  "within no_queue s (snd (pf_fmap hw s))" "within no_queue s (snd (pf_csr hw s))"
  "within no_queue s (snd (pf_active_cnt idx s))" "within no_queue s (snd (pf_reg_list hw s))"
  "within no_queue s (snd (pf_qctxt_rd hw s))"
proof -
  have fm: "within no_queue s t" if "fmap_write hw f cfg s = (rv, t)" for f cfg rv t
    using that fmap_write_within by (metis snd_conv)
  show "within no_queue s (snd (pf_fmap hw s))" using fm by (simp add: pf_fmap_def split: prod.split)
  show "within no_queue s (snd (pf_active_cnt idx s))" by (simp add: pf_active_cnt_def Let_def)
  show "within no_queue s (snd (pf_qctxt_rd hw s))"
    using read_contexts_keep [of hw] by (simp add: pf_qctxt_rd_def Let_def keeps_def)
  obtain rv out s1 where r: "hw_call (Reg_list_call (rd16 6 (pf_rcv s))) (qdma_read_reg_list hw 1 (rd16 6 (pf_rcv s))) s = (rv, out, s1)"
    by (rule prod_cases3)
  have "within no_queue s s1"
    using within_hw_call [of no_queue "Reg_list_call (rd16 6 (pf_rcv s))" s "qdma_read_reg_list hw 1 (rd16 6 (pf_rcv s))"] r
    by (simp add: no_queue_def)
  then show "within no_queue s (snd (pf_reg_list hw s))"
    by (simp add: pf_reg_list_def r Let_def split: option.split)
  show "within no_queue s (snd (pf_csr hw s))"
  proof -
    obtain r1 a1 s1 where 1: "csr_read hw QDMA_CSR_RING_SZ s = (r1, a1, s1)" by (rule prod_cases3)
    obtain a s2 where 2: "attributes hw s1 = (a, s2)" by (cases "attributes hw s1")
    obtain r3 a3 s3 where 3: "(if st_en a \<noteq> 0 then csr_read hw QDMA_CSR_BUF_SZ s2 else (r1, (\<lambda>_. 0), s2)) = (r3, a3, s3)" by (rule prod_cases3)
    obtain r4 a4 s4 where 4: "(if st_en a \<noteq> 0 \<or> mm_cmpt_en a \<noteq> 0 then csr_read hw QDMA_CSR_TIMER_CNT s3 else (r3, (\<lambda>_. 0), s3)) = (r4, a4, s4)" by (rule prod_cases3)
    obtain r5 a5 s5 where 5: "(if st_en a \<noteq> 0 \<or> mm_cmpt_en a \<noteq> 0 then csr_read hw QDMA_CSR_CNT_TH s4 else (r4, (\<lambda>_. 0), s4)) = (r5, a5, s5)" by (rule prod_cases3)
    have c: "within no_queue t t'" if "csr_read hw k t = (r, x, t')" for k t r x t' using that csr_read_within by (metis snd_conv)
    have w1: "within no_queue s s1" by (rule c [OF 1])
    have w2: "within no_queue s s2" using w1 attributes_within [of s1 hw] 2 within_trans by (metis snd_conv)
    have w3: "within no_queue s s3" using w2 3 c within_trans by (metis prod.inject)
    have w4: "within no_queue s s4" using w3 4 c within_trans by (metis prod.inject)
    have w5: "within no_queue s s5" using w4 5 c within_trans by (metis prod.inject)
    show ?thesis using w1 w3 w4 w5 by (simp only: pf_csr_def 1 2 3 4 5 prod.case) (simp)
  qed
qed

section \<open>The handler\<close>

lemma dispatch_calls:
  assumes "pf_dispatch hw mem idx s = (e, s')" and "c \<in> set (calls_since s s')" and "changed_queue c = Some q"
  shows "q = qc_qid_hw (get_qctxt (pf_rcv s)) \<and>
    (owned idx (hdr_src (pf_rcv s)) q s \<or>
     op_of (hdr_op (pf_rcv s)) \<in> {Some MBOX_OP_QCTXT_CLR, Some MBOX_OP_QCTXT_INV} \<and>
     qc_cmpt_type (get_qctxt (pf_rcv s)) = QDMA_MBOX_CMPT_CTXT_ONLY)"
proof -
  let ?q = "get_qctxt (pf_rcv s)" and ?f = "hdr_src (pf_rcv s)"
  let ?reset = "\<lambda>a. mbox_reset_queue_contexts a hw idx ?f (qc_qid_hw ?q) (qc_st ?q \<noteq> 0) (qc_c2h ?q \<noteq> 0) (qc_cmpt_type ?q) s"
  have none: False if "makes no_queue s s'"
    using makes_calls [OF that assms(2)] assms(3) by (simp add: no_queue_def)
  have reset: ?thesis if "s' = snd (?reset a)"
    and "op_of (hdr_op (pf_rcv s)) \<in> {Some MBOX_OP_QCTXT_CLR, Some MBOX_OP_QCTXT_INV}" for a
  proof -
    have "within (only_queue (qc_qid_hw ?q)) s s'"
      unfolding that(1) using reset_contexts_keep unfolding keeps_def by blast
    then have q: "q = qc_qid_hw ?q" using within_calls [OF _ assms(2)] assms(3) by (fastforce simp: only_queue_def)
    moreover have "owned idx ?f q s \<or> qc_cmpt_type ?q = QDMA_MBOX_CMPT_CTXT_ONLY"
    proof (rule ccontr)
      assume n: "\<not> ?thesis"
      have "s' = s" unfolding that(1) by (rule reset_contexts_out) (use n q in simp_all)
      then show False using assms(2) by (simp add: calls_since_def)
    qed
    ultimately show ?thesis using that(2) by blast
  qed
  have wrt: ?thesis if "s' = snd (pf_qctxt_wrt hw idx s)"
  proof -
    let ?s1 = "s\<lparr>pf_rcv := wr16 36 ?f (pf_rcv s)\<rparr>" let ?q1 = "get_qctxt (pf_rcv ?s1)"
    have qid: "qc_qid_hw ?q1 = qc_qid_hw ?q" by (simp add: get_qctxt_def byte_simps)
    have f: "dc_func_id (qc_conf ?q1) = ?f" using written_func_id by simp
    have "s' = snd (mbox_write_queue_contexts hw idx ?q1 ?s1)" using that by (simp add: pf_qctxt_wrt_def Let_def)
    then have w: "mbox_write_queue_contexts hw idx ?q1 ?s1 = (fst (mbox_write_queue_contexts hw idx ?q1 ?s1), s')"
      by (simp add: prod_eq_iff)
    note r = write_contexts_within [OF w, unfolded qid f]
    have c: "calls_since ?s1 s' = calls_since s s'" by (simp add: calls_since_def)
    have "s' \<noteq> ?s1" using assms(2) by (auto simp: calls_since_def)
    moreover have "q = qc_qid_hw ?q"
      using r within_calls [of "only_queue (qc_qid_hw ?q)" ?s1 s' c] assms(2,3) c by (fastforce simp: only_queue_def)
    ultimately show ?thesis using r by simp
  qed
  note w = within_makes [OF intr_within(1)] within_makes [OF intr_within(2)] within_makes [OF intr_within(3)]
    within_makes [OF other_requests_within(1)] within_makes [OF other_requests_within(2)]
    within_makes [OF other_requests_within(3)] within_makes [OF other_requests_within(4)]
    within_makes [OF other_requests_within(5)] rm_requests_make
  have s': "s' = snd (pf_dispatch hw mem idx s)" using assms(1) by simp
  show ?thesis
  proof (cases "op_of (hdr_op (pf_rcv s))")
    case None
    then show ?thesis using none s' by (simp add: pf_dispatch_def)
  next
    case (Some op)
    show ?thesis
    proof (cases op)
      case MBOX_OP_QCTXT_WRT
      show ?thesis by (rule wrt) (use s' Some MBOX_OP_QCTXT_WRT in \<open>simp add: pf_dispatch_def\<close>)
    next
      case MBOX_OP_QCTXT_CLR
      show ?thesis
        by (rule reset [of QDMA_HW_ACCESS_CLEAR])
          (use s' Some MBOX_OP_QCTXT_CLR in \<open>simp_all add: pf_dispatch_def pf_qctxt_reset_def Let_def mbox_clear_queue_contexts_def\<close>)
    next
      case MBOX_OP_QCTXT_INV
      show ?thesis
        by (rule reset [of QDMA_HW_ACCESS_INVALIDATE])
          (use s' Some MBOX_OP_QCTXT_INV in \<open>simp_all add: pf_dispatch_def pf_qctxt_reset_def Let_def mbox_invalidate_queue_contexts_def\<close>)
    qed (use none s' Some in \<open>simp_all add: pf_dispatch_def w\<close>)
  qed
qed

lemma handler_split:
  assumes "qdma_mbox_pf_rcv_msg_handler hw mem idx func_id False s = (v, s')"
  obtains e t where "pf_dispatch hw mem idx s = (e, t)" "pf_rm s' = pf_rm t" "pf_calls s' = pf_calls t"
  using assms that by (cases "pf_dispatch hw mem idx s")
    (auto simp: qdma_mbox_pf_rcv_msg_handler_def pf_reply_def split: pf_end.splits)

text \<open>C25: a virtual function reaches only its own queues.  Whatever bytes a message holds, the only
  queue whose contexts the physical function writes, clears or invalidates for it is the queue it
  names, and that queue is in the sender's range and in no other function's.  Excepted are the two
  requests that clear or invalidate a completion context alone, which do not look at the range.\<close>

theorem context_isolation:
  assumes "qdma_mbox_pf_rcv_msg_handler hw mem' idx func_id False s = (v, s')"
    and "rm_reach mem (pf_rm s)" and "c \<in> set (calls_since s s')" and "changed_queue c = Some q"
    and "\<not> (op_of (hdr_op (pf_rcv s)) \<in> {Some MBOX_OP_QCTXT_CLR, Some MBOX_OP_QCTXT_INV} \<and>
      qc_cmpt_type (get_qctxt (pf_rcv s)) = QDMA_MBOX_CMPT_CTXT_ONLY)"
  shows "q = qc_qid_hw (get_qctxt (pf_rcv s)) \<and>
    qdma_dev_is_queue_in_range (ucast idx) (hdr_src (pf_rcv s)) (ucast q) (pf_rm s) = QDMA_DEV_Q_IN_RANGE \<and>
    (\<forall>g. g \<noteq> hdr_src (pf_rcv s) \<longrightarrow>
      qdma_dev_is_queue_in_range (ucast idx) g (ucast q) (pf_rm s) = QDMA_DEV_Q_OUT_OF_RANGE)"
proof -
  obtain e t where t: "pf_dispatch hw mem' idx s = (e, t)" "pf_calls s' = pf_calls t"
    using handler_split [OF assms(1)] by metis
  have "c \<in> set (calls_since s t)" using assms(3) t(2) by (simp add: calls_since_def)
  note d = dispatch_calls [OF t(1) this assms(4)]
  then have o: "owned idx (hdr_src (pf_rcv s)) q s" using assms(5) by blast
  then show ?thesis using d in_range_unique [OF assms(2) _ o] by (intro conjI allI impI) auto
qed

text \<open>A worked device: a back end that keeps no state and always succeeds, and the state in which
  functions 1 and 2 hold queues 0 to 3 and 8 to 15.\<close>

definition plain_ctx :: "'c option \<Rightarrow> qdma_hw_access_type \<Rightarrow> unit \<Rightarrow> int \<times> 'c option \<times> unit" where
  "plain_ctx c a h = (0, None, ())"

definition plain_hw :: "unit qdma_hw_access" where
  "plain_hw = \<lparr>qdma_global_csr_conf = (\<lambda>t h. (0, Some (\<lambda>i. of_nat i + 64), ())), qdma_fmap_conf = (\<lambda>_. plain_ctx),
     qdma_sw_ctx_conf = (\<lambda>_ _. plain_ctx), qdma_pfetch_ctx_conf = (\<lambda>_. plain_ctx),
     qdma_cmpt_ctx_conf = (\<lambda>_. plain_ctx), qdma_hw_ctx_conf = (\<lambda>_ _. plain_ctx),
     qdma_credit_ctx_conf = (\<lambda>_ _. plain_ctx), qdma_indirect_intr_ctx_conf = (\<lambda>_. plain_ctx),
     qdma_get_device_attributes = (\<lambda>h. (\<lparr>num_pfs = 4, num_qs = 16, flr_present = 0, st_en = 1, mm_en = 1, mm_cmpt_en = 0,
        mailbox_en = 1, debug_mode = 0, desc_eng_mode = 0, mm_channel_max = 1, qid2vec_ctx = 0, cmpt_ovf_chk_dis = 1,
        mailbox_intr = 1, sw_desc_64b = 0, cmpt_desc_64b = 0, dynamic_bar = 0, legacy_intr = 0,
        cmpt_trig_count_timer = 0\<rparr>, ())),
     qdma_read_reg_list = (\<lambda>_ _ h. (0, None, ())), mbox_base_pf = 0x22400, mbox_base_vf = 0x5000\<rparr>"

definition request :: "int \<times> bytes option \<Rightarrow> bytes" where
  "request r = the (snd r)"

definition demo_pf :: "bytes \<Rightarrow> unit pf" where
  "demo_pf m = \<lparr>pf_rcv = m, pf_resp = (\<lambda>_. 0), pf_rm = demo_rm2, pf_hw = (), pf_calls = []\<rparr>"

definition demo_clear :: bytes where
  "demo_clear = request (qdma_mbox_compose_vf_qctxt_clear 2 9 0 1 QDMA_MBOX_CMPT_CTXT_NONE (Some (\<lambda>_. 0)))"

definition demo_cmpt_clear :: bytes where
  "demo_cmpt_clear = request (qdma_mbox_compose_vf_qctxt_clear 2 1 0 1 QDMA_MBOX_CMPT_CTXT_ONLY (Some (\<lambda>_. 0)))"

text \<open>What a composed request says.\<close>

lemma compose_Some: "compose op f body (Some m) =
    (0, Some (body (set_src f (set_op (op_code op) (qdma_mbox_memset 0 0 (of_nat (fst qdma_mbox_txrx)) m)))))"
  by (simp add: compose_def)

lemma low_bit: "(ucast (x mod 2 :: u8) :: 1 word) = ucast x" "(ucast (of_bool (odd x) :: u8) :: 1 word) = ucast x"
proof -
  have "(ucast (take_bit 1 x) :: 1 word) = ucast x"
    by (rule bit_word_eqI, simp add: bit_unsigned_iff bit_take_bit_iff del: bit_0, simp add: bit_0)
  then show "(ucast (x mod 2 :: u8) :: 1 word) = ucast x" by (simp add: take_bit_eq_mod)
  then show "(ucast (of_bool (odd x) :: u8) :: 1 word) = ucast x" by (simp add: mod_2_eq_odd)
qed

lemma put_qctxt_fields:
  "hdr_op (put_qctxt qid st c2h t m) = hdr_op m" "hdr_src (put_qctxt qid st c2h t m) = hdr_src m"
  "qc_qid_hw (get_qctxt (put_qctxt qid st c2h t m)) = qid" "qc_st (get_qctxt (put_qctxt qid st c2h t m)) = ucast st"
  "qc_c2h (get_qctxt (put_qctxt qid st c2h t m)) = ucast c2h" "qc_cmpt_type (get_qctxt (put_qctxt qid st c2h t m)) = t"
proof -
  show "qc_st (get_qctxt (put_qctxt qid st c2h t m)) = ucast st" "qc_c2h (get_qctxt (put_qctxt qid st c2h t m)) = ucast c2h"
    by (simp_all add: get_qctxt_def put_qctxt_def Let_def byte_simps low_bit)
  have "cmpt_type_of (take_bit 2 (cmpt_type_code t)) = t" by (cases t) (simp_all add: cmpt_type_of_def)
  then show "qc_cmpt_type (get_qctxt (put_qctxt qid st c2h t m)) = t"
    by (simp add: get_qctxt_def put_qctxt_def Let_def byte_simps)
qed (simp_all add: get_qctxt_def put_qctxt_def Let_def hdr_defs byte_simps)

lemma hdr_fields:
  "hdr_op (set_src f m) = hdr_op m" "hdr_op (set_op v m) = v" "hdr_src (set_src f m) = f"
  by (simp_all add: hdr_defs byte_simps)

lemma op_of_code: "op_of (op_code op) = Some op"
  by (induction op) code_simp+

lemmas request_simps = compose_Some put_qctxt_fields hdr_fields op_of_code

lemma demo_clear_fields:
  "hdr_op demo_clear = op_code MBOX_OP_QCTXT_CLR" "hdr_src demo_clear = 2"
  "qc_qid_hw (get_qctxt demo_clear) = 9" "qc_st (get_qctxt demo_clear) = 0" "qc_c2h (get_qctxt demo_clear) = 1"
  "qc_cmpt_type (get_qctxt demo_clear) = QDMA_MBOX_CMPT_CTXT_NONE"
  by (simp_all add: demo_clear_def request_def qdma_mbox_compose_vf_qctxt_clear_def request_simps)

lemma demo_ranges:
  "qdma_dev_qinfo_get 0 2 0 0 demo_rm2 = (0, 8, 8)" "qdma_dev_is_queue_in_range 0 2 9 demo_rm2 = QDMA_DEV_Q_IN_RANGE"
  "qdma_dev_is_queue_in_range 0 1 1 demo_rm2 = QDMA_DEV_Q_IN_RANGE"
  unfolding demo_state by code_simp+

lemma demo_clear_call:
  "Sw_call QDMA_HW_ACCESS_CLEAR 1 9 \<in> set (calls_since (demo_pf demo_clear)
     (snd (qdma_mbox_pf_rcv_msg_handler plain_hw (\<lambda>_. True) 0 0 False (demo_pf demo_clear))))"
  by (simp add: qdma_mbox_pf_rcv_msg_handler_def pf_dispatch_def demo_pf_def demo_clear_fields op_of_code
      pf_qctxt_reset_def Let_def mbox_clear_queue_contexts_def mbox_reset_queue_contexts_def demo_ranges exit_with_def
      no_out_def ctx_defs hw_call_def plain_hw_def plain_ctx_def with_cmpt_def pf_reply_def calls_since_def)

theorem context_isolation_witness:
  "qdma_dev_is_queue_in_range 0 2 9 demo_rm2 = QDMA_DEV_Q_IN_RANGE \<and>
   qdma_dev_is_queue_in_range 0 1 9 demo_rm2 = QDMA_DEV_Q_OUT_OF_RANGE"
proof -
  let ?s = "demo_pf demo_clear"
  have p: "pf_rm ?s = demo_rm2" "pf_rcv ?s = demo_clear" by (simp_all add: demo_pf_def)
  obtain v s' where r: "qdma_mbox_pf_rcv_msg_handler plain_hw (\<lambda>_. True) 0 0 False ?s = (v, s')" by (rule prod.exhaust)
  have c: "Sw_call QDMA_HW_ACCESS_CLEAR 1 9 \<in> set (calls_since ?s s')" using demo_clear_call r by simp
  show ?thesis
    using context_isolation [OF r _ c, of "\<lambda>_. True" 9] demo_reach(3) p demo_clear_fields by simp
qed

text \<open>The exception is real: function 2 has the completion context of queue 1, which function 1
  holds, cleared.\<close>

lemma cmpt_only_unchecked:
  "Cmpt_call QDMA_HW_ACCESS_CLEAR 1 \<in> set (calls_since (demo_pf demo_cmpt_clear)
     (snd (qdma_mbox_pf_rcv_msg_handler plain_hw (\<lambda>_. True) 0 0 False (demo_pf demo_cmpt_clear)))) \<and>
   hdr_src demo_cmpt_clear = 2 \<and> qdma_dev_is_queue_in_range 0 1 1 demo_rm2 = QDMA_DEV_Q_IN_RANGE"
proof -
  have f: "hdr_op demo_cmpt_clear = op_code MBOX_OP_QCTXT_CLR" "hdr_src demo_cmpt_clear = 2"
    "qc_qid_hw (get_qctxt demo_cmpt_clear) = 1" "qc_cmpt_type (get_qctxt demo_cmpt_clear) = QDMA_MBOX_CMPT_CTXT_ONLY"
    by (simp_all add: demo_cmpt_clear_def request_def qdma_mbox_compose_vf_qctxt_clear_def request_simps)
  show ?thesis
    by (simp add: f demo_ranges) (simp add: qdma_mbox_pf_rcv_msg_handler_def pf_dispatch_def demo_pf_def f op_of_code
        pf_qctxt_reset_def Let_def mbox_clear_queue_contexts_def mbox_reset_queue_contexts_def exit_with_def
        no_out_def ctx_defs hw_call_def plain_hw_def plain_ctx_def pf_reply_def calls_since_def)
qed

section \<open>Ownership under any traffic\<close>

lemma fmap_write_rm: "pf_rm (snd (fmap_write hw f cfg s)) = pf_rm s"
  using fmap_write_within [of s hw f cfg] by (simp add: within_def)

lemma attributes_rm: "attributes hw s = (a, t) \<Longrightarrow> pf_rm t = pf_rm s"
  using attributes_within [of s hw] by (simp add: within_def)

text \<open>What a request does to the resource manager.\<close>

lemma dispatch_rm:
  assumes "pf_dispatch hw mem idx s = (e, t)"
  shows "pf_rm t = pf_rm s \<or> pf_rm t = qdma_dev_entry_destroy mem (ucast idx) (hdr_src (pf_rcv s)) (pf_rm s) \<or>
    pf_rm t = snd (qdma_dev_entry_create mem (ucast idx) (hdr_src (pf_rcv s)) (pf_rm s)) \<or>
    op_of (hdr_op (pf_rcv s)) = Some MBOX_OP_QREQ \<and>
      pf_rm t = snd (snd (qdma_dev_update mem (ucast idx) (hdr_src (pf_rcv s)) (rd32 12 (pf_rcv s)) (rd32 8 (pf_rcv s)) (pf_rm s))) \<or>
    (\<exists>ty. pf_rm t = snd (qdma_dev_increment_active_queue (ucast idx) (hdr_src (pf_rcv s)) ty (pf_rm s)) \<or>
      pf_rm t = snd (qdma_dev_decrement_active_queue (ucast idx) (hdr_src (pf_rcv s)) ty (pf_rm s)))"
    (is "?same \<or> ?destroy \<or> ?create \<or> ?update \<or> ?count")
proof -
  have t: "t = snd (pf_dispatch hw mem idx s)" using assms by simp
  have bye: "pf_rm (snd (pf_bye ret hw mem idx s)) = qdma_dev_entry_destroy mem (ucast idx) (hdr_src (pf_rcv s)) (pf_rm s)" for ret
    using fmap_write_rm [of hw "hdr_src (pf_rcv s)" zero_fmap s] by (auto simp: pf_bye_def Let_def split: prod.splits)
  have hello: "pf_rm (snd (pf_hello hw mem idx s)) = pf_rm s \<or>
      pf_rm (snd (pf_hello hw mem idx s)) = snd (qdma_dev_entry_create mem (ucast idx) (hdr_src (pf_rcv s)) (pf_rm s))"
    unfolding pf_hello_def Let_def by (auto simp: fmap_write_rm split: prod.splits dest!: attributes_rm)
  have qreq: "pf_rm (snd (pf_qreq hw mem idx s)) = snd (snd (qdma_dev_update mem (ucast idx) (hdr_src (pf_rcv s))
      (rd32 12 (pf_rcv s)) (rd32 8 (pf_rcv s)) (pf_rm s)))"
    unfolding pf_qreq_def Let_def by (auto simp: fmap_write_rm split: prod.splits)
  have notify: "pf_rm (snd (pf_notify count idx s)) = pf_rm s \<or>
      (\<exists>ty. pf_rm (snd (pf_notify count idx s)) = snd (count (ucast idx) (hdr_src (pf_rcv s)) ty (pf_rm s)))" for count
    unfolding pf_notify_def Let_def by (auto split: prod.splits) (metis snd_conv)
  note w = other_requests_within [where s = s] intr_within [where s = s]
  have same: "pf_rm (snd (pf_fmap hw s)) = pf_rm s" "pf_rm (snd (pf_csr hw s)) = pf_rm s" "pf_rm (snd (pf_active_cnt idx s)) = pf_rm s"
    "pf_rm (snd (pf_reg_list hw s)) = pf_rm s" "pf_rm (snd (pf_qctxt_rd hw s)) = pf_rm s" "pf_rm (snd (pf_intr_wrt hw s)) = pf_rm s"
    "pf_rm (snd (pf_intr_rd hw s)) = pf_rm s" "pf_rm (snd (pf_intr_reset a hw s)) = pf_rm s" for a
    using w unfolding within_def by blast+
  have reset: "pf_rm (snd (pf_qctxt_reset (mbox_reset_queue_contexts a) hw idx s)) = pf_rm s" for a
    using reset_contexts_keep unfolding pf_qctxt_reset_def Let_def exit_with_snd keeps_def within_def by blast
  have wrt: "pf_rm (snd (pf_qctxt_wrt hw idx s)) = pf_rm s"
  proof -
    let ?s1 = "s\<lparr>pf_rcv := wr16 36 (hdr_src (pf_rcv s)) (pf_rcv s)\<rparr>"
    have "within (only_queue (qc_qid_hw (get_qctxt (pf_rcv ?s1)))) ?s1
        (snd (mbox_write_queue_contexts hw idx (get_qctxt (pf_rcv ?s1)) ?s1))"
      using write_contexts_within by (metis prod.collapse)
    then show ?thesis by (simp add: pf_qctxt_wrt_def Let_def within_def)
  qed
  show ?thesis
  proof (cases "op_of (hdr_op (pf_rcv s))")
    case None
    then show ?thesis by (simp add: t pf_dispatch_def)
  next
    case (Some op)
    show ?thesis
      using Some bye hello qreq notify [of qdma_dev_increment_active_queue] notify [of qdma_dev_decrement_active_queue]
      by (cases op) (auto simp: t pf_dispatch_def same reset wrt mbox_clear_queue_contexts_def mbox_invalidate_queue_contexts_def)
  qed
qed

text \<open>Any number of messages, each with any content in the request and the response buffer.  A queue
  request that names a range that wraps around 32 bits is not \<open>well_sized\<close>; the composing functions cannot
  produce it (\<open>composed_qreq_fits\<close>).\<close>

definition well_sized :: "bytes \<Rightarrow> bool" where
  "well_sized m \<longleftrightarrow> (op_of (hdr_op m) = Some MBOX_OP_QREQ \<longrightarrow> no_wrap (rd32 12 m) (rd32 8 m))"

definition mbox_serve :: "'h qdma_hw_access \<Rightarrow> (nat \<Rightarrow> bool) \<Rightarrow> u8 \<Rightarrow> u16 \<Rightarrow> (bytes \<times> bytes) list \<Rightarrow> 'h pf \<Rightarrow> 'h pf" where
  "mbox_serve hw mem idx fid msgs s =
     foldl (\<lambda>t (m, r). snd (qdma_mbox_pf_rcv_msg_handler hw mem idx fid False (t\<lparr>pf_rcv := m, pf_resp := r\<rparr>))) s msgs"

lemma handler_reach:
  assumes "rm_reach mem (pf_rm s)" and "well_sized (pf_rcv s)"
  shows "rm_reach mem (pf_rm (snd (qdma_mbox_pf_rcv_msg_handler hw mem idx fid False s)))"
proof -
  obtain v s' where r: "qdma_mbox_pf_rcv_msg_handler hw mem idx fid False s = (v, s')" by (rule prod.exhaust)
  obtain e t where t: "pf_dispatch hw mem idx s = (e, t)" "pf_rm s' = pf_rm t" using handler_split [OF r] by metis
  have "rm_reach mem (pf_rm t)"
    using dispatch_rm [OF t(1)] assms unfolding well_sized_def by (auto intro: rm_reach.intros)
  then show ?thesis using r t(2) by simp
qed

text \<open>C26: As long as no request for queues names a range that wraps around 32 bits (those that the virtual function's driver
  composes never do), whatever virtual functions send, in whatever order and with whatever bytes, the resource manager stays in
  a state its own operations reach, and so no queue is ever in range of two functions.\<close>

theorem mailbox_keeps_ownership:
  assumes "\<forall>(m, r) \<in> set msgs. well_sized m" and "rm_reach mem (pf_rm s)" and "t = mbox_serve hw mem idx fid msgs s"
  shows "rm_reach mem (pf_rm t) \<and>
    (\<forall>i f g q. f \<noteq> g \<longrightarrow> qdma_dev_is_queue_in_range i f q (pf_rm t) = QDMA_DEV_Q_IN_RANGE \<longrightarrow>
      qdma_dev_is_queue_in_range i g q (pf_rm t) = QDMA_DEV_Q_OUT_OF_RANGE)"
proof -
  have "rm_reach mem (pf_rm (mbox_serve hw mem idx fid msgs s))"
    using assms(1,2)
  proof (induction msgs arbitrary: s)
    case (Cons mr msgs)
    obtain m r where mr: "mr = (m, r)" by fastforce
    have "rm_reach mem (pf_rm (snd (qdma_mbox_pf_rcv_msg_handler hw mem idx fid False (s\<lparr>pf_rcv := m, pf_resp := r\<rparr>))))"
      using Cons.prems mr by (intro handler_reach) simp_all
    then show ?case using Cons.IH Cons.prems(1) mr by (simp add: mbox_serve_def)
  qed (simp add: mbox_serve_def)
  then show ?thesis using in_range_unique assms(3) by blast
qed

text \<open>The witness: function 2 says good-bye, function 1 then asks for eight queues at base 8.\<close>

lemma put_fmap_fields:
  "rd32 8 (put_fmap qb qm m) = qb" "rd32 12 (put_fmap qb qm m) = qm"
  by (simp_all add: put_fmap_def byte_simps)

lemma composed_qreq_fits:
  assumes "qdma_mbox_compose_vf_qreq f qmax qbase raw = (0, Some m)"
  shows "hdr_src m = f \<and> hdr_op m = op_code MBOX_OP_QREQ \<and> rd32 8 m = qbase \<and> rd32 12 m = ucast qmax \<and> well_sized m"
proof -
  obtain r where r: "raw = Some r" using assms by (cases raw) (auto simp: qdma_mbox_compose_vf_qreq_def compose_def)
  have m: "hdr_src m = f" "hdr_op m = op_code MBOX_OP_QREQ" "rd32 8 m = qbase" "rd32 12 m = ucast qmax"
    using assms by (auto simp: r qdma_mbox_compose_vf_qreq_def request_simps put_fmap_fields)
  have "uint (ucast qmax :: u32) < 65536" using uint_lt2p [of qmax] by (simp add: unsigned_ucast_eq take_bit_int_eq_self)
  moreover have "uint qbase < 2147483648" if "0 \<le>s qbase"
    using that uint_lt2p [of qbase] by (intro sint_nonneg [simplified]) (simp add: word_sle_eq)
  ultimately have "no_wrap (rd32 12 m) (rd32 8 m)" unfolding m no_wrap_def by auto
  then show ?thesis using m by (simp add: well_sized_def)
qed

definition demo_bye :: bytes where
  "demo_bye = request (qdma_mbox_compose_vf_offline 2 (Some (\<lambda>_. 0)))"

definition demo_qreq :: bytes where
  "demo_qreq = request (qdma_mbox_compose_vf_qreq 1 8 8 (Some (\<lambda>_. 0)))"

lemma ucast_ucast_id_16: "ucast (ucast (x :: u16) :: u32) = x"
  by (rule bit_word_eqI) (auto simp: bit_simps dest: bit_imp_le_length)

lemma demo_qreq_composed: "qdma_mbox_compose_vf_qreq 1 8 8 (Some (\<lambda>_. 0)) = (0, Some demo_qreq)"
  by (simp add: demo_qreq_def request_def qdma_mbox_compose_vf_qreq_def compose_Some)

theorem mailbox_keeps_ownership_witness:
  "rm_reach (\<lambda>_. True) (pf_rm (mbox_serve plain_hw (\<lambda>_. True) 0 0 [(demo_bye, \<lambda>_. 0), (demo_qreq, \<lambda>_. 0)] (demo_pf demo_bye)))"
proof -
  have "op_of (hdr_op demo_bye) = Some MBOX_OP_VF_BYE"
    by (simp add: demo_bye_def request_def qdma_mbox_compose_vf_offline_def request_simps)
  then have "well_sized demo_bye" by (simp add: well_sized_def)
  moreover have "well_sized demo_qreq" using composed_qreq_fits [OF demo_qreq_composed] by simp
  moreover have "rm_reach (\<lambda>_. True) (pf_rm (demo_pf demo_bye))" using demo_reach(3) by (simp add: demo_pf_def)
  ultimately show ?thesis
    using mailbox_keeps_ownership [of "[(demo_bye, \<lambda>_. 0), (demo_qreq, \<lambda>_. 0)]" "\<lambda>_. True" "demo_pf demo_bye"] by simp
qed

text \<open>A request as raw bytes, with any 32-bit size.\<close>

definition raw_qreq :: "u16 \<Rightarrow> u32 \<Rightarrow> u32 \<Rightarrow> bytes" where
  "raw_qreq f qmax qbase = put_fmap qbase qmax (request (qdma_mbox_compose_vf_qreq f 0 0 (Some (\<lambda>_. 0))))"

lemma raw_qreq_fields:
  "hdr_src (raw_qreq f qmax qbase) = f" "op_of (hdr_op (raw_qreq f qmax qbase)) = Some MBOX_OP_QREQ"
  "rd32 8 (raw_qreq f qmax qbase) = qbase" "rd32 12 (raw_qreq f qmax qbase) = qmax"
  by (simp_all add: raw_qreq_def put_fmap_fields request_def qdma_mbox_compose_vf_qreq_def request_simps)

lemma handler_qreq_rm:
  assumes "op_of (hdr_op m) = Some MBOX_OP_QREQ"
  shows "pf_rm (snd (qdma_mbox_pf_rcv_msg_handler hw mem idx fid False (s\<lparr>pf_rcv := m, pf_resp := r\<rparr>))) =
    rm_do mem (pf_rm s) (Update (ucast idx) (hdr_src m) (rd32 12 m) (rd32 8 m))"
proof -
  let ?s = "s\<lparr>pf_rcv := m, pf_resp := r\<rparr>"
  obtain v s' where h: "qdma_mbox_pf_rcv_msg_handler hw mem idx fid False ?s = (v, s')" by (rule prod.exhaust)
  obtain e t where t: "pf_dispatch hw mem idx ?s = (e, t)" "pf_rm s' = pf_rm t" using handler_split [OF h] by metis
  have "t = snd (pf_qreq hw mem idx ?s)" using t(1) assms by (simp add: pf_dispatch_def)
  then have "pf_rm t = rm_do mem (pf_rm s) (Update (ucast idx) (hdr_src m) (rd32 12 m) (rd32 8 m))"
    by (auto simp: pf_qreq_def Let_def fmap_write_rm split: prod.splits)
  then show ?thesis using h t(2) by simp
qed

definition three_functions :: "rm_call list" where
  "three_functions = [Create 1 1 0 16, Dev_create 0 1, Dev_create 0 2, Dev_create 0 3]"

text \<open>C27: Sizes that wrap are not refused.  On a device with 16 queues and three functions, three requests for queues, the first
  for 4294967295 queues at base 1, put queue 0 in the range of two functions, on any card and in any state of its registers.\<close>

theorem wrapped_request_breaks_isolation:
  "pf_rm s = rm_run (\<lambda>_. True) three_functions \<Longrightarrow>
   t = mbox_serve hw (\<lambda>_. True) 0 fid [(raw_qreq 1 4294967295 1, r1), (raw_qreq 2 4 0, r2), (raw_qreq 3 1 (-1), r3)] s \<Longrightarrow>
   qdma_dev_is_queue_in_range 0 2 0 (pf_rm t) = QDMA_DEV_Q_IN_RANGE \<and> qdma_dev_is_queue_in_range 0 3 0 (pf_rm t) = QDMA_DEV_Q_IN_RANGE"
proof -
  assume s: "pf_rm s = rm_run (\<lambda>_. True) three_functions"
    and t: "t = mbox_serve hw (\<lambda>_. True) 0 fid [(raw_qreq 1 4294967295 1, r1), (raw_qreq 2 4 0, r2), (raw_qreq 3 1 (-1), r3)] s"
  have "pf_rm t = foldl (rm_do (\<lambda>_. True)) (rm_run (\<lambda>_. True) three_functions) [Update 0 1 4294967295 1, Update 0 2 4 0, Update 0 3 1 (-1)]"
    by (simp add: t mbox_serve_def handler_qreq_rm raw_qreq_fields s)
  moreover have "\<forall>f \<in> {2, 3}. qdma_dev_is_queue_in_range 0 f 0
      (foldl (rm_do (\<lambda>_. True)) (rm_run (\<lambda>_. True) three_functions) [Update 0 1 4294967295 1, Update 0 2 4 0, Update 0 3 1 (-1)]) = QDMA_DEV_Q_IN_RANGE"
    by code_simp
  ultimately show ?thesis by simp
qed

theorem wrapped_request_breaks_isolation_witness:
  "\<exists>t. qdma_dev_is_queue_in_range 0 2 0 (pf_rm t) = QDMA_DEV_Q_IN_RANGE \<and> qdma_dev_is_queue_in_range 0 3 0 (pf_rm t) = QDMA_DEV_Q_IN_RANGE \<and>
     t = mbox_serve plain_hw (\<lambda>_. True) 0 0 [(raw_qreq 1 4294967295 1, \<lambda>_. 0), (raw_qreq 2 4 0, \<lambda>_. 0), (raw_qreq 3 1 (-1), \<lambda>_. 0)]
       ((demo_pf demo_bye)\<lparr>pf_rm := rm_run (\<lambda>_. True) three_functions\<rparr>)"
  using wrapped_request_breaks_isolation [of "(demo_pf demo_bye)\<lparr>pf_rm := rm_run (\<lambda>_. True) three_functions\<rparr>"] by simp

section \<open>Asking for queues\<close>

lemma update_keeps_others:
  assumes "g \<noteq> f"
  shows "qdma_dev_qinfo_get idx g b0 c0 (snd (snd (qdma_dev_update mem idx f qmax qbase s))) = qdma_dev_qinfo_get idx g b0 c0 s"
proof (cases "\<exists>m d. qdma_get_master_resource_entry idx s = Some m \<and> qdma_get_dev_entry idx f s = Some d \<and>
    active_h2c_qcnt d = 0 \<and> active_c2h_qcnt d = 0 \<and> active_cmpt_qcnt d = 0")
  case True
  then obtain m d where m: "qdma_get_master_resource_entry idx s = Some m" "qdma_get_dev_entry idx f s = Some d"
    and z: "active_h2c_qcnt d = 0" "active_c2h_qcnt d = 0" "active_cmpt_qcnt d = 0" by blast
  obtain rv b s' where u: "qdma_dev_update mem idx f qmax qbase s = (rv, b, s')" by (rule prod_cases3)
  obtain e fl n where
    s': "s' = set_master idx (\<lambda>m. set_dev f (\<lambda>d. d\<lparr>de_entry := e\<rparr>) (m\<lparr>free_list := fl\<rparr>)) (s\<lparr>rm_allocs := n\<rparr>)"
    using update_unfold [OF u m z] by metis
  have keep: "\<And>d. de_func_id (d\<lparr>de_entry := e\<rparr>) = de_func_id d" by simp
  note after = get_dev_after [OF m, where h = "\<lambda>d. d\<lparr>de_entry := e\<rparr>" and fl = fl and n = n, OF keep, folded s']
  show ?thesis using after(1) after(3) [OF assms] m(1) by (simp add: u qdma_dev_qinfo_get_def)
next
  case False
  then have "snd (snd (qdma_dev_update mem idx f qmax qbase s)) = s"
    by (auto simp: qdma_dev_update_def split: option.split)
  then show ?thesis by simp
qed

lemma update_code: "qdma_dev_update mem idx f qmax qbase s = (rv, b, s') \<Longrightarrow> rv \<le> 0"
  by (auto simp: qdma_dev_update_def qdma_request_q_resource_def Let_def split: option.splits prod.splits if_splits)

lemma fmap_write_keeps:
  "pf_resp (snd (fmap_write hw f cfg s)) = pf_resp s" "pf_rcv (snd (fmap_write hw f cfg s)) = pf_rcv s"
  by (simp_all add: fmap_write_def no_out_def hw_call_def split: prod.split)

lemma reply_fields:
  "hdr_op (pf_resp (pf_reply fid rv s)) = hdr_op (pf_rcv s) + MBOX_MSG_OP_RSP_OFFSET"
  "hdr_status (pf_resp (pf_reply fid rv s)) = sint (of_int rv :: u8)" "hdr_src (pf_resp (pf_reply fid rv s)) = fid"
  "hdr_dst (pf_resp (pf_reply fid rv s)) = hdr_src (pf_rcv s)" "pf_rm (pf_reply fid rv s) = pf_rm s"
  "6 \<le> off \<Longrightarrow> rd32 off (pf_resp (pf_reply fid rv s)) = rd32 off (pf_resp s)"
  by (simp_all add: pf_reply_def hdr_defs byte_simps)

text \<open>C28: the answer to a request for queues.  When function \<open>f\<close> composes a request for \<open>qmax\<close> queues
  and the physical function handles it, the block \<open>f\<close> reads from the response is, if the status is 0,
  exactly the block the resource manager now holds for it, of the size asked for; otherwise the
  status is \<open>-QDMA_ERR_MBOX_NUM_QUEUES\<close>.  No other function's block changes in either case.\<close>

theorem queue_request_answered:
  assumes "rm_reach mem (pf_rm s)" and "qdma_mbox_compose_vf_qreq f qmax qbase raw = (0, Some m)" and "qmax \<noteq> 0"
    and "pf_rcv s = m" and "qdma_mbox_pf_rcv_msg_handler hw mem idx fid False s = (v, s')"
  shows "(case qdma_mbox_vf_qinfo_get (pf_resp s') of (status, qb, qm) \<Rightarrow>
      if status = 0 then qm = qmax \<and> qdma_dev_qinfo_get (ucast idx) f b0 c0 (pf_rm s') = (0, qb, ucast qmax)
      else status = - err_code QDMA_ERR_MBOX_NUM_QUEUES) \<and>
    (\<forall>g. g \<noteq> f \<longrightarrow> qdma_dev_qinfo_get (ucast idx) g b0 c0 (pf_rm s') = qdma_dev_qinfo_get (ucast idx) g b0 c0 (pf_rm s)) \<and>
    qdma_mbox_is_msg_response m (pf_resp s') = 1"
proof -
  note c = composed_qreq_fits [OF assms(2)]
  have nw: "no_wrap (ucast qmax) qbase" using c by (auto simp: well_sized_def op_of_code)
  obtain rv b rm where u: "qdma_dev_update mem (ucast idx) f (ucast qmax) qbase (pf_rm s) = (rv, b, rm)" by (rule prod_cases3)
  have nz: "ucast qmax \<noteq> (0 :: u32)"
  proof
    assume "ucast qmax = (0 :: u32)"
    then have "ucast (ucast qmax :: u32) = (0 :: u16)" by simp
    then show False using assms(3) ucast_ucast_id_16 by simp
  qed
  have d: "pf_dispatch hw mem idx s = pf_qreq hw mem idx s" using c assms(4) by (simp add: pf_dispatch_def op_of_code)
  have others: "qdma_dev_qinfo_get (ucast idx) g b0 c0 rm = qdma_dev_qinfo_get (ucast idx) g b0 c0 (pf_rm s)" if "g \<noteq> f" for g
    using update_keeps_others [OF that, of "ucast idx" b0 c0 mem "ucast qmax" qbase "pf_rm s"] u by simp
  have resp: "uint (4 :: u8) + uint MBOX_MSG_OP_RSP_OFFSET = uint (4 + MBOX_MSG_OP_RSP_OFFSET)" "op_code MBOX_OP_QREQ = 4"
    by code_simp+
  show ?thesis
  proof (cases "rv = 0")
    case True
    let ?s2 = "s\<lparr>pf_rm := rm, pf_rcv := wr32 8 b m, pf_resp := put_fmap b (ucast qmax) (pf_resp s)\<rparr>"
    have q: "qdma_dev_qinfo_get (ucast idx) f x y rm = (0, b, ucast qmax)" for x y
      using update_success_parts(1) [OF assms(1) nw nz] u True by simp
    have "s' = pf_reply fid 0 (snd (fmap_write hw f zero_fmap ?s2))"
      using assms(4,5) u c q True by (simp add: qdma_mbox_pf_rcv_msg_handler_def d pf_qreq_def Let_def)
    then show ?thesis
      using others q resp c
      by (simp add: qdma_mbox_vf_qinfo_get_def qdma_mbox_is_msg_response_def reply_fields fmap_write_keeps fmap_write_rm
          put_fmap_fields hdr_body ucast_ucast_id_16)
  next
    case False
    then have "rv < 0" using update_code [OF u] by simp
    then have "s' = pf_reply fid (- err_code QDMA_ERR_MBOX_NUM_QUEUES) (s\<lparr>pf_rm := rm, pf_rcv := wr32 8 b m\<rparr>)"
      using assms(4,5) u c by (simp add: qdma_mbox_pf_rcv_msg_handler_def d pf_qreq_def Let_def)
    moreover have "sint (- 15 :: u8) = - 15" by code_simp
    ultimately show ?thesis
      using others resp c
      by (simp add: qdma_mbox_vf_qinfo_get_def qdma_mbox_is_msg_response_def reply_fields hdr_body)
  qed
qed

lemma demo_qreq_status:
  "hdr_status (pf_resp (snd (qdma_mbox_pf_rcv_msg_handler plain_hw (\<lambda>_. True) 0 0 False (demo_pf demo_qreq)))) = 0"
proof -
  note c = composed_qreq_fits [OF demo_qreq_composed]
  obtain rv b rm where u: "qdma_dev_update (\<lambda>_. True) 0 1 8 8 demo_rm2 = (rv, b, rm)" by (rule prod_cases3)
  have "fst (qdma_dev_update (\<lambda>_. True) 0 1 8 8 demo_rm2) = 0" unfolding demo_state by code_simp
  then have rv: "rv = 0" using u by simp
  have q: "qdma_dev_qinfo_get 0 1 x y rm = (0, b, 8)" for x y
    using update_success_parts(1) [OF demo_reach(3) _ _ u [unfolded rv]] by (simp add: no_wrap_def)
  show ?thesis
    using c by (simp add: qdma_mbox_pf_rcv_msg_handler_def pf_dispatch_def op_of_code demo_pf_def pf_qreq_def Let_def u rv q
        reply_fields)
qed

theorem queue_request_answered_witness:
  "\<exists>qb. qdma_mbox_vf_qinfo_get (pf_resp (snd (qdma_mbox_pf_rcv_msg_handler plain_hw (\<lambda>_. True) 0 0 False (demo_pf demo_qreq)))) =
     (0, qb, 8)"
proof -
  obtain v s' where r: "qdma_mbox_pf_rcv_msg_handler plain_hw (\<lambda>_. True) 0 0 False (demo_pf demo_qreq) = (v, s')" by (rule prod.exhaust)
  have p: "rm_reach (\<lambda>_. True) (pf_rm (demo_pf demo_qreq))" "pf_rcv (demo_pf demo_qreq) = demo_qreq"
    using demo_reach(3) by (simp_all add: demo_pf_def)
  have "fst (qdma_mbox_vf_qinfo_get (pf_resp s')) = 0"
    using demo_qreq_status r by (simp add: qdma_mbox_vf_qinfo_get_def)
  with queue_request_answered [OF p(1) demo_qreq_composed _ p(2) r, of 0 0] show ?thesis
    using r by (auto split: prod.splits)
qed

section \<open>Every request is answered\<close>

lemma op_of_Some: "op_of v = Some op \<Longrightarrow> v = op_code op"
proof -
  assume "op_of v = Some op"
  then have "(op, v) \<in> set mbox_op_table" by (auto simp: op_of_def dest!: map_of_SomeD)
  moreover have "\<forall>(op, c) \<in> set mbox_op_table. op_code op = c" by code_simp
  ultimately show ?thesis by auto
qed

lemma makes_any: "makes P s t \<Longrightarrow> makes (\<lambda>_. True) s t"
  by (auto simp: makes_def)

text \<open>The requests a virtual function makes, and what the handler returns for them.\<close>

definition vf_requests :: "mbox_msg_op list" where
  "vf_requests = filter (\<lambda>op. op \<notin> {MBOX_OP_RESET_PREPARE, MBOX_OP_RESET_DONE, MBOX_OP_PF_BYE}) mbox_requests"

fun handler_result :: "mbox_msg_op \<Rightarrow> int" where
  "handler_result MBOX_OP_VF_BYE = QDMA_MBOX_VF_OFFLINE"
| "handler_result MBOX_OP_PF_RESET_VF_BYE = QDMA_MBOX_VF_RESET_BYE"
| "handler_result MBOX_OP_HELLO = QDMA_MBOX_VF_ONLINE"
| "handler_result _ = 0"

lemma handler_ends:
  "fst (pf_bye ret hw mem idx s) = Exit_func rv0 r0 \<Longrightarrow> r0 = ret" "\<exists>rv. fst (pf_bye ret hw mem idx s) = Exit_func rv ret"
  "\<exists>rv. fst (pf_hello hw mem idx s) = Exit_func rv QDMA_MBOX_VF_ONLINE" "\<exists>rv. fst (pf_csr hw s) = Exit_func rv 0"
  "\<exists>rv. fst (pf_qreq hw mem idx s) = Exit_func rv 0" "\<exists>rv. fst (pf_notify count idx s) = Exit_func rv 0"
  "\<exists>rv. fst (pf_active_cnt idx s) = Exit_func rv 0" "\<exists>rv. fst (pf_reg_list hw s) = Exit_func rv 0"
  "\<exists>rv. fst (exit_with r1 r) = Exit_func rv r1"
  by (auto simp: pf_bye_def pf_hello_def pf_csr_def pf_qreq_def pf_notify_def pf_active_cnt_def pf_reg_list_def exit_with_def
      Let_def split: prod.splits)

lemma request_ends:
  assumes "op_of (hdr_op (pf_rcv s)) = Some op" and "op \<in> set vf_requests" and "op \<noteq> MBOX_OP_FMAP"
  shows "\<exists>rv. fst (pf_dispatch hw mem idx s) = Exit_func rv (handler_result op)"
  using assms handler_ends
  by (cases op) (simp_all add: pf_dispatch_def vf_requests_def mbox_requests_def pf_intr_wrt_def pf_intr_rd_def pf_intr_reset_def
      for_rings_def pf_qctxt_reset_def pf_qctxt_rd_def pf_qctxt_wrt_def Let_def handler_ends)

lemma request_header:
  assumes "op_of (hdr_op (pf_rcv s)) = Some op" and "op \<in> set vf_requests"
  shows "makes (\<lambda>_. True) s (snd (pf_dispatch hw mem idx s))"
proof -
  note w = makes_any [OF within_makes [OF intr_within(1)]] makes_any [OF within_makes [OF intr_within(2)]]
    makes_any [OF within_makes [OF intr_within(3)]] makes_any [OF within_makes [OF other_requests_within(1)]]
    makes_any [OF within_makes [OF other_requests_within(2)]] makes_any [OF within_makes [OF other_requests_within(3)]]
    makes_any [OF within_makes [OF other_requests_within(4)]] makes_any [OF within_makes [OF other_requests_within(5)]]
    makes_any [OF rm_requests_make(1)] makes_any [OF rm_requests_make(2)] makes_any [OF rm_requests_make(3)]
    makes_any [OF rm_requests_make(4)]
  have reset: "makes (\<lambda>_. True) s (snd (pf_qctxt_reset (mbox_reset_queue_contexts a) hw idx s))" for a
    unfolding pf_qctxt_reset_def Let_def exit_with_snd
    by (rule makes_any, rule within_makes) (use reset_contexts_keep in \<open>unfold keeps_def, blast\<close>)
  have wrt: "makes (\<lambda>_. True) s (snd (pf_qctxt_wrt hw idx s))"
  proof -
    let ?s1 = "s\<lparr>pf_rcv := wr16 36 (hdr_src (pf_rcv s)) (pf_rcv s)\<rparr>"
    have "within (only_queue (qc_qid_hw (get_qctxt (pf_rcv ?s1)))) ?s1
        (snd (mbox_write_queue_contexts hw idx (get_qctxt (pf_rcv ?s1)) ?s1))"
      using write_contexts_within by (metis prod.collapse)
    then have "makes (\<lambda>_. True) ?s1 (snd (pf_qctxt_wrt hw idx s))"
      unfolding pf_qctxt_wrt_def Let_def exit_with_snd by (rule makes_any [OF within_makes])
    then show ?thesis by simp
  qed
  show ?thesis
    using assms by (cases op) (simp_all add: pf_dispatch_def vf_requests_def mbox_requests_def w reset wrt
        mbox_clear_queue_contexts_def mbox_invalidate_queue_contexts_def)
qed

lemma response_op:
  assumes "op \<in> set vf_requests"
  shows "uint (op_code op) + uint MBOX_MSG_OP_RSP_OFFSET = uint (op_code op + MBOX_MSG_OP_RSP_OFFSET)"
proof -
  have "\<forall>op \<in> set vf_requests. uint (op_code op) + uint MBOX_MSG_OP_RSP_OFFSET = uint (op_code op + MBOX_MSG_OP_RSP_OFFSET)"
    by code_simp
  then show ?thesis using assms by blast
qed

text \<open>C29: Every request of a virtual function is answered: the response has the matching opcode,
  comes from the physical function and goes back to the sender, whatever else the message says and
  whatever the back end returns, and the handler returns what \<open>handler_result\<close> fixes for the opcode; the one exception is a
  function map that the back end refuses, for which the response buffer is left as it was and the handler returns the error.  A
  message whose opcode is no opcode of the protocol is refused with \<open>QDMA_ERR_MBOX_INV_MSG\<close> and changes nothing at all.\<close>

theorem requests_answered:
  assumes "qdma_mbox_pf_rcv_msg_handler hw mem idx fid False s = (v, s')"
  shows "case op_of (hdr_op (pf_rcv s)) of
      None \<Rightarrow> v = - err_code QDMA_ERR_MBOX_INV_MSG \<and> s' = s
    | Some op \<Rightarrow> op \<in> set vf_requests \<longrightarrow>
        (if op = MBOX_OP_FMAP \<and> v < 0 then pf_resp s' = pf_resp s
         else v = handler_result op \<and> qdma_mbox_is_msg_response (pf_rcv s) (pf_resp s') = 1 \<and>
           hdr_dst (pf_resp s') = hdr_src (pf_rcv s) \<and> hdr_src (pf_resp s') = fid)"
proof (cases "op_of (hdr_op (pf_rcv s))")
  case None
  then show ?thesis using assms by (simp add: qdma_mbox_pf_rcv_msg_handler_def pf_dispatch_def)
next
  case (Some op)
  obtain e t where t: "pf_dispatch hw mem idx s = (e, t)" by (cases "pf_dispatch hw mem idx s")
  have reply: "qdma_mbox_is_msg_response (pf_rcv s) (pf_resp s') = 1 \<and>
      hdr_dst (pf_resp s') = hdr_src (pf_rcv s) \<and> hdr_src (pf_resp s') = fid"
    if "op \<in> set vf_requests" "s' = pf_reply fid rv t" for rv
  proof -
    have h: "hdr_op (pf_rcv t) = hdr_op (pf_rcv s)" "hdr_src (pf_rcv t) = hdr_src (pf_rcv s)"
      using request_header [OF Some that(1), of hw mem idx] t by (simp_all add: makes_def)
    show ?thesis using response_op [OF that(1)] op_of_Some [OF Some]
      by (simp add: that(2) reply_fields h qdma_mbox_is_msg_response_def)
  qed
  show ?thesis
  proof (cases "op = MBOX_OP_FMAP")
    case True
    obtain rv u where u: "fmap_write hw (hdr_src (pf_rcv s))
        \<lparr>fmap_qbase = ucast (rd32 8 (pf_rcv s)), fmap_qmax = ucast (rd32 12 (pf_rcv s))\<rparr> s = (rv, u)" by (rule prod.exhaust)
    have k: "pf_resp u = pf_resp s" using fmap_write_keeps(1) u by (metis snd_conv)
    show ?thesis
      using assms True Some t reply u k
      by (auto simp: qdma_mbox_pf_rcv_msg_handler_def pf_dispatch_def pf_fmap_def split: if_splits)
  next
    case False
    show ?thesis
      using assms Some t reply False request_ends [OF Some _ False, of hw mem idx]
      by (auto simp: qdma_mbox_pf_rcv_msg_handler_def)
  qed
qed

theorem requests_answered_witness:
  "qdma_mbox_is_msg_response demo_clear (pf_resp (snd (qdma_mbox_pf_rcv_msg_handler plain_hw (\<lambda>_. True) 0 3 False (demo_pf demo_clear)))) = 1"
proof -
  obtain v s' where r: "qdma_mbox_pf_rcv_msg_handler plain_hw (\<lambda>_. True) 0 3 False (demo_pf demo_clear) = (v, s')" by (rule prod.exhaust)
  have "pf_rcv (demo_pf demo_clear) = demo_clear" by (simp add: demo_pf_def)
  then show ?thesis
    using requests_answered [OF r] r
    by (simp add: demo_clear_fields op_of_code vf_requests_def mbox_requests_def)
qed

text \<open>A count of active completion queues is reported as an error status: the last count becomes the
  status of the response.\<close>

lemma active_count_as_status:
  assumes "op_of (hdr_op (pf_rcv s)) = Some MBOX_OP_GET_QACTIVE_CNT"
  shows "hdr_status (pf_resp (snd (qdma_mbox_pf_rcv_msg_handler hw mem idx fid False s))) =
    sint (of_int (qdma_get_device_active_queue_count (ucast idx) (hdr_src (pf_rcv s)) QDMA_DEV_Q_TYPE_CMPT (pf_rm s)) :: u8)"
  using assms by (simp add: qdma_mbox_pf_rcv_msg_handler_def pf_dispatch_def pf_active_cnt_def Let_def reply_fields)

text \<open>A function map is written as the message says, whatever block the function holds.\<close>

lemma fmap_unchecked:
  assumes "op_of (hdr_op (pf_rcv s)) = Some MBOX_OP_FMAP"
  shows "calls_since s (snd (qdma_mbox_pf_rcv_msg_handler hw mem idx fid False s)) =
    [Fmap_call (hdr_src (pf_rcv s)) \<lparr>fmap_qbase = ucast (rd32 8 (pf_rcv s)), fmap_qmax = ucast (rd32 12 (pf_rcv s))\<rparr>]"
  using assms by (simp add: qdma_mbox_pf_rcv_msg_handler_def pf_dispatch_def pf_fmap_def fmap_write_def no_out_def hw_call_def
      calls_since_def pf_reply_def split: prod.split)

end
