(* ===== verification/Qdma_Mbox_Hw.thy ===== *)
theory Qdma_Mbox_Hw
  imports Lib_Control Qdma_Mbox_Vf
begin

text \<open>
  The mailbox registers (\<open>qdma_mbox_protocol.c\<close>, the functions on \<open>dev_hndl\<close>): sending and
  receiving a message through the 32 words of the mailbox window, acknowledgement, interrupts.
  Each function of the device has its own register window, a register file of \<open>Lib_Control\<close>: the
  mailbox hardware may change it before every access.
\<close>

section \<open>Registers\<close>

definition MBOX_FN_STATUS :: u32 where "MBOX_FN_STATUS = 0x0"
definition M_MBOX_FN_STATUS_IN_MSG :: u32 where "M_MBOX_FN_STATUS_IN_MSG = 0x1"
definition F_MBOX_FN_STATUS_OUT_MSG :: u32 where "F_MBOX_FN_STATUS_OUT_MSG = push_bit 1 1"
definition F_MBOX_FN_STATUS_ACK :: u32 where "F_MBOX_FN_STATUS_ACK = push_bit 2 1"
definition G_MBOX_FN_STATUS_SRC :: "u32 \<Rightarrow> u32" where "G_MBOX_FN_STATUS_SRC x = drop_bit 4 x AND 0xFFF"
definition MBOX_FN_CMD :: u32 where "MBOX_FN_CMD = 0x4"
definition F_MBOX_FN_CMD_SND :: u32 where "F_MBOX_FN_CMD_SND = push_bit 0 1"
definition F_MBOX_FN_CMD_RCV :: u32 where "F_MBOX_FN_CMD_RCV = push_bit 1 1"
definition MBOX_ISR_VEC :: u32 where "MBOX_ISR_VEC = 0x8"
definition MBOX_FN_TARGET :: u32 where "MBOX_FN_TARGET = 0xC"
definition V_MBOX_FN_TARGET_ID :: "u16 \<Rightarrow> u32" where "V_MBOX_FN_TARGET_ID x = ucast x AND 0xFFF"
definition MBOX_ISR_EN :: u32 where "MBOX_ISR_EN = 0x10"
definition MBOX_PF_ACK_BASE :: u32 where "MBOX_PF_ACK_BASE = 0x20"
definition MBOX_PF_ACK_STEP :: u32 where "MBOX_PF_ACK_STEP = 4"
definition MBOX_PF_ACK_COUNT :: nat where "MBOX_PF_ACK_COUNT = 8"
definition MBOX_IN_MSG_BASE :: u32 where "MBOX_IN_MSG_BASE = 0x800"
definition MBOX_OUT_MSG_BASE :: u32 where "MBOX_OUT_MSG_BASE = 0xc00"
definition MBOX_MSG_STEP :: u32 where "MBOX_MSG_STEP = 4"
definition MBOX_MSG_REG_MAX :: nat where "MBOX_MSG_REG_MAX = 32"

lemmas mbox_reg_defs = MBOX_FN_STATUS_def MBOX_FN_CMD_def MBOX_FN_TARGET_def MBOX_IN_MSG_BASE_def
  MBOX_OUT_MSG_BASE_def MBOX_PF_ACK_BASE_def MBOX_PF_ACK_STEP_def MBOX_MSG_STEP_def

text \<open>\<open>xdev->regs\<close> is the base of the register window, \<open>reg_offst\<close> an offset from it.\<close>

definition qdma_reg_read :: "hw \<Rightarrow> u64 \<Rightarrow> u32 \<Rightarrow> ('a axil_scheme, u32) cop" where
  "qdma_reg_read dev xregs reg_offst = read32_data dev xregs (ucast reg_offst)"

definition qdma_reg_write :: "hw \<Rightarrow> u64 \<Rightarrow> u32 \<Rightarrow> u32 \<Rightarrow> ('a axil_scheme, unit) cop" where
  "qdma_reg_write dev xregs reg_offst val = write32_data dev xregs (ucast reg_offst) val"

definition get_mbox_offset :: "'h qdma_hw_access \<Rightarrow> u8 \<Rightarrow> u32" where
  "get_mbox_offset h is_vf = (if is_vf \<noteq> 0 then mbox_base_vf h else mbox_base_pf h)"

section \<open>Sending\<close>

definition mbox_pf_hw_clear_func_ack :: "'h qdma_hw_access \<Rightarrow> hw \<Rightarrow> u64 \<Rightarrow> u16 \<Rightarrow> ('a axil_scheme, unit) cop" where
  "mbox_pf_hw_clear_func_ack h dev xregs func_id =
     (let idx = func_id div 32; bit = func_id mod 32; mbox_base = get_mbox_offset h 0 in
      qdma_reg_write dev xregs (mbox_base + MBOX_PF_ACK_BASE + ucast idx * MBOX_PF_ACK_STEP)
        (push_bit (unat bit) 1))"

text \<open>\<open>n\<close> words are left; \<open>reg\<close> and \<open>i\<close> advance together.\<close>

primrec send_words :: "hw \<Rightarrow> u64 \<Rightarrow> u32 \<Rightarrow> bytes \<Rightarrow> nat \<Rightarrow> u32 \<Rightarrow> nat \<Rightarrow> ('a axil_scheme, unit) cop" where
  "send_words dev xregs mbox_base raw 0 reg i = ret ()"
| "send_words dev xregs mbox_base raw (Suc n) reg i =
     seq (qdma_reg_write dev xregs (mbox_base + reg) (rd32 (4 * i) raw))
         (send_words dev xregs mbox_base raw n (reg + MBOX_MSG_STEP) (Suc i))"

definition qdma_mbox_send ::
    "'h qdma_hw_access \<Rightarrow> hw \<Rightarrow> u64 \<Rightarrow> u8 \<Rightarrow> bytes \<Rightarrow> ('a axil_scheme, int) cop" where
  "qdma_mbox_send h dev xregs is_vf raw =
     (let dst_func_id = hdr_dst raw; mbox_base = get_mbox_offset h is_vf in
      bind (qdma_reg_read dev xregs (mbox_base + MBOX_FN_STATUS)) (\<lambda>v.
        if v AND F_MBOX_FN_STATUS_OUT_MSG \<noteq> 0 then ret (- err_code QDMA_ERR_MBOX_SEND_BUSY)
        else
          seq (cwhen (is_vf = 0) (qdma_reg_write dev xregs (mbox_base + MBOX_FN_TARGET) (V_MBOX_FN_TARGET_ID dst_func_id)))
         (seq (send_words dev xregs mbox_base raw MBOX_MSG_REG_MAX MBOX_OUT_MSG_BASE 0)
         (seq (cwhen (is_vf = 0) (mbox_pf_hw_clear_func_ack h dev xregs dst_func_id))
         (seq (qdma_reg_write dev xregs (mbox_base + MBOX_FN_CMD) F_MBOX_FN_CMD_SND)
              (ret (err_code QDMA_SUCCESS)))))))"

section \<open>Receiving\<close>

text \<open>The second component is \<open>all_zero_msg\<close>.\<close>

primrec rcv_words ::
    "hw \<Rightarrow> u64 \<Rightarrow> u32 \<Rightarrow> nat \<Rightarrow> u32 \<Rightarrow> nat \<Rightarrow> bytes \<times> bool \<Rightarrow> ('a axil_scheme, bytes \<times> bool) cop" where
  "rcv_words dev xregs mbox_base 0 reg i z = ret z"
| "rcv_words dev xregs mbox_base (Suc n) reg i z =
     bind (qdma_reg_read dev xregs (mbox_base + reg)) (\<lambda>v.
       rcv_words dev xregs mbox_base n (reg + MBOX_MSG_STEP) (Suc i)
         (wr32 (4 * i) v (fst z), snd z \<and> v = 0))"

definition qdma_mbox_rcv ::
    "'h qdma_hw_access \<Rightarrow> hw \<Rightarrow> u64 \<Rightarrow> u8 \<Rightarrow> bytes \<Rightarrow> ('a axil_scheme, int \<times> bytes) cop" where
  "qdma_mbox_rcv h dev xregs is_vf raw =
     (let mbox_base = get_mbox_offset h is_vf in
      bind (qdma_reg_read dev xregs (mbox_base + MBOX_FN_STATUS)) (\<lambda>v.
        if v AND M_MBOX_FN_STATUS_IN_MSG = 0 then ret (- err_code QDMA_ERR_MBOX_NO_MSG_IN, raw)
        else
          (let from_id = if is_vf = 0 then G_MBOX_FN_STATUS_SRC v else 0 in
           seq (cwhen (is_vf = 0) (qdma_reg_write dev xregs (mbox_base + MBOX_FN_TARGET) from_id))
          (bind (rcv_words dev xregs mbox_base MBOX_MSG_REG_MAX MBOX_IN_MSG_BASE 0 (raw, True)) (\<lambda>(m, all_zero_msg).
           seq (qdma_reg_write dev xregs (mbox_base + MBOX_FN_CMD) F_MBOX_FN_CMD_RCV)
            (if all_zero_msg then ret (- err_code QDMA_ERR_MBOX_ALL_ZERO_MSG, m)
             else if is_vf = 0 \<and> from_id \<noteq> ucast (hdr_src m)
             then ret (err_code QDMA_SUCCESS, set_src (ucast from_id) m)
             else ret (err_code QDMA_SUCCESS, m)))))))"

section \<open>Acknowledgements and interrupts\<close>

primrec clear_acks :: "hw \<Rightarrow> u64 \<Rightarrow> nat \<Rightarrow> u32 \<Rightarrow> ('a axil_scheme, unit) cop" where
  "clear_acks dev xregs 0 reg = ret ()"
| "clear_acks dev xregs (Suc n) reg =
     seq (bind (qdma_reg_read dev xregs reg) (\<lambda>v. cwhen (v \<noteq> 0) (qdma_reg_write dev xregs reg v)))
         (clear_acks dev xregs n (reg + MBOX_PF_ACK_STEP))"

definition qdma_mbox_pf_hw_clear_ack :: "'h qdma_hw_access \<Rightarrow> hw \<Rightarrow> u64 \<Rightarrow> ('a axil_scheme, unit) cop" where
  "qdma_mbox_pf_hw_clear_ack h dev xregs =
     (let mbox_base = get_mbox_offset h 0; reg = mbox_base + MBOX_PF_ACK_BASE in
      bind (qdma_reg_read dev xregs (mbox_base + MBOX_FN_STATUS)) (\<lambda>v.
        if v AND F_MBOX_FN_STATUS_ACK = 0 then ret () else clear_acks dev xregs MBOX_PF_ACK_COUNT reg))"

definition qdma_mbox_hw_init :: "'h qdma_hw_access \<Rightarrow> hw \<Rightarrow> u64 \<Rightarrow> u8 \<Rightarrow> ('a axil_scheme, unit) cop" where
  "qdma_mbox_hw_init h dev xregs is_vf =
     (let mbox_base = get_mbox_offset h is_vf in
      if is_vf \<noteq> 0
      then bind (qdma_reg_read dev xregs (mbox_base + MBOX_FN_STATUS)) (\<lambda>v.
             cwhen (v AND M_MBOX_FN_STATUS_IN_MSG \<noteq> 0)
               (qdma_reg_write dev xregs (mbox_base + MBOX_FN_CMD) F_MBOX_FN_CMD_RCV))
      else qdma_mbox_pf_hw_clear_ack h dev xregs)"

definition qdma_mbox_enable_interrupts :: "'h qdma_hw_access \<Rightarrow> hw \<Rightarrow> u64 \<Rightarrow> u8 \<Rightarrow> ('a axil_scheme, unit) cop" where
  "qdma_mbox_enable_interrupts h dev xregs is_vf =
     (let mbox_base = get_mbox_offset h is_vf in
      seq (qdma_reg_write dev xregs (mbox_base + MBOX_ISR_VEC) 0)
          (qdma_reg_write dev xregs (mbox_base + MBOX_ISR_EN) 1))"

definition qdma_mbox_disable_interrupts :: "'h qdma_hw_access \<Rightarrow> hw \<Rightarrow> u64 \<Rightarrow> u8 \<Rightarrow> ('a axil_scheme, unit) cop" where
  "qdma_mbox_disable_interrupts h dev xregs is_vf =
     qdma_reg_write dev xregs (get_mbox_offset h is_vf + MBOX_ISR_EN) 0"

definition qdma_mbox_out_status :: "'h qdma_hw_access \<Rightarrow> hw \<Rightarrow> u64 \<Rightarrow> u8 \<Rightarrow> ('a axil_scheme, u8) cop" where
  "qdma_mbox_out_status h dev xregs is_vf =
     bind (qdma_reg_read dev xregs (get_mbox_offset h is_vf + MBOX_FN_STATUS)) (\<lambda>v.
       ret (if v AND F_MBOX_FN_STATUS_OUT_MSG \<noteq> 0 then 1 else 0))"

section \<open>What the loops do\<close>

lemmas reg_run = qdma_reg_read_def qdma_reg_write_def run_simps

definition out_reg :: "u64 \<Rightarrow> u32 \<Rightarrow> nat \<Rightarrow> u64" where
  "out_reg xregs base i = xregs + ucast (base + (MBOX_OUT_MSG_BASE + MBOX_MSG_STEP * of_nat i))"

definition in_reg :: "u64 \<Rightarrow> u32 \<Rightarrow> nat \<Rightarrow> u64" where
  "in_reg xregs base i = xregs + ucast (base + (MBOX_IN_MSG_BASE + MBOX_MSG_STEP * of_nat i))"

lemma send_words_log:
  "reg = MBOX_OUT_MSG_BASE + MBOX_MSG_STEP * of_nat i \<Longrightarrow>
   \<exists>s'. send_words dev xregs base raw n reg i s = (Inr (), s') \<and>
     bus_log s' = bus_log s @ map (\<lambda>j. Bus_write (out_reg xregs base j) (rd32 (4 * j) raw)) [i ..< i + n]"
proof (induction n arbitrary: reg i s)
  case (Suc n)
  let ?s = "snd (qdma_reg_write dev xregs (base + reg) (rd32 (4 * i) raw) s)"
  obtain s' where "send_words dev xregs base raw n (reg + MBOX_MSG_STEP) (Suc i) ?s = (Inr (), s')"
    "bus_log s' = bus_log ?s @ map (\<lambda>j. Bus_write (out_reg xregs base j) (rd32 (4 * j) raw)) [Suc i ..< Suc i + n]"
    using Suc.IH [of "reg + MBOX_MSG_STEP" "Suc i" ?s] Suc.prems by (auto simp: algebra_simps)
  then show ?case
    using Suc.prems by (intro exI [of _ s']) (simp add: reg_run upt_rec [of i] out_reg_def)
qed (simp add: run_simps)

text \<open>A device that leaves the incoming words alone hands them over in order.\<close>

definition keeps_message :: "hw \<Rightarrow> u64 \<Rightarrow> u32 \<Rightarrow> bool" where
  "keeps_message dev xregs base \<longleftrightarrow> (\<forall>n r. \<forall>i < MBOX_MSG_REG_MAX. dev n r (in_reg xregs base i) = r (in_reg xregs base i))"

lemma rcv_words_message:
  assumes "keeps_message dev xregs base" and "i + n \<le> MBOX_MSG_REG_MAX"
    and "reg = MBOX_IN_MSG_BASE + MBOX_MSG_STEP * of_nat i"
  shows "\<exists>m' s'. rcv_words dev xregs base n reg i (m, z) s =
      (Inr (m', z \<and> (\<forall>j \<in> {i ..< i + n}. regs s (in_reg xregs base j) = 0)), s') \<and>
    (\<forall>j \<in> {i ..< i + n}. \<forall>k < 4. m' (4 * j + k) = ucast (drop_bit (8 * k) (regs s (in_reg xregs base j)))) \<and>
    (\<forall>x. x < 4 * i \<or> 4 * (i + n) \<le> x \<longrightarrow> m' x = m x)"
  using assms(2,3)
proof (induction n arbitrary: i reg m z s)
  case 0
  then show ?case by (simp add: run_simps)
next
  case (Suc n)
  have keep: "dev k r (in_reg xregs base j) = r (in_reg xregs base j)" if "j < MBOX_MSG_REG_MAX" for k r j
    using assms(1) that by (simp add: keeps_message_def)
  let ?v = "regs s (in_reg xregs base i)"
  obtain s1 where s1: "qdma_reg_read dev xregs (base + reg) s = (Inr ?v, s1)" "\<And>j. j < MBOX_MSG_REG_MAX \<Longrightarrow>
      regs s1 (in_reg xregs base j) = regs s (in_reg xregs base j)"
    using Suc.prems keep [of i] by (simp add: reg_run in_reg_def keep [unfolded in_reg_def])
  obtain m' s' where IH: "rcv_words dev xregs base n (reg + MBOX_MSG_STEP) (Suc i) (wr32 (4 * i) ?v m, z \<and> ?v = 0) s1 =
      (Inr (m', (z \<and> ?v = 0) \<and> (\<forall>j \<in> {Suc i ..< Suc i + n}. regs s1 (in_reg xregs base j) = 0)), s')"
    "\<forall>j \<in> {Suc i ..< Suc i + n}. \<forall>k < 4. m' (4 * j + k) = ucast (drop_bit (8 * k) (regs s1 (in_reg xregs base j)))"
    "\<forall>x. x < 4 * Suc i \<or> 4 * (Suc i + n) \<le> x \<longrightarrow> m' x = wr32 (4 * i) ?v m x"
    using Suc.IH [of "Suc i" "reg + MBOX_MSG_STEP" "wr32 (4 * i) ?v m" "z \<and> ?v = 0" s1] Suc.prems
    by (auto simp: algebra_simps)
  have split_at: "{i ..< i + Suc n} = insert i {Suc i ..< Suc i + n}" by auto
  have flag: "((z \<and> ?v = 0) \<and> (\<forall>j \<in> {Suc i ..< Suc i + n}. regs s1 (in_reg xregs base j) = 0)) =
      (z \<and> (\<forall>j \<in> {i ..< i + Suc n}. regs s (in_reg xregs base j) = 0))"
    unfolding split_at using s1(2) Suc.prems(1) by auto
  have run: "rcv_words dev xregs base (Suc n) reg i (m, z) s =
      (Inr (m', z \<and> (\<forall>j \<in> {i ..< i + Suc n}. regs s (in_reg xregs base j) = 0)), s')"
    using IH(1) unfolding flag by (simp add: s1(1) run_simps)
  have "m' (4 * i + k) = ucast (drop_bit (8 * k) ?v)" if "k < 4" for k
    using IH(3) that by (simp add: wr32_byte)
  moreover have "m' x = m x" if "x < 4 * i \<or> 4 * (i + Suc n) \<le> x" for x
    using IH(3) that by (auto simp: byte_simps)
  ultimately show ?case
    using run IH(2) s1(2) Suc.prems(1) unfolding split_at by (intro exI conjI) auto
qed


text \<open>Registers at different offsets are different addresses.\<close>

declare widen_narrow [simp]

lemma reg_addr_eq [simp]: "(ucast (a :: u32) :: u64) = ucast b \<longleftrightarrow> a = b"
proof -
  have "ucast (ucast x :: u64) = x" for x :: u32 by simp
  then show ?thesis by metis
qed

lemma small_word_eq: "a < 2 ^ 32 \<Longrightarrow> b < 2 ^ 32 \<Longrightarrow> (of_nat a :: u32) = of_nat b \<longleftrightarrow> a = b"
  by (simp add: word_of_nat_eq_iff take_bit_nat_eq_self)

lemma window_word: "MBOX_OUT_MSG_BASE + MBOX_MSG_STEP * of_nat i = (of_nat (0xc00 + 4 * i) :: u32)"
  "MBOX_IN_MSG_BASE + MBOX_MSG_STEP * of_nat i = (of_nat (0x800 + 4 * i) :: u32)"
  by (simp_all add: mbox_reg_defs)

lemma out_reg_eq [simp]: "i < 32 \<Longrightarrow> j < 32 \<Longrightarrow> out_reg xregs base i = out_reg xregs base j \<longleftrightarrow> i = j"
  by (simp add: out_reg_def window_word small_word_eq del: of_nat_add of_nat_mult)

text \<open>The acknowledgement bit of a function with a 12-bit number is below the message window.\<close>

definition ack_reg :: "u64 \<Rightarrow> u32 \<Rightarrow> u16 \<Rightarrow> u64" where
  "ack_reg xregs base f = xregs + ucast (base + MBOX_PF_ACK_BASE + ucast (f div 32) * MBOX_PF_ACK_STEP)"

lemma ack_word: "MBOX_PF_ACK_BASE + ucast ((f :: u16) div 32) * MBOX_PF_ACK_STEP = (of_nat (0x20 + 4 * (unat f div 32)) :: u32)"
proof -
  have "of_nat (unat (f div 32)) = (ucast (f div 32) :: u32)" by (rule of_nat_unat)
  then have "ucast (f div 32) = (of_nat (unat f div 32) :: u32)" by (simp add: unat_div)
  then show ?thesis by (simp add: mbox_reg_defs)
qed

lemma control_not_message:
  assumes "i < 32"
  shows "xregs + ucast (base + MBOX_FN_TARGET) \<noteq> out_reg xregs base i"
    and "xregs + ucast (base + MBOX_FN_CMD) \<noteq> out_reg xregs base i"
    and "xregs + ucast (base + MBOX_FN_TARGET) \<noteq> in_reg xregs base i"
    and "unat f < 0x1000 \<Longrightarrow> ack_reg xregs base f \<noteq> out_reg xregs base i"
  using assms small_word_eq [of 12 "0xc00 + 4 * i"] small_word_eq [of 4 "0xc00 + 4 * i"]
    small_word_eq [of 12 "0x800 + 4 * i"] small_word_eq [of "0x20 + 4 * (unat f div 32)" "0xc00 + 4 * i"]
  by (auto simp: out_reg_def in_reg_def ack_reg_def window_word ack_word add.assoc MBOX_FN_TARGET_def MBOX_FN_CMD_def
      simp del: of_nat_add of_nat_mult)


text \<open>A sent message leaves its words in the window: the last value written to each register.\<close>

definition last_write :: "bus_event list \<Rightarrow> u64 \<Rightarrow> u32 option" where
  "last_write log a = foldl (\<lambda>o' e. case e of Bus_write b v \<Rightarrow> if b = a then Some v else o' | Bus_read _ _ \<Rightarrow> o') None log"

definition written :: "u64 \<Rightarrow> bus_event \<Rightarrow> bool" where
  "written a e \<longleftrightarrow> (\<exists>v. e = Bus_write a v)"

lemma last_write_skip: "\<not> written a e \<Longrightarrow> last_write (log @ [e]) a = last_write log a"
  by (cases e) (auto simp: last_write_def written_def)

lemma last_write_skips: "\<forall>e \<in> set es. \<not> written a e \<Longrightarrow> last_write (log @ es) a = last_write log a"
proof (induction es rule: rev_induct)
  case (snoc e es)
  then show ?case using last_write_skip [of a e "log @ es"] by simp
qed simp

lemma last_write_words:
  "i < n \<Longrightarrow> n \<le> 32 \<Longrightarrow>
   last_write (log @ map (\<lambda>j. Bus_write (out_reg xregs base j) (f j)) [0 ..< n]) (out_reg xregs base i) = Some (f i)"
proof (induction n)
  case (Suc n)
  show ?case
  proof (cases "i = n")
    case True
    then show ?thesis by (simp add: last_write_def)
  next
    case False
    then show ?thesis using Suc last_write_skip [of "out_reg xregs base i" "Bus_write (out_reg xregs base n) (f n)"]
      by (simp add: written_def flip: append_assoc)
  qed
qed simp

abbreviation status_read :: "'h qdma_hw_access \<Rightarrow> hw \<Rightarrow> u64 \<Rightarrow> u8 \<Rightarrow> 'a axil_scheme \<Rightarrow> u32" where
  "status_read h dev xregs is_vf s \<equiv>
     regs (bus_tick dev s) (xregs + ucast (get_mbox_offset h is_vf + MBOX_FN_STATUS))"

lemma send_busy:
  assumes "status_read h dev xregs is_vf s AND F_MBOX_FN_STATUS_OUT_MSG \<noteq> 0"
  shows "\<exists>s'. qdma_mbox_send h dev xregs is_vf raw s = (Inr (- err_code QDMA_ERR_MBOX_SEND_BUSY), s') \<and>
    (\<forall>a. last_write (drop (length (bus_log s)) (bus_log s')) a = None)"
  using assms by (simp add: qdma_mbox_send_def reg_run Let_def last_write_def)

lemma send_writes:
  assumes "status_read h dev xregs is_vf s AND F_MBOX_FN_STATUS_OUT_MSG = 0"
    and "is_vf = 0 \<Longrightarrow> unat (hdr_dst raw) < 0x1000"
  shows "\<exists>s'. qdma_mbox_send h dev xregs is_vf raw s = (Inr (err_code QDMA_SUCCESS), s') \<and>
    (\<forall>i < 32. last_write (drop (length (bus_log s)) (bus_log s')) (out_reg xregs (get_mbox_offset h is_vf) i) =
      Some (rd32 (4 * i) raw))"
proof -
  let ?b = "get_mbox_offset h is_vf"
  let ?st = "Bus_read (xregs + ucast (?b + MBOX_FN_STATUS)) (status_read h dev xregs is_vf s)"
  let ?pre = "?st # (if is_vf = 0 then [Bus_write (xregs + ucast (?b + MBOX_FN_TARGET)) (V_MBOX_FN_TARGET_ID (hdr_dst raw))] else [])"
  let ?post = "(if is_vf = 0 then [Bus_write (ack_reg xregs ?b (hdr_dst raw)) (push_bit (unat (hdr_dst raw mod 32)) 1)] else [])
    @ [Bus_write (xregs + ucast (?b + MBOX_FN_CMD)) F_MBOX_FN_CMD_SND]"
  let ?words = "map (\<lambda>j. Bus_write (out_reg xregs ?b j) (rd32 (4 * j) raw)) [0 ..< MBOX_MSG_REG_MAX]"
  obtain s1 where s1: "(bind (qdma_reg_read dev xregs (?b + MBOX_FN_STATUS)) (\<lambda>v.
        cwhen (is_vf = 0) (qdma_reg_write dev xregs (?b + MBOX_FN_TARGET) (V_MBOX_FN_TARGET_ID (hdr_dst raw))))) s = (Inr (), s1)"
      "bus_log s1 = bus_log s @ ?pre"
    by (cases "is_vf = 0") (simp_all add: reg_run)
  obtain s2 where s2: "send_words dev xregs ?b raw MBOX_MSG_REG_MAX MBOX_OUT_MSG_BASE 0 s1 = (Inr (), s2)"
      "bus_log s2 = bus_log s1 @ ?words"
    using send_words_log [of MBOX_OUT_MSG_BASE 0 dev xregs ?b raw MBOX_MSG_REG_MAX s1] by auto
  obtain s' where s': "qdma_mbox_send h dev xregs is_vf raw s = (Inr (err_code QDMA_SUCCESS), s')"
      "bus_log s' = bus_log s2 @ ?post"
    using assms(1) s1(1) s2(1)
    by (cases "is_vf = 0") (auto simp: qdma_mbox_send_def mbox_pf_hw_clear_func_ack_def ack_reg_def reg_run Let_def)
  have "last_write (?pre @ ?words @ ?post) (out_reg xregs ?b i) = Some (rd32 (4 * i) raw)" if "i < 32" for i
    using last_write_skips [of ?post "out_reg xregs ?b i" "?pre @ ?words"] assms(2) that
      last_write_words [OF that, of ?pre xregs ?b "\<lambda>j. rd32 (4 * j) raw"]
    by (auto simp: written_def MBOX_MSG_REG_MAX_def control_not_message [OF that])
  then show ?thesis using s' s2(2) s1(2) by simp
qed


section \<open>A message across the mailbox\<close>

text \<open>The mailbox hardware has carried the words a sender wrote (those its log ends with) into the
  receiver's window.\<close>

definition delivered ::
    "bus_event list \<Rightarrow> u64 \<Rightarrow> u32 \<Rightarrow> 'a axil_scheme \<Rightarrow> u64 \<Rightarrow> u32 \<Rightarrow> bool" where
  "delivered log xs bs t xr br \<longleftrightarrow>
     (\<forall>i < 32. last_write log (out_reg xs bs i) = Some (regs t (in_reg xr br i)))"

lemma block_byte: "x < (128 :: nat) \<Longrightarrow> \<exists>j k. j < 32 \<and> k < 4 \<and> x = 4 * j + k"
  by (intro exI [of _ "x div 4"] exI [of _ "x mod 4"]) auto

lemma rcv_message:
  assumes keep: "keeps_message dev xregs (get_mbox_offset h is_vf)"
    and in_msg: "status_read h dev xregs is_vf t AND M_MBOX_FN_STATUS_IN_MSG \<noteq> 0"
    and words: "\<forall>i < 32. regs t (in_reg xregs (get_mbox_offset h is_vf) i) = rd32 (4 * i) m"
    and content: "\<exists>x < 128. m x \<noteq> 0"
  shows "\<exists>m' t'. qdma_mbox_rcv h dev xregs is_vf buf t = (Inr (err_code QDMA_SUCCESS, m'), t') \<and>
    hdr_src m' = (if is_vf = 0 then ucast (G_MBOX_FN_STATUS_SRC (status_read h dev xregs is_vf t)) else hdr_src m) \<and>
    (\<forall>x < 128. x \<noteq> 2 \<and> x \<noteq> 3 \<longrightarrow> m' x = m x) \<and> (\<forall>x \<ge> 128. m' x = buf x)"
proof -
  let ?b = "get_mbox_offset h is_vf"
  let ?v = "status_read h dev xregs is_vf t"
  let ?id = "if is_vf = 0 then G_MBOX_FN_STATUS_SRC ?v else 0"
  obtain t1 where t1: "(bind (qdma_reg_read dev xregs (?b + MBOX_FN_STATUS)) (\<lambda>v.
        cwhen (is_vf = 0) (qdma_reg_write dev xregs (?b + MBOX_FN_TARGET) ?id))) t = (Inr (), t1)"
      "\<forall>i < 32. regs t1 (in_reg xregs ?b i) = rd32 (4 * i) m"
    using words keep control_not_message(3) [symmetric]
    by (cases "is_vf = 0") (auto simp: reg_run keeps_message_def MBOX_MSG_REG_MAX_def)
  from rcv_words_message [OF keep, of 0 MBOX_MSG_REG_MAX MBOX_IN_MSG_BASE buf True t1] t1(2)
  obtain m1 t2 where t2: "rcv_words dev xregs ?b MBOX_MSG_REG_MAX MBOX_IN_MSG_BASE 0 (buf, True) t1 =
        (Inr (m1, \<forall>j < 32. rd32 (4 * j) m = 0), t2)"
      "\<forall>j < 32. \<forall>k < 4. m1 (4 * j + k) = ucast (drop_bit (8 * k) (rd32 (4 * j) m))" "\<forall>x \<ge> 128. m1 x = buf x"
    by (auto simp: MBOX_MSG_REG_MAX_def Ball_def)
  have same: "m1 x = m x" if "x < 128" for x
    using block_byte [OF that] t2(2) rd32_byte by auto
  have nonzero: "\<not> (\<forall>j < 32. rd32 (4 * j) m = 0)"
  proof
    assume z: "\<forall>j < 32. rd32 (4 * j) m = 0"
    obtain x where x: "x < 128" "m x \<noteq> 0" using content by blast
    then obtain j k where "j < 32" "k < 4" "x = 4 * j + k" using block_byte by blast
    then show False using rd32_byte [of k "4 * j" m] z x(2) by simp
  qed
  have src: "hdr_src m1 = hdr_src m"
    using get_le_cong [of 2 2 m1 m] same by (simp add: hdr_src_def rd16_def)
  let ?m' = "if is_vf = 0 \<and> ?id \<noteq> ucast (hdr_src m1) then set_src (ucast ?id) m1 else m1"
  have "\<exists>t'. qdma_mbox_rcv h dev xregs is_vf buf t = (Inr (err_code QDMA_SUCCESS, ?m'), t')"
    using in_msg t1(1) t2(1) nonzero by (cases "is_vf = 0") (auto simp: qdma_mbox_rcv_def reg_run Let_def)
  moreover have "hdr_src ?m' = (if is_vf = 0 then ucast ?id else hdr_src m)"
    using src by (auto simp: hdr_src_def set_src_def byte_simps)
  moreover have "?m' x = m x" if "x < 128" "x \<noteq> 2" "x \<noteq> 3" for x
  proof -
    have "x < 2 \<or> 2 + 2 \<le> x" using that by arith
    then show ?thesis using same that by (auto simp: set_src_def byte_other(2))
  qed
  moreover have "?m' x = buf x" if "128 \<le> x" for x
    using t2(3) that by (auto simp: set_src_def byte_simps)
  ultimately show ?thesis by (intro exI [of _ ?m']) auto
qed


lemma mailbox_carries:
  assumes "status_read h dev xs vf s AND F_MBOX_FN_STATUS_OUT_MSG = 0"
    and "vf = 0 \<Longrightarrow> unat (hdr_dst m) < 0x1000" and "\<exists>x < 128. m x \<noteq> 0"
    and "keeps_message dev' xr (get_mbox_offset h' vf')"
    and "status_read h' dev' xr vf' t AND M_MBOX_FN_STATUS_IN_MSG \<noteq> 0"
    and "delivered (drop (length (bus_log s)) (bus_log (snd (qdma_mbox_send h dev xs vf m s))))
      xs (get_mbox_offset h vf) t xr (get_mbox_offset h' vf')"
  shows "fst (qdma_mbox_send h dev xs vf m s) = Inr (err_code QDMA_SUCCESS) \<and>
    (\<exists>m' t'. qdma_mbox_rcv h' dev' xr vf' buf t = (Inr (err_code QDMA_SUCCESS, m'), t') \<and>
      hdr_src m' = (if vf' = 0 then ucast (G_MBOX_FN_STATUS_SRC (status_read h' dev' xr vf' t)) else hdr_src m) \<and>
      (\<forall>x < 128. x \<noteq> 2 \<and> x \<noteq> 3 \<longrightarrow> m' x = m x) \<and> (\<forall>x \<ge> 128. m' x = buf x))"
proof -
  obtain s' where "qdma_mbox_send h dev xs vf m s = (Inr (err_code QDMA_SUCCESS), s')"
    "\<forall>i < 32. last_write (drop (length (bus_log s)) (bus_log s')) (out_reg xs (get_mbox_offset h vf) i) = Some (rd32 (4 * i) m)"
    using send_writes [OF assms(1,2)] by blast
  then show ?thesis using rcv_message [OF assms(4,5) _ assms(3)] assms(6) by (auto simp: delivered_def)
qed

text \<open>C30: a message crosses the mailbox unchanged.  When the sender's window is free,
  \<open>qdma_mbox_send\<close> succeeds, and once the card has moved the words to the receiver and raised its
  status bit, \<open>qdma_mbox_rcv\<close> succeeds with the same 128 bytes.  The one exception is the source
  function: a physical function replaces it by the one the hardware reports, so a virtual
  function cannot send in another's name.  Of the receiver's buffer nothing behind byte 127
  changes.\<close>

theorem mailbox_roundtrip:
  assumes "status_read h dev xs vf s AND F_MBOX_FN_STATUS_OUT_MSG = 0"
    and "vf = 0 \<Longrightarrow> unat (hdr_dst m) < 0x1000" and "\<exists>x < 128. m x \<noteq> 0"
    and "keeps_message dev' xr (get_mbox_offset h' vf')"
    and "status_read h' dev' xr vf' t AND M_MBOX_FN_STATUS_IN_MSG \<noteq> 0"
    and "delivered (drop (length (bus_log s)) (bus_log (snd (qdma_mbox_send h dev xs vf m s))))
      xs (get_mbox_offset h vf) t xr (get_mbox_offset h' vf')"
  shows "fst (qdma_mbox_send h dev xs vf m s) = Inr (err_code QDMA_SUCCESS) \<and>
    (\<exists>m' t'. qdma_mbox_rcv h' dev' xr vf' buf t = (Inr (err_code QDMA_SUCCESS, m'), t') \<and>
      hdr_src m' = (if vf' = 0 then ucast (G_MBOX_FN_STATUS_SRC (status_read h' dev' xr vf' t)) else hdr_src m) \<and>
      (\<forall>x < 128. x \<noteq> 2 \<and> x \<noteq> 3 \<longrightarrow> m' x = m x) \<and> (\<forall>x \<ge> 128. m' x = buf x))"
  using mailbox_carries [OF assms] .

lemma get_members_shift:
  "\<forall>(o', n) \<in> set ms. \<forall>x < o' + n. o' \<le> x \<longrightarrow> m (a + x) = m' (b + x) \<Longrightarrow> get_members a ms m = get_members b ms m'"
proof (induction ms)
  case (Cons p ms)
  obtain o' n where p: "p = (o', n)" by (cases p)
  have "get_le n (a + o') m = get_le n (b + o') m'"
  proof -
    have "get_le n (a + o') m = get_le n o' (\<lambda>x. m (a + x))" for a and m :: bytes
      by (induction n arbitrary: o') (simp_all flip: add_Suc_right)
    then show ?thesis using Cons.prems p get_le_cong [of o' n "\<lambda>x. m (a + x)" "\<lambda>x. m' (b + x)"] by auto
  qed
  then show ?case using Cons p by simp
qed simp

lemma descq_members_within:
  "\<forall>(o', n) \<in> set (members sw_ctxt_members). o' + n \<le> 56"
  "\<forall>(o', n) \<in> set (members hw_ctxt_members). o' + n \<le> 8"
  "\<forall>(o', n) \<in> set (members credit_ctxt_members). o' + n \<le> 4"
  "\<forall>(o', n) \<in> set (members prefetch_ctxt_members). o' + n \<le> 12"
  "\<forall>(o', n) \<in> set (take 14 (members cmpt_ctxt_members)). o' + n \<le> 24"
  "\<forall>(o', n) \<in> set (drop 14 (members cmpt_ctxt_members)). 24 \<le> o' \<and> o' + n \<le> 48"
  by code_simp+


lemma context_get_bytes: "x < 136 \<Longrightarrow> snd (qdma_mbox_vf_context_get rcv c) x = rcv (16 + x)"
proof -
  have "unat (of_nat 136 :: u8) = 136" by code_simp
  then show "x < 136 \<Longrightarrow> snd (qdma_mbox_vf_context_get rcv c) x = rcv (16 + x)"
    by (simp add: qdma_mbox_vf_context_get_def qdma_mbox_memcpy_def mbox_part_sizes add.commute)
qed

text \<open>a queue context does not fit in the mailbox.  The reply to a context read is 152 bytes
  long, the mailbox carries 128.  The software, hardware, credit and prefetch contexts and the
  first 14 fields of the completion context arrive as the physical function filled them in, but
  the other fields of the completion context, from the valid flag on, are what lies behind the
  virtual function's 128-byte receive buffer, whatever was sent.\<close>

theorem context_reply_truncated:
  assumes "status_read h dev xs vf s AND F_MBOX_FN_STATUS_OUT_MSG = 0"
    and "vf = 0 \<Longrightarrow> unat (hdr_dst m) < 0x1000" and "\<exists>x < 128. m x \<noteq> 0"
    and "keeps_message dev' xr (get_mbox_offset h' vf')"
    and "status_read h' dev' xr vf' t AND M_MBOX_FN_STATUS_IN_MSG \<noteq> 0"
    and "delivered (drop (length (bus_log s)) (bus_log (snd (qdma_mbox_send h dev xs vf m s))))
      xs (get_mbox_offset h vf) t xr (get_mbox_offset h' vf')"
  shows "\<exists>m' t' c. qdma_mbox_rcv h' dev' xr vf' buf t = (Inr (err_code QDMA_SUCCESS, m'), t') \<and>
    qdma_mbox_vf_context_get m' ctxt = (hdr_status m, c) \<and>
    get_members 8 (members sw_ctxt_members) c = get_members 24 (members sw_ctxt_members) m \<and>
    get_members 64 (members hw_ctxt_members) c = get_members 80 (members hw_ctxt_members) m \<and>
    get_members 72 (members credit_ctxt_members) c = get_members 88 (members credit_ctxt_members) m \<and>
    get_members 76 (members prefetch_ctxt_members) c = get_members 92 (members prefetch_ctxt_members) m \<and>
    get_members 88 (take 14 (members cmpt_ctxt_members)) c = get_members 104 (take 14 (members cmpt_ctxt_members)) m \<and>
    get_members 88 (drop 14 (members cmpt_ctxt_members)) c = get_members 104 (drop 14 (members cmpt_ctxt_members)) buf"
proof -
  obtain m' t' where r: "qdma_mbox_rcv h' dev' xr vf' buf t = (Inr (err_code QDMA_SUCCESS, m'), t')"
    and low: "\<forall>x < 128. x \<noteq> 2 \<and> x \<noteq> 3 \<longrightarrow> m' x = m x" and high: "\<forall>x \<ge> 128. m' x = buf x"
    using mailbox_carries [OF assms] by blast
  let ?c = "snd (qdma_mbox_vf_context_get m' ctxt)"
  have status: "hdr_status m' = hdr_status m" using low by (simp add: hdr_status_def)
  have front: "get_members a ms ?c = get_members (16 + a) ms m"
    if "\<forall>(o', n) \<in> set ms. o' + n \<le> k" "a + k \<le> 112" for a k ms
  proof (rule get_members_shift, safe)
    fix o' n x assume "(o', n) \<in> set ms" "o' \<le> x" "x < o' + n"
    then have "a + x < 112" using that by fastforce
    then show "?c (a + x) = m (16 + a + x)" using low by (simp add: context_get_bytes add.assoc)
  qed
  have rear: "get_members 88 (drop 14 (members cmpt_ctxt_members)) ?c = get_members 104 (drop 14 (members cmpt_ctxt_members)) buf"
  proof (rule get_members_shift, safe)
    fix o' n x assume "(o', n) \<in> set (drop 14 (members cmpt_ctxt_members))" "o' \<le> x" "x < o' + n"
    then have "24 \<le> x" "x < 48" using descq_members_within(6) by fastforce+
    then show "?c (88 + x) = buf (104 + x)" using high by (simp add: context_get_bytes)
  qed
  show ?thesis
    using r status rear front [OF descq_members_within(1), of 8] front [OF descq_members_within(2), of 64]
      front [OF descq_members_within(3), of 72] front [OF descq_members_within(4), of 76] front [OF descq_members_within(5), of 88]
    by (intro exI [of _ m'] exI [of _ t'] exI [of _ ?c]) (simp add: qdma_mbox_vf_context_get_def)
qed

section \<open>A concrete exchange\<close>

definition demo_bases :: "unit qdma_hw_access" where
  "demo_bases = \<lparr>qdma_global_csr_conf = (\<lambda>_ _. (0, None, ())), qdma_fmap_conf = (\<lambda>_ _ _ _. (0, None, ())),
     qdma_sw_ctx_conf = (\<lambda>_ _ _ _ _. (0, None, ())), qdma_pfetch_ctx_conf = (\<lambda>_ _ _ _. (0, None, ())),
     qdma_cmpt_ctx_conf = (\<lambda>_ _ _ _. (0, None, ())), qdma_hw_ctx_conf = (\<lambda>_ _ _ _ _. (0, None, ())),
     qdma_credit_ctx_conf = (\<lambda>_ _ _ _ _. (0, None, ())), qdma_indirect_intr_ctx_conf = (\<lambda>_ _ _ _. (0, None, ())),
     qdma_get_device_attributes = (\<lambda>_. (get_dev_attributes 0 (\<lambda>_. 0), ())), qdma_read_reg_list = (\<lambda>_ _ _. (0, None, ())),
     mbox_base_pf = 0x22400, mbox_base_vf = 0x5000\<rparr>"

text \<open>The virtual function 5 greets; the physical function finds the words and a status that names 5.\<close>

definition demo_hello :: bytes where
  "demo_hello = set_src 9 (set_op 1 (\<lambda>x. if x = 12 then 4 else 0))"

definition demo_window :: axil where
  "demo_window = axil_zero\<lparr>regs := (\<lambda>a. if a = 0x22400 then 0x51 else rd32 (unat (a - 0x22c00)) demo_hello)\<rparr>"

lemma demo_exchange:
  "status_read demo_bases hw_passive 0 1 axil_zero AND F_MBOX_FN_STATUS_OUT_MSG = 0"
  "\<exists>x < 128. demo_hello x \<noteq> 0"
  "keeps_message hw_passive 0 (get_mbox_offset demo_bases 0)"
  "status_read demo_bases hw_passive 0 0 demo_window = 0x51"
  "\<forall>i < 32. regs demo_window (in_reg 0 (get_mbox_offset demo_bases 0) i) = rd32 (4 * i) demo_hello"
proof -
  show "\<exists>x < 128. demo_hello x \<noteq> 0" by (intro exI [of _ 0]) (simp add: demo_hello_def set_src_def set_op_def byte_simps)
  show "keeps_message hw_passive 0 (get_mbox_offset demo_bases 0)" by (simp add: keeps_message_def hw_passive_def)
  show "status_read demo_bases hw_passive 0 1 axil_zero AND F_MBOX_FN_STATUS_OUT_MSG = 0"
    by (simp add: axil_zero_def hw_passive_def)
  show "status_read demo_bases hw_passive 0 0 demo_window = 0x51"
    by (simp add: demo_window_def hw_passive_def get_mbox_offset_def demo_bases_def MBOX_FN_STATUS_def)
  show "\<forall>i < 32. regs demo_window (in_reg 0 (get_mbox_offset demo_bases 0) i) = rd32 (4 * i) demo_hello"
  proof (intro allI impI)
    fix i :: nat assume i: "i < 32"
    have "in_reg 0 (get_mbox_offset demo_bases 0) i = ucast (of_nat (0x22c00 + 4 * i) :: u32)"
      by (simp add: in_reg_def window_word get_mbox_offset_def demo_bases_def add.assoc)
    also have "\<dots> = of_nat (0x22c00 + 4 * i)"
      using i by (simp only: unsigned_of_nat) (simp add: take_bit_nat_eq_self)
    finally have a: "in_reg 0 (get_mbox_offset demo_bases 0) i = 0x22c00 + of_nat (4 * i)" by simp
    have n: "unat (of_nat (4 * i) :: u64) = 4 * i" using i by (simp only: unsigned_of_nat) (simp add: take_bit_nat_eq_self)
    have "unat (0x22c00 + of_nat (4 * i) :: u64) = 0x22c00 + 4 * i"
      using i by (simp only: unat_word_ariths n) simp
    then have "unat (0x22c00 + of_nat (4 * i) :: u64) \<noteq> unat (0x22400 :: u64)" by simp
    then have "0x22c00 + of_nat (4 * i) \<noteq> (0x22400 :: u64)" by metis
    then show "regs demo_window (in_reg 0 (get_mbox_offset demo_bases 0) i) = rd32 (4 * i) demo_hello"
      unfolding a demo_window_def using n by simp
  qed
qed

lemma demo_delivered:
  "delivered (drop (length (bus_log axil_zero)) (bus_log (snd (qdma_mbox_send demo_bases hw_passive 0 1 demo_hello axil_zero))))
     0 (get_mbox_offset demo_bases 1) demo_window 0 (get_mbox_offset demo_bases 0)"
proof -
  obtain s' where "qdma_mbox_send demo_bases hw_passive 0 1 demo_hello axil_zero = (Inr (err_code QDMA_SUCCESS), s')"
    "\<forall>i < 32. last_write (drop (length (bus_log axil_zero)) (bus_log s')) (out_reg 0 (get_mbox_offset demo_bases 1) i) =
      Some (rd32 (4 * i) demo_hello)"
    using send_writes [OF demo_exchange(1)] by auto
  then show ?thesis using demo_exchange(5) by (simp add: delivered_def)
qed

text \<open>The forged source 9 becomes 5.\<close>

theorem mailbox_roundtrip_witness:
  "\<exists>m' t'. qdma_mbox_rcv demo_bases hw_passive 0 0 (\<lambda>_. 0) demo_window = (Inr (0, m'), t') \<and> hdr_src m' = 5 \<and> hdr_op m' = 1"
proof -
  have in_msg: "status_read demo_bases hw_passive 0 0 demo_window AND M_MBOX_FN_STATUS_IN_MSG \<noteq> 0"
    unfolding demo_exchange(4) by (simp add: M_MBOX_FN_STATUS_IN_MSG_def)
  have "hdr_op demo_hello = 1" by (simp add: demo_hello_def hdr_op_def set_src_def set_op_def byte_simps)
  moreover have "G_MBOX_FN_STATUS_SRC 0x51 = 5" by (simp add: G_MBOX_FN_STATUS_SRC_def)
  ultimately show ?thesis
    using mailbox_roundtrip [OF demo_exchange(1) _ demo_exchange(2,3) in_msg demo_delivered, of "\<lambda>_. 0"] demo_exchange(4)
    by (auto simp: hdr_op_def)
qed

theorem context_reply_truncated_witness:
  "\<exists>m' t' c. qdma_mbox_rcv demo_bases hw_passive 0 0 (\<lambda>_. 7) demo_window = (Inr (0, m'), t') \<and>
     qdma_mbox_vf_context_get m' (\<lambda>_. 0) = (0, c) \<and>
     get_members 88 (drop 14 (members cmpt_ctxt_members)) c =
       get_members 104 (drop 14 (members cmpt_ctxt_members)) (\<lambda>_. 7)"
proof -
  have in_msg: "status_read demo_bases hw_passive 0 0 demo_window AND M_MBOX_FN_STATUS_IN_MSG \<noteq> 0"
    unfolding demo_exchange(4) by (simp add: M_MBOX_FN_STATUS_IN_MSG_def)
  have "hdr_status demo_hello = 0" by (simp add: demo_hello_def hdr_status_def set_src_def set_op_def byte_simps)
  then show ?thesis
    using context_reply_truncated [OF demo_exchange(1) _ demo_exchange(2,3) in_msg demo_delivered, of "\<lambda>_. 7" "\<lambda>_. 0"] by auto
qed

end
