(* ===== verification/Qdma_Field.thy ===== *)
theory Qdma_Field
  imports C_Bytes
begin

text \<open>
  Register fields (\<open>qdma_access_common.h\<close>): the masks \<open>BIT\<close> and \<open>GENMASK\<close>, the position of the
  lowest bit of a mask, and the macros that place a value in a field and take it out again.
\<close>

section \<open>Masks and fields\<close>

text \<open>\<open>GENMASK\<close> on \<open>u32\<close>, \<open>GENMASK_ULL\<close> on \<open>u64\<close>.\<close>

definition BIT :: "nat \<Rightarrow> 'a::len word" where
  "BIT n = push_bit n 1"

definition GENMASK :: "nat \<Rightarrow> nat \<Rightarrow> 'a::len word" where
  "GENMASK h l = push_bit l (- 1) AND drop_bit (LENGTH('a) - 1 - h) (- 1)"

definition get_trailing_zeros :: "u64 \<Rightarrow> nat" where
  "get_trailing_zeros value0 =
     (let (pos, value) = (0, value0);
          (pos, value) = (if value AND 0xffffffff = 0 then (pos + 32, drop_bit 32 value) else (pos, value));
          (pos, value) = (if value AND 0xffff = 0 then (pos + 16, drop_bit 16 value) else (pos, value));
          (pos, value) = (if value AND 0xff = 0 then (pos + 8, drop_bit 8 value) else (pos, value));
          (pos, value) = (if value AND 0xf = 0 then (pos + 4, drop_bit 4 value) else (pos, value));
          (pos, value) = (if value AND 0x3 = 0 then (pos + 2, drop_bit 2 value) else (pos, value))
      in if value AND 0x1 = 0 then pos + 1 else pos)"

definition FIELD_SHIFT :: "'a::len word \<Rightarrow> nat" where
  "FIELD_SHIFT m = get_trailing_zeros (ucast m)"

definition FIELD_SET :: "'a::len word \<Rightarrow> 'a word \<Rightarrow> 'a word" where
  "FIELD_SET m val = push_bit (FIELD_SHIFT m) val AND m"

definition FIELD_GET :: "'a::len word \<Rightarrow> 'a word \<Rightarrow> 'a word" where
  "FIELD_GET m reg = drop_bit (FIELD_SHIFT m) (reg AND m)"

section \<open>The position of a field\<close>

lemma bit_GENMASK: "h < LENGTH('a) \<Longrightarrow> bit (GENMASK h l :: 'a::len word) i \<longleftrightarrow> l \<le> i \<and> i \<le> h"
  by (auto simp: GENMASK_def bit_simps)

lemma BIT_GENMASK: "n < LENGTH('a) \<Longrightarrow> (BIT n :: 'a::len word) = GENMASK n n"
  by (rule bit_word_eqI) (auto simp: bit_GENMASK BIT_def bit_simps bit_1_iff)

text \<open>Words whose lowest bit is at \<open>l\<close>.\<close>

definition lowest :: "nat \<Rightarrow> u64 \<Rightarrow> bool" where
  "lowest l v \<longleftrightarrow> bit v l \<and> (\<forall>i < l. \<not> bit v i)"

lemma lowest_step:
  assumes "lowest l v"
  shows "v AND mask k = 0 \<longleftrightarrow> k \<le> l" and "k \<le> l \<Longrightarrow> lowest (l - k) (drop_bit k v)"
proof -
  show "v AND mask k = 0 \<longleftrightarrow> k \<le> l"
  proof
    assume z: "v AND mask k = 0"
    show "k \<le> l"
    proof (rule ccontr)
      assume "\<not> k \<le> l"
      then have "bit (v AND mask k) l" using assms bit_imp_le_length [of v l] by (auto simp: lowest_def bit_simps)
      then show False using z by simp
    qed
  next
    assume "k \<le> l"
    then show "v AND mask k = 0" using assms by (intro bit_word_eqI) (auto simp: lowest_def bit_simps)
  qed
  show "k \<le> l \<Longrightarrow> lowest (l - k) (drop_bit k v)" using assms by (auto simp: lowest_def bit_simps)
qed

lemma low_masks:
  "(0xffffffff :: u64) = mask 32" "(0xffff :: u64) = mask 16" "(0xff :: u64) = mask 8" "(0xf :: u64) = mask 4"
  "(0x3 :: u64) = mask 2" "(0x1 :: u64) = mask 1"
  by (simp_all add: mask_eq_exp_minus_1)

lemma trailing_zeros_lowest:
  assumes "lowest l v"
  shows "get_trailing_zeros v = l"
proof -
  have l: "l < 64" using assms bit_imp_le_length [of v l] by (simp add: lowest_def)
  define step where "step k = (\<lambda>(pos :: nat, v :: u64). if v AND mask k = 0 then (pos + k, drop_bit k v) else (pos, v))" for k
  have step: "\<exists>p' l' v'. step k (p, v) = (p', v') \<and> lowest l' v' \<and> l' < k \<and> p' + l' = p + l"
    if "lowest l v" "l < 2 * k" for k p l v
  proof (cases "k \<le> l")
    case True
    then show ?thesis using lowest_step [OF that(1), of k] that
      by (intro exI [of _ "p + k"] exI [of _ "l - k"] exI [of _ "drop_bit k v"]) (auto simp: step_def)
  next
    case False
    then show ?thesis using lowest_step [OF that(1), of k] that
      by (intro exI [of _ p] exI [of _ l] exI [of _ v]) (auto simp: step_def)
  qed
  have def': "get_trailing_zeros v = (case step 2 (step 4 (step 8 (step 16 (step 32 (0, v))))) of
      (pos, value) \<Rightarrow> if value AND mask 1 = 0 then pos + 1 else pos)"
    unfolding get_trailing_zeros_def step_def low_masks Let_def by simp
  obtain p1 l1 v1 where 1: "step 32 (0, v) = (p1, v1)" "lowest l1 v1" "l1 < 32" "p1 + l1 = l"
    using step [OF assms, of 32 0] l by auto
  obtain p2 l2 v2 where 2: "step 16 (p1, v1) = (p2, v2)" "lowest l2 v2" "l2 < 16" "p2 + l2 = p1 + l1"
    using step [OF 1(2), of 16 p1] 1(3) by auto
  obtain p3 l3 v3 where 3: "step 8 (p2, v2) = (p3, v3)" "lowest l3 v3" "l3 < 8" "p3 + l3 = p2 + l2"
    using step [OF 2(2), of 8 p2] 2(3) by auto
  obtain p4 l4 v4 where 4: "step 4 (p3, v3) = (p4, v4)" "lowest l4 v4" "l4 < 4" "p4 + l4 = p3 + l3"
    using step [OF 3(2), of 4 p3] 3(3) by auto
  obtain p5 l5 v5 where 5: "step 2 (p4, v4) = (p5, v5)" "lowest l5 v5" "l5 < 2" "p5 + l5 = p4 + l4"
    using step [OF 4(2), of 2 p4] 4(3) by auto
  have "p5 + l5 = l" using 1(4) 2(4) 3(4) 4(4) 5(4) by simp
  moreover have "v5 AND mask 1 = 0 \<longleftrightarrow> l5 = 1" using lowest_step(1) [OF 5(2), of 1] 5(3) by auto
  moreover have "l5 = 0 \<or> l5 = 1" using 5(3) by auto
  ultimately show ?thesis unfolding def' 1(1) 2(1) 3(1) 4(1) 5(1) by auto
qed

lemma FIELD_SHIFT_GENMASK:
  assumes "l \<le> h" and "h < LENGTH('a)" and "LENGTH('a) \<le> 64"
  shows "FIELD_SHIFT (GENMASK h l :: 'a::len word) = l"
  unfolding FIELD_SHIFT_def
  by (rule trailing_zeros_lowest) (use assms in \<open>auto simp: lowest_def bit_simps bit_GENMASK\<close>)

section \<open>Fields of a word do not disturb each other\<close>

named_theorems field_simps

lemma FIELD_GET_or [field_simps]: "FIELD_GET m (x OR y) = FIELD_GET m x OR FIELD_GET m y"
  by (rule bit_word_eqI) (auto simp: FIELD_GET_def bit_simps)

lemma FIELD_GET_zero [field_simps]: "FIELD_GET m 0 = 0"
  by (simp add: FIELD_GET_def)

lemma FIELD_GET_same [field_simps]:
  assumes "l \<le> h" and "h < LENGTH('a)" and "LENGTH('a) \<le> 64"
  shows "FIELD_GET (GENMASK h l) (FIELD_SET (GENMASK h l) v :: 'a::len word) = take_bit (Suc h - l) v"
  using assms
  by (intro bit_word_eqI) (auto simp: FIELD_GET_def FIELD_SET_def FIELD_SHIFT_GENMASK bit_simps bit_GENMASK)

lemma FIELD_GET_other [field_simps]:
  assumes "h < LENGTH('a)" and "h' < LENGTH('a)" and "h < l' \<or> h' < l"
  shows "FIELD_GET (GENMASK h l) (FIELD_SET (GENMASK h' l') v :: 'a::len word) = 0"
  using assms
  by (intro bit_word_eqI) (auto simp: FIELD_GET_def FIELD_SET_def bit_simps bit_GENMASK)

text \<open>The parts of a value, put back at their places, give the value.\<close>

lemma bit_FIELD_GET:
  assumes "l \<le> h" and "h < LENGTH('a)" and "LENGTH('a) \<le> 64"
  shows "bit (FIELD_GET (GENMASK h l) v :: 'a::len word) i \<longleftrightarrow> l + i \<le> h \<and> bit v (l + i)"
  using assms by (auto simp: FIELD_GET_def FIELD_SHIFT_GENMASK bit_simps bit_GENMASK)

lemma bit_FIELD_SET:
  assumes "l \<le> h" and "h < LENGTH('a)" and "LENGTH('a) \<le> 64"
  shows "bit (FIELD_SET (GENMASK h l) v :: 'a::len word) i \<longleftrightarrow> l \<le> i \<and> i \<le> h \<and> bit v (i - l)"
  using assms by (auto simp: FIELD_SET_def FIELD_SHIFT_GENMASK bit_simps bit_GENMASK)

end
