(* ===== verification/Qdma_Indirect.thy ===== *)
theory Qdma_Indirect
  imports Qdma_Field Qdma_Hw_Access
begin

text \<open>
  Register access shared by the back ends: polling a register, blocks of CSR values
  (\<open>qdma_access_common.c\<close>) and the indirect registers through which every context is programmed
  (the \<open>*_indirect_reg_*\<close> functions, the same in \<open>eqdma_soft_access.c\<close>, \<open>qdma_soft_access.c\<close> and
  \<open>qdma_s80_hard_access.c\<close> up to addresses and the number of data registers).  The device is a
  value of type \<open>'h\<close> behind a register bus.  The lock around each indirect access carries no value.
\<close>

section \<open>The register bus\<close>

record 'h bus =
  bus_read :: "u32 \<Rightarrow> 'h \<Rightarrow> u32 \<times> 'h"
  bus_write :: "u32 \<Rightarrow> u32 \<Rightarrow> 'h \<Rightarrow> 'h"

section \<open>Polling\<close>

definition QDMA_REG_POLL_DFLT_INTERVAL_US :: u32 where "QDMA_REG_POLL_DFLT_INTERVAL_US = 10"
definition QDMA_REG_POLL_DFLT_TIMEOUT_US :: u32 where "QDMA_REG_POLL_DFLT_TIMEOUT_US = 500 * 1000"

text \<open>\<open>n\<close> reads of the loop are left, then one more read decides.\<close>

primrec poll_reg :: "'h bus \<Rightarrow> u32 \<Rightarrow> u32 \<Rightarrow> u32 \<Rightarrow> nat \<Rightarrow> 'h \<Rightarrow> int \<times> 'h" where
  "poll_reg b reg m val 0 h =
     (case bus_read b reg h of (v, h') \<Rightarrow>
        (if v AND m = val then err_code QDMA_SUCCESS else - err_code QDMA_ERR_HWACC_BUSY_TIMEOUT, h'))"
| "poll_reg b reg m val (Suc n) h =
     (case bus_read b reg h of (v, h') \<Rightarrow>
        if v AND m = val then (err_code QDMA_SUCCESS, h') else poll_reg b reg m val n h')"

text \<open>The loop counts an \<open>int\<close> down to 0 after the test, so a count of 0 goes once around all of it.\<close>

definition hw_monitor_reg :: "'h bus \<Rightarrow> u32 \<Rightarrow> u32 \<Rightarrow> u32 \<Rightarrow> u32 \<Rightarrow> u32 \<Rightarrow> 'h \<Rightarrow> int \<times> 'h" where
  "hw_monitor_reg b reg m val interval_us timeout_us h =
     (let interval_us = (if interval_us = 0 then QDMA_REG_POLL_DFLT_INTERVAL_US else interval_us);
          timeout_us = (if timeout_us = 0 then QDMA_REG_POLL_DFLT_TIMEOUT_US else timeout_us);
          count = timeout_us div interval_us
      in poll_reg b reg m val (if count = 0 then 2 ^ 32 else unat count) h)"

section \<open>Blocks of registers\<close>

text \<open>The bound \<open>idx + cnt\<close> is computed in 32 bits: when it wraps, nothing is written.\<close>

definition qdma_write_csr_values :: "'h bus \<Rightarrow> u32 \<Rightarrow> u32 \<Rightarrow> u32 \<Rightarrow> (nat \<Rightarrow> u32) \<Rightarrow> 'h \<Rightarrow> 'h" where
  "qdma_write_csr_values b reg_offst idx cnt values h =
     foldl (\<lambda>h i. bus_write b (reg_offst + (idx + of_nat i) * 4) (values i) h) h
       [0..<if idx \<le> idx + cnt then unat cnt else 0]"

definition qdma_read_csr_values :: "'h bus \<Rightarrow> u32 \<Rightarrow> u32 \<Rightarrow> u32 \<Rightarrow> (nat \<Rightarrow> u32) \<Rightarrow> 'h \<Rightarrow> (nat \<Rightarrow> u32) \<times> 'h" where
  "qdma_read_csr_values b reg_offst idx cnt values h =
     foldl (\<lambda>(vs, h) i. case bus_read b (reg_offst + idx * 4 + of_nat i * 4) h of (v, h') \<Rightarrow> (vs(i := v), h'))
       (values, h) [0..<unat cnt]"

section \<open>Indirect context commands\<close>

datatype ind_ctxt_cmd_op = QDMA_CTXT_CMD_CLR | QDMA_CTXT_CMD_WR | QDMA_CTXT_CMD_RD | QDMA_CTXT_CMD_INV

datatype ind_ctxt_cmd_sel = QDMA_CTXT_SEL_SW_C2H | QDMA_CTXT_SEL_SW_H2C | QDMA_CTXT_SEL_HW_C2H
  | QDMA_CTXT_SEL_HW_H2C | QDMA_CTXT_SEL_CR_C2H | QDMA_CTXT_SEL_CR_H2C | QDMA_CTXT_SEL_CMPT
  | QDMA_CTXT_SEL_PFTCH | QDMA_CTXT_SEL_INT_COAL | QDMA_CTXT_SEL_PASID_RAM_LOW
  | QDMA_CTXT_SEL_PASID_RAM_HIGH | QDMA_CTXT_SEL_TIMER | QDMA_CTXT_SEL_FMAP

fun cmd_op_code :: "ind_ctxt_cmd_op \<Rightarrow> u32" where
  "cmd_op_code QDMA_CTXT_CMD_CLR = 0" | "cmd_op_code QDMA_CTXT_CMD_WR = 1"
| "cmd_op_code QDMA_CTXT_CMD_RD = 2" | "cmd_op_code QDMA_CTXT_CMD_INV = 3"

fun cmd_sel_code :: "ind_ctxt_cmd_sel \<Rightarrow> u32" where
  "cmd_sel_code QDMA_CTXT_SEL_SW_C2H = 0" | "cmd_sel_code QDMA_CTXT_SEL_SW_H2C = 1"
| "cmd_sel_code QDMA_CTXT_SEL_HW_C2H = 2" | "cmd_sel_code QDMA_CTXT_SEL_HW_H2C = 3"
| "cmd_sel_code QDMA_CTXT_SEL_CR_C2H = 4" | "cmd_sel_code QDMA_CTXT_SEL_CR_H2C = 5"
| "cmd_sel_code QDMA_CTXT_SEL_CMPT = 6" | "cmd_sel_code QDMA_CTXT_SEL_PFTCH = 7"
| "cmd_sel_code QDMA_CTXT_SEL_INT_COAL = 8" | "cmd_sel_code QDMA_CTXT_SEL_PASID_RAM_LOW = 9"
| "cmd_sel_code QDMA_CTXT_SEL_PASID_RAM_HIGH = 10" | "cmd_sel_code QDMA_CTXT_SEL_TIMER = 11"
| "cmd_sel_code QDMA_CTXT_SEL_FMAP = 12"

text \<open>\<open>union qdma_ind_ctxt_cmd\<close>: \<open>busy:1, sel:4, op:2, qid:11, rsvd:14\<close>.\<close>

definition ind_ctxt_cmd :: "ind_ctxt_cmd_op \<Rightarrow> ind_ctxt_cmd_sel \<Rightarrow> u16 \<Rightarrow> u32" where
  "ind_ctxt_cmd cmd_op sel qid = pack_bits [(0, 1), (cmd_sel_code sel, 4), (cmd_op_code cmd_op, 2), (ucast qid, 11), (0, 14)]"

definition IND_CTXT_CMD_BUSY_MASK :: u32 where "IND_CTXT_CMD_BUSY_MASK = BIT 0"

text \<open>\<open>cmd\<close> and \<open>dat\<close> are the addresses of the command register and of the first data register.\<close>

definition wait_done :: "'h bus \<Rightarrow> u32 \<Rightarrow> 'h \<Rightarrow> int \<times> 'h" where
  "wait_done b cmd h =
     (case hw_monitor_reg b cmd IND_CTXT_CMD_BUSY_MASK 0 QDMA_REG_POLL_DFLT_INTERVAL_US QDMA_REG_POLL_DFLT_TIMEOUT_US h of
        (rv, h') \<Rightarrow> (if rv \<noteq> 0 then - err_code QDMA_ERR_HWACC_BUSY_TIMEOUT else err_code QDMA_SUCCESS, h'))"

definition indirect_reg_command :: "'h bus \<Rightarrow> u32 \<Rightarrow> ind_ctxt_cmd_op \<Rightarrow> ind_ctxt_cmd_sel \<Rightarrow> u16 \<Rightarrow> 'h \<Rightarrow> int \<times> 'h" where
  "indirect_reg_command b cmd cmd_op sel hw_qid h = wait_done b cmd (bus_write b cmd (ind_ctxt_cmd cmd_op sel hw_qid) h)"

definition read_words :: "'h bus \<Rightarrow> u32 \<Rightarrow> nat \<Rightarrow> 'h \<Rightarrow> u32 list \<times> 'h" where
  "read_words b dat cnt h =
     foldl (\<lambda>(ws, h) i. case bus_read b (dat + 4 * of_nat i) h of (v, h') \<Rightarrow> (ws @ [v], h')) ([], h) [0..<cnt]"

definition indirect_reg_read ::
    "'h bus \<Rightarrow> u32 \<Rightarrow> u32 \<Rightarrow> ind_ctxt_cmd_sel \<Rightarrow> u16 \<Rightarrow> nat \<Rightarrow> 'h \<Rightarrow> int \<times> u32 list \<times> 'h" where
  "indirect_reg_read b dat cmd sel hw_qid cnt h =
     (case indirect_reg_command b cmd QDMA_CTXT_CMD_RD sel hw_qid h of (rv, h1) \<Rightarrow>
        if rv < 0 then (rv, [], h1)
        else case read_words b dat cnt h1 of (ws, h2) \<Rightarrow> (err_code QDMA_SUCCESS, ws, h2))"

text \<open>\<open>n\<close> data registers, as many mask registers and the command register, written in this order.\<close>

definition indirect_words :: "nat \<Rightarrow> ind_ctxt_cmd_sel \<Rightarrow> u16 \<Rightarrow> u32 list \<Rightarrow> u32 list" where
  "indirect_words n sel hw_qid ws =
     map (\<lambda>i. if i < length ws then ws ! i else 0) [0..<n] @ replicate n 0xFFFFFFFF @
     [ind_ctxt_cmd QDMA_CTXT_CMD_WR sel hw_qid]"

definition write_words :: "'h bus \<Rightarrow> u32 \<Rightarrow> u32 list \<Rightarrow> 'h \<Rightarrow> 'h" where
  "write_words b dat ws h = foldl (\<lambda>h i. bus_write b (dat + 4 * of_nat i) (ws ! i) h) h [0..<length ws]"

definition indirect_reg_write ::
    "'h bus \<Rightarrow> u32 \<Rightarrow> u32 \<Rightarrow> nat \<Rightarrow> ind_ctxt_cmd_sel \<Rightarrow> u16 \<Rightarrow> u32 list \<Rightarrow> 'h \<Rightarrow> int \<times> 'h" where
  "indirect_reg_write b dat cmd n sel hw_qid ws h =
     wait_done b cmd (write_words b dat (indirect_words n sel hw_qid ws) h)"

end
