(* ===== verification/Qdma_Context_Card.thy ===== *)
theory Qdma_Context_Card
  imports Qdma_Indirect
begin

text \<open>
  The context memory of the card as the indirect registers show it, and what the driver's commands
  do to it.  The card is outside the sources: \<open>context_device\<close> states the documented behaviour of
  its registers over a view of the device state, and \<open>card_bus\<close> is a concrete card that has it.
\<close>

section \<open>The card\<close>

text \<open>Data and mask registers, the context memory by kind and 11-bit queue number, and for how many
  more polls the command register reads busy.\<close>

record ctxt_card =
  card_dat :: "nat \<Rightarrow> u32"
  card_msk :: "nat \<Rightarrow> u32"
  card_ram :: "ind_ctxt_cmd_sel \<Rightarrow> nat \<Rightarrow> nat \<Rightarrow> u32"
  card_lag :: nat

definition ctxt_index :: "u16 \<Rightarrow> nat" where
  "ctxt_index qid = unat qid mod 2048"

definition set_entry :: "ind_ctxt_cmd_sel \<Rightarrow> u16 \<Rightarrow> (nat \<Rightarrow> u32) \<Rightarrow> ctxt_card \<Rightarrow> ctxt_card" where
  "set_entry sel qid w c = c\<lparr>card_ram := (card_ram c)(sel := (card_ram c sel)(ctxt_index qid := w))\<rparr>"

text \<open>A read fetches the entry, a write stores the data registers under the mask, a clear stores
  zeros.  What an invalidated entry holds is left open (\<open>res\<close>).\<close>

fun card_command :: "(nat \<Rightarrow> u32) \<Rightarrow> ind_ctxt_cmd_op \<Rightarrow> ind_ctxt_cmd_sel \<Rightarrow> u16 \<Rightarrow> ctxt_card \<Rightarrow> ctxt_card" where
  "card_command res QDMA_CTXT_CMD_RD sel qid c = c\<lparr>card_dat := card_ram c sel (ctxt_index qid)\<rparr>"
| "card_command res QDMA_CTXT_CMD_WR sel qid c =
     set_entry sel qid (\<lambda>i. (card_ram c sel (ctxt_index qid) i AND NOT (card_msk c i)) OR (card_dat c i AND card_msk c i)) c"
| "card_command res QDMA_CTXT_CMD_CLR sel qid c = set_entry sel qid (\<lambda>_. 0) c"
| "card_command res QDMA_CTXT_CMD_INV sel qid c = set_entry sel qid res c"

text \<open>The longest time a command may take, in polls.\<close>

definition card_limit :: nat where "card_limit = 50000"

definition context_device :: "'h bus \<Rightarrow> u32 \<Rightarrow> u32 \<Rightarrow> nat \<Rightarrow> ('h \<Rightarrow> ctxt_card) \<Rightarrow> bool" where
  "context_device b dat cmd n view \<longleftrightarrow>
     (\<forall>h v. \<forall>i < n. view (bus_write b (dat + 4 * of_nat i) v h) =
       (view h)\<lparr>card_dat := (card_dat (view h))(i := v)\<rparr>) \<and>
     (\<forall>h v. \<forall>i < n. view (bus_write b (dat + 4 * of_nat (n + i)) v h) =
       (view h)\<lparr>card_msk := (card_msk (view h))(i := v)\<rparr>) \<and>
     (\<forall>h cmd_op sel qid. \<exists>res lag. lag \<le> card_limit \<and>
       view (bus_write b cmd (ind_ctxt_cmd cmd_op sel qid) h) =
         (card_command res cmd_op sel qid (view h))\<lparr>card_lag := lag\<rparr>) \<and>
     (\<forall>h. (fst (bus_read b cmd h) AND 1 = 0 \<longleftrightarrow> card_lag (view h) = 0) \<and>
       view (snd (bus_read b cmd h)) = (view h)\<lparr>card_lag := card_lag (view h) - 1\<rparr>) \<and>
     (\<forall>h. \<forall>i < n. fst (bus_read b (dat + 4 * of_nat i) h) = card_dat (view h) i \<and>
       view (snd (bus_read b (dat + 4 * of_nat i) h)) = view h) \<and>
     cmd = dat + 4 * of_nat (2 * n)"

text \<open>The laws, one by one.\<close>

lemma context_device_laws:
  assumes "context_device b dat cmd n view"
  shows "\<And>h v i. i < n \<Longrightarrow> view (bus_write b (dat + 4 * of_nat i) v h) =
      (view h)\<lparr>card_dat := (card_dat (view h))(i := v)\<rparr>"
    and "\<And>h v i. i < n \<Longrightarrow> view (bus_write b (dat + 4 * of_nat (n + i)) v h) =
      (view h)\<lparr>card_msk := (card_msk (view h))(i := v)\<rparr>"
    and "\<And>h cmd_op sel qid. \<exists>res lag. lag \<le> card_limit \<and> view (bus_write b cmd (ind_ctxt_cmd cmd_op sel qid) h) =
      (card_command res cmd_op sel qid (view h))\<lparr>card_lag := lag\<rparr>"
    and "\<And>h. fst (bus_read b cmd h) AND 1 = 0 \<longleftrightarrow> card_lag (view h) = 0"
    and "\<And>h. view (snd (bus_read b cmd h)) = (view h)\<lparr>card_lag := card_lag (view h) - 1\<rparr>"
    and "\<And>h i. i < n \<Longrightarrow> fst (bus_read b (dat + 4 * of_nat i) h) = card_dat (view h) i"
    and "\<And>h i. i < n \<Longrightarrow> view (snd (bus_read b (dat + 4 * of_nat i) h)) = view h"
    and "cmd = dat + 4 * of_nat (2 * n)"
  using assms unfolding context_device_def by blast+

section \<open>Waiting for a command\<close>

lemma poll_reg_done:
  assumes dev: "context_device b dat cmd n view"
  shows "card_lag (view h) \<le> k \<Longrightarrow>
    \<exists>h'. poll_reg b cmd 1 0 k h = (0, h') \<and> view h' = (view h)\<lparr>card_lag := 0\<rparr>"
proof (induction k arbitrary: h)
  case 0
  have "fst (bus_read b cmd h) AND 1 = 0" "view (snd (bus_read b cmd h)) = (view h)\<lparr>card_lag := 0\<rparr>"
    using 0 context_device_laws(4,5) [OF dev, of h] by auto
  then show ?case by (auto split: prod.split)
next
  case (Suc k)
  show ?case
  proof (cases "card_lag (view h) = 0")
    case True
    then have "fst (bus_read b cmd h) AND 1 = 0" "view (snd (bus_read b cmd h)) = (view h)\<lparr>card_lag := 0\<rparr>"
      using context_device_laws(4,5) [OF dev, of h] by auto
    then show ?thesis by (auto split: prod.split)
  next
    case False
    let ?h = "snd (bus_read b cmd h)"
    have v: "fst (bus_read b cmd h) AND 1 \<noteq> 0" "view ?h = (view h)\<lparr>card_lag := card_lag (view h) - 1\<rparr>"
      using context_device_laws(4,5) [OF dev, of h] False by auto
    then have "card_lag (view ?h) \<le> k" using Suc.prems False by simp
    then obtain h' where "poll_reg b cmd 1 0 k ?h = (0, h')" "view h' = (view ?h)\<lparr>card_lag := 0\<rparr>"
      using Suc.IH by blast
    then show ?thesis using v by (auto split: prod.split)
  qed
qed

lemma default_polls: "unat (QDMA_REG_POLL_DFLT_TIMEOUT_US div QDMA_REG_POLL_DFLT_INTERVAL_US) = card_limit"
  "QDMA_REG_POLL_DFLT_INTERVAL_US \<noteq> 0" "QDMA_REG_POLL_DFLT_TIMEOUT_US \<noteq> 0"
  "QDMA_REG_POLL_DFLT_TIMEOUT_US div QDMA_REG_POLL_DFLT_INTERVAL_US \<noteq> 0"
  by (simp_all add: QDMA_REG_POLL_DFLT_TIMEOUT_US_def QDMA_REG_POLL_DFLT_INTERVAL_US_def card_limit_def)

lemma hw_monitor_default:
  "hw_monitor_reg b reg m val QDMA_REG_POLL_DFLT_INTERVAL_US QDMA_REG_POLL_DFLT_TIMEOUT_US h =
     poll_reg b reg m val card_limit h"
  by (simp add: hw_monitor_reg_def default_polls Let_def)

lemma wait_done_ok:
  assumes "context_device b dat cmd n view" and "card_lag (view h) \<le> card_limit"
  shows "\<exists>h'. wait_done b cmd h = (0, h') \<and> view h' = (view h)\<lparr>card_lag := 0\<rparr>"
  using poll_reg_done [OF assms]
  by (auto simp: wait_done_def hw_monitor_default IND_CTXT_CMD_BUSY_MASK_def BIT_def)

lemma command_ok:
  assumes dev: "context_device b dat cmd n view"
  shows "\<exists>h' res. indirect_reg_command b cmd cmd_op sel qid h = (0, h') \<and>
    view h' = (card_command res cmd_op sel qid (view h))\<lparr>card_lag := 0\<rparr>"
proof -
  let ?h = "bus_write b cmd (ind_ctxt_cmd cmd_op sel qid) h"
  obtain res lag where w: "lag \<le> card_limit" "view ?h = (card_command res cmd_op sel qid (view h))\<lparr>card_lag := lag\<rparr>"
    using context_device_laws(3) [OF dev] by blast
  then obtain h' where "wait_done b cmd ?h = (0, h')" "view h' = (view ?h)\<lparr>card_lag := 0\<rparr>"
    using wait_done_ok [OF dev, of ?h] by auto
  then show ?thesis using w by (auto simp: indirect_reg_command_def)
qed

text \<open>A device that never finishes makes every command fail, after as many polls as there are.\<close>

lemma poll_reg_stuck:
  assumes "\<And>h. fst (bus_read b reg h) AND m \<noteq> val"
  shows "fst (poll_reg b reg m val k h) = - err_code QDMA_ERR_HWACC_BUSY_TIMEOUT"
proof (induction k arbitrary: h)
  case 0
  then show ?case using assms [of h] by (auto split: prod.split)
next
  case (Suc k)
  then show ?case using assms [of h] by (auto split: prod.split)
qed

lemma wait_done_stuck:
  assumes "\<And>h. fst (bus_read b cmd h) AND 1 \<noteq> 0"
  shows "fst (wait_done b cmd h) = - err_code QDMA_ERR_HWACC_BUSY_TIMEOUT"
  using poll_reg_stuck [of b cmd 1 0 card_limit h, OF assms]
  by (auto simp: wait_done_def hw_monitor_default IND_CTXT_CMD_BUSY_MASK_def BIT_def split: prod.split)

lemma indirect_stuck:
  assumes "\<And>h. fst (bus_read b cmd h) AND 1 \<noteq> 0"
  shows "fst (indirect_reg_command b cmd cmd_op sel qid h) = - err_code QDMA_ERR_HWACC_BUSY_TIMEOUT"
    and "fst (indirect_reg_write b dat cmd n sel qid ws h) = - err_code QDMA_ERR_HWACC_BUSY_TIMEOUT"
    and "fst (indirect_reg_read b dat cmd sel qid cnt h) = - err_code QDMA_ERR_HWACC_BUSY_TIMEOUT"
proof -
  show 1: "fst (indirect_reg_command b cmd cmd_op sel qid h) = - err_code QDMA_ERR_HWACC_BUSY_TIMEOUT" for cmd_op
    by (simp add: indirect_reg_command_def wait_done_stuck assms)
  show "fst (indirect_reg_write b dat cmd n sel qid ws h) = - err_code QDMA_ERR_HWACC_BUSY_TIMEOUT"
    by (simp add: indirect_reg_write_def wait_done_stuck assms)
  show "fst (indirect_reg_read b dat cmd sel qid cnt h) = - err_code QDMA_ERR_HWACC_BUSY_TIMEOUT"
    using 1 [of QDMA_CTXT_CMD_RD] by (auto simp: indirect_reg_read_def split: prod.split)
qed

section \<open>Writing and reading an entry\<close>

text \<open>What a write of \<open>ws\<close> leaves in an entry of \<open>n\<close> words.\<close>

definition padded :: "nat \<Rightarrow> u32 list \<Rightarrow> nat \<Rightarrow> u32" where
  "padded n ws i = (if i < n \<and> i < length ws then ws ! i else 0)"

lemma write_words_snoc:
  "write_words b dat (ws @ [w]) h = bus_write b (dat + 4 * of_nat (length ws)) w (write_words b dat ws h)"
proof -
  have "foldl (\<lambda>h i. bus_write b (dat + 4 * of_nat i) ((ws @ [w]) ! i) h) h [0..<length ws] = write_words b dat ws h"
    unfolding write_words_def by (rule foldl_cong) (auto simp: nth_append)
  then show ?thesis by (simp add: write_words_def)
qed

lemma data_words_view:
  assumes dev: "context_device b dat cmd n view" and "k \<le> n"
  shows "view (write_words b dat (map f [0..<k]) h) =
    (view h)\<lparr>card_dat := (\<lambda>i. if i < k then f i else card_dat (view h) i)\<rparr>"
  using assms(2)
proof (induction k)
  case 0
  then show ?case by (simp add: write_words_def)
next
  case (Suc k)
  then have "view (write_words b dat (map f [0..<Suc k]) h) =
      (view (write_words b dat (map f [0..<k]) h))\<lparr>card_dat :=
        (card_dat (view (write_words b dat (map f [0..<k]) h)))(k := f k)\<rparr>"
    using context_device_laws(1) [OF dev, of k "f k" "write_words b dat (map f [0..<k]) h"] by (simp add: write_words_snoc)
  then show ?case using Suc by (auto simp: fun_eq_iff less_Suc_eq)
qed

lemma mask_words_view:
  assumes dev: "context_device b dat cmd n view" and "k \<le> n" and "length ws = n"
  shows "view (write_words b dat (ws @ replicate k 0xFFFFFFFF) h) =
    (view (write_words b dat ws h))\<lparr>card_msk := (\<lambda>i. if i < k then - 1 else card_msk (view (write_words b dat ws h)) i)\<rparr>"
  using assms(2)
proof (induction k)
  case (Suc k)
  let ?h = "write_words b dat (ws @ replicate k 0xFFFFFFFF) h"
  have ones: "(0xFFFFFFFF :: u32) = - 1" by simp
  have "view (write_words b dat (ws @ replicate (Suc k) 0xFFFFFFFF) h) =
      (view ?h)\<lparr>card_msk := (card_msk (view ?h))(k := - 1)\<rparr>"
    using context_device_laws(2) [OF dev, of k "- 1" ?h] Suc.prems assms(3)
    by (simp add: replicate_append_same [symmetric] write_words_snoc ones flip: append_assoc)
  then show ?case using Suc by (auto simp: fun_eq_iff less_Suc_eq)
qed simp

text \<open>Writing an entry replaces it, all of its words, and nothing else; reading gives its words.\<close>

lemma write_entry:
  assumes dev: "context_device b dat cmd n view"
  shows "\<exists>h' w. indirect_reg_write b dat cmd n sel qid ws h = (0, h') \<and>
    card_ram (view h') = (card_ram (view h))(sel := (card_ram (view h) sel)(ctxt_index qid := w)) \<and>
    (\<forall>i < n. w i = padded n ws i)"
proof -
  let ?d = "map (\<lambda>i. if i < length ws then ws ! i else 0) [0..<n]"
  let ?h = "write_words b dat (?d @ replicate n 0xFFFFFFFF) h"
  have c: "cmd = dat + 4 * of_nat (2 * n)" by (rule context_device_laws(8) [OF dev])
  have len: "length (?d @ replicate n (0xFFFFFFFF :: u32)) = 2 * n" by simp
  have v: "view ?h = (view h)\<lparr>card_dat := (\<lambda>i. if i < n then padded n ws i else card_dat (view h) i),
      card_msk := (\<lambda>i. if i < n then - 1 else card_msk (view h) i)\<rparr>"
    using mask_words_view [OF dev le_refl, of ?d h] data_words_view [OF dev le_refl, of "\<lambda>i. if i < length ws then ws ! i else 0" h]
    by (auto simp: padded_def fun_eq_iff)
  have w: "write_words b dat (indirect_words n sel qid ws) h = bus_write b cmd (ind_ctxt_cmd QDMA_CTXT_CMD_WR sel qid) ?h"
    using write_words_snoc [of b dat "?d @ replicate n 0xFFFFFFFF" "ind_ctxt_cmd QDMA_CTXT_CMD_WR sel qid" h]
    unfolding len c indirect_words_def by simp
  obtain h' res where "indirect_reg_command b cmd QDMA_CTXT_CMD_WR sel qid ?h = (0, h')"
    "view h' = (card_command res QDMA_CTXT_CMD_WR sel qid (view ?h))\<lparr>card_lag := 0\<rparr>"
    using command_ok [OF dev] by blast
  then show ?thesis
    unfolding indirect_reg_write_def w
    by (intro exI [of _ h'] exI [of _ "card_ram (view h') sel (ctxt_index qid)"])
      (auto simp: indirect_reg_command_def v set_entry_def padded_def)
qed

lemma read_words_view:
  assumes dev: "context_device b dat cmd n view" and "k \<le> n"
  shows "\<exists>h'. read_words b dat k h = (map (card_dat (view h)) [0..<k], h') \<and> view h' = view h"
  using assms(2)
proof (induction k)
  case 0
  then show ?case by (simp add: read_words_def)
next
  case (Suc k)
  then obtain h' where h': "read_words b dat k h = (map (card_dat (view h)) [0..<k], h')" "view h' = view h" by auto
  let ?r = "bus_read b (dat + 4 * of_nat k) h'"
  have "fst ?r = card_dat (view h) k" "view (snd ?r) = view h"
    using context_device_laws(6,7) [OF dev, of k h'] Suc.prems h'(2) by auto
  then show ?case using h'(1) by (auto simp: read_words_def split: prod.split)
qed

lemma read_entry:
  assumes dev: "context_device b dat cmd n view" and "cnt \<le> n"
  shows "\<exists>h'. indirect_reg_read b dat cmd sel qid cnt h =
      (0, map (card_ram (view h) sel (ctxt_index qid)) [0..<cnt], h') \<and> card_ram (view h') = card_ram (view h)"
proof -
  obtain h1 res where h1: "indirect_reg_command b cmd QDMA_CTXT_CMD_RD sel qid h = (0, h1)"
    "view h1 = (card_command res QDMA_CTXT_CMD_RD sel qid (view h))\<lparr>card_lag := 0\<rparr>"
    using command_ok [OF dev] by blast
  then obtain h' where "read_words b dat cnt h1 = (map (card_dat (view h1)) [0..<cnt], h')" "view h' = view h1"
    using read_words_view [OF assms] by blast
  then show ?thesis using h1 by (auto simp: indirect_reg_read_def)
qed

lemma clear_entry:
  assumes dev: "context_device b dat cmd n view"
  shows "\<exists>h'. indirect_reg_command b cmd QDMA_CTXT_CMD_CLR sel qid h = (0, h') \<and>
    card_ram (view h') = (card_ram (view h))(sel := (card_ram (view h) sel)(ctxt_index qid := \<lambda>_. 0))"
  using command_ok [OF dev, of QDMA_CTXT_CMD_CLR sel qid h] by (auto simp: set_entry_def)


section \<open>A concrete card\<close>

definition cmd_ops :: "ind_ctxt_cmd_op list" where
  "cmd_ops = [QDMA_CTXT_CMD_CLR, QDMA_CTXT_CMD_WR, QDMA_CTXT_CMD_RD, QDMA_CTXT_CMD_INV]"

definition cmd_sels :: "ind_ctxt_cmd_sel list" where
  "cmd_sels = [QDMA_CTXT_SEL_SW_C2H, QDMA_CTXT_SEL_SW_H2C, QDMA_CTXT_SEL_HW_C2H, QDMA_CTXT_SEL_HW_H2C,
     QDMA_CTXT_SEL_CR_C2H, QDMA_CTXT_SEL_CR_H2C, QDMA_CTXT_SEL_CMPT, QDMA_CTXT_SEL_PFTCH, QDMA_CTXT_SEL_INT_COAL,
     QDMA_CTXT_SEL_PASID_RAM_LOW, QDMA_CTXT_SEL_PASID_RAM_HIGH, QDMA_CTXT_SEL_TIMER, QDMA_CTXT_SEL_FMAP,
     QDMA_CTXT_SEL_FMAP, QDMA_CTXT_SEL_FMAP, QDMA_CTXT_SEL_FMAP]"

text \<open>Every command takes three polls.\<close>

definition card_bus :: "u32 \<Rightarrow> u32 \<Rightarrow> nat \<Rightarrow> ctxt_card bus" where
  "card_bus dat cmd n =
     \<lparr>bus_read = (\<lambda>a c.
        if a = cmd then (if card_lag c = 0 then 0 else 1, c\<lparr>card_lag := card_lag c - 1\<rparr>)
        else (card_dat c (unat ((a - dat) div 4)), c)),
      bus_write = (\<lambda>a v c.
        if a = cmd then
          (card_command (\<lambda>_. 0) (cmd_ops ! unat (take_bit 2 (drop_bit 5 v))) (cmd_sels ! unat (take_bit 4 (drop_bit 1 v)))
             (ucast (take_bit 11 (drop_bit 7 v))) c)\<lparr>card_lag := 3\<rparr>
        else (let i = unat ((a - dat) div 4) in
          if i < n then c\<lparr>card_dat := (card_dat c)(i := v)\<rparr> else c\<lparr>card_msk := (card_msk c)(i - n := v)\<rparr>))\<rparr>"

lemma pack_command:
  "take_bit 4 (drop_bit 1 (ind_ctxt_cmd cmd_op sel qid)) = take_bit 4 (cmd_sel_code sel)"
  "take_bit 2 (drop_bit 5 (ind_ctxt_cmd cmd_op sel qid)) = take_bit 2 (cmd_op_code cmd_op)"
  "take_bit 11 (drop_bit 7 (ind_ctxt_cmd cmd_op sel qid)) = ucast (take_bit 11 qid)"
  by (rule bit_word_eqI; auto simp: ind_ctxt_cmd_def bit_simps simp del: One_nat_def push_bit_Suc)+

lemma command_codes:
  "cmd_ops ! unat (take_bit 2 (cmd_op_code cmd_op)) = cmd_op"
  "cmd_sels ! unat (take_bit 4 (cmd_sel_code sel)) = sel"
  by (cases cmd_op; simp add: cmd_ops_def) (cases sel; simp add: cmd_sels_def)

lemma index_cut: "ctxt_index (take_bit 11 qid) = ctxt_index qid"
  by (simp add: ctxt_index_def take_bit_eq_mod unat_mod)

lemma card_command_index:
  "ctxt_index q = ctxt_index q' \<Longrightarrow> card_command res cmd_op sel q c = card_command res cmd_op sel q' c"
  by (cases cmd_op) (simp_all add: set_entry_def)

lemma register_index:
  assumes "k < 100"
  shows "unat ((dat + 4 * of_nat k - dat) div 4 :: u32) = k"
proof -
  have "unat (4 * of_nat k :: u32) = 4 * k"
    using assms by (simp add: unat_word_ariths unsigned_of_nat take_bit_nat_eq_self)
  then show ?thesis by (simp add: unat_div)
qed

lemma register_not_command:
  assumes "k < 2 * n" "n < 50"
  shows "dat + 4 * of_nat k \<noteq> dat + (4 * of_nat (2 * n) :: u32)"
proof
  assume "dat + 4 * of_nat k = dat + (4 * of_nat (2 * n) :: u32)"
  then have "k = 2 * n" using register_index [of k dat] register_index [of "2 * n" dat] assms by simp
  then show False using assms by simp
qed

lemma card_bus_device:
  assumes n: "n < 50"
  shows "context_device (card_bus dat (dat + 4 * of_nat (2 * n)) n) dat (dat + 4 * of_nat (2 * n)) n (\<lambda>c. c)"
  unfolding context_device_def
proof (intro conjI allI impI refl)
  let ?cmd = "dat + 4 * of_nat (2 * n)"
  let ?b = "card_bus dat ?cmd n"
  fix h :: ctxt_card and v :: u32 and i :: nat
  {
    assume i: "i < n"
    have a: "dat + 4 * of_nat i \<noteq> ?cmd" "unat ((dat + 4 * of_nat i - dat) div 4 :: u32) = i"
      using register_not_command [of i n dat] register_index [of i dat] i n by simp_all
    then show "bus_write ?b (dat + 4 * of_nat i) v h = h\<lparr>card_dat := (card_dat h)(i := v)\<rparr>"
      and "fst (bus_read ?b (dat + 4 * of_nat i) h) = card_dat h i" "snd (bus_read ?b (dat + 4 * of_nat i) h) = h"
      using i unfolding card_bus_def by simp_all
    have a: "dat + 4 * of_nat (n + i) \<noteq> ?cmd" "unat ((dat + 4 * of_nat (n + i) - dat) div 4 :: u32) = n + i"
      using register_not_command [of "n + i" n dat] register_index [of "n + i" dat] i n by simp_all
    then show "bus_write ?b (dat + 4 * of_nat (n + i)) v h = h\<lparr>card_msk := (card_msk h)(i := v)\<rparr>"
      unfolding card_bus_def by simp
  }
  show "(fst (bus_read ?b ?cmd h) AND 1 = 0) = (card_lag h = 0)"
    "snd (bus_read ?b ?cmd h) = h\<lparr>card_lag := card_lag h - 1\<rparr>" by (simp_all add: card_bus_def)
next
  fix h :: ctxt_card and cmd_op sel qid
  let ?cmd = "dat + 4 * of_nat (2 * n)"
  have "bus_write (card_bus dat ?cmd n) ?cmd (ind_ctxt_cmd cmd_op sel qid) h =
      (card_command (\<lambda>_. 0) cmd_op sel qid h)\<lparr>card_lag := 3\<rparr>"
    using card_command_index [of "take_bit 11 qid" qid] index_cut
    by (simp add: card_bus_def pack_command command_codes widen_narrow del: One_nat_def)
  then show "\<exists>res lag. lag \<le> card_limit \<and> bus_write (card_bus dat ?cmd n) ?cmd (ind_ctxt_cmd cmd_op sel qid) h =
      (card_command res cmd_op sel qid h)\<lparr>card_lag := lag\<rparr>"
    by (intro exI [of _ "\<lambda>_. 0"] exI [of _ 3]) (simp add: card_limit_def)
qed

definition blank_card :: ctxt_card where
  "blank_card = \<lparr>card_dat = (\<lambda>_. 0), card_msk = (\<lambda>_. 0), card_ram = (\<lambda>_ _ _. 0), card_lag = 0\<rparr>"

end
