(* ===== verification/Qdma_Context_Conf.thy ===== *)
theory Qdma_Context_Conf
  imports Qdma_Context_Card
begin

text \<open>
  What every context function of the back ends promises, whatever fields its context has: the
  interface \<open>context_reader\<close> of a function that reads and clears an entry, and \<open>context_writer\<close> of
  one that also writes it.  Reading back an entry that was written is proved here once, over any
  card that keeps the contract of \<open>Qdma_Context_Card\<close>.
\<close>

section \<open>Masks shared by the back ends\<close>

definition QDMA_PFTCH_CTXT_SW_CRDT_GET_H_MASK :: u32 where "QDMA_PFTCH_CTXT_SW_CRDT_GET_H_MASK = GENMASK 15 3"
definition QDMA_PFTCH_CTXT_SW_CRDT_GET_L_MASK :: u32 where "QDMA_PFTCH_CTXT_SW_CRDT_GET_L_MASK = GENMASK 2 0"
definition QDMA_COMPL_CTXT_BADDR_GET_H_MASK :: u64 where "QDMA_COMPL_CTXT_BADDR_GET_H_MASK = GENMASK 63 38"
definition QDMA_COMPL_CTXT_BADDR_GET_L_MASK :: u64 where "QDMA_COMPL_CTXT_BADDR_GET_L_MASK = GENMASK 37 12"
definition QDMA_COMPL_CTXT_PIDX_GET_H_MASK :: u32 where "QDMA_COMPL_CTXT_PIDX_GET_H_MASK = GENMASK 15 4"
definition QDMA_COMPL_CTXT_PIDX_GET_L_MASK :: u32 where "QDMA_COMPL_CTXT_PIDX_GET_L_MASK = GENMASK 3 0"
definition QDMA_INTR_CTXT_BADDR_GET_H_MASK :: u64 where "QDMA_INTR_CTXT_BADDR_GET_H_MASK = GENMASK 63 61"
definition QDMA_INTR_CTXT_BADDR_GET_M_MASK :: u64 where "QDMA_INTR_CTXT_BADDR_GET_M_MASK = GENMASK 60 29"
definition QDMA_INTR_CTXT_BADDR_GET_L_MASK :: u64 where "QDMA_INTR_CTXT_BADDR_GET_L_MASK = GENMASK 28 12"

named_theorems mask_defs

lemmas common_masks [mask_defs] =
  QDMA_PFTCH_CTXT_SW_CRDT_GET_H_MASK_def QDMA_PFTCH_CTXT_SW_CRDT_GET_L_MASK_def
  QDMA_COMPL_CTXT_BADDR_GET_H_MASK_def QDMA_COMPL_CTXT_BADDR_GET_L_MASK_def
  QDMA_COMPL_CTXT_PIDX_GET_H_MASK_def QDMA_COMPL_CTXT_PIDX_GET_L_MASK_def
  QDMA_INTR_CTXT_BADDR_GET_H_MASK_def QDMA_INTR_CTXT_BADDR_GET_M_MASK_def QDMA_INTR_CTXT_BADDR_GET_L_MASK_def
  BIT_GENMASK

definition QDMA_IND_CTXT_DATA_NUM_REGS :: nat where "QDMA_IND_CTXT_DATA_NUM_REGS = 8"
definition QDMA_NUM_RING_SIZES :: nat where "QDMA_NUM_RING_SIZES = 16"
definition QDMA_NUM_C2H_TIMERS :: nat where "QDMA_NUM_C2H_TIMERS = 16"
definition QDMA_NUM_C2H_COUNTERS :: nat where "QDMA_NUM_C2H_COUNTERS = 16"
definition QDMA_CMPT_UPDATE_TRIG_MODE_TMR_CNTR :: nat where "QDMA_CMPT_UPDATE_TRIG_MODE_TMR_CNTR = 5"

section \<open>Reading and clearing\<close>

text \<open>\<open>conf b i\<close> is the function for entry \<open>i\<close>: a queue and a direction, a queue, or a ring.
  \<open>ok\<close> says for which entries the function accepts its arguments.\<close>

locale context_reader =
  fixes conf :: "'h bus \<Rightarrow> 'i \<Rightarrow> ('c, 'h) ctx_conf"
    and ok :: "'i \<Rightarrow> bool" and sel :: "'i \<Rightarrow> ind_ctxt_cmd_sel" and qid :: "'i \<Rightarrow> u16"
    and dat :: u32 and cmd :: u32 and regs :: nat
    and decode :: "u32 list \<Rightarrow> 'c \<Rightarrow> 'c" and words :: nat
  assumes words_fit: "words \<le> regs"
    and conf_read: "ok i \<Longrightarrow> conf b i (Some old) QDMA_HW_ACCESS_READ h =
      (case indirect_reg_read b dat cmd (sel i) (qid i) words h of (rv, ws, h') \<Rightarrow>
        if rv < 0 then (rv, None, h') else (err_code QDMA_SUCCESS, Some (decode ws old), h'))"
    and conf_clear: "ok i \<Longrightarrow> conf b i c QDMA_HW_ACCESS_CLEAR h =
      (case indirect_reg_command b cmd QDMA_CTXT_CMD_CLR (sel i) (qid i) h of (rv, h') \<Rightarrow> (rv, None, h'))"
    and conf_null: "conf b i None QDMA_HW_ACCESS_READ h = (- err_code QDMA_ERR_INV_PARAM, None, h)"
begin

lemma reads_entry:
  assumes "context_device b dat cmd regs view" and "ok i"
  shows "\<exists>h'. conf b i (Some old) QDMA_HW_ACCESS_READ h =
      (0, Some (decode (map (card_ram (view h) (sel i) (ctxt_index (qid i))) [0..<words]) old), h') \<and>
    card_ram (view h') = card_ram (view h)"
  using read_entry [OF assms(1) words_fit, of "sel i" "qid i" h] by (auto simp: conf_read assms(2))

lemma clears_entry:
  assumes "context_device b dat cmd regs view" and "ok i"
  shows "\<exists>h'. conf b i c QDMA_HW_ACCESS_CLEAR h = (0, None, h') \<and>
    card_ram (view h') = (card_ram (view h))(sel i := (card_ram (view h) (sel i))(ctxt_index (qid i) := \<lambda>_. 0))"
  using clear_entry [OF assms(1), of "sel i" "qid i" h] by (auto simp: conf_clear assms(2))

lemma cleared_reads_zero:
  assumes dev: "context_device b dat cmd regs view" and "ok i"
  shows "\<exists>h1 h2. conf b i c QDMA_HW_ACCESS_CLEAR h = (0, None, h1) \<and>
    conf b i (Some old) QDMA_HW_ACCESS_READ h1 = (0, Some (decode (replicate words 0) old), h2)"
proof -
  obtain h1 where h1: "conf b i c QDMA_HW_ACCESS_CLEAR h = (0, None, h1)"
    "card_ram (view h1) = (card_ram (view h))(sel i := (card_ram (view h) (sel i))(ctxt_index (qid i) := \<lambda>_. 0))"
    using clears_entry [OF assms] by blast
  then have "map (card_ram (view h1) (sel i) (ctxt_index (qid i))) [0..<words] = replicate words 0"
    by (intro nth_equalityI) auto
  then show ?thesis using reads_entry [OF assms, of old h1] h1(1) by auto
qed

end

section \<open>Writing\<close>

text \<open>\<open>accepts\<close> says which contexts a write takes, \<open>kept\<close> what of the context the card keeps: the
  fields are cut to their widths, and fields the format lacks stay what they were.\<close>

locale context_writer = context_reader conf ok sel qid dat cmd regs decode words
  for conf :: "'h bus \<Rightarrow> 'i \<Rightarrow> ('c, 'h) ctx_conf" and ok sel qid dat cmd regs decode words +
  fixes encode :: "'c \<Rightarrow> u32 list" and accepts :: "'c \<Rightarrow> bool" and kept :: "'c \<Rightarrow> 'c \<Rightarrow> 'c"
  assumes conf_write: "ok i \<Longrightarrow> accepts c \<Longrightarrow> conf b i (Some c) QDMA_HW_ACCESS_WRITE h =
      (case indirect_reg_write b dat cmd regs (sel i) (qid i) (encode c) h of (rv, h') \<Rightarrow> (rv, None, h'))"
    and conf_refuse: "ok i \<Longrightarrow> \<not> accepts c \<Longrightarrow>
      conf b i (Some c) QDMA_HW_ACCESS_WRITE h = (- err_code QDMA_ERR_INV_PARAM, None, h)"
    and encode_length: "length (encode c) = words"
    and decode_encode: "decode (encode c) old = kept c old"
begin

lemma writes_entry:
  assumes "context_device b dat cmd regs view" and "ok i" and "accepts c"
  shows "\<exists>h' w. conf b i (Some c) QDMA_HW_ACCESS_WRITE h = (0, None, h') \<and>
    card_ram (view h') = (card_ram (view h))(sel i := (card_ram (view h) (sel i))(ctxt_index (qid i) := w)) \<and>
    map w [0..<words] = encode c"
proof -
  obtain h' w where w: "indirect_reg_write b dat cmd regs (sel i) (qid i) (encode c) h = (0, h')"
    "card_ram (view h') = (card_ram (view h))(sel i := (card_ram (view h) (sel i))(ctxt_index (qid i) := w))"
    "\<forall>j < regs. w j = padded regs (encode c) j"
    using write_entry [OF assms(1)] by blast
  then have "map w [0..<words] = encode c"
    using words_fit by (intro nth_equalityI) (auto simp: padded_def encode_length)
  then show ?thesis using w(1,2) by (auto simp: conf_write assms(2,3))
qed

lemma write_then_read_at:
  assumes dev: "context_device b dat cmd regs view" and "ok i" and "accepts c"
    and "ok j" "sel j = sel i" "ctxt_index (qid j) = ctxt_index (qid i)"
  shows "\<exists>h1 h2. conf b i (Some c) QDMA_HW_ACCESS_WRITE h = (0, None, h1) \<and>
    conf b j (Some old) QDMA_HW_ACCESS_READ h1 = (0, Some (kept c old), h2)"
proof -
  obtain h1 w where w: "conf b i (Some c) QDMA_HW_ACCESS_WRITE h = (0, None, h1)"
    "card_ram (view h1) = (card_ram (view h))(sel i := (card_ram (view h) (sel i))(ctxt_index (qid i) := w))"
    "map w [0..<words] = encode c"
    using writes_entry [OF assms(1-3)] by blast
  then show ?thesis using reads_entry [OF dev \<open>ok j\<close>, of old h1] assms(5,6) by (auto simp: decode_encode)
qed

lemma write_then_read:
  assumes "context_device b dat cmd regs view" and "ok i" and "accepts c"
  shows "\<exists>h1 h2. conf b i (Some c) QDMA_HW_ACCESS_WRITE h = (0, None, h1) \<and>
    conf b i (Some old) QDMA_HW_ACCESS_READ h1 = (0, Some (kept c old), h2)"
  by (rule write_then_read_at [OF assms assms(2) refl refl])

lemma write_keeps_others:
  assumes dev: "context_device b dat cmd regs view" and "ok i" and "accepts c"
    and "sel' \<noteq> sel i \<or> q \<noteq> ctxt_index (qid i)"
  shows "card_ram (view (snd (snd (conf b i (Some c) QDMA_HW_ACCESS_WRITE h)))) sel' q = card_ram (view h) sel' q"
proof -
  obtain h1 w where "indirect_reg_write b dat cmd regs (sel i) (qid i) (encode c) h = (0, h1)"
    "card_ram (view h1) = (card_ram (view h))(sel i := (card_ram (view h) (sel i))(ctxt_index (qid i) := w))"
    using write_entry [OF dev] by blast
  then show ?thesis using assms(2-4) by (auto simp: conf_write)
qed

text \<open>A card that stays busy makes every access fail, and nothing is stored.\<close>

lemma stuck:
  assumes "\<And>h. fst (bus_read b cmd h) AND 1 \<noteq> 0" and "ok i" and "accepts c"
  shows "fst (conf b i (Some c) QDMA_HW_ACCESS_READ h) = - err_code QDMA_ERR_HWACC_BUSY_TIMEOUT"
    and "fst (conf b i (Some c) QDMA_HW_ACCESS_WRITE h) = - err_code QDMA_ERR_HWACC_BUSY_TIMEOUT"
    and "fst (snd (conf b i (Some c) QDMA_HW_ACCESS_READ h)) = None"
proof -
  have "fst (indirect_reg_read b dat cmd (sel i) (qid i) words h) < 0"
    using indirect_stuck(3) [of b cmd dat "sel i" "qid i" words h, OF assms(1)] by simp
  then show "fst (conf b i (Some c) QDMA_HW_ACCESS_READ h) = - err_code QDMA_ERR_HWACC_BUSY_TIMEOUT"
    "fst (snd (conf b i (Some c) QDMA_HW_ACCESS_READ h)) = None"
    using indirect_stuck(3) [of b cmd dat "sel i" "qid i" words h, OF assms(1)] assms(2)
    by (auto simp: conf_read split: prod.split)
  show "fst (conf b i (Some c) QDMA_HW_ACCESS_WRITE h) = - err_code QDMA_ERR_HWACC_BUSY_TIMEOUT"
    using indirect_stuck(2) [of b cmd dat regs "sel i" "qid i" "encode c" h, OF assms(1)] assms(2,3)
    by (auto simp: conf_write split: prod.split)
qed

end

section \<open>Fields that come back\<close>

lemma u8_cut: "ucast (take_bit n (ucast (v :: u8) :: u32)) = take_bit n v"
  by (rule bit_word_eqI) (auto simp: bit_simps)

lemma u16_cut: "ucast (take_bit n (ucast (v :: u16) :: u32)) = take_bit n v"
  by (rule bit_word_eqI) (auto simp: bit_simps)

lemma u8_cut_1: "ucast (ucast (v :: u8) mod 2 :: u32) = v mod 2"
  using u8_cut [of 1 v] by (simp add: take_bit_eq_mod)

lemma u16_cut_1: "ucast (ucast (v :: u16) mod 2 :: u32) = v mod 2"
  using u16_cut [of 1 v] by (simp add: take_bit_eq_mod)

lemmas cut_simps = u8_cut u16_cut u8_cut_1 u16_cut_1 take_bit_word_eq_self

text \<open>An address in two words.\<close>

lemma split_address:
  "push_bit 32 (ucast (ucast (drop_bit 32 (a :: u64) AND 0xffffffff) :: u32)) OR
    ucast (ucast (a AND 0xffffffff) :: u32) = a"
proof -
  have m: "(0xffffffff :: u64) = mask 32" by (simp add: mask_eq_exp_minus_1)
  show ?thesis unfolding m by (rule bit_word_eqI) (auto simp: bit_simps dest: bit_imp_le_length)
qed

lemmas bit_field_simps = bit_simps bit_FIELD_GET bit_FIELD_SET

text \<open>A member spread over several fields comes back in one piece.\<close>

lemma FIELD_SET_GET:
  fixes v :: "'a::len word"
  assumes "l \<le> h" and "h < LENGTH('a)" and "LENGTH('a) \<le> 64" and "Suc h - l \<le> n"
  shows "FIELD_SET (GENMASK h l) (take_bit n (FIELD_GET (GENMASK h l) v)) = v AND GENMASK h l"
  using assms by (intro bit_word_eqI) (auto simp: bit_FIELD_SET bit_FIELD_GET bit_GENMASK bit_simps)

lemma FIELD_SET_GET_narrow:
  fixes v :: "'a::len word"
  assumes "l \<le> h" and "h < LENGTH('a)" and "LENGTH('a) \<le> 64" and "Suc h - l \<le> n" and "Suc h - l \<le> LENGTH('b)"
  shows "FIELD_SET (GENMASK h l) (ucast (take_bit n (ucast (FIELD_GET (GENMASK h l) v) :: 'b::len word))) = v AND GENMASK h l"
  using assms by (intro bit_word_eqI) (auto simp: bit_FIELD_SET bit_FIELD_GET bit_GENMASK bit_simps)

lemma FIELD_SET_GET_wide:
  fixes v :: "'a::len word"
  assumes "l \<le> h" and "h < LENGTH('a)" and "LENGTH('a) \<le> 64" and "Suc h - l \<le> LENGTH('b)"
  shows "FIELD_SET (GENMASK h l) (ucast (ucast (FIELD_GET (GENMASK h l) v) :: 'b::len word)) = v AND GENMASK h l"
  using assms by (intro bit_word_eqI) (auto simp: bit_FIELD_SET bit_FIELD_GET bit_GENMASK bit_simps)

lemma take_bit_join:
  fixes v :: "'a::len word"
  assumes "l \<le> h" and "h < LENGTH('a)"
  shows "take_bit l v OR v AND GENMASK h l = take_bit (Suc h) v"
    and "take_bit l v OR v AND GENMASK h l OR z = take_bit (Suc h) v OR z"
  using assms by (auto intro!: bit_word_eqI simp: bit_GENMASK bit_simps)

lemma AND_GENMASK_low: "h < LENGTH('a) \<Longrightarrow> (v :: 'a::len word) AND GENMASK h 0 = take_bit (Suc h) v"
  by (rule bit_word_eqI) (auto simp: bit_GENMASK bit_simps)

lemma AND_GENMASK_high: "h = LENGTH('a) - 1 \<Longrightarrow> (v :: 'a::len word) AND GENMASK h l = push_bit l (drop_bit l v)"
  by (rule bit_word_eqI) (auto simp: bit_GENMASK bit_simps)

lemmas join_simps = FIELD_SET_GET FIELD_SET_GET_narrow FIELD_SET_GET_wide take_bit_join AND_GENMASK_low AND_GENMASK_high

text \<open>A field of a word that was masked with two other fields.\<close>

lemma FIELD_GET_masked:
  fixes w :: "'a::len word"
  assumes "l \<le> h" and "h < LENGTH('a)" and "LENGTH('a) \<le> 64"
    and "l1 \<le> h1" and "h1 < LENGTH('a)" and "l2 \<le> h2" and "h2 < LENGTH('a)"
  shows "h < l1 \<or> h1 < l \<Longrightarrow> h < l2 \<or> h2 < l \<Longrightarrow> FIELD_GET (GENMASK h l) (w AND (GENMASK h1 l1 OR GENMASK h2 l2)) = 0"
    and "l = l1 \<and> h = h1 \<or> l = l2 \<and> h = h2 \<Longrightarrow>
      FIELD_GET (GENMASK h l) (w AND (GENMASK h1 l1 OR GENMASK h2 l2)) = FIELD_GET (GENMASK h l) w"
  using assms by (auto intro!: bit_word_eqI simp: bit_FIELD_GET bit_GENMASK bit_or_iff bit_and_iff)

text \<open>A value taken from a field is within its width.\<close>

lemma FIELD_GET_cut:
  assumes "l \<le> h" and "h < 32" and "Suc h - l \<le> n"
  shows "take_bit n (FIELD_GET (GENMASK h l) (w :: u32)) = FIELD_GET (GENMASK h l) w"
    and "take_bit n (ucast (FIELD_GET (GENMASK h l) w) :: 'a::len word) = ucast (FIELD_GET (GENMASK h l) w)"
  using assms by (auto intro!: bit_word_eqI simp: bit_field_simps)

lemma FIELD_GET_cut_1:
  assumes "h < 32"
  shows "ucast (FIELD_GET (GENMASK h h) (w :: u32)) mod 2 = (ucast (FIELD_GET (GENMASK h h) w) :: 'a::len word)"
  using FIELD_GET_cut(2) [of h h 1 w, where 'a = 'a] assms by (simp add: take_bit_eq_mod)

lemma FIELD_SET_cut:
  fixes v :: "'a::len word"
  assumes "l \<le> h" and "h < LENGTH('a)" and "LENGTH('a) \<le> 64"
  shows "h < n \<Longrightarrow> take_bit n (FIELD_SET (GENMASK h l) v) = FIELD_SET (GENMASK h l) v"
    and "k \<le> l \<Longrightarrow> push_bit k (drop_bit k (FIELD_SET (GENMASK h l) v)) = FIELD_SET (GENMASK h l) v"
  using assms by (auto intro!: bit_word_eqI simp: bit_field_simps)

lemmas FIELD_GET_fixed = FIELD_GET_cut FIELD_GET_cut_1 FIELD_SET_cut

lemma intr_address:
  "(v :: u64) AND GENMASK 28 12 OR v AND GENMASK 60 29 OR push_bit 61 (drop_bit 61 v) = push_bit 12 (drop_bit 12 v)"
proof -
  have "v AND GENMASK 28 12 OR v AND GENMASK 60 29 OR v AND GENMASK 63 61 = v AND GENMASK 63 12"
    by (rule bit_word_eqI) (auto simp: bit_simps bit_GENMASK)
  then show ?thesis by (simp add: AND_GENMASK_high)
qed

section \<open>Entries by direction\<close>

definition sw_sel :: "u8 \<times> u16 \<Rightarrow> ind_ctxt_cmd_sel" where
  "sw_sel i = (if fst i \<noteq> 0 then QDMA_CTXT_SEL_SW_C2H else QDMA_CTXT_SEL_SW_H2C)"

definition hw_sel :: "u8 \<times> u16 \<Rightarrow> ind_ctxt_cmd_sel" where
  "hw_sel i = (if fst i \<noteq> 0 then QDMA_CTXT_SEL_HW_C2H else QDMA_CTXT_SEL_HW_H2C)"

definition cr_sel :: "u8 \<times> u16 \<Rightarrow> ind_ctxt_cmd_sel" where
  "cr_sel i = (if fst i \<noteq> 0 then QDMA_CTXT_SEL_CR_C2H else QDMA_CTXT_SEL_CR_H2C)"

text \<open>A queue as the driver sets it up, for the witnesses.\<close>

definition sample_sw :: qdma_descq_sw_ctxt where
  "sample_sw = \<lparr>sw_ring_bs_addr = 0x123456789000, sw_vec = 7, sw_pidx = 9, sw_irq_arm = 1, sw_fnc_id = 2, sw_qen = 1,
     sw_frcd_en = 0, sw_wbi_chk = 1, sw_wbi_intvl_en = 1, sw_at = 0, sw_fetch_max = 6, sw_rngsz_idx = 3, sw_desc_sz = 2,
     sw_bypass = 0, sw_mm_chn = 0, sw_wbk_en = 1, sw_irq_en = 1, sw_port_id = 0, sw_irq_no_last = 0, sw_err = 0,
     sw_err_wb_sent = 0, sw_irq_req = 0, sw_mrkr_dis = 0, sw_is_mm = 1, sw_intr_aggr = 0, sw_pasid_en = 0,
     sw_dis_intr_on_vf = 0, sw_virtio_en = 0, sw_pack_byp_out = 0, sw_irq_byp = 0, sw_host_id = 0, sw_pasid = 0,
     sw_virtio_dsc_base = 0\<rparr>"

end
