(* ===== verification/Qdma_Csr.thy ===== *)
theory Qdma_Csr
  imports Qdma_Context_Conf
begin

text \<open>
  Global configuration registers (CSRs), shared part: the data the back ends exchange with their
  callers (\<open>qdma_access_common.h\<close>), the default tables, the guards that all the CSR functions of the
  three back ends have in the same form, and the contract of plain registers.  The functions
  themselves are in \<open>Soft_Csr\<close>, \<open>Eqdma_Csr\<close> and \<open>S80_Csr\<close>.  As everywhere in the back ends, a device handle
  is never null.
\<close>

section \<open>Constants and data\<close>

definition QDMA_NUM_C2H_BUFFER_SIZES :: nat where "QDMA_NUM_C2H_BUFFER_SIZES = 16"
definition QDMA_MM_CONTROL_STEP :: u32 where "QDMA_MM_CONTROL_STEP = 0x100"
definition QDMA_PIDX_STEP :: u32 where "QDMA_PIDX_STEP = 0x10"
definition QDMA_CMPT_CIDX_STEP :: u32 where "QDMA_CMPT_CIDX_STEP = 0x10"
definition QDMA_INT_CIDX_STEP :: u32 where "QDMA_INT_CIDX_STEP = 0x10"
definition QDMA_BAR_NUM :: nat where "QDMA_BAR_NUM = 6"
definition QDMA_NUM_WRB_INTERVALS :: u32 where "QDMA_NUM_WRB_INTERVALS = 8"

definition QDMA_GLBL2_MM_CMPT_EN_MASK :: u32 where "QDMA_GLBL2_MM_CMPT_EN_MASK = BIT 2"
definition QDMA_GLBL2_FLR_PRESENT_MASK :: u32 where "QDMA_GLBL2_FLR_PRESENT_MASK = BIT 1"
definition QDMA_GLBL2_MAILBOX_EN_MASK :: u32 where "QDMA_GLBL2_MAILBOX_EN_MASK = BIT 0"

definition DEFAULT_MAX_DSC_FETCH :: u32 where "DEFAULT_MAX_DSC_FETCH = 6"
definition DEFAULT_WRB_INT :: u32 where "DEFAULT_WRB_INT = 5"
definition DEFAULT_PFCH_STOP_THRESH :: u32 where "DEFAULT_PFCH_STOP_THRESH = 256"
definition DEFAULT_PFCH_NUM_ENTRIES_PER_Q :: u32 where "DEFAULT_PFCH_NUM_ENTRIES_PER_Q = 8"
definition DEFAULT_PFCH_MAX_Q_CNT :: u32 where "DEFAULT_PFCH_MAX_Q_CNT = 16"
definition DEFAULT_C2H_INTR_TIMER_TICK :: u32 where "DEFAULT_C2H_INTR_TIMER_TICK = 25"
definition DEFAULT_CMPT_COAL_TIMER_CNT :: u32 where "DEFAULT_CMPT_COAL_TIMER_CNT = 5"
definition DEFAULT_CMPT_COAL_TIMER_TICK :: u32 where "DEFAULT_CMPT_COAL_TIMER_TICK = 25"
definition DEFAULT_CMPT_COAL_MAX_BUF_SZ :: u32 where "DEFAULT_CMPT_COAL_MAX_BUF_SZ = 32"

record qdma_q_pidx_reg_info =
  pi_pidx :: u16
  pi_irq_en :: u8

record qdma_intr_cidx_reg_info =
  ii_sw_cidx :: u16
  ii_rng_idx :: u8

record qdma_q_cmpt_cidx_reg_info =
  ci_wrb_cidx :: u16
  ci_counter_idx :: u8
  ci_timer_idx :: u8
  ci_trig_mode :: u8
  ci_wrb_en :: u8
  ci_irq_en :: u8

text \<open>The tables of \<open>*_set_default_global_csr\<close>.\<close>

definition rng_sz :: "u32 list" where
  "rng_sz = [2049, 65, 129, 193, 257, 385, 513, 769, 1025, 1537, 3073, 4097, 6145, 8193, 12289, 16385]"

definition tmr_cnt :: "u32 list" where
  "tmr_cnt = [1, 2, 4, 5, 8, 10, 15, 20, 25, 30, 50, 75, 100, 125, 150, 200]"

definition cnt_th :: "u32 list" where
  "cnt_th = [2, 4, 8, 16, 24, 32, 48, 64, 80, 96, 112, 128, 144, 160, 176, 192]"

definition buf_sz :: "u32 list" where
  "buf_sz = [4096, 256, 512, 1024, 2048, 3968, 4096, 4096, 4096, 4096, 4096, 4096, 4096, 8192, 9018, 16384]"

section \<open>Guards of the CSR functions\<close>

text \<open>\<open>supported\<close> reads the capabilities of the device where a function asks for them.  \<open>index + count\<close>
  is an \<open>int\<close> sum of two bytes.\<close>

definition csr_write ::
    "'h bus \<Rightarrow> u32 \<Rightarrow> nat \<Rightarrow> ('h \<Rightarrow> bool \<times> 'h) \<Rightarrow> u8 \<Rightarrow> u8 \<Rightarrow> (nat \<Rightarrow> u32) option \<Rightarrow> 'h \<Rightarrow> int \<times> 'h" where
  "csr_write b reg num supported index count csr_val h =
     (case csr_val of
        None \<Rightarrow> (- err_code QDMA_ERR_INV_PARAM, h)
      | Some vals \<Rightarrow>
          if count = 0 then (- err_code QDMA_ERR_INV_PARAM, h)
          else if unat index + unat count > num then (- err_code QDMA_ERR_INV_PARAM, h)
          else case supported h of (ok, h') \<Rightarrow>
            if ok then (err_code QDMA_SUCCESS, qdma_write_csr_values b reg (ucast index) (ucast count) vals h')
            else (- err_code QDMA_ERR_HWACC_FEATURE_NOT_SUPPORTED, h'))"

definition csr_read ::
    "'h bus \<Rightarrow> u32 \<Rightarrow> nat \<Rightarrow> ('h \<Rightarrow> bool \<times> 'h) \<Rightarrow> u8 \<Rightarrow> u8 \<Rightarrow> (nat \<Rightarrow> u32) option \<Rightarrow> 'h \<Rightarrow>
      int \<times> (nat \<Rightarrow> u32) option \<times> 'h" where
  "csr_read b reg num supported index count csr_val h =
     (case csr_val of
        None \<Rightarrow> (- err_code QDMA_ERR_INV_PARAM, None, h)
      | Some vals \<Rightarrow>
          if count = 0 then (- err_code QDMA_ERR_INV_PARAM, None, h)
          else if unat index + unat count > num then (- err_code QDMA_ERR_INV_PARAM, None, h)
          else case supported h of (ok, h') \<Rightarrow>
            if ok then case qdma_read_csr_values b reg (ucast index) (ucast count) vals h' of (vs, h'') \<Rightarrow>
              (err_code QDMA_SUCCESS, Some vs, h'')
            else (- err_code QDMA_ERR_HWACC_FEATURE_NOT_SUPPORTED, None, h'))"

text \<open>The inner switch of \<open>*_global_csr_conf\<close>.\<close>

definition csr_access ::
    "('h \<Rightarrow> int \<times> (nat \<Rightarrow> u32) option \<times> 'h) \<Rightarrow> ('h \<Rightarrow> int \<times> 'h) \<Rightarrow> qdma_hw_access_type \<Rightarrow> 'h \<Rightarrow>
      int \<times> (nat \<Rightarrow> u32) option \<times> 'h" where
  "csr_access rd wr access_type h =
     (case access_type of
        QDMA_HW_ACCESS_READ \<Rightarrow> rd h
      | QDMA_HW_ACCESS_WRITE \<Rightarrow> (case wr h of (rv, h') \<Rightarrow> (rv, None, h'))
      | _ \<Rightarrow> (- err_code QDMA_ERR_INV_PARAM, None, h))"

section \<open>The AXI master lite bar\<close>

text \<open>The lowest of the six bits that is set.\<close>

definition find_bar :: "u32 \<Rightarrow> int \<times> u8" where
  "find_bar user_bar_id =
     (case find (\<lambda>bar_idx. user_bar_id AND push_bit bar_idx 1 \<noteq> 0) [0..<QDMA_BAR_NUM] of
        None \<Rightarrow> (- err_code QDMA_ERR_HWACC_BAR_NOT_FOUND, 0)
      | Some bar_idx \<Rightarrow> (err_code QDMA_SUCCESS, of_nat bar_idx))"

section \<open>Clearing the context memory\<close>

text \<open>The loop of \<open>*_init_ctxt_memory\<close> over the eight kinds of context of one queue and over the queues:
  the first failing command ends it.\<close>

definition queue_sels :: "ind_ctxt_cmd_sel list" where
  "queue_sels = [QDMA_CTXT_SEL_SW_C2H, QDMA_CTXT_SEL_SW_H2C, QDMA_CTXT_SEL_HW_C2H, QDMA_CTXT_SEL_HW_H2C,
     QDMA_CTXT_SEL_CR_C2H, QDMA_CTXT_SEL_CR_H2C, QDMA_CTXT_SEL_CMPT, QDMA_CTXT_SEL_PFTCH]"

fun clear_all :: "(ind_ctxt_cmd_sel \<Rightarrow> u16 \<Rightarrow> 'h \<Rightarrow> int \<times> 'h) \<Rightarrow> (ind_ctxt_cmd_sel \<times> u16) list \<Rightarrow> 'h \<Rightarrow> int \<times> 'h" where
  "clear_all clear [] h = (err_code QDMA_SUCCESS, h)"
| "clear_all clear ((sel, qid) # jobs) h =
     (case clear sel qid h of (rv, h') \<Rightarrow> if rv < 0 then (rv, h') else clear_all clear jobs h')"

definition clear_jobs :: "qdma_dev_attributes \<Rightarrow> (ind_ctxt_cmd_sel \<times> u16) list" where
  "clear_jobs dev_info =
     concat (map (\<lambda>i. map (\<lambda>sel. (sel, of_nat i))
       (filter (\<lambda>sel. \<not> (st_en dev_info = 0 \<and> (sel = QDMA_CTXT_SEL_PFTCH \<or> sel = QDMA_CTXT_SEL_CMPT))) queue_sels))
       [0..<unat (num_qs dev_info)])"

text \<open>The function maps are cleared last, whatever the outcome of each.\<close>

definition init_ctxt_memory ::
    "('h \<Rightarrow> qdma_dev_attributes \<times> 'h) \<Rightarrow> (ind_ctxt_cmd_sel \<Rightarrow> u16 \<Rightarrow> 'h \<Rightarrow> int \<times> 'h) \<Rightarrow> (u16 \<Rightarrow> 'h \<Rightarrow> int \<times> 'h) \<Rightarrow>
      'h \<Rightarrow> int \<times> 'h" where
  "init_ctxt_memory get_attributes clear fmap_clear h =
     (case get_attributes h of (dev_info, h1) \<Rightarrow>
      case clear_all clear (clear_jobs dev_info) h1 of (rv, h2) \<Rightarrow>
        if rv < 0 then (rv, h2)
        else (err_code QDMA_SUCCESS, foldl (\<lambda>h i. snd (fmap_clear (of_nat i) h)) h2 [0..<unat (num_pfs dev_info)]))"

end
