(* ===== verification/Csr_Card.thy ===== *)
theory Csr_Card
  imports Qdma_Csr
begin

text \<open>
  What the configuration functions do to a card whose registers are storage.  \<open>csr_device\<close> states the
  documented behaviour of the configuration registers; the interface \<open>csr_arrays\<close> is what the CSR
  functions of a back end have in common, and the laws of writing and reading are proved in it once.
\<close>

section \<open>Registers that are storage\<close>

text \<open>A write changes the bits of \<open>keep a\<close> (a register need not implement all 32), nothing else; a read
  yields what is stored.  \<open>R\<close> are the registers that behave so.\<close>

definition stored :: "u32 \<Rightarrow> u32 \<Rightarrow> u32 \<Rightarrow> u32" where
  "stored keep v old = (v AND keep) OR (old AND NOT keep)"

definition csr_device :: "'h bus \<Rightarrow> u32 set \<Rightarrow> (u32 \<Rightarrow> u32) \<Rightarrow> ('h \<Rightarrow> u32 \<Rightarrow> u32) \<Rightarrow> bool" where
  "csr_device b R keep view \<longleftrightarrow>
     (\<forall>h. \<forall>a \<in> R. fst (bus_read b a h) = view h a \<and> view (snd (bus_read b a h)) = view h \<and>
       (\<forall>v. view (bus_write b a v h) = (view h)(a := stored (keep a) v (view h a))))"

lemma csr_device_laws:
  assumes "csr_device b R keep view" and "a \<in> R"
  shows "fst (bus_read b a h) = view h a" and "view (snd (bus_read b a h)) = view h"
    and "view (bus_write b a v h) = (view h)(a := stored (keep a) v (view h a))"
  using assms by (auto simp: csr_device_def)

lemma csr_read_view:
  assumes "csr_device b R keep view" and "a \<in> R"
  obtains h' where "bus_read b a h = (view h a, h')" and "view h' = view h"
  using csr_device_laws(1,2) [OF assms, of h] by (metis prod.collapse)

lemma stored_all [simp]: "stored (- 1) v old = v" and stored_same [simp]: "stored k v v = v"
  by (simp_all add: stored_def flip: bit.conj_disj_distrib)

text \<open>Every register a full word of storage.\<close>

definition reg_bus :: "(u32 \<Rightarrow> u32) bus" where
  "reg_bus = \<lparr>bus_read = (\<lambda>a h. (h a, h)), bus_write = (\<lambda>a v h. h(a := v))\<rparr>"

lemma reg_bus_device: "csr_device reg_bus R (\<lambda>_. - 1) (\<lambda>h. h)"
  by (simp add: csr_device_def reg_bus_def)

section \<open>Arrays of registers\<close>

definition slot :: "u32 \<Rightarrow> nat \<Rightarrow> u32" where
  "slot reg j = reg + 4 * of_nat j"

lemma of_nat_eq_16:
  assumes "i < 16" "j < 16"
  shows "(4 * of_nat i :: u32) = 4 * of_nat j \<longleftrightarrow> i = j"
proof
  assume "(4 * of_nat i :: u32) = 4 * of_nat j"
  then have "unat (4 * of_nat i :: u32) = unat (4 * of_nat j :: u32)" by simp
  then show "i = j" using assms by (simp add: unat_word_ariths unsigned_of_nat take_bit_nat_eq_self)
qed simp

lemma slot_eq: "i < 16 \<Longrightarrow> j < 16 \<Longrightarrow> slot reg i = slot reg j \<longleftrightarrow> i = j"
  by (simp add: slot_def of_nat_eq_16)

lemma write_address: "reg + (idx + of_nat i) * 4 = slot reg (unat idx + i)"
  by (simp add: slot_def algebra_simps)

lemma read_address: "reg + idx * 4 + of_nat i * 4 = slot reg (unat idx + i)"
  by (simp add: slot_def algebra_simps)

text \<open>Writing a part of an array changes this part.\<close>

lemma write_csr_view:
  assumes dev: "csr_device b R keep view" and R: "\<And>j. j < 16 \<Longrightarrow> slot reg j \<in> R"
    and n: "unat idx + unat cnt \<le> 16"
  shows "view (qdma_write_csr_values b reg idx cnt vals h) a =
    (if \<exists>i < unat cnt. a = slot reg (unat idx + i) then
       stored (keep a) (vals (THE i. i < unat cnt \<and> a = slot reg (unat idx + i))) (view h a)
     else view h a)"
proof -
  let ?w = "\<lambda>h i. bus_write b (slot reg (unat idx + i)) (vals i) h"
  have step: "k \<le> unat cnt \<Longrightarrow> view (foldl ?w h [0..<k]) a =
      (if \<exists>i < k. a = slot reg (unat idx + i) then
         stored (keep a) (vals (THE i. i < unat cnt \<and> a = slot reg (unat idx + i))) (view h a)
       else view h a)" for k
  proof (induction k)
    case (Suc k)
    have k: "slot reg (unat idx + k) \<in> R" using R n Suc.prems by simp
    have the: "(THE i. i < unat cnt \<and> slot reg (unat idx + k) = slot reg (unat idx + i)) = k"
      using n Suc.prems by (intro the_equality) (auto simp: slot_eq)
    have "\<not> (\<exists>i < k. slot reg (unat idx + k) = slot reg (unat idx + i))" using n Suc.prems by (auto simp: slot_eq)
    then have IH: "a = slot reg (unat idx + k) \<Longrightarrow> view (foldl ?w h [0..<k]) a = view h a" using Suc by auto
    have s: "view (foldl ?w h [0..<Suc k]) a = (if a = slot reg (unat idx + k) then
        stored (keep a) (vals k) (view (foldl ?w h [0..<k]) a) else view (foldl ?w h [0..<k]) a)"
      using csr_device_laws(3) [OF dev k, of "vals k" "foldl ?w h [0..<k]"] by simp
    show ?case
    proof (cases "a = slot reg (unat idx + k)")
      case True
      then have "\<exists>i < Suc k. a = slot reg (unat idx + i)" by auto
      then show ?thesis using s IH the True by simp
    next
      case False
      then have "(\<exists>i < Suc k. a = slot reg (unat idx + i)) \<longleftrightarrow> (\<exists>i < k. a = slot reg (unat idx + i))"
        by (auto simp: less_Suc_eq)
      then show ?thesis using s False Suc by simp
    qed
  qed simp
  have "unat (idx + cnt) = unat idx + unat cnt" using n by (simp add: unat_word_ariths)
  then have "idx \<le> idx + cnt" by (simp add: word_le_nat_alt)
  then show ?thesis using step [of "unat cnt"] unfolding qdma_write_csr_values_def write_address by simp
qed

lemma write_csr_slot:
  assumes "csr_device b R keep view" and "\<And>j. j < 16 \<Longrightarrow> slot reg j \<in> R"
    and n: "unat idx + unat cnt \<le> 16" and j: "j < 16"
  shows "view (qdma_write_csr_values b reg idx cnt vals h) (slot reg j) =
    (if unat idx \<le> j \<and> j < unat idx + unat cnt then
       stored (keep (slot reg j)) (vals (j - unat idx)) (view h (slot reg j)) else view h (slot reg j))"
proof -
  have ex: "(\<exists>i < unat cnt. slot reg j = slot reg (unat idx + i)) \<longleftrightarrow> unat idx \<le> j \<and> j < unat idx + unat cnt"
  proof
    assume "\<exists>i < unat cnt. slot reg j = slot reg (unat idx + i)"
    then show "unat idx \<le> j \<and> j < unat idx + unat cnt" using n j by (auto simp: slot_eq)
  next
    assume "unat idx \<le> j \<and> j < unat idx + unat cnt"
    then show "\<exists>i < unat cnt. slot reg j = slot reg (unat idx + i)" by (intro exI [of _ "j - unat idx"]) auto
  qed
  have "(THE i. i < unat cnt \<and> slot reg j = slot reg (unat idx + i)) = j - unat idx"
    if "unat idx \<le> j \<and> j < unat idx + unat cnt"
    using that n j by (intro the_equality) (auto simp: slot_eq)
  then show ?thesis using write_csr_view [OF assms(1-3), where vals = vals and h = h and a = "slot reg j"] ex by simp
qed

lemma write_csr_other:
  assumes "csr_device b R keep view" and "\<And>j. j < 16 \<Longrightarrow> slot reg j \<in> R" and "unat idx + unat cnt \<le> 16"
    and "\<And>j. j < 16 \<Longrightarrow> a \<noteq> slot reg j"
  shows "view (qdma_write_csr_values b reg idx cnt vals h) a = view h a"
proof -
  have no: "\<not> (\<exists>i < unat cnt. a = slot reg (unat idx + i))"
    using assms(3) assms(4) [of "unat idx + i" for i] by auto
  show ?thesis
    using write_csr_view [OF assms(1-3), where vals = vals and h = h and a = a] unfolding if_not_P [OF no] .
qed

lemma read_csr_view:
  assumes dev: "csr_device b R keep view" and R: "\<And>j. j < 16 \<Longrightarrow> slot reg j \<in> R"
    and n: "unat idx + unat cnt \<le> 16"
  shows "\<exists>h'. qdma_read_csr_values b reg idx cnt vals h =
      (\<lambda>i. if i < unat cnt then view h (slot reg (unat idx + i)) else vals i, h') \<and> view h' = view h"
proof -
  let ?r = "\<lambda>(vs, h) i. case bus_read b (reg + idx * 4 + of_nat i * 4) h of (v, h') \<Rightarrow> (vs(i := v), h')"
  have "k \<le> unat cnt \<Longrightarrow> \<exists>h'. foldl ?r (vals, h) [0..<k] =
      (\<lambda>i. if i < k then view h (slot reg (unat idx + i)) else vals i, h') \<and> view h' = view h" for k
  proof (induction k)
    case (Suc k)
    obtain h1 where h1: "foldl ?r (vals, h) [0..<k] =
      (\<lambda>i. if i < k then view h (slot reg (unat idx + i)) else vals i, h1)" "view h1 = view h" 
      using Suc.IH [OF Suc_leD [OF Suc.prems]] by blast
    have "slot reg (unat idx + k) \<in> R" using R n Suc.prems by simp
    then obtain h2 where "bus_read b (slot reg (unat idx + k)) h1 = (view h1 (slot reg (unat idx + k)), h2)" "view h2 = view h1"
      using csr_read_view [OF dev] by blast
    moreover have "foldl ?r (vals, h) [0..<Suc k] = ?r (foldl ?r (vals, h) [0..<k]) k" by simp
    ultimately have "foldl ?r (vals, h) [0..<Suc k] =
        ((\<lambda>i. if i < k then view h (slot reg (unat idx + i)) else vals i)(k := view h (slot reg (unat idx + k))), h2)"
      unfolding h1(1) using h1(2) by (simp add: read_address del: fun_upd_apply)
    moreover have "(\<lambda>i. if i < k then view h (slot reg (unat idx + i)) else vals i)(k := view h (slot reg (unat idx + k))) =
        (\<lambda>i. if i < Suc k then view h (slot reg (unat idx + i)) else vals i)" by (auto simp: less_Suc_eq)
    ultimately show ?case using h1(2) \<open>view h2 = view h1\<close>
      by (intro exI [of _ h2]) (simp del: upt_Suc fun_upd_apply)
  qed simp
  then show ?thesis by (simp add: qdma_read_csr_values_def)
qed

lemma unat_byte: "unat (ucast (x :: u8) :: u32) = unat x"
proof -
  have "unat x < 2 ^ 8" using unsigned_less [where w = x and 'a = nat] by simp
  then have "unat x < 2 ^ 32" by simp
  then show ?thesis by (simp add: unsigned_ucast_eq take_bit_nat_eq_self)
qed

section \<open>The interface of the CSR functions\<close>

text \<open>\<open>reg t\<close> is the first register of an array, \<open>sup\<close> what the capability registers \<open>caps\<close> must say.\<close>

locale csr_arrays =
  fixes conf :: "'h bus \<Rightarrow> u8 \<Rightarrow> u8 \<Rightarrow> (nat \<Rightarrow> u32) option \<Rightarrow> qdma_global_csr_type \<Rightarrow> qdma_hw_access_type \<Rightarrow> 'h \<Rightarrow>
      int \<times> (nat \<Rightarrow> u32) option \<times> 'h"
    and reg :: "qdma_global_csr_type \<Rightarrow> u32"
    and supported :: "qdma_global_csr_type \<Rightarrow> 'h bus \<Rightarrow> 'h \<Rightarrow> bool \<times> 'h"
    and caps :: "u32 list" and sup :: "qdma_global_csr_type \<Rightarrow> (u32 \<Rightarrow> u32) \<Rightarrow> bool"
  assumes conf_write: "conf b i c v t QDMA_HW_ACCESS_WRITE h =
      (case csr_write b (reg t) 16 (supported t b) i c v h of (rv, h') \<Rightarrow> (rv, None, h'))"
    and conf_read: "conf b i c v t QDMA_HW_ACCESS_READ h = csr_read b (reg t) 16 (supported t b) i c v h"
    and conf_other: "conf b i c v t QDMA_HW_ACCESS_CLEAR h = (- err_code QDMA_ERR_INV_PARAM, None, h)"
      "conf b i c v t QDMA_HW_ACCESS_INVALIDATE h = (- err_code QDMA_ERR_INV_PARAM, None, h)"
    and supported_view: "csr_device b R keep view \<Longrightarrow> set caps \<subseteq> R \<Longrightarrow>
      \<exists>h'. supported t b h = (sup t (view h), h') \<and> view h' = view h"
    and sup_caps: "(\<And>a. a \<in> set caps \<Longrightarrow> w a = w' a) \<Longrightarrow> sup t w = sup t w'"
    and apart_caps: "j < 16 \<Longrightarrow> slot (reg t) j \<notin> set caps"
    and apart: "t \<noteq> t' \<Longrightarrow> m < 16 \<Longrightarrow> j < 16 \<Longrightarrow> slot (reg t) m \<noteq> slot (reg t') j"
begin

text \<open>The registers the functions use.\<close>

definition space :: "u32 set" where
  "space = {slot (reg t) j | t j. j < 16} \<union> set caps"

lemma reads:
  assumes "csr_device b space keep view" and "sup t (view h)"
  shows "\<exists>h'. conf b 0 16 (Some old) t QDMA_HW_ACCESS_READ h =
      (0, Some (\<lambda>i. if i < 16 then view h (slot (reg t) i) else old i), h') \<and> view h' = view h"
proof -
  obtain h1 where h1: "supported t b h = (True, h1)" "view h1 = view h"
    using supported_view [OF assms(1), of t h] assms(2) by (auto simp: space_def)
  have R: "slot (reg t) j \<in> space" if "j < 16" for j using that by (auto simp: space_def)
  show ?thesis using read_csr_view [OF assms(1) R, where idx = 0 and cnt = 16 and vals = old and h = h1] h1
    by (auto simp: conf_read csr_read_def fun_eq_iff)
qed

lemma writes:
  assumes dev: "csr_device b space keep view" and "sup t (view h)"
    and "0 < count" and "unat index + unat count \<le> 16"
  shows "\<exists>h'. conf b index count (Some vals) t QDMA_HW_ACCESS_WRITE h = (0, None, h') \<and>
    (\<forall>j < 16. view h' (slot (reg t) j) = (if unat index \<le> j \<and> j < unat index + unat count then
       stored (keep (slot (reg t) j)) (vals (j - unat index)) (view h (slot (reg t) j)) else view h (slot (reg t) j))) \<and>
    (\<forall>a. (\<forall>j < 16. a \<noteq> slot (reg t) j) \<longrightarrow> view h' a = view h a)"
proof -
  obtain h1 where h1: "supported t b h = (True, h1)" "view h1 = view h"
    using supported_view [OF dev, of t h] assms(2) by (auto simp: space_def)
  have R: "slot (reg t) j \<in> space" if "j < 16" for j using that by (auto simp: space_def)
  have u: "unat (ucast index :: u32) = unat index" "unat (ucast count :: u32) = unat count"
    by (simp_all add: unat_byte)
  let ?h = "qdma_write_csr_values b (reg t) (ucast index) (ucast count) vals h1"
  have "conf b index count (Some vals) t QDMA_HW_ACCESS_WRITE h = (0, None, ?h)"
    using assms(3,4) h1 by (auto simp: conf_write csr_write_def word_gt_0)
  then show ?thesis
    using write_csr_slot [OF dev R, where idx = "ucast index" and cnt = "ucast count" and vals = vals and h = h1]
      write_csr_other [OF dev R, where idx = "ucast index" and cnt = "ucast count" and vals = vals and h = h1] assms(4) h1(2) u
    by (intro exI [of _ ?h]) auto
qed

text \<open>What was written is read back, the rest of this array and every other array is as before.\<close>

theorem write_then_read:
  assumes dev: "csr_device b space keep view" and sup: "sup t (view h)" "sup t' (view h)"
    and n: "0 < count" "unat index + unat count \<le> 16"
  shows "\<exists>h1 h2. conf b index count (Some vals) t QDMA_HW_ACCESS_WRITE h = (0, None, h1) \<and>
    conf b 0 16 (Some old) t' QDMA_HW_ACCESS_READ h1 =
      (0, Some (\<lambda>j. if j < 16 then
         if t' = t \<and> unat index \<le> j \<and> j < unat index + unat count then
           stored (keep (slot (reg t) j)) (vals (j - unat index)) (view h (slot (reg t) j))
         else view h (slot (reg t') j)
       else old j), h2)"
proof -
  obtain h1 where h1: "conf b index count (Some vals) t QDMA_HW_ACCESS_WRITE h = (0, None, h1)"
    "\<And>j. j < 16 \<Longrightarrow> view h1 (slot (reg t) j) = (if unat index \<le> j \<and> j < unat index + unat count then
       stored (keep (slot (reg t) j)) (vals (j - unat index)) (view h (slot (reg t) j)) else view h (slot (reg t) j))"
    "\<And>a. (\<forall>j < 16. a \<noteq> slot (reg t) j) \<Longrightarrow> view h1 a = view h a"
    using writes [OF dev sup(1) n, of vals] by blast
  have "sup t' (view h1)"
    using sup(2) sup_caps [of "view h1" "view h"] h1(3) apart_caps by metis
  then obtain h2 where "conf b 0 16 (Some old) t' QDMA_HW_ACCESS_READ h1 =
      (0, Some (\<lambda>i. if i < 16 then view h1 (slot (reg t') i) else old i), h2)"
    using reads [OF dev, of t' h1 old] by blast
  moreover have "view h1 (slot (reg t') j) = (if t' = t \<and> unat index \<le> j \<and> j < unat index + unat count then
      stored (keep (slot (reg t) j)) (vals (j - unat index)) (view h (slot (reg t) j)) else view h (slot (reg t') j))"
    if "j < 16" for j
    using that h1(2) h1(3) [of "slot (reg t') j"] apart [of t' t j] by (cases "t' = t") auto
  ultimately show ?thesis using h1(1) by (intro exI [of _ h1] exI [of _ h2]) (auto simp: fun_eq_iff)
qed

text \<open>The refusals: no array, an empty or too long range, a feature the device lacks, another access.\<close>

theorem refused:
  assumes "csr_device b space keep view"
  shows "fst (conf b index count None t access h) = - err_code QDMA_ERR_INV_PARAM"
    and "count = 0 \<or> 16 < unat index + unat count \<Longrightarrow>
      conf b index count v t QDMA_HW_ACCESS_WRITE h = (- err_code QDMA_ERR_INV_PARAM, None, h)"
    and "0 < count \<Longrightarrow> unat index + unat count \<le> 16 \<Longrightarrow> \<not> sup t (view h) \<Longrightarrow>
      \<exists>h'. conf b index count (Some vals) t QDMA_HW_ACCESS_WRITE h =
        (- err_code QDMA_ERR_HWACC_FEATURE_NOT_SUPPORTED, None, h') \<and> view h' = view h"
proof -
  show "fst (conf b index count None t access h) = - err_code QDMA_ERR_INV_PARAM"
    by (cases access) (simp_all add: conf_write conf_read conf_other csr_write_def csr_read_def)
  show "count = 0 \<or> 16 < unat index + unat count \<Longrightarrow>
      conf b index count v t QDMA_HW_ACCESS_WRITE h = (- err_code QDMA_ERR_INV_PARAM, None, h)"
    by (cases v) (auto simp: conf_write csr_write_def)
  assume "0 < count" "unat index + unat count \<le> 16" "\<not> sup t (view h)"
  then show "\<exists>h'. conf b index count (Some vals) t QDMA_HW_ACCESS_WRITE h =
        (- err_code QDMA_ERR_HWACC_FEATURE_NOT_SUPPORTED, None, h') \<and> view h' = view h"
    using supported_view [OF assms, of t h] by (auto simp: conf_write csr_write_def space_def word_gt_0)
qed

end

end
