(* ===== verification/Soft_Context.thy ===== *)
theory Soft_Context
  imports Qdma_Context_Conf
begin

text \<open>
  The contexts of the soft QDMA back end (\<open>qdma_soft_access.c\<close>, masks of \<open>qdma_soft_reg.h\<close>), built as
  those of \<open>Eqdma_Context\<close>.  This back end also programs the function map; its formats are smaller, so
  a read leaves some members of the caller's context as they were.  The functions of the table
  have the suffix \<open>_soft\<close>, because the members of \<open>qdma_hw_access\<close> have their names.
\<close>

section \<open>Indirect access\<close>

definition QDMA_OFFSET_IND_CTXT_DATA :: u32 where "QDMA_OFFSET_IND_CTXT_DATA = 0x804"
definition QDMA_OFFSET_IND_CTXT_CMD :: u32 where "QDMA_OFFSET_IND_CTXT_CMD = 0x844"

definition qdma_indirect_reg_invalidate :: "'h bus \<Rightarrow> ind_ctxt_cmd_sel \<Rightarrow> u16 \<Rightarrow> 'h \<Rightarrow> int \<times> 'h" where
  "qdma_indirect_reg_invalidate b = indirect_reg_command b QDMA_OFFSET_IND_CTXT_CMD QDMA_CTXT_CMD_INV"

definition qdma_indirect_reg_clear :: "'h bus \<Rightarrow> ind_ctxt_cmd_sel \<Rightarrow> u16 \<Rightarrow> 'h \<Rightarrow> int \<times> 'h" where
  "qdma_indirect_reg_clear b = indirect_reg_command b QDMA_OFFSET_IND_CTXT_CMD QDMA_CTXT_CMD_CLR"

definition qdma_indirect_reg_read ::
    "'h bus \<Rightarrow> ind_ctxt_cmd_sel \<Rightarrow> u16 \<Rightarrow> nat \<Rightarrow> 'h \<Rightarrow> int \<times> u32 list \<times> 'h" where
  "qdma_indirect_reg_read b = indirect_reg_read b QDMA_OFFSET_IND_CTXT_DATA QDMA_OFFSET_IND_CTXT_CMD"

definition qdma_indirect_reg_write ::
    "'h bus \<Rightarrow> ind_ctxt_cmd_sel \<Rightarrow> u16 \<Rightarrow> u32 list \<Rightarrow> 'h \<Rightarrow> int \<times> 'h" where
  "qdma_indirect_reg_write b =
     indirect_reg_write b QDMA_OFFSET_IND_CTXT_DATA QDMA_OFFSET_IND_CTXT_CMD QDMA_IND_CTXT_DATA_NUM_REGS"

lemmas soft_indirect_defs = qdma_indirect_reg_invalidate_def qdma_indirect_reg_clear_def
  qdma_indirect_reg_read_def qdma_indirect_reg_write_def QDMA_IND_CTXT_DATA_NUM_REGS_def

section \<open>Function map\<close>

definition QDMA_FMAP_NUM_WORDS :: nat where "QDMA_FMAP_NUM_WORDS = 2"

definition QDMA_FMAP_CTXT_W0_QID_MASK :: u32 where "QDMA_FMAP_CTXT_W0_QID_MASK = GENMASK 10 0"
definition QDMA_FMAP_CTXT_W1_QID_MAX_MASK :: u32 where "QDMA_FMAP_CTXT_W1_QID_MAX_MASK = GENMASK 11 0"

lemmas soft_fmap_masks [mask_defs] =
  QDMA_FMAP_CTXT_W0_QID_MASK_def
  QDMA_FMAP_CTXT_W1_QID_MAX_MASK_def

definition qdma_fmap_words :: "qdma_fmap_cfg \<Rightarrow> u32 list" where
  "qdma_fmap_words ctxt =
     [FIELD_SET QDMA_FMAP_CTXT_W0_QID_MASK (ucast (fmap_qbase ctxt)),
      FIELD_SET QDMA_FMAP_CTXT_W1_QID_MAX_MASK (ucast (fmap_qmax ctxt))]"

definition qdma_fmap_of :: "u32 list \<Rightarrow> qdma_fmap_cfg \<Rightarrow> qdma_fmap_cfg" where
  "qdma_fmap_of ws ctxt =
     ctxt\<lparr>fmap_qbase := ucast (FIELD_GET QDMA_FMAP_CTXT_W0_QID_MASK (ws ! 0)),
           fmap_qmax := ucast (FIELD_GET QDMA_FMAP_CTXT_W1_QID_MAX_MASK (ws ! 1))\<rparr>"

definition qdma_fmap_write :: "'h bus \<Rightarrow> u16 \<Rightarrow> qdma_fmap_cfg option \<Rightarrow> 'h \<Rightarrow> int \<times> 'h" where
  "qdma_fmap_write b func_id ctxt h =
     (case ctxt of
        None \<Rightarrow> (- err_code QDMA_ERR_INV_PARAM, h)
      | Some ctxt \<Rightarrow>
          qdma_indirect_reg_write b QDMA_CTXT_SEL_FMAP func_id (qdma_fmap_words ctxt) h)"

definition qdma_fmap_read :: "'h bus \<Rightarrow> u16 \<Rightarrow> qdma_fmap_cfg option \<Rightarrow> 'h \<Rightarrow> int \<times> qdma_fmap_cfg option \<times> 'h" where
  "qdma_fmap_read b func_id ctxt h =
     (case ctxt of
        None \<Rightarrow> (- err_code QDMA_ERR_INV_PARAM, None, h)
      | Some ctxt \<Rightarrow>
          (case qdma_indirect_reg_read b QDMA_CTXT_SEL_FMAP func_id QDMA_FMAP_NUM_WORDS h of (rv, ws, h') \<Rightarrow>
             if rv < 0 then (rv, None, h') else (err_code QDMA_SUCCESS, Some (qdma_fmap_of ws ctxt), h')))"

definition qdma_fmap_clear :: "'h bus \<Rightarrow> u16 \<Rightarrow> 'h \<Rightarrow> int \<times> 'h" where
  "qdma_fmap_clear b func_id h = qdma_indirect_reg_clear b QDMA_CTXT_SEL_FMAP func_id h"

definition qdma_fmap_conf_soft :: "'h bus \<Rightarrow> u16 \<Rightarrow> (qdma_fmap_cfg, 'h) ctx_conf" where
  "qdma_fmap_conf_soft b func_id ctxt access_type h =
     (case access_type of
        QDMA_HW_ACCESS_READ \<Rightarrow> qdma_fmap_read b func_id ctxt h
      | QDMA_HW_ACCESS_WRITE \<Rightarrow> (case qdma_fmap_write b func_id ctxt h of (rv, h') \<Rightarrow> (rv, None, h'))
      | QDMA_HW_ACCESS_CLEAR \<Rightarrow> (case qdma_fmap_clear b func_id h of (rv, h') \<Rightarrow> (rv, None, h'))
      | QDMA_HW_ACCESS_INVALIDATE \<Rightarrow> (- err_code QDMA_ERR_INV_PARAM, None, h))"

section \<open>Descriptor queues: software context\<close>

definition QDMA_SW_CONTEXT_NUM_WORDS :: nat where "QDMA_SW_CONTEXT_NUM_WORDS = 5"

definition QDMA_SW_CTXT_W0_PIDX :: u32 where "QDMA_SW_CTXT_W0_PIDX = GENMASK 15 0"
definition QDMA_SW_CTXT_W0_IRQ_ARM_MASK :: u32 where "QDMA_SW_CTXT_W0_IRQ_ARM_MASK = BIT 16"
definition QDMA_SW_CTXT_W0_FUNC_ID_MASK :: u32 where "QDMA_SW_CTXT_W0_FUNC_ID_MASK = GENMASK 24 17"
definition QDMA_SW_CTXT_W1_QEN_MASK :: u32 where "QDMA_SW_CTXT_W1_QEN_MASK = BIT 0"
definition QDMA_SW_CTXT_W1_FCRD_EN_MASK :: u32 where "QDMA_SW_CTXT_W1_FCRD_EN_MASK = BIT 1"
definition QDMA_SW_CTXT_W1_WBI_CHK_MASK :: u32 where "QDMA_SW_CTXT_W1_WBI_CHK_MASK = BIT 2"
definition QDMA_SW_CTXT_W1_WB_INT_EN_MASK :: u32 where "QDMA_SW_CTXT_W1_WB_INT_EN_MASK = BIT 3"
definition QDMA_SW_CTXT_W1_AT_MASK :: u32 where "QDMA_SW_CTXT_W1_AT_MASK = BIT 4"
definition QDMA_SW_CTXT_W1_FETCH_MAX_MASK :: u32 where "QDMA_SW_CTXT_W1_FETCH_MAX_MASK = GENMASK 7 5"
definition QDMA_SW_CTXT_W1_RNG_SZ_MASK :: u32 where "QDMA_SW_CTXT_W1_RNG_SZ_MASK = GENMASK 15 12"
definition QDMA_SW_CTXT_W1_DSC_SZ_MASK :: u32 where "QDMA_SW_CTXT_W1_DSC_SZ_MASK = GENMASK 17 16"
definition QDMA_SW_CTXT_W1_BYP_MASK :: u32 where "QDMA_SW_CTXT_W1_BYP_MASK = BIT 18"
definition QDMA_SW_CTXT_W1_MM_CHN_MASK :: u32 where "QDMA_SW_CTXT_W1_MM_CHN_MASK = BIT 19"
definition QDMA_SW_CTXT_W1_WBK_EN_MASK :: u32 where "QDMA_SW_CTXT_W1_WBK_EN_MASK = BIT 20"
definition QDMA_SW_CTXT_W1_IRQ_EN_MASK :: u32 where "QDMA_SW_CTXT_W1_IRQ_EN_MASK = BIT 21"
definition QDMA_SW_CTXT_W1_PORT_ID_MASK :: u32 where "QDMA_SW_CTXT_W1_PORT_ID_MASK = GENMASK 24 22"
definition QDMA_SW_CTXT_W1_IRQ_NO_LAST_MASK :: u32 where "QDMA_SW_CTXT_W1_IRQ_NO_LAST_MASK = BIT 25"
definition QDMA_SW_CTXT_W1_ERR_MASK :: u32 where "QDMA_SW_CTXT_W1_ERR_MASK = GENMASK 27 26"
definition QDMA_SW_CTXT_W1_ERR_WB_SENT_MASK :: u32 where "QDMA_SW_CTXT_W1_ERR_WB_SENT_MASK = BIT 28"
definition QDMA_SW_CTXT_W1_IRQ_REQ_MASK :: u32 where "QDMA_SW_CTXT_W1_IRQ_REQ_MASK = BIT 29"
definition QDMA_SW_CTXT_W1_MRKR_DIS_MASK :: u32 where "QDMA_SW_CTXT_W1_MRKR_DIS_MASK = BIT 30"
definition QDMA_SW_CTXT_W1_IS_MM_MASK :: u32 where "QDMA_SW_CTXT_W1_IS_MM_MASK = BIT 31"
definition QDMA_SW_CTXT_W4_VEC_MASK :: u32 where "QDMA_SW_CTXT_W4_VEC_MASK = GENMASK 10 0"
definition QDMA_SW_CTXT_W4_INTR_AGGR_MASK :: u32 where "QDMA_SW_CTXT_W4_INTR_AGGR_MASK = BIT 11"

lemmas soft_sw_masks [mask_defs] =
  QDMA_SW_CTXT_W0_PIDX_def
  QDMA_SW_CTXT_W0_IRQ_ARM_MASK_def
  QDMA_SW_CTXT_W0_FUNC_ID_MASK_def
  QDMA_SW_CTXT_W1_QEN_MASK_def
  QDMA_SW_CTXT_W1_FCRD_EN_MASK_def
  QDMA_SW_CTXT_W1_WBI_CHK_MASK_def
  QDMA_SW_CTXT_W1_WB_INT_EN_MASK_def
  QDMA_SW_CTXT_W1_AT_MASK_def
  QDMA_SW_CTXT_W1_FETCH_MAX_MASK_def
  QDMA_SW_CTXT_W1_RNG_SZ_MASK_def
  QDMA_SW_CTXT_W1_DSC_SZ_MASK_def
  QDMA_SW_CTXT_W1_BYP_MASK_def
  QDMA_SW_CTXT_W1_MM_CHN_MASK_def
  QDMA_SW_CTXT_W1_WBK_EN_MASK_def
  QDMA_SW_CTXT_W1_IRQ_EN_MASK_def
  QDMA_SW_CTXT_W1_PORT_ID_MASK_def
  QDMA_SW_CTXT_W1_IRQ_NO_LAST_MASK_def
  QDMA_SW_CTXT_W1_ERR_MASK_def
  QDMA_SW_CTXT_W1_ERR_WB_SENT_MASK_def
  QDMA_SW_CTXT_W1_IRQ_REQ_MASK_def
  QDMA_SW_CTXT_W1_MRKR_DIS_MASK_def
  QDMA_SW_CTXT_W1_IS_MM_MASK_def
  QDMA_SW_CTXT_W4_VEC_MASK_def
  QDMA_SW_CTXT_W4_INTR_AGGR_MASK_def

definition qdma_sw_context_words :: "qdma_descq_sw_ctxt \<Rightarrow> u32 list" where
  "qdma_sw_context_words ctxt =
     [FIELD_SET QDMA_SW_CTXT_W0_PIDX (ucast (sw_pidx ctxt)) OR
        FIELD_SET QDMA_SW_CTXT_W0_IRQ_ARM_MASK (ucast (sw_irq_arm ctxt)) OR
        FIELD_SET QDMA_SW_CTXT_W0_FUNC_ID_MASK (ucast (sw_fnc_id ctxt)),
      FIELD_SET QDMA_SW_CTXT_W1_QEN_MASK (ucast (sw_qen ctxt)) OR
        FIELD_SET QDMA_SW_CTXT_W1_FCRD_EN_MASK (ucast (sw_frcd_en ctxt)) OR
        FIELD_SET QDMA_SW_CTXT_W1_WBI_CHK_MASK (ucast (sw_wbi_chk ctxt)) OR
        FIELD_SET QDMA_SW_CTXT_W1_WB_INT_EN_MASK (ucast (sw_wbi_intvl_en ctxt)) OR
        FIELD_SET QDMA_SW_CTXT_W1_AT_MASK (ucast (sw_at ctxt)) OR
        FIELD_SET QDMA_SW_CTXT_W1_FETCH_MAX_MASK (ucast (sw_fetch_max ctxt)) OR
        FIELD_SET QDMA_SW_CTXT_W1_RNG_SZ_MASK (ucast (sw_rngsz_idx ctxt)) OR
        FIELD_SET QDMA_SW_CTXT_W1_DSC_SZ_MASK (ucast (sw_desc_sz ctxt)) OR
        FIELD_SET QDMA_SW_CTXT_W1_BYP_MASK (ucast (sw_bypass ctxt)) OR
        FIELD_SET QDMA_SW_CTXT_W1_MM_CHN_MASK (ucast (sw_mm_chn ctxt)) OR
        FIELD_SET QDMA_SW_CTXT_W1_WBK_EN_MASK (ucast (sw_wbk_en ctxt)) OR
        FIELD_SET QDMA_SW_CTXT_W1_IRQ_EN_MASK (ucast (sw_irq_en ctxt)) OR
        FIELD_SET QDMA_SW_CTXT_W1_PORT_ID_MASK (ucast (sw_port_id ctxt)) OR
        FIELD_SET QDMA_SW_CTXT_W1_IRQ_NO_LAST_MASK (ucast (sw_irq_no_last ctxt)) OR
        FIELD_SET QDMA_SW_CTXT_W1_ERR_MASK (ucast (sw_err ctxt)) OR
        FIELD_SET QDMA_SW_CTXT_W1_ERR_WB_SENT_MASK (ucast (sw_err_wb_sent ctxt)) OR
        FIELD_SET QDMA_SW_CTXT_W1_IRQ_REQ_MASK (ucast (sw_irq_req ctxt)) OR
        FIELD_SET QDMA_SW_CTXT_W1_MRKR_DIS_MASK (ucast (sw_mrkr_dis ctxt)) OR
        FIELD_SET QDMA_SW_CTXT_W1_IS_MM_MASK (ucast (sw_is_mm ctxt)),
      ucast (sw_ring_bs_addr ctxt AND 0xffffffff),
      ucast (drop_bit 32 (sw_ring_bs_addr ctxt) AND 0xffffffff),
      FIELD_SET QDMA_SW_CTXT_W4_VEC_MASK (ucast (sw_vec ctxt)) OR
        FIELD_SET QDMA_SW_CTXT_W4_INTR_AGGR_MASK (ucast (sw_intr_aggr ctxt))]"

definition qdma_sw_context_of :: "u32 list \<Rightarrow> qdma_descq_sw_ctxt \<Rightarrow> qdma_descq_sw_ctxt" where
  "qdma_sw_context_of ws ctxt =
     ctxt\<lparr>sw_pidx := ucast (FIELD_GET QDMA_SW_CTXT_W0_PIDX (ws ! 0)),
           sw_irq_arm := ucast (FIELD_GET QDMA_SW_CTXT_W0_IRQ_ARM_MASK (ws ! 0)),
           sw_fnc_id := ucast (FIELD_GET QDMA_SW_CTXT_W0_FUNC_ID_MASK (ws ! 0)),
           sw_qen := ucast (FIELD_GET QDMA_SW_CTXT_W1_QEN_MASK (ws ! 1)),
           sw_frcd_en := ucast (FIELD_GET QDMA_SW_CTXT_W1_FCRD_EN_MASK (ws ! 1)),
           sw_wbi_chk := ucast (FIELD_GET QDMA_SW_CTXT_W1_WBI_CHK_MASK (ws ! 1)),
           sw_wbi_intvl_en := ucast (FIELD_GET QDMA_SW_CTXT_W1_WB_INT_EN_MASK (ws ! 1)),
           sw_at := ucast (FIELD_GET QDMA_SW_CTXT_W1_AT_MASK (ws ! 1)),
           sw_fetch_max := ucast (FIELD_GET QDMA_SW_CTXT_W1_FETCH_MAX_MASK (ws ! 1)),
           sw_rngsz_idx := ucast (FIELD_GET QDMA_SW_CTXT_W1_RNG_SZ_MASK (ws ! 1)),
           sw_desc_sz := ucast (FIELD_GET QDMA_SW_CTXT_W1_DSC_SZ_MASK (ws ! 1)),
           sw_bypass := ucast (FIELD_GET QDMA_SW_CTXT_W1_BYP_MASK (ws ! 1)),
           sw_mm_chn := ucast (FIELD_GET QDMA_SW_CTXT_W1_MM_CHN_MASK (ws ! 1)),
           sw_wbk_en := ucast (FIELD_GET QDMA_SW_CTXT_W1_WBK_EN_MASK (ws ! 1)),
           sw_irq_en := ucast (FIELD_GET QDMA_SW_CTXT_W1_IRQ_EN_MASK (ws ! 1)),
           sw_port_id := ucast (FIELD_GET QDMA_SW_CTXT_W1_PORT_ID_MASK (ws ! 1)),
           sw_irq_no_last := ucast (FIELD_GET QDMA_SW_CTXT_W1_IRQ_NO_LAST_MASK (ws ! 1)),
           sw_err := ucast (FIELD_GET QDMA_SW_CTXT_W1_ERR_MASK (ws ! 1)),
           sw_err_wb_sent := ucast (FIELD_GET QDMA_SW_CTXT_W1_ERR_WB_SENT_MASK (ws ! 1)),
           sw_irq_req := ucast (FIELD_GET QDMA_SW_CTXT_W1_IRQ_REQ_MASK (ws ! 1)),
           sw_mrkr_dis := ucast (FIELD_GET QDMA_SW_CTXT_W1_MRKR_DIS_MASK (ws ! 1)),
           sw_is_mm := ucast (FIELD_GET QDMA_SW_CTXT_W1_IS_MM_MASK (ws ! 1)),
           sw_ring_bs_addr := push_bit 32 (ucast (ws ! 3)) OR ucast (ws ! 2),
           sw_vec := ucast (FIELD_GET QDMA_SW_CTXT_W4_VEC_MASK (ws ! 4)),
           sw_intr_aggr := ucast (FIELD_GET QDMA_SW_CTXT_W4_INTR_AGGR_MASK (ws ! 4))\<rparr>"

definition qdma_sw_context_write :: "'h bus \<Rightarrow> u8 \<Rightarrow> u16 \<Rightarrow> qdma_descq_sw_ctxt option \<Rightarrow> 'h \<Rightarrow> int \<times> 'h" where
  "qdma_sw_context_write b c2h hw_qid ctxt h =
     (case ctxt of
        None \<Rightarrow> (- err_code QDMA_ERR_INV_PARAM, h)
      | Some ctxt \<Rightarrow>
          qdma_indirect_reg_write b (if c2h \<noteq> 0 then QDMA_CTXT_SEL_SW_C2H else QDMA_CTXT_SEL_SW_H2C)
            hw_qid (qdma_sw_context_words ctxt) h)"

definition qdma_sw_context_read ::
    "'h bus \<Rightarrow> u8 \<Rightarrow> u16 \<Rightarrow> qdma_descq_sw_ctxt option \<Rightarrow> 'h \<Rightarrow> int \<times> qdma_descq_sw_ctxt option \<times> 'h" where
  "qdma_sw_context_read b c2h hw_qid ctxt h =
     (case ctxt of
        None \<Rightarrow> (- err_code QDMA_ERR_INV_PARAM, None, h)
      | Some ctxt \<Rightarrow>
          (case qdma_indirect_reg_read b (if c2h \<noteq> 0 then QDMA_CTXT_SEL_SW_C2H else QDMA_CTXT_SEL_SW_H2C)
              hw_qid QDMA_SW_CONTEXT_NUM_WORDS h of (rv, ws, h') \<Rightarrow>
             if rv < 0 then (rv, None, h') else (err_code QDMA_SUCCESS, Some (qdma_sw_context_of ws ctxt), h')))"

definition qdma_sw_context_clear :: "'h bus \<Rightarrow> u8 \<Rightarrow> u16 \<Rightarrow> 'h \<Rightarrow> int \<times> 'h" where
  "qdma_sw_context_clear b c2h hw_qid h =
     qdma_indirect_reg_clear b (if c2h \<noteq> 0 then QDMA_CTXT_SEL_SW_C2H else QDMA_CTXT_SEL_SW_H2C) hw_qid h"

definition qdma_sw_context_invalidate :: "'h bus \<Rightarrow> u8 \<Rightarrow> u16 \<Rightarrow> 'h \<Rightarrow> int \<times> 'h" where
  "qdma_sw_context_invalidate b c2h hw_qid h =
     qdma_indirect_reg_invalidate b (if c2h \<noteq> 0 then QDMA_CTXT_SEL_SW_C2H else QDMA_CTXT_SEL_SW_H2C) hw_qid h"

definition qdma_sw_ctx_conf_soft :: "'h bus \<Rightarrow> u8 \<Rightarrow> u16 \<Rightarrow> (qdma_descq_sw_ctxt, 'h) ctx_conf" where
  "qdma_sw_ctx_conf_soft b c2h hw_qid ctxt access_type h =
     (if c2h > 1 then (- err_code QDMA_ERR_INV_PARAM, None, h)
      else case access_type of
        QDMA_HW_ACCESS_READ \<Rightarrow> qdma_sw_context_read b c2h hw_qid ctxt h
      | QDMA_HW_ACCESS_WRITE \<Rightarrow> (case qdma_sw_context_write b c2h hw_qid ctxt h of (rv, h') \<Rightarrow> (rv, None, h'))
      | QDMA_HW_ACCESS_CLEAR \<Rightarrow> (case qdma_sw_context_clear b c2h hw_qid h of (rv, h') \<Rightarrow> (rv, None, h'))
      | QDMA_HW_ACCESS_INVALIDATE \<Rightarrow> (case qdma_sw_context_invalidate b c2h hw_qid h of (rv, h') \<Rightarrow> (rv, None, h')))"

section \<open>Prefetch context\<close>

definition QDMA_PFETCH_CONTEXT_NUM_WORDS :: nat where "QDMA_PFETCH_CONTEXT_NUM_WORDS = 2"

definition QDMA_PFTCH_CTXT_W0_BYPASS_MASK :: u32 where "QDMA_PFTCH_CTXT_W0_BYPASS_MASK = BIT 0"
definition QDMA_PFTCH_CTXT_W0_BUF_SIZE_IDX_MASK :: u32 where "QDMA_PFTCH_CTXT_W0_BUF_SIZE_IDX_MASK = GENMASK 4 1"
definition QDMA_PFTCH_CTXT_W0_PORT_ID_MASK :: u32 where "QDMA_PFTCH_CTXT_W0_PORT_ID_MASK = GENMASK 7 5"
definition QDMA_PFTCH_CTXT_W0_ERR_MASK :: u32 where "QDMA_PFTCH_CTXT_W0_ERR_MASK = BIT 26"
definition QDMA_PFTCH_CTXT_W0_PFETCH_EN_MASK :: u32 where "QDMA_PFTCH_CTXT_W0_PFETCH_EN_MASK = BIT 27"
definition QDMA_PFTCH_CTXT_W0_Q_IN_PFETCH_MASK :: u32 where "QDMA_PFTCH_CTXT_W0_Q_IN_PFETCH_MASK = BIT 28"
definition QDMA_PFTCH_CTXT_W0_SW_CRDT_L_MASK :: u32 where "QDMA_PFTCH_CTXT_W0_SW_CRDT_L_MASK = GENMASK 31 29"
definition QDMA_PFTCH_CTXT_W1_SW_CRDT_H_MASK :: u32 where "QDMA_PFTCH_CTXT_W1_SW_CRDT_H_MASK = GENMASK 12 0"
definition QDMA_PFTCH_CTXT_W1_VALID_MASK :: u32 where "QDMA_PFTCH_CTXT_W1_VALID_MASK = BIT 13"

lemmas soft_pfetch_masks [mask_defs] =
  QDMA_PFTCH_CTXT_W0_BYPASS_MASK_def
  QDMA_PFTCH_CTXT_W0_BUF_SIZE_IDX_MASK_def
  QDMA_PFTCH_CTXT_W0_PORT_ID_MASK_def
  QDMA_PFTCH_CTXT_W0_ERR_MASK_def
  QDMA_PFTCH_CTXT_W0_PFETCH_EN_MASK_def
  QDMA_PFTCH_CTXT_W0_Q_IN_PFETCH_MASK_def
  QDMA_PFTCH_CTXT_W0_SW_CRDT_L_MASK_def
  QDMA_PFTCH_CTXT_W1_SW_CRDT_H_MASK_def
  QDMA_PFTCH_CTXT_W1_VALID_MASK_def

definition qdma_pfetch_context_words :: "qdma_descq_prefetch_ctxt \<Rightarrow> u32 list" where
  "qdma_pfetch_context_words ctxt =
     (let sw_crdt_l = FIELD_GET QDMA_PFTCH_CTXT_SW_CRDT_GET_L_MASK (ucast (pc_sw_crdt ctxt));
          sw_crdt_h = FIELD_GET QDMA_PFTCH_CTXT_SW_CRDT_GET_H_MASK (ucast (pc_sw_crdt ctxt))
      in [FIELD_SET QDMA_PFTCH_CTXT_W0_BYPASS_MASK (ucast (pc_bypass ctxt)) OR
            FIELD_SET QDMA_PFTCH_CTXT_W0_BUF_SIZE_IDX_MASK (ucast (pc_bufsz_idx ctxt)) OR
            FIELD_SET QDMA_PFTCH_CTXT_W0_PORT_ID_MASK (ucast (pc_port_id ctxt)) OR
            FIELD_SET QDMA_PFTCH_CTXT_W0_ERR_MASK (ucast (pc_err ctxt)) OR
            FIELD_SET QDMA_PFTCH_CTXT_W0_PFETCH_EN_MASK (ucast (pc_pfch_en ctxt)) OR
            FIELD_SET QDMA_PFTCH_CTXT_W0_Q_IN_PFETCH_MASK (ucast (pc_pfch ctxt)) OR
            FIELD_SET QDMA_PFTCH_CTXT_W0_SW_CRDT_L_MASK sw_crdt_l,
          FIELD_SET QDMA_PFTCH_CTXT_W1_SW_CRDT_H_MASK sw_crdt_h OR
            FIELD_SET QDMA_PFTCH_CTXT_W1_VALID_MASK (ucast (pc_valid ctxt))])"

definition qdma_pfetch_context_of :: "u32 list \<Rightarrow> qdma_descq_prefetch_ctxt \<Rightarrow> qdma_descq_prefetch_ctxt" where
  "qdma_pfetch_context_of ws ctxt =
     (let sw_crdt_l = FIELD_GET QDMA_PFTCH_CTXT_W0_SW_CRDT_L_MASK (ws ! 0);
          sw_crdt_h = FIELD_GET QDMA_PFTCH_CTXT_W1_SW_CRDT_H_MASK (ws ! 1)
      in ctxt\<lparr>pc_bypass := ucast (FIELD_GET QDMA_PFTCH_CTXT_W0_BYPASS_MASK (ws ! 0)),
           pc_bufsz_idx := ucast (FIELD_GET QDMA_PFTCH_CTXT_W0_BUF_SIZE_IDX_MASK (ws ! 0)),
           pc_port_id := ucast (FIELD_GET QDMA_PFTCH_CTXT_W0_PORT_ID_MASK (ws ! 0)),
           pc_err := ucast (FIELD_GET QDMA_PFTCH_CTXT_W0_ERR_MASK (ws ! 0)),
           pc_pfch_en := ucast (FIELD_GET QDMA_PFTCH_CTXT_W0_PFETCH_EN_MASK (ws ! 0)),
           pc_pfch := ucast (FIELD_GET QDMA_PFTCH_CTXT_W0_Q_IN_PFETCH_MASK (ws ! 0)),
           pc_valid := ucast (FIELD_GET QDMA_PFTCH_CTXT_W1_VALID_MASK (ws ! 1)),
           pc_sw_crdt := ucast (FIELD_SET QDMA_PFTCH_CTXT_SW_CRDT_GET_L_MASK sw_crdt_l OR
             FIELD_SET QDMA_PFTCH_CTXT_SW_CRDT_GET_H_MASK sw_crdt_h)\<rparr>)"

definition qdma_pfetch_context_write :: "'h bus \<Rightarrow> u16 \<Rightarrow> qdma_descq_prefetch_ctxt option \<Rightarrow> 'h \<Rightarrow> int \<times> 'h" where
  "qdma_pfetch_context_write b hw_qid ctxt h =
     (case ctxt of
        None \<Rightarrow> (- err_code QDMA_ERR_INV_PARAM, h)
      | Some ctxt \<Rightarrow>
          qdma_indirect_reg_write b QDMA_CTXT_SEL_PFTCH hw_qid (qdma_pfetch_context_words ctxt) h)"

definition qdma_pfetch_context_read ::
    "'h bus \<Rightarrow> u16 \<Rightarrow> qdma_descq_prefetch_ctxt option \<Rightarrow> 'h \<Rightarrow> int \<times> qdma_descq_prefetch_ctxt option \<times> 'h" where
  "qdma_pfetch_context_read b hw_qid ctxt h =
     (case ctxt of
        None \<Rightarrow> (- err_code QDMA_ERR_INV_PARAM, None, h)
      | Some ctxt \<Rightarrow>
          (case qdma_indirect_reg_read b QDMA_CTXT_SEL_PFTCH hw_qid QDMA_PFETCH_CONTEXT_NUM_WORDS h of (rv, ws, h') \<Rightarrow>
             if rv < 0 then (rv, None, h') else (err_code QDMA_SUCCESS, Some (qdma_pfetch_context_of ws ctxt), h')))"

definition qdma_pfetch_context_clear :: "'h bus \<Rightarrow> u16 \<Rightarrow> 'h \<Rightarrow> int \<times> 'h" where
  "qdma_pfetch_context_clear b hw_qid h = qdma_indirect_reg_clear b QDMA_CTXT_SEL_PFTCH hw_qid h"

definition qdma_pfetch_context_invalidate :: "'h bus \<Rightarrow> u16 \<Rightarrow> 'h \<Rightarrow> int \<times> 'h" where
  "qdma_pfetch_context_invalidate b hw_qid h = qdma_indirect_reg_invalidate b QDMA_CTXT_SEL_PFTCH hw_qid h"

definition qdma_pfetch_ctx_conf_soft :: "'h bus \<Rightarrow> u16 \<Rightarrow> (qdma_descq_prefetch_ctxt, 'h) ctx_conf" where
  "qdma_pfetch_ctx_conf_soft b hw_qid ctxt access_type h =
     (case access_type of
        QDMA_HW_ACCESS_READ \<Rightarrow> qdma_pfetch_context_read b hw_qid ctxt h
      | QDMA_HW_ACCESS_WRITE \<Rightarrow> (case qdma_pfetch_context_write b hw_qid ctxt h of (rv, h') \<Rightarrow> (rv, None, h'))
      | QDMA_HW_ACCESS_CLEAR \<Rightarrow> (case qdma_pfetch_context_clear b hw_qid h of (rv, h') \<Rightarrow> (rv, None, h'))
      | QDMA_HW_ACCESS_INVALIDATE \<Rightarrow> (case qdma_pfetch_context_invalidate b hw_qid h of (rv, h') \<Rightarrow> (rv, None, h')))"

section \<open>Completion context\<close>

definition QDMA_CMPT_CONTEXT_NUM_WORDS :: nat where "QDMA_CMPT_CONTEXT_NUM_WORDS = 5"

definition QDMA_COMPL_CTXT_W0_EN_STAT_DESC_MASK :: u32 where "QDMA_COMPL_CTXT_W0_EN_STAT_DESC_MASK = BIT 0"
definition QDMA_COMPL_CTXT_W0_EN_INT_MASK :: u32 where "QDMA_COMPL_CTXT_W0_EN_INT_MASK = BIT 1"
definition QDMA_COMPL_CTXT_W0_TRIG_MODE_MASK :: u32 where "QDMA_COMPL_CTXT_W0_TRIG_MODE_MASK = GENMASK 4 2"
definition QDMA_COMPL_CTXT_W0_FNC_ID_MASK :: u32 where "QDMA_COMPL_CTXT_W0_FNC_ID_MASK = GENMASK 12 5"
definition QDMA_COMPL_CTXT_W0_COUNTER_IDX_MASK :: u32 where "QDMA_COMPL_CTXT_W0_COUNTER_IDX_MASK = GENMASK 20 17"
definition QDMA_COMPL_CTXT_W0_TIMER_IDX_MASK :: u32 where "QDMA_COMPL_CTXT_W0_TIMER_IDX_MASK = GENMASK 24 21"
definition QDMA_COMPL_CTXT_W0_INT_ST_MASK :: u32 where "QDMA_COMPL_CTXT_W0_INT_ST_MASK = GENMASK 26 25"
definition QDMA_COMPL_CTXT_W0_COLOR_MASK :: u32 where "QDMA_COMPL_CTXT_W0_COLOR_MASK = BIT 27"
definition QDMA_COMPL_CTXT_W0_RING_SZ_MASK :: u32 where "QDMA_COMPL_CTXT_W0_RING_SZ_MASK = GENMASK 31 28"
definition QDMA_COMPL_CTXT_W1_BADDR_64_L_MASK :: u32 where "QDMA_COMPL_CTXT_W1_BADDR_64_L_MASK = GENMASK 31 6"
definition QDMA_COMPL_CTXT_W2_BADDR_64_H_MASK :: u32 where "QDMA_COMPL_CTXT_W2_BADDR_64_H_MASK = GENMASK 25 0"
definition QDMA_COMPL_CTXT_W2_DESC_SIZE_MASK :: u32 where "QDMA_COMPL_CTXT_W2_DESC_SIZE_MASK = GENMASK 27 26"
definition QDMA_COMPL_CTXT_W2_PIDX_L_MASK :: u32 where "QDMA_COMPL_CTXT_W2_PIDX_L_MASK = GENMASK 31 28"
definition QDMA_COMPL_CTXT_W3_PIDX_H_MASK :: u32 where "QDMA_COMPL_CTXT_W3_PIDX_H_MASK = GENMASK 11 0"
definition QDMA_COMPL_CTXT_W3_CIDX_MASK :: u32 where "QDMA_COMPL_CTXT_W3_CIDX_MASK = GENMASK 27 12"
definition QDMA_COMPL_CTXT_W3_VALID_MASK :: u32 where "QDMA_COMPL_CTXT_W3_VALID_MASK = BIT 28"
definition QDMA_COMPL_CTXT_W3_ERR_MASK :: u32 where "QDMA_COMPL_CTXT_W3_ERR_MASK = GENMASK 30 29"
definition QDMA_COMPL_CTXT_W3_USR_TRG_PND_MASK :: u32 where "QDMA_COMPL_CTXT_W3_USR_TRG_PND_MASK = BIT 31"
definition QDMA_COMPL_CTXT_W4_TMR_RUN_MASK :: u32 where "QDMA_COMPL_CTXT_W4_TMR_RUN_MASK = BIT 0"
definition QDMA_COMPL_CTXT_W4_FULL_UPDT_MASK :: u32 where "QDMA_COMPL_CTXT_W4_FULL_UPDT_MASK = BIT 1"
definition QDMA_COMPL_CTXT_W4_OVF_CHK_DIS_MASK :: u32 where "QDMA_COMPL_CTXT_W4_OVF_CHK_DIS_MASK = BIT 2"
definition QDMA_COMPL_CTXT_W4_AT_MASK :: u32 where "QDMA_COMPL_CTXT_W4_AT_MASK = BIT 3"
definition QDMA_COMPL_CTXT_W4_INTR_VEC_MASK :: u32 where "QDMA_COMPL_CTXT_W4_INTR_VEC_MASK = GENMASK 14 4"
definition QDMA_COMPL_CTXT_W4_INTR_AGGR_MASK :: u32 where "QDMA_COMPL_CTXT_W4_INTR_AGGR_MASK = BIT 15"

lemmas soft_cmpt_masks [mask_defs] =
  QDMA_COMPL_CTXT_W0_EN_STAT_DESC_MASK_def
  QDMA_COMPL_CTXT_W0_EN_INT_MASK_def
  QDMA_COMPL_CTXT_W0_TRIG_MODE_MASK_def
  QDMA_COMPL_CTXT_W0_FNC_ID_MASK_def
  QDMA_COMPL_CTXT_W0_COUNTER_IDX_MASK_def
  QDMA_COMPL_CTXT_W0_TIMER_IDX_MASK_def
  QDMA_COMPL_CTXT_W0_INT_ST_MASK_def
  QDMA_COMPL_CTXT_W0_COLOR_MASK_def
  QDMA_COMPL_CTXT_W0_RING_SZ_MASK_def
  QDMA_COMPL_CTXT_W1_BADDR_64_L_MASK_def
  QDMA_COMPL_CTXT_W2_BADDR_64_H_MASK_def
  QDMA_COMPL_CTXT_W2_DESC_SIZE_MASK_def
  QDMA_COMPL_CTXT_W2_PIDX_L_MASK_def
  QDMA_COMPL_CTXT_W3_PIDX_H_MASK_def
  QDMA_COMPL_CTXT_W3_CIDX_MASK_def
  QDMA_COMPL_CTXT_W3_VALID_MASK_def
  QDMA_COMPL_CTXT_W3_ERR_MASK_def
  QDMA_COMPL_CTXT_W3_USR_TRG_PND_MASK_def
  QDMA_COMPL_CTXT_W4_TMR_RUN_MASK_def
  QDMA_COMPL_CTXT_W4_FULL_UPDT_MASK_def
  QDMA_COMPL_CTXT_W4_OVF_CHK_DIS_MASK_def
  QDMA_COMPL_CTXT_W4_AT_MASK_def
  QDMA_COMPL_CTXT_W4_INTR_VEC_MASK_def
  QDMA_COMPL_CTXT_W4_INTR_AGGR_MASK_def

definition qdma_cmpt_context_words :: "qdma_descq_cmpt_ctxt \<Rightarrow> u32 list" where
  "qdma_cmpt_context_words ctxt =
     (let baddr_l = ucast (FIELD_GET QDMA_COMPL_CTXT_BADDR_GET_L_MASK (cm_bs_addr ctxt));
          baddr_h = ucast (FIELD_GET QDMA_COMPL_CTXT_BADDR_GET_H_MASK (cm_bs_addr ctxt));
          pidx_l = FIELD_GET QDMA_COMPL_CTXT_PIDX_GET_L_MASK (ucast (cm_pidx ctxt));
          pidx_h = FIELD_GET QDMA_COMPL_CTXT_PIDX_GET_H_MASK (ucast (cm_pidx ctxt))
      in [FIELD_SET QDMA_COMPL_CTXT_W0_EN_STAT_DESC_MASK (ucast (cm_en_stat_desc ctxt)) OR
            FIELD_SET QDMA_COMPL_CTXT_W0_EN_INT_MASK (ucast (cm_en_int ctxt)) OR
            FIELD_SET QDMA_COMPL_CTXT_W0_TRIG_MODE_MASK (ucast (cm_trig_mode ctxt)) OR
            FIELD_SET QDMA_COMPL_CTXT_W0_FNC_ID_MASK (ucast (cm_fnc_id ctxt)) OR
            FIELD_SET QDMA_COMPL_CTXT_W0_COUNTER_IDX_MASK (ucast (cm_counter_idx ctxt)) OR
            FIELD_SET QDMA_COMPL_CTXT_W0_TIMER_IDX_MASK (ucast (cm_timer_idx ctxt)) OR
            FIELD_SET QDMA_COMPL_CTXT_W0_INT_ST_MASK (ucast (cm_in_st ctxt)) OR
            FIELD_SET QDMA_COMPL_CTXT_W0_COLOR_MASK (ucast (cm_color ctxt)) OR
            FIELD_SET QDMA_COMPL_CTXT_W0_RING_SZ_MASK (ucast (cm_ringsz_idx ctxt)),
          FIELD_SET QDMA_COMPL_CTXT_W1_BADDR_64_L_MASK baddr_l,
          FIELD_SET QDMA_COMPL_CTXT_W2_BADDR_64_H_MASK baddr_h OR
            FIELD_SET QDMA_COMPL_CTXT_W2_DESC_SIZE_MASK (ucast (cm_desc_sz ctxt)) OR
            FIELD_SET QDMA_COMPL_CTXT_W2_PIDX_L_MASK pidx_l,
          FIELD_SET QDMA_COMPL_CTXT_W3_PIDX_H_MASK pidx_h OR
            FIELD_SET QDMA_COMPL_CTXT_W3_CIDX_MASK (ucast (cm_cidx ctxt)) OR
            FIELD_SET QDMA_COMPL_CTXT_W3_VALID_MASK (ucast (cm_valid ctxt)) OR
            FIELD_SET QDMA_COMPL_CTXT_W3_ERR_MASK (ucast (cm_err ctxt)) OR
            FIELD_SET QDMA_COMPL_CTXT_W3_USR_TRG_PND_MASK (ucast (cm_user_trig_pend ctxt)),
          FIELD_SET QDMA_COMPL_CTXT_W4_TMR_RUN_MASK (ucast (cm_timer_running ctxt)) OR
            FIELD_SET QDMA_COMPL_CTXT_W4_FULL_UPDT_MASK (ucast (cm_full_upd ctxt)) OR
            FIELD_SET QDMA_COMPL_CTXT_W4_OVF_CHK_DIS_MASK (ucast (cm_ovf_chk_dis ctxt)) OR
            FIELD_SET QDMA_COMPL_CTXT_W4_AT_MASK (ucast (cm_at ctxt)) OR
            FIELD_SET QDMA_COMPL_CTXT_W4_INTR_VEC_MASK (ucast (cm_vec ctxt)) OR
            FIELD_SET QDMA_COMPL_CTXT_W4_INTR_AGGR_MASK (ucast (cm_int_aggr ctxt))])"

definition qdma_cmpt_context_of :: "u32 list \<Rightarrow> qdma_descq_cmpt_ctxt \<Rightarrow> qdma_descq_cmpt_ctxt" where
  "qdma_cmpt_context_of ws ctxt =
     (let baddr_l = FIELD_GET QDMA_COMPL_CTXT_W1_BADDR_64_L_MASK (ws ! 1);
          baddr_h = FIELD_GET QDMA_COMPL_CTXT_W2_BADDR_64_H_MASK (ws ! 2);
          pidx_l = FIELD_GET QDMA_COMPL_CTXT_W2_PIDX_L_MASK (ws ! 2);
          pidx_h = FIELD_GET QDMA_COMPL_CTXT_W3_PIDX_H_MASK (ws ! 3)
      in ctxt\<lparr>cm_en_stat_desc := ucast (FIELD_GET QDMA_COMPL_CTXT_W0_EN_STAT_DESC_MASK (ws ! 0)),
           cm_en_int := ucast (FIELD_GET QDMA_COMPL_CTXT_W0_EN_INT_MASK (ws ! 0)),
           cm_trig_mode := ucast (FIELD_GET QDMA_COMPL_CTXT_W0_TRIG_MODE_MASK (ws ! 0)),
           cm_fnc_id := ucast (FIELD_GET QDMA_COMPL_CTXT_W0_FNC_ID_MASK (ws ! 0)),
           cm_counter_idx := ucast (FIELD_GET QDMA_COMPL_CTXT_W0_COUNTER_IDX_MASK (ws ! 0)),
           cm_timer_idx := ucast (FIELD_GET QDMA_COMPL_CTXT_W0_TIMER_IDX_MASK (ws ! 0)),
           cm_in_st := ucast (FIELD_GET QDMA_COMPL_CTXT_W0_INT_ST_MASK (ws ! 0)),
           cm_color := ucast (FIELD_GET QDMA_COMPL_CTXT_W0_COLOR_MASK (ws ! 0)),
           cm_ringsz_idx := ucast (FIELD_GET QDMA_COMPL_CTXT_W0_RING_SZ_MASK (ws ! 0)),
           cm_desc_sz := ucast (FIELD_GET QDMA_COMPL_CTXT_W2_DESC_SIZE_MASK (ws ! 2)),
           cm_cidx := ucast (FIELD_GET QDMA_COMPL_CTXT_W3_CIDX_MASK (ws ! 3)),
           cm_valid := ucast (FIELD_GET QDMA_COMPL_CTXT_W3_VALID_MASK (ws ! 3)),
           cm_err := ucast (FIELD_GET QDMA_COMPL_CTXT_W3_ERR_MASK (ws ! 3)),
           cm_user_trig_pend := ucast (FIELD_GET QDMA_COMPL_CTXT_W3_USR_TRG_PND_MASK (ws ! 3)),
           cm_timer_running := ucast (FIELD_GET QDMA_COMPL_CTXT_W4_TMR_RUN_MASK (ws ! 4)),
           cm_full_upd := ucast (FIELD_GET QDMA_COMPL_CTXT_W4_FULL_UPDT_MASK (ws ! 4)),
           cm_ovf_chk_dis := ucast (FIELD_GET QDMA_COMPL_CTXT_W4_OVF_CHK_DIS_MASK (ws ! 4)),
           cm_at := ucast (FIELD_GET QDMA_COMPL_CTXT_W4_AT_MASK (ws ! 4)),
           cm_vec := ucast (FIELD_GET QDMA_COMPL_CTXT_W4_INTR_VEC_MASK (ws ! 4)),
           cm_int_aggr := ucast (FIELD_GET QDMA_COMPL_CTXT_W4_INTR_AGGR_MASK (ws ! 4)),
           cm_bs_addr := FIELD_SET QDMA_COMPL_CTXT_BADDR_GET_L_MASK (ucast baddr_l) OR
             FIELD_SET QDMA_COMPL_CTXT_BADDR_GET_H_MASK (ucast baddr_h),
           cm_pidx := ucast (FIELD_SET QDMA_COMPL_CTXT_PIDX_GET_L_MASK pidx_l OR
             FIELD_SET QDMA_COMPL_CTXT_PIDX_GET_H_MASK pidx_h)\<rparr>)"

definition qdma_cmpt_context_write :: "'h bus \<Rightarrow> u16 \<Rightarrow> qdma_descq_cmpt_ctxt option \<Rightarrow> 'h \<Rightarrow> int \<times> 'h" where
  "qdma_cmpt_context_write b hw_qid ctxt h =
     (case ctxt of
        None \<Rightarrow> (- err_code QDMA_ERR_INV_PARAM, h)
      | Some ctxt \<Rightarrow>
          if unat (cm_trig_mode ctxt) > QDMA_CMPT_UPDATE_TRIG_MODE_TMR_CNTR then (- err_code QDMA_ERR_INV_PARAM, h)
          else qdma_indirect_reg_write b QDMA_CTXT_SEL_CMPT hw_qid (qdma_cmpt_context_words ctxt) h)"

definition qdma_cmpt_context_read ::
    "'h bus \<Rightarrow> u16 \<Rightarrow> qdma_descq_cmpt_ctxt option \<Rightarrow> 'h \<Rightarrow> int \<times> qdma_descq_cmpt_ctxt option \<times> 'h" where
  "qdma_cmpt_context_read b hw_qid ctxt h =
     (case ctxt of
        None \<Rightarrow> (- err_code QDMA_ERR_INV_PARAM, None, h)
      | Some ctxt \<Rightarrow>
          (case qdma_indirect_reg_read b QDMA_CTXT_SEL_CMPT hw_qid QDMA_CMPT_CONTEXT_NUM_WORDS h of (rv, ws, h') \<Rightarrow>
             if rv < 0 then (rv, None, h') else (err_code QDMA_SUCCESS, Some (qdma_cmpt_context_of ws ctxt), h')))"

definition qdma_cmpt_context_clear :: "'h bus \<Rightarrow> u16 \<Rightarrow> 'h \<Rightarrow> int \<times> 'h" where
  "qdma_cmpt_context_clear b hw_qid h = qdma_indirect_reg_clear b QDMA_CTXT_SEL_CMPT hw_qid h"

definition qdma_cmpt_context_invalidate :: "'h bus \<Rightarrow> u16 \<Rightarrow> 'h \<Rightarrow> int \<times> 'h" where
  "qdma_cmpt_context_invalidate b hw_qid h = qdma_indirect_reg_invalidate b QDMA_CTXT_SEL_CMPT hw_qid h"

definition qdma_cmpt_ctx_conf_soft :: "'h bus \<Rightarrow> u16 \<Rightarrow> (qdma_descq_cmpt_ctxt, 'h) ctx_conf" where
  "qdma_cmpt_ctx_conf_soft b hw_qid ctxt access_type h =
     (case access_type of
        QDMA_HW_ACCESS_READ \<Rightarrow> qdma_cmpt_context_read b hw_qid ctxt h
      | QDMA_HW_ACCESS_WRITE \<Rightarrow> (case qdma_cmpt_context_write b hw_qid ctxt h of (rv, h') \<Rightarrow> (rv, None, h'))
      | QDMA_HW_ACCESS_CLEAR \<Rightarrow> (case qdma_cmpt_context_clear b hw_qid h of (rv, h') \<Rightarrow> (rv, None, h'))
      | QDMA_HW_ACCESS_INVALIDATE \<Rightarrow> (case qdma_cmpt_context_invalidate b hw_qid h of (rv, h') \<Rightarrow> (rv, None, h')))"

section \<open>Hardware context\<close>

definition QDMA_HW_CONTEXT_NUM_WORDS :: nat where "QDMA_HW_CONTEXT_NUM_WORDS = 2"

definition QDMA_HW_CTXT_W0_CIDX_MASK :: u32 where "QDMA_HW_CTXT_W0_CIDX_MASK = GENMASK 15 0"
definition QDMA_HW_CTXT_W0_CRD_USE_MASK :: u32 where "QDMA_HW_CTXT_W0_CRD_USE_MASK = GENMASK 31 16"
definition QDMA_HW_CTXT_W1_DSC_PND_MASK :: u32 where "QDMA_HW_CTXT_W1_DSC_PND_MASK = BIT 8"
definition QDMA_HW_CTXT_W1_IDL_STP_B_MASK :: u32 where "QDMA_HW_CTXT_W1_IDL_STP_B_MASK = BIT 9"
definition QDMA_HW_CTXT_W1_EVENT_PEND_MASK :: u32 where "QDMA_HW_CTXT_W1_EVENT_PEND_MASK = BIT 10"
definition QDMA_HW_CTXT_W1_FETCH_PEND_MASK :: u32 where "QDMA_HW_CTXT_W1_FETCH_PEND_MASK = GENMASK 14 11"

lemmas soft_hw_masks [mask_defs] =
  QDMA_HW_CTXT_W0_CIDX_MASK_def
  QDMA_HW_CTXT_W0_CRD_USE_MASK_def
  QDMA_HW_CTXT_W1_DSC_PND_MASK_def
  QDMA_HW_CTXT_W1_IDL_STP_B_MASK_def
  QDMA_HW_CTXT_W1_EVENT_PEND_MASK_def
  QDMA_HW_CTXT_W1_FETCH_PEND_MASK_def

definition qdma_hw_context_of :: "u32 list \<Rightarrow> qdma_descq_hw_ctxt \<Rightarrow> qdma_descq_hw_ctxt" where
  "qdma_hw_context_of ws ctxt =
     ctxt\<lparr>hw_cidx := ucast (FIELD_GET QDMA_HW_CTXT_W0_CIDX_MASK (ws ! 0)),
           hw_crd_use := ucast (FIELD_GET QDMA_HW_CTXT_W0_CRD_USE_MASK (ws ! 0)),
           hw_dsc_pend := ucast (FIELD_GET QDMA_HW_CTXT_W1_DSC_PND_MASK (ws ! 1)),
           hw_idl_stp_b := ucast (FIELD_GET QDMA_HW_CTXT_W1_IDL_STP_B_MASK (ws ! 1)),
           hw_evt_pnd := ucast (FIELD_GET QDMA_HW_CTXT_W1_EVENT_PEND_MASK (ws ! 1)),
           hw_fetch_pnd := ucast (FIELD_GET QDMA_HW_CTXT_W1_FETCH_PEND_MASK (ws ! 1))\<rparr>"

definition qdma_hw_context_read ::
    "'h bus \<Rightarrow> u8 \<Rightarrow> u16 \<Rightarrow> qdma_descq_hw_ctxt option \<Rightarrow> 'h \<Rightarrow> int \<times> qdma_descq_hw_ctxt option \<times> 'h" where
  "qdma_hw_context_read b c2h hw_qid ctxt h =
     (case ctxt of
        None \<Rightarrow> (- err_code QDMA_ERR_INV_PARAM, None, h)
      | Some ctxt \<Rightarrow>
          (case qdma_indirect_reg_read b (if c2h \<noteq> 0 then QDMA_CTXT_SEL_HW_C2H else QDMA_CTXT_SEL_HW_H2C)
              hw_qid QDMA_HW_CONTEXT_NUM_WORDS h of (rv, ws, h') \<Rightarrow>
             if rv < 0 then (rv, None, h') else (err_code QDMA_SUCCESS, Some (qdma_hw_context_of ws ctxt), h')))"

definition qdma_hw_context_clear :: "'h bus \<Rightarrow> u8 \<Rightarrow> u16 \<Rightarrow> 'h \<Rightarrow> int \<times> 'h" where
  "qdma_hw_context_clear b c2h hw_qid h =
     qdma_indirect_reg_clear b (if c2h \<noteq> 0 then QDMA_CTXT_SEL_HW_C2H else QDMA_CTXT_SEL_HW_H2C) hw_qid h"

definition qdma_hw_context_invalidate :: "'h bus \<Rightarrow> u8 \<Rightarrow> u16 \<Rightarrow> 'h \<Rightarrow> int \<times> 'h" where
  "qdma_hw_context_invalidate b c2h hw_qid h =
     qdma_indirect_reg_invalidate b (if c2h \<noteq> 0 then QDMA_CTXT_SEL_HW_C2H else QDMA_CTXT_SEL_HW_H2C) hw_qid h"

definition qdma_hw_ctx_conf_soft :: "'h bus \<Rightarrow> u8 \<Rightarrow> u16 \<Rightarrow> (qdma_descq_hw_ctxt, 'h) ctx_conf" where
  "qdma_hw_ctx_conf_soft b c2h hw_qid ctxt access_type h =
     (if c2h > 1 then (- err_code QDMA_ERR_INV_PARAM, None, h)
      else case access_type of
        QDMA_HW_ACCESS_READ \<Rightarrow> qdma_hw_context_read b c2h hw_qid ctxt h
      | QDMA_HW_ACCESS_WRITE \<Rightarrow> (- err_code QDMA_ERR_INV_PARAM, None, h)
      | QDMA_HW_ACCESS_CLEAR \<Rightarrow> (case qdma_hw_context_clear b c2h hw_qid h of (rv, h') \<Rightarrow> (rv, None, h'))
      | QDMA_HW_ACCESS_INVALIDATE \<Rightarrow> (case qdma_hw_context_invalidate b c2h hw_qid h of (rv, h') \<Rightarrow> (rv, None, h')))"

section \<open>Credit context\<close>

definition QDMA_CR_CONTEXT_NUM_WORDS :: nat where "QDMA_CR_CONTEXT_NUM_WORDS = 1"

definition QDMA_CR_CTXT_W0_CREDT_MASK :: u32 where "QDMA_CR_CTXT_W0_CREDT_MASK = GENMASK 15 0"

lemmas soft_credit_masks [mask_defs] =
  QDMA_CR_CTXT_W0_CREDT_MASK_def

definition qdma_credit_context_of :: "u32 list \<Rightarrow> qdma_descq_credit_ctxt \<Rightarrow> qdma_descq_credit_ctxt" where
  "qdma_credit_context_of ws ctxt =
     ctxt\<lparr>cr_credit := FIELD_GET QDMA_CR_CTXT_W0_CREDT_MASK (ws ! 0)\<rparr>"

definition qdma_credit_context_read ::
    "'h bus \<Rightarrow> u8 \<Rightarrow> u16 \<Rightarrow> qdma_descq_credit_ctxt option \<Rightarrow> 'h \<Rightarrow> int \<times> qdma_descq_credit_ctxt option \<times> 'h" where
  "qdma_credit_context_read b c2h hw_qid ctxt h =
     (case ctxt of
        None \<Rightarrow> (- err_code QDMA_ERR_INV_PARAM, None, h)
      | Some ctxt \<Rightarrow>
          (case qdma_indirect_reg_read b (if c2h \<noteq> 0 then QDMA_CTXT_SEL_CR_C2H else QDMA_CTXT_SEL_CR_H2C)
              hw_qid QDMA_CR_CONTEXT_NUM_WORDS h of (rv, ws, h') \<Rightarrow>
             if rv < 0 then (rv, None, h') else (err_code QDMA_SUCCESS, Some (qdma_credit_context_of ws ctxt), h')))"

definition qdma_credit_context_clear :: "'h bus \<Rightarrow> u8 \<Rightarrow> u16 \<Rightarrow> 'h \<Rightarrow> int \<times> 'h" where
  "qdma_credit_context_clear b c2h hw_qid h =
     qdma_indirect_reg_clear b (if c2h \<noteq> 0 then QDMA_CTXT_SEL_CR_C2H else QDMA_CTXT_SEL_CR_H2C) hw_qid h"

definition qdma_credit_context_invalidate :: "'h bus \<Rightarrow> u8 \<Rightarrow> u16 \<Rightarrow> 'h \<Rightarrow> int \<times> 'h" where
  "qdma_credit_context_invalidate b c2h hw_qid h =
     qdma_indirect_reg_invalidate b (if c2h \<noteq> 0 then QDMA_CTXT_SEL_CR_C2H else QDMA_CTXT_SEL_CR_H2C) hw_qid h"

definition qdma_credit_ctx_conf_soft :: "'h bus \<Rightarrow> u8 \<Rightarrow> u16 \<Rightarrow> (qdma_descq_credit_ctxt, 'h) ctx_conf" where
  "qdma_credit_ctx_conf_soft b c2h hw_qid ctxt access_type h =
     (if c2h > 1 then (- err_code QDMA_ERR_INV_PARAM, None, h)
      else case access_type of
        QDMA_HW_ACCESS_READ \<Rightarrow> qdma_credit_context_read b c2h hw_qid ctxt h
      | QDMA_HW_ACCESS_WRITE \<Rightarrow> (- err_code QDMA_ERR_INV_PARAM, None, h)
      | QDMA_HW_ACCESS_CLEAR \<Rightarrow> (case qdma_credit_context_clear b c2h hw_qid h of (rv, h') \<Rightarrow> (rv, None, h'))
      | QDMA_HW_ACCESS_INVALIDATE \<Rightarrow> (case qdma_credit_context_invalidate b c2h hw_qid h of (rv, h') \<Rightarrow> (rv, None, h')))"

section \<open>Interrupt rings\<close>

definition QDMA_IND_INTR_CONTEXT_NUM_WORDS :: nat where "QDMA_IND_INTR_CONTEXT_NUM_WORDS = 3"

definition QDMA_INTR_CTXT_W0_VALID_MASK :: u32 where "QDMA_INTR_CTXT_W0_VALID_MASK = BIT 0"
definition QDMA_INTR_CTXT_W0_VEC_ID_MASK :: u32 where "QDMA_INTR_CTXT_W0_VEC_ID_MASK = GENMASK 11 1"
definition QDMA_INTR_CTXT_W0_INT_ST_MASK :: u32 where "QDMA_INTR_CTXT_W0_INT_ST_MASK = BIT 13"
definition QDMA_INTR_CTXT_W0_COLOR_MASK :: u32 where "QDMA_INTR_CTXT_W0_COLOR_MASK = BIT 14"
definition QDMA_INTR_CTXT_W0_BADDR_64_MASK :: u32 where "QDMA_INTR_CTXT_W0_BADDR_64_MASK = GENMASK 31 15"
definition QDMA_INTR_CTXT_W1_BADDR_64_MASK :: u32 where "QDMA_INTR_CTXT_W1_BADDR_64_MASK = GENMASK 31 0"
definition QDMA_INTR_CTXT_W2_BADDR_64_MASK :: u32 where "QDMA_INTR_CTXT_W2_BADDR_64_MASK = GENMASK 2 0"
definition QDMA_INTR_CTXT_W2_PAGE_SIZE_MASK :: u32 where "QDMA_INTR_CTXT_W2_PAGE_SIZE_MASK = GENMASK 5 3"
definition QDMA_INTR_CTXT_W2_PIDX_MASK :: u32 where "QDMA_INTR_CTXT_W2_PIDX_MASK = GENMASK 17 6"
definition QDMA_INTR_CTXT_W2_AT_MASK :: u32 where "QDMA_INTR_CTXT_W2_AT_MASK = BIT 18"

lemmas soft_indirect_intr_masks [mask_defs] =
  QDMA_INTR_CTXT_W0_VALID_MASK_def
  QDMA_INTR_CTXT_W0_VEC_ID_MASK_def
  QDMA_INTR_CTXT_W0_INT_ST_MASK_def
  QDMA_INTR_CTXT_W0_COLOR_MASK_def
  QDMA_INTR_CTXT_W0_BADDR_64_MASK_def
  QDMA_INTR_CTXT_W1_BADDR_64_MASK_def
  QDMA_INTR_CTXT_W2_BADDR_64_MASK_def
  QDMA_INTR_CTXT_W2_PAGE_SIZE_MASK_def
  QDMA_INTR_CTXT_W2_PIDX_MASK_def
  QDMA_INTR_CTXT_W2_AT_MASK_def

definition qdma_indirect_intr_context_words :: "qdma_indirect_intr_ctxt \<Rightarrow> u32 list" where
  "qdma_indirect_intr_context_words ctxt =
     (let baddr_l = ucast (FIELD_GET QDMA_INTR_CTXT_BADDR_GET_L_MASK (ic_baddr_4k ctxt));
          baddr_m = ucast (FIELD_GET QDMA_INTR_CTXT_BADDR_GET_M_MASK (ic_baddr_4k ctxt));
          baddr_h = ucast (FIELD_GET QDMA_INTR_CTXT_BADDR_GET_H_MASK (ic_baddr_4k ctxt))
      in [FIELD_SET QDMA_INTR_CTXT_W0_VALID_MASK (ucast (ic_valid ctxt)) OR
            FIELD_SET QDMA_INTR_CTXT_W0_VEC_ID_MASK (ucast (ic_vec ctxt)) OR
            FIELD_SET QDMA_INTR_CTXT_W0_INT_ST_MASK (ucast (ic_int_st ctxt)) OR
            FIELD_SET QDMA_INTR_CTXT_W0_COLOR_MASK (ucast (ic_color ctxt)) OR
            FIELD_SET QDMA_INTR_CTXT_W0_BADDR_64_MASK baddr_l,
          FIELD_SET QDMA_INTR_CTXT_W1_BADDR_64_MASK baddr_m,
          FIELD_SET QDMA_INTR_CTXT_W2_BADDR_64_MASK baddr_h OR
            FIELD_SET QDMA_INTR_CTXT_W2_PAGE_SIZE_MASK (ucast (ic_page_size ctxt)) OR
            FIELD_SET QDMA_INTR_CTXT_W2_PIDX_MASK (ucast (ic_pidx ctxt)) OR
            FIELD_SET QDMA_INTR_CTXT_W2_AT_MASK (ucast (ic_at ctxt))])"

definition qdma_indirect_intr_context_of :: "u32 list \<Rightarrow> qdma_indirect_intr_ctxt \<Rightarrow> qdma_indirect_intr_ctxt" where
  "qdma_indirect_intr_context_of ws ctxt =
     (let baddr_l :: u64 = ucast (FIELD_GET QDMA_INTR_CTXT_W0_BADDR_64_MASK (ws ! 0));
          baddr_m :: u64 = ucast (FIELD_GET QDMA_INTR_CTXT_W1_BADDR_64_MASK (ws ! 1));
          baddr_h :: u64 = ucast (FIELD_GET QDMA_INTR_CTXT_W2_BADDR_64_MASK (ws ! 2))
      in ctxt\<lparr>ic_valid := ucast (FIELD_GET QDMA_INTR_CTXT_W0_VALID_MASK (ws ! 0)),
           ic_vec := ucast (FIELD_GET QDMA_INTR_CTXT_W0_VEC_ID_MASK (ws ! 0)),
           ic_int_st := ucast (FIELD_GET QDMA_INTR_CTXT_W0_INT_ST_MASK (ws ! 0)),
           ic_color := ucast (FIELD_GET QDMA_INTR_CTXT_W0_COLOR_MASK (ws ! 0)),
           ic_page_size := ucast (FIELD_GET QDMA_INTR_CTXT_W2_PAGE_SIZE_MASK (ws ! 2)),
           ic_pidx := ucast (FIELD_GET QDMA_INTR_CTXT_W2_PIDX_MASK (ws ! 2)),
           ic_at := ucast (FIELD_GET QDMA_INTR_CTXT_W2_AT_MASK (ws ! 2)),
           ic_baddr_4k := FIELD_SET QDMA_INTR_CTXT_BADDR_GET_L_MASK baddr_l OR
             FIELD_SET QDMA_INTR_CTXT_BADDR_GET_M_MASK baddr_m OR
               FIELD_SET QDMA_INTR_CTXT_BADDR_GET_H_MASK baddr_h\<rparr>)"

definition qdma_indirect_intr_context_write :: "'h bus \<Rightarrow> u16 \<Rightarrow> qdma_indirect_intr_ctxt option \<Rightarrow> 'h \<Rightarrow> int \<times> 'h" where
  "qdma_indirect_intr_context_write b ring_index ctxt h =
     (case ctxt of
        None \<Rightarrow> (- err_code QDMA_ERR_INV_PARAM, h)
      | Some ctxt \<Rightarrow>
          qdma_indirect_reg_write b QDMA_CTXT_SEL_INT_COAL ring_index (qdma_indirect_intr_context_words ctxt) h)"

definition qdma_indirect_intr_context_read ::
    "'h bus \<Rightarrow> u16 \<Rightarrow> qdma_indirect_intr_ctxt option \<Rightarrow> 'h \<Rightarrow> int \<times> qdma_indirect_intr_ctxt option \<times> 'h" where
  "qdma_indirect_intr_context_read b ring_index ctxt h =
     (case ctxt of
        None \<Rightarrow> (- err_code QDMA_ERR_INV_PARAM, None, h)
      | Some ctxt \<Rightarrow>
          (case qdma_indirect_reg_read b QDMA_CTXT_SEL_INT_COAL ring_index QDMA_IND_INTR_CONTEXT_NUM_WORDS h of (rv, ws, h') \<Rightarrow>
             if rv < 0 then (rv, None, h') else (err_code QDMA_SUCCESS, Some (qdma_indirect_intr_context_of ws ctxt), h')))"

definition qdma_indirect_intr_context_clear :: "'h bus \<Rightarrow> u16 \<Rightarrow> 'h \<Rightarrow> int \<times> 'h" where
  "qdma_indirect_intr_context_clear b ring_index h = qdma_indirect_reg_clear b QDMA_CTXT_SEL_INT_COAL ring_index h"

definition qdma_indirect_intr_context_invalidate :: "'h bus \<Rightarrow> u16 \<Rightarrow> 'h \<Rightarrow> int \<times> 'h" where
  "qdma_indirect_intr_context_invalidate b ring_index h = qdma_indirect_reg_invalidate b QDMA_CTXT_SEL_INT_COAL ring_index h"

definition qdma_indirect_intr_ctx_conf_soft :: "'h bus \<Rightarrow> u16 \<Rightarrow> (qdma_indirect_intr_ctxt, 'h) ctx_conf" where
  "qdma_indirect_intr_ctx_conf_soft b ring_index ctxt access_type h =
     (case access_type of
        QDMA_HW_ACCESS_READ \<Rightarrow> qdma_indirect_intr_context_read b ring_index ctxt h
      | QDMA_HW_ACCESS_WRITE \<Rightarrow> (case qdma_indirect_intr_context_write b ring_index ctxt h of (rv, h') \<Rightarrow> (rv, None, h'))
      | QDMA_HW_ACCESS_CLEAR \<Rightarrow> (case qdma_indirect_intr_context_clear b ring_index h of (rv, h') \<Rightarrow> (rv, None, h'))
      | QDMA_HW_ACCESS_INVALIDATE \<Rightarrow> (case qdma_indirect_intr_context_invalidate b ring_index h of (rv, h') \<Rightarrow> (rv, None, h')))"

end
