(* ===== verification/Soft_Csr.thy ===== *)
theory Soft_Csr
  imports Qdma_Csr Soft_Context
begin

text \<open>
  Configuration registers of the soft QDMA (\<open>qdma_soft_access.c\<close>): device attributes, the four arrays of
  16 values, writeback interval, channels, default values, queue index updates, legacy interrupts,
  the user bar, and clearing the context memory.
\<close>

section \<open>Registers and fields\<close>

definition QDMA_OFFSET_GLBL2_PF_BARLITE_INT :: u32 where "QDMA_OFFSET_GLBL2_PF_BARLITE_INT = 0x104"
definition QDMA_OFFSET_GLBL2_CHANNEL_QDMA_CAP :: u32 where "QDMA_OFFSET_GLBL2_CHANNEL_QDMA_CAP = 0x120"
definition QDMA_OFFSET_GLBL2_MISC_CAP :: u32 where "QDMA_OFFSET_GLBL2_MISC_CAP = 0x134"
definition QDMA_OFFSET_GLBL2_CHANNEL_MDMA :: u32 where "QDMA_OFFSET_GLBL2_CHANNEL_MDMA = 0x118"
definition QDMA_GLBL2_PF0_BAR_MAP_MASK :: u32 where "QDMA_GLBL2_PF0_BAR_MAP_MASK = GENMASK 5 0"
definition QDMA_GLBL2_PF1_BAR_MAP_MASK :: u32 where "QDMA_GLBL2_PF1_BAR_MAP_MASK = GENMASK 11 6"
definition QDMA_GLBL2_PF2_BAR_MAP_MASK :: u32 where "QDMA_GLBL2_PF2_BAR_MAP_MASK = GENMASK 17 12"
definition QDMA_GLBL2_PF3_BAR_MAP_MASK :: u32 where "QDMA_GLBL2_PF3_BAR_MAP_MASK = GENMASK 23 18"
definition QDMA_GLBL2_MULTQ_MAX_MASK :: u32 where "QDMA_GLBL2_MULTQ_MAX_MASK = GENMASK 11 0"
definition QDMA_GLBL2_ST_C2H_MASK :: u32 where "QDMA_GLBL2_ST_C2H_MASK = BIT 17"
definition QDMA_GLBL2_ST_H2C_MASK :: u32 where "QDMA_GLBL2_ST_H2C_MASK = BIT 16"
definition QDMA_GLBL2_MM_C2H_MASK :: u32 where "QDMA_GLBL2_MM_C2H_MASK = BIT 8"
definition QDMA_GLBL2_MM_H2C_MASK :: u32 where "QDMA_GLBL2_MM_H2C_MASK = BIT 0"
definition QDMA_OFFSET_GLBL_RNG_SZ :: u32 where "QDMA_OFFSET_GLBL_RNG_SZ = 0x204"
definition QDMA_OFFSET_C2H_TIMER_CNT :: u32 where "QDMA_OFFSET_C2H_TIMER_CNT = 0xA00"
definition QDMA_OFFSET_C2H_CNT_TH :: u32 where "QDMA_OFFSET_C2H_CNT_TH = 0xA40"
definition QDMA_OFFSET_C2H_BUF_SZ :: u32 where "QDMA_OFFSET_C2H_BUF_SZ = 0xAB0"
definition QDMA_OFFSET_GLBL_DSC_CFG :: u32 where "QDMA_OFFSET_GLBL_DSC_CFG = 0x250"
definition QDMA_GLBL_DSC_CFG_WB_ACC_INT_MASK :: u32 where "QDMA_GLBL_DSC_CFG_WB_ACC_INT_MASK = GENMASK 2 0"
definition QDMA_OFFSET_C2H_MM_CONTROL :: u32 where "QDMA_OFFSET_C2H_MM_CONTROL = 0x1004"
definition QDMA_OFFSET_H2C_MM_CONTROL :: u32 where "QDMA_OFFSET_H2C_MM_CONTROL = 0x1204"
definition QDMA_GLBL_DSC_CFG_MAX_DSC_FETCH_MASK :: u32 where "QDMA_GLBL_DSC_CFG_MAX_DSC_FETCH_MASK = GENMASK 5 3"
definition QDMA_OFFSET_C2H_PFETCH_CACHE_DEPTH :: u32 where "QDMA_OFFSET_C2H_PFETCH_CACHE_DEPTH = 0xBE0"
definition QDMA_OFFSET_C2H_PFETCH_CFG :: u32 where "QDMA_OFFSET_C2H_PFETCH_CFG = 0xB08"
definition QDMA_C2H_PFCH_FL_TH_MASK :: u32 where "QDMA_C2H_PFCH_FL_TH_MASK = GENMASK 8 0"
definition QDMA_C2H_NUM_PFCH_MASK :: u32 where "QDMA_C2H_NUM_PFCH_MASK = GENMASK 17 9"
definition QDMA_C2H_PFCH_QCNT_MASK :: u32 where "QDMA_C2H_PFCH_QCNT_MASK = GENMASK 24 18"
definition QDMA_C2H_EVT_QCNT_TH_MASK :: u32 where "QDMA_C2H_EVT_QCNT_TH_MASK = GENMASK 31 25"
definition QDMA_OFFSET_C2H_INT_TIMER_TICK :: u32 where "QDMA_OFFSET_C2H_INT_TIMER_TICK = 0xB0C"
definition QDMA_OFFSET_C2H_CMPT_COAL_BUF_DEPTH :: u32 where "QDMA_OFFSET_C2H_CMPT_COAL_BUF_DEPTH = 0xBE4"
definition QDMA_OFFSET_C2H_WRB_COAL_CFG :: u32 where "QDMA_OFFSET_C2H_WRB_COAL_CFG = 0xB50"
definition QDMA_C2H_TICK_CNT_MASK :: u32 where "QDMA_C2H_TICK_CNT_MASK = GENMASK 13 2"
definition QDMA_C2H_TICK_VAL_MASK :: u32 where "QDMA_C2H_TICK_VAL_MASK = GENMASK 25 14"
definition QDMA_C2H_MAX_BUF_SZ_MASK :: u32 where "QDMA_C2H_MAX_BUF_SZ_MASK = GENMASK 31 26"
definition QDMA_OFFSET_H2C_REQ_THROT :: u32 where "QDMA_OFFSET_H2C_REQ_THROT = 0xE24"
definition QDMA_H2C_DATA_THRESH_MASK :: u32 where "QDMA_H2C_DATA_THRESH_MASK = GENMASK 15 0"
definition QDMA_H2C_THROT_DATA_THRESH :: u32 where "QDMA_H2C_THROT_DATA_THRESH = 0x4000"
definition QDMA_H2C_REQ_THROT_EN_DATA_MASK :: u32 where "QDMA_H2C_REQ_THROT_EN_DATA_MASK = BIT 16"
definition QDMA_THROT_EN_DATA :: u32 where "QDMA_THROT_EN_DATA = 1"
definition QDMA_H2C_REQ_THRESH_MASK :: u32 where "QDMA_H2C_REQ_THRESH_MASK = GENMASK 25 17"
definition QDMA_H2C_THROT_REQ_THRESH :: u32 where "QDMA_H2C_THROT_REQ_THRESH = 0x60"
definition QDMA_H2C_REQ_THROT_EN_REQ_MASK :: u32 where "QDMA_H2C_REQ_THROT_EN_REQ_MASK = BIT 31"
definition QDMA_THROT_EN_REQ :: u32 where "QDMA_THROT_EN_REQ = 0"
definition QDMA_OFFSET_DMAP_SEL_C2H_DSC_PIDX :: u32 where "QDMA_OFFSET_DMAP_SEL_C2H_DSC_PIDX = 0x18008"
definition QDMA_OFFSET_DMAP_SEL_H2C_DSC_PIDX :: u32 where "QDMA_OFFSET_DMAP_SEL_H2C_DSC_PIDX = 0x18004"
definition QDMA_OFFSET_VF_DMAP_SEL_C2H_DSC_PIDX :: u32 where "QDMA_OFFSET_VF_DMAP_SEL_C2H_DSC_PIDX = 0x3008"
definition QDMA_OFFSET_VF_DMAP_SEL_H2C_DSC_PIDX :: u32 where "QDMA_OFFSET_VF_DMAP_SEL_H2C_DSC_PIDX = 0x3004"
definition QDMA_DMA_SEL_DESC_PIDX_MASK :: u32 where "QDMA_DMA_SEL_DESC_PIDX_MASK = GENMASK 15 0"
definition QDMA_DMA_SEL_IRQ_EN_MASK :: u32 where "QDMA_DMA_SEL_IRQ_EN_MASK = BIT 16"
definition QDMA_OFFSET_VF_DMAP_SEL_CMPT_CIDX :: u32 where "QDMA_OFFSET_VF_DMAP_SEL_CMPT_CIDX = 0x300C"
definition QDMA_OFFSET_DMAP_SEL_CMPT_CIDX :: u32 where "QDMA_OFFSET_DMAP_SEL_CMPT_CIDX = 0x1800C"
definition QDMA_DMAP_SEL_CMPT_WRB_CIDX_MASK :: u32 where "QDMA_DMAP_SEL_CMPT_WRB_CIDX_MASK = GENMASK 15 0"
definition QDMA_DMAP_SEL_CMPT_CNT_THRESH_MASK :: u32 where "QDMA_DMAP_SEL_CMPT_CNT_THRESH_MASK = GENMASK 19 16"
definition QDMA_DMAP_SEL_CMPT_TMR_CNT_MASK :: u32 where "QDMA_DMAP_SEL_CMPT_TMR_CNT_MASK = GENMASK 23 20"
definition QDMA_DMAP_SEL_CMPT_TRG_MODE_MASK :: u32 where "QDMA_DMAP_SEL_CMPT_TRG_MODE_MASK = GENMASK 26 24"
definition QDMA_DMAP_SEL_CMPT_STS_DESC_EN_MASK :: u32 where "QDMA_DMAP_SEL_CMPT_STS_DESC_EN_MASK = BIT 27"
definition QDMA_DMAP_SEL_CMPT_IRQ_EN_MASK :: u32 where "QDMA_DMAP_SEL_CMPT_IRQ_EN_MASK = BIT 28"
definition QDMA_OFFSET_VF_DMAP_SEL_INT_CIDX :: u32 where "QDMA_OFFSET_VF_DMAP_SEL_INT_CIDX = 0x3000"
definition QDMA_OFFSET_DMAP_SEL_INT_CIDX :: u32 where "QDMA_OFFSET_DMAP_SEL_INT_CIDX = 0x18000"
definition QDMA_DMA_SEL_INT_SW_CIDX_MASK :: u32 where "QDMA_DMA_SEL_INT_SW_CIDX_MASK = GENMASK 15 0"
definition QDMA_DMA_SEL_INT_RING_IDX_MASK :: u32 where "QDMA_DMA_SEL_INT_RING_IDX_MASK = GENMASK 23 16"
definition QDMA_OFFSET_GLBL_INTERRUPT_CFG :: u32 where "QDMA_OFFSET_GLBL_INTERRUPT_CFG = 0x2C4"
definition QDMA_GLBL_INTR_LGCY_INTR_PEND_MASK :: u32 where "QDMA_GLBL_INTR_LGCY_INTR_PEND_MASK = BIT 1"
definition QDMA_GLBL_INTR_CFG_EN_LGCY_INTR_MASK :: u32 where "QDMA_GLBL_INTR_CFG_EN_LGCY_INTR_MASK = BIT 0"
definition QDMA_OFFSET_VF_USER_BAR_ID :: u32 where "QDMA_OFFSET_VF_USER_BAR_ID = 0x1018"
definition QDMA_OFFSET_GLBL2_PF_BARLITE_EXT :: u32 where "QDMA_OFFSET_GLBL2_PF_BARLITE_EXT = 0x10C"

lemmas soft_csr_masks [mask_defs] =
  QDMA_GLBL2_PF0_BAR_MAP_MASK_def
  QDMA_GLBL2_PF1_BAR_MAP_MASK_def
  QDMA_GLBL2_PF2_BAR_MAP_MASK_def
  QDMA_GLBL2_PF3_BAR_MAP_MASK_def
  QDMA_GLBL2_MULTQ_MAX_MASK_def
  QDMA_GLBL2_ST_C2H_MASK_def
  QDMA_GLBL2_ST_H2C_MASK_def
  QDMA_GLBL2_MM_C2H_MASK_def
  QDMA_GLBL2_MM_H2C_MASK_def
  QDMA_GLBL_DSC_CFG_WB_ACC_INT_MASK_def
  QDMA_GLBL_DSC_CFG_MAX_DSC_FETCH_MASK_def
  QDMA_C2H_PFCH_FL_TH_MASK_def
  QDMA_C2H_NUM_PFCH_MASK_def
  QDMA_C2H_PFCH_QCNT_MASK_def
  QDMA_C2H_EVT_QCNT_TH_MASK_def
  QDMA_C2H_TICK_CNT_MASK_def
  QDMA_C2H_TICK_VAL_MASK_def
  QDMA_C2H_MAX_BUF_SZ_MASK_def
  QDMA_H2C_DATA_THRESH_MASK_def
  QDMA_H2C_REQ_THROT_EN_DATA_MASK_def
  QDMA_H2C_REQ_THRESH_MASK_def
  QDMA_H2C_REQ_THROT_EN_REQ_MASK_def
  QDMA_DMA_SEL_DESC_PIDX_MASK_def
  QDMA_DMA_SEL_IRQ_EN_MASK_def
  QDMA_DMAP_SEL_CMPT_WRB_CIDX_MASK_def
  QDMA_DMAP_SEL_CMPT_CNT_THRESH_MASK_def
  QDMA_DMAP_SEL_CMPT_TMR_CNT_MASK_def
  QDMA_DMAP_SEL_CMPT_TRG_MODE_MASK_def
  QDMA_DMAP_SEL_CMPT_STS_DESC_EN_MASK_def
  QDMA_DMAP_SEL_CMPT_IRQ_EN_MASK_def
  QDMA_DMA_SEL_INT_SW_CIDX_MASK_def
  QDMA_DMA_SEL_INT_RING_IDX_MASK_def
  QDMA_GLBL_INTR_LGCY_INTR_PEND_MASK_def
  QDMA_GLBL_INTR_CFG_EN_LGCY_INTR_MASK_def

lemmas soft_csr_addrs =
  QDMA_OFFSET_GLBL2_PF_BARLITE_INT_def
  QDMA_OFFSET_GLBL2_CHANNEL_QDMA_CAP_def
  QDMA_OFFSET_GLBL2_MISC_CAP_def
  QDMA_OFFSET_GLBL2_CHANNEL_MDMA_def
  QDMA_OFFSET_GLBL_RNG_SZ_def
  QDMA_OFFSET_C2H_TIMER_CNT_def
  QDMA_OFFSET_C2H_CNT_TH_def
  QDMA_OFFSET_C2H_BUF_SZ_def
  QDMA_OFFSET_GLBL_DSC_CFG_def
  QDMA_OFFSET_C2H_MM_CONTROL_def
  QDMA_OFFSET_H2C_MM_CONTROL_def
  QDMA_OFFSET_C2H_PFETCH_CACHE_DEPTH_def
  QDMA_OFFSET_C2H_PFETCH_CFG_def
  QDMA_OFFSET_C2H_INT_TIMER_TICK_def
  QDMA_OFFSET_C2H_CMPT_COAL_BUF_DEPTH_def
  QDMA_OFFSET_C2H_WRB_COAL_CFG_def
  QDMA_OFFSET_H2C_REQ_THROT_def
  QDMA_H2C_THROT_DATA_THRESH_def
  QDMA_THROT_EN_DATA_def
  QDMA_H2C_THROT_REQ_THRESH_def
  QDMA_THROT_EN_REQ_def
  QDMA_OFFSET_DMAP_SEL_C2H_DSC_PIDX_def
  QDMA_OFFSET_DMAP_SEL_H2C_DSC_PIDX_def
  QDMA_OFFSET_VF_DMAP_SEL_C2H_DSC_PIDX_def
  QDMA_OFFSET_VF_DMAP_SEL_H2C_DSC_PIDX_def
  QDMA_OFFSET_VF_DMAP_SEL_CMPT_CIDX_def
  QDMA_OFFSET_DMAP_SEL_CMPT_CIDX_def
  QDMA_OFFSET_VF_DMAP_SEL_INT_CIDX_def
  QDMA_OFFSET_DMAP_SEL_INT_CIDX_def
  QDMA_OFFSET_GLBL_INTERRUPT_CFG_def
  QDMA_OFFSET_VF_USER_BAR_ID_def
  QDMA_OFFSET_GLBL2_PF_BARLITE_EXT_def

section \<open>Attributes of the device\<close>

definition qdma_get_device_attributes_soft :: "'h bus \<Rightarrow> 'h \<Rightarrow> qdma_dev_attributes \<times> 'h" where
  "qdma_get_device_attributes_soft b h =
     (case bus_read b QDMA_OFFSET_GLBL2_PF_BARLITE_INT h of (pfs, h1) \<Rightarrow>
      case bus_read b QDMA_OFFSET_GLBL2_CHANNEL_QDMA_CAP h1 of (cap, h2) \<Rightarrow>
      case bus_read b QDMA_OFFSET_GLBL2_MISC_CAP h2 of (misc, h3) \<Rightarrow>
      case bus_read b QDMA_OFFSET_GLBL2_CHANNEL_MDMA h3 of (mdma, h4) \<Rightarrow>
        (\<lparr>num_pfs = of_nat (length (filter (\<lambda>m. FIELD_GET m pfs \<noteq> 0)
             [QDMA_GLBL2_PF0_BAR_MAP_MASK, QDMA_GLBL2_PF1_BAR_MAP_MASK,
              QDMA_GLBL2_PF2_BAR_MAP_MASK, QDMA_GLBL2_PF3_BAR_MAP_MASK])),
           num_qs = ucast (FIELD_GET QDMA_GLBL2_MULTQ_MAX_MASK cap),
           flr_present = ucast (FIELD_GET QDMA_GLBL2_FLR_PRESENT_MASK misc),
           st_en = (if FIELD_GET QDMA_GLBL2_ST_C2H_MASK mdma \<noteq> 0 \<and> FIELD_GET QDMA_GLBL2_ST_H2C_MASK mdma \<noteq> 0 then 1 else 0),
           mm_en = (if FIELD_GET QDMA_GLBL2_MM_C2H_MASK mdma \<noteq> 0 \<and> FIELD_GET QDMA_GLBL2_MM_H2C_MASK mdma \<noteq> 0 then 1 else 0),
           mm_cmpt_en = ucast (FIELD_GET QDMA_GLBL2_MM_CMPT_EN_MASK misc), mailbox_en = ucast (FIELD_GET QDMA_GLBL2_MAILBOX_EN_MASK misc),
           debug_mode = 0, desc_eng_mode = 0,
           mm_channel_max = 1, qid2vec_ctx = 0, cmpt_ovf_chk_dis = 1, mailbox_intr = 1, sw_desc_64b = 1, cmpt_desc_64b = 1,
           dynamic_bar = 1, legacy_intr = 1, cmpt_trig_count_timer = 1\<rparr>, h4))"

text \<open>What the CSR functions ask for.\<close>

definition soft_st_or_mm_cmpt :: "'h bus \<Rightarrow> 'h \<Rightarrow> bool \<times> 'h" where
  "soft_st_or_mm_cmpt b h = (case qdma_get_device_attributes_soft b h of (dev_cap, h') \<Rightarrow> (st_en dev_cap \<noteq> 0 \<or> mm_cmpt_en dev_cap \<noteq> 0, h'))"

definition soft_st :: "'h bus \<Rightarrow> 'h \<Rightarrow> bool \<times> 'h" where
  "soft_st b h = (case qdma_get_device_attributes_soft b h of (dev_cap, h') \<Rightarrow> (st_en dev_cap \<noteq> 0, h'))"

section \<open>Arrays of 16 registers\<close>

definition qdma_write_global_ring_sizes ::
    "'h bus \<Rightarrow> u8 \<Rightarrow> u8 \<Rightarrow> (nat \<Rightarrow> u32) option \<Rightarrow> 'h \<Rightarrow> int \<times> 'h" where
  "qdma_write_global_ring_sizes b = csr_write b QDMA_OFFSET_GLBL_RNG_SZ QDMA_NUM_RING_SIZES (Pair True)"

definition qdma_read_global_ring_sizes ::
    "'h bus \<Rightarrow> u8 \<Rightarrow> u8 \<Rightarrow> (nat \<Rightarrow> u32) option \<Rightarrow> 'h \<Rightarrow> int \<times> (nat \<Rightarrow> u32) option \<times> 'h" where
  "qdma_read_global_ring_sizes b = csr_read b QDMA_OFFSET_GLBL_RNG_SZ QDMA_NUM_RING_SIZES (Pair True)"

definition qdma_write_global_timer_count ::
    "'h bus \<Rightarrow> u8 \<Rightarrow> u8 \<Rightarrow> (nat \<Rightarrow> u32) option \<Rightarrow> 'h \<Rightarrow> int \<times> 'h" where
  "qdma_write_global_timer_count b = csr_write b QDMA_OFFSET_C2H_TIMER_CNT QDMA_NUM_C2H_TIMERS (soft_st_or_mm_cmpt b)"

definition qdma_read_global_timer_count ::
    "'h bus \<Rightarrow> u8 \<Rightarrow> u8 \<Rightarrow> (nat \<Rightarrow> u32) option \<Rightarrow> 'h \<Rightarrow> int \<times> (nat \<Rightarrow> u32) option \<times> 'h" where
  "qdma_read_global_timer_count b = csr_read b QDMA_OFFSET_C2H_TIMER_CNT QDMA_NUM_C2H_TIMERS (soft_st_or_mm_cmpt b)"

definition qdma_write_global_counter_threshold ::
    "'h bus \<Rightarrow> u8 \<Rightarrow> u8 \<Rightarrow> (nat \<Rightarrow> u32) option \<Rightarrow> 'h \<Rightarrow> int \<times> 'h" where
  "qdma_write_global_counter_threshold b = csr_write b QDMA_OFFSET_C2H_CNT_TH QDMA_NUM_C2H_COUNTERS (soft_st_or_mm_cmpt b)"

definition qdma_read_global_counter_threshold ::
    "'h bus \<Rightarrow> u8 \<Rightarrow> u8 \<Rightarrow> (nat \<Rightarrow> u32) option \<Rightarrow> 'h \<Rightarrow> int \<times> (nat \<Rightarrow> u32) option \<times> 'h" where
  "qdma_read_global_counter_threshold b = csr_read b QDMA_OFFSET_C2H_CNT_TH QDMA_NUM_C2H_COUNTERS (soft_st_or_mm_cmpt b)"

definition qdma_write_global_buffer_sizes ::
    "'h bus \<Rightarrow> u8 \<Rightarrow> u8 \<Rightarrow> (nat \<Rightarrow> u32) option \<Rightarrow> 'h \<Rightarrow> int \<times> 'h" where
  "qdma_write_global_buffer_sizes b = csr_write b QDMA_OFFSET_C2H_BUF_SZ QDMA_NUM_C2H_BUFFER_SIZES (soft_st b)"

definition qdma_read_global_buffer_sizes ::
    "'h bus \<Rightarrow> u8 \<Rightarrow> u8 \<Rightarrow> (nat \<Rightarrow> u32) option \<Rightarrow> 'h \<Rightarrow> int \<times> (nat \<Rightarrow> u32) option \<times> 'h" where
  "qdma_read_global_buffer_sizes b = csr_read b QDMA_OFFSET_C2H_BUF_SZ QDMA_NUM_C2H_BUFFER_SIZES (soft_st b)"

definition qdma_global_csr_conf_soft ::
    "'h bus \<Rightarrow> u8 \<Rightarrow> u8 \<Rightarrow> (nat \<Rightarrow> u32) option \<Rightarrow> qdma_global_csr_type \<Rightarrow> qdma_hw_access_type \<Rightarrow> 'h \<Rightarrow>
      int \<times> (nat \<Rightarrow> u32) option \<times> 'h" where
  "qdma_global_csr_conf_soft b index count csr_val csr_type access_type h =
     (case csr_type of
        QDMA_CSR_RING_SZ \<Rightarrow> csr_access (qdma_read_global_ring_sizes b index count csr_val)
          (qdma_write_global_ring_sizes b index count csr_val) access_type h
      | QDMA_CSR_TIMER_CNT \<Rightarrow> csr_access (qdma_read_global_timer_count b index count csr_val)
          (qdma_write_global_timer_count b index count csr_val) access_type h
      | QDMA_CSR_CNT_TH \<Rightarrow> csr_access (qdma_read_global_counter_threshold b index count csr_val)
          (qdma_write_global_counter_threshold b index count csr_val) access_type h
      | QDMA_CSR_BUF_SZ \<Rightarrow> csr_access (qdma_read_global_buffer_sizes b index count csr_val)
          (qdma_write_global_buffer_sizes b index count csr_val) access_type h)"

section \<open>Writeback interval and memory-mapped channels\<close>

definition qdma_global_writeback_interval_write :: "'h bus \<Rightarrow> u32 \<Rightarrow> 'h \<Rightarrow> int \<times> 'h" where
  "qdma_global_writeback_interval_write b wb_int h =
     (if wb_int \<ge> QDMA_NUM_WRB_INTERVALS then (- err_code QDMA_ERR_INV_PARAM, h)
      else case soft_st_or_mm_cmpt b h of (ok, h1) \<Rightarrow>
        if ok then case bus_read b QDMA_OFFSET_GLBL_DSC_CFG h1 of (reg_val, h2) \<Rightarrow>
          (err_code QDMA_SUCCESS,
           bus_write b QDMA_OFFSET_GLBL_DSC_CFG (reg_val OR FIELD_SET QDMA_GLBL_DSC_CFG_WB_ACC_INT_MASK wb_int) h2)
        else (- err_code QDMA_ERR_HWACC_FEATURE_NOT_SUPPORTED, h1))"

definition qdma_global_writeback_interval_read :: "'h bus \<Rightarrow> u32 option \<Rightarrow> 'h \<Rightarrow> int \<times> u32 option \<times> 'h" where
  "qdma_global_writeback_interval_read b wb_int h =
     (case wb_int of
        None \<Rightarrow> (- err_code QDMA_ERR_INV_PARAM, None, h)
      | Some _ \<Rightarrow> (case soft_st_or_mm_cmpt b h of (ok, h1) \<Rightarrow>
          if ok then case bus_read b QDMA_OFFSET_GLBL_DSC_CFG h1 of (reg_val, h2) \<Rightarrow>
            (err_code QDMA_SUCCESS, Some (FIELD_GET QDMA_GLBL_DSC_CFG_WB_ACC_INT_MASK reg_val), h2)
          else (- err_code QDMA_ERR_HWACC_FEATURE_NOT_SUPPORTED, None, h1)))"

text \<open>A write dereferences the pointer without a test; the callers never pass null.\<close>

definition qdma_global_writeback_interval_conf ::
    "'h bus \<Rightarrow> u32 \<Rightarrow> qdma_hw_access_type \<Rightarrow> 'h \<Rightarrow> int \<times> u32 option \<times> 'h" where
  "qdma_global_writeback_interval_conf b wb_int access_type h =
     (case access_type of
        QDMA_HW_ACCESS_READ \<Rightarrow> qdma_global_writeback_interval_read b (Some wb_int) h
      | QDMA_HW_ACCESS_WRITE \<Rightarrow>
          (case qdma_global_writeback_interval_write b wb_int h of (rv, h') \<Rightarrow> (rv, None, h'))
      | _ \<Rightarrow> (- err_code QDMA_ERR_INV_PARAM, None, h))"

definition qdma_mm_channel_conf :: "'h bus \<Rightarrow> u8 \<Rightarrow> u8 \<Rightarrow> u8 \<Rightarrow> 'h \<Rightarrow> int \<times> 'h" where
  "qdma_mm_channel_conf b channel is_c2h enable h =
     (let reg_addr = (if is_c2h \<noteq> 0 then QDMA_OFFSET_C2H_MM_CONTROL else QDMA_OFFSET_H2C_MM_CONTROL) in
      case qdma_get_device_attributes_soft b h of (dev_cap, h') \<Rightarrow>
        (err_code QDMA_SUCCESS,
         if mm_en dev_cap \<noteq> 0 then bus_write b (reg_addr + ucast channel * QDMA_MM_CONTROL_STEP) (ucast enable) h'
         else h'))"

section \<open>Default values\<close>

definition qdma_set_default_global_csr :: "'h bus \<Rightarrow> 'h \<Rightarrow> int \<times> 'h" where
  "qdma_set_default_global_csr b h0 =
     (case qdma_get_device_attributes_soft b h0 of (dev_cap, h) \<Rightarrow>
      let h = qdma_write_csr_values b QDMA_OFFSET_GLBL_RNG_SZ 0 16 (nth rng_sz) h;
          h = (if st_en dev_cap \<noteq> 0 \<or> mm_cmpt_en dev_cap \<noteq> 0 then
             let h = qdma_write_csr_values b QDMA_OFFSET_C2H_CNT_TH 0 16 (nth cnt_th) h;
                 h = qdma_write_csr_values b QDMA_OFFSET_C2H_TIMER_CNT 0 16 (nth tmr_cnt) h
             in bus_write b QDMA_OFFSET_GLBL_DSC_CFG
                  (FIELD_SET QDMA_GLBL_DSC_CFG_MAX_DSC_FETCH_MASK DEFAULT_MAX_DSC_FETCH OR
                   FIELD_SET QDMA_GLBL_DSC_CFG_WB_ACC_INT_MASK DEFAULT_WRB_INT) h
           else h);
          h = (if st_en dev_cap \<noteq> 0 then
             let h = qdma_write_csr_values b QDMA_OFFSET_C2H_BUF_SZ 0 16 (nth buf_sz) h;
                 (cfg_val, h) = bus_read b QDMA_OFFSET_C2H_PFETCH_CACHE_DEPTH h;
                 h = bus_write b QDMA_OFFSET_C2H_PFETCH_CFG
                   (FIELD_SET QDMA_C2H_PFCH_FL_TH_MASK DEFAULT_PFCH_STOP_THRESH OR
                    FIELD_SET QDMA_C2H_NUM_PFCH_MASK DEFAULT_PFCH_NUM_ENTRIES_PER_Q OR
                    FIELD_SET QDMA_C2H_PFCH_QCNT_MASK (drop_bit 1 cfg_val) OR
                    FIELD_SET QDMA_C2H_EVT_QCNT_TH_MASK (drop_bit 1 cfg_val - 2)) h;
                 h = bus_write b QDMA_OFFSET_C2H_INT_TIMER_TICK DEFAULT_C2H_INTR_TIMER_TICK h;
                 (cfg_val, h) = bus_read b QDMA_OFFSET_C2H_CMPT_COAL_BUF_DEPTH h;
                 h = bus_write b QDMA_OFFSET_C2H_WRB_COAL_CFG
                   (FIELD_SET QDMA_C2H_TICK_CNT_MASK DEFAULT_CMPT_COAL_TIMER_CNT OR
                    FIELD_SET QDMA_C2H_TICK_VAL_MASK DEFAULT_CMPT_COAL_TIMER_TICK OR
                    FIELD_SET QDMA_C2H_MAX_BUF_SZ_MASK cfg_val) h;
                 h = bus_write b QDMA_OFFSET_H2C_REQ_THROT
                   (FIELD_SET QDMA_H2C_DATA_THRESH_MASK QDMA_H2C_THROT_DATA_THRESH OR
                    FIELD_SET QDMA_H2C_REQ_THROT_EN_DATA_MASK QDMA_THROT_EN_DATA OR
                    FIELD_SET QDMA_H2C_REQ_THRESH_MASK QDMA_H2C_THROT_REQ_THRESH OR
                    FIELD_SET QDMA_H2C_REQ_THROT_EN_REQ_MASK QDMA_THROT_EN_REQ) h
             in h
           else h)
      in (err_code QDMA_SUCCESS, h))"

section \<open>Queue indices\<close>

definition qdma_queue_pidx_update ::
    "'h bus \<Rightarrow> u8 \<Rightarrow> u16 \<Rightarrow> u8 \<Rightarrow> qdma_q_pidx_reg_info option \<Rightarrow> 'h \<Rightarrow> int \<times> 'h" where
  "qdma_queue_pidx_update b is_vf qid is_c2h reg_info h =
     (case reg_info of
        None \<Rightarrow> (- err_code QDMA_ERR_INV_PARAM, h)
      | Some reg_info \<Rightarrow>
          let reg_addr =
                (if is_vf = 0 then
                   if is_c2h \<noteq> 0 then QDMA_OFFSET_DMAP_SEL_C2H_DSC_PIDX else QDMA_OFFSET_DMAP_SEL_H2C_DSC_PIDX
                 else if is_c2h \<noteq> 0 then QDMA_OFFSET_VF_DMAP_SEL_C2H_DSC_PIDX
                 else QDMA_OFFSET_VF_DMAP_SEL_H2C_DSC_PIDX)
          in (err_code QDMA_SUCCESS, bus_write b (reg_addr + ucast qid * QDMA_PIDX_STEP)
               (FIELD_SET QDMA_DMA_SEL_DESC_PIDX_MASK (ucast (pi_pidx reg_info)) OR
                FIELD_SET QDMA_DMA_SEL_IRQ_EN_MASK (ucast (pi_irq_en reg_info))) h))"

definition qdma_queue_cmpt_cidx_update ::
    "'h bus \<Rightarrow> u8 \<Rightarrow> u16 \<Rightarrow> qdma_q_cmpt_cidx_reg_info option \<Rightarrow> 'h \<Rightarrow> int \<times> 'h" where
  "qdma_queue_cmpt_cidx_update b is_vf qid reg_info h =
     (case reg_info of
        None \<Rightarrow> (- err_code QDMA_ERR_INV_PARAM, h)
      | Some reg_info \<Rightarrow>
          let reg_addr = (if is_vf \<noteq> 0 then QDMA_OFFSET_VF_DMAP_SEL_CMPT_CIDX else QDMA_OFFSET_DMAP_SEL_CMPT_CIDX)
          in (err_code QDMA_SUCCESS, bus_write b (reg_addr + ucast qid * QDMA_CMPT_CIDX_STEP)
               (FIELD_SET QDMA_DMAP_SEL_CMPT_WRB_CIDX_MASK (ucast (ci_wrb_cidx reg_info)) OR
                FIELD_SET QDMA_DMAP_SEL_CMPT_CNT_THRESH_MASK (ucast (ci_counter_idx reg_info)) OR
                FIELD_SET QDMA_DMAP_SEL_CMPT_TMR_CNT_MASK (ucast (ci_timer_idx reg_info)) OR
                FIELD_SET QDMA_DMAP_SEL_CMPT_TRG_MODE_MASK (ucast (ci_trig_mode reg_info)) OR
                FIELD_SET QDMA_DMAP_SEL_CMPT_STS_DESC_EN_MASK (ucast (ci_wrb_en reg_info)) OR
                FIELD_SET QDMA_DMAP_SEL_CMPT_IRQ_EN_MASK (ucast (ci_irq_en reg_info))) h))"

definition qdma_queue_intr_cidx_update ::
    "'h bus \<Rightarrow> u8 \<Rightarrow> u16 \<Rightarrow> qdma_intr_cidx_reg_info option \<Rightarrow> 'h \<Rightarrow> int \<times> 'h" where
  "qdma_queue_intr_cidx_update b is_vf qid reg_info h =
     (case reg_info of
        None \<Rightarrow> (- err_code QDMA_ERR_INV_PARAM, h)
      | Some reg_info \<Rightarrow>
          let reg_addr = (if is_vf \<noteq> 0 then QDMA_OFFSET_VF_DMAP_SEL_INT_CIDX else QDMA_OFFSET_DMAP_SEL_INT_CIDX)
          in (err_code QDMA_SUCCESS, bus_write b (reg_addr + ucast qid * QDMA_INT_CIDX_STEP)
               (FIELD_SET QDMA_DMA_SEL_INT_SW_CIDX_MASK (ucast (ii_sw_cidx reg_info)) OR
                FIELD_SET QDMA_DMA_SEL_INT_RING_IDX_MASK (ucast (ii_rng_idx reg_info))) h))"

section \<open>Legacy interrupts\<close>

definition qdma_is_legacy_intr_pend :: "'h bus \<Rightarrow> 'h \<Rightarrow> int \<times> 'h" where
  "qdma_is_legacy_intr_pend b h =
     (case bus_read b QDMA_OFFSET_GLBL_INTERRUPT_CFG h of (reg_val, h') \<Rightarrow>
        (if FIELD_GET QDMA_GLBL_INTR_LGCY_INTR_PEND_MASK reg_val \<noteq> 0 then err_code QDMA_SUCCESS
         else - err_code QDMA_ERR_HWACC_NO_PEND_LEGCY_INTR, h'))"

definition qdma_clear_pend_legacy_intr :: "'h bus \<Rightarrow> 'h \<Rightarrow> int \<times> 'h" where
  "qdma_clear_pend_legacy_intr b h =
     (case bus_read b QDMA_OFFSET_GLBL_INTERRUPT_CFG h of (reg_val, h') \<Rightarrow>
        (err_code QDMA_SUCCESS,
         bus_write b QDMA_OFFSET_GLBL_INTERRUPT_CFG (reg_val OR FIELD_SET QDMA_GLBL_INTR_LGCY_INTR_PEND_MASK 1) h'))"

text \<open>\<open>enable\<close> is 1 (\<open>ENABLE\<close>) or 0 (\<open>DISABLE\<close>).\<close>

definition qdma_legacy_intr_conf :: "'h bus \<Rightarrow> u32 \<Rightarrow> 'h \<Rightarrow> int \<times> 'h" where
  "qdma_legacy_intr_conf b enable h =
     (case bus_read b QDMA_OFFSET_GLBL_INTERRUPT_CFG h of (reg_val, h') \<Rightarrow>
        (err_code QDMA_SUCCESS,
         bus_write b QDMA_OFFSET_GLBL_INTERRUPT_CFG (reg_val OR FIELD_SET QDMA_GLBL_INTR_CFG_EN_LGCY_INTR_MASK enable) h'))"

section \<open>User bar\<close>

text \<open>The shift by \<open>6 * func_id\<close> is defined in C for functions 0 to 5 only.\<close>

definition qdma_get_user_bar :: "'h bus \<Rightarrow> u8 \<Rightarrow> u8 \<Rightarrow> 'h \<Rightarrow> int \<times> u8 \<times> 'h" where
  "qdma_get_user_bar b is_vf func_id h =
     (case bus_read b (if is_vf \<noteq> 0 then QDMA_OFFSET_VF_USER_BAR_ID else QDMA_OFFSET_GLBL2_PF_BARLITE_EXT) h of (user_bar_id, h') \<Rightarrow>
      case find_bar ((if is_vf = 0 then drop_bit (6 * unat func_id) user_bar_id else user_bar_id) AND 0x3F) of
        (rv, user_bar) \<Rightarrow> (rv, user_bar, h'))"

section \<open>Clearing the context memory\<close>

definition qdma_init_ctxt_memory :: "'h bus \<Rightarrow> 'h \<Rightarrow> int \<times> 'h" where
  "qdma_init_ctxt_memory b =
     init_ctxt_memory (qdma_get_device_attributes_soft b) (qdma_indirect_reg_clear b) ((\<lambda>b. qdma_indirect_reg_clear b QDMA_CTXT_SEL_FMAP) b)"

end
