(* ===== verification/Eqdma_Context.thy ===== *)
theory Eqdma_Context
  imports Qdma_Context_Conf
begin

text \<open>
  The contexts of the EQDMA back end (\<open>eqdma_soft_access.c\<close>, masks of \<open>eqdma_soft_reg.h\<close>).  For each
  kind of context \<open>*_context_words\<close> are the words a write programs, \<open>*_context_of\<close> is the context a
  read stores, and \<open>*_ctx_conf\<close> is the function of the table \<open>qdma_hw_access\<close>.  The device handle is
  the register bus, which is never null.
\<close>

section \<open>Indirect access\<close>

definition EQDMA_IND_CTXT_DATA_ADDR :: u32 where "EQDMA_IND_CTXT_DATA_ADDR = 0x804"
definition EQDMA_IND_CTXT_CMD_ADDR :: u32 where "EQDMA_IND_CTXT_CMD_ADDR = 0x844"

definition eqdma_indirect_reg_invalidate :: "'h bus \<Rightarrow> ind_ctxt_cmd_sel \<Rightarrow> u16 \<Rightarrow> 'h \<Rightarrow> int \<times> 'h" where
  "eqdma_indirect_reg_invalidate b = indirect_reg_command b EQDMA_IND_CTXT_CMD_ADDR QDMA_CTXT_CMD_INV"

definition eqdma_indirect_reg_clear :: "'h bus \<Rightarrow> ind_ctxt_cmd_sel \<Rightarrow> u16 \<Rightarrow> 'h \<Rightarrow> int \<times> 'h" where
  "eqdma_indirect_reg_clear b = indirect_reg_command b EQDMA_IND_CTXT_CMD_ADDR QDMA_CTXT_CMD_CLR"

definition eqdma_indirect_reg_read ::
    "'h bus \<Rightarrow> ind_ctxt_cmd_sel \<Rightarrow> u16 \<Rightarrow> nat \<Rightarrow> 'h \<Rightarrow> int \<times> u32 list \<times> 'h" where
  "eqdma_indirect_reg_read b = indirect_reg_read b EQDMA_IND_CTXT_DATA_ADDR EQDMA_IND_CTXT_CMD_ADDR"

definition eqdma_indirect_reg_write ::
    "'h bus \<Rightarrow> ind_ctxt_cmd_sel \<Rightarrow> u16 \<Rightarrow> u32 list \<Rightarrow> 'h \<Rightarrow> int \<times> 'h" where
  "eqdma_indirect_reg_write b =
     indirect_reg_write b EQDMA_IND_CTXT_DATA_ADDR EQDMA_IND_CTXT_CMD_ADDR QDMA_IND_CTXT_DATA_NUM_REGS"

lemmas eqdma_indirect_defs = eqdma_indirect_reg_invalidate_def eqdma_indirect_reg_clear_def
  eqdma_indirect_reg_read_def eqdma_indirect_reg_write_def QDMA_IND_CTXT_DATA_NUM_REGS_def

section \<open>Descriptor queues: software context\<close>

definition EQDMA_SW_CONTEXT_NUM_WORDS :: nat where "EQDMA_SW_CONTEXT_NUM_WORDS = 8"

definition EQDMA_SW_CTXT_PASID_GET_L_MASK :: u32 where "EQDMA_SW_CTXT_PASID_GET_L_MASK = GENMASK 11 0"
definition EQDMA_SW_CTXT_PASID_GET_H_MASK :: u32 where "EQDMA_SW_CTXT_PASID_GET_H_MASK = GENMASK 21 12"
definition EQDMA_SW_CTXT_VIRTIO_DSC_BASE_GET_L_MASK :: u64 where "EQDMA_SW_CTXT_VIRTIO_DSC_BASE_GET_L_MASK = GENMASK 20 0"
definition EQDMA_SW_CTXT_VIRTIO_DSC_BASE_GET_M_MASK :: u64 where "EQDMA_SW_CTXT_VIRTIO_DSC_BASE_GET_M_MASK = GENMASK 52 21"
definition EQDMA_SW_CTXT_VIRTIO_DSC_BASE_GET_H_MASK :: u64 where "EQDMA_SW_CTXT_VIRTIO_DSC_BASE_GET_H_MASK = GENMASK 63 53"
definition SW_IND_CTXT_DATA_W0_PIDX_MASK :: u32 where "SW_IND_CTXT_DATA_W0_PIDX_MASK = GENMASK 15 0"
definition SW_IND_CTXT_DATA_W0_IRQ_ARM_MASK :: u32 where "SW_IND_CTXT_DATA_W0_IRQ_ARM_MASK = BIT 16"
definition SW_IND_CTXT_DATA_W0_FNC_MASK :: u32 where "SW_IND_CTXT_DATA_W0_FNC_MASK = GENMASK 28 17"
definition SW_IND_CTXT_DATA_W1_QEN_MASK :: u32 where "SW_IND_CTXT_DATA_W1_QEN_MASK = BIT 0"
definition SW_IND_CTXT_DATA_W1_FCRD_EN_MASK :: u32 where "SW_IND_CTXT_DATA_W1_FCRD_EN_MASK = BIT 1"
definition SW_IND_CTXT_DATA_W1_WBI_CHK_MASK :: u32 where "SW_IND_CTXT_DATA_W1_WBI_CHK_MASK = BIT 2"
definition SW_IND_CTXT_DATA_W1_WBI_INTVL_EN_MASK :: u32 where "SW_IND_CTXT_DATA_W1_WBI_INTVL_EN_MASK = BIT 3"
definition SW_IND_CTXT_DATA_W1_AT_MASK :: u32 where "SW_IND_CTXT_DATA_W1_AT_MASK = BIT 4"
definition SW_IND_CTXT_DATA_W1_FETCH_MAX_MASK :: u32 where "SW_IND_CTXT_DATA_W1_FETCH_MAX_MASK = GENMASK 8 5"
definition SW_IND_CTXT_DATA_W1_RNG_SZ_MASK :: u32 where "SW_IND_CTXT_DATA_W1_RNG_SZ_MASK = GENMASK 15 12"
definition SW_IND_CTXT_DATA_W1_DSC_SZ_MASK :: u32 where "SW_IND_CTXT_DATA_W1_DSC_SZ_MASK = GENMASK 17 16"
definition SW_IND_CTXT_DATA_W1_BYPASS_MASK :: u32 where "SW_IND_CTXT_DATA_W1_BYPASS_MASK = BIT 18"
definition SW_IND_CTXT_DATA_W1_MM_CHN_MASK :: u32 where "SW_IND_CTXT_DATA_W1_MM_CHN_MASK = BIT 19"
definition SW_IND_CTXT_DATA_W1_WBK_EN_MASK :: u32 where "SW_IND_CTXT_DATA_W1_WBK_EN_MASK = BIT 20"
definition SW_IND_CTXT_DATA_W1_IRQ_EN_MASK :: u32 where "SW_IND_CTXT_DATA_W1_IRQ_EN_MASK = BIT 21"
definition SW_IND_CTXT_DATA_W1_PORT_ID_MASK :: u32 where "SW_IND_CTXT_DATA_W1_PORT_ID_MASK = GENMASK 24 22"
definition SW_IND_CTXT_DATA_W1_IRQ_NO_LAST_MASK :: u32 where "SW_IND_CTXT_DATA_W1_IRQ_NO_LAST_MASK = BIT 25"
definition SW_IND_CTXT_DATA_W1_ERR_MASK :: u32 where "SW_IND_CTXT_DATA_W1_ERR_MASK = GENMASK 27 26"
definition SW_IND_CTXT_DATA_W1_ERR_WB_SENT_MASK :: u32 where "SW_IND_CTXT_DATA_W1_ERR_WB_SENT_MASK = BIT 28"
definition SW_IND_CTXT_DATA_W1_IRQ_REQ_MASK :: u32 where "SW_IND_CTXT_DATA_W1_IRQ_REQ_MASK = BIT 29"
definition SW_IND_CTXT_DATA_W1_MRKR_DIS_MASK :: u32 where "SW_IND_CTXT_DATA_W1_MRKR_DIS_MASK = BIT 30"
definition SW_IND_CTXT_DATA_W1_IS_MM_MASK :: u32 where "SW_IND_CTXT_DATA_W1_IS_MM_MASK = BIT 31"
definition SW_IND_CTXT_DATA_W4_VEC_MASK :: u32 where "SW_IND_CTXT_DATA_W4_VEC_MASK = GENMASK 10 0"
definition SW_IND_CTXT_DATA_W4_INT_AGGR_MASK :: u32 where "SW_IND_CTXT_DATA_W4_INT_AGGR_MASK = BIT 11"
definition SW_IND_CTXT_DATA_W4_DIS_INTR_ON_VF_MASK :: u32 where "SW_IND_CTXT_DATA_W4_DIS_INTR_ON_VF_MASK = BIT 12"
definition SW_IND_CTXT_DATA_W4_VIRTIO_EN_MASK :: u32 where "SW_IND_CTXT_DATA_W4_VIRTIO_EN_MASK = BIT 13"
definition SW_IND_CTXT_DATA_W4_PACK_BYP_OUT_MASK :: u32 where "SW_IND_CTXT_DATA_W4_PACK_BYP_OUT_MASK = BIT 14"
definition SW_IND_CTXT_DATA_W4_IRQ_BYP_MASK :: u32 where "SW_IND_CTXT_DATA_W4_IRQ_BYP_MASK = BIT 15"
definition SW_IND_CTXT_DATA_W4_HOST_ID_MASK :: u32 where "SW_IND_CTXT_DATA_W4_HOST_ID_MASK = GENMASK 19 16"
definition SW_IND_CTXT_DATA_W4_PASID_L_MASK :: u32 where "SW_IND_CTXT_DATA_W4_PASID_L_MASK = GENMASK 31 20"
definition SW_IND_CTXT_DATA_W5_PASID_H_MASK :: u32 where "SW_IND_CTXT_DATA_W5_PASID_H_MASK = GENMASK 9 0"
definition SW_IND_CTXT_DATA_W5_PASID_EN_MASK :: u32 where "SW_IND_CTXT_DATA_W5_PASID_EN_MASK = BIT 10"
definition SW_IND_CTXT_DATA_W5_VIRTIO_DSC_BASE_L_MASK :: u32 where "SW_IND_CTXT_DATA_W5_VIRTIO_DSC_BASE_L_MASK = GENMASK 31 11"
definition SW_IND_CTXT_DATA_W6_VIRTIO_DSC_BASE_M_MASK :: u32 where "SW_IND_CTXT_DATA_W6_VIRTIO_DSC_BASE_M_MASK = GENMASK 31 0"
definition SW_IND_CTXT_DATA_W7_VIRTIO_DSC_BASE_H_MASK :: u32 where "SW_IND_CTXT_DATA_W7_VIRTIO_DSC_BASE_H_MASK = GENMASK 10 0"

lemmas eqdma_sw_masks [mask_defs] =
  EQDMA_SW_CTXT_PASID_GET_L_MASK_def
  EQDMA_SW_CTXT_PASID_GET_H_MASK_def
  EQDMA_SW_CTXT_VIRTIO_DSC_BASE_GET_L_MASK_def
  EQDMA_SW_CTXT_VIRTIO_DSC_BASE_GET_M_MASK_def
  EQDMA_SW_CTXT_VIRTIO_DSC_BASE_GET_H_MASK_def
  SW_IND_CTXT_DATA_W0_PIDX_MASK_def
  SW_IND_CTXT_DATA_W0_IRQ_ARM_MASK_def
  SW_IND_CTXT_DATA_W0_FNC_MASK_def
  SW_IND_CTXT_DATA_W1_QEN_MASK_def
  SW_IND_CTXT_DATA_W1_FCRD_EN_MASK_def
  SW_IND_CTXT_DATA_W1_WBI_CHK_MASK_def
  SW_IND_CTXT_DATA_W1_WBI_INTVL_EN_MASK_def
  SW_IND_CTXT_DATA_W1_AT_MASK_def
  SW_IND_CTXT_DATA_W1_FETCH_MAX_MASK_def
  SW_IND_CTXT_DATA_W1_RNG_SZ_MASK_def
  SW_IND_CTXT_DATA_W1_DSC_SZ_MASK_def
  SW_IND_CTXT_DATA_W1_BYPASS_MASK_def
  SW_IND_CTXT_DATA_W1_MM_CHN_MASK_def
  SW_IND_CTXT_DATA_W1_WBK_EN_MASK_def
  SW_IND_CTXT_DATA_W1_IRQ_EN_MASK_def
  SW_IND_CTXT_DATA_W1_PORT_ID_MASK_def
  SW_IND_CTXT_DATA_W1_IRQ_NO_LAST_MASK_def
  SW_IND_CTXT_DATA_W1_ERR_MASK_def
  SW_IND_CTXT_DATA_W1_ERR_WB_SENT_MASK_def
  SW_IND_CTXT_DATA_W1_IRQ_REQ_MASK_def
  SW_IND_CTXT_DATA_W1_MRKR_DIS_MASK_def
  SW_IND_CTXT_DATA_W1_IS_MM_MASK_def
  SW_IND_CTXT_DATA_W4_VEC_MASK_def
  SW_IND_CTXT_DATA_W4_INT_AGGR_MASK_def
  SW_IND_CTXT_DATA_W4_DIS_INTR_ON_VF_MASK_def
  SW_IND_CTXT_DATA_W4_VIRTIO_EN_MASK_def
  SW_IND_CTXT_DATA_W4_PACK_BYP_OUT_MASK_def
  SW_IND_CTXT_DATA_W4_IRQ_BYP_MASK_def
  SW_IND_CTXT_DATA_W4_HOST_ID_MASK_def
  SW_IND_CTXT_DATA_W4_PASID_L_MASK_def
  SW_IND_CTXT_DATA_W5_PASID_H_MASK_def
  SW_IND_CTXT_DATA_W5_PASID_EN_MASK_def
  SW_IND_CTXT_DATA_W5_VIRTIO_DSC_BASE_L_MASK_def
  SW_IND_CTXT_DATA_W6_VIRTIO_DSC_BASE_M_MASK_def
  SW_IND_CTXT_DATA_W7_VIRTIO_DSC_BASE_H_MASK_def

definition eqdma_sw_context_words :: "qdma_descq_sw_ctxt \<Rightarrow> u32 list" where
  "eqdma_sw_context_words ctxt =
     (let pasid_l = FIELD_GET EQDMA_SW_CTXT_PASID_GET_L_MASK (sw_pasid ctxt);
          pasid_h = FIELD_GET EQDMA_SW_CTXT_PASID_GET_H_MASK (sw_pasid ctxt);
          virtio_desc_base_l = ucast (FIELD_GET EQDMA_SW_CTXT_VIRTIO_DSC_BASE_GET_L_MASK (sw_virtio_dsc_base ctxt));
          virtio_desc_base_m = ucast (FIELD_GET EQDMA_SW_CTXT_VIRTIO_DSC_BASE_GET_M_MASK (sw_virtio_dsc_base ctxt));
          virtio_desc_base_h = ucast (FIELD_GET EQDMA_SW_CTXT_VIRTIO_DSC_BASE_GET_H_MASK (sw_virtio_dsc_base ctxt))
      in [FIELD_SET SW_IND_CTXT_DATA_W0_PIDX_MASK (ucast (sw_pidx ctxt)) OR
            FIELD_SET SW_IND_CTXT_DATA_W0_IRQ_ARM_MASK (ucast (sw_irq_arm ctxt)) OR
            FIELD_SET SW_IND_CTXT_DATA_W0_FNC_MASK (ucast (sw_fnc_id ctxt)),
          FIELD_SET SW_IND_CTXT_DATA_W1_QEN_MASK (ucast (sw_qen ctxt)) OR
            FIELD_SET SW_IND_CTXT_DATA_W1_FCRD_EN_MASK (ucast (sw_frcd_en ctxt)) OR
            FIELD_SET SW_IND_CTXT_DATA_W1_WBI_CHK_MASK (ucast (sw_wbi_chk ctxt)) OR
            FIELD_SET SW_IND_CTXT_DATA_W1_WBI_INTVL_EN_MASK (ucast (sw_wbi_intvl_en ctxt)) OR
            FIELD_SET SW_IND_CTXT_DATA_W1_AT_MASK (ucast (sw_at ctxt)) OR
            FIELD_SET SW_IND_CTXT_DATA_W1_FETCH_MAX_MASK (ucast (sw_fetch_max ctxt)) OR
            FIELD_SET SW_IND_CTXT_DATA_W1_RNG_SZ_MASK (ucast (sw_rngsz_idx ctxt)) OR
            FIELD_SET SW_IND_CTXT_DATA_W1_DSC_SZ_MASK (ucast (sw_desc_sz ctxt)) OR
            FIELD_SET SW_IND_CTXT_DATA_W1_BYPASS_MASK (ucast (sw_bypass ctxt)) OR
            FIELD_SET SW_IND_CTXT_DATA_W1_MM_CHN_MASK (ucast (sw_mm_chn ctxt)) OR
            FIELD_SET SW_IND_CTXT_DATA_W1_WBK_EN_MASK (ucast (sw_wbk_en ctxt)) OR
            FIELD_SET SW_IND_CTXT_DATA_W1_IRQ_EN_MASK (ucast (sw_irq_en ctxt)) OR
            FIELD_SET SW_IND_CTXT_DATA_W1_PORT_ID_MASK (ucast (sw_port_id ctxt)) OR
            FIELD_SET SW_IND_CTXT_DATA_W1_IRQ_NO_LAST_MASK (ucast (sw_irq_no_last ctxt)) OR
            FIELD_SET SW_IND_CTXT_DATA_W1_ERR_MASK (ucast (sw_err ctxt)) OR
            FIELD_SET SW_IND_CTXT_DATA_W1_ERR_WB_SENT_MASK (ucast (sw_err_wb_sent ctxt)) OR
            FIELD_SET SW_IND_CTXT_DATA_W1_IRQ_REQ_MASK (ucast (sw_irq_req ctxt)) OR
            FIELD_SET SW_IND_CTXT_DATA_W1_MRKR_DIS_MASK (ucast (sw_mrkr_dis ctxt)) OR
            FIELD_SET SW_IND_CTXT_DATA_W1_IS_MM_MASK (ucast (sw_is_mm ctxt)),
          ucast (sw_ring_bs_addr ctxt AND 0xffffffff),
          ucast (drop_bit 32 (sw_ring_bs_addr ctxt) AND 0xffffffff),
          FIELD_SET SW_IND_CTXT_DATA_W4_VEC_MASK (ucast (sw_vec ctxt)) OR
            FIELD_SET SW_IND_CTXT_DATA_W4_INT_AGGR_MASK (ucast (sw_intr_aggr ctxt)) OR
            FIELD_SET SW_IND_CTXT_DATA_W4_DIS_INTR_ON_VF_MASK (ucast (sw_dis_intr_on_vf ctxt)) OR
            FIELD_SET SW_IND_CTXT_DATA_W4_VIRTIO_EN_MASK (ucast (sw_virtio_en ctxt)) OR
            FIELD_SET SW_IND_CTXT_DATA_W4_PACK_BYP_OUT_MASK (ucast (sw_pack_byp_out ctxt)) OR
            FIELD_SET SW_IND_CTXT_DATA_W4_IRQ_BYP_MASK (ucast (sw_irq_byp ctxt)) OR
            FIELD_SET SW_IND_CTXT_DATA_W4_HOST_ID_MASK (ucast (sw_host_id ctxt)) OR
            FIELD_SET SW_IND_CTXT_DATA_W4_PASID_L_MASK pasid_l,
          FIELD_SET SW_IND_CTXT_DATA_W5_PASID_H_MASK pasid_h OR
            FIELD_SET SW_IND_CTXT_DATA_W5_PASID_EN_MASK (ucast (sw_pasid_en ctxt)) OR
            FIELD_SET SW_IND_CTXT_DATA_W5_VIRTIO_DSC_BASE_L_MASK virtio_desc_base_l,
          FIELD_SET SW_IND_CTXT_DATA_W6_VIRTIO_DSC_BASE_M_MASK virtio_desc_base_m,
          FIELD_SET SW_IND_CTXT_DATA_W7_VIRTIO_DSC_BASE_H_MASK virtio_desc_base_h])"

definition eqdma_sw_context_of :: "u32 list \<Rightarrow> qdma_descq_sw_ctxt \<Rightarrow> qdma_descq_sw_ctxt" where
  "eqdma_sw_context_of ws ctxt =
     (let pasid_l = FIELD_GET SW_IND_CTXT_DATA_W4_PASID_L_MASK (ws ! 4);
          pasid_h = FIELD_GET SW_IND_CTXT_DATA_W5_PASID_H_MASK (ws ! 5);
          virtio_desc_base_l = FIELD_GET SW_IND_CTXT_DATA_W5_VIRTIO_DSC_BASE_L_MASK (ws ! 5);
          virtio_desc_base_m = FIELD_GET SW_IND_CTXT_DATA_W6_VIRTIO_DSC_BASE_M_MASK (ws ! 6);
          virtio_desc_base_h = FIELD_GET SW_IND_CTXT_DATA_W7_VIRTIO_DSC_BASE_H_MASK (ws ! 6)
      in ctxt\<lparr>sw_pidx := ucast (FIELD_GET SW_IND_CTXT_DATA_W0_PIDX_MASK (ws ! 0)),
           sw_irq_arm := ucast (FIELD_GET SW_IND_CTXT_DATA_W0_IRQ_ARM_MASK (ws ! 0)),
           sw_fnc_id := ucast (FIELD_GET SW_IND_CTXT_DATA_W0_FNC_MASK (ws ! 0)),
           sw_qen := ucast (FIELD_GET SW_IND_CTXT_DATA_W1_QEN_MASK (ws ! 1)),
           sw_frcd_en := ucast (FIELD_GET SW_IND_CTXT_DATA_W1_FCRD_EN_MASK (ws ! 1)),
           sw_wbi_chk := ucast (FIELD_GET SW_IND_CTXT_DATA_W1_WBI_CHK_MASK (ws ! 1)),
           sw_wbi_intvl_en := ucast (FIELD_GET SW_IND_CTXT_DATA_W1_WBI_INTVL_EN_MASK (ws ! 1)),
           sw_at := ucast (FIELD_GET SW_IND_CTXT_DATA_W1_AT_MASK (ws ! 1)),
           sw_fetch_max := ucast (FIELD_GET SW_IND_CTXT_DATA_W1_FETCH_MAX_MASK (ws ! 1)),
           sw_rngsz_idx := ucast (FIELD_GET SW_IND_CTXT_DATA_W1_RNG_SZ_MASK (ws ! 1)),
           sw_desc_sz := ucast (FIELD_GET SW_IND_CTXT_DATA_W1_DSC_SZ_MASK (ws ! 1)),
           sw_bypass := ucast (FIELD_GET SW_IND_CTXT_DATA_W1_BYPASS_MASK (ws ! 1)),
           sw_mm_chn := ucast (FIELD_GET SW_IND_CTXT_DATA_W1_MM_CHN_MASK (ws ! 1)),
           sw_wbk_en := ucast (FIELD_GET SW_IND_CTXT_DATA_W1_WBK_EN_MASK (ws ! 1)),
           sw_irq_en := ucast (FIELD_GET SW_IND_CTXT_DATA_W1_IRQ_EN_MASK (ws ! 1)),
           sw_port_id := ucast (FIELD_GET SW_IND_CTXT_DATA_W1_PORT_ID_MASK (ws ! 1)),
           sw_irq_no_last := ucast (FIELD_GET SW_IND_CTXT_DATA_W1_IRQ_NO_LAST_MASK (ws ! 1)),
           sw_err := ucast (FIELD_GET SW_IND_CTXT_DATA_W1_ERR_MASK (ws ! 1)),
           sw_err_wb_sent := ucast (FIELD_GET SW_IND_CTXT_DATA_W1_ERR_WB_SENT_MASK (ws ! 1)),
           sw_irq_req := ucast (FIELD_GET SW_IND_CTXT_DATA_W1_IRQ_REQ_MASK (ws ! 1)),
           sw_mrkr_dis := ucast (FIELD_GET SW_IND_CTXT_DATA_W1_MRKR_DIS_MASK (ws ! 1)),
           sw_is_mm := ucast (FIELD_GET SW_IND_CTXT_DATA_W1_IS_MM_MASK (ws ! 1)),
           sw_ring_bs_addr := push_bit 32 (ucast (ws ! 3)) OR ucast (ws ! 2),
           sw_vec := ucast (FIELD_GET SW_IND_CTXT_DATA_W4_VEC_MASK (ws ! 4)),
           sw_intr_aggr := ucast (FIELD_GET SW_IND_CTXT_DATA_W4_INT_AGGR_MASK (ws ! 4)),
           sw_dis_intr_on_vf := ucast (FIELD_GET SW_IND_CTXT_DATA_W4_DIS_INTR_ON_VF_MASK (ws ! 4)),
           sw_virtio_en := ucast (FIELD_GET SW_IND_CTXT_DATA_W4_VIRTIO_EN_MASK (ws ! 4)),
           sw_pack_byp_out := ucast (FIELD_GET SW_IND_CTXT_DATA_W4_PACK_BYP_OUT_MASK (ws ! 4)),
           sw_irq_byp := ucast (FIELD_GET SW_IND_CTXT_DATA_W4_IRQ_BYP_MASK (ws ! 4)),
           sw_host_id := ucast (FIELD_GET SW_IND_CTXT_DATA_W4_HOST_ID_MASK (ws ! 4)),
           sw_pasid_en := ucast (FIELD_GET SW_IND_CTXT_DATA_W5_PASID_EN_MASK (ws ! 5)),
           sw_pasid := FIELD_SET EQDMA_SW_CTXT_PASID_GET_L_MASK pasid_l OR
             FIELD_SET EQDMA_SW_CTXT_PASID_GET_H_MASK pasid_h,
           sw_virtio_dsc_base := FIELD_SET EQDMA_SW_CTXT_VIRTIO_DSC_BASE_GET_L_MASK (ucast virtio_desc_base_l) OR
             FIELD_SET EQDMA_SW_CTXT_VIRTIO_DSC_BASE_GET_M_MASK (ucast virtio_desc_base_m) OR
               FIELD_SET EQDMA_SW_CTXT_VIRTIO_DSC_BASE_GET_H_MASK (ucast virtio_desc_base_h)\<rparr>)"

definition eqdma_sw_context_write :: "'h bus \<Rightarrow> u8 \<Rightarrow> u16 \<Rightarrow> qdma_descq_sw_ctxt option \<Rightarrow> 'h \<Rightarrow> int \<times> 'h" where
  "eqdma_sw_context_write b c2h hw_qid ctxt h =
     (case ctxt of
        None \<Rightarrow> (- err_code QDMA_ERR_INV_PARAM, h)
      | Some ctxt \<Rightarrow>
          eqdma_indirect_reg_write b (if c2h \<noteq> 0 then QDMA_CTXT_SEL_SW_C2H else QDMA_CTXT_SEL_SW_H2C)
            hw_qid (eqdma_sw_context_words ctxt) h)"

definition eqdma_sw_context_read ::
    "'h bus \<Rightarrow> u8 \<Rightarrow> u16 \<Rightarrow> qdma_descq_sw_ctxt option \<Rightarrow> 'h \<Rightarrow> int \<times> qdma_descq_sw_ctxt option \<times> 'h" where
  "eqdma_sw_context_read b c2h hw_qid ctxt h =
     (case ctxt of
        None \<Rightarrow> (- err_code QDMA_ERR_INV_PARAM, None, h)
      | Some ctxt \<Rightarrow>
          (case eqdma_indirect_reg_read b (if c2h \<noteq> 0 then QDMA_CTXT_SEL_SW_C2H else QDMA_CTXT_SEL_SW_H2C)
              hw_qid EQDMA_SW_CONTEXT_NUM_WORDS h of (rv, ws, h') \<Rightarrow>
             if rv < 0 then (rv, None, h') else (err_code QDMA_SUCCESS, Some (eqdma_sw_context_of ws ctxt), h')))"

definition eqdma_sw_context_clear :: "'h bus \<Rightarrow> u8 \<Rightarrow> u16 \<Rightarrow> 'h \<Rightarrow> int \<times> 'h" where
  "eqdma_sw_context_clear b c2h hw_qid h =
     eqdma_indirect_reg_clear b (if c2h \<noteq> 0 then QDMA_CTXT_SEL_SW_C2H else QDMA_CTXT_SEL_SW_H2C) hw_qid h"

definition eqdma_sw_context_invalidate :: "'h bus \<Rightarrow> u8 \<Rightarrow> u16 \<Rightarrow> 'h \<Rightarrow> int \<times> 'h" where
  "eqdma_sw_context_invalidate b c2h hw_qid h =
     eqdma_indirect_reg_invalidate b (if c2h \<noteq> 0 then QDMA_CTXT_SEL_SW_C2H else QDMA_CTXT_SEL_SW_H2C) hw_qid h"

definition eqdma_sw_ctx_conf :: "'h bus \<Rightarrow> u8 \<Rightarrow> u16 \<Rightarrow> (qdma_descq_sw_ctxt, 'h) ctx_conf" where
  "eqdma_sw_ctx_conf b c2h hw_qid ctxt access_type h =
     (case access_type of
        QDMA_HW_ACCESS_READ \<Rightarrow> eqdma_sw_context_read b c2h hw_qid ctxt h
      | QDMA_HW_ACCESS_WRITE \<Rightarrow> (case eqdma_sw_context_write b c2h hw_qid ctxt h of (rv, h') \<Rightarrow> (rv, None, h'))
      | QDMA_HW_ACCESS_CLEAR \<Rightarrow> (case eqdma_sw_context_clear b c2h hw_qid h of (rv, h') \<Rightarrow> (rv, None, h'))
      | QDMA_HW_ACCESS_INVALIDATE \<Rightarrow> (case eqdma_sw_context_invalidate b c2h hw_qid h of (rv, h') \<Rightarrow> (rv, None, h')))"

section \<open>Prefetch context\<close>

definition EQDMA_PFETCH_CONTEXT_NUM_WORDS :: nat where "EQDMA_PFETCH_CONTEXT_NUM_WORDS = 2"

definition PREFETCH_CTXT_DATA_W0_BYPASS_MASK :: u32 where "PREFETCH_CTXT_DATA_W0_BYPASS_MASK = BIT 0"
definition PREFETCH_CTXT_DATA_W0_BUF_SZ_IDX_MASK :: u32 where "PREFETCH_CTXT_DATA_W0_BUF_SZ_IDX_MASK = GENMASK 4 1"
definition PREFETCH_CTXT_DATA_W0_PORT_ID_MASK :: u32 where "PREFETCH_CTXT_DATA_W0_PORT_ID_MASK = GENMASK 7 5"
definition PREFETCH_CTXT_DATA_W0_NUM_PFCH_MASK :: u32 where "PREFETCH_CTXT_DATA_W0_NUM_PFCH_MASK = GENMASK 15 10"
definition PREFETCH_CTXT_DATA_W0_VAR_DESC_MASK :: u32 where "PREFETCH_CTXT_DATA_W0_VAR_DESC_MASK = BIT 8"
definition PREFETCH_CTXT_DATA_W0_ERR_MASK :: u32 where "PREFETCH_CTXT_DATA_W0_ERR_MASK = BIT 26"
definition PREFETCH_CTXT_DATA_W0_PFCH_EN_MASK :: u32 where "PREFETCH_CTXT_DATA_W0_PFCH_EN_MASK = BIT 27"
definition PREFETCH_CTXT_DATA_W0_PFCH_MASK :: u32 where "PREFETCH_CTXT_DATA_W0_PFCH_MASK = BIT 28"
definition PREFETCH_CTXT_DATA_W0_SW_CRDT_L_MASK :: u32 where "PREFETCH_CTXT_DATA_W0_SW_CRDT_L_MASK = GENMASK 31 29"
definition PREFETCH_CTXT_DATA_W1_SW_CRDT_H_MASK :: u32 where "PREFETCH_CTXT_DATA_W1_SW_CRDT_H_MASK = GENMASK 12 0"
definition PREFETCH_CTXT_DATA_W1_VALID_MASK :: u32 where "PREFETCH_CTXT_DATA_W1_VALID_MASK = BIT 13"

lemmas eqdma_pfetch_masks [mask_defs] =
  PREFETCH_CTXT_DATA_W0_BYPASS_MASK_def
  PREFETCH_CTXT_DATA_W0_BUF_SZ_IDX_MASK_def
  PREFETCH_CTXT_DATA_W0_PORT_ID_MASK_def
  PREFETCH_CTXT_DATA_W0_NUM_PFCH_MASK_def
  PREFETCH_CTXT_DATA_W0_VAR_DESC_MASK_def
  PREFETCH_CTXT_DATA_W0_ERR_MASK_def
  PREFETCH_CTXT_DATA_W0_PFCH_EN_MASK_def
  PREFETCH_CTXT_DATA_W0_PFCH_MASK_def
  PREFETCH_CTXT_DATA_W0_SW_CRDT_L_MASK_def
  PREFETCH_CTXT_DATA_W1_SW_CRDT_H_MASK_def
  PREFETCH_CTXT_DATA_W1_VALID_MASK_def

definition eqdma_pfetch_context_words :: "qdma_descq_prefetch_ctxt \<Rightarrow> u32 list" where
  "eqdma_pfetch_context_words ctxt =
     (let sw_crdt_l = FIELD_GET QDMA_PFTCH_CTXT_SW_CRDT_GET_L_MASK (ucast (pc_sw_crdt ctxt));
          sw_crdt_h = FIELD_GET QDMA_PFTCH_CTXT_SW_CRDT_GET_H_MASK (ucast (pc_sw_crdt ctxt))
      in [FIELD_SET PREFETCH_CTXT_DATA_W0_BYPASS_MASK (ucast (pc_bypass ctxt)) OR
            FIELD_SET PREFETCH_CTXT_DATA_W0_BUF_SZ_IDX_MASK (ucast (pc_bufsz_idx ctxt)) OR
            FIELD_SET PREFETCH_CTXT_DATA_W0_PORT_ID_MASK (ucast (pc_port_id ctxt)) OR
            FIELD_SET PREFETCH_CTXT_DATA_W0_NUM_PFCH_MASK (ucast (pc_num_pftch ctxt)) OR
            FIELD_SET PREFETCH_CTXT_DATA_W0_VAR_DESC_MASK (ucast (pc_var_desc ctxt)) OR
            FIELD_SET PREFETCH_CTXT_DATA_W0_ERR_MASK (ucast (pc_err ctxt)) OR
            FIELD_SET PREFETCH_CTXT_DATA_W0_PFCH_EN_MASK (ucast (pc_pfch_en ctxt)) OR
            FIELD_SET PREFETCH_CTXT_DATA_W0_PFCH_MASK (ucast (pc_pfch ctxt)) OR
            FIELD_SET PREFETCH_CTXT_DATA_W0_SW_CRDT_L_MASK sw_crdt_l,
          FIELD_SET PREFETCH_CTXT_DATA_W1_SW_CRDT_H_MASK sw_crdt_h OR
            FIELD_SET PREFETCH_CTXT_DATA_W1_VALID_MASK (ucast (pc_valid ctxt))])"

definition eqdma_pfetch_context_of :: "u32 list \<Rightarrow> qdma_descq_prefetch_ctxt \<Rightarrow> qdma_descq_prefetch_ctxt" where
  "eqdma_pfetch_context_of ws ctxt =
     (let sw_crdt_l = FIELD_GET PREFETCH_CTXT_DATA_W0_SW_CRDT_L_MASK (ws ! 0);
          sw_crdt_h = FIELD_GET PREFETCH_CTXT_DATA_W1_SW_CRDT_H_MASK (ws ! 1)
      in ctxt\<lparr>pc_bypass := ucast (FIELD_GET PREFETCH_CTXT_DATA_W0_BYPASS_MASK (ws ! 0)),
           pc_bufsz_idx := ucast (FIELD_GET PREFETCH_CTXT_DATA_W0_BUF_SZ_IDX_MASK (ws ! 0)),
           pc_num_pftch := ucast (FIELD_GET PREFETCH_CTXT_DATA_W0_NUM_PFCH_MASK (ws ! 0)),
           pc_port_id := ucast (FIELD_GET PREFETCH_CTXT_DATA_W0_PORT_ID_MASK (ws ! 0)),
           pc_var_desc := ucast (FIELD_GET PREFETCH_CTXT_DATA_W0_VAR_DESC_MASK (ws ! 0)),
           pc_err := ucast (FIELD_GET PREFETCH_CTXT_DATA_W0_ERR_MASK (ws ! 0)),
           pc_pfch_en := ucast (FIELD_GET PREFETCH_CTXT_DATA_W0_PFCH_EN_MASK (ws ! 0)),
           pc_pfch := ucast (FIELD_GET PREFETCH_CTXT_DATA_W0_PFCH_MASK (ws ! 0)),
           pc_valid := ucast (FIELD_GET PREFETCH_CTXT_DATA_W1_VALID_MASK (ws ! 1)),
           pc_sw_crdt := ucast (FIELD_SET QDMA_PFTCH_CTXT_SW_CRDT_GET_L_MASK sw_crdt_l OR
             FIELD_SET QDMA_PFTCH_CTXT_SW_CRDT_GET_H_MASK sw_crdt_h)\<rparr>)"

definition eqdma_pfetch_context_write :: "'h bus \<Rightarrow> u16 \<Rightarrow> qdma_descq_prefetch_ctxt option \<Rightarrow> 'h \<Rightarrow> int \<times> 'h" where
  "eqdma_pfetch_context_write b hw_qid ctxt h =
     (case ctxt of
        None \<Rightarrow> (- err_code QDMA_ERR_INV_PARAM, h)
      | Some ctxt \<Rightarrow>
          eqdma_indirect_reg_write b QDMA_CTXT_SEL_PFTCH hw_qid (eqdma_pfetch_context_words ctxt) h)"

definition eqdma_pfetch_context_read ::
    "'h bus \<Rightarrow> u16 \<Rightarrow> qdma_descq_prefetch_ctxt option \<Rightarrow> 'h \<Rightarrow> int \<times> qdma_descq_prefetch_ctxt option \<times> 'h" where
  "eqdma_pfetch_context_read b hw_qid ctxt h =
     (case ctxt of
        None \<Rightarrow> (- err_code QDMA_ERR_INV_PARAM, None, h)
      | Some ctxt \<Rightarrow>
          (case eqdma_indirect_reg_read b QDMA_CTXT_SEL_PFTCH hw_qid EQDMA_PFETCH_CONTEXT_NUM_WORDS h of (rv, ws, h') \<Rightarrow>
             if rv < 0 then (rv, None, h') else (err_code QDMA_SUCCESS, Some (eqdma_pfetch_context_of ws ctxt), h')))"

definition eqdma_pfetch_context_clear :: "'h bus \<Rightarrow> u16 \<Rightarrow> 'h \<Rightarrow> int \<times> 'h" where
  "eqdma_pfetch_context_clear b hw_qid h = eqdma_indirect_reg_clear b QDMA_CTXT_SEL_PFTCH hw_qid h"

definition eqdma_pfetch_context_invalidate :: "'h bus \<Rightarrow> u16 \<Rightarrow> 'h \<Rightarrow> int \<times> 'h" where
  "eqdma_pfetch_context_invalidate b hw_qid h = eqdma_indirect_reg_invalidate b QDMA_CTXT_SEL_PFTCH hw_qid h"

definition eqdma_pfetch_ctx_conf :: "'h bus \<Rightarrow> u16 \<Rightarrow> (qdma_descq_prefetch_ctxt, 'h) ctx_conf" where
  "eqdma_pfetch_ctx_conf b hw_qid ctxt access_type h =
     (case access_type of
        QDMA_HW_ACCESS_READ \<Rightarrow> eqdma_pfetch_context_read b hw_qid ctxt h
      | QDMA_HW_ACCESS_WRITE \<Rightarrow> (case eqdma_pfetch_context_write b hw_qid ctxt h of (rv, h') \<Rightarrow> (rv, None, h'))
      | QDMA_HW_ACCESS_CLEAR \<Rightarrow> (case eqdma_pfetch_context_clear b hw_qid h of (rv, h') \<Rightarrow> (rv, None, h'))
      | QDMA_HW_ACCESS_INVALIDATE \<Rightarrow> (case eqdma_pfetch_context_invalidate b hw_qid h of (rv, h') \<Rightarrow> (rv, None, h')))"

section \<open>Completion context\<close>

definition EQDMA_CMPT_CONTEXT_NUM_WORDS :: nat where "EQDMA_CMPT_CONTEXT_NUM_WORDS = 6"

definition EQDMA_COMPL_CTXT_BADDR_HIGH_L_MASK :: u64 where "EQDMA_COMPL_CTXT_BADDR_HIGH_L_MASK = GENMASK 37 6"
definition EQDMA_COMPL_CTXT_BADDR_HIGH_H_MASK :: u64 where "EQDMA_COMPL_CTXT_BADDR_HIGH_H_MASK = GENMASK 63 38"
definition EQDMA_COMPL_CTXT_BADDR_LOW_MASK :: u64 where "EQDMA_COMPL_CTXT_BADDR_LOW_MASK = GENMASK 5 2"
definition EQDMA_CMPL_CTXT_PASID_GET_L_MASK :: u32 where "EQDMA_CMPL_CTXT_PASID_GET_L_MASK = GENMASK 8 0"
definition EQDMA_CMPL_CTXT_PASID_GET_H_MASK :: u32 where "EQDMA_CMPL_CTXT_PASID_GET_H_MASK = GENMASK 21 9"
definition CMPL_CTXT_DATA_W0_EN_STAT_DESC_MASK :: u32 where "CMPL_CTXT_DATA_W0_EN_STAT_DESC_MASK = BIT 0"
definition CMPL_CTXT_DATA_W0_EN_INT_MASK :: u32 where "CMPL_CTXT_DATA_W0_EN_INT_MASK = BIT 1"
definition CMPL_CTXT_DATA_W0_TRIG_MODE_MASK :: u32 where "CMPL_CTXT_DATA_W0_TRIG_MODE_MASK = GENMASK 4 2"
definition CMPL_CTXT_DATA_W0_FNC_ID_MASK :: u32 where "CMPL_CTXT_DATA_W0_FNC_ID_MASK = GENMASK 16 5"
definition CMPL_CTXT_DATA_W0_CNTER_IX_MASK :: u32 where "CMPL_CTXT_DATA_W0_CNTER_IX_MASK = GENMASK 20 17"
definition CMPL_CTXT_DATA_W0_TIMER_IX_MASK :: u32 where "CMPL_CTXT_DATA_W0_TIMER_IX_MASK = GENMASK 24 21"
definition CMPL_CTXT_DATA_W0_INT_ST_MASK :: u32 where "CMPL_CTXT_DATA_W0_INT_ST_MASK = GENMASK 26 25"
definition CMPL_CTXT_DATA_W0_COLOR_MASK :: u32 where "CMPL_CTXT_DATA_W0_COLOR_MASK = BIT 27"
definition CMPL_CTXT_DATA_W0_QSIZE_IX_MASK :: u32 where "CMPL_CTXT_DATA_W0_QSIZE_IX_MASK = GENMASK 31 28"
definition CMPL_CTXT_DATA_W1_BADDR4_HIGH_L_MASK :: u32 where "CMPL_CTXT_DATA_W1_BADDR4_HIGH_L_MASK = GENMASK 31 0"
definition CMPL_CTXT_DATA_W2_BADDR4_HIGH_H_MASK :: u32 where "CMPL_CTXT_DATA_W2_BADDR4_HIGH_H_MASK = GENMASK 25 0"
definition CMPL_CTXT_DATA_W2_DESC_SIZE_MASK :: u32 where "CMPL_CTXT_DATA_W2_DESC_SIZE_MASK = GENMASK 27 26"
definition CMPL_CTXT_DATA_W2_PIDX_L_MASK :: u32 where "CMPL_CTXT_DATA_W2_PIDX_L_MASK = GENMASK 31 28"
definition CMPL_CTXT_DATA_W3_PIDX_H_MASK :: u32 where "CMPL_CTXT_DATA_W3_PIDX_H_MASK = GENMASK 11 0"
definition CMPL_CTXT_DATA_W3_CIDX_MASK :: u32 where "CMPL_CTXT_DATA_W3_CIDX_MASK = GENMASK 27 12"
definition CMPL_CTXT_DATA_W3_VALID_MASK :: u32 where "CMPL_CTXT_DATA_W3_VALID_MASK = BIT 28"
definition CMPL_CTXT_DATA_W3_ERR_MASK :: u32 where "CMPL_CTXT_DATA_W3_ERR_MASK = GENMASK 30 29"
definition CMPL_CTXT_DATA_W3_USER_TRIG_PEND_MASK :: u32 where "CMPL_CTXT_DATA_W3_USER_TRIG_PEND_MASK = BIT 31"
definition CMPL_CTXT_DATA_W4_TIMER_RUNNING_MASK :: u32 where "CMPL_CTXT_DATA_W4_TIMER_RUNNING_MASK = BIT 0"
definition CMPL_CTXT_DATA_W4_FULL_UPD_MASK :: u32 where "CMPL_CTXT_DATA_W4_FULL_UPD_MASK = BIT 1"
definition CMPL_CTXT_DATA_W4_OVF_CHK_DIS_MASK :: u32 where "CMPL_CTXT_DATA_W4_OVF_CHK_DIS_MASK = BIT 2"
definition CMPL_CTXT_DATA_W4_AT_MASK :: u32 where "CMPL_CTXT_DATA_W4_AT_MASK = BIT 3"
definition CMPL_CTXT_DATA_W4_VEC_MASK :: u32 where "CMPL_CTXT_DATA_W4_VEC_MASK = GENMASK 14 4"
definition CMPL_CTXT_DATA_W4_INT_AGGR_MASK :: u32 where "CMPL_CTXT_DATA_W4_INT_AGGR_MASK = BIT 15"
definition CMPL_CTXT_DATA_W4_DIS_INTR_ON_VF_MASK :: u32 where "CMPL_CTXT_DATA_W4_DIS_INTR_ON_VF_MASK = BIT 16"
definition CMPL_CTXT_DATA_W4_VIO_MASK :: u32 where "CMPL_CTXT_DATA_W4_VIO_MASK = BIT 17"
definition CMPL_CTXT_DATA_W4_DIR_C2H_MASK :: u32 where "CMPL_CTXT_DATA_W4_DIR_C2H_MASK = BIT 18"
definition CMPL_CTXT_DATA_W4_HOST_ID_MASK :: u32 where "CMPL_CTXT_DATA_W4_HOST_ID_MASK = GENMASK 22 19"
definition CMPL_CTXT_DATA_W4_PASID_L_MASK :: u32 where "CMPL_CTXT_DATA_W4_PASID_L_MASK = GENMASK 31 23"
definition CMPL_CTXT_DATA_W5_PASID_H_MASK :: u32 where "CMPL_CTXT_DATA_W5_PASID_H_MASK = GENMASK 12 0"
definition CMPL_CTXT_DATA_W5_PASID_EN_MASK :: u32 where "CMPL_CTXT_DATA_W5_PASID_EN_MASK = BIT 13"
definition CMPL_CTXT_DATA_W5_BADDR4_LOW_MASK :: u32 where "CMPL_CTXT_DATA_W5_BADDR4_LOW_MASK = GENMASK 17 14"
definition CMPL_CTXT_DATA_W5_VIO_EOP_MASK :: u32 where "CMPL_CTXT_DATA_W5_VIO_EOP_MASK = BIT 18"
definition CMPL_CTXT_DATA_W5_SH_CMPT_MASK :: u32 where "CMPL_CTXT_DATA_W5_SH_CMPT_MASK = BIT 19"

lemmas eqdma_cmpt_masks [mask_defs] =
  EQDMA_COMPL_CTXT_BADDR_HIGH_L_MASK_def
  EQDMA_COMPL_CTXT_BADDR_HIGH_H_MASK_def
  EQDMA_COMPL_CTXT_BADDR_LOW_MASK_def
  EQDMA_CMPL_CTXT_PASID_GET_L_MASK_def
  EQDMA_CMPL_CTXT_PASID_GET_H_MASK_def
  CMPL_CTXT_DATA_W0_EN_STAT_DESC_MASK_def
  CMPL_CTXT_DATA_W0_EN_INT_MASK_def
  CMPL_CTXT_DATA_W0_TRIG_MODE_MASK_def
  CMPL_CTXT_DATA_W0_FNC_ID_MASK_def
  CMPL_CTXT_DATA_W0_CNTER_IX_MASK_def
  CMPL_CTXT_DATA_W0_TIMER_IX_MASK_def
  CMPL_CTXT_DATA_W0_INT_ST_MASK_def
  CMPL_CTXT_DATA_W0_COLOR_MASK_def
  CMPL_CTXT_DATA_W0_QSIZE_IX_MASK_def
  CMPL_CTXT_DATA_W1_BADDR4_HIGH_L_MASK_def
  CMPL_CTXT_DATA_W2_BADDR4_HIGH_H_MASK_def
  CMPL_CTXT_DATA_W2_DESC_SIZE_MASK_def
  CMPL_CTXT_DATA_W2_PIDX_L_MASK_def
  CMPL_CTXT_DATA_W3_PIDX_H_MASK_def
  CMPL_CTXT_DATA_W3_CIDX_MASK_def
  CMPL_CTXT_DATA_W3_VALID_MASK_def
  CMPL_CTXT_DATA_W3_ERR_MASK_def
  CMPL_CTXT_DATA_W3_USER_TRIG_PEND_MASK_def
  CMPL_CTXT_DATA_W4_TIMER_RUNNING_MASK_def
  CMPL_CTXT_DATA_W4_FULL_UPD_MASK_def
  CMPL_CTXT_DATA_W4_OVF_CHK_DIS_MASK_def
  CMPL_CTXT_DATA_W4_AT_MASK_def
  CMPL_CTXT_DATA_W4_VEC_MASK_def
  CMPL_CTXT_DATA_W4_INT_AGGR_MASK_def
  CMPL_CTXT_DATA_W4_DIS_INTR_ON_VF_MASK_def
  CMPL_CTXT_DATA_W4_VIO_MASK_def
  CMPL_CTXT_DATA_W4_DIR_C2H_MASK_def
  CMPL_CTXT_DATA_W4_HOST_ID_MASK_def
  CMPL_CTXT_DATA_W4_PASID_L_MASK_def
  CMPL_CTXT_DATA_W5_PASID_H_MASK_def
  CMPL_CTXT_DATA_W5_PASID_EN_MASK_def
  CMPL_CTXT_DATA_W5_BADDR4_LOW_MASK_def
  CMPL_CTXT_DATA_W5_VIO_EOP_MASK_def
  CMPL_CTXT_DATA_W5_SH_CMPT_MASK_def

definition eqdma_cmpt_context_words :: "qdma_descq_cmpt_ctxt \<Rightarrow> u32 list" where
  "eqdma_cmpt_context_words ctxt =
     (let baddr4_high_l = ucast (FIELD_GET EQDMA_COMPL_CTXT_BADDR_HIGH_L_MASK (cm_bs_addr ctxt));
          baddr4_high_h = ucast (FIELD_GET EQDMA_COMPL_CTXT_BADDR_HIGH_H_MASK (cm_bs_addr ctxt));
          baddr4_low = ucast (FIELD_GET EQDMA_COMPL_CTXT_BADDR_LOW_MASK (cm_bs_addr ctxt));
          pidx_l = FIELD_GET QDMA_COMPL_CTXT_PIDX_GET_L_MASK (ucast (cm_pidx ctxt));
          pidx_h = FIELD_GET QDMA_COMPL_CTXT_PIDX_GET_H_MASK (ucast (cm_pidx ctxt));
          pasid_l = FIELD_GET EQDMA_CMPL_CTXT_PASID_GET_L_MASK (cm_pasid ctxt);
          pasid_h = FIELD_GET EQDMA_CMPL_CTXT_PASID_GET_H_MASK (cm_pasid ctxt)
      in [FIELD_SET CMPL_CTXT_DATA_W0_EN_STAT_DESC_MASK (ucast (cm_en_stat_desc ctxt)) OR
            FIELD_SET CMPL_CTXT_DATA_W0_EN_INT_MASK (ucast (cm_en_int ctxt)) OR
            FIELD_SET CMPL_CTXT_DATA_W0_TRIG_MODE_MASK (ucast (cm_trig_mode ctxt)) OR
            FIELD_SET CMPL_CTXT_DATA_W0_FNC_ID_MASK (ucast (cm_fnc_id ctxt)) OR
            FIELD_SET CMPL_CTXT_DATA_W0_CNTER_IX_MASK (ucast (cm_counter_idx ctxt)) OR
            FIELD_SET CMPL_CTXT_DATA_W0_TIMER_IX_MASK (ucast (cm_timer_idx ctxt)) OR
            FIELD_SET CMPL_CTXT_DATA_W0_INT_ST_MASK (ucast (cm_in_st ctxt)) OR
            FIELD_SET CMPL_CTXT_DATA_W0_COLOR_MASK (ucast (cm_color ctxt)) OR
            FIELD_SET CMPL_CTXT_DATA_W0_QSIZE_IX_MASK (ucast (cm_ringsz_idx ctxt)),
          FIELD_SET CMPL_CTXT_DATA_W1_BADDR4_HIGH_L_MASK baddr4_high_l,
          FIELD_SET CMPL_CTXT_DATA_W2_BADDR4_HIGH_H_MASK baddr4_high_h OR
            FIELD_SET CMPL_CTXT_DATA_W2_DESC_SIZE_MASK (ucast (cm_desc_sz ctxt)) OR
            FIELD_SET CMPL_CTXT_DATA_W2_PIDX_L_MASK pidx_l,
          FIELD_SET CMPL_CTXT_DATA_W3_PIDX_H_MASK pidx_h OR
            FIELD_SET CMPL_CTXT_DATA_W3_CIDX_MASK (ucast (cm_cidx ctxt)) OR
            FIELD_SET CMPL_CTXT_DATA_W3_VALID_MASK (ucast (cm_valid ctxt)) OR
            FIELD_SET CMPL_CTXT_DATA_W3_ERR_MASK (ucast (cm_err ctxt)) OR
            FIELD_SET CMPL_CTXT_DATA_W3_USER_TRIG_PEND_MASK (ucast (cm_user_trig_pend ctxt)),
          FIELD_SET CMPL_CTXT_DATA_W4_TIMER_RUNNING_MASK (ucast (cm_timer_running ctxt)) OR
            FIELD_SET CMPL_CTXT_DATA_W4_FULL_UPD_MASK (ucast (cm_full_upd ctxt)) OR
            FIELD_SET CMPL_CTXT_DATA_W4_OVF_CHK_DIS_MASK (ucast (cm_ovf_chk_dis ctxt)) OR
            FIELD_SET CMPL_CTXT_DATA_W4_AT_MASK (ucast (cm_at ctxt)) OR
            FIELD_SET CMPL_CTXT_DATA_W4_VEC_MASK (ucast (cm_vec ctxt)) OR
            FIELD_SET CMPL_CTXT_DATA_W4_INT_AGGR_MASK (ucast (cm_int_aggr ctxt)) OR
            FIELD_SET CMPL_CTXT_DATA_W4_DIS_INTR_ON_VF_MASK (ucast (cm_dis_intr_on_vf ctxt)) OR
            FIELD_SET CMPL_CTXT_DATA_W4_VIO_MASK (ucast (cm_vio ctxt)) OR
            FIELD_SET CMPL_CTXT_DATA_W4_DIR_C2H_MASK (ucast (cm_dir_c2h ctxt)) OR
            FIELD_SET CMPL_CTXT_DATA_W4_HOST_ID_MASK (ucast (cm_host_id ctxt)) OR
            FIELD_SET CMPL_CTXT_DATA_W4_PASID_L_MASK pasid_l,
          FIELD_SET CMPL_CTXT_DATA_W5_PASID_H_MASK pasid_h OR
            FIELD_SET CMPL_CTXT_DATA_W5_PASID_EN_MASK (ucast (cm_pasid_en ctxt)) OR
            FIELD_SET CMPL_CTXT_DATA_W5_BADDR4_LOW_MASK baddr4_low OR
            FIELD_SET CMPL_CTXT_DATA_W5_VIO_EOP_MASK (ucast (cm_vio_eop ctxt)) OR
            FIELD_SET CMPL_CTXT_DATA_W5_SH_CMPT_MASK (ucast (cm_sh_cmpt ctxt))])"

definition eqdma_cmpt_context_of :: "u32 list \<Rightarrow> qdma_descq_cmpt_ctxt \<Rightarrow> qdma_descq_cmpt_ctxt" where
  "eqdma_cmpt_context_of ws ctxt =
     (let baddr4_high_l = FIELD_GET CMPL_CTXT_DATA_W1_BADDR4_HIGH_L_MASK (ws ! 1);
          baddr4_high_h = FIELD_GET CMPL_CTXT_DATA_W2_BADDR4_HIGH_H_MASK (ws ! 2);
          pidx_l = FIELD_GET CMPL_CTXT_DATA_W2_PIDX_L_MASK (ws ! 2);
          pidx_h = FIELD_GET CMPL_CTXT_DATA_W3_PIDX_H_MASK (ws ! 3);
          pasid_l = FIELD_GET CMPL_CTXT_DATA_W4_PASID_L_MASK (ws ! 4);
          pasid_h = FIELD_GET CMPL_CTXT_DATA_W5_PASID_H_MASK (ws ! 5);
          baddr4_low :: u32 = ucast (ucast (FIELD_GET CMPL_CTXT_DATA_W5_BADDR4_LOW_MASK (ws ! 5)) :: u8)
      in ctxt\<lparr>cm_en_stat_desc := ucast (FIELD_GET CMPL_CTXT_DATA_W0_EN_STAT_DESC_MASK (ws ! 0)),
           cm_en_int := ucast (FIELD_GET CMPL_CTXT_DATA_W0_EN_INT_MASK (ws ! 0)),
           cm_trig_mode := ucast (FIELD_GET CMPL_CTXT_DATA_W0_TRIG_MODE_MASK (ws ! 0)),
           cm_fnc_id := ucast (FIELD_GET CMPL_CTXT_DATA_W0_FNC_ID_MASK (ws ! 0)),
           cm_counter_idx := ucast (FIELD_GET CMPL_CTXT_DATA_W0_CNTER_IX_MASK (ws ! 0)),
           cm_timer_idx := ucast (FIELD_GET CMPL_CTXT_DATA_W0_TIMER_IX_MASK (ws ! 0)),
           cm_in_st := ucast (FIELD_GET CMPL_CTXT_DATA_W0_INT_ST_MASK (ws ! 0)),
           cm_color := ucast (FIELD_GET CMPL_CTXT_DATA_W0_COLOR_MASK (ws ! 0)),
           cm_ringsz_idx := ucast (FIELD_GET CMPL_CTXT_DATA_W0_QSIZE_IX_MASK (ws ! 0)),
           cm_desc_sz := ucast (FIELD_GET CMPL_CTXT_DATA_W2_DESC_SIZE_MASK (ws ! 2)),
           cm_cidx := ucast (FIELD_GET CMPL_CTXT_DATA_W3_CIDX_MASK (ws ! 3)),
           cm_valid := ucast (FIELD_GET CMPL_CTXT_DATA_W3_VALID_MASK (ws ! 3)),
           cm_err := ucast (FIELD_GET CMPL_CTXT_DATA_W3_ERR_MASK (ws ! 3)),
           cm_user_trig_pend := ucast (FIELD_GET CMPL_CTXT_DATA_W3_USER_TRIG_PEND_MASK (ws ! 3)),
           cm_timer_running := ucast (FIELD_GET CMPL_CTXT_DATA_W4_TIMER_RUNNING_MASK (ws ! 4)),
           cm_full_upd := ucast (FIELD_GET CMPL_CTXT_DATA_W4_FULL_UPD_MASK (ws ! 4)),
           cm_ovf_chk_dis := ucast (FIELD_GET CMPL_CTXT_DATA_W4_OVF_CHK_DIS_MASK (ws ! 4)),
           cm_at := ucast (FIELD_GET CMPL_CTXT_DATA_W4_AT_MASK (ws ! 4)),
           cm_vec := ucast (FIELD_GET CMPL_CTXT_DATA_W4_VEC_MASK (ws ! 4)),
           cm_int_aggr := ucast (FIELD_GET CMPL_CTXT_DATA_W4_INT_AGGR_MASK (ws ! 4)),
           cm_dis_intr_on_vf := ucast (FIELD_GET CMPL_CTXT_DATA_W4_DIS_INTR_ON_VF_MASK (ws ! 4)),
           cm_vio := ucast (FIELD_GET CMPL_CTXT_DATA_W4_VIO_MASK (ws ! 4)),
           cm_dir_c2h := ucast (FIELD_GET CMPL_CTXT_DATA_W4_DIR_C2H_MASK (ws ! 4)),
           cm_host_id := ucast (FIELD_GET CMPL_CTXT_DATA_W4_HOST_ID_MASK (ws ! 4)),
           cm_pasid_en := ucast (FIELD_GET CMPL_CTXT_DATA_W5_PASID_EN_MASK (ws ! 5)),
           cm_vio_eop := ucast (FIELD_GET CMPL_CTXT_DATA_W5_VIO_EOP_MASK (ws ! 5)),
           cm_sh_cmpt := ucast (FIELD_GET CMPL_CTXT_DATA_W5_SH_CMPT_MASK (ws ! 5)),
           cm_bs_addr := FIELD_SET EQDMA_COMPL_CTXT_BADDR_HIGH_L_MASK (ucast baddr4_high_l) OR
             FIELD_SET EQDMA_COMPL_CTXT_BADDR_HIGH_H_MASK (ucast baddr4_high_h) OR
               FIELD_SET EQDMA_COMPL_CTXT_BADDR_LOW_MASK (ucast baddr4_low),
           cm_pasid := FIELD_SET EQDMA_CMPL_CTXT_PASID_GET_L_MASK pasid_l OR
             FIELD_SET EQDMA_CMPL_CTXT_PASID_GET_H_MASK pasid_h,
           cm_pidx := ucast (FIELD_SET QDMA_COMPL_CTXT_PIDX_GET_L_MASK pidx_l OR
             FIELD_SET QDMA_COMPL_CTXT_PIDX_GET_H_MASK pidx_h)\<rparr>)"

definition eqdma_cmpt_context_write :: "'h bus \<Rightarrow> u16 \<Rightarrow> qdma_descq_cmpt_ctxt option \<Rightarrow> 'h \<Rightarrow> int \<times> 'h" where
  "eqdma_cmpt_context_write b hw_qid ctxt h =
     (case ctxt of
        None \<Rightarrow> (- err_code QDMA_ERR_INV_PARAM, h)
      | Some ctxt \<Rightarrow>
          if unat (cm_trig_mode ctxt) > QDMA_CMPT_UPDATE_TRIG_MODE_TMR_CNTR then (- err_code QDMA_ERR_INV_PARAM, h)
          else eqdma_indirect_reg_write b QDMA_CTXT_SEL_CMPT hw_qid (eqdma_cmpt_context_words ctxt) h)"

definition eqdma_cmpt_context_read ::
    "'h bus \<Rightarrow> u16 \<Rightarrow> qdma_descq_cmpt_ctxt option \<Rightarrow> 'h \<Rightarrow> int \<times> qdma_descq_cmpt_ctxt option \<times> 'h" where
  "eqdma_cmpt_context_read b hw_qid ctxt h =
     (case ctxt of
        None \<Rightarrow> (- err_code QDMA_ERR_INV_PARAM, None, h)
      | Some ctxt \<Rightarrow>
          (case eqdma_indirect_reg_read b QDMA_CTXT_SEL_CMPT hw_qid EQDMA_CMPT_CONTEXT_NUM_WORDS h of (rv, ws, h') \<Rightarrow>
             if rv < 0 then (rv, None, h') else (err_code QDMA_SUCCESS, Some (eqdma_cmpt_context_of ws ctxt), h')))"

definition eqdma_cmpt_context_clear :: "'h bus \<Rightarrow> u16 \<Rightarrow> 'h \<Rightarrow> int \<times> 'h" where
  "eqdma_cmpt_context_clear b hw_qid h = eqdma_indirect_reg_clear b QDMA_CTXT_SEL_CMPT hw_qid h"

definition eqdma_cmpt_context_invalidate :: "'h bus \<Rightarrow> u16 \<Rightarrow> 'h \<Rightarrow> int \<times> 'h" where
  "eqdma_cmpt_context_invalidate b hw_qid h = eqdma_indirect_reg_invalidate b QDMA_CTXT_SEL_CMPT hw_qid h"

definition eqdma_cmpt_ctx_conf :: "'h bus \<Rightarrow> u16 \<Rightarrow> (qdma_descq_cmpt_ctxt, 'h) ctx_conf" where
  "eqdma_cmpt_ctx_conf b hw_qid ctxt access_type h =
     (case access_type of
        QDMA_HW_ACCESS_READ \<Rightarrow> eqdma_cmpt_context_read b hw_qid ctxt h
      | QDMA_HW_ACCESS_WRITE \<Rightarrow> (case eqdma_cmpt_context_write b hw_qid ctxt h of (rv, h') \<Rightarrow> (rv, None, h'))
      | QDMA_HW_ACCESS_CLEAR \<Rightarrow> (case eqdma_cmpt_context_clear b hw_qid h of (rv, h') \<Rightarrow> (rv, None, h'))
      | QDMA_HW_ACCESS_INVALIDATE \<Rightarrow> (case eqdma_cmpt_context_invalidate b hw_qid h of (rv, h') \<Rightarrow> (rv, None, h')))"

section \<open>Hardware context\<close>

definition EQDMA_HW_CONTEXT_NUM_WORDS :: nat where "EQDMA_HW_CONTEXT_NUM_WORDS = 2"

definition HW_IND_CTXT_DATA_W0_CIDX_MASK :: u32 where "HW_IND_CTXT_DATA_W0_CIDX_MASK = GENMASK 15 0"
definition HW_IND_CTXT_DATA_W0_CRD_USE_MASK :: u32 where "HW_IND_CTXT_DATA_W0_CRD_USE_MASK = GENMASK 31 16"
definition HW_IND_CTXT_DATA_W1_DSC_PND_MASK :: u32 where "HW_IND_CTXT_DATA_W1_DSC_PND_MASK = BIT 8"
definition HW_IND_CTXT_DATA_W1_IDL_STP_B_MASK :: u32 where "HW_IND_CTXT_DATA_W1_IDL_STP_B_MASK = BIT 9"
definition HW_IND_CTXT_DATA_W1_EVT_PND_MASK :: u32 where "HW_IND_CTXT_DATA_W1_EVT_PND_MASK = BIT 10"

lemmas eqdma_hw_masks [mask_defs] =
  HW_IND_CTXT_DATA_W0_CIDX_MASK_def
  HW_IND_CTXT_DATA_W0_CRD_USE_MASK_def
  HW_IND_CTXT_DATA_W1_DSC_PND_MASK_def
  HW_IND_CTXT_DATA_W1_IDL_STP_B_MASK_def
  HW_IND_CTXT_DATA_W1_EVT_PND_MASK_def

definition eqdma_hw_context_of :: "u32 list \<Rightarrow> qdma_descq_hw_ctxt \<Rightarrow> qdma_descq_hw_ctxt" where
  "eqdma_hw_context_of ws ctxt =
     ctxt\<lparr>hw_cidx := ucast (FIELD_GET HW_IND_CTXT_DATA_W0_CIDX_MASK (ws ! 0)),
           hw_crd_use := ucast (FIELD_GET HW_IND_CTXT_DATA_W0_CRD_USE_MASK (ws ! 0)),
           hw_dsc_pend := ucast (FIELD_GET HW_IND_CTXT_DATA_W1_DSC_PND_MASK (ws ! 1)),
           hw_idl_stp_b := ucast (FIELD_GET HW_IND_CTXT_DATA_W1_IDL_STP_B_MASK (ws ! 1)),
           hw_evt_pnd := ucast (FIELD_GET HW_IND_CTXT_DATA_W1_EVT_PND_MASK (ws ! 1)),
           hw_fetch_pnd := ucast (FIELD_GET HW_IND_CTXT_DATA_W1_DSC_PND_MASK (ws ! 1))\<rparr>"

definition eqdma_hw_context_read ::
    "'h bus \<Rightarrow> u8 \<Rightarrow> u16 \<Rightarrow> qdma_descq_hw_ctxt option \<Rightarrow> 'h \<Rightarrow> int \<times> qdma_descq_hw_ctxt option \<times> 'h" where
  "eqdma_hw_context_read b c2h hw_qid ctxt h =
     (case ctxt of
        None \<Rightarrow> (- err_code QDMA_ERR_INV_PARAM, None, h)
      | Some ctxt \<Rightarrow>
          (case eqdma_indirect_reg_read b (if c2h \<noteq> 0 then QDMA_CTXT_SEL_HW_C2H else QDMA_CTXT_SEL_HW_H2C)
              hw_qid EQDMA_HW_CONTEXT_NUM_WORDS h of (rv, ws, h') \<Rightarrow>
             if rv < 0 then (rv, None, h') else (err_code QDMA_SUCCESS, Some (eqdma_hw_context_of ws ctxt), h')))"

definition eqdma_hw_context_clear :: "'h bus \<Rightarrow> u8 \<Rightarrow> u16 \<Rightarrow> 'h \<Rightarrow> int \<times> 'h" where
  "eqdma_hw_context_clear b c2h hw_qid h =
     eqdma_indirect_reg_clear b (if c2h \<noteq> 0 then QDMA_CTXT_SEL_HW_C2H else QDMA_CTXT_SEL_HW_H2C) hw_qid h"

definition eqdma_hw_context_invalidate :: "'h bus \<Rightarrow> u8 \<Rightarrow> u16 \<Rightarrow> 'h \<Rightarrow> int \<times> 'h" where
  "eqdma_hw_context_invalidate b c2h hw_qid h =
     eqdma_indirect_reg_invalidate b (if c2h \<noteq> 0 then QDMA_CTXT_SEL_HW_C2H else QDMA_CTXT_SEL_HW_H2C) hw_qid h"

definition eqdma_hw_ctx_conf :: "'h bus \<Rightarrow> u8 \<Rightarrow> u16 \<Rightarrow> (qdma_descq_hw_ctxt, 'h) ctx_conf" where
  "eqdma_hw_ctx_conf b c2h hw_qid ctxt access_type h =
     (if c2h > 1 then (- err_code QDMA_ERR_INV_PARAM, None, h)
      else case access_type of
        QDMA_HW_ACCESS_READ \<Rightarrow> eqdma_hw_context_read b c2h hw_qid ctxt h
      | QDMA_HW_ACCESS_WRITE \<Rightarrow> (- err_code QDMA_ERR_INV_PARAM, None, h)
      | QDMA_HW_ACCESS_CLEAR \<Rightarrow> (case eqdma_hw_context_clear b c2h hw_qid h of (rv, h') \<Rightarrow> (rv, None, h'))
      | QDMA_HW_ACCESS_INVALIDATE \<Rightarrow> (case eqdma_hw_context_invalidate b c2h hw_qid h of (rv, h') \<Rightarrow> (rv, None, h')))"

section \<open>Credit context\<close>

definition EQDMA_CR_CONTEXT_NUM_WORDS :: nat where "EQDMA_CR_CONTEXT_NUM_WORDS = 1"

definition CRED_CTXT_DATA_W0_CREDT_MASK :: u32 where "CRED_CTXT_DATA_W0_CREDT_MASK = GENMASK 15 0"

lemmas eqdma_credit_masks [mask_defs] =
  CRED_CTXT_DATA_W0_CREDT_MASK_def

definition eqdma_credit_context_of :: "u32 list \<Rightarrow> qdma_descq_credit_ctxt \<Rightarrow> qdma_descq_credit_ctxt" where
  "eqdma_credit_context_of ws ctxt =
     ctxt\<lparr>cr_credit := FIELD_GET CRED_CTXT_DATA_W0_CREDT_MASK (ws ! 0)\<rparr>"

definition eqdma_credit_context_read ::
    "'h bus \<Rightarrow> u8 \<Rightarrow> u16 \<Rightarrow> qdma_descq_credit_ctxt option \<Rightarrow> 'h \<Rightarrow> int \<times> qdma_descq_credit_ctxt option \<times> 'h" where
  "eqdma_credit_context_read b c2h hw_qid ctxt h =
     (case ctxt of
        None \<Rightarrow> (- err_code QDMA_ERR_INV_PARAM, None, h)
      | Some ctxt \<Rightarrow>
          (case eqdma_indirect_reg_read b (if c2h \<noteq> 0 then QDMA_CTXT_SEL_CR_C2H else QDMA_CTXT_SEL_CR_H2C)
              hw_qid EQDMA_CR_CONTEXT_NUM_WORDS h of (rv, ws, h') \<Rightarrow>
             if rv < 0 then (rv, None, h') else (err_code QDMA_SUCCESS, Some (eqdma_credit_context_of ws ctxt), h')))"

definition eqdma_credit_context_clear :: "'h bus \<Rightarrow> u8 \<Rightarrow> u16 \<Rightarrow> 'h \<Rightarrow> int \<times> 'h" where
  "eqdma_credit_context_clear b c2h hw_qid h =
     eqdma_indirect_reg_clear b (if c2h \<noteq> 0 then QDMA_CTXT_SEL_CR_C2H else QDMA_CTXT_SEL_CR_H2C) hw_qid h"

definition eqdma_credit_context_invalidate :: "'h bus \<Rightarrow> u8 \<Rightarrow> u16 \<Rightarrow> 'h \<Rightarrow> int \<times> 'h" where
  "eqdma_credit_context_invalidate b c2h hw_qid h =
     eqdma_indirect_reg_invalidate b (if c2h \<noteq> 0 then QDMA_CTXT_SEL_CR_C2H else QDMA_CTXT_SEL_CR_H2C) hw_qid h"

definition eqdma_credit_ctx_conf :: "'h bus \<Rightarrow> u8 \<Rightarrow> u16 \<Rightarrow> (qdma_descq_credit_ctxt, 'h) ctx_conf" where
  "eqdma_credit_ctx_conf b c2h hw_qid ctxt access_type h =
     (if c2h > 1 then (- err_code QDMA_ERR_INV_PARAM, None, h)
      else case access_type of
        QDMA_HW_ACCESS_READ \<Rightarrow> eqdma_credit_context_read b c2h hw_qid ctxt h
      | QDMA_HW_ACCESS_WRITE \<Rightarrow> (- err_code QDMA_ERR_INV_PARAM, None, h)
      | QDMA_HW_ACCESS_CLEAR \<Rightarrow> (case eqdma_credit_context_clear b c2h hw_qid h of (rv, h') \<Rightarrow> (rv, None, h'))
      | QDMA_HW_ACCESS_INVALIDATE \<Rightarrow> (case eqdma_credit_context_invalidate b c2h hw_qid h of (rv, h') \<Rightarrow> (rv, None, h')))"

section \<open>Interrupt rings\<close>

definition EQDMA_IND_INTR_CONTEXT_NUM_WORDS :: nat where "EQDMA_IND_INTR_CONTEXT_NUM_WORDS = 4"

definition EQDMA_INTR_CTXT_PASID_GET_L_MASK :: u32 where "EQDMA_INTR_CTXT_PASID_GET_L_MASK = GENMASK 8 0"
definition EQDMA_INTR_CTXT_PASID_GET_H_MASK :: u32 where "EQDMA_INTR_CTXT_PASID_GET_H_MASK = GENMASK 21 9"
definition INTR_CTXT_DATA_W0_VALID_MASK :: u32 where "INTR_CTXT_DATA_W0_VALID_MASK = BIT 0"
definition INTR_CTXT_DATA_W0_VEC_MASK :: u32 where "INTR_CTXT_DATA_W0_VEC_MASK = GENMASK 11 1"
definition INTR_CTXT_DATA_W0_INT_ST_MASK :: u32 where "INTR_CTXT_DATA_W0_INT_ST_MASK = BIT 13"
definition INTR_CTXT_DATA_W0_COLOR_MASK :: u32 where "INTR_CTXT_DATA_W0_COLOR_MASK = BIT 14"
definition INTR_CTXT_DATA_W0_BADDR_4K_L_MASK :: u32 where "INTR_CTXT_DATA_W0_BADDR_4K_L_MASK = GENMASK 31 15"
definition INTR_CTXT_DATA_W1_BADDR_4K_M_MASK :: u32 where "INTR_CTXT_DATA_W1_BADDR_4K_M_MASK = GENMASK 31 0"
definition INTR_CTXT_DATA_W2_BADDR_4K_H_MASK :: u32 where "INTR_CTXT_DATA_W2_BADDR_4K_H_MASK = GENMASK 2 0"
definition INTR_CTXT_DATA_W2_PAGE_SIZE_MASK :: u32 where "INTR_CTXT_DATA_W2_PAGE_SIZE_MASK = GENMASK 5 3"
definition INTR_CTXT_DATA_W2_PIDX_MASK :: u32 where "INTR_CTXT_DATA_W2_PIDX_MASK = GENMASK 17 6"
definition INTR_CTXT_DATA_W2_AT_MASK :: u32 where "INTR_CTXT_DATA_W2_AT_MASK = BIT 18"
definition INTR_CTXT_DATA_W2_HOST_ID_MASK :: u32 where "INTR_CTXT_DATA_W2_HOST_ID_MASK = GENMASK 22 19"
definition INTR_CTXT_DATA_W2_PASID_L_MASK :: u32 where "INTR_CTXT_DATA_W2_PASID_L_MASK = GENMASK 31 23"
definition INTR_CTXT_DATA_W3_PASID_H_MASK :: u32 where "INTR_CTXT_DATA_W3_PASID_H_MASK = GENMASK 12 0"
definition INTR_CTXT_DATA_W3_PASID_EN_MASK :: u32 where "INTR_CTXT_DATA_W3_PASID_EN_MASK = BIT 13"
definition INTR_CTXT_DATA_W3_FUNC_MASK :: u32 where "INTR_CTXT_DATA_W3_FUNC_MASK = GENMASK 29 18"

lemmas eqdma_indirect_intr_masks [mask_defs] =
  EQDMA_INTR_CTXT_PASID_GET_L_MASK_def
  EQDMA_INTR_CTXT_PASID_GET_H_MASK_def
  INTR_CTXT_DATA_W0_VALID_MASK_def
  INTR_CTXT_DATA_W0_VEC_MASK_def
  INTR_CTXT_DATA_W0_INT_ST_MASK_def
  INTR_CTXT_DATA_W0_COLOR_MASK_def
  INTR_CTXT_DATA_W0_BADDR_4K_L_MASK_def
  INTR_CTXT_DATA_W1_BADDR_4K_M_MASK_def
  INTR_CTXT_DATA_W2_BADDR_4K_H_MASK_def
  INTR_CTXT_DATA_W2_PAGE_SIZE_MASK_def
  INTR_CTXT_DATA_W2_PIDX_MASK_def
  INTR_CTXT_DATA_W2_AT_MASK_def
  INTR_CTXT_DATA_W2_HOST_ID_MASK_def
  INTR_CTXT_DATA_W2_PASID_L_MASK_def
  INTR_CTXT_DATA_W3_PASID_H_MASK_def
  INTR_CTXT_DATA_W3_PASID_EN_MASK_def
  INTR_CTXT_DATA_W3_FUNC_MASK_def

definition eqdma_indirect_intr_context_words :: "qdma_indirect_intr_ctxt \<Rightarrow> u32 list" where
  "eqdma_indirect_intr_context_words ctxt =
     (let baddr_l = ucast (FIELD_GET QDMA_INTR_CTXT_BADDR_GET_L_MASK (ic_baddr_4k ctxt));
          baddr_m = ucast (FIELD_GET QDMA_INTR_CTXT_BADDR_GET_M_MASK (ic_baddr_4k ctxt));
          baddr_h = ucast (FIELD_GET QDMA_INTR_CTXT_BADDR_GET_H_MASK (ic_baddr_4k ctxt));
          pasid_l = FIELD_GET EQDMA_INTR_CTXT_PASID_GET_L_MASK (ic_pasid ctxt);
          pasid_h = FIELD_GET EQDMA_INTR_CTXT_PASID_GET_H_MASK (ic_pasid ctxt)
      in [FIELD_SET INTR_CTXT_DATA_W0_VALID_MASK (ucast (ic_valid ctxt)) OR
            FIELD_SET INTR_CTXT_DATA_W0_VEC_MASK (ucast (ic_vec ctxt)) OR
            FIELD_SET INTR_CTXT_DATA_W0_INT_ST_MASK (ucast (ic_int_st ctxt)) OR
            FIELD_SET INTR_CTXT_DATA_W0_COLOR_MASK (ucast (ic_color ctxt)) OR
            FIELD_SET INTR_CTXT_DATA_W0_BADDR_4K_L_MASK baddr_l,
          FIELD_SET INTR_CTXT_DATA_W1_BADDR_4K_M_MASK baddr_m,
          FIELD_SET INTR_CTXT_DATA_W2_BADDR_4K_H_MASK baddr_h OR
            FIELD_SET INTR_CTXT_DATA_W2_PAGE_SIZE_MASK (ucast (ic_page_size ctxt)) OR
            FIELD_SET INTR_CTXT_DATA_W2_PIDX_MASK (ucast (ic_pidx ctxt)) OR
            FIELD_SET INTR_CTXT_DATA_W2_AT_MASK (ucast (ic_at ctxt)) OR
            FIELD_SET INTR_CTXT_DATA_W2_HOST_ID_MASK (ucast (ic_host_id ctxt)) OR
            FIELD_SET INTR_CTXT_DATA_W2_PASID_L_MASK pasid_l,
          FIELD_SET INTR_CTXT_DATA_W3_PASID_H_MASK pasid_h OR
            FIELD_SET INTR_CTXT_DATA_W3_PASID_EN_MASK (ucast (ic_pasid_en ctxt)) OR
            FIELD_SET INTR_CTXT_DATA_W3_FUNC_MASK (ucast (ic_func_id ctxt))])"

definition eqdma_indirect_intr_context_of :: "u32 list \<Rightarrow> qdma_indirect_intr_ctxt \<Rightarrow> qdma_indirect_intr_ctxt" where
  "eqdma_indirect_intr_context_of ws ctxt =
     (let baddr_l :: u64 = ucast (FIELD_GET INTR_CTXT_DATA_W0_BADDR_4K_L_MASK (ws ! 0));
          baddr_m :: u64 = ucast (FIELD_GET INTR_CTXT_DATA_W1_BADDR_4K_M_MASK (ws ! 1));
          baddr_h :: u64 = ucast (FIELD_GET INTR_CTXT_DATA_W2_BADDR_4K_H_MASK (ws ! 2));
          pasid_l :: u64 = ucast (ucast (FIELD_GET INTR_CTXT_DATA_W2_PASID_L_MASK (ws ! 2)) :: u8);
          pasid_h :: u64 = ucast (FIELD_GET INTR_CTXT_DATA_W3_PASID_H_MASK (ws ! 3))
      in ctxt\<lparr>ic_valid := ucast (FIELD_GET INTR_CTXT_DATA_W0_VALID_MASK (ws ! 0)),
           ic_vec := ucast (FIELD_GET INTR_CTXT_DATA_W0_VEC_MASK (ws ! 0)),
           ic_int_st := ucast (FIELD_GET INTR_CTXT_DATA_W0_INT_ST_MASK (ws ! 0)),
           ic_color := ucast (FIELD_GET INTR_CTXT_DATA_W0_COLOR_MASK (ws ! 0)),
           ic_page_size := ucast (FIELD_GET INTR_CTXT_DATA_W2_PAGE_SIZE_MASK (ws ! 2)),
           ic_pidx := ucast (FIELD_GET INTR_CTXT_DATA_W2_PIDX_MASK (ws ! 2)),
           ic_at := ucast (FIELD_GET INTR_CTXT_DATA_W2_AT_MASK (ws ! 2)),
           ic_host_id := ucast (FIELD_GET INTR_CTXT_DATA_W2_HOST_ID_MASK (ws ! 2)),
           ic_pasid_en := ucast (FIELD_GET INTR_CTXT_DATA_W3_PASID_EN_MASK (ws ! 3)),
           ic_func_id := ucast (FIELD_GET INTR_CTXT_DATA_W3_FUNC_MASK (ws ! 3)),
           ic_baddr_4k := FIELD_SET QDMA_INTR_CTXT_BADDR_GET_L_MASK baddr_l OR
             FIELD_SET QDMA_INTR_CTXT_BADDR_GET_M_MASK baddr_m OR FIELD_SET QDMA_INTR_CTXT_BADDR_GET_H_MASK baddr_h,
           ic_pasid := FIELD_SET EQDMA_INTR_CTXT_PASID_GET_L_MASK (ucast pasid_l) OR
             FIELD_SET EQDMA_INTR_CTXT_PASID_GET_H_MASK (ucast pasid_h)\<rparr>)"

definition eqdma_indirect_intr_context_write :: "'h bus \<Rightarrow> u16 \<Rightarrow> qdma_indirect_intr_ctxt option \<Rightarrow> 'h \<Rightarrow> int \<times> 'h" where
  "eqdma_indirect_intr_context_write b ring_index ctxt h =
     (case ctxt of
        None \<Rightarrow> (- err_code QDMA_ERR_INV_PARAM, h)
      | Some ctxt \<Rightarrow>
          eqdma_indirect_reg_write b QDMA_CTXT_SEL_INT_COAL ring_index (eqdma_indirect_intr_context_words ctxt) h)"

definition eqdma_indirect_intr_context_read ::
    "'h bus \<Rightarrow> u16 \<Rightarrow> qdma_indirect_intr_ctxt option \<Rightarrow> 'h \<Rightarrow> int \<times> qdma_indirect_intr_ctxt option \<times> 'h" where
  "eqdma_indirect_intr_context_read b ring_index ctxt h =
     (case ctxt of
        None \<Rightarrow> (- err_code QDMA_ERR_INV_PARAM, None, h)
      | Some ctxt \<Rightarrow>
          (case eqdma_indirect_reg_read b QDMA_CTXT_SEL_INT_COAL ring_index EQDMA_IND_INTR_CONTEXT_NUM_WORDS h of (rv, ws, h') \<Rightarrow>
             if rv < 0 then (rv, None, h') else (err_code QDMA_SUCCESS, Some (eqdma_indirect_intr_context_of ws ctxt), h')))"

definition eqdma_indirect_intr_context_clear :: "'h bus \<Rightarrow> u16 \<Rightarrow> 'h \<Rightarrow> int \<times> 'h" where
  "eqdma_indirect_intr_context_clear b ring_index h = eqdma_indirect_reg_clear b QDMA_CTXT_SEL_INT_COAL ring_index h"

definition eqdma_indirect_intr_context_invalidate :: "'h bus \<Rightarrow> u16 \<Rightarrow> 'h \<Rightarrow> int \<times> 'h" where
  "eqdma_indirect_intr_context_invalidate b ring_index h = eqdma_indirect_reg_invalidate b QDMA_CTXT_SEL_INT_COAL ring_index h"

definition eqdma_indirect_intr_ctx_conf :: "'h bus \<Rightarrow> u16 \<Rightarrow> (qdma_indirect_intr_ctxt, 'h) ctx_conf" where
  "eqdma_indirect_intr_ctx_conf b ring_index ctxt access_type h =
     (case access_type of
        QDMA_HW_ACCESS_READ \<Rightarrow> eqdma_indirect_intr_context_read b ring_index ctxt h
      | QDMA_HW_ACCESS_WRITE \<Rightarrow> (case eqdma_indirect_intr_context_write b ring_index ctxt h of (rv, h') \<Rightarrow> (rv, None, h'))
      | QDMA_HW_ACCESS_CLEAR \<Rightarrow> (case eqdma_indirect_intr_context_clear b ring_index h of (rv, h') \<Rightarrow> (rv, None, h'))
      | QDMA_HW_ACCESS_INVALIDATE \<Rightarrow> (case eqdma_indirect_intr_context_invalidate b ring_index h of (rv, h') \<Rightarrow> (rv, None, h')))"

end
