(* ===== verification/Eqdma_Csr.thy ===== *)
theory Eqdma_Csr
  imports Soft_Csr Eqdma_Context
begin

text \<open>
  Configuration registers of the enhanced QDMA (\<open>eqdma_soft_access.c\<close>), as in \<open>Soft_Csr\<close>.  The queue indices
  are updated by the functions of the soft QDMA.
\<close>

section \<open>Registers and fields\<close>

definition EQDMA_GLBL2_CHANNEL_CAP_ADDR :: u32 where "EQDMA_GLBL2_CHANNEL_CAP_ADDR = 0x120"
definition EQDMA_GLBL2_MISC_CAP_ADDR :: u32 where "EQDMA_GLBL2_MISC_CAP_ADDR = 0x134"
definition EQDMA_GLBL2_CHANNEL_MDMA_ADDR :: u32 where "EQDMA_GLBL2_CHANNEL_MDMA_ADDR = 0x118"
definition GLBL2_CHANNEL_CAP_MULTIQ_MAX_MASK :: u32 where "GLBL2_CHANNEL_CAP_MULTIQ_MAX_MASK = GENMASK 11 0"
definition EQDMA_GLBL2_FLR_PRESENT_MASK :: u32 where "EQDMA_GLBL2_FLR_PRESENT_MASK = BIT 1"
definition GLBL2_CHANNEL_MDMA_C2H_ST_MASK :: u32 where "GLBL2_CHANNEL_MDMA_C2H_ST_MASK = BIT 17"
definition GLBL2_CHANNEL_MDMA_H2C_ST_MASK :: u32 where "GLBL2_CHANNEL_MDMA_H2C_ST_MASK = BIT 16"
definition GLBL2_CHANNEL_MDMA_C2H_ENG_MASK :: u32 where "GLBL2_CHANNEL_MDMA_C2H_ENG_MASK = GENMASK 11 8"
definition GLBL2_CHANNEL_MDMA_H2C_ENG_MASK :: u32 where "GLBL2_CHANNEL_MDMA_H2C_ENG_MASK = GENMASK 3 0"
definition EQDMA_GLBL2_MAILBOX_EN_MASK :: u32 where "EQDMA_GLBL2_MAILBOX_EN_MASK = BIT 0"
definition EQDMA_GLBL2_DBG_MODE_EN_MASK :: u32 where "EQDMA_GLBL2_DBG_MODE_EN_MASK = BIT 4"
definition EQDMA_GLBL2_DESC_ENG_MODE_MASK :: u32 where "EQDMA_GLBL2_DESC_ENG_MODE_MASK = GENMASK 3 2"
definition EQDMA_GLBL_RNG_SZ_1_ADDR :: u32 where "EQDMA_GLBL_RNG_SZ_1_ADDR = 0x204"
definition EQDMA_C2H_TIMER_CNT_ADDR :: u32 where "EQDMA_C2H_TIMER_CNT_ADDR = 0xA00"
definition EQDMA_C2H_CNT_TH_ADDR :: u32 where "EQDMA_C2H_CNT_TH_ADDR = 0xA40"
definition EQDMA_C2H_BUF_SZ_ADDR :: u32 where "EQDMA_C2H_BUF_SZ_ADDR = 0xAB0"
definition EQDMA_GLBL_DSC_CFG_ADDR :: u32 where "EQDMA_GLBL_DSC_CFG_ADDR = 0x250"
definition GLBL_DSC_CFG_WB_ACC_INT_MASK :: u32 where "GLBL_DSC_CFG_WB_ACC_INT_MASK = GENMASK 2 0"
definition EQDMA_C2H_MM_CTL_ADDR :: u32 where "EQDMA_C2H_MM_CTL_ADDR = 0x1004"
definition EQDMA_H2C_MM_CTL_ADDR :: u32 where "EQDMA_H2C_MM_CTL_ADDR = 0x1204"
definition GLBL_DSC_CFG_MAXFETCH_MASK :: u32 where "GLBL_DSC_CFG_MAXFETCH_MASK = GENMASK 5 3"
definition EQDMA_C2H_PFCH_CACHE_DEPTH_ADDR :: u32 where "EQDMA_C2H_PFCH_CACHE_DEPTH_ADDR = 0xBE0"
definition EQDMA_C2H_PFCH_CFG_ADDR :: u32 where "EQDMA_C2H_PFCH_CFG_ADDR = 0xB08"
definition C2H_PFCH_CFG_FL_TH_MASK :: u32 where "C2H_PFCH_CFG_FL_TH_MASK = GENMASK 15 0"
definition EQDMA_C2H_PFCH_CFG_1_ADDR :: u32 where "EQDMA_C2H_PFCH_CFG_1_ADDR = 0xA80"
definition C2H_PFCH_CFG_1_QCNT_MASK :: u32 where "C2H_PFCH_CFG_1_QCNT_MASK = GENMASK 15 0"
definition C2H_PFCH_CFG_1_EVT_QCNT_TH_MASK :: u32 where "C2H_PFCH_CFG_1_EVT_QCNT_TH_MASK = GENMASK 31 16"
definition EQDMA_C2H_PFCH_CFG_2_ADDR :: u32 where "EQDMA_C2H_PFCH_CFG_2_ADDR = 0xA84"
definition C2H_PFCH_CFG_2_NUM_MASK :: u32 where "C2H_PFCH_CFG_2_NUM_MASK = GENMASK 5 0"
definition EQDMA_C2H_INT_TIMER_TICK_ADDR :: u32 where "EQDMA_C2H_INT_TIMER_TICK_ADDR = 0xB0C"
definition EQDMA_C2H_WRB_COAL_BUF_DEPTH_ADDR :: u32 where "EQDMA_C2H_WRB_COAL_BUF_DEPTH_ADDR = 0xBE4"
definition EQDMA_C2H_WRB_COAL_CFG_ADDR :: u32 where "EQDMA_C2H_WRB_COAL_CFG_ADDR = 0xB50"
definition C2H_WRB_COAL_CFG_TICK_CNT_MASK :: u32 where "C2H_WRB_COAL_CFG_TICK_CNT_MASK = GENMASK 13 2"
definition C2H_WRB_COAL_CFG_TICK_VAL_MASK :: u32 where "C2H_WRB_COAL_CFG_TICK_VAL_MASK = GENMASK 25 14"
definition C2H_WRB_COAL_CFG_MAX_BUF_SZ_MASK :: u32 where "C2H_WRB_COAL_CFG_MAX_BUF_SZ_MASK = GENMASK 31 26"
definition EQDMA_H2C_REQ_THROT_PCIE_ADDR :: u32 where "EQDMA_H2C_REQ_THROT_PCIE_ADDR = 0xE24"
definition H2C_REQ_THROT_PCIE_DATA_THRESH_MASK :: u32 where "H2C_REQ_THROT_PCIE_DATA_THRESH_MASK = GENMASK 17 0"
definition EQDMA_H2C_THROT_DATA_THRESH :: u32 where "EQDMA_H2C_THROT_DATA_THRESH = 0x5000"
definition H2C_REQ_THROT_PCIE_EN_DATA_MASK :: u32 where "H2C_REQ_THROT_PCIE_EN_DATA_MASK = BIT 18"
definition EQDMA_THROT_EN_DATA :: u32 where "EQDMA_THROT_EN_DATA = 1"
definition H2C_REQ_THROT_PCIE_MASK :: u32 where "H2C_REQ_THROT_PCIE_MASK = GENMASK 30 19"
definition EQDMA_H2C_THROT_REQ_THRESH :: u32 where "EQDMA_H2C_THROT_REQ_THRESH = 0xC0"
definition H2C_REQ_THROT_PCIE_EN_REQ_MASK :: u32 where "H2C_REQ_THROT_PCIE_EN_REQ_MASK = BIT 31"
definition EQDMA_THROT_EN_REQ :: u32 where "EQDMA_THROT_EN_REQ = 0"
definition EQDMA_OFFSET_VF_USER_BAR :: u32 where "EQDMA_OFFSET_VF_USER_BAR = 0x5018"
definition EQDMA_OFFSET_GLBL2_PF_BARLITE_EXT :: u32 where "EQDMA_OFFSET_GLBL2_PF_BARLITE_EXT = 0x10C"

lemmas eqdma_csr_masks [mask_defs] =
  GLBL2_CHANNEL_CAP_MULTIQ_MAX_MASK_def
  EQDMA_GLBL2_FLR_PRESENT_MASK_def
  GLBL2_CHANNEL_MDMA_C2H_ST_MASK_def
  GLBL2_CHANNEL_MDMA_H2C_ST_MASK_def
  GLBL2_CHANNEL_MDMA_C2H_ENG_MASK_def
  GLBL2_CHANNEL_MDMA_H2C_ENG_MASK_def
  EQDMA_GLBL2_MAILBOX_EN_MASK_def
  EQDMA_GLBL2_DBG_MODE_EN_MASK_def
  EQDMA_GLBL2_DESC_ENG_MODE_MASK_def
  GLBL_DSC_CFG_WB_ACC_INT_MASK_def
  GLBL_DSC_CFG_MAXFETCH_MASK_def
  C2H_PFCH_CFG_FL_TH_MASK_def
  C2H_PFCH_CFG_1_QCNT_MASK_def
  C2H_PFCH_CFG_1_EVT_QCNT_TH_MASK_def
  C2H_PFCH_CFG_2_NUM_MASK_def
  C2H_WRB_COAL_CFG_TICK_CNT_MASK_def
  C2H_WRB_COAL_CFG_TICK_VAL_MASK_def
  C2H_WRB_COAL_CFG_MAX_BUF_SZ_MASK_def
  H2C_REQ_THROT_PCIE_DATA_THRESH_MASK_def
  H2C_REQ_THROT_PCIE_EN_DATA_MASK_def
  H2C_REQ_THROT_PCIE_MASK_def
  H2C_REQ_THROT_PCIE_EN_REQ_MASK_def

lemmas eqdma_csr_addrs =
  EQDMA_GLBL2_CHANNEL_CAP_ADDR_def
  EQDMA_GLBL2_MISC_CAP_ADDR_def
  EQDMA_GLBL2_CHANNEL_MDMA_ADDR_def
  EQDMA_GLBL_RNG_SZ_1_ADDR_def
  EQDMA_C2H_TIMER_CNT_ADDR_def
  EQDMA_C2H_CNT_TH_ADDR_def
  EQDMA_C2H_BUF_SZ_ADDR_def
  EQDMA_GLBL_DSC_CFG_ADDR_def
  EQDMA_C2H_MM_CTL_ADDR_def
  EQDMA_H2C_MM_CTL_ADDR_def
  EQDMA_C2H_PFCH_CACHE_DEPTH_ADDR_def
  EQDMA_C2H_PFCH_CFG_ADDR_def
  EQDMA_C2H_PFCH_CFG_1_ADDR_def
  EQDMA_C2H_PFCH_CFG_2_ADDR_def
  EQDMA_C2H_INT_TIMER_TICK_ADDR_def
  EQDMA_C2H_WRB_COAL_BUF_DEPTH_ADDR_def
  EQDMA_C2H_WRB_COAL_CFG_ADDR_def
  EQDMA_H2C_REQ_THROT_PCIE_ADDR_def
  EQDMA_H2C_THROT_DATA_THRESH_def
  EQDMA_THROT_EN_DATA_def
  EQDMA_H2C_THROT_REQ_THRESH_def
  EQDMA_THROT_EN_REQ_def
  EQDMA_OFFSET_VF_USER_BAR_def
  EQDMA_OFFSET_GLBL2_PF_BARLITE_EXT_def

section \<open>Attributes of the device\<close>

definition eqdma_get_device_attributes :: "'h bus \<Rightarrow> 'h \<Rightarrow> qdma_dev_attributes \<times> 'h" where
  "eqdma_get_device_attributes b h =
     (case bus_read b QDMA_OFFSET_GLBL2_PF_BARLITE_INT h of (pfs, h1) \<Rightarrow>
      case bus_read b EQDMA_GLBL2_CHANNEL_CAP_ADDR h1 of (cap, h2) \<Rightarrow>
      case bus_read b EQDMA_GLBL2_MISC_CAP_ADDR h2 of (misc, h3) \<Rightarrow>
      case bus_read b EQDMA_GLBL2_CHANNEL_MDMA_ADDR h3 of (mdma, h4) \<Rightarrow>
        (\<lparr>num_pfs = of_nat (length (filter (\<lambda>m. FIELD_GET m pfs \<noteq> 0)
             [QDMA_GLBL2_PF0_BAR_MAP_MASK, QDMA_GLBL2_PF1_BAR_MAP_MASK,
              QDMA_GLBL2_PF2_BAR_MAP_MASK, QDMA_GLBL2_PF3_BAR_MAP_MASK])),
           num_qs = ucast (FIELD_GET GLBL2_CHANNEL_CAP_MULTIQ_MAX_MASK cap),
           flr_present = ucast (FIELD_GET EQDMA_GLBL2_FLR_PRESENT_MASK misc),
           st_en = (if FIELD_GET GLBL2_CHANNEL_MDMA_C2H_ST_MASK mdma \<noteq> 0 \<and> FIELD_GET GLBL2_CHANNEL_MDMA_H2C_ST_MASK mdma \<noteq> 0 then 1 else 0),
           mm_en = (if FIELD_GET GLBL2_CHANNEL_MDMA_C2H_ENG_MASK mdma \<noteq> 0 \<and> FIELD_GET GLBL2_CHANNEL_MDMA_H2C_ENG_MASK mdma \<noteq> 0 then 1 else 0),
           mm_cmpt_en = 0, mailbox_en = ucast (FIELD_GET EQDMA_GLBL2_MAILBOX_EN_MASK misc),
           debug_mode = ucast (FIELD_GET EQDMA_GLBL2_DBG_MODE_EN_MASK misc),
           desc_eng_mode = ucast (FIELD_GET EQDMA_GLBL2_DESC_ENG_MODE_MASK misc),
           mm_channel_max = 1, qid2vec_ctx = 0, cmpt_ovf_chk_dis = 1, mailbox_intr = 1, sw_desc_64b = 1, cmpt_desc_64b = 1,
           dynamic_bar = 1, legacy_intr = 1, cmpt_trig_count_timer = 1\<rparr>, h4))"

text \<open>What the CSR functions ask for.\<close>

definition eqdma_st_or_mm_cmpt :: "'h bus \<Rightarrow> 'h \<Rightarrow> bool \<times> 'h" where
  "eqdma_st_or_mm_cmpt b h = (case eqdma_get_device_attributes b h of (dev_cap, h') \<Rightarrow> (st_en dev_cap \<noteq> 0 \<or> mm_cmpt_en dev_cap \<noteq> 0, h'))"

definition eqdma_st :: "'h bus \<Rightarrow> 'h \<Rightarrow> bool \<times> 'h" where
  "eqdma_st b h = (case eqdma_get_device_attributes b h of (dev_cap, h') \<Rightarrow> (st_en dev_cap \<noteq> 0, h'))"

section \<open>Arrays of 16 registers\<close>

definition eqdma_write_global_ring_sizes ::
    "'h bus \<Rightarrow> u8 \<Rightarrow> u8 \<Rightarrow> (nat \<Rightarrow> u32) option \<Rightarrow> 'h \<Rightarrow> int \<times> 'h" where
  "eqdma_write_global_ring_sizes b = csr_write b EQDMA_GLBL_RNG_SZ_1_ADDR QDMA_NUM_RING_SIZES (Pair True)"

definition eqdma_read_global_ring_sizes ::
    "'h bus \<Rightarrow> u8 \<Rightarrow> u8 \<Rightarrow> (nat \<Rightarrow> u32) option \<Rightarrow> 'h \<Rightarrow> int \<times> (nat \<Rightarrow> u32) option \<times> 'h" where
  "eqdma_read_global_ring_sizes b = csr_read b EQDMA_GLBL_RNG_SZ_1_ADDR QDMA_NUM_RING_SIZES (Pair True)"

definition eqdma_write_global_timer_count ::
    "'h bus \<Rightarrow> u8 \<Rightarrow> u8 \<Rightarrow> (nat \<Rightarrow> u32) option \<Rightarrow> 'h \<Rightarrow> int \<times> 'h" where
  "eqdma_write_global_timer_count b = csr_write b EQDMA_C2H_TIMER_CNT_ADDR QDMA_NUM_C2H_TIMERS (eqdma_st_or_mm_cmpt b)"

definition eqdma_read_global_timer_count ::
    "'h bus \<Rightarrow> u8 \<Rightarrow> u8 \<Rightarrow> (nat \<Rightarrow> u32) option \<Rightarrow> 'h \<Rightarrow> int \<times> (nat \<Rightarrow> u32) option \<times> 'h" where
  "eqdma_read_global_timer_count b = csr_read b EQDMA_C2H_TIMER_CNT_ADDR QDMA_NUM_C2H_TIMERS (eqdma_st_or_mm_cmpt b)"

definition eqdma_write_global_counter_threshold ::
    "'h bus \<Rightarrow> u8 \<Rightarrow> u8 \<Rightarrow> (nat \<Rightarrow> u32) option \<Rightarrow> 'h \<Rightarrow> int \<times> 'h" where
  "eqdma_write_global_counter_threshold b = csr_write b EQDMA_C2H_CNT_TH_ADDR QDMA_NUM_C2H_COUNTERS (eqdma_st_or_mm_cmpt b)"

definition eqdma_read_global_counter_threshold ::
    "'h bus \<Rightarrow> u8 \<Rightarrow> u8 \<Rightarrow> (nat \<Rightarrow> u32) option \<Rightarrow> 'h \<Rightarrow> int \<times> (nat \<Rightarrow> u32) option \<times> 'h" where
  "eqdma_read_global_counter_threshold b = csr_read b EQDMA_C2H_CNT_TH_ADDR QDMA_NUM_C2H_COUNTERS (eqdma_st_or_mm_cmpt b)"

definition eqdma_write_global_buffer_sizes ::
    "'h bus \<Rightarrow> u8 \<Rightarrow> u8 \<Rightarrow> (nat \<Rightarrow> u32) option \<Rightarrow> 'h \<Rightarrow> int \<times> 'h" where
  "eqdma_write_global_buffer_sizes b = csr_write b EQDMA_C2H_BUF_SZ_ADDR QDMA_NUM_C2H_BUFFER_SIZES (eqdma_st b)"

definition eqdma_read_global_buffer_sizes ::
    "'h bus \<Rightarrow> u8 \<Rightarrow> u8 \<Rightarrow> (nat \<Rightarrow> u32) option \<Rightarrow> 'h \<Rightarrow> int \<times> (nat \<Rightarrow> u32) option \<times> 'h" where
  "eqdma_read_global_buffer_sizes b = csr_read b EQDMA_C2H_BUF_SZ_ADDR QDMA_NUM_C2H_BUFFER_SIZES (eqdma_st b)"

definition eqdma_global_csr_conf ::
    "'h bus \<Rightarrow> u8 \<Rightarrow> u8 \<Rightarrow> (nat \<Rightarrow> u32) option \<Rightarrow> qdma_global_csr_type \<Rightarrow> qdma_hw_access_type \<Rightarrow> 'h \<Rightarrow>
      int \<times> (nat \<Rightarrow> u32) option \<times> 'h" where
  "eqdma_global_csr_conf b index count csr_val csr_type access_type h =
     (case csr_type of
        QDMA_CSR_RING_SZ \<Rightarrow> csr_access (eqdma_read_global_ring_sizes b index count csr_val)
          (eqdma_write_global_ring_sizes b index count csr_val) access_type h
      | QDMA_CSR_TIMER_CNT \<Rightarrow> csr_access (eqdma_read_global_timer_count b index count csr_val)
          (eqdma_write_global_timer_count b index count csr_val) access_type h
      | QDMA_CSR_CNT_TH \<Rightarrow> csr_access (eqdma_read_global_counter_threshold b index count csr_val)
          (eqdma_write_global_counter_threshold b index count csr_val) access_type h
      | QDMA_CSR_BUF_SZ \<Rightarrow> csr_access (eqdma_read_global_buffer_sizes b index count csr_val)
          (eqdma_write_global_buffer_sizes b index count csr_val) access_type h)"

section \<open>Writeback interval and memory-mapped channels\<close>

definition eqdma_global_writeback_interval_write :: "'h bus \<Rightarrow> u32 \<Rightarrow> 'h \<Rightarrow> int \<times> 'h" where
  "eqdma_global_writeback_interval_write b wb_int h =
     (if wb_int \<ge> QDMA_NUM_WRB_INTERVALS then (- err_code QDMA_ERR_INV_PARAM, h)
      else case eqdma_st_or_mm_cmpt b h of (ok, h1) \<Rightarrow>
        if ok then case bus_read b EQDMA_GLBL_DSC_CFG_ADDR h1 of (reg_val, h2) \<Rightarrow>
          (err_code QDMA_SUCCESS,
           bus_write b EQDMA_GLBL_DSC_CFG_ADDR (reg_val OR FIELD_SET GLBL_DSC_CFG_WB_ACC_INT_MASK wb_int) h2)
        else (- err_code QDMA_ERR_HWACC_FEATURE_NOT_SUPPORTED, h1))"

definition eqdma_global_writeback_interval_read :: "'h bus \<Rightarrow> u32 option \<Rightarrow> 'h \<Rightarrow> int \<times> u32 option \<times> 'h" where
  "eqdma_global_writeback_interval_read b wb_int h =
     (case wb_int of
        None \<Rightarrow> (- err_code QDMA_ERR_INV_PARAM, None, h)
      | Some _ \<Rightarrow> (case eqdma_st_or_mm_cmpt b h of (ok, h1) \<Rightarrow>
          if ok then case bus_read b EQDMA_GLBL_DSC_CFG_ADDR h1 of (reg_val, h2) \<Rightarrow>
            (err_code QDMA_SUCCESS, Some (FIELD_GET GLBL_DSC_CFG_WB_ACC_INT_MASK reg_val), h2)
          else (- err_code QDMA_ERR_HWACC_FEATURE_NOT_SUPPORTED, None, h1)))"

text \<open>A write dereferences the pointer without a test; the callers never pass null.\<close>

definition eqdma_global_writeback_interval_conf ::
    "'h bus \<Rightarrow> u32 \<Rightarrow> qdma_hw_access_type \<Rightarrow> 'h \<Rightarrow> int \<times> u32 option \<times> 'h" where
  "eqdma_global_writeback_interval_conf b wb_int access_type h =
     (case access_type of
        QDMA_HW_ACCESS_READ \<Rightarrow> eqdma_global_writeback_interval_read b (Some wb_int) h
      | QDMA_HW_ACCESS_WRITE \<Rightarrow>
          (case eqdma_global_writeback_interval_write b wb_int h of (rv, h') \<Rightarrow> (rv, None, h'))
      | _ \<Rightarrow> (- err_code QDMA_ERR_INV_PARAM, None, h))"

definition eqdma_mm_channel_conf :: "'h bus \<Rightarrow> u8 \<Rightarrow> u8 \<Rightarrow> u8 \<Rightarrow> 'h \<Rightarrow> int \<times> 'h" where
  "eqdma_mm_channel_conf b channel is_c2h enable h =
     (let reg_addr = (if is_c2h \<noteq> 0 then EQDMA_C2H_MM_CTL_ADDR else EQDMA_H2C_MM_CTL_ADDR) in
      case eqdma_get_device_attributes b h of (dev_cap, h') \<Rightarrow>
        (err_code QDMA_SUCCESS,
         if mm_en dev_cap \<noteq> 0 then bus_write b (reg_addr + ucast channel * QDMA_MM_CONTROL_STEP) (ucast enable) h'
         else h'))"

section \<open>Default values\<close>

definition eqdma_set_default_global_csr :: "'h bus \<Rightarrow> 'h \<Rightarrow> int \<times> 'h" where
  "eqdma_set_default_global_csr b h0 =
     (case eqdma_get_device_attributes b h0 of (dev_cap, h) \<Rightarrow>
      let h = qdma_write_csr_values b EQDMA_GLBL_RNG_SZ_1_ADDR 0 16 (nth rng_sz) h;
          h = (if st_en dev_cap \<noteq> 0 \<or> mm_cmpt_en dev_cap \<noteq> 0 then
             let h = qdma_write_csr_values b EQDMA_C2H_CNT_TH_ADDR 0 16 (nth cnt_th) h;
                 h = qdma_write_csr_values b EQDMA_C2H_TIMER_CNT_ADDR 0 16 (nth tmr_cnt) h
             in bus_write b EQDMA_GLBL_DSC_CFG_ADDR
                  (FIELD_SET GLBL_DSC_CFG_MAXFETCH_MASK DEFAULT_MAX_DSC_FETCH OR
                   FIELD_SET GLBL_DSC_CFG_WB_ACC_INT_MASK DEFAULT_WRB_INT) h
           else h);
          h = (if st_en dev_cap \<noteq> 0 then
             let h = qdma_write_csr_values b EQDMA_C2H_BUF_SZ_ADDR 0 16 (nth buf_sz) h;
                 (cfg_val, h) = bus_read b EQDMA_C2H_PFCH_CACHE_DEPTH_ADDR h;
                 h = bus_write b EQDMA_C2H_PFCH_CFG_ADDR
                   (FIELD_SET C2H_PFCH_CFG_FL_TH_MASK DEFAULT_PFCH_STOP_THRESH) h;
                 h = bus_write b EQDMA_C2H_PFCH_CFG_1_ADDR
                   (FIELD_SET C2H_PFCH_CFG_1_QCNT_MASK (drop_bit 1 cfg_val) OR
                    FIELD_SET C2H_PFCH_CFG_1_EVT_QCNT_TH_MASK (drop_bit 1 cfg_val - 2)) h;
                 h = bus_write b EQDMA_C2H_PFCH_CFG_2_ADDR
                   (FIELD_SET C2H_PFCH_CFG_2_NUM_MASK DEFAULT_PFCH_NUM_ENTRIES_PER_Q) h;
                 h = bus_write b EQDMA_C2H_INT_TIMER_TICK_ADDR DEFAULT_C2H_INTR_TIMER_TICK h;
                 (cfg_val, h) = bus_read b EQDMA_C2H_WRB_COAL_BUF_DEPTH_ADDR h;
                 h = bus_write b EQDMA_C2H_WRB_COAL_CFG_ADDR
                   (FIELD_SET C2H_WRB_COAL_CFG_TICK_CNT_MASK DEFAULT_CMPT_COAL_TIMER_CNT OR
                    FIELD_SET C2H_WRB_COAL_CFG_TICK_VAL_MASK DEFAULT_CMPT_COAL_TIMER_TICK OR
                    FIELD_SET C2H_WRB_COAL_CFG_MAX_BUF_SZ_MASK cfg_val) h;
                 h = bus_write b EQDMA_H2C_REQ_THROT_PCIE_ADDR
                   (FIELD_SET H2C_REQ_THROT_PCIE_DATA_THRESH_MASK EQDMA_H2C_THROT_DATA_THRESH OR
                    FIELD_SET H2C_REQ_THROT_PCIE_EN_DATA_MASK EQDMA_THROT_EN_DATA OR
                    FIELD_SET H2C_REQ_THROT_PCIE_MASK EQDMA_H2C_THROT_REQ_THRESH OR
                    FIELD_SET H2C_REQ_THROT_PCIE_EN_REQ_MASK EQDMA_THROT_EN_REQ) h
             in h
           else h)
      in (err_code QDMA_SUCCESS, h))"

section \<open>User bar\<close>

definition eqdma_get_user_bar :: "'h bus \<Rightarrow> u8 \<Rightarrow> u8 \<Rightarrow> 'h \<Rightarrow> int \<times> u8 \<times> 'h" where
  "eqdma_get_user_bar b is_vf func_id h =
     (case bus_read b (if is_vf \<noteq> 0 then EQDMA_OFFSET_VF_USER_BAR else EQDMA_OFFSET_GLBL2_PF_BARLITE_EXT) h of (user_bar_id, h') \<Rightarrow>
      case find_bar (drop_bit (6 * unat func_id) user_bar_id AND 0x3F) of
        (rv, user_bar) \<Rightarrow> (rv, user_bar, h'))"

section \<open>Clearing the context memory\<close>

definition eqdma_init_ctxt_memory :: "'h bus \<Rightarrow> 'h \<Rightarrow> int \<times> 'h" where
  "eqdma_init_ctxt_memory b =
     init_ctxt_memory (eqdma_get_device_attributes b) (eqdma_indirect_reg_clear b) ((\<lambda>b. eqdma_indirect_reg_clear b QDMA_CTXT_SEL_FMAP) b)"

end
