(* ===== verification/S80_Context.thy ===== *)
theory S80_Context
  imports Qdma_Context_Conf
begin

text \<open>
  The contexts of the hard QDMA back end (\<open>qdma_s80_hard_access.c\<close>, masks of \<open>qdma_s80_hard_reg.h\<close>),
  built as those of \<open>Eqdma_Context\<close>; masks that have the same name there get the suffix \<open>_s80\<close>.  This
  device has four data registers, function maps in registers of their own, and the interrupt vector
  of a queue in a separate entry that the two directions share.
\<close>

section \<open>Indirect access\<close>

definition QDMA_S80_HARD_IND_CTXT_DATA_3_ADDR :: u32 where "QDMA_S80_HARD_IND_CTXT_DATA_3_ADDR = 0x804"
definition QDMA_S80_HARD_IND_CTXT_CMD_ADDR :: u32 where "QDMA_S80_HARD_IND_CTXT_CMD_ADDR = 0x824"
definition QDMA_S80_HARD_IND_CTXT_DATA_NUM_REGS :: nat where "QDMA_S80_HARD_IND_CTXT_DATA_NUM_REGS = 4"

definition qdma_s80_hard_indirect_reg_invalidate :: "'h bus \<Rightarrow> ind_ctxt_cmd_sel \<Rightarrow> u16 \<Rightarrow> 'h \<Rightarrow> int \<times> 'h" where
  "qdma_s80_hard_indirect_reg_invalidate b = indirect_reg_command b QDMA_S80_HARD_IND_CTXT_CMD_ADDR QDMA_CTXT_CMD_INV"

definition qdma_s80_hard_indirect_reg_clear :: "'h bus \<Rightarrow> ind_ctxt_cmd_sel \<Rightarrow> u16 \<Rightarrow> 'h \<Rightarrow> int \<times> 'h" where
  "qdma_s80_hard_indirect_reg_clear b = indirect_reg_command b QDMA_S80_HARD_IND_CTXT_CMD_ADDR QDMA_CTXT_CMD_CLR"

definition qdma_s80_hard_indirect_reg_read ::
    "'h bus \<Rightarrow> ind_ctxt_cmd_sel \<Rightarrow> u16 \<Rightarrow> nat \<Rightarrow> 'h \<Rightarrow> int \<times> u32 list \<times> 'h" where
  "qdma_s80_hard_indirect_reg_read b =
     indirect_reg_read b QDMA_S80_HARD_IND_CTXT_DATA_3_ADDR QDMA_S80_HARD_IND_CTXT_CMD_ADDR"

definition qdma_s80_hard_indirect_reg_write ::
    "'h bus \<Rightarrow> ind_ctxt_cmd_sel \<Rightarrow> u16 \<Rightarrow> u32 list \<Rightarrow> 'h \<Rightarrow> int \<times> 'h" where
  "qdma_s80_hard_indirect_reg_write b =
     indirect_reg_write b QDMA_S80_HARD_IND_CTXT_DATA_3_ADDR QDMA_S80_HARD_IND_CTXT_CMD_ADDR
       QDMA_S80_HARD_IND_CTXT_DATA_NUM_REGS"

lemmas s80_indirect_defs = qdma_s80_hard_indirect_reg_invalidate_def qdma_s80_hard_indirect_reg_clear_def
  qdma_s80_hard_indirect_reg_read_def qdma_s80_hard_indirect_reg_write_def QDMA_S80_HARD_IND_CTXT_DATA_NUM_REGS_def

section \<open>The interrupt vector of a queue\<close>

record qdma_qid2vec =
  qv_c2h_vector :: u8
  qv_c2h_en_coal :: u8
  qv_h2c_vector :: u8
  qv_h2c_en_coal :: u8

definition QDMA_S80_HARD_QID2VEC_CONTEXT_NUM_WORDS :: nat where "QDMA_S80_HARD_QID2VEC_CONTEXT_NUM_WORDS = 1"
definition C2H_QID2VEC_MAP_C2H_VECTOR_MASK :: u32 where "C2H_QID2VEC_MAP_C2H_VECTOR_MASK = GENMASK 7 0"
definition C2H_QID2VEC_MAP_C2H_EN_COAL_MASK :: u32 where "C2H_QID2VEC_MAP_C2H_EN_COAL_MASK = BIT 8"
definition QDMA_S80_HARD_QID2VEC_H2C_VECTOR :: u32 where "QDMA_S80_HARD_QID2VEC_H2C_VECTOR = GENMASK 16 9"
definition QDMA_S80_HARD_QID2VEC_H2C_COAL_EN :: u32 where "QDMA_S80_HARD_QID2VEC_H2C_COAL_EN = BIT 17"

lemmas s80_qid2vec_masks [mask_defs] =
  C2H_QID2VEC_MAP_C2H_VECTOR_MASK_def
  C2H_QID2VEC_MAP_C2H_EN_COAL_MASK_def
  QDMA_S80_HARD_QID2VEC_H2C_VECTOR_def
  QDMA_S80_HARD_QID2VEC_H2C_COAL_EN_def

definition qdma_s80_hard_qid2vec_word :: "u8 \<Rightarrow> qdma_qid2vec \<Rightarrow> u32 \<Rightarrow> u32" where
  "qdma_s80_hard_qid2vec_word c2h ctxt qid2vec =
     (if c2h \<noteq> 0 then
        (qid2vec AND (QDMA_S80_HARD_QID2VEC_H2C_VECTOR OR QDMA_S80_HARD_QID2VEC_H2C_COAL_EN)) OR
        (FIELD_SET C2H_QID2VEC_MAP_C2H_VECTOR_MASK (ucast (qv_c2h_vector ctxt)) OR
         FIELD_SET C2H_QID2VEC_MAP_C2H_EN_COAL_MASK (ucast (qv_c2h_en_coal ctxt)))
      else
        (qid2vec AND (C2H_QID2VEC_MAP_C2H_VECTOR_MASK OR C2H_QID2VEC_MAP_C2H_EN_COAL_MASK)) OR
        (FIELD_SET QDMA_S80_HARD_QID2VEC_H2C_VECTOR (ucast (qv_h2c_vector ctxt)) OR
         FIELD_SET QDMA_S80_HARD_QID2VEC_H2C_COAL_EN (ucast (qv_h2c_en_coal ctxt))))"

definition qdma_s80_hard_qid2vec_of :: "u8 \<Rightarrow> u32 list \<Rightarrow> qdma_qid2vec \<Rightarrow> qdma_qid2vec" where
  "qdma_s80_hard_qid2vec_of c2h ws ctxt =
     (if c2h \<noteq> 0 then
        ctxt\<lparr>qv_c2h_vector := ucast (FIELD_GET C2H_QID2VEC_MAP_C2H_VECTOR_MASK (ws ! 0)),
          qv_c2h_en_coal := ucast (FIELD_GET C2H_QID2VEC_MAP_C2H_EN_COAL_MASK (ws ! 0))\<rparr>
      else
        ctxt\<lparr>qv_h2c_vector := ucast (FIELD_GET QDMA_S80_HARD_QID2VEC_H2C_VECTOR (ws ! 0)),
          qv_h2c_en_coal := ucast (FIELD_GET QDMA_S80_HARD_QID2VEC_H2C_COAL_EN (ws ! 0))\<rparr>)"

definition qdma_s80_hard_qid2vec_write :: "'h bus \<Rightarrow> u8 \<Rightarrow> u16 \<Rightarrow> qdma_qid2vec option \<Rightarrow> 'h \<Rightarrow> int \<times> 'h" where
  "qdma_s80_hard_qid2vec_write b c2h hw_qid ctxt h =
     (case ctxt of
        None \<Rightarrow> (- err_code QDMA_ERR_INV_PARAM, h)
      | Some ctxt \<Rightarrow>
          (case qdma_s80_hard_indirect_reg_read b QDMA_CTXT_SEL_FMAP hw_qid 1 h of (rv, ws, h') \<Rightarrow>
             if rv < 0 then (rv, h')
             else qdma_s80_hard_indirect_reg_write b QDMA_CTXT_SEL_FMAP hw_qid
               [qdma_s80_hard_qid2vec_word c2h ctxt (ws ! 0)] h'))"

definition qdma_s80_hard_qid2vec_read ::
    "'h bus \<Rightarrow> u8 \<Rightarrow> u16 \<Rightarrow> qdma_qid2vec option \<Rightarrow> 'h \<Rightarrow> int \<times> qdma_qid2vec option \<times> 'h" where
  "qdma_s80_hard_qid2vec_read b c2h hw_qid ctxt h =
     (case ctxt of
        None \<Rightarrow> (- err_code QDMA_ERR_INV_PARAM, None, h)
      | Some ctxt \<Rightarrow>
          (case qdma_s80_hard_indirect_reg_read b QDMA_CTXT_SEL_FMAP hw_qid
              QDMA_S80_HARD_QID2VEC_CONTEXT_NUM_WORDS h of (rv, ws, h') \<Rightarrow>
             if rv < 0 then (rv, None, h')
             else (err_code QDMA_SUCCESS, Some (qdma_s80_hard_qid2vec_of c2h ws ctxt), h')))"

definition qdma_s80_hard_qid2vec_clear :: "'h bus \<Rightarrow> u16 \<Rightarrow> 'h \<Rightarrow> int \<times> 'h" where
  "qdma_s80_hard_qid2vec_clear b hw_qid h = qdma_s80_hard_indirect_reg_clear b QDMA_CTXT_SEL_FMAP hw_qid h"

definition qdma_s80_hard_qid2vec_invalidate :: "'h bus \<Rightarrow> u16 \<Rightarrow> 'h \<Rightarrow> int \<times> 'h" where
  "qdma_s80_hard_qid2vec_invalidate b hw_qid h = qdma_s80_hard_indirect_reg_invalidate b QDMA_CTXT_SEL_FMAP hw_qid h"

definition qdma_s80_hard_qid2vec_conf :: "'h bus \<Rightarrow> u8 \<Rightarrow> u16 \<Rightarrow> (qdma_qid2vec, 'h) ctx_conf" where
  "qdma_s80_hard_qid2vec_conf b c2h hw_qid ctxt access_type h =
     (case access_type of
        QDMA_HW_ACCESS_READ \<Rightarrow> qdma_s80_hard_qid2vec_read b c2h hw_qid ctxt h
      | QDMA_HW_ACCESS_WRITE \<Rightarrow> (case qdma_s80_hard_qid2vec_write b c2h hw_qid ctxt h of (rv, h') \<Rightarrow> (rv, None, h'))
      | QDMA_HW_ACCESS_CLEAR \<Rightarrow> (case qdma_s80_hard_qid2vec_clear b hw_qid h of (rv, h') \<Rightarrow> (rv, None, h'))
      | QDMA_HW_ACCESS_INVALIDATE \<Rightarrow> (case qdma_s80_hard_qid2vec_invalidate b hw_qid h of (rv, h') \<Rightarrow> (rv, None, h')))"

section \<open>Function map\<close>

definition QDMA_S80_HARD_TRQ_SEL_FMAP_0_ADDR :: u32 where "QDMA_S80_HARD_TRQ_SEL_FMAP_0_ADDR = 0x400"
definition QDMA_S80_HARD_REG_TRQ_SEL_FMAP_STEP :: u32 where "QDMA_S80_HARD_REG_TRQ_SEL_FMAP_STEP = 4"
definition TRQ_SEL_FMAP_0_QID_MAX_MASK :: u32 where "TRQ_SEL_FMAP_0_QID_MAX_MASK = GENMASK 22 11"
definition TRQ_SEL_FMAP_0_QID_BASE_MASK :: u32 where "TRQ_SEL_FMAP_0_QID_BASE_MASK = GENMASK 10 0"

lemmas s80_fmap_masks [mask_defs] = TRQ_SEL_FMAP_0_QID_MAX_MASK_def TRQ_SEL_FMAP_0_QID_BASE_MASK_def

definition s80_fmap_addr :: "u16 \<Rightarrow> u32" where
  "s80_fmap_addr func_id = QDMA_S80_HARD_TRQ_SEL_FMAP_0_ADDR + ucast func_id * QDMA_S80_HARD_REG_TRQ_SEL_FMAP_STEP"

definition qdma_s80_hard_fmap_word :: "qdma_fmap_cfg \<Rightarrow> u32" where
  "qdma_s80_hard_fmap_word config =
     FIELD_SET TRQ_SEL_FMAP_0_QID_BASE_MASK (ucast (fmap_qbase config)) OR
     FIELD_SET TRQ_SEL_FMAP_0_QID_MAX_MASK (ucast (fmap_qmax config))"

definition qdma_s80_hard_fmap_write :: "'h bus \<Rightarrow> u16 \<Rightarrow> qdma_fmap_cfg option \<Rightarrow> 'h \<Rightarrow> int \<times> 'h" where
  "qdma_s80_hard_fmap_write b func_id config h =
     (case config of
        None \<Rightarrow> (- err_code QDMA_ERR_INV_PARAM, h)
      | Some config \<Rightarrow>
          (err_code QDMA_SUCCESS, bus_write b (s80_fmap_addr func_id) (qdma_s80_hard_fmap_word config) h))"

definition qdma_s80_hard_fmap_read ::
    "'h bus \<Rightarrow> u16 \<Rightarrow> qdma_fmap_cfg option \<Rightarrow> 'h \<Rightarrow> int \<times> qdma_fmap_cfg option \<times> 'h" where
  "qdma_s80_hard_fmap_read b func_id config h =
     (case config of
        None \<Rightarrow> (- err_code QDMA_ERR_INV_PARAM, None, h)
      | Some config \<Rightarrow>
          (case bus_read b (s80_fmap_addr func_id) h of (fmap, h') \<Rightarrow>
             (err_code QDMA_SUCCESS,
              Some (config\<lparr>fmap_qbase := ucast (FIELD_GET TRQ_SEL_FMAP_0_QID_BASE_MASK fmap),
                fmap_qmax := ucast (FIELD_GET TRQ_SEL_FMAP_0_QID_MAX_MASK fmap)\<rparr>), h')))"

definition qdma_s80_hard_fmap_clear :: "'h bus \<Rightarrow> u16 \<Rightarrow> 'h \<Rightarrow> int \<times> 'h" where
  "qdma_s80_hard_fmap_clear b func_id h = (err_code QDMA_SUCCESS, bus_write b (s80_fmap_addr func_id) 0 h)"

definition qdma_s80_hard_fmap_conf :: "'h bus \<Rightarrow> u16 \<Rightarrow> (qdma_fmap_cfg, 'h) ctx_conf" where
  "qdma_s80_hard_fmap_conf b func_id config access_type h =
     (case access_type of
        QDMA_HW_ACCESS_READ \<Rightarrow> qdma_s80_hard_fmap_read b func_id config h
      | QDMA_HW_ACCESS_WRITE \<Rightarrow> (case qdma_s80_hard_fmap_write b func_id config h of (rv, h') \<Rightarrow> (rv, None, h'))
      | QDMA_HW_ACCESS_CLEAR \<Rightarrow> (case qdma_s80_hard_fmap_clear b func_id h of (rv, h') \<Rightarrow> (rv, None, h'))
      | QDMA_HW_ACCESS_INVALIDATE \<Rightarrow> (- err_code QDMA_ERR_INV_PARAM, None, h))"

definition QDMA_DESC_SIZE_32B :: nat where "QDMA_DESC_SIZE_32B = 2"
definition QDMA_DESC_SIZE_64B :: nat where "QDMA_DESC_SIZE_64B = 3"
definition QDMA_INDIRECT_INTR_RING_SIZE_32KB :: nat where "QDMA_INDIRECT_INTR_RING_SIZE_32KB = 7"

section \<open>Descriptor queues: software context\<close>

definition QDMA_S80_HARD_SW_CONTEXT_NUM_WORDS :: nat where "QDMA_S80_HARD_SW_CONTEXT_NUM_WORDS = 4"

definition SW_IND_CTXT_DATA_W0_PIDX_MASK_s80 :: u32 where "SW_IND_CTXT_DATA_W0_PIDX_MASK_s80 = GENMASK 15 0"
definition SW_IND_CTXT_DATA_W0_IRQ_ARM_MASK_s80 :: u32 where "SW_IND_CTXT_DATA_W0_IRQ_ARM_MASK_s80 = BIT 16"
definition SW_IND_CTXT_DATA_W1_QEN_MASK_s80 :: u32 where "SW_IND_CTXT_DATA_W1_QEN_MASK_s80 = BIT 0"
definition SW_IND_CTXT_DATA_W1_FCRD_EN_MASK_s80 :: u32 where "SW_IND_CTXT_DATA_W1_FCRD_EN_MASK_s80 = BIT 1"
definition SW_IND_CTXT_DATA_W1_WBI_CHK_MASK_s80 :: u32 where "SW_IND_CTXT_DATA_W1_WBI_CHK_MASK_s80 = BIT 2"
definition SW_IND_CTXT_DATA_W1_WBI_INTVL_EN_MASK_s80 :: u32 where "SW_IND_CTXT_DATA_W1_WBI_INTVL_EN_MASK_s80 = BIT 3"
definition SW_IND_CTXT_DATA_W1_FNC_ID_MASK :: u32 where "SW_IND_CTXT_DATA_W1_FNC_ID_MASK = GENMASK 11 4"
definition SW_IND_CTXT_DATA_W1_RNG_SZ_MASK_s80 :: u32 where "SW_IND_CTXT_DATA_W1_RNG_SZ_MASK_s80 = GENMASK 15 12"
definition SW_IND_CTXT_DATA_W1_DSC_SZ_MASK_s80 :: u32 where "SW_IND_CTXT_DATA_W1_DSC_SZ_MASK_s80 = GENMASK 17 16"
definition SW_IND_CTXT_DATA_W1_BYPASS_MASK_s80 :: u32 where "SW_IND_CTXT_DATA_W1_BYPASS_MASK_s80 = BIT 18"
definition SW_IND_CTXT_DATA_W1_MM_CHN_MASK_s80 :: u32 where "SW_IND_CTXT_DATA_W1_MM_CHN_MASK_s80 = BIT 19"
definition SW_IND_CTXT_DATA_W1_WBK_EN_MASK_s80 :: u32 where "SW_IND_CTXT_DATA_W1_WBK_EN_MASK_s80 = BIT 20"
definition SW_IND_CTXT_DATA_W1_IRQ_EN_MASK_s80 :: u32 where "SW_IND_CTXT_DATA_W1_IRQ_EN_MASK_s80 = BIT 21"
definition SW_IND_CTXT_DATA_W1_PORT_ID_MASK_s80 :: u32 where "SW_IND_CTXT_DATA_W1_PORT_ID_MASK_s80 = GENMASK 24 22"
definition SW_IND_CTXT_DATA_W1_IRQ_NO_LAST_MASK_s80 :: u32 where "SW_IND_CTXT_DATA_W1_IRQ_NO_LAST_MASK_s80 = BIT 25"
definition SW_IND_CTXT_DATA_W1_ERR_MASK_s80 :: u32 where "SW_IND_CTXT_DATA_W1_ERR_MASK_s80 = GENMASK 27 26"
definition SW_IND_CTXT_DATA_W1_ERR_WB_SENT_MASK_s80 :: u32 where "SW_IND_CTXT_DATA_W1_ERR_WB_SENT_MASK_s80 = BIT 28"
definition SW_IND_CTXT_DATA_W1_IRQ_REQ_MASK_s80 :: u32 where "SW_IND_CTXT_DATA_W1_IRQ_REQ_MASK_s80 = BIT 29"
definition SW_IND_CTXT_DATA_W1_MRKR_DIS_MASK_s80 :: u32 where "SW_IND_CTXT_DATA_W1_MRKR_DIS_MASK_s80 = BIT 30"
definition SW_IND_CTXT_DATA_W1_IS_MM_MASK_s80 :: u32 where "SW_IND_CTXT_DATA_W1_IS_MM_MASK_s80 = BIT 31"

lemmas s80_sw_masks [mask_defs] =
  SW_IND_CTXT_DATA_W0_PIDX_MASK_s80_def
  SW_IND_CTXT_DATA_W0_IRQ_ARM_MASK_s80_def
  SW_IND_CTXT_DATA_W1_QEN_MASK_s80_def
  SW_IND_CTXT_DATA_W1_FCRD_EN_MASK_s80_def
  SW_IND_CTXT_DATA_W1_WBI_CHK_MASK_s80_def
  SW_IND_CTXT_DATA_W1_WBI_INTVL_EN_MASK_s80_def
  SW_IND_CTXT_DATA_W1_FNC_ID_MASK_def
  SW_IND_CTXT_DATA_W1_RNG_SZ_MASK_s80_def
  SW_IND_CTXT_DATA_W1_DSC_SZ_MASK_s80_def
  SW_IND_CTXT_DATA_W1_BYPASS_MASK_s80_def
  SW_IND_CTXT_DATA_W1_MM_CHN_MASK_s80_def
  SW_IND_CTXT_DATA_W1_WBK_EN_MASK_s80_def
  SW_IND_CTXT_DATA_W1_IRQ_EN_MASK_s80_def
  SW_IND_CTXT_DATA_W1_PORT_ID_MASK_s80_def
  SW_IND_CTXT_DATA_W1_IRQ_NO_LAST_MASK_s80_def
  SW_IND_CTXT_DATA_W1_ERR_MASK_s80_def
  SW_IND_CTXT_DATA_W1_ERR_WB_SENT_MASK_s80_def
  SW_IND_CTXT_DATA_W1_IRQ_REQ_MASK_s80_def
  SW_IND_CTXT_DATA_W1_MRKR_DIS_MASK_s80_def
  SW_IND_CTXT_DATA_W1_IS_MM_MASK_s80_def

definition qdma_s80_hard_sw_context_words :: "qdma_descq_sw_ctxt \<Rightarrow> u32 list" where
  "qdma_s80_hard_sw_context_words ctxt =
     [FIELD_SET SW_IND_CTXT_DATA_W0_PIDX_MASK_s80 (ucast (sw_pidx ctxt)) OR
        FIELD_SET SW_IND_CTXT_DATA_W0_IRQ_ARM_MASK_s80 (ucast (sw_irq_arm ctxt)),
      FIELD_SET SW_IND_CTXT_DATA_W1_QEN_MASK_s80 (ucast (sw_qen ctxt)) OR
        FIELD_SET SW_IND_CTXT_DATA_W1_FCRD_EN_MASK_s80 (ucast (sw_frcd_en ctxt)) OR
        FIELD_SET SW_IND_CTXT_DATA_W1_WBI_CHK_MASK_s80 (ucast (sw_wbi_chk ctxt)) OR
        FIELD_SET SW_IND_CTXT_DATA_W1_WBI_INTVL_EN_MASK_s80 (ucast (sw_wbi_intvl_en ctxt)) OR
        FIELD_SET SW_IND_CTXT_DATA_W1_FNC_ID_MASK (ucast (sw_fnc_id ctxt)) OR
        FIELD_SET SW_IND_CTXT_DATA_W1_RNG_SZ_MASK_s80 (ucast (sw_rngsz_idx ctxt)) OR
        FIELD_SET SW_IND_CTXT_DATA_W1_DSC_SZ_MASK_s80 (ucast (sw_desc_sz ctxt)) OR
        FIELD_SET SW_IND_CTXT_DATA_W1_BYPASS_MASK_s80 (ucast (sw_bypass ctxt)) OR
        FIELD_SET SW_IND_CTXT_DATA_W1_MM_CHN_MASK_s80 (ucast (sw_mm_chn ctxt)) OR
        FIELD_SET SW_IND_CTXT_DATA_W1_WBK_EN_MASK_s80 (ucast (sw_wbk_en ctxt)) OR
        FIELD_SET SW_IND_CTXT_DATA_W1_IRQ_EN_MASK_s80 (ucast (sw_irq_en ctxt)) OR
        FIELD_SET SW_IND_CTXT_DATA_W1_PORT_ID_MASK_s80 (ucast (sw_port_id ctxt)) OR
        FIELD_SET SW_IND_CTXT_DATA_W1_IRQ_NO_LAST_MASK_s80 (ucast (sw_irq_no_last ctxt)) OR
        FIELD_SET SW_IND_CTXT_DATA_W1_ERR_MASK_s80 (ucast (sw_err ctxt)) OR
        FIELD_SET SW_IND_CTXT_DATA_W1_ERR_WB_SENT_MASK_s80 (ucast (sw_err_wb_sent ctxt)) OR
        FIELD_SET SW_IND_CTXT_DATA_W1_IRQ_REQ_MASK_s80 (ucast (sw_irq_req ctxt)) OR
        FIELD_SET SW_IND_CTXT_DATA_W1_MRKR_DIS_MASK_s80 (ucast (sw_mrkr_dis ctxt)) OR
        FIELD_SET SW_IND_CTXT_DATA_W1_IS_MM_MASK_s80 (ucast (sw_is_mm ctxt)),
      ucast (sw_ring_bs_addr ctxt AND 0xffffffff),
      ucast (drop_bit 32 (sw_ring_bs_addr ctxt) AND 0xffffffff)]"

definition qdma_s80_hard_sw_context_of :: "u32 list \<Rightarrow> qdma_descq_sw_ctxt \<Rightarrow> qdma_descq_sw_ctxt" where
  "qdma_s80_hard_sw_context_of ws ctxt =
     ctxt\<lparr>sw_pidx := ucast (FIELD_GET SW_IND_CTXT_DATA_W0_PIDX_MASK_s80 (ws ! 0)),
           sw_irq_arm := ucast (FIELD_GET SW_IND_CTXT_DATA_W0_IRQ_ARM_MASK_s80 (ws ! 0)),
           sw_qen := ucast (FIELD_GET SW_IND_CTXT_DATA_W1_QEN_MASK_s80 (ws ! 1)),
           sw_frcd_en := ucast (FIELD_GET SW_IND_CTXT_DATA_W1_FCRD_EN_MASK_s80 (ws ! 1)),
           sw_wbi_chk := ucast (FIELD_GET SW_IND_CTXT_DATA_W1_WBI_CHK_MASK_s80 (ws ! 1)),
           sw_wbi_intvl_en := ucast (FIELD_GET SW_IND_CTXT_DATA_W1_WBI_INTVL_EN_MASK_s80 (ws ! 1)),
           sw_fnc_id := ucast (FIELD_GET SW_IND_CTXT_DATA_W1_FNC_ID_MASK (ws ! 1)),
           sw_rngsz_idx := ucast (FIELD_GET SW_IND_CTXT_DATA_W1_RNG_SZ_MASK_s80 (ws ! 1)),
           sw_desc_sz := ucast (FIELD_GET SW_IND_CTXT_DATA_W1_DSC_SZ_MASK_s80 (ws ! 1)),
           sw_bypass := ucast (FIELD_GET SW_IND_CTXT_DATA_W1_BYPASS_MASK_s80 (ws ! 1)),
           sw_mm_chn := ucast (FIELD_GET SW_IND_CTXT_DATA_W1_MM_CHN_MASK_s80 (ws ! 1)),
           sw_wbk_en := ucast (FIELD_GET SW_IND_CTXT_DATA_W1_WBK_EN_MASK_s80 (ws ! 1)),
           sw_irq_en := ucast (FIELD_GET SW_IND_CTXT_DATA_W1_IRQ_EN_MASK_s80 (ws ! 1)),
           sw_port_id := ucast (FIELD_GET SW_IND_CTXT_DATA_W1_PORT_ID_MASK_s80 (ws ! 1)),
           sw_irq_no_last := ucast (FIELD_GET SW_IND_CTXT_DATA_W1_IRQ_NO_LAST_MASK_s80 (ws ! 1)),
           sw_err := ucast (FIELD_GET SW_IND_CTXT_DATA_W1_ERR_MASK_s80 (ws ! 1)),
           sw_err_wb_sent := ucast (FIELD_GET SW_IND_CTXT_DATA_W1_ERR_WB_SENT_MASK_s80 (ws ! 1)),
           sw_irq_req := ucast (FIELD_GET SW_IND_CTXT_DATA_W1_IRQ_REQ_MASK_s80 (ws ! 1)),
           sw_mrkr_dis := ucast (FIELD_GET SW_IND_CTXT_DATA_W1_MRKR_DIS_MASK_s80 (ws ! 1)),
           sw_is_mm := ucast (FIELD_GET SW_IND_CTXT_DATA_W1_IS_MM_MASK_s80 (ws ! 1)),
           sw_ring_bs_addr := push_bit 32 (ucast (ws ! 3)) OR ucast (ws ! 2)\<rparr>"

definition qdma_s80_hard_sw_context_write :: "'h bus \<Rightarrow> u8 \<Rightarrow> u16 \<Rightarrow> qdma_descq_sw_ctxt option \<Rightarrow> 'h \<Rightarrow> int \<times> 'h" where
  "qdma_s80_hard_sw_context_write b c2h hw_qid ctxt h =
     (case ctxt of
        None \<Rightarrow> (- err_code QDMA_ERR_INV_PARAM, h)
      | Some ctxt \<Rightarrow>
          if unat (sw_desc_sz ctxt) > QDMA_DESC_SIZE_64B \<or> unat (sw_rngsz_idx ctxt) \<ge> QDMA_NUM_RING_SIZES then (- err_code QDMA_ERR_INV_PARAM, h)
          else qdma_s80_hard_indirect_reg_write b (if c2h \<noteq> 0 then QDMA_CTXT_SEL_SW_C2H else QDMA_CTXT_SEL_SW_H2C) hw_qid (qdma_s80_hard_sw_context_words ctxt) h)"

definition qdma_s80_hard_sw_context_read ::
    "'h bus \<Rightarrow> u8 \<Rightarrow> u16 \<Rightarrow> qdma_descq_sw_ctxt option \<Rightarrow> 'h \<Rightarrow> int \<times> qdma_descq_sw_ctxt option \<times> 'h" where
  "qdma_s80_hard_sw_context_read b c2h hw_qid ctxt h =
     (case ctxt of
        None \<Rightarrow> (- err_code QDMA_ERR_INV_PARAM, None, h)
      | Some ctxt \<Rightarrow>
          (case qdma_s80_hard_indirect_reg_read b (if c2h \<noteq> 0 then QDMA_CTXT_SEL_SW_C2H else QDMA_CTXT_SEL_SW_H2C)
              hw_qid QDMA_S80_HARD_SW_CONTEXT_NUM_WORDS h of (rv, ws, h1) \<Rightarrow>
             if rv < 0 then (rv, None, h1)
             else
               (let ctxt = qdma_s80_hard_sw_context_of ws ctxt in
                case qdma_s80_hard_qid2vec_read b c2h hw_qid (Some \<lparr>qv_c2h_vector = 0, qv_c2h_en_coal = 0,
                    qv_h2c_vector = 0, qv_h2c_en_coal = 0\<rparr>) h1 of (rv, qv, h2) \<Rightarrow>
                  if rv < 0 then (rv, Some ctxt, h2)
                  else case qv of
                    None \<Rightarrow> (rv, Some ctxt, h2)
                  | Some qv \<Rightarrow>
                      (err_code QDMA_SUCCESS,
                       Some (if c2h \<noteq> 0 then ctxt\<lparr>sw_vec := ucast (qv_c2h_vector qv), sw_intr_aggr := qv_c2h_en_coal qv\<rparr>
                         else ctxt\<lparr>sw_vec := ucast (qv_h2c_vector qv), sw_intr_aggr := qv_h2c_en_coal qv\<rparr>), h2))))"

definition qdma_s80_hard_sw_context_clear :: "'h bus \<Rightarrow> u8 \<Rightarrow> u16 \<Rightarrow> 'h \<Rightarrow> int \<times> 'h" where
  "qdma_s80_hard_sw_context_clear b c2h hw_qid h =
     qdma_s80_hard_indirect_reg_clear b (if c2h \<noteq> 0 then QDMA_CTXT_SEL_SW_C2H else QDMA_CTXT_SEL_SW_H2C) hw_qid h"

definition qdma_s80_hard_sw_context_invalidate :: "'h bus \<Rightarrow> u8 \<Rightarrow> u16 \<Rightarrow> 'h \<Rightarrow> int \<times> 'h" where
  "qdma_s80_hard_sw_context_invalidate b c2h hw_qid h =
     qdma_s80_hard_indirect_reg_invalidate b (if c2h \<noteq> 0 then QDMA_CTXT_SEL_SW_C2H else QDMA_CTXT_SEL_SW_H2C) hw_qid h"

definition qdma_s80_hard_sw_ctx_conf :: "'h bus \<Rightarrow> u8 \<Rightarrow> u16 \<Rightarrow> (qdma_descq_sw_ctxt, 'h) ctx_conf" where
  "qdma_s80_hard_sw_ctx_conf b c2h hw_qid ctxt access_type h =
     (case access_type of
        QDMA_HW_ACCESS_READ \<Rightarrow> qdma_s80_hard_sw_context_read b c2h hw_qid ctxt h
      | QDMA_HW_ACCESS_WRITE \<Rightarrow> (case qdma_s80_hard_sw_context_write b c2h hw_qid ctxt h of (rv, h') \<Rightarrow> (rv, None, h'))
      | QDMA_HW_ACCESS_CLEAR \<Rightarrow> (case qdma_s80_hard_sw_context_clear b c2h hw_qid h of (rv, h') \<Rightarrow> (rv, None, h'))
      | QDMA_HW_ACCESS_INVALIDATE \<Rightarrow> (case qdma_s80_hard_sw_context_invalidate b c2h hw_qid h of (rv, h') \<Rightarrow> (rv, None, h')))"

section \<open>Prefetch context\<close>

definition QDMA_S80_HARD_PFETCH_CONTEXT_NUM_WORDS :: nat where "QDMA_S80_HARD_PFETCH_CONTEXT_NUM_WORDS = 2"

definition PREFETCH_CTXT_DATA_W0_BYPASS_MASK_s80 :: u32 where "PREFETCH_CTXT_DATA_W0_BYPASS_MASK_s80 = BIT 0"
definition PREFETCH_CTXT_DATA_W0_BUF_SIZE_IDX_MASK :: u32 where "PREFETCH_CTXT_DATA_W0_BUF_SIZE_IDX_MASK = GENMASK 4 1"
definition PREFETCH_CTXT_DATA_W0_PORT_ID_MASK_s80 :: u32 where "PREFETCH_CTXT_DATA_W0_PORT_ID_MASK_s80 = GENMASK 7 5"
definition PREFETCH_CTXT_DATA_W0_ERR_MASK_s80 :: u32 where "PREFETCH_CTXT_DATA_W0_ERR_MASK_s80 = BIT 26"
definition PREFETCH_CTXT_DATA_W0_PFCH_EN_MASK_s80 :: u32 where "PREFETCH_CTXT_DATA_W0_PFCH_EN_MASK_s80 = BIT 27"
definition PREFETCH_CTXT_DATA_W0_PFCH_MASK_s80 :: u32 where "PREFETCH_CTXT_DATA_W0_PFCH_MASK_s80 = BIT 28"
definition PREFETCH_CTXT_DATA_W0_SW_CRDT_L_MASK_s80 :: u32 where "PREFETCH_CTXT_DATA_W0_SW_CRDT_L_MASK_s80 = GENMASK 31 29"
definition PREFETCH_CTXT_DATA_W1_SW_CRDT_H_MASK_s80 :: u32 where "PREFETCH_CTXT_DATA_W1_SW_CRDT_H_MASK_s80 = GENMASK 12 0"
definition PREFETCH_CTXT_DATA_W1_VALID_MASK_s80 :: u32 where "PREFETCH_CTXT_DATA_W1_VALID_MASK_s80 = BIT 13"

lemmas s80_pfetch_masks [mask_defs] =
  PREFETCH_CTXT_DATA_W0_BYPASS_MASK_s80_def
  PREFETCH_CTXT_DATA_W0_BUF_SIZE_IDX_MASK_def
  PREFETCH_CTXT_DATA_W0_PORT_ID_MASK_s80_def
  PREFETCH_CTXT_DATA_W0_ERR_MASK_s80_def
  PREFETCH_CTXT_DATA_W0_PFCH_EN_MASK_s80_def
  PREFETCH_CTXT_DATA_W0_PFCH_MASK_s80_def
  PREFETCH_CTXT_DATA_W0_SW_CRDT_L_MASK_s80_def
  PREFETCH_CTXT_DATA_W1_SW_CRDT_H_MASK_s80_def
  PREFETCH_CTXT_DATA_W1_VALID_MASK_s80_def

definition qdma_s80_hard_pfetch_context_words :: "qdma_descq_prefetch_ctxt \<Rightarrow> u32 list" where
  "qdma_s80_hard_pfetch_context_words ctxt =
     (let sw_crdt_l = FIELD_GET QDMA_PFTCH_CTXT_SW_CRDT_GET_L_MASK (ucast (pc_sw_crdt ctxt));
          sw_crdt_h = FIELD_GET QDMA_PFTCH_CTXT_SW_CRDT_GET_H_MASK (ucast (pc_sw_crdt ctxt))
      in [FIELD_SET PREFETCH_CTXT_DATA_W0_BYPASS_MASK_s80 (ucast (pc_bypass ctxt)) OR
            FIELD_SET PREFETCH_CTXT_DATA_W0_BUF_SIZE_IDX_MASK (ucast (pc_bufsz_idx ctxt)) OR
            FIELD_SET PREFETCH_CTXT_DATA_W0_PORT_ID_MASK_s80 (ucast (pc_port_id ctxt)) OR
            FIELD_SET PREFETCH_CTXT_DATA_W0_ERR_MASK_s80 (ucast (pc_err ctxt)) OR
            FIELD_SET PREFETCH_CTXT_DATA_W0_PFCH_EN_MASK_s80 (ucast (pc_pfch_en ctxt)) OR
            FIELD_SET PREFETCH_CTXT_DATA_W0_PFCH_MASK_s80 (ucast (pc_pfch ctxt)) OR
            FIELD_SET PREFETCH_CTXT_DATA_W0_SW_CRDT_L_MASK_s80 sw_crdt_l,
          FIELD_SET PREFETCH_CTXT_DATA_W1_SW_CRDT_H_MASK_s80 sw_crdt_h OR
            FIELD_SET PREFETCH_CTXT_DATA_W1_VALID_MASK_s80 (ucast (pc_valid ctxt))])"

definition qdma_s80_hard_pfetch_context_of :: "u32 list \<Rightarrow> qdma_descq_prefetch_ctxt \<Rightarrow> qdma_descq_prefetch_ctxt" where
  "qdma_s80_hard_pfetch_context_of ws ctxt =
     (let sw_crdt_l = FIELD_GET PREFETCH_CTXT_DATA_W0_SW_CRDT_L_MASK_s80 (ws ! 0);
          sw_crdt_h = FIELD_GET PREFETCH_CTXT_DATA_W1_SW_CRDT_H_MASK_s80 (ws ! 1)
      in ctxt\<lparr>pc_bypass := ucast (FIELD_GET PREFETCH_CTXT_DATA_W0_BYPASS_MASK_s80 (ws ! 0)),
           pc_bufsz_idx := ucast (FIELD_GET PREFETCH_CTXT_DATA_W0_BUF_SIZE_IDX_MASK (ws ! 0)),
           pc_port_id := ucast (FIELD_GET PREFETCH_CTXT_DATA_W0_PORT_ID_MASK_s80 (ws ! 0)),
           pc_err := ucast (FIELD_GET PREFETCH_CTXT_DATA_W0_ERR_MASK_s80 (ws ! 0)),
           pc_pfch_en := ucast (FIELD_GET PREFETCH_CTXT_DATA_W0_PFCH_EN_MASK_s80 (ws ! 0)),
           pc_pfch := ucast (FIELD_GET PREFETCH_CTXT_DATA_W0_PFCH_MASK_s80 (ws ! 0)),
           pc_valid := ucast (FIELD_GET PREFETCH_CTXT_DATA_W1_VALID_MASK_s80 (ws ! 1)),
           pc_sw_crdt := ucast (FIELD_SET QDMA_PFTCH_CTXT_SW_CRDT_GET_L_MASK sw_crdt_l OR
             FIELD_SET QDMA_PFTCH_CTXT_SW_CRDT_GET_H_MASK sw_crdt_h)\<rparr>)"

definition qdma_s80_hard_pfetch_context_write ::
    "'h bus \<Rightarrow> u16 \<Rightarrow> qdma_descq_prefetch_ctxt option \<Rightarrow> 'h \<Rightarrow> int \<times> 'h" where
  "qdma_s80_hard_pfetch_context_write b hw_qid ctxt h =
     (case ctxt of
        None \<Rightarrow> (- err_code QDMA_ERR_INV_PARAM, h)
      | Some ctxt \<Rightarrow>
          qdma_s80_hard_indirect_reg_write b QDMA_CTXT_SEL_PFTCH hw_qid (qdma_s80_hard_pfetch_context_words ctxt) h)"

definition qdma_s80_hard_pfetch_context_read ::
    "'h bus \<Rightarrow> u16 \<Rightarrow> qdma_descq_prefetch_ctxt option \<Rightarrow> 'h \<Rightarrow> int \<times> qdma_descq_prefetch_ctxt option \<times> 'h" where
  "qdma_s80_hard_pfetch_context_read b hw_qid ctxt h =
     (case ctxt of
        None \<Rightarrow> (- err_code QDMA_ERR_INV_PARAM, None, h)
      | Some ctxt \<Rightarrow>
          (case qdma_s80_hard_indirect_reg_read b QDMA_CTXT_SEL_PFTCH hw_qid QDMA_S80_HARD_PFETCH_CONTEXT_NUM_WORDS h of (rv, ws, h') \<Rightarrow>
             if rv < 0 then (rv, None, h') else (err_code QDMA_SUCCESS, Some (qdma_s80_hard_pfetch_context_of ws ctxt), h')))"

definition qdma_s80_hard_pfetch_context_clear :: "'h bus \<Rightarrow> u16 \<Rightarrow> 'h \<Rightarrow> int \<times> 'h" where
  "qdma_s80_hard_pfetch_context_clear b hw_qid h = qdma_s80_hard_indirect_reg_clear b QDMA_CTXT_SEL_PFTCH hw_qid h"

definition qdma_s80_hard_pfetch_context_invalidate :: "'h bus \<Rightarrow> u16 \<Rightarrow> 'h \<Rightarrow> int \<times> 'h" where
  "qdma_s80_hard_pfetch_context_invalidate b hw_qid h = qdma_s80_hard_indirect_reg_invalidate b QDMA_CTXT_SEL_PFTCH hw_qid h"

definition qdma_s80_hard_pfetch_ctx_conf :: "'h bus \<Rightarrow> u16 \<Rightarrow> (qdma_descq_prefetch_ctxt, 'h) ctx_conf" where
  "qdma_s80_hard_pfetch_ctx_conf b hw_qid ctxt access_type h =
     (case access_type of
        QDMA_HW_ACCESS_READ \<Rightarrow> qdma_s80_hard_pfetch_context_read b hw_qid ctxt h
      | QDMA_HW_ACCESS_WRITE \<Rightarrow> (case qdma_s80_hard_pfetch_context_write b hw_qid ctxt h of (rv, h') \<Rightarrow> (rv, None, h'))
      | QDMA_HW_ACCESS_CLEAR \<Rightarrow> (case qdma_s80_hard_pfetch_context_clear b hw_qid h of (rv, h') \<Rightarrow> (rv, None, h'))
      | QDMA_HW_ACCESS_INVALIDATE \<Rightarrow> (case qdma_s80_hard_pfetch_context_invalidate b hw_qid h of (rv, h') \<Rightarrow> (rv, None, h')))"

section \<open>Completion context\<close>

definition QDMA_S80_HARD_CMPT_CONTEXT_NUM_WORDS :: nat where "QDMA_S80_HARD_CMPT_CONTEXT_NUM_WORDS = 4"

definition QDMA_S80_HARD_COMPL_CTXT_BADDR_GET_L_MASK :: u64 where "QDMA_S80_HARD_COMPL_CTXT_BADDR_GET_L_MASK = GENMASK 9 6"
definition QDMA_S80_HARD_COMPL_CTXT_BADDR_GET_M_MASK :: u64 where "QDMA_S80_HARD_COMPL_CTXT_BADDR_GET_M_MASK = GENMASK 41 10"
definition QDMA_S80_HARD_COMPL_CTXT_BADDR_GET_H_MASK :: u64 where "QDMA_S80_HARD_COMPL_CTXT_BADDR_GET_H_MASK = GENMASK 63 42"
definition QDMA_S80_HARD_COMPL_CTXT_PIDX_GET_L_MASK :: u32 where "QDMA_S80_HARD_COMPL_CTXT_PIDX_GET_L_MASK = GENMASK 7 0"
definition QDMA_S80_HARD_COMPL_CTXT_PIDX_GET_H_MASK :: u32 where "QDMA_S80_HARD_COMPL_CTXT_PIDX_GET_H_MASK = GENMASK 15 8"
definition CMPL_CTXT_DATA_W0_EN_STAT_DESC_MASK_s80 :: u32 where "CMPL_CTXT_DATA_W0_EN_STAT_DESC_MASK_s80 = BIT 0"
definition CMPL_CTXT_DATA_W0_EN_INT_MASK_s80 :: u32 where "CMPL_CTXT_DATA_W0_EN_INT_MASK_s80 = BIT 1"
definition CMPL_CTXT_DATA_W0_TRIG_MODE_MASK_s80 :: u32 where "CMPL_CTXT_DATA_W0_TRIG_MODE_MASK_s80 = GENMASK 4 2"
definition CMPL_CTXT_DATA_W0_FNC_ID_MASK_s80 :: u32 where "CMPL_CTXT_DATA_W0_FNC_ID_MASK_s80 = GENMASK 12 5"
definition CMPL_CTXT_DATA_W0_CNTER_IDX_MASK :: u32 where "CMPL_CTXT_DATA_W0_CNTER_IDX_MASK = GENMASK 16 13"
definition CMPL_CTXT_DATA_W0_TIMER_IDX_MASK :: u32 where "CMPL_CTXT_DATA_W0_TIMER_IDX_MASK = GENMASK 20 17"
definition CMPL_CTXT_DATA_W0_INT_ST_MASK_s80 :: u32 where "CMPL_CTXT_DATA_W0_INT_ST_MASK_s80 = GENMASK 22 21"
definition CMPL_CTXT_DATA_W0_COLOR_MASK_s80 :: u32 where "CMPL_CTXT_DATA_W0_COLOR_MASK_s80 = BIT 23"
definition CMPL_CTXT_DATA_W0_QSIZE_IDX_MASK :: u32 where "CMPL_CTXT_DATA_W0_QSIZE_IDX_MASK = GENMASK 27 24"
definition CMPL_CTXT_DATA_W0_BADDR_64_L_MASK :: u32 where "CMPL_CTXT_DATA_W0_BADDR_64_L_MASK = GENMASK 31 28"
definition CMPL_CTXT_DATA_W1_BADDR_64_M_MASK :: u32 where "CMPL_CTXT_DATA_W1_BADDR_64_M_MASK = GENMASK 31 0"
definition CMPL_CTXT_DATA_W2_BADDR_64_H_MASK :: u32 where "CMPL_CTXT_DATA_W2_BADDR_64_H_MASK = GENMASK 21 0"
definition CMPL_CTXT_DATA_W2_DESC_SIZE_MASK_s80 :: u32 where "CMPL_CTXT_DATA_W2_DESC_SIZE_MASK_s80 = GENMASK 23 22"
definition CMPL_CTXT_DATA_W2_PIDX_L_MASK_s80 :: u32 where "CMPL_CTXT_DATA_W2_PIDX_L_MASK_s80 = GENMASK 31 24"
definition CMPL_CTXT_DATA_W3_PIDX_H_MASK_s80 :: u32 where "CMPL_CTXT_DATA_W3_PIDX_H_MASK_s80 = GENMASK 7 0"
definition CMPL_CTXT_DATA_W3_CIDX_MASK_s80 :: u32 where "CMPL_CTXT_DATA_W3_CIDX_MASK_s80 = GENMASK 23 8"
definition CMPL_CTXT_DATA_W3_VALID_MASK_s80 :: u32 where "CMPL_CTXT_DATA_W3_VALID_MASK_s80 = BIT 24"
definition CMPL_CTXT_DATA_W3_ERR_MASK_s80 :: u32 where "CMPL_CTXT_DATA_W3_ERR_MASK_s80 = GENMASK 26 25"
definition CMPL_CTXT_DATA_W3_USER_TRIG_PEND_MASK_s80 :: u32 where "CMPL_CTXT_DATA_W3_USER_TRIG_PEND_MASK_s80 = BIT 27"
definition CMPL_CTXT_DATA_W3_TIMER_RUNNING_MASK :: u32 where "CMPL_CTXT_DATA_W3_TIMER_RUNNING_MASK = BIT 28"
definition CMPL_CTXT_DATA_W3_FULL_UPD_MASK :: u32 where "CMPL_CTXT_DATA_W3_FULL_UPD_MASK = BIT 29"

lemmas s80_cmpt_masks [mask_defs] =
  QDMA_S80_HARD_COMPL_CTXT_BADDR_GET_L_MASK_def
  QDMA_S80_HARD_COMPL_CTXT_BADDR_GET_M_MASK_def
  QDMA_S80_HARD_COMPL_CTXT_BADDR_GET_H_MASK_def
  QDMA_S80_HARD_COMPL_CTXT_PIDX_GET_L_MASK_def
  QDMA_S80_HARD_COMPL_CTXT_PIDX_GET_H_MASK_def
  CMPL_CTXT_DATA_W0_EN_STAT_DESC_MASK_s80_def
  CMPL_CTXT_DATA_W0_EN_INT_MASK_s80_def
  CMPL_CTXT_DATA_W0_TRIG_MODE_MASK_s80_def
  CMPL_CTXT_DATA_W0_FNC_ID_MASK_s80_def
  CMPL_CTXT_DATA_W0_CNTER_IDX_MASK_def
  CMPL_CTXT_DATA_W0_TIMER_IDX_MASK_def
  CMPL_CTXT_DATA_W0_INT_ST_MASK_s80_def
  CMPL_CTXT_DATA_W0_COLOR_MASK_s80_def
  CMPL_CTXT_DATA_W0_QSIZE_IDX_MASK_def
  CMPL_CTXT_DATA_W0_BADDR_64_L_MASK_def
  CMPL_CTXT_DATA_W1_BADDR_64_M_MASK_def
  CMPL_CTXT_DATA_W2_BADDR_64_H_MASK_def
  CMPL_CTXT_DATA_W2_DESC_SIZE_MASK_s80_def
  CMPL_CTXT_DATA_W2_PIDX_L_MASK_s80_def
  CMPL_CTXT_DATA_W3_PIDX_H_MASK_s80_def
  CMPL_CTXT_DATA_W3_CIDX_MASK_s80_def
  CMPL_CTXT_DATA_W3_VALID_MASK_s80_def
  CMPL_CTXT_DATA_W3_ERR_MASK_s80_def
  CMPL_CTXT_DATA_W3_USER_TRIG_PEND_MASK_s80_def
  CMPL_CTXT_DATA_W3_TIMER_RUNNING_MASK_def
  CMPL_CTXT_DATA_W3_FULL_UPD_MASK_def

definition qdma_s80_hard_cmpt_context_words :: "qdma_descq_cmpt_ctxt \<Rightarrow> u32 list" where
  "qdma_s80_hard_cmpt_context_words ctxt =
     (let baddr_l = ucast (FIELD_GET QDMA_S80_HARD_COMPL_CTXT_BADDR_GET_L_MASK (cm_bs_addr ctxt));
          baddr_m = ucast (FIELD_GET QDMA_S80_HARD_COMPL_CTXT_BADDR_GET_M_MASK (cm_bs_addr ctxt));
          baddr_h = ucast (FIELD_GET QDMA_S80_HARD_COMPL_CTXT_BADDR_GET_H_MASK (cm_bs_addr ctxt));
          pidx_l = FIELD_GET QDMA_S80_HARD_COMPL_CTXT_PIDX_GET_L_MASK (ucast (cm_pidx ctxt));
          pidx_h = FIELD_GET QDMA_S80_HARD_COMPL_CTXT_PIDX_GET_H_MASK (ucast (cm_pidx ctxt))
      in [FIELD_SET CMPL_CTXT_DATA_W0_EN_STAT_DESC_MASK_s80 (ucast (cm_en_stat_desc ctxt)) OR
            FIELD_SET CMPL_CTXT_DATA_W0_EN_INT_MASK_s80 (ucast (cm_en_int ctxt)) OR
            FIELD_SET CMPL_CTXT_DATA_W0_TRIG_MODE_MASK_s80 (ucast (cm_trig_mode ctxt)) OR
            FIELD_SET CMPL_CTXT_DATA_W0_FNC_ID_MASK_s80 (ucast (cm_fnc_id ctxt)) OR
            FIELD_SET CMPL_CTXT_DATA_W0_CNTER_IDX_MASK (ucast (cm_counter_idx ctxt)) OR
            FIELD_SET CMPL_CTXT_DATA_W0_TIMER_IDX_MASK (ucast (cm_timer_idx ctxt)) OR
            FIELD_SET CMPL_CTXT_DATA_W0_INT_ST_MASK_s80 (ucast (cm_in_st ctxt)) OR
            FIELD_SET CMPL_CTXT_DATA_W0_COLOR_MASK_s80 (ucast (cm_color ctxt)) OR
            FIELD_SET CMPL_CTXT_DATA_W0_QSIZE_IDX_MASK (ucast (cm_ringsz_idx ctxt)) OR
            FIELD_SET CMPL_CTXT_DATA_W0_BADDR_64_L_MASK baddr_l,
          FIELD_SET CMPL_CTXT_DATA_W1_BADDR_64_M_MASK baddr_m,
          FIELD_SET CMPL_CTXT_DATA_W2_BADDR_64_H_MASK baddr_h OR
            FIELD_SET CMPL_CTXT_DATA_W2_DESC_SIZE_MASK_s80 (ucast (cm_desc_sz ctxt)) OR
            FIELD_SET CMPL_CTXT_DATA_W2_PIDX_L_MASK_s80 pidx_l,
          FIELD_SET CMPL_CTXT_DATA_W3_PIDX_H_MASK_s80 pidx_h OR
            FIELD_SET CMPL_CTXT_DATA_W3_CIDX_MASK_s80 (ucast (cm_cidx ctxt)) OR
            FIELD_SET CMPL_CTXT_DATA_W3_VALID_MASK_s80 (ucast (cm_valid ctxt)) OR
            FIELD_SET CMPL_CTXT_DATA_W3_ERR_MASK_s80 (ucast (cm_err ctxt)) OR
            FIELD_SET CMPL_CTXT_DATA_W3_USER_TRIG_PEND_MASK_s80 (ucast (cm_user_trig_pend ctxt)) OR
            FIELD_SET CMPL_CTXT_DATA_W3_TIMER_RUNNING_MASK (ucast (cm_timer_running ctxt)) OR
            FIELD_SET CMPL_CTXT_DATA_W3_FULL_UPD_MASK (ucast (cm_full_upd ctxt))])"

definition qdma_s80_hard_cmpt_context_of :: "u32 list \<Rightarrow> qdma_descq_cmpt_ctxt \<Rightarrow> qdma_descq_cmpt_ctxt" where
  "qdma_s80_hard_cmpt_context_of ws ctxt =
     (let baddr_l = FIELD_GET CMPL_CTXT_DATA_W0_BADDR_64_L_MASK (ws ! 0);
          baddr_m = FIELD_GET CMPL_CTXT_DATA_W1_BADDR_64_M_MASK (ws ! 1);
          baddr_h = FIELD_GET CMPL_CTXT_DATA_W2_BADDR_64_H_MASK (ws ! 2);
          pidx_l = FIELD_GET CMPL_CTXT_DATA_W2_PIDX_L_MASK_s80 (ws ! 2);
          pidx_h = FIELD_GET CMPL_CTXT_DATA_W3_PIDX_H_MASK_s80 (ws ! 3)
      in ctxt\<lparr>cm_en_stat_desc := ucast (FIELD_GET CMPL_CTXT_DATA_W0_EN_STAT_DESC_MASK_s80 (ws ! 0)),
           cm_en_int := ucast (FIELD_GET CMPL_CTXT_DATA_W0_EN_INT_MASK_s80 (ws ! 0)),
           cm_trig_mode := ucast (FIELD_GET CMPL_CTXT_DATA_W0_TRIG_MODE_MASK_s80 (ws ! 0)),
           cm_fnc_id := ucast (FIELD_GET CMPL_CTXT_DATA_W0_FNC_ID_MASK_s80 (ws ! 0)),
           cm_counter_idx := ucast (FIELD_GET CMPL_CTXT_DATA_W0_CNTER_IDX_MASK (ws ! 0)),
           cm_timer_idx := ucast (FIELD_GET CMPL_CTXT_DATA_W0_TIMER_IDX_MASK (ws ! 0)),
           cm_in_st := ucast (FIELD_GET CMPL_CTXT_DATA_W0_INT_ST_MASK_s80 (ws ! 0)),
           cm_color := ucast (FIELD_GET CMPL_CTXT_DATA_W0_COLOR_MASK_s80 (ws ! 0)),
           cm_ringsz_idx := ucast (FIELD_GET CMPL_CTXT_DATA_W0_QSIZE_IDX_MASK (ws ! 0)),
           cm_desc_sz := ucast (FIELD_GET CMPL_CTXT_DATA_W2_DESC_SIZE_MASK_s80 (ws ! 2)),
           cm_cidx := ucast (FIELD_GET CMPL_CTXT_DATA_W3_CIDX_MASK_s80 (ws ! 3)),
           cm_valid := ucast (FIELD_GET CMPL_CTXT_DATA_W3_VALID_MASK_s80 (ws ! 3)),
           cm_err := ucast (FIELD_GET CMPL_CTXT_DATA_W3_ERR_MASK_s80 (ws ! 3)),
           cm_user_trig_pend := ucast (FIELD_GET CMPL_CTXT_DATA_W3_USER_TRIG_PEND_MASK_s80 (ws ! 3)),
           cm_timer_running := ucast (FIELD_GET CMPL_CTXT_DATA_W3_TIMER_RUNNING_MASK (ws ! 3)),
           cm_full_upd := ucast (FIELD_GET CMPL_CTXT_DATA_W3_FULL_UPD_MASK (ws ! 3)),
           cm_bs_addr := FIELD_SET QDMA_S80_HARD_COMPL_CTXT_BADDR_GET_L_MASK (ucast baddr_l) OR
             FIELD_SET QDMA_S80_HARD_COMPL_CTXT_BADDR_GET_M_MASK (ucast baddr_m) OR
               FIELD_SET QDMA_S80_HARD_COMPL_CTXT_BADDR_GET_H_MASK (ucast baddr_h),
           cm_pidx := ucast (FIELD_SET QDMA_S80_HARD_COMPL_CTXT_PIDX_GET_L_MASK pidx_l OR
             FIELD_SET QDMA_S80_HARD_COMPL_CTXT_PIDX_GET_H_MASK pidx_h)\<rparr>)"

definition qdma_s80_hard_cmpt_context_write :: "'h bus \<Rightarrow> u16 \<Rightarrow> qdma_descq_cmpt_ctxt option \<Rightarrow> 'h \<Rightarrow> int \<times> 'h" where
  "qdma_s80_hard_cmpt_context_write b hw_qid ctxt h =
     (case ctxt of
        None \<Rightarrow> (- err_code QDMA_ERR_INV_PARAM, h)
      | Some ctxt \<Rightarrow>
          if unat (cm_desc_sz ctxt) > QDMA_DESC_SIZE_32B \<or> unat (cm_ringsz_idx ctxt) \<ge> QDMA_NUM_RING_SIZES \<or>
             unat (cm_counter_idx ctxt) \<ge> QDMA_NUM_C2H_COUNTERS \<or> unat (cm_timer_idx ctxt) \<ge> QDMA_NUM_C2H_TIMERS \<or>
             unat (cm_trig_mode ctxt) > QDMA_CMPT_UPDATE_TRIG_MODE_TMR_CNTR then (- err_code QDMA_ERR_INV_PARAM, h)
          else qdma_s80_hard_indirect_reg_write b QDMA_CTXT_SEL_CMPT hw_qid (qdma_s80_hard_cmpt_context_words ctxt) h)"

definition qdma_s80_hard_cmpt_context_read ::
    "'h bus \<Rightarrow> u16 \<Rightarrow> qdma_descq_cmpt_ctxt option \<Rightarrow> 'h \<Rightarrow> int \<times> qdma_descq_cmpt_ctxt option \<times> 'h" where
  "qdma_s80_hard_cmpt_context_read b hw_qid ctxt h =
     (case ctxt of
        None \<Rightarrow> (- err_code QDMA_ERR_INV_PARAM, None, h)
      | Some ctxt \<Rightarrow>
          (case qdma_s80_hard_indirect_reg_read b QDMA_CTXT_SEL_CMPT hw_qid QDMA_S80_HARD_CMPT_CONTEXT_NUM_WORDS h of (rv, ws, h') \<Rightarrow>
             if rv < 0 then (rv, None, h') else (err_code QDMA_SUCCESS, Some (qdma_s80_hard_cmpt_context_of ws ctxt), h')))"

definition qdma_s80_hard_cmpt_context_clear :: "'h bus \<Rightarrow> u16 \<Rightarrow> 'h \<Rightarrow> int \<times> 'h" where
  "qdma_s80_hard_cmpt_context_clear b hw_qid h = qdma_s80_hard_indirect_reg_clear b QDMA_CTXT_SEL_CMPT hw_qid h"

definition qdma_s80_hard_cmpt_context_invalidate :: "'h bus \<Rightarrow> u16 \<Rightarrow> 'h \<Rightarrow> int \<times> 'h" where
  "qdma_s80_hard_cmpt_context_invalidate b hw_qid h = qdma_s80_hard_indirect_reg_invalidate b QDMA_CTXT_SEL_CMPT hw_qid h"

definition qdma_s80_hard_cmpt_ctx_conf :: "'h bus \<Rightarrow> u16 \<Rightarrow> (qdma_descq_cmpt_ctxt, 'h) ctx_conf" where
  "qdma_s80_hard_cmpt_ctx_conf b hw_qid ctxt access_type h =
     (case access_type of
        QDMA_HW_ACCESS_READ \<Rightarrow> qdma_s80_hard_cmpt_context_read b hw_qid ctxt h
      | QDMA_HW_ACCESS_WRITE \<Rightarrow> (case qdma_s80_hard_cmpt_context_write b hw_qid ctxt h of (rv, h') \<Rightarrow> (rv, None, h'))
      | QDMA_HW_ACCESS_CLEAR \<Rightarrow> (case qdma_s80_hard_cmpt_context_clear b hw_qid h of (rv, h') \<Rightarrow> (rv, None, h'))
      | QDMA_HW_ACCESS_INVALIDATE \<Rightarrow> (case qdma_s80_hard_cmpt_context_invalidate b hw_qid h of (rv, h') \<Rightarrow> (rv, None, h')))"

section \<open>Hardware context\<close>

definition QDMA_S80_HARD_HW_CONTEXT_NUM_WORDS :: nat where "QDMA_S80_HARD_HW_CONTEXT_NUM_WORDS = 2"

definition HW_IND_CTXT_DATA_W0_CIDX_MASK_s80 :: u32 where "HW_IND_CTXT_DATA_W0_CIDX_MASK_s80 = GENMASK 15 0"
definition HW_IND_CTXT_DATA_W0_CRD_USE_MASK_s80 :: u32 where "HW_IND_CTXT_DATA_W0_CRD_USE_MASK_s80 = GENMASK 31 16"
definition HW_IND_CTXT_DATA_W1_DSC_PND_MASK_s80 :: u32 where "HW_IND_CTXT_DATA_W1_DSC_PND_MASK_s80 = BIT 8"
definition HW_IND_CTXT_DATA_W1_IDL_STP_B_MASK_s80 :: u32 where "HW_IND_CTXT_DATA_W1_IDL_STP_B_MASK_s80 = BIT 9"
definition HW_IND_CTXT_DATA_W1_FETCH_PND_MASK :: u32 where "HW_IND_CTXT_DATA_W1_FETCH_PND_MASK = BIT 10"

lemmas s80_hw_masks [mask_defs] =
  HW_IND_CTXT_DATA_W0_CIDX_MASK_s80_def
  HW_IND_CTXT_DATA_W0_CRD_USE_MASK_s80_def
  HW_IND_CTXT_DATA_W1_DSC_PND_MASK_s80_def
  HW_IND_CTXT_DATA_W1_IDL_STP_B_MASK_s80_def
  HW_IND_CTXT_DATA_W1_FETCH_PND_MASK_def

definition qdma_s80_hard_hw_context_of :: "u32 list \<Rightarrow> qdma_descq_hw_ctxt \<Rightarrow> qdma_descq_hw_ctxt" where
  "qdma_s80_hard_hw_context_of ws ctxt =
     ctxt\<lparr>hw_cidx := ucast (FIELD_GET HW_IND_CTXT_DATA_W0_CIDX_MASK_s80 (ws ! 0)),
           hw_crd_use := ucast (FIELD_GET HW_IND_CTXT_DATA_W0_CRD_USE_MASK_s80 (ws ! 0)),
           hw_dsc_pend := ucast (FIELD_GET HW_IND_CTXT_DATA_W1_DSC_PND_MASK_s80 (ws ! 1)),
           hw_idl_stp_b := ucast (FIELD_GET HW_IND_CTXT_DATA_W1_IDL_STP_B_MASK_s80 (ws ! 1)),
           hw_fetch_pnd := ucast (FIELD_GET HW_IND_CTXT_DATA_W1_FETCH_PND_MASK (ws ! 1))\<rparr>"

definition qdma_s80_hard_hw_context_read ::
    "'h bus \<Rightarrow> u8 \<Rightarrow> u16 \<Rightarrow> qdma_descq_hw_ctxt option \<Rightarrow> 'h \<Rightarrow> int \<times> qdma_descq_hw_ctxt option \<times> 'h" where
  "qdma_s80_hard_hw_context_read b c2h hw_qid ctxt h =
     (case ctxt of
        None \<Rightarrow> (- err_code QDMA_ERR_INV_PARAM, None, h)
      | Some ctxt \<Rightarrow>
          (case qdma_s80_hard_indirect_reg_read b (if c2h \<noteq> 0 then QDMA_CTXT_SEL_HW_C2H else QDMA_CTXT_SEL_HW_H2C)
              hw_qid QDMA_S80_HARD_HW_CONTEXT_NUM_WORDS h of (rv, ws, h') \<Rightarrow>
             if rv < 0 then (rv, None, h') else (err_code QDMA_SUCCESS, Some (qdma_s80_hard_hw_context_of ws ctxt), h')))"

definition qdma_s80_hard_hw_context_clear :: "'h bus \<Rightarrow> u8 \<Rightarrow> u16 \<Rightarrow> 'h \<Rightarrow> int \<times> 'h" where
  "qdma_s80_hard_hw_context_clear b c2h hw_qid h =
     qdma_s80_hard_indirect_reg_clear b (if c2h \<noteq> 0 then QDMA_CTXT_SEL_HW_C2H else QDMA_CTXT_SEL_HW_H2C) hw_qid h"

definition qdma_s80_hard_hw_context_invalidate :: "'h bus \<Rightarrow> u8 \<Rightarrow> u16 \<Rightarrow> 'h \<Rightarrow> int \<times> 'h" where
  "qdma_s80_hard_hw_context_invalidate b c2h hw_qid h =
     qdma_s80_hard_indirect_reg_invalidate b (if c2h \<noteq> 0 then QDMA_CTXT_SEL_HW_C2H else QDMA_CTXT_SEL_HW_H2C) hw_qid h"

definition qdma_s80_hard_hw_ctx_conf :: "'h bus \<Rightarrow> u8 \<Rightarrow> u16 \<Rightarrow> (qdma_descq_hw_ctxt, 'h) ctx_conf" where
  "qdma_s80_hard_hw_ctx_conf b c2h hw_qid ctxt access_type h =
     (case access_type of
        QDMA_HW_ACCESS_READ \<Rightarrow> qdma_s80_hard_hw_context_read b c2h hw_qid ctxt h
      | QDMA_HW_ACCESS_WRITE \<Rightarrow> (- err_code QDMA_ERR_INV_PARAM, None, h)
      | QDMA_HW_ACCESS_CLEAR \<Rightarrow> (case qdma_s80_hard_hw_context_clear b c2h hw_qid h of (rv, h') \<Rightarrow> (rv, None, h'))
      | QDMA_HW_ACCESS_INVALIDATE \<Rightarrow> (case qdma_s80_hard_hw_context_invalidate b c2h hw_qid h of (rv, h') \<Rightarrow> (rv, None, h')))"

section \<open>Credit context\<close>

definition QDMA_S80_HARD_CR_CONTEXT_NUM_WORDS :: nat where "QDMA_S80_HARD_CR_CONTEXT_NUM_WORDS = 1"

definition CRED_CTXT_DATA_W0_CREDT_MASK_s80 :: u32 where "CRED_CTXT_DATA_W0_CREDT_MASK_s80 = GENMASK 15 0"

lemmas s80_credit_masks [mask_defs] =
  CRED_CTXT_DATA_W0_CREDT_MASK_s80_def

definition qdma_s80_hard_credit_context_of :: "u32 list \<Rightarrow> qdma_descq_credit_ctxt \<Rightarrow> qdma_descq_credit_ctxt" where
  "qdma_s80_hard_credit_context_of ws ctxt =
     ctxt\<lparr>cr_credit := FIELD_GET CRED_CTXT_DATA_W0_CREDT_MASK_s80 (ws ! 0)\<rparr>"

definition qdma_s80_hard_credit_context_read ::
    "'h bus \<Rightarrow> u8 \<Rightarrow> u16 \<Rightarrow> qdma_descq_credit_ctxt option \<Rightarrow> 'h \<Rightarrow> int \<times> qdma_descq_credit_ctxt option \<times> 'h" where
  "qdma_s80_hard_credit_context_read b c2h hw_qid ctxt h =
     (case ctxt of
        None \<Rightarrow> (- err_code QDMA_ERR_INV_PARAM, None, h)
      | Some ctxt \<Rightarrow>
          (case qdma_s80_hard_indirect_reg_read b (if c2h \<noteq> 0 then QDMA_CTXT_SEL_CR_C2H else QDMA_CTXT_SEL_CR_H2C)
              hw_qid QDMA_S80_HARD_CR_CONTEXT_NUM_WORDS h of (rv, ws, h') \<Rightarrow>
             if rv < 0 then (rv, None, h') else (err_code QDMA_SUCCESS, Some (qdma_s80_hard_credit_context_of ws ctxt), h')))"

definition qdma_s80_hard_credit_context_clear :: "'h bus \<Rightarrow> u8 \<Rightarrow> u16 \<Rightarrow> 'h \<Rightarrow> int \<times> 'h" where
  "qdma_s80_hard_credit_context_clear b c2h hw_qid h =
     qdma_s80_hard_indirect_reg_clear b (if c2h \<noteq> 0 then QDMA_CTXT_SEL_CR_C2H else QDMA_CTXT_SEL_CR_H2C) hw_qid h"

definition qdma_s80_hard_credit_context_invalidate :: "'h bus \<Rightarrow> u8 \<Rightarrow> u16 \<Rightarrow> 'h \<Rightarrow> int \<times> 'h" where
  "qdma_s80_hard_credit_context_invalidate b c2h hw_qid h =
     qdma_s80_hard_indirect_reg_invalidate b (if c2h \<noteq> 0 then QDMA_CTXT_SEL_CR_C2H else QDMA_CTXT_SEL_CR_H2C) hw_qid h"

definition qdma_s80_hard_credit_ctx_conf :: "'h bus \<Rightarrow> u8 \<Rightarrow> u16 \<Rightarrow> (qdma_descq_credit_ctxt, 'h) ctx_conf" where
  "qdma_s80_hard_credit_ctx_conf b c2h hw_qid ctxt access_type h =
     (case access_type of
        QDMA_HW_ACCESS_READ \<Rightarrow> qdma_s80_hard_credit_context_read b c2h hw_qid ctxt h
      | QDMA_HW_ACCESS_WRITE \<Rightarrow> (- err_code QDMA_ERR_INV_PARAM, None, h)
      | QDMA_HW_ACCESS_CLEAR \<Rightarrow> (case qdma_s80_hard_credit_context_clear b c2h hw_qid h of (rv, h') \<Rightarrow> (rv, None, h'))
      | QDMA_HW_ACCESS_INVALIDATE \<Rightarrow> (case qdma_s80_hard_credit_context_invalidate b c2h hw_qid h of (rv, h') \<Rightarrow> (rv, None, h')))"

section \<open>Interrupt rings\<close>

definition QDMA_S80_HARD_IND_INTR_CONTEXT_NUM_WORDS :: nat where "QDMA_S80_HARD_IND_INTR_CONTEXT_NUM_WORDS = 3"

definition QDMA_S80_HARD_INTR_CTXT_BADDR_GET_L_MASK :: u64 where "QDMA_S80_HARD_INTR_CTXT_BADDR_GET_L_MASK = GENMASK 34 12"
definition QDMA_S80_HARD_INTR_CTXT_BADDR_GET_H_MASK :: u64 where "QDMA_S80_HARD_INTR_CTXT_BADDR_GET_H_MASK = GENMASK 63 35"
definition INTR_CTXT_DATA_W0_VALID_MASK_s80 :: u32 where "INTR_CTXT_DATA_W0_VALID_MASK_s80 = BIT 0"
definition INTR_CTXT_DATA_W0_VEC_MASK_s80 :: u32 where "INTR_CTXT_DATA_W0_VEC_MASK_s80 = GENMASK 5 1"
definition INTR_CTXT_DATA_W0_INT_ST_MASK_s80 :: u32 where "INTR_CTXT_DATA_W0_INT_ST_MASK_s80 = BIT 7"
definition INTR_CTXT_DATA_W0_COLOR_MASK_s80 :: u32 where "INTR_CTXT_DATA_W0_COLOR_MASK_s80 = BIT 8"
definition INTR_CTXT_DATA_W0_BADDR_4K_L_MASK_s80 :: u32 where "INTR_CTXT_DATA_W0_BADDR_4K_L_MASK_s80 = GENMASK 31 9"
definition INTR_CTXT_DATA_W1_BADDR_4K_H_MASK :: u32 where "INTR_CTXT_DATA_W1_BADDR_4K_H_MASK = GENMASK 28 0"
definition INTR_CTXT_DATA_W1_PAGE_SIZE_MASK :: u32 where "INTR_CTXT_DATA_W1_PAGE_SIZE_MASK = GENMASK 31 29"
definition INTR_CTXT_DATA_W2_PIDX_MASK_s80 :: u32 where "INTR_CTXT_DATA_W2_PIDX_MASK_s80 = GENMASK 11 0"

lemmas s80_indirect_intr_masks [mask_defs] =
  QDMA_S80_HARD_INTR_CTXT_BADDR_GET_L_MASK_def
  QDMA_S80_HARD_INTR_CTXT_BADDR_GET_H_MASK_def
  INTR_CTXT_DATA_W0_VALID_MASK_s80_def
  INTR_CTXT_DATA_W0_VEC_MASK_s80_def
  INTR_CTXT_DATA_W0_INT_ST_MASK_s80_def
  INTR_CTXT_DATA_W0_COLOR_MASK_s80_def
  INTR_CTXT_DATA_W0_BADDR_4K_L_MASK_s80_def
  INTR_CTXT_DATA_W1_BADDR_4K_H_MASK_def
  INTR_CTXT_DATA_W1_PAGE_SIZE_MASK_def
  INTR_CTXT_DATA_W2_PIDX_MASK_s80_def

definition qdma_s80_hard_indirect_intr_context_words :: "qdma_indirect_intr_ctxt \<Rightarrow> u32 list" where
  "qdma_s80_hard_indirect_intr_context_words ctxt =
     (let baddr_l = ucast (FIELD_GET QDMA_S80_HARD_INTR_CTXT_BADDR_GET_L_MASK (ic_baddr_4k ctxt));
          baddr_h = ucast (FIELD_GET QDMA_S80_HARD_INTR_CTXT_BADDR_GET_H_MASK (ic_baddr_4k ctxt))
      in [FIELD_SET INTR_CTXT_DATA_W0_VALID_MASK_s80 (ucast (ic_valid ctxt)) OR
            FIELD_SET INTR_CTXT_DATA_W0_VEC_MASK_s80 (ucast (ic_vec ctxt)) OR
            FIELD_SET INTR_CTXT_DATA_W0_INT_ST_MASK_s80 (ucast (ic_int_st ctxt)) OR
            FIELD_SET INTR_CTXT_DATA_W0_COLOR_MASK_s80 (ucast (ic_color ctxt)) OR
            FIELD_SET INTR_CTXT_DATA_W0_BADDR_4K_L_MASK_s80 baddr_l,
          FIELD_SET INTR_CTXT_DATA_W1_BADDR_4K_H_MASK baddr_h OR
            FIELD_SET INTR_CTXT_DATA_W1_PAGE_SIZE_MASK (ucast (ic_page_size ctxt)),
          FIELD_SET INTR_CTXT_DATA_W2_PIDX_MASK_s80 (ucast (ic_pidx ctxt))])"

definition qdma_s80_hard_indirect_intr_context_of ::
    "u32 list \<Rightarrow> qdma_indirect_intr_ctxt \<Rightarrow> qdma_indirect_intr_ctxt" where
  "qdma_s80_hard_indirect_intr_context_of ws ctxt =
     (let baddr_l :: u64 = ucast (FIELD_GET INTR_CTXT_DATA_W0_BADDR_4K_L_MASK_s80 (ws ! 0));
          baddr_h :: u64 = ucast (FIELD_GET INTR_CTXT_DATA_W1_BADDR_4K_H_MASK (ws ! 1))
      in ctxt\<lparr>ic_valid := ucast (FIELD_GET INTR_CTXT_DATA_W0_VALID_MASK_s80 (ws ! 0)),
           ic_vec := ucast (FIELD_GET INTR_CTXT_DATA_W0_VEC_MASK_s80 (ws ! 0)),
           ic_int_st := ucast (FIELD_GET INTR_CTXT_DATA_W0_INT_ST_MASK_s80 (ws ! 0)),
           ic_color := ucast (FIELD_GET INTR_CTXT_DATA_W0_COLOR_MASK_s80 (ws ! 0)),
           ic_page_size := ucast (FIELD_GET INTR_CTXT_DATA_W1_PAGE_SIZE_MASK (ws ! 1)),
           ic_pidx := ucast (FIELD_GET INTR_CTXT_DATA_W2_PIDX_MASK_s80 (ws ! 2)),
           ic_baddr_4k := FIELD_SET QDMA_S80_HARD_INTR_CTXT_BADDR_GET_L_MASK baddr_l OR
             FIELD_SET QDMA_S80_HARD_INTR_CTXT_BADDR_GET_H_MASK baddr_h\<rparr>)"

definition qdma_s80_hard_indirect_intr_context_write ::
    "'h bus \<Rightarrow> u16 \<Rightarrow> qdma_indirect_intr_ctxt option \<Rightarrow> 'h \<Rightarrow> int \<times> 'h" where
  "qdma_s80_hard_indirect_intr_context_write b ring_index ctxt h =
     (case ctxt of
        None \<Rightarrow> (- err_code QDMA_ERR_INV_PARAM, h)
      | Some ctxt \<Rightarrow>
          if unat (ic_page_size ctxt) > QDMA_INDIRECT_INTR_RING_SIZE_32KB then (- err_code QDMA_ERR_INV_PARAM, h)
          else qdma_s80_hard_indirect_reg_write b QDMA_CTXT_SEL_INT_COAL ring_index (qdma_s80_hard_indirect_intr_context_words ctxt) h)"

definition qdma_s80_hard_indirect_intr_context_read ::
    "'h bus \<Rightarrow> u16 \<Rightarrow> qdma_indirect_intr_ctxt option \<Rightarrow> 'h \<Rightarrow> int \<times> qdma_indirect_intr_ctxt option \<times> 'h" where
  "qdma_s80_hard_indirect_intr_context_read b ring_index ctxt h =
     (case ctxt of
        None \<Rightarrow> (- err_code QDMA_ERR_INV_PARAM, None, h)
      | Some ctxt \<Rightarrow>
          (case qdma_s80_hard_indirect_reg_read b QDMA_CTXT_SEL_INT_COAL ring_index QDMA_S80_HARD_IND_INTR_CONTEXT_NUM_WORDS h of (rv, ws, h') \<Rightarrow>
             if rv < 0 then (rv, None, h') else (err_code QDMA_SUCCESS, Some (qdma_s80_hard_indirect_intr_context_of ws ctxt), h')))"

definition qdma_s80_hard_indirect_intr_context_clear :: "'h bus \<Rightarrow> u16 \<Rightarrow> 'h \<Rightarrow> int \<times> 'h" where
  "qdma_s80_hard_indirect_intr_context_clear b ring_index h = qdma_s80_hard_indirect_reg_clear b QDMA_CTXT_SEL_INT_COAL ring_index h"

definition qdma_s80_hard_indirect_intr_context_invalidate :: "'h bus \<Rightarrow> u16 \<Rightarrow> 'h \<Rightarrow> int \<times> 'h" where
  "qdma_s80_hard_indirect_intr_context_invalidate b ring_index h = qdma_s80_hard_indirect_reg_invalidate b QDMA_CTXT_SEL_INT_COAL ring_index h"

definition qdma_s80_hard_indirect_intr_ctx_conf :: "'h bus \<Rightarrow> u16 \<Rightarrow> (qdma_indirect_intr_ctxt, 'h) ctx_conf" where
  "qdma_s80_hard_indirect_intr_ctx_conf b ring_index ctxt access_type h =
     (case access_type of
        QDMA_HW_ACCESS_READ \<Rightarrow> qdma_s80_hard_indirect_intr_context_read b ring_index ctxt h
      | QDMA_HW_ACCESS_WRITE \<Rightarrow> (case qdma_s80_hard_indirect_intr_context_write b ring_index ctxt h of (rv, h') \<Rightarrow> (rv, None, h'))
      | QDMA_HW_ACCESS_CLEAR \<Rightarrow> (case qdma_s80_hard_indirect_intr_context_clear b ring_index h of (rv, h') \<Rightarrow> (rv, None, h'))
      | QDMA_HW_ACCESS_INVALIDATE \<Rightarrow> (case qdma_s80_hard_indirect_intr_context_invalidate b ring_index h of (rv, h') \<Rightarrow> (rv, None, h')))"

end
