(* ===== verification/S80_Csr.thy ===== *)
theory S80_Csr
  imports Eqdma_Csr S80_Context
begin

text \<open>
  Configuration registers of the hard QDMA (\<open>qdma_s80_hard_access.c\<close>), as in \<open>Soft_Csr\<close>.  Masks that \<open>Eqdma_Csr\<close> has
  under the same name end in \<open>_s80\<close>.
\<close>

section \<open>Registers and fields\<close>

definition QDMA_S80_HARD_GLBL2_PF_BARLITE_INT_ADDR :: u32 where "QDMA_S80_HARD_GLBL2_PF_BARLITE_INT_ADDR = 0x104"
definition QDMA_S80_HARD_GLBL2_CHANNEL_CAP_ADDR :: u32 where "QDMA_S80_HARD_GLBL2_CHANNEL_CAP_ADDR = 0x120"
definition QDMA_S80_HARD_GLBL2_MISC_CAP_ADDR :: u32 where "QDMA_S80_HARD_GLBL2_MISC_CAP_ADDR = 0x134"
definition QDMA_S80_HARD_GLBL2_CHANNEL_MDMA_ADDR :: u32 where "QDMA_S80_HARD_GLBL2_CHANNEL_MDMA_ADDR = 0x118"
definition GLBL2_PF_BARLITE_INT_PF0_BAR_MAP_MASK :: u32 where "GLBL2_PF_BARLITE_INT_PF0_BAR_MAP_MASK = GENMASK 5 0"
definition GLBL2_PF_BARLITE_INT_PF1_BAR_MAP_MASK :: u32 where "GLBL2_PF_BARLITE_INT_PF1_BAR_MAP_MASK = GENMASK 11 6"
definition GLBL2_PF_BARLITE_INT_PF2_BAR_MAP_MASK :: u32 where "GLBL2_PF_BARLITE_INT_PF2_BAR_MAP_MASK = GENMASK 17 12"
definition GLBL2_PF_BARLITE_INT_PF3_BAR_MAP_MASK :: u32 where "GLBL2_PF_BARLITE_INT_PF3_BAR_MAP_MASK = GENMASK 23 18"
definition GLBL2_CHANNEL_CAP_MULTIQ_MAX_MASK_s80 :: u32 where "GLBL2_CHANNEL_CAP_MULTIQ_MAX_MASK_s80 = GENMASK 11 0"
definition GLBL2_CHANNEL_MDMA_C2H_ST_MASK_s80 :: u32 where "GLBL2_CHANNEL_MDMA_C2H_ST_MASK_s80 = BIT 17"
definition GLBL2_CHANNEL_MDMA_H2C_ST_MASK_s80 :: u32 where "GLBL2_CHANNEL_MDMA_H2C_ST_MASK_s80 = BIT 16"
definition GLBL2_CHANNEL_MDMA_C2H_ENG_MASK_s80 :: u32 where "GLBL2_CHANNEL_MDMA_C2H_ENG_MASK_s80 = BIT 8"
definition GLBL2_CHANNEL_MDMA_H2C_ENG_MASK_s80 :: u32 where "GLBL2_CHANNEL_MDMA_H2C_ENG_MASK_s80 = BIT 0"
definition QDMA_S80_HARD_GLBL_RNG_SZ_1_ADDR :: u32 where "QDMA_S80_HARD_GLBL_RNG_SZ_1_ADDR = 0x204"
definition QDMA_S80_HARD_C2H_TIMER_CNT_1_ADDR :: u32 where "QDMA_S80_HARD_C2H_TIMER_CNT_1_ADDR = 0xA00"
definition QDMA_S80_HARD_C2H_CNT_TH_1_ADDR :: u32 where "QDMA_S80_HARD_C2H_CNT_TH_1_ADDR = 0xA40"
definition QDMA_S80_HARD_C2H_BUF_SZ_0_ADDR :: u32 where "QDMA_S80_HARD_C2H_BUF_SZ_0_ADDR = 0xAB0"
definition QDMA_S80_HARD_GLBL_DSC_CFG_ADDR :: u32 where "QDMA_S80_HARD_GLBL_DSC_CFG_ADDR = 0x250"
definition GLBL_DSC_CFG_WB_ACC_INT_MASK_s80 :: u32 where "GLBL_DSC_CFG_WB_ACC_INT_MASK_s80 = GENMASK 2 0"
definition QDMA_S80_HARD_C2H_CHANNEL_CTL_ADDR :: u32 where "QDMA_S80_HARD_C2H_CHANNEL_CTL_ADDR = 0x1004"
definition QDMA_S80_HARD_H2C_CHANNEL_CTL_ADDR :: u32 where "QDMA_S80_HARD_H2C_CHANNEL_CTL_ADDR = 0x1204"
definition GLBL_DSC_CFG_MAXFETCH_MASK_s80 :: u32 where "GLBL_DSC_CFG_MAXFETCH_MASK_s80 = GENMASK 5 3"
definition QDMA_S80_HARD_C2H_PFCH_CFG_ADDR :: u32 where "QDMA_S80_HARD_C2H_PFCH_CFG_ADDR = 0xB08"
definition C2H_PFCH_CFG_FL_TH_MASK_s80 :: u32 where "C2H_PFCH_CFG_FL_TH_MASK_s80 = GENMASK 7 0"
definition C2H_PFCH_CFG_NUM_MASK :: u32 where "C2H_PFCH_CFG_NUM_MASK = GENMASK 15 8"
definition C2H_PFCH_CFG_QCNT_MASK :: u32 where "C2H_PFCH_CFG_QCNT_MASK = GENMASK 24 16"
definition C2H_PFCH_CFG_EVT_QCNT_TH_MASK :: u32 where "C2H_PFCH_CFG_EVT_QCNT_TH_MASK = GENMASK 31 25"
definition QDMA_S80_HARD_C2H_INT_TIMER_TICK_ADDR :: u32 where "QDMA_S80_HARD_C2H_INT_TIMER_TICK_ADDR = 0xB0C"
definition QDMA_S80_HARD_C2H_WRB_COAL_CFG_ADDR :: u32 where "QDMA_S80_HARD_C2H_WRB_COAL_CFG_ADDR = 0xB50"
definition C2H_WRB_COAL_CFG_TICK_CNT_MASK_s80 :: u32 where "C2H_WRB_COAL_CFG_TICK_CNT_MASK_s80 = GENMASK 13 2"
definition C2H_WRB_COAL_CFG_TICK_VAL_MASK_s80 :: u32 where "C2H_WRB_COAL_CFG_TICK_VAL_MASK_s80 = GENMASK 25 14"
definition C2H_WRB_COAL_CFG_MAX_BUF_SZ_MASK_s80 :: u32 where "C2H_WRB_COAL_CFG_MAX_BUF_SZ_MASK_s80 = GENMASK 31 26"
definition QDMA_S80_HARD_OFFSET_DMAP_SEL_C2H_DSC_PIDX :: u32 where "QDMA_S80_HARD_OFFSET_DMAP_SEL_C2H_DSC_PIDX = 0x6408"
definition QDMA_S80_HARD_OFFSET_DMAP_SEL_H2C_DSC_PIDX :: u32 where "QDMA_S80_HARD_OFFSET_DMAP_SEL_H2C_DSC_PIDX = 0x6404"
definition QDMA_S80_HARD_OFFSET_VF_DMAP_SEL_C2H_DSC_PIDX :: u32 where "QDMA_S80_HARD_OFFSET_VF_DMAP_SEL_C2H_DSC_PIDX = 0x3008"
definition QDMA_S80_HARD_OFFSET_VF_DMAP_SEL_H2C_DSC_PIDX :: u32 where "QDMA_S80_HARD_OFFSET_VF_DMAP_SEL_H2C_DSC_PIDX = 0x3004"
definition QDMA_S80_HARD_DMA_SEL_DESC_PIDX_MASK :: u32 where "QDMA_S80_HARD_DMA_SEL_DESC_PIDX_MASK = GENMASK 15 0"
definition QDMA_S80_HARD_DMA_SEL_IRQ_EN_MASK :: u32 where "QDMA_S80_HARD_DMA_SEL_IRQ_EN_MASK = BIT 16"
definition QDMA_S80_HARD_OFFSET_VF_DMAP_SEL_CMPT_CIDX :: u32 where "QDMA_S80_HARD_OFFSET_VF_DMAP_SEL_CMPT_CIDX = 0x300C"
definition QDMA_S80_HARD_OFFSET_DMAP_SEL_CMPT_CIDX :: u32 where "QDMA_S80_HARD_OFFSET_DMAP_SEL_CMPT_CIDX = 0x640C"
definition QDMA_S80_HARD_DMAP_SEL_CMPT_WRB_CIDX_MASK :: u32 where "QDMA_S80_HARD_DMAP_SEL_CMPT_WRB_CIDX_MASK = GENMASK 15 0"
definition QDMA_S80_HARD_DMAP_SEL_CMPT_CNT_THRESH_MASK :: u32 where "QDMA_S80_HARD_DMAP_SEL_CMPT_CNT_THRESH_MASK = GENMASK 19 16"
definition QDMA_S80_HARD_DMAP_SEL_CMPT_TMR_CNT_MASK :: u32 where "QDMA_S80_HARD_DMAP_SEL_CMPT_TMR_CNT_MASK = GENMASK 23 20"
definition QDMA_S80_HARD_DMAP_SEL_CMPT_TRG_MODE_MASK :: u32 where "QDMA_S80_HARD_DMAP_SEL_CMPT_TRG_MODE_MASK = GENMASK 26 24"
definition QDMA_S80_HARD_DMAP_SEL_CMPT_STS_DESC_EN_MASK :: u32 where "QDMA_S80_HARD_DMAP_SEL_CMPT_STS_DESC_EN_MASK = BIT 27"
definition QDMA_S80_HARD_DMAP_SEL_CMPT_IRQ_EN_MASK :: u32 where "QDMA_S80_HARD_DMAP_SEL_CMPT_IRQ_EN_MASK = BIT 28"
definition QDMA_S80_HARD_OFFSET_VF_DMAP_SEL_INT_CIDX :: u32 where "QDMA_S80_HARD_OFFSET_VF_DMAP_SEL_INT_CIDX = 0x3000"
definition QDMA_S80_HARD_OFFSET_DMAP_SEL_INT_CIDX :: u32 where "QDMA_S80_HARD_OFFSET_DMAP_SEL_INT_CIDX = 0x6400"
definition QDMA_S80_HARD_DMA_SEL_INT_SW_CIDX_MASK :: u32 where "QDMA_S80_HARD_DMA_SEL_INT_SW_CIDX_MASK = GENMASK 15 0"
definition QDMA_S80_HARD_DMA_SEL_INT_RING_IDX_MASK :: u32 where "QDMA_S80_HARD_DMA_SEL_INT_RING_IDX_MASK = GENMASK 23 16"
definition QDMA_S80_HARD_VF_USER_BAR_ID :: u32 where "QDMA_S80_HARD_VF_USER_BAR_ID = 2"
definition QDMA_S80_HARD_GLBL2_PF_BARLITE_EXT_ADDR :: u32 where "QDMA_S80_HARD_GLBL2_PF_BARLITE_EXT_ADDR = 0x10C"

lemmas s80_csr_masks [mask_defs] =
  GLBL2_PF_BARLITE_INT_PF0_BAR_MAP_MASK_def
  GLBL2_PF_BARLITE_INT_PF1_BAR_MAP_MASK_def
  GLBL2_PF_BARLITE_INT_PF2_BAR_MAP_MASK_def
  GLBL2_PF_BARLITE_INT_PF3_BAR_MAP_MASK_def
  GLBL2_CHANNEL_CAP_MULTIQ_MAX_MASK_s80_def
  GLBL2_CHANNEL_MDMA_C2H_ST_MASK_s80_def
  GLBL2_CHANNEL_MDMA_H2C_ST_MASK_s80_def
  GLBL2_CHANNEL_MDMA_C2H_ENG_MASK_s80_def
  GLBL2_CHANNEL_MDMA_H2C_ENG_MASK_s80_def
  GLBL_DSC_CFG_WB_ACC_INT_MASK_s80_def
  GLBL_DSC_CFG_MAXFETCH_MASK_s80_def
  C2H_PFCH_CFG_FL_TH_MASK_s80_def
  C2H_PFCH_CFG_NUM_MASK_def
  C2H_PFCH_CFG_QCNT_MASK_def
  C2H_PFCH_CFG_EVT_QCNT_TH_MASK_def
  C2H_WRB_COAL_CFG_TICK_CNT_MASK_s80_def
  C2H_WRB_COAL_CFG_TICK_VAL_MASK_s80_def
  C2H_WRB_COAL_CFG_MAX_BUF_SZ_MASK_s80_def
  QDMA_S80_HARD_DMA_SEL_DESC_PIDX_MASK_def
  QDMA_S80_HARD_DMA_SEL_IRQ_EN_MASK_def
  QDMA_S80_HARD_DMAP_SEL_CMPT_WRB_CIDX_MASK_def
  QDMA_S80_HARD_DMAP_SEL_CMPT_CNT_THRESH_MASK_def
  QDMA_S80_HARD_DMAP_SEL_CMPT_TMR_CNT_MASK_def
  QDMA_S80_HARD_DMAP_SEL_CMPT_TRG_MODE_MASK_def
  QDMA_S80_HARD_DMAP_SEL_CMPT_STS_DESC_EN_MASK_def
  QDMA_S80_HARD_DMAP_SEL_CMPT_IRQ_EN_MASK_def
  QDMA_S80_HARD_DMA_SEL_INT_SW_CIDX_MASK_def
  QDMA_S80_HARD_DMA_SEL_INT_RING_IDX_MASK_def

lemmas s80_csr_addrs =
  QDMA_S80_HARD_GLBL2_PF_BARLITE_INT_ADDR_def
  QDMA_S80_HARD_GLBL2_CHANNEL_CAP_ADDR_def
  QDMA_S80_HARD_GLBL2_MISC_CAP_ADDR_def
  QDMA_S80_HARD_GLBL2_CHANNEL_MDMA_ADDR_def
  QDMA_S80_HARD_GLBL_RNG_SZ_1_ADDR_def
  QDMA_S80_HARD_C2H_TIMER_CNT_1_ADDR_def
  QDMA_S80_HARD_C2H_CNT_TH_1_ADDR_def
  QDMA_S80_HARD_C2H_BUF_SZ_0_ADDR_def
  QDMA_S80_HARD_GLBL_DSC_CFG_ADDR_def
  QDMA_S80_HARD_C2H_CHANNEL_CTL_ADDR_def
  QDMA_S80_HARD_H2C_CHANNEL_CTL_ADDR_def
  QDMA_S80_HARD_C2H_PFCH_CFG_ADDR_def
  QDMA_S80_HARD_C2H_INT_TIMER_TICK_ADDR_def
  QDMA_S80_HARD_C2H_WRB_COAL_CFG_ADDR_def
  QDMA_S80_HARD_OFFSET_DMAP_SEL_C2H_DSC_PIDX_def
  QDMA_S80_HARD_OFFSET_DMAP_SEL_H2C_DSC_PIDX_def
  QDMA_S80_HARD_OFFSET_VF_DMAP_SEL_C2H_DSC_PIDX_def
  QDMA_S80_HARD_OFFSET_VF_DMAP_SEL_H2C_DSC_PIDX_def
  QDMA_S80_HARD_OFFSET_VF_DMAP_SEL_CMPT_CIDX_def
  QDMA_S80_HARD_OFFSET_DMAP_SEL_CMPT_CIDX_def
  QDMA_S80_HARD_OFFSET_VF_DMAP_SEL_INT_CIDX_def
  QDMA_S80_HARD_OFFSET_DMAP_SEL_INT_CIDX_def
  QDMA_S80_HARD_VF_USER_BAR_ID_def
  QDMA_S80_HARD_GLBL2_PF_BARLITE_EXT_ADDR_def

section \<open>Attributes of the device\<close>

definition qdma_s80_hard_get_device_attributes :: "'h bus \<Rightarrow> 'h \<Rightarrow> qdma_dev_attributes \<times> 'h" where
  "qdma_s80_hard_get_device_attributes b h =
     (case bus_read b QDMA_S80_HARD_GLBL2_PF_BARLITE_INT_ADDR h of (pfs, h1) \<Rightarrow>
      case bus_read b QDMA_S80_HARD_GLBL2_CHANNEL_CAP_ADDR h1 of (cap, h2) \<Rightarrow>
      case bus_read b QDMA_S80_HARD_GLBL2_MISC_CAP_ADDR h2 of (misc, h3) \<Rightarrow>
      case bus_read b QDMA_S80_HARD_GLBL2_CHANNEL_MDMA_ADDR h3 of (mdma, h4) \<Rightarrow>
        (\<lparr>num_pfs = of_nat (length (filter (\<lambda>m. FIELD_GET m pfs \<noteq> 0)
             [GLBL2_PF_BARLITE_INT_PF0_BAR_MAP_MASK, GLBL2_PF_BARLITE_INT_PF1_BAR_MAP_MASK,
              GLBL2_PF_BARLITE_INT_PF2_BAR_MAP_MASK, GLBL2_PF_BARLITE_INT_PF3_BAR_MAP_MASK])),
           num_qs = ucast (FIELD_GET GLBL2_CHANNEL_CAP_MULTIQ_MAX_MASK_s80 cap),
           flr_present = ucast (FIELD_GET QDMA_GLBL2_FLR_PRESENT_MASK misc),
           st_en = (if FIELD_GET GLBL2_CHANNEL_MDMA_C2H_ST_MASK_s80 mdma \<noteq> 0 \<and> FIELD_GET GLBL2_CHANNEL_MDMA_H2C_ST_MASK_s80 mdma \<noteq> 0 then 1 else 0),
           mm_en = (if FIELD_GET GLBL2_CHANNEL_MDMA_C2H_ENG_MASK_s80 mdma \<noteq> 0 \<and> FIELD_GET GLBL2_CHANNEL_MDMA_H2C_ENG_MASK_s80 mdma \<noteq> 0 then 1 else 0),
           mm_cmpt_en = 0, mailbox_en = ucast (FIELD_GET QDMA_GLBL2_MAILBOX_EN_MASK misc),
           debug_mode = 0, desc_eng_mode = 0,
           mm_channel_max = 2, qid2vec_ctx = 1, cmpt_ovf_chk_dis = 0, mailbox_intr = 0, sw_desc_64b = 0, cmpt_desc_64b = 0,
           dynamic_bar = 0, legacy_intr = 0, cmpt_trig_count_timer = 0\<rparr>, h4))"

text \<open>What the CSR functions ask for.\<close>

definition s80_st_or_mm_cmpt :: "'h bus \<Rightarrow> 'h \<Rightarrow> bool \<times> 'h" where
  "s80_st_or_mm_cmpt b h = (case qdma_s80_hard_get_device_attributes b h of (dev_cap, h') \<Rightarrow> (st_en dev_cap \<noteq> 0 \<or> mm_cmpt_en dev_cap \<noteq> 0, h'))"

definition s80_st :: "'h bus \<Rightarrow> 'h \<Rightarrow> bool \<times> 'h" where
  "s80_st b h = (case qdma_s80_hard_get_device_attributes b h of (dev_cap, h') \<Rightarrow> (st_en dev_cap \<noteq> 0, h'))"

section \<open>Arrays of 16 registers\<close>

definition qdma_s80_hard_write_global_ring_sizes ::
    "'h bus \<Rightarrow> u8 \<Rightarrow> u8 \<Rightarrow> (nat \<Rightarrow> u32) option \<Rightarrow> 'h \<Rightarrow> int \<times> 'h" where
  "qdma_s80_hard_write_global_ring_sizes b = csr_write b QDMA_S80_HARD_GLBL_RNG_SZ_1_ADDR QDMA_NUM_RING_SIZES (Pair True)"

definition qdma_s80_hard_read_global_ring_sizes ::
    "'h bus \<Rightarrow> u8 \<Rightarrow> u8 \<Rightarrow> (nat \<Rightarrow> u32) option \<Rightarrow> 'h \<Rightarrow> int \<times> (nat \<Rightarrow> u32) option \<times> 'h" where
  "qdma_s80_hard_read_global_ring_sizes b = csr_read b QDMA_S80_HARD_GLBL_RNG_SZ_1_ADDR QDMA_NUM_RING_SIZES (Pair True)"

definition qdma_s80_hard_write_global_timer_count ::
    "'h bus \<Rightarrow> u8 \<Rightarrow> u8 \<Rightarrow> (nat \<Rightarrow> u32) option \<Rightarrow> 'h \<Rightarrow> int \<times> 'h" where
  "qdma_s80_hard_write_global_timer_count b = csr_write b QDMA_S80_HARD_C2H_TIMER_CNT_1_ADDR QDMA_NUM_C2H_TIMERS (s80_st_or_mm_cmpt b)"

definition qdma_s80_hard_read_global_timer_count ::
    "'h bus \<Rightarrow> u8 \<Rightarrow> u8 \<Rightarrow> (nat \<Rightarrow> u32) option \<Rightarrow> 'h \<Rightarrow> int \<times> (nat \<Rightarrow> u32) option \<times> 'h" where
  "qdma_s80_hard_read_global_timer_count b = csr_read b QDMA_S80_HARD_C2H_TIMER_CNT_1_ADDR QDMA_NUM_C2H_TIMERS (s80_st_or_mm_cmpt b)"

definition qdma_s80_hard_write_global_counter_threshold ::
    "'h bus \<Rightarrow> u8 \<Rightarrow> u8 \<Rightarrow> (nat \<Rightarrow> u32) option \<Rightarrow> 'h \<Rightarrow> int \<times> 'h" where
  "qdma_s80_hard_write_global_counter_threshold b = csr_write b QDMA_S80_HARD_C2H_CNT_TH_1_ADDR QDMA_NUM_C2H_COUNTERS (s80_st_or_mm_cmpt b)"

definition qdma_s80_hard_read_global_counter_threshold ::
    "'h bus \<Rightarrow> u8 \<Rightarrow> u8 \<Rightarrow> (nat \<Rightarrow> u32) option \<Rightarrow> 'h \<Rightarrow> int \<times> (nat \<Rightarrow> u32) option \<times> 'h" where
  "qdma_s80_hard_read_global_counter_threshold b = csr_read b QDMA_S80_HARD_C2H_CNT_TH_1_ADDR QDMA_NUM_C2H_COUNTERS (s80_st_or_mm_cmpt b)"

definition qdma_s80_hard_write_global_buffer_sizes ::
    "'h bus \<Rightarrow> u8 \<Rightarrow> u8 \<Rightarrow> (nat \<Rightarrow> u32) option \<Rightarrow> 'h \<Rightarrow> int \<times> 'h" where
  "qdma_s80_hard_write_global_buffer_sizes b = csr_write b QDMA_S80_HARD_C2H_BUF_SZ_0_ADDR QDMA_NUM_C2H_BUFFER_SIZES (s80_st b)"

definition qdma_s80_hard_read_global_buffer_sizes ::
    "'h bus \<Rightarrow> u8 \<Rightarrow> u8 \<Rightarrow> (nat \<Rightarrow> u32) option \<Rightarrow> 'h \<Rightarrow> int \<times> (nat \<Rightarrow> u32) option \<times> 'h" where
  "qdma_s80_hard_read_global_buffer_sizes b = csr_read b QDMA_S80_HARD_C2H_BUF_SZ_0_ADDR QDMA_NUM_C2H_BUFFER_SIZES (s80_st b)"

definition qdma_s80_hard_global_csr_conf ::
    "'h bus \<Rightarrow> u8 \<Rightarrow> u8 \<Rightarrow> (nat \<Rightarrow> u32) option \<Rightarrow> qdma_global_csr_type \<Rightarrow> qdma_hw_access_type \<Rightarrow> 'h \<Rightarrow>
      int \<times> (nat \<Rightarrow> u32) option \<times> 'h" where
  "qdma_s80_hard_global_csr_conf b index count csr_val csr_type access_type h =
     (case csr_type of
        QDMA_CSR_RING_SZ \<Rightarrow> csr_access (qdma_s80_hard_read_global_ring_sizes b index count csr_val)
          (qdma_s80_hard_write_global_ring_sizes b index count csr_val) access_type h
      | QDMA_CSR_TIMER_CNT \<Rightarrow> csr_access (qdma_s80_hard_read_global_timer_count b index count csr_val)
          (qdma_s80_hard_write_global_timer_count b index count csr_val) access_type h
      | QDMA_CSR_CNT_TH \<Rightarrow> csr_access (qdma_s80_hard_read_global_counter_threshold b index count csr_val)
          (qdma_s80_hard_write_global_counter_threshold b index count csr_val) access_type h
      | QDMA_CSR_BUF_SZ \<Rightarrow> csr_access (qdma_s80_hard_read_global_buffer_sizes b index count csr_val)
          (qdma_s80_hard_write_global_buffer_sizes b index count csr_val) access_type h)"

section \<open>Writeback interval and memory-mapped channels\<close>

definition qdma_s80_hard_global_writeback_interval_write :: "'h bus \<Rightarrow> u32 \<Rightarrow> 'h \<Rightarrow> int \<times> 'h" where
  "qdma_s80_hard_global_writeback_interval_write b wb_int h =
     (if wb_int \<ge> QDMA_NUM_WRB_INTERVALS then (- err_code QDMA_ERR_INV_PARAM, h)
      else case s80_st_or_mm_cmpt b h of (ok, h1) \<Rightarrow>
        if ok then case bus_read b QDMA_S80_HARD_GLBL_DSC_CFG_ADDR h1 of (reg_val, h2) \<Rightarrow>
          (err_code QDMA_SUCCESS,
           bus_write b QDMA_S80_HARD_GLBL_DSC_CFG_ADDR (reg_val OR FIELD_SET GLBL_DSC_CFG_WB_ACC_INT_MASK_s80 wb_int) h2)
        else (- err_code QDMA_ERR_HWACC_FEATURE_NOT_SUPPORTED, h1))"

definition qdma_s80_hard_global_writeback_interval_read :: "'h bus \<Rightarrow> u32 option \<Rightarrow> 'h \<Rightarrow> int \<times> u32 option \<times> 'h" where
  "qdma_s80_hard_global_writeback_interval_read b wb_int h =
     (case wb_int of
        None \<Rightarrow> (- err_code QDMA_ERR_INV_PARAM, None, h)
      | Some _ \<Rightarrow> (case s80_st_or_mm_cmpt b h of (ok, h1) \<Rightarrow>
          if ok then case bus_read b QDMA_S80_HARD_GLBL_DSC_CFG_ADDR h1 of (reg_val, h2) \<Rightarrow>
            (err_code QDMA_SUCCESS, Some (FIELD_GET GLBL_DSC_CFG_WB_ACC_INT_MASK_s80 reg_val), h2)
          else (- err_code QDMA_ERR_HWACC_FEATURE_NOT_SUPPORTED, None, h1)))"

text \<open>A write dereferences the pointer without a test; the callers never pass null.\<close>

definition qdma_s80_hard_global_writeback_interval_conf ::
    "'h bus \<Rightarrow> u32 \<Rightarrow> qdma_hw_access_type \<Rightarrow> 'h \<Rightarrow> int \<times> u32 option \<times> 'h" where
  "qdma_s80_hard_global_writeback_interval_conf b wb_int access_type h =
     (case access_type of
        QDMA_HW_ACCESS_READ \<Rightarrow> qdma_s80_hard_global_writeback_interval_read b (Some wb_int) h
      | QDMA_HW_ACCESS_WRITE \<Rightarrow>
          (case qdma_s80_hard_global_writeback_interval_write b wb_int h of (rv, h') \<Rightarrow> (rv, None, h'))
      | _ \<Rightarrow> (- err_code QDMA_ERR_INV_PARAM, None, h))"

definition qdma_s80_hard_mm_channel_conf :: "'h bus \<Rightarrow> u8 \<Rightarrow> u8 \<Rightarrow> u8 \<Rightarrow> 'h \<Rightarrow> int \<times> 'h" where
  "qdma_s80_hard_mm_channel_conf b channel is_c2h enable h =
     (let reg_addr = (if is_c2h \<noteq> 0 then QDMA_S80_HARD_C2H_CHANNEL_CTL_ADDR else QDMA_S80_HARD_H2C_CHANNEL_CTL_ADDR) in
      case qdma_s80_hard_get_device_attributes b h of (dev_cap, h') \<Rightarrow>
        (err_code QDMA_SUCCESS,
         if mm_en dev_cap \<noteq> 0 then bus_write b (reg_addr + ucast channel * QDMA_MM_CONTROL_STEP) (ucast enable) h'
         else h'))"

section \<open>Default values\<close>

definition qdma_s80_hard_set_default_global_csr :: "'h bus \<Rightarrow> 'h \<Rightarrow> int \<times> 'h" where
  "qdma_s80_hard_set_default_global_csr b h0 =
     (case qdma_s80_hard_get_device_attributes b h0 of (dev_cap, h) \<Rightarrow>
      let h = qdma_write_csr_values b QDMA_S80_HARD_GLBL_RNG_SZ_1_ADDR 0 16 (nth rng_sz) h;
          h = (if st_en dev_cap \<noteq> 0 \<or> mm_cmpt_en dev_cap \<noteq> 0 then
             let h = qdma_write_csr_values b QDMA_S80_HARD_C2H_CNT_TH_1_ADDR 0 16 (nth cnt_th) h;
                 h = qdma_write_csr_values b QDMA_S80_HARD_C2H_TIMER_CNT_1_ADDR 0 16 (nth tmr_cnt) h
             in bus_write b QDMA_S80_HARD_GLBL_DSC_CFG_ADDR
                  (FIELD_SET GLBL_DSC_CFG_MAXFETCH_MASK_s80 DEFAULT_MAX_DSC_FETCH OR
                   FIELD_SET GLBL_DSC_CFG_WB_ACC_INT_MASK_s80 DEFAULT_WRB_INT) h
           else h);
          h = (if st_en dev_cap \<noteq> 0 then
             let h = qdma_write_csr_values b QDMA_S80_HARD_C2H_BUF_SZ_0_ADDR 0 16 (nth buf_sz) h;
                 h = bus_write b QDMA_S80_HARD_C2H_PFCH_CFG_ADDR
                   (FIELD_SET C2H_PFCH_CFG_FL_TH_MASK_s80 DEFAULT_PFCH_STOP_THRESH OR
                    FIELD_SET C2H_PFCH_CFG_NUM_MASK DEFAULT_PFCH_NUM_ENTRIES_PER_Q OR
                    FIELD_SET C2H_PFCH_CFG_QCNT_MASK DEFAULT_PFCH_MAX_Q_CNT OR
                    FIELD_SET C2H_PFCH_CFG_EVT_QCNT_TH_MASK DEFAULT_C2H_INTR_TIMER_TICK) h;
                 h = bus_write b QDMA_S80_HARD_C2H_INT_TIMER_TICK_ADDR DEFAULT_C2H_INTR_TIMER_TICK h;
                 h = bus_write b QDMA_S80_HARD_C2H_WRB_COAL_CFG_ADDR
                   (FIELD_SET C2H_WRB_COAL_CFG_TICK_CNT_MASK_s80 DEFAULT_CMPT_COAL_TIMER_CNT OR
                    FIELD_SET C2H_WRB_COAL_CFG_TICK_VAL_MASK_s80 DEFAULT_CMPT_COAL_TIMER_TICK OR
                    FIELD_SET C2H_WRB_COAL_CFG_MAX_BUF_SZ_MASK_s80 DEFAULT_CMPT_COAL_MAX_BUF_SZ) h
             in h
           else h)
      in (err_code QDMA_SUCCESS, h))"

section \<open>Queue indices\<close>

definition qdma_s80_hard_queue_pidx_update ::
    "'h bus \<Rightarrow> u8 \<Rightarrow> u16 \<Rightarrow> u8 \<Rightarrow> qdma_q_pidx_reg_info option \<Rightarrow> 'h \<Rightarrow> int \<times> 'h" where
  "qdma_s80_hard_queue_pidx_update b is_vf qid is_c2h reg_info h =
     (case reg_info of
        None \<Rightarrow> (- err_code QDMA_ERR_INV_PARAM, h)
      | Some reg_info \<Rightarrow>
          let reg_addr =
                (if is_vf = 0 then
                   if is_c2h \<noteq> 0 then QDMA_S80_HARD_OFFSET_DMAP_SEL_C2H_DSC_PIDX else QDMA_S80_HARD_OFFSET_DMAP_SEL_H2C_DSC_PIDX
                 else if is_c2h \<noteq> 0 then QDMA_S80_HARD_OFFSET_VF_DMAP_SEL_C2H_DSC_PIDX
                 else QDMA_S80_HARD_OFFSET_VF_DMAP_SEL_H2C_DSC_PIDX)
          in (err_code QDMA_SUCCESS, bus_write b (reg_addr + ucast qid * QDMA_PIDX_STEP)
               (FIELD_SET QDMA_S80_HARD_DMA_SEL_DESC_PIDX_MASK (ucast (pi_pidx reg_info)) OR
                FIELD_SET QDMA_S80_HARD_DMA_SEL_IRQ_EN_MASK (ucast (pi_irq_en reg_info))) h))"

definition qdma_s80_hard_queue_cmpt_cidx_update ::
    "'h bus \<Rightarrow> u8 \<Rightarrow> u16 \<Rightarrow> qdma_q_cmpt_cidx_reg_info option \<Rightarrow> 'h \<Rightarrow> int \<times> 'h" where
  "qdma_s80_hard_queue_cmpt_cidx_update b is_vf qid reg_info h =
     (case reg_info of
        None \<Rightarrow> (- err_code QDMA_ERR_INV_PARAM, h)
      | Some reg_info \<Rightarrow>
          let reg_addr = (if is_vf \<noteq> 0 then QDMA_S80_HARD_OFFSET_VF_DMAP_SEL_CMPT_CIDX else QDMA_S80_HARD_OFFSET_DMAP_SEL_CMPT_CIDX)
          in (err_code QDMA_SUCCESS, bus_write b (reg_addr + ucast qid * QDMA_CMPT_CIDX_STEP)
               (FIELD_SET QDMA_S80_HARD_DMAP_SEL_CMPT_WRB_CIDX_MASK (ucast (ci_wrb_cidx reg_info)) OR
                FIELD_SET QDMA_S80_HARD_DMAP_SEL_CMPT_CNT_THRESH_MASK (ucast (ci_counter_idx reg_info)) OR
                FIELD_SET QDMA_S80_HARD_DMAP_SEL_CMPT_TMR_CNT_MASK (ucast (ci_timer_idx reg_info)) OR
                FIELD_SET QDMA_S80_HARD_DMAP_SEL_CMPT_TRG_MODE_MASK (ucast (ci_trig_mode reg_info)) OR
                FIELD_SET QDMA_S80_HARD_DMAP_SEL_CMPT_STS_DESC_EN_MASK (ucast (ci_wrb_en reg_info)) OR
                FIELD_SET QDMA_S80_HARD_DMAP_SEL_CMPT_IRQ_EN_MASK (ucast (ci_irq_en reg_info))) h))"

definition qdma_s80_hard_queue_intr_cidx_update ::
    "'h bus \<Rightarrow> u8 \<Rightarrow> u16 \<Rightarrow> qdma_intr_cidx_reg_info option \<Rightarrow> 'h \<Rightarrow> int \<times> 'h" where
  "qdma_s80_hard_queue_intr_cidx_update b is_vf qid reg_info h =
     (case reg_info of
        None \<Rightarrow> (- err_code QDMA_ERR_INV_PARAM, h)
      | Some reg_info \<Rightarrow>
          let reg_addr = (if is_vf \<noteq> 0 then QDMA_S80_HARD_OFFSET_VF_DMAP_SEL_INT_CIDX else QDMA_S80_HARD_OFFSET_DMAP_SEL_INT_CIDX)
          in (err_code QDMA_SUCCESS, bus_write b (reg_addr + ucast qid * QDMA_INT_CIDX_STEP)
               (FIELD_SET QDMA_S80_HARD_DMA_SEL_INT_SW_CIDX_MASK (ucast (ii_sw_cidx reg_info)) OR
                FIELD_SET QDMA_S80_HARD_DMA_SEL_INT_RING_IDX_MASK (ucast (ii_rng_idx reg_info))) h))"

section \<open>User bar\<close>

definition qdma_cmp_get_user_bar :: "'h bus \<Rightarrow> u8 \<Rightarrow> u8 \<Rightarrow> 'h \<Rightarrow> int \<times> u8 \<times> 'h" where
  "qdma_cmp_get_user_bar b is_vf func_id h =
     (if is_vf \<noteq> 0 then (err_code QDMA_SUCCESS, ucast QDMA_S80_HARD_VF_USER_BAR_ID, h)
      else case bus_read b QDMA_S80_HARD_GLBL2_PF_BARLITE_EXT_ADDR h of (user_bar_id, h') \<Rightarrow>
      case find_bar (drop_bit (6 * unat func_id) user_bar_id AND 0x3F) of
        (rv, user_bar) \<Rightarrow> (rv, user_bar, h'))"

section \<open>Clearing the context memory\<close>

definition qdma_s80_hard_init_ctxt_memory :: "'h bus \<Rightarrow> 'h \<Rightarrow> int \<times> 'h" where
  "qdma_s80_hard_init_ctxt_memory b =
     init_ctxt_memory (qdma_s80_hard_get_device_attributes b) (qdma_s80_hard_indirect_reg_clear b) (qdma_s80_hard_fmap_clear b)"

end
