(* ===== verification/Csr_Props.thy ===== *)
theory Csr_Props
  imports Csr_Card S80_Csr
begin

text \<open>
  Properties of the configuration functions: the interface \<open>csr_arrays\<close> holds of all three back ends, and
  what follows for writing and reading the arrays, the default values, the writeback interval, the
  legacy interrupt and the clearing of the context memory.
\<close>

section \<open>The three back ends have the interface\<close>

text \<open>All of them keep the arrays and the capabilities at the same addresses.\<close>

fun csr_first :: "qdma_global_csr_type \<Rightarrow> u32" where
  "csr_first QDMA_CSR_RING_SZ = 0x204" | "csr_first QDMA_CSR_TIMER_CNT = 0xA00"
| "csr_first QDMA_CSR_CNT_TH = 0xA40" | "csr_first QDMA_CSR_BUF_SZ = 0xAB0"

definition csr_caps :: "u32 list" where
  "csr_caps = [0x104, 0x120, 0x134, 0x118]"

lemma unat_slot:
  assumes "unat reg < 2 ^ 31" and "j < 16"
  shows "unat (slot reg j) = unat reg + 4 * j"
proof -
  have "unat (4 * of_nat j :: u32) = 4 * j"
    using assms(2) by (simp add: unat_word_ariths unsigned_of_nat take_bit_nat_eq_self)
  then show ?thesis using assms unfolding slot_def by (simp add: unat_plus_simple word_le_nat_alt unat_word_ariths)
qed

lemma unat_first_slot: "j < 16 \<Longrightarrow> unat (slot (csr_first t) j) = unat (csr_first t) + 4 * j"
  by (cases t) (simp_all add: unat_slot)

lemma first_slot_apart:
  assumes "t \<noteq> t'" "i < 16" "j < 16"
  shows "slot (csr_first t) i \<noteq> slot (csr_first t') j"
proof
  assume "slot (csr_first t) i = slot (csr_first t') j"
  then have "unat (csr_first t) + 4 * i = unat (csr_first t') + 4 * j"
    using unat_first_slot [of i t] unat_first_slot [of j t'] assms(2,3) by simp
  then show False using assms by (cases t; cases t') simp_all
qed

lemma first_slot_caps:
  assumes "j < 16"
  shows "slot (csr_first t) j \<notin> set csr_caps"
proof
  assume "slot (csr_first t) j \<in> set csr_caps"
  then have "unat (slot (csr_first t) j) \<in> unat ` set csr_caps" by (rule imageI)
  then show False using unat_first_slot [OF assms, of t] assms by (cases t) (auto simp: csr_caps_def)
qed

text \<open>The attributes are a function of the capability registers.\<close>

lemmas csr_addrs = soft_csr_addrs eqdma_csr_addrs s80_csr_addrs QDMA_OFFSET_GLBL2_PF_BARLITE_INT_def

lemmas csr_nums = QDMA_NUM_RING_SIZES_def QDMA_NUM_C2H_TIMERS_def QDMA_NUM_C2H_COUNTERS_def QDMA_NUM_C2H_BUFFER_SIZES_def

lemma four_reads:
  assumes dev: "csr_device b R keep view" and "set csr_caps \<subseteq> R"
  obtains h1 h2 h3 h4 where "bus_read b 0x104 h = (view h 0x104, h1)" "bus_read b 0x120 h1 = (view h 0x120, h2)"
    "bus_read b 0x134 h2 = (view h 0x134, h3)" "bus_read b 0x118 h3 = (view h 0x118, h4)" "view h4 = view h"
proof -
  have R: "0x104 \<in> R" "0x120 \<in> R" "0x134 \<in> R" "0x118 \<in> R" using assms(2) by (auto simp: csr_caps_def)
  obtain h1 where h1: "bus_read b 0x104 h = (view h 0x104, h1)" "view h1 = view h" by (rule csr_read_view [OF dev R(1)])
  obtain h2 where h2: "bus_read b 0x120 h1 = (view h1 0x120, h2)" "view h2 = view h1" by (rule csr_read_view [OF dev R(2)])
  obtain h3 where h3: "bus_read b 0x134 h2 = (view h2 0x134, h3)" "view h3 = view h2" by (rule csr_read_view [OF dev R(3)])
  obtain h4 where h4: "bus_read b 0x118 h3 = (view h3 0x118, h4)" "view h4 = view h3" by (rule csr_read_view [OF dev R(4)])
  show ?thesis using that [of h1 h2 h3 h4] h1 h2 h3 h4 by simp
qed

lemma soft_attributes_view:
  assumes "csr_device b R keep view" and "set csr_caps \<subseteq> R"
  shows "\<exists>h'. qdma_get_device_attributes_soft b h = (fst (qdma_get_device_attributes_soft reg_bus (view h)), h') \<and> view h' = view h"
proof -
  obtain h1 h2 h3 h4 where "bus_read b 0x104 h = (view h 0x104, h1)" "bus_read b 0x120 h1 = (view h 0x120, h2)"
    "bus_read b 0x134 h2 = (view h 0x134, h3)" "bus_read b 0x118 h3 = (view h 0x118, h4)" "view h4 = view h"
    by (rule four_reads [OF assms])
  then show ?thesis by (simp add: qdma_get_device_attributes_soft_def csr_addrs reg_bus_def)
qed

lemma eqdma_attributes_view:
  assumes "csr_device b R keep view" and "set csr_caps \<subseteq> R"
  shows "\<exists>h'. eqdma_get_device_attributes b h = (fst (eqdma_get_device_attributes reg_bus (view h)), h') \<and> view h' = view h"
proof -
  obtain h1 h2 h3 h4 where "bus_read b 0x104 h = (view h 0x104, h1)" "bus_read b 0x120 h1 = (view h 0x120, h2)"
    "bus_read b 0x134 h2 = (view h 0x134, h3)" "bus_read b 0x118 h3 = (view h 0x118, h4)" "view h4 = view h"
    by (rule four_reads [OF assms])
  then show ?thesis by (simp add: eqdma_get_device_attributes_def csr_addrs reg_bus_def)
qed

lemma s80_attributes_view:
  assumes "csr_device b R keep view" and "set csr_caps \<subseteq> R"
  shows "\<exists>h'. qdma_s80_hard_get_device_attributes b h =
    (fst (qdma_s80_hard_get_device_attributes reg_bus (view h)), h') \<and> view h' = view h"
proof -
  obtain h1 h2 h3 h4 where "bus_read b 0x104 h = (view h 0x104, h1)" "bus_read b 0x120 h1 = (view h 0x120, h2)"
    "bus_read b 0x134 h2 = (view h 0x134, h3)" "bus_read b 0x118 h3 = (view h 0x118, h4)" "view h4 = view h"
    by (rule four_reads [OF assms])
  then show ?thesis by (simp add: qdma_s80_hard_get_device_attributes_def csr_addrs reg_bus_def)
qed

lemmas attributes_view = soft_attributes_view eqdma_attributes_view s80_attributes_view

text \<open>What each function asks for before it touches an array.\<close>

fun soft_supported :: "qdma_global_csr_type \<Rightarrow> 'h bus \<Rightarrow> 'h \<Rightarrow> bool \<times> 'h" where
  "soft_supported QDMA_CSR_RING_SZ b = Pair True" | "soft_supported QDMA_CSR_BUF_SZ b = soft_st b"
| "soft_supported t b = soft_st_or_mm_cmpt b"

fun eqdma_supported :: "qdma_global_csr_type \<Rightarrow> 'h bus \<Rightarrow> 'h \<Rightarrow> bool \<times> 'h" where
  "eqdma_supported QDMA_CSR_RING_SZ b = Pair True" | "eqdma_supported QDMA_CSR_BUF_SZ b = eqdma_st b"
| "eqdma_supported t b = eqdma_st_or_mm_cmpt b"

fun s80_supported :: "qdma_global_csr_type \<Rightarrow> 'h bus \<Rightarrow> 'h \<Rightarrow> bool \<times> 'h" where
  "s80_supported QDMA_CSR_RING_SZ b = Pair True" | "s80_supported QDMA_CSR_BUF_SZ b = s80_st b"
| "s80_supported t b = s80_st_or_mm_cmpt b"

lemmas supported_defs = soft_st_def soft_st_or_mm_cmpt_def eqdma_st_def eqdma_st_or_mm_cmpt_def
  s80_st_def s80_st_or_mm_cmpt_def

lemma soft_supported_view:
  assumes "csr_device b R keep view" and "set csr_caps \<subseteq> R"
  shows "\<exists>h'. soft_supported t b h = (fst (soft_supported t reg_bus (view h)), h') \<and> view h' = view h"
  using soft_attributes_view [OF assms, of h] by (cases t) (auto simp: supported_defs split: prod.split)

lemma eqdma_supported_view:
  assumes "csr_device b R keep view" and "set csr_caps \<subseteq> R"
  shows "\<exists>h'. eqdma_supported t b h = (fst (eqdma_supported t reg_bus (view h)), h') \<and> view h' = view h"
  using eqdma_attributes_view [OF assms, of h] by (cases t) (auto simp: supported_defs split: prod.split)

lemma s80_supported_view:
  assumes "csr_device b R keep view" and "set csr_caps \<subseteq> R"
  shows "\<exists>h'. s80_supported t b h = (fst (s80_supported t reg_bus (view h)), h') \<and> view h' = view h"
  using s80_attributes_view [OF assms, of h] by (cases t) (auto simp: supported_defs split: prod.split)

lemma attributes_cong:
  assumes "\<And>a. a \<in> set csr_caps \<Longrightarrow> w a = w' a"
  shows "fst (qdma_get_device_attributes_soft reg_bus w) = fst (qdma_get_device_attributes_soft reg_bus w')"
    and "fst (eqdma_get_device_attributes reg_bus w) = fst (eqdma_get_device_attributes reg_bus w')"
    and "fst (qdma_s80_hard_get_device_attributes reg_bus w) = fst (qdma_s80_hard_get_device_attributes reg_bus w')"
  using assms by (simp_all add: csr_caps_def qdma_get_device_attributes_soft_def eqdma_get_device_attributes_def
      qdma_s80_hard_get_device_attributes_def reg_bus_def csr_addrs)

lemma supported_cong:
  assumes "\<And>a. a \<in> set csr_caps \<Longrightarrow> w a = w' a"
  shows "fst (soft_supported t reg_bus w) = fst (soft_supported t reg_bus w')"
    and "fst (eqdma_supported t reg_bus w) = fst (eqdma_supported t reg_bus w')"
    and "fst (s80_supported t reg_bus w) = fst (s80_supported t reg_bus w')"
  using attributes_cong [of w w', OF assms] by (cases t; simp add: supported_defs split_beta)+

interpretation soft_csr: csr_arrays qdma_global_csr_conf_soft csr_first soft_supported csr_caps
    "\<lambda>t w. fst (soft_supported t reg_bus w)"
proof
  fix b :: "'h bus" and i c v t h
  show "qdma_global_csr_conf_soft b i c v t QDMA_HW_ACCESS_WRITE h =
      (case csr_write b (csr_first t) 16 (soft_supported t b) i c v h of (rv, h') \<Rightarrow> (rv, None, h'))"
    "qdma_global_csr_conf_soft b i c v t QDMA_HW_ACCESS_READ h = csr_read b (csr_first t) 16 (soft_supported t b) i c v h"
    "qdma_global_csr_conf_soft b i c v t QDMA_HW_ACCESS_CLEAR h = (- err_code QDMA_ERR_INV_PARAM, None, h)"
    "qdma_global_csr_conf_soft b i c v t QDMA_HW_ACCESS_INVALIDATE h = (- err_code QDMA_ERR_INV_PARAM, None, h)"
    by (cases t; simp add: qdma_global_csr_conf_soft_def csr_access_def qdma_write_global_ring_sizes_def
        qdma_read_global_ring_sizes_def qdma_write_global_timer_count_def qdma_read_global_timer_count_def
        qdma_write_global_counter_threshold_def qdma_read_global_counter_threshold_def
        qdma_write_global_buffer_sizes_def qdma_read_global_buffer_sizes_def csr_nums csr_addrs)+
qed (rule soft_supported_view supported_cong(1) first_slot_caps first_slot_apart; assumption)+

interpretation eqdma_csr: csr_arrays eqdma_global_csr_conf csr_first eqdma_supported csr_caps
    "\<lambda>t w. fst (eqdma_supported t reg_bus w)"
proof
  fix b :: "'h bus" and i c v t h
  show "eqdma_global_csr_conf b i c v t QDMA_HW_ACCESS_WRITE h =
      (case csr_write b (csr_first t) 16 (eqdma_supported t b) i c v h of (rv, h') \<Rightarrow> (rv, None, h'))"
    "eqdma_global_csr_conf b i c v t QDMA_HW_ACCESS_READ h = csr_read b (csr_first t) 16 (eqdma_supported t b) i c v h"
    "eqdma_global_csr_conf b i c v t QDMA_HW_ACCESS_CLEAR h = (- err_code QDMA_ERR_INV_PARAM, None, h)"
    "eqdma_global_csr_conf b i c v t QDMA_HW_ACCESS_INVALIDATE h = (- err_code QDMA_ERR_INV_PARAM, None, h)"
    by (cases t; simp add: eqdma_global_csr_conf_def csr_access_def eqdma_write_global_ring_sizes_def
        eqdma_read_global_ring_sizes_def eqdma_write_global_timer_count_def eqdma_read_global_timer_count_def
        eqdma_write_global_counter_threshold_def eqdma_read_global_counter_threshold_def
        eqdma_write_global_buffer_sizes_def eqdma_read_global_buffer_sizes_def csr_nums csr_addrs)+
qed (rule eqdma_supported_view supported_cong(2) first_slot_caps first_slot_apart; assumption)+

interpretation s80_csr: csr_arrays qdma_s80_hard_global_csr_conf csr_first s80_supported csr_caps
    "\<lambda>t w. fst (s80_supported t reg_bus w)"
proof
  fix b :: "'h bus" and i c v t h
  show "qdma_s80_hard_global_csr_conf b i c v t QDMA_HW_ACCESS_WRITE h =
      (case csr_write b (csr_first t) 16 (s80_supported t b) i c v h of (rv, h') \<Rightarrow> (rv, None, h'))"
    "qdma_s80_hard_global_csr_conf b i c v t QDMA_HW_ACCESS_READ h =
      csr_read b (csr_first t) 16 (s80_supported t b) i c v h"
    "qdma_s80_hard_global_csr_conf b i c v t QDMA_HW_ACCESS_CLEAR h = (- err_code QDMA_ERR_INV_PARAM, None, h)"
    "qdma_s80_hard_global_csr_conf b i c v t QDMA_HW_ACCESS_INVALIDATE h = (- err_code QDMA_ERR_INV_PARAM, None, h)"
    by (cases t; simp add: qdma_s80_hard_global_csr_conf_def csr_access_def qdma_s80_hard_write_global_ring_sizes_def
        qdma_s80_hard_read_global_ring_sizes_def qdma_s80_hard_write_global_timer_count_def
        qdma_s80_hard_read_global_timer_count_def qdma_s80_hard_write_global_counter_threshold_def
        qdma_s80_hard_read_global_counter_threshold_def qdma_s80_hard_write_global_buffer_sizes_def
        qdma_s80_hard_read_global_buffer_sizes_def csr_nums csr_addrs)+
qed (rule s80_supported_view supported_cong(3) first_slot_caps first_slot_apart; assumption)+

section \<open>Arrays written and read\<close>

definition csr_space :: "u32 set" where
  "csr_space = {slot (csr_first t) j | t j. j < 16} \<union> set csr_caps"

lemma spaces: "soft_csr.space = csr_space" "eqdma_csr.space = csr_space" "s80_csr.space = csr_space"
  by (simp_all add: csr_space_def soft_csr.space_def eqdma_csr.space_def s80_csr.space_def)

text \<open>A card with both streaming engines has every feature the arrays need.\<close>

lemma streaming_supported:
  assumes "bit (w 0x118) 16" and "bit (w 0x118) 17"
  shows "fst (soft_supported t reg_bus w)" "fst (eqdma_supported t reg_bus w)" "fst (s80_supported t reg_bus w)"
proof -
  have f: "FIELD_GET (BIT 17) (w 0x118) \<noteq> 0" "FIELD_GET (BIT 16) (w 0x118) \<noteq> 0"
    using assms bit_FIELD_GET [of 17 17 "w 0x118" 0] bit_FIELD_GET [of 16 16 "w 0x118" 0] by (auto simp: BIT_GENMASK)
  then have "st_en (fst (qdma_get_device_attributes_soft reg_bus w)) \<noteq> 0"
    "st_en (fst (eqdma_get_device_attributes reg_bus w)) \<noteq> 0"
    "st_en (fst (qdma_s80_hard_get_device_attributes reg_bus w)) \<noteq> 0"
    by (simp_all add: qdma_get_device_attributes_soft_def eqdma_get_device_attributes_def reg_bus_def csr_addrs
        qdma_s80_hard_get_device_attributes_def QDMA_GLBL2_ST_C2H_MASK_def QDMA_GLBL2_ST_H2C_MASK_def
        GLBL2_CHANNEL_MDMA_C2H_ST_MASK_def GLBL2_CHANNEL_MDMA_H2C_ST_MASK_def
        GLBL2_CHANNEL_MDMA_C2H_ST_MASK_s80_def GLBL2_CHANNEL_MDMA_H2C_ST_MASK_s80_def)
  then show "fst (soft_supported t reg_bus w)" "fst (eqdma_supported t reg_bus w)" "fst (s80_supported t reg_bus w)"
    by (cases t; simp add: supported_defs split_beta)+
qed

text \<open>C37: On a card with streaming, whichever of the three back ends is used: a part of a CSR array that is
  written reads back as what the registers keep of it; the rest of this array and the three other
  arrays read as before.  A write of no entry, or of a range that goes past the sixteenth entry, is refused and the card is
  not touched.\<close>

theorem csr_write_read:
  assumes "csr_device b csr_space keep view" and "bit (view h 0x118) 16" "bit (view h 0x118) 17"
    and "conf \<in> {qdma_global_csr_conf_soft, eqdma_global_csr_conf, qdma_s80_hard_global_csr_conf}"
  shows "if 0 < count \<and> unat index + unat count \<le> 16 then
      \<exists>h1 h2. conf b index count (Some vals) t QDMA_HW_ACCESS_WRITE h = (0, None, h1) \<and>
        conf b 0 16 (Some old) t' QDMA_HW_ACCESS_READ h1 =
          (0, Some (\<lambda>j. if j < 16 then
             if t' = t \<and> unat index \<le> j \<and> j < unat index + unat count then
               stored (keep (slot (csr_first t) j)) (vals (j - unat index)) (view h (slot (csr_first t) j))
             else view h (slot (csr_first t') j)
           else old j), h2)
    else conf b index count (Some vals) t QDMA_HW_ACCESS_WRITE h = (- err_code QDMA_ERR_INV_PARAM, None, h)"
proof (cases "0 < count \<and> unat index + unat count \<le> 16")
  case True
  then have n: "0 < count" "unat index + unat count \<le> 16" by simp_all
  show ?thesis
    using soft_csr.write_then_read [unfolded spaces, OF assms(1) streaming_supported(1,1) [where w = "view h", OF assms(2,3)] n]
      eqdma_csr.write_then_read [unfolded spaces, OF assms(1) streaming_supported(2,2) [where w = "view h", OF assms(2,3)] n]
      s80_csr.write_then_read [unfolded spaces, OF assms(1) streaming_supported(3,3) [where w = "view h", OF assms(2,3)] n]
      assms(4) True by auto
next
  case False
  then have n: "count = 0 \<or> 16 < unat index + unat count" by (auto simp: word_gt_0)
  show ?thesis
    using soft_csr.refused(2) [unfolded spaces, OF assms(1) n] eqdma_csr.refused(2) [unfolded spaces, OF assms(1) n]
      s80_csr.refused(2) [unfolded spaces, OF assms(1) n] assms(4) False by auto
qed

definition streaming_regs :: "u32 \<Rightarrow> u32" where
  "streaming_regs a = (if a = 0x118 then 0x30101 else if a = 0x120 then 4 else if a = 0x104 then 0xFFFFFF else 0)"

theorem csr_write_read_witness:
  "\<exists>h1 h2. eqdma_global_csr_conf reg_bus 2 3 (Some (\<lambda>i. 100 + of_nat i)) QDMA_CSR_TIMER_CNT QDMA_HW_ACCESS_WRITE
       streaming_regs = (0, None, h1) \<and>
     eqdma_global_csr_conf reg_bus 0 16 (Some (\<lambda>_. 0)) QDMA_CSR_TIMER_CNT QDMA_HW_ACCESS_READ h1 =
       (0, Some (\<lambda>j. if j < 16 then
          if 2 \<le> j \<and> j < 5 then 100 + of_nat (j - 2) else streaming_regs (slot 0xA00 j) else 0), h2)"
proof -
  have "bit (0x30101 :: u32) 16" "bit (0x30101 :: u32) 17" by (simp_all add: bit_numeral_rec)
  then show ?thesis
    using csr_write_read [where b = reg_bus and keep = "\<lambda>_. - 1" and view = "\<lambda>h. h" and h = streaming_regs and
        conf = eqdma_global_csr_conf and index = 2 and count = 3 and t = QDMA_CSR_TIMER_CNT and t' = QDMA_CSR_TIMER_CNT and
        vals = "\<lambda>i. 100 + of_nat i" and old = "\<lambda>_. 0", OF reg_bus_device]
    by (simp add: streaming_regs_def cong: if_cong)
qed

section \<open>The table of the soft QDMA on an enhanced QDMA\<close>

text \<open>C38: \<open>qdma_hw_access_init\<close> leaves the CSR function of the soft QDMA in the table of an enhanced QDMA.  On
  every card whose register MISC_CAP (0x134) has bit 2 clear on every read, the two functions are the same, access by
  access; so are the functions of the writeback interval.  The soft QDMA takes this bit for the memory-mapped completion engine;
  on the enhanced QDMA it belongs to the mode of the descriptor engine, and with it set the functions differ
  (\<open>csr_soft_differs\<close>).\<close>

theorem csr_soft_is_eqdma:
  assumes "\<And>h. \<not> bit (fst (bus_read b EQDMA_GLBL2_MISC_CAP_ADDR h)) 2"
  shows "qdma_global_csr_conf_soft b index count csr_val csr_type access_type h =
      eqdma_global_csr_conf b index count csr_val csr_type access_type h \<and>
    qdma_global_writeback_interval_conf b wb access_type h = eqdma_global_writeback_interval_conf b wb access_type h"
proof -
  have z: "FIELD_GET (BIT 2) (fst (bus_read b 0x134 h)) = 0" for h
    using assms [of h] by (intro bit_word_eqI) (auto simp: BIT_GENMASK bit_FIELD_GET csr_addrs numeral_2_eq_2)
  have s: "soft_st_or_mm_cmpt b h = eqdma_st_or_mm_cmpt b h" "soft_st b h = eqdma_st b h" for h
    using z by (simp_all add: supported_defs qdma_get_device_attributes_soft_def eqdma_get_device_attributes_def
        csr_addrs split_beta QDMA_GLBL2_ST_C2H_MASK_def QDMA_GLBL2_ST_H2C_MASK_def QDMA_GLBL2_MM_CMPT_EN_MASK_def
        GLBL2_CHANNEL_MDMA_C2H_ST_MASK_def GLBL2_CHANNEL_MDMA_H2C_ST_MASK_def)
  have "soft_supported csr_type b = eqdma_supported csr_type b" using s by (cases csr_type) (simp_all add: fun_eq_iff)
  then have "qdma_global_csr_conf_soft b index count csr_val csr_type access_type h =
      eqdma_global_csr_conf b index count csr_val csr_type access_type h"
    by (cases access_type) (simp_all add: soft_csr.conf_write soft_csr.conf_read soft_csr.conf_other
        eqdma_csr.conf_write eqdma_csr.conf_read eqdma_csr.conf_other)
  moreover have "qdma_global_writeback_interval_conf b wb access_type h =
      eqdma_global_writeback_interval_conf b wb access_type h"
  proof -
    have e: "QDMA_OFFSET_GLBL_DSC_CFG = EQDMA_GLBL_DSC_CFG_ADDR" "QDMA_GLBL_DSC_CFG_WB_ACC_INT_MASK = GLBL_DSC_CFG_WB_ACC_INT_MASK"
      by (simp_all add: csr_addrs QDMA_GLBL_DSC_CFG_WB_ACC_INT_MASK_def GLBL_DSC_CFG_WB_ACC_INT_MASK_def)
    show ?thesis
      unfolding qdma_global_writeback_interval_conf_def eqdma_global_writeback_interval_conf_def
        qdma_global_writeback_interval_read_def eqdma_global_writeback_interval_read_def
        qdma_global_writeback_interval_write_def eqdma_global_writeback_interval_write_def s e ..
  qed
  ultimately show ?thesis by simp
qed

theorem csr_soft_is_eqdma_witness:
  "qdma_global_csr_conf_soft \<lparr>bus_read = (\<lambda>a h. (0x30101, h)), bus_write = (\<lambda>a v h. h)\<rparr> 0 16 (Some (nth rng_sz))
      QDMA_CSR_RING_SZ QDMA_HW_ACCESS_READ () =
    eqdma_global_csr_conf \<lparr>bus_read = (\<lambda>a h. (0x30101, h)), bus_write = (\<lambda>a v h. h)\<rparr> 0 16 (Some (nth rng_sz))
      QDMA_CSR_RING_SZ QDMA_HW_ACCESS_READ ()"
  using csr_soft_is_eqdma [of "\<lparr>bus_read = (\<lambda>a h. (0x30101, h)), bus_write = (\<lambda>a v h. h)\<rparr>" 0 16 "Some (nth rng_sz)"
      QDMA_CSR_RING_SZ QDMA_HW_ACCESS_READ "()"]
  by (simp add: bit_numeral_rec)

text \<open>A card without streaming whose descriptor engine reports a mode with bit 2 set: the soft QDMA reads the counter
  thresholds, the enhanced one refuses.\<close>

lemma csr_soft_differs:
  "fst (qdma_global_csr_conf_soft reg_bus 0 16 (Some v) QDMA_CSR_CNT_TH QDMA_HW_ACCESS_READ (\<lambda>a. if a = 0x134 then 4 else 0)) = 0 \<and>
   fst (eqdma_global_csr_conf reg_bus 0 16 (Some v) QDMA_CSR_CNT_TH QDMA_HW_ACCESS_READ (\<lambda>a. if a = 0x134 then 4 else 0)) =
     - err_code QDMA_ERR_HWACC_FEATURE_NOT_SUPPORTED"
  by code_simp

section \<open>Default values\<close>

text \<open>The configuration registers that are not arrays.\<close>

definition eqdma_single_regs :: "u32 list" where
  "eqdma_single_regs = [EQDMA_GLBL_DSC_CFG_ADDR, EQDMA_C2H_PFCH_CACHE_DEPTH_ADDR, EQDMA_C2H_PFCH_CFG_ADDR,
     EQDMA_C2H_PFCH_CFG_1_ADDR, EQDMA_C2H_PFCH_CFG_2_ADDR, EQDMA_C2H_INT_TIMER_TICK_ADDR,
     EQDMA_C2H_WRB_COAL_BUF_DEPTH_ADDR, EQDMA_C2H_WRB_COAL_CFG_ADDR, EQDMA_H2C_REQ_THROT_PCIE_ADDR]"

lemma first_slot_single:
  assumes "a \<in> set eqdma_single_regs" and "j < 16"
  shows "slot (csr_first t) j \<noteq> a"
proof
  assume "slot (csr_first t) j = a"
  then have "unat (slot (csr_first t) j) \<in> unat ` set eqdma_single_regs" using assms(1) by blast
  then show False using unat_first_slot [OF assms(2), of t] assms(2)
    by (cases t) (auto simp: eqdma_single_regs_def csr_addrs)
qed

text \<open>\<open>f t j\<close> is what register \<open>j\<close> of array \<open>t\<close> holds.\<close>

definition csr_holds :: "('h \<Rightarrow> u32 \<Rightarrow> u32) \<Rightarrow> (qdma_global_csr_type \<Rightarrow> nat \<Rightarrow> u32) \<Rightarrow> 'h \<Rightarrow> bool" where
  "csr_holds view f h \<longleftrightarrow> (\<forall>t. \<forall>j < 16. view h (slot (csr_first t) j) = f t j)"

lemma holds_block:
  assumes dev: "csr_device b R keep view" and R: "csr_space \<subseteq> R" and h: "csr_holds view f h"
  shows "csr_holds view (f(t := \<lambda>j. stored (keep (slot (csr_first t) j)) (vals j) (f t j)))
    (qdma_write_csr_values b (csr_first t) 0 16 vals h)"
proof -
  have r: "\<And>j. j < 16 \<Longrightarrow> slot (csr_first t) j \<in> R" using R by (auto simp: csr_space_def)
  have "view (qdma_write_csr_values b (csr_first t) 0 16 vals h) (slot (csr_first t') j) =
      (f(t := \<lambda>j. stored (keep (slot (csr_first t) j)) (vals j) (f t j))) t' j" if "j < 16" for t' j
  proof (cases "t' = t")
    case True
    then show ?thesis
      using write_csr_slot [OF dev r, where idx = 0 and cnt = 16 and j = j and vals = vals and h = h] that h
      by (simp add: csr_holds_def)
  next
    case False
    then show ?thesis
      using write_csr_other [OF dev r, where idx = 0 and cnt = 16 and a = "slot (csr_first t') j" and vals = vals and h = h]
        that h first_slot_apart [OF False that] by (simp add: csr_holds_def)
  qed
  then show ?thesis by (simp add: csr_holds_def)
qed

lemma holds_single:
  assumes dev: "csr_device b R keep view" and R: "set eqdma_single_regs \<subseteq> R" and a: "a \<in> set eqdma_single_regs"
    and h: "csr_holds view f h"
  shows "csr_holds view f (bus_write b a v h)" and "csr_holds view f (snd (bus_read b a h))"
proof -
  have r: "a \<in> R" using R a by auto
  show "csr_holds view f (bus_write b a v h)"
    using h first_slot_single [OF a] by (simp add: csr_holds_def csr_device_laws(3) [OF dev r])
  show "csr_holds view f (snd (bus_read b a h))"
    using h by (simp add: csr_holds_def csr_device_laws(2) [OF dev r])
qed

fun default_table :: "qdma_global_csr_type \<Rightarrow> u32 list" where
  "default_table QDMA_CSR_RING_SZ = rng_sz" | "default_table QDMA_CSR_TIMER_CNT = tmr_cnt"
| "default_table QDMA_CSR_CNT_TH = cnt_th" | "default_table QDMA_CSR_BUF_SZ = buf_sz"

text \<open>\<open>eqdma_set_default_global_csr\<close> succeeds on every card and leaves in each of the four arrays the
  default table where the card has the feature of the array, and what was there where it has not.\<close>

theorem eqdma_default_csr:
  assumes dev: "csr_device b R keep view" and R: "csr_space \<subseteq> R" "set eqdma_single_regs \<subseteq> R"
  shows "\<exists>h'. eqdma_set_default_global_csr b h = (0, h') \<and>
    (\<forall>t. \<forall>j < 16. view h' (slot (csr_first t) j) =
      (if fst (eqdma_supported t b h) then stored (keep (slot (csr_first t) j)) (default_table t ! j) (view h (slot (csr_first t) j))
       else view h (slot (csr_first t) j)))"
proof -
  let ?f0 = "\<lambda>t j. view h (slot (csr_first t) j)"
  let ?put = "\<lambda>t f. f(t := \<lambda>j. stored (keep (slot (csr_first t) j)) (default_table t ! j) (f t j))"
  have caps: "set csr_caps \<subseteq> R" using R(1) by (auto simp: csr_space_def)
  obtain d h1 where d: "eqdma_get_device_attributes b h = (d, h1)" "view h1 = view h"
    "d = fst (eqdma_get_device_attributes reg_bus (view h))"
    using eqdma_attributes_view [OF dev caps, of h] by auto
  have sup: "fst (eqdma_supported t b h) \<longleftrightarrow> (case t of QDMA_CSR_RING_SZ \<Rightarrow> True | QDMA_CSR_BUF_SZ \<Rightarrow> st_en d \<noteq> 0
      | _ \<Rightarrow> st_en d \<noteq> 0 \<or> mm_cmpt_en d \<noteq> 0)" for t
    using d(1) by (cases t) (simp_all add: supported_defs)
  have addr: "EQDMA_GLBL_RNG_SZ_1_ADDR = csr_first QDMA_CSR_RING_SZ" "EQDMA_C2H_CNT_TH_ADDR = csr_first QDMA_CSR_CNT_TH"
    "EQDMA_C2H_TIMER_CNT_ADDR = csr_first QDMA_CSR_TIMER_CNT" "EQDMA_C2H_BUF_SZ_ADDR = csr_first QDMA_CSR_BUF_SZ"
    by (simp_all add: csr_addrs)
  have tabs: "rng_sz = default_table QDMA_CSR_RING_SZ" "cnt_th = default_table QDMA_CSR_CNT_TH"
    "tmr_cnt = default_table QDMA_CSR_TIMER_CNT" "buf_sz = default_table QDMA_CSR_BUF_SZ" by simp_all
  note blk = holds_block [OF dev R(1)] and sgl = holds_single [OF dev R(2)]
  have h1: "csr_holds view ?f0 h1" using d(2) by (simp add: csr_holds_def)
  define h2 where "h2 = qdma_write_csr_values b (csr_first QDMA_CSR_RING_SZ) 0 16 (nth (default_table QDMA_CSR_RING_SZ)) h1"
  have h2: "csr_holds view (?put QDMA_CSR_RING_SZ ?f0) h2" unfolding h2_def by (rule blk [OF h1])
  define h3 where "h3 = (if st_en d \<noteq> 0 \<or> mm_cmpt_en d \<noteq> 0 then bus_write b EQDMA_GLBL_DSC_CFG_ADDR
      (FIELD_SET GLBL_DSC_CFG_MAXFETCH_MASK DEFAULT_MAX_DSC_FETCH OR FIELD_SET GLBL_DSC_CFG_WB_ACC_INT_MASK DEFAULT_WRB_INT)
      (qdma_write_csr_values b (csr_first QDMA_CSR_TIMER_CNT) 0 16 (nth (default_table QDMA_CSR_TIMER_CNT))
        (qdma_write_csr_values b (csr_first QDMA_CSR_CNT_TH) 0 16 (nth (default_table QDMA_CSR_CNT_TH)) h2)) else h2)"
  let ?f3 = "if st_en d \<noteq> 0 \<or> mm_cmpt_en d \<noteq> 0 then ?put QDMA_CSR_TIMER_CNT (?put QDMA_CSR_CNT_TH (?put QDMA_CSR_RING_SZ ?f0))
      else ?put QDMA_CSR_RING_SZ ?f0"
  have h3: "csr_holds view ?f3 h3"
  proof (cases "st_en d \<noteq> 0 \<or> mm_cmpt_en d \<noteq> 0")
    case True
    show ?thesis unfolding h3_def if_P [OF True]
      by (rule sgl(1) [OF _ blk [OF blk [OF h2]]]) (simp add: eqdma_single_regs_def)
  next
    case False
    show ?thesis unfolding h3_def if_not_P [OF False] by (rule h2)
  qed
  have "\<exists>h'. eqdma_set_default_global_csr b h = (0, h') \<and>
      csr_holds view (if st_en d \<noteq> 0 then ?put QDMA_CSR_BUF_SZ ?f3 else ?f3) h'"
  proof (cases "st_en d \<noteq> 0")
    case False
    then have "eqdma_set_default_global_csr b h = (0, h3)"
      unfolding eqdma_set_default_global_csr_def h3_def h2_def addr tabs d(1) by (simp add: Let_def)
    then show ?thesis using h3 False by simp
  next
    case True
    define h4 where "h4 = qdma_write_csr_values b (csr_first QDMA_CSR_BUF_SZ) 0 16 (nth (default_table QDMA_CSR_BUF_SZ)) h3"
    have h4: "csr_holds view (?put QDMA_CSR_BUF_SZ ?f3) h4" unfolding h4_def by (rule blk [OF h3])
    define h5 where "h5 = snd (bus_read b EQDMA_C2H_PFCH_CACHE_DEPTH_ADDR h4)"
    have "\<exists>v1 v2 v3 v4 v5 v6. eqdma_set_default_global_csr b h = (0,
        bus_write b EQDMA_H2C_REQ_THROT_PCIE_ADDR v1 (bus_write b EQDMA_C2H_WRB_COAL_CFG_ADDR v2
          (snd (bus_read b EQDMA_C2H_WRB_COAL_BUF_DEPTH_ADDR (bus_write b EQDMA_C2H_INT_TIMER_TICK_ADDR v3
            (bus_write b EQDMA_C2H_PFCH_CFG_2_ADDR v4 (bus_write b EQDMA_C2H_PFCH_CFG_1_ADDR v5
              (bus_write b EQDMA_C2H_PFCH_CFG_ADDR v6 h5))))))))"
      using True unfolding eqdma_set_default_global_csr_def h5_def h4_def h3_def h2_def addr tabs d(1)
      by (simp add: Let_def split_beta) blast
    then obtain v1 v2 v3 v4 v5 v6 where e: "eqdma_set_default_global_csr b h = (0,
        bus_write b EQDMA_H2C_REQ_THROT_PCIE_ADDR v1 (bus_write b EQDMA_C2H_WRB_COAL_CFG_ADDR v2
          (snd (bus_read b EQDMA_C2H_WRB_COAL_BUF_DEPTH_ADDR (bus_write b EQDMA_C2H_INT_TIMER_TICK_ADDR v3
            (bus_write b EQDMA_C2H_PFCH_CFG_2_ADDR v4 (bus_write b EQDMA_C2H_PFCH_CFG_1_ADDR v5
              (bus_write b EQDMA_C2H_PFCH_CFG_ADDR v6 h5))))))))" by blast
    have h5: "csr_holds view (?put QDMA_CSR_BUF_SZ ?f3) h5"
      unfolding h5_def by (rule sgl(2) [OF _ h4]) (simp add: eqdma_single_regs_def)
    show ?thesis unfolding e if_P [OF True]
      by (rule exI, rule conjI, rule refl, (rule sgl h5, simp add: eqdma_single_regs_def)+, rule h5)
  qed
  then obtain h' where h': "eqdma_set_default_global_csr b h = (0, h')"
    "csr_holds view (if st_en d \<noteq> 0 then ?put QDMA_CSR_BUF_SZ ?f3 else ?f3) h'" by blast
  have "(if st_en d \<noteq> 0 then ?put QDMA_CSR_BUF_SZ ?f3 else ?f3) t j =
      (if fst (eqdma_supported t b h) then stored (keep (slot (csr_first t) j)) (default_table t ! j) (view h (slot (csr_first t) j))
       else view h (slot (csr_first t) j))" for t j
    unfolding sup by (cases t) simp_all
  then show ?thesis using h' unfolding csr_holds_def by simp
qed

theorem eqdma_default_csr_witness:
  "\<exists>h'. eqdma_set_default_global_csr reg_bus streaming_regs = (0, h') \<and>
     h' 0x204 = 2049 \<and> h' 0x208 = 65 \<and> h' (slot (csr_first QDMA_CSR_BUF_SZ) 15) = 16384"
proof -
  have b: "bit (0x30101 :: u32) 16" "bit (0x30101 :: u32) 17" by (simp_all add: bit_numeral_rec)
  have sup: "fst (eqdma_supported t reg_bus streaming_regs)" for t
    by (rule streaming_supported) (simp_all add: streaming_regs_def b)
  obtain h' where h': "eqdma_set_default_global_csr reg_bus streaming_regs = (0, h')"
    "\<And>t j. j < 16 \<Longrightarrow> h' (slot (csr_first t) j) = default_table t ! j"
    using eqdma_default_csr [OF reg_bus_device, of UNIV streaming_regs] sup by auto
  have "h' 0x204 = 2049" "h' 0x208 = 65" "h' (slot (csr_first QDMA_CSR_BUF_SZ) 15) = 16384"
    using h'(2) [of 0 QDMA_CSR_RING_SZ] h'(2) [of 1 QDMA_CSR_RING_SZ] h'(2) [of 15 QDMA_CSR_BUF_SZ]
    by (simp_all add: slot_def rng_sz_def buf_sz_def)
  then show ?thesis using h'(1) by blast
qed

section \<open>Settings that only grow\<close>

text \<open>Setting the writeback interval puts the new value over the old one without clearing it: what is
  read afterwards is the bitwise or of the two, so an interval cannot be lowered to one whose bits
  are not a superset.  An interval of 8 or more is refused.\<close>

theorem writeback_interval_accumulates:
  assumes dev: "csr_device b R keep view" and R: "csr_space \<subseteq> R" "set eqdma_single_regs \<subseteq> R"
    and "fst (eqdma_supported QDMA_CSR_CNT_TH b h)" and "GLBL_DSC_CFG_WB_ACC_INT_MASK AND keep EQDMA_GLBL_DSC_CFG_ADDR = GLBL_DSC_CFG_WB_ACC_INT_MASK"
  shows "if wb_int < 8 then
      \<exists>h1 h2. eqdma_global_writeback_interval_conf b wb_int QDMA_HW_ACCESS_WRITE h = (0, None, h1) \<and>
        eqdma_global_writeback_interval_conf b any QDMA_HW_ACCESS_READ h1 =
          (0, Some (wb_int OR FIELD_GET GLBL_DSC_CFG_WB_ACC_INT_MASK (view h EQDMA_GLBL_DSC_CFG_ADDR)), h2)
    else eqdma_global_writeback_interval_conf b wb_int QDMA_HW_ACCESS_WRITE h = (- err_code QDMA_ERR_INV_PARAM, None, h)"
proof (cases "wb_int < 8")
  case False
  then show ?thesis by (simp add: eqdma_global_writeback_interval_conf_def eqdma_global_writeback_interval_write_def
      QDMA_NUM_WRB_INTERVALS_def not_less)
next
  case True
  let ?a = EQDMA_GLBL_DSC_CFG_ADDR and ?m = GLBL_DSC_CFG_WB_ACC_INT_MASK
  have caps: "set csr_caps \<subseteq> R" and a: "?a \<in> R" using R by (auto simp: csr_space_def eqdma_single_regs_def)
  have s: "\<exists>h'. eqdma_st_or_mm_cmpt b h = (fst (eqdma_supported QDMA_CSR_CNT_TH reg_bus (view h)), h') \<and> view h' = view h" for h
    using eqdma_supported_view [OF dev caps, of QDMA_CSR_CNT_TH h] by simp
  have ok: "fst (eqdma_supported QDMA_CSR_CNT_TH reg_bus (view h))" using s [of h] assms(4) by auto
  obtain h1 where h1: "eqdma_st_or_mm_cmpt b h = (True, h1)" "view h1 = view h" using s [of h] ok by auto
  obtain h2 where h2: "bus_read b ?a h1 = (view h ?a, h2)" "view h2 = view h"
    using csr_read_view [OF dev a, of h1] h1(2) by metis
  let ?h = "bus_write b ?a (view h ?a OR FIELD_SET ?m wb_int) h2"
  have vh: "view ?h = (view h)(?a := stored (keep ?a) (view h ?a OR FIELD_SET ?m wb_int) (view h ?a))"
    using csr_device_laws(3) [OF dev a] h2(2) by simp
  have "?a \<notin> set csr_caps" by (simp add: csr_caps_def csr_addrs)
  then have "view ?h a = view h a" if "a \<in> set csr_caps" for a using that unfolding vh by auto
  then have "fst (eqdma_supported QDMA_CSR_CNT_TH reg_bus (view ?h))"
    using ok supported_cong(2) [of "view ?h" "view h"] by metis
  then obtain h3 where h3: "eqdma_st_or_mm_cmpt b ?h = (True, h3)" "view h3 = view ?h" using s [of ?h] by auto
  obtain h4 where h4: "bus_read b ?a h3 = (view ?h ?a, h4)" using csr_read_view [OF dev a, of h3] h3(2) by metis
  have "FIELD_GET ?m (view ?h ?a) = wb_int OR FIELD_GET ?m (view h ?a)"
  proof (rule bit_word_eqI)
    fix i assume "i < LENGTH(32)"
    have k: "bit (keep ?a) j" if "j \<le> 2" for j
      using arg_cong [OF assms(5), of "\<lambda>w. bit w j"] that by (simp add: GLBL_DSC_CFG_WB_ACC_INT_MASK_def bit_GENMASK bit_simps)
    have w: "bit wb_int i \<Longrightarrow> i \<le> 2"
    proof -
      have "unat wb_int < 2 ^ 3" using True by (simp add: word_less_nat_alt)
      then have "unat (take_bit 3 wb_int) = unat wb_int" by (simp add: unsigned_take_bit_eq take_bit_nat_eq_self)
      then have "take_bit 3 wb_int = wb_int" by (rule word_unat_eq_iff [THEN iffD2])
      then show "bit wb_int i \<Longrightarrow> i \<le> 2" by (metis bit_take_bit_iff less_Suc_eq_le numeral_3_eq_3 numeral_2_eq_2)
    qed
    show "bit (FIELD_GET ?m (view ?h ?a)) i = bit (wb_int OR FIELD_GET ?m (view h ?a)) i"
      unfolding vh using k [of i] w by (auto simp: stored_def GLBL_DSC_CFG_WB_ACC_INT_MASK_def bit_FIELD_GET bit_FIELD_SET bit_simps)
  qed
  then show ?thesis using True h1 h2 h3 h4
    by (auto simp: eqdma_global_writeback_interval_conf_def eqdma_global_writeback_interval_write_def
        eqdma_global_writeback_interval_read_def QDMA_NUM_WRB_INTERVALS_def linorder_not_le)
qed

text \<open>From interval 5 to interval 2: the register then says 7.\<close>

theorem writeback_interval_accumulates_witness:
  "\<exists>h1 h2. eqdma_global_writeback_interval_conf reg_bus 2 QDMA_HW_ACCESS_WRITE (streaming_regs(0x250 := 5)) = (0, None, h1) \<and>
     eqdma_global_writeback_interval_conf reg_bus 0 QDMA_HW_ACCESS_READ h1 = (0, Some 7, h2)"
proof -
  have b: "bit (0x30101 :: u32) 16" "bit (0x30101 :: u32) 17" by (simp_all add: bit_numeral_rec)
  have sup: "fst (eqdma_supported QDMA_CSR_CNT_TH reg_bus (streaming_regs(0x250 := 5)))"
    by (rule streaming_supported) (simp_all add: streaming_regs_def b)
  have "FIELD_GET GLBL_DSC_CFG_WB_ACC_INT_MASK 5 = 5" by code_simp
  then show ?thesis
    using writeback_interval_accumulates [OF reg_bus_device _ _ sup, of UNIV 2 0] by (simp add: csr_addrs)
qed

text \<open>The legacy interrupt, once enabled, stays enabled.\<close>

lemma legacy_intr_never_disabled:
  assumes "csr_device b R (\<lambda>_. - 1) view" and "QDMA_OFFSET_GLBL_INTERRUPT_CFG \<in> R"
  shows "view (snd (qdma_legacy_intr_conf b 0 h)) = view h"
proof -
  obtain h1 where "bus_read b QDMA_OFFSET_GLBL_INTERRUPT_CFG h = (view h QDMA_OFFSET_GLBL_INTERRUPT_CFG, h1)" "view h1 = view h"
    by (rule csr_read_view [OF assms])
  then show ?thesis using csr_device_laws(3) [OF assms, of _ h1]
    by (simp add: qdma_legacy_intr_conf_def FIELD_SET_def)
qed

end
