(* ===== verification/Eqdma_Context_Props.thy ===== *)
theory Eqdma_Context_Props
  imports Eqdma_Context
begin

text \<open>
  What the EQDMA context functions guarantee: they keep the contract of \<open>Qdma_Context_Conf\<close> on any
  card, so a context that is written reads back with its fields cut to their widths.
\<close>

section \<open>What the card keeps\<close>

text \<open>The last member of the software context does not come back: its high bits are taken from the
  seventh word instead of the eighth.\<close>

definition eqdma_sw_kept :: "qdma_descq_sw_ctxt \<Rightarrow> qdma_descq_sw_ctxt \<Rightarrow> qdma_descq_sw_ctxt" where
  "eqdma_sw_kept c old = c\<lparr>sw_irq_arm := take_bit 1 (sw_irq_arm c), sw_qen := take_bit 1 (sw_qen c),
     sw_frcd_en := take_bit 1 (sw_frcd_en c), sw_wbi_chk := take_bit 1 (sw_wbi_chk c),
     sw_wbi_intvl_en := take_bit 1 (sw_wbi_intvl_en c), sw_at := take_bit 1 (sw_at c),
     sw_fetch_max := take_bit 4 (sw_fetch_max c), sw_rngsz_idx := take_bit 4 (sw_rngsz_idx c),
     sw_desc_sz := take_bit 2 (sw_desc_sz c), sw_bypass := take_bit 1 (sw_bypass c),
     sw_mm_chn := take_bit 1 (sw_mm_chn c), sw_wbk_en := take_bit 1 (sw_wbk_en c),
     sw_irq_en := take_bit 1 (sw_irq_en c), sw_port_id := take_bit 3 (sw_port_id c),
     sw_irq_no_last := take_bit 1 (sw_irq_no_last c), sw_err := take_bit 2 (sw_err c),
     sw_err_wb_sent := take_bit 1 (sw_err_wb_sent c), sw_irq_req := take_bit 1 (sw_irq_req c),
     sw_mrkr_dis := take_bit 1 (sw_mrkr_dis c), sw_is_mm := take_bit 1 (sw_is_mm c),
     sw_vec := take_bit 11 (sw_vec c), sw_intr_aggr := take_bit 1 (sw_intr_aggr c),
     sw_dis_intr_on_vf := take_bit 1 (sw_dis_intr_on_vf c), sw_virtio_en := take_bit 1 (sw_virtio_en c),
     sw_pack_byp_out := take_bit 1 (sw_pack_byp_out c), sw_irq_byp := take_bit 1 (sw_irq_byp c),
     sw_host_id := take_bit 4 (sw_host_id c), sw_pasid := take_bit 22 (sw_pasid c),
     sw_pasid_en := take_bit 1 (sw_pasid_en c),
     sw_virtio_dsc_base := take_bit 53 (sw_virtio_dsc_base c) OR
       push_bit 53 (take_bit 11 (drop_bit 21 (sw_virtio_dsc_base c)))\<rparr>"

text \<open>What becomes of the high bits.\<close>

lemma misread_high_bits:
  "FIELD_SET (GENMASK 63 53) (ucast (FIELD_GET (GENMASK 10 0) (FIELD_SET (GENMASK 31 0)
      (ucast (FIELD_GET (GENMASK 52 21) (v :: u64)) :: u32)))) = push_bit 53 (take_bit 11 (drop_bit 21 v))"
  by (rule bit_word_eqI) (simp add: bit_field_simps; safe; simp)

lemma eqdma_sw_decode: "eqdma_sw_context_of (eqdma_sw_context_words c) old = eqdma_sw_kept c old"
  by (cases c; cases old)
    (simp add: eqdma_sw_context_of_def eqdma_sw_context_words_def eqdma_sw_kept_def Let_def split_address,
     simp add: mask_defs field_simps cut_simps join_simps misread_high_bits)

definition eqdma_pfetch_kept :: "qdma_descq_prefetch_ctxt \<Rightarrow> qdma_descq_prefetch_ctxt \<Rightarrow> qdma_descq_prefetch_ctxt" where
  "eqdma_pfetch_kept c old = c\<lparr>pc_bypass := take_bit 1 (pc_bypass c), pc_bufsz_idx := take_bit 4 (pc_bufsz_idx c),
     pc_port_id := take_bit 3 (pc_port_id c), pc_var_desc := take_bit 1 (pc_var_desc c),
     pc_num_pftch := take_bit 6 (pc_num_pftch c), pc_err := take_bit 1 (pc_err c),
     pc_pfch_en := take_bit 1 (pc_pfch_en c), pc_pfch := take_bit 1 (pc_pfch c),
     pc_valid := take_bit 1 (pc_valid c)\<rparr>"

lemma eqdma_pfetch_decode: "eqdma_pfetch_context_of (eqdma_pfetch_context_words c) old = eqdma_pfetch_kept c old"
  by (cases c; cases old)
    (simp add: eqdma_pfetch_context_of_def eqdma_pfetch_context_words_def eqdma_pfetch_kept_def Let_def,
     simp add: mask_defs field_simps cut_simps join_simps)

definition eqdma_cmpt_kept :: "qdma_descq_cmpt_ctxt \<Rightarrow> qdma_descq_cmpt_ctxt \<Rightarrow> qdma_descq_cmpt_ctxt" where
  "eqdma_cmpt_kept c old = c\<lparr>cm_bs_addr := push_bit 2 (drop_bit 2 (cm_bs_addr c)), cm_vec := take_bit 11 (cm_vec c),
     cm_en_stat_desc := take_bit 1 (cm_en_stat_desc c), cm_en_int := take_bit 1 (cm_en_int c),
     cm_trig_mode := take_bit 3 (cm_trig_mode c),
     cm_counter_idx := take_bit 4 (cm_counter_idx c),
     cm_timer_idx := take_bit 4 (cm_timer_idx c), cm_in_st := take_bit 2 (cm_in_st c),
     cm_color := take_bit 1 (cm_color c), cm_ringsz_idx := take_bit 4 (cm_ringsz_idx c),
     cm_desc_sz := take_bit 2 (cm_desc_sz c), cm_valid := take_bit 1 (cm_valid c),
     cm_err := take_bit 2 (cm_err c), cm_user_trig_pend := take_bit 1 (cm_user_trig_pend c),
     cm_timer_running := take_bit 1 (cm_timer_running c),
     cm_full_upd := take_bit 1 (cm_full_upd c), cm_ovf_chk_dis := take_bit 1 (cm_ovf_chk_dis c),
     cm_at := take_bit 1 (cm_at c), cm_int_aggr := take_bit 1 (cm_int_aggr c),
     cm_dis_intr_on_vf := take_bit 1 (cm_dis_intr_on_vf c), cm_vio := take_bit 1 (cm_vio c),
     cm_dir_c2h := take_bit 1 (cm_dir_c2h c), cm_host_id := take_bit 4 (cm_host_id c),
     cm_pasid := take_bit 22 (cm_pasid c), cm_pasid_en := take_bit 1 (cm_pasid_en c),
     cm_vio_eop := take_bit 1 (cm_vio_eop c), cm_sh_cmpt := take_bit 1 (cm_sh_cmpt c)\<rparr>"

lemma cmpt_address:
  "(v :: u64) AND GENMASK 37 6 OR push_bit 38 (drop_bit 38 v) OR
     FIELD_SET (GENMASK 5 2) (ucast (ucast (ucast (take_bit 4 (ucast (FIELD_GET (GENMASK 5 2) v) :: u32)) :: u8) :: u32)) =
     push_bit 2 (drop_bit 2 v)"
proof -
  have "FIELD_SET (GENMASK 5 2) (ucast (ucast (ucast (take_bit 4 (ucast (FIELD_GET (GENMASK 5 2) v) :: u32)) :: u8) :: u32)) =
      v AND GENMASK 5 2"
  proof (rule bit_word_eqI)
    fix n
    have "2 \<le> n \<Longrightarrow> Suc (Suc (n - 2)) = n" by simp
    then show "bit (FIELD_SET (GENMASK 5 2) (ucast (ucast (ucast (take_bit 4 (ucast (FIELD_GET (GENMASK 5 2) v) :: u32)) :: u8) :: u32)) :: u64)
        n = bit (v AND GENMASK 5 2) n" by (auto simp: bit_field_simps bit_GENMASK)
  qed
  moreover have "v AND GENMASK 37 6 OR v AND GENMASK 63 38 OR v AND GENMASK 5 2 = v AND GENMASK 63 2"
    by (rule bit_word_eqI) (auto simp: bit_simps bit_GENMASK)
  ultimately show ?thesis by (simp add: AND_GENMASK_high)
qed

lemma eqdma_cmpt_decode: "eqdma_cmpt_context_of (eqdma_cmpt_context_words c) old = eqdma_cmpt_kept c old"
  by (cases c; cases old)
    (simp add: eqdma_cmpt_context_of_def eqdma_cmpt_context_words_def eqdma_cmpt_kept_def Let_def,
     simp add: mask_defs field_simps cut_simps join_simps cmpt_address)

definition eqdma_intr_kept :: "qdma_indirect_intr_ctxt \<Rightarrow> qdma_indirect_intr_ctxt \<Rightarrow> qdma_indirect_intr_ctxt" where
  "eqdma_intr_kept c old = c\<lparr>ic_baddr_4k := push_bit 12 (drop_bit 12 (ic_baddr_4k c)), ic_vec := take_bit 11 (ic_vec c),
     ic_pidx := take_bit 12 (ic_pidx c), ic_valid := take_bit 1 (ic_valid c),
     ic_int_st := take_bit 1 (ic_int_st c), ic_color := take_bit 1 (ic_color c),
     ic_page_size := take_bit 3 (ic_page_size c), ic_at := take_bit 1 (ic_at c),
     ic_host_id := take_bit 4 (ic_host_id c),
     ic_pasid := take_bit 8 (ic_pasid c) OR (ic_pasid c AND GENMASK 21 9),
     ic_pasid_en := take_bit 1 (ic_pasid_en c), ic_func_id := take_bit 12 (ic_func_id c)\<rparr>"

text \<open>A read of the interrupt context keeps only eight of the nine low bits of the PASID.\<close>

lemma intr_pasid:
  "FIELD_SET (GENMASK 8 0) (ucast (ucast (ucast (take_bit 9 (FIELD_GET (GENMASK 8 0) (v :: u32))) :: u8) :: u64)) =
     take_bit 8 v"
  "FIELD_SET (GENMASK 21 9) (ucast (ucast (take_bit 13 (FIELD_GET (GENMASK 21 9) v)) :: u64)) = v AND GENMASK 21 9"
proof -
  show "FIELD_SET (GENMASK 8 0) (ucast (ucast (ucast (take_bit 9 (FIELD_GET (GENMASK 8 0) v)) :: u8) :: u64)) =
      take_bit 8 v"
    by (rule bit_word_eqI) (simp add: bit_field_simps bit_GENMASK, arith)
  show "FIELD_SET (GENMASK 21 9) (ucast (ucast (take_bit 13 (FIELD_GET (GENMASK 21 9) v)) :: u64)) = v AND GENMASK 21 9"
    by (rule bit_word_eqI) (auto simp: bit_field_simps bit_GENMASK)
qed

lemma eqdma_intr_decode: "eqdma_indirect_intr_context_of (eqdma_indirect_intr_context_words c) old = eqdma_intr_kept c old"
  by (cases c; cases old)
    (simp add: eqdma_indirect_intr_context_of_def eqdma_indirect_intr_context_words_def eqdma_intr_kept_def Let_def,
     simp add: mask_defs field_simps cut_simps join_simps intr_address intr_pasid)

section \<open>The contract\<close>

lemma eqdma_words_length [simp]:
  "length (eqdma_sw_context_words sw) = 8" "length (eqdma_pfetch_context_words pc) = 2"
  "length (eqdma_cmpt_context_words cm) = 6" "length (eqdma_indirect_intr_context_words ic) = 4"
  by (simp_all add: eqdma_sw_context_words_def eqdma_pfetch_context_words_def eqdma_cmpt_context_words_def
      eqdma_indirect_intr_context_words_def Let_def)

interpretation eqdma_sw: context_writer "\<lambda>b i. eqdma_sw_ctx_conf b (fst i) (snd i)" "\<lambda>_. True" sw_sel snd
  EQDMA_IND_CTXT_DATA_ADDR EQDMA_IND_CTXT_CMD_ADDR QDMA_IND_CTXT_DATA_NUM_REGS eqdma_sw_context_of
  EQDMA_SW_CONTEXT_NUM_WORDS eqdma_sw_context_words "\<lambda>_. True" eqdma_sw_kept
  by unfold_locales
    (auto simp: eqdma_sw_ctx_conf_def eqdma_sw_context_read_def eqdma_sw_context_clear_def eqdma_sw_context_write_def 
      eqdma_indirect_defs EQDMA_SW_CONTEXT_NUM_WORDS_def sw_sel_def eqdma_sw_decode split: prod.split)

interpretation eqdma_pfetch: context_writer "eqdma_pfetch_ctx_conf" "\<lambda>_. True" "\<lambda>_. QDMA_CTXT_SEL_PFTCH" "\<lambda>q. q"
  EQDMA_IND_CTXT_DATA_ADDR EQDMA_IND_CTXT_CMD_ADDR QDMA_IND_CTXT_DATA_NUM_REGS eqdma_pfetch_context_of
  EQDMA_PFETCH_CONTEXT_NUM_WORDS eqdma_pfetch_context_words "\<lambda>_. True" eqdma_pfetch_kept
  by unfold_locales
    (auto simp: eqdma_pfetch_ctx_conf_def eqdma_pfetch_context_read_def eqdma_pfetch_context_clear_def eqdma_pfetch_context_write_def 
      eqdma_indirect_defs EQDMA_PFETCH_CONTEXT_NUM_WORDS_def eqdma_pfetch_decode split: prod.split)

interpretation eqdma_cmpt: context_writer "eqdma_cmpt_ctx_conf" "\<lambda>_. True" "\<lambda>_. QDMA_CTXT_SEL_CMPT" "\<lambda>q. q"
  EQDMA_IND_CTXT_DATA_ADDR EQDMA_IND_CTXT_CMD_ADDR QDMA_IND_CTXT_DATA_NUM_REGS eqdma_cmpt_context_of
  EQDMA_CMPT_CONTEXT_NUM_WORDS eqdma_cmpt_context_words "\<lambda>c. unat (cm_trig_mode c) \<le> QDMA_CMPT_UPDATE_TRIG_MODE_TMR_CNTR" eqdma_cmpt_kept
  by unfold_locales
    (auto simp: eqdma_cmpt_ctx_conf_def eqdma_cmpt_context_read_def eqdma_cmpt_context_clear_def eqdma_cmpt_context_write_def 
      eqdma_indirect_defs EQDMA_CMPT_CONTEXT_NUM_WORDS_def eqdma_cmpt_decode split: prod.split)

interpretation eqdma_intr: context_writer "eqdma_indirect_intr_ctx_conf" "\<lambda>_. True" "\<lambda>_. QDMA_CTXT_SEL_INT_COAL" "\<lambda>q. q"
  EQDMA_IND_CTXT_DATA_ADDR EQDMA_IND_CTXT_CMD_ADDR QDMA_IND_CTXT_DATA_NUM_REGS eqdma_indirect_intr_context_of
  EQDMA_IND_INTR_CONTEXT_NUM_WORDS eqdma_indirect_intr_context_words "\<lambda>_. True" eqdma_intr_kept
  by unfold_locales
    (auto simp: eqdma_indirect_intr_ctx_conf_def eqdma_indirect_intr_context_read_def eqdma_indirect_intr_context_clear_def eqdma_indirect_intr_context_write_def 
      eqdma_indirect_defs EQDMA_IND_INTR_CONTEXT_NUM_WORDS_def eqdma_intr_decode split: prod.split)

interpretation eqdma_hw: context_reader "\<lambda>b i. eqdma_hw_ctx_conf b (fst i) (snd i)" "\<lambda>i. fst i \<le> 1" hw_sel snd
  EQDMA_IND_CTXT_DATA_ADDR EQDMA_IND_CTXT_CMD_ADDR QDMA_IND_CTXT_DATA_NUM_REGS eqdma_hw_context_of
  EQDMA_HW_CONTEXT_NUM_WORDS
  by unfold_locales
    (auto simp: eqdma_hw_ctx_conf_def eqdma_hw_context_read_def eqdma_hw_context_clear_def 
      eqdma_indirect_defs EQDMA_HW_CONTEXT_NUM_WORDS_def hw_sel_def  split: prod.split)

interpretation eqdma_credit: context_reader "\<lambda>b i. eqdma_credit_ctx_conf b (fst i) (snd i)" "\<lambda>i. fst i \<le> 1" cr_sel snd
  EQDMA_IND_CTXT_DATA_ADDR EQDMA_IND_CTXT_CMD_ADDR QDMA_IND_CTXT_DATA_NUM_REGS eqdma_credit_context_of
  EQDMA_CR_CONTEXT_NUM_WORDS
  by unfold_locales
    (auto simp: eqdma_credit_ctx_conf_def eqdma_credit_context_read_def eqdma_credit_context_clear_def 
      eqdma_indirect_defs EQDMA_CR_CONTEXT_NUM_WORDS_def cr_sel_def  split: prod.split)

section \<open>Properties\<close>

text \<open>The concrete card of \<open>Qdma_Context_Card\<close>, at the addresses of the EQDMA.\<close>

definition eqdma_card :: "ctxt_card bus" where
  "eqdma_card = card_bus EQDMA_IND_CTXT_DATA_ADDR EQDMA_IND_CTXT_CMD_ADDR QDMA_IND_CTXT_DATA_NUM_REGS"

lemma eqdma_card_device:
  "context_device eqdma_card EQDMA_IND_CTXT_DATA_ADDR EQDMA_IND_CTXT_CMD_ADDR QDMA_IND_CTXT_DATA_NUM_REGS (\<lambda>c. c)"
  using card_bus_device [of 8 EQDMA_IND_CTXT_DATA_ADDR]
  by (simp add: eqdma_card_def EQDMA_IND_CTXT_DATA_ADDR_def EQDMA_IND_CTXT_CMD_ADDR_def QDMA_IND_CTXT_DATA_NUM_REGS_def)

text \<open>C35: On every card that keeps the contract of the context registers, a software context that is
  written to a queue succeeds and reads back as the members the format holds, each cut to the width
  of its field; only the high bits of the virtio address are not what was written.\<close>

theorem eqdma_sw_write_read:
  assumes "context_device b EQDMA_IND_CTXT_DATA_ADDR EQDMA_IND_CTXT_CMD_ADDR QDMA_IND_CTXT_DATA_NUM_REGS view"
  shows "\<exists>h1 h2. eqdma_sw_ctx_conf b c2h hw_qid (Some c) QDMA_HW_ACCESS_WRITE h = (0, None, h1) \<and>
    eqdma_sw_ctx_conf b c2h hw_qid (Some old) QDMA_HW_ACCESS_READ h1 = (0, Some (eqdma_sw_kept c old), h2)"
  using eqdma_sw.write_then_read [OF assms, of "(c2h, hw_qid)" c h old] by simp

lemma eqdma_sw_write_read_witness:
  "\<exists>h1 h2. eqdma_sw_ctx_conf eqdma_card 1 5 (Some sample_sw) QDMA_HW_ACCESS_WRITE blank_card = (0, None, h1) \<and>
     eqdma_sw_ctx_conf eqdma_card 1 5 (Some sample_sw) QDMA_HW_ACCESS_READ h1 =
       (0, Some (eqdma_sw_kept sample_sw sample_sw), h2)"
  by (rule eqdma_sw_write_read [OF eqdma_card_device])

text \<open>The member the driver loses: the virtio address comes back exactly when its high bits are what is put in their
  place.\<close>

lemma eqdma_virtio_base_misread:
  "sw_virtio_dsc_base (eqdma_sw_context_of (eqdma_sw_context_words c) old) = sw_virtio_dsc_base c \<longleftrightarrow>
     drop_bit 53 (sw_virtio_dsc_base c) = take_bit 11 (drop_bit 21 (sw_virtio_dsc_base c))"
proof -
  define v where "v = sw_virtio_dsc_base c"
  have d: "drop_bit 53 (take_bit 53 v OR push_bit 53 (take_bit 11 (drop_bit 21 v))) = take_bit 11 (drop_bit 21 v)"
    by (rule bit_word_eqI) (auto simp: bit_simps)
  have j: "take_bit 53 v OR push_bit 53 (drop_bit 53 v) = v"
  proof (rule bit_word_eqI)
    fix n
    show "bit (take_bit 53 v OR push_bit 53 (drop_bit 53 v)) n = bit v n" by (cases "n < 53") (auto simp: bit_simps dest: bit_imp_le_length)
  qed
  have "take_bit 53 v OR push_bit 53 (take_bit 11 (drop_bit 21 v)) = v \<longleftrightarrow> drop_bit 53 v = take_bit 11 (drop_bit 21 v)"
    using d j by metis
  then show ?thesis by (simp add: eqdma_sw_decode eqdma_sw_kept_def v_def)
qed

text \<open>C36: Writing a software, prefetch or completion context changes no entry of a queue with another
  11-bit number, of any kind.  A completion context whose trigger mode is above the last one is refused and leaves the device as
  it was; with any other trigger mode the write succeeds.\<close>

theorem eqdma_queue_isolation:
  assumes "context_device b EQDMA_IND_CTXT_DATA_ADDR EQDMA_IND_CTXT_CMD_ADDR QDMA_IND_CTXT_DATA_NUM_REGS view"
    and "ctxt_index q \<noteq> ctxt_index hw_qid"
  shows "card_ram (view (snd (snd (eqdma_sw_ctx_conf b c2h hw_qid (Some sw) QDMA_HW_ACCESS_WRITE h)))) sel (ctxt_index q) =
      card_ram (view h) sel (ctxt_index q) \<and>
    card_ram (view (snd (snd (eqdma_pfetch_ctx_conf b hw_qid (Some pc) QDMA_HW_ACCESS_WRITE h)))) sel (ctxt_index q) =
      card_ram (view h) sel (ctxt_index q) \<and>
    card_ram (view (snd (snd (eqdma_cmpt_ctx_conf b hw_qid (Some cm) QDMA_HW_ACCESS_WRITE h)))) sel (ctxt_index q) =
      card_ram (view h) sel (ctxt_index q) \<and>
    (if unat (cm_trig_mode cm) > 5
     then eqdma_cmpt_ctx_conf b hw_qid (Some cm) QDMA_HW_ACCESS_WRITE h = (- err_code QDMA_ERR_INV_PARAM, None, h)
     else fst (eqdma_cmpt_ctx_conf b hw_qid (Some cm) QDMA_HW_ACCESS_WRITE h) = 0)"
proof (intro conjI)
  show "card_ram (view (snd (snd (eqdma_cmpt_ctx_conf b hw_qid (Some cm) QDMA_HW_ACCESS_WRITE h)))) sel (ctxt_index q) =
      card_ram (view h) sel (ctxt_index q)"
  proof (cases "unat (cm_trig_mode cm) \<le> QDMA_CMPT_UPDATE_TRIG_MODE_TMR_CNTR")
    case False
    then show ?thesis by (simp add: eqdma_cmpt.conf_refuse)
  qed (use eqdma_cmpt.write_keeps_others [OF assms(1)] assms(2) in auto)
  show "if unat (cm_trig_mode cm) > 5
     then eqdma_cmpt_ctx_conf b hw_qid (Some cm) QDMA_HW_ACCESS_WRITE h = (- err_code QDMA_ERR_INV_PARAM, None, h)
     else fst (eqdma_cmpt_ctx_conf b hw_qid (Some cm) QDMA_HW_ACCESS_WRITE h) = 0"
    using eqdma_cmpt.conf_refuse [where i = hw_qid and c = cm and h = h and b = b]
      eqdma_cmpt.write_then_read [OF assms(1), where i = hw_qid and c = cm and h = h and old = cm]
    by (auto simp: QDMA_CMPT_UPDATE_TRIG_MODE_TMR_CNTR_def)
qed (use eqdma_sw.write_keeps_others [where i = "(c2h, hw_qid)", OF assms(1)]
    eqdma_pfetch.write_keeps_others [OF assms(1)] assms(2) in auto)

lemma eqdma_queue_isolation_witness:
  "card_ram (snd (snd (eqdma_sw_ctx_conf eqdma_card 1 5 (Some sample_sw) QDMA_HW_ACCESS_WRITE blank_card)))
     QDMA_CTXT_SEL_SW_C2H (ctxt_index 6) = card_ram blank_card QDMA_CTXT_SEL_SW_C2H (ctxt_index 6)"
  using eqdma_queue_isolation [OF eqdma_card_device, of 6 5 1 sample_sw blank_card] by (simp add: ctxt_index_def)

text \<open>The command word has room for 11 bits of a queue number: two queues that are congruent modulo
  2048 share their software context, and what is written for one is read for the other.\<close>

theorem eqdma_queue_alias:
  assumes "context_device b EQDMA_IND_CTXT_DATA_ADDR EQDMA_IND_CTXT_CMD_ADDR QDMA_IND_CTXT_DATA_NUM_REGS view"
    and "unat q mod 2048 = unat hw_qid mod 2048"
  shows "\<exists>h1 h2. eqdma_sw_ctx_conf b c2h q (Some c) QDMA_HW_ACCESS_WRITE h = (0, None, h1) \<and>
    eqdma_sw_ctx_conf b c2h hw_qid (Some old) QDMA_HW_ACCESS_READ h1 = (0, Some (eqdma_sw_kept c old), h2)"
  using eqdma_sw.write_then_read_at [where i = "(c2h, q)" and j = "(c2h, hw_qid)" and c = c and h = h and old = old,
      OF assms(1)] assms(2)
  by (simp add: sw_sel_def ctxt_index_def)

lemma eqdma_queue_alias_witness:
  "\<exists>h1 h2. eqdma_sw_ctx_conf eqdma_card 1 2053 (Some sample_sw) QDMA_HW_ACCESS_WRITE blank_card = (0, None, h1) \<and>
     eqdma_sw_ctx_conf eqdma_card 1 5 (Some sample_sw) QDMA_HW_ACCESS_READ h1 =
       (0, Some (eqdma_sw_kept sample_sw sample_sw), h2)"
  by (rule eqdma_queue_alias [OF eqdma_card_device]) simp

text \<open>A card whose command register stays busy makes every read and write of a software or interrupt
  context end with the timeout error, with nothing stored in the caller's context.\<close>

theorem eqdma_busy_timeout:
  assumes "\<And>h. fst (bus_read b EQDMA_IND_CTXT_CMD_ADDR h) AND 1 \<noteq> 0"
  shows "fst (eqdma_sw_ctx_conf b c2h hw_qid (Some sw) QDMA_HW_ACCESS_WRITE h) = - err_code QDMA_ERR_HWACC_BUSY_TIMEOUT \<and>
    fst (eqdma_sw_ctx_conf b c2h hw_qid (Some sw) QDMA_HW_ACCESS_READ h) = - err_code QDMA_ERR_HWACC_BUSY_TIMEOUT \<and>
    fst (snd (eqdma_sw_ctx_conf b c2h hw_qid (Some sw) QDMA_HW_ACCESS_READ h)) = None \<and>
    fst (eqdma_indirect_intr_ctx_conf b hw_qid (Some ic) QDMA_HW_ACCESS_WRITE h) = - err_code QDMA_ERR_HWACC_BUSY_TIMEOUT"
  using eqdma_sw.stuck [where b = b and i = "(c2h, hw_qid)" and c = sw and h = h, OF assms]
    eqdma_intr.stuck(2) [where b = b and i = hw_qid and c = ic and h = h, OF assms]
  by simp

definition stuck_card :: "unit bus" where
  "stuck_card = \<lparr>bus_read = (\<lambda>_ u. (1, u)), bus_write = (\<lambda>_ _ u. u)\<rparr>"

lemma eqdma_busy_timeout_witness:
  "fst (eqdma_sw_ctx_conf stuck_card 1 5 (Some sample_sw) QDMA_HW_ACCESS_WRITE ()) = - err_code QDMA_ERR_HWACC_BUSY_TIMEOUT"
  using eqdma_busy_timeout [of stuck_card 1 5 sample_sw "()"] by (simp add: stuck_card_def)

end
