(* ===== verification/Soft_Context_Props.thy ===== *)
theory Soft_Context_Props
  imports Soft_Context
begin

text \<open>
  What the soft QDMA context functions guarantee, from the contract of \<open>Qdma_Context_Conf\<close>.  The
  members that the format of this device lacks are left by a read as the caller had them.
\<close>

section \<open>What the card keeps\<close>

lemma page_address:
  "(v :: u64) AND GENMASK 37 12 OR push_bit 38 (drop_bit 38 v) = push_bit 12 (drop_bit 12 v)"
proof -
  have "v AND GENMASK 37 12 OR v AND GENMASK 63 38 = v AND GENMASK 63 12"
    by (rule bit_word_eqI) (auto simp: bit_simps bit_GENMASK)
  then show ?thesis by (simp add: AND_GENMASK_high)
qed

definition soft_fmap_kept :: "qdma_fmap_cfg \<Rightarrow> qdma_fmap_cfg \<Rightarrow> qdma_fmap_cfg" where
  "soft_fmap_kept c old = c\<lparr>fmap_qbase := take_bit 11 (fmap_qbase c), fmap_qmax := take_bit 12 (fmap_qmax c)\<rparr>"

lemma soft_fmap_decode: "qdma_fmap_of (qdma_fmap_words c) old = soft_fmap_kept c old"
  by (cases c; cases old)
    (simp add: qdma_fmap_of_def qdma_fmap_words_def soft_fmap_kept_def Let_def,
     simp add: mask_defs field_simps cut_simps join_simps)

definition soft_sw_kept :: "qdma_descq_sw_ctxt \<Rightarrow> qdma_descq_sw_ctxt \<Rightarrow> qdma_descq_sw_ctxt" where
  "soft_sw_kept c old = c\<lparr>sw_vec := take_bit 11 (sw_vec c), sw_irq_arm := take_bit 1 (sw_irq_arm c),
     sw_qen := take_bit 1 (sw_qen c), sw_frcd_en := take_bit 1 (sw_frcd_en c),
     sw_wbi_chk := take_bit 1 (sw_wbi_chk c), sw_wbi_intvl_en := take_bit 1 (sw_wbi_intvl_en c),
     sw_at := take_bit 1 (sw_at c), sw_fetch_max := take_bit 3 (sw_fetch_max c),
     sw_rngsz_idx := take_bit 4 (sw_rngsz_idx c), sw_desc_sz := take_bit 2 (sw_desc_sz c),
     sw_bypass := take_bit 1 (sw_bypass c), sw_mm_chn := take_bit 1 (sw_mm_chn c),
     sw_wbk_en := take_bit 1 (sw_wbk_en c), sw_irq_en := take_bit 1 (sw_irq_en c),
     sw_port_id := take_bit 3 (sw_port_id c), sw_irq_no_last := take_bit 1 (sw_irq_no_last c),
     sw_err := take_bit 2 (sw_err c), sw_err_wb_sent := take_bit 1 (sw_err_wb_sent c),
     sw_irq_req := take_bit 1 (sw_irq_req c), sw_mrkr_dis := take_bit 1 (sw_mrkr_dis c),
     sw_is_mm := take_bit 1 (sw_is_mm c), sw_intr_aggr := take_bit 1 (sw_intr_aggr c),
     sw_pasid_en := sw_pasid_en old, sw_dis_intr_on_vf := sw_dis_intr_on_vf old,
     sw_virtio_en := sw_virtio_en old, sw_pack_byp_out := sw_pack_byp_out old,
     sw_irq_byp := sw_irq_byp old, sw_host_id := sw_host_id old, sw_pasid := sw_pasid old,
     sw_virtio_dsc_base := sw_virtio_dsc_base old\<rparr>"

lemma soft_sw_decode: "qdma_sw_context_of (qdma_sw_context_words c) old = soft_sw_kept c old"
  by (cases c; cases old)
    (simp add: qdma_sw_context_of_def qdma_sw_context_words_def soft_sw_kept_def Let_def split_address,
     simp add: mask_defs field_simps cut_simps join_simps)

definition soft_pfetch_kept :: "qdma_descq_prefetch_ctxt \<Rightarrow> qdma_descq_prefetch_ctxt \<Rightarrow> qdma_descq_prefetch_ctxt" where
  "soft_pfetch_kept c old = c\<lparr>pc_bypass := take_bit 1 (pc_bypass c), pc_bufsz_idx := take_bit 4 (pc_bufsz_idx c),
     pc_port_id := take_bit 3 (pc_port_id c), pc_var_desc := pc_var_desc old,
     pc_num_pftch := pc_num_pftch old, pc_err := take_bit 1 (pc_err c),
     pc_pfch_en := take_bit 1 (pc_pfch_en c), pc_pfch := take_bit 1 (pc_pfch c),
     pc_valid := take_bit 1 (pc_valid c)\<rparr>"

lemma soft_pfetch_decode: "qdma_pfetch_context_of (qdma_pfetch_context_words c) old = soft_pfetch_kept c old"
  by (cases c; cases old)
    (simp add: qdma_pfetch_context_of_def qdma_pfetch_context_words_def soft_pfetch_kept_def Let_def,
     simp add: mask_defs field_simps cut_simps join_simps)

definition soft_cmpt_kept :: "qdma_descq_cmpt_ctxt \<Rightarrow> qdma_descq_cmpt_ctxt \<Rightarrow> qdma_descq_cmpt_ctxt" where
  "soft_cmpt_kept c old = c\<lparr>cm_bs_addr := push_bit 12 (drop_bit 12 (cm_bs_addr c)), cm_vec := take_bit 11 (cm_vec c),
     cm_en_stat_desc := take_bit 1 (cm_en_stat_desc c), cm_en_int := take_bit 1 (cm_en_int c),
     cm_trig_mode := take_bit 3 (cm_trig_mode c),
     cm_counter_idx := take_bit 4 (cm_counter_idx c),
     cm_timer_idx := take_bit 4 (cm_timer_idx c), cm_in_st := take_bit 2 (cm_in_st c),
     cm_color := take_bit 1 (cm_color c), cm_ringsz_idx := take_bit 4 (cm_ringsz_idx c),
     cm_desc_sz := take_bit 2 (cm_desc_sz c), cm_valid := take_bit 1 (cm_valid c),
     cm_err := take_bit 2 (cm_err c), cm_user_trig_pend := take_bit 1 (cm_user_trig_pend c),
     cm_timer_running := take_bit 1 (cm_timer_running c),
     cm_full_upd := take_bit 1 (cm_full_upd c), cm_ovf_chk_dis := take_bit 1 (cm_ovf_chk_dis c),
     cm_at := take_bit 1 (cm_at c), cm_int_aggr := take_bit 1 (cm_int_aggr c),
     cm_dis_intr_on_vf := cm_dis_intr_on_vf old, cm_vio := cm_vio old,
     cm_dir_c2h := cm_dir_c2h old, cm_host_id := cm_host_id old, cm_pasid := cm_pasid old,
     cm_pasid_en := cm_pasid_en old, cm_vio_eop := cm_vio_eop old, cm_sh_cmpt := cm_sh_cmpt old\<rparr>"

lemma soft_cmpt_decode: "qdma_cmpt_context_of (qdma_cmpt_context_words c) old = soft_cmpt_kept c old"
  by (cases c; cases old)
    (simp add: qdma_cmpt_context_of_def qdma_cmpt_context_words_def soft_cmpt_kept_def Let_def,
     simp add: mask_defs field_simps cut_simps join_simps page_address)

definition soft_intr_kept :: "qdma_indirect_intr_ctxt \<Rightarrow> qdma_indirect_intr_ctxt \<Rightarrow> qdma_indirect_intr_ctxt" where
  "soft_intr_kept c old = c\<lparr>ic_baddr_4k := push_bit 12 (drop_bit 12 (ic_baddr_4k c)), ic_vec := take_bit 11 (ic_vec c),
     ic_pidx := take_bit 12 (ic_pidx c), ic_valid := take_bit 1 (ic_valid c),
     ic_int_st := take_bit 1 (ic_int_st c), ic_color := take_bit 1 (ic_color c),
     ic_page_size := take_bit 3 (ic_page_size c), ic_at := take_bit 1 (ic_at c),
     ic_host_id := ic_host_id old, ic_pasid := ic_pasid old, ic_pasid_en := ic_pasid_en old,
     ic_func_id := ic_func_id old\<rparr>"

lemma soft_intr_decode: "qdma_indirect_intr_context_of (qdma_indirect_intr_context_words c) old = soft_intr_kept c old"
  by (cases c; cases old)
    (simp add: qdma_indirect_intr_context_of_def qdma_indirect_intr_context_words_def soft_intr_kept_def Let_def,
     simp add: mask_defs field_simps cut_simps join_simps intr_address)

section \<open>The contract\<close>

lemma soft_words_length [simp]:
  "length (qdma_fmap_words fm) = 2" "length (qdma_sw_context_words sw) = 5" "length (qdma_pfetch_context_words pc) = 2"
  "length (qdma_cmpt_context_words cm) = 5" "length (qdma_indirect_intr_context_words ic) = 3"
  by (simp_all add: qdma_fmap_words_def qdma_sw_context_words_def qdma_pfetch_context_words_def
      qdma_cmpt_context_words_def qdma_indirect_intr_context_words_def Let_def)

interpretation soft_fmap: context_writer "qdma_fmap_conf_soft" "\<lambda>_. True" "\<lambda>_. QDMA_CTXT_SEL_FMAP" "\<lambda>q. q"
  QDMA_OFFSET_IND_CTXT_DATA QDMA_OFFSET_IND_CTXT_CMD QDMA_IND_CTXT_DATA_NUM_REGS qdma_fmap_of
  QDMA_FMAP_NUM_WORDS qdma_fmap_words "\<lambda>_. True" soft_fmap_kept
  by unfold_locales
    (auto simp: qdma_fmap_conf_soft_def qdma_fmap_read_def qdma_fmap_clear_def qdma_fmap_write_def 
      soft_indirect_defs QDMA_FMAP_NUM_WORDS_def soft_fmap_decode split: prod.split)

interpretation soft_sw: context_writer "\<lambda>b i. qdma_sw_ctx_conf_soft b (fst i) (snd i)" "\<lambda>i. fst i \<le> 1" sw_sel snd
  QDMA_OFFSET_IND_CTXT_DATA QDMA_OFFSET_IND_CTXT_CMD QDMA_IND_CTXT_DATA_NUM_REGS qdma_sw_context_of
  QDMA_SW_CONTEXT_NUM_WORDS qdma_sw_context_words "\<lambda>_. True" soft_sw_kept
  by unfold_locales
    (auto simp: qdma_sw_ctx_conf_soft_def qdma_sw_context_read_def qdma_sw_context_clear_def qdma_sw_context_write_def 
      soft_indirect_defs QDMA_SW_CONTEXT_NUM_WORDS_def sw_sel_def soft_sw_decode split: prod.split)

interpretation soft_pfetch: context_writer "qdma_pfetch_ctx_conf_soft" "\<lambda>_. True" "\<lambda>_. QDMA_CTXT_SEL_PFTCH" "\<lambda>q. q"
  QDMA_OFFSET_IND_CTXT_DATA QDMA_OFFSET_IND_CTXT_CMD QDMA_IND_CTXT_DATA_NUM_REGS qdma_pfetch_context_of
  QDMA_PFETCH_CONTEXT_NUM_WORDS qdma_pfetch_context_words "\<lambda>_. True" soft_pfetch_kept
  by unfold_locales
    (auto simp: qdma_pfetch_ctx_conf_soft_def qdma_pfetch_context_read_def qdma_pfetch_context_clear_def qdma_pfetch_context_write_def 
      soft_indirect_defs QDMA_PFETCH_CONTEXT_NUM_WORDS_def soft_pfetch_decode split: prod.split)

interpretation soft_cmpt: context_writer "qdma_cmpt_ctx_conf_soft" "\<lambda>_. True" "\<lambda>_. QDMA_CTXT_SEL_CMPT" "\<lambda>q. q"
  QDMA_OFFSET_IND_CTXT_DATA QDMA_OFFSET_IND_CTXT_CMD QDMA_IND_CTXT_DATA_NUM_REGS qdma_cmpt_context_of
  QDMA_CMPT_CONTEXT_NUM_WORDS qdma_cmpt_context_words "\<lambda>c. unat (cm_trig_mode c) \<le> QDMA_CMPT_UPDATE_TRIG_MODE_TMR_CNTR" soft_cmpt_kept
  by unfold_locales
    (auto simp: qdma_cmpt_ctx_conf_soft_def qdma_cmpt_context_read_def qdma_cmpt_context_clear_def qdma_cmpt_context_write_def 
      soft_indirect_defs QDMA_CMPT_CONTEXT_NUM_WORDS_def soft_cmpt_decode split: prod.split)

interpretation soft_intr: context_writer "qdma_indirect_intr_ctx_conf_soft" "\<lambda>_. True" "\<lambda>_. QDMA_CTXT_SEL_INT_COAL" "\<lambda>q. q"
  QDMA_OFFSET_IND_CTXT_DATA QDMA_OFFSET_IND_CTXT_CMD QDMA_IND_CTXT_DATA_NUM_REGS qdma_indirect_intr_context_of
  QDMA_IND_INTR_CONTEXT_NUM_WORDS qdma_indirect_intr_context_words "\<lambda>_. True" soft_intr_kept
  by unfold_locales
    (auto simp: qdma_indirect_intr_ctx_conf_soft_def qdma_indirect_intr_context_read_def qdma_indirect_intr_context_clear_def qdma_indirect_intr_context_write_def 
      soft_indirect_defs QDMA_IND_INTR_CONTEXT_NUM_WORDS_def soft_intr_decode split: prod.split)

interpretation soft_hw: context_reader "\<lambda>b i. qdma_hw_ctx_conf_soft b (fst i) (snd i)" "\<lambda>i. fst i \<le> 1" hw_sel snd
  QDMA_OFFSET_IND_CTXT_DATA QDMA_OFFSET_IND_CTXT_CMD QDMA_IND_CTXT_DATA_NUM_REGS qdma_hw_context_of
  QDMA_HW_CONTEXT_NUM_WORDS
  by unfold_locales
    (auto simp: qdma_hw_ctx_conf_soft_def qdma_hw_context_read_def qdma_hw_context_clear_def 
      soft_indirect_defs QDMA_HW_CONTEXT_NUM_WORDS_def hw_sel_def  split: prod.split)

interpretation soft_credit: context_reader "\<lambda>b i. qdma_credit_ctx_conf_soft b (fst i) (snd i)" "\<lambda>i. fst i \<le> 1" cr_sel snd
  QDMA_OFFSET_IND_CTXT_DATA QDMA_OFFSET_IND_CTXT_CMD QDMA_IND_CTXT_DATA_NUM_REGS qdma_credit_context_of
  QDMA_CR_CONTEXT_NUM_WORDS
  by unfold_locales
    (auto simp: qdma_credit_ctx_conf_soft_def qdma_credit_context_read_def qdma_credit_context_clear_def 
      soft_indirect_defs QDMA_CR_CONTEXT_NUM_WORDS_def cr_sel_def  split: prod.split)

section \<open>Properties\<close>

definition soft_card :: "ctxt_card bus" where
  "soft_card = card_bus QDMA_OFFSET_IND_CTXT_DATA QDMA_OFFSET_IND_CTXT_CMD QDMA_IND_CTXT_DATA_NUM_REGS"

lemma soft_card_device:
  "context_device soft_card QDMA_OFFSET_IND_CTXT_DATA QDMA_OFFSET_IND_CTXT_CMD QDMA_IND_CTXT_DATA_NUM_REGS (\<lambda>c. c)"
  using card_bus_device [of 8 QDMA_OFFSET_IND_CTXT_DATA]
  by (simp add: soft_card_def QDMA_OFFSET_IND_CTXT_DATA_def QDMA_OFFSET_IND_CTXT_CMD_def QDMA_IND_CTXT_DATA_NUM_REGS_def)

text \<open>The function map of a function, written through the indirect registers, reads back as the
  base and the number of queues cut to 11 and 12 bits; clearing it afterwards makes both zero.\<close>

theorem soft_fmap_write_read:
  assumes "context_device b QDMA_OFFSET_IND_CTXT_DATA QDMA_OFFSET_IND_CTXT_CMD QDMA_IND_CTXT_DATA_NUM_REGS view"
  shows "\<exists>h1 h2 h3 h4. qdma_fmap_conf_soft b func_id (Some c) QDMA_HW_ACCESS_WRITE h = (0, None, h1) \<and>
    qdma_fmap_conf_soft b func_id (Some old) QDMA_HW_ACCESS_READ h1 =
      (0, Some \<lparr>fmap_qbase = take_bit 11 (fmap_qbase c), fmap_qmax = take_bit 12 (fmap_qmax c)\<rparr>, h2) \<and>
    qdma_fmap_conf_soft b func_id None QDMA_HW_ACCESS_CLEAR h2 = (0, None, h3) \<and>
    qdma_fmap_conf_soft b func_id (Some old) QDMA_HW_ACCESS_READ h3 = (0, Some \<lparr>fmap_qbase = 0, fmap_qmax = 0\<rparr>, h4)"
proof -
  have "soft_fmap_kept c old = \<lparr>fmap_qbase = take_bit 11 (fmap_qbase c), fmap_qmax = take_bit 12 (fmap_qmax c)\<rparr>"
    by (cases c) (simp add: soft_fmap_kept_def)
  then obtain h1 h2 where "qdma_fmap_conf_soft b func_id (Some c) QDMA_HW_ACCESS_WRITE h = (0, None, h1)"
    "qdma_fmap_conf_soft b func_id (Some old) QDMA_HW_ACCESS_READ h1 =
      (0, Some \<lparr>fmap_qbase = take_bit 11 (fmap_qbase c), fmap_qmax = take_bit 12 (fmap_qmax c)\<rparr>, h2)"
    using soft_fmap.write_then_read [OF assms, of func_id c h old] by auto
  moreover have "qdma_fmap_of (replicate QDMA_FMAP_NUM_WORDS 0) old = \<lparr>fmap_qbase = 0, fmap_qmax = 0\<rparr>"
    by (cases old) (simp add: qdma_fmap_of_def QDMA_FMAP_NUM_WORDS_def numeral_2_eq_2 field_simps)
  then have "\<exists>h3 h4. qdma_fmap_conf_soft b func_id None QDMA_HW_ACCESS_CLEAR h2 = (0, None, h3) \<and>
    qdma_fmap_conf_soft b func_id (Some old) QDMA_HW_ACCESS_READ h3 = (0, Some \<lparr>fmap_qbase = 0, fmap_qmax = 0\<rparr>, h4)"
    using soft_fmap.cleared_reads_zero [OF assms, of func_id None h2 old] by auto
  ultimately show ?thesis by blast
qed

lemma soft_fmap_write_read_witness:
  "\<exists>h1 h2. qdma_fmap_conf_soft soft_card 3 (Some \<lparr>fmap_qbase = 64, fmap_qmax = 32\<rparr>) QDMA_HW_ACCESS_WRITE blank_card =
      (0, None, h1) \<and>
    qdma_fmap_conf_soft soft_card 3 (Some \<lparr>fmap_qbase = 0, fmap_qmax = 0\<rparr>) QDMA_HW_ACCESS_READ h1 =
      (0, Some \<lparr>fmap_qbase = 64, fmap_qmax = 32\<rparr>, h2)"
  using soft_fmap_write_read [OF soft_card_device, of 3 "\<lparr>fmap_qbase = 64, fmap_qmax = 32\<rparr>" blank_card
      "\<lparr>fmap_qbase = 0, fmap_qmax = 0\<rparr>"]
  by auto

text \<open>On the soft QDMA a software, prefetch or completion context reads back with its fields cut to
  their widths; members the format lacks stay what they were in the caller's context.  A completion
  context is refused exactly when its trigger mode is past the last mode.\<close>

theorem soft_contexts_write_read:
  assumes "context_device b QDMA_OFFSET_IND_CTXT_DATA QDMA_OFFSET_IND_CTXT_CMD QDMA_IND_CTXT_DATA_NUM_REGS view"
    and "c2h \<le> 1"
  shows "(\<exists>h1 h2. qdma_sw_ctx_conf_soft b c2h hw_qid (Some sw) QDMA_HW_ACCESS_WRITE h = (0, None, h1) \<and>
      qdma_sw_ctx_conf_soft b c2h hw_qid (Some sw') QDMA_HW_ACCESS_READ h1 = (0, Some (soft_sw_kept sw sw'), h2)) \<and>
    (\<exists>h1 h2. qdma_pfetch_ctx_conf_soft b hw_qid (Some pc) QDMA_HW_ACCESS_WRITE h = (0, None, h1) \<and>
      qdma_pfetch_ctx_conf_soft b hw_qid (Some pc') QDMA_HW_ACCESS_READ h1 = (0, Some (soft_pfetch_kept pc pc'), h2)) \<and>
    (if unat (cm_trig_mode cm) \<le> 5 then
       \<exists>h1 h2. qdma_cmpt_ctx_conf_soft b hw_qid (Some cm) QDMA_HW_ACCESS_WRITE h = (0, None, h1) \<and>
         qdma_cmpt_ctx_conf_soft b hw_qid (Some cm') QDMA_HW_ACCESS_READ h1 = (0, Some (soft_cmpt_kept cm cm'), h2)
     else qdma_cmpt_ctx_conf_soft b hw_qid (Some cm) QDMA_HW_ACCESS_WRITE h = (- err_code QDMA_ERR_INV_PARAM, None, h))"
  using soft_sw.write_then_read [where i = "(c2h, hw_qid)" and c = sw and h = h and old = sw', OF assms(1)]
    soft_pfetch.write_then_read [where i = hw_qid and c = pc and h = h and old = pc', OF assms(1)]
    soft_cmpt.write_then_read [where i = hw_qid and c = cm and h = h and old = cm', OF assms(1)]
    soft_cmpt.conf_refuse [where i = hw_qid and c = cm and h = h and b = b] assms(2)
  by (simp add: QDMA_CMPT_UPDATE_TRIG_MODE_TMR_CNTR_def)

lemma soft_contexts_write_read_witness:
  "\<exists>h1 h2. qdma_sw_ctx_conf_soft soft_card 1 5 (Some sample_sw) QDMA_HW_ACCESS_WRITE blank_card = (0, None, h1) \<and>
     qdma_sw_ctx_conf_soft soft_card 1 5 (Some sample_sw) QDMA_HW_ACCESS_READ h1 =
       (0, Some (soft_sw_kept sample_sw sample_sw), h2)"
  using soft_contexts_write_read [OF soft_card_device, of 1 5 sample_sw blank_card sample_sw] by blast

end
