(* ===== verification/S80_Context_Props.thy ===== *)
theory S80_Context_Props
  imports S80_Context
begin

text \<open>
  What the hard QDMA context functions guarantee, from the contract of \<open>Qdma_Context_Conf\<close>.  A read of
  a software context makes two accesses: the entry of the queue and the entry of its interrupt
  vector, which both directions share.
\<close>

section \<open>What the card keeps\<close>

lemma s80_cmpt_address:
  "(v :: u64) AND GENMASK 9 6 OR v AND GENMASK 41 10 OR push_bit 42 (drop_bit 42 v) = push_bit 6 (drop_bit 6 v)"
proof -
  have "v AND GENMASK 9 6 OR v AND GENMASK 41 10 OR v AND GENMASK 63 42 = v AND GENMASK 63 6"
    by (rule bit_word_eqI) (auto simp: bit_simps bit_GENMASK)
  then show ?thesis by (simp add: AND_GENMASK_high)
qed

lemma s80_intr_address:
  "(v :: u64) AND GENMASK 34 12 OR push_bit 35 (drop_bit 35 v) = push_bit 12 (drop_bit 12 v)"
proof -
  have "v AND GENMASK 34 12 OR v AND GENMASK 63 35 = v AND GENMASK 63 12"
    by (rule bit_word_eqI) (auto simp: bit_simps bit_GENMASK)
  then show ?thesis by (simp add: AND_GENMASK_high)
qed

definition s80_sw_kept :: "qdma_descq_sw_ctxt \<Rightarrow> qdma_descq_sw_ctxt \<Rightarrow> qdma_descq_sw_ctxt" where
  "s80_sw_kept c old = c\<lparr>sw_vec := sw_vec old, sw_irq_arm := take_bit 1 (sw_irq_arm c),
     sw_qen := take_bit 1 (sw_qen c), sw_frcd_en := take_bit 1 (sw_frcd_en c),
     sw_wbi_chk := take_bit 1 (sw_wbi_chk c), sw_wbi_intvl_en := take_bit 1 (sw_wbi_intvl_en c),
     sw_at := sw_at old, sw_fetch_max := sw_fetch_max old,
     sw_rngsz_idx := take_bit 4 (sw_rngsz_idx c), sw_desc_sz := take_bit 2 (sw_desc_sz c),
     sw_bypass := take_bit 1 (sw_bypass c), sw_mm_chn := take_bit 1 (sw_mm_chn c),
     sw_wbk_en := take_bit 1 (sw_wbk_en c), sw_irq_en := take_bit 1 (sw_irq_en c),
     sw_port_id := take_bit 3 (sw_port_id c), sw_irq_no_last := take_bit 1 (sw_irq_no_last c),
     sw_err := take_bit 2 (sw_err c), sw_err_wb_sent := take_bit 1 (sw_err_wb_sent c),
     sw_irq_req := take_bit 1 (sw_irq_req c), sw_mrkr_dis := take_bit 1 (sw_mrkr_dis c),
     sw_is_mm := take_bit 1 (sw_is_mm c), sw_intr_aggr := sw_intr_aggr old,
     sw_pasid_en := sw_pasid_en old, sw_dis_intr_on_vf := sw_dis_intr_on_vf old,
     sw_virtio_en := sw_virtio_en old, sw_pack_byp_out := sw_pack_byp_out old,
     sw_irq_byp := sw_irq_byp old, sw_host_id := sw_host_id old, sw_pasid := sw_pasid old,
     sw_virtio_dsc_base := sw_virtio_dsc_base old\<rparr>"

lemma s80_sw_decode: "qdma_s80_hard_sw_context_of (qdma_s80_hard_sw_context_words c) old = s80_sw_kept c old"
  by (cases c; cases old)
    (simp add: qdma_s80_hard_sw_context_of_def qdma_s80_hard_sw_context_words_def s80_sw_kept_def Let_def split_address,
     simp add: mask_defs field_simps cut_simps join_simps)

definition s80_pfetch_kept :: "qdma_descq_prefetch_ctxt \<Rightarrow> qdma_descq_prefetch_ctxt \<Rightarrow> qdma_descq_prefetch_ctxt" where
  "s80_pfetch_kept c old = c\<lparr>pc_bypass := take_bit 1 (pc_bypass c), pc_bufsz_idx := take_bit 4 (pc_bufsz_idx c),
     pc_port_id := take_bit 3 (pc_port_id c), pc_var_desc := pc_var_desc old,
     pc_num_pftch := pc_num_pftch old, pc_err := take_bit 1 (pc_err c),
     pc_pfch_en := take_bit 1 (pc_pfch_en c), pc_pfch := take_bit 1 (pc_pfch c),
     pc_valid := take_bit 1 (pc_valid c)\<rparr>"

lemma s80_pfetch_decode: "qdma_s80_hard_pfetch_context_of (qdma_s80_hard_pfetch_context_words c) old = s80_pfetch_kept c old"
  by (cases c; cases old)
    (simp add: qdma_s80_hard_pfetch_context_of_def qdma_s80_hard_pfetch_context_words_def s80_pfetch_kept_def Let_def,
     simp add: mask_defs field_simps cut_simps join_simps)

definition s80_cmpt_kept :: "qdma_descq_cmpt_ctxt \<Rightarrow> qdma_descq_cmpt_ctxt \<Rightarrow> qdma_descq_cmpt_ctxt" where
  "s80_cmpt_kept c old = c\<lparr>cm_bs_addr := push_bit 6 (drop_bit 6 (cm_bs_addr c)), cm_vec := cm_vec old,
     cm_en_stat_desc := take_bit 1 (cm_en_stat_desc c), cm_en_int := take_bit 1 (cm_en_int c),
     cm_trig_mode := take_bit 3 (cm_trig_mode c),
     cm_counter_idx := take_bit 4 (cm_counter_idx c),
     cm_timer_idx := take_bit 4 (cm_timer_idx c), cm_in_st := take_bit 2 (cm_in_st c),
     cm_color := take_bit 1 (cm_color c), cm_ringsz_idx := take_bit 4 (cm_ringsz_idx c),
     cm_desc_sz := take_bit 2 (cm_desc_sz c), cm_valid := take_bit 1 (cm_valid c),
     cm_err := take_bit 2 (cm_err c), cm_user_trig_pend := take_bit 1 (cm_user_trig_pend c),
     cm_timer_running := take_bit 1 (cm_timer_running c),
     cm_full_upd := take_bit 1 (cm_full_upd c), cm_ovf_chk_dis := cm_ovf_chk_dis old,
     cm_at := cm_at old, cm_int_aggr := cm_int_aggr old,
     cm_dis_intr_on_vf := cm_dis_intr_on_vf old, cm_vio := cm_vio old,
     cm_dir_c2h := cm_dir_c2h old, cm_host_id := cm_host_id old, cm_pasid := cm_pasid old,
     cm_pasid_en := cm_pasid_en old, cm_vio_eop := cm_vio_eop old, cm_sh_cmpt := cm_sh_cmpt old\<rparr>"

lemma s80_cmpt_decode: "qdma_s80_hard_cmpt_context_of (qdma_s80_hard_cmpt_context_words c) old = s80_cmpt_kept c old"
  by (cases c; cases old)
    (simp add: qdma_s80_hard_cmpt_context_of_def qdma_s80_hard_cmpt_context_words_def s80_cmpt_kept_def Let_def,
     simp add: mask_defs field_simps cut_simps join_simps s80_cmpt_address)

definition s80_intr_kept :: "qdma_indirect_intr_ctxt \<Rightarrow> qdma_indirect_intr_ctxt \<Rightarrow> qdma_indirect_intr_ctxt" where
  "s80_intr_kept c old = c\<lparr>ic_baddr_4k := push_bit 12 (drop_bit 12 (ic_baddr_4k c)), ic_vec := take_bit 5 (ic_vec c),
     ic_pidx := take_bit 12 (ic_pidx c), ic_valid := take_bit 1 (ic_valid c),
     ic_int_st := take_bit 1 (ic_int_st c), ic_color := take_bit 1 (ic_color c),
     ic_page_size := take_bit 3 (ic_page_size c), ic_at := ic_at old,
     ic_host_id := ic_host_id old, ic_pasid := ic_pasid old, ic_pasid_en := ic_pasid_en old,
     ic_func_id := ic_func_id old\<rparr>"

lemma s80_intr_decode: "qdma_s80_hard_indirect_intr_context_of (qdma_s80_hard_indirect_intr_context_words c) old = s80_intr_kept c old"
  by (cases c; cases old)
    (simp add: qdma_s80_hard_indirect_intr_context_of_def qdma_s80_hard_indirect_intr_context_words_def s80_intr_kept_def Let_def,
     simp add: mask_defs field_simps cut_simps join_simps s80_intr_address)

section \<open>The contract\<close>

lemma s80_words_length [simp]:
  "length (qdma_s80_hard_sw_context_words sw) = 4" "length (qdma_s80_hard_pfetch_context_words pc) = 2"
  "length (qdma_s80_hard_cmpt_context_words cm) = 4" "length (qdma_s80_hard_indirect_intr_context_words ic) = 3"
  by (simp_all add: qdma_s80_hard_sw_context_words_def qdma_s80_hard_pfetch_context_words_def
      qdma_s80_hard_cmpt_context_words_def qdma_s80_hard_indirect_intr_context_words_def Let_def)

definition s80_cmpt_ok :: "qdma_descq_cmpt_ctxt \<Rightarrow> bool" where
  "s80_cmpt_ok c \<longleftrightarrow> unat (cm_desc_sz c) \<le> QDMA_DESC_SIZE_32B \<and> unat (cm_ringsz_idx c) < QDMA_NUM_RING_SIZES \<and>
     unat (cm_counter_idx c) < QDMA_NUM_C2H_COUNTERS \<and> unat (cm_timer_idx c) < QDMA_NUM_C2H_TIMERS \<and>
     unat (cm_trig_mode c) \<le> QDMA_CMPT_UPDATE_TRIG_MODE_TMR_CNTR"

interpretation s80_pfetch: context_writer "qdma_s80_hard_pfetch_ctx_conf" "\<lambda>_. True" "\<lambda>_. QDMA_CTXT_SEL_PFTCH" "\<lambda>q. q"
  QDMA_S80_HARD_IND_CTXT_DATA_3_ADDR QDMA_S80_HARD_IND_CTXT_CMD_ADDR QDMA_S80_HARD_IND_CTXT_DATA_NUM_REGS
  qdma_s80_hard_pfetch_context_of QDMA_S80_HARD_PFETCH_CONTEXT_NUM_WORDS
  qdma_s80_hard_pfetch_context_words "\<lambda>_. True" s80_pfetch_kept
  by unfold_locales
    (auto simp: qdma_s80_hard_pfetch_ctx_conf_def qdma_s80_hard_pfetch_context_read_def qdma_s80_hard_pfetch_context_clear_def qdma_s80_hard_pfetch_context_write_def
      s80_indirect_defs QDMA_S80_HARD_PFETCH_CONTEXT_NUM_WORDS_def s80_pfetch_decode split: prod.split)

interpretation s80_cmpt: context_writer "qdma_s80_hard_cmpt_ctx_conf" "\<lambda>_. True" "\<lambda>_. QDMA_CTXT_SEL_CMPT" "\<lambda>q. q"
  QDMA_S80_HARD_IND_CTXT_DATA_3_ADDR QDMA_S80_HARD_IND_CTXT_CMD_ADDR QDMA_S80_HARD_IND_CTXT_DATA_NUM_REGS
  qdma_s80_hard_cmpt_context_of QDMA_S80_HARD_CMPT_CONTEXT_NUM_WORDS
  qdma_s80_hard_cmpt_context_words "s80_cmpt_ok" s80_cmpt_kept
  by unfold_locales
    (auto simp: qdma_s80_hard_cmpt_ctx_conf_def qdma_s80_hard_cmpt_context_read_def qdma_s80_hard_cmpt_context_clear_def qdma_s80_hard_cmpt_context_write_def
      s80_indirect_defs QDMA_S80_HARD_CMPT_CONTEXT_NUM_WORDS_def s80_cmpt_ok_def s80_cmpt_decode split: prod.split)

interpretation s80_intr: context_writer "qdma_s80_hard_indirect_intr_ctx_conf" "\<lambda>_. True" "\<lambda>_. QDMA_CTXT_SEL_INT_COAL" "\<lambda>q. q"
  QDMA_S80_HARD_IND_CTXT_DATA_3_ADDR QDMA_S80_HARD_IND_CTXT_CMD_ADDR QDMA_S80_HARD_IND_CTXT_DATA_NUM_REGS
  qdma_s80_hard_indirect_intr_context_of QDMA_S80_HARD_IND_INTR_CONTEXT_NUM_WORDS
  qdma_s80_hard_indirect_intr_context_words "\<lambda>c. unat (ic_page_size c) \<le> QDMA_INDIRECT_INTR_RING_SIZE_32KB" s80_intr_kept
  by unfold_locales
    (auto simp: qdma_s80_hard_indirect_intr_ctx_conf_def qdma_s80_hard_indirect_intr_context_read_def qdma_s80_hard_indirect_intr_context_clear_def qdma_s80_hard_indirect_intr_context_write_def
      s80_indirect_defs QDMA_S80_HARD_IND_INTR_CONTEXT_NUM_WORDS_def s80_intr_decode split: prod.split)

interpretation s80_hw: context_reader "\<lambda>b i. qdma_s80_hard_hw_ctx_conf b (fst i) (snd i)" "\<lambda>_. True" hw_sel snd
  QDMA_S80_HARD_IND_CTXT_DATA_3_ADDR QDMA_S80_HARD_IND_CTXT_CMD_ADDR QDMA_S80_HARD_IND_CTXT_DATA_NUM_REGS
  qdma_s80_hard_hw_context_of QDMA_S80_HARD_HW_CONTEXT_NUM_WORDS
  by unfold_locales
    (auto simp: qdma_s80_hard_hw_ctx_conf_def qdma_s80_hard_hw_context_read_def qdma_s80_hard_hw_context_clear_def 
      s80_indirect_defs QDMA_S80_HARD_HW_CONTEXT_NUM_WORDS_def hw_sel_def  split: prod.split)

interpretation s80_credit: context_reader "\<lambda>b i. qdma_s80_hard_credit_ctx_conf b (fst i) (snd i)" "\<lambda>_. True" cr_sel snd
  QDMA_S80_HARD_IND_CTXT_DATA_3_ADDR QDMA_S80_HARD_IND_CTXT_CMD_ADDR QDMA_S80_HARD_IND_CTXT_DATA_NUM_REGS
  qdma_s80_hard_credit_context_of QDMA_S80_HARD_CR_CONTEXT_NUM_WORDS
  by unfold_locales
    (auto simp: qdma_s80_hard_credit_ctx_conf_def qdma_s80_hard_credit_context_read_def qdma_s80_hard_credit_context_clear_def 
      s80_indirect_defs QDMA_S80_HARD_CR_CONTEXT_NUM_WORDS_def cr_sel_def  split: prod.split)

section \<open>The vector of a queue\<close>

lemma qid2vec_decode:
  "qdma_s80_hard_qid2vec_of c2h [qdma_s80_hard_qid2vec_word c2h qv w] old =
     (if c2h \<noteq> 0 then old\<lparr>qv_c2h_vector := qv_c2h_vector qv, qv_c2h_en_coal := take_bit 1 (qv_c2h_en_coal qv)\<rparr>
      else old\<lparr>qv_h2c_vector := qv_h2c_vector qv, qv_h2c_en_coal := take_bit 1 (qv_h2c_en_coal qv)\<rparr>)"
  by (cases "c2h = 0")
    (simp_all add: qdma_s80_hard_qid2vec_of_def qdma_s80_hard_qid2vec_word_def mask_defs field_simps cut_simps
      FIELD_GET_masked)

lemma qid2vec_other:
  "(c = 0) \<noteq> (c' = 0) \<Longrightarrow>
     qdma_s80_hard_qid2vec_of c' [qdma_s80_hard_qid2vec_word c qv w] old = qdma_s80_hard_qid2vec_of c' [w] old"
  by (cases "c = 0")
    (auto simp: qdma_s80_hard_qid2vec_of_def qdma_s80_hard_qid2vec_word_def mask_defs field_simps FIELD_GET_masked)

lemma s80_qid2vec_write:
  assumes dev: "context_device b QDMA_S80_HARD_IND_CTXT_DATA_3_ADDR QDMA_S80_HARD_IND_CTXT_CMD_ADDR
      QDMA_S80_HARD_IND_CTXT_DATA_NUM_REGS view"
  shows "\<exists>h' w. qdma_s80_hard_qid2vec_write b c2h hw_qid (Some qv) h = (0, h') \<and>
    card_ram (view h') = (card_ram (view h))(QDMA_CTXT_SEL_FMAP :=
      (card_ram (view h) QDMA_CTXT_SEL_FMAP)(ctxt_index hw_qid := w)) \<and>
    w 0 = qdma_s80_hard_qid2vec_word c2h qv (card_ram (view h) QDMA_CTXT_SEL_FMAP (ctxt_index hw_qid) 0)"
proof -
  have n: "1 \<le> QDMA_S80_HARD_IND_CTXT_DATA_NUM_REGS" by (simp add: QDMA_S80_HARD_IND_CTXT_DATA_NUM_REGS_def)
  let ?w = "card_ram (view h) QDMA_CTXT_SEL_FMAP (ctxt_index hw_qid) 0"
  obtain h1 where h1: "qdma_s80_hard_indirect_reg_read b QDMA_CTXT_SEL_FMAP hw_qid 1 h = (0, [?w], h1)"
    "card_ram (view h1) = card_ram (view h)"
    using read_entry [OF dev n, of QDMA_CTXT_SEL_FMAP hw_qid h] by (auto simp: qdma_s80_hard_indirect_reg_read_def)
  obtain h2 w where "qdma_s80_hard_indirect_reg_write b QDMA_CTXT_SEL_FMAP hw_qid
      [qdma_s80_hard_qid2vec_word c2h qv ?w] h1 = (0, h2)"
    "card_ram (view h2) = (card_ram (view h1))(QDMA_CTXT_SEL_FMAP :=
      (card_ram (view h1) QDMA_CTXT_SEL_FMAP)(ctxt_index hw_qid := w))"
    "\<forall>i < QDMA_S80_HARD_IND_CTXT_DATA_NUM_REGS. w i =
      padded QDMA_S80_HARD_IND_CTXT_DATA_NUM_REGS [qdma_s80_hard_qid2vec_word c2h qv ?w] i"
    using write_entry [OF dev, of QDMA_CTXT_SEL_FMAP hw_qid "[qdma_s80_hard_qid2vec_word c2h qv ?w]" h1]
    by (auto simp: qdma_s80_hard_indirect_reg_write_def)
  then show ?thesis using h1 n by (auto simp: qdma_s80_hard_qid2vec_write_def padded_def)
qed

lemma s80_qid2vec_read:
  assumes dev: "context_device b QDMA_S80_HARD_IND_CTXT_DATA_3_ADDR QDMA_S80_HARD_IND_CTXT_CMD_ADDR
      QDMA_S80_HARD_IND_CTXT_DATA_NUM_REGS view"
  shows "\<exists>h'. qdma_s80_hard_qid2vec_read b c2h hw_qid (Some old) h = (0, Some (qdma_s80_hard_qid2vec_of c2h
      [card_ram (view h) QDMA_CTXT_SEL_FMAP (ctxt_index hw_qid) 0] old), h') \<and> card_ram (view h') = card_ram (view h)"
  using read_entry [OF dev, of 1 QDMA_CTXT_SEL_FMAP hw_qid h]
  by (auto simp: qdma_s80_hard_qid2vec_read_def qdma_s80_hard_indirect_reg_read_def
      QDMA_S80_HARD_QID2VEC_CONTEXT_NUM_WORDS_def QDMA_S80_HARD_IND_CTXT_DATA_NUM_REGS_def)

section \<open>Properties\<close>

definition s80_card :: "ctxt_card bus" where
  "s80_card = card_bus QDMA_S80_HARD_IND_CTXT_DATA_3_ADDR QDMA_S80_HARD_IND_CTXT_CMD_ADDR
     QDMA_S80_HARD_IND_CTXT_DATA_NUM_REGS"

lemma s80_card_device:
  "context_device s80_card QDMA_S80_HARD_IND_CTXT_DATA_3_ADDR QDMA_S80_HARD_IND_CTXT_CMD_ADDR
     QDMA_S80_HARD_IND_CTXT_DATA_NUM_REGS (\<lambda>c. c)"
  using card_bus_device [of 4 QDMA_S80_HARD_IND_CTXT_DATA_3_ADDR]
  by (simp add: s80_card_def QDMA_S80_HARD_IND_CTXT_DATA_3_ADDR_def QDMA_S80_HARD_IND_CTXT_CMD_ADDR_def
      QDMA_S80_HARD_IND_CTXT_DATA_NUM_REGS_def)

text \<open>On the hard QDMA the vector of a queue and its software context are two entries: written one
  after the other, a read of the software context assembles both, with the vector of the direction
  that is asked for.\<close>

theorem s80_queue_write_read:
  assumes "context_device b QDMA_S80_HARD_IND_CTXT_DATA_3_ADDR QDMA_S80_HARD_IND_CTXT_CMD_ADDR
      QDMA_S80_HARD_IND_CTXT_DATA_NUM_REGS view"
    and "unat (sw_desc_sz c) \<le> 3" and "unat (sw_rngsz_idx c) < 16"
  shows "\<exists>h1 h2 h3. qdma_s80_hard_qid2vec_conf b c2h hw_qid (Some qv) QDMA_HW_ACCESS_WRITE h = (0, None, h1) \<and>
    qdma_s80_hard_sw_ctx_conf b c2h hw_qid (Some c) QDMA_HW_ACCESS_WRITE h1 = (0, None, h2) \<and>
    qdma_s80_hard_sw_ctx_conf b c2h hw_qid (Some old) QDMA_HW_ACCESS_READ h2 =
      (0, Some ((s80_sw_kept c old)\<lparr>
         sw_vec := ucast (if c2h \<noteq> 0 then qv_c2h_vector qv else qv_h2c_vector qv),
         sw_intr_aggr := take_bit 1 (if c2h \<noteq> 0 then qv_c2h_en_coal qv else qv_h2c_en_coal qv)\<rparr>), h3)"
proof -
  let ?sel = "if c2h \<noteq> 0 then QDMA_CTXT_SEL_SW_C2H else QDMA_CTXT_SEL_SW_H2C"
  have n: "QDMA_S80_HARD_SW_CONTEXT_NUM_WORDS = QDMA_S80_HARD_IND_CTXT_DATA_NUM_REGS" "?sel \<noteq> QDMA_CTXT_SEL_FMAP"
    by (simp_all add: QDMA_S80_HARD_IND_CTXT_DATA_NUM_REGS_def QDMA_S80_HARD_SW_CONTEXT_NUM_WORDS_def)
  obtain h1 v where h1: "qdma_s80_hard_qid2vec_write b c2h hw_qid (Some qv) h = (0, h1)"
    "card_ram (view h1) QDMA_CTXT_SEL_FMAP (ctxt_index hw_qid) 0 = qdma_s80_hard_qid2vec_word c2h qv v"
    using s80_qid2vec_write [OF assms(1), of c2h hw_qid qv h] by auto
  obtain h2 w where h2: "qdma_s80_hard_indirect_reg_write b ?sel hw_qid (qdma_s80_hard_sw_context_words c) h1 = (0, h2)"
    "card_ram (view h2) = (card_ram (view h1))(?sel := (card_ram (view h1) ?sel)(ctxt_index hw_qid := w))"
    "\<forall>i < QDMA_S80_HARD_IND_CTXT_DATA_NUM_REGS. w i =
      padded QDMA_S80_HARD_IND_CTXT_DATA_NUM_REGS (qdma_s80_hard_sw_context_words c) i"
    using write_entry [OF assms(1), of ?sel hw_qid "qdma_s80_hard_sw_context_words c" h1]
    by (auto simp: qdma_s80_hard_indirect_reg_write_def)
  have ws: "map (card_ram (view h2) ?sel (ctxt_index hw_qid)) [0..<QDMA_S80_HARD_SW_CONTEXT_NUM_WORDS] =
      qdma_s80_hard_sw_context_words c"
    using h2(2,3) n(1) by (intro nth_equalityI) (auto simp: padded_def QDMA_S80_HARD_IND_CTXT_DATA_NUM_REGS_def)
  obtain h3 where h3: "qdma_s80_hard_indirect_reg_read b ?sel hw_qid QDMA_S80_HARD_SW_CONTEXT_NUM_WORDS h2 =
      (0, qdma_s80_hard_sw_context_words c, h3)" "card_ram (view h3) = card_ram (view h2)"
    using read_entry [OF assms(1), of QDMA_S80_HARD_SW_CONTEXT_NUM_WORDS ?sel hw_qid h2] n(1) ws
    by (auto simp: qdma_s80_hard_indirect_reg_read_def)
  have "card_ram (view h3) QDMA_CTXT_SEL_FMAP (ctxt_index hw_qid) 0 = qdma_s80_hard_qid2vec_word c2h qv v"
    using h1(2) h2(2) h3(2) n(2) by auto
  then obtain h4 where "qdma_s80_hard_qid2vec_read b c2h hw_qid (Some \<lparr>qv_c2h_vector = 0, qv_c2h_en_coal = 0,
      qv_h2c_vector = 0, qv_h2c_en_coal = 0\<rparr>) h3 = (0, Some (qdma_s80_hard_qid2vec_of c2h
        [qdma_s80_hard_qid2vec_word c2h qv v] \<lparr>qv_c2h_vector = 0, qv_c2h_en_coal = 0,
      qv_h2c_vector = 0, qv_h2c_en_coal = 0\<rparr>), h4)"
    using s80_qid2vec_read [OF assms(1), of c2h hw_qid _ h3] by metis
  then show ?thesis
    using h1(1) h2(1) h3(1) assms(2,3)
    by (auto simp: qdma_s80_hard_qid2vec_conf_def qdma_s80_hard_sw_ctx_conf_def qdma_s80_hard_sw_context_write_def
        qdma_s80_hard_sw_context_read_def QDMA_DESC_SIZE_64B_def QDMA_NUM_RING_SIZES_def s80_sw_decode qid2vec_decode Let_def)
qed

lemma s80_queue_write_read_witness:
  "\<exists>h1 h2 h3. qdma_s80_hard_qid2vec_conf s80_card 1 5 (Some \<lparr>qv_c2h_vector = 4, qv_c2h_en_coal = 1, qv_h2c_vector = 2,
      qv_h2c_en_coal = 0\<rparr>) QDMA_HW_ACCESS_WRITE blank_card = (0, None, h1) \<and>
    qdma_s80_hard_sw_ctx_conf s80_card 1 5 (Some sample_sw) QDMA_HW_ACCESS_WRITE h1 = (0, None, h2) \<and>
    qdma_s80_hard_sw_ctx_conf s80_card 1 5 (Some sample_sw) QDMA_HW_ACCESS_READ h2 =
      (0, Some ((s80_sw_kept sample_sw sample_sw)\<lparr>sw_vec := 4, sw_intr_aggr := 1\<rparr>), h3)"
  using s80_queue_write_read [OF s80_card_device, of sample_sw 1 5 "\<lparr>qv_c2h_vector = 4, qv_c2h_en_coal = 1,
      qv_h2c_vector = 2, qv_h2c_en_coal = 0\<rparr>" blank_card sample_sw]
  by (simp add: sample_sw_def)

text \<open>Writing the vector of one direction of a queue leaves the vector that the other direction reads
  as it was: the write puts back the half of the entry that it does not own.\<close>

theorem s80_vector_directions:
  assumes "context_device b QDMA_S80_HARD_IND_CTXT_DATA_3_ADDR QDMA_S80_HARD_IND_CTXT_CMD_ADDR
      QDMA_S80_HARD_IND_CTXT_DATA_NUM_REGS view"
    and "(c2h = 0) \<noteq> (dir = 0)"
  shows "fst (snd (qdma_s80_hard_qid2vec_conf b dir q (Some old) QDMA_HW_ACCESS_READ
      (snd (snd (qdma_s80_hard_qid2vec_conf b c2h hw_qid (Some qv) QDMA_HW_ACCESS_WRITE h))))) =
    fst (snd (qdma_s80_hard_qid2vec_conf b dir q (Some old) QDMA_HW_ACCESS_READ h))"
proof -
  obtain h1 w where w: "qdma_s80_hard_qid2vec_write b c2h hw_qid (Some qv) h = (0, h1)"
    "card_ram (view h1) = (card_ram (view h))(QDMA_CTXT_SEL_FMAP :=
      (card_ram (view h) QDMA_CTXT_SEL_FMAP)(ctxt_index hw_qid := w))"
    "w 0 = qdma_s80_hard_qid2vec_word c2h qv (card_ram (view h) QDMA_CTXT_SEL_FMAP (ctxt_index hw_qid) 0)"
    using s80_qid2vec_write [OF assms(1), of c2h hw_qid qv h] by blast
  have "qdma_s80_hard_qid2vec_of dir [card_ram (view h1) QDMA_CTXT_SEL_FMAP (ctxt_index q) 0] old =
      qdma_s80_hard_qid2vec_of dir [card_ram (view h) QDMA_CTXT_SEL_FMAP (ctxt_index q) 0] old"
    using w(2,3) qid2vec_other [OF assms(2)] by auto
  then show ?thesis
    using s80_qid2vec_read [OF assms(1), of dir q old h1] s80_qid2vec_read [OF assms(1), of dir q old h] w(1)
    by (auto simp: qdma_s80_hard_qid2vec_conf_def)
qed

lemma s80_vector_directions_witness:
  "fst (snd (qdma_s80_hard_qid2vec_conf s80_card 0 5 (Some \<lparr>qv_c2h_vector = 0, qv_c2h_en_coal = 0, qv_h2c_vector = 0,
        qv_h2c_en_coal = 0\<rparr>) QDMA_HW_ACCESS_READ
      (snd (snd (qdma_s80_hard_qid2vec_conf s80_card 1 5 (Some \<lparr>qv_c2h_vector = 4, qv_c2h_en_coal = 1,
        qv_h2c_vector = 2, qv_h2c_en_coal = 0\<rparr>) QDMA_HW_ACCESS_WRITE blank_card))))) =
    fst (snd (qdma_s80_hard_qid2vec_conf s80_card 0 5 (Some \<lparr>qv_c2h_vector = 0, qv_c2h_en_coal = 0, qv_h2c_vector = 0,
        qv_h2c_en_coal = 0\<rparr>) QDMA_HW_ACCESS_READ blank_card))"
  by (rule s80_vector_directions [OF s80_card_device]) simp

end
