(* ===== verification/Qdma_Descq.thy ===== *)
theory Qdma_Descq
  imports Qdma_Csr
begin

text \<open>
  Descriptor queues (\<open>qdma_descq.c\<close>, \<open>qdma_descq.h\<close>): the ring of descriptors of one queue, the list of requests
  waiting to be programmed (\<open>work_list\<close>) and of requests waiting for the card (\<open>pend_list\<close>), the routine that
  turns requests into descriptors and the routine that takes the card's completion status.

  Each function runs under the lock of the queue, so it is one step.  The card is \<open>'h\<close>: reading the
  status word it writes into host memory and writing a producer index are arguments of the model
  (\<open>descq_hw\<close>).  What leaves the queue is recorded in order: finished requests handed to their callback
  or to the waiting caller, unmapped pages, wake-ups.  Requests are values; a request is in at most
  one of the two lists.
\<close>

section \<open>Data\<close>

datatype queue_type_t = Q_H2C | Q_C2H | Q_CMPT | Q_H2C_C2H
datatype q_state_t = Q_STATE_DISABLED | Q_STATE_ENABLED | Q_STATE_ONLINE
datatype qdma_drv_mode = AUTO_MODE | POLL_MODE | DIRECT_INTR_MODE | INDIRECT_INTR_MODE | LEGACY_INTR_MODE

fun queue_type_code :: "queue_type_t \<Rightarrow> nat" where
  "queue_type_code Q_H2C = 0" | "queue_type_code Q_C2H = 1" | "queue_type_code Q_CMPT = 2" | "queue_type_code Q_H2C_C2H = 3"

definition S_DESC_F_DV :: nat where "S_DESC_F_DV = 28"
definition S_DESC_F_SOP :: nat where "S_DESC_F_SOP = 29"
definition S_DESC_F_EOP :: nat where "S_DESC_F_EOP = 30"
definition S_H2C_DESC_F_SOP :: u16 where "S_H2C_DESC_F_SOP = 1"
definition S_H2C_DESC_F_EOP :: u16 where "S_H2C_DESC_F_EOP = 2"
definition S_H2C_DESC_F_ZERO_CDH :: u16 where "S_H2C_DESC_F_ZERO_CDH = 13"
definition QDMA_DESC_BLEN_MAX :: u32 where "QDMA_DESC_BLEN_MAX = push_bit 28 1 - 1"
definition PAGE_SIZE :: u32 where "PAGE_SIZE = 4096"

text \<open>Descriptors in the ring, and the entries of a scatter-gather list.\<close>

record qdma_mm_desc =
  md_src_addr :: u64
  md_flag_len :: u32
  md_dst_addr :: u64

record qdma_h2c_desc =
  hd_cdh_flags :: u16
  hd_pld_len :: u16
  hd_len :: u16
  hd_flags :: u16
  hd_src_addr :: u64

record dma_sg =
  ds_pg :: u64
  ds_offset :: u32
  ds_len :: u32
  ds_dma_addr :: u64

text \<open>The driver's part of a request lives in \<open>req->opaque\<close>; the pointer \<open>cb->sg\<close> is an index of the list.\<close>

record qdma_sgt_req_cb =
  cb_desc_nr :: u32
  cb_offset :: u32
  cb_sg_offset :: u32
  cb_sg :: "nat option"
  cb_status :: int
  cb_done :: bool
  cb_unmap_needed :: bool

record descq_req =
  dr_uld_data :: u64
  dr_fp_done :: bool
  dr_timeout_ms :: u32
  dr_count :: u32
  dr_ep_addr :: u64
  dr_write :: bool
  dr_dma_mapped :: bool
  dr_check_qstate_disabled :: bool
  dr_sgl :: "dma_sg list"
  dr_cb :: qdma_sgt_req_cb

text \<open>The configuration of a queue: one-bit fields are \<open>bool\<close>, wider ones words of their width.\<close>

record qdma_queue_conf =
  qc_qidx :: "24 word"
  qc_st :: bool
  qc_q_type :: queue_type_t
  qc_irq_en :: bool
  qc_desc_rng_sz_idx :: "4 word"
  qc_wb_status_en :: bool
  qc_cmpl_status_acc_en :: bool
  qc_cmpl_status_pend_chk :: bool
  qc_desc_bypass :: bool
  qc_pfetch_en :: bool
  qc_fetch_credit :: bool
  qc_c2h_buf_sz_idx :: "4 word"
  qc_cmpl_rng_sz_idx :: "4 word"
  qc_cmpl_desc_sz :: "2 word"
  qc_cmpl_stat_en :: bool
  qc_cmpl_udd_en :: bool
  qc_cmpl_timer_idx :: "4 word"
  qc_cmpl_cnt_th_idx :: "4 word"
  qc_cmpl_trig_mode :: "3 word"
  qc_cmpl_en_intr :: bool
  qc_sw_desc_sz :: "2 word"
  qc_pfetch_bypass :: bool
  qc_cmpl_ovf_chk_dis :: bool
  qc_adaptive_rx :: bool
  qc_init_pidx_dis :: bool
  qc_mm_channel :: bool
  qc_ping_pong_en :: bool
  qc_aperture_size :: u32
  qc_pidx_acc :: u8
  qc_fp_descq_c2h_packet :: bool
  qc_fp_bypass_desc_fill :: bool
  qc_rngsz :: u32
  qc_rngsz_cmpt :: u32
  qc_c2h_bufsz :: u32

text \<open>\<open>dq_mm_desc\<close> and \<open>dq_h2c_desc\<close> are the two views of the memory at \<open>descq->desc\<close>; a queue uses one of them.
  \<open>dq_desc\<close> and \<open>dq_desc_cmpt\<close> say whether the memory of the rings is there.\<close>

record qdma_descq =
  dq_conf :: qdma_queue_conf
  dq_channel :: bool
  dq_q_state :: q_state_t
  dq_qidx_hw :: u32
  dq_color :: bool
  dq_proc_req_running :: bool
  dq_cmplthp :: bool
  dq_work_list :: "descq_req list"
  dq_work_req_pend :: u32
  dq_pend_list :: "descq_req list"
  dq_pend_list_empty :: bool
  dq_q_stop_wait :: bool
  dq_avail :: u32
  dq_pidx :: u32
  dq_cidx :: u32
  dq_credit :: u32
  dq_mm_desc :: "qdma_mm_desc list"
  dq_h2c_desc :: "qdma_h2c_desc list"
  dq_cmpt_entry_len :: u8
  dq_pidx_cmpt :: u32
  dq_cidx_cmpt :: u32
  dq_total_cmpl_descs :: u64
  dq_desc_pend :: u8
  dq_pidx_info :: qdma_q_pidx_reg_info
  dq_cmpt_cidx_info :: qdma_q_cmpt_cidx_reg_info
  dq_c2h_pend_pkt_moving_avg :: u32
  dq_c2h_pend_pkt_avg_thr_hi :: u32
  dq_c2h_pend_pkt_avg_thr_lo :: u32
  dq_sorted_c2h_cntr_idx :: u8
  dq_desc :: bool
  dq_desc_bus :: u64
  dq_desc_cmpt :: bool
  dq_desc_cmpt_bus :: u64
  dq_intr_id :: u32
  dq_cpu_assigned :: bool
  dq_intr_work_cpu :: u32
  dq_q_hndl :: u64

text \<open>What the queue functions use of the device structure and of the card, and what they emit.\<close>

datatype descq_event =
  Fp_done descq_req u32 int
| Wakeup descq_req
| Unmap "u64 list"
| Pend_list_wakeup
| Thread_wakeup

record 'h descq_env =
  de_drv_mode :: qdma_drv_mode
  de_total_mm_h2c_pkts :: u64
  de_total_mm_c2h_pkts :: u64
  de_total_st_h2c_pkts :: u64
  de_total_st_c2h_pkts :: u64
  de_card :: 'h
  de_events :: "descq_event list"

record 'h descq_hw =
  hw_cmpl_cidx :: "'h \<Rightarrow> u16 \<times> 'h"
  hw_queue_pidx_update :: "u8 \<Rightarrow> u16 \<Rightarrow> u8 \<Rightarrow> qdma_q_pidx_reg_info option \<Rightarrow> 'h \<Rightarrow> int \<times> 'h"
  hw_queue_cmpt_cidx_update :: "u8 \<Rightarrow> u16 \<Rightarrow> qdma_q_cmpt_cidx_reg_info option \<Rightarrow> 'h \<Rightarrow> int \<times> 'h"

definition emit :: "descq_event \<Rightarrow> 'h descq_env \<Rightarrow> 'h descq_env" where
  "emit v e = e\<lparr>de_events := de_events e @ [v]\<rparr>"

text \<open>The errors of the Linux kernel the queue functions return, negated.\<close>

definition EPERM :: int where "EPERM = 1"
definition ENXIO :: int where "ENXIO = 6"
definition EIO_K :: int where "EIO_K = 5"
definition ENOMEM_K :: int where "ENOMEM_K = 12"
definition EBUSY :: int where "EBUSY = 16"
definition ENODEV :: int where "ENODEV = 19"
definition EINVAL_K :: int where "EINVAL_K = 22"
definition ERANGE :: int where "ERANGE = 34"

section \<open>Ring indices\<close>

definition ring_idx_delta :: "u32 \<Rightarrow> u32 \<Rightarrow> u32 \<Rightarrow> u32" where
  "ring_idx_delta new old rngsz = (if new \<ge> old then new - old else new + (rngsz - old))"

definition ring_idx_incr :: "u32 \<Rightarrow> u32 \<Rightarrow> u32 \<Rightarrow> u32" where
  "ring_idx_incr idx cnt rngsz = (let idx = idx + cnt in if idx \<ge> rngsz then idx - rngsz else idx)"

definition ring_idx_decr :: "u32 \<Rightarrow> u32 \<Rightarrow> u32 \<Rightarrow> u32" where
  "ring_idx_decr idx cnt rngsz = (if idx \<ge> cnt then idx - cnt else rngsz - (cnt - idx))"

definition incr_pidx :: "u32 \<Rightarrow> u32 \<Rightarrow> u32 \<Rightarrow> u32" where
  "incr_pidx pidx incr_val ring_sz = (let pidx = pidx + incr_val in if pidx \<ge> ring_sz then pidx - ring_sz else pidx)"

section \<open>Requests\<close>

text \<open>Where in the scatter list the next byte of a request is: the entry and the offset in it.\<close>

fun sgl_find :: "u32 \<Rightarrow> u32 \<Rightarrow> nat \<Rightarrow> dma_sg list \<Rightarrow> (nat \<times> u32) option" where
  "sgl_find offset len i [] = None"
| "sgl_find offset len i (sg # sgs) =
     (let len = len + ds_len sg
      in if len = offset then Some (i + 1, 0)
         else if len > offset then Some (i, ds_len sg - (len - offset))
         else sgl_find offset len (i + 1) sgs)"

definition qdma_sgl_find_offset :: "descq_req \<Rightarrow> (nat \<times> u32) option" where
  "qdma_sgl_find_offset req =
     (if dr_count req = 0 then Some (0, 0)
      else case sgl_find (cb_offset (dr_cb req)) 0 0 (dr_sgl req) of
        None \<Rightarrow> None
      | Some (i, sg_offset) \<Rightarrow> if i < length (dr_sgl req) then Some (i, sg_offset) else None)"

definition qdma_work_queue_add :: "descq_req \<Rightarrow> qdma_descq \<Rightarrow> qdma_descq" where
  "qdma_work_queue_add req d = d\<lparr>dq_work_list := dq_work_list d @ [req], dq_work_req_pend := dq_work_req_pend d + 1\<rparr>"

text \<open>Its callers take the first request off the list.\<close>

definition qdma_work_queue_del :: "qdma_descq \<Rightarrow> qdma_descq" where
  "qdma_work_queue_del d = d\<lparr>dq_work_list := tl (dq_work_list d), dq_work_req_pend := dq_work_req_pend d - 1\<rparr>"

definition advance_req :: "u32 \<Rightarrow> u32 \<Rightarrow> u32 \<Rightarrow> nat option \<Rightarrow> descq_req \<Rightarrow> descq_req" where
  "advance_req num_desc data_cnt sg_offset sg req =
     req\<lparr>dr_cb := (dr_cb req)\<lparr>cb_desc_nr := cb_desc_nr (dr_cb req) + num_desc,
        cb_offset := cb_offset (dr_cb req) + data_cnt, cb_sg_offset := sg_offset, cb_sg := sg\<rparr>\<rparr>"

text \<open>\<open>req\<close> is the first request of the work list.\<close>

definition qdma_update_request :: "u32 \<Rightarrow> u32 \<Rightarrow> u32 \<Rightarrow> nat option \<Rightarrow> qdma_descq \<Rightarrow> qdma_descq" where
  "qdma_update_request num_desc data_cnt sg_offset sg d =
     (let req = advance_req num_desc data_cnt sg_offset sg (hd (dq_work_list d))
      in if cb_offset (dr_cb req) \<ge> dr_count req
         then (qdma_work_queue_del d)\<lparr>dq_pend_list := dq_pend_list d @ [req]\<rparr>
         else d\<lparr>dq_work_list := req # tl (dq_work_list d)\<rparr>)"

text \<open>Unmapping stops at the first entry without a page; the addresses given back are those of the pages.\<close>

fun sgl_unmap :: "dma_sg list \<Rightarrow> dma_sg list \<times> u64 list" where
  "sgl_unmap [] = ([], [])"
| "sgl_unmap (sg # sgs) =
     (if ds_pg sg = 0 then (sg # sgs, [])
      else case sgl_unmap sgs of (sgs', as) \<Rightarrow>
        if ds_dma_addr sg \<noteq> 0
        then (sg\<lparr>ds_dma_addr := 0\<rparr> # sgs', (ds_dma_addr sg - ucast (ds_offset sg)) # as)
        else (sg # sgs', as))"

section \<open>Completions\<close>

definition incr_cmpl_desc_cnt :: "u32 \<Rightarrow> qdma_descq \<Rightarrow> 'h descq_env \<Rightarrow> qdma_descq \<times> 'h descq_env" where
  "incr_cmpl_desc_cnt cnt d e =
     (d\<lparr>dq_total_cmpl_descs := dq_total_cmpl_descs d + ucast cnt\<rparr>,
      case ((if qc_st (dq_conf d) then 2 else 0) OR queue_type_code (qc_q_type (dq_conf d))) of
        0 \<Rightarrow> e\<lparr>de_total_mm_h2c_pkts := de_total_mm_h2c_pkts e + ucast cnt\<rparr>
      | Suc 0 \<Rightarrow> e\<lparr>de_total_mm_c2h_pkts := de_total_mm_c2h_pkts e + ucast cnt\<rparr>
      | Suc (Suc 0) \<Rightarrow> e\<lparr>de_total_st_h2c_pkts := de_total_st_h2c_pkts e + ucast cnt\<rparr>
      | Suc (Suc (Suc 0)) \<Rightarrow> e\<lparr>de_total_st_c2h_pkts := de_total_st_c2h_pkts e + ucast cnt\<rparr>
      | _ \<Rightarrow> e)"

definition st_c2h :: "qdma_queue_conf \<Rightarrow> bool" where
  "st_c2h conf \<longleftrightarrow> qc_st conf \<and> qc_q_type conf = Q_C2H"

text \<open>\<open>req\<close> has just been taken off its list.\<close>

definition qdma_sgt_req_done :: "descq_req \<Rightarrow> int \<Rightarrow> qdma_descq \<Rightarrow> 'h descq_env \<Rightarrow> qdma_descq \<times> 'h descq_env" where
  "qdma_sgt_req_done req error d e =
     (let (req, e) =
        (if cb_unmap_needed (dr_cb req)
         then case sgl_unmap (dr_sgl req) of (sgl, as) \<Rightarrow>
           (req\<lparr>dr_sgl := sgl, dr_cb := (dr_cb req)\<lparr>cb_unmap_needed := False\<rparr>\<rparr>, emit (Unmap as) e)
         else (req, e));
        error = (if dr_fp_done req \<and> cb_offset (dr_cb req) \<noteq> dr_count req \<and> \<not> st_c2h (dq_conf d) then - EINVAL_K else error);
        req = req\<lparr>dr_cb := (dr_cb req)\<lparr>cb_status := error, cb_done := True\<rparr>\<rparr>;
        e = emit (if dr_fp_done req then Fp_done req (cb_offset (dr_cb req)) error else Wakeup req) e
      in if qc_fp_descq_c2h_packet (dq_conf d) then (d\<lparr>dq_pend_list_empty := True\<rparr>, e)
         else let empty = (if st_c2h (dq_conf d) then dq_avail d = 0 else dq_avail d = qc_rngsz (dq_conf d) - 1)
           in (d\<lparr>dq_pend_list_empty := empty\<rparr>, if dq_q_stop_wait d \<and> empty then emit Pend_list_wakeup e else e))"

text \<open>The loop over the pending requests: \<open>cr\<close> descriptors are to be accounted to them, oldest first.\<close>

fun complete_reqs :: "descq_req list \<Rightarrow> u32 \<Rightarrow> qdma_descq \<Rightarrow> 'h descq_env \<Rightarrow> u32 \<times> qdma_descq \<times> 'h descq_env" where
  "complete_reqs [] cr d e = (cr, d\<lparr>dq_pend_list := []\<rparr>, e)"
| "complete_reqs (req # reqs) cr d e =
     (if cr \<ge> cb_desc_nr (dr_cb req) then
        case qdma_sgt_req_done req 0 (d\<lparr>dq_pend_list := reqs\<rparr>) e of (d, e) \<Rightarrow>
          let cr = cr - cb_desc_nr (dr_cb req) in if cr = 0 then (cr, d, e) else complete_reqs reqs cr d e
      else (0, d\<lparr>dq_pend_list := req\<lparr>dr_cb := (dr_cb req)\<lparr>cb_desc_nr := cb_desc_nr (dr_cb req) - cr\<rparr>\<rparr> # reqs\<rparr>, e))"

text \<open>\<open>queue_pidx_update\<close>: the function of the access table, called for a physical function.\<close>

definition queue_pidx_update :: "'h descq_hw \<Rightarrow> qdma_descq \<Rightarrow> 'h descq_env \<Rightarrow> int \<times> 'h descq_env" where
  "queue_pidx_update hw d e =
     (case hw_queue_pidx_update hw 0 (ucast (qc_qidx (dq_conf d))) (of_nat (queue_type_code (qc_q_type (dq_conf d))))
        (Some (dq_pidx_info d)) (de_card e) of (rv, h) \<Rightarrow> (rv, e\<lparr>de_card := h\<rparr>))"

definition queue_cmpt_cidx_update :: "'h descq_hw \<Rightarrow> qdma_descq \<Rightarrow> 'h descq_env \<Rightarrow> int \<times> 'h descq_env" where
  "queue_cmpt_cidx_update hw d e =
     (case hw_queue_cmpt_cidx_update hw 0 (ucast (qc_qidx (dq_conf d))) (Some (dq_cmpt_cidx_info d)) (de_card e) of
        (rv, h) \<Rightarrow> (rv, e\<lparr>de_card := h\<rparr>))"

definition qdma_pidx_update :: "'h descq_hw \<Rightarrow> bool \<Rightarrow> qdma_descq \<Rightarrow> 'h descq_env \<Rightarrow> int \<times> qdma_descq \<times> 'h descq_env" where
  "qdma_pidx_update hw force d e =
     (let desc_avail_max = qc_rngsz (dq_conf d) - 1
      in if force \<or> dq_avail d > desc_avail_max - ucast (qc_pidx_acc (dq_conf d)) \<or> \<not> dq_desc_pend d < qc_pidx_acc (dq_conf d)
         then case queue_pidx_update hw d e of (ret, e) \<Rightarrow>
           if ret < 0 then (- EINVAL_K, d, e) else (ret, d\<lparr>dq_desc_pend := 0\<rparr>, e)
         else (0, d, e))"

definition descq_mm_n_h2c_cmpl_status :: "'h descq_hw \<Rightarrow> qdma_descq \<Rightarrow> 'h descq_env \<Rightarrow> qdma_descq \<times> 'h descq_env" where
  "descq_mm_n_h2c_cmpl_status hw d e =
     (if dq_pidx d = dq_cidx d then (d, e)
      else
        let cidx = dq_cidx d;
            (status, h) = hw_cmpl_cidx hw (de_card e);
            cidx_hw = ucast status :: u32;
            e = e\<lparr>de_card := h\<rparr>
        in if cidx_hw = cidx then (d, e)
           else
             let cr = (if cidx_hw < cidx then (qc_rngsz (dq_conf d) - cidx) + cidx_hw else cidx_hw - cidx);
                 d = d\<lparr>dq_cidx := cidx_hw, dq_avail := dq_avail d + cr, dq_credit := dq_credit d + cr\<rparr>;
                 (d, e) = incr_cmpl_desc_cnt cr d e;
                 (cr, d, e) = complete_reqs (dq_pend_list d) (dq_credit d) d e;
                 d = d\<lparr>dq_credit := cr\<rparr>;
                 (rv, d, e) = qdma_pidx_update hw True d e
             in (d, e))"

definition descq_poll_mm_n_h2c_cmpl_status :: "'h descq_hw \<Rightarrow> qdma_descq \<Rightarrow> 'h descq_env \<Rightarrow> qdma_descq \<times> 'h descq_env" where
  "descq_poll_mm_n_h2c_cmpl_status hw d e =
     (if de_drv_mode e = POLL_MODE \<or> de_drv_mode e = AUTO_MODE
      then descq_mm_n_h2c_cmpl_status hw (d\<lparr>dq_proc_req_running := True\<rparr>) e
      else (d, e))"

end
