(* ===== verification/Qdma_Descq_Run.thy ===== *)
theory Qdma_Descq_Run
  imports Qdma_Descq
begin

text \<open>
  From requests to descriptors (\<open>descq_mm_proc_request\<close>, \<open>descq_proc_st_h2c_request\<close>,
  \<open>descq_proc_st_h2c_request_qep\<close>) and the functions around them.  The loop over the work list may not
  end (a request whose scatter list is too short, a client that fills no descriptor), so it is a
  partial function: \<open>None\<close> is a loop that never ends.

  \<open>bypass\<close> is the client's \<open>fp_bypass_desc_fill\<close>, when the queue has one: it fills descriptors itself and
  returns how many.
\<close>

section \<open>Filling descriptors\<close>

text \<open>
  The locals of the two fill loops.  \<open>fl_last\<close> is the slot written last (\<open>desc_end\<close>, null before the
  first), \<open>fl_room\<close> in the functions below is \<open>desc_max - desc_cnt\<close>.
\<close>

record 'd fill =
  fl_ring :: "'d list"
  fl_pidx :: u32
  fl_cnt :: u32
  fl_data :: u32
  fl_ep_addr :: u64
  fl_sg_offset :: u32
  fl_last :: "nat option"

text \<open>One turn of \<open>do { ... } while (tlen)\<close> writes a descriptor and says how many bytes it covers.\<close>

type_synonym 'd fill_step = "u64 \<Rightarrow> u32 \<Rightarrow> 'd fill \<Rightarrow> u32 \<times> 'd fill"

text \<open>The do loop over one entry of the scatter list, entered with room for a descriptor.\<close>

fun segment_loop :: "'d fill_step \<Rightarrow> nat \<Rightarrow> u64 \<Rightarrow> u32 \<Rightarrow> 'd fill \<Rightarrow> nat \<times> u32 \<times> 'd fill" where
  "segment_loop step 0 src_addr tlen f = (0, tlen, f)"
| "segment_loop step (Suc room) src_addr tlen f =
     (case step src_addr tlen f of (len, f) \<Rightarrow>
        let src_addr = src_addr + ucast len; tlen = tlen - len
        in if room = 0 \<or> tlen = 0 then (room, tlen, f) else segment_loop step room src_addr tlen f)"

text \<open>The loop over the entries from number \<open>i\<close> on; it returns the number of the entry it stopped at.\<close>

fun sgl_loop :: "(nat \<Rightarrow> 'd fill_step) \<Rightarrow> nat \<Rightarrow> nat \<Rightarrow> dma_sg list \<Rightarrow> 'd fill \<Rightarrow> nat \<times> 'd fill" where
  "sgl_loop step room i [] f = (i, f)"
| "sgl_loop step room i (sg # sgs) f =
     (if room = 0 then (i, f)
      else
        let sg_offset = fl_sg_offset f;
            (room, tlen, f) = segment_loop (step i) room (ds_dma_addr sg + ucast sg_offset) (ds_len sg - sg_offset)
              (f\<lparr>fl_sg_offset := 0\<rparr>)
        in sgl_loop step room (i + 1) sgs (if tlen = 0 then f\<lparr>fl_sg_offset := 0\<rparr> else f))"

section \<open>Memory-mapped transfers\<close>

definition aperture_of :: "qdma_queue_conf \<Rightarrow> u32" where
  "aperture_of conf = (if qc_aperture_size conf \<noteq> 0 then qc_aperture_size conf else QDMA_DESC_BLEN_MAX)"

definition keyhole_en :: "qdma_queue_conf \<Rightarrow> bool" where
  "keyhole_en conf \<longleftrightarrow> qc_aperture_size conf \<noteq> 0"

text \<open>The card address a pass starts at.\<close>

definition first_ep_addr :: "qdma_queue_conf \<Rightarrow> descq_req \<Rightarrow> u64" where
  "first_ep_addr conf req =
     (if \<not> keyhole_en conf then dr_ep_addr req + ucast (cb_offset (dr_cb req))
      else dr_ep_addr req + ucast (cb_offset (dr_cb req) AND (aperture_of conf - 1)))"

text \<open>Card address and length of the next descriptor: in keyhole mode it stays inside the aperture.\<close>

definition mm_chunk :: "qdma_queue_conf \<Rightarrow> u64 \<Rightarrow> u64 \<Rightarrow> u32 \<Rightarrow> u64 \<times> u32" where
  "mm_chunk conf req_ep ep_addr tlen =
     (let len = min tlen (aperture_of conf);
          ep_addr_max = req_ep + ucast (aperture_of conf) - 1
      in if keyhole_en conf then
           let ep_addr = (if ep_addr > ep_addr_max then req_ep else ep_addr)
           in (ep_addr, if ep_addr + ucast len > ep_addr_max then ucast (ep_addr_max - ep_addr + 1) else len)
         else (ep_addr, len))"

definition mm_desc_of :: "qdma_queue_conf \<Rightarrow> u64 \<Rightarrow> u64 \<Rightarrow> u32 \<Rightarrow> qdma_mm_desc" where
  "mm_desc_of conf ep_addr host_addr len =
     (if qc_q_type conf = Q_C2H
      then \<lparr>md_src_addr = ep_addr, md_flag_len = len OR push_bit S_DESC_F_DV 1, md_dst_addr = host_addr\<rparr>
      else \<lparr>md_src_addr = host_addr, md_flag_len = len OR push_bit S_DESC_F_DV 1, md_dst_addr = ep_addr\<rparr>)"

text \<open>Writing a slot moves the producer index, around the end of the ring.\<close>

definition put_desc :: "u32 \<Rightarrow> 'd \<Rightarrow> u32 \<Rightarrow> 'd fill \<Rightarrow> 'd fill" where
  "put_desc rngsz desc len f =
     f\<lparr>fl_ring := (fl_ring f)[unat (fl_pidx f) := desc],
       fl_last := Some (unat (fl_pidx f)),
       fl_pidx := (if fl_pidx f + 1 = rngsz then 0 else fl_pidx f + 1),
       fl_cnt := fl_cnt f + 1, fl_data := fl_data f + len, fl_sg_offset := fl_sg_offset f + len\<rparr>"

definition mm_step :: "qdma_queue_conf \<Rightarrow> u64 \<Rightarrow> qdma_mm_desc fill_step" where
  "mm_step conf req_ep src_addr tlen f =
     (case mm_chunk conf req_ep (fl_ep_addr f) tlen of (ep_addr, len) \<Rightarrow>
        (len, (put_desc (qc_rngsz conf) (mm_desc_of conf ep_addr src_addr len) len f)\<lparr>fl_ep_addr := ep_addr + ucast len\<rparr>))"

definition or_flag :: "nat \<Rightarrow> nat \<Rightarrow> qdma_mm_desc list \<Rightarrow> qdma_mm_desc list" where
  "or_flag i flag ring = ring[i := (ring ! i)\<lparr>md_flag_len := md_flag_len (ring ! i) OR push_bit flag 1\<rparr>]"

text \<open>Descriptors for the rest of a request, as many as \<open>desc_max\<close> allows.\<close>

definition mm_fill :: "qdma_descq \<Rightarrow> descq_req \<Rightarrow> u32 \<Rightarrow> nat \<Rightarrow> u32 \<Rightarrow> nat \<times> qdma_mm_desc fill" where
  "mm_fill d req desc_max i sg_offset =
     sgl_loop (\<lambda>_. mm_step (dq_conf d) (dr_ep_addr req)) (unat desc_max) i (drop i (dr_sgl req))
       \<lparr>fl_ring = dq_mm_desc d, fl_pidx = dq_pidx d, fl_cnt = 0, fl_data = 0,
        fl_ep_addr = first_ep_addr (dq_conf d) req, fl_sg_offset = sg_offset, fl_last = None\<rparr>"

text \<open>The tail of a turn of the work loop: flags on the first and the last descriptor, then the request
  and the ring state.\<close>

definition mm_issue :: "qdma_descq \<Rightarrow> descq_req \<Rightarrow> nat \<Rightarrow> nat \<Rightarrow> qdma_mm_desc fill \<Rightarrow> qdma_descq" where
  "mm_issue d req i desc_end f =
     (let ring = or_flag (unat (dq_pidx d)) S_DESC_F_SOP (or_flag desc_end S_DESC_F_EOP (fl_ring f));
          finished = (i = length (dr_sgl req));
          d = qdma_update_request (fl_cnt f) (fl_data f) (if finished then 0 else fl_sg_offset f)
            (if finished then None else Some i) (d\<lparr>dq_mm_desc := ring\<rparr>)
      in d\<lparr>dq_pidx := fl_pidx f, dq_avail := dq_avail d - fl_cnt f\<rparr>)"

type_synonym bypass_fill = "(qdma_descq \<Rightarrow> descq_req \<Rightarrow> int \<times> qdma_descq) option"

definition consumed_by :: "int \<Rightarrow> u32" where
  "consumed_by n = (if n > 0 then of_int n else 0)"

text \<open>The work loop of \<open>descq_mm_proc_request\<close>.\<close>

partial_function (option) mm_work_loop ::
    "'h descq_hw \<Rightarrow> bypass_fill \<Rightarrow> u32 \<Rightarrow> qdma_descq \<Rightarrow> 'h descq_env \<Rightarrow> (u32 \<times> qdma_descq \<times> 'h descq_env) option" where
  "mm_work_loop hw bypass desc_written d e =
     (case dq_work_list d of
        [] \<Rightarrow> Some (desc_written, d, e)
      | req # reqs \<Rightarrow>
          let (d, e) = (if dq_avail d = 0 then descq_poll_mm_n_h2c_cmpl_status hw d e else (d, e));
              desc_max = dq_avail d
          in if desc_max = 0 then Some (desc_written, d, e)
             else (case bypass of
               Some fill \<Rightarrow>
                 let (n, d) = fill d req in mm_work_loop hw bypass (desc_written + consumed_by n) d e
             | None \<Rightarrow>
                 (case qdma_sgl_find_offset req of
                    None \<Rightarrow> mm_work_loop hw bypass desc_written (qdma_update_request 0 0 0 None d) e
                  | Some (i, sg_offset) \<Rightarrow>
                      let (i, f) = mm_fill d req desc_max i sg_offset
                      in (case fl_last f of
                            None \<Rightarrow> Some (desc_written, d, e)
                          | Some desc_end \<Rightarrow>
                              mm_work_loop hw bypass (desc_written + fl_cnt f) (mm_issue d req i desc_end f) e))))"

declare mm_work_loop.simps [code]

text \<open>The end of the request functions: tell the card and look for completions.\<close>

definition mm_submit :: "'h descq_hw \<Rightarrow> u32 \<Rightarrow> qdma_descq \<Rightarrow> 'h descq_env \<Rightarrow> int \<times> qdma_descq \<times> 'h descq_env" where
  "mm_submit hw desc_written d e =
     (if desc_written \<noteq> 0 then
        let d = d\<lparr>dq_pend_list_empty := False, dq_pidx_info := (dq_pidx_info d)\<lparr>pi_pidx := ucast (dq_pidx d)\<rparr>\<rparr>;
            (rv, e) = queue_pidx_update hw d e
        in if rv < 0 then (- EINVAL_K, d, e)
           else case descq_poll_mm_n_h2c_cmpl_status hw d e of (d, e) \<Rightarrow>
             (0, d\<lparr>dq_proc_req_running := False\<rparr>, if dq_cmplthp d then emit Thread_wakeup e else e)
      else (0, d\<lparr>dq_proc_req_running := False\<rparr>, e))"

definition descq_mm_proc_request ::
    "'h descq_hw \<Rightarrow> bypass_fill \<Rightarrow> qdma_descq \<Rightarrow> 'h descq_env \<Rightarrow> (int \<times> qdma_descq \<times> 'h descq_env) option" where
  "descq_mm_proc_request hw bypass d e =
     (if dq_q_stop_wait d then (case descq_mm_n_h2c_cmpl_status hw d e of (d, e) \<Rightarrow> Some (0, d, e))
      else if dq_q_state d \<noteq> Q_STATE_ONLINE then Some (0, d, e)
      else if dq_proc_req_running d then Some (0, d, e)
      else case descq_poll_mm_n_h2c_cmpl_status hw d e of (d, e) \<Rightarrow>
        (case mm_work_loop hw bypass 0 d e of
           None \<Rightarrow> None
         | Some (desc_written, d, e) \<Rightarrow> Some (mm_submit hw desc_written d e)))"

section \<open>Streams to the card\<close>

definition pktsz_of :: "descq_req \<Rightarrow> u32" where
  "pktsz_of req = (if dr_ep_addr req \<noteq> 0 then min (ucast (dr_ep_addr req)) PAGE_SIZE else PAGE_SIZE)"

definition clear_flags :: "qdma_h2c_desc \<Rightarrow> qdma_h2c_desc" where
  "clear_flags desc = desc\<lparr>hd_flags := 0, hd_cdh_flags := 0\<rparr>"

text \<open>
  The flags of a slot are cleared when the slot before it has been written, except at the start of
  the ring.
\<close>

definition st_step :: "qdma_queue_conf \<Rightarrow> descq_req \<Rightarrow> nat \<Rightarrow> qdma_h2c_desc fill_step" where
  "st_step conf req i src_addr tlen f =
     (let len = min tlen (pktsz_of req);
          old = fl_ring f ! unat (fl_pidx f);
          flags = hd_flags old OR (if qc_desc_bypass conf \<and> i = 0 then S_H2C_DESC_F_SOP else 0)
            OR (if qc_desc_bypass conf \<and> i = length (dr_sgl req) - 1 then S_H2C_DESC_F_EOP else 0);
          f = put_desc (qc_rngsz conf) \<lparr>hd_cdh_flags = hd_cdh_flags old OR S_H2C_DESC_F_ZERO_CDH,
            hd_pld_len = ucast len, hd_len = ucast len, hd_flags = flags, hd_src_addr = src_addr\<rparr> len f;
          next = unat (fl_pidx f)
      in (len, if next = 0 then f else f\<lparr>fl_ring := (fl_ring f)[next := clear_flags (fl_ring f ! next)]\<rparr>))"

definition st_fill :: "qdma_descq \<Rightarrow> descq_req \<Rightarrow> u32 \<Rightarrow> nat \<Rightarrow> u32 \<Rightarrow> nat \<times> qdma_h2c_desc fill" where
  "st_fill d req desc_max i sg_offset =
     (let first = unat (dq_pidx d) in
      sgl_loop (st_step (dq_conf d) req) (unat desc_max) i (drop i (dr_sgl req))
       \<lparr>fl_ring = (dq_h2c_desc d)[first := clear_flags (dq_h2c_desc d ! first)], fl_pidx = dq_pidx d, fl_cnt = 0,
        fl_data = 0, fl_ep_addr = 0, fl_sg_offset = sg_offset, fl_last = None\<rparr>)"

definition st_issue :: "qdma_descq \<Rightarrow> descq_req \<Rightarrow> nat \<Rightarrow> qdma_h2c_desc fill \<Rightarrow> qdma_descq" where
  "st_issue d req i f =
     (let finished = (i = length (dr_sgl req));
          d = qdma_update_request (fl_cnt f) (fl_data f) (if finished then 0 else fl_sg_offset f)
            (if finished then None else Some i) (d\<lparr>dq_h2c_desc := fl_ring f\<rparr>)
      in d\<lparr>dq_pidx := fl_pidx f, dq_avail := dq_avail d - fl_cnt f\<rparr>)"

partial_function (option) st_work_loop ::
    "'h descq_hw \<Rightarrow> bypass_fill \<Rightarrow> u32 \<Rightarrow> qdma_descq \<Rightarrow> 'h descq_env \<Rightarrow> (u32 \<times> qdma_descq \<times> 'h descq_env) option" where
  "st_work_loop hw bypass desc_written d e =
     (case dq_work_list d of
        [] \<Rightarrow> Some (desc_written, d, e)
      | req # reqs \<Rightarrow>
          let (d, e) = (if dq_avail d = 0 then descq_poll_mm_n_h2c_cmpl_status hw d e else (d, e));
              desc_max = dq_avail d
          in if desc_max = 0 then Some (desc_written, d, e)
             else (case bypass of
               Some fill \<Rightarrow>
                 let (n, d) = fill d req; desc_cnt = consumed_by n
                 in if desc_cnt = 0 then Some (desc_written, d, e)
                    else st_work_loop hw bypass (desc_written + desc_cnt) d e
             | None \<Rightarrow>
                 (case qdma_sgl_find_offset req of
                    None \<Rightarrow> st_work_loop hw bypass desc_written (qdma_update_request 0 0 0 None d) e
                  | Some (i, sg_offset) \<Rightarrow>
                      let (i, f) = st_fill d req desc_max i sg_offset; d = st_issue d req i f
                      in if fl_cnt f = 0 then Some (desc_written, d, e)
                         else st_work_loop hw bypass (desc_written + fl_cnt f) d e)))"

declare st_work_loop.simps [code]

text \<open>The time stamp of the ping-pong test, written into the packet, is not modelled.\<close>

definition descq_proc_st_h2c_request ::
    "'h descq_hw \<Rightarrow> bypass_fill \<Rightarrow> qdma_descq \<Rightarrow> 'h descq_env \<Rightarrow> (int \<times> qdma_descq \<times> 'h descq_env) option" where
  "descq_proc_st_h2c_request hw bypass d e =
     (if dq_q_stop_wait d then (case descq_mm_n_h2c_cmpl_status hw d e of (d, e) \<Rightarrow> Some (0, d, e))
      else if dq_q_state d \<noteq> Q_STATE_ONLINE then Some (0, d, e)
      else if dq_proc_req_running d then Some (0, d, e)
      else case descq_poll_mm_n_h2c_cmpl_status hw d e of (d, e) \<Rightarrow>
        (case st_work_loop hw bypass 0 d e of
           None \<Rightarrow> None
         | Some (desc_written, d, e) \<Rightarrow> Some (mm_submit hw desc_written d e)))"

text \<open>
  The fast path with a client that fills descriptors.  \<open>qep_fill\<close> is the loop at \<open>setup_desc\<close>; \<open>busy\<close> says
  that the lock could not be taken.  \<open>desc_cnt\<close> is unsigned, so a negative answer counts as a large
  number; \<open>desc_pend\<close> is a byte.
\<close>

partial_function (option) qep_fill ::
    "(qdma_descq \<Rightarrow> descq_req \<Rightarrow> int \<times> qdma_descq) \<Rightarrow> u32 \<Rightarrow> qdma_descq \<Rightarrow> (u32 \<times> qdma_descq) option" where
  "qep_fill fill desc_written d =
     (if dq_work_req_pend d \<noteq> 0 \<and> dq_avail d \<noteq> 0 then
        let (n, d) = fill d (hd (dq_work_list d)); desc_cnt = of_int n :: u32
        in if desc_cnt = 0 then Some (desc_written, d)
           else if desc_written + desc_cnt \<ge> ucast (qc_pidx_acc (dq_conf d)) then Some (desc_written + desc_cnt, d)
           else qep_fill fill (desc_written + desc_cnt) d
      else Some (desc_written, d))"

text \<open>\<open>entry\<close> tells a call of the function from a jump to \<open>setup_desc\<close>.  The lock is free in the inner call.\<close>

partial_function (option) qep_setup ::
    "'h descq_hw \<Rightarrow> (qdma_descq \<Rightarrow> descq_req \<Rightarrow> int \<times> qdma_descq) \<Rightarrow> bool \<Rightarrow> qdma_descq \<Rightarrow> 'h descq_env \<Rightarrow>
      (int \<times> qdma_descq \<times> 'h descq_env) option" where
  "qep_setup hw fill entry d e =
     (if entry \<and> dq_q_stop_wait d then (case descq_mm_n_h2c_cmpl_status hw d e of (d, e) \<Rightarrow> Some (0, d, e))
      else if entry \<and> dq_q_state d \<noteq> Q_STATE_ONLINE then Some (0, d, e)
      else (case qep_fill fill 0 d of
        None \<Rightarrow> None
      | Some (desc_written, d) \<Rightarrow>
          if desc_written = 0 then
            if dq_work_req_pend d \<noteq> 0 \<and> dq_avail d = qc_rngsz (dq_conf d) - 1
            then Option.bind (qep_setup hw fill True d e) (\<lambda>(rv, d, e). Some (0, d, e))
            else Some (0, d, e)
          else
            let d = d\<lparr>dq_desc_pend := dq_desc_pend d + ucast desc_written,
                  dq_pidx_info := (dq_pidx_info d)\<lparr>pi_pidx := ucast (dq_pidx d)\<rparr>\<rparr>;
                (ret, d, e) = qdma_pidx_update hw False d e
            in if ret < 0 then Some (- EINVAL_K, d, e)
               else if dq_work_req_pend d \<noteq> 0 \<and> desc_written \<ge> ucast (qc_pidx_acc (dq_conf d)) then qep_setup hw fill False d e
               else Some (ret, d, e)))"

declare qep_fill.simps [code] qep_setup.simps [code]

definition descq_proc_st_h2c_request_qep ::
    "'h descq_hw \<Rightarrow> bool \<Rightarrow> (qdma_descq \<Rightarrow> descq_req \<Rightarrow> int \<times> qdma_descq) \<Rightarrow> qdma_descq \<Rightarrow> 'h descq_env \<Rightarrow>
      (int \<times> qdma_descq \<times> 'h descq_env) option" where
  "descq_proc_st_h2c_request_qep hw busy fill d e = (if busy then Some (0, d, e) else qep_setup hw fill True d e)"

section \<open>Entry points\<close>

definition qdma_descq_proc_sgt_request ::
    "'h descq_hw \<Rightarrow> bool \<Rightarrow> bypass_fill \<Rightarrow> qdma_descq \<Rightarrow> 'h descq_env \<Rightarrow> (int \<times> qdma_descq \<times> 'h descq_env) option" where
  "qdma_descq_proc_sgt_request hw busy bypass d e =
     (let used = (if qc_desc_bypass (dq_conf d) then bypass else None) in
      if \<not> qc_st (dq_conf d) then descq_mm_proc_request hw used d e
      else if qc_q_type (dq_conf d) = Q_H2C then
        (case used of
           Some fill \<Rightarrow> if de_drv_mode e = DIRECT_INTR_MODE then descq_proc_st_h2c_request_qep hw busy fill d e
             else descq_proc_st_h2c_request hw used d e
         | None \<Rightarrow> descq_proc_st_h2c_request hw used d e)
      else Some (- EINVAL_K, d, e))"

text \<open>
  Service of a queue, from an interrupt or a polling thread.  \<open>recv\<close> stands for
  \<open>descq_process_completion_st_c2h\<close>, which takes received packets.
\<close>

definition qdma_descq_service_cmpl_update ::
    "'h descq_hw \<Rightarrow> bool \<Rightarrow> bypass_fill \<Rightarrow> (qdma_descq \<Rightarrow> 'h descq_env \<Rightarrow> int \<times> qdma_descq \<times> 'h descq_env) \<Rightarrow>
      qdma_descq \<Rightarrow> 'h descq_env \<Rightarrow> (int \<times> qdma_descq \<times> 'h descq_env) option" where
  "qdma_descq_service_cmpl_update hw busy bypass recv d e =
     (if st_c2h (dq_conf d) then
        if dq_q_state d = Q_STATE_ONLINE then Some (recv d e) else Some (- EINVAL_K, d, e)
      else if de_drv_mode e = POLL_MODE \<or> de_drv_mode e = AUTO_MODE then
        if \<not> dq_proc_req_running d
        then (case qdma_descq_proc_sgt_request hw busy bypass d e of None \<Rightarrow> None | Some (rv, d, e) \<Rightarrow> Some (0, d, e))
        else Some (0, d, e)
      else case descq_mm_n_h2c_cmpl_status hw d e of (d, e) \<Rightarrow>
        if dq_work_req_pend d \<noteq> 0 \<or> dq_desc_pend d \<noteq> 0 then qdma_descq_proc_sgt_request hw busy bypass d e
        else Some (0, d, e))"

text \<open>Descriptors for a client that fills them itself: \<open>first\<close> is the slot they start at.\<close>

definition qdma_q_desc_get :: "'h descq_hw \<Rightarrow> u32 \<Rightarrow> qdma_descq \<Rightarrow> 'h descq_env \<Rightarrow> int \<times> nat option \<times> qdma_descq \<times> 'h descq_env" where
  "qdma_q_desc_get hw desc_cnt d e =
     (if desc_cnt \<ge> qc_rngsz (dq_conf d) then (- EINVAL_K, None, d, e)
      else case (if dq_avail d < desc_cnt then descq_mm_n_h2c_cmpl_status hw d e else (d, e)) of (d, e) \<Rightarrow>
        if dq_avail d < desc_cnt then (- EBUSY, None, d, e)
        else (0, Some (unat (dq_pidx d)),
          d\<lparr>dq_pidx := incr_pidx (dq_pidx d) desc_cnt (qc_rngsz (dq_conf d)), dq_avail := dq_avail d - desc_cnt\<rparr>, e))"

end
