(* ===== verification/Qdma_Descq_Fill.thy ===== *)
theory Qdma_Descq_Fill
  imports Qdma_Descq_Run
begin

text \<open>
  What a pass over a request leaves in the ring of a memory-mapped queue.  A descriptor stands for pairs
  of a host address and a card address (\<open>desc_bytes\<close>), a request for such pairs too (\<open>req_bytes\<close>); a pass
  writes the pairs the request still needs, in order, into the free slots behind the producer index
  and touches no other slot.
\<close>

section \<open>The bytes of a request\<close>

text \<open>Card address of byte \<open>k\<close>: in keyhole mode the addresses run around the aperture.\<close>

definition card_addr :: "qdma_queue_conf \<Rightarrow> u64 \<Rightarrow> nat \<Rightarrow> u64" where
  "card_addr conf ep k = ep + of_nat (if keyhole_en conf then k mod unat (aperture_of conf) else k)"

definition host_bytes :: "dma_sg list \<Rightarrow> u64 list" where
  "host_bytes sgl = concat (map (\<lambda>sg. map (\<lambda>k. ds_dma_addr sg + of_nat k) [0..<unat (ds_len sg)]) sgl)"

definition req_bytes :: "qdma_queue_conf \<Rightarrow> descq_req \<Rightarrow> (u64 \<times> u64) list" where
  "req_bytes conf req =
     (let hs = host_bytes (dr_sgl req) in zip hs (map (card_addr conf (dr_ep_addr req)) [0..<length hs]))"

definition desc_bytes :: "qdma_queue_conf \<Rightarrow> qdma_mm_desc \<Rightarrow> (u64 \<times> u64) list" where
  "desc_bytes conf md =
     (let (host, card) = (if qc_q_type conf = Q_C2H then (md_dst_addr md, md_src_addr md) else (md_src_addr md, md_dst_addr md))
      in map (\<lambda>k. (host + of_nat k, card + of_nat k)) [0..<unat (md_flag_len md AND QDMA_DESC_BLEN_MAX)])"

text \<open>The aperture sizes \<open>qdma_queue_start\<close> lets through and a descriptor can hold.\<close>

definition aperture_ok :: "qdma_queue_conf \<Rightarrow> u64 \<Rightarrow> bool" where
  "aperture_ok conf ep \<longleftrightarrow>
     (keyhole_en conf \<longrightarrow> (\<exists>m < 28. qc_aperture_size conf = 2 ^ m) \<and> unat ep + 2 * unat (aperture_of conf) < 2 ^ 64)"

lemma unat_power_u32:
  assumes "m < 32"
  shows "unat (2 ^ m :: u32) = 2 ^ m"
proof -
  have "(2 :: nat) ^ m < 2 ^ 32" using assms by (rule power_strict_increasing) simp
  then have "unat (of_nat (2 ^ m) :: u32) = 2 ^ m" using assms by (simp add: unsigned_of_nat take_bit_nat_eq_self del: of_nat_power)
  then show ?thesis by simp
qed

lemma unat_Suc_u64: "unat x < 2 ^ 63 \<Longrightarrow> unat (x + 1 :: u64) = Suc (unat x)"
  by (simp add: unat_word_ariths)

lemma blen_max: "QDMA_DESC_BLEN_MAX = mask 28"
  by (simp add: QDMA_DESC_BLEN_MAX_def mask_eq_decr_exp)

lemma unat_blen_max: "unat QDMA_DESC_BLEN_MAX = 2 ^ 28 - 1"
  by (simp add: QDMA_DESC_BLEN_MAX_def)

lemma unat_aperture:
  assumes "aperture_ok conf ep"
  shows "0 < unat (aperture_of conf)" and "unat (aperture_of conf) < 2 ^ 28"
proof -
  have "0 < unat (aperture_of conf) \<and> unat (aperture_of conf) < 2 ^ 28"
  proof (cases "keyhole_en conf")
    case True
    then obtain m where m: "m < 28" "qc_aperture_size conf = 2 ^ m" using assms by (auto simp: aperture_ok_def)
    then have "unat (aperture_of conf) = 2 ^ m"
      using True by (simp add: aperture_of_def keyhole_en_def unat_power_u32)
    then show ?thesis using m(1) power_strict_increasing [of m 28 "2::nat"] by simp
  next
    case False
    then show ?thesis by (simp add: aperture_of_def keyhole_en_def unat_blen_max)
  qed
  then show "0 < unat (aperture_of conf)" and "unat (aperture_of conf) < 2 ^ 28" by simp_all
qed

text \<open>Where the running card address stands before byte \<open>k\<close>.\<close>

definition ep_at :: "qdma_queue_conf \<Rightarrow> u64 \<Rightarrow> nat \<Rightarrow> u64 \<Rightarrow> bool" where
  "ep_at conf ep k a \<longleftrightarrow>
     a = card_addr conf ep k \<or>
     keyhole_en conf \<and> k mod unat (aperture_of conf) = 0 \<and> a = ep + ucast (aperture_of conf)"

lemma of_nat_ucast32: "(of_nat (unat (x :: u32)) :: u64) = ucast x"
  by (rule of_nat_unat)

lemma mm_chunk_spec:
  assumes ok: "aperture_ok conf ep" and at: "ep_at conf ep k a"
  obtains len where "mm_chunk conf ep a tlen = (card_addr conf ep k, len)" "unat len \<le> unat tlen" "tlen \<noteq> 0 \<Longrightarrow> len \<noteq> 0"
    "unat len < 2 ^ 28" "\<And>j. j < unat len \<Longrightarrow> card_addr conf ep (k + j) = card_addr conf ep k + of_nat j"
    "ep_at conf ep (k + unat len) (card_addr conf ep k + ucast len)"
proof (cases "keyhole_en conf")
  case False
  define len where "len = min tlen (aperture_of conf)"
  have ap: "0 < unat (aperture_of conf)" "unat (aperture_of conf) < 2 ^ 28" using unat_aperture [OF ok] .
  have le: "unat len \<le> unat tlen" "unat len \<le> unat (aperture_of conf)"
    by (simp_all add: len_def min_def word_le_nat_alt)
  have nz: "tlen \<noteq> 0 \<Longrightarrow> len \<noteq> 0" using ap(1) by (auto simp: len_def min_def)
  have a: "a = card_addr conf ep k" using at False by (simp add: ep_at_def)
  show ?thesis
  proof (rule that [of len])
    show "mm_chunk conf ep a tlen = (card_addr conf ep k, len)" using False a by (simp add: mm_chunk_def len_def)
    show "ep_at conf ep (k + unat len) (card_addr conf ep k + ucast len)"
      using False by (simp add: ep_at_def card_addr_def of_nat_ucast32)
  qed (use le nz ap False in \<open>simp_all add: card_addr_def\<close>)
next
  case True
  define A where "A = unat (aperture_of conf)"
  define r where "r = k mod A"
  have A: "0 < A" "A < 2 ^ 28" using unat_aperture [OF ok] unfolding A_def .
  have fits: "unat ep + 2 * A < 2 ^ 64" using ok True by (simp add: aperture_ok_def A_def)
  have r: "r < A" using A(1) by (simp add: r_def)
  have uA: "unat (ucast (aperture_of conf) :: u64) = A" by (simp add: A_def unat_ucast_up)
  have umax: "unat (ep + ucast (aperture_of conf) - 1) = unat ep + A - 1"
  proof -
    have "unat (ep + ucast (aperture_of conf)) = unat ep + A"
      using fits uA by (simp add: unat_word_ariths)
    moreover have "ep + ucast (aperture_of conf) \<noteq> 0" using calculation A(1) by (metis add_is_0 less_numeral_extra(3) unat_0)
    ultimately show ?thesis by (simp add: unat_minus_one)
  qed
  have uca: "unat (ep + of_nat r :: u64) = unat ep + r"
    using fits r by (simp add: unat_word_ariths unsigned_of_nat take_bit_nat_eq_self)
  have ca: "card_addr conf ep k = ep + of_nat r" using True by (simp add: card_addr_def r_def A_def)
  define len0 where "len0 = min tlen (aperture_of conf)"
  have l0: "unat len0 = min (unat tlen) A" by (simp add: len0_def A_def min_def word_le_nat_alt)
  have first: "(if a > ep + ucast (aperture_of conf) - 1 then ep else a) = card_addr conf ep k"
  proof (cases "a = card_addr conf ep k")
    case True
    then have "\<not> a > ep + ucast (aperture_of conf) - 1" using r by (simp add: word_less_nat_alt ca uca umax)
    then show ?thesis using True by simp
  next
    case False
    then have "r = 0" "a = ep + ucast (aperture_of conf)" using at by (auto simp: ep_at_def r_def A_def)
    moreover have "unat a = unat ep + A" using calculation(2) fits uA by (simp add: unat_word_ariths)
    ultimately show ?thesis using A(1) by (simp add: word_less_nat_alt umax ca)
  qed
  define len where "len = (if card_addr conf ep k + ucast len0 > ep + ucast (aperture_of conf) - 1
    then ucast (ep + ucast (aperture_of conf) - 1 - card_addr conf ep k + 1) else len0 :: u32)"
  have us: "unat (card_addr conf ep k + ucast len0 :: u64) = unat ep + r + unat len0"
    using fits r l0 A(2) uca by (simp add: ca unat_word_ariths unat_ucast_up)
  have ud: "unat (ep + ucast (aperture_of conf) - 1 - card_addr conf ep k + 1) = A - r"
  proof -
    have "unat (ep + ucast (aperture_of conf) - 1 - card_addr conf ep k) = A - 1 - r"
      using r by (subst unat_sub) (simp_all add: word_le_nat_alt umax ca uca)
    then show ?thesis using r A(2) by (subst unat_Suc_u64) simp_all
  qed
  have ul: "unat len = min (unat tlen) (A - r)"
  proof (cases "card_addr conf ep k + ucast len0 > ep + ucast (aperture_of conf) - 1")
    case True
    then have "unat ep + r + unat len0 > unat ep + A - 1" by (simp add: word_less_nat_alt us umax)
    then have "A - r \<le> unat tlen" using l0 r by (simp add: min_def split: if_splits)
    moreover have "unat (ucast (ep + ucast (aperture_of conf) - 1 - card_addr conf ep k + 1) :: u32) = A - r"
      using A(2) ud by (simp add: unsigned_ucast_eq take_bit_nat_eq_self)
    ultimately show ?thesis using True by (simp add: len_def)
  next
    case False
    then have "unat ep + r + unat len0 \<le> unat ep + A - 1" by (simp add: word_less_nat_alt us umax not_less)
    then show ?thesis using False l0 r by (simp add: len_def min_def split: if_splits)
  qed
  show ?thesis
  proof (rule that [of len])
    show "mm_chunk conf ep a tlen = (card_addr conf ep k, len)"
      using True first by (simp add: mm_chunk_def len_def len0_def Let_def)
    show "unat len \<le> unat tlen" using ul by simp
    show "tlen \<noteq> 0 \<Longrightarrow> len \<noteq> 0" using ul r by (metis min_def unat_eq_zero zero_less_diff less_numeral_extra(3))
    show "unat len < 2 ^ 28" using ul A(2) by simp
    fix j assume "j < unat len"
    then have "r + j < A" using ul by (simp add: less_diff_conv add.commute)
    then have "(k + j) mod A = r + j" unfolding r_def by (metis mod_add_left_eq mod_less)
    then show "card_addr conf ep (k + j) = card_addr conf ep k + of_nat j"
      using True by (simp add: card_addr_def A_def r_def)
  next
    show "ep_at conf ep (k + unat len) (card_addr conf ep k + ucast len)"
    proof (cases "r + unat len = A")
      case T: True
      then have "(k + unat len) mod A = 0" unfolding r_def by (metis mod_add_left_eq mod_self)
      moreover have "card_addr conf ep k + ucast len = ep + ucast (aperture_of conf)"
        using T by (metis A_def add.assoc ca of_nat_add of_nat_ucast32)
      ultimately show ?thesis using True by (simp add: ep_at_def A_def)
    next
      case F: False
      then have "r + unat len < A" using ul r by simp
      then have "(k + unat len) mod A = r + unat len" unfolding r_def by (metis mod_add_left_eq mod_less)
      then show ?thesis using True by (simp add: ep_at_def card_addr_def A_def r_def of_nat_ucast32)
    qed
  qed
qed

section \<open>Writing descriptors into the ring\<close>

fun put_all :: "nat \<Rightarrow> nat \<Rightarrow> 'd list \<Rightarrow> 'd list \<Rightarrow> 'd list" where
  "put_all n p ring [] = ring"
| "put_all n p ring (x # xs) = put_all n (p + 1) (ring[p mod n := x]) xs"

lemma length_put_all [simp]: "length (put_all n p ring xs) = length ring"
  by (induction xs arbitrary: p ring) simp_all

lemma put_all_snoc: "put_all n p ring (xs @ [x]) = (put_all n p ring xs)[(p + length xs) mod n := x]"
  by (induction xs arbitrary: p ring) simp_all

lemma slot_neq:
  assumes "i < n" and "j < n" and "i \<noteq> j"
  shows "((p + i) mod n :: nat) \<noteq> (p + j) mod n"
proof
  assume "(p + i) mod n = (p + j) mod n"
  then have "n dvd j - i" if "i \<le> j" using that mod_eq_dvd_iff_nat [of "p + i" "p + j" n] by simp
  moreover have "n dvd i - j" if "j \<le> i"
    using that \<open>(p + i) mod n = (p + j) mod n\<close> mod_eq_dvd_iff_nat [of "p + j" "p + i" n] by simp
  ultimately show False using assms by (cases i j rule: linorder_cases) (auto dest: dvd_imp_le)
qed

lemma put_all_other:
  assumes "\<And>i. i < length xs \<Longrightarrow> j \<noteq> (p + i) mod n"
  shows "put_all n p ring xs ! j = ring ! j"
  using assms
proof (induction xs rule: rev_induct)
  case (snoc x xs)
  have "j \<noteq> (p + length xs) mod n" using snoc.prems [of "length xs"] by simp
  moreover have "put_all n p ring xs ! j = ring ! j" by (rule snoc.IH) (use snoc.prems in simp)
  ultimately show ?case by (simp add: put_all_snoc)
qed simp

lemma put_all_nth:
  assumes "length ring = n" and "length xs \<le> n" and "j < length xs"
  shows "put_all n p ring xs ! ((p + j) mod n) = xs ! j"
  using assms(2,3)
proof (induction xs rule: rev_induct)
  case (snoc x xs)
  show ?case
  proof (cases "j = length xs")
    case True
    then show ?thesis using snoc.prems assms(1) by (simp add: put_all_snoc)
  next
    case False
    then have "(p + j) mod n \<noteq> (p + length xs) mod n" using snoc.prems by (intro slot_neq) simp_all
    then show ?thesis using False snoc by (simp add: put_all_snoc nth_append)
  qed
qed simp

text \<open>The locals after the descriptors \<open>xs\<close> have been written from slot \<open>p\<close> on.\<close>

definition wrote :: "nat \<Rightarrow> nat \<Rightarrow> 'd list \<Rightarrow> 'd list \<Rightarrow> 'd fill \<Rightarrow> bool" where
  "wrote n p ring xs f \<longleftrightarrow> fl_ring f = put_all n p ring xs \<and> unat (fl_pidx f) = (p + length xs) mod n \<and>
     unat (fl_cnt f) = length xs \<and> fl_last f = (if xs = [] then None else Some ((p + length xs - 1) mod n))"

lemma wrote_put:
  assumes "wrote n p ring xs f" and "unat rngsz = n" and "0 < n" and "Suc (length xs) < 2 ^ 32"
  shows "wrote n p ring (xs @ [x]) (put_desc rngsz x len f)"
proof -
  have pidx: "unat (fl_pidx f) = (p + length xs) mod n" and cnt: "unat (fl_cnt f) = length xs"
    using assms(1) by (simp_all add: wrote_def)
  have lt: "unat (fl_pidx f) < n" using pidx assms(3) by simp
  have n: "n < 2 ^ 32" using assms(2) unsigned_less [of rngsz, where ?'a = nat] by simp
  have suc: "unat (fl_pidx f + 1) = Suc (unat (fl_pidx f))" using lt n by (simp add: unat_word_ariths)
  have "unat (if fl_pidx f + 1 = rngsz then 0 else fl_pidx f + 1) = (p + length xs + 1) mod n"
  proof (cases "fl_pidx f + 1 = rngsz")
    case True
    then have "Suc ((p + length xs) mod n) = n" using suc assms(2) pidx by simp
    then show ?thesis using True by (simp add: mod_Suc)
  next
    case False
    then have "Suc ((p + length xs) mod n) \<noteq> n" using suc assms(2) pidx by (metis word_unat_eq_iff)
    then show ?thesis using False suc pidx by (simp add: mod_Suc)
  qed
  moreover have "unat (fl_cnt f + 1) = Suc (length xs)" using cnt assms(4) by (simp add: unat_word_ariths)
  ultimately show ?thesis
    using assms(1) by (simp add: wrote_def put_desc_def put_all_snoc)
qed

lemma wrote_more [simp]:
  "wrote n p ring xs (f\<lparr>fl_ep_addr := a\<rparr>) = wrote n p ring xs f"
  "wrote n p ring xs (f\<lparr>fl_sg_offset := o'\<rparr>) = wrote n p ring xs f"
  "wrote n p ring xs (f\<lparr>fl_data := d\<rparr>) = wrote n p ring xs f"
  by (simp_all add: wrote_def)

section \<open>One entry of the scatter list\<close>

lemma desc_bytes_mm:
  assumes "unat len < 2 ^ 28"
  shows "desc_bytes conf (mm_desc_of conf ep host len) = map (\<lambda>k. (host + of_nat k, ep + of_nat k)) [0..<unat len]"
proof -
  have "len AND QDMA_DESC_BLEN_MAX = len"
    unfolding blen_max using assms by (intro less_mask_eq) (simp add: word_less_nat_alt)
  moreover have "push_bit S_DESC_F_DV 1 AND QDMA_DESC_BLEN_MAX = 0"
    by (simp add: S_DESC_F_DV_def QDMA_DESC_BLEN_MAX_def)
  ultimately have "(len OR push_bit S_DESC_F_DV 1) AND QDMA_DESC_BLEN_MAX = len"
    by (simp add: bit.conj_disj_distrib2)
  then show ?thesis by (simp add: desc_bytes_def mm_desc_of_def)
qed

lemma map_upt_split: "map g [0..<a + b] = map g [0..<a] @ map (\<lambda>j. g (a + j)) [0..<b]"
proof -
  have "[0..<a + b] = [0..<a] @ [a..<a + b]" by (rule upt_add_eq_append) simp
  moreover have "[a..<a + b] = map (\<lambda>j. a + j) [0..<b]" using map_add_upt [of a b] by (simp add: add.commute)
  ultimately show ?thesis by (simp add: comp_def)
qed

lemma segment_loop_mm:
  assumes ok: "aperture_ok conf ep" and n: "unat (qc_rngsz conf) = n" "0 < n"
    and "0 < room" and "wrote n p ring xs f" and "length xs + room < 2 ^ 32" and "ep_at conf ep k (fl_ep_addr f)"
  shows "\<exists>ys room' tlen' f'. segment_loop (mm_step conf ep) room src tlen f = (room', tlen', f') \<and>
    wrote n p ring (xs @ ys) f' \<and> room = length ys + room' \<and> ys \<noteq> [] \<and> unat tlen' \<le> unat tlen \<and> (tlen \<noteq> 0 \<longrightarrow> unat tlen' + length ys \<le> unat tlen) \<and> (room' = 0 \<or> tlen' = 0) \<and>
    concat (map (desc_bytes conf) ys) = map (\<lambda>j. (src + of_nat j, card_addr conf ep (k + j))) [0..<unat tlen - unat tlen'] \<and>
    ep_at conf ep (k + (unat tlen - unat tlen')) (fl_ep_addr f') \<and>
    fl_data f' = fl_data f + (tlen - tlen') \<and> fl_sg_offset f' = fl_sg_offset f + (tlen - tlen')"
  using assms(4-)
proof (induction room arbitrary: src tlen f xs k)
  case (Suc room)
  obtain len where ch: "mm_chunk conf ep (fl_ep_addr f) tlen = (card_addr conf ep k, len)" and le: "unat len \<le> unat tlen"
    and pos: "tlen \<noteq> 0 \<Longrightarrow> len \<noteq> 0" and "unat len < 2 ^ 28" and lin: "\<And>j. j < unat len \<Longrightarrow> card_addr conf ep (k + j) = card_addr conf ep k + of_nat j"
    and nxt: "ep_at conf ep (k + unat len) (card_addr conf ep k + ucast len)"
    using mm_chunk_spec [OF ok Suc.prems(4), of tlen] by metis
  define x where "x = mm_desc_of conf (card_addr conf ep k) src len"
  define f1 where "f1 = (put_desc (qc_rngsz conf) x len f)\<lparr>fl_ep_addr := card_addr conf ep k + ucast len\<rparr>"
  have step: "mm_step conf ep src tlen f = (len, f1)" by (simp add: mm_step_def ch f1_def x_def)
  have x: "desc_bytes conf x = map (\<lambda>j. (src + of_nat j, card_addr conf ep (k + j))) [0..<unat len]"
    using desc_bytes_mm [OF \<open>unat len < 2 ^ 28\<close>] lin by (simp add: x_def)
  have f1: "wrote n p ring (xs @ [x]) f1" "fl_data f1 = fl_data f + len" "fl_sg_offset f1 = fl_sg_offset f + len"
    "fl_ep_addr f1 = card_addr conf ep k + ucast len"
    using wrote_put [OF Suc.prems(2) n, of x len] Suc.prems(3) by (simp_all add: f1_def) (simp_all add: put_desc_def)
  have t1: "unat (tlen - len) = unat tlen - unat len" using le by (simp add: unat_sub word_le_nat_alt)
  have dec: "tlen \<noteq> 0 \<longrightarrow> unat (tlen - len) + 1 \<le> unat tlen" using pos le t1 by (auto simp: Suc_le_eq unat_gt_0)
  show ?case
  proof (cases "room = 0 \<or> tlen - len = 0")
    case True
    have "unat tlen - unat (tlen - len) = unat len" using t1 le by simp
    then show ?thesis
      using True x f1 nxt t1 dec by (intro exI [of _ "[x]"] exI [of _ room] exI [of _ "tlen - len"] exI [of _ f1]) (auto simp: step)
  next
    case False
    then have "0 < room" "length (xs @ [x]) + room < 2 ^ 32" "ep_at conf ep (k + unat len) (fl_ep_addr f1)"
      using Suc.prems(3) nxt f1(4) by simp_all
    from Suc.IH [OF this(1) f1(1) this(2,3), of "src + ucast len" "tlen - len"]
    obtain ys room' tlen' f' where
      run: "segment_loop (mm_step conf ep) room (src + ucast len) (tlen - len) f1 = (room', tlen', f')"
      and wr: "wrote n p ring ((xs @ [x]) @ ys) f'" and rm: "room = length ys + room'" and tl: "unat tlen' \<le> unat (tlen - len)"
      and lys: "tlen - len \<noteq> 0 \<longrightarrow> unat tlen' + length ys \<le> unat (tlen - len)"
      and ex: "room' = 0 \<or> tlen' = 0"
      and by': "concat (map (desc_bytes conf) ys) = map (\<lambda>j. (src + ucast len + of_nat j, card_addr conf ep (k + unat len + j)))
        [0..<unat (tlen - len) - unat tlen']"
      and at: "ep_at conf ep (k + unat len + (unat (tlen - len) - unat tlen')) (fl_ep_addr f')"
      and da: "fl_data f' = fl_data f1 + (tlen - len - tlen')" "fl_sg_offset f' = fl_sg_offset f1 + (tlen - len - tlen')"
      by blast
    have sum: "unat tlen - unat tlen' = unat len + (unat (tlen - len) - unat tlen')" using t1 tl le by simp
    have "concat (map (desc_bytes conf) (x # ys)) =
        map (\<lambda>j. (src + of_nat j, card_addr conf ep (k + j))) [0..<unat tlen - unat tlen']"
      by (simp add: sum map_upt_split x by' add.assoc of_nat_ucast32)
    moreover have "wrote n p ring (xs @ x # ys) f'" using wr by simp
    moreover have "unat tlen' \<le> unat tlen" "tlen \<noteq> 0 \<longrightarrow> unat tlen' + length (x # ys) \<le> unat tlen"
      using tl t1 dec lys False by auto
    moreover have "ep_at conf ep (k + (unat tlen - unat tlen')) (fl_ep_addr f')" using at by (simp add: sum add.assoc)
    ultimately show ?thesis
      using False run rm ex da f1(2,3)
      by (intro exI [of _ "x # ys"] exI [of _ room'] exI [of _ tlen'] exI [of _ f']) (auto simp: step Let_def)
  qed
qed simp

section \<open>The whole scatter list\<close>

text \<open>Host addresses paired with the card addresses from byte \<open>k\<close> on.\<close>

definition paired :: "qdma_queue_conf \<Rightarrow> u64 \<Rightarrow> nat \<Rightarrow> u64 list \<Rightarrow> (u64 \<times> u64) list" where
  "paired conf ep k hs = map (\<lambda>j. (hs ! j, card_addr conf ep (k + j))) [0..<length hs]"

lemma length_paired [simp]: "length (paired conf ep k hs) = length hs"
  by (simp add: paired_def)

lemma paired_Nil [simp]: "paired conf ep k [] = []"
  by (simp add: paired_def)

lemma paired_append: "paired conf ep k (hs @ hs') = paired conf ep k hs @ paired conf ep (k + length hs) hs'"
  by (simp add: paired_def map_upt_split nth_append add.assoc)

lemma nth_paired: "j < length hs \<Longrightarrow> paired conf ep k hs ! j = (hs ! j, card_addr conf ep (k + j))"
  by (simp add: paired_def)

lemma take_paired: "take m (paired conf ep k hs) = paired conf ep k (take m hs)"
  by (rule nth_equalityI) (simp_all add: nth_paired)

lemma drop_paired: "drop m (paired conf ep k hs) = paired conf ep (k + m) (drop m hs)"
  by (rule nth_equalityI) (simp_all add: nth_paired add.assoc)

lemma req_bytes_paired: "req_bytes conf req = paired conf (dr_ep_addr req) 0 (host_bytes (dr_sgl req))"
  by (rule nth_equalityI) (simp_all add: req_bytes_def paired_def Let_def)

lemma paired_segment:
  "map (\<lambda>j. (src + of_nat j, card_addr conf ep (k + j))) [0..<m] = paired conf ep k (map (\<lambda>j. src + of_nat j) [0..<m])"
  by (rule nth_equalityI) (simp_all add: paired_def)

definition sg_bytes :: "dma_sg \<Rightarrow> u64 list" where
  "sg_bytes sg = map (\<lambda>k. ds_dma_addr sg + of_nat k) [0..<unat (ds_len sg)]"

lemma length_sg_bytes [simp]: "length (sg_bytes sg) = unat (ds_len sg)"
  by (simp add: sg_bytes_def)

lemma host_bytes_simps [simp]: "host_bytes [] = []" "host_bytes (sg # sgs) = sg_bytes sg @ host_bytes sgs"
  by (simp_all add: host_bytes_def sg_bytes_def)

lemma drop_sg_bytes:
  "drop m (sg_bytes sg) = map (\<lambda>j. ds_dma_addr sg + of_nat m + of_nat j) [0..<unat (ds_len sg) - m]"
proof (cases "m \<le> unat (ds_len sg)")
  case True
  then have "[m..<unat (ds_len sg)] = map (\<lambda>j. m + j) [0..<unat (ds_len sg) - m]"
    using map_add_upt [of m "unat (ds_len sg) - m"] by (simp add: add.commute)
  then show ?thesis by (simp add: sg_bytes_def drop_map comp_def add.assoc)
qed (simp add: sg_bytes_def)

lemma sgl_loop_no_room [simp]: "sgl_loop step 0 i sgs f = (i, f)"
  by (cases sgs) simp_all

lemma sgl_loop_mm:
  assumes ok: "aperture_ok conf ep" and n: "unat (qc_rngsz conf) = n" "0 < n"
    and "wrote n p ring xs f" and "length xs + room < 2 ^ 32" and "ep_at conf ep k (fl_ep_addr f)"
    and "case sgs of [] \<Rightarrow> fl_sg_offset f = 0 | sg # _ \<Rightarrow> fl_sg_offset f < ds_len sg"
    and "\<And>sg. sg \<in> set sgs \<Longrightarrow> ds_len sg \<noteq> 0"
  shows "\<exists>ys i' f' m. sgl_loop (\<lambda>_. mm_step conf ep) room i sgs f = (i', f') \<and> wrote n p ring (xs @ ys) f' \<and>
    length ys \<le> room \<and> fl_data f' = fl_data f + of_nat m \<and>
    concat (map (desc_bytes conf) ys) = paired conf ep k (take m (drop (unat (fl_sg_offset f)) (host_bytes sgs))) \<and>
    m \<le> length (host_bytes sgs) - unat (fl_sg_offset f) \<and>
    (m = length (host_bytes sgs) - unat (fl_sg_offset f) \<or> length ys = room) \<and>
    (sgs \<noteq> [] \<and> 0 < room \<longrightarrow> ys \<noteq> []) \<and> length ys \<le> m"
  using assms(4-)
proof (induction sgs arbitrary: i room k f xs)
  case Nil
  then show ?case by (intro exI [of _ "[]"] exI [of _ i] exI [of _ f] exI [of _ 0]) simp
next
  case (Cons sg sgs)
  define o1 where "o1 = fl_sg_offset f"
  define tlen where "tlen = ds_len sg - o1"
  have o1: "o1 < ds_len sg" using Cons.prems(4) by (simp add: o1_def)
  have tlen: "unat tlen = unat (ds_len sg) - unat o1" "tlen \<noteq> 0"
    using o1 by (auto simp: tlen_def unat_sub word_le_nat_alt word_less_nat_alt)
  have bytes: "drop (unat o1) (host_bytes (sg # sgs)) =
      map (\<lambda>j. ds_dma_addr sg + ucast o1 + of_nat j) [0..<unat tlen] @ host_bytes sgs"
    using o1 by (simp add: drop_sg_bytes tlen of_nat_ucast32 word_less_nat_alt less_imp_le)
  have tot: "length (host_bytes (sg # sgs)) - unat o1 = unat tlen + length (host_bytes sgs)"
    using o1 by (simp add: tlen word_less_nat_alt)
  show ?case
  proof (cases "room = 0")
    case True
    then show ?thesis
      using Cons.prems(1) by (intro exI [of _ "[]"] exI [of _ i] exI [of _ f] exI [of _ 0]) simp
  next
    case False
    then have "0 < room" by simp
    have wr0: "wrote n p ring xs (f\<lparr>fl_sg_offset := 0\<rparr>)" and at0: "ep_at conf ep k (fl_ep_addr (f\<lparr>fl_sg_offset := 0\<rparr>))"
      using Cons.prems(1,3) by simp_all
    from segment_loop_mm [OF ok n \<open>0 < room\<close> wr0 Cons.prems(2) at0, of "ds_dma_addr sg + ucast o1" tlen]
    obtain ys room' tlen' f1 where
      run: "segment_loop (mm_step conf ep) room (ds_dma_addr sg + ucast o1) tlen (f\<lparr>fl_sg_offset := 0\<rparr>) = (room', tlen', f1)"
      and wr: "wrote n p ring (xs @ ys) f1" and rm: "room = length ys + room'" and ne: "ys \<noteq> []"
      and le: "unat tlen' \<le> unat tlen" and lt': "tlen \<noteq> 0 \<longrightarrow> unat tlen' + length ys \<le> unat tlen" and ex: "room' = 0 \<or> tlen' = 0"
      and by': "concat (map (desc_bytes conf) ys) =
        map (\<lambda>j. (ds_dma_addr sg + ucast o1 + of_nat j, card_addr conf ep (k + j))) [0..<unat tlen - unat tlen']"
      and at: "ep_at conf ep (k + (unat tlen - unat tlen')) (fl_ep_addr f1)"
      and da: "fl_data f1 = fl_data (f\<lparr>fl_sg_offset := 0\<rparr>) + (tlen - tlen')"
      by blast
    have lt: "unat tlen' + length ys \<le> unat tlen" using lt' tlen(2) by blast
    define c where "c = unat tlen - unat tlen'"
    have c: "length ys \<le> c" "c \<le> unat tlen" using lt by (simp_all add: c_def)
    have cw: "tlen - tlen' = of_nat c" using le by (simp add: c_def word_le_nat_alt flip: unat_sub)
    have seg: "concat (map (desc_bytes conf) ys) = paired conf ep k (map (\<lambda>j. ds_dma_addr sg + ucast o1 + of_nat j) [0..<c])"
      using by' by (simp add: c_def paired_segment)
    have takec: "take c (map (\<lambda>j. ds_dma_addr sg + ucast o1 + of_nat j) [0..<unat tlen]) =
        map (\<lambda>j. ds_dma_addr sg + ucast o1 + of_nat j) [0..<c]"
      using c(2) by (simp add: take_map)
    show ?thesis
    proof (cases "tlen' = 0")
      case True
      then have cc: "c = unat tlen" by (simp add: c_def)
      define f2 where "f2 = f1\<lparr>fl_sg_offset := 0\<rparr>"
      have first: "case sgs of [] \<Rightarrow> fl_sg_offset f2 = 0 | sg # _ \<Rightarrow> fl_sg_offset f2 < ds_len sg"
        using Cons.prems(5) by (auto simp: f2_def word_neq_0_conv split: list.split)
      have "wrote n p ring (xs @ ys) f2" "length (xs @ ys) + room' < 2 ^ 32" "ep_at conf ep (k + c) (fl_ep_addr f2)"
        using wr Cons.prems(2) rm at by (simp_all add: f2_def c_def)
      from Cons.IH [OF this first, of "i + 1"] obtain zs i' f' m where
        run': "sgl_loop (\<lambda>_. mm_step conf ep) room' (i + 1) sgs f2 = (i', f')" and wr': "wrote n p ring ((xs @ ys) @ zs) f'"
        and lz: "length zs \<le> room'" and dz: "fl_data f' = fl_data f2 + of_nat m"
        and bz: "concat (map (desc_bytes conf) zs) = paired conf ep (k + c) (take m (host_bytes sgs))"
        and mz: "m \<le> length (host_bytes sgs)" "m = length (host_bytes sgs) \<or> length zs = room'" "length zs \<le> m"
        using Cons.prems(5) by (auto simp: f2_def)
      have "concat (map (desc_bytes conf) (ys @ zs)) =
          paired conf ep k (take (c + m) (drop (unat o1) (host_bytes (sg # sgs))))"
        unfolding bytes by (simp add: seg bz takec cc paired_append)
      moreover have "fl_data f' = fl_data f + of_nat (c + m)" using dz da cw by (simp add: f2_def)
      moreover have "sgl_loop (\<lambda>_. mm_step conf ep) room i (sg # sgs) f = (i', f')"
        using False run run' True by (simp add: o1_def tlen_def f2_def)
      ultimately show ?thesis
        using wr' lz rm mz cc tot ne c(1)
        by (intro exI [of _ "ys @ zs"] exI [of _ i'] exI [of _ f'] exI [of _ "c + m"]) (auto simp: o1_def)
    next
      case F: False
      then have r: "room' = 0" using ex by simp
      have "concat (map (desc_bytes conf) ys) = paired conf ep k (take c (drop (unat o1) (host_bytes (sg # sgs))))"
        using c(2) unfolding bytes by (simp add: seg takec)
      moreover have "sgl_loop (\<lambda>_. mm_step conf ep) room i (sg # sgs) f = (i + 1, f1)"
        using False run F r by (simp add: o1_def tlen_def)
      moreover have "fl_data f1 = fl_data f + of_nat c" using da cw by simp
      ultimately show ?thesis
        using wr rm r ne c tot
        by (intro exI [of _ ys] exI [of _ "i + 1"] exI [of _ f1] exI [of _ c]) (simp add: o1_def)
    qed
  qed
qed

section \<open>Resuming a request\<close>

text \<open>A request with data in every entry, whose entries together are as long as it says.\<close>

definition wf_req :: "descq_req \<Rightarrow> bool" where
  "wf_req req \<longleftrightarrow> dr_count req \<noteq> 0 \<and> (\<forall>sg \<in> set (dr_sgl req). ds_len sg \<noteq> 0) \<and>
     length (host_bytes (dr_sgl req)) = unat (dr_count req)"

lemma sgl_find_spec:
  assumes "\<And>sg. sg \<in> set sgs \<Longrightarrow> ds_len sg \<noteq> 0"
    and "unat len \<le> unat off" and "unat off < unat len + length (host_bytes sgs)"
    and "unat len + length (host_bytes sgs) < 2 ^ 32"
  shows "\<exists>j o1. sgl_find off len i sgs = Some (i + j, o1) \<and> j < length sgs \<and> o1 < ds_len (sgs ! j) \<and>
    drop (unat off - unat len) (host_bytes sgs) = drop (unat o1) (host_bytes (drop j sgs))"
  using assms
proof (induction sgs arbitrary: len i)
  case (Cons sg sgs)
  define len' where "len' = len + ds_len sg"
  have u: "unat len' = unat len + unat (ds_len sg)" using Cons.prems(4) by (simp add: len'_def unat_word_ariths)
  consider "len' = off" | "off < len'" | "len' < off" by (rule linorder_cases [of len' off])
  then show ?case
  proof cases
    case 1
    then have "unat off - unat len = unat (ds_len sg)" using u by simp
    moreover obtain sg' sgs' where "sgs = sg' # sgs'" using Cons.prems(3) u 1 by (cases sgs) auto
    ultimately show ?thesis
      using 1 Cons.prems(1) by (intro exI [of _ "1 :: nat"] exI [of _ "0 :: u32"]) (simp add: len'_def word_neq_0_conv)
  next
    case 2
    define o1 where "o1 = ds_len sg - (len' - off)"
    have lo: "unat (len' - off) = unat len' - unat off" using 2 by (simp add: unat_sub word_le_nat_alt word_less_nat_alt)
    then have "len' - off \<le> ds_len sg" using u Cons.prems(2) by (simp add: word_le_nat_alt)
    then have "unat o1 = unat (ds_len sg) - unat (len' - off)" by (simp add: o1_def unat_sub)
    then have o: "unat o1 = unat off - unat len" using lo u Cons.prems(2) 2 by (simp add: word_less_nat_alt)
    have "o1 < ds_len sg" using o 2 u Cons.prems(2) by (simp add: word_less_nat_alt)
    then show ?thesis
      using 2 o by (intro exI [of _ "0 :: nat"] exI [of _ o1]) (auto simp: len'_def o1_def Let_def)
  next
    case 3
    have "unat len' \<le> unat off" "unat off < unat len' + length (host_bytes sgs)" "unat len' + length (host_bytes sgs) < 2 ^ 32"
      using 3 u Cons.prems(3,4) by (simp_all add: word_less_nat_alt)
    from Cons.IH [OF _ this, of "i + 1"] obtain j o1 where
      "sgl_find off len' (i + 1) sgs = Some (i + 1 + j, o1)" "j < length sgs" "o1 < ds_len (sgs ! j)"
      "drop (unat off - unat len') (host_bytes sgs) = drop (unat o1) (host_bytes (drop j sgs))"
      using Cons.prems(1) by auto
    then show ?thesis
      using 3 u by (intro exI [of _ "Suc j"] exI [of _ o1]) (auto simp: len'_def word_less_nat_alt Let_def)
  qed
qed simp

lemma first_ep_addr_at:
  assumes "aperture_ok conf (dr_ep_addr req)"
  shows "ep_at conf (dr_ep_addr req) (unat (cb_offset (dr_cb req))) (first_ep_addr conf req)"
proof (cases "keyhole_en conf")
  case True
  then obtain m where m: "m < 28" "qc_aperture_size conf = 2 ^ m" using assms by (auto simp: aperture_ok_def)
  then have ap: "aperture_of conf = 2 ^ m" "unat (aperture_of conf) = 2 ^ m"
    using True by (simp_all add: aperture_of_def keyhole_en_def unat_power_u32)
  have "unat (cb_offset (dr_cb req) AND (aperture_of conf - 1)) = unat (cb_offset (dr_cb req)) mod 2 ^ m"
    by (simp add: ap flip: mask_eq_exp_minus_1 take_bit_eq_mask)
      (use m(1) in \<open>simp add: take_bit_eq_mod unat_mod unat_power_u32\<close>)
  then have "(ucast (cb_offset (dr_cb req) AND (aperture_of conf - 1)) :: u64) = of_nat (unat (cb_offset (dr_cb req)) mod 2 ^ m)"
    by (metis of_nat_ucast32)
  then show ?thesis using True ap by (simp add: ep_at_def card_addr_def first_ep_addr_def)
next
  case False
  then show ?thesis by (simp add: ep_at_def card_addr_def first_ep_addr_def of_nat_ucast32)
qed

text \<open>One pass over a request that is not finished.\<close>

lemma mm_fill_spec:
  assumes ok: "aperture_ok (dq_conf d) (dr_ep_addr req)" and wf: "wf_req req"
    and n: "unat (qc_rngsz (dq_conf d)) = n" "unat (dq_pidx d) < n"
    and room: "dq_avail d \<noteq> 0" and off: "cb_offset (dr_cb req) < dr_count req"
  obtains i sg_offset i' f ys m where "qdma_sgl_find_offset req = Some (i, sg_offset)"
    "mm_fill d req (dq_avail d) i sg_offset = (i', f)" "wrote n (unat (dq_pidx d)) (dq_mm_desc d) ys f" "ys \<noteq> []"
    "length ys \<le> unat (dq_avail d)" "length ys \<le> m" "m \<le> unat (dr_count req) - unat (cb_offset (dr_cb req))"
    "m = unat (dr_count req) - unat (cb_offset (dr_cb req)) \<or> length ys = unat (dq_avail d)" "fl_data f = of_nat m"
    "concat (map (desc_bytes (dq_conf d)) ys) = take m (drop (unat (cb_offset (dr_cb req))) (req_bytes (dq_conf d) req))"
proof -
  define offs where "offs = cb_offset (dr_cb req)"
  have lens: "\<And>sg. sg \<in> set (dr_sgl req) \<Longrightarrow> ds_len sg \<noteq> 0" and tot: "length (host_bytes (dr_sgl req)) = unat (dr_count req)"
    and nz: "dr_count req \<noteq> 0" using wf by (auto simp: wf_req_def)
  have lt: "unat offs < unat (dr_count req)" using off by (simp add: offs_def word_less_nat_alt)
  have "unat (0 :: u32) \<le> unat offs" "unat offs < unat (0 :: u32) + length (host_bytes (dr_sgl req))"
    "unat (0 :: u32) + length (host_bytes (dr_sgl req)) < 2 ^ 32"
    using lt unsigned_less [of "dr_count req", where ?'a = nat] by (simp_all add: tot)
  from sgl_find_spec [OF lens this, of 0] obtain i o1 where
    f: "sgl_find offs 0 0 (dr_sgl req) = Some (i, o1)" "i < length (dr_sgl req)" "o1 < ds_len (dr_sgl req ! i)"
      "drop (unat offs) (host_bytes (dr_sgl req)) = drop (unat o1) (host_bytes (drop i (dr_sgl req)))" by auto
  define f0 where "f0 = \<lparr>fl_ring = dq_mm_desc d, fl_pidx = dq_pidx d, fl_cnt = 0, fl_data = 0,
    fl_ep_addr = first_ep_addr (dq_conf d) req, fl_sg_offset = o1, fl_last = None\<rparr>"
  have d: "drop i (dr_sgl req) = dr_sgl req ! i # drop (Suc i) (dr_sgl req)" using f(2) by (simp add: Cons_nth_drop_Suc)
  have "wrote n (unat (dq_pidx d)) (dq_mm_desc d) [] f0" using n(2) by (simp add: wrote_def f0_def)
  moreover have "length ([] :: qdma_mm_desc list) + unat (dq_avail d) < 2 ^ 32"
    using unsigned_less [of "dq_avail d", where ?'a = nat] by simp
  moreover have "ep_at (dq_conf d) (dr_ep_addr req) (unat offs) (fl_ep_addr f0)"
    using first_ep_addr_at [OF ok] by (simp add: f0_def offs_def)
  moreover have "case drop i (dr_sgl req) of [] \<Rightarrow> fl_sg_offset f0 = 0 | sg # _ \<Rightarrow> fl_sg_offset f0 < ds_len sg"
    using f(3) by (simp add: d f0_def)
  ultimately obtain ys i' f' m where
    run: "sgl_loop (\<lambda>_. mm_step (dq_conf d) (dr_ep_addr req)) (unat (dq_avail d)) i (drop i (dr_sgl req)) f0 = (i', f')"
    and wr: "wrote n (unat (dq_pidx d)) (dq_mm_desc d) ([] @ ys) f'" and len: "length ys \<le> unat (dq_avail d)"
    and da: "fl_data f' = fl_data f0 + of_nat m"
    and by': "concat (map (desc_bytes (dq_conf d)) ys) = paired (dq_conf d) (dr_ep_addr req) (unat offs)
      (take m (drop (unat (fl_sg_offset f0)) (host_bytes (drop i (dr_sgl req)))))"
    and m: "m \<le> length (host_bytes (drop i (dr_sgl req))) - unat (fl_sg_offset f0)"
      "m = length (host_bytes (drop i (dr_sgl req))) - unat (fl_sg_offset f0) \<or> length ys = unat (dq_avail d)"
    and ne: "drop i (dr_sgl req) \<noteq> [] \<and> 0 < unat (dq_avail d) \<longrightarrow> ys \<noteq> []" and lm: "length ys \<le> m"
    using sgl_loop_mm [OF ok n(1), of "unat (dq_pidx d)" "dq_mm_desc d" "[]" f0 "unat (dq_avail d)" "unat offs" "drop i (dr_sgl req)" i]
      lens n(2) by (blast dest: in_set_dropD)
  have "length (drop (unat offs) (host_bytes (dr_sgl req))) = length (drop (unat o1) (host_bytes (drop i (dr_sgl req))))"
    using f(4) by simp
  then have rest: "length (host_bytes (drop i (dr_sgl req))) - unat (fl_sg_offset f0) = unat (dr_count req) - unat offs"
    by (simp add: tot f0_def)
  have "concat (map (desc_bytes (dq_conf d)) ys) = take m (drop (unat offs) (req_bytes (dq_conf d) req))"
    using by' f(4) by (simp add: req_bytes_paired drop_paired take_paired f0_def)
  moreover have "qdma_sgl_find_offset req = Some (i, o1)" using f(1,2) nz by (simp add: qdma_sgl_find_offset_def offs_def)
  moreover have "mm_fill d req (dq_avail d) i o1 = (i', f')" using run by (simp only: mm_fill_def f0_def)
  moreover have "ys \<noteq> []" using ne d room by (simp add: unat_gt_0)
  moreover have "fl_data f' = of_nat m" using da by (simp add: f0_def)
  ultimately show ?thesis
    using that [of i o1 i' f' ys m] wr len lm m unfolding rest by (simp add: offs_def)
qed

end
