(* ===== verification/Qdma_Descq_Pass.thy ===== *)
theory Qdma_Descq_Pass
  imports Qdma_Descq_Fill
begin

text \<open>
  One run of \<open>descq_mm_proc_request\<close> for a queue served by interrupts: what is left to transfer shrinks by
  exactly what the new descriptors say, until the list is empty or the ring is full.
\<close>

section \<open>One turn of the work loop\<close>

definition req_offset :: "descq_req \<Rightarrow> nat" where
  "req_offset req = unat (cb_offset (dr_cb req))"

text \<open>A request on the work list: not finished, and in a form the loop makes progress with.\<close>

definition open_req :: "qdma_queue_conf \<Rightarrow> descq_req \<Rightarrow> bool" where
  "open_req conf req \<longleftrightarrow> wf_req req \<and> aperture_ok conf (dr_ep_addr req) \<and> req_offset req < unat (dr_count req)"

definition req_todo :: "qdma_queue_conf \<Rightarrow> descq_req \<Rightarrow> (u64 \<times> u64) list" where
  "req_todo conf req = drop (req_offset req) (req_bytes conf req)"

definition todo :: "qdma_queue_conf \<Rightarrow> descq_req list \<Rightarrow> (u64 \<times> u64) list" where
  "todo conf reqs = concat (map (req_todo conf) reqs)"

lemma todo_simps [simp]: "todo conf [] = []" "todo conf (req # reqs) = req_todo conf req @ todo conf reqs"
  by (simp_all add: todo_def)

lemma length_req_bytes: "wf_req req \<Longrightarrow> length (req_bytes conf req) = unat (dr_count req)"
  by (simp add: req_bytes_paired wf_req_def)

lemma length_req_todo: "wf_req req \<Longrightarrow> length (req_todo conf req) = unat (dr_count req) - req_offset req"
  by (simp add: req_todo_def length_req_bytes)

lemma advance_req_simps [simp]:
  "dr_sgl (advance_req a b c s req) = dr_sgl req" "dr_count (advance_req a b c s req) = dr_count req"
  "dr_ep_addr (advance_req a b c s req) = dr_ep_addr req"
  "cb_offset (dr_cb (advance_req a b c s req)) = cb_offset (dr_cb req) + b"
  "cb_desc_nr (dr_cb (advance_req a b c s req)) = cb_desc_nr (dr_cb req) + a"
  by (simp_all add: advance_req_def)

lemma advance_req_bytes [simp]:
  "req_bytes conf (advance_req a b c s req) = req_bytes conf req" "wf_req (advance_req a b c s req) = wf_req req"
  by (simp_all add: req_bytes_def wf_req_def)

text \<open>What updating a request leaves alone.\<close>

lemma update_request_frame [simp]:
  "dq_mm_desc (qdma_update_request a b c s d) = dq_mm_desc d" "dq_conf (qdma_update_request a b c s d) = dq_conf d"
  "dq_avail (qdma_update_request a b c s d) = dq_avail d" "dq_pidx (qdma_update_request a b c s d) = dq_pidx d"
  "dq_cidx (qdma_update_request a b c s d) = dq_cidx d" "dq_credit (qdma_update_request a b c s d) = dq_credit d"
  "dq_q_state (qdma_update_request a b c s d) = dq_q_state d" "dq_q_stop_wait (qdma_update_request a b c s d) = dq_q_stop_wait d"
  "dq_pidx_info (qdma_update_request a b c s d) = dq_pidx_info d"
  "dq_proc_req_running (qdma_update_request a b c s d) = dq_proc_req_running d"
  "dq_desc_pend (qdma_update_request a b c s d) = dq_desc_pend d" "dq_cmplthp (qdma_update_request a b c s d) = dq_cmplthp d"
  by (simp_all add: qdma_update_request_def qdma_work_queue_del_def Let_def)

lemma mm_issue_frame [simp]:
  "dq_mm_desc (mm_issue d req i e f) = or_flag (unat (dq_pidx d)) S_DESC_F_SOP (or_flag e S_DESC_F_EOP (fl_ring f))"
  "dq_conf (mm_issue d req i e f) = dq_conf d" "dq_avail (mm_issue d req i e f) = dq_avail d - fl_cnt f"
  "dq_pidx (mm_issue d req i e f) = fl_pidx f" "dq_cidx (mm_issue d req i e f) = dq_cidx d"
  "dq_credit (mm_issue d req i e f) = dq_credit d" "dq_q_state (mm_issue d req i e f) = dq_q_state d"
  "dq_q_stop_wait (mm_issue d req i e f) = dq_q_stop_wait d" "dq_pidx_info (mm_issue d req i e f) = dq_pidx_info d"
  "dq_proc_req_running (mm_issue d req i e f) = dq_proc_req_running d" "dq_desc_pend (mm_issue d req i e f) = dq_desc_pend d"
  "dq_cmplthp (mm_issue d req i e f) = dq_cmplthp d"
  by (simp_all add: mm_issue_def Let_def)

text \<open>The flags at both ends do not change what a descriptor stands for.\<close>

lemma or_flag_desc_bytes:
  assumes "28 \<le> flag" and "flag < 32" and "i < length ring"
  shows "desc_bytes conf (or_flag i flag ring ! k) = desc_bytes conf (ring ! k)"
proof -
  have "push_bit flag 1 AND mask 28 = (0 :: u32)"
    using assms(1,2) by (intro bit_word_eqI) (auto simp: bit_and_iff bit_mask_iff bit_exp_iff)
  then have "(x OR push_bit flag 1) AND QDMA_DESC_BLEN_MAX = x AND QDMA_DESC_BLEN_MAX" for x :: u32
    by (simp add: blen_max bit.conj_disj_distrib2)
  then show ?thesis
    using assms(3) by (cases "k = i") (simp_all add: or_flag_def desc_bytes_def)
qed

lemma length_or_flag [simp]: "length (or_flag i flag ring) = length ring"
  by (simp add: or_flag_def)

lemma or_flag_other: "k \<noteq> i \<Longrightarrow> or_flag i flag ring ! k = ring ! k"
  by (simp add: or_flag_def)

text \<open>What the first \<open>c\<close> slots behind the producer index stand for.\<close>

definition slot_bytes :: "qdma_descq \<Rightarrow> nat \<Rightarrow> nat \<Rightarrow> (u64 \<times> u64) list" where
  "slot_bytes d p c =
     concat (map (\<lambda>j. desc_bytes (dq_conf d) (dq_mm_desc d ! ((p + j) mod unat (qc_rngsz (dq_conf d))))) [0..<c])"

definition ring_shape :: "qdma_descq \<Rightarrow> bool" where
  "ring_shape d \<longleftrightarrow> length (dq_mm_desc d) = unat (qc_rngsz (dq_conf d)) \<and> unat (dq_pidx d) < unat (qc_rngsz (dq_conf d)) \<and>
     unat (dq_avail d) < unat (qc_rngsz (dq_conf d))"

lemma mm_turn:
  assumes shape: "ring_shape d" and work: "dq_work_list d = req # reqs" and op: "open_req (dq_conf d) req"
    and room: "dq_avail d \<noteq> 0"
  obtains i sg_offset i' f desc_end c m where "qdma_sgl_find_offset req = Some (i, sg_offset)"
    "mm_fill d req (dq_avail d) i sg_offset = (i', f)" "fl_last f = Some desc_end"
    "unat (fl_cnt f) = c" "0 < c" "c \<le> unat (dq_avail d)" "c \<le> m" "m \<le> length (req_todo (dq_conf d) req)"
    "m = length (req_todo (dq_conf d) req) \<or> c = unat (dq_avail d)" "fl_data f = of_nat m"
    "slot_bytes (mm_issue d req i' desc_end f) (unat (dq_pidx d)) c = take m (req_todo (dq_conf d) req)"
    "\<forall>k. (\<forall>j < c. k \<noteq> (unat (dq_pidx d) + j) mod unat (qc_rngsz (dq_conf d))) \<longrightarrow>
       dq_mm_desc (mm_issue d req i' desc_end f) ! k = dq_mm_desc d ! k"
    "length (dq_mm_desc (mm_issue d req i' desc_end f)) = length (dq_mm_desc d)"
    "unat (fl_pidx f) = (unat (dq_pidx d) + c) mod unat (qc_rngsz (dq_conf d))"
proof -
  define n where "n = unat (qc_rngsz (dq_conf d))"
  define p where "p = unat (dq_pidx d)"
  have len: "length (dq_mm_desc d) = n" and p: "p < n" and av: "unat (dq_avail d) < n"
    using shape by (simp_all add: ring_shape_def n_def p_def)
  have wf: "wf_req req" and ap: "aperture_ok (dq_conf d) (dr_ep_addr req)" and lt: "cb_offset (dr_cb req) < dr_count req"
    using op by (simp_all add: open_req_def req_offset_def word_less_nat_alt)
  obtain i o1 i' f ys m where find: "qdma_sgl_find_offset req = Some (i, o1)" and fill: "mm_fill d req (dq_avail d) i o1 = (i', f)"
    and wr: "wrote n p (dq_mm_desc d) ys f" and ne: "ys \<noteq> []" and ly: "length ys \<le> unat (dq_avail d)" and m: "length ys \<le> m"
      "m \<le> unat (dr_count req) - unat (cb_offset (dr_cb req))"
      "m = unat (dr_count req) - unat (cb_offset (dr_cb req)) \<or> length ys = unat (dq_avail d)" and da: "fl_data f = of_nat m"
    and by': "concat (map (desc_bytes (dq_conf d)) ys) = take m (drop (unat (cb_offset (dr_cb req))) (req_bytes (dq_conf d) req))"
    unfolding p_def by (rule mm_fill_spec [OF ap wf n_def [symmetric] p [unfolded p_def] room lt])
  define desc_end where "desc_end = (p + length ys - 1) mod n"
  have last: "fl_last f = Some desc_end" and cnt: "unat (fl_cnt f) = length ys" and pi: "unat (fl_pidx f) = (p + length ys) mod n"
    and ring: "fl_ring f = put_all n p (dq_mm_desc d) ys"
    using wr ne by (simp_all add: wrote_def desc_end_def)
  define d' where "d' = mm_issue d req i' desc_end f"
  have ring': "dq_mm_desc d' = or_flag p S_DESC_F_SOP (or_flag desc_end S_DESC_F_EOP (fl_ring f))" and conf': "dq_conf d' = dq_conf d"
    by (simp_all add: d'_def p_def)
  have e: "desc_end < n" using p by (simp add: desc_end_def)
  have lr: "length (fl_ring f) = n" by (simp add: ring len)
  have bytes: "desc_bytes (dq_conf d) (dq_mm_desc d' ! k) = desc_bytes (dq_conf d) (fl_ring f ! k)" for k
    using p e lr by (simp add: ring' or_flag_desc_bytes S_DESC_F_SOP_def S_DESC_F_EOP_def)
  have slot: "desc_bytes (dq_conf d) (dq_mm_desc d' ! ((p + j) mod n)) = desc_bytes (dq_conf d) (ys ! j)" if "j < length ys" for j
    using that ly av by (simp add: bytes ring put_all_nth [OF len])
  have "map (\<lambda>j. desc_bytes (dq_conf d) (dq_mm_desc d' ! ((p + j) mod n))) [0..<length ys] = map (desc_bytes (dq_conf d)) ys"
    by (rule nth_equalityI) (simp_all add: slot)
  then have sb: "slot_bytes d' p (length ys) = take m (req_todo (dq_conf d) req)"
    by (simp add: slot_bytes_def conf' flip: n_def) (simp add: by' req_todo_def req_offset_def)
  have other: "dq_mm_desc d' ! k = dq_mm_desc d ! k" if "\<And>j. j < length ys \<Longrightarrow> k \<noteq> (p + j) mod n" for k
  proof -
    have "k \<noteq> p" using that [of 0] ne p by simp
    moreover have "k \<noteq> desc_end" using that [of "length ys - 1"] ne by (cases ys) (simp_all add: desc_end_def)
    ultimately show ?thesis using that by (simp add: ring' or_flag_other ring put_all_other)
  qed
  have ld: "length (dq_mm_desc d') = length (dq_mm_desc d)" by (simp add: ring' ring)
  show ?thesis
    by (rule that [of i o1 i' f desc_end "length ys" m])
      (use find fill last cnt ne ly m da sb other ld pi wf in
        \<open>simp_all add: length_req_todo req_offset_def flip: d'_def n_def p_def\<close>)
qed

section \<open>The whole work list\<close>

text \<open>Without polling the loop only looks at the descriptors it has.\<close>

definition by_interrupt :: "'h descq_env \<Rightarrow> bool" where
  "by_interrupt e \<longleftrightarrow> de_drv_mode e \<noteq> POLL_MODE \<and> de_drv_mode e \<noteq> AUTO_MODE"

lemma poll_by_interrupt [simp]: "by_interrupt e \<Longrightarrow> descq_poll_mm_n_h2c_cmpl_status hw d e = (d, e)"
  by (simp add: by_interrupt_def descq_poll_mm_n_h2c_cmpl_status_def)

lemma mm_work_loop_Nil: "dq_work_list d = [] \<Longrightarrow> mm_work_loop hw bypass w d e = Some (w, d, e)"
  by (simp add: mm_work_loop.simps)

lemma mm_work_loop_full:
  "by_interrupt e \<Longrightarrow> dq_avail d = 0 \<Longrightarrow> mm_work_loop hw bypass w d e = Some (w, d, e)"
  by (simp add: mm_work_loop.simps split: list.split)

lemma mm_work_loop_turn:
  assumes "dq_work_list d = req # reqs" and "dq_avail d \<noteq> 0" and "qdma_sgl_find_offset req = Some (i, sg_offset)"
    and "mm_fill d req (dq_avail d) i sg_offset = (i', f)" and "fl_last f = Some desc_end"
  shows "mm_work_loop hw None w d e = mm_work_loop hw None (w + fl_cnt f) (mm_issue d req i' desc_end f) e"
  using assms by (subst mm_work_loop.simps) simp

lemma work_list_issue:
  assumes "dq_work_list d = req # reqs"
  shows "dq_work_list (mm_issue d req i e f) =
     (let req' = advance_req (fl_cnt f) (fl_data f) (if i = length (dr_sgl req) then 0 else fl_sg_offset f)
        (if i = length (dr_sgl req) then None else Some i) req
      in if cb_offset (dr_cb req) + fl_data f \<ge> dr_count req then reqs else req' # reqs)"
  using assms by (simp add: mm_issue_def qdma_update_request_def qdma_work_queue_del_def Let_def)

lemma offset_add:
  assumes "wf_req req" and "req_offset req < unat (dr_count req)" and "m \<le> length (req_todo conf req)"
  shows "unat (cb_offset (dr_cb req) + of_nat m) = req_offset req + m"
proof -
  have "req_offset req + m \<le> unat (dr_count req)" using assms by (simp add: length_req_todo)
  then have "req_offset req + m < 2 ^ 32" using unsigned_less [of "dr_count req", where ?'a = nat] by simp
  then show ?thesis by (simp add: req_offset_def unat_word_ariths unsigned_of_nat take_bit_nat_eq_self)
qed

lemma todo_issue:
  assumes work: "dq_work_list d = req # reqs" and op: "open_req conf req"
    and m: "0 < m" "m \<le> length (req_todo conf req)" and f: "fl_data f = of_nat m"
  shows "take m (req_todo conf req) @ todo conf (dq_work_list (mm_issue d req i e f)) = todo conf (req # reqs)"
    and "(\<forall>r \<in> set reqs. open_req conf r) \<Longrightarrow> \<forall>r \<in> set (dq_work_list (mm_issue d req i e f)). open_req conf r"
    and "m < length (req_todo conf req) \<or> dq_work_list (mm_issue d req i e f) = reqs"
proof -
  have wf: "wf_req req" and lt: "req_offset req < unat (dr_count req)" using op by (simp_all add: open_req_def)
  have off: "unat (cb_offset (dr_cb req) + of_nat m) = req_offset req + m" by (rule offset_add [OF wf lt m(2)])
  have len: "length (req_todo conf req) = unat (dr_count req) - req_offset req" by (rule length_req_todo [OF wf])
  have fin: "cb_offset (dr_cb req) + of_nat m \<ge> dr_count req \<longleftrightarrow> m = length (req_todo conf req)"
    using off len m(2) lt by (auto simp: word_le_nat_alt)
  show "take m (req_todo conf req) @ todo conf (dq_work_list (mm_issue d req i e f)) = todo conf (req # reqs)"
  proof (cases "m = length (req_todo conf req)")
    case True
    then show ?thesis using fin by (simp add: work_list_issue [OF work] f)
  next
    case False
    define req' where "req' = advance_req (fl_cnt f) (of_nat m) (if i = length (dr_sgl req) then 0 else fl_sg_offset f)
      (if i = length (dr_sgl req) then None else Some i) req"
    have "dq_work_list (mm_issue d req i e f) = req' # reqs"
      using False fin by (simp add: work_list_issue [OF work] f Let_def req'_def)
    moreover have "req_todo conf req' = drop m (req_todo conf req)"
      using off by (simp add: req_todo_def req_offset_def req'_def add.commute)
    ultimately show ?thesis by (simp flip: append_assoc)
  qed
  show "\<forall>r \<in> set (dq_work_list (mm_issue d req i e f)). open_req conf r" if "\<forall>r \<in> set reqs. open_req conf r"
    using that op fin off len m(2) by (auto simp: work_list_issue [OF work] f Let_def open_req_def req_offset_def)
  show "m < length (req_todo conf req) \<or> dq_work_list (mm_issue d req i e f) = reqs"
    using fin m(2) by (auto simp: work_list_issue [OF work] f Let_def)
qed

text \<open>What does not depend on the requests.\<close>

definition same_queue :: "qdma_descq \<Rightarrow> qdma_descq \<Rightarrow> bool" where
  "same_queue d d' \<longleftrightarrow> dq_conf d' = dq_conf d \<and> dq_cidx d' = dq_cidx d \<and> dq_q_state d' = dq_q_state d \<and>
     dq_q_stop_wait d' = dq_q_stop_wait d \<and> dq_pidx_info d' = dq_pidx_info d \<and>
     dq_proc_req_running d' = dq_proc_req_running d \<and> dq_cmplthp d' = dq_cmplthp d \<and> dq_credit d' = dq_credit d \<and>
     length (dq_mm_desc d') = length (dq_mm_desc d)"

lemma slot_bytes_append: "slot_bytes d p (a + b) = slot_bytes d p a @ slot_bytes d (p + a) b"
  by (simp add: slot_bytes_def map_upt_split add.assoc)

lemma slot_bytes_mod: "slot_bytes d (p mod unat (qc_rngsz (dq_conf d))) c = slot_bytes d p c"
  by (simp add: slot_bytes_def mod_add_left_eq)

lemma slot_bytes_same:
  assumes "dq_conf d' = dq_conf d"
    and "\<And>j. j < c \<Longrightarrow> dq_mm_desc d' ! ((p + j) mod unat (qc_rngsz (dq_conf d))) = dq_mm_desc d ! ((p + j) mod unat (qc_rngsz (dq_conf d)))"
  shows "slot_bytes d' p c = slot_bytes d p c"
  using assms by (auto simp: slot_bytes_def intro!: arg_cong [where f = concat] map_cong)

lemma mm_work_loop_spec:
  assumes "ring_shape d" and "\<forall>req \<in> set (dq_work_list d). open_req (dq_conf d) req" and "by_interrupt e"
  shows "\<exists>d' c. mm_work_loop hw None w d e = Some (w + of_nat c, d', e) \<and> c \<le> unat (dq_avail d) \<and>
    slot_bytes d' (unat (dq_pidx d)) c @ todo (dq_conf d) (dq_work_list d') = todo (dq_conf d) (dq_work_list d) \<and>
    (dq_work_list d' = [] \<or> c = unat (dq_avail d)) \<and> (dq_work_list d \<noteq> [] \<and> dq_avail d \<noteq> 0 \<longrightarrow> 0 < c) \<and>
    (\<forall>k. (\<forall>j < c. k \<noteq> (unat (dq_pidx d) + j) mod unat (qc_rngsz (dq_conf d))) \<longrightarrow> dq_mm_desc d' ! k = dq_mm_desc d ! k) \<and>
    unat (dq_pidx d') = (unat (dq_pidx d) + c) mod unat (qc_rngsz (dq_conf d)) \<and> unat (dq_avail d') = unat (dq_avail d) - c \<and>
    same_queue d d'"
  using assms
proof (induction "length (todo (dq_conf d) (dq_work_list d))" arbitrary: d w rule: less_induct)
  case less
  define n where "n = unat (qc_rngsz (dq_conf d))"
  define p where "p = unat (dq_pidx d)"
  have p: "p < n" and av: "unat (dq_avail d) < n" and len: "length (dq_mm_desc d) = n"
    using less.prems(1) by (simp_all add: ring_shape_def n_def p_def)
  show ?case
  proof (cases "dq_work_list d = [] \<or> dq_avail d = 0")
    case True
    then have "mm_work_loop hw None w d e = Some (w, d, e)"
      using less.prems(3) by (auto simp: mm_work_loop_Nil mm_work_loop_full)
    then show ?thesis
      using True p by (intro exI [of _ d] exI [of _ "0 :: nat"]) (auto simp: slot_bytes_def same_queue_def p_def n_def)
  next
    case False
    then obtain req reqs where work: "dq_work_list d = req # reqs" and room: "dq_avail d \<noteq> 0" by (cases "dq_work_list d") auto
    have op: "open_req (dq_conf d) req" and ops: "\<forall>r \<in> set reqs. open_req (dq_conf d) r" using less.prems(2) work by auto
    obtain i sg_offset i' f desc_end c m where
      find: "qdma_sgl_find_offset req = Some (i, sg_offset)" and fill: "mm_fill d req (dq_avail d) i sg_offset = (i', f)"
      and last: "fl_last f = Some desc_end" and cnt: "unat (fl_cnt f) = c" and c: "0 < c" "c \<le> unat (dq_avail d)"
      and cm: "c \<le> m" and m2: "m \<le> length (req_todo (dq_conf d) req)" and m3: "m = length (req_todo (dq_conf d) req) \<or> c = unat (dq_avail d)"
      and da: "fl_data f = of_nat m"
      and sb: "slot_bytes (mm_issue d req i' desc_end f) (unat (dq_pidx d)) c = take m (req_todo (dq_conf d) req)"
      and other: "\<forall>k. (\<forall>j < c. k \<noteq> (unat (dq_pidx d) + j) mod unat (qc_rngsz (dq_conf d))) \<longrightarrow>
        dq_mm_desc (mm_issue d req i' desc_end f) ! k = dq_mm_desc d ! k"
      and len': "length (dq_mm_desc (mm_issue d req i' desc_end f)) = length (dq_mm_desc d)"
      and pi: "unat (fl_pidx f) = (unat (dq_pidx d) + c) mod unat (qc_rngsz (dq_conf d))"
      by (rule mm_turn [OF less.prems(1) work op room])
    have m: "0 < m" "m \<le> length (req_todo (dq_conf d) req)" using c(1) cm m2 by simp_all
    define d1 where "d1 = mm_issue d req i' desc_end f"
    have av1: "unat (dq_avail d1) = unat (dq_avail d) - c"
      using c(2) cnt by (simp add: d1_def unat_sub word_le_nat_alt)
    have conf1: "dq_conf d1 = dq_conf d" and pi1: "unat (dq_pidx d1) = (p + c) mod n"
      using pi by (simp_all add: d1_def n_def p_def)
    have td: "take m (req_todo (dq_conf d) req) @ todo (dq_conf d) (dq_work_list d1) = todo (dq_conf d) (dq_work_list d)"
      using todo_issue(1) [OF work op m(1,2) da] work by (simp add: d1_def)
    have "length (todo (dq_conf d1) (dq_work_list d1)) < length (todo (dq_conf d) (dq_work_list d))"
      using arg_cong [OF td, of length] m(1,2) conf1 by simp
    moreover have "ring_shape d1" using len len' p av av1 pi1 by (simp add: ring_shape_def conf1 flip: n_def d1_def)
    moreover have "\<forall>r \<in> set (dq_work_list d1). open_req (dq_conf d1) r"
      using todo_issue(2) [OF work op m(1,2) da ops] by (simp add: d1_def)
    ultimately obtain d' c' where
      run: "mm_work_loop hw None (w + fl_cnt f) d1 e = Some (w + fl_cnt f + of_nat c', d', e)" and c': "c' \<le> unat (dq_avail d1)"
      and sb': "slot_bytes d' (unat (dq_pidx d1)) c' @ todo (dq_conf d1) (dq_work_list d') = todo (dq_conf d1) (dq_work_list d1)"
      and fin: "dq_work_list d' = [] \<or> c' = unat (dq_avail d1)"
      and other': "\<forall>k. (\<forall>j < c'. k \<noteq> (unat (dq_pidx d1) + j) mod unat (qc_rngsz (dq_conf d1))) \<longrightarrow> dq_mm_desc d' ! k = dq_mm_desc d1 ! k"
      and pi': "unat (dq_pidx d') = (unat (dq_pidx d1) + c') mod unat (qc_rngsz (dq_conf d1))"
      and av': "unat (dq_avail d') = unat (dq_avail d1) - c'" and same: "same_queue d1 d'"
      using less.hyps [of d1 "w + fl_cnt f"] less.prems(3) by blast
    have cc: "c + c' < n" using c c' av av1 by simp
    have conf': "dq_conf d' = dq_conf d" using same conf1 by (simp add: same_queue_def)
    have keep: "dq_mm_desc d' ! ((p + j) mod n) = dq_mm_desc d1 ! ((p + j) mod n)" if "j < c" for j
    proof -
      have "(p + j) mod n \<noteq> ((p + c) mod n + j') mod n" if "j' < c'" for j'
        using slot_neq [of j n "c + j'" p] \<open>j < c\<close> that cc by (simp add: mod_add_left_eq add.assoc)
      then show ?thesis using other' by (simp add: conf1 pi1 flip: n_def)
    qed
    have "slot_bytes d' p c = take m (req_todo (dq_conf d) req)"
      using sb slot_bytes_same [of d' d1 c p] keep conf' conf1 by (simp add: p_def d1_def n_def)
    moreover have "slot_bytes d' (unat (dq_pidx d1)) c' = slot_bytes d' (p + c) c'"
      using slot_bytes_mod [of d' "p + c" c'] by (simp add: pi1 n_def conf')
    ultimately have "slot_bytes d' p (c + c') @ todo (dq_conf d) (dq_work_list d') = todo (dq_conf d) (dq_work_list d)"
      using sb' td by (simp add: slot_bytes_append conf1)
    moreover have "mm_work_loop hw None w d e = Some (w + of_nat (c + c'), d', e)"
      using mm_work_loop_turn [OF work room find fill last, of hw w e] run cnt
      by (simp add: d1_def add.assoc flip: cnt)
    moreover have "dq_mm_desc d' ! k = dq_mm_desc d ! k" if "\<forall>j < c + c'. k \<noteq> (p + j) mod n" for k
    proof -
      have "\<forall>j < c'. k \<noteq> (unat (dq_pidx d1) + j) mod n"
        using that by (simp add: pi1 mod_add_left_eq add.assoc)
      then have "dq_mm_desc d' ! k = dq_mm_desc d1 ! k" using other' by (simp add: conf1 n_def)
      also have "\<dots> = dq_mm_desc d ! k" using that other by (simp add: d1_def p_def n_def)
      finally show ?thesis .
    qed
    moreover have "dq_work_list d' = [] \<or> c + c' = unat (dq_avail d)" using fin av1 c by auto
    moreover have "unat (dq_pidx d') = (p + (c + c')) mod n" using pi' by (simp add: pi1 conf1 mod_add_left_eq add.assoc flip: n_def)
    moreover have "same_queue d d'" using same len' by (simp add: same_queue_def d1_def)
    ultimately show ?thesis
      using c c' av1 av'
      by (intro exI [of _ d'] exI [of _ "c + c'"]) (simp add: p_def n_def)
  qed
qed

end
