(* ===== verification/Qdma_Descq_Ring.thy ===== *)
theory Qdma_Descq_Ring
  imports Qdma_Descq_Pass
begin

text \<open>
  Who owns the descriptors in the ring.  The abstract queue is the list of the requests whose descriptors
  are still with the card, one entry per descriptor, oldest first (\<open>owners\<close>): programming a request
  appends its number, a completion report drops entries from the front, and a request is handed
  back when its last entry goes.  The counters of the driver (\<open>avail\<close>, \<open>credit\<close>, \<open>desc_nr\<close>) implement this.
\<close>

section \<open>The abstract queue\<close>

definition own :: "descq_req \<Rightarrow> u64 list" where
  "own req = replicate (unat (cb_desc_nr (dr_cb req))) (dr_uld_data req)"

definition owed :: "descq_req list \<Rightarrow> u64 list" where
  "owed reqs = concat (map own reqs)"

definition owners :: "qdma_descq \<Rightarrow> u64 list" where
  "owners d = drop (unat (dq_credit d)) (owed (dq_pend_list d @ dq_work_list d))"

lemma owed_simps [simp]: "owed [] = []" "owed (req # reqs) = own req @ owed reqs" "owed (as @ bs) = owed as @ owed bs"
  by (simp_all add: owed_def)

lemma length_own [simp]: "length (own req) = unat (cb_desc_nr (dr_cb req))"
  by (simp add: own_def)

lemma set_own: "set (own req) = (if cb_desc_nr (dr_cb req) = 0 then {} else {dr_uld_data req})"
  by (simp add: own_def unat_eq_zero)

text \<open>Slots from one index to another, going around the ring.\<close>

definition ring_dist :: "nat \<Rightarrow> nat \<Rightarrow> nat \<Rightarrow> nat" where
  "ring_dist n a b = (if a \<le> b then b - a else n - a + b)"

lemma ring_dist_less: "a < n \<Longrightarrow> b < n \<Longrightarrow> ring_dist n a b < n"
  by (auto simp: ring_dist_def)

lemma ring_dist_same [simp]: "ring_dist n a a = 0"
  by (simp add: ring_dist_def)

lemma ring_dist_zero: "a < n \<Longrightarrow> b < n \<Longrightarrow> ring_dist n a b = 0 \<longleftrightarrow> a = b"
  by (auto simp: ring_dist_def)

lemma ring_dist_forward:
  assumes "a < n" and "b < n" and "ring_dist n a b + c < n"
  shows "ring_dist n a ((b + c) mod n) = ring_dist n a b + c"
proof (cases "b + c < n")
  case True
  then show ?thesis using assms by (auto simp: ring_dist_def)
next
  case False
  then have "(b + c) mod n = b + c - n" using assms by (simp add: mod_if ring_dist_def split: if_splits)
  then show ?thesis using assms False by (auto simp: ring_dist_def split: if_splits)
qed

lemma ring_dist_between:
  assumes "a < n" and "s < n" and "b < n" and "ring_dist n a s \<le> ring_dist n a b"
  shows "ring_dist n s b = ring_dist n a b - ring_dist n a s"
  using assms by (auto simp: ring_dist_def split: if_splits)

section \<open>The invariant\<close>

definition ring_size :: "qdma_descq \<Rightarrow> nat" where
  "ring_size d = unat (qc_rngsz (dq_conf d))"

definition in_flight :: "qdma_descq \<Rightarrow> nat" where
  "in_flight d = ring_dist (ring_size d) (unat (dq_cidx d)) (unat (dq_pidx d))"

text \<open>A ring as \<open>qdma_queue_start\<close> sets it up; the card reports 16-bit indices.\<close>

definition ring_ok :: "qdma_descq \<Rightarrow> bool" where
  "ring_ok d \<longleftrightarrow> 2 \<le> ring_size d \<and> ring_size d \<le> 2 ^ 16 \<and> length (dq_mm_desc d) = ring_size d \<and>
     unat (dq_pidx d) < ring_size d \<and> unat (dq_cidx d) < ring_size d \<and> unat (dq_avail d) + in_flight d = ring_size d - 1"

text \<open>
  Requests on the two lists that are counted right: on the pending list all bytes are programmed and
  some descriptor is still to be accounted; on the work list there is at most one descriptor for
  each byte, and fewer than \<open>2 ^ 31\<close> bytes.
\<close>

definition pend_req :: "descq_req \<Rightarrow> bool" where
  "pend_req req \<longleftrightarrow> cb_desc_nr (dr_cb req) \<noteq> 0 \<and> unat (cb_desc_nr (dr_cb req)) < 2 ^ 31 \<and> cb_offset (dr_cb req) = dr_count req"

definition work_req :: "qdma_queue_conf \<Rightarrow> descq_req \<Rightarrow> bool" where
  "work_req conf req \<longleftrightarrow> open_req conf req \<and> unat (dr_count req) < 2 ^ 31 \<and> unat (cb_desc_nr (dr_cb req)) \<le> req_offset req"

definition acct_ok :: "qdma_descq \<Rightarrow> bool" where
  "acct_ok d \<longleftrightarrow> (\<forall>req \<in> set (dq_pend_list d). pend_req req) \<and>
     (\<forall>req \<in> set (dq_work_list d). work_req (dq_conf d) req) \<and>
     (\<forall>req \<in> set (tl (dq_work_list d)). cb_desc_nr (dr_cb req) = 0) \<and>
     length (owed (dq_pend_list d @ dq_work_list d)) = in_flight d + unat (dq_credit d) \<and>
     (case dq_pend_list d of
        [] \<Rightarrow> (case dq_work_list d of [] \<Rightarrow> dq_credit d = 0 | req # _ \<Rightarrow> dq_credit d \<le> cb_desc_nr (dr_cb req))
      | req # _ \<Rightarrow> dq_credit d < cb_desc_nr (dr_cb req)) \<and>
     distinct (map dr_uld_data (dq_pend_list d @ dq_work_list d))"

definition queue_ok :: "qdma_descq \<Rightarrow> bool" where
  "queue_ok d \<longleftrightarrow> ring_ok d \<and> acct_ok d"

text \<open>As many owners as descriptors with the card.\<close>

lemma length_owners: "acct_ok d \<Longrightarrow> length (owners d) = in_flight d"
  unfolding acct_ok_def owners_def length_drop by (elim conjE) (simp only: diff_add_inverse2)

section \<open>Completions\<close>

text \<open>The requests the events hand back to their clients.\<close>

fun handed_back :: "descq_event \<Rightarrow> u64 list" where
  "handed_back (Fp_done req n err) = [dr_uld_data req]"
| "handed_back (Wakeup req) = [dr_uld_data req]"
| "handed_back _ = []"

definition returned :: "'h descq_env \<Rightarrow> u64 list" where
  "returned e = concat (map handed_back (de_events e))"

lemma returned_emit [simp]: "returned (emit v e) = returned e @ handed_back v"
  by (simp add: returned_def emit_def)

text \<open>A request handed back with success, all of its bytes transferred.\<close>

fun good_event :: "descq_event \<Rightarrow> bool" where
  "good_event (Fp_done req n err) \<longleftrightarrow> err = 0 \<and> n = dr_count req \<and> cb_done (dr_cb req)"
| "good_event (Wakeup req) \<longleftrightarrow> cb_status (dr_cb req) = 0 \<and> cb_offset (dr_cb req) = dr_count req \<and> cb_done (dr_cb req)"
| "good_event _ \<longleftrightarrow> True"

definition clean_events :: "'h descq_env \<Rightarrow> bool" where
  "clean_events e \<longleftrightarrow> list_all good_event (de_events e)"

lemma clean_emit [simp]: "clean_events (emit v e) \<longleftrightarrow> clean_events e \<and> good_event v"
  by (simp add: clean_events_def emit_def)

text \<open>The parts of the queue that completing requests does not touch.\<close>

definition same_ring :: "qdma_descq \<Rightarrow> qdma_descq \<Rightarrow> bool" where
  "same_ring d d' \<longleftrightarrow> dq_conf d' = dq_conf d \<and> dq_q_state d' = dq_q_state d \<and> dq_q_stop_wait d' = dq_q_stop_wait d \<and>
     dq_work_list d' = dq_work_list d \<and> dq_work_req_pend d' = dq_work_req_pend d \<and> dq_avail d' = dq_avail d \<and>
     dq_pidx d' = dq_pidx d \<and> dq_cidx d' = dq_cidx d \<and> dq_mm_desc d' = dq_mm_desc d \<and> dq_pidx_info d' = dq_pidx_info d \<and>
     dq_credit d' = dq_credit d \<and> dq_cmplthp d' = dq_cmplthp d"

lemma same_ring_refl [simp]: "same_ring d d"
  by (simp add: same_ring_def)

lemma same_ring_trans: "same_ring a b \<Longrightarrow> same_ring b c \<Longrightarrow> same_ring a c"
  by (simp add: same_ring_def)

lemma req_done_projections:
  "same_ring d (fst (qdma_sgt_req_done req err d e))" "dq_pend_list (fst (qdma_sgt_req_done req err d e)) = dq_pend_list d"
  "returned (snd (qdma_sgt_req_done req err d e)) = returned e @ [dr_uld_data req]"
  "de_card (snd (qdma_sgt_req_done req err d e)) = de_card e"
  "de_drv_mode (snd (qdma_sgt_req_done req err d e)) = de_drv_mode e"
  "dq_proc_req_running (fst (qdma_sgt_req_done req err d e)) = dq_proc_req_running d"
  by (simp_all add: qdma_sgt_req_done_def Let_def same_ring_def split_beta) (simp_all add: emit_def)

lemma req_done_effect:
  assumes "qdma_sgt_req_done req err d e = (d', e')"
  shows "same_ring d d'" and "dq_pend_list d' = dq_pend_list d" and "returned e' = returned e @ [dr_uld_data req]"
    and "de_card e' = de_card e" and "de_drv_mode e' = de_drv_mode e" and "dq_proc_req_running d' = dq_proc_req_running d"
  using req_done_projections [where d = d and req = req and err = err and e = e] by (simp_all add: assms)

lemma req_done_clean:
  assumes "qdma_sgt_req_done req 0 d e = (d', e')" and "cb_offset (dr_cb req) = dr_count req" and "clean_events e"
  shows "clean_events e'"
proof -
  have "clean_events (snd (qdma_sgt_req_done req 0 d e))"
    using assms(2,3) by (simp add: qdma_sgt_req_done_def Let_def split_beta)
  then show ?thesis by (simp add: assms(1))
qed

lemma complete_reqs_spec:
  assumes "complete_reqs reqs cr d e = (cr', d', e')" and "\<And>req. req \<in> set reqs \<Longrightarrow> pend_req req"
  shows "same_ring d d' \<and> de_card e' = de_card e \<and> de_drv_mode e' = de_drv_mode e \<and> (clean_events e \<longrightarrow> clean_events e') \<and>
    dq_proc_req_running d' = dq_proc_req_running d \<and>
    (\<exists>k \<le> length reqs. returned e' = returned e @ map dr_uld_data (take k reqs) \<and>
       map dr_uld_data (dq_pend_list d') = map dr_uld_data (drop k reqs)) \<and>
    drop (unat cr') (owed (dq_pend_list d') @ rest) = drop (unat cr) (owed reqs @ rest) \<and> unat cr' \<le> unat cr \<and>
    (dq_pend_list d' \<noteq> [] \<longrightarrow> cr' = 0) \<and> (\<forall>req \<in> set (dq_pend_list d'). pend_req req) \<and>
    length (owed (dq_pend_list d')) + unat cr = length (owed reqs) + unat cr'"
  using assms
proof (induction reqs arbitrary: cr d e)
  case Nil
  then show ?case by (auto simp: same_ring_def)
next
  case (Cons req reqs)
  define x where "x = cb_desc_nr (dr_cb req)"
  have x: "x \<noteq> 0" "unat x < 2 ^ 31" and reqs: "\<And>r. r \<in> set reqs \<Longrightarrow> pend_req r"
    using Cons.prems(2) by (auto simp: x_def pend_req_def)
  show ?case
  proof (cases "cr \<ge> x")
    case True
    obtain d1 e1 where dn: "qdma_sgt_req_done req 0 (d\<lparr>dq_pend_list := reqs\<rparr>) e = (d1, e1)" by fastforce
    note eff = req_done_effect [OF dn]
    have cl: "clean_events e \<Longrightarrow> clean_events e1" using req_done_clean [OF dn] Cons.prems(2) by (simp add: pend_req_def)
    have sr: "same_ring d d1" using eff(1) by (simp add: same_ring_def)
    have sub: "unat (cr - x) = unat cr - unat x" "unat x \<le> unat cr" using True by (simp_all add: unat_sub word_le_nat_alt)
    show ?thesis
    proof (cases "cr - x = 0")
      case T: True
      then have "cr' = cr - x" "d' = d1" "e' = e1" using Cons.prems(1) True dn by (simp_all add: x_def)
      moreover have "unat cr = unat x" using T sub by simp
      ultimately show ?thesis
        using sr eff cl reqs T by (auto simp: x_def [symmetric] intro!: exI [of _ 1])
    next
      case F: False
      then have "complete_reqs reqs (cr - x) d1 e1 = (cr', d', e')" using Cons.prems(1) True dn by (simp add: x_def Let_def)
      from Cons.IH [OF this reqs]
      have ih: "same_ring d1 d' \<and> de_card e' = de_card e1 \<and> de_drv_mode e' = de_drv_mode e1 \<and>
        (clean_events e1 \<longrightarrow> clean_events e') \<and>
        dq_proc_req_running d' = dq_proc_req_running d1 \<and>
        (\<exists>k \<le> length reqs. returned e' = returned e1 @ map dr_uld_data (take k reqs) \<and>
           map dr_uld_data (dq_pend_list d') = map dr_uld_data (drop k reqs)) \<and>
        drop (unat cr') (owed (dq_pend_list d') @ rest) = drop (unat (cr - x)) (owed reqs @ rest) \<and> unat cr' \<le> unat (cr - x) \<and>
        (dq_pend_list d' \<noteq> [] \<longrightarrow> cr' = 0) \<and> (\<forall>req \<in> set (dq_pend_list d'). pend_req req) \<and>
        length (owed (dq_pend_list d')) + unat (cr - x) = length (owed reqs) + unat cr'"
        by blast
      then obtain k where k: "k \<le> length reqs" "returned e' = returned e1 @ map dr_uld_data (take k reqs)"
        "map dr_uld_data (dq_pend_list d') = map dr_uld_data (drop k reqs)" by blast
      have "\<exists>k \<le> length (req # reqs). returned e' = returned e @ map dr_uld_data (take k (req # reqs)) \<and>
          map dr_uld_data (dq_pend_list d') = map dr_uld_data (drop k (req # reqs))"
        using k eff(3) by (intro exI [of _ "Suc k"]) simp
      moreover have "drop (unat cr) (owed (req # reqs) @ rest) = drop (unat (cr - x)) (owed reqs @ rest)"
        using sub by (simp add: x_def)
      ultimately show ?thesis
        using ih sub sr eff cl same_ring_trans [OF sr, of d'] by (auto simp: x_def)
    qed
  next
    case False
    then have lt: "unat cr < unat x" by (simp add: word_le_nat_alt)
    have sub: "unat (x - cr) = unat x - unat cr" using lt by (simp add: unat_sub word_le_nat_alt)
    have "cr' = 0" "e' = e" "d' = d\<lparr>dq_pend_list := req\<lparr>dr_cb := (dr_cb req)\<lparr>cb_desc_nr := x - cr\<rparr>\<rparr> # reqs\<rparr>"
      using Cons.prems(1) False by (simp_all add: x_def)
    moreover have "x - cr \<noteq> 0" using sub lt by auto
    moreover have "cb_offset (dr_cb req) = dr_count req" using Cons.prems(2) by (simp add: pend_req_def)
    ultimately show ?thesis
      using lt sub reqs x(2) by (auto simp: own_def x_def [symmetric] pend_req_def same_ring_def intro!: exI [of _ 0])
  qed
qed

text \<open>What a completion report does: \<open>cr\<close> descriptors come back from the card.\<close>

lemma cmpl_credit:
  assumes "idx < rngsz" and "status < rngsz" and "unat (rngsz :: u32) \<le> 2 ^ 16"
  shows "unat (if status < idx then (rngsz - idx) + status else status - idx) = ring_dist (unat rngsz) (unat idx) (unat status)"
proof (cases "status < idx")
  case True
  have "unat (rngsz - idx) = unat rngsz - unat idx" using assms(1) by (simp add: unat_sub word_le_nat_alt word_less_nat_alt)
  then have "unat ((rngsz - idx) + status) = unat rngsz - unat idx + unat status"
    using assms by (simp add: unat_word_ariths word_less_nat_alt)
  then show ?thesis using True by (simp add: ring_dist_def word_less_nat_alt)
next
  case False
  then have "idx \<le> status" by simp
  then show ?thesis using False by (simp add: ring_dist_def unat_sub word_le_nat_alt)
qed

lemma acct_credit_bound:
  assumes "acct_ok d"
  shows "unat (dq_credit d) < 2 ^ 31"
proof (cases "dq_pend_list d")
  case (Cons req reqs)
  then show ?thesis using assms by (auto simp: acct_ok_def pend_req_def word_less_nat_alt)
next
  case Nil
  then show ?thesis
    using assms by (cases "dq_work_list d") (auto simp: acct_ok_def work_req_def open_req_def word_le_nat_alt)
qed

lemma pidx_update_frame:
  assumes "qdma_pidx_update hw force d e = (rv, d', e')"
  shows "same_ring d d'" and "dq_pend_list d' = dq_pend_list d" and "dq_proc_req_running d' = dq_proc_req_running d"
    and "de_events e' = de_events e" and "de_drv_mode e' = de_drv_mode e"
  using assms
  by (auto simp: qdma_pidx_update_def queue_pidx_update_def same_ring_def Let_def split: if_splits prod.splits)

lemma incr_cmpl_projections:
  "same_ring d (fst (incr_cmpl_desc_cnt cr d e))" "dq_pend_list (fst (incr_cmpl_desc_cnt cr d e)) = dq_pend_list d"
  "dq_proc_req_running (fst (incr_cmpl_desc_cnt cr d e)) = dq_proc_req_running d"
  "de_events (snd (incr_cmpl_desc_cnt cr d e)) = de_events e" "de_drv_mode (snd (incr_cmpl_desc_cnt cr d e)) = de_drv_mode e"
  "de_card (snd (incr_cmpl_desc_cnt cr d e)) = de_card e"
  by (simp_all add: incr_cmpl_desc_cnt_def same_ring_def split: nat.split)

lemma tl_unowned: "\<forall>req \<in> set reqs. cb_desc_nr (dr_cb req) = 0 \<Longrightarrow> owed reqs = []"
  by (induction reqs) (simp_all add: own_def)

lemma owed_work:
  assumes "\<forall>req \<in> set (tl reqs). cb_desc_nr (dr_cb req) = 0"
  shows "owed reqs = (case reqs of [] \<Rightarrow> [] | req # _ \<Rightarrow> own req)"
  using assms by (cases reqs) (simp_all add: tl_unowned)

lemma set_owed: "set (owed reqs) \<subseteq> dr_uld_data ` set reqs"
  by (induction reqs) (auto simp: set_own split: if_splits)

lemma unat_ucast_up_u16: "unat (ucast (x :: u16) :: u32) = unat x"
proof -
  have "unat x < 2 ^ 16" using unsigned_less [where w = x and 'a = nat] by simp
  then have "unat x < 2 ^ 32" by simp
  then show ?thesis by (simp add: unsigned_ucast_eq take_bit_nat_eq_self)
qed

lemma cmpl_status_spec:
  assumes ok: "queue_ok d" and rd: "hw_cmpl_cidx hw (de_card e) = (status, h)"
    and st: "dq_pidx d \<noteq> dq_cidx d \<Longrightarrow> unat status < ring_size d \<and> ring_dist (ring_size d) (unat (dq_cidx d)) (unat status) \<le> in_flight d"
    and run: "descq_mm_n_h2c_cmpl_status hw d e = (d', e')"
  obtains fin cr where "queue_ok d'" "owners d' = drop cr (owners d)" "cr \<le> in_flight d"
    "map dr_uld_data (dq_pend_list d) = fin @ map dr_uld_data (dq_pend_list d')" "returned e' = returned e @ fin"
    "dq_work_list d' = dq_work_list d" "dq_conf d' = dq_conf d" "dq_pidx d' = dq_pidx d" "dq_mm_desc d' = dq_mm_desc d"
    "dq_q_state d' = dq_q_state d" "dq_q_stop_wait d' = dq_q_stop_wait d" "dq_pidx_info d' = dq_pidx_info d"
    "dq_proc_req_running d' = dq_proc_req_running d" "de_drv_mode e' = de_drv_mode e" "clean_events e \<longrightarrow> clean_events e'"
    "dq_cmplthp d' = dq_cmplthp d"
    "(dq_pidx d = dq_cidx d \<and> cr = 0 \<and> d' = d \<and> e' = e) \<or>
     (dq_pidx d \<noteq> dq_cidx d \<and> status = ucast (dq_cidx d) \<and> cr = 0 \<and> d' = d \<and> e' = e\<lparr>de_card := h\<rparr>) \<or>
     (dq_pidx d \<noteq> dq_cidx d \<and> unat (dq_cidx d') = unat status \<and> cr = ring_dist (ring_size d) (unat (dq_cidx d)) (unat status) \<and>
      de_card e' = snd (hw_queue_pidx_update hw 0 (ucast (qc_qidx (dq_conf d))) (of_nat (queue_type_code (qc_q_type (dq_conf d))))
        (Some (dq_pidx_info d)) h))"
proof (cases "dq_pidx d = dq_cidx d \<or> ucast status = dq_cidx d")
  case True
  have "d' = d \<and> e' = (if dq_pidx d = dq_cidx d then e else e\<lparr>de_card := h\<rparr>)"
    using run rd True by (cases "dq_pidx d = dq_cidx d") (simp_all add: descq_mm_n_h2c_cmpl_status_def Let_def)
  then have d': "d' = d" and e': "e' = (if dq_pidx d = dq_cidx d then e else e\<lparr>de_card := h\<rparr>)" by simp_all
  show ?thesis
  proof (cases "dq_pidx d = dq_cidx d")
    case T: True
    show ?thesis by (rule that [of 0 "[]"]) (use T ok d' e' in simp_all)
  next
    case F: False
    have "(ucast (ucast status :: u32) :: u16) = status" by (rule bit_word_eqI) (auto simp: bit_ucast_iff)
    then have st: "status = ucast (dq_cidx d)" using True F by simp
    have e': "e' = e\<lparr>de_card := h\<rparr>" using e' F by simp
    show ?thesis by (rule that [of 0 "[]"]) (use F ok d' e' st in \<open>simp_all add: returned_def clean_events_def\<close>)
  qed
next
  case False
  define n where "n = ring_size d"
  define cr where "cr = (if ucast status < dq_cidx d then (qc_rngsz (dq_conf d) - dq_cidx d) + ucast status else ucast status - dq_cidx d)"
  define d1 where "d1 = d\<lparr>dq_cidx := ucast status, dq_avail := dq_avail d + cr, dq_credit := dq_credit d + cr\<rparr>"
  obtain d2 e2 where ic: "incr_cmpl_desc_cnt cr d1 (e\<lparr>de_card := h\<rparr>) = (d2, e2)" by fastforce
  obtain cr' d3 e3 where cp: "complete_reqs (dq_pend_list d2) (dq_credit d2) d2 e2 = (cr', d3, e3)" using prod_cases3 by blast
  obtain rv d4 e4 where pu: "qdma_pidx_update hw True (d3\<lparr>dq_credit := cr'\<rparr>) e3 = (rv, d4, e4)" using prod_cases3 by blast
  have res: "d' = d4" "e' = e4"
    using run False rd ic cp pu by (simp_all add: descq_mm_n_h2c_cmpl_status_def cr_def d1_def Let_def)
  have rok: "ring_ok d" and aok: "acct_ok d" using ok by (simp_all add: queue_ok_def)
  have us: "unat (ucast status :: u32) = unat status" by (simp add: unat_ucast_up_u16)
  have n: "n = unat (qc_rngsz (dq_conf d))" "2 \<le> n" "n \<le> 2 ^ 16" and cidx: "unat (dq_cidx d) < n" and pidx: "unat (dq_pidx d) < n"
    using rok by (simp_all add: ring_ok_def n_def ring_size_def)
  have st': "unat status < n" "ring_dist n (unat (dq_cidx d)) (unat status) \<le> in_flight d" using st False by (simp_all add: n_def)
  have cr: "unat cr = ring_dist n (unat (dq_cidx d)) (unat status)"
    unfolding cr_def n(1) us [symmetric] by (rule cmpl_credit) (use cidx st' n us in \<open>simp_all add: word_less_nat_alt\<close>)
  have d2: "same_ring d1 d2" "dq_pend_list d2 = dq_pend_list d" "dq_proc_req_running d2 = dq_proc_req_running d"
    "de_events e2 = de_events e" "de_drv_mode e2 = de_drv_mode e" "de_card e2 = h"
    using incr_cmpl_projections [where d = d1 and cr = cr and e = "e\<lparr>de_card := h\<rparr>"]
    unfolding ic fst_conv snd_conv by (simp_all add: d1_def)
  have pr: "\<And>req. req \<in> set (dq_pend_list d2) \<Longrightarrow> pend_req req" using aok d2(2) by (simp add: acct_ok_def)
  note pf = pidx_update_frame [OF pu]
  have credit: "unat (dq_credit d2) = unat (dq_credit d) + unat cr"
  proof -
    have "ring_dist n (unat (dq_cidx d)) (unat status) < 2 ^ 16" using ring_dist_less [OF cidx st'(1)] n by simp
    then show ?thesis
      using d2(1) acct_credit_bound [OF aok] cr by (simp add: same_ring_def d1_def unat_word_ariths)
  qed
  have rest: "dq_work_list d2 = dq_work_list d" "dq_conf d2 = dq_conf d" using d2(1) by (simp_all add: same_ring_def d1_def)
  define wk where "wk = owed (dq_work_list d)"
  obtain k where k: "returned e3 = returned e2 @ map dr_uld_data (take k (dq_pend_list d))"
    "map dr_uld_data (dq_pend_list d3) = map dr_uld_data (drop k (dq_pend_list d))"
    using complete_reqs_spec [OF cp pr, of wk] d2(2) by auto
  have own3: "drop (unat cr') (owed (dq_pend_list d3) @ wk) = drop (unat (dq_credit d2)) (owed (dq_pend_list d) @ wk)"
    and pend3: "dq_pend_list d3 \<noteq> [] \<longrightarrow> cr' = 0" "\<forall>req \<in> set (dq_pend_list d3). pend_req req"
    and len3: "length (owed (dq_pend_list d3)) + unat (dq_credit d2) = length (owed (dq_pend_list d)) + unat cr'"
    and env3: "de_card e3 = de_card e2" "de_drv_mode e3 = de_drv_mode e2" "clean_events e2 \<longrightarrow> clean_events e3"
    and run3: "dq_proc_req_running d3 = dq_proc_req_running d2" and same3: "same_ring d2 d3"
    using complete_reqs_spec [OF cp pr, of wk] unfolding d2(2) by blast+
  have f: "dq_conf d' = dq_conf d" "dq_work_list d' = dq_work_list d" "dq_pidx d' = dq_pidx d" "dq_cidx d' = ucast status"
    "dq_avail d' = dq_avail d + cr" "dq_credit d' = cr'" "dq_mm_desc d' = dq_mm_desc d" "dq_pidx_info d' = dq_pidx_info d"
    "dq_pend_list d' = dq_pend_list d3" "dq_q_state d' = dq_q_state d" "dq_q_stop_wait d' = dq_q_stop_wait d"
    "dq_proc_req_running d' = dq_proc_req_running d" "dq_cmplthp d' = dq_cmplthp d"
    using pf(1-3) same3 d2 run3 by (simp_all add: res same_ring_def d1_def)
  have size: "ring_size d' = n" by (simp add: ring_size_def f n_def)
  have fl: "in_flight d' = in_flight d - unat cr"
    using ring_dist_between [OF cidx st'(1) pidx] st'(2)
    by (simp add: in_flight_def size f us cr n_def [symmetric])
  have crle: "unat cr \<le> in_flight d" using st' cr by simp
  have av: "unat (dq_avail d') + in_flight d' = n - 1"
  proof -
    have s: "unat (dq_avail d) + in_flight d = n - 1" using rok by (simp add: ring_ok_def n_def)
    then have "unat (dq_avail d + cr) = unat (dq_avail d) + unat cr" using crle n by (simp add: unat_word_ariths)
    then show ?thesis using s crle by (simp add: f fl)
  qed
  have tot: "length (owed (dq_pend_list d)) + length wk = in_flight d + unat (dq_credit d)"
    using aok by (simp add: acct_ok_def wk_def)
  have tot': "length (owed (dq_pend_list d')) + length wk = in_flight d' + unat cr'"
    using tot len3 credit crle by (simp add: f fl)
  have ids: "map dr_uld_data (dq_pend_list d) = map dr_uld_data (take k (dq_pend_list d)) @ map dr_uld_data (dq_pend_list d')"
    unfolding f k(2) by (simp flip: map_append)
  have "acct_ok d'"
  proof -
    have tl0: "\<forall>req \<in> set (tl (dq_work_list d)). cb_desc_nr (dr_cb req) = 0" using aok by (simp add: acct_ok_def)
    have "case dq_pend_list d' of
        [] \<Rightarrow> (case dq_work_list d' of [] \<Rightarrow> dq_credit d' = 0 | req # _ \<Rightarrow> dq_credit d' \<le> cb_desc_nr (dr_cb req))
      | req # _ \<Rightarrow> dq_credit d' < cb_desc_nr (dr_cb req)"
    proof (cases "dq_pend_list d'")
      case Nil
      then have "length wk = in_flight d' + unat cr'" using tot' by simp
      then show ?thesis
        using Nil owed_work [OF tl0] by (auto simp: f wk_def word_le_nat_alt unat_eq_zero split: list.splits)
    next
      case (Cons req reqs)
      then show ?thesis using pend3 by (auto simp: f pend_req_def word_neq_0_conv)
    qed
    moreover have "distinct (map dr_uld_data (dq_pend_list d') @ map dr_uld_data (dq_work_list d))"
    proof -
      have "distinct (map dr_uld_data (dq_pend_list d) @ map dr_uld_data (dq_work_list d))"
        using aok unfolding acct_ok_def map_append by blast
      then show ?thesis unfolding ids append_assoc by (rule distinct_append [THEN iffD1, THEN conjunct2, THEN conjunct1])
    qed
    ultimately show ?thesis
      using aok pend3(2) tot' by (simp add: acct_ok_def f wk_def)
  qed
  moreover have "ring_ok d'" using rok av st'(1) size n by (simp add: ring_ok_def f us flip: n_def)
  moreover have "owners d' = drop (unat cr) (owners d)"
    using own3 unfolding owners_def f owed_simps credit wk_def [symmetric] drop_drop by (simp only: add.commute)
  moreover have "de_card e' = snd (hw_queue_pidx_update hw 0 (ucast (qc_qidx (dq_conf d)))
      (of_nat (queue_type_code (qc_q_type (dq_conf d)))) (Some (dq_pidx_info d)) h)"
    using pu env3(1) d2 same3
    by (auto simp: res qdma_pidx_update_def queue_pidx_update_def same_ring_def d1_def split: prod.splits if_splits)
  moreover have "clean_events e'" if "clean_events e"
    using that env3(3) pf(4) d2(4) by (simp add: clean_events_def res)
  moreover have "returned e' = returned e @ map dr_uld_data (take k (dq_pend_list d))"
    using k(1) pf(4) d2(4) by (simp add: returned_def res)
  moreover have "de_drv_mode e' = de_drv_mode e" using pf(5) env3(2) d2(5) by (simp add: res)
  moreover have "unat (dq_cidx d') = unat status" by (simp add: f us)
  ultimately show ?thesis
    using that [of "unat cr" "map dr_uld_data (take k (dq_pend_list d))"] ids f crle cr False
    by (simp add: queue_ok_def n_def)
qed

end
