(* ===== verification/Qdma_Descq_Card.thy ===== *)
theory Qdma_Descq_Card
  imports Qdma_Descq_Ring
begin

text \<open>
  The queue together with its card.  The abstract queue knows nothing of the driver's counters: it holds the owner of each
  descriptor that is with the card, and what happens to it is that descriptors are programmed or that the card reports.
  What a report hands back follows from these owners alone.  Programming requests and taking completion reports are
  sequences of such events, on every card that reports indices it has been told (\<open>descq_card\<close>).
\<close>

section \<open>The abstract queue and its events\<close>

text \<open>\<open>c\<close> descriptors are programmed for request \<open>r\<close>, its last ones or not; the card has done \<open>k\<close> more descriptors.\<close>

datatype queue_event = Program u64 nat bool | Report nat

text \<open>The owners of the descriptors with the card, oldest first; the request programmed in part; those programmed completely;
  those handed back; the index the card has reported last and the index of the next slot to program.\<close>

record abs_queue =
  aq_fifo :: "u64 list"
  aq_open :: "u64 option"
  aq_full :: "u64 list"
  aq_out :: "u64 list"
  aq_cons :: nat
  aq_prod :: nat

fun abs_event :: "nat \<Rightarrow> queue_event \<Rightarrow> abs_queue \<Rightarrow> abs_queue option" where
  "abs_event n (Program r c final) s =
     (if 0 < c \<and> length (aq_fifo s) + c < n \<and> (aq_open s = None \<or> aq_open s = Some r) \<and> r \<notin> set (aq_full s @ aq_out s)
      then Some (s\<lparr>aq_fifo := aq_fifo s @ replicate c r, aq_open := if final then None else Some r,
          aq_full := if final then aq_full s @ [r] else aq_full s, aq_prod := (aq_prod s + c) mod n\<rparr>)
      else None)"
| "abs_event n (Report k) s =
     (if k \<le> length (aq_fifo s)
      then let rest = drop k (aq_fifo s)
        in Some (s\<lparr>aq_fifo := rest, aq_full := filter (\<lambda>r. r \<in> set rest) (aq_full s),
          aq_out := aq_out s @ filter (\<lambda>r. r \<notin> set rest) (aq_full s), aq_cons := (aq_cons s + k) mod n\<rparr>)
      else None)"

primrec abs_run :: "nat \<Rightarrow> queue_event list \<Rightarrow> abs_queue \<Rightarrow> abs_queue option" where
  "abs_run n [] s = Some s"
| "abs_run n (ev # evs) s = (case abs_event n ev s of None \<Rightarrow> None | Some t \<Rightarrow> abs_run n evs t)"

lemma abs_run_append:
  "abs_run n evs s = Some t \<Longrightarrow> abs_run n evs' t = Some u \<Longrightarrow> abs_run n (evs @ evs') s = Some u"
  by (induction evs arbitrary: s) (auto split: option.splits)

definition abs_steps :: "nat \<Rightarrow> abs_queue \<Rightarrow> abs_queue \<Rightarrow> bool" where
  "abs_steps n s t \<longleftrightarrow> (\<exists>evs. abs_run n evs s = Some t)"

lemma abs_steps_refl [simp, intro]: "abs_steps n s s"
  unfolding abs_steps_def by (rule exI [of _ "[]"]) simp

lemma abs_steps_event: "abs_event n ev s = Some t \<Longrightarrow> abs_steps n s t"
  unfolding abs_steps_def by (rule exI [of _ "[ev]"]) simp

lemma abs_steps_trans [trans]: "abs_steps n s t \<Longrightarrow> abs_steps n t u \<Longrightarrow> abs_steps n s u"
  unfolding abs_steps_def using abs_run_append by blast

text \<open>A history: who owns the descriptors in the order they were programmed, which requests were programmed completely,
  and how many descriptors the card has reported.\<close>

primrec event_owners :: "queue_event \<Rightarrow> u64 list" where
  "event_owners (Program r c final) = replicate c r" | "event_owners (Report k) = []"
primrec event_finished :: "queue_event \<Rightarrow> u64 list" where
  "event_finished (Program r c final) = (if final then [r] else [])" | "event_finished (Report k) = []"
primrec event_reported :: "queue_event \<Rightarrow> nat" where
  "event_reported (Program r c final) = 0" | "event_reported (Report k) = k"

definition programmed :: "queue_event list \<Rightarrow> u64 list" where "programmed evs = concat (map event_owners evs)"
definition finished :: "queue_event list \<Rightarrow> u64 list" where "finished evs = concat (map event_finished evs)"
definition reported :: "queue_event list \<Rightarrow> nat" where "reported evs = sum_list (map event_reported evs)"

definition idle :: abs_queue where
  "idle = \<lparr>aq_fifo = [], aq_open = None, aq_full = [], aq_out = [], aq_cons = 0, aq_prod = 0\<rparr>"

definition hist_ok :: "nat \<Rightarrow> u64 list \<Rightarrow> u64 list \<Rightarrow> nat \<Rightarrow> abs_queue \<Rightarrow> bool" where
  "hist_ok n ps fs k s \<longleftrightarrow> k \<le> length ps \<and> aq_fifo s = drop k ps \<and> set fs = set (aq_full s @ aq_out s) \<and>
     set (aq_full s) \<subseteq> set (aq_fifo s) \<and> set (aq_out s) \<inter> set (aq_fifo s) = {} \<and> distinct (aq_full s @ aq_out s) \<and>
     aq_cons s = k mod n \<and> aq_prod s = length ps mod n \<and> length (aq_fifo s) < n"

lemma abs_event_hist:
  "abs_event n ev s = Some t \<Longrightarrow> hist_ok n ps fs k s \<Longrightarrow>
   hist_ok n (ps @ event_owners ev) (fs @ event_finished ev) (k + event_reported ev) t"
proof (cases ev)
  case (Program r c final)
  assume "abs_event n ev s = Some t" "hist_ok n ps fs k s"
  then show ?thesis using Program by (auto simp: hist_ok_def mod_add_left_eq split: if_splits)
next
  case (Report j)
  assume "abs_event n ev s = Some t" and h: "hist_ok n ps fs k s"
  then have t: "j \<le> length (aq_fifo s)" "t = s\<lparr>aq_fifo := drop j (aq_fifo s), aq_full := filter (\<lambda>r. r \<in> set (drop j (aq_fifo s))) (aq_full s),
      aq_out := aq_out s @ filter (\<lambda>r. r \<notin> set (drop j (aq_fifo s))) (aq_full s), aq_cons := (aq_cons s + j) mod n\<rparr>"
    using Report by (auto simp: Let_def split: if_splits)
  have "set (drop j (aq_fifo s)) \<subseteq> set (aq_fifo s)" by (rule set_drop_subset)
  moreover have "set (aq_out s) \<inter> set (drop (j + k) ps) = {}"
  proof -
    have "aq_fifo s = drop k ps" "set (aq_out s) \<inter> set (aq_fifo s) = {}"
      using h unfolding hist_ok_def by blast+
    then have "set (aq_out s) \<inter> set (drop k ps) = {}" by simp
    moreover have "set (drop (j + k) ps) \<subseteq> set (drop k ps)" using set_drop_subset [of j "drop k ps"] by simp
    ultimately show ?thesis by blast
  qed
  moreover have "(aq_cons s + j) mod n = (k + j) mod n" using h by (simp add: hist_ok_def mod_add_left_eq)
  ultimately show ?thesis
    using h t Report by (auto simp: hist_ok_def ac_simps)
qed

lemma abs_run_hist:
  "abs_run n evs s = Some t \<Longrightarrow> hist_ok n ps fs k s \<Longrightarrow>
   hist_ok n (ps @ programmed evs) (fs @ finished evs) (k + reported evs) t"
proof (induction evs arbitrary: s ps fs k)
  case Nil
  then show ?case by (simp add: programmed_def finished_def reported_def)
next
  case (Cons ev evs)
  then obtain u where u: "abs_event n ev s = Some u" "abs_run n evs u = Some t" by (auto split: option.splits)
  from Cons.IH [OF u(2) abs_event_hist [OF u(1) Cons.prems(2)]]
  show ?case by (simp add: programmed_def finished_def reported_def add.assoc)
qed

text \<open>From a queue not used yet.\<close>

lemma idle_history: "0 < n \<Longrightarrow> abs_run n evs idle = Some t \<Longrightarrow> hist_ok n (programmed evs) (finished evs) (reported evs) t"
proof -
  assume "0 < n" and run: "abs_run n evs idle = Some t"
  then have "hist_ok n [] [] 0 idle" by (simp add: hist_ok_def idle_def)
  from abs_run_hist [OF run this] show ?thesis by simp
qed

text \<open>
  What is known of the card for one queue: the consumer index it has reported last (\<open>cv_cons\<close>) and the
  producer index it has been told (\<open>cv_told\<close>).  With it, a queue of the driver is an abstract queue.
\<close>

record 'h card_view =
  cv_qid :: u16
  cv_dir :: u8
  cv_size :: nat
  cv_cons :: "'h \<Rightarrow> nat"
  cv_told :: "'h \<Rightarrow> nat"

definition open_id :: "qdma_descq \<Rightarrow> u64 option" where
  "open_id d = (case dq_work_list d of [] \<Rightarrow> None | r # _ \<Rightarrow> if cb_desc_nr (dr_cb r) = 0 then None else Some (dr_uld_data r))"

definition abs_of :: "'h card_view \<Rightarrow> qdma_descq \<Rightarrow> 'h descq_env \<Rightarrow> abs_queue" where
  "abs_of v d e = \<lparr>aq_fifo = owners d, aq_open = open_id d, aq_full = map dr_uld_data (dq_pend_list d), aq_out = returned e,
     aq_cons = cv_cons v (de_card e), aq_prod = unat (dq_pidx d)\<rparr>"

section \<open>Programming a request\<close>

definition known :: "qdma_descq \<Rightarrow> u64 set" where
  "known d = dr_uld_data ` set (dq_pend_list d @ dq_work_list d)"

lemma pend_list_issue:
  assumes "dq_work_list d = req # reqs"
  shows "dq_pend_list (mm_issue d req i e f) =
     (let req' = advance_req (fl_cnt f) (fl_data f) (if i = length (dr_sgl req) then 0 else fl_sg_offset f)
        (if i = length (dr_sgl req) then None else Some i) req
      in if cb_offset (dr_cb req) + fl_data f \<ge> dr_count req then dq_pend_list d @ [req'] else dq_pend_list d)"
  using assms by (simp add: mm_issue_def qdma_update_request_def qdma_work_queue_del_def Let_def)

lemma own_advance:
  assumes "unat (cb_desc_nr (dr_cb req)) + unat a < 2 ^ 32"
  shows "own (advance_req a b c s req) = own req @ replicate (unat a) (dr_uld_data req)"
proof -
  have "unat (cb_desc_nr (dr_cb req) + a) = unat (cb_desc_nr (dr_cb req)) + unat a" using assms by (simp add: unat_word_ariths)
  then show ?thesis by (simp add: own_def replicate_add) (simp add: advance_req_def)
qed

lemma uld_advance [simp]: "dr_uld_data (advance_req a b c s req) = dr_uld_data req"
  by (simp add: advance_req_def)

lemma issue_acct:
  assumes ok: "queue_ok d" and work: "dq_work_list d = req # reqs"
    and cnt: "unat (fl_cnt f) = c" and c: "0 < c" "c \<le> unat (dq_avail d)" "c \<le> m"
    and m: "m \<le> length (req_todo (dq_conf d) req)" and da: "fl_data f = of_nat m"
    and len: "length (dq_mm_desc (mm_issue d req i e f)) = length (dq_mm_desc d)"
    and pi: "unat (fl_pidx f) = (unat (dq_pidx d) + c) mod unat (qc_rngsz (dq_conf d))"
  shows "queue_ok (mm_issue d req i e f)" and "owners (mm_issue d req i e f) = owners d @ replicate c (dr_uld_data req)"
    and "known (mm_issue d req i e f) = known d" and "in_flight (mm_issue d req i e f) = in_flight d + c"
    and "\<exists>final. open_id (mm_issue d req i e f) = (if final then None else Some (dr_uld_data req)) \<and>
      map dr_uld_data (dq_pend_list (mm_issue d req i e f)) = map dr_uld_data (dq_pend_list d) @ (if final then [dr_uld_data req] else [])"
proof -
  define d' where "d' = mm_issue d req i e f"
  define n where "n = ring_size d"
  have rok: "ring_ok d" and aok: "acct_ok d" using ok by (simp_all add: queue_ok_def)
  have wr: "work_req (dq_conf d) req" and tl0: "\<forall>r \<in> set reqs. cb_desc_nr (dr_cb r) = 0"
    using aok work by (auto simp: acct_ok_def)
  have op: "open_req (dq_conf d) req" and small: "unat (dr_count req) < 2 ^ 31"
    and dn: "unat (cb_desc_nr (dr_cb req)) \<le> req_offset req" using wr by (simp_all add: work_req_def)
  have wf: "wf_req req" and lt: "req_offset req < unat (dr_count req)" using op by (simp_all add: open_req_def)
  have off: "unat (cb_offset (dr_cb req) + of_nat m) = req_offset req + m" by (rule offset_add [OF wf lt m])
  have rem: "length (req_todo (dq_conf d) req) = unat (dr_count req) - req_offset req" by (rule length_req_todo [OF wf])
  have ds: "unat (cb_desc_nr (dr_cb req)) + c < 2 ^ 31" using dn c(3) m rem lt small by simp
  have size: "ring_size d' = n" by (simp add: d'_def ring_size_def n_def)
  have n: "2 \<le> n" "n \<le> 2 ^ 16" "unat (dq_pidx d) < n" "unat (dq_cidx d) < n" "unat (dq_avail d) + in_flight d = n - 1"
    "length (dq_mm_desc d) = n"
    using rok by (simp_all add: ring_ok_def n_def)
  have nn: "unat (qc_rngsz (dq_conf d)) = n" by (simp add: n_def ring_size_def)
  have fl: "in_flight d' = in_flight d + c"
    using ring_dist_forward [OF n(4,3), of c] n(1,5) c(2)
    by (simp add: in_flight_def size [unfolded d'_def] d'_def pi nn flip: n_def)
  have av: "unat (dq_avail d') = unat (dq_avail d) - c"
    using c(2) cnt by (simp add: d'_def unat_sub word_le_nat_alt)
  have "ring_ok d'"
    using n av fl c size len pi by (simp add: ring_ok_def d'_def nn)
  define req' where "req' = advance_req (fl_cnt f) (of_nat m) (if i = length (dr_sgl req) then 0 else fl_sg_offset f)
    (if i = length (dr_sgl req) then None else Some i) req"
  have own': "own req' = own req @ replicate c (dr_uld_data req)"
    using ds cnt by (simp add: req'_def own_advance)
  have dn': "unat (cb_desc_nr (dr_cb req')) = unat (cb_desc_nr (dr_cb req)) + c"
    using arg_cong [OF own', of length] by simp
  have tl: "owed reqs = []" by (rule tl_unowned [OF tl0])
  have id': "dr_uld_data req' = dr_uld_data req" by (simp add: req'_def)
  have credit: "dq_credit d' = dq_credit d" by (simp add: d'_def)
  define fin where "fin = (cb_offset (dr_cb req) + of_nat m \<ge> dr_count req)"
  have fin: "fin \<longleftrightarrow> req_offset req + m = unat (dr_count req)"
    using off m rem lt by (auto simp: fin_def word_le_nat_alt)
  have lists: "dq_work_list d' = (if fin then reqs else req' # reqs)"
    "dq_pend_list d' = (if fin then dq_pend_list d @ [req'] else dq_pend_list d)"
    by (simp_all add: d'_def work_list_issue [OF work] pend_list_issue [OF work] da fin_def req'_def Let_def)
  have both: "owed (dq_pend_list d' @ dq_work_list d') = owed (dq_pend_list d @ dq_work_list d) @ replicate c (dr_uld_data req)"
    using work tl by (simp add: lists own')
  have tot: "length (owed (dq_pend_list d @ dq_work_list d)) = in_flight d + unat (dq_credit d)"
    using aok unfolding acct_ok_def by blast
  show own: "owners (mm_issue d req i e f) = owners d @ replicate c (dr_uld_data req)"
    unfolding d'_def [symmetric] owners_def both credit using tot by simp
  have "cb_desc_nr (dr_cb req') \<noteq> 0" using dn' c(1) by auto
  then have "open_id d' = (if fin then None else Some (dr_uld_data req))"
    using tl0 id' by (auto simp: open_id_def lists split: list.split)
  then show "\<exists>final. open_id (mm_issue d req i e f) = (if final then None else Some (dr_uld_data req)) \<and>
      map dr_uld_data (dq_pend_list (mm_issue d req i e f)) = map dr_uld_data (dq_pend_list d) @ (if final then [dr_uld_data req] else [])"
    using id' by (intro exI [of _ fin]) (simp add: lists(2) flip: d'_def)
  have ids: "map dr_uld_data (dq_pend_list d' @ dq_work_list d') = map dr_uld_data (dq_pend_list d @ dq_work_list d)"
    using work id' by (simp add: lists)
  then show "known (mm_issue d req i e f) = known d"
    unfolding known_def d'_def [symmetric] by (metis list.set_map)
  have "pend_req req'" if fin
    using that fin off dn' ds c(1) by (auto simp: pend_req_def req'_def word_unat_eq_iff req_offset_def)
  moreover have "work_req (dq_conf d) req'" if "\<not> fin"
    using that fin off dn' dn c(3) m rem lt small op
    by (auto simp: work_req_def open_req_def req'_def req_offset_def)
  moreover have "length (owed (dq_pend_list d' @ dq_work_list d')) = in_flight d' + unat (dq_credit d')"
    unfolding both fl credit using tot by simp
  moreover have "case dq_pend_list d' of
      [] \<Rightarrow> (case dq_work_list d' of [] \<Rightarrow> dq_credit d' = 0 | req # _ \<Rightarrow> dq_credit d' \<le> cb_desc_nr (dr_cb req))
    | req # _ \<Rightarrow> dq_credit d' < cb_desc_nr (dr_cb req)"
  proof (cases "dq_pend_list d")
    case Nil
    then have "dq_credit d \<le> cb_desc_nr (dr_cb req)" using aok work by (simp add: acct_ok_def)
    then show ?thesis using Nil dn' c(1) by (auto simp: lists credit word_le_nat_alt word_less_nat_alt)
  next
    case (Cons r rs)
    then show ?thesis using aok by (auto simp: acct_ok_def lists credit)
  qed
  moreover have "dq_conf d' = dq_conf d" by (simp add: d'_def)
  moreover have "\<forall>r \<in> set (tl reqs). cb_desc_nr (dr_cb r) = 0" using tl0 by (cases reqs) auto
  ultimately have "acct_ok d'"
    using aok ids work tl0 unfolding acct_ok_def lists by (auto split: if_splits)
  then show "queue_ok (mm_issue d req i e f)" using \<open>ring_ok d'\<close> by (simp add: queue_ok_def d'_def)
  show "in_flight (mm_issue d req i e f) = in_flight d + c" using fl by (simp add: d'_def)
qed

section \<open>An honest card\<close>

text \<open>The driver's view of the ring and the card's agree: reported, told, to be told, programmed.\<close>

definition linked :: "'h card_view \<Rightarrow> qdma_descq \<Rightarrow> 'h descq_env \<Rightarrow> bool" where
  "linked v d e \<longleftrightarrow> ring_size d = cv_size v \<and> ucast (qc_qidx (dq_conf d)) = cv_qid v \<and>
     of_nat (queue_type_code (qc_q_type (dq_conf d))) = cv_dir v \<and>
     cv_cons v (de_card e) = unat (dq_cidx d) \<and> cv_told v (de_card e) < cv_size v \<and> unat (pi_pidx (dq_pidx_info d)) < cv_size v \<and>
     ring_dist (cv_size v) (unat (dq_cidx d)) (cv_told v (de_card e)) \<le>
       ring_dist (cv_size v) (unat (dq_cidx d)) (unat (pi_pidx (dq_pidx_info d))) \<and>
     ring_dist (cv_size v) (unat (dq_cidx d)) (unat (pi_pidx (dq_pidx_info d))) \<le> in_flight d"

definition sys_ok :: "'h card_view \<Rightarrow> qdma_descq \<Rightarrow> 'h descq_env \<Rightarrow> bool" where
  "sys_ok v d e \<longleftrightarrow> queue_ok d \<and> linked v d e \<and> clean_events e \<and> set (returned e) \<inter> known d = {} \<and> distinct (returned e)"

text \<open>What no operation on a running queue changes.\<close>

definition kept :: "qdma_descq \<Rightarrow> 'h descq_env \<Rightarrow> qdma_descq \<Rightarrow> 'h descq_env \<Rightarrow> bool" where
  "kept d e d' e' \<longleftrightarrow> dq_conf d' = dq_conf d \<and> dq_q_state d' = dq_q_state d \<and> dq_q_stop_wait d' = dq_q_stop_wait d \<and>
     de_drv_mode e' = de_drv_mode e \<and> known d' \<union> set (returned e') = known d \<union> set (returned e)"

lemma kept_refl [simp]: "kept d e d e"
  by (simp add: kept_def)

lemma kept_trans [trans]: "kept a e b f \<Longrightarrow> kept b f c g \<Longrightarrow> kept a e c g"
  by (simp add: kept_def)

text \<open>Fields and events the agreement does not depend on.\<close>

lemma sys_ok_running [simp]: "sys_ok v (d\<lparr>dq_proc_req_running := b\<rparr>) e \<longleftrightarrow> sys_ok v d e"
  by (simp add: sys_ok_def queue_ok_def ring_ok_def acct_ok_def linked_def ring_size_def in_flight_def known_def cong: list.case_cong)

lemma abs_of_running [simp]: "abs_of v (d\<lparr>dq_proc_req_running := b\<rparr>) e = abs_of v d e"
  by (simp add: abs_of_def owners_def open_id_def)

lemma kept_running [simp]: "kept d e (d\<lparr>dq_proc_req_running := b\<rparr>) e" "kept (d\<lparr>dq_proc_req_running := b\<rparr>) e d e"
  by (simp_all add: kept_def known_def)

lemma sys_ok_emit [simp]: "sys_ok v d (emit Thread_wakeup e) \<longleftrightarrow> sys_ok v d e"
  by (simp add: sys_ok_def linked_def) (simp add: emit_def)

lemma emit_card [simp]: "de_card (emit w e) = de_card e"
  by (simp add: emit_def)

lemma abs_of_emit [simp]: "abs_of v d (emit Thread_wakeup e) = abs_of v d e"
  by (simp add: abs_of_def)

lemma kept_emit [simp]: "kept d e d (emit Thread_wakeup e)"
  by (simp add: kept_def) (simp add: emit_def)

text \<open>A turn of the work loop keeps the agreement and appends to the abstract queue.\<close>

lemma sys_ok_shape: "sys_ok v d e \<Longrightarrow> ring_shape d"
  by (auto simp: sys_ok_def queue_ok_def ring_ok_def ring_shape_def ring_size_def)

lemma issue_sys:
  assumes ok: "sys_ok v d e" and work: "dq_work_list d = req # reqs" and room: "dq_avail d \<noteq> 0"
  obtains i sg_offset i' f desc_end m where "qdma_sgl_find_offset req = Some (i, sg_offset)"
    "mm_fill d req (dq_avail d) i sg_offset = (i', f)" "fl_last f = Some desc_end"
    "sys_ok v (mm_issue d req i' desc_end f) e" "abs_steps (cv_size v) (abs_of v d e) (abs_of v (mm_issue d req i' desc_end f) e)"
    "kept d e (mm_issue d req i' desc_end f) e" "0 < m" "m \<le> length (req_todo (dq_conf d) req)" "fl_data f = of_nat m"
proof -
  have qok: "queue_ok d" and lk: "linked v d e" using ok by (simp_all add: sys_ok_def)
  have "work_req (dq_conf d) req" using qok work by (simp add: queue_ok_def acct_ok_def)
  then have op: "open_req (dq_conf d) req" by (simp add: work_req_def)
  obtain i sg_offset i' f desc_end c m where find: "qdma_sgl_find_offset req = Some (i, sg_offset)"
    and fill: "mm_fill d req (dq_avail d) i sg_offset = (i', f)" and last: "fl_last f = Some desc_end"
    and cnt: "unat (fl_cnt f) = c" and c: "0 < c" "c \<le> unat (dq_avail d)" "c \<le> m" and m: "m \<le> length (req_todo (dq_conf d) req)"
      "m = length (req_todo (dq_conf d) req) \<or> c = unat (dq_avail d)" and da: "fl_data f = of_nat m"
      "slot_bytes (mm_issue d req i' desc_end f) (unat (dq_pidx d)) c = take m (req_todo (dq_conf d) req)"
      "\<forall>k. (\<forall>j < c. k \<noteq> (unat (dq_pidx d) + j) mod unat (qc_rngsz (dq_conf d))) \<longrightarrow>
         dq_mm_desc (mm_issue d req i' desc_end f) ! k = dq_mm_desc d ! k"
    and len: "length (dq_mm_desc (mm_issue d req i' desc_end f)) = length (dq_mm_desc d)"
    and pi: "unat (fl_pidx f) = (unat (dq_pidx d) + c) mod unat (qc_rngsz (dq_conf d))"
    by (rule mm_turn [OF sys_ok_shape [OF ok] work op room])
  define d1 where "d1 = mm_issue d req i' desc_end f"
  note acct = issue_acct [OF qok work cnt c m(1) da(1) len pi, folded d1_def]
  have id: "dr_uld_data req \<in> known d" using work by (simp add: known_def)
  then have fresh: "dr_uld_data req \<notin> set (returned e)" using ok by (auto simp: sys_ok_def)
  have "linked v d1 e" using lk acct(4) by (simp add: linked_def ring_size_def d1_def)
  then have "sys_ok v d1 e" using ok acct(1,3) by (simp add: sys_ok_def)
  moreover have "abs_steps (cv_size v) (abs_of v d e) (abs_of v d1 e)"
  proof -
    obtain lst where l: "open_id d1 = (if lst then None else Some (dr_uld_data req))"
      "map dr_uld_data (dq_pend_list d1) = map dr_uld_data (dq_pend_list d) @ (if lst then [dr_uld_data req] else [])"
      using acct(5) by blast
    have aok: "acct_ok d" and rok: "ring_ok d" using qok by (simp_all add: queue_ok_def)
    have n: "ring_size d = cv_size v" using lk by (simp add: linked_def)
    have "length (owners d) + c < cv_size v"
      using length_owners [OF aok] rok c(2) unfolding ring_ok_def n by linarith
    moreover have "open_id d = None \<or> open_id d = Some (dr_uld_data req)" using work by (simp add: open_id_def)
    moreover have "dr_uld_data req \<notin> set (map dr_uld_data (dq_pend_list d))"
      using aok work unfolding acct_ok_def by auto
    moreover have "unat (dq_pidx d1) = (unat (dq_pidx d) + c) mod cv_size v" using pi n by (simp add: d1_def ring_size_def)
    ultimately have "abs_event (cv_size v) (Program (dr_uld_data req) c lst) (abs_of v d e) = Some (abs_of v d1 e)"
      using c(1) fresh l acct(2) by (auto simp: abs_of_def)
    then show ?thesis by (rule abs_steps_event)
  qed
  moreover have "kept d e d1 e" using acct(3) by (simp add: kept_def d1_def)
  moreover have "0 < m" using c by simp
  ultimately show ?thesis using find fill last m(1) da(1) that unfolding d1_def by blast
qed

text \<open>A new request: nothing programmed yet, and not one the queue knows or has handed back.\<close>

definition fresh_req :: "qdma_descq \<Rightarrow> 'h descq_env \<Rightarrow> descq_req \<Rightarrow> bool" where
  "fresh_req d e req \<longleftrightarrow> work_req (dq_conf d) req \<and> cb_desc_nr (dr_cb req) = 0 \<and>
     dr_uld_data req \<notin> known d \<and> dr_uld_data req \<notin> set (returned e)"

lemma work_queue_add_simps [simp]:
  "dq_conf (qdma_work_queue_add req d) = dq_conf d" "dq_pend_list (qdma_work_queue_add req d) = dq_pend_list d"
  "dq_work_list (qdma_work_queue_add req d) = dq_work_list d @ [req]" "dq_cidx (qdma_work_queue_add req d) = dq_cidx d"
  "dq_pidx (qdma_work_queue_add req d) = dq_pidx d" "dq_avail (qdma_work_queue_add req d) = dq_avail d"
  "dq_credit (qdma_work_queue_add req d) = dq_credit d" "dq_mm_desc (qdma_work_queue_add req d) = dq_mm_desc d"
  "dq_pidx_info (qdma_work_queue_add req d) = dq_pidx_info d" "dq_q_state (qdma_work_queue_add req d) = dq_q_state d"
  "dq_q_stop_wait (qdma_work_queue_add req d) = dq_q_stop_wait d"
  by (simp_all add: qdma_work_queue_add_def)

lemma submit_sys:
  assumes ok: "sys_ok v d e" and new: "fresh_req d e req"
  shows "sys_ok v (qdma_work_queue_add req d) e" and "abs_of v (qdma_work_queue_add req d) e = abs_of v d e"
    and "known (qdma_work_queue_add req d) = insert (dr_uld_data req) (known d)"
proof -
  have none: "own req = []" and id: "dr_uld_data req \<notin> known d" and id': "dr_uld_data req \<notin> set (returned e)"
    using new by (simp_all add: fresh_req_def own_def)
  have rok: "ring_ok d" and aok: "acct_ok d" using ok by (simp_all add: sys_ok_def queue_ok_def)
  have fl: "in_flight (qdma_work_queue_add req d) = in_flight d" by (simp add: in_flight_def ring_size_def)
  show kn: "known (qdma_work_queue_add req d) = insert (dr_uld_data req) (known d)" by (auto simp: known_def)
  have "ring_ok (qdma_work_queue_add req d)" using rok by (simp add: ring_ok_def fl) (simp add: ring_size_def)
  moreover have "acct_ok (qdma_work_queue_add req d)"
  proof -
    have "dq_credit d \<le> cb_desc_nr (dr_cb req)" if "dq_pend_list d = []" "dq_work_list d = []"
      using aok that by (simp add: acct_ok_def)
    moreover have "\<forall>r \<in> set (tl (dq_work_list d @ [req])). cb_desc_nr (dr_cb r) = 0"
      using aok new by (cases "dq_work_list d") (auto simp: acct_ok_def fresh_req_def)
    moreover have "distinct (map dr_uld_data (dq_pend_list d @ dq_work_list d @ [req]))"
      using aok id unfolding acct_ok_def known_def by auto
    moreover have "case dq_pend_list d of
        [] \<Rightarrow> (case dq_work_list d @ [req] of [] \<Rightarrow> dq_credit d = 0 | r # _ \<Rightarrow> dq_credit d \<le> cb_desc_nr (dr_cb r))
      | r # _ \<Rightarrow> dq_credit d < cb_desc_nr (dr_cb r)"
      using aok calculation(1) by (auto simp: acct_ok_def split: list.splits)
    ultimately show ?thesis
      using aok new none by (simp add: acct_ok_def fl fresh_req_def cong: list.case_cong)
  qed
  moreover have "linked v (qdma_work_queue_add req d) e" using ok by (simp add: sys_ok_def linked_def fl) (simp add: ring_size_def)
  ultimately show "sys_ok v (qdma_work_queue_add req d) e" using ok id' by (simp add: sys_ok_def queue_ok_def kn)
  show "abs_of v (qdma_work_queue_add req d) e = abs_of v d e" using new by (simp add: abs_of_def owners_def none open_id_def fresh_req_def split: list.split)
qed

text \<open>A request programmed completely still owns a descriptor.\<close>

lemma pend_owned:
  assumes "acct_ok d" and "r \<in> set (dq_pend_list d)"
  shows "dr_uld_data r \<in> set (owners d)"
proof -
  obtain p ps where p: "dq_pend_list d = p # ps" using assms(2) by (cases "dq_pend_list d") auto
  have lt: "unat (dq_credit d) < unat (cb_desc_nr (dr_cb p))" using assms(1) p by (simp add: acct_ok_def word_less_nat_alt)
  have nz: "cb_desc_nr (dr_cb q) \<noteq> 0" if "q \<in> set (p # ps)" for q using assms(1) that p by (auto simp: acct_ok_def pend_req_def)
  have o: "owners d = replicate (unat (cb_desc_nr (dr_cb p)) - unat (dq_credit d)) (dr_uld_data p) @ owed ps @ owed (dq_work_list d)"
    using lt by (simp add: owners_def p) (simp add: own_def)
  have "dr_uld_data q \<in> set (owed ps)" if "q \<in> set ps" for q
    using that nz [of q] by (auto simp: owed_def set_own)
  then show ?thesis using assms(2) lt unfolding o p by auto
qed

lemma ring_dist_mod: "a < n \<Longrightarrow> b < n \<Longrightarrow> (a + ring_dist n a b) mod n = b"
  by (auto simp: ring_dist_def)

text \<open>
  The contract: a report lies between the last one and the producer index told; writing the producer
  index register tells the new index unless the access function fails.
\<close>

locale descq_card =
  fixes hw :: "'h descq_hw" and v :: "'h card_view"
  assumes report: "\<And>h s h'. hw_cmpl_cidx hw h = (s, h') \<Longrightarrow> cv_cons v h < cv_size v \<Longrightarrow> cv_told v h < cv_size v \<Longrightarrow>
      unat s < cv_size v \<and> ring_dist (cv_size v) (cv_cons v h) (unat s) \<le> ring_dist (cv_size v) (cv_cons v h) (cv_told v h) \<and>
      cv_cons v h' = unat s \<and> cv_told v h' = cv_told v h"
    and update: "\<And>info h rv h'. hw_queue_pidx_update hw 0 (cv_qid v) (cv_dir v) (Some info) h = (rv, h') \<Longrightarrow>
      cv_cons v h' = cv_cons v h \<and> cv_told v h' = (if rv < 0 then cv_told v h else unat (pi_pidx info))"
begin

lemma cmpl_status_sys:
  assumes ok: "sys_ok v d e" and run: "descq_mm_n_h2c_cmpl_status hw d e = (d', e')"
  shows "sys_ok v d' e' \<and> abs_steps (cv_size v) (abs_of v d e) (abs_of v d' e') \<and> kept d e d' e' \<and> dq_work_list d' = dq_work_list d \<and>
    dq_pidx d' = dq_pidx d \<and> dq_proc_req_running d' = dq_proc_req_running d"
proof -
  obtain status h where rd: "hw_cmpl_cidx hw (de_card e) = (status, h)" by fastforce
  have qok: "queue_ok d" and lk: "linked v d e" using ok by (simp_all add: sys_ok_def)
  have size: "ring_size d = cv_size v" and cidx: "cv_cons v (de_card e) = unat (dq_cidx d)" and told: "cv_told v (de_card e) < cv_size v"
    and pi: "unat (pi_pidx (dq_pidx_info d)) < cv_size v"
    and d1: "ring_dist (cv_size v) (unat (dq_cidx d)) (cv_told v (de_card e)) \<le> ring_dist (cv_size v) (unat (dq_cidx d)) (unat (pi_pidx (dq_pidx_info d)))"
    and d2: "ring_dist (cv_size v) (unat (dq_cidx d)) (unat (pi_pidx (dq_pidx_info d))) \<le> in_flight d"
    using lk by (simp_all add: linked_def)
  have cn: "unat (dq_cidx d) < cv_size v" using qok size by (simp add: queue_ok_def ring_ok_def)
  note rep = report [OF rd, unfolded cidx, OF cn told]
  have st: "unat status < ring_size d \<and> ring_dist (ring_size d) (unat (dq_cidx d)) (unat status) \<le> in_flight d"
    using rep d1 d2 by (simp add: size)
  obtain fin cr where q': "queue_ok d'" and ow: "owners d' = drop cr (owners d)" and crle: "cr \<le> in_flight d"
    and ids: "map dr_uld_data (dq_pend_list d) = fin @ map dr_uld_data (dq_pend_list d')" and ret: "returned e' = returned e @ fin"
    and wl: "dq_work_list d' = dq_work_list d" and cf: "dq_conf d' = dq_conf d" and px: "dq_pidx d' = dq_pidx d"
    and mmd: "dq_mm_desc d' = dq_mm_desc d" and qs: "dq_q_state d' = dq_q_state d" and sw: "dq_q_stop_wait d' = dq_q_stop_wait d"
    and pin: "dq_pidx_info d' = dq_pidx_info d" and pr: "dq_proc_req_running d' = dq_proc_req_running d"
    and dm: "de_drv_mode e' = de_drv_mode e" and cl: "clean_events e \<longrightarrow> clean_events e'" and ct: "dq_cmplthp d' = dq_cmplthp d"
    and cases: "(dq_pidx d = dq_cidx d \<and> cr = 0 \<and> d' = d \<and> e' = e) \<or>
     (dq_pidx d \<noteq> dq_cidx d \<and> status = ucast (dq_cidx d) \<and> cr = 0 \<and> d' = d \<and> e' = e\<lparr>de_card := h\<rparr>) \<or>
     (dq_pidx d \<noteq> dq_cidx d \<and> unat (dq_cidx d') = unat status \<and> cr = ring_dist (ring_size d) (unat (dq_cidx d)) (unat status) \<and>
      de_card e' = snd (hw_queue_pidx_update hw 0 (ucast (qc_qidx (dq_conf d))) (of_nat (queue_type_code (qc_q_type (dq_conf d))))
        (Some (dq_pidx_info d)) h))"
    by (rule cmpl_status_spec [OF qok rd st run])
  have dist: "distinct (map dr_uld_data (dq_pend_list d) @ map dr_uld_data (dq_work_list d))"
    using qok unfolding queue_ok_def acct_ok_def map_append by blast
  have kn: "known d = set fin \<union> known d'" using arg_cong [OF ids, of set] wl by (auto simp: known_def)
  have fk: "set fin \<inter> known d' = {}" using dist wl unfolding ids by (auto simp: known_def)
  have fd: "distinct fin" using dist unfolding ids by simp
  have fr: "set fin \<inter> set (returned e) = {}" using ok kn by (auto simp: sys_ok_def)
  have sub: "set (owners d') \<subseteq> known d'" using set_owed [of "dq_pend_list d' @ dq_work_list d'"]
    unfolding owners_def known_def by (meson order_trans set_drop_subset)
  have "dr_uld_data r \<in> set (owners d')" if "r \<in> set (dq_pend_list d')" for r
    using pend_owned [OF _ that] q' by (simp add: queue_ok_def)
  then have split: "filter (\<lambda>r. r \<notin> set (owners d')) (map dr_uld_data (dq_pend_list d)) = fin"
    "filter (\<lambda>r. r \<in> set (owners d')) (map dr_uld_data (dq_pend_list d)) = map dr_uld_data (dq_pend_list d')"
    using fk sub unfolding ids filter_append by (auto simp: filter_empty_conv filter_id_conv)
  have "linked v d' e'"
  proof (rule disjE [OF cases])
    assume "dq_pidx d = dq_cidx d \<and> cr = 0 \<and> d' = d \<and> e' = e"
    then show ?thesis using lk by simp
  next
    assume "(dq_pidx d \<noteq> dq_cidx d \<and> status = ucast (dq_cidx d) \<and> cr = 0 \<and> d' = d \<and> e' = e\<lparr>de_card := h\<rparr>) \<or>
     (dq_pidx d \<noteq> dq_cidx d \<and> unat (dq_cidx d') = unat status \<and> cr = ring_dist (ring_size d) (unat (dq_cidx d)) (unat status) \<and>
      de_card e' = snd (hw_queue_pidx_update hw 0 (ucast (qc_qidx (dq_conf d))) (of_nat (queue_type_code (qc_q_type (dq_conf d))))
        (Some (dq_pidx_info d)) h))"
    then show ?thesis
    proof
      assume a: "dq_pidx d \<noteq> dq_cidx d \<and> status = ucast (dq_cidx d) \<and> cr = 0 \<and> d' = d \<and> e' = e\<lparr>de_card := h\<rparr>"
      have "unat status = unat (dq_cidx d)"
      proof -
        have "unat (dq_cidx d) < 2 ^ 16" using cn qok size by (simp add: queue_ok_def ring_ok_def)
        then show ?thesis using a by (simp add: unsigned_ucast_eq take_bit_nat_eq_self)
      qed
      then show ?thesis using a lk rep by (simp add: linked_def)
    next
      assume a: "dq_pidx d \<noteq> dq_cidx d \<and> unat (dq_cidx d') = unat status \<and> cr = ring_dist (ring_size d) (unat (dq_cidx d)) (unat status) \<and>
        de_card e' = snd (hw_queue_pidx_update hw 0 (ucast (qc_qidx (dq_conf d))) (of_nat (queue_type_code (qc_q_type (dq_conf d))))
          (Some (dq_pidx_info d)) h)"
      obtain rv h2 where up: "hw_queue_pidx_update hw 0 (cv_qid v) (cv_dir v) (Some (dq_pidx_info d)) h = (rv, h2)" by fastforce
      have card: "de_card e' = h2" using a up lk by (simp add: linked_def)
      have pn: "unat (dq_pidx d) < cv_size v" using qok size by (simp add: queue_ok_def ring_ok_def)
      note bt = ring_dist_between [OF cn]
      have "ring_dist (cv_size v) (unat status) (cv_told v (de_card e)) \<le> ring_dist (cv_size v) (unat status) (unat (pi_pidx (dq_pidx_info d)))"
        "ring_dist (cv_size v) (unat status) (unat (pi_pidx (dq_pidx_info d))) \<le> ring_dist (cv_size v) (unat status) (unat (dq_pidx d))"
        using bt [of "unat status" "cv_told v (de_card e)"] bt [of "unat status" "unat (pi_pidx (dq_pidx_info d))"]
          bt [of "unat status" "unat (dq_pidx d)"] rep told pi pn d1 d2 by (simp_all add: in_flight_def size)
      then show ?thesis
        using a lk update [OF up] rep pi by (simp add: linked_def card cf px pin in_flight_def ring_size_def)
    qed
  qed
  then have lk': "linked v d' e'" .
  have "unat (dq_cidx d') = (unat (dq_cidx d) + cr) mod cv_size v"
    using cases ring_dist_mod [OF cn] rep size cn by auto
  then have "cv_cons v (de_card e') = (cv_cons v (de_card e) + cr) mod cv_size v" using lk' cidx by (simp add: linked_def)
  moreover have "cr \<le> length (owners d)" using crle qok length_owners by (simp add: queue_ok_def)
  moreover have "open_id d' = open_id d" by (simp add: open_id_def wl)
  ultimately have "abs_event (cv_size v) (Report cr) (abs_of v d e) = Some (abs_of v d' e')"
    using split ret px ow by (simp add: abs_of_def)
  then have abs: "abs_steps (cv_size v) (abs_of v d e) (abs_of v d' e')" by (rule abs_steps_event)
  have "sys_ok v d' e'"
    using lk' q' cl ok kn fk fd fr by (auto simp: sys_ok_def ret)
  moreover have "kept d e d' e'" using cf qs sw dm kn by (auto simp: kept_def ret)
  ultimately show ?thesis using abs wl px pr by simp
qed

lemma poll_status_sys:
  assumes ok: "sys_ok v d e" and run: "descq_poll_mm_n_h2c_cmpl_status hw d e = (d', e')"
  shows "sys_ok v d' e' \<and> abs_steps (cv_size v) (abs_of v d e) (abs_of v d' e') \<and> kept d e d' e' \<and> dq_work_list d' = dq_work_list d"
proof (cases "by_interrupt e")
  case True
  then show ?thesis using ok run by simp
next
  case False
  then have "descq_mm_n_h2c_cmpl_status hw (d\<lparr>dq_proc_req_running := True\<rparr>) e = (d', e')"
    using run by (auto simp: by_interrupt_def descq_poll_mm_n_h2c_cmpl_status_def)
  from cmpl_status_sys [OF _ this] show ?thesis
    using ok kept_trans [OF kept_running(1) [of d e True]] by simp
qed

text \<open>The work loop always ends.\<close>

lemma work_loop_sys:
  assumes "sys_ok v d e"
  shows "\<exists>w' d' e'. mm_work_loop hw None w d e = Some (w', d', e') \<and> sys_ok v d' e' \<and>
    abs_steps (cv_size v) (abs_of v d e) (abs_of v d' e') \<and> kept d e d' e'"
  using assms
proof (induction "length (todo (dq_conf d) (dq_work_list d))" arbitrary: d e w rule: less_induct)
  case less
  show ?case
  proof (cases "dq_work_list d")
    case Nil
    then have "mm_work_loop hw None w d e = Some (w, d, e)" by (rule mm_work_loop_Nil)
    then show ?thesis using less.prems by (intro exI [of _ w] exI [of _ d] exI [of _ e]) simp
  next
    case (Cons req reqs)
    obtain d1 e1 where p: "(if dq_avail d = 0 then descq_poll_mm_n_h2c_cmpl_status hw d e else (d, e)) = (d1, e1)" by fastforce
    have d1: "sys_ok v d1 e1" "abs_steps (cv_size v) (abs_of v d e) (abs_of v d1 e1)" "kept d e d1 e1" "dq_work_list d1 = req # reqs"
      using poll_status_sys [OF less.prems, of d1 e1] p less.prems Cons by (auto split: if_splits)
    show ?thesis
    proof (cases "dq_avail d1 = 0")
      case True
      then have "mm_work_loop hw None w d e = Some (w, d1, e1)"
        using Cons p by (subst mm_work_loop.simps) simp
      then show ?thesis using d1 by (intro exI [of _ w] exI [of _ d1] exI [of _ e1]) simp
    next
      case False
      obtain i sg_offset i' f desc_end m where
        find: "qdma_sgl_find_offset req = Some (i, sg_offset)" "mm_fill d1 req (dq_avail d1) i sg_offset = (i', f)"
          "fl_last f = Some desc_end"
        and sys: "sys_ok v (mm_issue d1 req i' desc_end f) e1" "abs_steps (cv_size v) (abs_of v d1 e1) (abs_of v (mm_issue d1 req i' desc_end f) e1)"
          "kept d1 e1 (mm_issue d1 req i' desc_end f) e1"
        and m: "0 < m" "m \<le> length (req_todo (dq_conf d1) req)" "fl_data f = of_nat m"
        by (rule issue_sys [OF d1(1,4) False])
      define d2 where "d2 = mm_issue d1 req i' desc_end f"
      have op: "open_req (dq_conf d1) req"
        using d1(1,4) by (simp add: sys_ok_def queue_ok_def acct_ok_def work_req_def)
      have conf: "dq_conf d1 = dq_conf d" "dq_conf d2 = dq_conf d" using d1(3) by (simp_all add: kept_def d2_def)
      have "length (todo (dq_conf d2) (dq_work_list d2)) < length (todo (dq_conf d) (dq_work_list d))"
        using arg_cong [OF todo_issue(1) [OF d1(4) op m, where i = i' and e = desc_end], of length] m(1,2) Cons conf
        by (simp add: d2_def)
      then obtain w' d' e' where ih: "mm_work_loop hw None (w + fl_cnt f) d2 e1 = Some (w', d', e')" "sys_ok v d' e'"
        "abs_steps (cv_size v) (abs_of v d2 e1) (abs_of v d' e')" "kept d2 e1 d' e'"
        using less.hyps [of d2 e1 "w + fl_cnt f"] sys(1) by (auto simp: d2_def)
      have "mm_work_loop hw None w d e = mm_work_loop hw None (w + fl_cnt f) d2 e1"
        using Cons p False find by (subst mm_work_loop.simps) (simp add: d2_def)
      moreover have "abs_steps (cv_size v) (abs_of v d e) (abs_of v d' e')"
        using abs_steps_trans [OF abs_steps_trans [OF d1(2) sys(2)]] ih(3) by (simp add: d2_def)
      moreover have "kept d e d' e'"
        using kept_trans [OF kept_trans [OF d1(3) sys(3)]] ih(4) by (simp add: d2_def)
      ultimately show ?thesis using ih(1,2) by auto
    qed
  qed
qed

text \<open>Telling the card the producer index.\<close>

lemma tell_sys:
  assumes ok: "sys_ok v d e" and info: "info = (dq_pidx_info d)\<lparr>pi_pidx := ucast (dq_pidx d)\<rparr>"
    and run: "queue_pidx_update hw (d\<lparr>dq_pend_list_empty := b, dq_pidx_info := info\<rparr>) e = (rv, e')"
  shows "sys_ok v (d\<lparr>dq_pend_list_empty := b, dq_pidx_info := info\<rparr>) e'" and "de_events e' = de_events e"
    and "de_drv_mode e' = de_drv_mode e" and "cv_cons v (de_card e') = cv_cons v (de_card e)"
proof -
  define d1 where "d1 = d\<lparr>dq_pend_list_empty := b, dq_pidx_info := info\<rparr>"
  have lk: "linked v d e" and qok: "queue_ok d" using ok by (simp_all add: sys_ok_def)
  obtain h where up: "hw_queue_pidx_update hw 0 (cv_qid v) (cv_dir v) (Some info) (de_card e) = (rv, h)"
    and e': "e' = e\<lparr>de_card := h\<rparr>"
    using run lk by (auto simp: queue_pidx_update_def linked_def split: prod.splits)
  show ev: "de_events e' = de_events e" and "de_drv_mode e' = de_drv_mode e" by (simp_all add: e')
  show "cv_cons v (de_card e') = cv_cons v (de_card e)" using update [OF up] by (simp add: e')
  have pn: "unat (dq_pidx d) < cv_size v" and "cv_size v \<le> 2 ^ 16"
    using qok lk by (simp_all add: queue_ok_def ring_ok_def linked_def)
  then have pi: "unat (pi_pidx info) = unat (dq_pidx d)"
    by (simp add: info unsigned_ucast_eq take_bit_nat_eq_self)
  have fl: "in_flight d1 = in_flight d" "ring_size d1 = ring_size d" by (simp_all add: in_flight_def ring_size_def d1_def)
  have "linked v d1 e'"
    using lk update [OF up] pn by (auto simp: linked_def e' pi d1_def in_flight_def ring_size_def)
  moreover have "queue_ok d1"
    using qok by (simp add: queue_ok_def ring_ok_def acct_ok_def fl) (simp add: d1_def cong: list.case_cong)
  moreover have "known d1 = known d" by (simp add: known_def d1_def)
  moreover have "clean_events e'" "returned e' = returned e" using ok ev by (simp_all add: sys_ok_def clean_events_def returned_def)
  ultimately show "sys_ok v (d\<lparr>dq_pend_list_empty := b, dq_pidx_info := info\<rparr>) e'"
    using ok by (simp add: sys_ok_def flip: d1_def)
qed

lemma mm_submit_sys:
  assumes ok: "sys_ok v d e" and run: "mm_submit hw w d e = (rv, d', e')"
  shows "sys_ok v d' e' \<and> abs_steps (cv_size v) (abs_of v d e) (abs_of v d' e') \<and> kept d e d' e'"
proof (cases "w = 0")
  case True
  then show ?thesis using ok run by (auto simp: mm_submit_def)
next
  case False
  define info where "info = (dq_pidx_info d)\<lparr>pi_pidx := ucast (dq_pidx d)\<rparr>"
  define d1 where "d1 = d\<lparr>dq_pend_list_empty := False, dq_pidx_info := info\<rparr>"
  obtain r e1 where up: "queue_pidx_update hw d1 e = (r, e1)" by fastforce
  note t = tell_sys [OF ok info_def up [unfolded d1_def]]
  have abs1: "abs_of v d1 e1 = abs_of v d e" using t(2,4) by (simp add: abs_of_def owners_def open_id_def returned_def d1_def)
  have kept1: "kept d e d1 e1" using t(2,3) by (simp add: kept_def known_def returned_def d1_def)
  have sys1: "sys_ok v d1 e1" using t(1) by (simp add: d1_def)
  show ?thesis
  proof (cases "r < 0")
    case True
    then have "d' = d1" "e' = e1" using run False up by (simp_all add: mm_submit_def info_def d1_def Let_def)
    then show ?thesis using sys1 abs1 kept1 by simp
  next
    case ge: False
    obtain d2 e2 where po: "descq_poll_mm_n_h2c_cmpl_status hw d1 e1 = (d2, e2)" by fastforce
    then have "d' = d2\<lparr>dq_proc_req_running := False\<rparr>" "e' = (if dq_cmplthp d2 then emit Thread_wakeup e2 else e2)"
      using run False up ge by (simp_all add: mm_submit_def info_def d1_def Let_def)
    moreover have k: "kept d e (d2\<lparr>dq_proc_req_running := False\<rparr>) e2"
      using kept_trans [OF kept_trans [OF kept1] kept_running(1)] poll_status_sys [OF sys1 po] by blast
    moreover have "kept d e (d2\<lparr>dq_proc_req_running := False\<rparr>) (if dq_cmplthp d2 then emit Thread_wakeup e2 else e2)"
      using k kept_trans [OF k kept_emit] by simp
    ultimately show ?thesis using poll_status_sys [OF sys1 po] abs1 by simp
  qed
qed

text \<open>The request function and the service of the queue always return.\<close>

lemma mm_proc_sys:
  assumes ok: "sys_ok v d e"
  shows "\<exists>rv d' e'. descq_mm_proc_request hw None d e = Some (rv, d', e') \<and> sys_ok v d' e' \<and>
    abs_steps (cv_size v) (abs_of v d e) (abs_of v d' e') \<and> kept d e d' e'"
proof (cases "dq_q_stop_wait d")
  case True
  obtain d' e' where st: "descq_mm_n_h2c_cmpl_status hw d e = (d', e')" by fastforce
  then have "descq_mm_proc_request hw None d e = Some (0, d', e')" using True by (simp add: descq_mm_proc_request_def)
  then show ?thesis using cmpl_status_sys [OF ok st] by blast
next
  case run: False
  show ?thesis
  proof (cases "dq_q_state d \<noteq> Q_STATE_ONLINE \<or> dq_proc_req_running d")
    case True
    then have "descq_mm_proc_request hw None d e = Some (0, d, e)" using run by (auto simp: descq_mm_proc_request_def)
    then show ?thesis using ok by auto
  next
    case False
    obtain d1 e1 where po: "descq_poll_mm_n_h2c_cmpl_status hw d e = (d1, e1)" by fastforce
    note 1 = poll_status_sys [OF ok po]
    obtain w d2 e2 where 2: "mm_work_loop hw None 0 d1 e1 = Some (w, d2, e2)" "sys_ok v d2 e2"
      "abs_steps (cv_size v) (abs_of v d1 e1) (abs_of v d2 e2)" "kept d1 e1 d2 e2"
      using work_loop_sys [of d1 e1 0] 1 by blast
    obtain rv d3 e3 where su: "mm_submit hw w d2 e2 = (rv, d3, e3)" using prod_cases3 by blast
    have "descq_mm_proc_request hw None d e = Some (rv, d3, e3)"
      using run False po 2(1) su by (simp add: descq_mm_proc_request_def)
    moreover have "abs_steps (cv_size v) (abs_of v d e) (abs_of v d3 e3)"
      using 1 2(3) mm_submit_sys [OF 2(2) su] by (meson abs_steps_trans)
    moreover have "kept d e d3 e3" using 1 2(4) mm_submit_sys [OF 2(2) su] by (meson kept_trans)
    ultimately show ?thesis using mm_submit_sys [OF 2(2) su] by blast
  qed
qed

lemma proc_sgt_sys:
  assumes "sys_ok v d e" and "\<not> qc_st (dq_conf d)" and "\<not> qc_desc_bypass (dq_conf d)"
  shows "\<exists>rv d' e'. qdma_descq_proc_sgt_request hw busy bypass d e = Some (rv, d', e') \<and> sys_ok v d' e' \<and>
    abs_steps (cv_size v) (abs_of v d e) (abs_of v d' e') \<and> kept d e d' e'"
  using mm_proc_sys [OF assms(1)] assms(2,3) by (simp add: qdma_descq_proc_sgt_request_def)

lemma service_sys:
  assumes ok: "sys_ok v d e" and mm: "\<not> qc_st (dq_conf d)" "\<not> qc_desc_bypass (dq_conf d)"
  shows "\<exists>rv d' e'. qdma_descq_service_cmpl_update hw busy bypass recv d e = Some (rv, d', e') \<and> sys_ok v d' e' \<and>
    abs_steps (cv_size v) (abs_of v d e) (abs_of v d' e') \<and> kept d e d' e'"
proof (cases "de_drv_mode e = POLL_MODE \<or> de_drv_mode e = AUTO_MODE")
  case True
  then show ?thesis
    using ok mm proc_sgt_sys [OF ok mm, of busy bypass]
    by (cases "dq_proc_req_running d") (auto simp: qdma_descq_service_cmpl_update_def st_c2h_def)
next
  case False
  obtain d1 e1 where st: "descq_mm_n_h2c_cmpl_status hw d e = (d1, e1)" by fastforce
  note 1 = cmpl_status_sys [OF ok st]
  show ?thesis
  proof (cases "dq_work_req_pend d1 \<noteq> 0 \<or> dq_desc_pend d1 \<noteq> 0")
    case T: True
    have mm1: "\<not> qc_st (dq_conf d1)" "\<not> qc_desc_bypass (dq_conf d1)" using 1 mm by (simp_all add: kept_def)
    obtain rv d2 e2 where 2: "qdma_descq_proc_sgt_request hw busy bypass d1 e1 = Some (rv, d2, e2)" "sys_ok v d2 e2"
      "abs_steps (cv_size v) (abs_of v d1 e1) (abs_of v d2 e2)" "kept d1 e1 d2 e2"
      using proc_sgt_sys [OF _ mm1, of e1 busy bypass] 1 by blast
    have "qdma_descq_service_cmpl_update hw busy bypass recv d e = Some (rv, d2, e2)"
      using False mm T st 2(1) by (simp add: qdma_descq_service_cmpl_update_def st_c2h_def)
    then show ?thesis using 1 2 by (meson abs_steps_trans kept_trans)
  next
    case F: False
    then have "qdma_descq_service_cmpl_update hw busy bypass recv d e = Some (0, d1, e1)"
      using False mm st by (simp add: qdma_descq_service_cmpl_update_def st_c2h_def)
    then show ?thesis using 1 by blast
  qed
qed

end

end
