(* ===== verification/Qdma_Submit.thy ===== *)
theory Qdma_Submit
  imports Qdma_Descq_Run
begin

text \<open>
  Requests from the clients (\<open>libqdma_export.c\<close>): mapping the pages of a request, submitting one request or a
  batch, and the end of a blocking request.  A blocking call is two operations, because the queue goes on
  while the caller sleeps: \<open>qdma_request_submit\<close> runs up to the wait and says whether the caller waits,
  \<open>qdma_request_wait_for_cmpl\<close> and \<open>submit_end\<close> run when it wakes up, by the completion or by the time-out.

  \<open>map_page\<close> stands for \<open>dma_map_page\<close> and \<open>dma_mapping_error\<close> of the kernel: the address of the page of an
  entry, and whether this address is an error value.  \<open>recv\<close> stands for \<open>qdma_request_submit_st_c2h\<close>, the
  receive path, which is not modelled.  The queue has been looked up by its number already.
\<close>

section \<open>Mapping\<close>

text \<open>The loop of \<open>sgl_map\<close> up to the first error: how many entries are mapped, and the list.\<close>

fun map_entries :: "(nat \<Rightarrow> u64 \<Rightarrow> u64 \<times> bool) \<Rightarrow> nat \<Rightarrow> dma_sg list \<Rightarrow> nat \<times> dma_sg list" where
  "map_entries map_page i [] = (i, [])"
| "map_entries map_page i (sg # sgs) =
     (case map_page i (ds_pg sg) of (dma_addr, err) \<Rightarrow>
        if err then (i, sg\<lparr>ds_dma_addr := dma_addr\<rparr> # sgs)
        else (case map_entries map_page (i + 1) sgs of (n, sgs) \<Rightarrow>
          (n, sg\<lparr>ds_dma_addr := dma_addr + ucast (ds_offset sg)\<rparr> # sgs)))"

definition sgl_map :: "(nat \<Rightarrow> u64 \<Rightarrow> u64 \<times> bool) \<Rightarrow> dma_sg list \<Rightarrow> 'h descq_env \<Rightarrow> int \<times> dma_sg list \<times> 'h descq_env" where
  "sgl_map map_page sgl e =
     (case map_entries map_page 0 sgl of (i, sgl) \<Rightarrow>
        if i = length sgl then (0, sgl, e)
        else if i = 0 then (- EIO_K, sgl, e)
        else case sgl_unmap (take i sgl) of (sgs, as) \<Rightarrow> (- EIO_K, sgs @ drop i sgl, emit (Unmap as) e))"

section \<open>Submitting a request\<close>

definition zero_cb :: qdma_sgt_req_cb where
  "zero_cb = \<lparr>cb_desc_nr = 0, cb_offset = 0, cb_sg_offset = 0, cb_sg = None, cb_status = 0, cb_done = False,
     cb_unmap_needed = False\<rparr>"

definition bad_direction :: "descq_req \<Rightarrow> qdma_descq \<Rightarrow> bool" where
  "bad_direction req d \<longleftrightarrow> (dr_write req \<and> qc_q_type (dq_conf d) \<noteq> Q_H2C) \<or> (\<not> dr_write req \<and> qc_q_type (dq_conf d) \<noteq> Q_C2H)"

text \<open>The label \<open>unmap_sgl\<close>.\<close>

definition unmap_request :: "descq_req \<Rightarrow> 'h descq_env \<Rightarrow> 'h descq_env" where
  "unmap_request req e = (if dr_dma_mapped req then e else emit (Unmap (snd (sgl_unmap (dr_sgl req)))) e)"

text \<open>The pages of a request are mapped unless the client has done it.\<close>

definition map_request :: "(nat \<Rightarrow> u64 \<Rightarrow> u64 \<times> bool) \<Rightarrow> descq_req \<Rightarrow> 'h descq_env \<Rightarrow> int \<times> descq_req \<times> 'h descq_env" where
  "map_request map_page req e =
     (if dr_dma_mapped req then (0, req, e)
      else case sgl_map map_page (dr_sgl req) e of (rv, sgl, e) \<Rightarrow>
        (rv, req\<lparr>dr_sgl := sgl, dr_cb := (dr_cb req)\<lparr>cb_unmap_needed := rv \<ge> 0\<rparr>\<rparr>, e))"

datatype submitted = Returned int | Waiting

definition qdma_request_submit ::
    "'h descq_hw \<Rightarrow> bool \<Rightarrow> bypass_fill \<Rightarrow> (descq_req \<Rightarrow> qdma_descq \<Rightarrow> 'h descq_env \<Rightarrow> submitted \<times> qdma_descq \<times> 'h descq_env) \<Rightarrow>
      (nat \<Rightarrow> u64 \<Rightarrow> u64 \<times> bool) \<Rightarrow> descq_req \<Rightarrow> qdma_descq \<Rightarrow> 'h descq_env \<Rightarrow> (submitted \<times> qdma_descq \<times> 'h descq_env) option" where
  "qdma_request_submit hw busy bypass recv map_page req d e =
     (if dq_q_state d = Q_STATE_DISABLED \<or> qc_q_type (dq_conf d) = Q_CMPT \<or> bad_direction req d
      then Some (Returned (- EINVAL_K), d, e)
      else
        let req = req\<lparr>dr_cb := zero_cb\<rparr>
        in if st_c2h (dq_conf d) then Some (recv req d e)
           else
             let (rv, req, e) = map_request map_page req e
             in if rv < 0 then Some (Returned rv, d, unmap_request req e)
                else if dq_q_state d \<noteq> Q_STATE_ONLINE then Some (Returned (- EINVAL_K), d, unmap_request req e)
                else case qdma_descq_proc_sgt_request hw busy bypass (qdma_work_queue_add req d) e of
                  None \<Rightarrow> None
                | Some (rv, d, e) \<Rightarrow> Some (if dr_fp_done req then Returned 0 else Waiting, d, e))"

section \<open>The end of a blocking request\<close>

text \<open>\<open>list_del\<close> takes the request off the list it is on; the counters of the queue stay.\<close>

definition list_del_req :: "u64 \<Rightarrow> qdma_descq \<Rightarrow> qdma_descq" where
  "list_del_req n d = d\<lparr>dq_work_list := filter (\<lambda>r. dr_uld_data r \<noteq> n) (dq_work_list d),
     dq_pend_list := filter (\<lambda>r. dr_uld_data r \<noteq> n) (dq_pend_list d)\<rparr>"

text \<open>\<open>req\<close> is the request as it is when the caller wakes up.\<close>

definition qdma_request_wait_for_cmpl :: "descq_req \<Rightarrow> qdma_descq \<Rightarrow> int \<times> qdma_descq" where
  "qdma_request_wait_for_cmpl req d =
     (let d = (if \<not> cb_done (dr_cb req) then list_del_req (dr_uld_data req) d else d)
      in (if \<not> cb_done (dr_cb req) \<or> cb_status (dr_cb req) \<noteq> 0 then - EIO_K else 0, d))"

definition submit_end :: "descq_req \<Rightarrow> qdma_descq \<Rightarrow> 'h descq_env \<Rightarrow> int \<times> qdma_descq \<times> 'h descq_env" where
  "submit_end req d e =
     (case qdma_request_wait_for_cmpl req d of (rv, d) \<Rightarrow>
        if rv < 0 then (rv, d, unmap_request req e) else (uint (cb_offset (dr_cb req)), d, e))"

section \<open>A batch of requests\<close>

text \<open>The loop that maps the pages; \<open>k\<close> is the number of the request.\<close>

fun map_batch :: "(nat \<Rightarrow> nat \<Rightarrow> u64 \<Rightarrow> u64 \<times> bool) \<Rightarrow> nat \<Rightarrow> descq_req list \<Rightarrow> 'h descq_env \<Rightarrow> descq_req list \<times> 'h descq_env" where
  "map_batch map_page k [] e = ([], e)"
| "map_batch map_page k (req # reqs) e =
     (let req = req\<lparr>dr_cb := zero_cb\<rparr>;
          (req, e) =
            (if dr_dma_mapped req then (req, e)
             else case sgl_map (map_page k) (dr_sgl req) e of (rv, sgl, e) \<Rightarrow>
               let req = req\<lparr>dr_sgl := sgl\<rparr>;
                   e = (if rv < 0 then emit (Fp_done req 0 rv) e else e)
               in (req\<lparr>dr_cb := (dr_cb req)\<lparr>cb_unmap_needed := True\<rparr>\<rparr>, e));
          (reqs, e) = map_batch map_page (k + 1) reqs e
      in (req # reqs, e))"

text \<open>\<open>batch_recv\<close> is the loop of the receive direction.  The vector has a first element.\<close>

definition qdma_batch_request_submit ::
    "'h descq_hw \<Rightarrow> bool \<Rightarrow> bypass_fill \<Rightarrow> (descq_req list \<Rightarrow> qdma_descq \<Rightarrow> 'h descq_env \<Rightarrow> qdma_descq \<times> 'h descq_env) \<Rightarrow>
      (nat \<Rightarrow> nat \<Rightarrow> u64 \<Rightarrow> u64 \<times> bool) \<Rightarrow> descq_req \<Rightarrow> descq_req list \<Rightarrow> qdma_descq \<Rightarrow> 'h descq_env \<Rightarrow>
      (int \<times> qdma_descq \<times> 'h descq_env) option" where
  "qdma_batch_request_submit hw busy bypass batch_recv map_page req reqs d e =
     (if qc_q_type (dq_conf d) = Q_CMPT \<or> bad_direction req d \<or> \<not> dr_fp_done req then Some (- EINVAL_K, d, e)
      else if st_c2h (dq_conf d) then (case batch_recv (req # reqs) d e of (d, e) \<Rightarrow> Some (0, d, e))
      else case map_batch map_page 0 (req # reqs) e of (reqs, e) \<Rightarrow>
        if dq_q_state d \<noteq> Q_STATE_ONLINE then Some (- EINVAL_K, d, e)
        else case qdma_descq_proc_sgt_request hw busy bypass (d\<lparr>dq_work_list := dq_work_list d @ reqs\<rparr>) e of
          None \<Rightarrow> None
        | Some (rv, d, e) \<Rightarrow> Some (0, d, e))"

end
