(* ===== verification/Qdma_Descq_System.thy ===== *)
theory Qdma_Descq_System
  imports Qdma_Descq_Card Qdma_Submit Soft_Csr S80_Csr
begin

text \<open>
  A memory-mapped queue in use: clients submit requests, a thread or an interrupt serves the queue, the
  card completes descriptors.  \<open>queue_step\<close> is one call into the queue, with the lock held; the states it
  reaches from a queue just started satisfy \<open>sys_ok\<close> on every card that keeps the contract
  \<open>descq_card\<close>.  The producer index functions of the back ends, together with a card that completes
  descriptors in order, keep it.
\<close>

section \<open>Submitting keeps the agreement\<close>

text \<open>What a client has to submit: entries with data, as long together as \<open>count\<close> says, below \<open>2 ^ 31\<close> bytes.\<close>

definition client_req :: "qdma_queue_conf \<Rightarrow> descq_req \<Rightarrow> bool" where
  "client_req conf req \<longleftrightarrow> wf_req req \<and> aperture_ok conf (dr_ep_addr req) \<and> unat (dr_count req) < 2 ^ 31"

text \<open>Mapping changes addresses only.\<close>

lemma lens_map_entries: "map_entries map_page i sgl = (n, sgl') \<Longrightarrow> map ds_len sgl' = map ds_len sgl"
  by (induction map_page i sgl arbitrary: n sgl' rule: map_entries.induct) (auto split: prod.splits if_splits)

lemma lens_sgl_unmap: "map ds_len (fst (sgl_unmap sgl)) = map ds_len sgl"
  by (induction sgl) (auto split: prod.splits)

lemma sgl_map_effect:
  assumes "sgl_map map_page sgl e = (rv, sgl', e')"
  shows "map ds_len sgl' = map ds_len sgl" and "e' = e \<or> (\<exists>as. e' = emit (Unmap as) e)"
proof -
  obtain i s where m: "map_entries map_page 0 sgl = (i, s)" by fastforce
  obtain s1 as where u: "sgl_unmap (take i s) = (s1, as)" by fastforce
  have "map ds_len s1 = take i (map ds_len s)" using lens_sgl_unmap [of "take i s"] u by (simp add: take_map)
  then have "map ds_len (s1 @ drop i s) = map ds_len s" by (simp flip: drop_map)
  then show "map ds_len sgl' = map ds_len sgl"
    using assms lens_map_entries [OF m] by (auto simp: sgl_map_def m u split: if_splits)
  show "e' = e \<or> (\<exists>as. e' = emit (Unmap as) e)"
    using assms by (auto simp: sgl_map_def m u split: if_splits)
qed

lemma wf_req_lens:
  assumes "map ds_len (dr_sgl r) = map ds_len (dr_sgl req)" and "dr_count r = dr_count req"
  shows "wf_req r = wf_req req"
proof -
  have len: "length (host_bytes sgl) = sum_list (map unat (map ds_len sgl))" for sgl
    by (simp add: host_bytes_def length_concat o_def)
  have all: "(\<forall>sg \<in> set sgl. ds_len sg \<noteq> 0) \<longleftrightarrow> 0 \<notin> set (map ds_len sgl)" for sgl by auto
  show ?thesis unfolding wf_req_def len all assms by simp
qed

lemma sys_ok_unmap [simp]: "sys_ok v d (emit (Unmap as) e) \<longleftrightarrow> sys_ok v d e"
  by (simp add: sys_ok_def linked_def)

lemma abs_of_unmap [simp]: "abs_of v d (emit (Unmap as) e) = abs_of v d e"
  by (simp add: abs_of_def)

lemma returned_unmap_request [simp]: "returned (unmap_request req e) = returned e"
  and sys_ok_unmap_request [simp]: "sys_ok v d (unmap_request req e) \<longleftrightarrow> sys_ok v d e"
  and mode_unmap_request [simp]: "de_drv_mode (unmap_request req e) = de_drv_mode e"
  and card_unmap_request [simp]: "de_card (unmap_request req e) = de_card e"
  by (simp_all add: unmap_request_def) (simp add: emit_def)

context descq_card
begin

lemma request_submit_sys:
  assumes ok: "sys_ok v d e" and mm: "\<not> qc_st (dq_conf d)" "\<not> qc_desc_bypass (dq_conf d)"
    and req: "client_req (dq_conf d) req" and new: "dr_uld_data req \<notin> known d \<union> set (returned e)"
  shows "\<exists>r d' e'. qdma_request_submit hw busy bypass recv map_page req d e = Some (r, d', e') \<and> sys_ok v d' e' \<and>
    abs_steps (cv_size v) (abs_of v d e) (abs_of v d' e') \<and> dq_conf d' = dq_conf d \<and>
    known d' \<union> set (returned e') \<subseteq> insert (dr_uld_data req) (known d \<union> set (returned e))"
proof (cases "dq_q_state d = Q_STATE_DISABLED \<or> qc_q_type (dq_conf d) = Q_CMPT \<or> bad_direction req d")
  case True
  then show ?thesis using ok by (auto simp: qdma_request_submit_def)
next
  case False
  define r0 where "r0 = req\<lparr>dr_cb := zero_cb\<rparr>"
  obtain rv r1 e1 where m: "map_request map_page r0 e = (rv, r1, e1)" using prod_cases3 by blast
  have e1: "e1 = e \<or> (\<exists>as. e1 = emit (Unmap as) e)"
    and r1: "map ds_len (dr_sgl r1) = map ds_len (dr_sgl req)" "dr_count r1 = dr_count req" "dr_ep_addr r1 = dr_ep_addr req"
      "dr_uld_data r1 = dr_uld_data req" "cb_desc_nr (dr_cb r1) = 0" "cb_offset (dr_cb r1) = 0"
      "dr_fp_done r1 = dr_fp_done req"
    using m sgl_map_effect [of map_page "dr_sgl req" e] by (auto simp: map_request_def r0_def zero_cb_def split: if_splits prod.splits)
  have sys1: "sys_ok v d e1" and abs1: "abs_of v d e1 = abs_of v d e" and ret1: "returned e1 = returned e" using e1 ok by auto
  have submit: "qdma_request_submit hw busy bypass recv map_page req d e =
      (if rv < 0 then Some (Returned rv, d, unmap_request r1 e1)
       else if dq_q_state d \<noteq> Q_STATE_ONLINE then Some (Returned (- EINVAL_K), d, unmap_request r1 e1)
       else case qdma_descq_proc_sgt_request hw busy bypass (qdma_work_queue_add r1 d) e1 of
         None \<Rightarrow> None | Some (rv, d, e) \<Rightarrow> Some (if dr_fp_done r1 then Returned 0 else Waiting, d, e))"
    using False mm m by (simp add: qdma_request_submit_def st_c2h_def r0_def Let_def)
  show ?thesis
  proof (cases "rv < 0 \<or> dq_q_state d \<noteq> Q_STATE_ONLINE")
    case True
    then show ?thesis using submit sys1 abs1 ret1 by (auto simp: abs_of_def)
  next
    case go: False
    have wf: "wf_req r1" using wf_req_lens [OF r1(1,2)] req by (simp add: client_req_def)
    then have "0 < unat (dr_count r1)" by (simp add: wf_req_def unat_gt_0)
    then have fresh: "fresh_req d e1 r1"
      using wf req new r1 ret1 by (simp add: fresh_req_def work_req_def open_req_def client_req_def req_offset_def)
    note add = submit_sys [OF sys1 fresh]
    obtain rv2 d2 e2 where p: "qdma_descq_proc_sgt_request hw busy bypass (qdma_work_queue_add r1 d) e1 = Some (rv2, d2, e2)"
      "sys_ok v d2 e2" "abs_steps (cv_size v) (abs_of v (qdma_work_queue_add r1 d) e1) (abs_of v d2 e2)"
      "kept (qdma_work_queue_add r1 d) e1 d2 e2"
      using proc_sgt_sys [OF add(1), of busy bypass] mm by auto
    have "qdma_request_submit hw busy bypass recv map_page req d e = Some (if dr_fp_done r1 then Returned 0 else Waiting, d2, e2)"
      using submit go p(1) by simp
    moreover have "known d2 \<union> set (returned e2) = insert (dr_uld_data req) (known d \<union> set (returned e))"
      using p(4) add(3) r1(4) ret1 by (auto simp: kept_def)
    moreover have "dq_conf d2 = dq_conf d" using p(4) by (simp add: kept_def)
    ultimately show ?thesis using p(2,3) add(2) abs1 by auto
  qed
qed

end

section \<open>The states of a queue in use\<close>

type_synonym 'h queue_sys = "qdma_descq \<times> 'h descq_env"

text \<open>One call into the queue.  A client's request has a number of its own.\<close>

inductive queue_step :: "'h descq_hw \<Rightarrow> 'h queue_sys \<Rightarrow> 'h queue_sys \<Rightarrow> bool" for hw where
  submit: "client_req (dq_conf d) req \<Longrightarrow> dr_uld_data req \<notin> known d \<union> set (returned e) \<Longrightarrow>
    qdma_request_submit hw busy bypass recv map_page req d e = Some (r, d', e') \<Longrightarrow> queue_step hw (d, e) (d', e')"
| process: "qdma_descq_proc_sgt_request hw busy bypass d e = Some (rv, d', e') \<Longrightarrow> queue_step hw (d, e) (d', e')"
| service: "qdma_descq_service_cmpl_update hw busy bypass recv d e = Some (rv, d', e') \<Longrightarrow> queue_step hw (d, e) (d', e')"

inductive_cases queue_stepE: "queue_step hw (d, e) t"

text \<open>A memory-mapped queue just started, without a client that fills descriptors.\<close>

definition started :: "'h card_view \<Rightarrow> qdma_descq \<Rightarrow> 'h descq_env \<Rightarrow> bool" where
  "started v d e \<longleftrightarrow> \<not> qc_st (dq_conf d) \<and> \<not> qc_desc_bypass (dq_conf d) \<and>
     2 \<le> ring_size d \<and> ring_size d \<le> 2 ^ 16 \<and> length (dq_mm_desc d) = ring_size d \<and>
     dq_pidx d = 0 \<and> dq_cidx d = 0 \<and> dq_avail d = qc_rngsz (dq_conf d) - 1 \<and> dq_credit d = 0 \<and>
     pi_pidx (dq_pidx_info d) = 0 \<and> dq_work_list d = [] \<and> dq_pend_list d = [] \<and> de_events e = [] \<and>
     ring_size d = cv_size v \<and> ucast (qc_qidx (dq_conf d)) = cv_qid v \<and>
     of_nat (queue_type_code (qc_q_type (dq_conf d))) = cv_dir v \<and>
     cv_cons v (de_card e) = 0 \<and> cv_told v (de_card e) = 0"

lemma started_sys:
  assumes "started v d e"
  shows "sys_ok v d e" and "abs_of v d e = idle"
proof -
  have n: "2 \<le> ring_size d" "dq_avail d = qc_rngsz (dq_conf d) - 1" using assms by (simp_all add: started_def)
  then have "(1 :: u32) \<le> qc_rngsz (dq_conf d)" by (simp add: ring_size_def word_le_nat_alt)
  then have "unat (dq_avail d) = ring_size d - 1" using n(2) by (simp add: unat_sub ring_size_def)
  moreover have "in_flight d = 0" using assms by (simp add: started_def in_flight_def)
  moreover have "(0 :: u32) < 2 ^ 16" by simp
  ultimately show "sys_ok v d e"
    using assms by (simp add: started_def sys_ok_def queue_ok_def ring_ok_def acct_ok_def linked_def clean_events_def
      returned_def known_def)
  show "abs_of v d e = idle" using assms by (simp add: started_def abs_of_def owners_def returned_def open_id_def idle_def)
qed

context descq_card
begin

lemma step_sys:
  assumes "queue_step hw (d, e) (d', e')" and "sys_ok v d e" and "\<not> qc_st (dq_conf d)" "\<not> qc_desc_bypass (dq_conf d)"
  shows "sys_ok v d' e' \<and> abs_steps (cv_size v) (abs_of v d e) (abs_of v d' e') \<and> dq_conf d' = dq_conf d"
  using assms(1)
proof (cases rule: queue_step.cases)
  case (submit req busy bypass recv map_page r)
  then show ?thesis
    using request_submit_sys [OF assms(2,3,4) submit(1,2), of busy bypass recv map_page] by auto
next
  case (process busy bypass rv)
  then show ?thesis using proc_sgt_sys [OF assms(2-4), of busy bypass] by (auto simp: kept_def)
next
  case (service busy bypass recv rv)
  then show ?thesis using service_sys [OF assms(2-4), of busy bypass recv] by (auto simp: kept_def)
qed

lemma reach_sys:
  assumes "(queue_step hw)\<^sup>*\<^sup>* s t" and "started v (fst s) (snd s)"
  shows "sys_ok v (fst t) (snd t) \<and> abs_steps (cv_size v) idle (abs_of v (fst t) (snd t)) \<and> dq_conf (fst t) = dq_conf (fst s)"
  using assms
proof (induction rule: rtranclp_induct)
  case base
  then show ?case using started_sys [OF assms(2)] by simp
next
  case (step t u)
  have mm: "\<not> qc_st (dq_conf (fst t))" "\<not> qc_desc_bypass (dq_conf (fst t))"
    using step by (simp_all add: started_def)
  have "queue_step hw (fst t, snd t) (fst u, snd u)" using step(2) by simp
  from step_sys [OF this _ mm] show ?case using step by (auto intro: abs_steps_trans)
qed

end

section \<open>Cards that keep the contract\<close>

text \<open>
  A card with one queue of \<open>n\<close> descriptors: it completes them in order, \<open>en_script\<close> says how many more at
  each report, never more than it has been told.
\<close>

record engine =
  en_cons :: nat
  en_told :: nat
  en_script :: "nat list"

definition engine_report :: "u16 \<Rightarrow> engine \<Rightarrow> u16 \<times> engine" where
  "engine_report n h =
     (let k = (case en_script h of [] \<Rightarrow> 0 | k # _ \<Rightarrow> min k (ring_dist (unat n) (en_cons h) (en_told h)));
          s = (en_cons h + k) mod unat n
      in (of_nat s, h\<lparr>en_cons := s, en_script := tl (en_script h)\<rparr>))"

text \<open>The producer index register of the queue is at \<open>reg\<close>: bits 15 to 0 are the index.\<close>

definition engine_bus :: "u32 \<Rightarrow> engine bus" where
  "engine_bus reg = \<lparr>bus_read = (\<lambda>a h. (0, h)),
     bus_write = (\<lambda>a v h. if a = reg then h\<lparr>en_told := unat (take_bit 16 v)\<rparr> else h)\<rparr>"

definition engine_view :: "u16 \<Rightarrow> u16 \<Rightarrow> u8 \<Rightarrow> engine card_view" where
  "engine_view n qid dir = \<lparr>cv_qid = qid, cv_dir = dir, cv_size = unat n, cv_cons = en_cons, cv_told = en_told\<rparr>"

text \<open>The soft QDMA and the versal hard QDMA with this card.\<close>

definition soft_hw :: "u16 \<Rightarrow> u16 \<Rightarrow> u8 \<Rightarrow> engine descq_hw" where
  "soft_hw n qid dir =
     (let b = engine_bus ((if dir \<noteq> 0 then QDMA_OFFSET_DMAP_SEL_C2H_DSC_PIDX else QDMA_OFFSET_DMAP_SEL_H2C_DSC_PIDX) +
        ucast qid * QDMA_PIDX_STEP)
      in \<lparr>hw_cmpl_cidx = engine_report n, hw_queue_pidx_update = qdma_queue_pidx_update b,
        hw_queue_cmpt_cidx_update = qdma_queue_cmpt_cidx_update b\<rparr>)"

definition s80_hw :: "u16 \<Rightarrow> u16 \<Rightarrow> u8 \<Rightarrow> engine descq_hw" where
  "s80_hw n qid dir =
     (let b = engine_bus ((if dir \<noteq> 0 then QDMA_S80_HARD_OFFSET_DMAP_SEL_C2H_DSC_PIDX
          else QDMA_S80_HARD_OFFSET_DMAP_SEL_H2C_DSC_PIDX) + ucast qid * QDMA_PIDX_STEP)
      in \<lparr>hw_cmpl_cidx = engine_report n, hw_queue_pidx_update = qdma_s80_hard_queue_pidx_update b,
        hw_queue_cmpt_cidx_update = qdma_s80_hard_queue_cmpt_cidx_update b\<rparr>)"

lemma engine_report_law:
  assumes "engine_report n h = (s, h')" and "en_cons h < unat n" and "en_told h < unat n"
  shows "unat s < unat n \<and> ring_dist (unat n) (en_cons h) (unat s) \<le> ring_dist (unat n) (en_cons h) (en_told h) \<and>
    en_cons h' = unat s \<and> en_told h' = en_told h"
proof -
  define k where "k = (case en_script h of [] \<Rightarrow> 0 | k # _ \<Rightarrow> min k (ring_dist (unat n) (en_cons h) (en_told h)))"
  have k: "k \<le> ring_dist (unat n) (en_cons h) (en_told h)" by (simp add: k_def split: list.split)
  have kn: "k < unat n" using k ring_dist_less [OF assms(2,3)] by simp
  define m where "m = (en_cons h + k) mod unat n"
  have m: "m < unat n" using assms(2) by (simp add: m_def)
  moreover have "unat n < 2 ^ 16" using unsigned_less [where w = n and 'a = nat] by simp
  ultimately have um: "unat (of_nat m :: u16) = m" by (simp add: unsigned_of_nat take_bit_nat_eq_self)
  have "ring_dist (unat n) (en_cons h) m = k" using ring_dist_forward [OF assms(2,2), of k] kn by (simp add: m_def)
  moreover have "s = of_nat m" "h' = h\<lparr>en_cons := m, en_script := tl (en_script h)\<rparr>"
    using assms(1) by (simp_all add: engine_report_def k_def [symmetric] m_def [symmetric] Let_def)
  ultimately show ?thesis using k m um by simp
qed

lemma pidx_word:
  "take_bit 16 (FIELD_SET (GENMASK 15 0) (ucast (p :: u16))) OR take_bit 16 (FIELD_SET (BIT 16) x :: u32) = ucast p"
  by (rule bit_word_eqI) (auto simp: bit_simps BIT_GENMASK bit_FIELD_SET dest: bit_imp_le_length)

interpretation soft_card: descq_card "soft_hw n qid dir" "engine_view n qid dir" for n qid dir
  by unfold_locales
    (auto simp: soft_hw_def engine_view_def Let_def engine_bus_def qdma_queue_pidx_update_def QDMA_DMA_SEL_DESC_PIDX_MASK_def
      QDMA_DMA_SEL_IRQ_EN_MASK_def pidx_word unat_ucast_up_u16 dest: engine_report_law split: if_splits)

interpretation s80_card: descq_card "s80_hw n qid dir" "engine_view n qid dir" for n qid dir
  by unfold_locales
    (auto simp: s80_hw_def engine_view_def Let_def engine_bus_def qdma_s80_hard_queue_pidx_update_def
      QDMA_S80_HARD_DMA_SEL_DESC_PIDX_MASK_def QDMA_S80_HARD_DMA_SEL_IRQ_EN_MASK_def pidx_word unat_ucast_up_u16
      dest: engine_report_law split: if_splits)

end
