(* ===== verification/Qdma_Descq_Example.thy ===== *)
theory Qdma_Descq_Example
  imports Qdma_Descq_System
begin

text \<open>
  A concrete queue: the soft QDMA with a card that completes descriptors in order, a ring of four, and a
  request of two entries that is submitted and served.  The properties of the queues are applied to it.
\<close>

text \<open>A ring of four descriptors to the card, served by interrupts, and a request of two entries.\<close>

definition ex_conf :: qdma_queue_conf where
  "ex_conf = \<lparr>qc_qidx = 0, qc_st = False, qc_q_type = Q_H2C, qc_irq_en = True, qc_desc_rng_sz_idx = 0, qc_wb_status_en = True,
     qc_cmpl_status_acc_en = True, qc_cmpl_status_pend_chk = True, qc_desc_bypass = False, qc_pfetch_en = False,
     qc_fetch_credit = False, qc_c2h_buf_sz_idx = 0, qc_cmpl_rng_sz_idx = 0, qc_cmpl_desc_sz = 0, qc_cmpl_stat_en = False,
     qc_cmpl_udd_en = False, qc_cmpl_timer_idx = 0, qc_cmpl_cnt_th_idx = 0, qc_cmpl_trig_mode = 0, qc_cmpl_en_intr = False,
     qc_sw_desc_sz = 0, qc_pfetch_bypass = False, qc_cmpl_ovf_chk_dis = False, qc_adaptive_rx = False,
     qc_init_pidx_dis = False, qc_mm_channel = False, qc_ping_pong_en = False, qc_aperture_size = 0, qc_pidx_acc = 8,
     qc_fp_descq_c2h_packet = False, qc_fp_bypass_desc_fill = False, qc_rngsz = 4, qc_rngsz_cmpt = 0, qc_c2h_bufsz = 0\<rparr>"

definition ex_descq :: qdma_descq where
  "ex_descq = \<lparr>dq_conf = ex_conf, dq_channel = False, dq_q_state = Q_STATE_ONLINE, dq_qidx_hw = 0, dq_color = False,
     dq_proc_req_running = False, dq_cmplthp = False, dq_work_list = [], dq_work_req_pend = 0, dq_pend_list = [],
     dq_pend_list_empty = True, dq_q_stop_wait = False, dq_avail = 3, dq_pidx = 0, dq_cidx = 0, dq_credit = 0,
     dq_mm_desc = replicate 4 \<lparr>md_src_addr = 0, md_flag_len = 0, md_dst_addr = 0\<rparr>, dq_h2c_desc = [], dq_cmpt_entry_len = 0,
     dq_pidx_cmpt = 0, dq_cidx_cmpt = 0, dq_total_cmpl_descs = 0, dq_desc_pend = 0,
     dq_pidx_info = \<lparr>pi_pidx = 0, pi_irq_en = 1\<rparr>,
     dq_cmpt_cidx_info = \<lparr>ci_wrb_cidx = 0, ci_counter_idx = 0, ci_timer_idx = 0, ci_trig_mode = 0, ci_wrb_en = 0, ci_irq_en = 0\<rparr>,
     dq_c2h_pend_pkt_moving_avg = 0, dq_c2h_pend_pkt_avg_thr_hi = 0, dq_c2h_pend_pkt_avg_thr_lo = 0, dq_sorted_c2h_cntr_idx = 0,
     dq_desc = True, dq_desc_bus = 0x10000, dq_desc_cmpt = False, dq_desc_cmpt_bus = 0, dq_intr_id = 0,
     dq_cpu_assigned = True, dq_intr_work_cpu = 0, dq_q_hndl = 0\<rparr>"

definition ex_env :: "nat list \<Rightarrow> engine descq_env" where
  "ex_env script = \<lparr>de_drv_mode = DIRECT_INTR_MODE, de_total_mm_h2c_pkts = 0, de_total_mm_c2h_pkts = 0, de_total_st_h2c_pkts = 0,
     de_total_st_c2h_pkts = 0, de_card = \<lparr>en_cons = 0, en_told = 0, en_script = script\<rparr>, de_events = []\<rparr>"

definition ex_req :: descq_req where
  "ex_req = \<lparr>dr_uld_data = 7, dr_fp_done = True, dr_timeout_ms = 0, dr_count = 12, dr_ep_addr = 0x100, dr_write = True,
     dr_dma_mapped = True, dr_check_qstate_disabled = False,
     dr_sgl = [\<lparr>ds_pg = 1, ds_offset = 0, ds_len = 8, ds_dma_addr = 0x2000\<rparr>, \<lparr>ds_pg = 2, ds_offset = 0, ds_len = 4, ds_dma_addr = 0x3000\<rparr>],
     dr_cb = zero_cb\<rparr>"

definition ex_start :: "nat list \<Rightarrow> engine queue_sys" where
  "ex_start script =
     (case qdma_request_submit (soft_hw 4 0 0) False None (\<lambda>_ d e. (Waiting, d, e)) (\<lambda>_ _. (0, True)) ex_req ex_descq (ex_env script) of
        Some (r, s) \<Rightarrow> s | None \<Rightarrow> (ex_descq, ex_env script))"

definition ex_serve :: "engine queue_sys \<Rightarrow> engine queue_sys" where
  "ex_serve s =
     (case qdma_descq_service_cmpl_update (soft_hw 4 0 0) False None (\<lambda>d e. (0, d, e)) (fst s) (snd s) of
        Some (rv, t) \<Rightarrow> t | None \<Rightarrow> s)"

lemma ex_started: "started (engine_view 4 0 0) ex_descq (ex_env script)"
  by (simp add: started_def engine_view_def ex_descq_def ex_conf_def ex_env_def ring_size_def)

lemma ex_client: "client_req (dq_conf ex_descq) ex_req" "dr_uld_data ex_req \<notin> known ex_descq \<union> set (returned (ex_env script))"
  by (simp_all add: client_req_def wf_req_def host_bytes_def aperture_ok_def keyhole_en_def ex_req_def ex_descq_def ex_conf_def
      known_def returned_def ex_env_def)

lemma ex_start_reach: "(queue_step (soft_hw 4 0 0))\<^sup>*\<^sup>* (ex_descq, ex_env script) (ex_start script)"
  by (auto simp: ex_start_def intro!: r_into_rtranclp submit [OF ex_client] split: option.split)

lemma ex_serve_reach: "(queue_step (soft_hw 4 0 0))\<^sup>*\<^sup>* s (ex_serve s)"
  by (cases s) (auto simp: ex_serve_def intro!: r_into_rtranclp service split: option.split)

lemma ex_run_reach: "(queue_step (soft_hw 4 0 0))\<^sup>*\<^sup>* (ex_descq, ex_env script) (ex_serve (ex_serve (ex_start script)))"
  by (meson ex_start_reach ex_serve_reach rtranclp_trans)

lemma ex_values:
  "owners (fst (ex_start [1, 1])) = [7, 7]" "returned (snd (ex_start [1, 1])) = []" "en_told (de_card (snd (ex_start [1, 1]))) = 2"
  "owners (fst (ex_serve (ex_start [1, 1]))) = [7]" "returned (snd (ex_serve (ex_start [1, 1]))) = []"
  "owners (fst (ex_serve (ex_serve (ex_start [1, 1])))) = []" "returned (snd (ex_serve (ex_serve (ex_start [1, 1])))) = [7]"
  by code_simp+

lemma ex_sys: "sys_ok (engine_view 4 0 0) (fst (ex_start script)) (snd (ex_start script))"
  "dq_conf (fst (ex_start script)) = ex_conf"
  using soft_card.reach_sys [OF ex_start_reach, of script] ex_started [of script] by (simp_all add: ex_descq_def)

lemma ex_serve_step: "queue_step (soft_hw 4 0 0) (ex_start script) (ex_serve (ex_start script))"
proof -
  have "\<exists>rv d e. qdma_descq_service_cmpl_update (soft_hw 4 0 0) False None (\<lambda>d e. (0, d, e)) (fst (ex_start script))
      (snd (ex_start script)) = Some (rv, d, e)"
    using soft_card.service_sys [OF ex_sys(1), of script False None "\<lambda>d e. (0, d, e)"] ex_sys(2) [of script]
    by (auto simp: ex_conf_def)
  then obtain rv d e where sv: "qdma_descq_service_cmpl_update (soft_hw 4 0 0) False None (\<lambda>d e. (0, d, e))
      (fst (ex_start script)) (snd (ex_start script)) = Some (rv, d, e)" by blast
  then show ?thesis using service [OF sv] by (simp add: ex_serve_def)
qed

end
