(* ===== verification/Qdma_Descq_Props.thy ===== *)
theory Qdma_Descq_Props
  imports Qdma_Descq_Example
begin

text \<open>
  The properties of the memory-mapped descriptor queues in use: what is handed back and when, against the index the card
  has reported (safety, refinement of the abstract queue), that calls with well-formed requests return,
  what a call programs, and that completed requests are handed back.
\<close>

section \<open>Ownership\<close>



text \<open>C6: Each call into a memory-mapped queue in use implements a sequence of events of the abstract queue, in step with the
  driver's producer index and with the index that the card has reported: descriptors are programmed for one request
  after the other, and a report of \<open>k\<close> descriptors takes the oldest \<open>k\<close> off and hands back, oldest first, exactly the
  requests programmed completely that have none left.\<close>

theorem queue_refines:
  assumes "descq_card hw v" and "started v (fst s) (snd s)" and "(queue_step hw)\<^sup>*\<^sup>* s (d, e)" and "queue_step hw (d, e) (d', e')"
  shows "\<exists>evs. abs_run (cv_size v) evs (abs_of v d e) = Some (abs_of v d' e')"
proof -
  have "sys_ok v d e" "dq_conf d = dq_conf (fst s)" using descq_card.reach_sys [OF assms(1,3,2)] by simp_all
  then show ?thesis
    using descq_card.step_sys [OF assms(1,4)] assms(2) by (simp add: started_def abs_steps_def)
qed

lemma queue_refines_witness:
  "\<exists>evs. abs_run 4 evs (abs_of (engine_view 4 0 0) (fst (ex_start [1, 1])) (snd (ex_start [1, 1]))) =
     Some (abs_of (engine_view 4 0 0) (fst (ex_serve (ex_start [1, 1]))) (snd (ex_serve (ex_start [1, 1]))))"
  using queue_refines [OF soft_card.descq_card_axioms, of 4 0 0 "(ex_descq, ex_env [1, 1])" "fst (ex_start [1, 1])"
    "snd (ex_start [1, 1])" "fst (ex_serve (ex_start [1, 1]))" "snd (ex_serve (ex_start [1, 1]))"]
    ex_started ex_start_reach ex_serve_step by (simp add: engine_view_def)

text \<open>C7: In every state that a memory-mapped queue without a client filling descriptors reaches from its start, while
  clients submit well-formed requests (entries with data, as long together as the count says, below \<open>2 ^ 31\<close> bytes) on a card
  that reports only indices it has been told: processing and serving return, and so does submitting another such request.\<close>

theorem queue_calls_return:
  assumes "descq_card hw v" and "started v (fst s) (snd s)" and "(queue_step hw)\<^sup>*\<^sup>* s (d, e)"
  shows "(\<exists>r. qdma_descq_proc_sgt_request hw busy bypass d e = Some r) \<and>
    (\<exists>r. qdma_descq_service_cmpl_update hw busy bypass recv d e = Some r) \<and>
    (client_req (dq_conf d) req \<and> dr_uld_data req \<notin> known d \<union> set (returned e) \<longrightarrow>
      (\<exists>r. qdma_request_submit hw busy bypass sub map_page req d e = Some r))"
proof -
  have ok: "sys_ok v d e" and "dq_conf d = dq_conf (fst s)" using descq_card.reach_sys [OF assms(1,3,2)] by simp_all
  then have mm: "\<not> qc_st (dq_conf d)" "\<not> qc_desc_bypass (dq_conf d)" using assms(2) by (simp_all add: started_def)
  have "\<exists>r. qdma_descq_proc_sgt_request hw busy bypass d e = Some r"
    using descq_card.proc_sgt_sys [OF assms(1) ok mm] by blast
  moreover have "\<exists>r. qdma_descq_service_cmpl_update hw busy bypass recv d e = Some r"
    using descq_card.service_sys [OF assms(1) ok mm] by blast
  moreover have "\<exists>r. qdma_request_submit hw busy bypass sub map_page req d e = Some r"
    if "client_req (dq_conf d) req" "dr_uld_data req \<notin> known d \<union> set (returned e)"
    using descq_card.request_submit_sys [OF assms(1) ok mm that] by blast
  ultimately show ?thesis by blast
qed

lemma queue_calls_return_witness:
  "\<exists>r. qdma_request_submit (soft_hw 4 0 0) False None (\<lambda>_ d e. (Waiting, d, e)) (\<lambda>_ _. (0, True)) ex_req ex_descq (ex_env [2]) = Some r"
  using queue_calls_return [OF soft_card.descq_card_axioms, of 4 0 0 "(ex_descq, ex_env [2])" ex_descq "ex_env [2]" False None
    "\<lambda>d e. (0, d, e)" ex_req "\<lambda>_ d e. (Waiting, d, e)" "\<lambda>_ _. (0, True)"] ex_started ex_client by simp

section \<open>What a call programs\<close>

text \<open>C8: Served by interrupts, a call turns the front of what is left to transfer into descriptors: the new
  slots stand for it byte by byte, no other slot changes, requests wait only when the ring is full, and
  the card is told the new producer index.\<close>

theorem mm_request_programs:
  assumes "ring_shape d" and "\<forall>req \<in> set (dq_work_list d). open_req (dq_conf d) req" and "by_interrupt e"
    and "dq_q_state d = Q_STATE_ONLINE" and "\<not> dq_q_stop_wait d" and "\<not> dq_proc_req_running d"
  shows "\<exists>rv d' e' c. descq_mm_proc_request hw None d e = Some (rv, d', e') \<and> c \<le> unat (dq_avail d) \<and>
    slot_bytes d' (unat (dq_pidx d)) c @ todo (dq_conf d) (dq_work_list d') = todo (dq_conf d) (dq_work_list d) \<and>
    (dq_work_list d' = [] \<or> c = unat (dq_avail d)) \<and>
    (\<forall>k. (\<forall>j < c. k \<noteq> (unat (dq_pidx d) + j) mod unat (qc_rngsz (dq_conf d))) \<longrightarrow> dq_mm_desc d' ! k = dq_mm_desc d ! k) \<and>
    unat (dq_pidx d') = (unat (dq_pidx d) + c) mod unat (qc_rngsz (dq_conf d)) \<and> unat (dq_avail d') = unat (dq_avail d) - c \<and>
    (if c = 0 then rv = 0 \<and> de_card e' = de_card e
     else case hw_queue_pidx_update hw 0 (ucast (qc_qidx (dq_conf d))) (of_nat (queue_type_code (qc_q_type (dq_conf d))))
         (Some ((dq_pidx_info d)\<lparr>pi_pidx := ucast (dq_pidx d')\<rparr>)) (de_card e) of
       (r, h) \<Rightarrow> de_card e' = h \<and> rv = (if r < 0 then - EINVAL_K else 0))"
proof -
  obtain d1 c where run: "mm_work_loop hw None 0 d e = Some (of_nat c, d1, e)" and c: "c \<le> unat (dq_avail d)"
    and sb: "slot_bytes d1 (unat (dq_pidx d)) c @ todo (dq_conf d) (dq_work_list d1) = todo (dq_conf d) (dq_work_list d)"
    and fin: "dq_work_list d1 = [] \<or> c = unat (dq_avail d)"
    and other: "\<forall>k. (\<forall>j < c. k \<noteq> (unat (dq_pidx d) + j) mod unat (qc_rngsz (dq_conf d))) \<longrightarrow> dq_mm_desc d1 ! k = dq_mm_desc d ! k"
    and pi: "unat (dq_pidx d1) = (unat (dq_pidx d) + c) mod unat (qc_rngsz (dq_conf d))"
    and av: "unat (dq_avail d1) = unat (dq_avail d) - c" and same: "same_queue d d1"
    using mm_work_loop_spec [OF assms(1-3), of hw 0] by auto
  obtain rv d2 e2 where su: "mm_submit hw (of_nat c) d1 e = (rv, d2, e2)" using prod_cases3 by blast
  have "c < 2 ^ 32" using c unsigned_less [of "dq_avail d", where ?'a = nat] by simp
  then have c0: "(of_nat c :: u32) = 0 \<longleftrightarrow> c = 0" by (simp add: word_unat_eq_iff unsigned_of_nat take_bit_nat_eq_self)
  have step: "descq_mm_proc_request hw None d e = Some (rv, d2, e2)"
    using assms(3-6) run su by (simp add: descq_mm_proc_request_def)
  obtain r h where up: "hw_queue_pidx_update hw 0 (ucast (qc_qidx (dq_conf d))) (of_nat (queue_type_code (qc_q_type (dq_conf d))))
      (Some ((dq_pidx_info d)\<lparr>pi_pidx := ucast (dq_pidx d1)\<rparr>)) (de_card e) = (r, h)" by fastforce
  have sq: "dq_conf d1 = dq_conf d" "dq_pidx_info d1 = dq_pidx_info d" using same by (simp_all add: same_queue_def)
  have pol: "by_interrupt (e\<lparr>de_card := h\<rparr>)" using assms(3) by (simp add: by_interrupt_def)
  have f: "dq_work_list d2 = dq_work_list d1" "dq_mm_desc d2 = dq_mm_desc d1" "dq_pidx d2 = dq_pidx d1" "dq_avail d2 = dq_avail d1"
    "dq_conf d2 = dq_conf d1"
    using su pol up sq by (auto simp: mm_submit_def queue_pidx_update_def Let_def c0 emit_def split: if_splits)
  have "if c = 0 then rv = 0 \<and> de_card e2 = de_card e else de_card e2 = h \<and> rv = (if r < 0 then - EINVAL_K else 0)"
    using su pol up sq by (auto simp: mm_submit_def queue_pidx_update_def Let_def c0 emit_def split: if_splits)
  moreover have "slot_bytes d2 p c = slot_bytes d1 p c" for p by (rule slot_bytes_same) (simp_all add: f)
  ultimately show ?thesis
    using step c sb fin other pi av up f by (intro exI [of _ rv] exI [of _ d2] exI [of _ e2] exI [of _ c]) simp
qed

lemma mm_request_programs_witness:
  "\<exists>rv d e c. descq_mm_proc_request (soft_hw 4 0 0) None (ex_descq\<lparr>dq_work_list := [ex_req]\<rparr>) (ex_env []) = Some (rv, d, e) \<and>
     slot_bytes d 0 c @ todo ex_conf (dq_work_list d) = req_bytes ex_conf ex_req \<and> c \<le> 3 \<and> unat (dq_pidx d) = c mod 4"
proof -
  have conf: "dq_conf (ex_descq\<lparr>dq_work_list := [ex_req]\<rparr>) = ex_conf" "qc_rngsz ex_conf = 4"
    by (simp_all add: ex_descq_def ex_conf_def)
  have "ring_shape (ex_descq\<lparr>dq_work_list := [ex_req]\<rparr>)"
    by (simp add: ring_shape_def ex_descq_def ex_conf_def)
  moreover have "open_req ex_conf ex_req"
    by (simp add: open_req_def wf_req_def host_bytes_def aperture_ok_def keyhole_en_def ex_req_def ex_conf_def req_offset_def
        zero_cb_def)
  moreover have "by_interrupt (ex_env [])" by (simp add: by_interrupt_def ex_env_def)
  moreover have "req_todo ex_conf ex_req = req_bytes ex_conf ex_req"
    by (simp add: req_todo_def req_offset_def ex_req_def zero_cb_def)
  ultimately show ?thesis
    using mm_request_programs [of "ex_descq\<lparr>dq_work_list := [ex_req]\<rparr>" "ex_env []" "soft_hw 4 0 0"] conf
    by (auto simp: ex_descq_def ex_conf_def)
qed

section \<open>What a completion hands back\<close>

lemma drained:
  assumes "queue_ok d" and "in_flight d = 0"
  shows "dq_pend_list d = []" and "owners d = []"
proof -
  have ok: "acct_ok d" using assms(1) by (simp add: queue_ok_def)
  show "owners d = []" using length_owners [OF ok] assms(2) by simp
  have len: "length (owed (dq_pend_list d @ dq_work_list d)) = unat (dq_credit d)" using ok assms(2) unfolding acct_ok_def by simp
  show "dq_pend_list d = []"
  proof (rule ccontr)
    assume "dq_pend_list d \<noteq> []"
    then obtain req reqs where p: "dq_pend_list d = req # reqs" by (cases "dq_pend_list d") auto
    then have "unat (dq_credit d) < unat (cb_desc_nr (dr_cb req))" using ok by (simp add: acct_ok_def word_less_nat_alt)
    then show False using len p by simp
  qed
qed

text \<open>C9: When the card has completed everything programmed, one look at its status hands back all requests
  that are programmed completely, oldest first, and frees the whole ring.\<close>

theorem completion_returns_all:
  assumes ok: "queue_ok d" and rd: "hw_cmpl_cidx hw (de_card e) = (s, h)" and all: "unat s = unat (dq_pidx d)"
    and run: "descq_mm_n_h2c_cmpl_status hw d e = (d', e')"
  shows "dq_pend_list d' = [] \<and> returned e' = returned e @ map dr_uld_data (dq_pend_list d) \<and> owners d' = [] \<and>
    unat (dq_avail d') = ring_size d - 1"
proof -
  have r: "unat (dq_cidx d) < ring_size d" "unat (dq_pidx d) < ring_size d" "ring_size d \<le> 2 ^ 16"
    using ok by (simp_all add: queue_ok_def ring_ok_def)
  have st: "unat s < ring_size d \<and> ring_dist (ring_size d) (unat (dq_cidx d)) (unat s) \<le> in_flight d"
    using r by (simp add: all in_flight_def)
  obtain fin cr where q: "queue_ok d'" "owners d' = drop cr (owners d)" "cr \<le> in_flight d"
    "map dr_uld_data (dq_pend_list d) = fin @ map dr_uld_data (dq_pend_list d')" "returned e' = returned e @ fin"
    "dq_work_list d' = dq_work_list d" "dq_conf d' = dq_conf d" "dq_pidx d' = dq_pidx d" "dq_mm_desc d' = dq_mm_desc d"
    "dq_q_state d' = dq_q_state d" "dq_q_stop_wait d' = dq_q_stop_wait d" "dq_pidx_info d' = dq_pidx_info d"
    "dq_proc_req_running d' = dq_proc_req_running d" "de_drv_mode e' = de_drv_mode e" "clean_events e \<longrightarrow> clean_events e'"
    "dq_cmplthp d' = dq_cmplthp d" and cases: "(dq_pidx d = dq_cidx d \<and> cr = 0 \<and> d' = d \<and> e' = e) \<or>
     (dq_pidx d \<noteq> dq_cidx d \<and> s = ucast (dq_cidx d) \<and> cr = 0 \<and> d' = d \<and> e' = e\<lparr>de_card := h\<rparr>) \<or>
     (dq_pidx d \<noteq> dq_cidx d \<and> unat (dq_cidx d') = unat s \<and> cr = ring_dist (ring_size d) (unat (dq_cidx d)) (unat s) \<and>
      de_card e' = snd (hw_queue_pidx_update hw 0 (ucast (qc_qidx (dq_conf d))) (of_nat (queue_type_code (qc_q_type (dq_conf d))))
        (Some (dq_pidx_info d)) h))"
    by (rule cmpl_status_spec [OF ok rd st run])
  have "s = ucast (dq_cidx d) \<Longrightarrow> dq_pidx d = dq_cidx d"
  proof -
    assume "s = ucast (dq_cidx d)"
    then have "unat s = unat (dq_cidx d)" using r by (simp add: unsigned_ucast_eq take_bit_nat_eq_self)
    then show "dq_pidx d = dq_cidx d" using all by (simp add: word_unat_eq_iff)
  qed
  then have "dq_pidx d' = dq_cidx d'" using cases q(8) all by (auto simp: word_unat_eq_iff)
  then have fl: "in_flight d' = 0" by (simp add: in_flight_def)
  note dr = drained [OF q(1) fl]
  have "ring_size d' = ring_size d" using q(7) by (simp add: ring_size_def)
  moreover have "unat (dq_avail d') + in_flight d' = ring_size d' - 1" using q(1) by (simp add: queue_ok_def ring_ok_def)
  ultimately show ?thesis using dr q(4,5) fl by simp
qed

lemma completion_returns_all_witness:
  "returned (snd (descq_mm_n_h2c_cmpl_status (soft_hw 4 0 0) (fst (ex_start [2])) (snd (ex_start [2])))) = [7]"
proof -
  define d where "d = fst (ex_start [2])"
  define e where "e = snd (ex_start [2])"
  have ok: "queue_ok d" using ex_sys(1) [of "[2]"] by (simp add: sys_ok_def d_def)
  have v: "fst (hw_cmpl_cidx (soft_hw 4 0 0) (de_card e)) = 2 \<and> dq_pidx d = 2 \<and> map dr_uld_data (dq_pend_list d) = [7] \<and> returned e = []"
    unfolding d_def e_def by code_simp
  obtain h where rd: "hw_cmpl_cidx (soft_hw 4 0 0) (de_card e) = (2, h)" using v by (metis prod.collapse)
  have "unat (2 :: u16) = unat (dq_pidx d)" using v by simp
  from completion_returns_all [OF ok rd this prod.collapse [symmetric]]
  show ?thesis using v by (simp add: d_def e_def)
qed

end
