(* ===== verification/Qdma_Descq_Faults.thy ===== *)
theory Qdma_Descq_Faults
  imports Qdma_Descq_Example
begin

text \<open>
  Where the queues fail: a request whose entries are shorter than it says, and a producer index that
  cannot be written.  Time-outs and mapping errors are in \<open>Qdma_Submit_Faults\<close>.
\<close>

section \<open>A list shorter than the request\<close>

text \<open>Everything the entries hold has been programmed, and the request says there is more.\<close>

definition exhausted :: "descq_req \<Rightarrow> bool" where
  "exhausted req \<longleftrightarrow> (\<forall>sg \<in> set (dr_sgl req). ds_len sg \<noteq> 0) \<and> length (host_bytes (dr_sgl req)) = req_offset req \<and>
     req_offset req < unat (dr_count req)"

lemma host_bytes_Cons [simp]: "length (host_bytes (sg # sgs)) = unat (ds_len sg) + length (host_bytes sgs)"
  by (simp add: host_bytes_def)

lemma host_bytes_none: "\<forall>sg \<in> set sgs. ds_len sg \<noteq> 0 \<Longrightarrow> length (host_bytes sgs) = 0 \<longleftrightarrow> sgs = []"
  by (cases sgs) (auto simp: host_bytes_def unat_eq_zero)

lemma sgl_find_exhausted:
  assumes "\<forall>sg \<in> set sgs. ds_len sg \<noteq> 0" and "unat len + length (host_bytes sgs) = unat off"
  shows "sgl_find off len i sgs = (if sgs = [] then None else Some (i + length sgs, 0))"
  using assms
proof (induction sgs arbitrary: len i)
  case (Cons sg sgs)
  have "unat off < 2 ^ 32" using unsigned_less [of off, where ?'a = nat] by simp
  then have sum: "unat (len + ds_len sg) = unat len + unat (ds_len sg)" using Cons.prems(2) by (simp add: unat_word_ariths)
  have all: "\<forall>sg \<in> set sgs. ds_len sg \<noteq> 0" using Cons.prems(1) by simp
  show ?case
  proof (cases "sgs = []")
    case True
    then have "len + ds_len sg = off" using Cons.prems(2) sum by (simp add: word_unat_eq_iff host_bytes_def)
    then show ?thesis using True by simp
  next
    case False
    then have "0 < length (host_bytes sgs)" using host_bytes_none [OF all] by simp
    then have "unat (len + ds_len sg) < unat off" using Cons.prems(2) sum by (simp del: length_greater_0_conv)
    then have "len + ds_len sg \<noteq> off" "\<not> len + ds_len sg > off" by (auto simp: word_less_nat_alt)
    then show ?thesis using Cons.IH [OF all, of "len + ds_len sg" "i + 1"] Cons.prems(2) sum False by simp
  qed
qed (simp add: host_bytes_def)

lemma find_offset_exhausted: "exhausted req \<Longrightarrow> qdma_sgl_find_offset req = None"
  using sgl_find_exhausted [of "dr_sgl req" 0 "cb_offset (dr_cb req)" 0]
  by (auto simp: exhausted_def qdma_sgl_find_offset_def req_offset_def)

lemma work_loop_exhausted:
  assumes "mm_work_loop hw bypass w d e = Some r" and "bypass = None" and "dq_avail d \<noteq> 0"
    and "dq_work_list d = req # reqs" and "exhausted req"
  shows False
  using assms
proof (induction arbitrary: req reqs rule: mm_work_loop.raw_induct [rotated, consumes 1])
  case (1 loop hw bypass w d e r)
  have off: "\<not> cb_offset (dr_cb req) \<ge> dr_count req"
    using 1(6) by (simp add: exhausted_def req_offset_def word_le_nat_alt)
  define req' where "req' = advance_req 0 0 0 None req"
  have "qdma_update_request 0 0 0 None d = d\<lparr>dq_work_list := req' # reqs\<rparr>"
    using 1(5) off by (simp add: qdma_update_request_def req'_def)
  then have "loop hw None w (d\<lparr>dq_work_list := req' # reqs\<rparr>) e = Some r"
    using 1(2-5) find_offset_exhausted [OF 1(6)] by simp
  moreover have "exhausted req'" using 1(6) by (simp add: req'_def exhausted_def req_offset_def)
  ultimately show False using 1(1) [of hw None w "d\<lparr>dq_work_list := req' # reqs\<rparr>" e r req' reqs] 1(4) by simp
qed

text \<open>C33: A request that says it is longer than its entries are makes the request function loop for ever, with
  the lock of the queue held, once the entries have been programmed.\<close>

theorem short_list_never_returns:
  assumes "dq_work_list d = req # reqs" and "exhausted req" and "dq_avail d \<noteq> 0" and "by_interrupt e"
    and "dq_q_state d = Q_STATE_ONLINE" and "\<not> dq_q_stop_wait d" and "\<not> dq_proc_req_running d"
  shows "descq_mm_proc_request hw None d e = None"
proof -
  have "mm_work_loop hw None 0 d e = None"
    using work_loop_exhausted [of hw None 0 d e _ req reqs] assms(1-3) by (cases "mm_work_loop hw None 0 d e") auto
  then show ?thesis using assms by (simp add: descq_mm_proc_request_def)
qed

lemma short_list_never_returns_witness:
  "descq_mm_proc_request (soft_hw 4 0 0) None
     (ex_descq\<lparr>dq_work_list := [ex_req\<lparr>dr_count := 16, dr_cb := zero_cb\<lparr>cb_offset := 12\<rparr>\<rparr>]\<rparr>) (ex_env []) = None"
proof -
  have "exhausted (ex_req\<lparr>dr_count := 16, dr_cb := zero_cb\<lparr>cb_offset := 12\<rparr>\<rparr>)"
    by (simp add: exhausted_def ex_req_def req_offset_def host_bytes_def)
  then show ?thesis
    by (intro short_list_never_returns [where reqs = "[]"]) (simp_all add: ex_descq_def ex_env_def by_interrupt_def)
qed

section \<open>A producer index that cannot be written\<close>

definition same_mode :: "qdma_descq \<Rightarrow> 'h descq_env \<Rightarrow> qdma_descq \<Rightarrow> 'h descq_env \<Rightarrow> bool" where
  "same_mode d e d' e' \<longleftrightarrow> dq_proc_req_running d' = dq_proc_req_running d \<and> dq_q_state d' = dq_q_state d \<and>
     dq_q_stop_wait d' = dq_q_stop_wait d \<and> dq_conf d' = dq_conf d \<and> de_drv_mode e' = de_drv_mode e"

lemma complete_reqs_mode: "complete_reqs reqs cr d e = (cr', d', e') \<Longrightarrow> same_mode d e d' e'"
proof (induction reqs arbitrary: cr d e)
  case (Cons req reqs)
  obtain d1 e1 where dn: "qdma_sgt_req_done req 0 (d\<lparr>dq_pend_list := reqs\<rparr>) e = (d1, e1)" by fastforce
  have "same_mode d e d1 e1" using req_done_effect [OF dn] by (simp add: same_mode_def same_ring_def)
  then show ?case
    using Cons.prems Cons.IH [of "cr - cb_desc_nr (dr_cb req)" d1 e1] dn
    by (auto simp: Let_def same_mode_def split: if_splits)
qed (auto simp: same_mode_def)

lemma cmpl_status_mode:
  assumes "descq_mm_n_h2c_cmpl_status hw d e = (d', e')"
  shows "same_mode d e d' e'"
proof (cases "dq_pidx d = dq_cidx d")
  case True
  then show ?thesis using assms by (simp add: descq_mm_n_h2c_cmpl_status_def same_mode_def)
next
  case False
  obtain s h where rd: "hw_cmpl_cidx hw (de_card e) = (s, h)" by fastforce
  show ?thesis
  proof (cases "ucast s = dq_cidx d")
    case True
    then show ?thesis using assms False rd by (auto simp: descq_mm_n_h2c_cmpl_status_def same_mode_def)
  next
    case ne: False
    define cr where "cr = (if ucast s < dq_cidx d then (qc_rngsz (dq_conf d) - dq_cidx d) + ucast s else ucast s - dq_cidx d)"
    define d1 where "d1 = d\<lparr>dq_cidx := ucast s, dq_avail := dq_avail d + cr, dq_credit := dq_credit d + cr\<rparr>"
    obtain d2 e2 where ic: "incr_cmpl_desc_cnt cr d1 (e\<lparr>de_card := h\<rparr>) = (d2, e2)" by fastforce
    obtain cr' d3 e3 where cp: "complete_reqs (dq_pend_list d2) (dq_credit d2) d2 e2 = (cr', d3, e3)" using prod_cases3 by blast
    obtain rv d4 e4 where pu: "qdma_pidx_update hw True (d3\<lparr>dq_credit := cr'\<rparr>) e3 = (rv, d4, e4)" using prod_cases3 by blast
    have "d' = d4" "e' = e4"
      using assms False ne rd ic cp pu by (simp_all add: descq_mm_n_h2c_cmpl_status_def cr_def d1_def Let_def)
    moreover have "same_mode d e d2 e2"
      using incr_cmpl_projections [where d = d1 and cr = cr and e = "e\<lparr>de_card := h\<rparr>"] unfolding ic fst_conv snd_conv
      by (simp add: same_mode_def same_ring_def d1_def)
    ultimately show ?thesis
      using complete_reqs_mode [OF cp] pidx_update_frame [OF pu] by (simp add: same_mode_def same_ring_def)
  qed
qed

text \<open>A polled queue: \<open>proc_req_running\<close> is set with the first look at the status and stays.\<close>

lemma poll_status_mode:
  assumes "descq_poll_mm_n_h2c_cmpl_status hw d e = (d', e')" and "\<not> by_interrupt e"
  shows "same_mode (d\<lparr>dq_proc_req_running := True\<rparr>) e d' e'"
proof -
  have "descq_mm_n_h2c_cmpl_status hw (d\<lparr>dq_proc_req_running := True\<rparr>) e = (d', e')"
    using assms by (auto simp: descq_poll_mm_n_h2c_cmpl_status_def by_interrupt_def)
  then show ?thesis by (rule cmpl_status_mode)
qed

lemma work_loop_mode:
  assumes "mm_work_loop hw bypass w d e = Some r" and "bypass = None" and "\<not> by_interrupt e" and "dq_proc_req_running d"
  shows "same_mode d e (fst (snd r)) (snd (snd r))"
  using assms
proof (induction rule: mm_work_loop.raw_induct [rotated, consumes 1])
  case (1 loop hw bypass w d e r)
  show ?case
  proof (cases "dq_work_list d")
    case Nil
    then show ?thesis using 1(2) by (auto simp: same_mode_def)
  next
    case (Cons req reqs)
    obtain d1 e1 where p: "(if dq_avail d = 0 then descq_poll_mm_n_h2c_cmpl_status hw d e else (d, e)) = (d1, e1)" by fastforce
    have m: "same_mode d e d1 e1"
      using p poll_status_mode [of hw d e d1 e1] 1(4,5) by (auto simp: same_mode_def split: if_splits)
    then have run: "dq_proc_req_running d1" "\<not> by_interrupt e1" using 1(4,5) by (simp_all add: same_mode_def by_interrupt_def)
    show ?thesis
    proof (cases "dq_avail d1 = 0")
      case True
      then show ?thesis using 1(2,3) Cons p m by auto
    next
      case room: False
      show ?thesis
      proof (cases "qdma_sgl_find_offset req")
        case None
        then have "loop hw None w (qdma_update_request 0 0 0 None d1) e1 = Some r"
          using 1(2,3) Cons p room by simp
        from 1(1) [OF this] show ?thesis using run m by (simp add: same_mode_def)
      next
        case (Some pos)
        obtain i f where fill: "mm_fill d1 req (dq_avail d1) (fst pos) (snd pos) = (i, f)" by fastforce
        show ?thesis
        proof (cases "fl_last f")
          case None
          then show ?thesis using 1(2,3) Cons p room Some fill m by (auto simp: split_beta)
        next
          case last: (Some desc_end)
          then have "loop hw None (w + fl_cnt f) (mm_issue d1 req i desc_end f) e1 = Some r"
            using 1(2,3) Cons p room Some fill by (simp add: split_beta)
          from 1(1) [OF this] show ?thesis using run m by (simp add: same_mode_def)
        qed
      qed
    qed
  qed
qed

text \<open>When writing the producer index fails on a polled queue, the queue is dead: every later call, for old and
  new requests, returns without doing anything.\<close>

theorem failed_update_stops_queue:
  assumes "descq_mm_proc_request hw None d e = Some (rv, d', e')" and "rv < 0" and "\<not> by_interrupt e"
    and "\<not> qc_st (dq_conf d)" and "\<not> qc_desc_bypass (dq_conf d)"
  shows "qdma_descq_service_cmpl_update hw busy bypass recv d' e' = Some (0, d', e') \<and>
    qdma_descq_proc_sgt_request hw busy bypass (qdma_work_queue_add req d') e' = Some (0, qdma_work_queue_add req d', e')"
proof -
  have go: "\<not> dq_q_stop_wait d" "dq_q_state d = Q_STATE_ONLINE" "\<not> dq_proc_req_running d"
    using assms(1,2) by (auto simp: descq_mm_proc_request_def split: if_splits prod.splits)
  obtain d1 e1 where po: "descq_poll_mm_n_h2c_cmpl_status hw d e = (d1, e1)" by fastforce
  have m1: "same_mode (d\<lparr>dq_proc_req_running := True\<rparr>) e d1 e1" by (rule poll_status_mode [OF po assms(3)])
  obtain w d2 e2 where wl: "mm_work_loop hw None 0 d1 e1 = Some (w, d2, e2)" and su: "mm_submit hw w d2 e2 = (rv, d', e')"
    using assms(1) go po by (auto simp: descq_mm_proc_request_def split: option.splits)
  have m2: "same_mode d1 e1 d2 e2"
    using work_loop_mode [OF wl] m1 assms(3) by (simp add: same_mode_def by_interrupt_def)
  have m3: "same_mode d2 e2 d' e'"
    using su assms(2) by (auto simp: mm_submit_def queue_pidx_update_def same_mode_def Let_def split: if_splits prod.splits)
  have f: "dq_proc_req_running d'" "dq_q_state d' = Q_STATE_ONLINE" "\<not> dq_q_stop_wait d'" "dq_conf d' = dq_conf d"
    "\<not> by_interrupt e'"
    using m1 m2 m3 go assms(3) by (simp_all add: same_mode_def by_interrupt_def)
  have "dq_proc_req_running (qdma_work_queue_add req d')" using f(1) by (simp add: qdma_work_queue_add_def)
  then show ?thesis
    using f assms(4,5) by (auto simp: qdma_descq_service_cmpl_update_def st_c2h_def by_interrupt_def
      qdma_descq_proc_sgt_request_def descq_mm_proc_request_def)
qed

lemma failed_update_stops_queue_witness:
  "let hw = (soft_hw 4 0 0)\<lparr>hw_queue_pidx_update := \<lambda>_ _ _ _ h. (- 1, h)\<rparr> in
     \<exists>d e. descq_mm_proc_request hw None (ex_descq\<lparr>dq_work_list := [ex_req]\<rparr>) (ex_env []\<lparr>de_drv_mode := POLL_MODE\<rparr>) = Some (- 22, d, e) \<and>
       qdma_descq_service_cmpl_update hw False None (\<lambda>d e. (0, d, e)) d e = Some (0, d, e)"
proof -
  define hw where "hw = (soft_hw 4 0 0)\<lparr>hw_queue_pidx_update := \<lambda>_ _ _ _ h. (- 1, h)\<rparr>"
  have "map_option fst (descq_mm_proc_request hw None (ex_descq\<lparr>dq_work_list := [ex_req]\<rparr>) (ex_env []\<lparr>de_drv_mode := POLL_MODE\<rparr>)) = Some (- 22)"
    unfolding hw_def by code_simp
  then obtain d e where run: "descq_mm_proc_request hw None (ex_descq\<lparr>dq_work_list := [ex_req]\<rparr>) (ex_env []\<lparr>de_drv_mode := POLL_MODE\<rparr>) =
      Some (- 22, d, e)" by auto
  have "qdma_descq_service_cmpl_update hw False None (\<lambda>d e. (0, d, e)) d e = Some (0, d, e)"
    using failed_update_stops_queue [OF run, of False None "\<lambda>d e. (0, d, e)" ex_req]
    by (simp add: by_interrupt_def ex_descq_def ex_conf_def)
  then show ?thesis using run by (simp add: hw_def)
qed

end
