(* ===== verification/Qdma_Submit_Faults.thy ===== *)
theory Qdma_Submit_Faults
  imports Qdma_Descq_Example
begin

text \<open>
  What clients of a queue meet when something goes wrong outside it: a blocking request that times out,
  pages that cannot be mapped, one at a time or in a batch.
\<close>

section \<open>A request that times out\<close>

text \<open>C34: A blocking request whose descriptors are with the card times out and is taken off its list.  When the
  card then completes its descriptors, they are counted to the next request, which is handed back with
  success although all its own descriptors are still with the card.\<close>

theorem timeout_completes_next_request:
  assumes ok: "queue_ok d" and pend: "dq_pend_list d = r1 # r2 # rs" and credit: "dq_credit d = 0" and out: "\<not> cb_done (dr_cb r1)"
    and small: "cb_desc_nr (dr_cb r2) \<le> cb_desc_nr (dr_cb r1)"
    and sub: "submit_end r1 d e = (rv, d1, e1)"
    and rd: "hw_cmpl_cidx hw (de_card e1) = (s, h)"
    and ring: "unat s < ring_size d" "ring_dist (ring_size d) (unat (dq_cidx d)) (unat s) = unat (cb_desc_nr (dr_cb r1))"
    and run: "descq_mm_n_h2c_cmpl_status hw d1 e1 = (d2, e2)"
  shows "rv = - EIO_K \<and> dr_uld_data r2 \<in> set (returned e2) \<and>
    dr_uld_data r2 \<in> set (drop (unat (cb_desc_nr (dr_cb r1))) (owners d))"
proof -
  have rok: "ring_ok d" and aok: "acct_ok d" using ok by (simp_all add: queue_ok_def)
  have p1: "pend_req r1" and p2: "pend_req r2" using aok pend by (simp_all add: acct_ok_def)
  have dist: "distinct (map dr_uld_data (dq_pend_list d @ dq_work_list d))" using aok unfolding acct_ok_def by blast
  have rv: "rv = - EIO_K" and d1: "d1 = list_del_req (dr_uld_data r1) d" and e1: "e1 = unmap_request r1 e"
    using sub out by (auto simp: submit_end_def qdma_request_wait_for_cmpl_def EIO_K_def)
  have "filter (\<lambda>r. dr_uld_data r \<noteq> dr_uld_data r1) (r2 # rs) = r2 # rs"
    using dist pend by (intro filter_True) (auto simp: image_iff)
  then have f: "dq_pend_list d1 = r2 # rs" "dq_cidx d1 = dq_cidx d" "dq_pidx d1 = dq_pidx d" "dq_conf d1 = dq_conf d" "dq_credit d1 = 0"
    by (simp_all add: d1 list_del_req_def pend credit)
  have n: "unat (dq_cidx d) < ring_size d" "ring_size d \<le> 2 ^ 16" using rok by (simp_all add: ring_ok_def)
  have pos: "0 < unat (cb_desc_nr (dr_cb r1))" using p1 by (simp add: pend_req_def unat_gt_0)
  have own: "owners d = own r1 @ own r2 @ owed (rs @ dq_work_list d)" by (simp add: owners_def pend credit)
  have tot: "length (owners d) = in_flight d" by (rule length_owners [OF aok])
  have busy: "dq_pidx d1 \<noteq> dq_cidx d1" using tot own pos f by (auto simp: in_flight_def)
  have us: "unat (ucast s :: u32) = unat s" by (simp add: unat_ucast_up_u16)
  have moved: "ucast s \<noteq> dq_cidx d1" using ring(2) pos f by (auto simp flip: us)
  define cr where "cr = (if ucast s < dq_cidx d1 then (qc_rngsz (dq_conf d1) - dq_cidx d1) + ucast s else ucast s - dq_cidx d1)"
  have "unat cr = ring_dist (ring_size d) (unat (dq_cidx d)) (unat s)"
    unfolding cr_def f us [symmetric] ring_size_def
    by (rule cmpl_credit) (use n ring us in \<open>simp_all add: word_less_nat_alt ring_size_def\<close>)
  then have cr: "cr = cb_desc_nr (dr_cb r1)" using ring(2) by (simp add: word_unat_eq_iff)
  define d3 where "d3 = d1\<lparr>dq_cidx := ucast s, dq_avail := dq_avail d1 + cr, dq_credit := dq_credit d1 + cr\<rparr>"
  obtain d4 e4 where ic: "incr_cmpl_desc_cnt cr d3 (e1\<lparr>de_card := h\<rparr>) = (d4, e4)" by fastforce
  have d4: "dq_pend_list d4 = r2 # rs" "dq_credit d4 = cr"
    using incr_cmpl_projections [where d = d3 and cr = cr and e = "e1\<lparr>de_card := h\<rparr>"] unfolding ic fst_conv snd_conv
    by (simp_all add: same_ring_def d3_def f)
  obtain cr' d5 e5 where cp: "complete_reqs (dq_pend_list d4) (dq_credit d4) d4 e4 = (cr', d5, e5)" using prod_cases3 by blast
  obtain rv' d6 e6 where pu: "qdma_pidx_update hw True (d5\<lparr>dq_credit := cr'\<rparr>) e5 = (rv', d6, e6)" using prod_cases3 by blast
  have e2: "e2 = e6"
    using run busy moved rd ic cp pu by (simp add: descq_mm_n_h2c_cmpl_status_def cr_def d3_def Let_def)
  obtain d7 e7 where dn: "qdma_sgt_req_done r2 0 (d4\<lparr>dq_pend_list := rs\<rparr>) e4 = (d7, e7)" by fastforce
  have "(cr', d5, e5) = (cr - cb_desc_nr (dr_cb r2), d7, e7) \<or> complete_reqs rs (cr - cb_desc_nr (dr_cb r2)) d7 e7 = (cr', d5, e5)"
    using cp small dn unfolding d4 cr by (auto simp: Let_def split: if_splits)
  moreover have "\<And>req. req \<in> set rs \<Longrightarrow> pend_req req" using aok pend by (simp add: acct_ok_def)
  ultimately have "\<exists>xs. returned e5 = returned e7 @ xs" using complete_reqs_spec by blast
  then have "dr_uld_data r2 \<in> set (returned e5)" using req_done_effect(3) [OF dn] by auto
  moreover have "returned e6 = returned e5" using pidx_update_frame(4) [OF pu] by (simp add: returned_def)
  moreover have "dr_uld_data r2 \<in> set (drop (unat (cb_desc_nr (dr_cb r1))) (owners d))"
    using p2 unfolding own by (simp add: set_own pend_req_def)
  ultimately show ?thesis using rv e2 by simp
qed

lemma timeout_completes_next_request_witness:
  "let r = (\<lambda>n. ex_req\<lparr>dr_uld_data := n, dr_fp_done := False, dr_cb := zero_cb\<lparr>cb_desc_nr := 1, cb_offset := 12\<rparr>\<rparr>);
       d = ex_descq\<lparr>dq_pend_list := [r 7, r 8], dq_pidx := 2, dq_avail := 1\<rparr>;
       e = ex_env []\<lparr>de_card := \<lparr>en_cons = 0, en_told = 2, en_script = [1]\<rparr>\<rparr>;
       (rv, d1, e1) = submit_end (r 7) d e
   in 8 \<in> set (returned (snd (descq_mm_n_h2c_cmpl_status (soft_hw 4 0 0) d1 e1))) \<and> 8 \<in> set (drop 1 (owners d))"
proof -
  define r where "r n = ex_req\<lparr>dr_uld_data := n, dr_fp_done := False, dr_cb := zero_cb\<lparr>cb_desc_nr := 1, cb_offset := 12\<rparr>\<rparr>" for n
  define d where "d = ex_descq\<lparr>dq_pend_list := [r 7, r 8], dq_pidx := 2, dq_avail := 1\<rparr>"
  define e where "e = ex_env []\<lparr>de_card := \<lparr>en_cons = 0, en_told = 2, en_script = [1]\<rparr>\<rparr>"
  have cb: "cb_desc_nr (dr_cb (r n)) = 1" "cb_offset (dr_cb (r n)) = 12" "dr_count (r n) = 12" "dr_uld_data (r n) = n"
    "\<not> cb_done (dr_cb (r n))" "dr_dma_mapped (r n)" for n
    by (simp_all add: r_def ex_req_def zero_cb_def)
  have size: "ring_size d = 4" and fl: "in_flight d = 2"
    by (simp_all add: d_def ring_size_def in_flight_def ring_dist_def ex_descq_def ex_conf_def)
  have "ring_ok d" by (simp add: ring_ok_def size fl) (simp add: d_def ex_descq_def)
  moreover have "acct_ok d"
    by (simp add: acct_ok_def fl) (simp add: d_def ex_descq_def pend_req_def own_def cb)
  ultimately have ok: "queue_ok d" by (simp add: queue_ok_def)
  obtain rv d1 e1 where sub: "submit_end (r 7) d e = (rv, d1, e1)" using prod_cases3 by blast
  have "e1 = e" using sub cb by (auto simp: submit_end_def qdma_request_wait_for_cmpl_def unmap_request_def EIO_K_def)
  then obtain h where rd: "hw_cmpl_cidx (soft_hw 4 0 0) (de_card e1) = (1, h)"
    by (simp add: soft_hw_def Let_def engine_report_def e_def ring_dist_def)
  have "8 \<in> set (returned (snd (descq_mm_n_h2c_cmpl_status (soft_hw 4 0 0) d1 e1))) \<and> 8 \<in> set (drop 1 (owners d))"
    using timeout_completes_next_request [OF ok _ _ _ _ sub rd _ _ prod.collapse [symmetric], of "r 8" "[]"] cb size
    by (simp add: d_def ex_descq_def ring_dist_def)
  then show ?thesis by (simp only: Let_def r_def [symmetric] d_def [symmetric] e_def [symmetric] sub prod.case)
qed

section \<open>Pages that cannot be mapped\<close>

lemma sgl_map_fails:
  assumes "map_page 0 (ds_pg sg) = (bad, True)"
  shows "sgl_map map_page (sg # sgs) e = (- EIO_K, sg\<lparr>ds_dma_addr := bad\<rparr> # sgs, e)"
  using assms by (simp add: sgl_map_def)

text \<open>In a batch a request whose pages cannot be mapped is handed back with an error and put on the work list
  all the same, with the error value of the mapping as its address: here the ring is full, so it waits
  there for descriptors.\<close>

theorem batch_keeps_failed_request:
  assumes "qc_q_type (dq_conf d) = Q_H2C" and "\<not> qc_st (dq_conf d)" and "dr_write req" and "dr_fp_done req"
    and "\<not> dr_dma_mapped req" and "dr_sgl req = sg # sgs" and "map_page 0 0 (ds_pg sg) = (bad, True)"
    and "dq_q_state d = Q_STATE_ONLINE" and "\<not> dq_q_stop_wait d" and "\<not> dq_proc_req_running d" and "dq_avail d = 0"
    and "by_interrupt e"
  shows "\<exists>d' e' req'. qdma_batch_request_submit hw busy None batch_recv map_page req [] d e = Some (0, d', e') \<and>
    (\<exists>r. Fp_done r 0 (- EIO_K) \<in> set (de_events e') \<and> dr_uld_data r = dr_uld_data req) \<and>
    dq_work_list d' = dq_work_list d @ [req'] \<and> dr_uld_data req' = dr_uld_data req \<and> ds_dma_addr (hd (dr_sgl req')) = bad \<and>
    dq_work_req_pend d' = dq_work_req_pend d"
proof -
  define r where "r = req\<lparr>dr_cb := zero_cb, dr_sgl := sg\<lparr>ds_dma_addr := bad\<rparr> # sgs\<rparr>"
  define r' where "r' = r\<lparr>dr_cb := (dr_cb r)\<lparr>cb_unmap_needed := True\<rparr>\<rparr>"
  define e1 where "e1 = emit (Fp_done r 0 (- EIO_K)) e"
  define d1 where "d1 = d\<lparr>dq_work_list := dq_work_list d @ [r']\<rparr>"
  have map: "map_batch map_page 0 [req] e = ([r'], e1)"
    using assms(5-7) by (simp add: sgl_map_fails r_def r'_def e1_def EIO_K_def Let_def)
  have "by_interrupt e1" using assms(12) by (simp add: by_interrupt_def e1_def emit_def)
  then have "qdma_descq_proc_sgt_request hw busy None d1 e1 = Some (0, d1\<lparr>dq_proc_req_running := False\<rparr>, e1)"
    using assms by (simp add: qdma_descq_proc_sgt_request_def descq_mm_proc_request_def d1_def mm_work_loop_full mm_submit_def)
  then have "qdma_batch_request_submit hw busy None batch_recv map_page req [] d e = Some (0, d1\<lparr>dq_proc_req_running := False\<rparr>, e1)"
    using assms map by (simp add: qdma_batch_request_submit_def bad_direction_def st_c2h_def d1_def)
  then show ?thesis
    by (intro exI [of _ "d1\<lparr>dq_proc_req_running := False\<rparr>"] exI [of _ e1] exI [of _ r'])
      (auto simp: d1_def e1_def emit_def r'_def r_def)
qed

lemma batch_keeps_failed_request_witness:
  "\<exists>d e req. qdma_batch_request_submit (soft_hw 4 0 0) False None (\<lambda>_ d e. (d, e)) (\<lambda>_ _ _. (- 1, True))
       (ex_req\<lparr>dr_dma_mapped := False\<rparr>) [] (ex_descq\<lparr>dq_avail := 0\<rparr>) (ex_env []) = Some (0, d, e) \<and>
     dq_work_list d = [req] \<and> dr_uld_data req = 7 \<and> ds_dma_addr (hd (dr_sgl req)) = - 1"
  using batch_keeps_failed_request [of "ex_descq\<lparr>dq_avail := 0\<rparr>" "ex_req\<lparr>dr_dma_mapped := False\<rparr>"
    "hd (dr_sgl ex_req)" "tl (dr_sgl ex_req)" "\<lambda>_ _ _. (- 1, True)" "- 1" "ex_env []" "soft_hw 4 0 0" False "\<lambda>_ d e. (d, e)"]
  by (auto simp: ex_descq_def ex_conf_def ex_req_def ex_env_def by_interrupt_def)

text \<open>When a page of a request cannot be mapped, the error value is unmapped as if it were an address.\<close>

theorem failed_map_unmaps_error_value:
  assumes "\<not> dr_dma_mapped req" and "dr_sgl req = sg # sgs" and "map_page 0 (ds_pg sg) = (bad, True)" and "bad \<noteq> 0" and "ds_pg sg \<noteq> 0"
    and "dq_q_state d \<noteq> Q_STATE_DISABLED" and "qc_q_type (dq_conf d) = Q_H2C" and "dr_write req"
  shows "\<exists>as e'. qdma_request_submit hw busy bypass recv map_page req d e = Some (Returned (- EIO_K), d, e') \<and>
    de_events e' = de_events e @ [Unmap ((bad - ucast (ds_offset sg)) # as)]"
  using assms
  by (simp add: qdma_request_submit_def bad_direction_def st_c2h_def map_request_def sgl_map_fails unmap_request_def EIO_K_def
      emit_def split_beta)

lemma failed_map_unmaps_error_value_witness:
  "\<exists>as e. qdma_request_submit (soft_hw 4 0 0) False None (\<lambda>_ d e. (Waiting, d, e)) (\<lambda>_ _. (- 1, True)) (ex_req\<lparr>dr_dma_mapped := False\<rparr>)
       ex_descq (ex_env []) = Some (Returned (- 5), ex_descq, e) \<and> de_events e = [Unmap (- 1 # as)]"
  using failed_map_unmaps_error_value [of "ex_req\<lparr>dr_dma_mapped := False\<rparr>" "hd (dr_sgl ex_req)" "tl (dr_sgl ex_req)"
    "\<lambda>_ _. (- 1, True)" "- 1" ex_descq "soft_hw 4 0 0" False None "\<lambda>_ d e. (Waiting, d, e)" "ex_env []"]
  by (simp add: ex_descq_def ex_conf_def ex_req_def ex_env_def EIO_K_def)

end
