(* ===== verification/Qdma_Csr_Read.thy ===== *)
theory Qdma_Csr_Read
  imports Csr_Props Qdma_Descq "HOL-Library.Multiset"
begin

text \<open>
  The driver's copy of the configuration arrays (\<open>qdma_regs.c\<close>): reading them through the function table,
  the order of the counter thresholds, and the translation of error codes (\<open>qdma_platform.c\<close>).
\<close>

section \<open>Error codes\<close>

text \<open>\<open>error_code_map_list\<close>, indexed by the number of the error.  It is only asked for negative codes; an
  entry behind the table, which no code of the driver names, is unspecified here.\<close>

definition error_code_map_list :: "int list" where
  "error_code_map_list = [0, EINVAL_K, ENOMEM_K, EBUSY, EINVAL_K, EINVAL_K, EINVAL_K, EINVAL_K, EPERM, EINVAL_K, EPERM,
     EINVAL_K, EPERM, EPERM, EIO_K, EINVAL_K, EINVAL_K, EINVAL_K, EINVAL_K, EINVAL_K, EINVAL_K, EINVAL_K, EBUSY,
     EINVAL_K, EIO_K, EINVAL_K]"

definition qdma_get_error_code :: "int \<Rightarrow> int" where
  "qdma_get_error_code acc_err_code = - (error_code_map_list ! nat (- acc_err_code))"

lemmas kernel_errors = EINVAL_K_def ENOMEM_K_def EBUSY_def EPERM_def EIO_K_def ENXIO_def ENODEV_def ERANGE_def

lemma error_code_negative: "c \<noteq> QDMA_SUCCESS \<Longrightarrow> qdma_get_error_code (- err_code c) < 0"
  by (cases c; simp add: qdma_get_error_code_def error_code_map_list_def kernel_errors)

section \<open>The order of the counter thresholds\<close>

text \<open>\<open>qdma_sort_c2h_cntr_th_values\<close>: each round takes the last of the smallest entries that are not below the
  threshold of the round before and not the entry chosen there.  The two loops of a round continue
  each other: the first one finds where to start.\<close>

definition skipped :: "(nat \<Rightarrow> u32) \<Rightarrow> nat option \<Rightarrow> u8 \<Rightarrow> nat \<Rightarrow> bool" where
  "skipped th ref_idx least_max i \<longleftrightarrow> ref_idx = Some i \<or> th i < ucast least_max"

definition take_lower :: "(nat \<Rightarrow> u32) \<Rightarrow> nat option \<Rightarrow> u8 \<Rightarrow> u8 \<times> nat \<Rightarrow> nat \<Rightarrow> u8 \<times> nat" where
  "take_lower th ref_idx least_max = (\<lambda>(c2h_cntr_val, idx) i.
     if skipped th ref_idx least_max i then (c2h_cntr_val, idx)
     else if th i \<le> ucast c2h_cntr_val then (ucast (th i), i) else (c2h_cntr_val, idx))"

definition next_idx :: "(nat \<Rightarrow> u32) \<Rightarrow> nat option \<Rightarrow> u8 \<Rightarrow> u8 \<times> nat \<Rightarrow> u8 \<times> nat" where
  "next_idx th ref_idx least_max cur =
     (case find (\<lambda>i. \<not> skipped th ref_idx least_max i) [0..<16] of
        None \<Rightarrow> cur
      | Some i \<Rightarrow> foldl (take_lower th ref_idx least_max) (ucast (th i), i) [i..<16])"

text \<open>The rounds: \<open>c2h_cntr_val\<close> and \<open>least_max\<close> agree between them, and \<open>idx\<close> is the number of the round.\<close>

fun sort_rounds :: "(nat \<Rightarrow> u32) \<Rightarrow> nat \<Rightarrow> nat \<Rightarrow> nat option \<Rightarrow> u8 \<Rightarrow> u8 \<Rightarrow> nat list \<Rightarrow> nat list" where
  "sort_rounds th 0 j ref_idx c2h_cntr_val least_max sorted_idx = sorted_idx"
| "sort_rounds th (Suc n) j ref_idx c2h_cntr_val least_max sorted_idx =
     (case next_idx th ref_idx least_max (c2h_cntr_val, j) of (v, idx) \<Rightarrow>
        sort_rounds th n (Suc j) (Some idx) v v (sorted_idx[j := idx]))"

definition qdma_sort_c2h_cntr_th_values :: "(nat \<Rightarrow> u32) \<Rightarrow> nat list \<Rightarrow> nat list" where
  "qdma_sort_c2h_cntr_th_values th sorted_idx = sort_rounds th 16 0 None (ucast (th 0)) 0 sorted_idx"

section \<open>Reading the arrays\<close>

record global_csr_conf =
  gc_ring_sz :: "nat \<Rightarrow> u32"
  gc_c2h_timer_cnt :: "nat \<Rightarrow> u32"
  gc_c2h_cnt_th :: "nat \<Rightarrow> u32"
  gc_c2h_buf_sz :: "nat \<Rightarrow> u32"
  gc_wb_intvl :: u32

text \<open>One read of \<open>qdma_csr_read\<close>: on an error the value stays as it was, and \<open>tolerated\<close> says whether a
  missing feature is passed over.\<close>

definition csr_part ::
    "bool \<Rightarrow> ('h \<Rightarrow> int \<times> 'v option \<times> 'h) \<Rightarrow> ('v \<Rightarrow> global_csr_conf \<Rightarrow> global_csr_conf) \<Rightarrow> global_csr_conf \<Rightarrow> 'h \<Rightarrow>
      int \<times> global_csr_conf \<times> 'h" where
  "csr_part tolerated rd put csr h =
     (case rd h of (rv, v, h') \<Rightarrow>
        let csr = (case v of None \<Rightarrow> csr | Some v \<Rightarrow> put v csr) in
        if rv < 0 \<and> \<not> (tolerated \<and> rv = - err_code QDMA_ERR_HWACC_FEATURE_NOT_SUPPORTED)
        then (qdma_get_error_code rv, csr, h') else (0, csr, h'))"

fun csr_parts ::
    "(global_csr_conf \<Rightarrow> 'h \<Rightarrow> int \<times> global_csr_conf \<times> 'h) list \<Rightarrow> global_csr_conf \<Rightarrow> 'h \<Rightarrow> int \<times> global_csr_conf \<times> 'h" where
  "csr_parts [] csr h = (0, csr, h)"
| "csr_parts (p # ps) csr h = (case p csr h of (rv, csr, h) \<Rightarrow> if rv < 0 then (rv, csr, h) else csr_parts ps csr h)"

definition qdma_csr_read ::
    "'h qdma_hw_access \<Rightarrow> ('h \<Rightarrow> int \<times> u32 option \<times> 'h) \<Rightarrow> global_csr_conf \<Rightarrow> nat list \<Rightarrow> 'h \<Rightarrow>
      int \<times> global_csr_conf \<times> nat list \<times> 'h" where
  "qdma_csr_read hw wb_intvl_read csr sorted_idx h =
     (case csr_parts
        [csr_part False (qdma_global_csr_conf hw QDMA_CSR_RING_SZ) (\<lambda>v. gc_ring_sz_update (\<lambda>_. v)),
         csr_part True wb_intvl_read (\<lambda>v. gc_wb_intvl_update (\<lambda>_. v)),
         csr_part True (qdma_global_csr_conf hw QDMA_CSR_BUF_SZ) (\<lambda>v. gc_c2h_buf_sz_update (\<lambda>_. v)),
         csr_part True (qdma_global_csr_conf hw QDMA_CSR_TIMER_CNT) (\<lambda>v. gc_c2h_timer_cnt_update (\<lambda>_. v)),
         csr_part True (qdma_global_csr_conf hw QDMA_CSR_CNT_TH) (\<lambda>v. gc_c2h_cnt_th_update (\<lambda>_. v))] csr h of
        (rv, csr, h) \<Rightarrow>
          if rv < 0 then (rv, csr, sorted_idx, h)
          else (0, csr, qdma_sort_c2h_cntr_th_values (gc_c2h_cnt_th csr) sorted_idx, h))"

section \<open>The order of distinct thresholds\<close>

lemma byte_back:
  assumes "(x :: u32) < 256"
  shows "(ucast (ucast x :: u8) :: u32) = x"
proof -
  have "unat (ucast x :: u8) = unat x"
    unfolding unsigned_ucast_eq by (rule take_bit_nat_eq_self) (use assms in \<open>simp add: word_less_nat_alt\<close>)
  then have "unat (ucast (ucast x :: u8) :: u32) = unat x" by (simp only: unat_byte)
  then show ?thesis by (simp only: word_unat_eq_iff)
qed

lemma take_lower_min:
  assumes "foldl (take_lower th r l) (v, k) xs = (v', k')"
    and "v = ucast (th k)" "th k < 256" "\<And>i. i \<in> set xs \<Longrightarrow> th i < 256"
  shows "v' = ucast (th k') \<and> k' \<in> insert k {i \<in> set xs. \<not> skipped th r l i} \<and> th k' \<le> th k \<and>
    (\<forall>i \<in> set xs. \<not> skipped th r l i \<longrightarrow> th k' \<le> th i)"
  using assms
proof (induction xs arbitrary: v k)
  case (Cons x xs)
  have v: "(ucast v :: u32) = th k"
    using byte_back [OF Cons.prems(3)] Cons.prems(2) by simp
  have step: "take_lower th r l (v, k) x = (if \<not> skipped th r l x \<and> th x \<le> th k then (ucast (th x), x) else (v, k))"
    by (simp add: take_lower_def v)
  show ?case
  proof (cases "\<not> skipped th r l x \<and> th x \<le> th k")
    case True
    then have "foldl (take_lower th r l) (ucast (th x), x) xs = (v', k')"
      using Cons.prems(1) step by simp
    from Cons.IH [OF this refl] Cons.prems(4) True show ?thesis by auto
  next
    case False
    then have "foldl (take_lower th r l) (v, k) xs = (v', k')"
      using Cons.prems(1) step by (simp split: if_splits)
    from Cons.IH [OF this Cons.prems(2,3)] Cons.prems(4) False show ?thesis by fastforce
  qed
qed auto

text \<open>A round picks a smallest of its candidates.\<close>

lemma next_idx_min:
  assumes th: "\<And>i. i < 16 \<Longrightarrow> th i < 256" and ex: "c < 16" "\<not> skipped th r l c"
  shows "\<exists>k. next_idx th r l cur = (ucast (th k), k) \<and> k < 16 \<and> \<not> skipped th r l k \<and>
    (\<forall>i < 16. \<not> skipped th r l i \<longrightarrow> th k \<le> th i)"
proof -
  obtain i where i: "find (\<lambda>i. \<not> skipped th r l i) [0..<16] = Some i"
    using ex by (cases "find (\<lambda>i. \<not> skipped th r l i) [0..<16]") (auto simp: find_None_iff)
  then have f: "i < 16" "\<not> skipped th r l i" "\<And>m. m < i \<Longrightarrow> skipped th r l m"
    by (auto simp: find_Some_iff)
  obtain v k where k: "foldl (take_lower th r l) (ucast (th i), i) [i..<16] = (v, k)" by fastforce
  have "v = ucast (th k) \<and> k \<in> insert i {m \<in> set [i..<16]. \<not> skipped th r l m} \<and> th k \<le> th i \<and>
      (\<forall>m \<in> set [i..<16]. \<not> skipped th r l m \<longrightarrow> th k \<le> th m)"
    using take_lower_min [OF k refl] th f(1) by simp
  moreover have "\<not> skipped th r l m \<Longrightarrow> i \<le> m" for m using f(3) [of m] by (meson not_less)
  ultimately show ?thesis using f(1,2) by (auto simp: next_idx_def i k)
qed

text \<open>With distinct thresholds a round takes the entry that follows those taken before.\<close>

lemma sort_rounds_sorted:
  assumes th: "\<And>i. i < 16 \<Longrightarrow> th i < 256" and inj: "inj_on th {..<16}"
    and "j + n = 16" "length s = 16" "sorted_wrt (\<lambda>a b. th a < th b) (take j s)" "set (take j s) \<subseteq> {..<16}"
    and "\<And>i. i < 16 \<Longrightarrow> skipped th r l i \<longleftrightarrow> i \<in> set (take j s)"
    and "\<And>a i. a \<in> set (take j s) \<Longrightarrow> i < 16 \<Longrightarrow> i \<notin> set (take j s) \<Longrightarrow> th a < th i"
  shows "length (sort_rounds th n j r v l s) = 16 \<and> set (sort_rounds th n j r v l s) \<subseteq> {..<16} \<and>
    sorted_wrt (\<lambda>a b. th a < th b) (sort_rounds th n j r v l s)"
  using assms(3-)
proof (induction n arbitrary: j r v l s)
  case 0
  then show ?case by auto
next
  case (Suc n)
  have "card (set (take j s)) \<le> j" using card_length [of "take j s"] Suc.prems(1,2) by simp
  then have "card (set (take j s)) < card {..<16::nat}" using Suc.prems(1) by simp
  then have "\<not> {..<16} \<subseteq> set (take j s)" by (meson card_mono finite_set leD)
  then obtain c where c: "c < 16" "\<not> skipped th r l c" using Suc.prems(5) by blast
  obtain k where k: "next_idx th r l (v, j) = (ucast (th k), k)" "k < 16" "\<not> skipped th r l k"
    "\<And>i. i < 16 \<Longrightarrow> \<not> skipped th r l i \<Longrightarrow> th k \<le> th i"
    using next_idx_min [where th = th and cur = "(v, j)", OF th c] by blast
  have new: "k \<notin> set (take j s)" using k Suc.prems(5) by blast
  have t: "take (Suc j) (s[j := k]) = take j s @ [k]"
    using Suc.prems(1,2) by (simp add: take_Suc_conv_app_nth)
  have above: "th k < th i" if "i < 16" "i \<notin> set (take j s)" "i \<noteq> k" for i
    using k(4) [OF that(1)] Suc.prems(5) [OF that(1)] that inj k(2) by (force simp: inj_on_def order_less_le)
  have ucast: "(ucast (ucast (th k) :: u8) :: u32) = th k" by (rule byte_back [OF th [OF k(2)]])
  have "sort_rounds th (Suc n) j r v l s = sort_rounds th n (Suc j) (Some k) (ucast (th k)) (ucast (th k)) (s[j := k])"
    by (simp add: k(1))
  moreover have "length (sort_rounds th n (Suc j) (Some k) (ucast (th k)) (ucast (th k)) (s[j := k])) = 16 \<and>
      set (sort_rounds th n (Suc j) (Some k) (ucast (th k)) (ucast (th k)) (s[j := k])) \<subseteq> {..<16} \<and>
      sorted_wrt (\<lambda>a b. th a < th b) (sort_rounds th n (Suc j) (Some k) (ucast (th k)) (ucast (th k)) (s[j := k]))"
  proof (rule Suc.IH)
    show "sorted_wrt (\<lambda>a b. th a < th b) (take (Suc j) (s[j := k]))"
      using Suc.prems(3,6) k(2) new by (auto simp: t sorted_wrt_append)
    show "skipped th (Some k) (ucast (th k)) i \<longleftrightarrow> i \<in> set (take (Suc j) (s[j := k]))" if "i < 16" for i
      using that above [of i] Suc.prems(6) [of i k] new k(2) by (auto simp: t skipped_def ucast dest: less_asym)
    show "th a < th i" if "a \<in> set (take (Suc j) (s[j := k]))" "i < 16" "i \<notin> set (take (Suc j) (s[j := k]))" for a i
      using that above [of i] Suc.prems(6) [of a i] by (auto simp: t)
  qed (use Suc.prems t k(2) in auto)
  ultimately show ?case by simp
qed

lemma thresholds_sorted:
  assumes "\<And>i. i < 16 \<Longrightarrow> th i < 256" and "inj_on th {..<16}" and "length old = 16"
  shows "mset (qdma_sort_c2h_cntr_th_values th old) = mset [0..<16] \<and>
    sorted_wrt (\<lambda>a b. th a < th b) (qdma_sort_c2h_cntr_th_values th old)"
proof -
  let ?s = "qdma_sort_c2h_cntr_th_values th old"
  have s: "length ?s = 16" "set ?s \<subseteq> {..<16}" "sorted_wrt (\<lambda>a b. th a < th b) ?s"
    using sort_rounds_sorted [OF assms(1,2), of 0 16 old None 0 "ucast (th 0)"] assms(3)
    by (simp_all add: qdma_sort_c2h_cntr_th_values_def skipped_def)
  then have d: "distinct ?s" by (auto simp: distinct_conv_nth sorted_wrt_iff_nth_less) (metis less_irrefl nat_neq_iff)
  then have "set ?s = {..<16}" using s(1,2) by (simp add: card_subset_eq distinct_card)
  then have "mset ?s = mset [0..<16]" using d by (intro iffD1 [OF set_eq_iff_mset_eq_distinct]) (simp_all add: atLeast0LessThan)
  then show ?thesis using s(3) by blast
qed

section \<open>Equal thresholds\<close>

text \<open>Only the entry of the round before is excluded.  When two entries share the smallest threshold the rounds
  go back and forth between them and never get to the larger ones.\<close>

lemma sort_rounds_pair:
  assumes th: "\<And>i. i < 16 \<Longrightarrow> th i < 256" and ab: "a < 16" "b < 16" "a \<noteq> b" "th a = th b"
    and min: "\<And>i. i < 16 \<Longrightarrow> i \<noteq> a \<Longrightarrow> i \<noteq> b \<Longrightarrow> th a < th i"
    and "l = 0 \<or> l = ucast (th a)" "r = None \<or> r = Some a \<or> r = Some b" "j + n = length s" "set (take j s) \<subseteq> {a, b}"
  shows "set (sort_rounds th n j r v l s) \<subseteq> {a, b}"
  using assms(7-)
proof (induction n arbitrary: j r v l s)
  case (Suc n)
  have l: "\<not> th a < ucast l" using Suc.prems(1) byte_back [OF th [OF ab(1)]] by auto
  obtain c where c: "c < 16" "\<not> skipped th r l c" "c = a \<or> c = b"
    using Suc.prems(2) l ab by (auto simp: skipped_def)
  obtain k where k: "next_idx th r l (v, j) = (ucast (th k), k)" "k < 16"
    "\<And>i. i < 16 \<Longrightarrow> \<not> skipped th r l i \<Longrightarrow> th k \<le> th i"
    using next_idx_min [where th = th and cur = "(v, j)", OF th c(1,2)] by blast
  have "th k \<le> th a" using k(3) [OF c(1,2)] c(3) ab(4) by auto
  then have kab: "k = a \<or> k = b" using min [OF k(2)] by (meson leD)
  have "take (Suc j) (s[j := k]) = take j s @ [k]"
    using Suc.prems(3) by (simp add: take_Suc_conv_app_nth)
  then have "set (sort_rounds th n (Suc j) (Some k) (ucast (th k)) (ucast (th k)) (s[j := k])) \<subseteq> {a, b}"
    using kab ab(4) Suc.prems(3,4) by (intro Suc.IH) auto
  then show ?case by (simp add: k(1))
qed auto

lemma equal_thresholds_alternate:
  assumes "\<And>i. i < 16 \<Longrightarrow> th i < 256" and "a < 16" "b < 16" "a \<noteq> b" "th a = th b"
    and "\<And>i. i < 16 \<Longrightarrow> i \<noteq> a \<Longrightarrow> i \<noteq> b \<Longrightarrow> th a < th i" and "length old = 16"
  shows "set (qdma_sort_c2h_cntr_th_values th old) \<subseteq> {a, b}"
  using sort_rounds_pair [OF assms(1-6), of 0 None 0 16 old "ucast (th 0)"] assms(7)
  by (simp add: qdma_sort_c2h_cntr_th_values_def)

section \<open>The copy agrees with the card\<close>

lemma csr_part_ok: "rd h = (0, Some v, h') \<Longrightarrow> csr_part tol rd put csr h = (0, put v csr, h')"
  by (simp add: csr_part_def)

text \<open>C32: On a card with both streaming engines whose access table has the CSR functions of the soft QDMA, which
  \<open>qdma_hw_access_init\<close> installs for every device and replaces for none: \<open>qdma_csr_read\<close> succeeds, changes no register, and
  its copy holds what the registers of the card hold, the four arrays and the writeback interval.  When the counter thresholds are
  distinct and fit a byte, the order it computes is the order of the thresholds, every index once.\<close>

theorem csr_copy_agrees:
  assumes dev: "csr_device b R keep view" and R: "csr_space \<subseteq> R" "QDMA_OFFSET_GLBL_DSC_CFG \<in> R"
    and st: "bit (view h 0x118) 16" "bit (view h 0x118) 17" and hw: "\<And>t. qdma_global_csr_conf hw t =
      qdma_global_csr_conf_soft b 0 16 (Some (old t)) t QDMA_HW_ACCESS_READ" and "length sorted_idx = 16"
  shows "\<exists>csr' order h'. qdma_csr_read hw (qdma_global_writeback_interval_conf b wb QDMA_HW_ACCESS_READ) csr sorted_idx h =
      (0, csr', order, h') \<and> view h' = view h \<and>
    (\<forall>j < 16. gc_ring_sz csr' j = view h (slot (csr_first QDMA_CSR_RING_SZ) j) \<and>
      gc_c2h_timer_cnt csr' j = view h (slot (csr_first QDMA_CSR_TIMER_CNT) j) \<and>
      gc_c2h_cnt_th csr' j = view h (slot (csr_first QDMA_CSR_CNT_TH) j) \<and>
      gc_c2h_buf_sz csr' j = view h (slot (csr_first QDMA_CSR_BUF_SZ) j)) \<and>
    gc_wb_intvl csr' = FIELD_GET QDMA_GLBL_DSC_CFG_WB_ACC_INT_MASK (view h QDMA_OFFSET_GLBL_DSC_CFG) \<and>
    ((\<forall>j < 16. gc_c2h_cnt_th csr' j < 256) \<and> inj_on (gc_c2h_cnt_th csr') {..<16} \<longrightarrow>
      mset order = mset [0..<16] \<and> sorted_wrt (\<lambda>a b. gc_c2h_cnt_th csr' a < gc_c2h_cnt_th csr' b) order)"
proof -
  have dev': "csr_device b csr_space keep view" and caps: "set csr_caps \<subseteq> R"
    using dev R(1) unfolding csr_device_def csr_space_def by blast+
  have sup: "fst (soft_supported t reg_bus (view h))" for t using streaming_supported(1) [where w = "view h", OF st] by simp
  have rd: "\<exists>h' f. qdma_global_csr_conf hw t h1 = (0, Some f, h') \<and> view h' = view h \<and>
      (\<forall>j < 16. f j = view h (slot (csr_first t) j))" if "view h1 = view h" for t h1
    using soft_csr.reads [unfolded spaces, OF dev', of t h1 "old t"] sup that by (auto simp: hw)
  have wb: "\<exists>h'. qdma_global_writeback_interval_conf b wb QDMA_HW_ACCESS_READ h1 =
      (0, Some (FIELD_GET QDMA_GLBL_DSC_CFG_WB_ACC_INT_MASK (view h QDMA_OFFSET_GLBL_DSC_CFG)), h') \<and> view h' = view h"
    if v: "view h1 = view h" for h1
  proof -
    obtain h2 where h2: "soft_st_or_mm_cmpt b h1 = (True, h2)" "view h2 = view h"
      using soft_supported_view [OF dev caps, of QDMA_CSR_CNT_TH h1] sup [of QDMA_CSR_CNT_TH] v by auto
    obtain h3 where "bus_read b QDMA_OFFSET_GLBL_DSC_CFG h2 = (view h QDMA_OFFSET_GLBL_DSC_CFG, h3)" "view h3 = view h"
      using csr_read_view [OF dev R(2), of h2] h2(2) by metis
    then show ?thesis
      using h2 by (simp add: qdma_global_writeback_interval_conf_def qdma_global_writeback_interval_read_def)
  qed
  obtain h1 f1 where 1: "qdma_global_csr_conf hw QDMA_CSR_RING_SZ h = (0, Some f1, h1)" "view h1 = view h"
    "\<And>j. j < 16 \<Longrightarrow> f1 j = view h (slot (csr_first QDMA_CSR_RING_SZ) j)" using rd [OF refl] by blast
  obtain h2 where 2: "qdma_global_writeback_interval_conf b wb QDMA_HW_ACCESS_READ h1 =
      (0, Some (FIELD_GET QDMA_GLBL_DSC_CFG_WB_ACC_INT_MASK (view h QDMA_OFFSET_GLBL_DSC_CFG)), h2)" "view h2 = view h"
    using wb [OF 1(2)] by blast
  obtain h3 f3 where 3: "qdma_global_csr_conf hw QDMA_CSR_BUF_SZ h2 = (0, Some f3, h3)" "view h3 = view h"
    "\<And>j. j < 16 \<Longrightarrow> f3 j = view h (slot (csr_first QDMA_CSR_BUF_SZ) j)" using rd [OF 2(2)] by blast
  obtain h4 f4 where 4: "qdma_global_csr_conf hw QDMA_CSR_TIMER_CNT h3 = (0, Some f4, h4)" "view h4 = view h"
    "\<And>j. j < 16 \<Longrightarrow> f4 j = view h (slot (csr_first QDMA_CSR_TIMER_CNT) j)" using rd [OF 3(2)] by blast
  obtain h5 f5 where 5: "qdma_global_csr_conf hw QDMA_CSR_CNT_TH h4 = (0, Some f5, h5)" "view h5 = view h"
    "\<And>j. j < 16 \<Longrightarrow> f5 j = view h (slot (csr_first QDMA_CSR_CNT_TH) j)" using rd [OF 4(2)] by blast
  have "\<exists>csr'. qdma_csr_read hw (qdma_global_writeback_interval_conf b wb QDMA_HW_ACCESS_READ) csr sorted_idx h =
      (0, csr', qdma_sort_c2h_cntr_th_values f5 sorted_idx, h5) \<and> gc_ring_sz csr' = f1 \<and> gc_c2h_buf_sz csr' = f3 \<and>
      gc_c2h_timer_cnt csr' = f4 \<and> gc_c2h_cnt_th csr' = f5 \<and>
      gc_wb_intvl csr' = FIELD_GET QDMA_GLBL_DSC_CFG_WB_ACC_INT_MASK (view h QDMA_OFFSET_GLBL_DSC_CFG)"
    using 1(1) 2(1) 3(1) 4(1) 5(1) by (simp add: qdma_csr_read_def csr_part_ok)
  then show ?thesis using 1(3) 3(3) 4(3) 5(2,3) thresholds_sorted [of f5 sorted_idx] assms(7) by fastforce
qed

text \<open>A card with the default thresholds.\<close>

definition default_regs :: "u32 \<Rightarrow> u32" where
  "default_regs a = (if 0xA40 \<le> a \<and> a < 0xA80 then cnt_th ! unat ((a - 0xA40) div 4) else streaming_regs a)"

definition read_table :: "(u32 \<Rightarrow> u32) qdma_hw_access" where
  "read_table = \<lparr>qdma_global_csr_conf = (\<lambda>t. qdma_global_csr_conf_soft reg_bus 0 16 (Some (\<lambda>_. 0)) t QDMA_HW_ACCESS_READ),
     qdma_fmap_conf = (\<lambda>_ _ _ h. (0, None, h)), qdma_sw_ctx_conf = (\<lambda>_ _ _ _ h. (0, None, h)),
     qdma_pfetch_ctx_conf = (\<lambda>_ _ _ h. (0, None, h)), qdma_cmpt_ctx_conf = (\<lambda>_ _ _ h. (0, None, h)),
     qdma_hw_ctx_conf = (\<lambda>_ _ _ _ h. (0, None, h)), qdma_credit_ctx_conf = (\<lambda>_ _ _ _ h. (0, None, h)),
     qdma_indirect_intr_ctx_conf = (\<lambda>_ _ _ h. (0, None, h)), qdma_get_device_attributes = eqdma_get_device_attributes reg_bus,
     qdma_read_reg_list = (\<lambda>_ _ h. (0, None, h)), mbox_base_pf = 0, mbox_base_vf = 0\<rparr>"

theorem csr_copy_agrees_witness:
  "\<exists>csr' order h'. qdma_csr_read read_table (qdma_global_writeback_interval_conf reg_bus 0 QDMA_HW_ACCESS_READ)
       \<lparr>gc_ring_sz = \<lambda>_. 0, gc_c2h_timer_cnt = \<lambda>_. 0, gc_c2h_cnt_th = \<lambda>_. 0, gc_c2h_buf_sz = \<lambda>_. 0, gc_wb_intvl = 0\<rparr>
       (replicate 16 0) default_regs = (0, csr', order, h') \<and>
     gc_c2h_cnt_th csr' 0 = 2 \<and> gc_c2h_cnt_th csr' 15 = 192 \<and> mset order = mset [0..<16] \<and>
     sorted_wrt (\<lambda>a b. gc_c2h_cnt_th csr' a < gc_c2h_cnt_th csr' b) order"
proof -
  have "bit (0x30101 :: u32) 16" "bit (0x30101 :: u32) 17" by (simp_all add: bit_numeral_rec)
  then have st: "bit (default_regs 0x118) 16" "bit (default_regs 0x118) 17"
    by (simp_all add: default_regs_def streaming_regs_def)
  have all: "\<forall>j \<in> {..<16}. default_regs (slot (csr_first QDMA_CSR_CNT_TH) j) = cnt_th ! j" by code_simp
  have "(\<forall>i \<in> {..<16}. cnt_th ! i < 256) \<and> sorted_wrt (<) cnt_th" by code_simp
  moreover have "length cnt_th = 16" by (simp add: cnt_th_def)
  ultimately have b: "\<And>i. i < 16 \<Longrightarrow> cnt_th ! i < 256" and m: "\<And>i j. i < j \<Longrightarrow> j < 16 \<Longrightarrow> cnt_th ! i < cnt_th ! j"
    by (auto simp: sorted_wrt_iff_nth_less)
  have inj: "inj_on ((!) cnt_th) {..<16}" using m by (auto simp: inj_on_def) (metis less_irrefl nat_neq_iff)
  have hw: "qdma_global_csr_conf read_table t = qdma_global_csr_conf_soft reg_bus 0 16 (Some (\<lambda>_. 0)) t QDMA_HW_ACCESS_READ" for t
    by (simp add: read_table_def)
  have len: "length (replicate 16 0 :: nat list) = 16" by simp
  from csr_copy_agrees [where view = "\<lambda>h. h" and h = default_regs and old = "\<lambda>_ _. 0" and wb = 0 and
      csr = "\<lparr>gc_ring_sz = \<lambda>_. 0, gc_c2h_timer_cnt = \<lambda>_. 0, gc_c2h_cnt_th = \<lambda>_. 0, gc_c2h_buf_sz = \<lambda>_. 0, gc_wb_intvl = 0\<rparr>",
      OF reg_bus_device [of UNIV] subset_UNIV UNIV_I st hw len]
  obtain csr' order h' where c: "qdma_csr_read read_table (qdma_global_writeback_interval_conf reg_bus 0 QDMA_HW_ACCESS_READ)
       \<lparr>gc_ring_sz = \<lambda>_. 0, gc_c2h_timer_cnt = \<lambda>_. 0, gc_c2h_cnt_th = \<lambda>_. 0, gc_c2h_buf_sz = \<lambda>_. 0, gc_wb_intvl = 0\<rparr>
       (replicate 16 0) default_regs = (0, csr', order, h')"
    "\<And>j. j < 16 \<Longrightarrow> gc_c2h_cnt_th csr' j = default_regs (slot (csr_first QDMA_CSR_CNT_TH) j)"
    "(\<forall>j < 16. gc_c2h_cnt_th csr' j < 256) \<and> inj_on (gc_c2h_cnt_th csr') {..<16} \<longrightarrow>
      mset order = mset [0..<16] \<and> sorted_wrt (\<lambda>a b. gc_c2h_cnt_th csr' a < gc_c2h_cnt_th csr' b) order"
    by blast
  have th: "\<And>j. j < 16 \<Longrightarrow> gc_c2h_cnt_th csr' j = cnt_th ! j" using c(2) all by simp
  have "inj_on (gc_c2h_cnt_th csr') {..<16}" using inj th by (simp add: inj_on_def)
  moreover have "gc_c2h_cnt_th csr' 0 = 2" "gc_c2h_cnt_th csr' 15 = 192" using th [of 0] th [of 15] by (simp_all add: cnt_th_def)
  ultimately show ?thesis using c(1,3) th b by simp
qed

end
