(* ===== verification/Qdma_Queue_Context.thy ===== *)
theory Qdma_Queue_Context
  imports Qdma_Csr_Read S80_Context
begin

text \<open>
  The contexts of a queue, as the physical function programs them (\<open>qdma_context.c\<close>, the part for physical
  functions): composing the contexts from the configuration of the queue, and clearing, programming and
  reading them through the function table.  \<open>qid2vec_conf\<close> is the member \<open>qdma_qid2vec_conf\<close> of the table,
  which only the hard QDMA has.
\<close>

section \<open>Data\<close>

definition QDMA_NUM_DATA_VEC_FOR_INTR_CXT :: nat where "QDMA_NUM_DATA_VEC_FOR_INTR_CXT = 1"
definition DESC_SZ_8B :: u8 where "DESC_SZ_8B = 0"
definition DESC_SZ_16B :: u8 where "DESC_SZ_16B = 1"
definition DESC_SZ_32B :: u8 where "DESC_SZ_32B = 2"
definition DESC_SZ_64B :: u8 where "DESC_SZ_64B = 3"

text \<open>What the context functions use of \<open>struct xlnx_dma_dev\<close> besides the mode of the driver.\<close>

record xdev_info =
  xd_func_id :: u8
  xd_dvec_start_idx :: u32
  xd_dev_cap :: qdma_dev_attributes

record qdma_descq_context =
  cx_qid2vec :: qdma_qid2vec
  cx_sw_ctxt :: qdma_descq_sw_ctxt
  cx_hw_ctxt :: qdma_descq_hw_ctxt
  cx_cr_ctxt :: qdma_descq_credit_ctxt
  cx_pfetch_ctxt :: qdma_descq_prefetch_ctxt
  cx_cmpt_ctxt :: qdma_descq_cmpt_ctxt

record intr_coal_conf =
  co_vec_id :: u16
  co_intr_ring_bus :: u64
  co_color :: u8

text \<open>\<open>memset\<close> of a whole structure.\<close>

definition cleared_qid2vec :: qdma_qid2vec where
  "cleared_qid2vec = \<lparr>qv_c2h_vector = 0, qv_c2h_en_coal = 0, qv_h2c_vector = 0, qv_h2c_en_coal = 0\<rparr>"

definition cleared_context :: qdma_descq_context where
  "cleared_context = \<lparr>cx_qid2vec = cleared_qid2vec, cx_sw_ctxt = sw_ctxt_of (replicate 33 0),
     cx_hw_ctxt = hw_ctxt_of (replicate 6 0), cx_cr_ctxt = credit_ctxt_of (replicate 1 0),
     cx_pfetch_ctxt = prefetch_ctxt_of (replicate 10 0), cx_cmpt_ctxt = cmpt_ctxt_of (replicate 30 0)\<rparr>"

abbreviation flag :: "bool \<Rightarrow> u8" where "flag p \<equiv> of_bool p"

abbreviation aggregates :: "qdma_drv_mode \<Rightarrow> bool" where
  "aggregates mode \<equiv> mode = INDIRECT_INTR_MODE \<or> mode = AUTO_MODE"

text \<open>The queues with a completion ring.\<close>

definition has_cmpt :: "bool \<Rightarrow> queue_type_t \<Rightarrow> bool" where
  "has_cmpt st q_type \<longleftrightarrow> st \<and> q_type = Q_C2H \<or> \<not> st \<and> q_type = Q_CMPT"

section \<open>Composing\<close>

definition get_intr_ring_index :: "xdev_info \<Rightarrow> u32 \<Rightarrow> u32" where
  "get_intr_ring_index xdev vector_index =
     (vector_index - xd_dvec_start_idx xdev) + ucast (xd_func_id xdev) * of_nat QDMA_NUM_DATA_VEC_FOR_INTR_CXT"

text \<open>\<open>is_mm\<close> is \<open>~st\<close> computed as an \<open>int\<close> and cut to a byte.\<close>

definition make_sw_context :: "qdma_drv_mode \<Rightarrow> xdev_info \<Rightarrow> qdma_descq \<Rightarrow> qdma_descq_sw_ctxt" where
  "make_sw_context mode xdev d =
     (let conf = dq_conf d;
          c = sw_ctxt_of (replicate 33 0);
          c = (if aggregates mode then c\<lparr>sw_vec := ucast (get_intr_ring_index xdev (dq_intr_id d)), sw_intr_aggr := 1\<rparr>
               else c\<lparr>sw_vec := ucast (dq_intr_id d)\<rparr>);
          c = c\<lparr>sw_ring_bs_addr := dq_desc_bus d, sw_wbi_chk := flag (qc_cmpl_status_pend_chk conf),
            sw_wbi_intvl_en := flag (qc_cmpl_status_acc_en conf), sw_rngsz_idx := ucast (qc_desc_rng_sz_idx conf),
            sw_bypass := flag (qc_desc_bypass conf), sw_wbk_en := flag (qc_wb_status_en conf),
            sw_irq_en := flag (qc_irq_en conf), sw_is_mm := NOT (flag (qc_st conf)), sw_qen := 1\<rparr>;
          c = (if qc_desc_bypass conf \<and> ucast (qc_sw_desc_sz conf) = DESC_SZ_64B
               then c\<lparr>sw_desc_sz := ucast (qc_sw_desc_sz conf)\<rparr>
               else if \<not> qc_st conf then c\<lparr>sw_desc_sz := DESC_SZ_32B, sw_mm_chn := flag (dq_channel d)\<rparr>
               else if qc_q_type conf = Q_C2H then c\<lparr>sw_frcd_en := flag (qc_fetch_credit conf), sw_desc_sz := DESC_SZ_8B\<rparr>
               else if qc_q_type conf = Q_H2C then c\<lparr>sw_frcd_en := flag (qc_fetch_credit conf), sw_desc_sz := DESC_SZ_16B\<rparr>
               else c\<lparr>sw_desc_sz := DESC_SZ_16B\<rparr>);
          c = c\<lparr>sw_fnc_id := xd_func_id xdev, sw_irq_arm := flag (qc_irq_en conf)\<rparr>;
          c = (if qc_st conf \<and> qc_q_type conf = Q_C2H
               then c\<lparr>sw_irq_en := 0, sw_irq_arm := 0, sw_wbk_en := 0, sw_wbi_chk := 0\<rparr> else c)
      in if \<not> qc_desc_bypass conf \<and> (\<not> qc_st conf \<or> qc_q_type conf = Q_H2C) then c\<lparr>sw_mrkr_dis := 1\<rparr> else c)"

definition make_qid2vec_context :: "qdma_drv_mode \<Rightarrow> xdev_info \<Rightarrow> qdma_descq \<Rightarrow> qdma_qid2vec" where
  "make_qid2vec_context mode xdev d =
     (let (vec_num, en_coal) = (if aggregates mode then (get_intr_ring_index xdev (dq_intr_id d), 1) else (dq_intr_id d, 0)) in
      case qc_q_type (dq_conf d) of
        Q_C2H \<Rightarrow> cleared_qid2vec\<lparr>qv_c2h_en_coal := en_coal, qv_c2h_vector := ucast vec_num\<rparr>
      | Q_H2C \<Rightarrow> cleared_qid2vec\<lparr>qv_h2c_en_coal := en_coal, qv_h2c_vector := ucast vec_num\<rparr>
      | _ \<Rightarrow> cleared_qid2vec)"

definition make_prefetch_context :: "qdma_descq \<Rightarrow> qdma_descq_prefetch_ctxt" where
  "make_prefetch_context d = (prefetch_ctxt_of (replicate 10 0))\<lparr>pc_valid := 1, pc_bypass := flag (qc_pfetch_bypass (dq_conf d)),
     pc_bufsz_idx := ucast (qc_c2h_buf_sz_idx (dq_conf d)), pc_pfch_en := flag (qc_pfetch_en (dq_conf d))\<rparr>"

definition make_cmpt_context :: "qdma_drv_mode \<Rightarrow> xdev_info \<Rightarrow> qdma_descq \<Rightarrow> qdma_descq_cmpt_ctxt" where
  "make_cmpt_context mode xdev d =
     (let conf = dq_conf d;
          c = (cmpt_ctxt_of (replicate 30 0))\<lparr>cm_en_stat_desc := flag (qc_cmpl_stat_en conf), cm_en_int := flag (qc_cmpl_en_intr conf),
            cm_trig_mode := ucast (qc_cmpl_trig_mode conf), cm_fnc_id := xd_func_id xdev, cm_timer_idx := ucast (qc_cmpl_timer_idx conf),
            cm_counter_idx := ucast (qc_cmpl_cnt_th_idx conf), cm_color := 1, cm_ringsz_idx := ucast (qc_cmpl_rng_sz_idx conf),
            cm_bs_addr := dq_desc_cmpt_bus d, cm_desc_sz := ucast (qc_cmpl_desc_sz conf), cm_full_upd := flag (qc_adaptive_rx conf),
            cm_valid := 1, cm_ovf_chk_dis := flag (qc_cmpl_ovf_chk_dis conf)\<rparr>
      in if aggregates mode then c\<lparr>cm_vec := ucast (get_intr_ring_index xdev (dq_intr_id d)), cm_int_aggr := 1\<rparr>
         else c\<lparr>cm_vec := ucast (dq_intr_id d)\<rparr>)"

definition make_intr_context ::
    "qdma_drv_mode \<Rightarrow> xdev_info \<Rightarrow> u8 \<Rightarrow> intr_coal_conf list \<Rightarrow> (int, qdma_indirect_intr_ctxt list) sum" where
  "make_intr_context mode xdev intr_rngsz intr_coal_list =
     (if \<not> aggregates mode then Inl (- EINVAL_K)
      else Inr (map (\<lambda>i. (intr_ctxt_of (replicate 12 0))\<lparr>ic_valid := 1, ic_vec := co_vec_id (intr_coal_list ! i),
          ic_baddr_4k := co_intr_ring_bus (intr_coal_list ! i), ic_color := co_color (intr_coal_list ! i),
          ic_page_size := intr_rngsz, ic_func_id := ucast (xd_func_id xdev)\<rparr>) [0..<QDMA_NUM_DATA_VEC_FOR_INTR_CXT]))"

section \<open>Calls through the table\<close>

text \<open>Calls in order up to the first that fails; its result is translated.\<close>

fun ctx_steps :: "('h \<Rightarrow> int \<times> 'h) list \<Rightarrow> 'h \<Rightarrow> int \<times> 'h" where
  "ctx_steps [] h = (0, h)"
| "ctx_steps (f # fs) h = (case f h of (rv, h) \<Rightarrow> if rv < 0 then (qdma_get_error_code rv, h) else ctx_steps fs h)"

definition ctx_call :: "('h \<Rightarrow> int \<times> 'c option \<times> 'h) \<Rightarrow> 'h \<Rightarrow> int \<times> 'h" where
  "ctx_call f h = (case f h of (rv, _, h) \<Rightarrow> (rv, h))"

definition dir_of :: "queue_type_t \<Rightarrow> u8" where
  "dir_of q_type = of_nat (queue_type_code q_type)"

definition qdma_descq_context_clear ::
    "'h qdma_hw_access \<Rightarrow> u32 \<Rightarrow> bool \<Rightarrow> queue_type_t \<Rightarrow> bool \<Rightarrow> 'h \<Rightarrow> int \<times> 'h" where
  "qdma_descq_context_clear hw qid_hw st q_type clr =
     (let access = (if clr then QDMA_HW_ACCESS_CLEAR else QDMA_HW_ACCESS_INVALIDATE); q = ucast qid_hw; t = dir_of q_type in
      ctx_steps
        ((if q_type \<noteq> Q_CMPT then
            [ctx_call (qdma_sw_ctx_conf hw t q None access), ctx_call (qdma_hw_ctx_conf hw t q None access),
             ctx_call (qdma_credit_ctx_conf hw t q None access)] @
            (if st \<and> q_type = Q_C2H then [ctx_call (qdma_pfetch_ctx_conf hw q None access)] else [])
          else []) @
         (if has_cmpt st q_type then [ctx_call (qdma_cmpt_ctx_conf hw q None access)] else [])))"

text \<open>The result of the vector programming is ignored.  A failing clear is translated twice.\<close>

definition qid2vec_step ::
    "(u8 \<Rightarrow> u16 \<Rightarrow> (qdma_qid2vec, 'h) ctx_conf) \<Rightarrow> u8 \<Rightarrow> u16 \<Rightarrow> qdma_qid2vec \<Rightarrow> 'h \<Rightarrow> int \<times> 'h" where
  "qid2vec_step qid2vec_conf t q c h = (case qid2vec_conf t q (Some c) QDMA_HW_ACCESS_WRITE h of (_, _, h) \<Rightarrow> (0, h))"

definition qdma_descq_context_program ::
    "'h qdma_hw_access \<Rightarrow> (u8 \<Rightarrow> u16 \<Rightarrow> (qdma_qid2vec, 'h) ctx_conf) \<Rightarrow> qdma_drv_mode \<Rightarrow> xdev_info \<Rightarrow> u32 \<Rightarrow> bool \<Rightarrow>
      queue_type_t \<Rightarrow> qdma_descq_context \<Rightarrow> 'h \<Rightarrow> int \<times> 'h" where
  "qdma_descq_context_program hw qid2vec_conf mode xdev qid_hw st q_type c h =
     (let q = ucast qid_hw; t = dir_of q_type in
      case qdma_descq_context_clear hw qid_hw st q_type True h of (rv, h) \<Rightarrow>
        if rv < 0 then (qdma_get_error_code rv, h)
        else ctx_steps
          ((if q_type \<noteq> Q_CMPT then
              [ctx_call (qdma_sw_ctx_conf hw t q (Some (cx_sw_ctxt c)) QDMA_HW_ACCESS_WRITE)] @
              (if qid2vec_ctx (xd_dev_cap xdev) \<noteq> 0 \<and> mode \<noteq> POLL_MODE then [qid2vec_step qid2vec_conf t q (cx_qid2vec c)] else []) @
              (if st \<and> t \<noteq> 0 then [ctx_call (qdma_pfetch_ctx_conf hw q (Some (cx_pfetch_ctxt c)) QDMA_HW_ACCESS_WRITE)] else [])
            else []) @
           (if has_cmpt st q_type then [ctx_call (qdma_cmpt_ctx_conf hw q (Some (cx_cmpt_ctxt c)) QDMA_HW_ACCESS_WRITE)] else [])) h)"

definition setup_context :: "qdma_drv_mode \<Rightarrow> xdev_info \<Rightarrow> qdma_descq \<Rightarrow> qdma_descq_context" where
  "setup_context mode xdev d =
     (let conf = dq_conf d; c = cleared_context;
          c = (if qc_q_type conf \<noteq> Q_CMPT then
                 (let c = c\<lparr>cx_sw_ctxt := make_sw_context mode xdev d\<rparr>;
                      c = (if qid2vec_ctx (xd_dev_cap xdev) \<noteq> 0 \<and> mode \<noteq> POLL_MODE
                           then c\<lparr>cx_qid2vec := make_qid2vec_context mode xdev d\<rparr> else c)
                  in if qc_st conf \<and> qc_q_type conf = Q_C2H then c\<lparr>cx_pfetch_ctxt := make_prefetch_context d\<rparr> else c)
               else c)
      in if has_cmpt (qc_st conf) (qc_q_type conf) then c\<lparr>cx_cmpt_ctxt := make_cmpt_context mode xdev d\<rparr> else c)"

definition qdma_descq_context_setup ::
    "'h qdma_hw_access \<Rightarrow> (u8 \<Rightarrow> u16 \<Rightarrow> (qdma_qid2vec, 'h) ctx_conf) \<Rightarrow> qdma_drv_mode \<Rightarrow> xdev_info \<Rightarrow> qdma_descq \<Rightarrow>
      'h \<Rightarrow> int \<times> 'h" where
  "qdma_descq_context_setup hw qid2vec_conf mode xdev d =
     qdma_descq_context_program hw qid2vec_conf mode xdev (dq_qidx_hw d) (qc_st (dq_conf d)) (qc_q_type (dq_conf d))
       (setup_context mode xdev d)"

text \<open>Reading: each call stores into its member of the context.\<close>

definition ctx_fetch ::
    "('c option \<Rightarrow> qdma_hw_access_type \<Rightarrow> 'h \<Rightarrow> int \<times> 'c option \<times> 'h) \<Rightarrow> (qdma_descq_context \<Rightarrow> 'c) \<Rightarrow>
      ('c \<Rightarrow> qdma_descq_context \<Rightarrow> qdma_descq_context) \<Rightarrow> qdma_descq_context \<Rightarrow> 'h \<Rightarrow> int \<times> qdma_descq_context \<times> 'h" where
  "ctx_fetch f get put c h =
     (case f (Some (get c)) QDMA_HW_ACCESS_READ h of (rv, out, h) \<Rightarrow> (rv, case out of None \<Rightarrow> c | Some v \<Rightarrow> put v c, h))"

fun ctx_reads ::
    "(qdma_descq_context \<Rightarrow> 'h \<Rightarrow> int \<times> qdma_descq_context \<times> 'h) list \<Rightarrow> qdma_descq_context \<Rightarrow> 'h \<Rightarrow>
      int \<times> qdma_descq_context \<times> 'h" where
  "ctx_reads [] c h = (0, c, h)"
| "ctx_reads (f # fs) c h =
     (case f c h of (rv, c, h) \<Rightarrow> if rv < 0 then (qdma_get_error_code rv, c, h) else ctx_reads fs c h)"

definition qdma_descq_context_read ::
    "'h qdma_hw_access \<Rightarrow> u32 \<Rightarrow> bool \<Rightarrow> queue_type_t \<Rightarrow> 'h \<Rightarrow> int \<times> qdma_descq_context \<times> 'h" where
  "qdma_descq_context_read hw qid_hw st q_type =
     (let q = ucast qid_hw; t = dir_of q_type in
      ctx_reads
        ((if q_type \<noteq> Q_CMPT then
            [ctx_fetch (qdma_sw_ctx_conf hw t q) cx_sw_ctxt (\<lambda>v. cx_sw_ctxt_update (\<lambda>_. v)),
             ctx_fetch (qdma_hw_ctx_conf hw t q) cx_hw_ctxt (\<lambda>v. cx_hw_ctxt_update (\<lambda>_. v)),
             ctx_fetch (qdma_credit_ctx_conf hw t q) cx_cr_ctxt (\<lambda>v. cx_cr_ctxt_update (\<lambda>_. v))] @
            (if st \<and> t \<noteq> 0 then [ctx_fetch (qdma_pfetch_ctx_conf hw q) cx_pfetch_ctxt (\<lambda>v. cx_pfetch_ctxt_update (\<lambda>_. v))] else [])
          else []) @
         (if has_cmpt st q_type then [ctx_fetch (qdma_cmpt_ctx_conf hw q) cx_cmpt_ctxt (\<lambda>v. cx_cmpt_ctxt_update (\<lambda>_. v))] else []))
        cleared_context)"

section \<open>Interrupt rings\<close>

definition intr_write :: "'h qdma_hw_access \<Rightarrow> u32 \<Rightarrow> qdma_indirect_intr_ctxt \<Rightarrow> 'h \<Rightarrow> int \<times> 'h" where
  "intr_write hw ring_index c = ctx_call (qdma_indirect_intr_ctx_conf hw (ucast ring_index) (Some c) QDMA_HW_ACCESS_WRITE)"

definition qdma_prog_intr_context ::
    "'h qdma_hw_access \<Rightarrow> (u32 \<times> qdma_indirect_intr_ctxt) list \<Rightarrow> 'h \<Rightarrow> int \<times> 'h" where
  "qdma_prog_intr_context hw rings = ctx_steps (map (\<lambda>(ring_index, c). intr_write hw ring_index c) rings)"

definition qdma_intr_context_setup ::
    "'h qdma_hw_access \<Rightarrow> qdma_drv_mode \<Rightarrow> xdev_info \<Rightarrow> u8 \<Rightarrow> intr_coal_conf list \<Rightarrow> 'h \<Rightarrow> int \<times> 'h" where
  "qdma_intr_context_setup hw mode xdev intr_rngsz intr_coal_list h =
     (if \<not> aggregates mode then (0, h)
      else case make_intr_context mode xdev intr_rngsz intr_coal_list of
        Inl rv \<Rightarrow> (rv, h)
      | Inr ctxt \<Rightarrow> ctx_steps (concat (map (\<lambda>i.
          let ring_index = get_intr_ring_index xdev (of_nat i + xd_dvec_start_idx xdev) in
          [ctx_call (qdma_indirect_intr_ctx_conf hw (ucast ring_index) None QDMA_HW_ACCESS_CLEAR), intr_write hw ring_index (ctxt ! i)])
          [0..<QDMA_NUM_DATA_VEC_FOR_INTR_CXT])) h)"

definition qdma_intr_context_read ::
    "'h qdma_hw_access \<Rightarrow> u32 \<Rightarrow> 'h \<Rightarrow> int \<times> qdma_indirect_intr_ctxt \<times> 'h" where
  "qdma_intr_context_read hw ring_index h =
     (let c = intr_ctxt_of (replicate 12 0) in
      case qdma_indirect_intr_ctx_conf hw (ucast ring_index) (Some c) QDMA_HW_ACCESS_READ h of (rv, out, h) \<Rightarrow>
        (if rv < 0 then qdma_get_error_code rv else 0, case out of None \<Rightarrow> c | Some v \<Rightarrow> v, h))"

end
