(* ===== verification/Qdma_Queue_Context_Props.thy ===== *)
theory Qdma_Queue_Context_Props
  imports Qdma_Queue_Context Eqdma_Context_Props Qdma_Descq_Example
begin

text \<open>
  What the context functions of \<open>qdma_context.c\<close> do to the context memory of an enhanced QDMA: after a queue
  is set up, the card holds the contexts that describe it, and no other queue is touched.
\<close>

section \<open>The table of the enhanced QDMA\<close>

definition eqdma_table :: "'h bus \<Rightarrow> 'h qdma_hw_access \<Rightarrow> bool" where
  "eqdma_table b hw \<longleftrightarrow> qdma_sw_ctx_conf hw = eqdma_sw_ctx_conf b \<and> qdma_hw_ctx_conf hw = eqdma_hw_ctx_conf b \<and>
     qdma_credit_ctx_conf hw = eqdma_credit_ctx_conf b \<and> qdma_pfetch_ctx_conf hw = eqdma_pfetch_ctx_conf b \<and>
     qdma_cmpt_ctx_conf hw = eqdma_cmpt_ctx_conf b"

abbreviation eqdma_device :: "'h bus \<Rightarrow> ('h \<Rightarrow> ctxt_card) \<Rightarrow> bool" where
  "eqdma_device b view \<equiv>
     context_device b EQDMA_IND_CTXT_DATA_ADDR EQDMA_IND_CTXT_CMD_ADDR QDMA_IND_CTXT_DATA_NUM_REGS view"

section \<open>Effects of calls on the context memory\<close>

type_synonym ctxt_ram = "ind_ctxt_cmd_sel \<Rightarrow> nat \<Rightarrow> nat \<Rightarrow> u32"

definition effect :: "('h \<Rightarrow> ctxt_card) \<Rightarrow> (ctxt_ram \<Rightarrow> ctxt_ram \<Rightarrow> bool) \<Rightarrow> ('h \<Rightarrow> int \<times> 'h) \<Rightarrow> bool" where
  "effect view E f \<longleftrightarrow> (\<forall>h. \<exists>h'. f h = (0, h') \<and> E (card_ram (view h)) (card_ram (view h')))"

definition zeroes :: "ind_ctxt_cmd_sel \<Rightarrow> nat \<Rightarrow> ctxt_ram \<Rightarrow> ctxt_ram \<Rightarrow> bool" where
  "zeroes s q r r' \<longleftrightarrow> r' = r(s := (r s)(q := \<lambda>_. 0))"

definition stores :: "ind_ctxt_cmd_sel \<Rightarrow> nat \<Rightarrow> u32 list \<Rightarrow> ctxt_ram \<Rightarrow> ctxt_ram \<Rightarrow> bool" where
  "stores s q ws r r' \<longleftrightarrow> (\<exists>w. r' = r(s := (r s)(q := w)) \<and> map w [0..<length ws] = ws)"

lemma effectD: "effect view E f \<Longrightarrow> \<exists>h'. f h = (0, h') \<and> E (card_ram (view h)) (card_ram (view h'))"
  by (simp add: effect_def)

lemma effect_elim:
  assumes "effect view E f" and "\<And>r r'. E r r' \<Longrightarrow> P r r'"
  shows "\<exists>h'. f h = (0, h') \<and> P (card_ram (view h)) (card_ram (view h'))"
proof -
  obtain h' where "f h = (0, h')" "E (card_ram (view h)) (card_ram (view h'))" using effectD [OF assms(1)] by blast
  then show ?thesis using assms(2) by (intro exI [of _ h'] conjI)
qed

lemma steps_effect:
  assumes "list_all2 (effect view) Es fs"
  shows "effect view (foldr (OO) Es (=)) (ctx_steps fs)"
  using assms
proof (induction Es fs rule: list_all2_induct)
  case (Cons E Es f fs)
  show ?case
    unfolding effect_def
  proof
    fix h
    obtain h1 where 1: "f h = (0, h1)" "E (card_ram (view h)) (card_ram (view h1))" using effectD [OF Cons(1)] by blast
    obtain h2 where "ctx_steps fs h1 = (0, h2)" "foldr (OO) Es (=) (card_ram (view h1)) (card_ram (view h2))"
      using effectD [OF Cons.IH] by blast
    then show "\<exists>h'. ctx_steps (f # fs) h = (0, h') \<and> foldr (OO) (E # Es) (=) (card_ram (view h)) (card_ram (view h'))"
      using 1 by auto
  qed
qed (simp add: effect_def)

text \<open>Reading stores what the entry decodes to.\<close>

definition reveals :: "('h \<Rightarrow> ctxt_card) \<Rightarrow> (ctxt_ram \<Rightarrow> 'c \<Rightarrow> 'c) \<Rightarrow> ('c \<Rightarrow> 'h \<Rightarrow> int \<times> 'c \<times> 'h) \<Rightarrow> bool" where
  "reveals view g f \<longleftrightarrow> (\<forall>c h. \<exists>h'. f c h = (0, g (card_ram (view h)) c, h') \<and> card_ram (view h') = card_ram (view h))"

lemma reads_reveal:
  assumes "list_all2 (reveals view) gs fs"
  shows "\<exists>h'. ctx_reads fs c h = (0, fold (\<lambda>g. g (card_ram (view h))) gs c, h') \<and> card_ram (view h') = card_ram (view h)"
  using assms
proof (induction gs fs arbitrary: c h rule: list_all2_induct)
  case (Cons g gs f fs)
  obtain h1 where 1: "f c h = (0, g (card_ram (view h)) c, h1)" "card_ram (view h1) = card_ram (view h)"
    using Cons(1) unfolding reveals_def by blast
  obtain h2 where "ctx_reads fs (g (card_ram (view h)) c) h1 = (0, fold (\<lambda>g. g (card_ram (view h1))) gs (g (card_ram (view h)) c), h2)"
    "card_ram (view h2) = card_ram (view h1)"
    using Cons.IH by blast
  then show ?case using 1 by simp
qed simp

context context_reader
begin

lemma clear_effect:
  assumes "context_device b dat cmd regs view" and "ok i"
  shows "effect view (zeroes (sel i) (ctxt_index (qid i))) (ctx_call (conf b i c QDMA_HW_ACCESS_CLEAR))"
  unfolding effect_def zeroes_def
proof
  fix h
  show "\<exists>h'. ctx_call (conf b i c QDMA_HW_ACCESS_CLEAR) h = (0, h') \<and> card_ram (view h') =
      (card_ram (view h))(sel i := (card_ram (view h) (sel i))(ctxt_index (qid i) := \<lambda>_. 0))"
    using clears_entry [OF assms, of c h] by (auto simp: ctx_call_def)
qed

lemma fetch_reveals:
  assumes "context_device b dat cmd regs view" and "ok i"
  shows "reveals view (\<lambda>r c. put (decode (map (r (sel i) (ctxt_index (qid i))) [0..<words]) (get c)) c) (ctx_fetch (conf b i) get put)"
  unfolding reveals_def
proof (intro allI)
  fix c h
  show "\<exists>h'. ctx_fetch (conf b i) get put c h =
      (0, put (decode (map (card_ram (view h) (sel i) (ctxt_index (qid i))) [0..<words]) (get c)) c, h') \<and>
      card_ram (view h') = card_ram (view h)"
    using reads_entry [OF assms, of "get c" h] by (auto simp: ctx_fetch_def)
qed

end

context context_writer
begin

lemma write_effect:
  assumes "context_device b dat cmd regs view" and "ok i" and "accepts c"
  shows "effect view (stores (sel i) (ctxt_index (qid i)) (encode c)) (ctx_call (conf b i (Some c) QDMA_HW_ACCESS_WRITE))"
  unfolding effect_def stores_def
proof
  fix h
  show "\<exists>h'. ctx_call (conf b i (Some c) QDMA_HW_ACCESS_WRITE) h = (0, h') \<and>
      (\<exists>w. card_ram (view h') = (card_ram (view h))(sel i := (card_ram (view h) (sel i))(ctxt_index (qid i) := w)) \<and>
        map w [0..<length (encode c)] = encode c)"
    using writes_entry [OF assms, of h] by (auto simp: ctx_call_def encode_length)
qed

end

section \<open>What is composed fits the format\<close>

definition queue_vec :: "qdma_drv_mode \<Rightarrow> xdev_info \<Rightarrow> qdma_descq \<Rightarrow> u16" where
  "queue_vec mode xdev d = (if aggregates mode then ucast (get_intr_ring_index xdev (dq_intr_id d)) else ucast (dq_intr_id d))"

lemma cut_flag [simp]: "0 < n \<Longrightarrow> take_bit n (of_bool p :: 'a::len word) = of_bool p"
  by (cases p; cases n) simp_all

lemma cut_nibble: "take_bit 4 (ucast (x :: 4 word) :: u8) = ucast x" "take_bit 2 (ucast (y :: 2 word) :: u8) = ucast y"
  "take_bit 3 (ucast (z :: 3 word) :: u8) = ucast z"
  by (rule bit_word_eqI; auto simp: bit_simps dest: bit_imp_le_length)+

lemma cut_not_flag: "take_bit 1 (NOT (of_bool p :: u8)) = of_bool (\<not> p)"
  by (cases p) simp_all

lemma cut_small: "unat (v :: u16) < 2048 \<Longrightarrow> take_bit 11 v = v"
  by (simp add: word_unat_eq_iff unsigned_take_bit_eq take_bit_nat_eq_self)

lemma composed_fits_pfetch: "eqdma_pfetch_kept (make_prefetch_context d) old = make_prefetch_context d"
  by (simp add: eqdma_pfetch_kept_def make_prefetch_context_def prefetch_ctxt_of_def cut_nibble)

lemma zero_sw_fields: "sw_ctxt_of (replicate 33 0) = \<lparr>sw_ring_bs_addr = 0, sw_vec = 0, sw_pidx = 0, sw_irq_arm = 0, sw_fnc_id = 0,
    sw_qen = 0, sw_frcd_en = 0, sw_wbi_chk = 0, sw_wbi_intvl_en = 0, sw_at = 0, sw_fetch_max = 0, sw_rngsz_idx = 0,
    sw_desc_sz = 0, sw_bypass = 0, sw_mm_chn = 0, sw_wbk_en = 0, sw_irq_en = 0, sw_port_id = 0, sw_irq_no_last = 0,
    sw_err = 0, sw_err_wb_sent = 0, sw_irq_req = 0, sw_mrkr_dis = 0, sw_is_mm = 0, sw_intr_aggr = 0, sw_pasid_en = 0,
    sw_dis_intr_on_vf = 0, sw_virtio_en = 0, sw_pack_byp_out = 0, sw_irq_byp = 0, sw_host_id = 0, sw_pasid = 0,
    sw_virtio_dsc_base = 0\<rparr>"
  by (simp add: sw_ctxt_of_def)

lemma zero_cmpt_fields: "cmpt_ctxt_of (replicate 30 0) = \<lparr>cm_bs_addr = 0, cm_vec = 0, cm_pidx = 0, cm_cidx = 0, cm_en_stat_desc = 0,
    cm_en_int = 0, cm_trig_mode = 0, cm_fnc_id = 0, cm_counter_idx = 0, cm_timer_idx = 0, cm_in_st = 0, cm_color = 0,
    cm_ringsz_idx = 0, cm_desc_sz = 0, cm_valid = 0, cm_err = 0, cm_user_trig_pend = 0, cm_timer_running = 0,
    cm_full_upd = 0, cm_ovf_chk_dis = 0, cm_at = 0, cm_int_aggr = 0, cm_dis_intr_on_vf = 0, cm_vio = 0, cm_dir_c2h = 0,
    cm_host_id = 0, cm_pasid = 0, cm_pasid_en = 0, cm_vio_eop = 0, cm_sh_cmpt = 0\<rparr>"
  by (simp add: cmpt_ctxt_of_def)

lemma composed_fits_sw:
  assumes "unat (queue_vec mode xdev d) < 2048"
  shows "eqdma_sw_kept (make_sw_context mode xdev d) old = (make_sw_context mode xdev d)\<lparr>sw_is_mm := flag (\<not> qc_st (dq_conf d))\<rparr>"
proof -
  note v = cut_small [OF assms]
  define c where "c = make_sw_context mode xdev d"
  have f: "sw_vec c = queue_vec mode xdev d" "sw_is_mm c = NOT (flag (qc_st (dq_conf d)))"
    "sw_irq_arm c \<in> {0, 1}" "sw_qen c = 1" "sw_frcd_en c \<in> {0, 1}" "sw_wbi_chk c \<in> {0, 1}" "sw_wbi_intvl_en c \<in> {0, 1}"
    "sw_rngsz_idx c = ucast (qc_desc_rng_sz_idx (dq_conf d))" "sw_desc_sz c \<in> {0, 1, 2, 3}" "sw_bypass c \<in> {0, 1}"
    "sw_mm_chn c \<in> {0, 1}" "sw_wbk_en c \<in> {0, 1}" "sw_irq_en c \<in> {0, 1}" "sw_mrkr_dis c \<in> {0, 1}" "sw_intr_aggr c \<in> {0, 1}"
    "sw_at c = 0" "sw_fetch_max c = 0" "sw_port_id c = 0" "sw_irq_no_last c = 0" "sw_err c = 0" "sw_err_wb_sent c = 0"
    "sw_irq_req c = 0" "sw_pasid_en c = 0" "sw_dis_intr_on_vf c = 0" "sw_virtio_en c = 0" "sw_pack_byp_out c = 0"
    "sw_irq_byp c = 0" "sw_host_id c = 0" "sw_pasid c = 0" "sw_virtio_dsc_base c = 0"
    by (auto simp: c_def make_sw_context_def Let_def zero_sw_fields queue_vec_def DESC_SZ_8B_def DESC_SZ_16B_def
        DESC_SZ_32B_def DESC_SZ_64B_def split: if_splits)
  have b: "x \<in> {0, 1} \<Longrightarrow> take_bit 1 x = x" "y \<in> {0, 1, 2, 3} \<Longrightarrow> take_bit 2 y = y" for x y :: u8
    by (auto simp: take_bit_eq_mod)
  have "eqdma_sw_kept c old = c\<lparr>sw_is_mm := flag (\<not> qc_st (dq_conf d))\<rparr>"
    unfolding eqdma_sw_kept_def b(1) [OF f(3)] b(1) [OF f(5)] b(1) [OF f(6)] b(1) [OF f(7)] b(2) [OF f(9)] b(1) [OF f(10)]
      b(1) [OF f(11)] b(1) [OF f(12)] b(1) [OF f(13)] b(1) [OF f(14)] b(1) [OF f(15)]
    by (rule qdma_descq_sw_ctxt.equality) (simp_all add: f(1,2,4,8,16-) v cut_nibble cut_not_flag)
  then show ?thesis by (simp add: c_def)
qed

lemma composed_fits_cmpt:
  assumes "unat (queue_vec mode xdev d) < 2048" and "take_bit 2 (dq_desc_cmpt_bus d) = 0"
  shows "eqdma_cmpt_kept (make_cmpt_context mode xdev d) old = make_cmpt_context mode xdev d"
proof -
  note v = cut_small [OF assms(1)]
  define c where "c = make_cmpt_context mode xdev d"
  have "push_bit 2 (drop_bit 2 (dq_desc_cmpt_bus d)) = dq_desc_cmpt_bus d"
    using assms(2) bits_ident [of 2 "dq_desc_cmpt_bus d"] by simp
  moreover have "cm_vec c = queue_vec mode xdev d" "cm_bs_addr c = dq_desc_cmpt_bus d"
    by (simp_all add: c_def make_cmpt_context_def Let_def queue_vec_def)
  ultimately have "eqdma_cmpt_kept c old = c"
    by (intro qdma_descq_cmpt_ctxt.equality) (simp_all add: eqdma_cmpt_kept_def v, simp_all add: c_def make_cmpt_context_def Let_def zero_cmpt_fields cut_nibble)
  then show ?thesis by (simp add: c_def)
qed

section \<open>Setting up a queue\<close>

lemma table_effects:
  assumes dev: "eqdma_device b view" and hw: "eqdma_table b hw"
  shows "effect view (zeroes (sw_sel (t, q)) (ctxt_index q)) (ctx_call (qdma_sw_ctx_conf hw t q None QDMA_HW_ACCESS_CLEAR))"
    and "t \<le> 1 \<Longrightarrow> effect view (zeroes (hw_sel (t, q)) (ctxt_index q)) (ctx_call (qdma_hw_ctx_conf hw t q None QDMA_HW_ACCESS_CLEAR))"
    and "t \<le> 1 \<Longrightarrow> effect view (zeroes (cr_sel (t, q)) (ctxt_index q)) (ctx_call (qdma_credit_ctx_conf hw t q None QDMA_HW_ACCESS_CLEAR))"
    and "effect view (zeroes QDMA_CTXT_SEL_PFTCH (ctxt_index q)) (ctx_call (qdma_pfetch_ctx_conf hw q None QDMA_HW_ACCESS_CLEAR))"
    and "effect view (zeroes QDMA_CTXT_SEL_CMPT (ctxt_index q)) (ctx_call (qdma_cmpt_ctx_conf hw q None QDMA_HW_ACCESS_CLEAR))"
    and "effect view (stores (sw_sel (t, q)) (ctxt_index q) (eqdma_sw_context_words sw))
      (ctx_call (qdma_sw_ctx_conf hw t q (Some sw) QDMA_HW_ACCESS_WRITE))"
    and "effect view (stores QDMA_CTXT_SEL_PFTCH (ctxt_index q) (eqdma_pfetch_context_words pc))
      (ctx_call (qdma_pfetch_ctx_conf hw q (Some pc) QDMA_HW_ACCESS_WRITE))"
    and "unat (cm_trig_mode cm) \<le> QDMA_CMPT_UPDATE_TRIG_MODE_TMR_CNTR \<Longrightarrow>
      effect view (stores QDMA_CTXT_SEL_CMPT (ctxt_index q) (eqdma_cmpt_context_words cm))
        (ctx_call (qdma_cmpt_ctx_conf hw q (Some cm) QDMA_HW_ACCESS_WRITE))"
  using hw eqdma_sw.clear_effect [OF dev, where i = "(t, q)" and c = None] eqdma_hw.clear_effect [OF dev, where i = "(t, q)" and c = None]
    eqdma_credit.clear_effect [OF dev, where i = "(t, q)" and c = None] eqdma_pfetch.clear_effect [OF dev, where i = q and c = None]
    eqdma_cmpt.clear_effect [OF dev, where i = q and c = None] eqdma_sw.write_effect [OF dev, where i = "(t, q)" and c = sw]
    eqdma_pfetch.write_effect [OF dev, where i = q and c = pc] eqdma_cmpt.write_effect [OF dev, where i = q and c = cm]
  by (simp_all add: eqdma_table_def)

lemma table_reveals:
  assumes dev: "eqdma_device b view" and hw: "eqdma_table b hw"
  shows "reveals view (\<lambda>r c. put (eqdma_sw_context_of (map (r (sw_sel (t, q)) (ctxt_index q)) [0..<8]) (get c)) c)
      (ctx_fetch (qdma_sw_ctx_conf hw t q) get put)"
    and "t \<le> 1 \<Longrightarrow> reveals view (\<lambda>r c. put2 (eqdma_hw_context_of (map (r (hw_sel (t, q)) (ctxt_index q)) [0..<EQDMA_HW_CONTEXT_NUM_WORDS]) (get2 c)) c)
      (ctx_fetch (qdma_hw_ctx_conf hw t q) get2 put2)"
    and "t \<le> 1 \<Longrightarrow> reveals view (\<lambda>r c. put3 (eqdma_credit_context_of (map (r (cr_sel (t, q)) (ctxt_index q)) [0..<EQDMA_CR_CONTEXT_NUM_WORDS]) (get3 c)) c)
      (ctx_fetch (qdma_credit_ctx_conf hw t q) get3 put3)"
    and "reveals view (\<lambda>r c. put4 (eqdma_pfetch_context_of (map (r QDMA_CTXT_SEL_PFTCH (ctxt_index q)) [0..<2]) (get4 c)) c)
      (ctx_fetch (qdma_pfetch_ctx_conf hw q) get4 put4)"
    and "reveals view (\<lambda>r c. put5 (eqdma_cmpt_context_of (map (r QDMA_CTXT_SEL_CMPT (ctxt_index q)) [0..<6]) (get5 c)) c)
      (ctx_fetch (qdma_cmpt_ctx_conf hw q) get5 put5)"
  using hw eqdma_sw.fetch_reveals [OF dev, where i = "(t, q)" and put = put and get = get] eqdma_hw.fetch_reveals [OF dev, where i = "(t, q)" and put = put2 and get = get2]
    eqdma_credit.fetch_reveals [OF dev, where i = "(t, q)" and put = put3 and get = get3] eqdma_pfetch.fetch_reveals [OF dev, where i = q and put = put4 and get = get4]
    eqdma_cmpt.fetch_reveals [OF dev, where i = q and put = put5 and get = get5]
  by (simp_all add: eqdma_table_def EQDMA_SW_CONTEXT_NUM_WORDS_def EQDMA_PFETCH_CONTEXT_NUM_WORDS_def EQDMA_CMPT_CONTEXT_NUM_WORDS_def)

lemma sels_differ: "sw_sel i \<noteq> hw_sel i" "sw_sel i \<noteq> cr_sel i" "hw_sel i \<noteq> cr_sel i" "hw_sel i \<noteq> sw_sel i" "cr_sel i \<noteq> sw_sel i" "cr_sel i \<noteq> hw_sel i"
  "sw_sel i \<noteq> QDMA_CTXT_SEL_PFTCH" "hw_sel i \<noteq> QDMA_CTXT_SEL_PFTCH" "cr_sel i \<noteq> QDMA_CTXT_SEL_PFTCH"
  "sw_sel i \<noteq> QDMA_CTXT_SEL_CMPT" "hw_sel i \<noteq> QDMA_CTXT_SEL_CMPT" "cr_sel i \<noteq> QDMA_CTXT_SEL_CMPT"
  by (simp_all add: sw_sel_def hw_sel_def cr_sel_def)

lemma zero_decodes:
  "eqdma_hw_context_of (replicate EQDMA_HW_CONTEXT_NUM_WORDS 0) (hw_ctxt_of (replicate 6 0)) = hw_ctxt_of (replicate 6 0)"
  "eqdma_credit_context_of (replicate EQDMA_CR_CONTEXT_NUM_WORDS 0) (credit_ctxt_of [0]) = credit_ctxt_of [0]"
  by (simp_all add: eqdma_hw_context_of_def eqdma_credit_context_of_def hw_ctxt_of_def credit_ctxt_of_def
      EQDMA_HW_CONTEXT_NUM_WORDS_def EQDMA_CR_CONTEXT_NUM_WORDS_def FIELD_GET_def)

lemma program_effect:
  assumes clear: "effect view E1 (qdma_descq_context_clear hw qid_hw st q_type True)" and no_vec: "qid2vec_ctx (xd_dev_cap xdev) = 0"
    and steps: "effect view E2 (ctx_steps
      ((if q_type \<noteq> Q_CMPT then
          [ctx_call (qdma_sw_ctx_conf hw (dir_of q_type) (ucast qid_hw) (Some (cx_sw_ctxt c)) QDMA_HW_ACCESS_WRITE)] @
          (if st \<and> dir_of q_type \<noteq> 0
           then [ctx_call (qdma_pfetch_ctx_conf hw (ucast qid_hw) (Some (cx_pfetch_ctxt c)) QDMA_HW_ACCESS_WRITE)] else []) else []) @
       (if has_cmpt st q_type then [ctx_call (qdma_cmpt_ctx_conf hw (ucast qid_hw) (Some (cx_cmpt_ctxt c)) QDMA_HW_ACCESS_WRITE)] else [])))"
  shows "effect view (E1 OO E2) (qdma_descq_context_program hw q2v mode xdev qid_hw st q_type c)"
  unfolding effect_def
proof
  fix h
  obtain h1 where 1: "qdma_descq_context_clear hw qid_hw st q_type True h = (0, h1)" "E1 (card_ram (view h)) (card_ram (view h1))"
    using effectD [OF clear] by blast
  obtain h2 where 2: "ctx_steps
      ((if q_type \<noteq> Q_CMPT then
          [ctx_call (qdma_sw_ctx_conf hw (dir_of q_type) (ucast qid_hw) (Some (cx_sw_ctxt c)) QDMA_HW_ACCESS_WRITE)] @
          (if st \<and> dir_of q_type \<noteq> 0
           then [ctx_call (qdma_pfetch_ctx_conf hw (ucast qid_hw) (Some (cx_pfetch_ctxt c)) QDMA_HW_ACCESS_WRITE)] else []) else []) @
       (if has_cmpt st q_type then [ctx_call (qdma_cmpt_ctx_conf hw (ucast qid_hw) (Some (cx_cmpt_ctxt c)) QDMA_HW_ACCESS_WRITE)] else [])) h1 =
      (0, h2)" "E2 (card_ram (view h1)) (card_ram (view h2))"
    using effectD [OF steps, of h1] by blast
  have "qdma_descq_context_program hw q2v mode xdev qid_hw st q_type c h = (0, h2)"
    unfolding qdma_descq_context_program_def Let_def 1(1) prod.case
    by (simp only: no_vec less_irrefl if_False not_False_eq_True simp_thms append_Nil 2(1))
  then show "\<exists>h'. qdma_descq_context_program hw q2v mode xdev qid_hw st q_type c h = (0, h') \<and>
      (E1 OO E2) (card_ram (view h)) (card_ram (view h'))"
    using 1(2) 2(2) by blast
qed

lemmas step_lists = steps_effect [where Es = "[_]", simplified] steps_effect [where Es = "[_, _, _]", simplified]
  steps_effect [where Es = "[_, _, _, _, _]", simplified]

lemmas setup_defs = qdma_descq_context_clear_def setup_context_def has_cmpt_def Let_def dir_of_def

text \<open>The three kinds of queue: with descriptors only, streaming to the host, completions only.\<close>

lemma setup_effect:
  assumes dev: "eqdma_device b view" and hw: "eqdma_table b hw" and no_vec: "qid2vec_ctx (xd_dev_cap xdev) = 0"
    and trig: "qc_cmpl_trig_mode (dq_conf d) \<le> 5"
  defines "q \<equiv> ctxt_index (ucast (dq_qidx_hw d))" and "i \<equiv> (dir_of (qc_q_type (dq_conf d)), ucast (dq_qidx_hw d))"
    and "st \<equiv> qc_st (dq_conf d)" and "t \<equiv> qc_q_type (dq_conf d)"
  shows "t = Q_H2C \<or> t = Q_C2H \<and> \<not> st \<Longrightarrow> effect view ((zeroes (sw_sel i) q OO zeroes (hw_sel i) q OO zeroes (cr_sel i) q OO (=)) OO
      stores (sw_sel i) q (eqdma_sw_context_words (make_sw_context mode xdev d)) OO (=)) (qdma_descq_context_setup hw q2v mode xdev d)"
    and "t = Q_C2H \<and> st \<Longrightarrow> effect view ((zeroes (sw_sel i) q OO zeroes (hw_sel i) q OO zeroes (cr_sel i) q OO
        zeroes QDMA_CTXT_SEL_PFTCH q OO zeroes QDMA_CTXT_SEL_CMPT q OO (=)) OO
      stores (sw_sel i) q (eqdma_sw_context_words (make_sw_context mode xdev d)) OO
      stores QDMA_CTXT_SEL_PFTCH q (eqdma_pfetch_context_words (make_prefetch_context d)) OO
      stores QDMA_CTXT_SEL_CMPT q (eqdma_cmpt_context_words (make_cmpt_context mode xdev d)) OO (=)) (qdma_descq_context_setup hw q2v mode xdev d)"
    and "t = Q_CMPT \<and> \<not> st \<Longrightarrow> effect view ((zeroes QDMA_CTXT_SEL_CMPT q OO (=)) OO
      stores QDMA_CTXT_SEL_CMPT q (eqdma_cmpt_context_words (make_cmpt_context mode xdev d)) OO (=)) (qdma_descq_context_setup hw q2v mode xdev d)"
proof -
  have trig': "unat (cm_trig_mode (make_cmpt_context mode xdev d)) \<le> QDMA_CMPT_UPDATE_TRIG_MODE_TMR_CNTR"
  proof -
    have "unat (qc_cmpl_trig_mode (dq_conf d)) < 2 ^ 3" using unsigned_less [of "qc_cmpl_trig_mode (dq_conf d)", where 'a = nat] by simp
    then have "unat (ucast (qc_cmpl_trig_mode (dq_conf d)) :: u8) = unat (qc_cmpl_trig_mode (dq_conf d))"
      unfolding unsigned_ucast_eq by (intro take_bit_nat_eq_self) simp
    then show ?thesis using trig
      by (simp add: make_cmpt_context_def Let_def QDMA_CMPT_UPDATE_TRIG_MODE_TMR_CNTR_def word_le_nat_alt)
  qed
  note effects = table_effects [OF dev hw, where q = "ucast (dq_qidx_hw d)", folded q_def]
  show "effect view ((zeroes (sw_sel i) q OO zeroes (hw_sel i) q OO zeroes (cr_sel i) q OO (=)) OO
      stores (sw_sel i) q (eqdma_sw_context_words (make_sw_context mode xdev d)) OO (=)) (qdma_descq_context_setup hw q2v mode xdev d)"
    if k: "t = Q_H2C \<or> t = Q_C2H \<and> \<not> st"
    unfolding qdma_descq_context_setup_def
    by (rule program_effect [OF _ no_vec])
      (use k effects trig' in \<open>auto simp: setup_defs t_def st_def i_def intro!: step_lists\<close>)
  show "effect view ((zeroes (sw_sel i) q OO zeroes (hw_sel i) q OO zeroes (cr_sel i) q OO
        zeroes QDMA_CTXT_SEL_PFTCH q OO zeroes QDMA_CTXT_SEL_CMPT q OO (=)) OO
      stores (sw_sel i) q (eqdma_sw_context_words (make_sw_context mode xdev d)) OO
      stores QDMA_CTXT_SEL_PFTCH q (eqdma_pfetch_context_words (make_prefetch_context d)) OO
      stores QDMA_CTXT_SEL_CMPT q (eqdma_cmpt_context_words (make_cmpt_context mode xdev d)) OO (=)) (qdma_descq_context_setup hw q2v mode xdev d)"
    if k: "t = Q_C2H \<and> st"
    unfolding qdma_descq_context_setup_def
    by (rule program_effect [OF _ no_vec])
      (use k effects trig' in \<open>auto simp: setup_defs t_def st_def i_def intro!: step_lists\<close>)
  show "effect view ((zeroes QDMA_CTXT_SEL_CMPT q OO (=)) OO
      stores QDMA_CTXT_SEL_CMPT q (eqdma_cmpt_context_words (make_cmpt_context mode xdev d)) OO (=)) (qdma_descq_context_setup hw q2v mode xdev d)"
    if k: "t = Q_CMPT \<and> \<not> st"
    unfolding qdma_descq_context_setup_def
    by (rule program_effect [OF _ no_vec])
      (use k effects trig' in \<open>auto simp: setup_defs t_def st_def i_def intro!: step_lists\<close>)
qed

lemma read_lists: "reveals view g f \<Longrightarrow> \<exists>h'. ctx_reads [f] c h = (0, g (card_ram (view h)) c, h') \<and> card_ram (view h') = card_ram (view h)"
  "reveals view g f \<Longrightarrow> reveals view g1 f1 \<Longrightarrow> reveals view g2 f2 \<Longrightarrow> \<exists>h'. ctx_reads [f, f1, f2] c h =
    (0, g2 (card_ram (view h)) (g1 (card_ram (view h)) (g (card_ram (view h)) c)), h') \<and> card_ram (view h') = card_ram (view h)"
  "reveals view g f \<Longrightarrow> reveals view g1 f1 \<Longrightarrow> reveals view g2 f2 \<Longrightarrow> reveals view g3 f3 \<Longrightarrow> reveals view g4 f4 \<Longrightarrow>
    \<exists>h'. ctx_reads [f, f1, f2, f3, f4] c h = (0, g4 (card_ram (view h)) (g3 (card_ram (view h)) (g2 (card_ram (view h))
      (g1 (card_ram (view h)) (g (card_ram (view h)) c)))), h') \<and> card_ram (view h') = card_ram (view h)"
  using reads_reveal [where gs = "[g]" and fs = "[f]"] reads_reveal [where gs = "[g, g1, g2]" and fs = "[f, f1, f2]"]
    reads_reveal [where gs = "[g, g1, g2, g3, g4]" and fs = "[f, f1, f2, f3, f4]"]
  by simp_all

text \<open>Where the contexts of a queue are, and what a queue set up holds there.\<close>

definition holds_context :: "qdma_drv_mode \<Rightarrow> xdev_info \<Rightarrow> qdma_descq \<Rightarrow> ctxt_ram \<Rightarrow> bool" where
  "holds_context mode xdev d r \<longleftrightarrow>
     (let q = ctxt_index (ucast (dq_qidx_hw d)); t = qc_q_type (dq_conf d); st = qc_st (dq_conf d); i = (dir_of t, ucast (dq_qidx_hw d)) in
      (t \<noteq> Q_CMPT \<longrightarrow> map (r (sw_sel i) q) [0..<8] = eqdma_sw_context_words (make_sw_context mode xdev d) \<and>
         r (hw_sel i) q = (\<lambda>_. 0) \<and> r (cr_sel i) q = (\<lambda>_. 0)) \<and>
      (t = Q_C2H \<and> st \<longrightarrow> map (r QDMA_CTXT_SEL_PFTCH q) [0..<2] = eqdma_pfetch_context_words (make_prefetch_context d)) \<and>
      (has_cmpt st t \<longrightarrow> map (r QDMA_CTXT_SEL_CMPT q) [0..<6] = eqdma_cmpt_context_words (make_cmpt_context mode xdev d)))"

lemma setup_holds:
  assumes dev: "eqdma_device b view" and hw: "eqdma_table b hw" and no_vec: "qid2vec_ctx (xd_dev_cap xdev) = 0"
    and trig: "qc_cmpl_trig_mode (dq_conf d) \<le> 5" and kind: "qc_q_type (dq_conf d) \<noteq> Q_H2C_C2H"
    and "\<not> (qc_q_type (dq_conf d) = Q_CMPT \<and> qc_st (dq_conf d))"
  shows "\<exists>h1. qdma_descq_context_setup hw q2v mode xdev d h = (0, h1) \<and> holds_context mode xdev d (card_ram (view h1)) \<and>
    (\<forall>s q. q \<noteq> ctxt_index (ucast (dq_qidx_hw d)) \<longrightarrow> card_ram (view h1) s q = card_ram (view h) s q)"
proof -
  let ?P = "\<lambda>r r'. holds_context mode xdev d r' \<and> (\<forall>s q. q \<noteq> ctxt_index (ucast (dq_qidx_hw d)) \<longrightarrow> r' s q = r s q)"
  note setups = setup_effect [OF dev hw no_vec trig, THEN effect_elim [where P = ?P]]
  consider "qc_q_type (dq_conf d) = Q_H2C \<or> qc_q_type (dq_conf d) = Q_C2H \<and> \<not> qc_st (dq_conf d)"
    | "qc_q_type (dq_conf d) = Q_C2H \<and> qc_st (dq_conf d)" | "qc_q_type (dq_conf d) = Q_CMPT \<and> \<not> qc_st (dq_conf d)"
    using assms(5,6) by (cases "qc_q_type (dq_conf d)") auto
  then show ?thesis
  proof cases
    case 1
    show ?thesis
      by (rule setups(1) [OF 1]) (use 1 in \<open>auto simp: holds_context_def Let_def zeroes_def stores_def sels_differ has_cmpt_def\<close>)
  next
    case 2
    show ?thesis
      by (rule setups(2) [OF 2]) (use 2 in \<open>auto simp: holds_context_def Let_def zeroes_def stores_def sels_differ has_cmpt_def\<close>)
  next
    case 3
    show ?thesis
      by (rule setups(3) [OF 3]) (use 3 in \<open>auto simp: holds_context_def Let_def zeroes_def stores_def sels_differ has_cmpt_def\<close>)
  qed
qed

text \<open>Reading them back.\<close>

lemma read_held:
  assumes dev: "eqdma_device b view" and hw: "eqdma_table b hw" and held: "holds_context mode xdev d (card_ram (view h))"
    and kind: "qc_q_type (dq_conf d) \<noteq> Q_H2C_C2H" and vec: "unat (queue_vec mode xdev d) < 2048"
    and addr: "take_bit 2 (dq_desc_cmpt_bus d) = 0"
  shows "\<exists>c h'. qdma_descq_context_read hw (dq_qidx_hw d) (qc_st (dq_conf d)) (qc_q_type (dq_conf d)) h = (0, c, h') \<and>
    (qc_q_type (dq_conf d) \<noteq> Q_CMPT \<longrightarrow>
      cx_sw_ctxt c = (make_sw_context mode xdev d)\<lparr>sw_is_mm := flag (\<not> qc_st (dq_conf d))\<rparr> \<and>
      cx_hw_ctxt c = hw_ctxt_of (replicate 6 0) \<and> cx_cr_ctxt c = credit_ctxt_of (replicate 1 0)) \<and>
    (qc_q_type (dq_conf d) = Q_C2H \<and> qc_st (dq_conf d) \<longrightarrow> cx_pfetch_ctxt c = make_prefetch_context d) \<and>
    (has_cmpt (qc_st (dq_conf d)) (qc_q_type (dq_conf d)) \<longrightarrow> cx_cmpt_ctxt c = make_cmpt_context mode xdev d)"
proof -
  let ?q = "ucast (dq_qidx_hw d)" and ?t = "qc_q_type (dq_conf d)" and ?st = "qc_st (dq_conf d)"
  note fits = composed_fits_sw [OF vec] composed_fits_pfetch composed_fits_cmpt [OF vec addr]
  note decode = eqdma_sw_decode eqdma_pfetch_decode eqdma_cmpt_decode fits
  have t: "?t \<noteq> Q_CMPT \<Longrightarrow> dir_of ?t \<le> 1" using kind by (cases ?t) (simp_all add: dir_of_def)
  have dir: "dir_of ?t \<noteq> 0 \<longleftrightarrow> ?t \<noteq> Q_H2C" using kind by (cases ?t) (simp_all add: dir_of_def)
  have z: "map (\<lambda>_. 0 :: u32) [0..<n] = replicate n 0" for n by (simp add: map_replicate_const)
  note reveal = table_reveals [OF dev hw, where q = ?q]
  note sw = reveal(1) [where t = "dir_of ?t" and get = cx_sw_ctxt and put = "\<lambda>v. cx_sw_ctxt_update (\<lambda>_. v)"]
    and hwc = reveal(2) [where ?t = "dir_of ?t" and ?get2.0 = cx_hw_ctxt and ?put2.0 = "\<lambda>v. cx_hw_ctxt_update (\<lambda>_. v)"]
    and cr = reveal(3) [where ?t = "dir_of ?t" and ?get3.0 = cx_cr_ctxt and ?put3.0 = "\<lambda>v. cx_cr_ctxt_update (\<lambda>_. v)"]
    and pf = reveal(4) [where ?get4.0 = cx_pfetch_ctxt and ?put4.0 = "\<lambda>v. cx_pfetch_ctxt_update (\<lambda>_. v)"]
    and cm = reveal(5) [where ?get5.0 = cx_cmpt_ctxt and ?put5.0 = "\<lambda>v. cx_cmpt_ctxt_update (\<lambda>_. v)"]
  note read = qdma_descq_context_read_def Let_def has_cmpt_def
  note finish = holds_context_def Let_def decode z zero_decodes cleared_context_def
  consider "?t = Q_H2C \<or> ?t = Q_C2H \<and> \<not> ?st" | "?t = Q_C2H" "?st" | "?t = Q_CMPT" "\<not> ?st" | "?t = Q_CMPT" "?st"
    using kind by (cases ?t) auto
  then show ?thesis
  proof cases
    case 1
    then have r: "dir_of ?t \<le> 1" and n: "?t \<noteq> Q_CMPT" "\<not> (?st \<and> dir_of ?t \<noteq> 0)" "\<not> has_cmpt ?st ?t" "\<not> (?t = Q_C2H \<and> ?st)"
      using t dir by (auto simp: has_cmpt_def)
    show ?thesis
      using read_lists(2) [OF sw hwc [OF r] cr [OF r], where c = cleared_context and h = h] held n
      unfolding qdma_descq_context_read_def Let_def by (auto simp: finish)
  next
    case 2
    then have r: "dir_of ?t \<le> 1" and n: "?st \<and> dir_of ?t \<noteq> 0" "has_cmpt ?st ?t" using t dir by (auto simp: has_cmpt_def)
    show ?thesis
      using read_lists(3) [OF sw hwc [OF r] cr [OF r] pf cm, where c = cleared_context and h = h] held n 2
      unfolding qdma_descq_context_read_def Let_def by (auto simp: finish)
  next
    case 3
    then show ?thesis
      using read_lists(1) [OF cm, where c = cleared_context and h = h] held
      unfolding qdma_descq_context_read_def Let_def by (auto simp: finish has_cmpt_def)
  next
    case 4
    then show ?thesis by (simp add: read)
  qed
qed

text \<open>What the composed software context says of the queue.\<close>

definition desc_bytes_of :: "qdma_queue_conf \<Rightarrow> nat" where
  "desc_bytes_of conf = (if qc_desc_bypass conf \<and> qc_sw_desc_sz conf = 3 then 64 else if \<not> qc_st conf then 32
     else if qc_q_type conf = Q_C2H then 8 else 16)"

lemma unat_ucast_bits2: "unat (ucast (x :: 2 word) :: u8) = unat x"
proof -
  have "unat x < 2 ^ 2" using unsigned_less [of x, where 'a = nat] by simp
  then show ?thesis unfolding unsigned_ucast_eq by (intro take_bit_nat_eq_self) simp
qed

lemma composed_sw:
  "sw_ring_bs_addr (make_sw_context mode xdev d) = dq_desc_bus d" "sw_qen (make_sw_context mode xdev d) = 1"
  "sw_rngsz_idx (make_sw_context mode xdev d) = ucast (qc_desc_rng_sz_idx (dq_conf d))" "sw_pidx (make_sw_context mode xdev d) = 0"
  "sw_fnc_id (make_sw_context mode xdev d) = xd_func_id xdev" "sw_vec (make_sw_context mode xdev d) = queue_vec mode xdev d"
  "sw_irq_en (make_sw_context mode xdev d) = flag (qc_irq_en (dq_conf d) \<and> \<not> (qc_st (dq_conf d) \<and> qc_q_type (dq_conf d) = Q_C2H))"
  "sw_wbk_en (make_sw_context mode xdev d) = flag (qc_wb_status_en (dq_conf d) \<and> \<not> (qc_st (dq_conf d) \<and> qc_q_type (dq_conf d) = Q_C2H))"
  "2 ^ (unat (sw_desc_sz (make_sw_context mode xdev d)) + 3) = desc_bytes_of (dq_conf d)"
proof -
  have b: "(ucast (qc_sw_desc_sz (dq_conf d)) :: u8) = 3 \<longleftrightarrow> qc_sw_desc_sz (dq_conf d) = 3"
    by (simp add: word_unat_eq_iff unat_ucast_bits2)
  show "2 ^ (unat (sw_desc_sz (make_sw_context mode xdev d)) + 3) = desc_bytes_of (dq_conf d)"
    by (auto simp: make_sw_context_def Let_def desc_bytes_of_def b unat_ucast_bits2 DESC_SZ_8B_def DESC_SZ_16B_def DESC_SZ_32B_def
        DESC_SZ_64B_def)
qed (simp_all add: make_sw_context_def Let_def zero_sw_fields queue_vec_def)

text \<open>C31: Setting up a queue of an enhanced QDMA succeeds on every card that keeps the contract of the context registers,
  and what the driver then reads from the card describes the queue: where its ring is and its size index, how many
  bytes a descriptor has, its mode, function and vector, producer index zero, the hardware and credit contexts zero; for
  a queue with a completion ring the completion context, for streaming to the host the prefetch context, exactly as
  composed.  No entry of another queue changes.  The completion ring is aligned to four bytes, vectors have 11 bits.\<close>

theorem queue_context_programmed:
  assumes dev: "eqdma_device b view" and hw: "eqdma_table b hw" and no_vec: "qid2vec_ctx (xd_dev_cap xdev) = 0"
    and trig: "qc_cmpl_trig_mode (dq_conf d) \<le> 5" and kind: "qc_q_type (dq_conf d) \<noteq> Q_H2C_C2H"
    and st: "\<not> (qc_q_type (dq_conf d) = Q_CMPT \<and> qc_st (dq_conf d))"
    and vec: "unat (queue_vec mode xdev d) < 2048" and addr: "take_bit 2 (dq_desc_cmpt_bus d) = 0"
  shows "\<exists>h1 c h2. qdma_descq_context_setup hw q2v mode xdev d h = (0, h1) \<and>
    qdma_descq_context_read hw (dq_qidx_hw d) (qc_st (dq_conf d)) (qc_q_type (dq_conf d)) h1 = (0, c, h2) \<and>
    (qc_q_type (dq_conf d) \<noteq> Q_CMPT \<longrightarrow>
      sw_ring_bs_addr (cx_sw_ctxt c) = dq_desc_bus d \<and> sw_qen (cx_sw_ctxt c) = 1 \<and> sw_pidx (cx_sw_ctxt c) = 0 \<and>
      sw_rngsz_idx (cx_sw_ctxt c) = ucast (qc_desc_rng_sz_idx (dq_conf d)) \<and>
      2 ^ (unat (sw_desc_sz (cx_sw_ctxt c)) + 3) = desc_bytes_of (dq_conf d) \<and>
      sw_is_mm (cx_sw_ctxt c) = flag (\<not> qc_st (dq_conf d)) \<and> sw_fnc_id (cx_sw_ctxt c) = xd_func_id xdev \<and>
      sw_vec (cx_sw_ctxt c) = queue_vec mode xdev d \<and>
      sw_irq_en (cx_sw_ctxt c) = flag (qc_irq_en (dq_conf d) \<and> \<not> (qc_st (dq_conf d) \<and> qc_q_type (dq_conf d) = Q_C2H)) \<and>
      sw_wbk_en (cx_sw_ctxt c) = flag (qc_wb_status_en (dq_conf d) \<and> \<not> (qc_st (dq_conf d) \<and> qc_q_type (dq_conf d) = Q_C2H)) \<and>
      cx_hw_ctxt c = hw_ctxt_of (replicate 6 0) \<and> cx_cr_ctxt c = credit_ctxt_of (replicate 1 0)) \<and>
    (qc_q_type (dq_conf d) = Q_C2H \<and> qc_st (dq_conf d) \<longrightarrow> cx_pfetch_ctxt c = make_prefetch_context d) \<and>
    (has_cmpt (qc_st (dq_conf d)) (qc_q_type (dq_conf d)) \<longrightarrow> cx_cmpt_ctxt c = make_cmpt_context mode xdev d) \<and>
    (\<forall>s q. q \<noteq> ctxt_index (ucast (dq_qidx_hw d)) \<longrightarrow> card_ram (view h1) s q = card_ram (view h) s q)"
proof -
  obtain h1 where 1: "qdma_descq_context_setup hw q2v mode xdev d h = (0, h1)" "holds_context mode xdev d (card_ram (view h1))"
    "\<forall>s q. q \<noteq> ctxt_index (ucast (dq_qidx_hw d)) \<longrightarrow> card_ram (view h1) s q = card_ram (view h) s q"
    using setup_holds [OF dev hw no_vec trig kind st, of q2v mode h] by blast
  show ?thesis using read_held [OF dev hw 1(2) kind vec addr] 1(1,3) composed_sw [of mode xdev d] by fastforce
qed

text \<open>The result of a failing clear goes through the table of error codes twice: a card that stays busy is
  reported as an invalid argument, not as busy.\<close>

lemma busy_reported_invalid:
  assumes "\<And>h. fst (bus_read b EQDMA_IND_CTXT_CMD_ADDR h) AND 1 \<noteq> 0" and "eqdma_table b hw" and "q_type \<noteq> Q_CMPT"
  shows "fst (qdma_descq_context_clear hw qid_hw st q_type True h) = - EBUSY"
    and "fst (qdma_descq_context_program hw q2v mode xdev qid_hw st q_type c h) = - EINVAL_K"
proof -
  let ?c = "indirect_reg_command b EQDMA_IND_CTXT_CMD_ADDR QDMA_CTXT_CMD_CLR (sw_sel (dir_of q_type, ucast qid_hw)) (ucast qid_hw) h"
  have "eqdma_sw_ctx_conf b (dir_of q_type) (ucast qid_hw) None QDMA_HW_ACCESS_CLEAR h = (fst ?c, None, snd ?c)"
    using eqdma_sw.conf_clear [where i = "(dir_of q_type, ucast qid_hw)" and b = b and c = None and h = h]
    by (simp add: split_beta)
  moreover have "fst ?c = - err_code QDMA_ERR_HWACC_BUSY_TIMEOUT" by (rule indirect_stuck(1) [OF assms(1)])
  ultimately have "fst (ctx_call (eqdma_sw_ctx_conf b (dir_of q_type) (ucast qid_hw) None QDMA_HW_ACCESS_CLEAR) h) =
      - err_code QDMA_ERR_HWACC_BUSY_TIMEOUT" by (simp add: ctx_call_def)
  then have f: "fst (ctx_call (qdma_sw_ctx_conf hw (dir_of q_type) (ucast qid_hw) None QDMA_HW_ACCESS_CLEAR) h) =
      - err_code QDMA_ERR_HWACC_BUSY_TIMEOUT" using assms(2) by (simp add: eqdma_table_def)
  have head: "fst (f h) < 0 \<Longrightarrow> fst (ctx_steps (f # fs) h) = qdma_get_error_code (fst (f h))" for f fs
    by (simp add: split_beta)
  have codes: "qdma_get_error_code (- err_code QDMA_ERR_HWACC_BUSY_TIMEOUT) = - EBUSY" "qdma_get_error_code (- EBUSY) = - EINVAL_K"
    by (simp_all add: qdma_get_error_code_def error_code_map_list_def kernel_errors)
  show c: "fst (qdma_descq_context_clear hw qid_hw st q_type True h) = - EBUSY"
    unfolding qdma_descq_context_clear_def Let_def if_P [OF assms(3)] if_True append_Cons
    by (subst head) (simp_all only: f codes, simp)
  have "- EBUSY < 0" by (simp add: EBUSY_def)
  then show "fst (qdma_descq_context_program hw q2v mode xdev qid_hw st q_type c h) = - EINVAL_K"
    by (simp add: qdma_descq_context_program_def split_beta c codes)
qed

text \<open>A queue that streams to the host.\<close>

definition ex_c2h :: qdma_descq where
  "ex_c2h = ex_descq\<lparr>dq_conf := ex_conf\<lparr>qc_st := True, qc_q_type := Q_C2H, qc_cmpl_trig_mode := 1\<rparr>, dq_desc_cmpt_bus := 0x20000,
     dq_qidx_hw := 5, dq_intr_id := 3\<rparr>"

definition ex_xdev :: xdev_info where
  "ex_xdev = \<lparr>xd_func_id = 1, xd_dvec_start_idx = 2,
     xd_dev_cap = fst (eqdma_get_device_attributes reg_bus streaming_regs)\<rparr>"

definition ex_table :: "ctxt_card qdma_hw_access" where
  "ex_table = \<lparr>qdma_global_csr_conf = (\<lambda>t. eqdma_global_csr_conf eqdma_card 0 16 (Some (\<lambda>_. 0)) t QDMA_HW_ACCESS_READ),
     qdma_fmap_conf = (\<lambda>_ _ _ h. (0, None, h)), qdma_sw_ctx_conf = eqdma_sw_ctx_conf eqdma_card,
     qdma_pfetch_ctx_conf = eqdma_pfetch_ctx_conf eqdma_card, qdma_cmpt_ctx_conf = eqdma_cmpt_ctx_conf eqdma_card,
     qdma_hw_ctx_conf = eqdma_hw_ctx_conf eqdma_card, qdma_credit_ctx_conf = eqdma_credit_ctx_conf eqdma_card,
     qdma_indirect_intr_ctx_conf = eqdma_indirect_intr_ctx_conf eqdma_card,
     qdma_get_device_attributes = eqdma_get_device_attributes eqdma_card,
     qdma_read_reg_list = (\<lambda>_ _ h. (0, None, h)), mbox_base_pf = 0, mbox_base_vf = 0\<rparr>"

theorem queue_context_programmed_witness:
  "\<exists>h1 c h2. qdma_descq_context_setup ex_table (\<lambda>_ _ _ _ h. (0, None, h)) DIRECT_INTR_MODE ex_xdev ex_c2h blank_card = (0, h1) \<and>
     qdma_descq_context_read ex_table 5 True Q_C2H h1 = (0, c, h2) \<and> sw_ring_bs_addr (cx_sw_ctxt c) = 0x10000 \<and>
     sw_desc_sz (cx_sw_ctxt c) = 0 \<and> pc_valid (cx_pfetch_ctxt c) = 1 \<and> cm_bs_addr (cx_cmpt_ctxt c) = 0x20000 \<and> cm_vec (cx_cmpt_ctxt c) = 3"
proof -
  have tab: "eqdma_table eqdma_card ex_table" by (simp add: eqdma_table_def ex_table_def)
  have cap: "qid2vec_ctx (xd_dev_cap ex_xdev) = 0"
    by (simp add: ex_xdev_def eqdma_get_device_attributes_def split_beta)
  have d: "dq_conf ex_c2h = ex_conf\<lparr>qc_st := True, qc_q_type := Q_C2H, qc_cmpl_trig_mode := 1\<rparr>" "dq_desc_bus ex_c2h = 0x10000"
    "dq_qidx_hw ex_c2h = 5" "dq_desc_cmpt_bus ex_c2h = 0x20000" "dq_intr_id ex_c2h = 3"
    by (simp_all add: ex_c2h_def ex_descq_def)
  have v: "queue_vec DIRECT_INTR_MODE ex_xdev ex_c2h = 3" by (simp add: queue_vec_def d)
  have t: "take_bit 2 (0x20000 :: u64) = 0" by (simp add: take_bit_eq_mod)
  obtain h1 c h2 where r: "qdma_descq_context_setup ex_table (\<lambda>_ _ _ _ h. (0, None, h)) DIRECT_INTR_MODE ex_xdev ex_c2h blank_card = (0, h1)"
    "qdma_descq_context_read ex_table 5 True Q_C2H h1 = (0, c, h2)" "sw_ring_bs_addr (cx_sw_ctxt c) = 0x10000"
    "2 ^ (unat (sw_desc_sz (cx_sw_ctxt c)) + 3) = desc_bytes_of (dq_conf ex_c2h)"
    "cx_pfetch_ctxt c = make_prefetch_context ex_c2h" "cx_cmpt_ctxt c = make_cmpt_context DIRECT_INTR_MODE ex_xdev ex_c2h"
    using queue_context_programmed [OF eqdma_card_device tab cap, where d = ex_c2h and mode = DIRECT_INTR_MODE and h = blank_card and
        q2v = "\<lambda>_ _ _ _ h. (0, None, h)"]
    by (simp add: d v t has_cmpt_def ex_conf_def) blast
  have "desc_bytes_of (dq_conf ex_c2h) = 2 ^ 3" by (simp add: desc_bytes_of_def d ex_conf_def)
  then have "unat (sw_desc_sz (cx_sw_ctxt c)) + 3 = 3" using r(4) power_inject_exp [of "2 :: nat" "unat (sw_desc_sz (cx_sw_ctxt c)) + 3" 3] by simp
  then have "sw_desc_sz (cx_sw_ctxt c) = 0" by (simp add: unat_eq_0)
  then show ?thesis
    using r by (auto simp: make_prefetch_context_def make_cmpt_context_def Let_def d)
qed

end
