(* ===== verification/Qdma_Queue_Setup.thy ===== *)
theory Qdma_Queue_Setup
  imports Qdma_Queue_Context Qdma_Submit
begin

text \<open>
  Setting up one queue (\<open>qdma_descq.c\<close>, the part for physical functions): configuration, sizes from the copy of the
  configuration arrays, the memory of the rings, the interrupt vector, programming the contexts and the first
  indices.  Kernel services and members of the function table that are not modelled elsewhere are in
  \<open>queue_hw\<close>; the buffers of the streaming receive path (\<open>descq_flq_alloc_resource\<close>) are one of them.
\<close>

section \<open>Data\<close>

datatype qdma_ip_type = QDMA_VERSAL_HARD_IP | QDMA_VERSAL_SOFT_IP | QDMA_SOFT_IP | EQDMA_SOFT_IP | QDMA_NONE_IP

definition QDMA_VIVADO_2020_2 :: nat where "QDMA_VIVADO_2020_2 = 4"
definition QDMA_DESC_ENG_BYPASS_ONLY :: "2 word" where "QDMA_DESC_ENG_BYPASS_ONLY = 1"
definition QDMA_DESC_ENG_INTERNAL_ONLY :: "2 word" where "QDMA_DESC_ENG_INTERNAL_ONLY = 2"
definition TRIG_MODE_COMBO :: "3 word" where "TRIG_MODE_COMBO = 5"
definition CMPT_DESC_SZ_64B :: "2 word" where "CMPT_DESC_SZ_64B = 3"
definition QDMA_GLOBAL_CSR_ARRAY_SZ :: nat where "QDMA_GLOBAL_CSR_ARRAY_SZ = 16"

text \<open>What the queue functions read of \<open>struct xlnx_dma_dev\<close>; the mode of the driver is in \<open>descq_env\<close>.\<close>

record xdev_conf =
  xc_info :: xdev_info
  xc_dma_device_index :: u32
  xc_ip_type :: qdma_ip_type
  xc_vivado_release :: nat
  xc_num_vecs :: nat
  xc_data_msix_qvec_max :: nat
  xc_master_pf :: bool

record 'h queue_hw =
  qh_table :: "'h qdma_hw_access"
  qh_wb_intvl_read :: "'h \<Rightarrow> int \<times> u32 option \<times> 'h"
  qh_qid2vec_conf :: "u8 \<Rightarrow> u16 \<Rightarrow> (qdma_qid2vec, 'h) ctx_conf"
  qh_descq :: "'h descq_hw"
  qh_legacy_intr_conf :: "bool \<Rightarrow> 'h \<Rightarrow> int \<times> 'h"
  qh_init_ctxt_memory :: "'h \<Rightarrow> int \<times> 'h"
  qh_set_default_global_csr :: "'h \<Rightarrow> int \<times> 'h"
  qh_mm_channel_conf :: "u8 \<Rightarrow> bool \<Rightarrow> 'h \<Rightarrow> int \<times> 'h"
  qh_dma_alloc :: "u32 \<Rightarrow> 'h \<Rightarrow> u64 option \<times> 'h"
  qh_kcalloc :: "u32 \<Rightarrow> 'h \<Rightarrow> bool \<times> 'h"
  qh_flq_alloc :: "qdma_descq \<Rightarrow> 'h \<Rightarrow> int \<times> 'h"
  qh_request_irq :: "'h \<Rightarrow> int \<times> 'h"

definition on_card :: "('h \<Rightarrow> 'a \<times> 'h) \<Rightarrow> 'h descq_env \<Rightarrow> 'a \<times> 'h descq_env" where
  "on_card f e = (case f (de_card e) of (a, h) \<Rightarrow> (a, e\<lparr>de_card := h\<rparr>))"

lemma on_card_frame:
  "on_card f e = (a, e') \<Longrightarrow> de_drv_mode e' = de_drv_mode e \<and> de_events e' = de_events e \<and> f (de_card e) = (a, de_card e')"
  by (auto simp: on_card_def split: prod.splits)

section \<open>A new queue\<close>

definition zero_conf :: qdma_queue_conf where
  "zero_conf = \<lparr>qc_qidx = 0, qc_st = False, qc_q_type = Q_H2C, qc_irq_en = False, qc_desc_rng_sz_idx = 0, qc_wb_status_en = False,
     qc_cmpl_status_acc_en = False, qc_cmpl_status_pend_chk = False, qc_desc_bypass = False, qc_pfetch_en = False,
     qc_fetch_credit = False, qc_c2h_buf_sz_idx = 0, qc_cmpl_rng_sz_idx = 0, qc_cmpl_desc_sz = 0, qc_cmpl_stat_en = False,
     qc_cmpl_udd_en = False, qc_cmpl_timer_idx = 0, qc_cmpl_cnt_th_idx = 0, qc_cmpl_trig_mode = 0, qc_cmpl_en_intr = False,
     qc_sw_desc_sz = 0, qc_pfetch_bypass = False, qc_cmpl_ovf_chk_dis = False, qc_adaptive_rx = False,
     qc_init_pidx_dis = False, qc_mm_channel = False, qc_ping_pong_en = False, qc_aperture_size = 0, qc_pidx_acc = 0,
     qc_fp_descq_c2h_packet = False, qc_fp_bypass_desc_fill = False, qc_rngsz = 0, qc_rngsz_cmpt = 0, qc_c2h_bufsz = 0\<rparr>"

definition qdma_descq_init :: "u16 \<Rightarrow> nat \<Rightarrow> nat \<Rightarrow> qdma_descq" where
  "qdma_descq_init qbase idx_hw idx_sw =
     \<lparr>dq_conf = zero_conf\<lparr>qc_qidx := of_nat idx_sw\<rparr>, dq_channel = False, dq_q_state = Q_STATE_DISABLED,
      dq_qidx_hw = ucast qbase + of_nat idx_hw, dq_color = False, dq_proc_req_running = False, dq_cmplthp = False,
      dq_work_list = [], dq_work_req_pend = 0, dq_pend_list = [], dq_pend_list_empty = False, dq_q_stop_wait = False,
      dq_avail = 0, dq_pidx = 0, dq_cidx = 0, dq_credit = 0, dq_mm_desc = [], dq_h2c_desc = [], dq_cmpt_entry_len = 0,
      dq_pidx_cmpt = 0, dq_cidx_cmpt = 0, dq_total_cmpl_descs = 0, dq_desc_pend = 0,
      dq_pidx_info = \<lparr>pi_pidx = 0, pi_irq_en = 0\<rparr>,
      dq_cmpt_cidx_info = \<lparr>ci_wrb_cidx = 0, ci_counter_idx = 0, ci_timer_idx = 0, ci_trig_mode = 0, ci_wrb_en = 0, ci_irq_en = 0\<rparr>,
      dq_c2h_pend_pkt_moving_avg = 0, dq_c2h_pend_pkt_avg_thr_hi = 0, dq_c2h_pend_pkt_avg_thr_lo = 0, dq_sorted_c2h_cntr_idx = 0,
      dq_desc = False, dq_desc_bus = 0, dq_desc_cmpt = False, dq_desc_cmpt_bus = 0, dq_intr_id = 0, dq_cpu_assigned = False,
      dq_intr_work_cpu = 0, dq_q_hndl = 0\<rparr>"

section \<open>Configuration\<close>

definition qdma_validate_qconfig :: "xdev_conf \<Rightarrow> bool \<Rightarrow> qdma_queue_conf \<Rightarrow> int" where
  "qdma_validate_qconfig xc buf qconf =
     (if \<not> buf then - EINVAL_K
      else if qc_cmpl_trig_mode qconf > TRIG_MODE_COMBO then - EINVAL_K
      else if xc_ip_type xc = QDMA_VERSAL_HARD_IP \<and>
        (qc_cmpl_desc_sz qconf = CMPT_DESC_SZ_64B \<or> ucast (qc_sw_desc_sz qconf) = DESC_SZ_64B \<or> qc_cmpl_trig_mode qconf = TRIG_MODE_COMBO)
      then - EINVAL_K
      else 0)"

text \<open>The name of the queue is not modelled.\<close>

definition qdma_descq_config :: "xdev_conf \<Rightarrow> qdma_drv_mode \<Rightarrow> qdma_queue_conf \<Rightarrow> bool \<Rightarrow> qdma_descq \<Rightarrow> qdma_descq" where
  "qdma_descq_config xc mode qconf reconfig d =
     (if \<not> reconfig then d\<lparr>dq_conf := qconf\<rparr>
      else let irq_en = (mode \<noteq> POLL_MODE);
          d = d\<lparr>dq_conf := (dq_conf d)\<lparr>qc_desc_rng_sz_idx := qc_desc_rng_sz_idx qconf, qc_cmpl_rng_sz_idx := qc_cmpl_rng_sz_idx qconf,
            qc_c2h_buf_sz_idx := qc_c2h_buf_sz_idx qconf, qc_irq_en := irq_en, qc_cmpl_en_intr := irq_en,
            qc_wb_status_en := qc_wb_status_en qconf, qc_cmpl_status_acc_en := qc_cmpl_status_acc_en qconf,
            qc_cmpl_status_pend_chk := qc_cmpl_status_pend_chk qconf, qc_cmpl_stat_en := qc_cmpl_stat_en qconf,
            qc_cmpl_trig_mode := qc_cmpl_trig_mode qconf, qc_cmpl_timer_idx := qc_cmpl_timer_idx qconf,
            qc_fetch_credit := qc_fetch_credit qconf, qc_cmpl_cnt_th_idx := qc_cmpl_cnt_th_idx qconf,
            qc_desc_bypass := qc_desc_bypass qconf, qc_pfetch_bypass := qc_pfetch_bypass qconf, qc_pfetch_en := qc_pfetch_en qconf,
            qc_cmpl_udd_en := qc_cmpl_udd_en qconf, qc_cmpl_desc_sz := qc_cmpl_desc_sz qconf, qc_sw_desc_sz := qc_sw_desc_sz qconf,
            qc_cmpl_ovf_chk_dis := qc_cmpl_ovf_chk_dis qconf, qc_adaptive_rx := qc_adaptive_rx qconf,
            qc_ping_pong_en := qc_ping_pong_en qconf, qc_aperture_size := qc_aperture_size qconf, qc_pidx_acc := qc_pidx_acc qconf\<rparr>\<rparr>
        in if xc_ip_type xc = QDMA_VERSAL_HARD_IP then d\<lparr>dq_channel := qc_mm_channel qconf\<rparr> else d)"

text \<open>The smallest ring size above \<open>v\<close>.\<close>

definition best_fit :: "(nat \<Rightarrow> u32) \<Rightarrow> u32 \<Rightarrow> nat option" where
  "best_fit ring_sz v = foldl (\<lambda>best i. if ring_sz i > v then
       (case best of None \<Rightarrow> Some i | Some k \<Rightarrow> if ring_sz i < ring_sz k then Some i else best) else best)
     None [0..<QDMA_GLOBAL_CSR_ARRAY_SZ]"

definition cmpt_config_complete :: "global_csr_conf \<Rightarrow> qdma_descq \<Rightarrow> qdma_descq" where
  "cmpt_config_complete csr d =
     (let conf = dq_conf d;
          idx = (case best_fit (gc_ring_sz csr) (gc_ring_sz csr (unat (qc_cmpl_rng_sz_idx conf))) of
                   None \<Rightarrow> qc_cmpl_rng_sz_idx conf | Some i \<Rightarrow> of_nat i)
      in d\<lparr>dq_conf := conf\<lparr>qc_cmpl_rng_sz_idx := idx, qc_rngsz_cmpt := gc_ring_sz csr (unat idx) - 1,
             qc_c2h_bufsz := gc_c2h_buf_sz csr (unat (qc_c2h_buf_sz_idx conf))\<rparr>,
           dq_cmpt_cidx_info := (dq_cmpt_cidx_info d)\<lparr>ci_irq_en := flag (qc_cmpl_en_intr conf), ci_trig_mode := ucast (qc_cmpl_trig_mode conf),
             ci_timer_idx := ucast (qc_cmpl_timer_idx conf), ci_counter_idx := ucast (qc_cmpl_cnt_th_idx conf),
             ci_wrb_en := flag (qc_cmpl_stat_en conf)\<rparr>\<rparr>)"

definition threshold_config_complete :: "global_csr_conf \<Rightarrow> nat list \<Rightarrow> qdma_descq \<Rightarrow> qdma_descq" where
  "threshold_config_complete csr sorted_idx d =
     (let cnt_idx = unat (qc_cmpl_cnt_th_idx (dq_conf d));
          moving_avg = gc_c2h_cnt_th csr cnt_idx;
          s = (case find (\<lambda>i. cnt_idx = sorted_idx ! i) [0..<QDMA_GLOBAL_CSR_ARRAY_SZ] of
                 None \<Rightarrow> dq_sorted_c2h_cntr_idx d | Some i \<Rightarrow> of_nat i);
          hi_idx = (if s = 15 then unat s else unat s + 1);
          low_idx = (if s = 0 then 0 else unat s - 1)
      in d\<lparr>dq_cmpt_entry_len := push_bit (unat (qc_cmpl_desc_sz (dq_conf d))) 8, dq_c2h_pend_pkt_moving_avg := moving_avg,
           dq_sorted_c2h_cntr_idx := s,
           dq_c2h_pend_pkt_avg_thr_hi := drop_bit 1 (moving_avg + gc_c2h_cnt_th csr (sorted_idx ! hi_idx)),
           dq_c2h_pend_pkt_avg_thr_lo := drop_bit 1 (moving_avg + gc_c2h_cnt_th csr (sorted_idx ! low_idx))\<rparr>)"

definition qdma_descq_config_complete :: "global_csr_conf \<Rightarrow> nat list \<Rightarrow> qdma_descq \<Rightarrow> qdma_descq" where
  "qdma_descq_config_complete csr sorted_idx d =
     (let d = d\<lparr>dq_conf := (dq_conf d)\<lparr>qc_rngsz := gc_ring_sz csr (unat (qc_desc_rng_sz_idx (dq_conf d))) - 1\<rparr>\<rparr>;
          cmpt = has_cmpt (qc_st (dq_conf d)) (qc_q_type (dq_conf d));
          d = (if cmpt then cmpt_config_complete csr d else d);
          d = d\<lparr>dq_pidx_info := (dq_pidx_info d)\<lparr>pi_irq_en := if st_c2h (dq_conf d) then 0 else flag (qc_irq_en (dq_conf d))\<rparr>,
                dq_avail := qc_rngsz (dq_conf d) - 1, dq_pend_list_empty := True, dq_pidx := 0, dq_cidx := 0, dq_cidx_cmpt := 0,
                dq_pidx_cmpt := 0, dq_credit := 0, dq_work_req_pend := 0\<rparr>
      in if cmpt then threshold_config_complete csr sorted_idx d else d)"

section \<open>Memory of the rings\<close>

definition get_desc_size :: "qdma_queue_conf \<Rightarrow> u32" where
  "get_desc_size conf = (if qc_desc_bypass conf \<and> ucast (qc_sw_desc_sz conf) = DESC_SZ_64B then 64
     else if \<not> qc_st conf then 32 else if qc_q_type conf = Q_C2H then 8 else 16)"

definition get_desc_cmpl_status_size :: u32 where "get_desc_cmpl_status_size = 8"

definition desc_ring_alloc :: "'h queue_hw \<Rightarrow> u32 \<Rightarrow> u32 \<Rightarrow> u32 \<Rightarrow> 'h descq_env \<Rightarrow> u64 option \<times> 'h descq_env" where
  "desc_ring_alloc qh ring_sz desc_sz cs_sz = on_card (qh_dma_alloc qh (ring_sz * desc_sz + cs_sz))"

text \<open>The vector with the fewest queues.\<close>

fun pick_vector :: "(u32 \<Rightarrow> int) \<Rightarrow> u32 list \<Rightarrow> u32 \<Rightarrow> int \<Rightarrow> u32" where
  "pick_vector cnt [] idx least = idx"
| "pick_vector cnt (i # is) idx least =
     (if cnt i = 0 then i
      else let least = (if least < 0 then cnt i else least)
        in if cnt i < least then pick_vector cnt is i (cnt i) else pick_vector cnt is idx least)"

definition desc_alloc_irq :: "xdev_conf \<Rightarrow> qdma_drv_mode \<Rightarrow> (u32 \<Rightarrow> int) \<Rightarrow> qdma_descq \<Rightarrow> qdma_descq" where
  "desc_alloc_irq xc mode cnt d =
     (if xc_num_vecs xc = 0 then d
      else let start = xd_dvec_start_idx (xc_info xc)
        in d\<lparr>dq_intr_id := if mode = DIRECT_INTR_MODE
               then pick_vector cnt (map of_nat [unat start..<xc_data_msix_qvec_max xc]) start (- 1) else start\<rparr>)"

text \<open>Memory that is freed is no longer the queue's.\<close>

definition qdma_descq_free_resource :: "qdma_descq \<Rightarrow> qdma_descq" where
  "qdma_descq_free_resource d =
     (let d = (if dq_desc d then d\<lparr>dq_desc := False, dq_desc_bus := 0, dq_mm_desc := [], dq_h2c_desc := []\<rparr> else d)
      in if dq_desc_cmpt d then d\<lparr>dq_desc_cmpt := False, dq_desc_cmpt_bus := 0\<rparr> else d)"

definition zero_mm_desc :: qdma_mm_desc where "zero_mm_desc = \<lparr>md_src_addr = 0, md_flag_len = 0, md_dst_addr = 0\<rparr>"
definition zero_h2c_desc :: qdma_h2c_desc where
  "zero_h2c_desc = \<lparr>hd_cdh_flags = 0, hd_pld_len = 0, hd_len = 0, hd_flags = 0, hd_src_addr = 0\<rparr>"

definition alloc_ring :: "'h queue_hw \<Rightarrow> qdma_descq \<Rightarrow> 'h descq_env \<Rightarrow> bool \<times> qdma_descq \<times> 'h descq_env" where
  "alloc_ring qh d e =
     (let conf = dq_conf d in
      if qc_q_type conf = Q_CMPT then (True, d, e)
      else case desc_ring_alloc qh (qc_rngsz conf) (get_desc_size conf) get_desc_cmpl_status_size e of
        (None, e) \<Rightarrow> (False, d, e)
      | (Some bus, e) \<Rightarrow> (True, d\<lparr>dq_desc := True, dq_desc_bus := bus, dq_mm_desc := replicate (unat (qc_rngsz conf)) zero_mm_desc,
          dq_h2c_desc := replicate (unat (qc_rngsz conf)) zero_h2c_desc\<rparr>, e))"

definition alloc_lists :: "'h queue_hw \<Rightarrow> qdma_descq \<Rightarrow> 'h descq_env \<Rightarrow> bool \<times> 'h descq_env" where
  "alloc_lists qh d e =
     (if st_c2h (dq_conf d) then (case on_card (qh_flq_alloc qh d) e of (rv, e) \<Rightarrow> (\<not> rv < 0, e))
      else if qc_desc_bypass (dq_conf d) \<and> qc_fp_bypass_desc_fill (dq_conf d) then on_card (qh_kcalloc qh (qc_rngsz (dq_conf d))) e
      else (True, e))"

definition alloc_cmpt :: "'h queue_hw \<Rightarrow> qdma_descq \<Rightarrow> 'h descq_env \<Rightarrow> bool \<times> qdma_descq \<times> 'h descq_env" where
  "alloc_cmpt qh d e =
     (if has_cmpt (qc_st (dq_conf d)) (qc_q_type (dq_conf d))
      then let d = d\<lparr>dq_color := True\<rparr> in
        case desc_ring_alloc qh (qc_rngsz_cmpt (dq_conf d)) (ucast (dq_cmpt_entry_len d)) get_desc_cmpl_status_size e of
          (None, e) \<Rightarrow> (False, d, e)
        | (Some bus, e) \<Rightarrow> (True, d\<lparr>dq_desc_cmpt := True, dq_desc_cmpt_bus := bus\<rparr>, e)
      else (True, d, e))"

definition qdma_descq_alloc_resource ::
    "'h queue_hw \<Rightarrow> xdev_conf \<Rightarrow> (u32 \<Rightarrow> int) \<Rightarrow> qdma_descq \<Rightarrow> 'h descq_env \<Rightarrow> int \<times> qdma_descq \<times> 'h descq_env" where
  "qdma_descq_alloc_resource qh xc cnt d e =
     (case alloc_ring qh d e of (ok, d, e) \<Rightarrow>
        if \<not> ok then (- ENOMEM_K, qdma_descq_free_resource d, e)
        else case alloc_lists qh d e of (ok, e) \<Rightarrow>
          if \<not> ok then (- ENOMEM_K, qdma_descq_free_resource d, e)
          else case alloc_cmpt qh d e of (ok, d, e) \<Rightarrow>
            if \<not> ok then (- ENOMEM_K, qdma_descq_free_resource d, e)
            else (0, desc_alloc_irq xc (de_drv_mode e) cnt d, e))"

section \<open>Programming\<close>

text \<open>The completion index and, for streaming to the host, the producer index one below the ring size.\<close>

definition first_indices :: "'h queue_hw \<Rightarrow> qdma_descq \<Rightarrow> 'h descq_env \<Rightarrow> int \<times> qdma_descq \<times> 'h descq_env" where
  "first_indices qh d e =
     (let d = d\<lparr>dq_cmpt_cidx_info := (dq_cmpt_cidx_info d)\<lparr>ci_wrb_cidx := 0\<rparr>\<rparr> in
      case queue_cmpt_cidx_update (qh_descq qh) d e of (rv, e) \<Rightarrow>
        if rv < 0 then (- EINVAL_K, d, e)
        else if qc_q_type (dq_conf d) = Q_CMPT then (rv, d, e)
        else let d = d\<lparr>dq_pidx_info := (dq_pidx_info d)\<lparr>pi_pidx := ucast (qc_rngsz (dq_conf d) - 1)\<rparr>\<rparr> in
          case queue_pidx_update (qh_descq qh) d e of (rv, e) \<Rightarrow> (if rv < 0 then - EINVAL_K else rv, d, e))"

definition qdma_descq_prog_hw :: "'h queue_hw \<Rightarrow> xdev_conf \<Rightarrow> qdma_descq \<Rightarrow> 'h descq_env \<Rightarrow> int \<times> qdma_descq \<times> 'h descq_env" where
  "qdma_descq_prog_hw qh xc d e =
     (case on_card (qdma_descq_context_setup (qh_table qh) (qh_qid2vec_conf qh) (de_drv_mode e) (xc_info xc) d) e of (rv, e) \<Rightarrow>
        if rv < 0 then (rv, d, e)
        else if has_cmpt (qc_st (dq_conf d)) (qc_q_type (dq_conf d)) \<and> \<not> qc_init_pidx_dis (dq_conf d) then first_indices qh d e
        else (rv, d, e))"

text \<open>For a queue that was started without its first indices.\<close>

definition qdma_q_init_pointers :: "'h queue_hw \<Rightarrow> qdma_descq \<Rightarrow> 'h descq_env \<Rightarrow> int \<times> qdma_descq \<times> 'h descq_env" where
  "qdma_q_init_pointers qh d e =
     (if has_cmpt (qc_st (dq_conf d)) (qc_q_type (dq_conf d)) \<and> qc_init_pidx_dis (dq_conf d)
      then case first_indices qh d e of (rv, d, e) \<Rightarrow> (if rv < 0 then rv else 0, d, e)
      else (- EINVAL_K, d, e))"

end
