(* ===== verification/Qdma_Queues.thy ===== *)
theory Qdma_Queues
  imports Qdma_Queue_Setup
begin

text \<open>
  The life cycle of the queues of a device (\<open>libqdma_export.c\<close>, \<open>qdma_device.c\<close>, \<open>qdma_thread.c\<close>; the part for physical
  functions): adding, configuring, starting, stopping and removing a queue.

  The queues of a device lie in one array: to the card first, then from the card, then completion rings, as many
  of each as the device has queue sets.  A queue is its position in the array; positions behind the array are
  memory of something else, and an operation that writes there has the value \<open>None\<close>.  A handle given to a client is
  the position as long as the index of the queue is in range.  Device handles are valid; \<open>buf\<close> says whether the
  client gave a buffer for messages, whose text is not modelled.
\<close>

section \<open>Data\<close>

definition QDMA_QUEUE_IDX_INVALID :: "24 word" where "QDMA_QUEUE_IDX_INVALID = 0xFFFF"

text \<open>\<open>qd_thread_work\<close> holds for each thread its queues and their number.  \<open>qd_legacy_list\<close>, \<open>qd_per_cpu_qcnt\<close> and
  \<open>qd_thread_work\<close> are variables of the driver, not of the device.\<close>

record 'h qdma_dev =
  qd_init_qrange :: bool
  qd_qmax :: u16
  qd_qbase :: u16
  qd_descq :: "qdma_descq list"
  qd_csr_info :: global_csr_conf
  qd_sorted_c2h_cntr_idx :: "nat list"
  qd_rm :: rm_state
  qd_intr_list :: "u32 \<Rightarrow> nat list"
  qd_intr_list_cnt :: "u32 \<Rightarrow> int"
  qd_legacy_list :: "nat list"
  qd_per_cpu_qcnt :: "u32 list"
  qd_thread_work :: "(nat list \<times> u32) list"
  qd_env :: "'h descq_env"

definition h2c_descq :: "'h qdma_dev \<Rightarrow> nat" where "h2c_descq q = 0"
definition c2h_descq :: "'h qdma_dev \<Rightarrow> nat" where "c2h_descq q = unat (qd_qmax q)"
definition cmpt_descq :: "'h qdma_dev \<Rightarrow> nat" where "cmpt_descq q = 2 * unat (qd_qmax q)"

abbreviation descq_at :: "'h qdma_dev \<Rightarrow> nat \<Rightarrow> qdma_descq" where "descq_at q k \<equiv> qd_descq q ! k"

definition upd_descq :: "nat \<Rightarrow> (qdma_descq \<Rightarrow> qdma_descq) \<Rightarrow> 'h qdma_dev \<Rightarrow> 'h qdma_dev" where
  "upd_descq k f q = q\<lparr>qd_descq := (qd_descq q)[k := f (descq_at q k)]\<rparr>"

definition set_state :: "nat \<Rightarrow> q_state_t \<Rightarrow> 'h qdma_dev \<Rightarrow> 'h qdma_dev" where
  "set_state k st = upd_descq k (\<lambda>d. d\<lparr>dq_q_state := st\<rparr>)"

text \<open>An operation on one queue and the environment.\<close>

definition on_descq ::
    "nat \<Rightarrow> (qdma_descq \<Rightarrow> 'h descq_env \<Rightarrow> int \<times> qdma_descq \<times> 'h descq_env) \<Rightarrow> 'h qdma_dev \<Rightarrow> int \<times> 'h qdma_dev" where
  "on_descq k f q = (case f (descq_at q k) (qd_env q) of (rv, d, e) \<Rightarrow> (rv, q\<lparr>qd_descq := (qd_descq q)[k := d], qd_env := e\<rparr>))"

definition on_dev_card :: "('h \<Rightarrow> int \<times> 'h) \<Rightarrow> 'h qdma_dev \<Rightarrow> int \<times> 'h qdma_dev" where
  "on_dev_card f q = (case on_card f (qd_env q) of (rv, e) \<Rightarrow> (rv, q\<lparr>qd_env := e\<rparr>))"

abbreviation drv_mode :: "'h qdma_dev \<Rightarrow> qdma_drv_mode" where "drv_mode q \<equiv> de_drv_mode (qd_env q)"
abbreviation dev_cap :: "xdev_conf \<Rightarrow> qdma_dev_attributes" where "dev_cap xc \<equiv> xd_dev_cap (xc_info xc)"
abbreviation func_of :: "xdev_conf \<Rightarrow> u16" where "func_of xc \<equiv> ucast (xd_func_id (xc_info xc))"

fun dev_q_type :: "queue_type_t \<Rightarrow> qdma_dev_q_type" where
  "dev_q_type Q_H2C = QDMA_DEV_Q_TYPE_H2C" | "dev_q_type Q_C2H = QDMA_DEV_Q_TYPE_C2H"
| "dev_q_type Q_CMPT = QDMA_DEV_Q_TYPE_CMPT" | "dev_q_type Q_H2C_C2H = QDMA_DEV_Q_TYPE_MAX"

section \<open>Finding queues\<close>

definition qdma_device_get_descq_by_id :: "'h qdma_dev \<Rightarrow> nat \<Rightarrow> bool \<Rightarrow> nat option" where
  "qdma_device_get_descq_by_id q idx init =
     (let qmax = unat (qd_qmax q);
          k = (if idx \<ge> qmax then
                 (if idx - qmax \<ge> qmax then
                    (if idx - qmax - qmax \<ge> qmax then None else Some (cmpt_descq q + (idx - qmax - qmax)))
                  else Some (c2h_descq q + (idx - qmax)))
               else Some (h2c_descq q + idx))
      in case k of None \<Rightarrow> None
         | Some k \<Rightarrow> if init \<and> dq_q_state (descq_at q k) = Q_STATE_DISABLED then None else Some k)"

definition qdma_device_get_id_from_descq :: "'h qdma_dev \<Rightarrow> nat \<Rightarrow> int" where
  "qdma_device_get_id_from_descq q k =
     (let qmax = unat (qd_qmax q);
          (base, idx) = (case qc_q_type (dq_conf (descq_at q k)) of
             Q_H2C \<Rightarrow> (h2c_descq q, 0) | Q_C2H \<Rightarrow> (c2h_descq q, qmax) | _ \<Rightarrow> (cmpt_descq q, 2 * qmax))
      in case find (\<lambda>i. base + i = k) [0..<2 * qmax] of None \<Rightarrow> - EINVAL_K | Some i \<Rightarrow> int (idx + i))"

definition qdma_device_get_descq_by_hw_qid :: "'h qdma_dev \<Rightarrow> u64 \<Rightarrow> bool \<Rightarrow> u64" where
  "qdma_device_get_descq_by_hw_qid q qidx_hw c2h =
     of_nat (if c2h then c2h_descq q else h2c_descq q) + (qidx_hw - ucast (qd_qbase q))"

section \<open>Resources of the device\<close>

definition device_set_qrange :: "'h queue_hw \<Rightarrow> xdev_conf \<Rightarrow> 'h qdma_dev \<Rightarrow> int \<times> 'h qdma_dev" where
  "device_set_qrange qh xc q =
     (case on_dev_card (ctx_call (qdma_fmap_conf (qh_table qh) (func_of xc)
          (Some \<lparr>fmap_qbase = qd_qbase q, fmap_qmax = qd_qmax q\<rparr>) QDMA_HW_ACCESS_WRITE)) q of (rv, q) \<Rightarrow>
        if rv < 0 then (qdma_get_error_code rv, q) else (rv, q\<lparr>qd_init_qrange := True\<rparr>))"

definition qdma_device_prep_q_resource :: "'h queue_hw \<Rightarrow> xdev_conf \<Rightarrow> 'h qdma_dev \<Rightarrow> int \<times> 'h qdma_dev" where
  "qdma_device_prep_q_resource qh xc q =
     (if qd_init_qrange q then (0, q)
      else case qdma_csr_read (qh_table qh) (qh_wb_intvl_read qh) (qd_csr_info q) (qd_sorted_c2h_cntr_idx q) (de_card (qd_env q)) of
        (rv, csr, sorted_idx, h) \<Rightarrow>
          let q = q\<lparr>qd_csr_info := csr, qd_sorted_c2h_cntr_idx := sorted_idx, qd_env := (qd_env q)\<lparr>de_card := h\<rparr>\<rparr>
          in if rv < 0 then (rv, q) else device_set_qrange qh xc q)"

definition intr_legacy_clear :: "'h queue_hw \<Rightarrow> nat \<Rightarrow> 'h qdma_dev \<Rightarrow> 'h qdma_dev" where
  "intr_legacy_clear qh k q =
     (let q = q\<lparr>qd_legacy_list := remove1 k (qd_legacy_list q)\<rparr>
      in if qd_legacy_list q = [] then snd (on_dev_card (qh_legacy_intr_conf qh False) q) else q)"

definition intr_legacy_setup :: "'h queue_hw \<Rightarrow> nat \<Rightarrow> 'h qdma_dev \<Rightarrow> int \<times> 'h qdma_dev" where
  "intr_legacy_setup qh k q =
     (if qd_legacy_list q \<noteq> [] then (1, q\<lparr>qd_legacy_list := qd_legacy_list q @ [k]\<rparr>)
      else case on_dev_card (qh_legacy_intr_conf qh False) q of (rv, q) \<Rightarrow>
        if rv \<noteq> 0 then (- EINVAL_K, q)
        else case on_dev_card (qh_request_irq qh) q of (rv, q) \<Rightarrow>
          if rv < 0 then (rv, q)
          else case on_dev_card (qh_legacy_intr_conf qh True) (q\<lparr>qd_legacy_list := [k]\<rparr>) of (rv, q) \<Rightarrow>
            (if rv \<noteq> 0 then - EINVAL_K else 0, q))"

section \<open>Threads\<close>

text \<open>The processor with the fewest queues, looked for from the last one down.\<close>

fun least_cpu :: "u32 list \<Rightarrow> nat \<Rightarrow> nat \<Rightarrow> u32 \<Rightarrow> nat" where
  "least_cpu cnt 0 idx v = idx"
| "least_cpu cnt (Suc i) idx v =
     (if v = 0 then idx else if cnt ! i < v then least_cpu cnt i i (cnt ! i) else least_cpu cnt i idx v)"

text \<open>The thread for a polled queue: \<open>v\<close> stays the count of the first thread.\<close>

fun pick_thread :: "u32 list \<Rightarrow> nat \<Rightarrow> nat option \<Rightarrow> u32 \<Rightarrow> nat option" where
  "pick_thread [] i idx v = idx"
| "pick_thread (c # cs) i None v = pick_thread cs (i + 1) (Some i) c"
| "pick_thread (c # cs) i (Some idx) v =
     (if c = 0 then Some i else pick_thread cs (i + 1) (Some (if c < v then i else idx)) v)"

text \<open>The driver has at least one thread and one processor.\<close>

definition qdma_thread_add_work :: "nat \<Rightarrow> 'h qdma_dev \<Rightarrow> 'h qdma_dev" where
  "qdma_thread_add_work k q =
     (if drv_mode q \<noteq> POLL_MODE then
        let cnt = qd_per_cpu_qcnt q; last = length cnt - 1; idx = least_cpu cnt last last (cnt ! last)
        in upd_descq k (\<lambda>d. d\<lparr>dq_cpu_assigned := True, dq_intr_work_cpu := of_nat idx\<rparr>) (q\<lparr>qd_per_cpu_qcnt := cnt[idx := cnt ! idx + 1]\<rparr>)
      else case pick_thread (map snd (qd_thread_work q)) 0 None 0 of
        None \<Rightarrow> q
      | Some idx \<Rightarrow> upd_descq k (\<lambda>d. d\<lparr>dq_cmplthp := True, dq_intr_work_cpu := of_nat idx\<rparr>)
          (q\<lparr>qd_thread_work := (qd_thread_work q)[idx := (case qd_thread_work q ! idx of (ks, n) \<Rightarrow> (ks @ [k], n + 1))]\<rparr>))"

definition qdma_thread_remove_work :: "nat \<Rightarrow> 'h qdma_dev \<Rightarrow> 'h qdma_dev" where
  "qdma_thread_remove_work k q =
     (let d = descq_at q k; cpu = unat (dq_intr_work_cpu d);
          q = upd_descq k (\<lambda>d. d\<lparr>dq_cmplthp := False, dq_cpu_assigned := False\<rparr>) q;
          q = (if dq_cpu_assigned d \<and> cpu < length (qd_per_cpu_qcnt q)
               then q\<lparr>qd_per_cpu_qcnt := (qd_per_cpu_qcnt q)[cpu := qd_per_cpu_qcnt q ! cpu - 1]\<rparr> else q)
      in if dq_cmplthp d
         then q\<lparr>qd_thread_work := (qd_thread_work q)[cpu := (case qd_thread_work q ! cpu of (ks, n) \<Rightarrow> (remove1 k ks, n - 1))]\<rparr>
         else q)"

section \<open>Adding\<close>

definition Q_MODE_SHIFT :: nat where "Q_MODE_SHIFT = 3"
definition Q_PRESENT_H2C_MASK :: u32 where "Q_PRESENT_H2C_MASK = push_bit (queue_type_code Q_H2C) 1"
definition Q_PRESENT_C2H_MASK :: u32 where "Q_PRESENT_C2H_MASK = push_bit (queue_type_code Q_C2H) 1"
definition Q_PRESENT_CMPT_MASK :: u32 where "Q_PRESENT_CMPT_MASK = push_bit (queue_type_code Q_CMPT) 1"
definition Q_MODE_MASK :: u32 where "Q_MODE_MASK = push_bit Q_MODE_SHIFT 1"

definition queue_refmask :: "qdma_descq \<Rightarrow> qdma_descq \<Rightarrow> qdma_descq \<Rightarrow> u32" where
  "queue_refmask h2c c2h cmpt =
     (let bits = (\<lambda>d present mode. if dq_q_state d \<noteq> Q_STATE_DISABLED then present OR (if mode then Q_MODE_MASK else 0) else 0)
      in bits h2c Q_PRESENT_H2C_MASK (qc_st (dq_conf h2c)) OR bits c2h Q_PRESENT_C2H_MASK (qc_st (dq_conf c2h)) OR
         bits cmpt Q_PRESENT_CMPT_MASK False)"

definition queue_rejected :: "u32 \<Rightarrow> queue_type_t \<Rightarrow> bool \<Rightarrow> bool" where
  "queue_rejected refmask q_type st =
     (if q_type = Q_CMPT then refmask AND (Q_PRESENT_CMPT_MASK OR Q_MODE_MASK) \<noteq> 0
      else let (other, own) = (if q_type = Q_H2C then (Q_PRESENT_C2H_MASK, Q_PRESENT_H2C_MASK) else (Q_PRESENT_H2C_MASK, Q_PRESENT_C2H_MASK));
               chkmask = other OR Q_MODE_MASK
        in st \<and> refmask AND Q_PRESENT_CMPT_MASK \<noteq> 0 \<or>
           st \<and> refmask AND other \<noteq> 0 \<and> refmask AND chkmask = other \<or>
           \<not> st \<and> refmask AND other \<noteq> 0 \<and> refmask AND chkmask = chkmask \<or>
           refmask AND own \<noteq> 0)"

definition is_usable_queue :: "'h qdma_dev \<Rightarrow> nat \<Rightarrow> queue_type_t \<Rightarrow> bool \<Rightarrow> int" where
  "is_usable_queue q qidx q_type st =
     (if queue_rejected (queue_refmask (descq_at q (h2c_descq q + qidx)) (descq_at q (c2h_descq q + qidx)) (descq_at q (cmpt_descq q + qidx))) q_type st
      then - 1 else 0)"

definition descq_base :: "'h qdma_dev \<Rightarrow> queue_type_t \<Rightarrow> nat" where
  "descq_base q q_type = (if q_type = Q_C2H then c2h_descq q else if q_type = Q_H2C then h2c_descq q else cmpt_descq q)"

text \<open>Where the queue goes, and the configuration with the index.  Without an index the loop has advanced the
  pointer to entry \<open>i\<close> before it adds \<open>i\<close> once more.\<close>

definition place_queue :: "qdma_queue_conf \<Rightarrow> 'h qdma_dev \<Rightarrow> (nat \<times> qdma_queue_conf) option" where
  "place_queue qconf q =
     (let base = descq_base q (qc_q_type qconf) in
      if qc_qidx qconf = QDMA_QUEUE_IDX_INVALID
      then map_option (\<lambda>i. (base + i + i, qconf\<lparr>qc_qidx := of_nat i\<rparr>))
        (find (\<lambda>i. \<not> is_usable_queue q i (qc_q_type qconf) (qc_st qconf) < 0) [0..<unat (qd_qmax q)])
      else if is_usable_queue q (unat (qc_qidx qconf)) (qc_q_type qconf) (qc_st qconf) < 0 then None
      else Some (base + unat (qc_qidx qconf), qconf))"

definition count_queue :: "xdev_conf \<Rightarrow> qdma_queue_conf \<Rightarrow> 'h qdma_dev \<Rightarrow> int \<times> 'h qdma_dev" where
  "count_queue xc qconf q =
     (let idx = xc_dma_device_index xc; t = dev_q_type (qc_q_type qconf) in
      case qdma_dev_increment_active_queue idx (func_of xc) t (qd_rm q) of (rv, rm) \<Rightarrow>
        if rv < 0 then (rv, q\<lparr>qd_rm := rm\<rparr>)
        else if st_c2h qconf
        then case qdma_dev_increment_active_queue idx (func_of xc) QDMA_DEV_Q_TYPE_CMPT rm of (rv, rm) \<Rightarrow>
          if rv < 0 then (rv, q\<lparr>qd_rm := snd (qdma_dev_decrement_active_queue idx (func_of xc) t rm)\<rparr>) else (0, q\<lparr>qd_rm := rm\<rparr>)
        else (0, q\<lparr>qd_rm := rm\<rparr>))"

text \<open>From the point where the queue has its place; \<open>0xFFFF\<close> is the handle before that.\<close>

definition add_placed ::
    "'h queue_hw \<Rightarrow> xdev_conf \<Rightarrow> nat \<Rightarrow> qdma_queue_conf \<Rightarrow> 'h qdma_dev \<Rightarrow> int \<times> nat \<times> 'h qdma_dev" where
  "add_placed qh xc k qconf q =
     (let none = unat QDMA_QUEUE_IDX_INVALID;
          q = set_state k Q_STATE_ENABLED q in
      case qdma_device_prep_q_resource qh xc q of (rv, q) \<Rightarrow>
        if rv < 0 then (rv, none, q)
        else case (if drv_mode q = LEGACY_INTR_MODE then intr_legacy_setup qh k q else (0, q)) of (rv, q) \<Rightarrow>
          if rv > 0 then (- EINVAL_K, none, set_state k Q_STATE_DISABLED (intr_legacy_clear qh k q))
          else if rv < 0 then (- EINVAL_K, none, set_state k Q_STATE_DISABLED q)
          else let q = upd_descq k (qdma_descq_config xc (drv_mode q) qconf False) q in
            case count_queue xc qconf q of (rv, q) \<Rightarrow>
              if rv < 0 then (rv, none, q)
              else let hndl = unat (qc_qidx (dq_conf (descq_at q k))) +
                       (if qc_q_type qconf = Q_C2H then unat (qd_qmax q) else if qc_q_type qconf = Q_CMPT then 2 * unat (qd_qmax q) else 0)
                in (0, hndl, upd_descq k (\<lambda>d. d\<lparr>dq_q_hndl := of_nat hndl\<rparr>) q))"

text \<open>The result: the return value, the configuration of the client, the handle and the device.\<close>

definition qdma_queue_add ::
    "'h queue_hw \<Rightarrow> xdev_conf \<Rightarrow> bool \<Rightarrow> qdma_queue_conf \<Rightarrow> nat \<Rightarrow> 'h qdma_dev \<Rightarrow> (int \<times> qdma_queue_conf \<times> nat \<times> 'h qdma_dev) option" where
  "qdma_queue_add qh xc buf qconf qhndl q =
     (let t = qc_q_type qconf; st = qc_st qconf; none = unat QDMA_QUEUE_IDX_INVALID in
      if \<not> buf \<or> t = Q_H2C_C2H \<or> st \<and> t = Q_CMPT \<or> t = Q_CMPT \<and> mm_cmpt_en (dev_cap xc) = 0
      then Some (- EINVAL_K, qconf, qhndl, q)
      else if st \<and> st_en (dev_cap xc) = 0 \<or> \<not> st \<and> mm_en (dev_cap xc) = 0 then Some (- EINVAL_K, qconf, none, q)
      else if qdma_validate_qconfig xc buf qconf < 0 then Some (qdma_validate_qconfig xc buf qconf, qconf, none, q)
      else if qc_qidx qconf \<noteq> QDMA_QUEUE_IDX_INVALID \<and> unat (qd_qmax q) \<le> unat (qc_qidx qconf) then Some (- EINVAL_K, qconf, none, q)
      else if (word_of_int (qdma_get_device_active_queue_count (xc_dma_device_index xc) (func_of xc) (dev_q_type t) (qd_rm q)) :: u32) \<ge> ucast (qd_qmax q)
      then Some (- EIO_K, qconf, none, q)
      else case place_queue qconf q of
        None \<Rightarrow> Some (- EPERM, qconf, none, q)
      | Some (k, qconf) \<Rightarrow>
          if k < length (qd_descq q) then (case add_placed qh xc k qconf q of (rv, hndl, q) \<Rightarrow> Some (rv, qconf, hndl, q)) else None)"

section \<open>Configuring, starting, stopping, removing\<close>

definition qdma_queue_config :: "xdev_conf \<Rightarrow> bool \<Rightarrow> nat \<Rightarrow> qdma_queue_conf \<Rightarrow> 'h qdma_dev \<Rightarrow> int \<times> 'h qdma_dev" where
  "qdma_queue_config xc buf qid qconf q =
     (if \<not> buf then (- EINVAL_K, q)
      else case qdma_device_get_descq_by_id q qid False of
        None \<Rightarrow> (- EINVAL_K, q)
      | Some k \<Rightarrow>
          if dq_q_state (descq_at q k) \<noteq> Q_STATE_ENABLED then (- EINVAL_K, q)
          else if qdma_validate_qconfig xc buf qconf \<noteq> 0 then (qdma_validate_qconfig xc buf qconf, q)
          else (0, upd_descq k (qdma_descq_config xc (drv_mode q) qconf True) q))"

definition qdma_queue_get_config :: "bool \<Rightarrow> nat \<Rightarrow> 'h qdma_dev \<Rightarrow> int \<times> qdma_queue_conf option" where
  "qdma_queue_get_config buf qid q =
     (if \<not> buf then (- EINVAL_K, None)
      else case qdma_device_get_descq_by_id q qid False of
        None \<Rightarrow> (- EINVAL_K, None)
      | Some k \<Rightarrow> (0, Some (dq_conf (descq_at q k))))"

text \<open>The first checks of \<open>qdma_queue_start\<close>.\<close>

definition start_refused :: "xdev_conf \<Rightarrow> qdma_descq \<Rightarrow> int" where
  "start_refused xc d =
     (if dq_q_state d \<noteq> Q_STATE_ENABLED then - EINVAL_K
      else if xc_ip_type xc = EQDMA_SOFT_IP \<and> QDMA_VIVADO_2020_2 \<le> xc_vivado_release xc \<and>
        (desc_eng_mode (dev_cap xc) = QDMA_DESC_ENG_BYPASS_ONLY \<or>
         qc_desc_bypass (dq_conf d) \<and> desc_eng_mode (dev_cap xc) = QDMA_DESC_ENG_INTERNAL_ONLY) then - EINVAL_K
      else if qc_aperture_size (dq_conf d) \<noteq> 0 \<and> qc_aperture_size (dq_conf d) AND (qc_aperture_size (dq_conf d) - 1) \<noteq> 0 then - ERANGE
      else 0)"

definition add_intr_list :: "xdev_conf \<Rightarrow> nat \<Rightarrow> 'h qdma_dev \<Rightarrow> 'h qdma_dev" where
  "add_intr_list xc k q =
     (if xc_num_vecs xc = 0 then q
      else let v = dq_intr_id (descq_at q k)
        in q\<lparr>qd_intr_list := (qd_intr_list q)(v := qd_intr_list q v @ [k]), qd_intr_list_cnt := (qd_intr_list_cnt q)(v := qd_intr_list_cnt q v + 1)\<rparr>)"

definition qdma_queue_start :: "'h queue_hw \<Rightarrow> xdev_conf \<Rightarrow> bool \<Rightarrow> nat \<Rightarrow> 'h qdma_dev \<Rightarrow> int \<times> 'h qdma_dev" where
  "qdma_queue_start qh xc buf qid q =
     (if \<not> buf then (- EINVAL_K, q)
      else case qdma_device_get_descq_by_id q qid True of
        None \<Rightarrow> (- EINVAL_K, q)
      | Some k \<Rightarrow>
          if start_refused xc (descq_at q k) \<noteq> 0 then (start_refused xc (descq_at q k), q)
          else let q = upd_descq k (qdma_descq_config_complete (qd_csr_info q) (qd_sorted_c2h_cntr_idx q)) q in
            case on_descq k (qdma_descq_alloc_resource qh xc (qd_intr_list_cnt q)) q of (rv, q) \<Rightarrow>
              if rv < 0 then (rv, q)
              else case on_descq k (qdma_descq_prog_hw qh xc) q of (rv, q) \<Rightarrow>
                if rv < 0 then
                  let d = descq_at q k;
                      q = snd (on_dev_card (qdma_descq_context_clear (qh_table qh) (dq_qidx_hw d) (qc_st (dq_conf d)) (qc_q_type (dq_conf d)) True) q)
                  in (rv, upd_descq k qdma_descq_free_resource q)
                else (0, set_state k Q_STATE_ONLINE (qdma_thread_add_work k (add_intr_list xc k q))))"

text \<open>Stopping in two steps: the first asks submitters to wait and says whether requests are pending, for which the
  caller waits, for a limited time, while the queue is served; the second hands back what is left.\<close>

definition qdma_queue_stop_begin :: "bool \<Rightarrow> nat \<Rightarrow> 'h qdma_dev \<Rightarrow> int \<times> 'h qdma_dev" where
  "qdma_queue_stop_begin buf qid q =
     (if \<not> buf then (- EINVAL_K, q)
      else case qdma_device_get_descq_by_id q qid True of
        None \<Rightarrow> (- EINVAL_K, q)
      | Some k \<Rightarrow>
          if dq_q_state (descq_at q k) \<noteq> Q_STATE_ONLINE then (- EINVAL_K, q)
          else (if dq_pend_list_empty (descq_at q k) then 0 else 1, upd_descq k (\<lambda>d. d\<lparr>dq_q_stop_wait := True\<rparr>) q))"

text \<open>Requests with a callback leave the list, the others stay in it and are woken up.  Pages are not unmapped.\<close>

definition stopped_req :: "descq_req \<Rightarrow> descq_req" where
  "stopped_req req = req\<lparr>dr_cb := (dr_cb req)\<lparr>cb_done := True, cb_status := - ENXIO\<rparr>\<rparr>"

definition stop_events :: "descq_req list \<Rightarrow> descq_event list" where
  "stop_events reqs = map (\<lambda>req. if dr_fp_done req then Fp_done (stopped_req req) 0 (- ENXIO) else Wakeup (stopped_req req)) reqs"

definition stop_lists :: "qdma_descq \<Rightarrow> 'h descq_env \<Rightarrow> int \<times> qdma_descq \<times> 'h descq_env" where
  "stop_lists d e =
     (let pend = dq_pend_list d; work = dq_work_list d; kept = (\<lambda>reqs. map stopped_req (filter (\<lambda>r. \<not> dr_fp_done r) reqs))
      in (0, d\<lparr>dq_q_state := Q_STATE_ENABLED, dq_q_stop_wait := False, dq_pend_list := kept pend, dq_work_list := kept work,
               dq_work_req_pend := dq_work_req_pend d - of_nat (length (filter dr_fp_done work))\<rparr>,
          e\<lparr>de_events := de_events e @ stop_events (pend @ work)\<rparr>))"

definition del_intr_list :: "nat \<Rightarrow> 'h qdma_dev \<Rightarrow> 'h qdma_dev" where
  "del_intr_list k q =
     (if drv_mode q = POLL_MODE \<or> drv_mode q = LEGACY_INTR_MODE then q
      else let v = dq_intr_id (descq_at q k)
        in q\<lparr>qd_intr_list := (qd_intr_list q)(v := remove1 k (qd_intr_list q v)), qd_intr_list_cnt := (qd_intr_list_cnt q)(v := qd_intr_list_cnt q v - 1)\<rparr>)"

definition qdma_queue_stop_end :: "'h queue_hw \<Rightarrow> nat \<Rightarrow> 'h qdma_dev \<Rightarrow> 'h qdma_dev" where
  "qdma_queue_stop_end qh k q =
     (let q = snd (on_descq k stop_lists q);
          q = qdma_thread_remove_work k q;
          d = descq_at q k;
          q = snd (on_dev_card (qdma_descq_context_clear (qh_table qh) (dq_qidx_hw d) (qc_st (dq_conf d)) (qc_q_type (dq_conf d)) False) q);
          q = del_intr_list k q
      in upd_descq k (\<lambda>d. (qdma_descq_free_resource d)\<lparr>dq_total_cmpl_descs := 0\<rparr>) q)"

text \<open>Stopping with no call into the queue in between: either nothing is pending or the wait times out.\<close>

definition qdma_queue_stop :: "'h queue_hw \<Rightarrow> bool \<Rightarrow> nat \<Rightarrow> 'h qdma_dev \<Rightarrow> int \<times> 'h qdma_dev" where
  "qdma_queue_stop qh buf qid q =
     (case qdma_queue_stop_begin buf qid q of (rv, q) \<Rightarrow>
        if rv < 0 then (rv, q)
        else (0, case qdma_device_get_descq_by_id q qid True of None \<Rightarrow> q | Some k \<Rightarrow> qdma_queue_stop_end qh k q))"

definition qdma_queue_remove :: "'h queue_hw \<Rightarrow> xdev_conf \<Rightarrow> bool \<Rightarrow> nat \<Rightarrow> 'h qdma_dev \<Rightarrow> int \<times> 'h qdma_dev" where
  "qdma_queue_remove qh xc buf qid q =
     (if \<not> buf then (- EINVAL_K, q)
      else case qdma_device_get_descq_by_id q qid True of
        None \<Rightarrow> (- EINVAL_K, q)
      | Some k \<Rightarrow>
          let d = descq_at q k; idx = xc_dma_device_index xc; t = dev_q_type (qc_q_type (dq_conf d)) in
          if dq_q_state d \<noteq> Q_STATE_ENABLED then (- EINVAL_K, q)
          else case qdma_dev_decrement_active_queue idx (func_of xc) t (qd_rm q) of (rv, rm) \<Rightarrow>
            if rv < 0 then (rv, q\<lparr>qd_rm := rm\<rparr>)
            else case (if st_c2h (dq_conf d) then qdma_dev_decrement_active_queue idx (func_of xc) QDMA_DEV_Q_TYPE_CMPT rm else (0, rm)) of (rv, rm) \<Rightarrow>
              if rv < 0 then (rv, q\<lparr>qd_rm := snd (qdma_dev_increment_active_queue idx (func_of xc) t rm)\<rparr>)
              else let q = set_state k Q_STATE_DISABLED (q\<lparr>qd_rm := rm\<rparr>)
                in (0, if drv_mode q = LEGACY_INTR_MODE then intr_legacy_clear qh k q else q))"

section \<open>State and counts\<close>

record qdma_q_state =
  qs_st :: bool
  qs_q_type :: queue_type_t
  qs_qidx :: "24 word"
  qs_qstate :: q_state_t

definition qdma_get_queue_state :: "bool \<Rightarrow> nat \<Rightarrow> 'h qdma_dev \<Rightarrow> int \<times> qdma_q_state option" where
  "qdma_get_queue_state buf qid q =
     (if \<not> buf then (- EINVAL_K, None)
      else case qdma_device_get_descq_by_id q qid True of
        None \<Rightarrow> (- EINVAL_K, None)
      | Some k \<Rightarrow> let d = descq_at q k in
          (0, Some \<lparr>qs_st = qc_st (dq_conf d), qs_q_type = qc_q_type (dq_conf d), qs_qidx = qc_qidx (dq_conf d), qs_qstate = dq_q_state d\<rparr>))"

definition qdma_get_queue_count :: "xdev_conf \<Rightarrow> bool \<Rightarrow> 'h qdma_dev \<Rightarrow> int \<times> (u32 \<times> u32 \<times> u32) option" where
  "qdma_get_queue_count xc buf q =
     (let cnt = (\<lambda>t. word_of_int (qdma_get_device_active_queue_count (xc_dma_device_index xc) (func_of xc) t (qd_rm q)))
      in if \<not> buf then (- EINVAL_K, None)
         else (0, Some (cnt QDMA_DEV_Q_TYPE_H2C, cnt QDMA_DEV_Q_TYPE_C2H, cnt QDMA_DEV_Q_TYPE_CMPT)))"

text \<open>On a failing register write the lock is released, as on every path.  On a queue that does not stream to the
  host nothing was locked, but the lock is released all the same.\<close>

definition qdma_queue_update_pointers :: "'h queue_hw \<Rightarrow> nat \<Rightarrow> 'h qdma_dev \<Rightarrow> int \<times> 'h qdma_dev" where
  "qdma_queue_update_pointers qh qhndl q =
     (case qdma_device_get_descq_by_id q qhndl False of
        None \<Rightarrow> (- EINVAL_K, q)
      | Some k \<Rightarrow>
          if \<not> st_c2h (dq_conf (descq_at q k)) then (- EINVAL_K, q)
          else if dq_q_state (descq_at q k) \<noteq> Q_STATE_ONLINE then (- ENODEV, q)
          else case queue_cmpt_cidx_update (qh_descq qh) (descq_at q k) (qd_env q) of (rv, e) \<Rightarrow>
            if rv < 0 then (- EBUSY, q\<lparr>qd_env := e\<rparr>)
            else case queue_pidx_update (qh_descq qh) (descq_at q k) e of (rv, e) \<Rightarrow>
              (if rv < 0 then - EBUSY else rv, q\<lparr>qd_env := e\<rparr>))"

section \<open>The device\<close>

text \<open>The memory of the device starts as zeros, a disabled queue with index 0 being all zeros.  The copy of the configuration
  arrays, the counters and the lists are not part of it.\<close>

definition qdma_device_init ::
    "'h queue_hw \<Rightarrow> xdev_conf \<Rightarrow> bool \<Rightarrow> nat \<Rightarrow> u16 \<Rightarrow> 'h qdma_dev \<Rightarrow> int \<times> 'h qdma_dev" where
  "qdma_device_init qh xc mem qmax qsets_base q =
     (if \<not> mem then (- ENOMEM_K, q)
      else let q = q\<lparr>qd_qmax := 0, qd_init_qrange := False, qd_qbase := 0, qd_descq := replicate (3 * qmax) (qdma_descq_init 0 0 0)\<rparr> in
        case (if xc_master_pf xc then on_dev_card (qh_init_ctxt_memory qh) q else (0, q)) of (rv, q) \<Rightarrow>
        if rv < 0 then (qdma_get_error_code rv, q)
        else let q = q\<lparr>qd_qmax := of_nat qmax, qd_qbase := qsets_base,
                   qd_descq := concat (replicate 3 (map (\<lambda>i. qdma_descq_init qsets_base i i) [0..<qmax]))\<rparr>;
                 q = snd (on_dev_card (qh_set_default_global_csr qh) q)
          in (0, foldl (\<lambda>q (i, dir). snd (on_dev_card (qh_mm_channel_conf qh (of_nat i) dir) q)) q
               (concat (map (\<lambda>i. [(i, True), (i, False)]) [0..<unat (mm_channel_max (dev_cap xc))]))))"

definition qdma_device_cleanup :: "'h queue_hw \<Rightarrow> xdev_conf \<Rightarrow> 'h qdma_dev \<Rightarrow> 'h qdma_dev" where
  "qdma_device_cleanup qh xc q =
     (let ids = [0..<2 * unat (qd_qmax q)];
          q = foldl (\<lambda>q qid. if dq_q_state (descq_at q qid) = Q_STATE_ONLINE then snd (qdma_queue_stop qh True qid q) else q) q ids
      in foldl (\<lambda>q qid. if dq_q_state (descq_at q qid) = Q_STATE_ENABLED then snd (qdma_queue_remove qh xc True qid q) else q) q ids)"

end
