(* ===== verification/Qdma_Queues_Props.thy ===== *)
theory Qdma_Queues_Props
  imports Qdma_Queues Qdma_Descq_Example
begin

text \<open>
  Properties of the life cycle of queues: the queues of a set agree in their mode and a handle leads back to its queue, where
  the clients name the indices; what starting a queue leads to, and when the queue is in the start state of the queue
  machine (\<open>started\<close>); what goes wrong when the driver chooses
  the index and when a queue with a blocking request is stopped.
\<close>

section \<open>Which queues may be added\<close>

abbreviation present :: "qdma_descq \<Rightarrow> bool" where "present d \<equiv> dq_q_state d \<noteq> Q_STATE_DISABLED"
abbreviation streams :: "qdma_descq \<Rightarrow> bool" where "streams d \<equiv> qc_st (dq_conf d)"

lemma mask_values: "Q_PRESENT_H2C_MASK = 1" "Q_PRESENT_C2H_MASK = 2" "Q_PRESENT_CMPT_MASK = 4" "Q_MODE_MASK = 8"
  by (simp_all add: Q_PRESENT_H2C_MASK_def Q_PRESENT_C2H_MASK_def Q_PRESENT_CMPT_MASK_def Q_MODE_MASK_def Q_MODE_SHIFT_def push_bit_eq_mult)

text \<open>The masks in plain words.\<close>

definition compatible :: "qdma_descq \<Rightarrow> qdma_descq \<Rightarrow> qdma_descq \<Rightarrow> queue_type_t \<Rightarrow> bool \<Rightarrow> bool" where
  "compatible h2c c2h cmpt t st =
     (if t = Q_CMPT then \<not> present cmpt \<and> (present h2c \<longrightarrow> \<not> streams h2c) \<and> (present c2h \<longrightarrow> \<not> streams c2h)
      else if t = Q_H2C then \<not> present h2c \<and> (present c2h \<longrightarrow> streams c2h = st) \<and> (st \<longrightarrow> \<not> present cmpt)
      else \<not> present c2h \<and> (present h2c \<longrightarrow> streams h2c = st) \<and> (st \<longrightarrow> \<not> present cmpt))"

lemma rejected_iff: "queue_rejected (queue_refmask h2c c2h cmpt) t st \<longleftrightarrow> \<not> compatible h2c c2h cmpt t st"
  by (cases "present h2c"; cases "present c2h"; cases "present cmpt"; cases "streams h2c"; cases "streams c2h"; cases st)
    (auto simp: queue_rejected_def queue_refmask_def compatible_def mask_values Let_def)

lemma usable_iff:
  "is_usable_queue q i t st < 0 \<longleftrightarrow>
     \<not> compatible (descq_at q (h2c_descq q + i)) (descq_at q (c2h_descq q + i)) (descq_at q (cmpt_descq q + i)) t st"
  by (simp add: is_usable_queue_def rejected_iff)

section \<open>What an operation changes\<close>

text \<open>What the pairing of queues depends on.\<close>

type_synonym queue_role = "q_state_t \<times> bool \<times> queue_type_t \<times> 24 word"

definition role :: "qdma_descq \<Rightarrow> queue_role" where
  "role d = (dq_q_state d, qc_st (dq_conf d), qc_q_type (dq_conf d), qc_qidx (dq_conf d))"

definition roles :: "'h qdma_dev \<Rightarrow> queue_role list" where
  "roles q = map role (qd_descq q)"

named_theorems keeps_role

lemma role_free [keeps_role]: "role (qdma_descq_free_resource d) = role d"
  by (simp add: role_def qdma_descq_free_resource_def Let_def)

lemma role_config_complete [keeps_role]: "role (qdma_descq_config_complete csr s d) = role d"
  by (simp add: role_def qdma_descq_config_complete_def cmpt_config_complete_def threshold_config_complete_def Let_def)

lemma role_reconfig [keeps_role]: "role (qdma_descq_config xc mode qconf True d) = role d"
  by (simp add: role_def qdma_descq_config_def Let_def)

lemma role_alloc: "qdma_descq_alloc_resource qh xc cnt d e = (rv, d', e') \<Longrightarrow> role d' = role d"
proof -
  have "alloc_ring qh d e = (ok, d', e') \<Longrightarrow> role d' = role d" for d e ok d' e'
    by (auto simp: alloc_ring_def role_def Let_def split: if_splits prod.splits option.splits)
  moreover have "alloc_cmpt qh d e = (ok, d', e') \<Longrightarrow> role d' = role d" for d e ok d' e'
    by (auto simp: alloc_cmpt_def role_def Let_def split: if_splits prod.splits option.splits)
  moreover have "role (desc_alloc_irq xc mode cnt d) = role d" for mode d
    by (simp add: desc_alloc_irq_def role_def Let_def)
  moreover obtain ok1 d1 e1 where "alloc_ring qh d e = (ok1, d1, e1)" by (rule prod_cases3)
  moreover obtain ok2 e2 where "alloc_lists qh d1 e1 = (ok2, e2)" by fastforce
  moreover obtain ok3 d3 e3 where "alloc_cmpt qh d1 e2 = (ok3, d3, e3)" by (rule prod_cases3)
  ultimately show "qdma_descq_alloc_resource qh xc cnt d e = (rv, d', e') \<Longrightarrow> role d' = role d"
    by (auto simp: qdma_descq_alloc_resource_def role_free split: if_splits)
qed

lemma role_prog_hw: "qdma_descq_prog_hw qh xc d e = (rv, d', e') \<Longrightarrow> role d' = role d"
  by (auto simp: qdma_descq_prog_hw_def first_indices_def role_def Let_def split: if_splits prod.splits)

lemma length_roles [simp]: "length (roles q) = length (qd_descq q)"
  by (simp add: roles_def)

lemma nth_roles [simp]: "k < length (qd_descq q) \<Longrightarrow> roles q ! k = role (descq_at q k)"
  by (simp add: roles_def)

lemma upd_descq_frame [simp]:
  "qd_qmax (upd_descq k f q) = qd_qmax q" "qd_init_qrange (upd_descq k f q) = qd_init_qrange q" "qd_env (upd_descq k f q) = qd_env q"
  "qd_rm (upd_descq k f q) = qd_rm q" "qd_descq (upd_descq k f q) = (qd_descq q)[k := f (descq_at q k)]"
  by (simp_all add: upd_descq_def)

lemma roles_upd: "roles (upd_descq k f q) = (roles q)[k := role (f (descq_at q k))]"
  by (simp add: roles_def map_update)

lemma update_same: "(roles q)[k := role (descq_at q k)] = roles q"
  by (cases "k < length (qd_descq q)") (simp_all add: list_update_same_conv list_update_beyond)

lemma roles_upd_same: "role (f (descq_at q k)) = role (descq_at q k) \<Longrightarrow> roles (upd_descq k f q) = roles q"
  by (simp add: roles_upd update_same)

lemma on_descq_effect:
  assumes "on_descq k f q = (rv, q')" and "\<And>e rv d' e'. f (descq_at q k) e = (rv, d', e') \<Longrightarrow> role d' = role (descq_at q k)"
  shows "roles q' = roles q \<and> qd_qmax q' = qd_qmax q \<and> qd_init_qrange q' = qd_init_qrange q"
proof -
  obtain r d e where f: "f (descq_at q k) (qd_env q) = (r, d, e)" by (meson prod_cases3)
  then have "roles q' = (roles q)[k := role d]" using assms(1) by (auto simp: on_descq_def roles_def map_update)
  moreover have "role d = role (descq_at q k)" using assms(2) f by blast
  ultimately show ?thesis using assms(1) f by (auto simp: on_descq_def update_same)
qed

lemma on_dev_card_frame [simp]:
  "qd_descq (snd (on_dev_card f q)) = qd_descq q" "qd_qmax (snd (on_dev_card f q)) = qd_qmax q"
  "qd_init_qrange (snd (on_dev_card f q)) = qd_init_qrange q" "qd_rm (snd (on_dev_card f q)) = qd_rm q"
  by (simp_all add: on_dev_card_def split_beta)

text \<open>Nothing but the environment, lists and counters changes.\<close>

definition same_roles :: "'h qdma_dev \<Rightarrow> 'h qdma_dev \<Rightarrow> bool" where
  "same_roles q q' \<longleftrightarrow> roles q' = roles q \<and> qd_qmax q' = qd_qmax q \<and> qd_init_qrange q' = qd_init_qrange q"

lemma same_roles_simps [simp]: "same_roles q q" "same_roles q (snd (on_dev_card f q))"
  by (simp_all add: same_roles_def roles_def)

lemma same_roles_trans: "same_roles q1 q2 \<Longrightarrow> same_roles q2 q3 \<Longrightarrow> same_roles q1 q3"
  by (simp add: same_roles_def)

lemma same_roles_legacy: "same_roles q (intr_legacy_clear qh k q)" "same_roles q (snd (intr_legacy_setup qh k q))"
  by (auto simp: same_roles_def roles_def intr_legacy_clear_def intr_legacy_setup_def on_dev_card_def Let_def split: prod.splits)

lemma same_roles_threads: "same_roles q (qdma_thread_add_work k q)" "same_roles q (qdma_thread_remove_work k q)"
proof -
  have u: "roles (upd_descq k f p) = roles q" if "\<And>d. role (f d) = role d" "qd_descq p = qd_descq q" for f and p :: "'a qdma_dev"
    using roles_upd_same [of f p k] that by (simp add: roles_def)
  show "same_roles q (qdma_thread_add_work k q)"
    unfolding same_roles_def qdma_thread_add_work_def Let_def
    by (intro conjI; (cases "drv_mode q = POLL_MODE"; cases "pick_thread (map snd (qd_thread_work q)) 0 None 0"; simp);
        rule u; simp add: role_def)
  have "roles (upd_descq k (\<lambda>d. d\<lparr>dq_cmplthp := False, dq_cpu_assigned := False\<rparr>) q) = roles q"
    by (rule roles_upd_same) (simp add: role_def)
  then show "same_roles q (qdma_thread_remove_work k q)"
    by (auto simp: same_roles_def qdma_thread_remove_work_def Let_def roles_def)
qed

lemma same_roles_intr: "same_roles q (add_intr_list xc k q)" "same_roles q (del_intr_list k q)"
  by (simp_all add: same_roles_def roles_def add_intr_list_def del_intr_list_def Let_def)

text \<open>The state of one queue changes.\<close>

definition moves :: "nat \<Rightarrow> q_state_t \<Rightarrow> 'h qdma_dev \<Rightarrow> 'h qdma_dev \<Rightarrow> bool" where
  "moves k s q q' \<longleftrightarrow> roles q' = (roles q)[k := (s, snd (roles q ! k))] \<and> qd_qmax q' = qd_qmax q \<and> qd_init_qrange q' = qd_init_qrange q"

lemma moves_set_state: "moves k s q (set_state k s q)"
  by (cases "k < length (qd_descq q)") (simp_all add: moves_def set_state_def roles_upd role_def list_update_beyond)

lemma moves_same: "same_roles q1 q2 \<Longrightarrow> moves k s q2 q3 \<Longrightarrow> moves k s q1 q3" "moves k s q1 q2 \<Longrightarrow> same_roles q2 q3 \<Longrightarrow> moves k s q1 q3"
  by (auto simp: moves_def same_roles_def)

lemma same_upd: "(\<And>d. role (f d) = role d) \<Longrightarrow> same_roles q (upd_descq k f q)"
  by (simp add: same_roles_def roles_upd_same)

lemma same_on_descq:
  assumes "on_descq k f q = (rv, q')" and "\<And>d e rv d' e'. f d e = (rv, d', e') \<Longrightarrow> role d' = role d"
  shows "same_roles q q'"
  using on_descq_effect [OF assms(1)] assms(2) unfolding same_roles_def by blast

lemma get_id_present: "qdma_device_get_descq_by_id q qid True = Some k \<Longrightarrow> present (descq_at q k)"
  by (auto simp: qdma_device_get_descq_by_id_def Let_def split: if_splits)

section \<open>The operations\<close>

lemma start_effect:
  assumes "qdma_queue_start qh xc buf qid q = (rv, q')"
  shows "same_roles q q' \<and> rv < 0 \<or> (\<exists>k. qdma_device_get_descq_by_id q qid True = Some k \<and> moves k Q_STATE_ONLINE q q' \<and> rv = 0)"
proof -
  have codes: "start_refused xc d \<le> 0" for d by (simp add: start_refused_def kernel_errors)
  show ?thesis
  proof (cases "qdma_device_get_descq_by_id q qid True")
    case None
    then show ?thesis using assms by (auto simp: qdma_queue_start_def kernel_errors split: if_splits)
  next
    case (Some k)
    show ?thesis
    proof (cases "\<not> buf \<or> start_refused xc (descq_at q k) \<noteq> 0")
      case True
      then show ?thesis using assms Some codes [of "descq_at q k"] by (auto simp: qdma_queue_start_def kernel_errors split: if_splits)
    next
      case False
      define q1 where "q1 = upd_descq k (qdma_descq_config_complete (qd_csr_info q) (qd_sorted_c2h_cntr_idx q)) q"
      obtain r2 q2 where 2: "on_descq k (qdma_descq_alloc_resource qh xc (qd_intr_list_cnt q1)) q1 = (r2, q2)" by fastforce
      obtain r3 q3 where 3: "on_descq k (qdma_descq_prog_hw qh xc) q2 = (r3, q3)" by fastforce
      have s1: "same_roles q q1" unfolding q1_def by (rule same_upd) (rule role_config_complete)
      have s2: "same_roles q q2" using same_roles_trans [OF s1 same_on_descq [OF 2 role_alloc]] .
      have s3: "same_roles q q3" using same_roles_trans [OF s2 same_on_descq [OF 3 role_prog_hw]] .
      have on: "moves k Q_STATE_ONLINE q (set_state k Q_STATE_ONLINE (qdma_thread_add_work k (add_intr_list xc k q3)))"
        by (rule moves_same(1) [OF _ moves_set_state])
          (rule same_roles_trans [OF s3 same_roles_trans [OF same_roles_intr(1) same_roles_threads(1)]])
      have off: "same_roles q (upd_descq k qdma_descq_free_resource (snd (on_dev_card f q3)))" for f
        by (rule same_roles_trans [OF s3 same_roles_trans [OF same_roles_simps(2) same_upd [OF role_free]]])
      show ?thesis
        using assms Some False 2 3 s2 on off by (auto simp: qdma_queue_start_def q1_def Let_def split: if_splits)
    qed
  qed
qed

lemma stop_end_effect: "moves k Q_STATE_ENABLED q (qdma_queue_stop_end qh k q)"
proof -
  define q1 where "q1 = snd (on_descq k stop_lists q)"
  define q2 where "q2 = qdma_thread_remove_work k q1"
  have "role (fst (snd (stop_lists d e))) = (Q_STATE_ENABLED, snd (role d))" for d :: qdma_descq and e :: "'a descq_env"
    by (simp add: stop_lists_def role_def Let_def)
  then have "moves k Q_STATE_ENABLED q q1"
    by (cases "k < length (qd_descq q)") (simp_all add: q1_def moves_def on_descq_def split_beta roles_def map_update list_update_beyond)
  moreover have "same_roles q1 q2" unfolding q2_def by (rule same_roles_threads)
  moreover have "same_roles q2 (del_intr_list k (snd (on_dev_card f q2)))" for f
    by (rule same_roles_trans [OF same_roles_simps(2) same_roles_intr(2)])
  moreover have "same_roles q3 (upd_descq k (\<lambda>d. (qdma_descq_free_resource d)\<lparr>dq_total_cmpl_descs := 0\<rparr>) q3)" for q3 :: "'a qdma_dev"
    by (rule same_upd) (simp add: role_def qdma_descq_free_resource_def Let_def)
  ultimately show ?thesis
    unfolding qdma_queue_stop_end_def Let_def q1_def [symmetric] q2_def [symmetric] using moves_same(2) by blast
qed

lemma stop_effect:
  assumes "qdma_queue_stop qh buf qid q = (rv, q')"
  shows "same_roles q q' \<or> (\<exists>k. present (descq_at q k) \<and> moves k Q_STATE_ENABLED q q')"
proof -
  obtain r1 q1 where 1: "qdma_queue_stop_begin buf qid q = (r1, q1)" by fastforce
  have wait: "same_roles q (upd_descq k (\<lambda>d. d\<lparr>dq_q_stop_wait := True\<rparr>) q)" for k by (rule same_upd) (simp add: role_def)
  have s: "same_roles q q1" using 1 wait by (auto simp: qdma_queue_stop_begin_def split: if_splits option.splits)
  have "q' = q1 \<or> (\<exists>k. qdma_device_get_descq_by_id q1 qid True = Some k \<and> q' = qdma_queue_stop_end qh k q1)"
    using assms 1 by (cases "r1 < 0"; cases "qdma_device_get_descq_by_id q1 qid True") (simp_all add: qdma_queue_stop_def)
  then consider "q' = q1" | k where "qdma_device_get_descq_by_id q1 qid True = Some k" "q' = qdma_queue_stop_end qh k q1"
    by blast
  then show ?thesis
  proof cases
    case 2
    have "present (descq_at q k)" if "k < length (qd_descq q)"
    proof -
      have r: "roles q1 = roles q" using s by (simp add: same_roles_def)
      then have "k < length (qd_descq q1)" using that by (metis length_roles)
      then have "role (descq_at q1 k) = role (descq_at q k)" using nth_roles [OF that] nth_roles [of k q1] r by simp
      then show ?thesis using get_id_present [OF 2(1)] by (simp add: role_def)
    qed
    moreover have "moves k Q_STATE_ENABLED q q'" using moves_same(1) [OF s stop_end_effect] 2(2) by simp
    moreover have "same_roles q q'" if "\<not> k < length (qd_descq q)"
      using calculation(2) that by (simp add: moves_def same_roles_def list_update_beyond)
    ultimately show ?thesis by blast
  qed (use s in simp)
qed

lemma remove_effect:
  assumes "qdma_queue_remove qh xc buf qid q = (rv, q')"
  shows "same_roles q q' \<or> (\<exists>k. moves k Q_STATE_DISABLED q q')"
proof -
  have dis: "moves k Q_STATE_DISABLED q (set_state k Q_STATE_DISABLED (q\<lparr>qd_rm := rm\<rparr>))" for k rm
    by (rule moves_same(1) [OF _ moves_set_state]) (simp add: same_roles_def roles_def)
  have ex: "\<exists>j. moves j Q_STATE_DISABLED q (set_state k Q_STATE_DISABLED (q\<lparr>qd_rm := rm\<rparr>))"
    "\<exists>j. moves j Q_STATE_DISABLED q (intr_legacy_clear qh k (set_state k Q_STATE_DISABLED (q\<lparr>qd_rm := rm\<rparr>)))" for k rm
    using dis moves_same(2) [OF dis same_roles_legacy(1)] by blast+
  have rm: "same_roles q (q\<lparr>qd_rm := rm\<rparr>)" for rm by (simp add: same_roles_def roles_def)
  show ?thesis
    using assms ex rm by (auto simp: qdma_queue_remove_def Let_def split: if_splits option.splits prod.splits)
qed

lemma config_effect: "qdma_queue_config xc buf qid qconf q = (rv, q') \<Longrightarrow> same_roles q q'"
  using same_upd [OF role_reconfig] by (auto simp: qdma_queue_config_def split: if_splits option.splits)

section \<open>Adding\<close>

lemma prep_effect:
  assumes "qdma_device_prep_q_resource qh xc q = (rv, q')"
  shows "roles q' = roles q \<and> qd_qmax q' = qd_qmax q \<and> (rv < 0 \<longrightarrow> \<not> qd_init_qrange q')"
  using assms by (auto simp: qdma_device_prep_q_resource_def device_set_qrange_def on_dev_card_def roles_def Let_def split: if_splits prod.splits)

lemma count_effect: "count_queue xc qconf q = (rv, q') \<Longrightarrow> same_roles q q'"
  by (auto simp: count_queue_def same_roles_def roles_def Let_def split: if_splits prod.splits)

text \<open>Once the resources of the device are there, a queue that has got its place ends up configured or disabled.\<close>

lemma add_placed_effect:
  assumes add: "add_placed qh xc k qconf q = (rv, hndl, q')" and k: "k < length (qd_descq q)" and ready: "qd_init_qrange q'"
  shows "(\<exists>x. roles q' = (roles q)[k := (Q_STATE_DISABLED, x)]) \<and> rv < 0 \<or>
      roles q' = (roles q)[k := (Q_STATE_ENABLED, qc_st qconf, qc_q_type qconf, qc_qidx qconf)]"
    and "qd_qmax q' = qd_qmax q"
proof -
  define q1 where "q1 = set_state k Q_STATE_ENABLED q"
  obtain r2 q2 where 2: "qdma_device_prep_q_resource qh xc q1 = (r2, q2)" by fastforce
  obtain r3 q3 where 3: "(if drv_mode q2 = LEGACY_INTR_MODE then intr_legacy_setup qh k q2 else (0, q2)) = (r3, q3)" by fastforce
  define q4 where "q4 = upd_descq k (qdma_descq_config xc (drv_mode q3) qconf False) q3"
  obtain r5 q5 where 5: "count_queue xc qconf q4 = (r5, q5)" by fastforce
  have 1: "roles q1 = (roles q)[k := (Q_STATE_ENABLED, snd (roles q ! k))]" "qd_qmax q1 = qd_qmax q"
    using moves_set_state [of k Q_STATE_ENABLED q] by (simp_all add: moves_def q1_def)
  have s3: "roles q3 = roles q1" "qd_qmax q3 = qd_qmax q"
    using prep_effect [OF 2] 3 same_roles_legacy(2) [of q2 qh k] 1(2) by (auto simp: same_roles_def split: if_splits)
  then have len: "k < length (qd_descq q3)" using k 1(1) by (metis length_list_update length_roles)
  have "dq_q_state (descq_at q3 k) = Q_STATE_ENABLED"
    using nth_roles [OF len] s3(1) 1(1) k by (simp add: role_def)
  then have "roles q4 = (roles q)[k := (Q_STATE_ENABLED, qc_st qconf, qc_q_type qconf, qc_qidx qconf)]"
    by (simp add: q4_def roles_upd s3 1 role_def qdma_descq_config_def)
  then have s5: "roles q5 = (roles q)[k := (Q_STATE_ENABLED, qc_st qconf, qc_q_type qconf, qc_qidx qconf)]" "qd_qmax q5 = qd_qmax q"
    using count_effect [OF 5] s3(2) by (simp_all add: same_roles_def q4_def)
  have off: "\<exists>x. roles (set_state k Q_STATE_DISABLED p) = (roles q)[k := (Q_STATE_DISABLED, x)]" "qd_qmax (set_state k Q_STATE_DISABLED p) = qd_qmax q"
    if "same_roles q3 p" for p
  proof -
    have "roles (set_state k Q_STATE_DISABLED p) = (roles q)[k := (Q_STATE_DISABLED, snd (roles p ! k))]"
      using moves_set_state [of k Q_STATE_DISABLED p] that s3 1 by (simp add: moves_def same_roles_def)
    then show "\<exists>x. roles (set_state k Q_STATE_DISABLED p) = (roles q)[k := (Q_STATE_DISABLED, x)]" by blast
    show "qd_qmax (set_state k Q_STATE_DISABLED p) = qd_qmax q"
      using moves_set_state [of k Q_STATE_DISABLED p] that s3 by (simp add: moves_def same_roles_def)
  qed
  have hndl: "same_roles q5 (upd_descq k (\<lambda>d. d\<lparr>dq_q_hndl := h\<rparr>) q5)" for h by (rule same_upd) (simp add: role_def)
  have add': "add_placed qh xc k qconf q = (if r2 < 0 then (r2, unat QDMA_QUEUE_IDX_INVALID, q2)
      else if r3 > 0 then (- EINVAL_K, unat QDMA_QUEUE_IDX_INVALID, set_state k Q_STATE_DISABLED (intr_legacy_clear qh k q3))
      else if r3 < 0 then (- EINVAL_K, unat QDMA_QUEUE_IDX_INVALID, set_state k Q_STATE_DISABLED q3)
      else if r5 < 0 then (r5, unat QDMA_QUEUE_IDX_INVALID, q5)
      else let hndl = unat (qc_qidx (dq_conf (descq_at q5 k))) +
             (if qc_q_type qconf = Q_C2H then unat (qd_qmax q5) else if qc_q_type qconf = Q_CMPT then 2 * unat (qd_qmax q5) else 0)
        in (0, hndl, upd_descq k (\<lambda>d. d\<lparr>dq_q_hndl := of_nat hndl\<rparr>) q5))"
    unfolding add_placed_def Let_def q1_def [symmetric] 2 prod.case 3 q4_def [symmetric] 5 by simp
  have neg: "- EINVAL_K < 0" by (simp add: EINVAL_K_def)
  show "(\<exists>x. roles q' = (roles q)[k := (Q_STATE_DISABLED, x)]) \<and> rv < 0 \<or>
      roles q' = (roles q)[k := (Q_STATE_ENABLED, qc_st qconf, qc_q_type qconf, qc_qidx qconf)]"
    using add [unfolded add'] prep_effect [OF 2] ready off(1) [OF same_roles_legacy(1)] off(1) [OF same_roles_simps(1)] s5(1) hndl neg
    by (auto simp: Let_def same_roles_def split: if_splits)
  show "qd_qmax q' = qd_qmax q"
    using add [unfolded add'] prep_effect [OF 2] 1(2) off(2) [OF same_roles_legacy(1)] off(2) [OF same_roles_simps(1)] s5(2) hndl
    by (auto simp: Let_def same_roles_def split: if_splits)
qed

lemma add_cases:
  assumes "qdma_queue_add qh xc buf qconf h q = Some (rv, qconf', hndl, q')"
  obtains "q' = q" "rv < 0"
  | k where "place_queue qconf q = Some (k, qconf')" "k < length (qd_descq q)" "add_placed qh xc k qconf' q = (rv, hndl, q')"
    "qc_q_type qconf \<noteq> Q_H2C_C2H" "\<not> (qc_st qconf \<and> qc_q_type qconf = Q_CMPT)"
    "qc_qidx qconf \<noteq> QDMA_QUEUE_IDX_INVALID \<Longrightarrow> unat (qc_qidx qconf) < unat (qd_qmax q)"
proof -
  have neg: "- EINVAL_K < 0" "- EIO_K < 0" "- EPERM < 0" by (simp_all add: kernel_errors)
  show ?thesis
    using assms that neg by (auto simp: qdma_queue_add_def Let_def not_le split: if_splits option.splits prod.splits)
qed

section \<open>The queues of a set agree\<close>

abbreviation taken :: "queue_role \<Rightarrow> bool" where "taken r \<equiv> fst r \<noteq> Q_STATE_DISABLED"
abbreviation mode_of :: "queue_role \<Rightarrow> bool" where "mode_of r \<equiv> fst (snd r)"

definition set_ok :: "nat \<Rightarrow> queue_role \<Rightarrow> queue_role \<Rightarrow> queue_role \<Rightarrow> bool" where
  "set_ok i h2c c2h cmpt \<longleftrightarrow>
     (taken h2c \<longrightarrow> snd (snd h2c) = (Q_H2C, of_nat i)) \<and> (taken c2h \<longrightarrow> snd (snd c2h) = (Q_C2H, of_nat i)) \<and>
     (taken cmpt \<longrightarrow> snd (snd cmpt) = (Q_CMPT, of_nat i) \<and> \<not> mode_of cmpt) \<and>
     (taken h2c \<and> taken c2h \<longrightarrow> mode_of h2c = mode_of c2h) \<and>
     (taken cmpt \<longrightarrow> (taken h2c \<longrightarrow> \<not> mode_of h2c) \<and> (taken c2h \<longrightarrow> \<not> mode_of c2h))"

definition sets_ok :: "nat \<Rightarrow> queue_role list \<Rightarrow> bool" where
  "sets_ok n rs \<longleftrightarrow> 3 * n \<le> length rs \<and> (\<forall>i < n. set_ok i (rs ! i) (rs ! (n + i)) (rs ! (2 * n + i)))"

lemma sets_ok_weaken:
  assumes "sets_ok n rs" and "taken r \<Longrightarrow> taken (rs ! k) \<and> snd r = snd (rs ! k)"
  shows "sets_ok n (rs[k := r])"
proof -
  have "set_ok i (rs[k := r] ! i) (rs[k := r] ! (n + i)) (rs[k := r] ! (2 * n + i))" if "i < n" for i
  proof -
    have weaker: "taken (rs[k := r] ! j) \<Longrightarrow> taken (rs ! j) \<and> snd (rs[k := r] ! j) = snd (rs ! j)" if "j < length rs" for j
      using assms(2) that by (cases "j = k") simp_all
    have "i < length rs" "n + i < length rs" "2 * n + i < length rs" using assms(1) that by (auto simp: sets_ok_def)
    then show ?thesis using assms(1) that weaker [of i] weaker [of "n + i"] weaker [of "2 * n + i"]
      by (fastforce simp: sets_ok_def set_ok_def)
  qed
  then show ?thesis using assms(1) by (simp add: sets_ok_def)
qed

lemma sets_ok_add:
  assumes ok: "sets_ok n (roles q)" and n: "unat (qd_qmax q) = n" and i: "i < n"
    and comp: "compatible (descq_at q (h2c_descq q + i)) (descq_at q (c2h_descq q + i)) (descq_at q (cmpt_descq q + i)) t st"
    and t: "t \<noteq> Q_H2C_C2H" "\<not> (st \<and> t = Q_CMPT)"
  shows "sets_ok n ((roles q)[descq_base q t + i := (Q_STATE_ENABLED, st, t, of_nat i)])"
proof -
  let ?r = "(Q_STATE_ENABLED, st, t, of_nat i)" and ?k = "descq_base q t + i"
  have len: "3 * n \<le> length (qd_descq q)" using ok by (simp add: sets_ok_def)
  have base: "?k = (case t of Q_H2C \<Rightarrow> i | Q_C2H \<Rightarrow> n + i | _ \<Rightarrow> 2 * n + i)"
    using n t by (cases t) (simp_all add: descq_base_def h2c_descq_def c2h_descq_def cmpt_descq_def)
  have at: "roles q ! i = role (descq_at q i)" "roles q ! (n + i) = role (descq_at q (n + i))" "roles q ! (2 * n + i) = role (descq_at q (2 * n + i))"
    using len i by simp_all
  have "set_ok j ((roles q)[?k := ?r] ! j) ((roles q)[?k := ?r] ! (n + j)) ((roles q)[?k := ?r] ! (2 * n + j))" if j: "j < n" for j
  proof (cases "j = i")
    case False
    then have "?k \<noteq> j" "?k \<noteq> n + j" "?k \<noteq> 2 * n + j" using base i j t by (cases t; simp)+
    then show ?thesis using ok j by (simp add: sets_ok_def del: nth_roles)
  next
    case True
    have "set_ok i (roles q ! i) (roles q ! (n + i)) (roles q ! (2 * n + i))" using ok i by (simp add: sets_ok_def del: nth_roles)
    then show ?thesis using True comp t len i n base unfolding at
      by (cases t) (auto simp: set_ok_def compatible_def role_def h2c_descq_def c2h_descq_def cmpt_descq_def nth_list_update at)
  qed
  then show ?thesis using len by (simp add: sets_ok_def)
qed

text \<open>The calls of clients except adding, and calls into a queue, which keep its configuration and its state.\<close>

inductive queues_step :: "'h queue_hw \<Rightarrow> xdev_conf \<Rightarrow> 'h qdma_dev \<Rightarrow> 'h qdma_dev \<Rightarrow> bool" for qh xc where
  config: "qdma_queue_config xc buf qid qconf q = (rv, q') \<Longrightarrow> queues_step qh xc q q'"
| start: "qdma_queue_start qh xc buf qid q = (rv, q') \<Longrightarrow> queues_step qh xc q q'"
| stop: "qdma_queue_stop qh buf qid q = (rv, q') \<Longrightarrow> queues_step qh xc q q'"
| remove: "qdma_queue_remove qh xc buf qid q = (rv, q') \<Longrightarrow> queues_step qh xc q q'"
| use: "dq_conf d = dq_conf (descq_at q k) \<Longrightarrow> dq_q_state d = dq_q_state (descq_at q k) \<Longrightarrow>
    queues_step qh xc q (q\<lparr>qd_descq := (qd_descq q)[k := d], qd_env := e\<rparr>)"

inductive_cases queues_stepE: "queues_step qh xc q q'"

text \<open>Any calls.  For each queue added it is written down which configuration the client gave, and whether the
  resources of the device were prepared when the call returned.\<close>

inductive queues_run :: "'h queue_hw \<Rightarrow> xdev_conf \<Rightarrow> (qdma_queue_conf \<times> bool) list \<Rightarrow> 'h qdma_dev \<Rightarrow> 'h qdma_dev \<Rightarrow> bool" for qh xc where
  run_none: "queues_run qh xc [] q q"
| run_add: "queues_run qh xc adds q t \<Longrightarrow> qdma_queue_add qh xc buf qconf h t = Some (rv, qconf', hndl, q') \<Longrightarrow>
    queues_run qh xc (adds @ [(qconf, qd_init_qrange q')]) q q'"
| run_step: "queues_run qh xc adds q t \<Longrightarrow> queues_step qh xc t q' \<Longrightarrow> queues_run qh xc adds q q'"

lemma moves_ok:
  assumes "moves k s q q'" and "sets_ok (unat (qd_qmax q)) (roles q)" and "s \<noteq> Q_STATE_DISABLED \<Longrightarrow> k < length (qd_descq q) \<Longrightarrow> present (descq_at q k)"
  shows "sets_ok (unat (qd_qmax q')) (roles q')"
proof (cases "k < length (qd_descq q)")
  case True
  then show ?thesis
    using assms sets_ok_weaken [OF assms(2), of "(s, snd (roles q ! k))" k] by (cases "s = Q_STATE_DISABLED") (auto simp: moves_def role_def)
qed (use assms in \<open>simp add: moves_def list_update_beyond\<close>)

lemma queues_step_ok:
  assumes "queues_step qh xc q q'" and ok: "sets_ok (unat (qd_qmax q)) (roles q)"
  shows "sets_ok (unat (qd_qmax q')) (roles q')"
proof -
  have same: "sets_ok (unat (qd_qmax p)) (roles p)" if "same_roles q p" for p using that ok by (simp add: same_roles_def)
  from assms(1) show ?thesis
  proof (cases rule: queues_step.cases)
    case (config buf qid qconf rv)
    then show ?thesis using same config_effect by blast
  next
    case (start buf qid rv)
    then show ?thesis using same start_effect [OF start] moves_ok [OF _ ok] get_id_present by blast
  next
    case (stop buf qid rv)
    then show ?thesis using same stop_effect [OF stop] moves_ok [OF _ ok] by blast
  next
    case (remove buf qid rv)
    then show ?thesis using same remove_effect [OF remove] moves_ok [OF _ ok] by blast
  next
    case (use d k e)
    then have "role d = role (descq_at q k)" by (simp add: role_def)
    then have "roles q' = roles q" using update_same [of q k] use(1) by (simp add: roles_def map_update)
    then show ?thesis using ok use(1) by simp
  qed
qed

lemma queue_add_ok:
  assumes add: "qdma_queue_add qh xc buf qconf h q = Some (rv, qconf', hndl, q')" and idx: "qc_qidx qconf \<noteq> QDMA_QUEUE_IDX_INVALID"
    and range: "qd_init_qrange q'" and ok: "sets_ok (unat (qd_qmax q)) (roles q)"
  shows "sets_ok (unat (qd_qmax q')) (roles q')"
  using add
proof (cases rule: add_cases)
  case (2 k)
  let ?i = "unat (qc_qidx qconf)"
  have c: "compatible (descq_at q (h2c_descq q + ?i)) (descq_at q (c2h_descq q + ?i)) (descq_at q (cmpt_descq q + ?i)) (qc_q_type qconf) (qc_st qconf)"
    "k = descq_base q (qc_q_type qconf) + ?i" "qconf' = qconf"
    using 2(1) idx by (auto simp: place_queue_def Let_def usable_iff split: if_splits)
  have "sets_ok (unat (qd_qmax q)) ((roles q)[k := (Q_STATE_ENABLED, qc_st qconf, qc_q_type qconf, qc_qidx qconf)])"
    using sets_ok_add [OF ok refl 2(6) [OF idx] c(1) 2(4,5)] c(2) by simp
  moreover have "sets_ok (unat (qd_qmax q)) ((roles q)[k := (Q_STATE_DISABLED, x)])" for x
    by (rule sets_ok_weaken [OF ok]) simp
  ultimately show ?thesis using add_placed_effect [OF 2(3,2) range] c(3) by auto
qed (use ok in simp)

lemma queues_run_ok:
  assumes "queues_run qh xc adds q q'" and "sets_ok (unat (qd_qmax q)) (roles q)"
    and "\<forall>(qconf, ready) \<in> set adds. qc_qidx qconf \<noteq> QDMA_QUEUE_IDX_INVALID \<and> ready"
  shows "sets_ok (unat (qd_qmax q')) (roles q')"
  using assms
proof (induction rule: queues_run.induct)
  case (run_add adds t buf qconf h rv qconf' hndl q')
  then show ?case using queue_add_ok [OF run_add(2)] by simp
qed (use queues_step_ok in blast)+

lemma sets_ok_start: "3 * n \<le> length rs \<Longrightarrow> (\<And>r. r \<in> set rs \<Longrightarrow> \<not> taken r) \<Longrightarrow> sets_ok n rs"
  by (auto simp: sets_ok_def set_ok_def)

lemma channels_frame:
  "qd_descq (foldl (\<lambda>q (i, dir). snd (on_dev_card (f i dir) q)) q xs) = qd_descq q"
  "qd_qmax (foldl (\<lambda>q (i, dir). snd (on_dev_card (f i dir) q)) q xs) = qd_qmax q"
  by (induction xs arbitrary: q) auto

lemma init_ok:
  assumes "qdma_device_init qh xc True qmax base q0 = (rv, q)"
  shows "sets_ok (unat (qd_qmax q)) (roles q)"
proof (rule sets_ok_start)
  have dis: "\<not> taken (role (qdma_descq_init b i j))" for b i j by (simp add: role_def qdma_descq_init_def)
  define p where "p = q0\<lparr>qd_qmax := 0, qd_init_qrange := False, qd_qbase := 0, qd_descq := replicate (3 * qmax) (qdma_descq_init 0 0 0)\<rparr>"
  obtain r1 q1 where 1: "(if xc_master_pf xc then on_dev_card (qh_init_ctxt_memory qh) p else (0, p)) = (r1, q1)" by fastforce
  have q1: "qd_descq q1 = qd_descq p" "qd_qmax q1 = 0"
    using 1 by (auto simp: on_dev_card_def p_def split: if_splits prod.splits)
  have q: "qd_qmax q = 0 \<and> qd_descq q = qd_descq p \<or>
      qd_qmax q = of_nat qmax \<and> qd_descq q = concat (replicate 3 (map (\<lambda>i. qdma_descq_init base i i) [0..<qmax]))"
    using assms q1 by (auto simp: qdma_device_init_def Let_def 1 [unfolded p_def] channels_frame split: if_splits)
  have "unat (of_nat qmax :: u16) \<le> qmax" by (simp add: unat_of_nat)
  then show "3 * unat (qd_qmax q) \<le> length (roles q)" using q by (auto simp: length_concat numeral_3_eq_3)
  show "\<not> taken r" if "r \<in> set (roles q)" for r using that q dis by (auto simp: roles_def p_def)
qed

text \<open>C10: After a device has been initialised, whatever clients add, configure, start, stop and remove and however queues
  are used, as long as each client names the index of the queue it adds and the device's resources are prepared when the call
  returns: the queues of a set agree.  Each is what its place says it is, with its index; the queue to the card and
  the one from the card are both for streaming or both memory mapped; a queue that is only a completion ring is not
  beside a streaming queue.\<close>

theorem queue_sets_agree:
  assumes "qdma_device_init qh xc True qmax base q0 = (rv, q)" and "queues_run qh xc adds q q'" and "i < unat (qd_qmax q')"
    and "h2c = descq_at q' (h2c_descq q' + i)" and "c2h = descq_at q' (c2h_descq q' + i)" and "cmpt = descq_at q' (cmpt_descq q' + i)"
    and "\<forall>(qconf, ready) \<in> set adds. qc_qidx qconf \<noteq> QDMA_QUEUE_IDX_INVALID \<and> ready"
  shows "(present h2c \<longrightarrow> qc_q_type (dq_conf h2c) = Q_H2C \<and> qc_qidx (dq_conf h2c) = of_nat i) \<and>
    (present c2h \<longrightarrow> qc_q_type (dq_conf c2h) = Q_C2H \<and> qc_qidx (dq_conf c2h) = of_nat i) \<and>
    (present cmpt \<longrightarrow> qc_q_type (dq_conf cmpt) = Q_CMPT \<and> qc_qidx (dq_conf cmpt) = of_nat i) \<and>
    (present h2c \<and> present c2h \<longrightarrow> streams h2c = streams c2h) \<and>
    (present cmpt \<longrightarrow> \<not> (present h2c \<and> streams h2c) \<and> \<not> (present c2h \<and> streams c2h))"
proof -
  have ok: "sets_ok (unat (qd_qmax q')) (roles q')"
    by (rule queues_run_ok [OF assms(2) init_ok [OF assms(1)] assms(7)])
  then have "3 * unat (qd_qmax q') \<le> length (qd_descq q')" by (simp add: sets_ok_def)
  then have at: "roles q' ! i = role h2c" "roles q' ! (unat (qd_qmax q') + i) = role c2h" "roles q' ! (2 * unat (qd_qmax q') + i) = role cmpt"
    using assms(3-6) by (simp_all add: h2c_descq_def c2h_descq_def cmpt_descq_def)
  have "set_ok i (roles q' ! i) (roles q' ! (unat (qd_qmax q') + i)) (roles q' ! (2 * unat (qd_qmax q') + i))"
    using ok assms(3) by (simp add: sets_ok_def del: nth_roles)
  then show ?thesis unfolding at by (auto simp: set_ok_def role_def)
qed

section \<open>Handles\<close>

lemma get_id_at:
  assumes "i < unat (qd_qmax q)" and "t \<noteq> Q_H2C_C2H"
  shows "qdma_device_get_descq_by_id q (descq_base q t + i) init =
    (if init \<and> \<not> present (descq_at q (descq_base q t + i)) then None else Some (descq_base q t + i))"
  using assms by (cases t) (auto simp: qdma_device_get_descq_by_id_def descq_base_def h2c_descq_def c2h_descq_def cmpt_descq_def Let_def)

lemma descqs_kept:
  "qdma_device_prep_q_resource qh xc q = (rv, q') \<Longrightarrow> qd_descq q' = qd_descq q \<and> qd_qmax q' = qd_qmax q"
  "qd_descq (snd (intr_legacy_setup qh k q)) = qd_descq q" "qd_qmax (snd (intr_legacy_setup qh k q)) = qd_qmax q"
  "count_queue xc qconf q = (rv, q') \<Longrightarrow> qd_descq q' = qd_descq q \<and> qd_qmax q' = qd_qmax q"
  by (auto simp: qdma_device_prep_q_resource_def device_set_qrange_def on_dev_card_def intr_legacy_setup_def count_queue_def Let_def
      split: if_splits prod.splits)

lemma add_placed_ok:
  assumes add: "add_placed qh xc k qconf q = (0, hndl, q')" and k: "k < length (qd_descq q)"
  shows "hndl = unat (qc_qidx qconf) + (if qc_q_type qconf = Q_C2H then unat (qd_qmax q) else if qc_q_type qconf = Q_CMPT then 2 * unat (qd_qmax q) else 0)"
    and "qd_descq q' = (qd_descq q)[k := (descq_at q k)\<lparr>dq_q_state := Q_STATE_ENABLED, dq_conf := qconf, dq_q_hndl := of_nat hndl\<rparr>]"
    and "qd_qmax q' = qd_qmax q"
proof -
  define q1 where "q1 = set_state k Q_STATE_ENABLED q"
  obtain r2 q2 where 2: "qdma_device_prep_q_resource qh xc q1 = (r2, q2)" by fastforce
  obtain r3 q3 where 3: "(if drv_mode q2 = LEGACY_INTR_MODE then intr_legacy_setup qh k q2 else (0, q2)) = (r3, q3)" by fastforce
  define q4 where "q4 = upd_descq k (qdma_descq_config xc (drv_mode q3) qconf False) q3"
  obtain r5 q5 where 5: "count_queue xc qconf q4 = (r5, q5)" by fastforce
  have q1: "qd_descq q1 = (qd_descq q)[k := (descq_at q k)\<lparr>dq_q_state := Q_STATE_ENABLED\<rparr>]" "qd_qmax q1 = qd_qmax q"
    by (simp_all add: q1_def set_state_def)
  have q3: "qd_descq q3 = qd_descq q1 \<and> qd_qmax q3 = qd_qmax q"
    using descqs_kept(1) [OF 2] 3 descqs_kept(2,3) [of qh k q2] q1(2) by (auto split: if_splits)
  have q5: "qd_descq q5 = (qd_descq q)[k := (descq_at q k)\<lparr>dq_q_state := Q_STATE_ENABLED, dq_conf := qconf\<rparr>]" "qd_qmax q5 = qd_qmax q"
    using descqs_kept(4) [OF 5] q3 q1 k by (simp_all add: q4_def qdma_descq_config_def)
  have codes: "EINVAL_K \<noteq> 0" by (simp add: EINVAL_K_def)
  have "(0, hndl, q') = (let hndl = unat (qc_qidx (dq_conf (descq_at q5 k))) +
             (if qc_q_type qconf = Q_C2H then unat (qd_qmax q5) else if qc_q_type qconf = Q_CMPT then 2 * unat (qd_qmax q5) else 0)
        in (0, hndl, upd_descq k (\<lambda>d. d\<lparr>dq_q_hndl := of_nat hndl\<rparr>) q5))"
    using add codes unfolding add_placed_def Let_def q1_def [symmetric] 2 prod.case 3 q4_def [symmetric] 5 by (auto split: if_splits)
  then show "hndl = unat (qc_qidx qconf) + (if qc_q_type qconf = Q_C2H then unat (qd_qmax q) else if qc_q_type qconf = Q_CMPT then 2 * unat (qd_qmax q) else 0)"
    and "qd_descq q' = (qd_descq q)[k := (descq_at q k)\<lparr>dq_q_state := Q_STATE_ENABLED, dq_conf := qconf, dq_q_hndl := of_nat hndl\<rparr>]"
    and "qd_qmax q' = qd_qmax q"
    using q5 k by (auto simp: Let_def)
qed

lemma handle_base: "t \<noteq> Q_H2C_C2H \<Longrightarrow>
    (if t = Q_C2H then unat (qd_qmax q) else if t = Q_CMPT then 2 * unat (qd_qmax q) else 0) = descq_base q t"
  by (cases t) (simp_all add: descq_base_def h2c_descq_def c2h_descq_def cmpt_descq_def)


text \<open>C39: When the driver is to choose the index and the first set that is free is not the first set of all, the queue it
  enables and configures is not the one it gives the handle of: that one stays disabled, so it cannot be started, while
  a queue twice as far from the start is taken.\<close>

theorem automatic_index_other_queue:
  assumes add: "qdma_queue_add qh xc buf qconf h q = Some (0, qconf', hndl, q')" and idx: "qc_qidx qconf = QDMA_QUEUE_IDX_INVALID"
    and busy: "is_usable_queue q 0 (qc_q_type qconf) (qc_st qconf) < 0"
  shows "\<exists>i. 0 < i \<and> i < unat (qd_qmax q) \<and> hndl = descq_base q (qc_q_type qconf) + i \<and> descq_at q' hndl = descq_at q hndl \<and>
    \<not> present (descq_at q' hndl) \<and> qdma_queue_start qh2 xc2 buf2 hndl q' = (- EINVAL_K, q') \<and>
    dq_q_state (descq_at q' (hndl + i)) = Q_STATE_ENABLED \<and> qc_qidx (dq_conf (descq_at q' (hndl + i))) = of_nat i"
  using add
proof (cases rule: add_cases)
  case (2 k)
  let ?t = "qc_q_type qconf"
  obtain i where f: "find (\<lambda>i. \<not> is_usable_queue q i ?t (qc_st qconf) < 0) [0..<unat (qd_qmax q)] = Some i"
    "k = descq_base q ?t + i + i" "qconf' = qconf\<lparr>qc_qidx := of_nat i\<rparr>"
    using 2(1) idx by (auto simp: place_queue_def Let_def)
  have i: "i < unat (qd_qmax q)" "\<not> is_usable_queue q i ?t (qc_st qconf) < 0"
    using f(1) by (auto simp: find_Some_iff)
  have "i \<noteq> 0" using i(2) busy by metis
  note ok = add_placed_ok [OF 2(3) 2(2)]
  have t: "qc_q_type qconf' = ?t" using f(3) by simp
  have "unat (qd_qmax q) < 2 ^ LENGTH(16)" by (rule unsigned_less)
  then have "i < 2 ^ 24" using i(1) by simp
  then have "unat (qc_qidx qconf') = i" using f(3) by (simp add: unat_of_nat)
  then have hndl: "hndl = descq_base q ?t + i" using ok(1) unfolding t handle_base [OF 2(4)] by (simp only: add.commute)
  have same: "descq_at q' hndl = descq_at q hndl" using ok(2) f(2) hndl \<open>i \<noteq> 0\<close> by simp
  have "compatible (descq_at q (h2c_descq q + i)) (descq_at q (c2h_descq q + i)) (descq_at q (cmpt_descq q + i)) ?t (qc_st qconf)"
    using i(2) by (simp only: usable_iff not_not)
  then have free: "\<not> present (descq_at q hndl)"
    using 2(4) hndl by (cases ?t) (simp_all add: compatible_def descq_base_def)
  have "descq_base q' ?t = descq_base q ?t"
    using ok(3) by (simp add: descq_base_def h2c_descq_def c2h_descq_def cmpt_descq_def)
  then have "qdma_device_get_descq_by_id q' hndl True = None"
    using get_id_at [of i q' ?t True] i(1) 2(4) ok(3) hndl same free by simp
  then have "qdma_queue_start qh2 xc2 buf2 hndl q' = (- EINVAL_K, q')" by (simp add: qdma_queue_start_def)
  moreover have "descq_at q' (hndl + i) = (descq_at q k)\<lparr>dq_q_state := Q_STATE_ENABLED, dq_conf := qconf', dq_q_hndl := of_nat hndl\<rparr>"
    using ok(2) f(2) hndl 2(2) by simp
  ultimately show ?thesis using \<open>i \<noteq> 0\<close> i(1) hndl same free f(3) by auto
qed simp

section \<open>A started queue\<close>

lemma thread_descq:
  assumes "k < length (qd_descq q)"
  shows "\<exists>c t w. descq_at (qdma_thread_add_work k q) k = (descq_at q k)\<lparr>dq_cpu_assigned := c, dq_cmplthp := t, dq_intr_work_cpu := w\<rparr>"
    and "j \<noteq> k \<Longrightarrow> descq_at (qdma_thread_add_work k q) j = descq_at q j" and "length (qd_descq (qdma_thread_add_work k q)) = length (qd_descq q)"
    and "qd_env (qdma_thread_add_work k q) = qd_env q"
proof -
  let ?d = "descq_at q k"
  show "\<exists>c t w. descq_at (qdma_thread_add_work k q) k = ?d\<lparr>dq_cpu_assigned := c, dq_cmplthp := t, dq_intr_work_cpu := w\<rparr>"
  proof (cases "drv_mode q = POLL_MODE")
    case False
    then have "\<exists>w. descq_at (qdma_thread_add_work k q) k = ?d\<lparr>dq_cpu_assigned := True, dq_cmplthp := dq_cmplthp ?d, dq_intr_work_cpu := w\<rparr>"
      using assms by (simp add: qdma_thread_add_work_def Let_def) blast
    then show ?thesis by blast
  next
    case True
    show ?thesis
    proof (cases "pick_thread (map snd (qd_thread_work q)) 0 None 0")
      case None
      have "?d = ?d\<lparr>dq_cpu_assigned := dq_cpu_assigned ?d, dq_cmplthp := dq_cmplthp ?d, dq_intr_work_cpu := dq_intr_work_cpu ?d\<rparr>" by simp
      moreover have "descq_at (qdma_thread_add_work k q) k = ?d" using True None by (simp add: qdma_thread_add_work_def)
      ultimately show ?thesis by metis
    next
      case (Some i)
      have "descq_at (qdma_thread_add_work k q) k = ?d\<lparr>dq_cpu_assigned := dq_cpu_assigned ?d, dq_cmplthp := True, dq_intr_work_cpu := of_nat i\<rparr>"
        using True Some assms by (simp add: qdma_thread_add_work_def)
      then show ?thesis by blast
    qed
  qed
  show "j \<noteq> k \<Longrightarrow> descq_at (qdma_thread_add_work k q) j = descq_at q j" and "length (qd_descq (qdma_thread_add_work k q)) = length (qd_descq q)"
    and "qd_env (qdma_thread_add_work k q) = qd_env q"
    by (simp_all add: qdma_thread_add_work_def Let_def upd_descq_def split: option.splits)
qed

text \<open>What starting a memory-mapped queue does, on every path.\<close>

lemma start_memory_mapped:
  assumes qid: "qdma_device_get_descq_by_id q qid True = Some k" "k < length (qd_descq q)" and d: "d = descq_at q k"
    and mm: "\<not> qc_st (dq_conf d)" "qc_q_type (dq_conf d) = Q_H2C \<or> qc_q_type (dq_conf d) = Q_C2H" "\<not> qc_desc_bypass (dq_conf d)"
    and go: "start_refused xc d = 0"
    and size: "gc_ring_sz (qd_csr_info q) (unat (qc_desc_rng_sz_idx (dq_conf d))) = sz" "2 < sz" "sz \<le> 2 ^ 16 + 1"
  shows "\<exists>rv q' d'. qdma_queue_start qh xc True qid q = (rv, q') \<and> d' = descq_at q' k \<and> (\<forall>j. j \<noteq> k \<longrightarrow> descq_at q' j = descq_at q j) \<and>
    (case qh_dma_alloc qh ((sz - 1) * 32 + 8) (de_card (qd_env q)) of
       (None, h) \<Rightarrow> rv = - ENOMEM_K \<and> dq_q_state d' = Q_STATE_ENABLED \<and> \<not> dq_desc d'
     | (Some bus, h) \<Rightarrow> \<exists>d2. dq_conf d2 = (dq_conf d)\<lparr>qc_rngsz := sz - 1\<rparr> \<and> dq_qidx_hw d2 = dq_qidx_hw d \<and> dq_desc_bus d2 = bus \<and>
         (case qdma_descq_context_setup (qh_table qh) (qh_qid2vec_conf qh) (drv_mode q) (xc_info xc) d2 h of
            (r, h2) \<Rightarrow>
              if r < 0 then rv = r \<and> dq_q_state d' = Q_STATE_ENABLED \<and> \<not> dq_desc d'
              else rv = 0 \<and> dq_q_state d' = Q_STATE_ONLINE \<and> dq_conf d' = dq_conf d2 \<and> dq_desc d' \<and> dq_desc_bus d' = bus \<and>
                dq_pidx d' = 0 \<and> dq_cidx d' = 0 \<and> unat (dq_avail d') = unat sz - 2 \<and> dq_mm_desc d' = replicate (unat sz - 1) zero_mm_desc \<and>
                dq_pend_list d' = dq_pend_list d \<and> dq_work_list d' = dq_work_list d \<and> de_card (qd_env q') = h2 \<and>
                (dq_work_list d = [] \<and> dq_pend_list d = [] \<and> pi_pidx (dq_pidx_info d) = 0 \<and> de_events (qd_env q) = [] \<and>
                 cv_cons v h2 = 0 \<and> cv_told v h2 = 0 \<and> cv_size v = unat sz - 1 \<and> cv_qid v = ucast (qc_qidx (dq_conf d)) \<and>
                 cv_dir v = of_nat (queue_type_code (qc_q_type (dq_conf d))) \<longrightarrow> started v d' (qd_env q'))))"
proof -
  define d1 where "d1 = qdma_descq_config_complete (qd_csr_info q) (qd_sorted_c2h_cntr_idx q) d"
  define q1 where "q1 = upd_descq k (qdma_descq_config_complete (qd_csr_info q) (qd_sorted_c2h_cntr_idx q)) q"
  define n where "n = sz - 1"
  have en: "dq_q_state d = Q_STATE_ENABLED" using go by (auto simp: start_refused_def EINVAL_K_def split: if_splits)
  have nocmpt: "\<not> has_cmpt (qc_st (dq_conf d)) (qc_q_type (dq_conf d))" "\<not> st_c2h (dq_conf d)" "qc_q_type (dq_conf d) \<noteq> Q_CMPT"
    using mm by (auto simp: has_cmpt_def st_c2h_def)
  have d1: "d1 = d\<lparr>dq_conf := (dq_conf d)\<lparr>qc_rngsz := n\<rparr>, dq_pidx_info := (dq_pidx_info d)\<lparr>pi_irq_en := flag (qc_irq_en (dq_conf d))\<rparr>,
      dq_avail := n - 1, dq_pend_list_empty := True, dq_pidx := 0, dq_cidx := 0, dq_cidx_cmpt := 0, dq_pidx_cmpt := 0, dq_credit := 0,
      dq_work_req_pend := 0\<rparr>"
    using nocmpt size(1) by (simp add: d1_def qdma_descq_config_complete_def n_def Let_def st_c2h_def del: de_Morgan_conj)
  have q1: "descq_at q1 k = d1" "qd_env q1 = qd_env q" "k < length (qd_descq q1)" "\<And>j. j \<noteq> k \<Longrightarrow> descq_at q1 j = descq_at q j"
    using qid(2) by (simp_all add: q1_def d1_def d)
  have n: "2 \<le> unat n" "unat n \<le> 2 ^ 16" "unat n = unat sz - 1" "unat (n - 1) = unat sz - 2"
    using size(2,3) by (auto simp: n_def word_less_nat_alt word_le_nat_alt unat_sub)
  have free: "\<not> dq_desc (qdma_descq_free_resource x)" "dq_q_state (qdma_descq_free_resource x) = dq_q_state x" for x
    by (simp_all add: qdma_descq_free_resource_def Let_def)
  obtain m h1 where a: "qh_dma_alloc qh (n * 32 + 8) (de_card (qd_env q)) = (m, h1)" by fastforce
  define e1 where "e1 = (qd_env q)\<lparr>de_card := h1\<rparr>"
  show ?thesis
  proof (cases m)
    case None
    then have "qdma_descq_alloc_resource qh xc (qd_intr_list_cnt q1) d1 (qd_env q) = (- ENOMEM_K, qdma_descq_free_resource d1, e1)"
      using nocmpt mm a by (simp add: qdma_descq_alloc_resource_def alloc_ring_def desc_ring_alloc_def on_card_def
          get_desc_size_def get_desc_cmpl_status_size_def d1 e1_def Let_def)
    then have o: "on_descq k (qdma_descq_alloc_resource qh xc (qd_intr_list_cnt q1)) q1 =
        (- ENOMEM_K, q1\<lparr>qd_descq := (qd_descq q1)[k := qdma_descq_free_resource d1], qd_env := e1\<rparr>)"
      using q1 by (simp add: on_descq_def)
    have neg: "- ENOMEM_K < 0" by (simp add: ENOMEM_K_def)
    have st: "qdma_queue_start qh xc True qid q = (- ENOMEM_K, q1\<lparr>qd_descq := (qd_descq q1)[k := qdma_descq_free_resource d1], qd_env := e1\<rparr>)"
      using qid(1) go o neg d by (simp add: qdma_queue_start_def q1_def [symmetric] Let_def)
    show ?thesis
      using st None a q1(3,4) en free(1) [of d1] free(2) [of d1] by (simp add: n_def d1)
  next
    case (Some bus)
    define d2 where "d2 = desc_alloc_irq xc (drv_mode q) (qd_intr_list_cnt q1)
      (d1\<lparr>dq_desc := True, dq_desc_bus := bus, dq_mm_desc := replicate (unat n) zero_mm_desc, dq_h2c_desc := replicate (unat n) zero_h2c_desc\<rparr>)"
    have alloc: "qdma_descq_alloc_resource qh xc (qd_intr_list_cnt q1) d1 (qd_env q) = (0, d2, e1)"
      using nocmpt mm a Some by (simp add: qdma_descq_alloc_resource_def alloc_ring_def alloc_lists_def alloc_cmpt_def desc_ring_alloc_def on_card_def
          get_desc_size_def get_desc_cmpl_status_size_def d1 d2_def e1_def st_c2h_def Let_def)
    have d2: "dq_conf d2 = (dq_conf d)\<lparr>qc_rngsz := n\<rparr>" "dq_pidx d2 = 0" "dq_cidx d2 = 0" "dq_avail d2 = n - 1" "dq_credit d2 = 0"
      "pi_pidx (dq_pidx_info d2) = pi_pidx (dq_pidx_info d)" "dq_work_list d2 = dq_work_list d" "dq_pend_list d2 = dq_pend_list d"
      "dq_mm_desc d2 = replicate (unat n) zero_mm_desc" "dq_qidx_hw d2 = dq_qidx_hw d" "dq_desc_bus d2 = bus" "dq_desc d2" "dq_q_state d2 = Q_STATE_ENABLED"
      using en by (simp_all add: d2_def desc_alloc_irq_def d1 Let_def)
    define q2 where "q2 = q1\<lparr>qd_descq := (qd_descq q1)[k := d2], qd_env := e1\<rparr>"
    have o2: "on_descq k (qdma_descq_alloc_resource qh xc (qd_intr_list_cnt q1)) q1 = (0, q2)"
      using alloc q1 by (simp add: on_descq_def q2_def)
    obtain rv h2 where s: "qdma_descq_context_setup (qh_table qh) (qh_qid2vec_conf qh) (drv_mode q) (xc_info xc) d2 h1 = (rv, h2)" by fastforce
    define e2 where "e2 = (qd_env q)\<lparr>de_card := h2\<rparr>"
    have prog: "qdma_descq_prog_hw qh xc d2 e1 = (rv, d2, e2)"
      using s nocmpt by (simp add: qdma_descq_prog_hw_def on_card_def e1_def e2_def d2(1))
    define q3 where "q3 = q2\<lparr>qd_env := e2\<rparr>"
    have o3: "on_descq k (qdma_descq_prog_hw qh xc) q2 = (rv, q3)"
      using prog q1 by (simp add: on_descq_def q2_def q3_def)
    have q3: "descq_at q3 k = d2" "k < length (qd_descq q3)" "\<And>j. j \<noteq> k \<Longrightarrow> descq_at q3 j = descq_at q j"
      using q1(3,4) by (simp_all add: q3_def q2_def)
    show ?thesis
    proof (cases "rv < 0")
      case True
      define q4 where "q4 = snd (on_dev_card (qdma_descq_context_clear (qh_table qh) (dq_qidx_hw d2) (qc_st (dq_conf d2)) (qc_q_type (dq_conf d2)) True) q3)"
      have q4: "qd_descq q4 = qd_descq q3" by (simp add: q4_def on_dev_card_def split_beta)
      have st: "qdma_queue_start qh xc True qid q = (rv, upd_descq k qdma_descq_free_resource q4)"
        using qid(1) go o2 o3 True d q3(1) by (simp add: qdma_queue_start_def q1_def [symmetric] q4_def Let_def)
      have "descq_at (upd_descq k qdma_descq_free_resource q4) k = qdma_descq_free_resource d2"
        "\<And>j. j \<noteq> k \<Longrightarrow> descq_at (upd_descq k qdma_descq_free_resource q4) j = descq_at q j"
        using q3 q4 by simp_all
      then show ?thesis
        using st Some a s True free [of d2] d2(1,10,11,13)
        by (intro exI [of _ rv] exI [of _ "upd_descq k qdma_descq_free_resource q4"] exI [of _ "qdma_descq_free_resource d2"])
          (auto simp: n_def [symmetric] intro!: exI [of _ d2])
    next
      case False
      define q4 where "q4 = qdma_thread_add_work k (add_intr_list xc k q3)"
      define q5 where "q5 = set_state k Q_STATE_ONLINE q4"
      have st: "qdma_queue_start qh xc True qid q = (0, q5)"
        using qid(1) go o2 o3 False d by (simp add: qdma_queue_start_def q1_def [symmetric] q4_def q5_def Let_def)
      have i: "qd_descq (add_intr_list xc k q3) = qd_descq q3" "qd_env (add_intr_list xc k q3) = e2"
        by (simp_all add: add_intr_list_def q3_def Let_def)
      have len: "k < length (qd_descq (add_intr_list xc k q3))" using q3(2) i by simp
      obtain c t w where q4: "descq_at q4 k = d2\<lparr>dq_cpu_assigned := c, dq_cmplthp := t, dq_intr_work_cpu := w\<rparr>"
        using thread_descq(1) [OF len] i q3(1) by (auto simp: q4_def)
      define d5 where "d5 = d2\<lparr>dq_cpu_assigned := c, dq_cmplthp := t, dq_intr_work_cpu := w, dq_q_state := Q_STATE_ONLINE\<rparr>"
      have q5: "descq_at q5 k = d5" "qd_env q5 = e2"
        using thread_descq(3,4) [OF len] len q4 i by (simp_all add: q5_def set_state_def d5_def q4_def)
      have others: "descq_at q5 j = descq_at q j" if "j \<noteq> k" for j
        using thread_descq(2) [OF len that] that i q3(3) by (simp add: q5_def set_state_def q4_def)
      have start: "started v d5 e2"
        if "dq_work_list d = []" "dq_pend_list d = []" "pi_pidx (dq_pidx_info d) = 0" "de_events (qd_env q) = []" "cv_cons v h2 = 0"
          "cv_told v h2 = 0" "cv_size v = unat sz - 1" "cv_qid v = ucast (qc_qidx (dq_conf d))"
          "cv_dir v = of_nat (queue_type_code (qc_q_type (dq_conf d)))"
        using that d2 mm n by (simp add: started_def d5_def ring_size_def e2_def)
      have card: "de_card e2 = h2" by (simp add: e2_def)
      have f: "dq_conf d5 = dq_conf d2" "dq_desc d5" "dq_desc_bus d5 = bus" "dq_pidx d5 = 0" "dq_cidx d5 = 0" "unat (dq_avail d5) = unat sz - 2"
        "dq_mm_desc d5 = replicate (unat sz - 1) zero_mm_desc" "dq_pend_list d5 = dq_pend_list d" "dq_work_list d5 = dq_work_list d"
        "dq_q_state d5 = Q_STATE_ONLINE"
        using d2 n by (simp_all add: d5_def)
      show ?thesis
        using st Some a s False q5 others start card f d2(1,10,11)
        by (intro exI [of _ 0] exI [of _ q5] exI [of _ d5]) (auto simp: n_def [symmetric] intro!: exI [of _ d2])
    qed
  qed
qed


section \<open>Stopping and starting again\<close>

text \<open>What starting does to the pending requests and the indices.\<close>

definition ring_view :: "qdma_descq \<Rightarrow> descq_req list \<times> u32 \<times> u32" where
  "ring_view d = (dq_pend_list d, dq_pidx d, dq_cidx d)"

lemma ring_view_alloc: "qdma_descq_alloc_resource qh xc cnt d e = (rv, d', e') \<Longrightarrow> ring_view d' = ring_view d"
proof -
  have "alloc_ring qh d e = (ok, d', e') \<Longrightarrow> ring_view d' = ring_view d" for d e ok d' e'
    by (auto simp: alloc_ring_def ring_view_def Let_def split: if_splits prod.splits option.splits)
  moreover have "alloc_cmpt qh d e = (ok, d', e') \<Longrightarrow> ring_view d' = ring_view d" for d e ok d' e'
    by (auto simp: alloc_cmpt_def ring_view_def Let_def split: if_splits prod.splits option.splits)
  moreover have "ring_view (desc_alloc_irq xc mode cnt d) = ring_view d" for mode d
    by (simp add: desc_alloc_irq_def ring_view_def Let_def)
  moreover have "ring_view (qdma_descq_free_resource d) = ring_view d" for d
    by (simp add: qdma_descq_free_resource_def ring_view_def Let_def)
  moreover obtain ok1 d1 e1 where "alloc_ring qh d e = (ok1, d1, e1)" by (rule prod_cases3)
  moreover obtain ok2 e2 where "alloc_lists qh d1 e1 = (ok2, e2)" by fastforce
  moreover obtain ok3 d3 e3 where "alloc_cmpt qh d1 e2 = (ok3, d3, e3)" by (rule prod_cases3)
  ultimately show "qdma_descq_alloc_resource qh xc cnt d e = (rv, d', e') \<Longrightarrow> ring_view d' = ring_view d"
    by (auto simp: qdma_descq_alloc_resource_def split: if_splits)
qed

lemma ring_view_prog_hw: "qdma_descq_prog_hw qh xc d e = (rv, d', e') \<Longrightarrow> ring_view d' = ring_view d"
  by (auto simp: qdma_descq_prog_hw_def first_indices_def ring_view_def Let_def split: if_splits prod.splits)

lemma ring_view_complete: "ring_view (qdma_descq_config_complete csr s d) = (dq_pend_list d, 0, 0)"
  by (simp add: ring_view_def qdma_descq_config_complete_def cmpt_config_complete_def threshold_config_complete_def Let_def)

lemma on_descq_view:
  assumes "on_descq k f q = (rv, q')" and "k < length (qd_descq q)" and "\<And>d e rv d' e'. f d e = (rv, d', e') \<Longrightarrow> ring_view d' = ring_view d"
  shows "ring_view (descq_at q' k) = ring_view (descq_at q k)" and "length (qd_descq q') = length (qd_descq q)"
proof -
  obtain r d e where f: "f (descq_at q k) (qd_env q) = (r, d, e)" by (meson prod_cases3)
  then show "ring_view (descq_at q' k) = ring_view (descq_at q k)" "length (qd_descq q') = length (qd_descq q)"
    using assms(1,2) assms(3) [OF f] by (auto simp: on_descq_def)
qed

lemma start_view:
  assumes st: "qdma_queue_start qh xc buf qid q = (0, q')" and k: "qdma_device_get_descq_by_id q qid True = Some k" "k < length (qd_descq q)"
  shows "ring_view (descq_at q' k) = (dq_pend_list (descq_at q k), 0, 0)" and "dq_q_state (descq_at q' k) = Q_STATE_ONLINE"
proof -
  define q1 where "q1 = upd_descq k (qdma_descq_config_complete (qd_csr_info q) (qd_sorted_c2h_cntr_idx q)) q"
  obtain r2 q2 where 2: "on_descq k (qdma_descq_alloc_resource qh xc (qd_intr_list_cnt q1)) q1 = (r2, q2)" by fastforce
  obtain r3 q3 where 3: "on_descq k (qdma_descq_prog_hw qh xc) q2 = (r3, q3)" by fastforce
  have k1: "k < length (qd_descq q1)" using k(2) by (simp add: q1_def)
  have v2: "ring_view (descq_at q2 k) = ring_view (descq_at q1 k)" "length (qd_descq q2) = length (qd_descq q1)"
    using on_descq_view [OF 2 k1] ring_view_alloc by blast+
  have k2: "k < length (qd_descq q2)" using v2(2) k1 by simp
  have v3: "ring_view (descq_at q3 k) = ring_view (descq_at q2 k)" "length (qd_descq q3) = length (qd_descq q2)"
    using on_descq_view [OF 3 k2] ring_view_prog_hw by blast+
  have v: "ring_view (descq_at q3 k) = (dq_pend_list (descq_at q k), 0, 0)"
    using v2(1) v3(1) k(2) by (simp add: q1_def ring_view_complete)
  have k3: "k < length (qd_descq (add_intr_list xc k q3))" "descq_at (add_intr_list xc k q3) k = descq_at q3 k"
    using k2 v3(2) by (simp_all add: add_intr_list_def Let_def)
  obtain c t w where t: "descq_at (qdma_thread_add_work k (add_intr_list xc k q3)) k =
      (descq_at q3 k)\<lparr>dq_cpu_assigned := c, dq_cmplthp := t, dq_intr_work_cpu := w\<rparr>" using thread_descq(1) [OF k3(1)] k3(2) by auto
  have codes: "EINVAL_K \<noteq> 0" by (simp add: EINVAL_K_def)
  have q': "q' = set_state k Q_STATE_ONLINE (qdma_thread_add_work k (add_intr_list xc k q3))"
    using st k(1) 2 3 codes by (auto simp: qdma_queue_start_def q1_def [symmetric] Let_def split: if_splits)
  have k4: "k < length (qd_descq (qdma_thread_add_work k (add_intr_list xc k q3)))" using thread_descq(3) [OF k3(1)] k3(1) by simp
  show "ring_view (descq_at q' k) = (dq_pend_list (descq_at q k), 0, 0)"
    using v k4 t by (simp add: q' set_state_def ring_view_def)
  show "dq_q_state (descq_at q' k) = Q_STATE_ONLINE" using k4 by (simp add: q' set_state_def)
qed

lemma remove_work_frame:
  "qd_env (qdma_thread_remove_work k q) = qd_env q" "qd_qmax (qdma_thread_remove_work k q) = qd_qmax q"
  "qd_descq (qdma_thread_remove_work k q) = (qd_descq q)[k := (descq_at q k)\<lparr>dq_cmplthp := False, dq_cpu_assigned := False\<rparr>]"
  by (simp_all add: qdma_thread_remove_work_def upd_descq_def Let_def)

lemma stop_end_result:
  assumes "k < length (qd_descq q)"
  shows "dq_pend_list (descq_at (qdma_queue_stop_end qh k q) k) = map stopped_req (filter (\<lambda>r. \<not> dr_fp_done r) (dq_pend_list (descq_at q k)))"
    and "dq_q_state (descq_at (qdma_queue_stop_end qh k q) k) = Q_STATE_ENABLED"
    and "de_events (qd_env (qdma_queue_stop_end qh k q)) = de_events (qd_env q) @ stop_events (dq_pend_list (descq_at q k) @ dq_work_list (descq_at q k))"
    and "length (qd_descq (qdma_queue_stop_end qh k q)) = length (qd_descq q)" and "qd_qmax (qdma_queue_stop_end qh k q) = qd_qmax q"
    and "dq_conf (descq_at (qdma_queue_stop_end qh k q) k) = dq_conf (descq_at q k)" and "qd_csr_info (qdma_queue_stop_end qh k q) = qd_csr_info q"
proof -
  have card: "de_events (qd_env (snd (on_dev_card f p))) = de_events (qd_env p)" for f and p :: "'a qdma_dev"
    by (simp add: on_dev_card_def on_card_def split_beta)
  have intr: "qd_descq (del_intr_list k p) = qd_descq p" "qd_env (del_intr_list k p) = qd_env p" "qd_qmax (del_intr_list k p) = qd_qmax p" for p :: "'a qdma_dev"
    by (simp_all add: del_intr_list_def Let_def)
  have csr: "qd_csr_info (snd (on_dev_card f p)) = qd_csr_info p" "qd_csr_info (qdma_thread_remove_work k p) = qd_csr_info p"
    "qd_csr_info (del_intr_list k p) = qd_csr_info p" "qd_csr_info (upd_descq k g p) = qd_csr_info p" for f g and p :: "'a qdma_dev"
    by (simp_all add: on_dev_card_def split_beta qdma_thread_remove_work_def del_intr_list_def upd_descq_def Let_def)
  have free: "dq_conf (qdma_descq_free_resource d) = dq_conf d" "dq_pend_list (qdma_descq_free_resource d) = dq_pend_list d" "dq_q_state (qdma_descq_free_resource d) = dq_q_state d" for d
    by (simp_all add: qdma_descq_free_resource_def Let_def)
  note defs = qdma_queue_stop_end_def on_descq_def stop_lists_def Let_def remove_work_frame intr card csr free
  show "dq_pend_list (descq_at (qdma_queue_stop_end qh k q) k) = map stopped_req (filter (\<lambda>r. \<not> dr_fp_done r) (dq_pend_list (descq_at q k)))"
    and "dq_q_state (descq_at (qdma_queue_stop_end qh k q) k) = Q_STATE_ENABLED"
    and "de_events (qd_env (qdma_queue_stop_end qh k q)) = de_events (qd_env q) @ stop_events (dq_pend_list (descq_at q k) @ dq_work_list (descq_at q k))"
    and "length (qd_descq (qdma_queue_stop_end qh k q)) = length (qd_descq q)" and "qd_qmax (qdma_queue_stop_end qh k q) = qd_qmax q"
    and "dq_conf (descq_at (qdma_queue_stop_end qh k q) k) = dq_conf (descq_at q k)" and "qd_csr_info (qdma_queue_stop_end qh k q) = qd_csr_info q"
    using assms by (simp_all add: defs)
qed

lemma get_id_again:
  assumes "qdma_device_get_descq_by_id q qid True = Some k" and "qd_qmax q' = qd_qmax q" and "present (descq_at q' k)"
  shows "qdma_device_get_descq_by_id q' qid True = Some k"
  using assms by (auto simp: qdma_device_get_descq_by_id_def h2c_descq_def c2h_descq_def cmpt_descq_def Let_def split: if_splits)

lemma stop_online:
  assumes k: "qdma_device_get_descq_by_id q qid True = Some k" "k < length (qd_descq q)" and on: "dq_q_state (descq_at q k) = Q_STATE_ONLINE"
  shows "qdma_queue_stop qh True qid q = (0, qdma_queue_stop_end qh k (upd_descq k (\<lambda>d. d\<lparr>dq_q_stop_wait := True\<rparr>) q))"
proof -
  define q0 where "q0 = upd_descq k (\<lambda>d. d\<lparr>dq_q_stop_wait := True\<rparr>) q"
  have "present (descq_at q0 k)" "qd_qmax q0 = qd_qmax q" using k(2) on by (simp_all add: q0_def)
  then have "qdma_device_get_descq_by_id q0 qid True = Some k" by (intro get_id_again [OF k(1)]) simp_all
  then show ?thesis
    unfolding q0_def [symmetric] using k(1) on by (auto simp: qdma_queue_stop_def qdma_queue_stop_begin_def q0_def [symmetric])
qed

text \<open>C40: Stopping a queue wakes up whoever waits for a pending request, which is marked as failed, but leaves the request
  on the list; when the queue is started again it is online with an empty ring and this request pending, so the
  next completions are credited to a request that nobody waits for.\<close>

theorem restart_keeps_stopped_request:
  assumes k: "qdma_device_get_descq_by_id q qid True = Some k" "k < length (qd_descq q)" and on: "dq_q_state (descq_at q k) = Q_STATE_ONLINE"
    and r: "r \<in> set (dq_pend_list (descq_at q k))" "\<not> dr_fp_done r"
    and stop: "qdma_queue_stop qh True qid q = (rv, q1)" and start: "qdma_queue_start qh2 xc True qid q1 = (0, q2)"
  shows "rv = 0 \<and> Wakeup (stopped_req r) \<in> set (de_events (qd_env q1)) \<and> cb_status (dr_cb (stopped_req r)) = - ENXIO \<and>
    dq_q_state (descq_at q2 k) = Q_STATE_ONLINE \<and> dq_pidx (descq_at q2 k) = dq_cidx (descq_at q2 k) \<and>
    stopped_req r \<in> set (dq_pend_list (descq_at q2 k))"
proof -
  define q0 where "q0 = upd_descq k (\<lambda>d. d\<lparr>dq_q_stop_wait := True\<rparr>) q"
  have q0: "k < length (qd_descq q0)" "dq_pend_list (descq_at q0 k) = dq_pend_list (descq_at q k)" "dq_work_list (descq_at q0 k) = dq_work_list (descq_at q k)"
    "dq_q_state (descq_at q0 k) = Q_STATE_ONLINE" "qd_env q0 = qd_env q" "qd_qmax q0 = qd_qmax q"
    using k(2) on by (simp_all add: q0_def)
  have q1: "rv = 0" "q1 = qdma_queue_stop_end qh k q0" using stop stop_online [OF k on, of qh] by (simp_all add: q0_def)
  note e = stop_end_result [OF q0(1), of qh, folded q1(2), unfolded q0]
  have id1: "qdma_device_get_descq_by_id q1 qid True = Some k" by (rule get_id_again [OF k(1)]) (simp_all add: e)
  have k1: "k < length (qd_descq q1)" using e(4) q0(1) by simp
  note v = start_view [OF start id1 k1]
  have "Wakeup (stopped_req r) \<in> set (stop_events (dq_pend_list (descq_at q k) @ dq_work_list (descq_at q k)))"
    using r by (force simp: stop_events_def)
  then show ?thesis using q1(1) v e(1,3) r by (auto simp: ring_view_def stopped_req_def)
qed

section \<open>A concrete device\<close>

text \<open>Three queue sets on the card of \<open>Qdma_Descq_Example\<close>, which starts a queue when its context is programmed.\<close>

definition ex_restart :: "engine \<Rightarrow> engine" where "ex_restart h = h\<lparr>en_cons := 0, en_told := 0\<rparr>"

definition ex_access :: "engine qdma_hw_access" where
  "ex_access = \<lparr>qdma_global_csr_conf = (\<lambda>t h. (0, Some (\<lambda>j. 5 + of_nat j), h)),
     qdma_fmap_conf = (\<lambda>_ _ _ h. (0, None, h)), qdma_sw_ctx_conf = (\<lambda>_ _ _ _ h. (0, None, ex_restart h)),
     qdma_pfetch_ctx_conf = (\<lambda>_ _ _ h. (0, None, h)), qdma_cmpt_ctx_conf = (\<lambda>_ _ _ h. (0, None, h)),
     qdma_hw_ctx_conf = (\<lambda>_ _ _ _ h. (0, None, h)), qdma_credit_ctx_conf = (\<lambda>_ _ _ _ h. (0, None, h)),
     qdma_indirect_intr_ctx_conf = (\<lambda>_ _ _ h. (0, None, h)), qdma_get_device_attributes = (\<lambda>h. (undefined, h)),
     qdma_read_reg_list = (\<lambda>_ _ h. (0, None, h)), mbox_base_pf = 0, mbox_base_vf = 0\<rparr>"

definition ex_qh :: "engine queue_hw" where
  "ex_qh = \<lparr>qh_table = ex_access, qh_wb_intvl_read = (\<lambda>h. (0, Some 0, h)), qh_qid2vec_conf = (\<lambda>_ _ _ _ h. (0, None, h)),
     qh_descq = soft_hw 4 1 0, qh_legacy_intr_conf = (\<lambda>_ h. (0, h)), qh_init_ctxt_memory = (\<lambda>h. (0, h)),
     qh_set_default_global_csr = (\<lambda>h. (0, h)), qh_mm_channel_conf = (\<lambda>_ _ h. (0, h)), qh_dma_alloc = (\<lambda>_ h. (Some 0x10000, h)),
     qh_kcalloc = (\<lambda>_ h. (True, h)), qh_flq_alloc = (\<lambda>_ h. (0, h)), qh_request_irq = (\<lambda>h. (0, h))\<rparr>"

definition ex_xc :: xdev_conf where
  "ex_xc = \<lparr>xc_info = \<lparr>xd_func_id = 1, xd_dvec_start_idx = 0, xd_dev_cap =
       \<lparr>num_pfs = 1, num_qs = 16, flr_present = 0, st_en = 1, mm_en = 1, mm_cmpt_en = 0, mailbox_en = 0, debug_mode = 0, desc_eng_mode = 0,
        mm_channel_max = 1, qid2vec_ctx = 0, cmpt_ovf_chk_dis = 0, mailbox_intr = 0, sw_desc_64b = 0, cmpt_desc_64b = 0, dynamic_bar = 0,
        legacy_intr = 0, cmpt_trig_count_timer = 0\<rparr>\<rparr>,
     xc_dma_device_index = 0, xc_ip_type = EQDMA_SOFT_IP, xc_vivado_release = 4, xc_num_vecs = 2, xc_data_msix_qvec_max = 2, xc_master_pf = True\<rparr>"

definition ex_rm :: rm_state where
  "ex_rm = \<lparr>master_resource_list = [\<lparr>dma_device_index = 0, pci_bus_start = 1, pci_bus_end = 1, rm_total_q = 16, rm_qbase = 0,
      dev_list = [\<lparr>de_func_id = 1, active_h2c_qcnt = 0, active_c2h_qcnt = 0, active_cmpt_qcnt = 0, de_entry = \<lparr>re_qbase = 0, re_total_q = 4\<rparr>\<rparr>],
      free_list = [\<lparr>re_qbase = 4, re_total_q = 12\<rparr>], rm_active_qcnt = 0\<rparr>], rm_index = 1, rm_allocs = 0\<rparr>"

definition ex_new :: "engine qdma_dev" where
  "ex_new = \<lparr>qd_init_qrange = False, qd_qmax = 0, qd_qbase = 0, qd_descq = [],
     qd_csr_info = \<lparr>gc_ring_sz = \<lambda>_. 0, gc_c2h_timer_cnt = \<lambda>_. 0, gc_c2h_cnt_th = \<lambda>_. 0, gc_c2h_buf_sz = \<lambda>_. 0, gc_wb_intvl = 0\<rparr>,
     qd_sorted_c2h_cntr_idx = replicate 16 0, qd_rm = ex_rm, qd_intr_list = \<lambda>_. [], qd_intr_list_cnt = \<lambda>_. 0, qd_legacy_list = [],
     qd_per_cpu_qcnt = [0, 0], qd_thread_work = [([], 0)], qd_env = ex_env []\<rparr>"

definition ex_dev :: "engine qdma_dev" where "ex_dev = snd (qdma_device_init ex_qh ex_xc True 3 0 ex_new)"

definition ex_add :: "24 word \<Rightarrow> engine qdma_dev \<Rightarrow> (int \<times> qdma_queue_conf \<times> nat \<times> engine qdma_dev) option" where
  "ex_add i q = qdma_queue_add ex_qh ex_xc True (ex_conf\<lparr>qc_qidx := i\<rparr>) 0 q"

definition added :: "24 word \<Rightarrow> engine qdma_dev \<Rightarrow> engine qdma_dev" where
  "added i q = (case ex_add i q of Some (rv, c, h, q') \<Rightarrow> q' | None \<Rightarrow> q)"

lemma ex_dev_value:
  "qd_descq ex_dev = concat (replicate 3 (map (\<lambda>i. qdma_descq_init 0 i i) [0..<3]))" "qd_qmax ex_dev = 3" "qd_rm ex_dev = ex_rm"
  "drv_mode ex_dev = DIRECT_INTR_MODE" "qd_init_qrange ex_dev = False" "de_events (qd_env ex_dev) = []"
  by (simp_all add: ex_dev_def qdma_device_init_def ex_qh_def ex_xc_def ex_new_def ex_env_def on_dev_card_def on_card_def Let_def)

text \<open>What the calls need of the counters: one queue to the card more.\<close>

definition ex_rm1 :: rm_state where "ex_rm1 = snd (qdma_dev_increment_active_queue 0 1 QDMA_DEV_Q_TYPE_H2C ex_rm)"

definition room :: "rm_state \<Rightarrow> bool" where
  "room rm \<longleftrightarrow> qdma_get_device_active_queue_count 0 1 QDMA_DEV_Q_TYPE_H2C rm \<in> {0, 1} \<and> fst (qdma_dev_increment_active_queue 0 1 QDMA_DEV_Q_TYPE_H2C rm) = 0"

lemma ex_room: "room ex_rm" "room ex_rm1"
  by code_simp+

lemma ex_prep:
  "\<exists>q'. qdma_device_prep_q_resource ex_qh ex_xc q = (0, q') \<and> qd_init_qrange q' \<and> qd_rm q' = qd_rm q \<and> qd_qmax q' = qd_qmax q \<and>
    qd_descq q' = qd_descq q \<and> drv_mode q' = drv_mode q \<and> de_events (qd_env q') = de_events (qd_env q) \<and>
    (\<not> qd_init_qrange q \<longrightarrow> gc_ring_sz (qd_csr_info q') = (\<lambda>j. 5 + of_nat j))"
proof (cases "qd_init_qrange q")
  case False
  then show ?thesis
    by (simp add: qdma_device_prep_q_resource_def qdma_csr_read_def csr_part_def ex_qh_def ex_access_def device_set_qrange_def on_dev_card_def
        on_card_def ctx_call_def Let_def)
qed (simp add: qdma_device_prep_q_resource_def)

lemma ex_add_ok:
  assumes place: "place_queue (ex_conf\<lparr>qc_qidx := i\<rparr>) q = Some (k, c)" and k: "k < length (qd_descq q)"
    and c: "qc_st c = False" "qc_q_type c = Q_H2C" and i: "i = QDMA_QUEUE_IDX_INVALID \<or> unat i < 3"
    and q: "qd_qmax q = 3" "room (qd_rm q)" "drv_mode q = DIRECT_INTR_MODE"
  shows "ex_add i q = Some (0, c, unat (qc_qidx c), added i q)" and "qd_init_qrange (added i q)"
    and "add_placed ex_qh ex_xc k c q = (0, unat (qc_qidx c), added i q)"
    and "qd_rm (added i q) = snd (qdma_dev_increment_active_queue 0 1 QDMA_DEV_Q_TYPE_H2C (qd_rm q))"
    and "drv_mode (added i q) = DIRECT_INTR_MODE" and "de_events (qd_env (added i q)) = de_events (qd_env q)"
    and "\<not> qd_init_qrange q \<Longrightarrow> gc_ring_sz (qd_csr_info (added i q)) = (\<lambda>j. 5 + of_nat j)"
proof -
  obtain q2 where 2: "qdma_device_prep_q_resource ex_qh ex_xc (set_state k Q_STATE_ENABLED q) = (0, q2)" "qd_init_qrange q2" "qd_rm q2 = qd_rm q"
    "qd_qmax q2 = 3" "length (qd_descq q2) = length (qd_descq q)" "drv_mode q2 = DIRECT_INTR_MODE" "de_events (qd_env q2) = de_events (qd_env q)"
    "\<not> qd_init_qrange q \<longrightarrow> gc_ring_sz (qd_csr_info q2) = (\<lambda>j. 5 + of_nat j)"
    using ex_prep [of "set_state k Q_STATE_ENABLED q"] q by (auto simp: set_state_def)
  obtain rm where rm: "qdma_dev_increment_active_queue 0 1 QDMA_DEV_Q_TYPE_H2C (qd_rm q) = (0, rm)"
    using q(2) by (cases "qdma_dev_increment_active_queue 0 1 QDMA_DEV_Q_TYPE_H2C (qd_rm q)") (simp add: room_def)
  have dev: "xc_dma_device_index ex_xc = 0" "func_of ex_xc = 1" by (simp_all add: ex_xc_def)
  define q5 where "q5 = upd_descq k (\<lambda>d. d\<lparr>dq_q_hndl := of_nat (unat (qc_qidx c))\<rparr>)
    ((upd_descq k (qdma_descq_config ex_xc DIRECT_INTR_MODE c False) q2)\<lparr>qd_rm := rm\<rparr>)"
  have placed: "add_placed ex_qh ex_xc k c q = (0, unat (qc_qidx c), q5)"
    using k 2(5) by (simp add: add_placed_def 2 count_queue_def c st_c2h_def dev rm q5_def qdma_descq_config_def Let_def)
  have "\<not> (3 :: u32) \<le> 0" "\<not> (3 :: u32) \<le> 1" by (simp_all add: not_le)
  then have "\<not> ucast (3 :: u16) \<le> (word_of_int (qdma_get_device_active_queue_count 0 1 QDMA_DEV_Q_TYPE_H2C (qd_rm q)) :: u32)"
    using q(2) by (auto simp: room_def)
  moreover have "qdma_validate_qconfig ex_xc True (ex_conf\<lparr>qc_qidx := i\<rparr>) = 0"
    by (simp add: qdma_validate_qconfig_def ex_conf_def ex_xc_def TRIG_MODE_COMBO_def)
  moreover have "qc_st (ex_conf\<lparr>qc_qidx := i\<rparr>) = False" "qc_q_type (ex_conf\<lparr>qc_qidx := i\<rparr>) = Q_H2C" by (simp_all add: ex_conf_def)
  moreover have "mm_en (dev_cap ex_xc) = 1" by (simp add: ex_xc_def)
  ultimately have add: "ex_add i q = Some (0, c, unat (qc_qidx c), q5)"
    using i q(1) place k placed by (auto simp: ex_add_def qdma_queue_add_def dev Let_def)
  then have e: "added i q = q5" by (simp add: added_def)
  show "ex_add i q = Some (0, c, unat (qc_qidx c), added i q)" "add_placed ex_qh ex_xc k c q = (0, unat (qc_qidx c), added i q)"
    using add placed e by simp_all
  show "qd_init_qrange (added i q)" "drv_mode (added i q) = DIRECT_INTR_MODE"
    "de_events (qd_env (added i q)) = de_events (qd_env q)" "\<not> qd_init_qrange q \<Longrightarrow> gc_ring_sz (qd_csr_info (added i q)) = (\<lambda>j. 5 + of_nat j)"
    using e 2 by (simp_all add: q5_def upd_descq_def)
  show "qd_rm (added i q) = snd (qdma_dev_increment_active_queue 0 1 QDMA_DEV_Q_TYPE_H2C (qd_rm q))" using e rm by (simp add: q5_def)
qed

lemma ex_dev_at: "n < 9 \<Longrightarrow> dq_q_state (descq_at ex_dev n) = Q_STATE_DISABLED"
proof -
  have "\<forall>n \<in> {..<9}. dq_q_state (descq_at ex_dev n) = Q_STATE_DISABLED"
    by (simp add: ex_dev_value numeral_eq_Suc lessThan_Suc qdma_descq_init_def)
  then show "n < 9 \<Longrightarrow> dq_q_state (descq_at ex_dev n) = Q_STATE_DISABLED" by simp
qed

lemma ex_place: "n < 3 \<Longrightarrow> place_queue (ex_conf\<lparr>qc_qidx := of_nat n\<rparr>) ex_dev = Some (n, ex_conf\<lparr>qc_qidx := of_nat n\<rparr>)"
proof -
  assume n: "n < 3"
  then have u: "unat (of_nat n :: 24 word) = n" by (simp add: unat_of_nat)
  then have "(of_nat n :: 24 word) \<noteq> QDMA_QUEUE_IDX_INVALID"
    using n by (auto simp: QDMA_QUEUE_IDX_INVALID_def dest: arg_cong [of _ _ unat])
  moreover have "\<not> is_usable_queue ex_dev n Q_H2C False < 0"
    using n ex_dev_at [of n] ex_dev_at [of "3 + n"] ex_dev_at [of "6 + n"]
    by (simp add: usable_iff compatible_def h2c_descq_def c2h_descq_def cmpt_descq_def ex_dev_value)
  ultimately show ?thesis
    using u by (simp add: place_queue_def descq_base_def h2c_descq_def ex_conf_def Let_def)
qed

lemma ex_added:
  assumes "n < 3"
  shows "ex_add (of_nat n) ex_dev = Some (0, ex_conf\<lparr>qc_qidx := of_nat n\<rparr>, n, added (of_nat n) ex_dev)" and "qd_init_qrange (added (of_nat n) ex_dev)"
    and "qd_descq (added (of_nat n) ex_dev) = (qd_descq ex_dev)[n := (descq_at ex_dev n)\<lparr>dq_q_state := Q_STATE_ENABLED,
      dq_conf := ex_conf\<lparr>qc_qidx := of_nat n\<rparr>, dq_q_hndl := of_nat n\<rparr>]"
    and "qd_qmax (added (of_nat n) ex_dev) = 3" and "qd_rm (added (of_nat n) ex_dev) = ex_rm1" and "drv_mode (added (of_nat n) ex_dev) = DIRECT_INTR_MODE"
    and "de_events (qd_env (added (of_nat n) ex_dev)) = []" and "gc_ring_sz (qd_csr_info (added (of_nat n) ex_dev)) = (\<lambda>j. 5 + of_nat j)"
proof -
  have u: "unat (of_nat n :: 24 word) = n" using assms by (simp add: unat_of_nat)
  have k: "n < length (qd_descq ex_dev)" using assms by (simp add: ex_dev_value numeral_3_eq_3)
  have c: "qc_st (ex_conf\<lparr>qc_qidx := of_nat n\<rparr>) = False" "qc_q_type (ex_conf\<lparr>qc_qidx := of_nat n\<rparr>) = Q_H2C"
    "qc_qidx (ex_conf\<lparr>qc_qidx := of_nat n\<rparr>) = of_nat n" by (simp_all add: ex_conf_def)
  note ok = ex_add_ok [OF ex_place [OF assms] k c(1,2), unfolded c u]
  note ok' = ok [OF _ ex_dev_value(2) _ ex_dev_value(4), unfolded ex_dev_value, OF _ ex_room(1)]
  show "ex_add (of_nat n) ex_dev = Some (0, ex_conf\<lparr>qc_qidx := of_nat n\<rparr>, n, added (of_nat n) ex_dev)" "qd_init_qrange (added (of_nat n) ex_dev)"
    "qd_rm (added (of_nat n) ex_dev) = ex_rm1" "drv_mode (added (of_nat n) ex_dev) = DIRECT_INTR_MODE"
    "de_events (qd_env (added (of_nat n) ex_dev)) = []" "gc_ring_sz (qd_csr_info (added (of_nat n) ex_dev)) = (\<lambda>j. 5 + of_nat j)"
    using ok' assms ex_dev_value by (simp_all add: ex_rm1_def)
  note placed = add_placed_ok [OF ok'(3) k]
  show "qd_descq (added (of_nat n) ex_dev) = (qd_descq ex_dev)[n := (descq_at ex_dev n)\<lparr>dq_q_state := Q_STATE_ENABLED,
      dq_conf := ex_conf\<lparr>qc_qidx := of_nat n\<rparr>, dq_q_hndl := of_nat n\<rparr>]" "qd_qmax (added (of_nat n) ex_dev) = 3"
    using placed assms ex_dev_value(2) by simp_all
qed

theorem queue_sets_agree_witness:
  "qc_q_type (dq_conf (descq_at (added 1 ex_dev) 1)) = Q_H2C \<and> qc_qidx (dq_conf (descq_at (added 1 ex_dev) 1)) = 1"
proof -
  have one: "(1 :: nat) < 3" by simp
  note a = ex_added [OF one, unfolded of_nat_1]
  have init: "qdma_device_init ex_qh ex_xc True 3 0 ex_new = (fst (qdma_device_init ex_qh ex_xc True 3 0 ex_new), ex_dev)"
    by (simp add: ex_dev_def)
  have "qc_qidx (ex_conf\<lparr>qc_qidx := 1\<rparr>) \<noteq> QDMA_QUEUE_IDX_INVALID" by (simp add: ex_conf_def QDMA_QUEUE_IDX_INVALID_def)
  moreover have "queues_run ex_qh ex_xc [(ex_conf\<lparr>qc_qidx := 1\<rparr>, True)] ex_dev (added 1 ex_dev)"
    using run_add [OF run_none a(1) [unfolded ex_add_def]] a(2) by simp
  moreover have "1 < length (qd_descq ex_dev)" by (simp add: ex_dev_value numeral_3_eq_3)
  ultimately show ?thesis
    using queue_sets_agree [OF init, of "[(ex_conf\<lparr>qc_qidx := 1\<rparr>, True)]" "added 1 ex_dev" 1, OF _ _ refl refl refl] a(3,4) by (simp add: h2c_descq_def)
qed


theorem automatic_index_other_queue_witness:
  "\<exists>q'. ex_add 0xFFFF (added 0 ex_dev) = Some (0, ex_conf\<lparr>qc_qidx := 1\<rparr>, 1, q') \<and> \<not> present (descq_at q' 1) \<and>
     qdma_queue_start ex_qh ex_xc True 1 q' = (- EINVAL_K, q') \<and> present (descq_at q' 2)"
proof -
  let ?q = "added 0 ex_dev" and ?c = "ex_conf\<lparr>qc_qidx := 0xFFFF\<rparr>"
  note a = ex_added [of 0, simplified]
  have at: "dq_q_state (descq_at ?q 0) = Q_STATE_ENABLED" "\<And>n. n < 9 \<Longrightarrow> n \<noteq> 0 \<Longrightarrow> dq_q_state (descq_at ?q n) = Q_STATE_DISABLED"
    using a(3) ex_dev_at by (simp add: ex_dev_value numeral_3_eq_3, simp)
  have u: "is_usable_queue ?q 0 Q_H2C False < 0" "\<not> is_usable_queue ?q 1 Q_H2C False < 0"
    using at(1) at(2) [of 1] at(2) [of 4] at(2) [of 7]
    by (simp_all add: usable_iff compatible_def h2c_descq_def c2h_descq_def cmpt_descq_def a(4))
  have p: "place_queue ?c ?q = Some (2, ex_conf\<lparr>qc_qidx := 1\<rparr>)"
    using u by (simp add: place_queue_def QDMA_QUEUE_IDX_INVALID_def ex_conf_def descq_base_def h2c_descq_def a(4) upt_conv_Cons Let_def)
  have len: "2 < length (qd_descq ?q)" using a(3) by (simp add: ex_dev_value numeral_3_eq_3)
  have c: "qc_st (ex_conf\<lparr>qc_qidx := 1\<rparr>) = False" "qc_q_type (ex_conf\<lparr>qc_qidx := 1\<rparr>) = Q_H2C" "unat (qc_qidx (ex_conf\<lparr>qc_qidx := 1\<rparr>)) = 1"
    by (simp_all add: ex_conf_def)
  have add: "ex_add 0xFFFF ?q = Some (0, ex_conf\<lparr>qc_qidx := 1\<rparr>, 1, added 0xFFFF ?q)"
    using ex_add_ok(1) [OF p len c(1,2)] a(4,5,6) ex_room(2) c(3) by (simp add: QDMA_QUEUE_IDX_INVALID_def)
  have i: "qc_qidx ?c = QDMA_QUEUE_IDX_INVALID" "qc_q_type ?c = Q_H2C" "qc_st ?c = False" by (simp_all add: QDMA_QUEUE_IDX_INVALID_def ex_conf_def)
  show ?thesis
    using automatic_index_other_queue [OF add [unfolded ex_add_def] i(1), of ex_qh ex_xc True] u(1) i(2,3) add
    by (auto simp: descq_base_def h2c_descq_def numeral_2_eq_2)
qed

text \<open>Starting the queue, and stopping it while a client waits for a request.\<close>

lemma ex_setup:
  assumes "qc_st (dq_conf d) = False" and "qc_q_type (dq_conf d) = Q_H2C"
  shows "qdma_descq_context_setup (qh_table ex_qh) (qh_qid2vec_conf ex_qh) mode (xc_info ex_xc) d h = (0, ex_restart h)"
  using assms by (simp add: qdma_descq_context_setup_def qdma_descq_context_program_def qdma_descq_context_clear_def has_cmpt_def
      ctx_call_def ex_qh_def ex_access_def ex_xc_def ex_restart_def Let_def)



text \<open>The same queue online, with a request pending for which a client waits.\<close>

definition waiting_req :: descq_req where "waiting_req = ex_req\<lparr>dr_fp_done := False\<rparr>"

definition ex_online :: "engine qdma_dev" where
  "ex_online = upd_descq 1 (\<lambda>d. d\<lparr>dq_q_state := Q_STATE_ONLINE, dq_pend_list := [waiting_req]\<rparr>) (added 1 ex_dev)"

definition ex_stopped :: "engine qdma_dev" where "ex_stopped = snd (qdma_queue_stop ex_qh True 1 ex_online)"

theorem restart_keeps_stopped_request_witness:
  "\<exists>q2. qdma_queue_start ex_qh ex_xc True 1 ex_stopped = (0, q2) \<and> dq_q_state (descq_at q2 1) = Q_STATE_ONLINE \<and>
     stopped_req waiting_req \<in> set (dq_pend_list (descq_at q2 1))"
proof -
  have one: "(1 :: nat) < 3" by simp
  note a = ex_added [OF one, unfolded of_nat_1]
  define d where "d = (descq_at ex_dev 1)\<lparr>dq_conf := ex_conf\<lparr>qc_qidx := 1\<rparr>, dq_q_hndl := 1, dq_q_state := Q_STATE_ONLINE, dq_pend_list := [waiting_req]\<rparr>"
  have l: "1 < length (qd_descq ex_dev)" by (simp add: ex_dev_value numeral_3_eq_3)
  have q: "qd_descq ex_online = (qd_descq ex_dev)[1 := d]" "qd_qmax ex_online = 3" "qd_csr_info ex_online = qd_csr_info (added 1 ex_dev)"
    using a(3,4) l by (simp_all add: ex_online_def upd_descq_def d_def)
  have at: "1 < length (qd_descq ex_online)" "descq_at ex_online 1 = d" using q(1) l by simp_all
  have k: "qdma_device_get_descq_by_id ex_online 1 True = Some 1"
    using at q(2) by (simp add: qdma_device_get_descq_by_id_def h2c_descq_def d_def Let_def)
  have on: "dq_q_state (descq_at ex_online 1) = Q_STATE_ONLINE" "waiting_req \<in> set (dq_pend_list (descq_at ex_online 1))" "\<not> dr_fp_done waiting_req"
    unfolding at(2) by (simp_all add: d_def waiting_req_def)
  define q0 where "q0 = upd_descq 1 (\<lambda>d. d\<lparr>dq_q_stop_wait := True\<rparr>) ex_online"
  have q0: "1 < length (qd_descq q0)" "dq_conf (descq_at q0 1) = ex_conf\<lparr>qc_qidx := 1\<rparr>" "qd_qmax q0 = 3" "qd_csr_info q0 = qd_csr_info (added 1 ex_dev)"
    "dq_q_state (descq_at q0 1) = Q_STATE_ONLINE"
    using at q by (simp_all add: q0_def d_def upd_descq_def)
  have s: "ex_stopped = qdma_queue_stop_end ex_qh 1 q0" using stop_online [OF k at(1) on(1), of ex_qh] by (simp add: ex_stopped_def q0_def)
  note e = stop_end_result [OF q0(1), of ex_qh, folded s, unfolded q0]
  have id1: "qdma_device_get_descq_by_id ex_stopped 1 True = Some 1" using e(2,5) q(2) by (intro get_id_again [OF k]) simp_all
  have l1: "1 < length (qd_descq ex_stopped)" using e(4) q0(1) by simp
  define d1 where "d1 = descq_at ex_stopped 1"
  note e1 = e(2,6) [folded d1_def]
  have c: "\<not> qc_st (dq_conf d1)" "qc_q_type (dq_conf d1) = Q_H2C" "\<not> qc_desc_bypass (dq_conf d1)" unfolding e1 by (simp_all add: ex_conf_def)
  have ok: "start_refused ex_xc d1 = 0"
    unfolding start_refused_def e1 by (simp add: ex_conf_def ex_xc_def QDMA_DESC_ENG_BYPASS_ONLY_def)
  have size: "gc_ring_sz (qd_csr_info ex_stopped) (unat (qc_desc_rng_sz_idx (dq_conf d1))) = 5" unfolding e1 e(7) a(8) by (simp add: ex_conf_def)
  have sz: "(2 :: u32) < 5" "(5 :: u32) \<le> 2 ^ 16 + 1" by (simp, simp add: word_le_nat_alt)
  have mem: "qh_dma_alloc ex_qh len h = (Some 0x10000, h)" for len h by (simp add: ex_qh_def)
  obtain q2 where start: "qdma_queue_start ex_qh ex_xc True 1 ex_stopped = (0, q2)"
    using start_memory_mapped [OF id1 l1 d1_def c(1) disjI1 [OF c(2)] c(3) ok size sz, of ex_qh] c by (auto simp: mem ex_setup cong: conj_cong)
  have stop: "qdma_queue_stop ex_qh True 1 ex_online = (fst (qdma_queue_stop ex_qh True 1 ex_online), ex_stopped)"
    by (simp add: ex_stopped_def)
  show ?thesis using restart_keeps_stopped_request [OF k at(1) on stop start] start by blast
qed

end
