(* ===== verification/Spec2Isabelle.thy ===== *)
theory Spec2Isabelle
  imports Qdma_Resource_Props Qdma_Free_Heap Onic_Queue_Pool Lib_Aux Lib_Text Lib_Rdma_End Lib_Rdma_Config
    Qdma_Mbox_Props Qdma_Mbox_Hw Csr_Props Eqdma_Context_Props Soft_Context_Props S80_Context_Props
    Qdma_Descq_Props Qdma_Descq_Faults Qdma_Submit_Faults Qdma_Queue_Context_Props Qdma_Queues_Props
begin

text \<open>
  Verification of the C code of RecoNIC: the user-space library (\<open>src/RecoNIC/lib\<close>), and in the kernel driver
  (\<open>src/RecoNIC/drivers/onic-driver\<close>) the character device and \<open>libqdma\<close>, the code that drives the QDMA
  engine of the card.  Every definition is a translation of the C function, structure or macro of the
  same name; where one C function is split, the parts are named after what they do and stand before it.

  \<^bold>\<open>The program.\<close>  An application uses the library: \<open>reconic.c\<close> opens the device, maps the registers of the
  card, hands out buffers in huge pages or card memory; \<open>rdma_api.c\<close> programs queue pairs of the RDMA core
  and rings their doorbells; \<open>control_api.c\<close> gives commands to the compute blocks; \<open>memory_api.c\<close> moves
  data to and from card memory with \<open>read\<close> and \<open>write\<close> on the character device.  \<open>onic_cdev.c\<close> serves these
  calls: it takes a DMA queue from a pool, pins the user pages, and submits one request to \<open>libqdma\<close>.
  \<open>libqdma_export.c\<close> maps the request and puts it on the work list of a queue; \<open>qdma_descq.c\<close> turns it into
  descriptors in a ring, tells the card the producer index, and hands the request back when the card
  reports completion.  Below, \<open>qdma_access\<close> keeps the hardware: which function owns which queues
  (\<open>qdma_resource_mgmt.c\<close> on \<open>qdma_list.c\<close>), the queue contexts and configuration registers of three
  variants of the engine (\<open>eqdma_soft_access.c\<close>, \<open>qdma_soft_access.c\<close>, \<open>qdma_s80_hard_access.c\<close>), and the
  mailbox (\<open>qdma_mbox_protocol.c\<close>) through which a virtual function asks the physical function to do
  what it may not do itself.

  \<^bold>\<open>Shared vocabulary.\<close>  \<open>Prelude\<close>: names of machine integers, generic lemmas, \<open>named_theorems\<close>.
  \<open>C_Bytes\<close>: little-endian access, bit fields and the layout of structures.  \<open>C_Monad\<close>: statements of the
  library that may stop with an error.  Integers keep their width (\<open>w word\<close>, signed comparisons where C
  has them), so sums and products wrap as in C.  A failing path is a value: a status code as in C, an
  \<open>option\<close>, or \<open>lib_err\<close>.  Registers are behind a bus that logs accesses (\<open>Lib_Control\<close>) and may change
  between any two of them; operating system and kernel services are arguments.

  \<^bold>\<open>Queue resources.\<close>  \<open>Qdma_List\<close>: the pointer list of \<open>qdma_list.c\<close> on a heap, and that it represents
  sequences.  \<open>Qdma_Resource\<close>: every operation of \<open>qdma_resource_mgmt.c\<close> on sequences; \<open>Qdma_Free_Heap\<close>: the
  release of a block on the pointer list, which terminates and refines the operation on sequences.
  \<open>Qdma_Resource_Inv\<close>, \<open>_Reach\<close>, \<open>_System\<close>: the invariant (each queue in one free block or with one function)
  and the states that sequences of calls reach as long as no range wraps around 32 bits; \<open>Qdma_Resource_Props\<close>: for
  those states isolation, conservation and the outcome of an update, and where wrapped sums and counters break the promises.

  \<^bold>\<open>Mailbox.\<close>  \<open>Qdma_Mbox_Msg\<close>, \<open>_Vf\<close>: messages as bytes, what a virtual function composes and reads;
  \<open>_Pf\<close>, \<open>_Handler\<close>: what the physical function does for each request; \<open>_Hw\<close>: the mailbox registers and the
  round trip of a message; \<open>Qdma_Mbox_Props\<close>: requests touch only queues of the sender, ownership is kept
  for any sequence of messages whose ranges do not wrap and broken by one whose range does, every request is answered.  \<open>Qdma_Hw_Access\<close> is the function table
  \<open>struct qdma_hw_access\<close>, an argument of these operations.

  \<^bold>\<open>Register back ends.\<close>  \<open>Qdma_Field\<close>, \<open>Qdma_Indirect\<close>: fields, polling, the indirect context registers.
  \<open>Eqdma_Context\<close>, \<open>Soft_Context\<close>, \<open>S80_Context\<close>: the contexts of each variant.  \<open>Qdma_Context_Card\<close> states the
  documented behaviour of the card's context memory (locale \<open>context_device\<close>, and a concrete card that
  has it); \<open>Qdma_Context_Conf\<close> proves write-then-read, isolation and format once (locales \<open>context_reader\<close>,
  \<open>context_writer\<close>), interpreted by \<open>Eqdma_Context_Props\<close>, \<open>Soft_Context_Props\<close>, \<open>S80_Context_Props\<close>.
  \<open>Qdma_Csr\<close>, \<open>Eqdma_Csr\<close>, \<open>Soft_Csr\<close>, \<open>S80_Csr\<close>: configuration registers, default values, device attributes,
  queue indices; \<open>Csr_Card\<close> (locales \<open>csr_device\<close>, \<open>csr_arrays\<close>) and \<open>Csr_Props\<close> as for contexts.

  \<^bold>\<open>Descriptor queues.\<close>  \<open>Qdma_Descq\<close>, \<open>Qdma_Descq_Run\<close>: \<open>qdma_descq.c\<close>, transmit side; \<open>Qdma_Submit\<close>: the
  requests of \<open>libqdma_export.c\<close>.  \<open>Qdma_Descq_Fill\<close>, \<open>_Pass\<close>: descriptors carry exactly the bytes of the
  requests; \<open>Qdma_Descq_Ring\<close>: which request owns which descriptor; \<open>Qdma_Descq_Card\<close>: the abstract queue,
  a deterministic machine with two events (the driver programs the next descriptor of a request, the card reports the
  oldest one, which hands its request back when it was the last), tied to the driver's producer index and the index
  that the card has reported, and that the driver refines it on every card that reports only indices it was told (locale
  \<open>descq_card\<close>); \<open>Qdma_Descq_System\<close>: a queue in use, and the interpretations for the producer index
  functions of the soft and the hard QDMA with a card completing in order.  \<open>Qdma_Descq_Props\<close> holds the
  properties, \<open>Qdma_Descq_Faults\<close> and \<open>Qdma_Submit_Faults\<close> what goes wrong, \<open>Qdma_Descq_Example\<close> a concrete queue.

  \<^bold>\<open>Programming a queue.\<close>  \<open>Qdma_Csr_Read\<close>: the driver's copy of the configuration arrays (\<open>qdma_regs.c\<close>),
  its order of the counter thresholds, the table of error codes (\<open>qdma_platform.c\<close>).  \<open>Qdma_Queue_Context\<close>:
  composing, clearing, programming and reading the contexts of a queue through the function table
  (\<open>qdma_context.c\<close>, physical functions); \<open>Qdma_Queue_Context_Props\<close>: on an enhanced QDMA a queue that is set up
  and read back is described as configured, and no other queue changes.

  \<^bold>\<open>Life of a queue.\<close>  \<open>Qdma_Queue_Setup\<close>: one queue's configuration, ring memory, vector and first indices
  (\<open>qdma_descq.c\<close>); \<open>Qdma_Queues\<close>: the queues of a device as one array, and adding, configuring, starting,
  stopping and removing them (\<open>libqdma_export.c\<close>, \<open>qdma_device.c\<close>, \<open>qdma_thread.c\<close>).  \<open>Qdma_Queues_Props\<close>: the queues
  of a set agree and a handle leads back to its queue, where clients name the indices; the three outcomes of a start, and
  when a started queue is one from which \<open>Qdma_Descq_Card\<close> begins; what an index chosen by the driver and a restart do wrong.

  \<^bold>\<open>Character device.\<close>  \<open>Onic_Cdev\<close>: \<open>onic_cdev.c\<close>, a transfer as one step, and the request it submits;
  \<open>Onic_Queue_Pool\<close>: concurrent callers as interleaved steps on the pool and its semaphore, and calls of the handler
  whose buffers cannot be mapped.

  \<^bold>\<open>Library.\<close>  \<open>Lib_State\<close>: structures and state.  \<open>Reconic_Reg\<close>: register offsets.  \<open>Lib_Reconic\<close>,
  \<open>Lib_Buffers\<close>, \<open>Lib_Text\<close>: \<open>reconic.c\<close>; \<open>Lib_Control\<close>: \<open>control_api.c\<close>; \<open>Lib_Memory\<close>: \<open>memory_api.c\<close> (with the
  round trip through \<open>Onic_Cdev\<close>); \<open>Lib_Aux\<close>: \<open>auxiliary.c\<close>; \<open>Lib_Rdma\<close>, \<open>Lib_Rdma_Post\<close>: \<open>rdma_api.c\<close>.
  \<open>Lib_Rdma_Config\<close>, \<open>_Props\<close>, \<open>_Wqe\<close>, \<open>_Doorbell\<close>, \<open>_End\<close>: what the card is programmed with, isolation of
  queue pairs, placement of queues, work queue entries, doorbells and time-outs, destruction.

  \<^bold>\<open>Bounds.\<close>  A busy wait of the library that the source does not bound takes fuel; running out is the
  value of a wait that hangs, and the theorems say when it does not happen.  Register polls of the back
  ends are bounded by the source (\<open>QDMA_REG_POLL_DFLT_TIMEOUT_US\<close> over the interval, 50000 polls).  The
  work loops of the descriptor queues are partial functions, where \<open>None\<close> is a loop that never ends;
  \<open>queue_calls_return\<close> shows that it does not occur for well-formed requests on a started queue.  Rings
  have 2 to 65536 slots and requests less than \<open>2 ^ 31\<close> bytes.  A device handle is never null.

  \<^bold>\<open>Not modelled.\<close>  The error tables, register dumps and version detection of the back ends are data and
  text over registers read as above.  The receive path (\<open>qdma_st_c2h.c\<close>) manages kernel pages and is an
  argument of request submission.  Interrupt registration, kernel threads, SR-IOV, PCI probing, debugfs
  and the network driver (\<open>onic_main.c\<close>) are calls into the kernel around little logic of their own.
  Locks bracket the functions that take them, so each such function is one step.  The examples are
  command-line programs over the library.
\<close>

end
